(* ===== verification/Prelude.thy ===== *)
theory Prelude
  imports Main "HOL-Library.AList"
begin

text \<open>
  What the components share: the values of JavaScript that the program computes with
  (\<open>jsval\<close>), truthiness, \<open>??\<close> and \<open>||\<close>, property lookup and spreading of plain
  objects, the copy \<open>JSON.parse(JSON.stringify(v))\<close>, the insertion-ordered \<open>Map\<close>,
  and the string methods of the language.

  Conventions used by every theory:
  \<^item> \<open>===\<close> is HOL equality. On primitives the two agree; the program compares only
    primitives (identifiers, states, tokens, times) with it.
  \<^item> Times and sizes are integers, so a number is \<open>JNum\<close> of an \<open>int\<close>; a finite
    number that is not an integer is \<open>JFrac\<close> of its printed form. \<open>NaN\<close> and the
    infinities are not values of \<open>jsval\<close>.
  \<^item> \<open>Map\<close> and \<open>Object\<close> keep their entries in insertion order, as association lists.
  \<^item> Characters are the \<open>char\<close> of HOL (code units below 256).
\<close>

section \<open>Collections of facts\<close>

named_theorems js_defs \<open>definitions of the JavaScript operators\<close>
named_theorems key_eval \<open>evaluated membership of the program's field names\<close>

section \<open>Values\<close>

datatype jsval =
    JUndef
  | JNull
  | JBool bool
  | JNum int
  | JFrac string
  | JStr string
  | JArr "jsval list"
  | JObj "(string \<times> jsval) list"

primrec truthy :: "jsval \<Rightarrow> bool" where
  "truthy JUndef = False"
| "truthy JNull = False"
| "truthy (JBool b) = b"
| "truthy (JNum n) = (n \<noteq> 0)"
| "truthy (JFrac x) = True"
| "truthy (JStr s) = (s \<noteq> [])"
| "truthy (JArr xs) = True"
| "truthy (JObj kvs) = True"

text \<open>\<open>v === null || v === undefined\<close>\<close>

primrec nullish :: "jsval \<Rightarrow> bool" where
  "nullish JUndef = True"
| "nullish JNull = True"
| "nullish (JBool b) = False"
| "nullish (JNum n) = False"
| "nullish (JFrac x) = False"
| "nullish (JStr s) = False"
| "nullish (JArr xs) = False"
| "nullish (JObj kvs) = False"

text \<open>\<open>a ?? b\<close> and \<open>a || b\<close>\<close>

definition coalesce :: "jsval \<Rightarrow> jsval \<Rightarrow> jsval" where
  "coalesce a b = (if nullish a then b else a)"

definition js_or :: "jsval \<Rightarrow> jsval \<Rightarrow> jsval" where
  "js_or a b = (if truthy a then a else b)"

lemma nullish_iff: "nullish v \<longleftrightarrow> v = JUndef \<or> v = JNull"
  by (cases v) auto

lemma truthy_not_nullish [dest]: "truthy v \<Longrightarrow> \<not> nullish v"
  by (cases v) auto

lemma coalesce_simps [simp]:
  "coalesce JUndef b = b" "coalesce JNull b = b" "coalesce (JStr s) b = JStr s"
  "coalesce (JNum n) b = JNum n" "coalesce (JBool c) b = JBool c"
  "coalesce (JArr xs) b = JArr xs" "coalesce (JObj kvs) b = JObj kvs"
  by (simp_all add: coalesce_def)

section \<open>Maps\<close>

text \<open>
  \<open>new Map()\<close>: \<open>set\<close> overwrites in place or appends, so iteration follows the first
  insertion of each key; \<open>AList.update\<close> does exactly this.
\<close>

type_synonym ('k, 'v) jsmap = "('k \<times> 'v) list"

abbreviation jm_get :: "('k, 'v) jsmap \<Rightarrow> 'k \<Rightarrow> 'v option" where
  "jm_get m k \<equiv> map_of m k"

abbreviation jm_set :: "'k \<Rightarrow> 'v \<Rightarrow> ('k, 'v) jsmap \<Rightarrow> ('k, 'v) jsmap" where
  "jm_set k v m \<equiv> AList.update k v m"

abbreviation jm_delete :: "'k \<Rightarrow> ('k, 'v) jsmap \<Rightarrow> ('k, 'v) jsmap" where
  "jm_delete k m \<equiv> AList.delete k m"

abbreviation jm_values :: "('k, 'v) jsmap \<Rightarrow> 'v list" where
  "jm_values m \<equiv> map snd m"

abbreviation jm_keys :: "('k, 'v) jsmap \<Rightarrow> 'k list" where
  "jm_keys m \<equiv> map fst m"

abbreviation jm_has :: "('k, 'v) jsmap \<Rightarrow> 'k \<Rightarrow> bool" where
  "jm_has m k \<equiv> map_of m k \<noteq> None"

lemma jm_get_set [simp]: "jm_get (jm_set k v m) k' = (if k' = k then Some v else jm_get m k')"
  by (simp add: update_conv')

lemma jm_get_delete [simp]: "jm_get (jm_delete k m) k' = (if k' = k then None else jm_get m k')"
  by (simp add: delete_conv')

lemma jm_has_iff: "jm_has m k \<longleftrightarrow> k \<in> set (jm_keys m)"
  by (induction m) auto

lemma jm_get_values: "jm_get m k = Some v \<Longrightarrow> v \<in> set (jm_values m)"
  by (force dest: map_of_SomeD)

lemma jm_values_get:
  "distinct (jm_keys m) \<Longrightarrow> v \<in> set (jm_values m) \<Longrightarrow> \<exists>k. jm_get m k = Some v"
  by (auto intro: map_of_is_SomeI)

lemma distinct_jm_set [simp]: "distinct (jm_keys m) \<Longrightarrow> distinct (jm_keys (jm_set k v m))"
  by (simp add: distinct_update)

lemma distinct_jm_delete [simp]: "distinct (jm_keys m) \<Longrightarrow> distinct (jm_keys (jm_delete k m))"
  by (simp add: distinct_delete)

lemma set_jm_values_set: "set (jm_values (jm_set k v m)) \<subseteq> insert v (set (jm_values m))"
  by (induction m) auto

text \<open>A new key is appended: the values are the old ones and the new one, in this order.\<close>

lemma jm_set_fresh: "jm_get m k = None \<Longrightarrow> jm_set k v m = m @ [(k, v)]"
  by (induction m) (auto split: if_splits)

text \<open>Overwriting an entry exchanges one value: a sum over the values changes by the difference.\<close>

lemma jm_sum_set:
  fixes f :: "'v \<Rightarrow> int"
  assumes "distinct (jm_keys m)"
  shows "sum_list (map f (jm_values (jm_set k v m))) =
    sum_list (map f (jm_values m)) - (case jm_get m k of None \<Rightarrow> 0 | Some w \<Rightarrow> f w) + f v"
  using assms by (induction m) auto

lemma jm_filter_length:
  "int (length (filter P xs)) = sum_list (map (\<lambda>x. if P x then 1 else 0) xs)"
  by (induction xs) auto

text \<open>Sums over the values depend on the entries only, not on their order.\<close>

lemma jm_sum_keys:
  "distinct (jm_keys m) \<Longrightarrow>
     sum_list (map f (jm_values m)) = (\<Sum>k \<in> set (jm_keys m). f (the (jm_get m k)))"
proof (induction m)
  case (Cons kv m)
  obtain k v where kv: "kv = (k, v)" by (cases kv)
  have "(\<Sum>j \<in> set (jm_keys m). f (the (jm_get ((k, v) # m) j))) =
      (\<Sum>j \<in> set (jm_keys m). f (the (jm_get m j)))"
    using Cons.prems kv by (intro sum.cong) auto
  with Cons kv show ?case by simp
qed simp

lemma jm_sum_mono:
  fixes f :: "'v \<Rightarrow> int"
  assumes "distinct (jm_keys m)" "distinct (jm_keys m')"
    and le: "\<And>k. rel_option (\<lambda>v' v. f v' \<le> f v) (jm_get m' k) (jm_get m k)"
  shows "sum_list (map f (jm_values m')) \<le> sum_list (map f (jm_values m))"
proof -
  have "jm_get m' k = None \<longleftrightarrow> jm_get m k = None" for k
    using le [of k] by (cases "jm_get m' k"; cases "jm_get m k") simp_all
  then have "jm_has m' k \<longleftrightarrow> jm_has m k" for k by simp
  then have keys: "set (jm_keys m') = set (jm_keys m)"
    unfolding jm_has_iff by blast
  have "f (the (jm_get m' k)) \<le> f (the (jm_get m k))" if "k \<in> set (jm_keys m)" for k
    using le [of k] that [folded jm_has_iff] by (auto simp: option_rel_Some2)
  then show ?thesis
    unfolding jm_sum_keys [OF assms(1)] jm_sum_keys [OF assms(2)] keys by (rule sum_mono)
qed

text \<open>Counting the entries through the keys or through the values.\<close>

lemma jm_filter_keys:
  "distinct (jm_keys m) \<Longrightarrow>
     length (filter (\<lambda>k. \<exists>v. jm_get m k = Some v \<and> P v) (jm_keys m)) = length (filter P (jm_values m))"
proof (induction m)
  case (Cons kv m)
  obtain k v where kv: "kv = (k, v)" by (cases kv)
  have "filter (\<lambda>j. \<exists>w. jm_get ((k, v) # m) j = Some w \<and> P w) (jm_keys m) =
      filter (\<lambda>j. \<exists>w. jm_get m j = Some w \<and> P w) (jm_keys m)"
    using Cons.prems kv by (intro filter_cong) auto
  with Cons kv show ?case by simp
qed simp

end
