(* ===== verification/Protocol.thy ===== *)
theory Protocol
  imports Prelude
begin

text \<open>
  \<open>packages/protocol/src/index.mjs\<close>: the vocabulary of the control plane and its two pure
  functions. Each frozen enumeration is a datatype with the string the code uses for it
  (\<open>..._str\<close>); \<open>canActorPerform\<close> is the permission check every host and service
  operation goes through, and \<open>redactInviteStatus\<close> what a stranger holding an invite
  link may learn.
\<close>

section \<open>Enumerations\<close>

datatype actor = HOST | FRIEND | SERVICE | SERVICE_ADMIN

primrec actor_str :: "actor \<Rightarrow> string" where
  "actor_str HOST = ''host''"
| "actor_str FRIEND = ''friend''"
| "actor_str SERVICE = ''service''"
| "actor_str SERVICE_ADMIN = ''service_admin''"

datatype action =
    CREATE_ROOM | CREATE_INVITE | REVOKE_INVITE | READ_SAFE_INVITE | READ_APPROVAL_QUEUE
  | CREATE_JOIN_REQUEST | APPROVE_JOIN | DENY_JOIN | BLOCK_JOIN | ISSUE_SESSION
  | READ_RELAY_METRICS | BREAK_GLASS_READ

primrec action_str :: "action \<Rightarrow> string" where
  "action_str CREATE_ROOM = ''create_room''"
| "action_str CREATE_INVITE = ''create_invite''"
| "action_str REVOKE_INVITE = ''revoke_invite''"
| "action_str READ_SAFE_INVITE = ''read_safe_invite''"
| "action_str READ_APPROVAL_QUEUE = ''read_approval_queue''"
| "action_str CREATE_JOIN_REQUEST = ''create_join_request''"
| "action_str APPROVE_JOIN = ''approve_join''"
| "action_str DENY_JOIN = ''deny_join''"
| "action_str BLOCK_JOIN = ''block_join''"
| "action_str ISSUE_SESSION = ''issue_session''"
| "action_str READ_RELAY_METRICS = ''read_relay_metrics''"
| "action_str BREAK_GLASS_READ = ''break_glass_read''"

datatype room_state = Room_CREATED | Room_OPEN | Room_CLOSED | Room_HOST_OFFLINE

primrec room_state_str :: "room_state \<Rightarrow> string" where
  "room_state_str Room_CREATED = ''created''"
| "room_state_str Room_OPEN = ''open''"
| "room_state_str Room_CLOSED = ''closed''"
| "room_state_str Room_HOST_OFFLINE = ''host_offline''"

datatype invite_state = Invite_ACTIVE | Invite_EXPIRED | Invite_REVOKED | Invite_UNAVAILABLE

primrec invite_state_str :: "invite_state \<Rightarrow> string" where
  "invite_state_str Invite_ACTIVE = ''active''"
| "invite_state_str Invite_EXPIRED = ''expired''"
| "invite_state_str Invite_REVOKED = ''revoked''"
| "invite_state_str Invite_UNAVAILABLE = ''unavailable''"

datatype approval_state =
    Approval_PENDING | Approval_APPROVED | Approval_DENIED | Approval_BLOCKED | Approval_EXPIRED
  | Approval_HOST_UNAVAILABLE | Approval_ALREADY_ALLOWED | Approval_IDENTITY_CHANGED

primrec approval_state_str :: "approval_state \<Rightarrow> string" where
  "approval_state_str Approval_PENDING = ''pending''"
| "approval_state_str Approval_APPROVED = ''approved''"
| "approval_state_str Approval_DENIED = ''denied''"
| "approval_state_str Approval_BLOCKED = ''blocked''"
| "approval_state_str Approval_EXPIRED = ''expired''"
| "approval_state_str Approval_HOST_UNAVAILABLE = ''host_unavailable''"
| "approval_state_str Approval_ALREADY_ALLOWED = ''already_allowed''"
| "approval_state_str Approval_IDENTITY_CHANGED = ''identity_changed''"

datatype session_state = Session_ISSUED | Session_EXPIRED | Session_REVOKED

primrec session_state_str :: "session_state \<Rightarrow> string" where
  "session_state_str Session_ISSUED = ''issued''"
| "session_state_str Session_EXPIRED = ''expired''"
| "session_state_str Session_REVOKED = ''revoked''"

datatype error_state =
    Err_INVITE_UNAVAILABLE | Err_ROOM_CLOSED | Err_APPROVAL_REQUIRED | Err_SESSION_UNAVAILABLE
  | Err_RATE_LIMITED

primrec error_state_str :: "error_state \<Rightarrow> string" where
  "error_state_str Err_INVITE_UNAVAILABLE = ''invite_unavailable''"
| "error_state_str Err_ROOM_CLOSED = ''room_closed''"
| "error_state_str Err_APPROVAL_REQUIRED = ''approval_required''"
| "error_state_str Err_SESSION_UNAVAILABLE = ''session_unavailable''"
| "error_state_str Err_RATE_LIMITED = ''rate_limited''"

datatype risk_label = HIGH_CONFIDENCE | CAUTION | LIKELY_FAIL

primrec risk_label_str :: "risk_label \<Rightarrow> string" where
  "risk_label_str HIGH_CONFIDENCE = ''high_confidence''"
| "risk_label_str CAUTION = ''caution''"
| "risk_label_str LIKELY_FAIL = ''likely_fail''"

lemma enum_strings_inj:
  "inj actor_str" "inj action_str" "inj room_state_str" "inj invite_state_str"
  "inj approval_state_str" "inj session_state_str" "inj error_state_str" "inj risk_label_str"
proof -
  show "inj actor_str" by (rule injI, case_tac x; case_tac y; simp)
  show "inj action_str" by (rule injI, case_tac x; case_tac y; simp)
  show "inj room_state_str" by (rule injI, case_tac x; case_tac y; simp)
  show "inj invite_state_str" by (rule injI, case_tac x; case_tac y; simp)
  show "inj approval_state_str" by (rule injI, case_tac x; case_tac y; simp)
  show "inj session_state_str" by (rule injI, case_tac x; case_tac y; simp)
  show "inj error_state_str" by (rule injI, case_tac x; case_tac y; simp)
  show "inj risk_label_str" by (rule injI, case_tac x; case_tac y; simp)
qed

lemmas enum_str_eq [simp] = enum_strings_inj [THEN inj_eq]

text \<open>
  Equations between these strings are decided by injectivity; the literals are unfolded only
  where a proof asks for them (\<open>enum_strs\<close>).
\<close>

lemmas enum_strs = actor_str.simps action_str.simps room_state_str.simps invite_state_str.simps
  approval_state_str.simps session_state_str.simps error_state_str.simps risk_label_str.simps

declare enum_strs [simp del]

section \<open>Permissions\<close>

definition Actors :: "jsval list" where
  "Actors = map (JStr \<circ> actor_str) [HOST, FRIEND, SERVICE, SERVICE_ADMIN]"

definition Actions :: "jsval list" where
  "Actions = map (JStr \<circ> action_str)
     [CREATE_ROOM, CREATE_INVITE, REVOKE_INVITE, READ_SAFE_INVITE, READ_APPROVAL_QUEUE,
      CREATE_JOIN_REQUEST, APPROVE_JOIN, DENY_JOIN, BLOCK_JOIN, ISSUE_SESSION,
      READ_RELAY_METRICS, BREAK_GLASS_READ]"

definition ownRoomHostActions :: "jsval list" where
  "ownRoomHostActions = map (JStr \<circ> action_str)
     [CREATE_ROOM, CREATE_INVITE, REVOKE_INVITE, READ_SAFE_INVITE, READ_APPROVAL_QUEUE,
      APPROVE_JOIN, DENY_JOIN, BLOCK_JOIN, READ_RELAY_METRICS]"

definition friendActions :: "jsval list" where
  "friendActions = map (JStr \<circ> action_str) [READ_SAFE_INVITE, CREATE_JOIN_REQUEST]"

definition serviceActions :: "jsval list" where
  "serviceActions = map (JStr \<circ> action_str) [ISSUE_SESSION]"

definition serviceAdminActions :: "jsval list" where
  "serviceAdminActions = map (JStr \<circ> action_str) [BREAK_GLASS_READ]"

definition RiskLabels :: "jsval list" where
  "RiskLabels = map (JStr \<circ> risk_label_str) [HIGH_CONFIDENCE, CAUTION, LIKELY_FAIL]"

definition isKnownRiskLabel :: "jsval \<Rightarrow> bool" where
  "isKnownRiskLabel label \<longleftrightarrow> label \<in> set RiskLabels"

record perm_context =
  ctx_actorId :: jsval
  ctx_roomHostId :: jsval
  ctx_validInvite :: jsval
  ctx_authorizedApproval :: jsval
  ctx_breakGlass :: jsval

definition empty_context :: perm_context where
  "empty_context = \<lparr>ctx_actorId = JUndef, ctx_roomHostId = JUndef, ctx_validInvite = JUndef,
     ctx_authorizedApproval = JUndef, ctx_breakGlass = JUndef\<rparr>"

definition canActorPerform :: "jsval \<Rightarrow> jsval \<Rightarrow> perm_context \<Rightarrow> bool" where
  "canActorPerform actor action context =
    (if actor \<notin> set Actors then False
     else if action \<notin> set Actions then False
     else if actor = JStr (actor_str HOST) then
       (if action \<notin> set ownRoomHostActions then False
        else truthy (ctx_roomHostId context) \<and> truthy (ctx_actorId context) \<and>
             ctx_roomHostId context = ctx_actorId context)
     else if actor = JStr (actor_str FRIEND) then
       action \<in> set friendActions \<and> truthy (ctx_validInvite context)
     else if actor = JStr (actor_str SERVICE) then
       action \<in> set serviceActions \<and> truthy (ctx_authorizedApproval context)
     else if actor = JStr (actor_str SERVICE_ADMIN) then
       action \<in> set serviceAdminActions \<and> truthy (ctx_breakGlass context)
     else False)"

text \<open>The context a host operation passes: \<open>{ actorId, roomHostId: room.hostId }\<close>.\<close>

definition host_context :: "jsval \<Rightarrow> jsval \<Rightarrow> perm_context" where
  "host_context actorId roomHostId =
     empty_context\<lparr>ctx_actorId := actorId, ctx_roomHostId := roomHostId\<rparr>"

text \<open>
  The policy the enumerations stand for: which role may perform which action, and the
  evidence it needs. \<open>canActorPerform\<close> decides exactly this relation and refuses every
  string that names no role or no action.
\<close>

fun role_may :: "actor \<Rightarrow> action \<Rightarrow> bool" where
  "role_may HOST a = (a \<notin> {CREATE_JOIN_REQUEST, ISSUE_SESSION, BREAK_GLASS_READ})"
| "role_may FRIEND a = (a \<in> {READ_SAFE_INVITE, CREATE_JOIN_REQUEST})"
| "role_may SERVICE a = (a = ISSUE_SESSION)"
| "role_may SERVICE_ADMIN a = (a = BREAK_GLASS_READ)"

fun role_evidence :: "actor \<Rightarrow> perm_context \<Rightarrow> bool" where
  "role_evidence HOST c =
     (truthy (ctx_roomHostId c) \<and> ctx_roomHostId c = ctx_actorId c)"
| "role_evidence FRIEND c = truthy (ctx_validInvite c)"
| "role_evidence SERVICE c = truthy (ctx_authorizedApproval c)"
| "role_evidence SERVICE_ADMIN c = truthy (ctx_breakGlass c)"

lemma canActorPerform_named:
  "canActorPerform (JStr (actor_str r)) (JStr (action_str a)) c \<longleftrightarrow>
     role_may r a \<and> role_evidence r c"
  by (cases r; cases a)
    (auto simp: canActorPerform_def Actors_def Actions_def ownRoomHostActions_def
      friendActions_def serviceActions_def serviceAdminActions_def)

lemma in_Actors: "x \<in> set Actors \<longleftrightarrow> (\<exists>r. x = JStr (actor_str r))"
proof
  assume "x \<in> set Actors"
  then show "\<exists>r. x = JStr (actor_str r)" by (auto simp: Actors_def)
next
  assume "\<exists>r. x = JStr (actor_str r)"
  then obtain r where "x = JStr (actor_str r)" ..
  then show "x \<in> set Actors" by (cases r) (simp_all add: Actors_def)
qed

lemma in_Actions: "x \<in> set Actions \<longleftrightarrow> (\<exists>a. x = JStr (action_str a))"
proof
  assume "x \<in> set Actions"
  then show "\<exists>a. x = JStr (action_str a)" by (auto simp: Actions_def)
next
  assume "\<exists>a. x = JStr (action_str a)"
  then obtain a where "x = JStr (action_str a)" ..
  then show "x \<in> set Actions" by (cases a) (simp_all add: Actions_def)
qed

lemma canActorPerform_known:
  "canActorPerform x y c \<Longrightarrow> x \<in> set Actors \<and> y \<in> set Actions"
  by (simp add: canActorPerform_def split: if_splits)

text \<open>The instances the services use.\<close>

lemma host_may_iff:
  "canActorPerform (JStr (actor_str HOST)) (JStr (action_str a)) (host_context actor host) \<longleftrightarrow>
     role_may HOST a \<and> truthy host \<and> host = actor"
  by (simp only: canActorPerform_named) (simp add: host_context_def empty_context_def)

lemma host_may_unknown:
  "y \<notin> set Actions \<Longrightarrow> \<not> canActorPerform x y c"
  by (simp add: canActorPerform_def)

text \<open>
  The permission check decides the role policy: a call is allowed exactly when the two
  strings name a role and an action, the role may perform the action at all, and the context
  holds the evidence the role needs (a host acts on its own room under a non-empty id, a
  friend holds a valid invite, the service holds an authorised approval, an administrator has
  broken the glass). Every other string is refused.
\<close>

theorem canActorPerform_policy:
  "canActorPerform x y c \<longleftrightarrow>
     (\<exists>r a. x = JStr (actor_str r) \<and> y = JStr (action_str a) \<and> role_may r a \<and> role_evidence r c)"
proof
  assume h: "canActorPerform x y c"
  with canActorPerform_known obtain r a where "x = JStr (actor_str r)" "y = JStr (action_str a)"
    by (meson in_Actors in_Actions)
  with h show "\<exists>r a. x = JStr (actor_str r) \<and> y = JStr (action_str a) \<and> role_may r a \<and>
      role_evidence r c"
    using canActorPerform_named by blast
next
  assume "\<exists>r a. x = JStr (actor_str r) \<and> y = JStr (action_str a) \<and> role_may r a \<and>
      role_evidence r c"
  then show "canActorPerform x y c"
    using canActorPerform_named by blast
qed

section \<open>What an invite link shows\<close>

record invite_status =
  st_state :: jsval
  st_roomAlias :: jsval
  st_minecraftVersion :: jsval
  st_packProfileName :: jsval
  st_trustCopy :: jsval

datatype safe_invite =
    SafeUnavailable error_state
  | SafeInvite (safe_roomAlias: jsval) (safe_minecraftVersion: jsval)
      (safe_packProfileName: jsval) (safe_trustCopy: jsval)

definition SAFE_INVITE_STATUS :: safe_invite where
  "SAFE_INVITE_STATUS = SafeUnavailable Err_INVITE_UNAVAILABLE"

text \<open>\<open>None\<close> is the \<open>null\<close> the callers pass for an invite they do not want to describe.\<close>

definition redactInviteStatus :: "invite_status option \<Rightarrow> safe_invite" where
  "redactInviteStatus status =
    (case status of
       None \<Rightarrow> SAFE_INVITE_STATUS
     | Some s \<Rightarrow>
        if st_state s \<noteq> JStr (invite_state_str Invite_ACTIVE) then SAFE_INVITE_STATUS
        else SafeInvite (st_roomAlias s) (st_minecraftVersion s) (st_packProfileName s)
               (st_trustCopy s))"

text \<open>Two inactive invites look the same from outside, whatever rooms they belong to.\<close>

lemma redactInviteStatus_hides:
  "st_state s \<noteq> JStr ''active'' \<Longrightarrow> redactInviteStatus (Some s) = redactInviteStatus None"
  by (simp add: redactInviteStatus_def enum_strs)

end
