(* ===== verification/Simulation.thy ===== *)
theory Simulation
  imports Protocol
begin

text \<open>
  \<open>services/control-plane/src/domain/simulation.mjs\<close>: the control plane as one state with
  five maps. The closure variables of \<open>createControlPlaneSimulation\<close> are the fields of
  \<open>sim\<close>; every operation returns its result and the next state.

  \<^item> \<open>sha256\<close> stands for \<open>createHash("sha256")\<close> of \<open>node:crypto\<close>: \<open>hashInviteToken\<close>.
  \<^item> What \<open>randomUUID\<close> and \<open>createInviteToken\<close> (\<open>randomBytes\<close>) draw is an argument of
    the operation that draws it.
  \<^item> The clock object is the field \<open>sim_now\<close>; \<open>advance\<close> moves it.
  \<^item> A token is \<open>Some t\<close> or, for \<open>undefined\<close>, \<open>None\<close>.
\<close>

section \<open>State\<close>

record sim_room =
  room_id :: jsval
  room_hostId :: jsval
  room_alias :: jsval
  room_minecraftVersion :: jsval
  room_packProfileName :: jsval
  room_st :: room_state
  room_createdAt :: int
  room_hostLastSeenAt :: int

record sim_invite =
  inv_id :: jsval
  inv_roomId :: jsval
  inv_tokenHash :: string
  inv_st :: invite_state
  inv_createdAt :: int
  inv_expiresAt :: int

record sim_approval =
  apr_id :: jsval
  apr_roomId :: jsval
  apr_inviteId :: jsval
  apr_friendId :: jsval
  apr_minecraftUuid :: jsval
  apr_displayName :: jsval
  apr_st :: approval_state
  apr_createdAt :: int
  apr_sessionIssued :: bool

record sim_session =
  ses_id :: jsval
  ses_roomId :: jsval
  ses_inviteId :: jsval
  ses_requestId :: jsval
  ses_minecraftUuid :: jsval
  ses_st :: session_state
  ses_issuedAt :: int
  ses_expiresAt :: int

record sim_config =
  cfg_inviteTtlMs :: int
  cfg_presenceTtlMs :: int
  cfg_sessionTtlMs :: int

record sim =
  sim_now :: int
  sim_rooms :: "(jsval, sim_room) jsmap"
  sim_invites :: "(jsval, sim_invite) jsmap"
  sim_approvals :: "(jsval, sim_approval) jsmap"
  sim_sessions :: "(jsval, sim_session) jsmap"
  sim_rawTokens :: "(string, jsval) jsmap"

definition default_sim_config :: sim_config where
  "default_sim_config = \<lparr>cfg_inviteTtlMs = 24 * 60 * 60 * 1000,
     cfg_presenceTtlMs = 90 * 1000, cfg_sessionTtlMs = 15 * 60 * 1000\<rparr>"

definition createControlPlaneSimulation :: "int \<Rightarrow> sim" where
  "createControlPlaneSimulation initialNow = \<lparr>sim_now = initialNow, sim_rooms = [],
     sim_invites = [], sim_approvals = [], sim_sessions = [], sim_rawTokens = []\<rparr>"

text \<open>\<open>createMemoryClock().advance(ms)\<close>\<close>

definition sim_advance :: "int \<Rightarrow> sim \<Rightarrow> sim" where
  "sim_advance ms s = s\<lparr>sim_now := sim_now s + ms\<rparr>"

text \<open>\<open>host_can action actorId room\<close> is the check the host operations make.\<close>

abbreviation host_can :: "jsval \<Rightarrow> jsval \<Rightarrow> sim_room \<Rightarrow> bool" where
  "host_can act actorId room \<equiv>
     canActorPerform (JStr (actor_str HOST)) act (host_context actorId (room_hostId room))"

section \<open>Rooms\<close>

definition sim_createRoom ::
  "string \<Rightarrow> jsval \<Rightarrow> jsval \<Rightarrow> jsval \<Rightarrow> jsval \<Rightarrow> sim \<Rightarrow> sim_room \<times> sim" where
  "sim_createRoom uuid hostId alias minecraftVersion packProfileName s =
    (let roomId = JStr (''room_'' @ uuid);
         now = sim_now s;
         room = \<lparr>room_id = roomId, room_hostId = hostId, room_alias = alias,
           room_minecraftVersion = minecraftVersion, room_packProfileName = packProfileName,
           room_st = Room_OPEN, room_createdAt = now, room_hostLastSeenAt = now\<rparr>
     in (room, s\<lparr>sim_rooms := jm_set roomId room (sim_rooms s)\<rparr>))"

definition sim_heartbeatHost :: "jsval \<Rightarrow> jsval \<Rightarrow> sim \<Rightarrow> bool \<times> sim" where
  "sim_heartbeatHost actorId roomId s =
    (case jm_get (sim_rooms s) roomId of
       None \<Rightarrow> (False, s)
     | Some room \<Rightarrow>
        if room_hostId room \<noteq> actorId then (False, s)
        else (True, s\<lparr>sim_rooms := jm_set roomId
                (room\<lparr>room_hostLastSeenAt := sim_now s, room_st := Room_OPEN\<rparr>)
                (sim_rooms s)\<rparr>))"

definition isHostOnline :: "sim_config \<Rightarrow> int \<Rightarrow> sim_room \<Rightarrow> bool" where
  "isHostOnline c now room \<longleftrightarrow>
     room_st room = Room_OPEN \<and> now - room_hostLastSeenAt room \<le> cfg_presenceTtlMs c"

section \<open>Invites\<close>

record created_invite =
  ci_inviteId :: jsval
  ci_handle :: jsval
  ci_token :: string
  ci_expiresAt :: int

definition createInviteRecord ::
  "(string \<Rightarrow> string) \<Rightarrow> sim_config \<Rightarrow> string \<Rightarrow> string \<Rightarrow> jsval \<Rightarrow> jsval \<Rightarrow> string \<Rightarrow> sim \<Rightarrow>
     (error_state + created_invite) \<times> sim" where
  "createInviteRecord sha256 c uuid handleUuid actorId roomId token s =
    (case jm_get (sim_rooms s) roomId of
       None \<Rightarrow> (Inl Err_SESSION_UNAVAILABLE, s)
     | Some room \<Rightarrow>
        if \<not> host_can (JStr (action_str CREATE_INVITE)) actorId room
        then (Inl Err_SESSION_UNAVAILABLE, s)
        else
          let inviteId = JStr (''invite_'' @ uuid);
              tokenHash = sha256 token;
              invite = \<lparr>inv_id = inviteId, inv_roomId = roomId, inv_tokenHash = tokenHash,
                inv_st = Invite_ACTIVE, inv_createdAt = sim_now s,
                inv_expiresAt = sim_now s + cfg_inviteTtlMs c\<rparr>
          in (Inr \<lparr>ci_inviteId = inviteId, ci_handle = JStr (''invite_handle_'' @ handleUuid),
                ci_token = token, ci_expiresAt = inv_expiresAt invite\<rparr>,
              s\<lparr>sim_invites := jm_set inviteId invite (sim_invites s),
                sim_rawTokens := jm_set tokenHash inviteId (sim_rawTokens s)\<rparr>))"

text \<open>\<open>createInvite\<close> draws the token (\<open>createInviteToken()\<close>).\<close>

definition sim_createInvite ::
  "(string \<Rightarrow> string) \<Rightarrow> sim_config \<Rightarrow> string \<Rightarrow> string \<Rightarrow> string \<Rightarrow> jsval \<Rightarrow> jsval \<Rightarrow> sim \<Rightarrow>
     (error_state + created_invite) \<times> sim" where
  "sim_createInvite sha256 c drawnToken uuid handleUuid actorId roomId s =
     createInviteRecord sha256 c uuid handleUuid actorId roomId drawnToken s"

text \<open>\<open>None\<close> is the \<open>Error\<close> thrown outside a test environment.\<close>

definition sim_createInviteForTest ::
  "string \<Rightarrow> (string \<Rightarrow> string) \<Rightarrow> sim_config \<Rightarrow> string \<Rightarrow> string \<Rightarrow> jsval \<Rightarrow> jsval \<Rightarrow> string \<Rightarrow> sim \<Rightarrow>
     ((error_state + created_invite) \<times> sim) option" where
  "sim_createInviteForTest node_env sha256 c uuid handleUuid actorId roomId token s =
    (if node_env \<noteq> ''test'' then None
     else Some (createInviteRecord sha256 c uuid handleUuid actorId roomId token s))"

definition sim_revokeInvite :: "jsval \<Rightarrow> jsval \<Rightarrow> sim \<Rightarrow> (error_state + unit) \<times> sim" where
  "sim_revokeInvite actorId inviteId s =
    (case jm_get (sim_invites s) inviteId of
       None \<Rightarrow> (Inl Err_INVITE_UNAVAILABLE, s)
     | Some invite \<Rightarrow>
        (case jm_get (sim_rooms s) (inv_roomId invite) of
           None \<Rightarrow> (Inl Err_INVITE_UNAVAILABLE, s)
         | Some room \<Rightarrow>
            if \<not> host_can (JStr (action_str REVOKE_INVITE)) actorId room
            then (Inl Err_INVITE_UNAVAILABLE, s)
            else (Inr (), s\<lparr>sim_invites :=
                    jm_set inviteId (invite\<lparr>inv_st := Invite_REVOKED\<rparr>) (sim_invites s)\<rparr>)))"

definition resolveInviteByToken ::
  "(string \<Rightarrow> string) \<Rightarrow> string option \<Rightarrow> sim \<Rightarrow> sim_invite option" where
  "resolveInviteByToken sha256 token s =
    (case token of
       None \<Rightarrow> None
     | Some t \<Rightarrow>
        if t = [] then None
        else (case jm_get (sim_rawTokens s) (sha256 t) of
                None \<Rightarrow> None
              | Some inviteId \<Rightarrow>
                 if truthy inviteId then jm_get (sim_invites s) inviteId else None))"

definition isInviteActive :: "int \<Rightarrow> sim_invite option \<Rightarrow> bool" where
  "isInviteActive now invite =
    (case invite of
       None \<Rightarrow> False
     | Some i \<Rightarrow> inv_st i = Invite_ACTIVE \<and> inv_expiresAt i > now)"

definition sim_readSafeInviteStatus ::
  "(string \<Rightarrow> string) \<Rightarrow> string option \<Rightarrow> sim \<Rightarrow> safe_invite" where
  "sim_readSafeInviteStatus sha256 token s =
    (let invite = resolveInviteByToken sha256 token s in
     if \<not> isInviteActive (sim_now s) invite then redactInviteStatus None
     else (case jm_get (sim_rooms s) (inv_roomId (the invite)) of
             None \<Rightarrow> redactInviteStatus None
           | Some room \<Rightarrow> redactInviteStatus (Some
               \<lparr>st_state = JStr (invite_state_str Invite_ACTIVE), st_roomAlias = room_alias room,
                st_minecraftVersion = room_minecraftVersion room,
                st_packProfileName = room_packProfileName room,
                st_trustCopy = JStr ''No Microsoft or Minecraft password is required.''\<rparr>)))"

section \<open>Join requests\<close>

definition sim_createJoinRequest ::
  "(string \<Rightarrow> string) \<Rightarrow> sim_config \<Rightarrow> string \<Rightarrow> string option \<Rightarrow> jsval \<Rightarrow> jsval \<Rightarrow> jsval \<Rightarrow> sim \<Rightarrow>
     (error_state + jsval \<times> approval_state) \<times> sim" where
  "sim_createJoinRequest sha256 c uuid token friendId minecraftUuid displayName s =
    (let invite = resolveInviteByToken sha256 token s in
     if \<not> isInviteActive (sim_now s) invite then (Inl Err_INVITE_UNAVAILABLE, s)
     else (case jm_get (sim_rooms s) (inv_roomId (the invite)) of
             None \<Rightarrow> (Inl Err_ROOM_CLOSED, s)
           | Some room \<Rightarrow>
              if \<not> isHostOnline c (sim_now s) room then (Inl Err_ROOM_CLOSED, s)
              else if \<not> canActorPerform (JStr (actor_str FRIEND))
                          (JStr (action_str CREATE_JOIN_REQUEST))
                          (empty_context\<lparr>ctx_validInvite := JBool True\<rparr>)
              then (Inl Err_APPROVAL_REQUIRED, s)
              else
                let requestId = JStr (''approval_'' @ uuid);
                    request = \<lparr>apr_id = requestId, apr_roomId = room_id room,
                      apr_inviteId = inv_id (the invite), apr_friendId = friendId,
                      apr_minecraftUuid = minecraftUuid, apr_displayName = displayName,
                      apr_st = Approval_PENDING, apr_createdAt = sim_now s,
                      apr_sessionIssued = False\<rparr>
                in (Inr (requestId, apr_st request),
                    s\<lparr>sim_approvals := jm_set requestId request (sim_approvals s)\<rparr>)))"

record queue_entry =
  qe_id :: jsval
  qe_displayName :: jsval
  qe_minecraftUuid :: jsval
  qe_state :: approval_state

definition queue_entry_of :: "sim_approval \<Rightarrow> queue_entry" where
  "queue_entry_of r = \<lparr>qe_id = apr_id r, qe_displayName = apr_displayName r,
     qe_minecraftUuid = apr_minecraftUuid r, qe_state = apr_st r\<rparr>"

definition sim_readApprovalQueue ::
  "jsval \<Rightarrow> jsval \<Rightarrow> sim \<Rightarrow> error_state + queue_entry list" where
  "sim_readApprovalQueue actorId roomId s =
    (case jm_get (sim_rooms s) roomId of
       None \<Rightarrow> Inl Err_SESSION_UNAVAILABLE
     | Some room \<Rightarrow>
        if \<not> host_can (JStr (action_str READ_APPROVAL_QUEUE)) actorId room
        then Inl Err_SESSION_UNAVAILABLE
        else Inr (map queue_entry_of
               (filter (\<lambda>r. apr_roomId r = roomId \<and> apr_st r = Approval_PENDING)
                 (jm_values (sim_approvals s)))))"

definition actionForDecision :: "jsval \<Rightarrow> jsval" where
  "actionForDecision decision =
    (if decision = JStr (approval_state_str Approval_APPROVED) then JStr (action_str APPROVE_JOIN)
     else if decision = JStr (approval_state_str Approval_DENIED) then JStr (action_str DENY_JOIN)
     else if decision = JStr (approval_state_str Approval_BLOCKED) then JStr (action_str BLOCK_JOIN)
     else JStr ''unknown'')"

text \<open>
  The state a decision string names. \<open>request.state = decision\<close> only runs after the
  permission check accepted \<open>actionForDecision(decision)\<close>, so the fallback of the next
  definition is never taken (\<open>sim_decide_fallback\<close>).
\<close>

definition decision_state :: "jsval \<Rightarrow> approval_state option" where
  "decision_state d =
    List.find (\<lambda>st. JStr (approval_state_str st) = d)
      [Approval_APPROVED, Approval_DENIED, Approval_BLOCKED]"

definition sim_decideJoinRequest ::
  "jsval \<Rightarrow> jsval \<Rightarrow> jsval \<Rightarrow> sim \<Rightarrow> (error_state + approval_state) \<times> sim" where
  "sim_decideJoinRequest actorId requestId decision s =
    (case jm_get (sim_approvals s) requestId of
       None \<Rightarrow> (Inl Err_SESSION_UNAVAILABLE, s)
     | Some request \<Rightarrow>
        (case jm_get (sim_rooms s) (apr_roomId request) of
           None \<Rightarrow> (Inl Err_SESSION_UNAVAILABLE, s)
         | Some room \<Rightarrow>
            if \<not> host_can (actionForDecision decision) actorId room
            then (Inl Err_SESSION_UNAVAILABLE, s)
            else if apr_st request \<noteq> Approval_PENDING then (Inl Err_APPROVAL_REQUIRED, s)
            else (case decision_state decision of
                    None \<Rightarrow> (Inl Err_SESSION_UNAVAILABLE, s)
                  | Some st \<Rightarrow>
                     (Inr st, s\<lparr>sim_approvals :=
                        jm_set requestId (request\<lparr>apr_st := st\<rparr>) (sim_approvals s)\<rparr>))))"

section \<open>Sessions\<close>

definition sim_issueSession ::
  "sim_config \<Rightarrow> string \<Rightarrow> jsval \<Rightarrow> jsval \<Rightarrow> jsval \<Rightarrow> jsval \<Rightarrow> sim \<Rightarrow>
     (error_state + jsval \<times> int) \<times> sim" where
  "sim_issueSession c uuid requestId roomId inviteId minecraftUuid s =
    (let request = jm_get (sim_approvals s) requestId;
         room = Option.bind request (\<lambda>r. jm_get (sim_rooms s) (apr_roomId r));
         invite = Option.bind request (\<lambda>r. jm_get (sim_invites s) (apr_inviteId r));
         identityBound = (case (request, room, invite) of
             (Some r, Some rm, Some i) \<Rightarrow>
               apr_st r = Approval_APPROVED \<and> apr_roomId r = roomId \<and> apr_inviteId r = inviteId \<and>
               apr_minecraftUuid r = minecraftUuid \<and> \<not> apr_sessionIssued r \<and>
               isInviteActive (sim_now s) (Some i)
           | _ \<Rightarrow> False)
     in if identityBound \<and> \<not> isHostOnline c (sim_now s) (the room)
        then (Inl Err_ROOM_CLOSED, s)
        else
          let authorized = identityBound \<and> isHostOnline c (sim_now s) (the room)
          in if \<not> canActorPerform (JStr (actor_str SERVICE)) (JStr (action_str ISSUE_SESSION))
                    (empty_context\<lparr>ctx_authorizedApproval := JBool authorized\<rparr>)
             then (Inl Err_SESSION_UNAVAILABLE, s)
             else
               let sessionId = JStr (''session_'' @ uuid);
                   session = \<lparr>ses_id = sessionId, ses_roomId = roomId, ses_inviteId = inviteId,
                     ses_requestId = requestId, ses_minecraftUuid = minecraftUuid,
                     ses_st = Session_ISSUED, ses_issuedAt = sim_now s,
                     ses_expiresAt = sim_now s + cfg_sessionTtlMs c\<rparr>
               in (Inr (sessionId, ses_expiresAt session),
                   s\<lparr>sim_approvals := jm_set requestId
                       ((the request)\<lparr>apr_sessionIssued := True\<rparr>) (sim_approvals s),
                     sim_sessions := jm_set sessionId session (sim_sessions s)\<rparr>))"

record session_view =
  sv_roomId :: jsval
  sv_minecraftUuid :: jsval
  sv_expiresAt :: int

definition sim_readSession :: "jsval \<Rightarrow> sim \<Rightarrow> error_state + session_view" where
  "sim_readSession sessionId s =
    (case jm_get (sim_sessions s) sessionId of
       None \<Rightarrow> Inl Err_SESSION_UNAVAILABLE
     | Some session \<Rightarrow>
        if ses_expiresAt session \<le> sim_now s \<or> ses_st session \<noteq> Session_ISSUED
        then Inl Err_SESSION_UNAVAILABLE
        else Inr \<lparr>sv_roomId = ses_roomId session, sv_minecraftUuid = ses_minecraftUuid session,
               sv_expiresAt = ses_expiresAt session\<rparr>)"

text \<open>\<open>snapshotInviteForTest\<close>; an invite record never has a \<open>token\<close> property.\<close>

definition snapshotInviteForTest :: "jsval \<Rightarrow> sim \<Rightarrow> (sim_invite \<times> bool) option" where
  "snapshotInviteForTest inviteId s =
     map_option (\<lambda>invite. (invite, False)) (jm_get (sim_invites s) inviteId)"

end
