(* ===== verification/Machine.thy ===== *)
theory Machine
  imports Prelude
begin

text \<open>
  State machines in general: a component is a set of initial states, an operation interpreter
  \<open>exec\<close> and the admissible inputs \<open>adm\<close> (what the environment may supply: a clock that
  does not run backwards, identifiers that were not drawn before). \<open>reach\<close> is its set of
  reachable states, \<open>steps\<close> the runs from a given state. The locales hold the two proof
  obligations every component discharges for its invariant and for what it never undoes.
\<close>

inductive reach :: "('s \<Rightarrow> bool) \<Rightarrow> ('o \<Rightarrow> 's \<Rightarrow> bool) \<Rightarrow> ('o \<Rightarrow> 's \<Rightarrow> 's) \<Rightarrow> 's \<Rightarrow> bool"
  for init adm exec
where
  reach_init: "init s \<Longrightarrow> reach init adm exec s"
| reach_step: "reach init adm exec s \<Longrightarrow> adm a s \<Longrightarrow> reach init adm exec (exec a s)"

inductive steps :: "('o \<Rightarrow> 's \<Rightarrow> bool) \<Rightarrow> ('o \<Rightarrow> 's \<Rightarrow> 's) \<Rightarrow> 's \<Rightarrow> 's \<Rightarrow> bool"
  for adm exec
where
  steps_refl: "steps adm exec s s"
| steps_step: "steps adm exec s s' \<Longrightarrow> adm a s' \<Longrightarrow> steps adm exec s (exec a s')"

inductive_cases steps_stepE: "steps adm exec s s'"

lemma steps_trans:
  "steps adm exec s t \<Longrightarrow> steps adm exec r s \<Longrightarrow> steps adm exec r t"
  by (induction rule: steps.induct) (auto intro: steps.intros)

lemma steps_one: "adm a s \<Longrightarrow> steps adm exec s (exec a s)"
  by (rule steps_step [OF steps_refl])

lemma reach_steps:
  "steps adm exec s t \<Longrightarrow> reach init adm exec s \<Longrightarrow> reach init adm exec t"
  by (induction rule: steps.induct) (auto intro: reach.intros)

text \<open>Runs given by the list of their operations, for witnesses.\<close>

fun exec_all :: "('o \<Rightarrow> 's \<Rightarrow> 's) \<Rightarrow> 'o list \<Rightarrow> 's \<Rightarrow> 's" where
  "exec_all exec [] s = s"
| "exec_all exec (a # as) s = exec_all exec as (exec a s)"

fun adm_all :: "('o \<Rightarrow> 's \<Rightarrow> bool) \<Rightarrow> ('o \<Rightarrow> 's \<Rightarrow> 's) \<Rightarrow> 'o list \<Rightarrow> 's \<Rightarrow> bool" where
  "adm_all adm exec [] s = True"
| "adm_all adm exec (a # as) s = (adm a s \<and> adm_all adm exec as (exec a s))"

lemma reach_exec_all:
  "reach init adm exec s \<Longrightarrow> adm_all adm exec as s \<Longrightarrow> reach init adm exec (exec_all exec as s)"
  by (induction as arbitrary: s) (auto intro: reach.intros)

lemma steps_exec_all:
  "adm_all adm exec as s \<Longrightarrow> steps adm exec s (exec_all exec as s)"
proof (induction as arbitrary: s)
  case Nil
  then show ?case by (simp add: steps_refl)
next
  case (Cons a as)
  then have "steps adm exec (exec a s) (exec_all exec as (exec a s))" by simp
  moreover have "steps adm exec s (exec a s)" using Cons.prems by (simp add: steps_one)
  ultimately show ?case by (simp add: steps_trans)
qed

lemma adm_all_take: "adm_all adm exec as s \<Longrightarrow> adm_all adm exec (take n as) s"
proof (induction as arbitrary: n s)
  case (Cons a as)
  then show ?case by (cases n) auto
qed simp

section \<open>Invariants\<close>

locale invariant =
  fixes init :: "'s \<Rightarrow> bool"
    and adm :: "'o \<Rightarrow> 's \<Rightarrow> bool"
    and exec :: "'o \<Rightarrow> 's \<Rightarrow> 's"
    and inv :: "'s \<Rightarrow> bool"
  assumes inv_init: "init s \<Longrightarrow> inv s"
    and inv_exec: "inv s \<Longrightarrow> adm a s \<Longrightarrow> inv (exec a s)"
begin

lemma reach_inv: "reach init adm exec s \<Longrightarrow> inv s"
  by (induction rule: reach.induct) (auto intro: inv_init inv_exec)

lemma steps_inv: "steps adm exec s t \<Longrightarrow> inv s \<Longrightarrow> inv t"
  by (induction rule: steps.induct) (auto intro: inv_exec)

end

section \<open>What is never undone\<close>

text \<open>
  A condition that every admissible operation keeps, given the invariant, holds in the rest of
  every run once it holds: a decision stays decided, a revoked invite stays revoked.
\<close>

locale permanent = invariant +
  fixes kept :: "'k \<Rightarrow> 's \<Rightarrow> bool"
  assumes kept_exec: "inv s \<Longrightarrow> adm a s \<Longrightarrow> kept k s \<Longrightarrow> kept k (exec a s)"
begin

lemma steps_kept: "steps adm exec s t \<Longrightarrow> inv s \<Longrightarrow> kept k s \<Longrightarrow> kept k t"
  by (induction rule: steps.induct) (auto intro: kept_exec steps_inv)

lemma reach_steps_kept:
  "reach init adm exec s \<Longrightarrow> steps adm exec s t \<Longrightarrow> kept k s \<Longrightarrow> kept k t"
  by (rule steps_kept) (auto intro: reach_inv)

end

end
