(* ===== verification/Simulation_Safety.thy ===== *)
theory Simulation_Safety
  imports Simulation Machine
begin

text \<open>
  The control-plane simulation as a state machine: its operations with their inputs
  (\<open>sim_op\<close>), the interpreter \<open>sim_exec\<close>, the invariant \<open>sim_inv\<close> and what follows from
  it. Admissible inputs (\<open>sim_adm\<close>) say what the environment guarantees: the clock does not
  run backwards and a drawn UUID is new. \<open>createInvite\<close> also draws its token, which is an
  input of the operation like the identifiers.
\<close>

datatype sim_op =
    OpAdvance int
  | OpCreateRoom string jsval jsval jsval jsval
  | OpHeartbeat jsval jsval
  | OpCreateInvite string string string jsval jsval
  | OpRevokeInvite jsval jsval
  | OpCreateJoinRequest string "string option" jsval jsval jsval
  | OpDecide jsval jsval jsval
  | OpIssueSession string jsval jsval jsval jsval

fun sim_exec :: "(string \<Rightarrow> string) \<Rightarrow> sim_config \<Rightarrow> sim_op \<Rightarrow> sim \<Rightarrow> sim" where
  "sim_exec h c (OpAdvance ms) s = sim_advance ms s"
| "sim_exec h c (OpCreateRoom u host al mc pk) s = snd (sim_createRoom u host al mc pk s)"
| "sim_exec h c (OpHeartbeat actor room) s = snd (sim_heartbeatHost actor room s)"
| "sim_exec h c (OpCreateInvite tok u hu actor room) s =
     snd (sim_createInvite h c tok u hu actor room s)"
| "sim_exec h c (OpRevokeInvite actor i) s = snd (sim_revokeInvite actor i s)"
| "sim_exec h c (OpCreateJoinRequest u tok f mu d) s =
     snd (sim_createJoinRequest h c u tok f mu d s)"
| "sim_exec h c (OpDecide actor r d) s = snd (sim_decideJoinRequest actor r d s)"
| "sim_exec h c (OpIssueSession u r room i mu) s = snd (sim_issueSession c u r room i mu s)"

fun sim_adm :: "sim_op \<Rightarrow> sim \<Rightarrow> bool" where
  "sim_adm (OpAdvance ms) s = (0 \<le> ms)"
| "sim_adm (OpCreateRoom u host al mc pk) s = (\<not> jm_has (sim_rooms s) (JStr (''room_'' @ u)))"
| "sim_adm (OpCreateInvite tok u hu actor room) s =
     (\<not> jm_has (sim_invites s) (JStr (''invite_'' @ u)))"
| "sim_adm (OpCreateJoinRequest u tok f mu d) s =
     (\<not> jm_has (sim_approvals s) (JStr (''approval_'' @ u)))"
| "sim_adm (OpIssueSession u r room i mu) s =
     (\<not> jm_has (sim_sessions s) (JStr (''session_'' @ u)))"
| "sim_adm _ s = True"

abbreviation sim_initial :: "sim \<Rightarrow> bool" where
  "sim_initial s \<equiv> \<exists>t. s = createControlPlaneSimulation t"

abbreviation sim_reach :: "(string \<Rightarrow> string) \<Rightarrow> sim_config \<Rightarrow> sim \<Rightarrow> bool" where
  "sim_reach h c \<equiv> reach sim_initial sim_adm (sim_exec h c)"

abbreviation sim_steps :: "(string \<Rightarrow> string) \<Rightarrow> sim_config \<Rightarrow> sim \<Rightarrow> sim \<Rightarrow> bool" where
  "sim_steps h c \<equiv> steps sim_adm (sim_exec h c)"

section \<open>What each operation does on every branch\<close>

lemmas sim_op_defs = sim_advance_def sim_createRoom_def sim_heartbeatHost_def sim_createInvite_def
  createInviteRecord_def sim_revokeInvite_def sim_createJoinRequest_def sim_decideJoinRequest_def
  sim_issueSession_def

text \<open>The checks of the host and service operations, decided by the policy.\<close>

lemma host_can_named:
  "host_can (JStr (action_str a)) actorId room \<longleftrightarrow>
     role_may HOST a \<and> truthy (room_hostId room) \<and> room_hostId room = actorId"
  by (rule host_may_iff)

lemma friend_can_join:
  "canActorPerform (JStr (actor_str FRIEND)) (JStr (action_str CREATE_JOIN_REQUEST))
     (empty_context\<lparr>ctx_validInvite := JBool True\<rparr>)"
  by (simp only: canActorPerform_named) (simp add: empty_context_def)

lemma service_can_issue:
  "canActorPerform (JStr (actor_str SERVICE)) (JStr (action_str ISSUE_SESSION))
     (empty_context\<lparr>ctx_authorizedApproval := JBool b\<rparr>) \<longleftrightarrow> b"
  by (simp only: canActorPerform_named) (simp add: empty_context_def)

lemma decision_state_Some:
  "decision_state d = Some st \<longleftrightarrow>
     d = JStr (approval_state_str st) \<and>
     st \<in> {Approval_APPROVED, Approval_DENIED, Approval_BLOCKED}"
  by (cases st) (auto simp: decision_state_def)

lemma decision_state_None:
  "decision_state d = None \<Longrightarrow> actionForDecision d = JStr ''unknown''"
  by (auto simp: decision_state_def actionForDecision_def split: if_splits)

lemma host_can_decision:
  "host_can (actionForDecision d) actorId room \<longleftrightarrow>
     decision_state d \<noteq> None \<and> truthy (room_hostId room) \<and> room_hostId room = actorId"
proof (cases "decision_state d")
  case None
  have "JStr ''unknown'' \<notin> set Actions" by (simp add: Actions_def enum_strs)
  with None show ?thesis by (simp add: decision_state_None host_may_unknown)
next
  case (Some st)
  then have "actionForDecision d \<in> JStr ` action_str ` {APPROVE_JOIN, DENY_JOIN, BLOCK_JOIN}"
    unfolding decision_state_Some actionForDecision_def by auto
  with Some show ?thesis by (auto simp: host_can_named)
qed

text \<open>The fallback branch of \<open>sim_decideJoinRequest\<close> is never taken.\<close>

lemma sim_decide_fallback:
  "host_can (actionForDecision d) actorId room \<Longrightarrow> decision_state d \<noteq> None"
  by (simp add: host_can_decision)

lemma sim_decide_Inr:
  "sim_decideJoinRequest actor rid d s = (Inr st, s') \<longleftrightarrow>
     (\<exists>r rm. jm_get (sim_approvals s) rid = Some r \<and> jm_get (sim_rooms s) (apr_roomId r) = Some rm \<and>
        truthy actor \<and> room_hostId rm = actor \<and> apr_st r = Approval_PENDING \<and>
        decision_state d = Some st \<and>
        s' = s\<lparr>sim_approvals := jm_set rid (r\<lparr>apr_st := st\<rparr>) (sim_approvals s)\<rparr>)"
  by (auto simp: sim_decideJoinRequest_def host_can_decision split: option.splits if_splits)

lemma sim_decide_Inl: "sim_decideJoinRequest actor rid d s = (Inl e, s') \<Longrightarrow> s' = s"
  by (auto simp: sim_decideJoinRequest_def split: option.splits if_splits)

lemma sim_issue_Inr:
  "sim_issueSession c u rid roomId inviteId mu s = (Inr (sid, exp), s') \<longleftrightarrow>
     (\<exists>r rm i. jm_get (sim_approvals s) rid = Some r \<and>
        jm_get (sim_rooms s) (apr_roomId r) = Some rm \<and>
        jm_get (sim_invites s) (apr_inviteId r) = Some i \<and>
        apr_st r = Approval_APPROVED \<and> apr_roomId r = roomId \<and> apr_inviteId r = inviteId \<and>
        apr_minecraftUuid r = mu \<and> \<not> apr_sessionIssued r \<and>
        inv_st i = Invite_ACTIVE \<and> sim_now s < inv_expiresAt i \<and> isHostOnline c (sim_now s) rm \<and>
        sid = JStr (''session_'' @ u) \<and> exp = sim_now s + cfg_sessionTtlMs c \<and>
        s' = s\<lparr>sim_approvals := jm_set rid (r\<lparr>apr_sessionIssued := True\<rparr>) (sim_approvals s),
          sim_sessions := jm_set sid \<lparr>ses_id = sid, ses_roomId = roomId, ses_inviteId = inviteId,
            ses_requestId = rid, ses_minecraftUuid = mu, ses_st = Session_ISSUED,
            ses_issuedAt = sim_now s, ses_expiresAt = exp\<rparr> (sim_sessions s)\<rparr>)"
proof (cases "jm_get (sim_approvals s) rid")
  case None
  then show ?thesis by (simp add: sim_issueSession_def service_can_issue)
next
  case (Some r)
  then show ?thesis
    by (cases "jm_get (sim_rooms s) (apr_roomId r)"; cases "jm_get (sim_invites s) (apr_inviteId r)")
      (auto simp: sim_issueSession_def service_can_issue isInviteActive_def Let_def)
qed

lemma sim_issue_Inl: "sim_issueSession c u rid roomId inviteId mu s = (Inl e, s') \<Longrightarrow> s' = s"
  by (auto simp: sim_issueSession_def Let_def split: if_splits)

lemma sim_join_Inr:
  "sim_createJoinRequest h c u tok f mu d s = (Inr (rid, st), s') \<longleftrightarrow>
     (\<exists>i rm. resolveInviteByToken h tok s = Some i \<and> inv_st i = Invite_ACTIVE \<and>
        sim_now s < inv_expiresAt i \<and> jm_get (sim_rooms s) (inv_roomId i) = Some rm \<and>
        isHostOnline c (sim_now s) rm \<and> rid = JStr (''approval_'' @ u) \<and> st = Approval_PENDING \<and>
        s' = s\<lparr>sim_approvals := jm_set rid \<lparr>apr_id = rid, apr_roomId = room_id rm,
          apr_inviteId = inv_id i, apr_friendId = f, apr_minecraftUuid = mu, apr_displayName = d,
          apr_st = st, apr_createdAt = sim_now s, apr_sessionIssued = False\<rparr> (sim_approvals s)\<rparr>)"
  by (cases "resolveInviteByToken h tok s")
    (auto simp: sim_createJoinRequest_def isInviteActive_def friend_can_join Let_def
      split: option.splits)

lemma sim_join_Inl: "sim_createJoinRequest h c u tok f mu d s = (Inl e, s') \<Longrightarrow> s' = s"
  by (auto simp: sim_createJoinRequest_def Let_def split: if_splits option.splits)

lemma sim_invite_Inr:
  "sim_createInvite h c tok u hu actor roomId s = (Inr ci, s') \<longleftrightarrow>
     (\<exists>rm. jm_get (sim_rooms s) roomId = Some rm \<and> truthy actor \<and> room_hostId rm = actor \<and>
        ci = \<lparr>ci_inviteId = JStr (''invite_'' @ u), ci_handle = JStr (''invite_handle_'' @ hu),
          ci_token = tok, ci_expiresAt = sim_now s + cfg_inviteTtlMs c\<rparr> \<and>
        s' = s\<lparr>sim_invites := jm_set (JStr (''invite_'' @ u))
            \<lparr>inv_id = JStr (''invite_'' @ u), inv_roomId = roomId, inv_tokenHash = h tok,
             inv_st = Invite_ACTIVE, inv_createdAt = sim_now s,
             inv_expiresAt = sim_now s + cfg_inviteTtlMs c\<rparr> (sim_invites s),
          sim_rawTokens := jm_set (h tok) (JStr (''invite_'' @ u)) (sim_rawTokens s)\<rparr>)"
  by (auto simp: sim_createInvite_def createInviteRecord_def host_can_named Let_def
      split: option.splits)

lemma sim_invite_Inl: "sim_createInvite h c tok u hu actor roomId s = (Inl e, s') \<Longrightarrow> s' = s"
  by (auto simp: sim_createInvite_def createInviteRecord_def Let_def split: if_splits option.splits)

lemma sim_revoke_Inr:
  "sim_revokeInvite actor iid s = (Inr x, s') \<longleftrightarrow>
     (\<exists>i rm. jm_get (sim_invites s) iid = Some i \<and> jm_get (sim_rooms s) (inv_roomId i) = Some rm \<and>
        truthy actor \<and> room_hostId rm = actor \<and>
        s' = s\<lparr>sim_invites := jm_set iid (i\<lparr>inv_st := Invite_REVOKED\<rparr>) (sim_invites s)\<rparr>)"
  by (auto simp: sim_revokeInvite_def host_can_named 
      split: option.splits)

lemma sim_revoke_Inl: "sim_revokeInvite actor iid s = (Inl e, s') \<Longrightarrow> s' = s"
  by (auto simp: sim_revokeInvite_def split: if_splits option.splits)

lemma sim_heartbeat_True:
  "sim_heartbeatHost actor roomId s = (True, s') \<longleftrightarrow>
     (\<exists>rm. jm_get (sim_rooms s) roomId = Some rm \<and> room_hostId rm = actor \<and>
        s' = s\<lparr>sim_rooms := jm_set roomId
          (rm\<lparr>room_hostLastSeenAt := sim_now s, room_st := Room_OPEN\<rparr>) (sim_rooms s)\<rparr>)"
  by (auto simp: sim_heartbeatHost_def split: option.splits)

lemma sim_heartbeat_False: "sim_heartbeatHost actor roomId s = (False, s') \<Longrightarrow> s' = s"
  by (auto simp: sim_heartbeatHost_def split: option.splits if_splits)

lemmas sim_Inl = sim_decide_Inl sim_issue_Inl sim_join_Inl sim_invite_Inl sim_revoke_Inl

text \<open>
  One step, seen from outside: it leaves the state as it is or is one of seven changes. Every
  preservation proof below is a case split with this rule.
\<close>

lemma sim_exec_cases [consumes 1, case_names Same Advance Room Heartbeat Invite Revoke Join Decide Issue]:
  assumes "sim_exec h c a s = s'"
  obtains "s' = s"
  | ms where "a = OpAdvance ms" "s' = s\<lparr>sim_now := sim_now s + ms\<rparr>"
  | u rm where "s' = s\<lparr>sim_rooms := jm_set (JStr (''room_'' @ u)) rm (sim_rooms s)\<rparr>"
      "\<exists>host al mc pk. a = OpCreateRoom u host al mc pk" "room_id rm = JStr (''room_'' @ u)"
  | k rm where "jm_get (sim_rooms s) k = Some rm"
      "s' = s\<lparr>sim_rooms := jm_set k
         (rm\<lparr>room_hostLastSeenAt := sim_now s, room_st := Room_OPEN\<rparr>) (sim_rooms s)\<rparr>"
  | tok u hu actor roomId rm where "a = OpCreateInvite tok u hu actor roomId"
      "jm_get (sim_rooms s) roomId = Some rm" "truthy actor" "room_hostId rm = actor"
      "s' = s\<lparr>sim_invites := jm_set (JStr (''invite_'' @ u))
            \<lparr>inv_id = JStr (''invite_'' @ u), inv_roomId = roomId, inv_tokenHash = h tok,
             inv_st = Invite_ACTIVE, inv_createdAt = sim_now s,
             inv_expiresAt = sim_now s + cfg_inviteTtlMs c\<rparr> (sim_invites s),
          sim_rawTokens := jm_set (h tok) (JStr (''invite_'' @ u)) (sim_rawTokens s)\<rparr>"
  | k i rm actor where "a = OpRevokeInvite actor k" "jm_get (sim_invites s) k = Some i"
      "jm_get (sim_rooms s) (inv_roomId i) = Some rm" "truthy actor" "room_hostId rm = actor"
      "s' = s\<lparr>sim_invites := jm_set k (i\<lparr>inv_st := Invite_REVOKED\<rparr>) (sim_invites s)\<rparr>"
  | u tok f mu d i rm where "a = OpCreateJoinRequest u tok f mu d"
      "resolveInviteByToken h tok s = Some i" "inv_st i = Invite_ACTIVE"
      "sim_now s < inv_expiresAt i" "jm_get (sim_rooms s) (inv_roomId i) = Some rm"
      "isHostOnline c (sim_now s) rm"
      "s' = s\<lparr>sim_approvals := jm_set (JStr (''approval_'' @ u))
         \<lparr>apr_id = JStr (''approval_'' @ u), apr_roomId = room_id rm,
          apr_inviteId = inv_id i, apr_friendId = f, apr_minecraftUuid = mu, apr_displayName = d,
          apr_st = Approval_PENDING, apr_createdAt = sim_now s, apr_sessionIssued = False\<rparr>
         (sim_approvals s)\<rparr>"
  | actor k d r rm st where "a = OpDecide actor k d" "jm_get (sim_approvals s) k = Some r"
      "jm_get (sim_rooms s) (apr_roomId r) = Some rm" "truthy actor" "room_hostId rm = actor"
      "apr_st r = Approval_PENDING" "decision_state d = Some st"
      "s' = s\<lparr>sim_approvals := jm_set k (r\<lparr>apr_st := st\<rparr>) (sim_approvals s)\<rparr>"
  | u k roomId inviteId mu r rm i where "a = OpIssueSession u k roomId inviteId mu"
      "jm_get (sim_approvals s) k = Some r" "jm_get (sim_rooms s) (apr_roomId r) = Some rm"
      "jm_get (sim_invites s) (apr_inviteId r) = Some i" "apr_st r = Approval_APPROVED"
      "apr_roomId r = roomId" "apr_inviteId r = inviteId" "apr_minecraftUuid r = mu"
      "\<not> apr_sessionIssued r" "inv_st i = Invite_ACTIVE" "sim_now s < inv_expiresAt i"
      "isHostOnline c (sim_now s) rm"
      "s' = s\<lparr>sim_approvals := jm_set k (r\<lparr>apr_sessionIssued := True\<rparr>) (sim_approvals s),
         sim_sessions := jm_set (JStr (''session_'' @ u))
           \<lparr>ses_id = JStr (''session_'' @ u), ses_roomId = roomId, ses_inviteId = inviteId,
            ses_requestId = k, ses_minecraftUuid = mu, ses_st = Session_ISSUED,
            ses_issuedAt = sim_now s, ses_expiresAt = sim_now s + cfg_sessionTtlMs c\<rparr>
           (sim_sessions s)\<rparr>"
proof (cases a)
  case (OpAdvance ms)
  with assms that(2) show thesis by (simp add: sim_advance_def)
next
  case (OpCreateRoom u host al mc pk)
  then show thesis
    using assms by (intro that(3) [of u "fst (sim_createRoom u host al mc pk s)"])
      (auto simp: sim_createRoom_def Let_def)
next
  case (OpHeartbeat actor k)
  show thesis
  proof (cases "fst (sim_heartbeatHost actor k s)")
    case True
    then have "sim_heartbeatHost actor k s = (True, s')"
      using assms OpHeartbeat by (simp add: prod_eq_iff)
    then show thesis unfolding sim_heartbeat_True using that(4) by blast
  next
    case False
    then have "sim_heartbeatHost actor k s = (False, s')"
      using assms OpHeartbeat by (simp add: prod_eq_iff)
    then show thesis by (rule that(1) [OF sim_heartbeat_False])
  qed
next
  case (OpCreateInvite tok u hu actor k)
  then obtain res where *: "sim_createInvite h c tok u hu actor k s = (res, s')"
    using assms by (cases "sim_createInvite h c tok u hu actor k s") simp
  show thesis
  proof (cases res)
    case (Inl e)
    with * show thesis by (auto intro: that(1) dest: sim_Inl)
  next
    case (Inr ci)
    with * OpCreateInvite that(5) show thesis by (auto simp: sim_invite_Inr)
  qed
next
  case (OpRevokeInvite actor k)
  then obtain res where *: "sim_revokeInvite actor k s = (res, s')"
    using assms by (cases "sim_revokeInvite actor k s") simp
  show thesis
  proof (cases res)
    case (Inl e)
    with * show thesis by (auto intro: that(1) dest: sim_Inl)
  next
    case (Inr x)
    with * OpRevokeInvite that(6) show thesis by (auto simp: sim_revoke_Inr)
  qed
next
  case (OpCreateJoinRequest u tok f mu d)
  then obtain res where *: "sim_createJoinRequest h c u tok f mu d s = (res, s')"
    using assms by (cases "sim_createJoinRequest h c u tok f mu d s") simp
  show thesis
  proof (cases res)
    case (Inl e)
    with * show thesis by (auto intro: that(1) dest: sim_Inl)
  next
    case (Inr x)
    with * OpCreateJoinRequest that(7) show thesis by (cases x) (auto simp: sim_join_Inr)
  qed
next
  case (OpDecide actor k d)
  then obtain res where *: "sim_decideJoinRequest actor k d s = (res, s')"
    using assms by (cases "sim_decideJoinRequest actor k d s") simp
  show thesis
  proof (cases res)
    case (Inl e)
    with * show thesis by (auto intro: that(1) dest: sim_Inl)
  next
    case (Inr x)
    with * OpDecide that(8) show thesis by (auto simp: sim_decide_Inr)
  qed
next
  case (OpIssueSession u k roomId inviteId mu)
  then obtain res where *: "sim_issueSession c u k roomId inviteId mu s = (res, s')"
    using assms by (cases "sim_issueSession c u k roomId inviteId mu s") simp
  show thesis
  proof (cases res)
    case (Inl e)
    with * show thesis by (auto intro: that(1) dest: sim_Inl)
  next
    case (Inr x)
    with * OpIssueSession that(9) show thesis by (cases x) (auto simp: sim_issue_Inr)
  qed
qed

section \<open>The invariant\<close>

text \<open>
  Keys are the identifiers of the records they hold; every record refers to records that exist;
  a session was issued for an approval that is approved, marked as used and bound to the same
  room, invite and Minecraft identity; no two sessions were issued for one approval; the token
  index leads to the invite with that token hash.
\<close>

definition approvals_ok :: "sim \<Rightarrow> bool" where
  "approvals_ok s \<longleftrightarrow> (\<forall>k r. jm_get (sim_approvals s) k = Some r \<longrightarrow>
     apr_id r = k \<and> jm_has (sim_rooms s) (apr_roomId r) \<and>
     (\<exists>i. jm_get (sim_invites s) (apr_inviteId r) = Some i \<and> inv_roomId i = apr_roomId r) \<and>
     (apr_sessionIssued r \<longrightarrow> apr_st r = Approval_APPROVED) \<and>
     apr_st r \<in> {Approval_PENDING, Approval_APPROVED, Approval_DENIED, Approval_BLOCKED})"

definition sessions_ok :: "sim_config \<Rightarrow> sim \<Rightarrow> bool" where
  "sessions_ok c s \<longleftrightarrow> (\<forall>k ses. jm_get (sim_sessions s) k = Some ses \<longrightarrow>
     ses_id ses = k \<and> ses_expiresAt ses = ses_issuedAt ses + cfg_sessionTtlMs c \<and>
     (\<exists>r. jm_get (sim_approvals s) (ses_requestId ses) = Some r \<and> apr_sessionIssued r \<and>
       apr_roomId r = ses_roomId ses \<and> apr_inviteId r = ses_inviteId ses \<and>
       apr_minecraftUuid r = ses_minecraftUuid ses))"

definition sessions_unique :: "sim \<Rightarrow> bool" where
  "sessions_unique s \<longleftrightarrow> (\<forall>k k' ses ses'. jm_get (sim_sessions s) k = Some ses \<longrightarrow>
     jm_get (sim_sessions s) k' = Some ses' \<longrightarrow> ses_requestId ses = ses_requestId ses' \<longrightarrow> k = k')"

definition invites_ok :: "sim \<Rightarrow> bool" where
  "invites_ok s \<longleftrightarrow>
     (\<forall>k i. jm_get (sim_invites s) k = Some i \<longrightarrow>
        inv_id i = k \<and> jm_has (sim_rooms s) (inv_roomId i)) \<and>
     (\<forall>th k. jm_get (sim_rawTokens s) th = Some k \<longrightarrow>
        (\<exists>i. jm_get (sim_invites s) k = Some i \<and> inv_tokenHash i = th))"

definition rooms_ok :: "sim \<Rightarrow> bool" where
  "rooms_ok s \<longleftrightarrow>
     (\<forall>k rm. jm_get (sim_rooms s) k = Some rm \<longrightarrow> room_id rm = k)"

definition sim_inv :: "sim_config \<Rightarrow> sim \<Rightarrow> bool" where
  "sim_inv c s \<longleftrightarrow>
     rooms_ok s \<and> invites_ok s \<and> approvals_ok s \<and> sessions_ok c s \<and> sessions_unique s"

lemma sim_inv_initial: "sim_initial s \<Longrightarrow> sim_inv c s"
  by (auto simp: createControlPlaneSimulation_def sim_inv_def rooms_ok_def invites_ok_def
      approvals_ok_def sessions_ok_def sessions_unique_def)

lemma resolve_invite_ok:
  assumes "invites_ok s" and "resolveInviteByToken h tok s = Some i"
  shows "jm_get (sim_invites s) (inv_id i) = Some i \<and> (\<exists>t. tok = Some t \<and> inv_tokenHash i = h t)"
  using assms by (fastforce simp: resolveInviteByToken_def invites_ok_def
      split: option.splits if_splits)

lemma rooms_ok_exec:
  assumes "sim_exec h c a s = s'" and "rooms_ok s"
  shows "rooms_ok s'"
  using assms(1) by (cases rule: sim_exec_cases) (use assms(2) in \<open>auto simp: rooms_ok_def\<close>)

lemma room_has_mono:
  assumes "sim_exec h c a s = s'" and "jm_has (sim_rooms s) k"
  shows "jm_has (sim_rooms s') k"
  using assms(1) by (cases rule: sim_exec_cases) (use assms(2) in auto)

text \<open>An invite, once made, keeps its room and its token hash.\<close>

lemma invite_kept:
  assumes "sim_exec h c a s = s'" and "sim_adm a s" and "jm_get (sim_invites s) k = Some i"
  shows "\<exists>i'. jm_get (sim_invites s') k = Some i' \<and> inv_roomId i' = inv_roomId i \<and>
    inv_tokenHash i' = inv_tokenHash i \<and> inv_id i' = inv_id i \<and>
    inv_expiresAt i' = inv_expiresAt i \<and> (inv_st i = Invite_REVOKED \<longrightarrow> inv_st i' = Invite_REVOKED)"
  using assms(1)
proof (cases rule: sim_exec_cases)
  case (Invite tok u hu actor roomId rm)
  with assms(2,3) have "k \<noteq> JStr (''invite_'' @ u)" by auto
  with Invite(5) assms(3) show ?thesis by simp
qed (use assms(3) in auto)

lemma invites_ok_exec:
  assumes step: "sim_exec h c a s = s'" and adm: "sim_adm a s" and ok: "invites_ok s"
  shows "invites_ok s'"
proof -
  have keyed: "inv_id i = k \<and> jm_has (sim_rooms s') (inv_roomId i)"
    if "jm_get (sim_invites s') k = Some i" for k i
  proof -
    have old: "inv_id i = k \<and> jm_has (sim_rooms s') (inv_roomId i)"
      if "jm_get (sim_invites s) k = Some i" for k i
      using that ok room_has_mono [OF step] unfolding invites_ok_def by blast
    from step show ?thesis
      by (cases rule: sim_exec_cases) (use old that in \<open>auto split: if_splits\<close>)
  qed
  have tokens: "\<exists>i. jm_get (sim_invites s') k = Some i \<and> inv_tokenHash i = th"
    if "jm_get (sim_rawTokens s') th = Some k" for th k
  proof -
    have old: "\<exists>i. jm_get (sim_invites s') k = Some i \<and> inv_tokenHash i = th"
      if tk: "jm_get (sim_rawTokens s) th = Some k" for th k
    proof -
      from ok tk obtain i where "jm_get (sim_invites s) k = Some i" "inv_tokenHash i = th"
        unfolding invites_ok_def by blast
      with invite_kept [OF step adm] show ?thesis by metis
    qed
    from step show ?thesis
    proof (cases rule: sim_exec_cases)
      case (Invite tok u hu actor roomId rm)
      show ?thesis
      proof (cases "th = h tok")
        case True
        with that Invite(5) show ?thesis by simp
      next
        case False
        with that Invite(5) have "jm_get (sim_rawTokens s) th = Some k" by simp
        then show ?thesis by (rule old)
      qed
    qed (rule old, use that in simp)+
  qed
  from keyed tokens show ?thesis unfolding invites_ok_def by blast
qed

text \<open>An approval, once made, keeps whom it is for; a decided one keeps its decision.\<close>

lemma approval_kept:
  assumes "sim_exec h c a s = s'" and "sim_adm a s" and "jm_get (sim_approvals s) k = Some r"
  shows "\<exists>r'. jm_get (sim_approvals s') k = Some r' \<and> apr_id r' = apr_id r \<and>
    apr_roomId r' = apr_roomId r \<and> apr_inviteId r' = apr_inviteId r \<and>
    apr_minecraftUuid r' = apr_minecraftUuid r \<and> apr_friendId r' = apr_friendId r \<and>
    (apr_st r \<noteq> Approval_PENDING \<longrightarrow> apr_st r' = apr_st r) \<and>
    (apr_sessionIssued r \<longrightarrow> apr_sessionIssued r')"
  using assms(1)
proof (cases rule: sim_exec_cases)
  case (Join u tok f mu d i rm)
  with assms(2,3) have "k \<noteq> JStr (''approval_'' @ u)" by auto
  with Join(7) assms(3) show ?thesis by simp
qed (use assms(3) in auto)

lemma approvals_ok_exec:
  assumes step: "sim_exec h c a s = s'" and adm: "sim_adm a s"
    and ok: "approvals_ok s" "invites_ok s" "rooms_ok s"
  shows "approvals_ok s'"
proof -
  let ?good = "\<lambda>k r. apr_id r = k \<and> jm_has (sim_rooms s') (apr_roomId r) \<and>
     (\<exists>i. jm_get (sim_invites s') (apr_inviteId r) = Some i \<and> inv_roomId i = apr_roomId r) \<and>
     (apr_sessionIssued r \<longrightarrow> apr_st r = Approval_APPROVED) \<and>
     apr_st r \<in> {Approval_PENDING, Approval_APPROVED, Approval_DENIED, Approval_BLOCKED}"
  have old: "?good k r" if "jm_get (sim_approvals s) k = Some r" for k r
  proof -
    from that ok(1) obtain i where i: "jm_get (sim_invites s) (apr_inviteId r) = Some i"
        "inv_roomId i = apr_roomId r" and r: "apr_id r = k" "jm_has (sim_rooms s) (apr_roomId r)"
        "apr_sessionIssued r \<longrightarrow> apr_st r = Approval_APPROVED"
        "apr_st r \<in> {Approval_PENDING, Approval_APPROVED, Approval_DENIED, Approval_BLOCKED}"
      unfolding approvals_ok_def by blast
    from invite_kept [OF step adm i(1)] i(2) room_has_mono [OF step r(2)] r show ?thesis
      by auto
  qed
  have "?good k r" if new: "jm_get (sim_approvals s') k = Some r" for k r
    using step
  proof (cases rule: sim_exec_cases)
    case (Join u tok f mu d i rm)
    have inv: "jm_get (sim_invites s) (inv_id i) = Some i"
      using resolve_invite_ok [OF ok(2) Join(2)] by simp
    have rm: "room_id rm = inv_roomId i" using Join(5) ok(3) by (simp add: rooms_ok_def)
    show ?thesis
    proof (cases "k = JStr (''approval_'' @ u)")
      case True
      with new Join(5,7) inv rm show ?thesis by auto
    next
      case False
      with new Join(7) have "jm_get (sim_approvals s) k = Some r" by simp
      then show ?thesis by (rule old)
    qed
  next
    case (Decide actor k' d r' rm st)
    with new old show ?thesis by (auto split: if_splits simp: decision_state_Some)
  next
    case (Issue u k' roomId inviteId mu r' rm i)
    with new old [OF Issue(2)] old show ?thesis by (auto split: if_splits)
  qed (use new old in auto)
  then show ?thesis unfolding approvals_ok_def by blast
qed

lemma sessions_exec:
  assumes step: "sim_exec h c a s = s'" and adm: "sim_adm a s"
    and ok: "sessions_ok c s" "sessions_unique s"
  shows "sessions_ok c s' \<and> sessions_unique s'"
proof -
  let ?good = "\<lambda>k ses. ses_id ses = k \<and> ses_expiresAt ses = ses_issuedAt ses + cfg_sessionTtlMs c \<and>
     (\<exists>r. jm_get (sim_approvals s') (ses_requestId ses) = Some r \<and> apr_sessionIssued r \<and>
       apr_roomId r = ses_roomId ses \<and> apr_inviteId r = ses_inviteId ses \<and>
       apr_minecraftUuid r = ses_minecraftUuid ses)"
  have old: "?good k ses" if "jm_get (sim_sessions s) k = Some ses" for k ses
  proof -
    from that ok(1) obtain r where "jm_get (sim_approvals s) (ses_requestId ses) = Some r"
        "apr_sessionIssued r" "apr_roomId r = ses_roomId ses" "apr_inviteId r = ses_inviteId ses"
        "apr_minecraftUuid r = ses_minecraftUuid ses" "ses_id ses = k"
        "ses_expiresAt ses = ses_issuedAt ses + cfg_sessionTtlMs c"
      unfolding sessions_ok_def by blast
    with approval_kept [OF step adm this(1)] show ?thesis by auto
  qed
  from step show ?thesis
  proof (cases rule: sim_exec_cases)
    case (Issue u k roomId inviteId mu r rm i)
    have unused: "ses_requestId ses \<noteq> k" if "jm_get (sim_sessions s) x = Some ses" for x ses
      using that ok(1) Issue(2,9) unfolding sessions_ok_def by fastforce
    have "sessions_ok c s'"
      unfolding sessions_ok_def using old Issue by (auto split: if_splits)
    moreover have "sessions_unique s'"
      using ok(2) unused Issue(13) unfolding sessions_unique_def
      by (auto split: if_splits; metis)
    ultimately show ?thesis ..
  qed (use old ok(2) in \<open>auto simp: sessions_ok_def sessions_unique_def\<close>)
qed

interpretation sim_machine: invariant sim_initial sim_adm "sim_exec h c" "sim_inv c"
  for h :: "string \<Rightarrow> string" and c :: sim_config
proof unfold_locales
  show "sim_inv c s" if "sim_initial s" for s using that by (rule sim_inv_initial)
  show "sim_inv c (sim_exec h c a s)" if "sim_inv c s" "sim_adm a s" for s a
    using that rooms_ok_exec [OF refl] invites_ok_exec [OF refl] approvals_ok_exec [OF refl]
      sessions_exec [OF refl]
    unfolding sim_inv_def by blast
qed

end
