(* ===== verification/Simulation_Props.thy ===== *)
theory Simulation_Props
  imports Simulation_Safety
begin

text \<open>
  What the control-plane simulation promises, over all of its reachable states: a session is
  bound to the approval it was issued for and there is one per approval, decisions and
  revocations are final, only the host of the room decides, and the whole way from a room to a
  session is open to a host and friend who follow it.
\<close>

section \<open>A concrete run, for the witnesses\<close>

text \<open>
  The host opens a room, invites, the friend asks to join, the host approves, the service issues
  the session. The hash is the identity.
\<close>

definition demo_ops :: "sim_op list" where
  "demo_ops =
    [OpCreateRoom ''1'' (JStr ''host'') (JStr ''Cozy'') (JStr ''1.21.1'') (JStr ''pack''),
     OpCreateInvite ''tok'' ''2'' ''3'' (JStr ''host'') (JStr ''room_1''),
     OpCreateJoinRequest ''4'' (Some ''tok'') (JStr ''friend'') (JStr ''uuid'') (JStr ''Kim''),
     OpDecide (JStr ''host'') (JStr ''approval_4'') (JStr ''approved''),
     OpIssueSession ''5'' (JStr ''approval_4'') (JStr ''room_1'') (JStr ''invite_2'') (JStr ''uuid'')]"

definition demo_sim :: "nat \<Rightarrow> sim" where
  "demo_sim n = exec_all (sim_exec id default_sim_config) (take n demo_ops)
     (createControlPlaneSimulation 0)"

lemma demo_adm:
  "adm_all sim_adm (sim_exec id default_sim_config) demo_ops (createControlPlaneSimulation 0)"
  by code_simp

lemma demo_reach: "sim_reach id default_sim_config (demo_sim n)"
  unfolding demo_sim_def
  by (rule reach_exec_all) (auto intro: reach_init adm_all_take demo_adm)

lemma demo_session:
  "jm_get (sim_sessions (demo_sim 5)) (JStr ''session_5'') =
     Some \<lparr>ses_id = JStr ''session_5'', ses_roomId = JStr ''room_1'',
       ses_inviteId = JStr ''invite_2'', ses_requestId = JStr ''approval_4'',
       ses_minecraftUuid = JStr ''uuid'', ses_st = Session_ISSUED, ses_issuedAt = 0,
       ses_expiresAt = 900000\<rparr>"
  by code_simp

section \<open>Sessions\<close>

text \<open>
  C1. Every session in a reachable state was issued for an approval that the host approved, that
  is marked as used, and that names the same room, invite and Minecraft identity; the invite
  belongs to that room, and the session expires one session lifetime after it was issued.
\<close>

theorem session_bound_to_approval:
  assumes "sim_reach h c s" and "jm_get (sim_sessions s) k = Some ses"
  shows "ses_id ses = k \<and> ses_expiresAt ses = ses_issuedAt ses + cfg_sessionTtlMs c \<and>
    (\<exists>r i. jm_get (sim_approvals s) (ses_requestId ses) = Some r \<and>
       apr_st r = Approval_APPROVED \<and> apr_sessionIssued r \<and>
       apr_roomId r = ses_roomId ses \<and> apr_inviteId r = ses_inviteId ses \<and>
       apr_minecraftUuid r = ses_minecraftUuid ses \<and>
       jm_get (sim_invites s) (ses_inviteId ses) = Some i \<and> inv_roomId i = ses_roomId ses \<and>
       jm_has (sim_rooms s) (ses_roomId ses))"
proof -
  have inv: "sim_inv c s" by (rule sim_machine.reach_inv [OF assms(1)])
  from inv assms(2) obtain r where r: "jm_get (sim_approvals s) (ses_requestId ses) = Some r"
      "apr_sessionIssued r" "apr_roomId r = ses_roomId ses" "apr_inviteId r = ses_inviteId ses"
      "apr_minecraftUuid r = ses_minecraftUuid ses"
    and ses: "ses_id ses = k" "ses_expiresAt ses = ses_issuedAt ses + cfg_sessionTtlMs c"
    unfolding sim_inv_def sessions_ok_def by blast
  from inv r(1) obtain i where "jm_get (sim_invites s) (apr_inviteId r) = Some i"
      "inv_roomId i = apr_roomId r" "jm_has (sim_rooms s) (apr_roomId r)"
      "apr_sessionIssued r \<longrightarrow> apr_st r = Approval_APPROVED"
    unfolding sim_inv_def approvals_ok_def by blast
  with r ses show ?thesis by simp
qed

theorem session_bound_to_approval_witness:
  "\<exists>r i. jm_get (sim_approvals (demo_sim 5)) (JStr ''approval_4'') = Some r \<and>
     apr_st r = Approval_APPROVED \<and> apr_sessionIssued r \<and>
     jm_get (sim_invites (demo_sim 5)) (JStr ''invite_2'') = Some i \<and>
     inv_roomId i = JStr ''room_1''"
  using session_bound_to_approval [OF demo_reach demo_session] by auto

text \<open>
  C2. An approval is worth one session: once a session was issued for it, every later attempt,
  in any continuation of the run and with any other inputs, is refused as unavailable and leaves
  the state unchanged.
\<close>

theorem one_session_per_approval:
  assumes "sim_reach h c s"
    and "sim_issueSession c u rid room i mu s = (Inr res, s')"
    and "\<not> jm_has (sim_sessions s) (JStr (''session_'' @ u))"
    and "sim_steps h c s' t"
  shows "sim_issueSession c u' rid room' i' mu' t = (Inl Err_SESSION_UNAVAILABLE, t)"
proof -
  obtain sid exp where res: "res = (sid, exp)" by (cases res)
  from assms(2) obtain r where r: "jm_get (sim_approvals s') rid = Some r" "apr_sessionIssued r"
    unfolding res sim_issue_Inr by auto
  have s': "s' = sim_exec h c (OpIssueSession u rid room i mu) s" using assms(2) by simp
  have kept: "\<exists>r. jm_get (sim_approvals t) rid = Some r \<and> apr_sessionIssued r"
    using assms(4) r
    by (induction rule: steps.induct) (auto dest!: approval_kept [OF refl])
  then obtain r' where "jm_get (sim_approvals t) rid = Some r'" "apr_sessionIssued r'" by blast
  then show ?thesis
    by (auto simp: sim_issueSession_def service_can_issue Let_def split: option.splits)
qed

theorem one_session_per_approval_witness:
  "fst (sim_issueSession default_sim_config ''9'' (JStr ''approval_4'') (JStr ''room_1'')
     (JStr ''invite_2'') (JStr ''uuid'') (demo_sim 5)) = Inl Err_SESSION_UNAVAILABLE"
proof -
  have step: "sim_issueSession default_sim_config ''5'' (JStr ''approval_4'') (JStr ''room_1'')
      (JStr ''invite_2'') (JStr ''uuid'') (demo_sim 4) =
      (Inr (JStr ''session_5'', 900000), demo_sim 5)"
    by code_simp
  have new: "\<not> jm_has (sim_sessions (demo_sim 4)) (JStr (''session_'' @ ''5''))" by code_simp
  show ?thesis
    by (simp add: one_session_per_approval [OF demo_reach step new steps_refl])
qed

section \<open>Decisions\<close>

definition decided :: "jsval \<times> approval_state \<Rightarrow> sim \<Rightarrow> bool" where
  "decided d s \<longleftrightarrow>
     (\<exists>r. jm_get (sim_approvals s) (fst d) = Some r \<and> apr_st r = snd d \<and> snd d \<noteq> Approval_PENDING)"

definition invite_revoked :: "jsval \<Rightarrow> sim \<Rightarrow> bool" where
  "invite_revoked k s \<longleftrightarrow> (\<exists>i. jm_get (sim_invites s) k = Some i \<and> inv_st i = Invite_REVOKED)"

interpretation decisions: permanent sim_initial sim_adm "sim_exec h c" "sim_inv c" decided
  for h :: "string \<Rightarrow> string" and c :: sim_config
  by unfold_locales (auto simp: decided_def dest!: approval_kept [OF refl])

interpretation revocations: permanent sim_initial sim_adm "sim_exec h c" "sim_inv c" invite_revoked
  for h :: "string \<Rightarrow> string" and c :: sim_config
  by unfold_locales (auto simp: invite_revoked_def dest!: invite_kept [OF refl])

text \<open>
  C3. A decision of the host is final: an approval that was approved, denied or blocked has the
  same state in every later state of the run, and every later decision on it is refused without
  a change of state.
\<close>

theorem decision_is_final:
  assumes "sim_reach h c s"
    and "sim_decideJoinRequest actor rid d s = (Inr st, s')"
    and "sim_steps h c s' t"
  shows "\<exists>r. jm_get (sim_approvals t) rid = Some r \<and> apr_st r = st \<and>
    (\<forall>actor' d'. \<exists>e. sim_decideJoinRequest actor' rid d' t = (Inl e, t))"
proof -
  have s': "s' = sim_exec h c (OpDecide actor rid d) s" using assms(2) by simp
  have "sim_reach h c s'" unfolding s' by (rule reach_step [OF assms(1)]) simp
  moreover have "decided (rid, st) s'"
    using assms(2) by (auto simp: sim_decide_Inr decided_def decision_state_Some)
  ultimately have "decided (rid, st) t"
    by (rule decisions.reach_steps_kept [OF _ assms(3)])
  then show ?thesis
    by (auto simp: decided_def sim_decideJoinRequest_def split: option.splits)
qed

theorem decision_is_final_witness:
  "\<exists>e. sim_decideJoinRequest (JStr ''host'') (JStr ''approval_4'') (JStr ''blocked'') (demo_sim 4) =
     (Inl e, demo_sim 4)"
proof -
  have "sim_decideJoinRequest (JStr ''host'') (JStr ''approval_4'') (JStr ''approved'') (demo_sim 3) =
      (Inr Approval_APPROVED, demo_sim 4)"
    by code_simp
  from decision_is_final [OF demo_reach this steps_refl] show ?thesis by blast
qed

text \<open>
  Only the host of the room decides: when a step changes the state of an existing approval,
  the step was a decision, sent under the non-empty id of the host of the approval's room, the
  approval was pending, and its new state is the one the decision names.
\<close>

theorem only_host_decides:
  assumes "sim_adm a s"
    and "jm_get (sim_approvals s) k = Some r"
    and "jm_get (sim_approvals (sim_exec h c a s)) k = Some r'"
    and "apr_st r' \<noteq> apr_st r"
  shows "\<exists>actor d rm. a = OpDecide actor k d \<and> jm_get (sim_rooms s) (apr_roomId r) = Some rm \<and>
    room_hostId rm = actor \<and> truthy actor \<and> apr_st r = Approval_PENDING \<and>
    decision_state d = Some (apr_st r')"
  using refl [of "sim_exec h c a s"]
proof (cases rule: sim_exec_cases)
  case (Join u tok f mu d i rm)
  with assms(1,2) have "k \<noteq> JStr (''approval_'' @ u)" by auto
  with Join(7) assms show ?thesis by simp
qed (use assms in \<open>auto split: if_splits\<close>)

theorem only_host_decides_witness:
  "\<exists>actor d. OpDecide (JStr ''host'') (JStr ''approval_4'') (JStr ''approved'') =
     OpDecide actor (JStr ''approval_4'') d \<and> truthy actor"
proof -
  let ?a = "OpDecide (JStr ''host'') (JStr ''approval_4'') (JStr ''approved'')"
  let ?r = "\<lparr>apr_id = JStr ''approval_4'', apr_roomId = JStr ''room_1'',
    apr_inviteId = JStr ''invite_2'', apr_friendId = JStr ''friend'',
    apr_minecraftUuid = JStr ''uuid'', apr_displayName = JStr ''Kim'',
    apr_st = Approval_PENDING, apr_createdAt = 0, apr_sessionIssued = False\<rparr>"
  have before: "jm_get (sim_approvals (demo_sim 3)) (JStr ''approval_4'') = Some ?r"
    by code_simp
  have after: "jm_get (sim_approvals (sim_exec id default_sim_config ?a (demo_sim 3)))
      (JStr ''approval_4'') = Some (?r\<lparr>apr_st := Approval_APPROVED\<rparr>)"
    by code_simp
  show ?thesis using only_host_decides [OF _ before after] by simp
qed

section \<open>Revocation\<close>

lemma resolve_revoked:
  assumes "invites_ok s" and "invite_revoked k s" and "resolveInviteByToken h tok s = Some i"
    and "inv_id i = k"
  shows "\<not> isInviteActive now (Some i)"
  using resolve_invite_ok [OF assms(1,3)] assms(2,4)
  by (auto simp: invite_revoked_def isInviteActive_def)

text \<open>
  C4. Revocation is final and complete: once the host revoked an invite, in every later state of
  the run no token that leads to it shows anything of the room or opens a join request, and no
  session is issued under it, even for approvals given before.
\<close>

theorem revoked_invite_is_dead:
  assumes "sim_reach h c s"
    and "sim_revokeInvite actor k s = (Inr (), s')"
    and "sim_steps h c s' t"
  shows "(\<forall>tok i. resolveInviteByToken h tok t = Some i \<longrightarrow> inv_id i = k \<longrightarrow>
      sim_readSafeInviteStatus h tok t = SafeUnavailable Err_INVITE_UNAVAILABLE \<and>
      (\<forall>u f mu d. sim_createJoinRequest h c u tok f mu d t = (Inl Err_INVITE_UNAVAILABLE, t))) \<and>
    (\<forall>u rid room mu. sim_issueSession c u rid room k mu t = (Inl Err_SESSION_UNAVAILABLE, t))"
proof -
  have s': "s' = sim_exec h c (OpRevokeInvite actor k) s" using assms(2) by simp
  have reach: "sim_reach h c s'" unfolding s' by (rule reach_step [OF assms(1)]) simp
  moreover have "invite_revoked k s'"
    using assms(2) by (auto simp: sim_revoke_Inr invite_revoked_def)
  ultimately have dead: "invite_revoked k t"
    by (rule revocations.reach_steps_kept [OF _ assms(3)])
  have "sim_inv c t"
    by (rule sim_machine.reach_inv [OF reach_steps [OF assms(3) reach]])
  then have ok: "invites_ok t" by (simp add: sim_inv_def)
  have token: "sim_readSafeInviteStatus h tok t = SafeUnavailable Err_INVITE_UNAVAILABLE \<and>
      sim_createJoinRequest h c u tok f mu d t = (Inl Err_INVITE_UNAVAILABLE, t)"
    if "resolveInviteByToken h tok t = Some i" "inv_id i = k" for tok i u f mu d
    using that resolve_revoked [OF ok dead that]
    by (simp add: sim_readSafeInviteStatus_def sim_createJoinRequest_def redactInviteStatus_def
        SAFE_INVITE_STATUS_def)
  have "sim_issueSession c u rid room k mu t = (Inl Err_SESSION_UNAVAILABLE, t)" for u rid room mu
    using dead
    by (auto simp: sim_issueSession_def service_can_issue invite_revoked_def isInviteActive_def
        Let_def split: option.splits)
  with token show ?thesis by blast
qed

theorem revoked_invite_is_dead_witness:
  "sim_issueSession default_sim_config ''5'' (JStr ''approval_4'') (JStr ''room_1'')
     (JStr ''invite_2'') (JStr ''uuid'')
     (sim_exec id default_sim_config (OpRevokeInvite (JStr ''host'') (JStr ''invite_2'')) (demo_sim 4)) =
   (Inl Err_SESSION_UNAVAILABLE,
     sim_exec id default_sim_config (OpRevokeInvite (JStr ''host'') (JStr ''invite_2'')) (demo_sim 4))"
proof -
  let ?s = "sim_exec id default_sim_config (OpRevokeInvite (JStr ''host'') (JStr ''invite_2''))
    (demo_sim 4)"
  have "fst (sim_revokeInvite (JStr ''host'') (JStr ''invite_2'') (demo_sim 4)) = Inr ()"
    by code_simp
  then have "sim_revokeInvite (JStr ''host'') (JStr ''invite_2'') (demo_sim 4) = (Inr (), ?s)"
    by (simp add: prod_eq_iff)
  from revoked_invite_is_dead [OF demo_reach this steps_refl] show ?thesis by blast
qed

section \<open>The whole way\<close>

text \<open>
  C5. The way from a room to a session is open: from any reachable state, a host with a non-empty
  id who opens a room, invites with a non-empty token, and approves the request of the friend who
  used the token, obtains a session for that friend, issued at the current time, provided the
  lifetimes are positive and the drawn identifiers are new.
\<close>

theorem room_to_session:
  assumes "truthy host" and "tok \<noteq> []"
    and "0 < cfg_inviteTtlMs c" and "0 \<le> cfg_presenceTtlMs c"
    and "sim_createRoom u1 host al mc pk s = (room, s1)"
    and "sim_createInvite h c tok u2 hu host (room_id room) s1 = (res, s2)"
    and "sim_createJoinRequest h c u3 (Some tok) friend mu name s2 = (req, s3)"
    and "sim_decideJoinRequest host (JStr (''approval_'' @ u3)) (JStr ''approved'') s3 = (dec, s4)"
  shows "res = Inr \<lparr>ci_inviteId = JStr (''invite_'' @ u2), ci_handle = JStr (''invite_handle_'' @ hu),
      ci_token = tok, ci_expiresAt = sim_now s + cfg_inviteTtlMs c\<rparr> \<and>
    req = Inr (JStr (''approval_'' @ u3), Approval_PENDING) \<and> dec = Inr Approval_APPROVED \<and>
    fst (sim_issueSession c u5 (JStr (''approval_'' @ u3)) (room_id room)
      (JStr (''invite_'' @ u2)) mu s4) =
      Inr (JStr (''session_'' @ u5), sim_now s + cfg_sessionTtlMs c)"
proof -
  define room0 where "room0 = \<lparr>room_id = JStr (''room_'' @ u1), room_hostId = host,
    room_alias = al, room_minecraftVersion = mc, room_packProfileName = pk,
    room_st = Room_OPEN, room_createdAt = sim_now s, room_hostLastSeenAt = sim_now s\<rparr>"
  define i0 where "i0 = \<lparr>inv_id = JStr (''invite_'' @ u2), inv_roomId = JStr (''room_'' @ u1),
    inv_tokenHash = h tok, inv_st = Invite_ACTIVE, inv_createdAt = sim_now s,
    inv_expiresAt = sim_now s + cfg_inviteTtlMs c\<rparr>"
  define r0 where "r0 = \<lparr>apr_id = JStr (''approval_'' @ u3), apr_roomId = JStr (''room_'' @ u1),
    apr_inviteId = JStr (''invite_'' @ u2), apr_friendId = friend, apr_minecraftUuid = mu,
    apr_displayName = name, apr_st = Approval_PENDING, apr_createdAt = sim_now s,
    apr_sessionIssued = False\<rparr>"
  have room: "room = room0" and s1: "s1 = s\<lparr>sim_rooms := jm_set (JStr (''room_'' @ u1)) room0 (sim_rooms s)\<rparr>"
    using assms(5) by (auto simp: sim_createRoom_def Let_def room0_def)
  have s2: "s2 = s1\<lparr>sim_invites := jm_set (JStr (''invite_'' @ u2)) i0 (sim_invites s1),
      sim_rawTokens := jm_set (h tok) (JStr (''invite_'' @ u2)) (sim_rawTokens s1)\<rparr>"
    and res: "res = Inr \<lparr>ci_inviteId = JStr (''invite_'' @ u2),
      ci_handle = JStr (''invite_handle_'' @ hu), ci_token = tok,
      ci_expiresAt = sim_now s + cfg_inviteTtlMs c\<rparr>"
    using assms(1,6) unfolding room s1
    by (auto simp: sim_createInvite_def createInviteRecord_def host_may_iff room0_def i0_def Let_def)
  have online: "isHostOnline c (sim_now s) room0"
    using assms(4) by (simp add: isHostOnline_def room0_def)
  have resolve: "resolveInviteByToken h (Some tok) s2 = Some i0"
    using assms(2) by (simp add: resolveInviteByToken_def s2)
  have active: "isInviteActive (sim_now s) (Some i0)"
    using assms(3) by (simp add: isInviteActive_def i0_def)
  have rooms2: "jm_get (sim_rooms s2) (inv_roomId i0) = Some room0"
    by (simp add: s2 s1 i0_def)
  have now2: "sim_now s2 = sim_now s" by (simp add: s2 s1)
  have s3: "s3 = s2\<lparr>sim_approvals := jm_set (JStr (''approval_'' @ u3)) r0 (sim_approvals s2)\<rparr>"
    and req: "req = Inr (JStr (''approval_'' @ u3), Approval_PENDING)"
    using assms(7) resolve active rooms2 online friend_can_join
    by (auto simp: sim_createJoinRequest_def now2 Let_def r0_def room0_def i0_def)
  have approved: "decision_state (JStr ''approved'') = Some Approval_APPROVED"
    by (simp add: decision_state_Some enum_strs)
  have rooms3: "jm_get (sim_rooms s3) (apr_roomId r0) = Some room0"
    using rooms2 by (simp add: s3 r0_def i0_def)
  have host: "room_hostId room0 = host" by (simp add: room0_def)
  have "sim_decideJoinRequest host (JStr (''approval_'' @ u3)) (JStr ''approved'') s3 =
      (Inr Approval_APPROVED, s3\<lparr>sim_approvals := jm_set (JStr (''approval_'' @ u3))
        (r0\<lparr>apr_st := Approval_APPROVED\<rparr>) (sim_approvals s3)\<rparr>)"
    using rooms3 host assms(1) approved
    by (simp add: sim_decide_Inr s3) (simp add: r0_def)
  with assms(8) have dec: "dec = Inr Approval_APPROVED"
    and s4: "s4 = s3\<lparr>sim_approvals := jm_set (JStr (''approval_'' @ u3))
        (r0\<lparr>apr_st := Approval_APPROVED\<rparr>) (sim_approvals s3)\<rparr>"
    by simp_all
  have "fst (sim_issueSession c u5 (JStr (''approval_'' @ u3)) (JStr (''room_'' @ u1))
      (JStr (''invite_'' @ u2)) mu s4) = Inr (JStr (''session_'' @ u5), sim_now s + cfg_sessionTtlMs c)"
    using active online
    by (simp add: sim_issueSession_def s4 s3 s2 s1 r0_def i0_def service_can_issue Let_def)
  with res req dec show ?thesis by (simp add: room room0_def)
qed

theorem room_to_session_witness:
  "fst (sim_issueSession default_sim_config ''5'' (JStr ''approval_4'') (JStr ''room_1'')
     (JStr ''invite_2'') (JStr ''uuid'') (demo_sim 4)) = Inr (JStr ''session_5'', 900000)"
proof -
  have 1: "truthy (JStr ''host'')" "''tok'' \<noteq> []" "0 < cfg_inviteTtlMs default_sim_config"
      "0 \<le> cfg_presenceTtlMs default_sim_config"
    by (simp_all add: default_sim_config_def)
  let ?s0 = "createControlPlaneSimulation 0"
  have cfg: "cfg_sessionTtlMs default_sim_config = 900000" by (simp add: default_sim_config_def)
  have now: "sim_now ?s0 = 0" by (simp add: createControlPlaneSimulation_def)
  let ?room = "fst (sim_createRoom ''1'' (JStr ''host'') (JStr ''Cozy'') (JStr ''1.21.1'') (JStr ''pack'') ?s0)"
  have a: "sim_createRoom ''1'' (JStr ''host'') (JStr ''Cozy'') (JStr ''1.21.1'') (JStr ''pack'') ?s0 =
      (?room, demo_sim 1)"
    by (simp add: demo_sim_def demo_ops_def prod_eq_iff)
  have room: "room_id ?room = JStr ''room_1''" by (simp add: sim_createRoom_def Let_def)
  have b: "sim_createInvite id default_sim_config ''tok'' ''2'' ''3'' (JStr ''host'') (room_id ?room)
      (demo_sim 1) = (fst (sim_createInvite id default_sim_config ''tok'' ''2'' ''3'' (JStr ''host'')
        (room_id ?room) (demo_sim 1)), demo_sim 2)"
    unfolding room by (simp add: demo_sim_def demo_ops_def prod_eq_iff)
  have c: "sim_createJoinRequest id default_sim_config ''4'' (Some ''tok'') (JStr ''friend'')
      (JStr ''uuid'') (JStr ''Kim'') (demo_sim 2) = (fst (sim_createJoinRequest id default_sim_config
        ''4'' (Some ''tok'') (JStr ''friend'') (JStr ''uuid'') (JStr ''Kim'') (demo_sim 2)), demo_sim 3)"
    by (simp add: demo_sim_def demo_ops_def prod_eq_iff)
  have d: "sim_decideJoinRequest (JStr ''host'') (JStr (''approval_'' @ ''4'')) (JStr ''approved'')
      (demo_sim 3) = (fst (sim_decideJoinRequest (JStr ''host'') (JStr (''approval_'' @ ''4''))
        (JStr ''approved'') (demo_sim 3)), demo_sim 4)"
    by (simp add: demo_sim_def demo_ops_def prod_eq_iff)
  from room_to_session [OF 1 a b c d, of "''5''"] show ?thesis
    by (simp add: room cfg now)
qed

end
