(* ===== verification/JsText.thy ===== *)
theory JsText
  imports Prelude "HOL-Library.Char_ord" "HOL-Library.Sublist"
begin

text \<open>
  The string methods and the regular expressions of JavaScript that the program uses.

  A regular expression is a term of \<open>re\<close>; \<open>rm\<close> is the backtracking matcher of the language
  definition: it lists the ways to match at a position in the order the engine tries them, so
  the first element of the list is the match. A position is the reversed text before it, the
  text after it and the captures so far. \<open>re_replace\<close> is \<open>replace\<close> with the flag \<open>g\<close> (and
  \<open>replaceAll\<close>), \<open>re_test\<close> is \<open>test\<close>. The flag \<open>i\<close> is built into the character predicates.
\<close>

section \<open>Characters\<close>

definition between :: "char \<Rightarrow> char \<Rightarrow> char \<Rightarrow> bool" where
  "between a b x \<longleftrightarrow> of_char a \<le> (of_char x :: nat) \<and> (of_char x :: nat) \<le> of_char b"

definition is_digit :: "char \<Rightarrow> bool" where
  "is_digit = between CHR ''0'' CHR ''9''"

definition is_upper :: "char \<Rightarrow> bool" where
  "is_upper = between CHR ''A'' CHR ''Z''"

definition is_lower :: "char \<Rightarrow> bool" where
  "is_lower = between CHR ''a'' CHR ''z''"

definition is_alnum :: "char \<Rightarrow> bool" where
  "is_alnum x \<longleftrightarrow> is_digit x \<or> is_upper x \<or> is_lower x"

definition is_hex :: "char \<Rightarrow> bool" where
  "is_hex x \<longleftrightarrow> is_digit x \<or> between CHR ''A'' CHR ''F'' x \<or> between CHR ''a'' CHR ''f'' x"

text \<open>\<open>\w\<close> and \<open>\s\<close> (tab, line feed, vertical tab, form feed, carriage return, space, no-break space)\<close>

definition is_word :: "char \<Rightarrow> bool" where
  "is_word x \<longleftrightarrow> is_alnum x \<or> x = CHR ''_''"

definition is_space :: "char \<Rightarrow> bool" where
  "is_space x \<longleftrightarrow> (of_char x :: nat) \<in> {9, 10, 11, 12, 13, 32, 160}"

text \<open>Upper case letters are those of ASCII and the accented ones from 192 to 222.\<close>

definition lower_char :: "char \<Rightarrow> char" where
  "lower_char x =
    (let n = of_char x :: nat in
     if is_upper x \<or> (192 \<le> n \<and> n \<le> 222 \<and> n \<noteq> 215) then char_of (n + 32) else x)"

definition toLowerCase :: "string \<Rightarrow> string" where
  "toLowerCase = map lower_char"

section \<open>String methods\<close>

fun js_startsWith :: "string \<Rightarrow> string \<Rightarrow> bool" where
  "js_startsWith s [] = True"
| "js_startsWith [] (p # ps) = False"
| "js_startsWith (x # xs) (p # ps) = (x = p \<and> js_startsWith xs ps)"

definition js_endsWith :: "string \<Rightarrow> string \<Rightarrow> bool" where
  "js_endsWith s p = js_startsWith (rev s) (rev p)"

fun js_includes :: "string \<Rightarrow> string \<Rightarrow> bool" where
  "js_includes [] p = (p = [])"
| "js_includes (x # xs) p = (js_startsWith (x # xs) p \<or> js_includes xs p)"

text \<open>\<open>s.replaceAll(p, r)\<close> for a non-empty string \<open>p\<close>; the callers test for emptiness.\<close>

function js_replaceAll :: "string \<Rightarrow> string \<Rightarrow> string \<Rightarrow> string" where
  "js_replaceAll p r [] = []"
| "js_replaceAll p r (x # xs) =
     (if p \<noteq> [] \<and> js_startsWith (x # xs) p then r @ js_replaceAll p r (drop (length p) (x # xs))
      else x # js_replaceAll p r xs)"
  by pat_completeness auto
termination
  by (relation "measure (\<lambda>(p, r, s). length s)") (auto simp: length_greater_0_conv)

text \<open>\<open>s.split(c)\<close> for a single character\<close>

fun js_split :: "char \<Rightarrow> string \<Rightarrow> string list" where
  "js_split c [] = [[]]"
| "js_split c (x # xs) =
     (if x = c then [] # js_split c xs
      else (case js_split c xs of [] \<Rightarrow> [[x]] | w # ws \<Rightarrow> (x # w) # ws))"

fun js_join :: "string \<Rightarrow> string list \<Rightarrow> string" where
  "js_join sep [] = []"
| "js_join sep [x] = x"
| "js_join sep (x # y # xs) = x @ sep @ js_join sep (y # xs)"

definition js_trim :: "string \<Rightarrow> string" where
  "js_trim s = rev (dropWhile is_space (rev (dropWhile is_space s)))"

lemma js_startsWith_prefix: "js_startsWith s p \<longleftrightarrow> prefix p s"
  by (induction s p rule: js_startsWith.induct) auto

lemma js_endsWith_suffix: "js_endsWith s p \<longleftrightarrow> suffix p s"
  by (simp add: js_endsWith_def js_startsWith_prefix suffix_to_prefix)

lemma js_includes_sublist: "js_includes s p \<longleftrightarrow> sublist p s"
proof (induction s)
  case (Cons x xs)
  then show ?case by (auto simp: js_startsWith_prefix sublist_Cons_right)
qed simp

lemma js_split_not_Nil: "js_split c s \<noteq> []"
  by (cases s) (auto split: list.splits)

lemma js_join_split: "js_join [c] (js_split c s) = s"
proof (induction s)
  case (Cons x xs)
  show ?case
  proof (cases "js_split c xs")
    case Nil
    then show ?thesis by (simp add: js_split_not_Nil)
  next
    case (Cons w ws)
    with \<open>js_join [c] (js_split c xs) = xs\<close> show ?thesis by (cases ws) auto
  qed
qed simp

section \<open>Regular expressions\<close>

datatype re =
    Eps
  | Chr "char \<Rightarrow> bool"
  | Cat re re
  | Alt re re
  | Rep nat "nat option" re
  | Cap nat re
  | Bol
  | Eol
  | WordB
  | NotBefore "char \<Rightarrow> bool"
  | NotAfter "char \<Rightarrow> bool"

type_synonym captures = "(nat, string) jsmap"
type_synonym rpos = "string \<times> string \<times> captures"

definition boundary :: "string \<Rightarrow> string \<Rightarrow> bool" where
  "boundary b a \<longleftrightarrow>
     (case b of [] \<Rightarrow> False | x # _ \<Rightarrow> is_word x) \<noteq> (case a of [] \<Rightarrow> False | x # _ \<Rightarrow> is_word x)"

fun rep_exact :: "nat \<Rightarrow> (rpos \<Rightarrow> rpos list) \<Rightarrow> rpos \<Rightarrow> rpos list" where
  "rep_exact 0 f st = [st]"
| "rep_exact (Suc n) f st = concat (map (rep_exact n f) (f st))"

text \<open>
  Greedy repetition beyond the minimum: at most \<open>n\<close> more rounds, each of which must consume
  a character (an empty round is refused, as the language definition says).
\<close>

fun rep_greedy :: "nat \<Rightarrow> (rpos \<Rightarrow> rpos list) \<Rightarrow> rpos \<Rightarrow> rpos list" where
  "rep_greedy 0 f st = [st]"
| "rep_greedy (Suc n) f st =
     concat (map (rep_greedy n f)
       (filter (\<lambda>st'. length (fst (snd st')) < length (fst (snd st))) (f st))) @ [st]"

primrec rm :: "re \<Rightarrow> rpos \<Rightarrow> rpos list" where
  "rm Eps st = [st]"
| "rm (Chr p) st = (case st of (b, a, c) \<Rightarrow>
     (case a of [] \<Rightarrow> [] | x # xs \<Rightarrow> if p x then [(x # b, xs, c)] else []))"
| "rm (Cat r s) st = concat (map (rm s) (rm r st))"
| "rm (Alt r s) st = rm r st @ rm s st"
| "rm (Rep lo hi r) st = concat (map
     (\<lambda>st'. rep_greedy (case hi of None \<Rightarrow> length (fst (snd st')) | Some h \<Rightarrow> h - lo) (rm r) st')
     (rep_exact lo (rm r) st))"
| "rm (Cap n r) st = map (\<lambda>(b', a', c').
     (b', a', jm_set n (take (length (fst (snd st)) - length a') (fst (snd st))) c')) (rm r st)"
| "rm Bol st = (if fst st = [] then [st] else [])"
| "rm Eol st = (if fst (snd st) = [] then [st] else [])"
| "rm WordB st = (if boundary (fst st) (fst (snd st)) then [st] else [])"
| "rm (NotBefore p) st =
     (case fst (snd st) of [] \<Rightarrow> [st] | x # _ \<Rightarrow> if p x then [] else [st])"
| "rm (NotAfter p) st = (case fst st of [] \<Rightarrow> [st] | x # _ \<Rightarrow> if p x then [] else [st])"

text \<open>Literals, with and without the flag \<open>i\<close>, alternatives and the usual repetitions.\<close>

fun lit :: "string \<Rightarrow> re" where
  "lit [] = Eps"
| "lit (x # xs) = Cat (Chr (\<lambda>y. y = x)) (lit xs)"

fun liti :: "string \<Rightarrow> re" where
  "liti [] = Eps"
| "liti (x # xs) = Cat (Chr (\<lambda>y. lower_char y = lower_char x)) (liti xs)"

fun alts :: "re list \<Rightarrow> re" where
  "alts [] = Chr (\<lambda>_. False)"
| "alts [r] = r"
| "alts (r # s # rs) = Alt r (alts (s # rs))"

fun cats :: "re list \<Rightarrow> re" where
  "cats [] = Eps"
| "cats [r] = r"
| "cats (r # s # rs) = Cat r (cats (s # rs))"

abbreviation star :: "re \<Rightarrow> re" where "star r \<equiv> Rep 0 None r"
abbreviation plus1 :: "re \<Rightarrow> re" where "plus1 r \<equiv> Rep 1 None r"
abbreviation opt :: "re \<Rightarrow> re" where "opt r \<equiv> Rep 0 (Some 1) r"

fun re_test_from :: "re \<Rightarrow> string \<Rightarrow> string \<Rightarrow> bool" where
  "re_test_from r b [] = (rm r (b, [], []) \<noteq> [])"
| "re_test_from r b (x # xs) = (rm r (b, x # xs, []) \<noteq> [] \<or> re_test_from r (x # b) xs)"

definition re_test :: "re \<Rightarrow> string \<Rightarrow> bool" where
  "re_test r s = re_test_from r [] s"

text \<open>
  \<open>s.replace(r, f)\<close> with the flag \<open>g\<close>: \<open>f\<close> gets the matched text and the captures. After an
  empty match the scan moves on by one character.
\<close>

function re_replace_from :: "re \<Rightarrow> (string \<Rightarrow> captures \<Rightarrow> string) \<Rightarrow> string \<Rightarrow> string \<Rightarrow> string" where
  "re_replace_from r f b [] = (case rm r (b, [], []) of [] \<Rightarrow> [] | (_, _, c) # _ \<Rightarrow> f [] c)"
| "re_replace_from r f b (x # xs) =
     (case rm r (b, x # xs, []) of
        [] \<Rightarrow> x # re_replace_from r f (x # b) xs
      | (b', a', c) # _ \<Rightarrow>
          if length a' < length (x # xs)
          then f (take (length (x # xs) - length a') (x # xs)) c @ re_replace_from r f b' a'
          else f [] c @ x # re_replace_from r f (x # b) xs)"
  by pat_completeness auto
termination
  by (relation "measure (\<lambda>(r, f, b, a). length a)") auto

definition re_replace :: "re \<Rightarrow> (string \<Rightarrow> captures \<Rightarrow> string) \<Rightarrow> string \<Rightarrow> string" where
  "re_replace r f s = re_replace_from r f [] s"

definition cap :: "captures \<Rightarrow> nat \<Rightarrow> string" where
  "cap c n = (case jm_get c n of None \<Rightarrow> [] | Some s \<Rightarrow> s)"

declare re_replace_from.simps [simp del]

subsection \<open>What every match satisfies\<close>

text \<open>A position belongs to a text; matching moves forward within the same text.\<close>

definition at_text :: "string \<Rightarrow> rpos \<Rightarrow> bool" where
  "at_text t st \<longleftrightarrow> rev (fst st) @ fst (snd st) = t"

definition forward :: "string \<Rightarrow> (rpos \<Rightarrow> rpos list) \<Rightarrow> bool" where
  "forward t f \<longleftrightarrow> (\<forall>st st'. at_text t st \<longrightarrow> st' \<in> set (f st) \<longrightarrow>
     at_text t st' \<and> length (fst (snd st')) \<le> length (fst (snd st)))"

lemma forwardD:
  "forward t f \<Longrightarrow> at_text t st \<Longrightarrow> st' \<in> set (f st) \<Longrightarrow> at_text t st'"
  "forward t f \<Longrightarrow> at_text t st \<Longrightarrow> st' \<in> set (f st) \<Longrightarrow>
     length (fst (snd st')) \<le> length (fst (snd st))"
  unfolding forward_def by blast+

lemma forward_idle: "(\<And>st. set (f st) \<subseteq> {st}) \<Longrightarrow> forward t f"
  unfolding forward_def by blast

lemma forward_rep_exact: "forward t f \<Longrightarrow> forward t (rep_exact n f)"
proof (induction n)
  case 0
  then show ?case by (simp add: forward_def)
next
  case (Suc n)
  then have IH: "forward t (rep_exact n f)" by simp
  show ?case
    unfolding forward_def
  proof (intro allI impI)
    fix st st'
    assume st: "at_text t st" and "st' \<in> set (rep_exact (Suc n) f st)"
    then obtain m where m: "m \<in> set (f st)" "st' \<in> set (rep_exact n f m)" by auto
    note m1 = forwardD [OF Suc.prems st m(1)]
    from m1 forwardD [OF IH m1(1) m(2)]
    show "at_text t st' \<and> length (fst (snd st')) \<le> length (fst (snd st))" by simp
  qed
qed

lemma forward_rep_greedy: "forward t f \<Longrightarrow> forward t (rep_greedy n f)"
proof (induction n)
  case 0
  then show ?case by (simp add: forward_def)
next
  case (Suc n)
  then have IH: "forward t (rep_greedy n f)" by simp
  show ?case
    unfolding forward_def
  proof (intro allI impI)
    fix st st'
    assume st: "at_text t st" and "st' \<in> set (rep_greedy (Suc n) f st)"
    then consider "st' = st" | m where "m \<in> set (f st)" "st' \<in> set (rep_greedy n f m)"
      by auto
    then show "at_text t st' \<and> length (fst (snd st')) \<le> length (fst (snd st))"
    proof cases
      case 1
      with st show ?thesis by simp
    next
      case 2
      note m1 = forwardD [OF Suc.prems st 2(1)]
      from m1 forwardD [OF IH m1(1) 2(2)] show ?thesis by simp
    qed
  qed
qed

lemma forward_rm: "forward t (rm r)"
proof (induction r)
  case (Chr p)
  show ?case by (auto simp: forward_def at_text_def split: list.splits if_splits)
next
  case (Cat r s)
  show ?case
    unfolding forward_def
  proof (intro allI impI)
    fix st st'
    assume st: "at_text t st" and "st' \<in> set (rm (Cat r s) st)"
    then obtain m where m: "m \<in> set (rm r st)" "st' \<in> set (rm s m)" by auto
    note m1 = forwardD [OF Cat(1) st m(1)]
    from m1 forwardD [OF Cat(2) m1(1) m(2)]
    show "at_text t st' \<and> length (fst (snd st')) \<le> length (fst (snd st))" by simp
  qed
next
  case (Rep lo hi r)
  show ?case
    unfolding forward_def
  proof (intro allI impI)
    fix st st'
    assume st: "at_text t st" and "st' \<in> set (rm (Rep lo hi r) st)"
    then obtain m n where m: "m \<in> set (rep_exact lo (rm r) st)" "st' \<in> set (rep_greedy n (rm r) m)"
      by auto
    note m1 = forwardD [OF forward_rep_exact [OF Rep] st m(1)]
    from m1 forwardD [OF forward_rep_greedy [OF Rep] m1(1) m(2)]
    show "at_text t st' \<and> length (fst (snd st')) \<le> length (fst (snd st))" by simp
  qed
next
  case (Cap n r)
  show ?case
    unfolding forward_def
  proof (intro allI impI)
    fix st st'
    assume st: "at_text t st" and "st' \<in> set (rm (Cap n r) st)"
    then obtain m where m: "m \<in> set (rm r st)" "fst st' = fst m" "fst (snd st') = fst (snd m)"
      by (auto split: prod.splits)
    from forwardD [OF Cap st m(1)] m(2,3)
    show "at_text t st' \<and> length (fst (snd st')) \<le> length (fst (snd st))"
      by (simp add: at_text_def)
  qed
next
  case (Alt r s)
  show ?case
    unfolding forward_def
  proof (intro allI impI)
    fix st st'
    assume st: "at_text t st" and "st' \<in> set (rm (Alt r s) st)"
    then consider "st' \<in> set (rm r st)" | "st' \<in> set (rm s st)" by auto
    then show "at_text t st' \<and> length (fst (snd st')) \<le> length (fst (snd st))"
      using forwardD [OF Alt(1) st] forwardD [OF Alt(2) st] by cases simp_all
  qed
qed (rule forward_idle, auto split: list.splits if_splits)+

text \<open>The rounds granted to an unbounded greedy repetition are enough: more change nothing.\<close>

lemma rep_greedy_enough:
  "length (fst (snd st)) \<le> n \<Longrightarrow>
     rep_greedy (Suc n) f st = rep_greedy n f st"
proof (induction n arbitrary: st)
  case 0
  then show ?case by simp
next
  case (Suc n)
  have eq: "map (rep_greedy (Suc n) f) ys = map (rep_greedy n f) ys"
    if "\<And>y. y \<in> set ys \<Longrightarrow> length (fst (snd y)) < length (fst (snd st))" for ys
  proof (rule map_cong [OF refl])
    fix y
    assume "y \<in> set ys"
    with that Suc.prems have "length (fst (snd y)) \<le> n" by fastforce
    then show "rep_greedy (Suc n) f y = rep_greedy n f y" by (rule Suc.IH)
  qed
  have "map (rep_greedy (Suc n) f) (filter (\<lambda>st'. length (fst (snd st')) < length (fst (snd st))) (f st)) =
      map (rep_greedy n f) (filter (\<lambda>st'. length (fst (snd st')) < length (fst (snd st))) (f st))"
    by (rule eq) simp
  then show ?case by (simp only: rep_greedy.simps)
qed

text \<open>A text without a match is unchanged.\<close>

lemma re_replace_from_no_match:
  "\<not> re_test_from r b a \<Longrightarrow> re_replace_from r f b a = a"
  by (induction r b a rule: re_test_from.induct) (simp_all add: re_replace_from.simps)

lemma re_replace_no_match: "\<not> re_test r s \<Longrightarrow> re_replace r f s = s"
  by (simp add: re_test_def re_replace_def re_replace_from_no_match)

text \<open>
  A rule that needs a character the text does not have cannot match anywhere: \<open>cannot t r\<close> finds
  this out from the expression.
\<close>

primrec cannot :: "string \<Rightarrow> re \<Rightarrow> bool" where
  "cannot t Eps = False"
| "cannot t (Chr p) = list_all (\<lambda>x. \<not> p x) t"
| "cannot t (Cat r s) = (cannot t r \<or> cannot t s)"
| "cannot t (Alt r s) = (cannot t r \<and> cannot t s)"
| "cannot t (Rep lo hi r) = (0 < lo \<and> cannot t r)"
| "cannot t (Cap n r) = cannot t r"
| "cannot t Bol = False"
| "cannot t Eol = False"
| "cannot t WordB = False"
| "cannot t (NotBefore p) = False"
| "cannot t (NotAfter p) = False"

lemma cannot_rm: "cannot t r \<Longrightarrow> at_text t st \<Longrightarrow> rm r st = []"
proof (induction r arbitrary: st)
  case (Chr p)
  then show ?case by (auto simp: at_text_def list_all_iff split: prod.splits list.splits)
next
  case (Cat r s)
  then show ?case
  proof (cases "cannot t r")
    case False
    with Cat.prems have "cannot t s" by simp
    then have "rm s m = []" if "m \<in> set (rm r st)" for m
      using Cat.IH(2) forwardD(1) [OF forward_rm Cat.prems(2) that] by blast
    then show ?thesis by simp
  qed simp
next
  case (Rep lo hi r)
  then obtain n where "lo = Suc n" by (cases lo) auto
  with Rep show ?case by simp
qed (auto split: prod.splits)

lemma cannot_test: "cannot t r \<Longrightarrow> \<not> re_test r t"
proof -
  assume c: "cannot t r"
  have "\<not> re_test_from r b a" if "rev b @ a = t" for b a
    using that
  proof (induction a arbitrary: b)
    case Nil
    then show ?case using cannot_rm [OF c, of "(b, [], [])"] by (simp add: at_text_def)
  next
    case (Cons x a)
    then show ?case using cannot_rm [OF c, of "(b, x # a, [])"] Cons.IH [of "x # b"]
      by (simp add: at_text_def)
  qed
  then show ?thesis by (simp add: re_test_def)
qed

text \<open>A chain of replacements, as the redaction functions apply them, leaves such a text as it is.\<close>

definition replace_rules :: "(re \<times> (captures \<Rightarrow> string)) list \<Rightarrow> string \<Rightarrow> string" where
  "replace_rules rules s = fold (\<lambda>(r, repl) t. re_replace r (\<lambda>_ c. repl c) t) rules s"

lemma replace_rules_id:
  "list_all (\<lambda>(r, repl). cannot t r) rules \<Longrightarrow> replace_rules rules t = t"
  unfolding replace_rules_def
  by (induction rules) (auto simp: re_replace_no_match cannot_test)

end
