(* ===== verification/JsData.thy ===== *)
theory JsData
  imports JsText
begin

text \<open>
  Plain data: property lookup and spreading of objects, \<open>String(v)\<close>, \<open>JSON.stringify\<close> and
  the round trip through JSON, and one recursion over nested values (\<open>js_walk\<close>) of which the
  program's sanitising and redacting functions are instances.
\<close>

section \<open>Objects\<close>

text \<open>\<open>v.k\<close>, and \<open>v?.k\<close> where \<open>v\<close> may be absent: a missing property is \<open>undefined\<close>.\<close>

fun jget :: "jsval \<Rightarrow> string \<Rightarrow> jsval" where
  "jget (JObj kvs) k = (case jm_get kvs k of None \<Rightarrow> JUndef | Some v \<Rightarrow> v)"
| "jget _ k = JUndef"

text \<open>\<open>{ ...v, k: x }\<close>, and \<open>v.k = x\<close> on an object of one's own\<close>

fun jput :: "string \<Rightarrow> jsval \<Rightarrow> jsval \<Rightarrow> jsval" where
  "jput k x (JObj kvs) = JObj (jm_set k x kvs)"
| "jput k x v = v"

fun is_obj :: "jsval \<Rightarrow> bool" where
  "is_obj (JObj kvs) = True"
| "is_obj _ = False"

lemma jget_jput [simp]: "is_obj v \<Longrightarrow> jget (jput k x v) k' = (if k' = k then x else jget v k')"
  by (cases v) auto

lemma is_obj_jput [simp]: "is_obj (jput k x v) = is_obj v"
  by (cases v) auto

section \<open>Numbers and strings\<close>

fun digits :: "nat \<Rightarrow> string" where
  "digits n = (if n < 10 then [char_of (48 + n)] else digits (n div 10) @ [char_of (48 + n mod 10)])"

declare digits.simps [simp del]

definition int_str :: "int \<Rightarrow> string" where
  "int_str n = (if n < 0 then CHR ''-'' # digits (nat (- n)) else digits (nat n))"

fun undigits :: "string \<Rightarrow> nat" where
  "undigits [] = 0"
| "undigits (x # xs) = (of_char x - 48) * 10 ^ length xs + undigits xs"

lemma undigits_snoc: "undigits (xs @ [x]) = undigits xs * 10 + (of_char x - 48)"
  by (induction xs) (simp_all add: algebra_simps)

lemma undigits_digits [simp]: "undigits (digits n) = n"
proof (induction n rule: digits.induct)
  case (1 n)
  show ?case
  proof (cases "n < 10")
    case True
    then show ?thesis by (simp add: digits.simps [of n])
  next
    case False
    with 1 show ?thesis by (simp add: digits.simps [of n] undigits_snoc)
  qed
qed

lemma inj_digits: "inj digits"
  by (metis injI undigits_digits)

lemma digits_all: "x \<in> set (digits n) \<Longrightarrow> is_digit x"
proof (induction n rule: digits.induct)
  case (1 n)
  have d: "is_digit (char_of (48 + k))" if "k < 10" for k :: nat
    using that by (simp add: is_digit_def between_def)
  from 1 show ?case
    by (cases "n < 10") (auto simp: digits.simps [of n] d)
qed

fun js_string :: "jsval \<Rightarrow> string" where
  "js_string JUndef = ''undefined''"
| "js_string JNull = ''null''"
| "js_string (JBool b) = (if b then ''true'' else ''false'')"
| "js_string (JNum n) = int_str n"
| "js_string (JFrac x) = x"
| "js_string (JStr s) = s"
| "js_string (JArr xs) = js_join '','' (map (\<lambda>v. if nullish v then [] else js_string v) xs)"
| "js_string (JObj kvs) = ''[object Object]''"

section \<open>JSON\<close>

definition hex_char :: "nat \<Rightarrow> char" where
  "hex_char n = (if n < 10 then char_of (48 + n) else char_of (87 + n))"

definition json_char :: "char \<Rightarrow> string" where
  "json_char x =
    (let n = of_char x :: nat in
     if n = 34 then [CHR 0x5C, CHR 0x22] else if n = 92 then [CHR 0x5C, CHR 0x5C]
     else if n = 8 then [CHR 0x5C, CHR ''b''] else if n = 12 then [CHR 0x5C, CHR ''f'']
     else if n = 10 then [CHR 0x5C, CHR ''n''] else if n = 13 then [CHR 0x5C, CHR ''r'']
     else if n = 9 then [CHR 0x5C, CHR ''t'']
     else if n < 32 then [CHR 0x5C, CHR ''u'', CHR ''0'', CHR ''0'', hex_char (n div 16), hex_char (n mod 16)]
     else [x])"

definition json_str :: "string \<Rightarrow> string" where
  "json_str s = [CHR 0x22] @ concat (map json_char s) @ [CHR 0x22]"

text \<open>
  \<open>JSON.stringify(v)\<close> without indentation: \<open>None\<close> for \<open>undefined\<close>; properties that are
  \<open>undefined\<close> are left out, and such array elements print as \<open>null\<close>.
\<close>

fun json :: "jsval \<Rightarrow> string option"
and json_elems :: "jsval list \<Rightarrow> string list"
and json_props :: "(string \<times> jsval) list \<Rightarrow> string list" where
  "json JUndef = None"
| "json JNull = Some ''null''"
| "json (JBool b) = Some (if b then ''true'' else ''false'')"
| "json (JNum n) = Some (int_str n)"
| "json (JFrac x) = Some x"
| "json (JStr s) = Some (json_str s)"
| "json (JArr xs) = Some (''['' @ js_join '','' (json_elems xs) @ '']'')"
| "json (JObj kvs) = Some (''{'' @ js_join '','' (json_props kvs) @ ''}'')"
| "json_elems [] = []"
| "json_elems (v # vs) = (case json v of None \<Rightarrow> ''null'' | Some t \<Rightarrow> t) # json_elems vs"
| "json_props [] = []"
| "json_props ((k, v) # kvs) =
     (case json v of None \<Rightarrow> json_props kvs
      | Some t \<Rightarrow> (json_str k @ '':'' @ t) # json_props kvs)"

text \<open>The UTF-8 length of a text: two bytes for the code units from 128 on.\<close>

definition utf8_length :: "string \<Rightarrow> nat" where
  "utf8_length s = sum_list (map (\<lambda>x. if (of_char x :: nat) < 128 then 1 else 2) s)"

text \<open>\<open>JSON.parse(JSON.stringify(v))\<close> of a value that is not \<open>undefined\<close>\<close>

fun json_clone :: "jsval \<Rightarrow> jsval"
and json_clone_elems :: "jsval list \<Rightarrow> jsval list"
and json_clone_props :: "(string \<times> jsval) list \<Rightarrow> (string \<times> jsval) list" where
  "json_clone (JArr xs) = JArr (json_clone_elems xs)"
| "json_clone (JObj kvs) = JObj (json_clone_props kvs)"
| "json_clone v = v"
| "json_clone_elems [] = []"
| "json_clone_elems (v # vs) = (if v = JUndef then JNull else json_clone v) # json_clone_elems vs"
| "json_clone_props [] = []"
| "json_clone_props ((k, v) # kvs) =
     (if v = JUndef then json_clone_props kvs else (k, json_clone v) # json_clone_props kvs)"

lemma json_clone_elems_map:
  "json_clone_elems vs = map (\<lambda>v. if v = JUndef then JNull else json_clone v) vs"
  by (induction vs) auto

lemma json_clone_props_map:
  "json_clone_props kvs = map (\<lambda>(k, v). (k, json_clone v)) (filter (\<lambda>(k, v). v \<noteq> JUndef) kvs)"
  by (induction kvs) auto

lemma json_clone_JUndef [simp]: "json_clone v = JUndef \<longleftrightarrow> v = JUndef"
  by (cases v) auto

lemma is_obj_json_clone [simp]: "is_obj (json_clone v) = is_obj v"
  by (cases v) auto

text \<open>A copy through JSON has the same properties, each copied; printing does not see the difference.\<close>

lemma json_clone_props_keys: "set (jm_keys (json_clone_props kvs)) \<subseteq> set (jm_keys kvs)"
  by (force simp: json_clone_props_map)

lemma map_of_json_clone_props:
  "distinct (jm_keys kvs) \<Longrightarrow> jm_get (json_clone_props kvs) k =
     (case jm_get kvs k of None \<Rightarrow> None | Some v \<Rightarrow> if v = JUndef then None else Some (json_clone v))"
proof (induction kvs)
  case (Cons p kvs)
  obtain k' v where p: "p = (k', v)" by (cases p)
  have "jm_get (json_clone_props kvs) k' = None" if "k' \<notin> set (jm_keys kvs)"
    using that json_clone_props_keys [of kvs] by (auto simp: map_of_eq_None_iff)
  with Cons p show ?case by auto
qed simp

lemma json_clone_idem:
  "json_clone (json_clone v) = json_clone v"
  "json_clone_elems (json_clone_elems vs) = json_clone_elems vs"
  "json_clone_props (json_clone_props kvs) = json_clone_props kvs"
  by (induction v and vs and kvs rule: json_clone_json_clone_elems_json_clone_props.induct) auto

lemma json_of_clone:
  "json (json_clone v) = json v"
  "json_elems (json_clone_elems vs) = json_elems vs"
  "json_props (json_clone_props kvs) = json_props kvs"
  by (induction v and vs and kvs rule: json_clone_json_clone_elems_json_clone_props.induct) (auto split: option.split)

section \<open>One recursion over nested values\<close>

text \<open>\<open>Object.fromEntries(kvs)\<close> and \<open>{ ...a, ...b }\<close>: of entries with one name the last counts.\<close>

definition fromEntries :: "(string \<times> jsval) list \<Rightarrow> (string \<times> jsval) list" where
  "fromEntries kvs = fold (\<lambda>(k, v) m. jm_set k v m) kvs []"

fun js_entries :: "jsval \<Rightarrow> (string \<times> jsval) list" where
  "js_entries (JObj kvs) = kvs"
| "js_entries _ = []"

definition js_spread :: "(string \<times> jsval) list \<Rightarrow> jsval \<Rightarrow> jsval" where
  "js_spread kvs v = JObj (fromEntries (kvs @ js_entries v))"

lemma set_jm_set: "set (jm_set k v m) \<subseteq> insert (k, v) (set m)"
  by (induction m) auto

lemma fold_jm_set_subset: "set (fold (\<lambda>(k, v) m. jm_set k v m) kvs m) \<subseteq> set kvs \<union> set m"
proof (induction kvs arbitrary: m)
  case (Cons p kvs)
  obtain k v where p: "p = (k, v)" by (cases p)
  from Cons [of "jm_set k v m"] set_jm_set [of k v m] show ?case by (auto simp: p)
qed simp

lemma set_fromEntries: "set (fromEntries kvs) \<subseteq> set kvs"
  using fold_jm_set_subset [of kvs "[]"] by (simp add: fromEntries_def)

lemma distinct_fromEntries: "distinct (jm_keys (fromEntries kvs))"
proof -
  have "distinct (jm_keys m) \<Longrightarrow> distinct (jm_keys (fold (\<lambda>(k, v) m. jm_set k v m) kvs m))" for m
    by (induction kvs arbitrary: m) auto
  then show ?thesis by (simp add: fromEntries_def)
qed

lemma jm_get_fromEntries: "jm_get (fromEntries kvs) k = jm_get (rev kvs) k"
proof -
  have "jm_get (fold (\<lambda>(k, v) m. jm_set k v m) kvs m) k = jm_get (rev kvs @ m) k" for m
    by (induction kvs arbitrary: m) (auto simp: map_add_def split: option.splits)
  then show ?thesis by (simp add: fromEntries_def)
qed

text \<open>
  \<open>leaf\<close> rewrites strings; an object keeps the entries for which \<open>keep\<close> holds, and \<open>ent\<close>
  may replace an entry as a whole (a secret by a label, a token by its hash) before the
  recursion reaches its value.
\<close>

fun js_walk :: "(string \<Rightarrow> string) \<Rightarrow> (string \<Rightarrow> jsval \<Rightarrow> bool) \<Rightarrow>
    (string \<Rightarrow> jsval \<Rightarrow> (string \<times> jsval) option) \<Rightarrow> jsval \<Rightarrow> jsval"
and js_walk_elems :: "(string \<Rightarrow> string) \<Rightarrow> (string \<Rightarrow> jsval \<Rightarrow> bool) \<Rightarrow>
    (string \<Rightarrow> jsval \<Rightarrow> (string \<times> jsval) option) \<Rightarrow> jsval list \<Rightarrow> jsval list"
and js_walk_props :: "(string \<Rightarrow> string) \<Rightarrow> (string \<Rightarrow> jsval \<Rightarrow> bool) \<Rightarrow>
    (string \<Rightarrow> jsval \<Rightarrow> (string \<times> jsval) option) \<Rightarrow> (string \<times> jsval) list \<Rightarrow> (string \<times> jsval) list"
where
  "js_walk leaf keep ent (JStr s) = JStr (leaf s)"
| "js_walk leaf keep ent (JArr xs) = JArr (js_walk_elems leaf keep ent xs)"
| "js_walk leaf keep ent (JObj kvs) = JObj (fromEntries (js_walk_props leaf keep ent kvs))"
| "js_walk leaf keep ent v = v"
| "js_walk_elems leaf keep ent [] = []"
| "js_walk_elems leaf keep ent (v # vs) = js_walk leaf keep ent v # js_walk_elems leaf keep ent vs"
| "js_walk_props leaf keep ent [] = []"
| "js_walk_props leaf keep ent ((k, v) # kvs) =
     (if \<not> keep k v then js_walk_props leaf keep ent kvs
      else (case ent k v of Some e \<Rightarrow> e | None \<Rightarrow> (k, js_walk leaf keep ent v)) #
        js_walk_props leaf keep ent kvs)"

text \<open>
  What the entries of a value satisfy at any depth: an entry is accepted by \<open>Q\<close> and its value is
  good again.
\<close>

fun props_ok :: "(string \<Rightarrow> jsval \<Rightarrow> bool) \<Rightarrow> jsval \<Rightarrow> bool"
and props_ok_elems :: "(string \<Rightarrow> jsval \<Rightarrow> bool) \<Rightarrow> jsval list \<Rightarrow> bool"
and props_ok_props :: "(string \<Rightarrow> jsval \<Rightarrow> bool) \<Rightarrow> (string \<times> jsval) list \<Rightarrow> bool" where
  "props_ok Q (JArr xs) = props_ok_elems Q xs"
| "props_ok Q (JObj kvs) = props_ok_props Q kvs"
| "props_ok Q v = True"
| "props_ok_elems Q [] = True"
| "props_ok_elems Q (v # vs) = (props_ok Q v \<and> props_ok_elems Q vs)"
| "props_ok_props Q [] = True"
| "props_ok_props Q ((k, v) # kvs) = (Q k v \<and> props_ok Q v \<and> props_ok_props Q kvs)"

lemma props_ok_elems_iff: "props_ok_elems Q vs \<longleftrightarrow> (\<forall>v \<in> set vs. props_ok Q v)"
  by (induction vs) auto

lemma props_ok_props_iff: "props_ok_props Q kvs \<longleftrightarrow> (\<forall>(k, v) \<in> set kvs. Q k v \<and> props_ok Q v)"
  by (induction kvs) auto

lemma props_ok_fromEntries: "props_ok_props Q kvs \<Longrightarrow> props_ok_props Q (fromEntries kvs)"
  using set_fromEntries [of kvs] by (fastforce simp: props_ok_props_iff)

lemma props_ok_jput: "props_ok Q v \<Longrightarrow> Q k x \<Longrightarrow> props_ok Q x \<Longrightarrow> props_ok Q (jput k x v)"
  using set_jm_set [of k x] by (cases v) (fastforce simp: props_ok_props_iff)+

lemma props_ok_walk:
  assumes "\<And>k v w. ent k v = None \<Longrightarrow> Q k w"
    and "\<And>k v k' v'. ent k v = Some (k', v') \<Longrightarrow> Q k' v' \<and> props_ok Q v'"
  shows "props_ok Q (js_walk leaf keep ent v)"
    and "props_ok_elems Q (js_walk_elems leaf keep ent vs)"
    and "props_ok_props Q (js_walk_props leaf keep ent kvs)"
  using assms
  by (induction leaf keep ent v and leaf keep ent vs and leaf keep ent kvs
      rule: js_walk_js_walk_elems_js_walk_props.induct)
    (auto intro: props_ok_fromEntries split: option.split prod.splits)

lemma props_ok_clone:
  assumes "\<And>k v. Q k v = Q k (json_clone v)"
  shows "props_ok Q v \<Longrightarrow> props_ok Q (json_clone v)"
    and "props_ok_elems Q vs \<Longrightarrow> props_ok_elems Q (json_clone_elems vs)"
    and "props_ok_props Q kvs \<Longrightarrow> props_ok_props Q (json_clone_props kvs)"
  using assms
  by (induction v and vs and kvs rule: json_clone_json_clone_elems_json_clone_props.induct) auto

end
