(* ===== verification/Relay.thy ===== *)
theory Relay
  imports JsData Machine
begin

text \<open>
  \<open>services/relay/src/relay-simulation.mjs\<close>: host tunnels, friend streams, quotas, metrics
  and the redacted event log. The closure variables of \<open>createRelaySimulation\<close> are the fields
  of \<open>relay\<close>; \<open>hostCredentials\<close> and \<open>quotas\<close> are fixed at creation (\<open>relay_config\<close>).

  \<^item> Session objects are shared: the map \<open>sessions\<close> and a request in flight may hold the same
    object, and \<open>session.consumedAt = ...\<close> writes to it. They live in a store
    (\<open>rl_store\<close>, object number to object) and \<open>rl_sessions\<close> maps ids to object numbers.
  \<^item> \<open>options.sessionService\<close> is not part of this code: what its \<open>validateSession\<close> answered
    is an argument (\<open>service_answer\<close>) of the operations that use it.
  \<^item> What \<open>randomUUID\<close> draws is an argument.
  \<^item> A time that may be missing from a session is an \<open>int option\<close>: comparisons with
    \<open>undefined\<close> are false.
\<close>

section \<open>Reasons, quotas, configuration\<close>

datatype relay_failure =
    UNAUTHENTICATED | SESSION_EXPIRED | CROSS_ROOM | WRONG_INVITE | SESSION_REPLAYED | WRONG_UUID
  | WRONG_FRIEND | WRONG_HOST | HOST_TUNNEL_UNAUTHORIZED | HOST_TUNNEL_CONFLICT
  | HOST_TUNNEL_UNAVAILABLE | HOST_TUNNEL_CLOSED | OPEN_PROXY_BLOCKED | INVALID_TRANSFER
  | DISCONNECT_RETRY_EXHAUSTED | ROOM_SIZE_QUOTA | SESSION_DURATION_QUOTA | IDLE_QUOTA
  | ROOM_BANDWIDTH_QUOTA | MONTHLY_HOST_QUOTA
  | SERVICE_REASON jsval

text \<open>\<open>SERVICE_REASON\<close> is the reason a session service gave, passed on as it is.\<close>

primrec relay_failure_val :: "relay_failure \<Rightarrow> jsval" where
  "relay_failure_val UNAUTHENTICATED = JStr ''unauthenticated''"
| "relay_failure_val SESSION_EXPIRED = JStr ''session_expired''"
| "relay_failure_val CROSS_ROOM = JStr ''cross_room''"
| "relay_failure_val WRONG_INVITE = JStr ''wrong_invite''"
| "relay_failure_val SESSION_REPLAYED = JStr ''session_replayed''"
| "relay_failure_val WRONG_UUID = JStr ''wrong_uuid''"
| "relay_failure_val WRONG_FRIEND = JStr ''wrong_friend''"
| "relay_failure_val WRONG_HOST = JStr ''wrong_host''"
| "relay_failure_val HOST_TUNNEL_UNAUTHORIZED = JStr ''host_tunnel_unauthorized''"
| "relay_failure_val HOST_TUNNEL_CONFLICT = JStr ''host_tunnel_conflict''"
| "relay_failure_val HOST_TUNNEL_UNAVAILABLE = JStr ''host_tunnel_unavailable''"
| "relay_failure_val HOST_TUNNEL_CLOSED = JStr ''host_tunnel_closed''"
| "relay_failure_val OPEN_PROXY_BLOCKED = JStr ''open_proxy_blocked''"
| "relay_failure_val INVALID_TRANSFER = JStr ''invalid_transfer''"
| "relay_failure_val DISCONNECT_RETRY_EXHAUSTED = JStr ''disconnect_retry_exhausted''"
| "relay_failure_val ROOM_SIZE_QUOTA = JStr ''room_size_quota''"
| "relay_failure_val SESSION_DURATION_QUOTA = JStr ''session_duration_quota''"
| "relay_failure_val IDLE_QUOTA = JStr ''idle_quota''"
| "relay_failure_val ROOM_BANDWIDTH_QUOTA = JStr ''room_bandwidth_quota''"
| "relay_failure_val MONTHLY_HOST_QUOTA = JStr ''monthly_host_quota''"
| "relay_failure_val (SERVICE_REASON r) = r"

record relay_quotas =
  maxRoomMembers :: int
  maxSessionMs :: int
  idleTimeoutMs :: int
  warningRoomBytes :: int
  maxRoomBytes :: int
  maxMonthlyHostBytes :: int

definition defaultQuotas :: relay_quotas where
  "defaultQuotas = \<lparr>maxRoomMembers = 9, maxSessionMs = 6 * 60 * 60 * 1000,
     idleTimeoutMs = 20 * 60 * 1000, warningRoomBytes = 25 * 1024 * 1024 * 1024,
     maxRoomBytes = 40 * 1024 * 1024 * 1024, maxMonthlyHostBytes = 150 * 1024 * 1024 * 1024\<rparr>"

text \<open>\<open>hostCredentials\<close> is keyed by \<open>`${roomId}:${hostId}`\<close>.\<close>

record relay_config =
  hostCredentials :: "(string, jsval) jsmap"
  quotas :: relay_quotas

section \<open>State\<close>

datatype tunnel_state = TunnelOpen | TunnelClosed

record tunnel =
  tn_id :: jsval
  tn_hostId :: jsval
  tn_roomId :: jsval
  tn_target :: jsval
  tn_openedAt :: int
  tn_closedAt :: "int option"
  tn_state :: tunnel_state

datatype stream_state = StreamOpen | StreamClosed | StreamDisconnectFailed

primrec stream_state_str :: "stream_state \<Rightarrow> string" where
  "stream_state_str StreamOpen = ''open''"
| "stream_state_str StreamClosed = ''closed''"
| "stream_state_str StreamDisconnectFailed = ''disconnect_failed''"

datatype payload = PBytes string | PVal jsval

record frame =
  fr_streamId :: jsval
  fr_roomId :: jsval
  fr_toHost :: bool
  fr_payload :: payload

record stream =
  sm_id :: jsval
  sm_roomId :: jsval
  sm_inviteId :: jsval
  sm_hostId :: jsval
  sm_friendId :: jsval
  sm_minecraftUuid :: jsval
  sm_target :: jsval
  sm_sessionId :: jsval
  sm_tunnelId :: jsval
  sm_openedAt :: int
  sm_lastActivityAt :: int
  sm_bytes :: int
  sm_hostInbox :: "frame list"
  sm_friendInbox :: "frame list"
  sm_state :: stream_state
  sm_closedAt :: "int option"

record session =
  ss_sessionId :: jsval
  ss_sessionToken :: jsval
  ss_roomId :: jsval
  ss_inviteId :: jsval
  ss_hostId :: jsval
  ss_friendId :: jsval
  ss_minecraftUuid :: jsval
  ss_approved :: jsval
  ss_issuedAt :: "int option"
  ss_expiresAt :: "int option"
  ss_consumedAt :: "int option"

record metrics =
  hostTunnelsOpened :: int
  hostTunnelsClosed :: int
  friendStreamsOpened :: int
  friendStreamsClosed :: int
  failedOpens :: int
  bytesRelayed :: int
  disconnectRetries :: int
  disconnectFailures :: int
  quotaStops :: int

record relay_event =
  ev_type :: string
  ev_occurredAt :: int
  ev_metadata :: jsval

record relay =
  rl_now :: int
  rl_tunnels :: "(jsval, tunnel) jsmap"
  rl_sessions :: "(jsval, nat) jsmap"
  rl_store :: "(nat, session) jsmap"
  rl_streams :: "(jsval, stream) jsmap"
  rl_roomBytes :: "(jsval, int) jsmap"
  rl_monthlyHostBytes :: "(jsval, int) jsmap"
  rl_events :: "relay_event list"
  rl_metrics :: metrics

definition createRelaySimulation :: "int \<Rightarrow> relay" where
  "createRelaySimulation now = \<lparr>rl_now = now, rl_tunnels = [], rl_sessions = [], rl_store = [],
     rl_streams = [], rl_roomBytes = [], rl_monthlyHostBytes = [], rl_events = [],
     rl_metrics = \<lparr>hostTunnelsOpened = 0, hostTunnelsClosed = 0, friendStreamsOpened = 0,
       friendStreamsClosed = 0, failedOpens = 0, bytesRelayed = 0, disconnectRetries = 0,
       disconnectFailures = 0, quotaStops = 0\<rparr>\<rparr>"

definition rl_advance :: "int \<Rightarrow> relay \<Rightarrow> relay" where
  "rl_advance ms s = s\<lparr>rl_now := rl_now s + ms\<rparr>"

section \<open>Redaction of the event log\<close>

definition secret_label :: string where
  "secret_label = ''[redacted:relay_secret]''"

text \<open>\<open>[^&\s"'<>]\<close>\<close>

definition value_char :: "char \<Rightarrow> bool" where
  "value_char x \<longleftrightarrow> \<not> (x = CHR ''&'' \<or> is_space x \<or> x = CHR 0x22 \<or> x = CHR 0x27 \<or>
     x = CHR ''<'' \<or> x = CHR ''>'')"

definition word_dash :: "char \<Rightarrow> bool" where
  "word_dash x \<longleftrightarrow> is_alnum x \<or> x = CHR ''_'' \<or> x = CHR ''-''"

definition relay_text_rules :: "(re \<times> (captures \<Rightarrow> string)) list" where
  "relay_text_rules =
    [(cats [WordB, Cap 1 (alts (map liti [''sessionToken'', ''session'', ''relayToken'',
        ''inviteToken'', ''token''])), lit ''='', Cap 2 (plus1 (Chr value_char))],
      \<lambda>c. cap c 1 @ ''='' @ secret_label),
     (cats [WordB, Cap 1 (alts (map liti [''access_token'', ''refresh_token'', ''password''])),
        lit ''='', Cap 2 (plus1 (Chr value_char))],
      \<lambda>c. cap c 1 @ ''='' @ secret_label),
     (cats [WordB, Cap 1 (alts (map liti [''Bearer'', ''Basic''])), plus1 (Chr is_space),
        plus1 (Chr value_char)],
      \<lambda>c. cap c 1 @ '' '' @ secret_label),
     (cats [WordB, star (Chr word_dash),
        Cap 1 (alts (map liti [''session-token'', ''invite-secret'', ''relay-secret''])),
        star (Chr word_dash), WordB],
      \<lambda>c. secret_label)]"

definition redact_relay_text :: "string \<Rightarrow> string" where
  "redact_relay_text s = replace_rules relay_text_rules s"

definition relay_secret_key :: "string \<Rightarrow> bool" where
  "relay_secret_key k = re_test (alts (map liti
     [''token'', ''credential'', ''secret'', ''authorization'', ''cookie'', ''password''])) k"

definition redactRelayDiagnostics :: "jsval \<Rightarrow> jsval" where
  "redactRelayDiagnostics = js_walk redact_relay_text (\<lambda>_ v. v \<noteq> JUndef)
     (\<lambda>k v. if relay_secret_key k then Some (k, JStr secret_label) else None)"

definition recordEvent :: "string \<Rightarrow> jsval \<Rightarrow> relay \<Rightarrow> relay" where
  "recordEvent ty metadata s = s\<lparr>rl_events := rl_events s @
     [\<lparr>ev_type = ty, ev_occurredAt = rl_now s, ev_metadata = redactRelayDiagnostics metadata\<rparr>]\<rparr>"

definition readEventLog :: "relay \<Rightarrow> relay_event list" where
  "readEventLog s =
     map (\<lambda>e. e\<lparr>ev_metadata := redactRelayDiagnostics (ev_metadata e)\<rparr>) (rl_events s)"

section \<open>Views of tunnels and streams\<close>

definition RELAY_PROTOCOL_VERSION :: jsval where
  "RELAY_PROTOCOL_VERSION = JStr ''relay.m4''"

definition tunnel_state_val :: "tunnel_state \<Rightarrow> jsval" where
  "tunnel_state_val st = JStr (case st of TunnelOpen \<Rightarrow> ''open'' | TunnelClosed \<Rightarrow> ''closed'')"

definition closed_at_val :: "int option \<Rightarrow> jsval" where
  "closed_at_val x = (case x of None \<Rightarrow> JNull | Some n \<Rightarrow> JNum n)"

text \<open>The tunnel as \<open>openHostTunnel\<close> returns it (\<open>{ ...tunnel, target: { ...tunnel.target } }\<close>).\<close>

definition tunnel_val :: "tunnel \<Rightarrow> jsval" where
  "tunnel_val t = JObj
    [(''id'', tn_id t), (''protocolVersion'', RELAY_PROTOCOL_VERSION),
     (''kind'', JStr ''host_tunnel''), (''role'', JStr ''host''), (''hostId'', tn_hostId t),
     (''roomId'', tn_roomId t), (''target'', tn_target t), (''openedAt'', JNum (tn_openedAt t)),
     (''closedAt'', closed_at_val (tn_closedAt t)), (''state'', tunnel_state_val (tn_state t))]"

definition publicTunnel :: "tunnel \<Rightarrow> jsval" where
  "publicTunnel t = JObj
    [(''id'', tn_id t), (''protocolVersion'', RELAY_PROTOCOL_VERSION),
     (''kind'', JStr ''host_tunnel''), (''role'', JStr ''host''), (''hostId'', tn_hostId t),
     (''roomId'', tn_roomId t), (''target'', tn_target t),
     (''state'', tunnel_state_val (tn_state t)), (''openedAt'', JNum (tn_openedAt t)),
     (''closedAt'', closed_at_val (tn_closedAt t))]"

definition publicStream :: "stream \<Rightarrow> jsval" where
  "publicStream st = JObj
    [(''id'', sm_id st), (''protocolVersion'', RELAY_PROTOCOL_VERSION),
     (''kind'', JStr ''friend_stream''), (''roomId'', sm_roomId st), (''inviteId'', sm_inviteId st),
     (''tunnelId'', sm_tunnelId st), (''hostId'', sm_hostId st), (''friendId'', sm_friendId st),
     (''minecraftUuid'', sm_minecraftUuid st), (''target'', sm_target st),
     (''state'', JStr (stream_state_str (sm_state st)))]"

text \<open>The whole stream object, as the event log gets it when the stream opens (empty inboxes).\<close>

definition opened_stream_val :: "stream \<Rightarrow> jsval" where
  "opened_stream_val st = JObj
    [(''id'', sm_id st), (''protocolVersion'', RELAY_PROTOCOL_VERSION),
     (''kind'', JStr ''friend_stream''), (''role'', JStr ''friend''), (''roomId'', sm_roomId st),
     (''inviteId'', sm_inviteId st), (''hostId'', sm_hostId st), (''friendId'', sm_friendId st),
     (''minecraftUuid'', sm_minecraftUuid st), (''target'', sm_target st),
     (''sessionId'', sm_sessionId st), (''tunnelId'', sm_tunnelId st),
     (''openedAt'', JNum (sm_openedAt st)), (''lastActivityAt'', JNum (sm_lastActivityAt st)),
     (''bytes'', JNum (sm_bytes st)), (''hostInbox'', JArr []), (''friendInbox'', JArr []),
     (''state'', JStr (stream_state_str (sm_state st)))]"

section \<open>Host tunnels\<close>

definition hostTunnelAuthorized :: "relay_config \<Rightarrow> jsval \<Rightarrow> jsval \<Rightarrow> jsval \<Rightarrow> bool" where
  "hostTunnelAuthorized cfg hostId roomId hostToken =
    (case jm_get (hostCredentials cfg) (js_string roomId @ '':'' @ js_string hostId) of
       None \<Rightarrow> False
     | Some expectedToken \<Rightarrow>
        truthy expectedToken \<and> truthy hostToken \<and> expectedToken = hostToken)"

definition isMinecraftLoopbackTarget :: "jsval \<Rightarrow> bool" where
  "isMinecraftLoopbackTarget target \<longleftrightarrow>
     jget target ''kind'' = JStr ''minecraft'' \<and> jget target ''host'' = JStr ''127.0.0.1'' \<and>
     jget target ''port'' = JNum 25565"

definition closeStream :: "jsval \<Rightarrow> jsval \<Rightarrow> relay \<Rightarrow> relay" where
  "closeStream k reason s =
    (case jm_get (rl_streams s) k of
       None \<Rightarrow> s
     | Some st \<Rightarrow>
        if sm_state st = StreamClosed then s
        else recordEvent ''friend_stream_closed''
          (JObj [(''streamId'', sm_id st), (''roomId'', sm_roomId st), (''reason'', reason)])
          (s\<lparr>rl_streams := jm_set k
               (st\<lparr>sm_state := StreamClosed, sm_closedAt := Some (rl_now s)\<rparr>) (rl_streams s),
             rl_metrics := (rl_metrics s)\<lparr>friendStreamsClosed :=
               friendStreamsClosed (rl_metrics s) + 1\<rparr>\<rparr>))"

text \<open>The loop over \<open>streams.values()\<close> of \<open>closeHostTunnel\<close>, with its count.\<close>

fun close_tunnel_streams :: "jsval \<Rightarrow> jsval \<Rightarrow> jsval list \<Rightarrow> relay \<Rightarrow> int \<Rightarrow> relay \<times> int" where
  "close_tunnel_streams tunnelId reason [] s n = (s, n)"
| "close_tunnel_streams tunnelId reason (k # ks) s n =
    (case jm_get (rl_streams s) k of
       None \<Rightarrow> close_tunnel_streams tunnelId reason ks s n
     | Some st \<Rightarrow>
        if sm_tunnelId st = tunnelId \<and> sm_state st = StreamOpen
        then close_tunnel_streams tunnelId reason ks (closeStream k reason s) (n + 1)
        else close_tunnel_streams tunnelId reason ks s n)"

definition find_tunnel :: "jsval \<Rightarrow> jsval \<Rightarrow> relay \<Rightarrow> (jsval \<times> tunnel) option" where
  "find_tunnel tunnelId roomId s =
    (if truthy tunnelId then List.find (\<lambda>(k, t). tn_id t = tunnelId) (rl_tunnels s)
     else map_option (\<lambda>t. (roomId, t)) (jm_get (rl_tunnels s) roomId))"

definition closeHostTunnel ::
  "relay_config \<Rightarrow> jsval \<Rightarrow> jsval \<Rightarrow> jsval \<Rightarrow> jsval \<Rightarrow> jsval \<Rightarrow> relay \<Rightarrow>
     (relay_failure + jsval \<times> int) \<times> relay" where
  "closeHostTunnel cfg tunnelId roomId hostId hostToken reasonArg s =
    (let reason = (if reasonArg = JUndef then JStr ''host_closed'' else reasonArg) in
     case find_tunnel tunnelId roomId s of
       None \<Rightarrow> (Inl HOST_TUNNEL_UNAVAILABLE, s)
     | Some (key, tunnel) \<Rightarrow>
        let authenticatedHostId = coalesce hostId (tn_hostId tunnel) in
        if authenticatedHostId \<noteq> tn_hostId tunnel \<or>
           \<not> hostTunnelAuthorized cfg (tn_hostId tunnel) (tn_roomId tunnel) hostToken
        then (Inl HOST_TUNNEL_UNAUTHORIZED, s)
        else if tn_state tunnel = TunnelClosed then (Inr (publicTunnel tunnel, 0), s)
        else
          let tunnel' = tunnel\<lparr>tn_state := TunnelClosed, tn_closedAt := Some (rl_now s)\<rparr>;
              s1 = s\<lparr>rl_tunnels := jm_set key tunnel' (rl_tunnels s),
                rl_metrics := (rl_metrics s)\<lparr>hostTunnelsClosed :=
                  hostTunnelsClosed (rl_metrics s) + 1\<rparr>\<rparr>;
              (s2, closedStreams) =
                close_tunnel_streams (tn_id tunnel) reason (jm_keys (rl_streams s1)) s1 0
          in (Inr (publicTunnel tunnel', closedStreams),
              recordEvent ''host_tunnel_closed''
                (JObj [(''tunnelId'', tn_id tunnel), (''roomId'', tn_roomId tunnel),
                   (''reason'', reason), (''closedStreams'', JNum closedStreams)]) s2))"

definition openHostTunnel ::
  "relay_config \<Rightarrow> string \<Rightarrow> jsval \<Rightarrow> jsval \<Rightarrow> jsval \<Rightarrow> jsval \<Rightarrow> relay \<Rightarrow>
     (relay_failure + jsval) \<times> relay" where
  "openHostTunnel cfg uuid hostId roomId target hostToken s =
    (if \<not> hostTunnelAuthorized cfg hostId roomId hostToken
     then (Inl HOST_TUNNEL_UNAUTHORIZED, s)
     else if \<not> isMinecraftLoopbackTarget target then (Inl OPEN_PROXY_BLOCKED, s)
     else
       let existing = jm_get (rl_tunnels s) roomId;
           open_now = (case existing of None \<Rightarrow> False | Some t \<Rightarrow> tn_state t = TunnelOpen)
       in if open_now \<and> tn_hostId (the existing) \<noteq> hostId then (Inl HOST_TUNNEL_CONFLICT, s)
          else
            let s1 = (if open_now
                  then snd (closeHostTunnel cfg (tn_id (the existing)) JUndef hostId hostToken
                         (JStr ''replaced_by_same_host'') s)
                  else s);
                tunnel = \<lparr>tn_id = JStr (''relay_tunnel_'' @ uuid), tn_hostId = hostId,
                  tn_roomId = roomId, tn_target = target, tn_openedAt = rl_now s1,
                  tn_closedAt = None, tn_state = TunnelOpen\<rparr>;
                s2 = s1\<lparr>rl_tunnels := jm_set roomId tunnel (rl_tunnels s1),
                  rl_metrics := (rl_metrics s1)\<lparr>hostTunnelsOpened :=
                    hostTunnelsOpened (rl_metrics s1) + 1\<rparr>\<rparr>
            in (Inr (tunnel_val tunnel),
                recordEvent ''host_tunnel_opened''
                  (JObj [(''tunnelId'', tn_id tunnel), (''hostId'', hostId), (''roomId'', roomId),
                     (''target'', target)]) s2))"

section \<open>Sessions\<close>

record stream_request =
  rq_sessionId :: jsval
  rq_sessionToken :: jsval
  rq_roomId :: jsval
  rq_inviteId :: jsval
  rq_friendId :: jsval
  rq_minecraftUuid :: jsval
  rq_requestedTarget :: jsval

definition time_of :: "jsval \<Rightarrow> int option" where
  "time_of v = (case v of JNum n \<Rightarrow> Some n | JNull \<Rightarrow> Some 0 | _ \<Rightarrow> None)"

definition consumed_of :: "jsval \<Rightarrow> int option" where
  "consumed_of v = (case v of JUndef \<Rightarrow> None | JNum n \<Rightarrow> Some n | _ \<Rightarrow> Some 0)"

text \<open>An object allocated in the store: its number is the size of the store.\<close>

definition alloc_session :: "session \<Rightarrow> relay \<Rightarrow> nat \<times> relay" where
  "alloc_session ss s = (length (rl_store s), s\<lparr>rl_store := rl_store s @ [(length (rl_store s), ss)]\<rparr>)"

text \<open>\<open>authorizeSession(session)\<close>: the object is a copy of the caller's, taken as it is.\<close>

definition session_of_raw :: "jsval \<Rightarrow> session" where
  "session_of_raw v = \<lparr>ss_sessionId = jget v ''sessionId'', ss_sessionToken = jget v ''sessionToken'',
     ss_roomId = jget v ''roomId'', ss_inviteId = jget v ''inviteId'', ss_hostId = jget v ''hostId'',
     ss_friendId = jget v ''friendId'', ss_minecraftUuid = jget v ''minecraftUuid'',
     ss_approved = jget v ''approved'', ss_issuedAt = time_of (jget v ''issuedAt''),
     ss_expiresAt = time_of (jget v ''expiresAt''),
     ss_consumedAt = consumed_of (jget v ''consumedAt'')\<rparr>"

definition authorizeSession :: "jsval \<Rightarrow> relay \<Rightarrow> relay" where
  "authorizeSession v s =
    (let (ref, s1) = alloc_session (session_of_raw v) s
     in s1\<lparr>rl_sessions := jm_set (jget v ''sessionId'') ref (rl_sessions s1)\<rparr>)"

definition normalizeSession :: "jsval \<Rightarrow> session" where
  "normalizeSession v = \<lparr>
     ss_sessionId = coalesce (jget v ''sessionId'') (jget v ''id''),
     ss_sessionToken = coalesce (jget v ''sessionToken'') (jget v ''sessionCredential''),
     ss_roomId = jget v ''roomId'', ss_inviteId = jget v ''inviteId'', ss_hostId = jget v ''hostId'',
     ss_friendId = jget v ''friendId'', ss_minecraftUuid = jget v ''minecraftUuid'',
     ss_approved = coalesce (jget v ''approved'') (JBool (jget v ''state'' = JStr ''issued'')),
     ss_issuedAt = time_of (jget v ''issuedAt''), ss_expiresAt = time_of (jget v ''expiresAt''),
     ss_consumedAt = None\<rparr>"

text \<open>
  What \<open>validateSession\<close> of the session service answered: a result with \<open>ok\<close> and a session, a
  result (or nothing) without \<open>ok\<close>, whose \<open>reason\<close> may be missing, or a rejected promise.
\<close>

datatype service_answer = ServiceSession jsval | ServiceRefused jsval | ServiceRejected

definition normalizeServiceSessionResult ::
  "service_answer \<Rightarrow> relay \<Rightarrow> (relay_failure + nat) \<times> relay" where
  "normalizeServiceSessionResult answer s =
    (case answer of
       ServiceRejected \<Rightarrow> (Inl UNAUTHENTICATED, s)
     | ServiceRefused reason \<Rightarrow>
        (Inl (if nullish reason then UNAUTHENTICATED else SERVICE_REASON reason), s)
     | ServiceSession v \<Rightarrow>
        let serviceSession = normalizeSession v;
            existing = Option.bind (jm_get (rl_sessions s) (ss_sessionId serviceSession))
                         (jm_get (rl_store s));
            withConsumed = (case Option.bind existing ss_consumedAt of
                None \<Rightarrow> serviceSession
              | Some n \<Rightarrow> serviceSession\<lparr>ss_consumedAt := Some n\<rparr>);
            (ref, s1) = alloc_session withConsumed s
        in (Inr ref, s1\<lparr>rl_sessions := jm_set (ss_sessionId serviceSession) ref (rl_sessions s1)\<rparr>))"

text \<open>\<open>None\<close>: no session service is configured, the sessions authorised here are used.\<close>

definition readSessionForRequest ::
  "service_answer option \<Rightarrow> stream_request \<Rightarrow> relay \<Rightarrow> (relay_failure + nat) \<times> relay" where
  "readSessionForRequest answer request s =
    (case answer of
       Some ans \<Rightarrow> normalizeServiceSessionResult ans s
     | None \<Rightarrow>
        (case jm_get (rl_sessions s) (rq_sessionId request) of
           None \<Rightarrow> (Inl UNAUTHENTICATED, s)
         | Some ref \<Rightarrow> (Inr ref, s)))"

definition validateSession ::
  "relay_quotas \<Rightarrow> int \<Rightarrow> session option \<Rightarrow> stream_request \<Rightarrow> relay_failure option" where
  "validateSession q now session request =
    (case session of
       None \<Rightarrow> Some UNAUTHENTICATED
     | Some ss \<Rightarrow>
        if \<not> truthy (rq_sessionToken request) \<or> ss_sessionToken ss \<noteq> rq_sessionToken request \<or>
           \<not> truthy (ss_approved ss)
        then Some UNAUTHENTICATED
        else if ss_consumedAt ss \<noteq> None then Some SESSION_REPLAYED
        else if (case ss_expiresAt ss of None \<Rightarrow> False | Some e \<Rightarrow> e \<le> now)
        then Some SESSION_EXPIRED
        else if (case ss_issuedAt ss of None \<Rightarrow> False | Some i \<Rightarrow> now - i > maxSessionMs q)
        then Some SESSION_DURATION_QUOTA
        else if ss_roomId ss \<noteq> rq_roomId request then Some CROSS_ROOM
        else if truthy (ss_inviteId ss) \<and> ss_inviteId ss \<noteq> rq_inviteId request
        then Some WRONG_INVITE
        else if ss_friendId ss \<noteq> rq_friendId request then Some WRONG_FRIEND
        else if ss_minecraftUuid ss \<noteq> rq_minecraftUuid request then Some WRONG_UUID
        else None)"

section \<open>Friend streams\<close>

definition targetMatchesTunnel :: "jsval \<Rightarrow> jsval \<Rightarrow> bool" where
  "targetMatchesTunnel requestedTarget tunnelTarget =
    (if \<not> truthy requestedTarget then True
     else jget requestedTarget ''kind'' = jget tunnelTarget ''kind'' \<and>
          jget requestedTarget ''host'' = jget tunnelTarget ''host'' \<and>
          jget requestedTarget ''port'' = jget tunnelTarget ''port'')"

definition activeRoomMemberCount :: "jsval \<Rightarrow> relay \<Rightarrow> int" where
  "activeRoomMemberCount roomId s = int (length (filter
     (\<lambda>st. sm_roomId st = roomId \<and> sm_state st = StreamOpen) (jm_values (rl_streams s))))"

definition safeOpenFailureMetadata :: "relay_failure \<Rightarrow> stream_request \<Rightarrow> jsval" where
  "safeOpenFailureMetadata reason request = JObj
    [(''reason'', relay_failure_val reason), (''roomId'', rq_roomId request),
     (''inviteId'', rq_inviteId request), (''friendId'', rq_friendId request),
     (''minecraftUuid'', rq_minecraftUuid request),
     (''requestedTarget'',
        if truthy (rq_requestedTarget request)
        then JObj [(''kind'', jget (rq_requestedTarget request) ''kind''),
               (''host'', jget (rq_requestedTarget request) ''host''),
               (''port'', jget (rq_requestedTarget request) ''port'')]
        else JUndef)]"

definition failOpen ::
  "relay_failure \<Rightarrow> stream_request \<Rightarrow> relay \<Rightarrow> (relay_failure + jsval) \<times> relay" where
  "failOpen reason request s =
    (Inl reason, recordEvent ''friend_stream_open_failed'' (safeOpenFailureMetadata reason request)
       (s\<lparr>rl_metrics := (rl_metrics s)\<lparr>failedOpens := failedOpens (rl_metrics s) + 1\<rparr>\<rparr>))"

text \<open>The stream object that \<open>openFriendStreamWithSession\<close> makes.\<close>

definition new_stream :: "string \<Rightarrow> stream_request \<Rightarrow> session \<Rightarrow> tunnel \<Rightarrow> int \<Rightarrow> stream" where
  "new_stream uuid request session tunnel now = \<lparr>sm_id = JStr (''relay_stream_'' @ uuid),
     sm_roomId = rq_roomId request,
     sm_inviteId = coalesce (ss_inviteId session) (rq_inviteId request),
     sm_hostId = tn_hostId tunnel, sm_friendId = rq_friendId request,
     sm_minecraftUuid = rq_minecraftUuid request, sm_target = tn_target tunnel,
     sm_sessionId = rq_sessionId request, sm_tunnelId = tn_id tunnel,
     sm_openedAt = now, sm_lastActivityAt = now, sm_bytes = 0,
     sm_hostInbox = [], sm_friendInbox = [], sm_state = StreamOpen, sm_closedAt = None\<rparr>"

definition openFriendStreamWithSession ::
  "relay_config \<Rightarrow> string \<Rightarrow> stream_request \<Rightarrow> relay_failure + nat \<Rightarrow> relay \<Rightarrow>
     (relay_failure + jsval) \<times> relay" where
  "openFriendStreamWithSession cfg uuid request sessionResult s =
    (case sessionResult of
       Inl reason \<Rightarrow> failOpen reason request s
     | Inr ref \<Rightarrow>
        let session = jm_get (rl_store s) ref in
        case validateSession (quotas cfg) (rl_now s) session request of
          Some reason \<Rightarrow> failOpen reason request s
        | None \<Rightarrow>
           (case jm_get (rl_tunnels s) (rq_roomId request) of
              None \<Rightarrow> failOpen HOST_TUNNEL_UNAVAILABLE request s
            | Some tunnel \<Rightarrow>
               if tn_state tunnel \<noteq> TunnelOpen then failOpen HOST_TUNNEL_CLOSED request s
               else if truthy (ss_hostId (the session)) \<and> ss_hostId (the session) \<noteq> tn_hostId tunnel
               then failOpen WRONG_HOST request s
               else if \<not> targetMatchesTunnel (rq_requestedTarget request) (tn_target tunnel)
               then failOpen OPEN_PROXY_BLOCKED request s
               else if activeRoomMemberCount (rq_roomId request) s \<ge> maxRoomMembers (quotas cfg)
               then failOpen ROOM_SIZE_QUOTA request s
               else
                 let stream = new_stream uuid request (the session) tunnel (rl_now s);
                     s1 = s\<lparr>rl_streams := jm_set (sm_id stream) stream (rl_streams s),
                       rl_store := jm_set ref
                         ((the session)\<lparr>ss_consumedAt := Some (rl_now s)\<rparr>) (rl_store s),
                       rl_metrics := (rl_metrics s)\<lparr>friendStreamsOpened :=
                         friendStreamsOpened (rl_metrics s) + 1\<rparr>\<rparr>
                 in (Inr (publicStream stream),
                     recordEvent ''friend_stream_opened'' (opened_stream_val stream) s1)))"

text \<open>
  \<open>openFriendStream\<close> when the session is read at once. When the session service answers with a
  promise the two halves run as separate microtasks (\<open>normalizeServiceSessionResult\<close>, then
  \<open>openFriendStreamWithSession\<close>), and other operations may run between them.
\<close>

definition openFriendStream ::
  "relay_config \<Rightarrow> string \<Rightarrow> service_answer option \<Rightarrow> stream_request \<Rightarrow> relay \<Rightarrow>
     (relay_failure + jsval) \<times> relay" where
  "openFriendStream cfg uuid answer request s =
    (let (sessionResult, s1) = readSessionForRequest answer request s
     in openFriendStreamWithSession cfg uuid request sessionResult s1)"

section \<open>Transfers\<close>

definition isSafeInteger :: "jsval \<Rightarrow> bool" where
  "isSafeInteger v = (case v of JNum n \<Rightarrow> \<bar>n\<bar> \<le> 2 ^ 53 - 1 | _ \<Rightarrow> False)"

definition num_of :: "jsval \<Rightarrow> int" where
  "num_of v = (case v of JNum n \<Rightarrow> n | _ \<Rightarrow> 0)"

definition quota_stop :: "jsval \<Rightarrow> string \<Rightarrow> relay \<Rightarrow> relay" where
  "quota_stop k reason s =
    (let s1 = closeStream k (JStr reason) s
     in s1\<lparr>rl_metrics := (rl_metrics s1)\<lparr>quotaStops := quotaStops (rl_metrics s1) + 1\<rparr>\<rparr>)"

definition counter :: "(jsval, int) jsmap \<Rightarrow> jsval \<Rightarrow> int" where
  "counter m k = (case jm_get m k of None \<Rightarrow> 0 | Some n \<Rightarrow> n)"

definition recordTransfer ::
  "relay_config \<Rightarrow> jsval \<Rightarrow> jsval \<Rightarrow> relay \<Rightarrow> (relay_failure + jsval \<times> bool) \<times> relay" where
  "recordTransfer cfg streamId bytes s =
    (case jm_get (rl_streams s) streamId of
       None \<Rightarrow> (Inl UNAUTHENTICATED, s)
     | Some st \<Rightarrow>
        if sm_state st \<noteq> StreamOpen then (Inl UNAUTHENTICATED, s)
        else if \<not> isSafeInteger bytes \<or> num_of bytes \<le> 0 then (Inl INVALID_TRANSFER, s)
        else if rl_now s - sm_openedAt st > maxSessionMs (quotas cfg)
        then (Inl SESSION_DURATION_QUOTA, quota_stop streamId ''session_duration_quota'' s)
        else if rl_now s - sm_lastActivityAt st > idleTimeoutMs (quotas cfg)
        then (Inl IDLE_QUOTA, quota_stop streamId ''idle_quota'' s)
        else
          let n = num_of bytes;
              nextRoomBytes = counter (rl_roomBytes s) (sm_roomId st) + n
          in if nextRoomBytes > maxRoomBytes (quotas cfg)
             then (Inl ROOM_BANDWIDTH_QUOTA, quota_stop streamId ''room_bandwidth_quota'' s)
             else
               let nextMonthlyHostBytes = counter (rl_monthlyHostBytes s) (sm_hostId st) + n
               in if nextMonthlyHostBytes > maxMonthlyHostBytes (quotas cfg)
                  then (Inl MONTHLY_HOST_QUOTA, quota_stop streamId ''monthly_host_quota'' s)
                  else
                    let st' = st\<lparr>sm_bytes := sm_bytes st + n, sm_lastActivityAt := rl_now s\<rparr>;
                        s1 = s\<lparr>rl_streams := jm_set streamId st' (rl_streams s),
                          rl_roomBytes := jm_set (sm_roomId st) nextRoomBytes (rl_roomBytes s),
                          rl_monthlyHostBytes :=
                            jm_set (sm_hostId st) nextMonthlyHostBytes (rl_monthlyHostBytes s),
                          rl_metrics := (rl_metrics s)\<lparr>bytesRelayed :=
                            bytesRelayed (rl_metrics s) + n\<rparr>\<rparr>
                    in (Inr (publicStream st', nextRoomBytes \<ge> warningRoomBytes (quotas cfg)),
                        recordEvent ''relay_transfer_recorded''
                          (JObj [(''streamId'', streamId), (''roomId'', sm_roomId st),
                             (''bytes'', JNum n)]) s1))"

text \<open>\<open>None\<close>: \<open>Buffer.byteLength(undefined)\<close> throws.\<close>

definition byteLength :: "payload \<Rightarrow> nat option" where
  "byteLength p =
    (case p of
       PBytes bs \<Rightarrow> Some (length bs)
     | PVal (JStr t) \<Rightarrow> Some (utf8_length t)
     | PVal v \<Rightarrow> map_option utf8_length (json v))"

definition relayEcho ::
  "relay_config \<Rightarrow> jsval \<Rightarrow> payload \<Rightarrow> relay \<Rightarrow>
     ((relay_failure + frame \<times> frame \<times> jsval) \<times> relay) option" where
  "relayEcho cfg streamId payload s =
    (case jm_get (rl_streams s) streamId of
       None \<Rightarrow> Some (Inl UNAUTHENTICATED, s)
     | Some st \<Rightarrow>
        if sm_state st \<noteq> StreamOpen then Some (Inl UNAUTHENTICATED, s)
        else (case byteLength payload of
            None \<Rightarrow> None
          | Some bytes \<Rightarrow>
             (case recordTransfer cfg streamId (JNum (int bytes)) s of
                (Inl reason, s1) \<Rightarrow> Some (Inl reason, s1)
              | (Inr _, s1) \<Rightarrow>
                 (case jm_get (rl_streams s1) streamId of
                    None \<Rightarrow> Some (Inl UNAUTHENTICATED, s1)
                  | Some st1 \<Rightarrow>
                     let toHost = \<lparr>fr_streamId = streamId, fr_roomId = sm_roomId st1,
                           fr_toHost = True, fr_payload = payload\<rparr>;
                         toFriend = toHost\<lparr>fr_toHost := False\<rparr>;
                         st2 = st1\<lparr>sm_hostInbox := sm_hostInbox st1 @ [toHost],
                           sm_friendInbox := sm_friendInbox st1 @ [toFriend]\<rparr>
                     in Some (Inr (toHost, toFriend, publicStream st2),
                          s1\<lparr>rl_streams := jm_set streamId st2 (rl_streams s1)\<rparr>)))))"

section \<open>Disconnecting\<close>

datatype disconnect_result =
    DisconnectRefused relay_failure
  | Disconnected "(int \<times> bool) list" jsval
  | DisconnectFailed "(int \<times> bool) list"

text \<open>
  The loop over the attempts; an attempt is recorded with its number and whether it succeeded.
  \<open>n\<close> is the number of attempts left.
\<close>

fun disconnect_loop ::
  "nat \<Rightarrow> int \<Rightarrow> int \<Rightarrow> jsval \<Rightarrow> (int \<times> bool) list \<Rightarrow> relay \<Rightarrow> disconnect_result \<times> relay" where
  "disconnect_loop 0 attempt failAttempts k attempts s =
    (let s1 = (case jm_get (rl_streams s) k of
           None \<Rightarrow> s
         | Some st \<Rightarrow> s\<lparr>rl_streams :=
             jm_set k (st\<lparr>sm_state := StreamDisconnectFailed\<rparr>) (rl_streams s)\<rparr>);
         s2 = s1\<lparr>rl_metrics := (rl_metrics s1)\<lparr>disconnectFailures :=
           disconnectFailures (rl_metrics s1) + 1\<rparr>\<rparr>
     in (DisconnectFailed attempts,
         recordEvent ''friend_stream_disconnect_failed''
           (JObj [(''streamId'', k), (''attempts'', JNum (attempt - 1))]) s2))"
| "disconnect_loop (Suc n) attempt failAttempts k attempts s =
    (if attempt \<le> failAttempts
     then disconnect_loop n (attempt + 1) failAttempts k (attempts @ [(attempt, False)])
       (s\<lparr>rl_metrics := (rl_metrics s)\<lparr>disconnectRetries := disconnectRetries (rl_metrics s) + 1\<rparr>\<rparr>)
     else
       let s1 = closeStream k (JStr ''friend_disconnected'') s;
           s2 = recordEvent ''friend_stream_disconnected''
             (JObj [(''streamId'', k), (''attempts'', JNum attempt)]) s1
       in (Disconnected (attempts @ [(attempt, True)])
             (case jm_get (rl_streams s2) k of None \<Rightarrow> JUndef | Some st \<Rightarrow> publicStream st), s2))"

definition disconnectStream ::
  "jsval \<Rightarrow> int \<Rightarrow> int \<Rightarrow> relay \<Rightarrow> disconnect_result \<times> relay" where
  "disconnectStream streamId maxAttempts failAttempts s =
    (case jm_get (rl_streams s) streamId of
       None \<Rightarrow> (DisconnectRefused UNAUTHENTICATED, s)
     | Some st \<Rightarrow> disconnect_loop (nat (max 1 maxAttempts)) 1 failAttempts streamId [] s)"

section \<open>Metrics\<close>

record metrics_view =
  mv_metrics :: metrics
  mv_openHostTunnels :: int
  mv_openFriendStreams :: int
  mv_roomMilliseconds :: int
  mv_roomBytes :: "(jsval, int) jsmap"
  mv_monthlyHostBytes :: "(jsval, int) jsmap"

text \<open>The numerator of \<open>roomHours\<close>; the code divides it by \<open>60 * 60 * 1000\<close>.\<close>

definition calculateRoomMilliseconds :: "relay \<Rightarrow> int" where
  "calculateRoomMilliseconds s =
     foldl (\<lambda>total t. total + max 0 ((case tn_closedAt t of None \<Rightarrow> rl_now s | Some n \<Rightarrow> n) - tn_openedAt t))
       0 (jm_values (rl_tunnels s))"

definition readMetrics :: "relay \<Rightarrow> metrics_view" where
  "readMetrics s = \<lparr>mv_metrics = rl_metrics s,
     mv_openHostTunnels = int (length (filter (\<lambda>t. tn_state t = TunnelOpen) (jm_values (rl_tunnels s)))),
     mv_openFriendStreams = int (length (filter (\<lambda>st. sm_state st = StreamOpen) (jm_values (rl_streams s)))),
     mv_roomMilliseconds = calculateRoomMilliseconds s,
     mv_roomBytes = rl_roomBytes s, mv_monthlyHostBytes = rl_monthlyHostBytes s\<rparr>"

end
