(* ===== verification/Relay_Safety.thy ===== *)
theory Relay_Safety
  imports Relay
begin

text \<open>
  The relay as a state machine: its operations (\<open>relay_op\<close>), what the environment guarantees
  (\<open>relay_adm\<close>: the clock does not run backwards, a drawn UUID is new) and its invariants:
  the network part (\<open>net_ok\<close>: tunnels and streams), the accounting part (\<open>bytes_ok\<close>) and the
  room sizes. \<open>RlNormalize\<close> and \<open>RlOpenWith\<close> are the two halves of \<open>openFriendStream\<close> with an
  asynchronous session service; any operation may come between them.
\<close>

datatype relay_op =
    RlAdvance int
  | RlOpenTunnel string jsval jsval jsval jsval
  | RlCloseTunnel jsval jsval jsval jsval jsval
  | RlAuthorize jsval
  | RlOpenStream string "service_answer option" stream_request
  | RlNormalize service_answer
  | RlOpenWith string stream_request "relay_failure + nat"
  | RlTransfer jsval jsval
  | RlEcho jsval payload
  | RlDisconnect jsval int int

definition echo_state :: "((relay_failure + frame \<times> frame \<times> jsval) \<times> relay) option \<Rightarrow> relay \<Rightarrow> relay" where
  "echo_state res s = (case res of None \<Rightarrow> s | Some (_, s') \<Rightarrow> s')"

fun relay_exec :: "relay_config \<Rightarrow> relay_op \<Rightarrow> relay \<Rightarrow> relay" where
  "relay_exec c (RlAdvance ms) s = rl_advance ms s"
| "relay_exec c (RlOpenTunnel u hostId roomId target hostToken) s =
     snd (openHostTunnel c u hostId roomId target hostToken s)"
| "relay_exec c (RlCloseTunnel tid roomId hostId hostToken reason) s =
     snd (closeHostTunnel c tid roomId hostId hostToken reason s)"
| "relay_exec c (RlAuthorize v) s = authorizeSession v s"
| "relay_exec c (RlOpenStream u ans rq) s = snd (openFriendStream c u ans rq s)"
| "relay_exec c (RlNormalize ans) s = snd (normalizeServiceSessionResult ans s)"
| "relay_exec c (RlOpenWith u rq res) s = snd (openFriendStreamWithSession c u rq res s)"
| "relay_exec c (RlTransfer sid bytes) s = snd (recordTransfer c sid bytes s)"
| "relay_exec c (RlEcho sid p) s = echo_state (relayEcho c sid p s) s"
| "relay_exec c (RlDisconnect sid maxA failA) s = snd (disconnectStream sid maxA failA s)"

fun relay_adm :: "relay_op \<Rightarrow> relay \<Rightarrow> bool" where
  "relay_adm (RlAdvance ms) s = (0 \<le> ms)"
| "relay_adm (RlOpenTunnel u hostId roomId target hostToken) s =
     (\<forall>t \<in> set (jm_values (rl_tunnels s)). tn_id t \<noteq> JStr (''relay_tunnel_'' @ u))"
| "relay_adm (RlOpenStream u ans rq) s = (\<not> jm_has (rl_streams s) (JStr (''relay_stream_'' @ u)))"
| "relay_adm (RlOpenWith u rq res) s = (\<not> jm_has (rl_streams s) (JStr (''relay_stream_'' @ u)))"
| "relay_adm _ s = True"

abbreviation relay_initial :: "relay \<Rightarrow> bool" where
  "relay_initial s \<equiv> \<exists>now. s = createRelaySimulation now"

abbreviation relay_reach :: "relay_config \<Rightarrow> relay \<Rightarrow> bool" where
  "relay_reach c \<equiv> reach relay_initial relay_adm (relay_exec c)"

section \<open>What the small steps leave alone\<close>

lemma recordEvent_keeps [simp]:
  "rl_now (recordEvent ty m s) = rl_now s" "rl_tunnels (recordEvent ty m s) = rl_tunnels s"
  "rl_sessions (recordEvent ty m s) = rl_sessions s" "rl_store (recordEvent ty m s) = rl_store s"
  "rl_streams (recordEvent ty m s) = rl_streams s" "rl_roomBytes (recordEvent ty m s) = rl_roomBytes s"
  "rl_monthlyHostBytes (recordEvent ty m s) = rl_monthlyHostBytes s"
  "rl_metrics (recordEvent ty m s) = rl_metrics s"
  by (simp_all add: recordEvent_def)

lemma closeStream_keeps [simp]:
  "rl_now (closeStream k r s) = rl_now s" "rl_tunnels (closeStream k r s) = rl_tunnels s"
  "rl_sessions (closeStream k r s) = rl_sessions s" "rl_store (closeStream k r s) = rl_store s"
  "rl_roomBytes (closeStream k r s) = rl_roomBytes s"
  "rl_monthlyHostBytes (closeStream k r s) = rl_monthlyHostBytes s"
  "bytesRelayed (rl_metrics (closeStream k r s)) = bytesRelayed (rl_metrics s)"
  "hostTunnelsOpened (rl_metrics (closeStream k r s)) = hostTunnelsOpened (rl_metrics s)"
  "hostTunnelsClosed (rl_metrics (closeStream k r s)) = hostTunnelsClosed (rl_metrics s)"
  "friendStreamsOpened (rl_metrics (closeStream k r s)) = friendStreamsOpened (rl_metrics s)"
  by (simp_all add: closeStream_def split: option.split)

lemma close_streams_keeps [simp]:
  "rl_now (fst (close_tunnel_streams tid r ks s n)) = rl_now s"
  "rl_tunnels (fst (close_tunnel_streams tid r ks s n)) = rl_tunnels s"
  "rl_sessions (fst (close_tunnel_streams tid r ks s n)) = rl_sessions s"
  "rl_store (fst (close_tunnel_streams tid r ks s n)) = rl_store s"
  "rl_roomBytes (fst (close_tunnel_streams tid r ks s n)) = rl_roomBytes s"
  "rl_monthlyHostBytes (fst (close_tunnel_streams tid r ks s n)) = rl_monthlyHostBytes s"
  "bytesRelayed (rl_metrics (fst (close_tunnel_streams tid r ks s n))) = bytesRelayed (rl_metrics s)"
  "hostTunnelsOpened (rl_metrics (fst (close_tunnel_streams tid r ks s n))) = hostTunnelsOpened (rl_metrics s)"
  "hostTunnelsClosed (rl_metrics (fst (close_tunnel_streams tid r ks s n))) = hostTunnelsClosed (rl_metrics s)"
  by (induction ks arbitrary: s n) (auto split: option.split)

text \<open>A stream as \<open>closeStream\<close> leaves it at time \<open>now\<close>.\<close>

definition closed_at :: "int \<Rightarrow> stream \<Rightarrow> stream" where
  "closed_at now st = (if sm_state st = StreamClosed then st
     else st\<lparr>sm_state := StreamClosed, sm_closedAt := Some now\<rparr>)"

lemma closed_at_simps [simp]:
  "sm_state (closed_at now st) = StreamClosed" "sm_id (closed_at now st) = sm_id st"
  "sm_roomId (closed_at now st) = sm_roomId st" "sm_bytes (closed_at now st) = sm_bytes st"
  "sm_hostId (closed_at now st) = sm_hostId st" "sm_tunnelId (closed_at now st) = sm_tunnelId st"
  "closed_at now (closed_at now' st) = closed_at now' st"
  by (simp_all add: closed_at_def)

lemma closeStream_get:
  "jm_get (rl_streams (closeStream k r s)) k' =
     (if k' = k then map_option (closed_at (rl_now s)) (jm_get (rl_streams s) k)
      else jm_get (rl_streams s) k')"
  by (auto simp: closeStream_def closed_at_def split: option.split)

lemma closeStream_distinct [simp]:
  "distinct (jm_keys (rl_streams s)) \<Longrightarrow> distinct (jm_keys (rl_streams (closeStream k r s)))"
  by (simp add: closeStream_def split: option.split)

lemma close_streams_distinct [simp]:
  "distinct (jm_keys (rl_streams s)) \<Longrightarrow>
     distinct (jm_keys (rl_streams (fst (close_tunnel_streams tid r ks s n))))"
  by (induction ks arbitrary: s n) (auto split: option.split)

text \<open>The loop of \<open>closeHostTunnel\<close> closes the open streams of the tunnel and no other.\<close>

lemma close_streams_get:
  "jm_get (rl_streams (fst (close_tunnel_streams tid r ks s n))) k =
     map_option (\<lambda>st. if k \<in> set ks \<and> sm_tunnelId st = tid \<and> sm_state st = StreamOpen
                      then closed_at (rl_now s) st else st) (jm_get (rl_streams s) k)"
proof (induction ks arbitrary: s n k)
  case Nil
  then show ?case by (simp add: option.map_ident)
next
  case (Cons j ks)
  show ?case
  proof (cases "jm_get (rl_streams s) j")
    case None
    then show ?thesis by (cases "k = j") (simp_all add: Cons.IH)
  next
    case (Some st)
    show ?thesis
    proof (cases "sm_tunnelId st = tid \<and> sm_state st = StreamOpen")
      case True
      with Some show ?thesis
        by (cases "k = j"; cases "jm_get (rl_streams s) k")
          (simp_all add: Cons.IH closeStream_get)
    next
      case False
      with Some show ?thesis
        by (cases "k = j") (auto simp: Cons.IH cong: map_option_cong)
    qed
  qed
qed

text \<open>Every stream of the map is an entry, so the loop over \<open>streams.values()\<close> misses none.\<close>

lemma close_all_streams_get:
  "ks = jm_keys (rl_streams s) \<Longrightarrow> jm_get (rl_streams (fst (close_tunnel_streams tid r ks s n))) k =
     map_option (\<lambda>st. if sm_tunnelId st = tid \<and> sm_state st = StreamOpen
                      then closed_at (rl_now s) st else st) (jm_get (rl_streams s) k)"
  by (cases "jm_get (rl_streams s) k") (auto simp: close_streams_get dest: map_of_SomeD intro!: rev_image_eqI)

section \<open>Tunnels and streams\<close>

text \<open>
  A tunnel is kept under its room, leads to the local Minecraft port and belongs to a host with a
  credential for the room; identifiers are not shared. An open stream belongs to the open tunnel
  of its room, with the tunnel's host and target.
\<close>

definition tunnel_ok :: "relay_config \<Rightarrow> jsval \<Rightarrow> tunnel \<Rightarrow> bool" where
  "tunnel_ok c k t \<longleftrightarrow> tn_roomId t = k \<and> isMinecraftLoopbackTarget (tn_target t) \<and>
     truthy (tn_id t) \<and> (\<exists>tok. hostTunnelAuthorized c (tn_hostId t) k tok)"

definition stream_ok :: "relay \<Rightarrow> jsval \<Rightarrow> stream \<Rightarrow> bool" where
  "stream_ok s k st \<longleftrightarrow> sm_id st = k \<and> 0 \<le> sm_bytes st \<and>
     (sm_state st = StreamOpen \<longrightarrow>
       (\<exists>t. jm_get (rl_tunnels s) (sm_roomId st) = Some t \<and> tn_state t = TunnelOpen \<and>
          tn_id t = sm_tunnelId st \<and> tn_hostId t = sm_hostId st \<and> tn_target t = sm_target st))"

definition net_ok :: "relay_config \<Rightarrow> relay \<Rightarrow> bool" where
  "net_ok c s \<longleftrightarrow> distinct (jm_keys (rl_streams s)) \<and> distinct (jm_keys (rl_tunnels s)) \<and>
     (\<forall>k t. jm_get (rl_tunnels s) k = Some t \<longrightarrow> tunnel_ok c k t) \<and>
     (\<forall>k k' t t'. jm_get (rl_tunnels s) k = Some t \<longrightarrow> jm_get (rl_tunnels s) k' = Some t' \<longrightarrow>
        tn_id t = tn_id t' \<longrightarrow> k = k') \<and>
     (\<forall>k st. jm_get (rl_streams s) k = Some st \<longrightarrow> stream_ok s k st)"

lemma net_ok_same:
  "rl_streams s' = rl_streams s \<Longrightarrow> rl_tunnels s' = rl_tunnels s \<Longrightarrow> net_ok c s' = net_ok c s"
  by (simp only: net_ok_def stream_ok_def)

lemma net_ok_initial: "net_ok c (createRelaySimulation now)"
  by (simp add: net_ok_def createRelaySimulation_def)

lemma net_ok_distinct:
  "net_ok c s \<Longrightarrow> distinct (jm_keys (rl_streams s))"
  "net_ok c s \<Longrightarrow> distinct (jm_keys (rl_tunnels s))"
  by (simp_all add: net_ok_def)

lemma net_ok_tunnel: "net_ok c s \<Longrightarrow> jm_get (rl_tunnels s) k = Some t \<Longrightarrow> tunnel_ok c k t"
  by (simp add: net_ok_def)

lemma net_ok_tunnel_ids:
  "net_ok c s \<Longrightarrow> jm_get (rl_tunnels s) k = Some t \<Longrightarrow> jm_get (rl_tunnels s) k' = Some t' \<Longrightarrow>
     tn_id t = tn_id t' \<Longrightarrow> k = k'"
  by (auto simp: net_ok_def)

lemma net_ok_stream: "net_ok c s \<Longrightarrow> jm_get (rl_streams s) k = Some st \<Longrightarrow> stream_ok s k st"
  by (simp add: net_ok_def)

text \<open>Changing one stream whose new version is well formed keeps the network well formed.\<close>

lemma net_ok_set_stream:
  assumes "net_ok c s" and "stream_ok s k st"
    and "rl_streams s' = jm_set k st (rl_streams s)" and "rl_tunnels s' = rl_tunnels s"
  shows "net_ok c s'"
  using assms by (auto simp: net_ok_def stream_ok_def)

lemma stream_ok_not_open:
  "stream_ok s k st \<Longrightarrow> sm_state st' \<noteq> StreamOpen \<Longrightarrow> sm_id st' = sm_id st \<Longrightarrow>
     sm_bytes st' = sm_bytes st \<Longrightarrow> stream_ok s k st'"
  by (simp add: stream_ok_def)

lemma net_ok_closeStream: "net_ok c s \<Longrightarrow> net_ok c (closeStream k r s)"
proof (cases "jm_get (rl_streams s) k")
  case None
  then show "net_ok c s \<Longrightarrow> net_ok c (closeStream k r s)" by (simp add: closeStream_def)
next
  case (Some st)
  assume ok: "net_ok c s"
  then have "stream_ok s k (st\<lparr>sm_state := StreamClosed, sm_closedAt := Some (rl_now s)\<rparr>)"
    using net_ok_stream [OF ok Some] by (simp add: stream_ok_def)
  with ok Some show "net_ok c (closeStream k r s)"
    by (auto simp: closeStream_def intro: net_ok_set_stream)
qed

lemma find_some: "List.find P xs = Some x \<Longrightarrow> x \<in> set xs \<and> P x"
  by (induction xs) (auto split: if_splits)

lemma find_tunnel_some:
  assumes "net_ok c s" and "find_tunnel tid roomId s = Some (k, t)"
  shows "jm_get (rl_tunnels s) k = Some t"
  using assms by (auto simp: find_tunnel_def net_ok_def dest!: find_some split: if_splits)

lemma find_tunnel_by_id:
  assumes ok: "net_ok c s" and t: "jm_get (rl_tunnels s) k = Some t"
  shows "find_tunnel (tn_id t) roomId s = Some (k, t)"
proof -
  have id: "truthy (tn_id t)" using net_ok_tunnel [OF ok t] by (simp add: tunnel_ok_def)
  have "List.find (\<lambda>(k, t'). tn_id t' = tn_id t) (rl_tunnels s) \<noteq> None"
    using map_of_SomeD [OF t] by (auto simp: find_None_iff)
  then obtain k' t' where f: "List.find (\<lambda>(k, t'). tn_id t' = tn_id t) (rl_tunnels s) = Some (k', t')"
    by auto
  then have "find_tunnel (tn_id t) roomId s = Some (k', t')" using id by (simp add: find_tunnel_def)
  moreover from this have t': "jm_get (rl_tunnels s) k' = Some t'" by (rule find_tunnel_some [OF ok])
  moreover have "k' = k" using net_ok_tunnel_ids [OF ok t' t] find_some [OF f] by simp
  ultimately show ?thesis using t by simp
qed

text \<open>The outcome of \<open>closeHostTunnel\<close>: nothing changed, or the tunnel and its streams are closed.\<close>

definition tunnel_closed_in :: "jsval \<Rightarrow> tunnel \<Rightarrow> relay \<Rightarrow> relay \<Rightarrow> bool" where
  "tunnel_closed_in k t s s' \<longleftrightarrow>
     rl_tunnels s' = jm_set k (t\<lparr>tn_state := TunnelClosed, tn_closedAt := Some (rl_now s)\<rparr>) (rl_tunnels s) \<and>
     (\<forall>j. jm_get (rl_streams s') j = map_option (\<lambda>st.
        if sm_tunnelId st = tn_id t \<and> sm_state st = StreamOpen then closed_at (rl_now s) st else st)
        (jm_get (rl_streams s) j)) \<and>
     (distinct (jm_keys (rl_streams s)) \<longrightarrow> distinct (jm_keys (rl_streams s'))) \<and>
     rl_now s' = rl_now s \<and> rl_sessions s' = rl_sessions s \<and> rl_store s' = rl_store s \<and>
     rl_roomBytes s' = rl_roomBytes s \<and> rl_monthlyHostBytes s' = rl_monthlyHostBytes s \<and>
     bytesRelayed (rl_metrics s') = bytesRelayed (rl_metrics s)"

lemma closeHostTunnel_ok:
  assumes f: "find_tunnel tid roomId s = Some (k, t)" and st: "tn_state t = TunnelOpen"
    "hostTunnelAuthorized c (tn_hostId t) (tn_roomId t) tok" "coalesce hostId (tn_hostId t) = tn_hostId t"
  shows "\<exists>n s'. closeHostTunnel c tid roomId hostId tok r s =
      (Inr (publicTunnel (t\<lparr>tn_state := TunnelClosed, tn_closedAt := Some (rl_now s)\<rparr>), n), s') \<and>
    tunnel_closed_in k t s s'"
proof -
  let ?s1 = "s\<lparr>rl_tunnels := jm_set k (t\<lparr>tn_state := TunnelClosed, tn_closedAt := Some (rl_now s)\<rparr>)
      (rl_tunnels s), rl_metrics := (rl_metrics s)\<lparr>hostTunnelsClosed :=
      hostTunnelsClosed (rl_metrics s) + 1\<rparr>\<rparr>"
  let ?reason = "if r = JUndef then JStr ''host_closed'' else r"
  obtain s2 n where c: "close_tunnel_streams (tn_id t) ?reason (jm_keys (rl_streams s)) ?s1 0 = (s2, n)"
    by (cases "close_tunnel_streams (tn_id t) ?reason (jm_keys (rl_streams s)) ?s1 0")
  then have s2: "s2 = fst (close_tunnel_streams (tn_id t) ?reason (jm_keys (rl_streams ?s1)) ?s1 0)"
    by simp
  let ?s' = "recordEvent ''host_tunnel_closed'' (JObj [(''tunnelId'', tn_id t), (''roomId'', tn_roomId t),
         (''reason'', ?reason), (''closedStreams'', JNum n)]) s2"
  have "closeHostTunnel c tid roomId hostId tok r s =
      (Inr (publicTunnel (t\<lparr>tn_state := TunnelClosed, tn_closedAt := Some (rl_now s)\<rparr>), n), ?s')"
    using f st c by (simp add: closeHostTunnel_def Let_def)
  moreover have "tunnel_closed_in k t s ?s'"
    unfolding tunnel_closed_in_def s2 by (simp add: close_all_streams_get cong: if_cong)
  ultimately show ?thesis by blast
qed

lemma closeHostTunnel_cases [consumes 1, case_names Same Closed]:
  assumes "closeHostTunnel c tid roomId hostId tok r s = (res, s')"
  obtains "s' = s"
  | k t n where "find_tunnel tid roomId s = Some (k, t)" "tn_state t = TunnelOpen"
      "hostTunnelAuthorized c (tn_hostId t) (tn_roomId t) tok"
      "res = Inr (publicTunnel (t\<lparr>tn_state := TunnelClosed, tn_closedAt := Some (rl_now s)\<rparr>), n)"
      "tunnel_closed_in k t s s'"
proof (cases "s' = s")
  case False
  with assms obtain k t where f: "find_tunnel tid roomId s = Some (k, t)"
    by (cases "find_tunnel tid roomId s") (auto simp: closeHostTunnel_def)
  have st: "tn_state t = TunnelOpen" "hostTunnelAuthorized c (tn_hostId t) (tn_roomId t) tok"
      "coalesce hostId (tn_hostId t) = tn_hostId t"
    using assms f False by (auto simp: closeHostTunnel_def Let_def split: if_splits
        intro: tunnel_state.exhaust)
  from closeHostTunnel_ok [OF f st, of r] assms show thesis
    by (auto intro: that(2) [OF f st(1,2)])
qed (rule that(1))

lemma net_ok_tunnel_closed:
  assumes ok: "net_ok c s" and t: "jm_get (rl_tunnels s) k = Some t" and cl: "tunnel_closed_in k t s s'"
  shows "net_ok c s'"
proof -
  let ?t' = "t\<lparr>tn_state := TunnelClosed, tn_closedAt := Some (rl_now s)\<rparr>"
  have tunnels: "rl_tunnels s' = jm_set k ?t' (rl_tunnels s)"
    and streams: "\<And>j. jm_get (rl_streams s') j = map_option (\<lambda>st.
        if sm_tunnelId st = tn_id t \<and> sm_state st = StreamOpen then closed_at (rl_now s) st else st)
        (jm_get (rl_streams s) j)"
    and dist: "distinct (jm_keys (rl_streams s'))"
    using cl net_ok_distinct [OF ok] by (auto simp: tunnel_closed_in_def)
  have "stream_ok s' j st'" if "jm_get (rl_streams s') j = Some st'" for j st'
  proof -
    from that streams obtain st where st: "jm_get (rl_streams s) j = Some st"
      and st': "st' = (if sm_tunnelId st = tn_id t \<and> sm_state st = StreamOpen
                       then closed_at (rl_now s) st else st)" by auto
    with net_ok_stream [OF ok st] t show ?thesis
      by (auto simp: stream_ok_def tunnels)
  qed
  moreover have "tunnel_ok c j u" if "jm_get (rl_tunnels s') j = Some u" for j u
    using that t net_ok_tunnel [OF ok] by (auto simp: tunnels tunnel_ok_def split: if_splits)
  moreover have "j = j'" if "jm_get (rl_tunnels s') j = Some u" "jm_get (rl_tunnels s') j' = Some u'"
    "tn_id u = tn_id u'" for j j' u u'
    using that t net_ok_tunnel_ids [OF ok] by (auto simp: tunnels split: if_splits)
  moreover have "distinct (jm_keys (rl_tunnels s'))"
    using net_ok_distinct [OF ok] by (simp add: tunnels)
  ultimately show ?thesis
    using dist unfolding net_ok_def by blast
qed

lemma net_ok_closeHostTunnel:
  assumes "net_ok c s" and "closeHostTunnel c tid roomId hostId tok r s = (res, s')"
  shows "net_ok c s'"
  using assms(2)
proof (cases rule: closeHostTunnel_cases)
  case (Closed k t n)
  show ?thesis
    by (rule net_ok_tunnel_closed [OF assms(1) find_tunnel_some [OF assms(1) Closed(1)] Closed(5)])
qed (use assms in simp)

text \<open>The outcome of \<open>openHostTunnel\<close>: refused, or a new tunnel after the old one is closed.\<close>

lemma openHostTunnel_refused:
  "openHostTunnel c u hostId roomId target tok s = (Inl e, s') \<Longrightarrow> s' = s"
  by (auto simp: openHostTunnel_def Let_def split: if_splits)

lemma openHostTunnel_opened:
  assumes "openHostTunnel c u hostId roomId target tok s = (Inr v, s')"
  shows "hostTunnelAuthorized c hostId roomId tok" and "isMinecraftLoopbackTarget target"
    and "\<And>t. jm_get (rl_tunnels s) roomId = Some t \<Longrightarrow> tn_state t = TunnelOpen \<Longrightarrow> tn_hostId t = hostId"
    and "\<exists>s1. rl_tunnels s' = jm_set roomId \<lparr>tn_id = JStr (''relay_tunnel_'' @ u), tn_hostId = hostId,
            tn_roomId = roomId, tn_target = target, tn_openedAt = rl_now s1, tn_closedAt = None,
            tn_state = TunnelOpen\<rparr> (rl_tunnels s1) \<and> rl_streams s' = rl_streams s1 \<and>
          rl_roomBytes s' = rl_roomBytes s1 \<and> rl_monthlyHostBytes s' = rl_monthlyHostBytes s1 \<and>
          bytesRelayed (rl_metrics s') = bytesRelayed (rl_metrics s1) \<and>
          rl_sessions s' = rl_sessions s1 \<and> rl_store s' = rl_store s1 \<and>
          (if \<exists>t. jm_get (rl_tunnels s) roomId = Some t \<and> tn_state t = TunnelOpen
           then s1 = snd (closeHostTunnel c (tn_id (the (jm_get (rl_tunnels s) roomId))) JUndef
                  hostId tok (JStr ''replaced_by_same_host'') s)
           else s1 = s)"
  using assms by (auto simp: openHostTunnel_def Let_def split: if_splits option.splits)

text \<open>Closing the own open tunnel by its identifier never fails.\<close>

lemma close_own_tunnel:
  assumes ok: "net_ok c s" and t: "jm_get (rl_tunnels s) k = Some t" "tn_state t = TunnelOpen"
    and host: "tn_hostId t = hostId" and auth: "hostTunnelAuthorized c hostId k tok"
  shows "tunnel_closed_in k t s (snd (closeHostTunnel c (tn_id t) JUndef hostId tok r s))"
proof -
  have room: "tn_roomId t = k" using net_ok_tunnel [OF ok t(1)] by (simp add: tunnel_ok_def)
  have "coalesce hostId (tn_hostId t) = tn_hostId t" using host by (simp add: coalesce_def)
  then have "\<exists>n s'. closeHostTunnel c (tn_id t) JUndef hostId tok r s =
      (Inr (publicTunnel (t\<lparr>tn_state := TunnelClosed, tn_closedAt := Some (rl_now s)\<rparr>), n), s') \<and>
    tunnel_closed_in k t s s'"
    using auth host room by (intro closeHostTunnel_ok [OF find_tunnel_by_id [OF ok t(1)] t(2)]) simp_all
  then show ?thesis by auto
qed

lemma net_ok_new_tunnel:
  assumes ok: "net_ok c s" and new: "tunnel_ok c k t" "tn_state t = TunnelOpen"
    and fresh: "\<And>j u. jm_get (rl_tunnels s) j = Some u \<Longrightarrow> tn_id u \<noteq> tn_id t"
    and free: "\<And>u. jm_get (rl_tunnels s) k = Some u \<Longrightarrow> tn_state u = TunnelClosed"
    and s': "rl_tunnels s' = jm_set k t (rl_tunnels s)" "rl_streams s' = rl_streams s"
  shows "net_ok c s'"
proof -
  have "stream_ok s' j st" if "jm_get (rl_streams s') j = Some st" for j st
    using that net_ok_stream [OF ok, of j st] free s' by (auto simp: stream_ok_def)
  moreover have "tunnel_ok c j u" if "jm_get (rl_tunnels s') j = Some u" for j u
    using that new net_ok_tunnel [OF ok] s' by (auto split: if_splits)
  moreover have "j = j'" if "jm_get (rl_tunnels s') j = Some u" "jm_get (rl_tunnels s') j' = Some u'"
    "tn_id u = tn_id u'" for j j' u u'
    using that fresh [of j u] fresh [of j' u'] net_ok_tunnel_ids [OF ok] s' by (auto split: if_splits)
  moreover have "distinct (jm_keys (rl_tunnels s'))" "distinct (jm_keys (rl_streams s'))"
    using net_ok_distinct [OF ok] by (simp_all add: s')
  ultimately show ?thesis unfolding net_ok_def by blast
qed

lemma tunnel_closed_in_ids:
  assumes "tunnel_closed_in k t s s'" and "jm_get (rl_tunnels s) k = Some t"
    and "jm_get (rl_tunnels s') j = Some u"
  shows "\<exists>u0. jm_get (rl_tunnels s) j = Some u0 \<and> tn_id u = tn_id u0 \<and>
    (j = k \<longrightarrow> tn_state u = TunnelClosed)"
  using assms by (auto simp: tunnel_closed_in_def split: if_splits)

lemma net_ok_openHostTunnel:
  assumes ok: "net_ok c s" and op: "openHostTunnel c u hostId roomId target tok s = (res, s')"
    and fresh: "\<forall>t \<in> set (jm_values (rl_tunnels s)). tn_id t \<noteq> JStr (''relay_tunnel_'' @ u)"
  shows "net_ok c s'"
proof (cases res)
  case (Inl e)
  with op openHostTunnel_refused ok show ?thesis by blast
next
  case (Inr v)
  note opened = openHostTunnel_opened [OF op [unfolded Inr]]
  define t where "t = (\<lambda>s1 :: relay. \<lparr>tn_id = JStr (''relay_tunnel_'' @ u), tn_hostId = hostId,
     tn_roomId = roomId, tn_target = target, tn_openedAt = rl_now s1, tn_closedAt = None,
     tn_state = TunnelOpen\<rparr>)"
  have new: "tunnel_ok c roomId (t s1)" for s1
    using opened(1,2) by (auto simp: t_def tunnel_ok_def)
  have id: "tn_id u0 \<noteq> tn_id (t s1)" if "jm_get (rl_tunnels s) j = Some u0" for j u0 s1
    using fresh jm_get_values [OF that] by (auto simp: t_def)
  from opened(4) obtain s1 where s': "rl_tunnels s' = jm_set roomId (t s1) (rl_tunnels s1)"
      "rl_streams s' = rl_streams s1" and s1: "if \<exists>t. jm_get (rl_tunnels s) roomId = Some t \<and> tn_state t = TunnelOpen
           then s1 = snd (closeHostTunnel c (tn_id (the (jm_get (rl_tunnels s) roomId))) JUndef
                  hostId tok (JStr ''replaced_by_same_host'') s)
           else s1 = s" unfolding t_def by blast
  show ?thesis
  proof (cases "\<exists>t. jm_get (rl_tunnels s) roomId = Some t \<and> tn_state t = TunnelOpen")
    case False
    with s1 have "s1 = s" by simp
    then show ?thesis
      using False id s' by (intro net_ok_new_tunnel [OF ok new [of s]])
        (auto simp: t_def intro: tunnel_state.exhaust)
  next
    case True
    then obtain old where old: "jm_get (rl_tunnels s) roomId = Some old" "tn_state old = TunnelOpen"
      by blast
    have cl: "tunnel_closed_in roomId old s s1"
      using s1 True old close_own_tunnel [OF ok old opened(3) [OF old] opened(1)] by simp
    have ok1: "net_ok c s1" by (rule net_ok_tunnel_closed [OF ok old(1) cl])
    show ?thesis
    proof (rule net_ok_new_tunnel [OF ok1 new _ _ _ s'])
      show "tn_state (t s1) = TunnelOpen" by (simp add: t_def)
      show "tn_id u0 \<noteq> tn_id (t s1)" if "jm_get (rl_tunnels s1) j = Some u0" for j u0
        using tunnel_closed_in_ids [OF cl old(1) that] id by metis
      show "tn_state u0 = TunnelClosed" if "jm_get (rl_tunnels s1) roomId = Some u0" for u0
        using tunnel_closed_in_ids [OF cl old(1) that] by blast
    qed
  qed
qed

text \<open>The outcome of \<open>openFriendStreamWithSession\<close>.\<close>

definition stream_opened_in ::
  "relay_config \<Rightarrow> string \<Rightarrow> stream_request \<Rightarrow> nat \<Rightarrow> session \<Rightarrow> tunnel \<Rightarrow> relay \<Rightarrow> relay \<Rightarrow> bool" where
  "stream_opened_in c u rq ref ss t s s' \<longleftrightarrow>
     jm_get (rl_store s) ref = Some ss \<and> validateSession (quotas c) (rl_now s) (Some ss) rq = None \<and>
     jm_get (rl_tunnels s) (rq_roomId rq) = Some t \<and> tn_state t = TunnelOpen \<and>
     (truthy (ss_hostId ss) \<longrightarrow> ss_hostId ss = tn_hostId t) \<and>
     targetMatchesTunnel (rq_requestedTarget rq) (tn_target t) \<and>
     activeRoomMemberCount (rq_roomId rq) s < maxRoomMembers (quotas c) \<and>
     rl_streams s' = jm_set (JStr (''relay_stream_'' @ u)) (new_stream u rq ss t (rl_now s)) (rl_streams s) \<and>
     rl_store s' = jm_set ref (ss\<lparr>ss_consumedAt := Some (rl_now s)\<rparr>) (rl_store s) \<and>
     rl_now s' = rl_now s \<and> rl_tunnels s' = rl_tunnels s \<and> rl_sessions s' = rl_sessions s \<and>
     rl_roomBytes s' = rl_roomBytes s \<and> rl_monthlyHostBytes s' = rl_monthlyHostBytes s \<and>
     bytesRelayed (rl_metrics s') = bytesRelayed (rl_metrics s)"

lemma openWith_opened:
  assumes "openFriendStreamWithSession c u rq res s = (Inr v, s')"
  shows "\<exists>ref ss t. res = Inr ref \<and> stream_opened_in c u rq ref ss t s s' \<and>
    v = publicStream (new_stream u rq ss t (rl_now s))"
proof -
  from assms obtain ref where res: "res = Inr ref"
    by (cases res) (auto simp: openFriendStreamWithSession_def failOpen_def)
  from assms obtain ss where ss: "jm_get (rl_store s) ref = Some ss"
    by (cases "jm_get (rl_store s) ref")
      (auto simp: res openFriendStreamWithSession_def failOpen_def validateSession_def Let_def)
  from assms obtain t where t: "jm_get (rl_tunnels s) (rq_roomId rq) = Some t"
    by (cases "jm_get (rl_tunnels s) (rq_roomId rq)")
      (auto simp: res openFriendStreamWithSession_def failOpen_def Let_def split: option.splits)
  from assms res ss t show ?thesis
    by (auto simp: openFriendStreamWithSession_def failOpen_def stream_opened_in_def Let_def
        new_stream_def split: option.splits if_splits)
qed

lemma openWith_refused:
  assumes "openFriendStreamWithSession c u rq res s = (Inl e, s')"
  shows "rl_streams s' = rl_streams s" "rl_tunnels s' = rl_tunnels s" "rl_store s' = rl_store s"
    "rl_sessions s' = rl_sessions s" "rl_roomBytes s' = rl_roomBytes s"
    "rl_monthlyHostBytes s' = rl_monthlyHostBytes s" "rl_now s' = rl_now s"
    "bytesRelayed (rl_metrics s') = bytesRelayed (rl_metrics s)"
proof -
  have "s' = recordEvent ''friend_stream_open_failed'' (safeOpenFailureMetadata e rq)
     (s\<lparr>rl_metrics := (rl_metrics s)\<lparr>failedOpens := failedOpens (rl_metrics s) + 1\<rparr>\<rparr>)"
    using assms by (auto simp: openFriendStreamWithSession_def failOpen_def Let_def
        split: option.splits if_splits sum.splits)
  then show "rl_streams s' = rl_streams s" "rl_tunnels s' = rl_tunnels s" "rl_store s' = rl_store s"
    "rl_sessions s' = rl_sessions s" "rl_roomBytes s' = rl_roomBytes s"
    "rl_monthlyHostBytes s' = rl_monthlyHostBytes s" "rl_now s' = rl_now s"
    "bytesRelayed (rl_metrics s') = bytesRelayed (rl_metrics s)" by simp_all
qed

lemma normalize_keeps [simp]:
  "rl_streams (snd (normalizeServiceSessionResult ans s)) = rl_streams s"
  "rl_tunnels (snd (normalizeServiceSessionResult ans s)) = rl_tunnels s"
  "rl_now (snd (normalizeServiceSessionResult ans s)) = rl_now s"
  "rl_roomBytes (snd (normalizeServiceSessionResult ans s)) = rl_roomBytes s"
  "rl_monthlyHostBytes (snd (normalizeServiceSessionResult ans s)) = rl_monthlyHostBytes s"
  "rl_metrics (snd (normalizeServiceSessionResult ans s)) = rl_metrics s"
  by (simp_all add: normalizeServiceSessionResult_def alloc_session_def Let_def split: service_answer.split)

lemma readSession_keeps [simp]:
  "rl_streams (snd (readSessionForRequest ans rq s)) = rl_streams s"
  "rl_tunnels (snd (readSessionForRequest ans rq s)) = rl_tunnels s"
  "rl_now (snd (readSessionForRequest ans rq s)) = rl_now s"
  "rl_roomBytes (snd (readSessionForRequest ans rq s)) = rl_roomBytes s"
  "rl_monthlyHostBytes (snd (readSessionForRequest ans rq s)) = rl_monthlyHostBytes s"
  "rl_metrics (snd (readSessionForRequest ans rq s)) = rl_metrics s"
  by (simp_all add: readSessionForRequest_def split: option.split)

lemma net_ok_openWith:
  assumes ok: "net_ok c s" and op: "openFriendStreamWithSession c u rq res s = (r, s')"
  shows "net_ok c s'"
proof (cases r)
  case (Inl e)
  with op openWith_refused [of c u rq res s e s'] show ?thesis
    using ok net_ok_same [of s' s c] by simp
next
  case (Inr v)
  from openWith_opened [OF op [unfolded Inr]] obtain ref ss t
    where o: "stream_opened_in c u rq ref ss t s s'" by blast
  then show ?thesis
    by (intro net_ok_set_stream [OF ok, of "JStr (''relay_stream_'' @ u)" "new_stream u rq ss t (rl_now s)"])
      (auto simp: stream_opened_in_def stream_ok_def new_stream_def)
qed

lemma net_ok_openFriendStream:
  assumes ok: "net_ok c s"
  shows "net_ok c (snd (openFriendStream c u ans rq s))"
proof -
  obtain r s1 where r: "readSessionForRequest ans rq s = (r, s1)"
    by (cases "readSessionForRequest ans rq s")
  then have "net_ok c s1"
    using ok net_ok_same [of s1 s c] readSession_keeps [of ans rq s] by simp
  then show ?thesis
    using net_ok_openWith [of c s1 u rq r] by (simp add: openFriendStream_def r prod_eq_iff)
qed

section \<open>Transfers and disconnecting\<close>

text \<open>
  One rule for \<open>recordTransfer\<close>: refused without a change, refused with the stream closed by a
  quota, or recorded.
\<close>

lemma quota_stop_keeps [simp]:
  "rl_streams (quota_stop k r s) = rl_streams (closeStream k (JStr r) s)"
  "rl_now (quota_stop k r s) = rl_now s" "rl_tunnels (quota_stop k r s) = rl_tunnels s"
  "rl_sessions (quota_stop k r s) = rl_sessions s" "rl_store (quota_stop k r s) = rl_store s"
  "rl_roomBytes (quota_stop k r s) = rl_roomBytes s"
  "rl_monthlyHostBytes (quota_stop k r s) = rl_monthlyHostBytes s"
  "bytesRelayed (rl_metrics (quota_stop k r s)) = bytesRelayed (rl_metrics s)"
  by (simp_all add: quota_stop_def Let_def)

lemma recordTransfer_cases [consumes 1, case_names Same Stopped Recorded]:
  assumes "recordTransfer c k b s = (res, s')"
  obtains "s' = s"
  | reason where "s' = quota_stop k reason s"
  | st n where "jm_get (rl_streams s) k = Some st" "sm_state st = StreamOpen" "b = JNum n" "0 < n"
      "rl_now s - sm_openedAt st \<le> maxSessionMs (quotas c)"
      "rl_now s - sm_lastActivityAt st \<le> idleTimeoutMs (quotas c)"
      "counter (rl_roomBytes s) (sm_roomId st) + n \<le> maxRoomBytes (quotas c)"
      "counter (rl_monthlyHostBytes s) (sm_hostId st) + n \<le> maxMonthlyHostBytes (quotas c)"
      "rl_streams s' = jm_set k (st\<lparr>sm_bytes := sm_bytes st + n, sm_lastActivityAt := rl_now s\<rparr>) (rl_streams s)"
      "rl_roomBytes s' = jm_set (sm_roomId st) (counter (rl_roomBytes s) (sm_roomId st) + n) (rl_roomBytes s)"
      "rl_monthlyHostBytes s' = jm_set (sm_hostId st)
         (counter (rl_monthlyHostBytes s) (sm_hostId st) + n) (rl_monthlyHostBytes s)"
      "bytesRelayed (rl_metrics s') = bytesRelayed (rl_metrics s) + n" "rl_tunnels s' = rl_tunnels s"
      "rl_now s' = rl_now s" "rl_store s' = rl_store s" "rl_sessions s' = rl_sessions s"
proof (cases "jm_get (rl_streams s) k")
  case None
  then show thesis using assms that(1) by (simp add: recordTransfer_def)
next
  case (Some st)
  show thesis
  proof (cases "\<exists>n. b = JNum n \<and> 0 < n")
    case False
    then have "\<not> isSafeInteger b \<or> num_of b \<le> 0"
      by (cases b) (auto simp: isSafeInteger_def num_of_def)
    then show thesis using assms Some that(1) by (auto simp: recordTransfer_def split: if_splits)
  next
    case True
    then obtain n where n: "b = JNum n" "0 < n" by blast
    note defs = recordTransfer_def Let_def num_of_def
    show thesis
    proof (cases "\<exists>e. res = Inl e \<and> s' \<noteq> s")
      case True
      then have "\<exists>reason. s' = quota_stop k reason s"
        using assms Some n by (auto simp: defs split: if_splits)
      then show thesis using that(2) by blast
    next
      case False
      then show thesis
        using assms Some n by (cases "s' = s") (auto simp: defs split: if_splits intro: that)
    qed
  qed
qed

end
