(* ===== verification/Relay_Inv.thy ===== *)
theory Relay_Inv
  imports Relay_Safety
begin

text \<open>
  The invariants of the relay hold in every reachable state: the network part (\<open>net_ok\<close>), the
  byte accounts (\<open>bytes_ok\<close>) and the number of friends per room (\<open>rooms_full_ok\<close>). Each is
  kept by every admissible operation; the interpretations of the locale \<open>invariant\<close> carry them
  to reachable states.
\<close>

section \<open>One step, seen from the maps\<close>

text \<open>Every operation changes the maps in one of seven ways.\<close>

definition rest_same :: "relay \<Rightarrow> relay \<Rightarrow> bool" where
  "rest_same s s' \<longleftrightarrow> rl_tunnels s' = rl_tunnels s \<and> rl_roomBytes s' = rl_roomBytes s \<and>
     rl_monthlyHostBytes s' = rl_monthlyHostBytes s \<and>
     bytesRelayed (rl_metrics s') = bytesRelayed (rl_metrics s)"

lemma rest_same_refl [simp]: "rest_same s s"
  by (simp add: rest_same_def)

lemma rest_same_trans: "rest_same s t \<Longrightarrow> rest_same t u \<Longrightarrow> rest_same s u"
  by (simp add: rest_same_def)

text \<open>\<open>disconnectStream\<close>: the stream is closed, marked as failed, or nothing happens to it.\<close>

lemma disconnect_loop_effect:
  assumes "disconnect_loop n a f k as s = (res, s')" and "jm_get (rl_streams s) k = Some st"
  shows "rest_same s s' \<and>
    (rl_streams s' = rl_streams (closeStream k (JStr ''friend_disconnected'') s) \<or>
     rl_streams s' = jm_set k (st\<lparr>sm_state := StreamDisconnectFailed\<rparr>) (rl_streams s)) \<and>
    rl_now s' = rl_now s \<and> rl_store s' = rl_store s \<and> rl_sessions s' = rl_sessions s"
  using assms
proof (induction n a f k as s rule: disconnect_loop.induct)
  case (1 a f k as s)
  then show ?case by (auto simp: rest_same_def)
next
  case (2 n a f k as s)
  show ?case
  proof (cases "a \<le> f")
    case True
    let ?s1 = "s\<lparr>rl_metrics := (rl_metrics s)\<lparr>disconnectRetries := disconnectRetries (rl_metrics s) + 1\<rparr>\<rparr>"
    have "rl_streams (closeStream k (JStr ''friend_disconnected'') ?s1) =
        rl_streams (closeStream k (JStr ''friend_disconnected'') s)"
      by (simp add: closeStream_def split: option.split)
    with True 2 show ?thesis by (simp add: rest_same_def)
  next
    case False
    with 2 show ?thesis by (auto simp: rest_same_def Let_def)
  qed
qed

lemma disconnect_effect:
  assumes "disconnectStream k maxA failA s = (res, s')"
  shows "s' = s \<or> (\<exists>st. jm_get (rl_streams s) k = Some st \<and> rest_same s s' \<and>
    (rl_streams s' = rl_streams (closeStream k (JStr ''friend_disconnected'') s) \<or>
     rl_streams s' = jm_set k (st\<lparr>sm_state := StreamDisconnectFailed\<rparr>) (rl_streams s)) \<and>
    rl_now s' = rl_now s \<and> rl_store s' = rl_store s \<and> rl_sessions s' = rl_sessions s)"
proof (cases "jm_get (rl_streams s) k")
  case None
  with assms show ?thesis by (simp add: disconnectStream_def)
next
  case (Some st)
  with assms show ?thesis
    using disconnect_loop_effect [OF _ Some] by (simp add: disconnectStream_def)
qed

text \<open>\<open>relayEcho\<close> is a transfer followed by two entries in the inboxes of the stream.\<close>

lemma echo_effect:
  assumes "relayEcho c k p s = Some (res, s')"
  shows "s' = s \<or> (\<exists>b tres s1. recordTransfer c k b s = (tres, s1) \<and>
    (s' = s1 \<or> (\<exists>st h f. jm_get (rl_streams s1) k = Some st \<and>
       s' = s1\<lparr>rl_streams := jm_set k (st\<lparr>sm_hostInbox := h, sm_friendInbox := f\<rparr>) (rl_streams s1)\<rparr>)))"
  using assms unfolding relayEcho_def
  by (auto simp: Let_def split: option.splits if_splits prod.splits sum.splits; blast)

section \<open>The network\<close>

lemma net_ok_recordTransfer:
  assumes ok: "net_ok c s" and op: "recordTransfer c k b s = (res, s')"
  shows "net_ok c s'"
  using op
proof (cases rule: recordTransfer_cases)
  case (Stopped reason)
  then show ?thesis
    using net_ok_closeStream [OF ok] net_ok_same [of s' "closeStream k (JStr reason) s" c] by simp
next
  case (Recorded st n)
  show ?thesis
    by (rule net_ok_set_stream [OF ok _ Recorded(9,13)])
      (use net_ok_stream [OF ok Recorded(1)] Recorded(4) in \<open>simp add: stream_ok_def\<close>)
qed (use ok in simp)

lemma net_ok_echo:
  assumes ok: "net_ok c s"
  shows "net_ok c (echo_state (relayEcho c k p s) s)"
proof (cases "relayEcho c k p s")
  case None
  with ok show ?thesis by (simp add: echo_state_def)
next
  case (Some rs)
  obtain res s' where rs: "rs = (res, s')" by (cases rs)
  with Some echo_effect [of c k p s res s']
  consider "s' = s" | b tres s1 where "recordTransfer c k b s = (tres, s1)" "s' = s1"
    | b tres s1 st h f where "recordTransfer c k b s = (tres, s1)" "jm_get (rl_streams s1) k = Some st"
       "s' = s1\<lparr>rl_streams := jm_set k (st\<lparr>sm_hostInbox := h, sm_friendInbox := f\<rparr>) (rl_streams s1)\<rparr>"
    by blast
  then have "net_ok c s'"
  proof cases
    case 3
    then have ok1: "net_ok c s1" using net_ok_recordTransfer [OF ok] by blast
    show ?thesis
      by (rule net_ok_set_stream [OF ok1, of k "st\<lparr>sm_hostInbox := h, sm_friendInbox := f\<rparr>"])
        (use net_ok_stream [OF ok1 3(2)] 3(3) in \<open>simp_all add: stream_ok_def\<close>)
  qed (use ok net_ok_recordTransfer [OF ok] in auto)
  with Some rs show ?thesis by (simp add: echo_state_def)
qed

lemma net_ok_disconnect:
  assumes ok: "net_ok c s" and op: "disconnectStream k m f s = (res, s')"
  shows "net_ok c s'"
  using disconnect_effect [OF op]
proof (elim disjE exE conjE)
  assume "s' = s"
  with ok show ?thesis by simp
next
  fix st
  assume "rl_streams s' = rl_streams (closeStream k (JStr ''friend_disconnected'') s)" "rest_same s s'"
  then show ?thesis
    using net_ok_closeStream [OF ok, of k "JStr ''friend_disconnected''"]
      net_ok_same [of s' "closeStream k (JStr ''friend_disconnected'') s" c]
    by (simp add: rest_same_def)
next
  fix st
  assume st: "jm_get (rl_streams s) k = Some st" and rest: "rest_same s s'"
    and s': "rl_streams s' = jm_set k (st\<lparr>sm_state := StreamDisconnectFailed\<rparr>) (rl_streams s)"
  show ?thesis
    by (rule net_ok_set_stream [OF ok _ s'])
      (use net_ok_stream [OF ok st] rest in \<open>simp_all add: stream_ok_def rest_same_def\<close>)
qed

lemma net_ok_exec:
  assumes ok: "net_ok c s" and adm: "relay_adm a s"
  shows "net_ok c (relay_exec c a s)"
proof (cases a)
  case (RlAdvance ms)
  then show ?thesis using ok net_ok_same [of "rl_advance ms s" s c] by (simp add: rl_advance_def)
next
  case (RlOpenTunnel u hostId roomId target tok)
  then show ?thesis
    using net_ok_openHostTunnel [OF ok, of u hostId roomId target tok] adm by (simp add: prod_eq_iff)
next
  case (RlCloseTunnel tid roomId hostId tok r)
  then show ?thesis
    using net_ok_closeHostTunnel [OF ok, of tid roomId hostId tok r] by (simp add: prod_eq_iff)
next
  case (RlAuthorize v)
  then show ?thesis
    using ok net_ok_same [of "authorizeSession v s" s c]
    by (simp add: authorizeSession_def alloc_session_def)
next
  case (RlOpenStream u ans rq)
  then show ?thesis using net_ok_openFriendStream [OF ok] by simp
next
  case (RlNormalize ans)
  then show ?thesis using ok net_ok_same [of "snd (normalizeServiceSessionResult ans s)" s c] by simp
next
  case (RlOpenWith u rq res)
  then show ?thesis using net_ok_openWith [OF ok, of u rq res] by (simp add: prod_eq_iff)
next
  case (RlTransfer k b)
  then show ?thesis using net_ok_recordTransfer [OF ok, of k b] by (simp add: prod_eq_iff)
next
  case (RlEcho k p)
  then show ?thesis using net_ok_echo [OF ok] by simp
next
  case (RlDisconnect k m f)
  then show ?thesis using net_ok_disconnect [OF ok, of k m f] by (simp add: prod_eq_iff)
qed

interpretation relay_net: invariant relay_initial relay_adm "relay_exec c" "net_ok c" for c
  by unfold_locales (auto intro: net_ok_initial net_ok_exec)

section \<open>What the accounts may depend on\<close>

text \<open>
  A property of the streams and the byte counters is kept by every operation when it is kept by
  the four ways they change: a stream gets a version with the same room, host and bytes that is
  no more open than it was, a transfer is recorded, a stream is opened, the streams of a tunnel
  are closed.
\<close>

definition accounts_same :: "relay \<Rightarrow> relay \<Rightarrow> bool" where
  "accounts_same s s' \<longleftrightarrow> rl_roomBytes s' = rl_roomBytes s \<and>
     rl_monthlyHostBytes s' = rl_monthlyHostBytes s \<and>
     bytesRelayed (rl_metrics s') = bytesRelayed (rl_metrics s)"

definition stream_le :: "stream \<Rightarrow> stream \<Rightarrow> bool" where
  "stream_le st' st \<longleftrightarrow> sm_roomId st' = sm_roomId st \<and> sm_hostId st' = sm_hostId st \<and>
     sm_bytes st' = sm_bytes st \<and> (sm_state st' = StreamOpen \<longrightarrow> sm_state st = StreamOpen)"

definition recorded_in :: "relay_config \<Rightarrow> jsval \<Rightarrow> stream \<Rightarrow> int \<Rightarrow> relay \<Rightarrow> relay \<Rightarrow> bool" where
  "recorded_in c k st n s s' \<longleftrightarrow> jm_get (rl_streams s) k = Some st \<and> sm_state st = StreamOpen \<and> 0 < n \<and>
     counter (rl_roomBytes s) (sm_roomId st) + n \<le> maxRoomBytes (quotas c) \<and>
     counter (rl_monthlyHostBytes s) (sm_hostId st) + n \<le> maxMonthlyHostBytes (quotas c) \<and>
     rl_streams s' = jm_set k (st\<lparr>sm_bytes := sm_bytes st + n, sm_lastActivityAt := rl_now s\<rparr>) (rl_streams s) \<and>
     rl_roomBytes s' = jm_set (sm_roomId st) (counter (rl_roomBytes s) (sm_roomId st) + n) (rl_roomBytes s) \<and>
     rl_monthlyHostBytes s' = jm_set (sm_hostId st)
       (counter (rl_monthlyHostBytes s) (sm_hostId st) + n) (rl_monthlyHostBytes s) \<and>
     bytesRelayed (rl_metrics s') = bytesRelayed (rl_metrics s) + n"

locale relay_accounts =
  fixes c :: relay_config and I :: "relay \<Rightarrow> bool"
  assumes initial: "I (createRelaySimulation now)"
    and same: "I s \<Longrightarrow> rl_streams s' = rl_streams s \<Longrightarrow> accounts_same s s' \<Longrightarrow> I s'"
    and lower: "I s \<Longrightarrow> net_ok c s \<Longrightarrow> jm_get (rl_streams s) k = Some st \<Longrightarrow> stream_le st' st \<Longrightarrow>
      rl_streams s' = jm_set k st' (rl_streams s) \<Longrightarrow> accounts_same s s' \<Longrightarrow> I s'"
    and recorded: "I s \<Longrightarrow> net_ok c s \<Longrightarrow> recorded_in c k st n s s' \<Longrightarrow> I s'"
    and opened: "I s \<Longrightarrow> net_ok c s \<Longrightarrow> \<not> jm_has (rl_streams s) (JStr (''relay_stream_'' @ u)) \<Longrightarrow>
      stream_opened_in c u rq ref ss t s s' \<Longrightarrow> I s'"
    and tunnel_closed: "I s \<Longrightarrow> net_ok c s \<Longrightarrow> tunnel_closed_in k t s s' \<Longrightarrow> I s'"
begin

lemma kept_closeStream:
  assumes "I s" "net_ok c s" and s': "rl_streams s' = rl_streams (closeStream k r s)" "accounts_same s s'"
  shows "I s'"
proof (cases "rl_streams (closeStream k r s) = rl_streams s")
  case True
  with assms same show ?thesis by metis
next
  case False
  then obtain st where st: "jm_get (rl_streams s) k = Some st"
    and upd: "rl_streams s' = jm_set k (st\<lparr>sm_state := StreamClosed, sm_closedAt := Some (rl_now s)\<rparr>) (rl_streams s)"
    using s'(1) by (auto simp: closeStream_def split: option.splits if_splits)
  show ?thesis
    by (rule lower [OF assms(1,2) st _ upd s'(2)]) (simp add: stream_le_def)
qed

lemma kept_transfer:
  assumes "I s" "net_ok c s" and op: "recordTransfer c k b s = (res, s')"
  shows "I s'"
  using op
proof (cases rule: recordTransfer_cases)
  case (Stopped reason)
  then show ?thesis by (intro kept_closeStream [OF assms(1,2)]) (simp_all add: accounts_same_def)
next
  case (Recorded st n)
  then show ?thesis by (intro recorded [OF assms(1,2)]) (simp add: recorded_in_def)
qed (use assms in simp)

lemma kept_openWith:
  assumes "I s" "net_ok c s" and fresh: "\<not> jm_has (rl_streams s) (JStr (''relay_stream_'' @ u))"
    and op: "openFriendStreamWithSession c u rq res s = (r, s')"
  shows "I s'"
proof (cases r)
  case (Inl e)
  show ?thesis
    by (rule same [OF assms(1)]) (use openWith_refused [OF op [unfolded Inl]] in \<open>simp_all add: accounts_same_def\<close>)
next
  case (Inr v)
  from openWith_opened [OF op [unfolded Inr]] show ?thesis
    using opened [OF assms(1-3)] by blast
qed

lemma kept_echo:
  assumes I: "I s" and ok: "net_ok c s"
  shows "I (echo_state (relayEcho c k p s) s)"
proof (cases "relayEcho c k p s")
  case None
  with I show ?thesis by (simp add: echo_state_def)
next
  case (Some rs)
  obtain res s' where rs: "rs = (res, s')" by (cases rs)
  with Some echo_effect [of c k p s res s']
  consider "s' = s" | b tres s1 where "recordTransfer c k b s = (tres, s1)" "s' = s1"
    | b tres s1 st h f where "recordTransfer c k b s = (tres, s1)" "jm_get (rl_streams s1) k = Some st"
       "s' = s1\<lparr>rl_streams := jm_set k (st\<lparr>sm_hostInbox := h, sm_friendInbox := f\<rparr>) (rl_streams s1)\<rparr>"
    by blast
  then have "I s'"
  proof cases
    case 3
    show ?thesis
      by (rule lower [OF kept_transfer [OF I ok 3(1)] net_ok_recordTransfer [OF ok 3(1)] 3(2),
            of "st\<lparr>sm_hostInbox := h, sm_friendInbox := f\<rparr>"])
        (simp_all add: 3(3) stream_le_def accounts_same_def)
  qed (use I kept_transfer [OF I ok] in auto)
  with Some rs show ?thesis by (simp add: echo_state_def)
qed

lemma kept_exec:
  assumes I: "I s" and ok: "net_ok c s" and adm: "relay_adm a s"
  shows "I (relay_exec c a s)"
proof (cases a)
  case (RlAdvance ms)
  show ?thesis by (rule same [OF I]) (simp_all add: RlAdvance rl_advance_def accounts_same_def)
next
  case (RlOpenTunnel u hostId roomId target tok)
  obtain res s' where op: "openHostTunnel c u hostId roomId target tok s = (res, s')"
    by (cases "openHostTunnel c u hostId roomId target tok s")
  have "I s'"
  proof (cases res)
    case (Inl e)
    with op openHostTunnel_refused I show ?thesis by blast
  next
    case (Inr v)
    note opened_t = openHostTunnel_opened [OF op [unfolded Inr]]
    from opened_t(4) obtain s1 where s': "rl_streams s' = rl_streams s1" "accounts_same s1 s'"
      and s1: "if \<exists>t. jm_get (rl_tunnels s) roomId = Some t \<and> tn_state t = TunnelOpen
         then s1 = snd (closeHostTunnel c (tn_id (the (jm_get (rl_tunnels s) roomId))) JUndef
           hostId tok (JStr ''replaced_by_same_host'') s) else s1 = s"
      unfolding accounts_same_def by blast
    have "I s1"
    proof (cases "\<exists>t. jm_get (rl_tunnels s) roomId = Some t \<and> tn_state t = TunnelOpen")
      case True
      then obtain old where old: "jm_get (rl_tunnels s) roomId = Some old" "tn_state old = TunnelOpen"
        by blast
      have "tunnel_closed_in roomId old s s1"
        using s1 True old close_own_tunnel [OF ok old opened_t(3) [OF old] opened_t(1)] by simp
      then show ?thesis by (rule tunnel_closed [OF I ok])
    qed (use s1 I in simp)
    then show ?thesis by (rule same) (rule s')+
  qed
  with op RlOpenTunnel show ?thesis by simp
next
  case (RlCloseTunnel tid roomId hostId tok r)
  obtain res s' where op: "closeHostTunnel c tid roomId hostId tok r s = (res, s')"
    by (cases "closeHostTunnel c tid roomId hostId tok r s")
  then have "I s'"
    by (cases rule: closeHostTunnel_cases) (use I tunnel_closed [OF I ok] in auto)
  with op RlCloseTunnel show ?thesis by simp
next
  case (RlAuthorize v)
  show ?thesis
    by (rule same [OF I])
      (simp_all add: RlAuthorize authorizeSession_def alloc_session_def accounts_same_def)
next
  case (RlOpenStream u ans rq)
  obtain r s1 where r: "readSessionForRequest ans rq s = (r, s1)"
    by (cases "readSessionForRequest ans rq s")
  then have s1: "rl_streams s1 = rl_streams s" "rl_tunnels s1 = rl_tunnels s" "accounts_same s s1"
    using readSession_keeps [of ans rq s] by (simp_all add: accounts_same_def)
  have "I s1" "net_ok c s1"
    using same [OF I s1(1,3)] ok net_ok_same [of s1 s c] s1 by simp_all
  then show ?thesis
    using kept_openWith [of s1 u rq r] adm s1 RlOpenStream by (simp add: openFriendStream_def r prod_eq_iff)
next
  case (RlNormalize ans)
  show ?thesis by (rule same [OF I]) (simp_all add: RlNormalize accounts_same_def)
next
  case (RlOpenWith u rq res)
  then show ?thesis using kept_openWith [OF I ok, of u rq res] adm by (simp add: prod_eq_iff)
next
  case (RlTransfer k b)
  then show ?thesis using kept_transfer [OF I ok, of k b] by (simp add: prod_eq_iff)
next
  case (RlEcho k p)
  then show ?thesis using kept_echo [OF I ok] by simp
next
  case (RlDisconnect k m f)
  obtain res s' where op: "disconnectStream k m f s = (res, s')"
    by (cases "disconnectStream k m f s")
  from disconnect_effect [OF op] have "I s'"
  proof (elim disjE exE conjE)
    fix st
    assume "rl_streams s' = rl_streams (closeStream k (JStr ''friend_disconnected'') s)" "rest_same s s'"
    then show "I s'" by (intro kept_closeStream [OF I ok]) (simp_all add: rest_same_def accounts_same_def)
  next
    fix st
    assume st: "jm_get (rl_streams s) k = Some st" and rest: "rest_same s s'"
      and s': "rl_streams s' = jm_set k (st\<lparr>sm_state := StreamDisconnectFailed\<rparr>) (rl_streams s)"
    show "I s'"
      by (rule lower [OF I ok st _ s']) (use rest in \<open>simp_all add: stream_le_def rest_same_def accounts_same_def\<close>)
  qed (use I in simp)
  with op RlDisconnect show ?thesis by simp
qed

end

text \<open>With the network part, such a property is an invariant of the relay.\<close>

sublocale relay_accounts \<subseteq> inv: invariant relay_initial relay_adm "relay_exec c" "\<lambda>s. net_ok c s \<and> I s"
  by unfold_locales (auto intro: net_ok_initial net_ok_exec kept_exec initial)

lemma stream_sum_lower:
  fixes f :: "stream \<Rightarrow> int"
  assumes "net_ok c s" "jm_get (rl_streams s) k = Some st" "rl_streams s' = jm_set k st' (rl_streams s)"
  shows "sum_list (map f (jm_values (rl_streams s'))) =
    sum_list (map f (jm_values (rl_streams s))) - f st + f st'"
  unfolding assms(3) jm_sum_set [OF net_ok_distinct(1) [OF assms(1)]] assms(2) by simp

lemma stream_sum_closed:
  fixes f :: "stream \<Rightarrow> int"
  assumes "net_ok c s" "tunnel_closed_in k t s s'" "\<And>st now. f (closed_at now st) \<le> f st"
  shows "sum_list (map f (jm_values (rl_streams s'))) \<le> sum_list (map f (jm_values (rl_streams s)))"
proof (rule jm_sum_mono)
  show "rel_option (\<lambda>v' v. f v' \<le> f v) (jm_get (rl_streams s') j) (jm_get (rl_streams s) j)" for j
    using assms(2,3) by (cases "jm_get (rl_streams s) j") (auto simp: tunnel_closed_in_def)
  show "distinct (jm_keys (rl_streams s))" "distinct (jm_keys (rl_streams s'))"
    using assms net_ok_distinct(1) by (auto simp: tunnel_closed_in_def)
qed

lemma stream_sum_closed_eq:
  fixes f :: "stream \<Rightarrow> int"
  assumes "net_ok c s" "tunnel_closed_in k t s s'" and eq: "\<And>st now. f (closed_at now st) = f st"
  shows "sum_list (map f (jm_values (rl_streams s'))) = sum_list (map f (jm_values (rl_streams s)))"
proof -
  have neg: "sum_list (map (\<lambda>st. - f st) xs) = - sum_list (map f xs)" for xs
    by (induction xs) simp_all
  have "sum_list (map (\<lambda>st. - f st) (jm_values (rl_streams s'))) \<le>
      sum_list (map (\<lambda>st. - f st) (jm_values (rl_streams s)))"
    by (rule stream_sum_closed [OF assms(1,2)]) (simp add: eq)
  moreover have "sum_list (map f (jm_values (rl_streams s'))) \<le> sum_list (map f (jm_values (rl_streams s)))"
    by (rule stream_sum_closed [OF assms(1,2)]) (simp add: eq)
  ultimately show ?thesis unfolding neg by linarith
qed

section \<open>Room sizes\<close>

definition in_room :: "jsval \<Rightarrow> stream \<Rightarrow> int" where
  "in_room r st = (if sm_roomId st = r \<and> sm_state st = StreamOpen then 1 else 0)"

lemma activeRoomMemberCount_sum:
  "activeRoomMemberCount r s = sum_list (map (in_room r) (jm_values (rl_streams s)))"
  unfolding activeRoomMemberCount_def jm_filter_length in_room_def ..

definition rooms_full_ok :: "relay_config \<Rightarrow> relay \<Rightarrow> bool" where
  "rooms_full_ok c s \<longleftrightarrow> (\<forall>r. activeRoomMemberCount r s \<le> max 0 (maxRoomMembers (quotas c)))"

interpretation rooms_full: relay_accounts c "rooms_full_ok c" for c
proof unfold_locales
  show "rooms_full_ok c (createRelaySimulation now)" for now
    by (simp add: rooms_full_ok_def activeRoomMemberCount_def createRelaySimulation_def)
next
  fix s s' :: relay assume "rooms_full_ok c s" "rl_streams s' = rl_streams s"
  then show "rooms_full_ok c s'" by (simp add: rooms_full_ok_def activeRoomMemberCount_def)
next
  fix s s' :: relay and k st st'
  assume I: "rooms_full_ok c s" and a: "net_ok c s" "jm_get (rl_streams s) k = Some st"
    "rl_streams s' = jm_set k st' (rl_streams s)" and le: "stream_le st' st"
  have "activeRoomMemberCount r s' \<le> activeRoomMemberCount r s" for r
    using stream_sum_lower [OF a, of "in_room r"] le
    by (auto simp: activeRoomMemberCount_sum in_room_def stream_le_def)
  with I show "rooms_full_ok c s'" unfolding rooms_full_ok_def by (meson order_trans)
next
  fix s s' :: relay and k st n
  assume I: "rooms_full_ok c s" and a: "net_ok c s" "recorded_in c k st n s s'"
  then have "activeRoomMemberCount r s' = activeRoomMemberCount r s" for r
    using stream_sum_lower [OF a(1), of k st s' _ "in_room r"]
    by (simp add: activeRoomMemberCount_sum recorded_in_def in_room_def)
  with I show "rooms_full_ok c s'" by (simp add: rooms_full_ok_def)
next
  fix s s' :: relay and u rq ref ss t
  assume I: "rooms_full_ok c s" and a: "net_ok c s" "\<not> jm_has (rl_streams s) (JStr (''relay_stream_'' @ u))"
    "stream_opened_in c u rq ref ss t s s'"
  have "activeRoomMemberCount r s' =
      activeRoomMemberCount r s + (if r = rq_roomId rq then 1 else 0)" for r
    using a jm_sum_set [OF net_ok_distinct(1) [OF a(1)], of "in_room r"]
    by (simp add: activeRoomMemberCount_sum stream_opened_in_def new_stream_def in_room_def)
  moreover have "activeRoomMemberCount (rq_roomId rq) s < maxRoomMembers (quotas c)"
    using a by (simp add: stream_opened_in_def)
  ultimately show "rooms_full_ok c s'" using I by (auto simp: rooms_full_ok_def)
next
  fix s s' :: relay and k t
  assume I: "rooms_full_ok c s" and a: "net_ok c s" "tunnel_closed_in k t s s'"
  have "activeRoomMemberCount r s' \<le> activeRoomMemberCount r s" for r
    unfolding activeRoomMemberCount_sum by (rule stream_sum_closed [OF a]) (simp add: in_room_def)
  with I show "rooms_full_ok c s'" unfolding rooms_full_ok_def by (meson order_trans)
qed

section \<open>Byte accounts\<close>

definition bytes_of_room :: "jsval \<Rightarrow> stream \<Rightarrow> int" where
  "bytes_of_room r st = (if sm_roomId st = r then sm_bytes st else 0)"

definition bytes_of_host :: "jsval \<Rightarrow> stream \<Rightarrow> int" where
  "bytes_of_host h st = (if sm_hostId st = h then sm_bytes st else 0)"

abbreviation stream_sum :: "(stream \<Rightarrow> int) \<Rightarrow> relay \<Rightarrow> int" where
  "stream_sum f s \<equiv> sum_list (map f (jm_values (rl_streams s)))"

definition bytes_ok :: "relay_config \<Rightarrow> relay \<Rightarrow> bool" where
  "bytes_ok c s \<longleftrightarrow> (\<forall>r. counter (rl_roomBytes s) r = stream_sum (bytes_of_room r) s) \<and>
     (\<forall>h. counter (rl_monthlyHostBytes s) h = stream_sum (bytes_of_host h) s) \<and>
     bytesRelayed (rl_metrics s) = stream_sum sm_bytes s \<and>
     (\<forall>r. counter (rl_roomBytes s) r \<le> max 0 (maxRoomBytes (quotas c))) \<and>
     (\<forall>h. counter (rl_monthlyHostBytes s) h \<le> max 0 (maxMonthlyHostBytes (quotas c)))"

lemma counter_set: "counter (jm_set k n m) k' = (if k' = k then n else counter m k')"
  by (simp add: counter_def)

lemma bytes_ok_same_sums:
  assumes "bytes_ok c s" "accounts_same s s'"
    and "\<And>f. f \<in> range bytes_of_room \<union> range bytes_of_host \<union> {sm_bytes} \<Longrightarrow> stream_sum f s' = stream_sum f s"
  shows "bytes_ok c s'"
proof -
  have sums: "stream_sum (bytes_of_room r) s' = stream_sum (bytes_of_room r) s"
    "stream_sum (bytes_of_host r) s' = stream_sum (bytes_of_host r) s"
    "stream_sum sm_bytes s' = stream_sum sm_bytes s" for r
    by (rule assms(3), simp)+
  have acc: "rl_roomBytes s' = rl_roomBytes s" "rl_monthlyHostBytes s' = rl_monthlyHostBytes s"
    "bytesRelayed (rl_metrics s') = bytesRelayed (rl_metrics s)"
    using assms(2) by (simp_all add: accounts_same_def)
  show ?thesis using assms(1) unfolding bytes_ok_def sums acc .
qed

interpretation bytes: relay_accounts c "bytes_ok c" for c
proof unfold_locales
  show "bytes_ok c (createRelaySimulation now)" for now
    by (simp add: bytes_ok_def createRelaySimulation_def counter_def)
next
  fix s s' :: relay assume "bytes_ok c s" "rl_streams s' = rl_streams s" "accounts_same s s'"
  then show "bytes_ok c s'" by (auto intro: bytes_ok_same_sums)
next
  fix s s' :: relay and k st st'
  assume I: "bytes_ok c s" and a: "net_ok c s" "jm_get (rl_streams s) k = Some st"
    "rl_streams s' = jm_set k st' (rl_streams s)" and le: "stream_le st' st" and acc: "accounts_same s s'"
  show "bytes_ok c s'"
    by (rule bytes_ok_same_sums [OF I acc])
      (use stream_sum_lower [OF a] le in \<open>auto simp: stream_le_def bytes_of_room_def bytes_of_host_def\<close>)
next
  fix s s' :: relay and k st n
  assume I: "bytes_ok c s" and a: "net_ok c s" and r: "recorded_in c k st n s s'"
  have sums: "stream_sum f s' = stream_sum f s - f st + f (st\<lparr>sm_bytes := sm_bytes st + n,
      sm_lastActivityAt := rl_now s\<rparr>)" for f
    using r by (intro stream_sum_lower [OF a]) (auto simp: recorded_in_def)
  show "bytes_ok c s'"
    using I r unfolding bytes_ok_def sums recorded_in_def
    by (auto simp: counter_set bytes_of_room_def bytes_of_host_def)
next
  fix s s' :: relay and u rq ref ss t
  assume I: "bytes_ok c s" and a: "net_ok c s" "\<not> jm_has (rl_streams s) (JStr (''relay_stream_'' @ u))"
    "stream_opened_in c u rq ref ss t s s'"
  show "bytes_ok c s'"
    by (rule bytes_ok_same_sums [OF I])
      (use a jm_sum_set [OF net_ok_distinct(1) [OF a(1)]] in \<open>auto simp: stream_opened_in_def
        accounts_same_def new_stream_def bytes_of_room_def bytes_of_host_def\<close>)
next
  fix s s' :: relay and k t
  assume I: "bytes_ok c s" and a: "net_ok c s" "tunnel_closed_in k t s s'"
  show "bytes_ok c s'"
    by (rule bytes_ok_same_sums [OF I])
      (use a stream_sum_closed_eq [OF a] in \<open>auto simp: tunnel_closed_in_def accounts_same_def
        bytes_of_room_def bytes_of_host_def\<close>)
qed

section \<open>Used sessions\<close>

text \<open>
  Object numbers stay below the size of the store, so an allocated object is new. A session that
  was used stays used: only \<open>authorizeSession\<close> with its identifier replaces it.
\<close>

definition store_ok :: "relay \<Rightarrow> bool" where
  "store_ok s \<longleftrightarrow> (\<forall>ref. jm_has (rl_store s) ref \<longrightarrow> ref < length (rl_store s))"

definition used_session :: "jsval \<Rightarrow> relay \<Rightarrow> bool" where
  "used_session k s \<longleftrightarrow> (\<exists>ref ss. jm_get (rl_sessions s) k = Some ref \<and>
     jm_get (rl_store s) ref = Some ss \<and> ss_consumedAt ss \<noteq> None)"

definition relay_adm_but :: "jsval \<Rightarrow> relay_op \<Rightarrow> relay \<Rightarrow> bool" where
  "relay_adm_but k a s \<longleftrightarrow> relay_adm a s \<and> (\<forall>v. a = RlAuthorize v \<longrightarrow> jget v ''sessionId'' \<noteq> k)"

lemma length_jm_set: "jm_has m k \<Longrightarrow> length (jm_set k v m) = length m"
  by (induction m) auto

lemma store_new [simp]: "store_ok s \<Longrightarrow> jm_get (rl_store s) (length (rl_store s)) = None"
  unfolding store_ok_def by blast

lemma get_append: "jm_get (m @ [(k, v)]) j =
    (case jm_get m j of Some x \<Rightarrow> Some x | None \<Rightarrow> if j = k then Some v else None)"
  by (simp add: map_add_def split: option.split)

text \<open>The four ways the sessions change.\<close>

definition sessions_same :: "relay \<Rightarrow> relay \<Rightarrow> bool" where
  "sessions_same s s' \<longleftrightarrow> rl_sessions s' = rl_sessions s \<and> rl_store s' = rl_store s"

lemma sessions_same_ok:
  "sessions_same s s' \<Longrightarrow> store_ok s \<Longrightarrow> store_ok s'"
  "sessions_same s s' \<Longrightarrow> used_session k s \<Longrightarrow> used_session k s'"
  by (simp_all add: sessions_same_def store_ok_def used_session_def)

lemma alloc_ok:
  assumes "store_ok s" and "alloc_session ss s = (ref, s1)"
    and "rl_sessions s' = jm_set key ref (rl_sessions s1)" "rl_store s' = rl_store s1"
  shows "store_ok s'" and "jm_get (rl_sessions s') key = Some ref \<and> jm_get (rl_store s') ref = Some ss"
    and "key \<noteq> k \<or> ss_consumedAt ss \<noteq> None \<Longrightarrow> used_session k s \<Longrightarrow> used_session k s'"
proof -
  have s': "rl_sessions s' = jm_set key (length (rl_store s)) (rl_sessions s)" "ref = length (rl_store s)"
    "rl_store s' = rl_store s @ [(length (rl_store s), ss)]"
    using assms by (auto simp: alloc_session_def)
  show "store_ok s'"
    using assms(1) unfolding store_ok_def s' get_append by (auto split: option.splits if_splits simp: less_SucI)
  show "jm_get (rl_sessions s') key = Some ref \<and> jm_get (rl_store s') ref = Some ss"
    using assms(1) unfolding s' get_append by simp
  show "used_session k s'" if "key \<noteq> k \<or> ss_consumedAt ss \<noteq> None" "used_session k s"
    using that assms(1) unfolding used_session_def s' get_append by (cases "k = key") auto
qed

lemma authorize_ok:
  assumes "store_ok s"
  shows "store_ok (authorizeSession v s)"
    and "jget v ''sessionId'' \<noteq> k \<Longrightarrow> used_session k s \<Longrightarrow> used_session k (authorizeSession v s)"
proof -
  obtain ref s1 where a: "alloc_session (session_of_raw v) s = (ref, s1)"
    by (cases "alloc_session (session_of_raw v) s")
  have "rl_sessions (authorizeSession v s) = jm_set (jget v ''sessionId'') ref (rl_sessions s1)"
    "rl_store (authorizeSession v s) = rl_store s1" using a by (simp_all add: authorizeSession_def)
  note ok = alloc_ok [OF assms a this]
  show "store_ok (authorizeSession v s)" by (rule ok(1))
  show "used_session k (authorizeSession v s)" if "jget v ''sessionId'' \<noteq> k" "used_session k s"
    by (rule ok(3) [OF _ that(2)]) (use that in simp)
qed

lemma normalize_ok:
  assumes "store_ok s" and op: "normalizeServiceSessionResult ans s = (res, s')"
  shows "store_ok s'" and "used_session k s \<Longrightarrow> used_session k s'"
    and "res = Inr ref \<Longrightarrow> \<exists>v ss. ans = ServiceSession v \<and>
      jm_get (rl_sessions s') (ss_sessionId (normalizeSession v)) = Some ref \<and>
      jm_get (rl_store s') ref = Some ss \<and>
      (used_session (ss_sessionId (normalizeSession v)) s \<longrightarrow> ss_consumedAt ss \<noteq> None)"
proof -
  have service: "store_ok s' \<and> (\<forall>k. used_session k s \<longrightarrow> used_session k s') \<and>
      (\<exists>r ss. res = Inr r \<and> jm_get (rl_sessions s') (ss_sessionId (normalizeSession v)) = Some r \<and>
        jm_get (rl_store s') r = Some ss \<and>
        (used_session (ss_sessionId (normalizeSession v)) s \<longrightarrow> ss_consumedAt ss \<noteq> None))"
    if ans: "ans = ServiceSession v" for v
  proof -
    define key where "key = ss_sessionId (normalizeSession v)"
    define ss where "ss = (case Option.bind (Option.bind (jm_get (rl_sessions s) key) (jm_get (rl_store s)))
        ss_consumedAt of None \<Rightarrow> normalizeSession v
      | Some n \<Rightarrow> (normalizeSession v)\<lparr>ss_consumedAt := Some n\<rparr>)"
    obtain r s1 where a: "alloc_session ss s = (r, s1)" by (cases "alloc_session ss s")
    have s': "res = Inr r" "rl_sessions s' = jm_set key r (rl_sessions s1)" "rl_store s' = rl_store s1"
      using op a by (auto simp: ans normalizeServiceSessionResult_def Let_def key_def ss_def)
    have used: "ss_consumedAt ss \<noteq> None" if "used_session key s"
      using that by (auto simp: used_session_def ss_def)
    note ok = alloc_ok [OF assms(1) a s'(2,3)]
    have "used_session k s \<longrightarrow> used_session k s'" for k
      using ok(3) [of k] used by auto
    with ok(1,2) used s'(1) show ?thesis by (auto simp: key_def)
  qed
  have other: "s' = s \<and> (\<exists>e. res = Inl e)" if "\<And>v. ans \<noteq> ServiceSession v"
    using that op by (auto simp: normalizeServiceSessionResult_def split: service_answer.splits)
  show "store_ok s'" using service other assms(1) by (cases ans) auto
  show "used_session k s'" if "used_session k s" using service other that by (cases ans) auto
  show "\<exists>v ss. ans = ServiceSession v \<and>
      jm_get (rl_sessions s') (ss_sessionId (normalizeSession v)) = Some ref \<and>
      jm_get (rl_store s') ref = Some ss \<and>
      (used_session (ss_sessionId (normalizeSession v)) s \<longrightarrow> ss_consumedAt ss \<noteq> None)" if "res = Inr ref"
    using service other that by (cases ans) auto
qed

lemma openWith_effect:
  assumes op: "openFriendStreamWithSession c u rq res s = (r, s')"
  obtains "sessions_same s s'" "\<exists>e. r = Inl e"
  | ref ss where "res = Inr ref" "jm_get (rl_store s) ref = Some ss" "rl_sessions s' = rl_sessions s"
      "rl_store s' = jm_set ref (ss\<lparr>ss_consumedAt := Some (rl_now s)\<rparr>) (rl_store s)"
proof (cases r)
  case (Inl e)
  with openWith_refused [OF op [unfolded Inl]] show thesis by (intro that(1)) (simp_all add: sessions_same_def)
next
  case (Inr v)
  with openWith_opened [OF op [unfolded Inr]] show thesis by (auto simp: stream_opened_in_def intro: that(2))
qed

lemma openWith_ok:
  assumes ok: "store_ok s" and op: "openFriendStreamWithSession c u rq res s = (r, s')"
  shows "store_ok s'" and "used_session k s \<Longrightarrow> used_session k s'"
    and "r = Inr v \<Longrightarrow> res = Inr ref \<Longrightarrow> jm_get (rl_sessions s) k = Some ref \<Longrightarrow> used_session k s'"
proof -
  from op show "store_ok s'"
  proof (cases rule: openWith_effect)
    case (2 ref ss)
    have "length (rl_store s') = length (rl_store s)" using 2(2) by (simp add: 2(4) length_jm_set)
    moreover have "jm_has (rl_store s') j \<Longrightarrow> jm_has (rl_store s) j" for j
      using 2(2) by (simp add: 2(4) split: if_splits)
    ultimately show ?thesis using ok unfolding store_ok_def by metis
  qed (simp add: sessions_same_ok(1) ok)
  show "used_session k s'" if used: "used_session k s"
    using op
  proof (cases rule: openWith_effect)
    case (2 ref ss)
    with used show ?thesis by (auto simp: used_session_def)
  qed (simp add: sessions_same_ok(2) used)
  show "used_session k s'" if "r = Inr v" "res = Inr ref" "jm_get (rl_sessions s) k = Some ref"
    using op
  proof (cases rule: openWith_effect)
    case (2 ref' ss)
    with that show ?thesis by (simp add: used_session_def)
  qed (use that in simp)
qed

lemma readSession_ok:
  assumes "store_ok s" and op: "readSessionForRequest ans rq s = (res, s')"
  shows "store_ok s'" and "used_session k s \<Longrightarrow> used_session k s'"
  using assms normalize_ok(1,2) by (auto simp: readSessionForRequest_def split: option.splits)

lemma closeTunnel_sessions: "sessions_same s (snd (closeHostTunnel c tid roomId hostId tok r s))"
proof (cases "closeHostTunnel c tid roomId hostId tok r s")
  case (Pair res s')
  from Pair have "sessions_same s s'"
    by (cases rule: closeHostTunnel_cases) (simp_all add: sessions_same_def tunnel_closed_in_def)
  with Pair show ?thesis by simp
qed

lemma transfer_sessions: "recordTransfer c sid b s = (res, s') \<Longrightarrow> sessions_same s s'"
  by (erule recordTransfer_cases) (auto simp: sessions_same_def)

lemma store_ok_exec:
  assumes ok: "store_ok s"
  shows "store_ok (relay_exec c a s)"
    and "relay_adm_but k a s \<Longrightarrow> used_session k s \<Longrightarrow> used_session k (relay_exec c a s)"
proof -
  have *: "store_ok (relay_exec c a s) \<and>
     (relay_adm_but k a s \<longrightarrow> used_session k s \<longrightarrow> used_session k (relay_exec c a s))"
  proof (cases a)
    case (RlAuthorize v)
    with authorize_ok [OF ok] show ?thesis by (simp add: relay_adm_but_def)
  next
    case (RlOpenStream u ans rq)
    obtain r s1 where r: "readSessionForRequest ans rq s = (r, s1)"
      by (cases "readSessionForRequest ans rq s")
    obtain r2 s2 where r2: "openFriendStreamWithSession c u rq r s1 = (r2, s2)"
      by (cases "openFriendStreamWithSession c u rq r s1")
    have "store_ok s1" by (rule readSession_ok(1) [OF ok r])
    with readSession_ok(2) [OF ok r, of k] openWith_ok(1,2) [OF _ r2] RlOpenStream r r2
    show ?thesis by (auto simp: openFriendStream_def)
  next
    case (RlNormalize ans)
    with normalize_ok(1,2) [OF ok, of ans "fst (normalizeServiceSessionResult ans s)"]
    show ?thesis by simp
  next
    case (RlOpenWith u rq res)
    with openWith_ok(1,2) [OF ok, of c u rq res "fst (openFriendStreamWithSession c u rq res s)"]
    show ?thesis by simp
  next
    case (RlOpenTunnel u hostId roomId target tok)
    have "sessions_same s (relay_exec c a s)"
    proof (cases "openHostTunnel c u hostId roomId target tok s")
      case (Pair res s')
      show ?thesis
      proof (cases res)
        case (Inl e)
        with Pair openHostTunnel_refused have "s' = s" by blast
        with RlOpenTunnel Pair show ?thesis by (simp add: sessions_same_def)
      next
        case (Inr v)
        from openHostTunnel_opened(4) [OF Pair [unfolded Inr]] obtain s1 where
          s1: "rl_sessions s' = rl_sessions s1" "rl_store s' = rl_store s1"
            "s1 = s \<or> (\<exists>t. s1 = snd (closeHostTunnel c t JUndef hostId tok (JStr ''replaced_by_same_host'') s))"
          by metis
        with RlOpenTunnel Pair closeTunnel_sessions [of s] show ?thesis by (auto simp: sessions_same_def)
      qed
    qed
    then show ?thesis using sessions_same_ok [of s "relay_exec c a s"] ok by simp
  next
    case (RlCloseTunnel tid roomId hostId tok r)
    have "sessions_same s (relay_exec c a s)"
      by (simp add: RlCloseTunnel closeTunnel_sessions)
    then show ?thesis using sessions_same_ok [of s "relay_exec c a s"] ok by simp
  next
    case (RlTransfer sid b)
    have "sessions_same s (relay_exec c a s)"
      using transfer_sessions [of c sid b s] by (simp add: RlTransfer prod_eq_iff)
    then show ?thesis using sessions_same_ok [of s "relay_exec c a s"] ok by simp
  next
    case (RlEcho sid p)
    have "sessions_same s (relay_exec c a s)"
    proof (cases "relayEcho c sid p s")
      case (Some rs)
      obtain res s' where "rs = (res, s')" by (cases rs)
      with Some echo_effect [of c sid p s res s'] transfer_sessions RlEcho show ?thesis
        by (auto simp: echo_state_def) (auto simp: sessions_same_def)
    qed (simp add: RlEcho echo_state_def sessions_same_def)
    then show ?thesis using sessions_same_ok [of s "relay_exec c a s"] ok by simp
  next
    case (RlDisconnect sid m f)
    have "sessions_same s (relay_exec c a s)"
      using disconnect_effect [of sid m f s "fst (disconnectStream sid m f s)" "snd (disconnectStream sid m f s)"]
      by (auto simp: RlDisconnect sessions_same_def)
    then show ?thesis using sessions_same_ok [of s "relay_exec c a s"] ok by simp
  next
    case (RlAdvance ms)
    have "sessions_same s (relay_exec c a s)" by (simp add: RlAdvance rl_advance_def sessions_same_def)
    then show ?thesis using sessions_same_ok [of s "relay_exec c a s"] ok by simp
  qed
  then show "store_ok (relay_exec c a s)"
    and "relay_adm_but k a s \<Longrightarrow> used_session k s \<Longrightarrow> used_session k (relay_exec c a s)" by simp_all
qed

lemma store_ok_initial: "relay_initial s \<Longrightarrow> store_ok s"
  by (auto simp: store_ok_def createRelaySimulation_def)

interpretation used: permanent relay_initial "relay_adm_but k" "relay_exec c" store_ok "\<lambda>_. used_session k" for c k
  by unfold_locales (rule store_ok_initial store_ok_exec; assumption)+

end
