(* ===== verification/Relay_Props.thy ===== *)
theory Relay_Props
  imports Relay_Inv
begin

text \<open>
  What the relay promises, in every reachable state: who may open a stream and where it leads,
  how many streams and bytes a room gets, what closing a tunnel does, that a session is used
  once, what the event log shows. The last section holds the runs in which the code falls short
  of its own rules.
\<close>

section \<open>A concrete run, for the witnesses\<close>

definition demo_target :: jsval where
  "demo_target = JObj [(''kind'', JStr ''minecraft''), (''host'', JStr ''127.0.0.1''), (''port'', JNum 25565)]"

definition demo_config :: relay_config where
  "demo_config = \<lparr>hostCredentials = [(''room:host'', JStr ''cred'')], quotas = defaultQuotas\<rparr>"

definition demo_session :: "jsval \<Rightarrow> jsval" where
  "demo_session sid = JObj [(''sessionId'', sid), (''sessionToken'', JStr ''tok''), (''roomId'', JStr ''room''),
     (''inviteId'', JStr ''invite''), (''hostId'', JStr ''host''), (''friendId'', JStr ''friend''),
     (''minecraftUuid'', JStr ''uuid''), (''approved'', JBool True), (''issuedAt'', JNum 0),
     (''expiresAt'', JNum 900000)]"

definition demo_request :: stream_request where
  "demo_request = \<lparr>rq_sessionId = JStr ''session'', rq_sessionToken = JStr ''tok'', rq_roomId = JStr ''room'',
     rq_inviteId = JStr ''invite'', rq_friendId = JStr ''friend'', rq_minecraftUuid = JStr ''uuid'',
     rq_requestedTarget = demo_target\<rparr>"

definition demo_relay_ops :: "relay_op list" where
  "demo_relay_ops =
    [RlOpenTunnel ''1'' (JStr ''host'') (JStr ''room'') demo_target (JStr ''cred''),
     RlAuthorize (demo_session (JStr ''session'')),
     RlOpenStream ''2'' None demo_request,
     RlTransfer (JStr ''relay_stream_2'') (JNum 1000)]"

definition demo_relay :: "nat \<Rightarrow> relay" where
  "demo_relay n = exec_all (relay_exec demo_config) (take n demo_relay_ops) (createRelaySimulation 0)"

text \<open>Evaluation of the operations, with the event log left as it is.\<close>

lemmas relay_eval = createRelaySimulation_def openHostTunnel_def hostTunnelAuthorized_def
  isMinecraftLoopbackTarget_def authorizeSession_def alloc_session_def session_of_raw_def time_of_def
  consumed_of_def openFriendStream_def readSessionForRequest_def openFriendStreamWithSession_def
  validateSession_def targetMatchesTunnel_def activeRoomMemberCount_def new_stream_def recordTransfer_def
  isSafeInteger_def num_of_def counter_def demo_config_def demo_session_def demo_request_def
  demo_target_def defaultQuotas_def Let_def coalesce_def

lemma demo_relay_adm:
  "adm_all relay_adm (relay_exec demo_config) demo_relay_ops (createRelaySimulation 0)"
  by (simp add: demo_relay_ops_def relay_eval)

lemma demo_relay_reach: "relay_reach demo_config (demo_relay n)"
proof -
  have "adm_all relay_adm (relay_exec demo_config) (take n as) s"
    if "adm_all relay_adm (relay_exec demo_config) as s" for as s
    using that by (induction as arbitrary: n s; case_tac n) auto
  with demo_relay_adm show ?thesis
    unfolding demo_relay_def by (intro reach_exec_all) (auto intro: reach_init)
qed

section \<open>Who may open a stream\<close>

text \<open>
  C6. A friend stream is opened only for a session that the relay knows, whose token the request
  presents, that is approved, unused, not expired and not older than the longest session, and
  that is bound to the room, invite, friend and Minecraft identity of the request; the room has an
  open tunnel of the session's host, the requested target is the tunnel's, and the room is not
  full. The stream carries the tunnel's target, and the session is marked as used.
\<close>

theorem stream_admission:
  assumes "openFriendStreamWithSession c u rq res s = (Inr v, s')"
  shows "\<exists>ref ss t. res = Inr ref \<and> jm_get (rl_store s) ref = Some ss \<and>
    truthy (rq_sessionToken rq) \<and> ss_sessionToken ss = rq_sessionToken rq \<and> truthy (ss_approved ss) \<and>
    ss_consumedAt ss = None \<and> (\<forall>e. ss_expiresAt ss = Some e \<longrightarrow> rl_now s < e) \<and>
    (\<forall>i. ss_issuedAt ss = Some i \<longrightarrow> rl_now s - i \<le> maxSessionMs (quotas c)) \<and>
    ss_roomId ss = rq_roomId rq \<and> (truthy (ss_inviteId ss) \<longrightarrow> ss_inviteId ss = rq_inviteId rq) \<and>
    ss_friendId ss = rq_friendId rq \<and> ss_minecraftUuid ss = rq_minecraftUuid rq \<and>
    jm_get (rl_tunnels s) (rq_roomId rq) = Some t \<and> tn_state t = TunnelOpen \<and>
    (truthy (ss_hostId ss) \<longrightarrow> ss_hostId ss = tn_hostId t) \<and>
    targetMatchesTunnel (rq_requestedTarget rq) (tn_target t) \<and>
    activeRoomMemberCount (rq_roomId rq) s < maxRoomMembers (quotas c) \<and>
    v = publicStream (new_stream u rq ss t (rl_now s)) \<and>
    jm_get (rl_store s') ref = Some (ss\<lparr>ss_consumedAt := Some (rl_now s)\<rparr>)"
proof -
  obtain ref ss t where *: "res = Inr ref" "stream_opened_in c u rq ref ss t s s'"
    "v = publicStream (new_stream u rq ss t (rl_now s))"
    using openWith_opened [OF assms] by blast
  then have "validateSession (quotas c) (rl_now s) (Some ss) rq = None"
    by (simp add: stream_opened_in_def)
  with * show ?thesis
    by (auto simp: stream_opened_in_def validateSession_def split: if_splits option.splits)
qed

theorem stream_admission_witness:
  "\<exists>ss. jm_get (rl_store (demo_relay 2)) 0 = Some ss \<and> ss_consumedAt ss = None \<and>
     ss_roomId ss = JStr ''room'' \<and> ss_friendId ss = JStr ''friend''"
proof -
  obtain v s' where "openFriendStreamWithSession demo_config ''2'' demo_request (Inr 0) (demo_relay 2) = (Inr v, s')"
    by (simp add: demo_relay_def demo_relay_ops_def relay_eval)
  from stream_admission [OF this] show ?thesis by (auto simp: demo_request_def)
qed

section \<open>Where a stream leads\<close>

text \<open>
  C7. In every reachable state the relay is no open proxy: an open stream leads to the Minecraft
  port of the local machine, through the open tunnel of its own room, and that tunnel belongs to a
  host for which a credential for this room is configured.
\<close>

theorem no_open_proxy:
  assumes "relay_reach c s" and "jm_get (rl_streams s) k = Some st" and "sm_state st = StreamOpen"
  shows "isMinecraftLoopbackTarget (sm_target st) \<and>
    (\<exists>t tok. jm_get (rl_tunnels s) (sm_roomId st) = Some t \<and> tn_state t = TunnelOpen \<and>
       tn_id t = sm_tunnelId st \<and> tn_hostId t = sm_hostId st \<and> tn_target t = sm_target st \<and>
       hostTunnelAuthorized c (sm_hostId st) (sm_roomId st) tok)"
proof -
  have ok: "net_ok c s" by (rule relay_net.reach_inv [OF assms(1)])
  from net_ok_stream [OF ok assms(2)] assms(3) obtain t where
    t: "jm_get (rl_tunnels s) (sm_roomId st) = Some t" "tn_state t = TunnelOpen"
      "tn_id t = sm_tunnelId st" "tn_hostId t = sm_hostId st" "tn_target t = sm_target st"
    by (auto simp: stream_ok_def)
  with net_ok_tunnel [OF ok t(1)] show ?thesis by (auto simp: tunnel_ok_def)
qed

lemma demo_stream: "\<exists>st. jm_get (rl_streams (demo_relay 3)) (JStr ''relay_stream_2'') = Some st \<and>
    sm_state st = StreamOpen \<and> sm_roomId st = JStr ''room''"
  by (simp add: demo_relay_def demo_relay_ops_def relay_eval)

theorem no_open_proxy_witness:
  "\<exists>st. jm_get (rl_streams (demo_relay 3)) (JStr ''relay_stream_2'') = Some st \<and>
     isMinecraftLoopbackTarget (sm_target st)"
  using demo_stream no_open_proxy [OF demo_relay_reach, of 3] by blast

text \<open>
  C8. No room ever has more open streams than the quota allows, whatever the order of requests,
  with a synchronous or an asynchronous session service.
\<close>

theorem room_never_overfull:
  assumes "relay_reach c s" and "0 \<le> maxRoomMembers (quotas c)"
  shows "activeRoomMemberCount roomId s \<le> maxRoomMembers (quotas c)"
proof -
  have "rooms_full_ok c s" using rooms_full.inv.reach_inv [OF assms(1)] by simp
  then have "activeRoomMemberCount roomId s \<le> max 0 (maxRoomMembers (quotas c))"
    unfolding rooms_full_ok_def by blast
  with assms(2) show ?thesis by simp
qed

theorem room_never_overfull_witness:
  "activeRoomMemberCount (JStr ''room'') (demo_relay 4) \<le> 9"
  using room_never_overfull [OF demo_relay_reach, of "JStr ''room''" 4]
  by (simp add: demo_config_def defaultQuotas_def)

text \<open>
  C9. The byte accounts are exact and within the quotas: in every reachable state the counter of
  a room is the sum of the bytes of its streams, the counter of a host is the sum over the streams
  of its tunnels, \<open>bytesRelayed\<close> is the sum over all streams, and no counter is above its quota.
\<close>

theorem byte_accounts_exact:
  assumes "relay_reach c s" and "0 \<le> maxRoomBytes (quotas c)" and "0 \<le> maxMonthlyHostBytes (quotas c)"
  shows "counter (rl_roomBytes s) room = sum_list (map sm_bytes (filter (\<lambda>st. sm_roomId st = room) (jm_values (rl_streams s)))) \<and>
    counter (rl_monthlyHostBytes s) host = sum_list (map sm_bytes (filter (\<lambda>st. sm_hostId st = host) (jm_values (rl_streams s)))) \<and>
    bytesRelayed (rl_metrics s) = sum_list (map sm_bytes (jm_values (rl_streams s))) \<and>
    counter (rl_roomBytes s) room \<le> maxRoomBytes (quotas c) \<and>
    counter (rl_monthlyHostBytes s) host \<le> maxMonthlyHostBytes (quotas c)"
proof -
  have I: "bytes_ok c s" using bytes.inv.reach_inv [OF assms(1)] by simp
  have sums: "sum_list (map (bytes_of_room r) xs) = sum_list (map sm_bytes (filter (\<lambda>st. sm_roomId st = r) xs))"
    "sum_list (map (bytes_of_host r) xs) = sum_list (map sm_bytes (filter (\<lambda>st. sm_hostId st = r) xs))"
    for r xs by (induction xs) (simp_all add: bytes_of_room_def bytes_of_host_def)
  have "counter (rl_roomBytes s) room \<le> max 0 (maxRoomBytes (quotas c))"
    "counter (rl_monthlyHostBytes s) host \<le> max 0 (maxMonthlyHostBytes (quotas c))"
    using I unfolding bytes_ok_def by blast+
  then have "counter (rl_roomBytes s) room \<le> maxRoomBytes (quotas c)"
    "counter (rl_monthlyHostBytes s) host \<le> maxMonthlyHostBytes (quotas c)"
    using assms(2,3) by simp_all
  with I show ?thesis unfolding bytes_ok_def sums by blast
qed

theorem byte_accounts_exact_witness:
  "bytesRelayed (rl_metrics (demo_relay 4)) = 1000 \<and>
     counter (rl_roomBytes (demo_relay 4)) (JStr ''room'') \<le> 40 * 1024 * 1024 * 1024"
proof -
  have "map sm_bytes (jm_values (rl_streams (demo_relay 4))) = [1000]"
    by (simp add: demo_relay_def demo_relay_ops_def relay_eval)
  then show ?thesis
    using byte_accounts_exact [OF demo_relay_reach, of 4 "JStr ''room''" "JStr ''host''"]
    by (simp add: demo_config_def defaultQuotas_def)
qed

section \<open>Closing a tunnel\<close>

lemma close_streams_count:
  "distinct ks \<Longrightarrow> snd (close_tunnel_streams tid r ks s n) = n + int (length (filter (\<lambda>k.
     \<exists>st. jm_get (rl_streams s) k = Some st \<and> sm_tunnelId st = tid \<and> sm_state st = StreamOpen) ks))"
proof (induction ks arbitrary: s n)
  case (Cons k ks)
  have "filter (\<lambda>j. \<exists>st. jm_get (rl_streams (closeStream k r s)) j = Some st \<and> sm_tunnelId st = tid \<and>
        sm_state st = StreamOpen) ks =
      filter (\<lambda>j. \<exists>st. jm_get (rl_streams s) j = Some st \<and> sm_tunnelId st = tid \<and>
        sm_state st = StreamOpen) ks"
    using Cons.prems by (intro filter_cong) (auto simp: closeStream_get)
  with Cons show ?case by (auto split: option.split)
qed simp


lemma demo_tunnel: "jm_get (rl_tunnels (demo_relay 3)) (JStr ''room'') =
    Some \<lparr>tn_id = JStr ''relay_tunnel_1'', tn_hostId = JStr ''host'', tn_roomId = JStr ''room'',
      tn_target = demo_target, tn_openedAt = 0, tn_closedAt = None, tn_state = TunnelOpen\<rparr>"
  by (simp add: demo_relay_def demo_relay_ops_def relay_eval)


section \<open>Sessions are used once\<close>

text \<open>The session a request is about: the relay's own, or the one the service answered with.\<close>

definition session_key :: "service_answer option \<Rightarrow> stream_request \<Rightarrow> jsval option" where
  "session_key ans rq = (case ans of None \<Rightarrow> Some (rq_sessionId rq)
     | Some (ServiceSession v) \<Rightarrow> Some (ss_sessionId (normalizeSession v)) | Some _ \<Rightarrow> None)"

abbreviation relay_steps_but :: "relay_config \<Rightarrow> jsval \<Rightarrow> relay \<Rightarrow> relay \<Rightarrow> bool" where
  "relay_steps_but c k \<equiv> steps (relay_adm_but k) (relay_exec c)"

lemma store_ok_reach: "relay_reach c s \<Longrightarrow> store_ok s"
  by (induction rule: reach.induct) (auto intro: store_ok_exec store_ok_initial)

lemma readSession_key:
  assumes ok: "store_ok s" and op: "readSessionForRequest ans rq s = (Inr ref, s')"
  shows "\<exists>k ss. session_key ans rq = Some k \<and> jm_get (rl_sessions s') k = Some ref \<and>
    (used_session k s \<longrightarrow> jm_get (rl_store s') ref = Some ss \<and> ss_consumedAt ss \<noteq> None)"
proof (cases ans)
  case None
  with op show ?thesis
    by (auto simp: readSessionForRequest_def session_key_def used_session_def split: option.splits)
next
  case (Some a)
  with op have "normalizeServiceSessionResult a s = (Inr ref, s')"
    by (simp add: readSessionForRequest_def)
  from normalize_ok(3) [OF ok this refl] Some show ?thesis by (auto simp: session_key_def)
qed



section \<open>The event log\<close>

text \<open>Every entry with a secret name holds the label instead of its value, at any depth.\<close>

definition no_bare_secret :: "jsval \<Rightarrow> bool" where
  "no_bare_secret = props_ok (\<lambda>k v. relay_secret_key k \<longrightarrow> v = JStr secret_label)"

lemma redactRelayDiagnostics_safe: "no_bare_secret (redactRelayDiagnostics v)"
  unfolding redactRelayDiagnostics_def no_bare_secret_def
  by (rule props_ok_walk(1)) (auto split: if_splits)

definition log_safe :: "relay \<Rightarrow> bool" where
  "log_safe s \<longleftrightarrow> (\<forall>e \<in> set (rl_events s). no_bare_secret (ev_metadata e))"

lemma log_safe_recordEvent [simp]: "log_safe (recordEvent ty m s) = log_safe s"
  by (auto simp: log_safe_def recordEvent_def redactRelayDiagnostics_safe)

lemma log_safe_same: "rl_events s' = rl_events s \<Longrightarrow> log_safe s' = log_safe s"
  by (simp add: log_safe_def)

lemma log_safe_updates [simp]:
  "log_safe (s\<lparr>rl_now := a\<rparr>) = log_safe s" "log_safe (s\<lparr>rl_tunnels := b\<rparr>) = log_safe s"
  "log_safe (s\<lparr>rl_sessions := d\<rparr>) = log_safe s" "log_safe (s\<lparr>rl_store := e\<rparr>) = log_safe s"
  "log_safe (s\<lparr>rl_streams := f\<rparr>) = log_safe s" "log_safe (s\<lparr>rl_roomBytes := g\<rparr>) = log_safe s"
  "log_safe (s\<lparr>rl_monthlyHostBytes := h\<rparr>) = log_safe s" "log_safe (s\<lparr>rl_metrics := i\<rparr>) = log_safe s"
  by (simp_all add: log_safe_def)

lemma log_safe_closeStream [simp]: "log_safe (closeStream k r s) = log_safe s"
  by (simp add: closeStream_def split: option.split)

lemma log_safe_close_streams [simp]:
  "log_safe (fst (close_tunnel_streams tid r ks s n)) = log_safe s"
  by (induction ks arbitrary: s n) (auto split: option.split)

lemma log_safe_closeHostTunnel [simp]:
  "log_safe (snd (closeHostTunnel c tid roomId hostId tok r s)) = log_safe s"
  by (simp add: closeHostTunnel_def Let_def case_prod_beta split: option.split)

lemma log_safe_openHostTunnel [simp]:
  "log_safe (snd (openHostTunnel c u hostId roomId target tok s)) = log_safe s"
  by (simp add: openHostTunnel_def Let_def)

lemma log_safe_normalize [simp]: "log_safe (snd (normalizeServiceSessionResult ans s)) = log_safe s"
  by (simp add: normalizeServiceSessionResult_def alloc_session_def Let_def split: service_answer.split)

lemma log_safe_openWith [simp]: "log_safe (snd (openFriendStreamWithSession c u rq res s)) = log_safe s"
  by (simp add: openFriendStreamWithSession_def failOpen_def Let_def split: sum.split option.split)

lemma log_safe_openFriendStream [simp]: "log_safe (snd (openFriendStream c u ans rq s)) = log_safe s"
proof -
  have "log_safe (snd (readSessionForRequest ans rq s)) = log_safe s"
    by (simp add: readSessionForRequest_def split: option.split)
  then show ?thesis by (simp add: openFriendStream_def split: prod.split) (metis snd_conv)
qed

lemma log_safe_transfer [simp]: "log_safe (snd (recordTransfer c k b s)) = log_safe s"
  by (simp add: recordTransfer_def quota_stop_def Let_def split: option.split)

lemma log_safe_echo: "relayEcho c k p s = Some (res, s') \<Longrightarrow> log_safe s' = log_safe s"
  using log_safe_transfer [of c k _ s]
  by (auto simp: relayEcho_def Let_def split: option.splits if_splits sum.splits prod.splits; metis snd_conv)

lemma log_safe_disconnect [simp]: "log_safe (snd (disconnectStream k m f s)) = log_safe s"
proof -
  have "log_safe (snd (disconnect_loop n a f k as s)) = log_safe s" for n a as and s :: relay
    by (induction n a f k as s rule: disconnect_loop.induct) (simp_all add: Let_def split: option.split)
  then show ?thesis by (simp add: disconnectStream_def split: option.split)
qed

interpretation log: invariant relay_initial relay_adm "relay_exec c" log_safe for c
proof
  show "log_safe s" if "relay_initial s" for s
    using that by (auto simp: log_safe_def createRelaySimulation_def)
  show "log_safe (relay_exec c a s)" if "log_safe s" for s a
    using that by (cases a) (auto simp: rl_advance_def authorizeSession_def alloc_session_def
        echo_state_def log_safe_echo split: option.split)
qed

text \<open>
  C12. No event in the log of a reachable relay shows the value of a field whose name speaks of a
  token, a credential, a secret, an authorization, a cookie or a password: at any depth such a
  field holds the redaction label, in the stored log and in the one \<open>readEventLog\<close> returns.
\<close>

theorem event_log_redacted:
  assumes "relay_reach c s" and "e \<in> set (rl_events s) \<union> set (readEventLog s)"
  shows "no_bare_secret (ev_metadata e)"
proof -
  have "log_safe s" by (rule log.reach_inv [OF assms(1)])
  with assms(2) show ?thesis
    by (auto simp: log_safe_def readEventLog_def redactRelayDiagnostics_safe)
qed

theorem event_log_redacted_witness:
  "no_bare_secret (ev_metadata (hd (readEventLog (demo_relay 1))))"
proof (rule event_log_redacted [OF demo_relay_reach])
  have "rl_events (demo_relay 1) \<noteq> []"
    by (simp add: demo_relay_def demo_relay_ops_def relay_eval recordEvent_def)
  then show "hd (readEventLog (demo_relay 1)) \<in> set (rl_events (demo_relay 1)) \<union> set (readEventLog (demo_relay 1))"
    by (simp add: readEventLog_def hd_map)
qed

section \<open>Where the code breaks its own rules\<close>

text \<open>
  A friend stream that is closed already can be disconnected once more with failing attempts: its
  state goes back from \<open>closed\<close> to \<open>disconnect_failed\<close>, and the next disconnect counts it as
  closed a second time. After this run one stream was opened and two were closed.
\<close>

definition double_close_ops :: "relay_op list" where
  "double_close_ops = [RlDisconnect (JStr ''relay_stream_2'') 3 0, RlDisconnect (JStr ''relay_stream_2'') 1 1,
     RlDisconnect (JStr ''relay_stream_2'') 3 0]"

theorem stream_closed_twice:
  "(let m = rl_metrics (exec_all (relay_exec demo_config) double_close_ops (demo_relay 3))
    in friendStreamsOpened m = 1 \<and> friendStreamsClosed m = 2)"
  by (simp add: double_close_ops_def demo_relay_def demo_relay_ops_def relay_eval disconnectStream_def
      closeStream_def eval_nat_numeral)

text \<open>
  With a session service that answers later, two requests with one session can both be normalised
  before either opens its stream; each has its own session object, neither is used, and both
  requests open a stream.
\<close>

definition replay_race_ops :: "relay_op list" where
  "replay_race_ops =
    [RlOpenTunnel ''1'' (JStr ''host'') (JStr ''room'') demo_target (JStr ''cred''),
     RlNormalize (ServiceSession (demo_session (JStr ''session''))),
     RlNormalize (ServiceSession (demo_session (JStr ''session''))),
     RlOpenWith ''2'' demo_request (Inr 0), RlOpenWith ''3'' demo_request (Inr 1)]"

theorem async_session_used_twice:
  "relay_reach demo_config (exec_all (relay_exec demo_config) replay_race_ops (createRelaySimulation 0)) \<and>
   activeRoomMemberCount (JStr ''room'')
     (exec_all (relay_exec demo_config) replay_race_ops (createRelaySimulation 0)) = 2"
proof
  have "adm_all relay_adm (relay_exec demo_config) replay_race_ops (createRelaySimulation 0)"
    by (simp add: replay_race_ops_def relay_eval normalizeServiceSessionResult_def normalizeSession_def)
  then show "relay_reach demo_config (exec_all (relay_exec demo_config) replay_race_ops (createRelaySimulation 0))"
    by (intro reach_exec_all) (auto intro: reach_init)
  show "activeRoomMemberCount (JStr ''room'')
     (exec_all (relay_exec demo_config) replay_race_ops (createRelaySimulation 0)) = 2"
    by (simp add: replay_race_ops_def relay_eval normalizeServiceSessionResult_def normalizeSession_def)
qed

text \<open>
  The credential of a host and a room is looked up under \<open>room:host\<close>; when an identifier has a
  colon, one credential opens the tunnels of two different rooms.
\<close>

theorem credential_key_ambiguous:
  "let c = \<lparr>hostCredentials = [(''a:b:c'', JStr ''cred'')], quotas = defaultQuotas\<rparr>
   in hostTunnelAuthorized c (JStr ''c'') (JStr ''a:b'') (JStr ''cred'') \<and>
      hostTunnelAuthorized c (JStr ''b:c'') (JStr ''a'') (JStr ''cred'')"
  by (simp add: hostTunnelAuthorized_def)

end
