(* ===== verification/MemoryStore.thy ===== *)
theory MemoryStore
  imports JsData Protocol
begin

text \<open>
  \<open>services/control-plane/src/persistence/memory-store.mjs\<close>: the control plane's store in
  memory. Records are plain objects; what is stored is the sanitised record, in which every
  sensitive entry is replaced by its hash, and every answer is a copy (\<open>clone\<close>).

  \<^item> \<open>sha\<close> is \<open>createHash("sha256")\<close> of \<open>node:crypto\<close> on a text, in hexadecimal.
  \<^item> \<open>clock.now()\<close> is the field \<open>ms_now\<close>.
  \<^item> An operation that throws a \<open>TypeError\<close> returns \<open>None\<close> in place of its answer.
\<close>

section \<open>Sanitising\<close>

definition SENSITIVE_KEY_NAMES :: "string list" where
  "SENSITIVE_KEY_NAMES = [''accesstoken'', ''authorization'', ''cookie'', ''credential'',
     ''devicesignal'', ''ip'', ''ipaddress'', ''inviteurl'', ''invitetoken'', ''minecraftaccesstoken'',
     ''password'', ''rawtoken'', ''refreshtoken'', ''secret'', ''sessioncredential'', ''sessionid'',
     ''sessionkey'', ''sessiontoken'', ''token'']"

definition normalized_key :: "string \<Rightarrow> string" where
  "normalized_key key = filter is_alnum (toLowerCase key)"

definition isSensitiveKey :: "string \<Rightarrow> bool" where
  "isSensitiveKey key \<longleftrightarrow> \<not> js_endsWith (normalized_key key) ''hash'' \<and>
     normalized_key key \<in> set SENSITIVE_KEY_NAMES"

definition hashKeyFor :: "string \<Rightarrow> string" where
  "hashKeyFor key = key @ ''Hash''"

definition hashSensitiveValue :: "(string \<Rightarrow> string) \<Rightarrow> jsval \<Rightarrow> jsval" where
  "hashSensitiveValue sha value = JStr (sha (js_string value))"

definition sanitizeRecord :: "(string \<Rightarrow> string) \<Rightarrow> jsval \<Rightarrow> jsval" where
  "sanitizeRecord sha = js_walk id (\<lambda>_ _. True)
     (\<lambda>k v. if isSensitiveKey k then Some (hashKeyFor k, hashSensitiveValue sha v) else None)"

section \<open>State\<close>

record rate_counter =
  rc_id :: string
  rc_scope :: jsval
  rc_signalHash :: jsval
  rc_count :: int
  rc_limit :: int
  rc_windowMs :: int
  rc_resetAt :: int
  rc_updatedAt :: int

record memory_store =
  ms_now :: int
  ms_rooms :: "(jsval, jsval) jsmap"
  ms_invites :: "(jsval, jsval) jsmap"
  ms_tokenIndex :: "(jsval, jsval) jsmap"
  ms_approvals :: "(jsval, jsval) jsmap"
  ms_sessions :: "(jsval, jsval) jsmap"
  ms_rateLimits :: "(string, rate_counter) jsmap"
  ms_auditEvents :: "jsval list"

definition createMemoryControlPlaneStore :: "int \<Rightarrow> memory_store" where
  "createMemoryControlPlaneStore now = \<lparr>ms_now = now, ms_rooms = [], ms_invites = [],
     ms_tokenIndex = [], ms_approvals = [], ms_sessions = [], ms_rateLimits = [], ms_auditEvents = []\<rparr>"

text \<open>\<open>Inl reason\<close> for \<open>{ ok: false, reason }\<close>, \<open>Inr record\<close> for \<open>{ ok: true, ... }\<close>.\<close>

type_synonym answer = "jsval + jsval"

definition fail_with :: "error_state \<Rightarrow> answer" where
  "fail_with e = Inl (JStr (error_state_str e))"

section \<open>Records\<close>

text \<open>\<open>requireRecordId\<close>: \<open>False\<close> is the \<open>TypeError\<close>.\<close>

definition requireRecordId :: "jsval \<Rightarrow> bool" where
  "requireRecordId record = truthy (jget record ''id'')"

definition ms_saveRoom :: "(string \<Rightarrow> string) \<Rightarrow> jsval \<Rightarrow> memory_store \<Rightarrow> answer option \<times> memory_store" where
  "ms_saveRoom sha record s =
    (if \<not> requireRecordId record then (None, s)
     else let stored = sanitizeRecord sha record
          in (Some (Inr (json_clone stored)),
              s\<lparr>ms_rooms := jm_set (jget stored ''id'') stored (ms_rooms s)\<rparr>))"

definition ms_readRoom :: "jsval \<Rightarrow> memory_store \<Rightarrow> answer" where
  "ms_readRoom roomId s =
    (case jm_get (ms_rooms s) roomId of
       None \<Rightarrow> fail_with Err_SESSION_UNAVAILABLE
     | Some room \<Rightarrow> Inr (json_clone room))"

definition ms_saveInvite :: "(string \<Rightarrow> string) \<Rightarrow> jsval \<Rightarrow> memory_store \<Rightarrow> answer option \<times> memory_store" where
  "ms_saveInvite sha record s =
    (if \<not> requireRecordId record then (None, s)
     else
       let sanitized = sanitizeRecord sha record;
           stored = (if truthy (jget record ''token'') \<and> \<not> truthy (jget sanitized ''tokenHash'')
             then jput ''tokenHash'' (hashSensitiveValue sha (jget record ''token'')) sanitized
             else sanitized);
           index = (if truthy (jget stored ''tokenHash'')
             then jm_set (jget stored ''tokenHash'') (jget stored ''id'') (ms_tokenIndex s)
             else ms_tokenIndex s)
       in (Some (Inr (json_clone stored)),
           s\<lparr>ms_tokenIndex := index,
             ms_invites := jm_set (jget stored ''id'') stored (ms_invites s)\<rparr>))"

definition ms_readInvite :: "jsval \<Rightarrow> memory_store \<Rightarrow> answer" where
  "ms_readInvite inviteId s =
    (case jm_get (ms_invites s) inviteId of
       None \<Rightarrow> fail_with Err_INVITE_UNAVAILABLE
     | Some invite \<Rightarrow> Inr (json_clone invite))"

text \<open>\<open>v > now\<close> for a stored time: a number, or \<open>true\<close> for 1; other values compare false.\<close>

definition after_now :: "jsval \<Rightarrow> int \<Rightarrow> bool" where
  "after_now v now = (case v of JNum n \<Rightarrow> n > now | JBool b \<Rightarrow> (if b then 1 else 0) > now | _ \<Rightarrow> False)"

definition isInviteUsable :: "int \<Rightarrow> jsval option \<Rightarrow> bool" where
  "isInviteUsable now invite =
    (case invite of
       None \<Rightarrow> False
     | Some i \<Rightarrow> jget i ''state'' = JStr (invite_state_str Invite_ACTIVE) \<and>
         (\<not> truthy (jget i ''expiresAt'') \<or> after_now (jget i ''expiresAt'') now))"

definition ms_readInviteByToken :: "(string \<Rightarrow> string) \<Rightarrow> jsval \<Rightarrow> memory_store \<Rightarrow> answer" where
  "ms_readInviteByToken sha token s =
    (if \<not> truthy token then fail_with Err_INVITE_UNAVAILABLE
     else
       let invite = (case jm_get (ms_tokenIndex s) (hashSensitiveValue sha token) of
             None \<Rightarrow> None
           | Some inviteId \<Rightarrow> if truthy inviteId then jm_get (ms_invites s) inviteId else None)
       in if \<not> isInviteUsable (ms_now s) invite then fail_with Err_INVITE_UNAVAILABLE
          else Inr (json_clone (the invite)))"

definition ms_saveApproval :: "(string \<Rightarrow> string) \<Rightarrow> jsval \<Rightarrow> memory_store \<Rightarrow> answer option \<times> memory_store" where
  "ms_saveApproval sha record s =
    (if \<not> requireRecordId record then (None, s)
     else let stored = sanitizeRecord sha record
          in (Some (Inr (json_clone stored)),
              s\<lparr>ms_approvals := jm_set (jget stored ''id'') stored (ms_approvals s)\<rparr>))"

definition ms_readApproval :: "jsval \<Rightarrow> memory_store \<Rightarrow> answer" where
  "ms_readApproval approvalId s =
    (case jm_get (ms_approvals s) approvalId of
       None \<Rightarrow> fail_with Err_SESSION_UNAVAILABLE
     | Some approval \<Rightarrow> Inr (json_clone approval))"

definition ms_saveSession :: "(string \<Rightarrow> string) \<Rightarrow> jsval \<Rightarrow> memory_store \<Rightarrow> answer option \<times> memory_store" where
  "ms_saveSession sha record s =
    (if \<not> requireRecordId record then (None, s)
     else let stored = sanitizeRecord sha record
          in (Some (Inr (json_clone stored)),
              s\<lparr>ms_sessions := jm_set (jget stored ''id'') stored (ms_sessions s)\<rparr>))"

definition isSessionUsable :: "int \<Rightarrow> jsval option \<Rightarrow> bool" where
  "isSessionUsable now session =
    (case session of
       None \<Rightarrow> False
     | Some ss \<Rightarrow> jget ss ''state'' = JStr (session_state_str Session_ISSUED) \<and>
         (\<not> truthy (jget ss ''expiresAt'') \<or> after_now (jget ss ''expiresAt'') now))"

definition ms_readSession :: "jsval \<Rightarrow> memory_store \<Rightarrow> answer" where
  "ms_readSession sessionId s =
    (let session = jm_get (ms_sessions s) sessionId
     in if \<not> isSessionUsable (ms_now s) session then fail_with Err_SESSION_UNAVAILABLE
        else Inr (json_clone (the session)))"

section \<open>Rate limits\<close>

definition DEFAULT_RATE_LIMIT_WINDOW_MS :: int where
  "DEFAULT_RATE_LIMIT_WINDOW_MS = 60 * 1000"

record rate_result =
  rr_ok :: bool
  rr_scope :: jsval
  rr_signalHash :: jsval
  rr_count :: int
  rr_limit :: int
  rr_remaining :: int
  rr_resetAt :: int

definition positive_int :: "jsval \<Rightarrow> int option" where
  "positive_int v = (case v of JNum n \<Rightarrow> if n < 1 then None else Some n | _ \<Rightarrow> None)"

definition rate_id :: "(string \<Rightarrow> string) \<Rightarrow> jsval \<Rightarrow> jsval \<Rightarrow> string" where
  "rate_id sha scope signal = js_string scope @ '':'' @ sha (js_string signal)"

definition ms_incrementRateLimitCounter ::
  "(string \<Rightarrow> string) \<Rightarrow> jsval \<Rightarrow> jsval \<Rightarrow> jsval \<Rightarrow> jsval \<Rightarrow> memory_store \<Rightarrow>
     rate_result option \<times> memory_store" where
  "ms_incrementRateLimitCounter sha scope signal limitArg windowArg s =
    (case (positive_int limitArg,
           positive_int (if windowArg = JUndef then JNum DEFAULT_RATE_LIMIT_WINDOW_MS else windowArg)) of
       (Some limit, Some windowMs) \<Rightarrow>
         if \<not> truthy scope \<or> \<not> truthy signal then (None, s)
         else
           let now = ms_now s;
               signalHash = hashSensitiveValue sha signal;
               id = rate_id sha scope signal;
               new = \<lparr>rc_id = id, rc_scope = scope, rc_signalHash = signalHash, rc_count = 0,
                 rc_limit = limit, rc_windowMs = windowMs, rc_resetAt = now + windowMs,
                 rc_updatedAt = now\<rparr>;
               counter = (case jm_get (ms_rateLimits s) id of
                   None \<Rightarrow> new
                 | Some c \<Rightarrow> if rc_resetAt c \<le> now then new else c);
               counter' = counter\<lparr>rc_count := rc_count counter + 1, rc_limit := limit,
                 rc_windowMs := windowMs, rc_updatedAt := now\<rparr>
           in (Some \<lparr>rr_ok = (rc_count counter' \<le> limit), rr_scope = scope,
                 rr_signalHash = signalHash, rr_count = rc_count counter', rr_limit = limit,
                 rr_remaining = max (limit - rc_count counter') 0, rr_resetAt = rc_resetAt counter'\<rparr>,
               s\<lparr>ms_rateLimits := jm_set id counter' (ms_rateLimits s)\<rparr>)
     | _ \<Rightarrow> (None, s))"

definition ms_readRateLimitCounter ::
  "(string \<Rightarrow> string) \<Rightarrow> jsval \<Rightarrow> jsval \<Rightarrow> memory_store \<Rightarrow> error_state + rate_counter" where
  "ms_readRateLimitCounter sha scope signal s =
    (if \<not> truthy scope \<or> \<not> truthy signal then Inl Err_RATE_LIMITED
     else (case jm_get (ms_rateLimits s) (rate_id sha scope signal) of
             None \<Rightarrow> Inl Err_RATE_LIMITED
           | Some c \<Rightarrow> Inr c))"

section \<open>Audit\<close>

definition ms_recordAuditEvent ::
  "(string \<Rightarrow> string) \<Rightarrow> string \<Rightarrow> jsval \<Rightarrow> memory_store \<Rightarrow> answer option \<times> memory_store" where
  "ms_recordAuditEvent sha uuid event s =
    (if \<not> truthy (jget event ''type'') then (None, s)
     else
       let stored = sanitizeRecord sha (js_spread
             [(''id'', coalesce (jget event ''id'') (JStr (''audit_'' @ uuid))),
              (''occurredAt'', coalesce (jget event ''occurredAt'') (JNum (ms_now s)))] event)
       in (Some (Inr (json_clone stored)), s\<lparr>ms_auditEvents := ms_auditEvents s @ [stored]\<rparr>))"

definition ms_readAuditEvents :: "jsval \<Rightarrow> memory_store \<Rightarrow> jsval list" where
  "ms_readAuditEvents filt s =
     map json_clone
       (filter (\<lambda>e. \<not> truthy (jget filt ''roomId'') \<or> jget e ''roomId'' = jget filt ''roomId'')
         (filter (\<lambda>e. \<not> truthy (jget filt ''type'') \<or> jget e ''type'' = jget filt ''type'')
           (ms_auditEvents s)))"

section \<open>Snapshot\<close>

record store_snapshot =
  sn_rooms :: "jsval list"
  sn_invites :: "jsval list"
  sn_approvals :: "jsval list"
  sn_sessions :: "jsval list"
  sn_rateLimits :: "rate_counter list"
  sn_auditEvents :: "jsval list"

definition ms_snapshotForTest :: "memory_store \<Rightarrow> store_snapshot" where
  "ms_snapshotForTest s = \<lparr>sn_rooms = map json_clone (jm_values (ms_rooms s)),
     sn_invites = map json_clone (jm_values (ms_invites s)),
     sn_approvals = map json_clone (jm_values (ms_approvals s)),
     sn_sessions = map json_clone (jm_values (ms_sessions s)),
     sn_rateLimits = jm_values (ms_rateLimits s), sn_auditEvents = ms_readAuditEvents (JObj []) s\<rparr>"

end
