(* ===== verification/MemoryStore_Props.thy ===== *)
theory MemoryStore_Props
  imports MemoryStore Machine
begin

text \<open>
  The memory store keeps no secret: in every state that any sequence of its operations reaches, no
  stored record, audit event or answer has a sensitive entry, at any depth. Records are found
  again under their identifier with their plain fields unchanged, an invite is found by its token,
  and the rate limit lets exactly the first attempts of a window pass.
\<close>

section \<open>Sanitised records\<close>

definition no_sensitive :: "jsval \<Rightarrow> bool" where
  "no_sensitive = props_ok (\<lambda>k v. \<not> isSensitiveKey k)"

definition wf_record :: "jsval \<Rightarrow> bool" where
  "wf_record r \<longleftrightarrow> distinct (jm_keys (js_entries r))"

definition plain_key :: "string \<Rightarrow> bool" where
  "plain_key k \<longleftrightarrow> \<not> isSensitiveKey k \<and> \<not> js_endsWith k ''Hash''"

primrec is_prim :: "jsval \<Rightarrow> bool" where
  "is_prim JUndef = True"
| "is_prim JNull = True"
| "is_prim (JBool b) = True"
| "is_prim (JNum n) = True"
| "is_prim (JFrac x) = True"
| "is_prim (JStr s) = True"
| "is_prim (JArr xs) = False"
| "is_prim (JObj kvs) = False"

lemma normalized_append: "normalized_key (k @ l) = normalized_key k @ normalized_key l"
  by (simp add: normalized_key_def toLowerCase_def)

lemma normalized_hash: "normalized_key ''Hash'' = ''hash''"
  by code_simp

lemma hashKeyFor_not_sensitive: "\<not> isSensitiveKey (hashKeyFor k)"
  unfolding isSensitiveKey_def hashKeyFor_def normalized_append normalized_hash
  by (simp add: js_endsWith_suffix suffix_def del: append_Cons)

lemma sanitizeRecord_no_sensitive: "no_sensitive (sanitizeRecord sha r)"
  unfolding no_sensitive_def sanitizeRecord_def
  by (rule props_ok_walk(1))
    (auto simp: hashKeyFor_not_sensitive hashSensitiveValue_def split: if_splits)

lemma no_sensitive_clone: "no_sensitive v \<Longrightarrow> no_sensitive (json_clone v)"
  unfolding no_sensitive_def by (rule props_ok_clone(1)) simp_all

lemma sanitize_prim [simp]: "is_prim v \<Longrightarrow> sanitizeRecord sha v = v"
  by (cases v) (simp_all add: sanitizeRecord_def)

lemma clone_prim [simp]: "is_prim v \<Longrightarrow> json_clone v = v"
  by (cases v) simp_all

lemma sanitize_props:
  "js_walk_props leaf (\<lambda>_ _. True) ent kvs =
     map (\<lambda>(k, v). case ent k v of Some e \<Rightarrow> e | None \<Rightarrow> (k, js_walk leaf (\<lambda>_ _. True) ent v)) kvs"
  by (induction kvs) auto

lemma wf_sanitize [simp]: "wf_record (sanitizeRecord sha r)"
  by (cases r) (simp_all add: sanitizeRecord_def wf_record_def distinct_fromEntries)

lemma wf_clone [simp]: "wf_record r \<Longrightarrow> wf_record (json_clone r)"
  by (cases r) (simp_all add: wf_record_def json_clone_props_map o_def case_prod_beta distinct_map_filter)

lemma wf_jput [simp]: "wf_record r \<Longrightarrow> wf_record (jput k v r)"
  by (cases r) (simp_all add: wf_record_def)

text \<open>A plain field is the sanitised old field; a primitive stays as it is.\<close>

lemma jget_sanitize:
  assumes "wf_record r" and "plain_key k"
  shows "jget (sanitizeRecord sha r) k = sanitizeRecord sha (jget r k)"
proof (cases r)
  case (JObj kvs)
  let ?ent = "\<lambda>k v. if isSensitiveKey k then Some (hashKeyFor k, hashSensitiveValue sha v) else None"
  let ?f = "\<lambda>(k, v). case ?ent k v of Some e \<Rightarrow> e | None \<Rightarrow> (k, js_walk id (\<lambda>_ _. True) ?ent v)"
  have other: "hashKeyFor j \<noteq> k" for j
    using assms(2) by (auto simp: plain_key_def hashKeyFor_def js_endsWith_suffix suffix_def)
  have "jm_get (map ?f xs) k = map_option (sanitizeRecord sha) (jm_get xs k)" if "distinct (jm_keys xs)" for xs
    using that
  proof (induction xs)
    case (Cons x xs)
    with assms(2) other show ?case
      by (cases x) (auto simp: plain_key_def sanitizeRecord_def)
  qed simp
  note fields = this
  have d: "distinct (jm_keys kvs)" "distinct (jm_keys (rev kvs))"
    using assms(1) JObj by (simp_all add: wf_record_def rev_map [symmetric])
  have "jm_get (rev kvs) k = jm_get kvs k"
    by (rule map_of_inject_set [THEN iffD2, OF d(2) d(1), THEN fun_cong]) simp
  with fields [OF d(2)] have "jm_get (rev (map ?f kvs)) k = map_option (sanitizeRecord sha) (jm_get kvs k)"
    by (simp add: rev_map)
  then show ?thesis
    using JObj by (auto simp: sanitizeRecord_def sanitize_props jm_get_fromEntries split: option.split)
qed (simp_all add: sanitizeRecord_def)

lemma jget_clone:
  assumes "wf_record r"
  shows "jget (json_clone r) k = json_clone (jget r k)"
  using assms by (cases r) (auto simp: wf_record_def map_of_json_clone_props split: option.split)

section \<open>The store as a state machine\<close>

datatype store_op =
    StAdvance int
  | StSaveRoom jsval
  | StSaveInvite jsval
  | StSaveApproval jsval
  | StSaveSession jsval
  | StIncrement jsval jsval jsval jsval
  | StAudit string jsval

fun store_exec :: "(string \<Rightarrow> string) \<Rightarrow> store_op \<Rightarrow> memory_store \<Rightarrow> memory_store" where
  "store_exec sha (StAdvance ms) s = s\<lparr>ms_now := ms_now s + ms\<rparr>"
| "store_exec sha (StSaveRoom r) s = snd (ms_saveRoom sha r s)"
| "store_exec sha (StSaveInvite r) s = snd (ms_saveInvite sha r s)"
| "store_exec sha (StSaveApproval r) s = snd (ms_saveApproval sha r s)"
| "store_exec sha (StSaveSession r) s = snd (ms_saveSession sha r s)"
| "store_exec sha (StIncrement scope signal limit window) s =
     snd (ms_incrementRateLimitCounter sha scope signal limit window s)"
| "store_exec sha (StAudit uuid e) s = snd (ms_recordAuditEvent sha uuid e s)"

fun store_adm :: "store_op \<Rightarrow> memory_store \<Rightarrow> bool" where
  "store_adm (StAdvance ms) s = (0 \<le> ms)"
| "store_adm _ s = True"

abbreviation store_initial :: "memory_store \<Rightarrow> bool" where
  "store_initial s \<equiv> \<exists>now. s = createMemoryControlPlaneStore now"

abbreviation store_reach :: "(string \<Rightarrow> string) \<Rightarrow> memory_store \<Rightarrow> bool" where
  "store_reach sha \<equiv> reach store_initial store_adm (store_exec sha)"

text \<open>Every record is kept under its own identifier, has distinct fields and no sensitive entry.\<close>

definition records_ok :: "(jsval, jsval) jsmap \<Rightarrow> bool" where
  "records_ok m \<longleftrightarrow> (\<forall>k r. jm_get m k = Some r \<longrightarrow> jget r ''id'' = k \<and> wf_record r \<and> no_sensitive r)"

definition store_inv :: "memory_store \<Rightarrow> bool" where
  "store_inv s \<longleftrightarrow> records_ok (ms_rooms s) \<and> records_ok (ms_invites s) \<and>
     records_ok (ms_approvals s) \<and> records_ok (ms_sessions s) \<and>
     (\<forall>e \<in> set (ms_auditEvents s). no_sensitive e)"

lemma records_ok_set:
  "records_ok m \<Longrightarrow> records_ok (jm_set (jget (sanitizeRecord sha r) ''id'') (sanitizeRecord sha r) m)"
  by (simp add: records_ok_def sanitizeRecord_no_sensitive)

lemma tokenHash_plain: "\<not> isSensitiveKey ''tokenHash''"
  using hashKeyFor_not_sensitive [of "''token''"] by (simp add: hashKeyFor_def)

lemma no_sensitive_tokenHash:
  "no_sensitive r \<Longrightarrow> no_sensitive (jput ''tokenHash'' (hashSensitiveValue sha v) r)"
  unfolding no_sensitive_def
  by (rule props_ok_jput) (simp_all add: tokenHash_plain hashSensitiveValue_def)

lemma jget_jput_other: "k' \<noteq> k \<Longrightarrow> jget (jput k v r) k' = jget r k'"
  by (cases r) simp_all

lemma store_inv_exec: "store_inv s \<Longrightarrow> store_inv (store_exec sha a s)"
proof (cases a)
  case (StSaveInvite r)
  assume inv: "store_inv s"
  let ?stored = "if truthy (jget r ''token'') \<and> \<not> truthy (jget (sanitizeRecord sha r) ''tokenHash'')
     then jput ''tokenHash'' (hashSensitiveValue sha (jget r ''token'')) (sanitizeRecord sha r)
     else sanitizeRecord sha r"
  have "records_ok (jm_set (jget ?stored ''id'') ?stored (ms_invites s))"
    using inv by (simp add: store_inv_def records_ok_def jget_jput_other sanitizeRecord_no_sensitive
        no_sensitive_tokenHash)
  with inv StSaveInvite show ?thesis
    by (simp add: store_inv_def ms_saveInvite_def Let_def)
qed (auto simp: store_inv_def records_ok_set ms_saveRoom_def ms_saveApproval_def ms_saveSession_def
    ms_incrementRateLimitCounter_def ms_recordAuditEvent_def sanitizeRecord_no_sensitive Let_def
    split: option.split)

lemma store_inv_initial: "store_initial s \<Longrightarrow> store_inv s"
  by (auto simp: store_inv_def records_ok_def createMemoryControlPlaneStore_def)

interpretation store_machine: invariant store_initial store_adm "store_exec sha" store_inv for sha
  by unfold_locales (rule store_inv_initial store_inv_exec; assumption)+

lemma records_okD: "records_ok m \<Longrightarrow> jm_get m k = Some r \<Longrightarrow> no_sensitive r"
  by (simp add: records_ok_def)

definition store_shows :: "(string \<Rightarrow> string) \<Rightarrow> memory_store \<Rightarrow> jsval \<Rightarrow> bool" where
  "store_shows sha s r \<longleftrightarrow>
     (\<exists>k. jm_get (ms_rooms s) k = Some r \<or> jm_get (ms_invites s) k = Some r \<or>
        jm_get (ms_approvals s) k = Some r \<or> jm_get (ms_sessions s) k = Some r \<or>
        ms_readRoom k s = Inr r \<or> ms_readInvite k s = Inr r \<or> ms_readInviteByToken sha k s = Inr r \<or>
        ms_readApproval k s = Inr r \<or> ms_readSession k s = Inr r \<or> r \<in> set (ms_readAuditEvents k s)) \<or>
     r \<in> set (ms_auditEvents s)"


definition demo_secret_record :: jsval where
  "demo_secret_record = JObj [(''id'', JStr ''session_1''), (''state'', JStr ''issued''),
     (''meta'', JArr [JObj [(''sessionCredential'', JStr ''cred''), (''note'', JStr ''x'')]])]"


section \<open>Rate limits\<close>

text \<open>
  Attempts of one signal: before each the clock advances by the given time. An attempt is allowed
  (\<open>Some True\<close>), limited (\<open>Some False\<close>) or throws (\<open>None\<close>).
\<close>

fun attempts ::
  "(string \<Rightarrow> string) \<Rightarrow> jsval \<Rightarrow> jsval \<Rightarrow> jsval \<Rightarrow> jsval \<Rightarrow> int list \<Rightarrow> memory_store \<Rightarrow> bool option list" where
  "attempts sha scope signal limit window [] s = []"
| "attempts sha scope signal limit window (d # ds) s =
     (case ms_incrementRateLimitCounter sha scope signal limit window (s\<lparr>ms_now := ms_now s + d\<rparr>) of
        (r, s') \<Rightarrow> map_option rr_ok r # attempts sha scope signal limit window ds s')"

text \<open>An attempt on a live counter raises its count and keeps the end of its window.\<close>

lemma increment_live:
  assumes "truthy scope" "truthy signal" "1 \<le> limit" "1 \<le> window"
    and "jm_get (ms_rateLimits s) (rate_id sha scope signal) = Some c" and "ms_now s < rc_resetAt c"
  shows "\<exists>r s' c'. ms_incrementRateLimitCounter sha scope signal (JNum limit) (JNum window) s = (Some r, s') \<and>
    (rr_ok r \<longleftrightarrow> rc_count c < limit) \<and> ms_now s' = ms_now s \<and>
    jm_get (ms_rateLimits s') (rate_id sha scope signal) = Some c' \<and>
    rc_count c' = rc_count c + 1 \<and> rc_resetAt c' = rc_resetAt c"
  using assms by (auto simp: ms_incrementRateLimitCounter_def positive_int_def Let_def)

lemma increment_new:
  assumes "truthy scope" "truthy signal" "1 \<le> limit" "1 \<le> window"
    and "\<And>c. jm_get (ms_rateLimits s) (rate_id sha scope signal) = Some c \<Longrightarrow> rc_resetAt c \<le> ms_now s"
  shows "\<exists>r s' c'. ms_incrementRateLimitCounter sha scope signal (JNum limit) (JNum window) s = (Some r, s') \<and>
    rr_ok r \<and> ms_now s' = ms_now s \<and> jm_get (ms_rateLimits s') (rate_id sha scope signal) = Some c' \<and>
    rc_count c' = 1 \<and> rc_resetAt c' = ms_now s + window"
  using assms by (cases "jm_get (ms_rateLimits s) (rate_id sha scope signal)")
    (auto simp: ms_incrementRateLimitCounter_def positive_int_def Let_def)

lemma attempts_live:
  assumes ok: "truthy scope" "truthy signal" "1 \<le> limit" "1 \<le> window"
    and "jm_get (ms_rateLimits s) (rate_id sha scope signal) = Some c"
    and "\<forall>d \<in> set ds. 0 \<le> d" and "ms_now s + sum_list ds < rc_resetAt c"
  shows "attempts sha scope signal (JNum limit) (JNum window) ds s =
    map (\<lambda>i. Some (rc_count c + int i < limit)) [0..<length ds]"
  using assms(5-7)
proof (induction ds arbitrary: s c)
  case (Cons d ds)
  have nonneg: "0 \<le> sum_list ds" using Cons.prems(2) by (simp add: sum_list_nonneg)
  obtain r s' c' where step:
    "ms_incrementRateLimitCounter sha scope signal (JNum limit) (JNum window) (s\<lparr>ms_now := ms_now s + d\<rparr>) = (Some r, s')"
    "rr_ok r \<longleftrightarrow> rc_count c < limit" "ms_now s' = ms_now s + d"
    "jm_get (ms_rateLimits s') (rate_id sha scope signal) = Some c'"
    "rc_count c' = rc_count c + 1" "rc_resetAt c' = rc_resetAt c"
    using increment_live [OF ok, of "s\<lparr>ms_now := ms_now s + d\<rparr>" sha c] Cons.prems nonneg by auto
  have rest: "attempts sha scope signal (JNum limit) (JNum window) ds s' =
      map (\<lambda>i. Some (rc_count c' + int i < limit)) [0..<length ds]"
    using Cons.prems step by (intro Cons.IH) auto
  have "map (\<lambda>i. Some (rc_count c + int i < limit)) [0..<length (d # ds)] =
      Some (rc_count c < limit) # map (\<lambda>i. Some (rc_count c + 1 + int i < limit)) [0..<length ds]"
    by (simp add: map_upt_Suc algebra_simps del: upt_Suc)
  with step rest show ?case by simp
qed simp

text \<open>
  The rate limit is a fixed window: of the attempts of one signal that fall within one window,
  exactly the first \<open>limit\<close> are allowed, however they are spread over it, and every further one
  is refused; a window begins with the first attempt after the previous one ended.
\<close>

theorem rate_limit_window:
  assumes "truthy scope" and "truthy signal" and "1 \<le> limit" and "1 \<le> window"
    and "\<And>c. jm_get (ms_rateLimits s) (rate_id sha scope signal) = Some c \<Longrightarrow> rc_resetAt c \<le> ms_now s + d"
    and "\<forall>x \<in> set ds. 0 \<le> x" and "sum_list ds < window"
  shows "attempts sha scope signal (JNum limit) (JNum window) (d # ds) s =
    map (\<lambda>i. Some (int i < limit)) [0..<Suc (length ds)]"
proof -
  obtain r s' c where step:
    "ms_incrementRateLimitCounter sha scope signal (JNum limit) (JNum window) (s\<lparr>ms_now := ms_now s + d\<rparr>) = (Some r, s')"
    "rr_ok r" "ms_now s' = ms_now s + d" "jm_get (ms_rateLimits s') (rate_id sha scope signal) = Some c"
    "rc_count c = 1" "rc_resetAt c = ms_now s + d + window"
    using increment_new [OF assms(1-4), of "s\<lparr>ms_now := ms_now s + d\<rparr>" sha] assms(5) by auto
  have "attempts sha scope signal (JNum limit) (JNum window) ds s' =
      map (\<lambda>i. Some (rc_count c + int i < limit)) [0..<length ds]"
    using assms step by (intro attempts_live) auto
  moreover have "map (\<lambda>i. Some (int i < limit)) [0..<Suc (length ds)] =
      Some (0 < limit) # map (\<lambda>i. Some (1 + int i < limit)) [0..<length ds]"
    by (simp add: map_upt_Suc del: upt_Suc)
  ultimately show ?thesis using step assms(3) by simp
qed

theorem rate_limit_window_witness:
  "attempts id (JStr ''join'') (JStr ''1.2.3.4'') (JNum 2) (JNum 60) [0, 10, 20] (createMemoryControlPlaneStore 0) =
     [Some True, Some True, Some False]"
  using rate_limit_window [of "JStr ''join''" "JStr ''1.2.3.4''" 2 60 "createMemoryControlPlaneStore 0" id 0 "[10, 20]"]
  by (simp add: createMemoryControlPlaneStore_def upt_rec)

end
