(* ===== verification/Proc.thy ===== *)
theory Proc
  imports Prelude
begin

text \<open>
  Asynchronous functions. A function that awaits runs in pieces: between two awaits nothing else
  runs, at an await other functions may. \<open>proc\<close> is such a function, waiting: \<open>Call f\<close> will run
  one awaited operation \<open>f\<close> on the shared state and go on. \<open>run\<close> lets one function run alone
  (as inside a transaction), \<open>sched\<close> runs two of them in a given order of their pieces.
\<close>

datatype ('s, 'r) proc =
    Return 'r
  | Throw
  | Call "'s \<Rightarrow> ('s, 'r) proc \<times> 's"

primrec run :: "('s, 'r) proc \<Rightarrow> 's \<Rightarrow> 'r option \<times> 's" where
  "run (Return r) = (\<lambda>s. (Some r, s))"
| "run Throw = (\<lambda>s. (None, s))"
| "run (Call f) = (\<lambda>s. case (map_prod run id \<circ> f) s of (g, s') \<Rightarrow> g s')"

text \<open>
  \<open>await op(...)\<close> and what follows: the rest gets the answer and the state at the time it
  resumes, for the clock. An operation that throws (\<open>None\<close>) ends the function.
\<close>

definition await :: "('s \<Rightarrow> 'a option \<times> 's) \<Rightarrow> ('a \<Rightarrow> 's \<Rightarrow> ('s, 'r) proc) \<Rightarrow> ('s, 'r) proc" where
  "await f k = Call (\<lambda>s. case f s of (None, s') \<Rightarrow> (Throw, s') | (Some a, s') \<Rightarrow> (k a s', s'))"

lemma run_await [simp]:
  "run (await f k) s = (case f s of (None, s') \<Rightarrow> (None, s') | (Some a, s') \<Rightarrow> run (k a s') s')"
  by (auto simp: await_def split: prod.split option.split)

lemma run_if [simp]: "run (if b then p else q) s = (if b then run p s else run q s)"
  by simp

text \<open>One piece of a function.\<close>

fun piece :: "('s, 'r) proc \<Rightarrow> 's \<Rightarrow> ('s, 'r) proc \<times> 's" where
  "piece (Call f) s = f s"
| "piece p s = (p, s)"

fun sched :: "bool list \<Rightarrow> ('s, 'r) proc \<Rightarrow> ('s, 'r) proc \<Rightarrow> 's \<Rightarrow> ('s, 'r) proc \<times> ('s, 'r) proc \<times> 's" where
  "sched [] p q s = (p, q, s)"
| "sched (True # bs) p q s = (let (p', s') = piece p s in sched bs p' q s')"
| "sched (False # bs) p q s = (let (q', s') = piece q s in sched bs p q' s')"

text \<open>
  When the second function starts after the first has ended, the schedule does what running them
  one after the other does.
\<close>

lemma run_piece: "run p s = (case piece p s of (p', s') \<Rightarrow> run p' s')"
  by (cases p) (auto split: prod.split)

lemma sched_first: "sched (replicate n True) p q s = (p', q', s') \<Longrightarrow> q' = q \<and> run p s = run p' s'"
proof (induction n arbitrary: p s)
  case (Suc n)
  obtain p1 s1 where p1: "piece p s = (p1, s1)" by (cases "piece p s")
  with Suc show ?case using run_piece [of p s] by simp
qed simp

end
