(* ===== verification/RoomService.thy ===== *)
theory RoomService
  imports Proc MemoryStore
begin

text \<open>
  \<open>services/control-plane/src/services/room-service.mjs\<close>: the room service over a repository.
  Every operation is a \<open>proc\<close> over the repository's state, one \<open>await\<close> per call the code
  awaits. With a repository that offers \<open>withTransaction\<close> an operation runs alone (\<open>run\<close>);
  the memory store offers none, so the pieces of two operations may interleave (\<open>sched\<close>).

  \<^item> The repository is a record of operations: an answer is \<open>Inl reason\<close> or \<open>Inr record\<close>.
    \<open>rp_readPresence\<close> and \<open>rp_recordAuditEvent\<close> may be missing.
  \<^item> \<open>ids\<close>, \<open>createInviteToken\<close> and the quota hooks of \<open>options\<close> are outside the code: what
    they returned is an argument.
\<close>

record 's repository =
  rp_now :: "'s \<Rightarrow> int"
  rp_saveRoom :: "jsval \<Rightarrow> 's \<Rightarrow> answer option \<times> 's"
  rp_readRoom :: "jsval \<Rightarrow> 's \<Rightarrow> answer option \<times> 's"
  rp_saveInvite :: "jsval \<Rightarrow> 's \<Rightarrow> answer option \<times> 's"
  rp_readInvite :: "jsval \<Rightarrow> 's \<Rightarrow> answer option \<times> 's"
  rp_readInviteByToken :: "jsval \<Rightarrow> 's \<Rightarrow> answer option \<times> 's"
  rp_saveApproval :: "jsval \<Rightarrow> 's \<Rightarrow> answer option \<times> 's"
  rp_readApproval :: "jsval \<Rightarrow> 's \<Rightarrow> answer option \<times> 's"
  rp_saveSession :: "jsval \<Rightarrow> 's \<Rightarrow> answer option \<times> 's"
  rp_incrementRateLimitCounter :: "jsval \<Rightarrow> jsval \<Rightarrow> jsval \<Rightarrow> jsval \<Rightarrow> 's \<Rightarrow> (jsval + unit) option \<times> 's"
  rp_readPresence :: "(jsval \<Rightarrow> 's \<Rightarrow> bool option \<times> 's) option"
  rp_recordAuditEvent :: "(jsval \<Rightarrow> 's \<Rightarrow> unit option \<times> 's) option"

record service_config =
  sc_inviteTtlMs :: int
  sc_sessionTtlMs :: int
  sc_joinRequestLimit :: jsval
  sc_joinRequestWindowMs :: jsval

definition default_service_config :: service_config where
  "default_service_config = \<lparr>sc_inviteTtlMs = 24 * 60 * 60 * 1000, sc_sessionTtlMs = 15 * 60 * 1000,
     sc_joinRequestLimit = JNum 5, sc_joinRequestWindowMs = JNum (60 * 1000)\<rparr>"

section \<open>Redaction of audit events\<close>

definition sensitiveKeyPattern :: re where
  "sensitiveKeyPattern = cats [Alt Bol (lit ''_''),
     alts (map liti [''accessToken'', ''authorization'', ''authToken'', ''cookie'', ''credential'',
       ''deviceSignal'', ''ip'', ''ipAddress'', ''inviteToken'', ''inviteUrl'', ''minecraftAccessToken'',
       ''password'', ''rawToken'', ''refreshToken'', ''secret'', ''sessionCredential'', ''sessionId'',
       ''sessionKey'', ''sessionToken'', ''token'']), Alt (lit ''_'') Eol]"

definition normalizedSensitiveKeys :: "string list" where
  "normalizedSensitiveKeys = [''accesstoken'', ''authorization'', ''authtoken'', ''cookie'',
     ''credential'', ''devicesignal'', ''ip'', ''ipaddress'', ''inviteurl'', ''invitetoken'',
     ''minecraftaccesstoken'', ''password'', ''rawtoken'', ''refreshtoken'', ''secret'',
     ''sessioncredential'', ''sessionid'', ''sessionkey'', ''sessiontoken'', ''token'']"

definition audit_sensitive_key :: "string \<Rightarrow> bool" where
  "audit_sensitive_key key \<longleftrightarrow>
     (let normalized = toLowerCase (filter is_alnum key)
      in re_test sensitiveKeyPattern key \<or> normalized \<in> set normalizedSensitiveKeys \<or>
         js_endsWith normalized ''token'')"

text \<open>\<open>[^\s"'<>]\<close>, \<open>[A-Za-z0-9._~+/=-]\<close>, \<open>[^&\s"'<>]\<close>, \<open>[^"',}\s]\<close>\<close>

definition url_char :: "char \<Rightarrow> bool" where
  "url_char x \<longleftrightarrow> \<not> (is_space x \<or> x = CHR 0x22 \<or> x = CHR 0x27 \<or> x = CHR ''<'' \<or> x = CHR ''>'')"

definition bearer_char :: "char \<Rightarrow> bool" where
  "bearer_char x \<longleftrightarrow> is_alnum x \<or> x \<in> set ''._~+/=-''"

definition query_char :: "char \<Rightarrow> bool" where
  "query_char x \<longleftrightarrow> url_char x \<and> x \<noteq> CHR ''&''"

definition field_char :: "char \<Rightarrow> bool" where
  "field_char x \<longleftrightarrow> \<not> (is_space x \<or> x = CHR 0x22 \<or> x = CHR 0x27 \<or> x = CHR '','' \<or> x = CHR ''}'')"

definition quote_char :: "char \<Rightarrow> bool" where
  "quote_char x \<longleftrightarrow> x = CHR 0x22 \<or> x = CHR 0x27"

definition audit_text_rules :: "(re \<times> (captures \<Rightarrow> string)) list" where
  "audit_text_rules =
    [(cats [liti ''http'', opt (liti ''s''), lit ''://'', star (Chr url_char),
        alts (map liti [''/invite/'', ''/invites/'', ''/friend/invites/'']), star (Chr url_char)],
      \<lambda>c. ''[redacted_invite_url]''),
     (cats [WordB, Cap 1 (alts (map liti [''Bearer'', ''Basic''])), plus1 (Chr is_space),
        plus1 (Chr bearer_char)],
      \<lambda>c. cap c 1 @ '' [redacted_credential]''),
     (cats [WordB, Cap 1 (alts (map liti [''inviteToken'', ''token'', ''sessionKey'', ''session'',
        ''access_token'', ''refresh_token'', ''password'', ''credential'', ''secret''])), lit ''='',
        Cap 2 (plus1 (Chr query_char))],
      \<lambda>c. cap c 1 @ ''=[redacted_credential]''),
     (cats [WordB, Cap 1 (alts (map liti [''invite token'', ''session key'', ''session credential'',
        ''access token'', ''password'', ''credential'', ''secret''])), star (Chr is_space),
        Chr (\<lambda>x. x = CHR '':'' \<or> x = CHR ''=''), star (Chr is_space), opt (Chr quote_char),
        plus1 (Chr field_char)],
      \<lambda>c. cap c 1 @ '': [redacted_credential]''),
     (cats [WordB, Rep 3 (Some 3) (cats [Rep 1 (Some 3) (Chr is_digit), lit ''.'']),
        Rep 1 (Some 3) (Chr is_digit), opt (cats [lit '':'', plus1 (Chr is_digit)]), WordB],
      \<lambda>c. ''[redacted_ip]'')]"

definition redactAuditText :: "string \<Rightarrow> string" where
  "redactAuditText s = replace_rules audit_text_rules s"

definition redactAuditValue :: "jsval \<Rightarrow> jsval" where
  "redactAuditValue = js_walk redactAuditText (\<lambda>_ _. True)
     (\<lambda>k v. if nullish v then Some (k, v)
            else if audit_sensitive_key k then Some (k, JStr ''[redacted]'') else None)"

section \<open>Hooks, audit, availability\<close>

text \<open>What a quota hook returned; \<open>None\<close>: no hook is set.\<close>

definition callHook :: "jsval option \<Rightarrow> jsval + unit" where
  "callHook hook =
    (case hook of
       None \<Rightarrow> Inr ()
     | Some result \<Rightarrow>
        if result = JBool False then Inl (JStr (error_state_str Err_SESSION_UNAVAILABLE))
        else if jget result ''ok'' = JBool False then Inl (jget result ''reason'') else Inr ())"

definition audit :: "'s repository \<Rightarrow> jsval \<Rightarrow> (unit \<Rightarrow> 's \<Rightarrow> ('s, 'r) proc) \<Rightarrow> ('s, 'r) proc" where
  "audit repo event k =
    (case rp_recordAuditEvent repo of
       None \<Rightarrow> await (\<lambda>s. (Some (), s)) k
     | Some rec \<Rightarrow> await (rec (redactAuditValue event)) k)"

definition isRoomOpen :: "jsval \<Rightarrow> bool" where
  "isRoomOpen room \<longleftrightarrow> jget room ''state'' = JStr (room_state_str Room_OPEN)"

definition isRoomAvailable :: "'s repository \<Rightarrow> jsval \<Rightarrow> 's \<Rightarrow> bool option \<times> 's" where
  "isRoomAvailable repo room s =
    (if \<not> isRoomOpen room then (Some False, s)
     else (case rp_readPresence repo of
             None \<Rightarrow> (Some True, s)
           | Some readPresence \<Rightarrow> readPresence (jget room ''id'') s))"

definition publicRoom :: "jsval \<Rightarrow> jsval" where
  "publicRoom room = JObj [(''id'', jget room ''id''), (''alias'', jget room ''alias''),
     (''minecraftVersion'', jget room ''minecraftVersion''),
     (''packProfileName'', jget room ''packProfileName''), (''state'', jget room ''state'')]"

abbreviation host_may :: "action \<Rightarrow> jsval \<Rightarrow> jsval \<Rightarrow> bool" where
  "host_may a actorId room \<equiv> canActorPerform (JStr (actor_str HOST)) (JStr (action_str a))
     (host_context actorId (jget room ''hostId''))"

section \<open>Rooms\<close>

definition rs_createRoom ::
  "'s repository \<Rightarrow> string \<Rightarrow> jsval option \<Rightarrow> jsval \<Rightarrow> jsval \<Rightarrow> jsval \<Rightarrow> jsval \<Rightarrow> ('s, answer) proc" where
  "rs_createRoom repo uuid quotaHook actorId alias minecraftVersion packProfileName =
    (if \<not> truthy actorId then Throw
     else await (\<lambda>s. (Some (callHook quotaHook), s)) (\<lambda>quota s0. case quota of
         Inl reason \<Rightarrow> Return (Inl reason)
       | Inr _ \<Rightarrow>
          let now = JNum (rp_now repo s0);
              room = JObj [(''id'', JStr (''room_'' @ uuid)), (''hostId'', actorId), (''alias'', alias),
                (''minecraftVersion'', minecraftVersion), (''packProfileName'', packProfileName),
                (''state'', JStr (room_state_str Room_OPEN)), (''createdAt'', now), (''updatedAt'', now)]
          in await (rp_saveRoom repo room) (\<lambda>saved _. case saved of
               Inl reason \<Rightarrow> Return (Inl reason)
             | Inr savedRoom \<Rightarrow>
                audit repo (JObj [(''type'', JStr ''room_created''), (''actorId'', actorId),
                    (''roomId'', jget room ''id''),
                    (''metadata'', JObj [(''minecraftVersion'', minecraftVersion),
                       (''packProfileName'', packProfileName)])])
                  (\<lambda>_ _. Return (Inr (publicRoom (coalesce savedRoom room)))))))"

section \<open>Invites\<close>

definition new_invite :: "service_config \<Rightarrow> string \<Rightarrow> jsval \<Rightarrow> jsval \<Rightarrow> int \<Rightarrow> jsval" where
  "new_invite c uuid roomId token now = JObj [(''id'', JStr (''invite_'' @ uuid)), (''roomId'', roomId),
     (''token'', token), (''state'', JStr (invite_state_str Invite_ACTIVE)), (''createdAt'', JNum now),
     (''expiresAt'', JNum (now + sc_inviteTtlMs c))]"

definition rs_createInvite ::
  "'s repository \<Rightarrow> service_config \<Rightarrow> string \<Rightarrow> jsval \<Rightarrow> jsval \<Rightarrow> jsval \<Rightarrow> ('s, answer) proc" where
  "rs_createInvite repo c uuid token actorId roomId =
    await (rp_readRoom repo roomId) (\<lambda>roomResult s0. case roomResult of
        Inl _ \<Rightarrow> Return (fail_with Err_SESSION_UNAVAILABLE)
      | Inr room \<Rightarrow>
         if \<not> host_may CREATE_INVITE actorId room
         then Return (fail_with Err_SESSION_UNAVAILABLE)
         else
           let invite = new_invite c uuid roomId token (rp_now repo s0)
           in await (rp_saveInvite repo invite) (\<lambda>saved _. case saved of
                Inl reason \<Rightarrow> Return (Inl reason)
              | Inr savedInvite \<Rightarrow>
                 let inviteId = coalesce (jget savedInvite ''id'') (jget invite ''id'')
                 in audit repo (JObj [(''type'', JStr ''invite_created''), (''actorId'', actorId),
                        (''roomId'', roomId), (''inviteId'', inviteId),
                        (''metadata'', JObj [(''expiresAt'', jget invite ''expiresAt'')])])
                      (\<lambda>_ _. Return (Inr (JObj [(''id'', inviteId), (''token'', token),
                         (''expiresAt'', jget invite ''expiresAt'')])))))"

text \<open>\<open>readAuthorizedInvite\<close>, with what follows.\<close>

definition readAuthorizedInvite ::
  "'s repository \<Rightarrow> jsval \<Rightarrow> jsval \<Rightarrow> action \<Rightarrow> (jsval + jsval \<Rightarrow> 's \<Rightarrow> ('s, 'r) proc) \<Rightarrow> ('s, 'r) proc" where
  "readAuthorizedInvite repo actorId inviteId act k =
    await (rp_readInvite repo inviteId) (\<lambda>inviteResult s0. case inviteResult of
        Inl _ \<Rightarrow> k (fail_with Err_INVITE_UNAVAILABLE) s0
      | Inr invite \<Rightarrow>
         await (rp_readRoom repo (jget invite ''roomId'')) (\<lambda>roomResult s1. case roomResult of
             Inl _ \<Rightarrow> k (fail_with Err_INVITE_UNAVAILABLE) s1
           | Inr room \<Rightarrow>
              if \<not> host_may act actorId room then k (fail_with Err_INVITE_UNAVAILABLE) s1
              else k (Inr invite) s1))"

definition revoked_invite :: "jsval \<Rightarrow> int \<Rightarrow> jsval" where
  "revoked_invite invite now =
     jput ''revokedAt'' (JNum now) (jput ''state'' (JStr (invite_state_str Invite_REVOKED)) invite)"

definition rs_revokeInvite ::
  "'s repository \<Rightarrow> jsval \<Rightarrow> jsval \<Rightarrow> jsval \<Rightarrow> ('s, answer) proc" where
  "rs_revokeInvite repo actorId inviteId reason =
    readAuthorizedInvite repo actorId inviteId REVOKE_INVITE (\<lambda>authorized s0. case authorized of
        Inl e \<Rightarrow> Return (Inl e)
      | Inr found \<Rightarrow>
         let now = rp_now repo s0;
             invite = revoked_invite found now
         in await (rp_saveInvite repo invite) (\<lambda>saved _. case saved of
              Inl e \<Rightarrow> Return (Inl e)
            | Inr _ \<Rightarrow>
               audit repo (JObj [(''type'', JStr ''invite_revoked''), (''actorId'', actorId),
                   (''roomId'', jget invite ''roomId''), (''inviteId'', inviteId),
                   (''metadata'', JObj [(''reason'', coalesce reason (JStr ''host_revoked'')),
                      (''revokedAt'', JNum now)])])
                 (\<lambda>_ _. Return (Inr (JObj [(''id'', inviteId),
                    (''state'', JStr (invite_state_str Invite_REVOKED))])))))"

text \<open>The end of \<open>regenerateInvite\<close>: the audit event and the answer.\<close>

definition answer_regenerated ::
  "'s repository \<Rightarrow> jsval \<Rightarrow> jsval \<Rightarrow> jsval \<Rightarrow> jsval \<Rightarrow> jsval \<Rightarrow> ('s, answer) proc" where
  "answer_regenerated repo actorId token oldInvite nextInvite savedInvite =
    (let nextId = coalesce (jget savedInvite ''id'') (jget nextInvite ''id'')
     in audit repo (JObj [(''type'', JStr ''invite_regenerated''), (''actorId'', actorId),
            (''roomId'', jget oldInvite ''roomId''), (''inviteId'', nextId),
            (''metadata'', JObj [(''revokedInviteId'', jget oldInvite ''id''),
               (''expiresAt'', jget nextInvite ''expiresAt'')])])
          (\<lambda>_ _. Return (Inr (JObj
             [(''invite'', JObj [(''id'', nextId), (''token'', token),
                (''expiresAt'', jget nextInvite ''expiresAt'')]),
              (''revokedInvite'', JObj [(''id'', jget oldInvite ''id''),
                (''state'', JStr (invite_state_str Invite_REVOKED))])]))))"

definition rs_regenerateInvite ::
  "'s repository \<Rightarrow> service_config \<Rightarrow> string \<Rightarrow> jsval \<Rightarrow> jsval \<Rightarrow> jsval \<Rightarrow> ('s, answer) proc" where
  "rs_regenerateInvite repo c uuid token actorId inviteId =
    readAuthorizedInvite repo actorId inviteId REVOKE_INVITE (\<lambda>authorized s0. case authorized of
        Inl e \<Rightarrow> Return (Inl e)
      | Inr found \<Rightarrow>
         let now = rp_now repo s0;
             oldInvite = revoked_invite found now
         in await (rp_saveInvite repo oldInvite) (\<lambda>revoked _. case revoked of
              Inl e \<Rightarrow> Return (Inl e)
            | Inr _ \<Rightarrow>
               let nextInvite = new_invite c uuid (jget oldInvite ''roomId'') token now
               in await (rp_saveInvite repo nextInvite) (\<lambda>saved _. case saved of
                    Inl e \<Rightarrow> Return (Inl e)
                  | Inr savedInvite \<Rightarrow>
                     answer_regenerated repo actorId token oldInvite nextInvite savedInvite)))"

section \<open>Join requests\<close>

text \<open>The loop of \<open>applyJoinRequestRateLimits\<close> over the signals that are present.\<close>

fun rate_limit_loop ::
  "'s repository \<Rightarrow> service_config \<Rightarrow> (string \<times> jsval) list \<Rightarrow>
     (jsval + unit \<Rightarrow> 's \<Rightarrow> ('s, 'r) proc) \<Rightarrow> 's \<Rightarrow> ('s, 'r) proc" where
  "rate_limit_loop repo c [] k s = k (Inr ()) s"
| "rate_limit_loop repo c ((scope, signal) # rest) k s =
     await (rp_incrementRateLimitCounter repo (JStr scope) signal (sc_joinRequestLimit c)
         (sc_joinRequestWindowMs c))
       (\<lambda>result s'. case result of
          Inl reason \<Rightarrow> k (Inl reason) s'
        | Inr _ \<Rightarrow> rate_limit_loop repo c rest k s')"

definition join_signals :: "jsval \<Rightarrow> jsval \<Rightarrow> jsval \<Rightarrow> jsval \<Rightarrow> (string \<times> jsval) list" where
  "join_signals inviteId ipAddress deviceSignal minecraftUuid =
     filter (\<lambda>(scope, signal). truthy signal)
       [(''join_request.invite'', inviteId),
        (''join_request.ip_device'',
          JStr (js_join ''|'' (map js_string (filter truthy [ipAddress, deviceSignal])))),
        (''join_request.minecraft_identity'', minecraftUuid)]"

definition rs_createJoinRequest ::
  "'s repository \<Rightarrow> service_config \<Rightarrow> string \<Rightarrow> jsval \<Rightarrow> jsval \<Rightarrow> jsval \<Rightarrow> jsval \<Rightarrow> jsval \<Rightarrow> jsval \<Rightarrow>
     ('s, answer) proc" where
  "rs_createJoinRequest repo c uuid inviteToken friendId minecraftUuid displayName ipAddress deviceSignal =
    await (rp_readInviteByToken repo inviteToken) (\<lambda>inviteResult _. case inviteResult of
        Inl _ \<Rightarrow> Return (fail_with Err_INVITE_UNAVAILABLE)
      | Inr invite \<Rightarrow>
         await (rp_readRoom repo (jget invite ''roomId'')) (\<lambda>roomResult _. case roomResult of
             Inl _ \<Rightarrow> Return (fail_with Err_ROOM_CLOSED)
           | Inr room \<Rightarrow>
              await (isRoomAvailable repo room) (\<lambda>available s2.
                if \<not> available then Return (fail_with Err_ROOM_CLOSED)
                else rate_limit_loop repo c (join_signals (jget invite ''id'') ipAddress deviceSignal minecraftUuid)
                  (\<lambda>rateLimit s3. case rateLimit of
                     Inl reason \<Rightarrow> Return (Inl reason)
                   | Inr _ \<Rightarrow>
                      let approval = JObj [(''id'', JStr (''approval_'' @ uuid)),
                            (''roomId'', jget invite ''roomId''), (''inviteId'', jget invite ''id''),
                            (''friendId'', friendId), (''minecraftUuid'', minecraftUuid),
                            (''displayName'', displayName),
                            (''state'', JStr (approval_state_str Approval_PENDING)),
                            (''createdAt'', JNum (rp_now repo s3)), (''decidedAt'', JNull)]
                      in await (rp_saveApproval repo approval) (\<lambda>saved _. case saved of
                           Inl reason \<Rightarrow> Return (Inl reason)
                         | Inr savedApproval \<Rightarrow> Return (Inr (JObj
                             [(''id'', coalesce (jget savedApproval ''id'') (jget approval ''id'')),
                              (''state'', JStr (approval_state_str Approval_PENDING))])))) s2)))"

section \<open>Decisions\<close>

definition HOST_DECISIONS :: "jsval list" where
  "HOST_DECISIONS = map (JStr \<circ> approval_state_str) [Approval_APPROVED, Approval_DENIED, Approval_BLOCKED]"

definition rs_isInviteActive :: "jsval \<Rightarrow> int \<Rightarrow> bool" where
  "rs_isInviteActive invite now \<longleftrightarrow> jget invite ''state'' = JStr (invite_state_str Invite_ACTIVE) \<and>
     (\<not> truthy (jget invite ''expiresAt'') \<or> after_now (jget invite ''expiresAt'') now)"

text \<open>\<open>actionForDecision\<close>, here on decisions that passed \<open>HOST_DECISIONS\<close>; other values give \<open>"unknown"\<close>.\<close>

definition rs_actionForDecision :: "jsval \<Rightarrow> jsval" where
  "rs_actionForDecision decision =
    (if decision = JStr (approval_state_str Approval_APPROVED) then JStr (action_str APPROVE_JOIN)
     else if decision = JStr (approval_state_str Approval_DENIED) then JStr (action_str DENY_JOIN)
     else if decision = JStr (approval_state_str Approval_BLOCKED) then JStr (action_str BLOCK_JOIN)
     else JStr ''unknown'')"

definition session_record ::
  "service_config \<Rightarrow> string \<Rightarrow> jsval \<Rightarrow> jsval \<Rightarrow> jsval \<Rightarrow> int \<Rightarrow> jsval" where
  "session_record c uuid approval minecraftUuid sessionCredential now = JObj
     [(''id'', JStr (''session_'' @ uuid)), (''roomId'', jget approval ''roomId''),
      (''inviteId'', jget approval ''inviteId''), (''requestId'', jget approval ''id''),
      (''minecraftUuid'', minecraftUuid), (''sessionCredential'', sessionCredential),
      (''state'', JStr (session_state_str Session_ISSUED)), (''issuedAt'', JNum now),
      (''expiresAt'', JNum (now + sc_sessionTtlMs c))]"

definition prepareSessionForApproval ::
  "'s repository \<Rightarrow> service_config \<Rightarrow> string \<Rightarrow> jsval option \<Rightarrow> jsval \<Rightarrow> jsval \<Rightarrow> jsval \<Rightarrow> jsval \<Rightarrow>
     (answer \<Rightarrow> ('s, 'r) proc) \<Rightarrow> ('s, 'r) proc" where
  "prepareSessionForApproval repo c uuid quotaHook approval room minecraftUuid sessionCredential k =
    (if jget approval ''minecraftUuid'' \<noteq> minecraftUuid then k (fail_with Err_SESSION_UNAVAILABLE)
     else await (rp_readInvite repo (jget approval ''inviteId'')) (\<lambda>inviteResult s0. case inviteResult of
         Inl _ \<Rightarrow> k (fail_with Err_SESSION_UNAVAILABLE)
       | Inr invite \<Rightarrow>
          if \<not> rs_isInviteActive invite (rp_now repo s0) then k (fail_with Err_SESSION_UNAVAILABLE)
          else await (isRoomAvailable repo room) (\<lambda>available _.
            if \<not> available then k (fail_with Err_ROOM_CLOSED)
            else if \<not> canActorPerform (JStr (actor_str SERVICE)) (JStr (action_str ISSUE_SESSION))
                      (empty_context\<lparr>ctx_authorizedApproval := JBool True\<rparr>)
            then k (fail_with Err_SESSION_UNAVAILABLE)
            else await (\<lambda>s. (Some (callHook quotaHook), s)) (\<lambda>quota s2. case quota of
                Inl reason \<Rightarrow> k (Inl reason)
              | Inr _ \<Rightarrow> k (Inr (session_record c uuid approval minecraftUuid sessionCredential
                  (rp_now repo s2)))))))"

text \<open>
  After the checks: the decided approval is saved and audited (\<open>finish_decision\<close>), then the answer
  is given, after the prepared session, if there is one, is saved (\<open>answer_decision\<close>).
\<close>

definition answer_decision :: "'s repository \<Rightarrow> jsval \<Rightarrow> jsval \<Rightarrow> jsval option \<Rightarrow> ('s, answer) proc" where
  "answer_decision repo requestId decision preparedSession =
    (case preparedSession of
       None \<Rightarrow> Return (Inr (JObj [(''request'', JObj [(''id'', requestId), (''state'', decision)])]))
     | Some record \<Rightarrow>
        await (rp_saveSession repo record) (\<lambda>saved _. case saved of
            Inl reason \<Rightarrow> Return (Inl reason)
          | Inr savedSession \<Rightarrow> Return (Inr (JObj
              [(''request'', JObj [(''id'', requestId),
                  (''state'', JStr (approval_state_str Approval_APPROVED))]),
               (''session'', JObj [(''id'', coalesce (jget savedSession ''id'') (jget record ''id'')),
                  (''expiresAt'', jget record ''expiresAt'')])]))))"

definition finish_decision ::
  "'s repository \<Rightarrow> jsval \<Rightarrow> jsval \<Rightarrow> jsval \<Rightarrow> jsval \<Rightarrow> int \<Rightarrow> jsval option \<Rightarrow> ('s, answer) proc" where
  "finish_decision repo actorId requestId decision approval decidedAt preparedSession =
    await (rp_saveApproval repo (jput ''decidedAt'' (JNum decidedAt) (jput ''state'' decision approval)))
      (\<lambda>savedApproval _. case savedApproval of
         Inl reason \<Rightarrow> Return (Inl reason)
       | Inr _ \<Rightarrow>
          audit repo (JObj [(''type'', JStr ''approval_decided''), (''actorId'', actorId),
              (''roomId'', jget approval ''roomId''), (''inviteId'', jget approval ''inviteId''),
              (''requestId'', requestId),
              (''metadata'', JObj [(''decision'', decision), (''decidedAt'', JNum decidedAt)])])
            (\<lambda>_ _. answer_decision repo requestId decision preparedSession))"

definition rs_decideJoinRequest ::
  "'s repository \<Rightarrow> service_config \<Rightarrow> string \<Rightarrow> jsval option \<Rightarrow> jsval \<Rightarrow> jsval \<Rightarrow> jsval \<Rightarrow> jsval \<Rightarrow> jsval \<Rightarrow>
     ('s, answer) proc" where
  "rs_decideJoinRequest repo c uuid quotaHook actorId requestId decision minecraftUuid sessionCredential =
    (if decision \<notin> set HOST_DECISIONS then Return (fail_with Err_APPROVAL_REQUIRED)
     else await (rp_readApproval repo requestId) (\<lambda>approvalResult _. case approvalResult of
         Inl _ \<Rightarrow> Return (fail_with Err_SESSION_UNAVAILABLE)
       | Inr approval \<Rightarrow>
          await (rp_readRoom repo (jget approval ''roomId'')) (\<lambda>roomResult s1. case roomResult of
              Inl _ \<Rightarrow> Return (fail_with Err_SESSION_UNAVAILABLE)
            | Inr room \<Rightarrow>
               if \<not> canActorPerform (JStr (actor_str HOST)) (rs_actionForDecision decision)
                    (host_context actorId (jget room ''hostId''))
               then Return (fail_with Err_SESSION_UNAVAILABLE)
               else if jget approval ''state'' \<noteq> JStr (approval_state_str Approval_PENDING)
               then Return (fail_with Err_APPROVAL_REQUIRED)
               else if decision = JStr (approval_state_str Approval_APPROVED)
               then prepareSessionForApproval repo c uuid quotaHook
                   (jput ''decidedAt'' (JNum (rp_now repo s1)) (jput ''state'' decision approval)) room
                   minecraftUuid sessionCredential
                   (\<lambda>prepared. case prepared of
                      Inl reason \<Rightarrow> Return (Inl reason)
                    | Inr record \<Rightarrow> finish_decision repo actorId requestId decision approval
                        (rp_now repo s1) (Some record))
               else finish_decision repo actorId requestId decision approval (rp_now repo s1) None)))"

section \<open>The memory store as a repository\<close>

text \<open>\<open>auditUuid\<close> stands for the identifiers that \<open>recordAuditEvent\<close> draws.\<close>

definition memory_repository :: "(string \<Rightarrow> string) \<Rightarrow> (nat \<Rightarrow> string) \<Rightarrow> memory_store repository" where
  "memory_repository sha auditUuid = \<lparr>rp_now = ms_now, rp_saveRoom = ms_saveRoom sha,
     rp_readRoom = (\<lambda>k s. (Some (ms_readRoom k s), s)), rp_saveInvite = ms_saveInvite sha,
     rp_readInvite = (\<lambda>k s. (Some (ms_readInvite k s), s)),
     rp_readInviteByToken = (\<lambda>t s. (Some (ms_readInviteByToken sha t s), s)),
     rp_saveApproval = ms_saveApproval sha, rp_readApproval = (\<lambda>k s. (Some (ms_readApproval k s), s)),
     rp_saveSession = ms_saveSession sha,
     rp_incrementRateLimitCounter = (\<lambda>scope signal limit window s.
       case ms_incrementRateLimitCounter sha scope signal limit window s of
         (None, s') \<Rightarrow> (None, s')
       | (Some r, s') \<Rightarrow> (Some (if rr_ok r then Inr () else Inl (JStr (error_state_str Err_RATE_LIMITED))), s')),
     rp_readPresence = None,
     rp_recordAuditEvent = Some (\<lambda>event s.
       case ms_recordAuditEvent sha (auditUuid (length (ms_auditEvents s))) event s of
         (None, s') \<Rightarrow> (None, s') | (Some _, s') \<Rightarrow> (Some (), s'))\<rparr>"

end
