(* ===== verification/RoomService_Audit.thy ===== *)
theory RoomService_Audit
  imports RoomService MemoryStore_Props
begin

text \<open>
  What redaction does to the audit events of the room service: the entries keep their names, and
  the type of an event is never lost, so the repository does not refuse the event.
\<close>

section \<open>Audit events have a type\<close>

lemma jget_redact:
  assumes "distinct (jm_keys kvs)"
  shows "jget (redactAuditValue (JObj kvs)) k = (case jm_get kvs k of None \<Rightarrow> JUndef
    | Some v \<Rightarrow> if nullish v then v else if audit_sensitive_key k then JStr ''[redacted]'' else redactAuditValue v)"
proof -
  let ?ent = "\<lambda>k v. if nullish v then Some (k, v)
      else if audit_sensitive_key k then Some (k, JStr ''[redacted]'') else None"
  let ?f = "\<lambda>(k, v). case ?ent k v of Some e \<Rightarrow> e | None \<Rightarrow> (k, js_walk redactAuditText (\<lambda>_ _. True) ?ent v)"
  have "jm_get (map ?f xs) k = (case jm_get xs k of None \<Rightarrow> None | Some v \<Rightarrow> Some (if nullish v then v
      else if audit_sensitive_key k then JStr ''[redacted]'' else redactAuditValue v))" for xs
    by (induction xs) (auto simp: redactAuditValue_def)
  moreover have "jm_get (rev kvs) k = jm_get kvs k"
    by (rule map_of_inject_set [THEN iffD2, THEN fun_cong]) (use assms in \<open>simp_all add: rev_map [symmetric]\<close>)
  ultimately show ?thesis
    by (simp add: redactAuditValue_def sanitize_props jm_get_fromEntries rev_map split: option.split)
qed

text \<open>The types the service records are not changed by redaction.\<close>

lemma audit_types: "t \<in> {''room_created'', ''invite_created'', ''invite_revoked'', ''invite_regenerated'',
    ''approval_decided''} \<Longrightarrow> redactAuditText t = t"
  unfolding redactAuditText_def
  by (rule replace_rules_id) (auto simp: audit_text_rules_def url_char_def is_space_def)

lemma audit_typed:
  assumes "distinct (''type'' # jm_keys kvs)" and "t \<in> {''room_created'', ''invite_created'',
    ''invite_revoked'', ''invite_regenerated'', ''approval_decided''}"
  shows "truthy (jget (redactAuditValue (JObj ((''type'', JStr t) # kvs))) ''type'')"
  using assms audit_types [OF assms(2)] by (subst jget_redact) (auto simp: redactAuditValue_def)

end
