(* ===== verification/RoomService_Props.thy ===== *)
theory RoomService_Props
  imports RoomService_Audit MemoryStore_Props
begin

text \<open>
  What the room service promises over any repository that keeps the contract below, and, through
  the interpretation, over the memory store: who decides a join request and what an approval
  leaves behind, that a decision is final when operations run one at a time, that a regenerated
  invite replaces the old one.
\<close>

section \<open>The repository contract\<close>

text \<open>
  A repository shows four maps: what its reads return for an identifier. Saving a record replaces
  the entry of its identifier by one with the same plain primitive fields and changes no other
  entry; audit events and presence reads change nothing that is shown.
\<close>

definition record_ok :: "jsval \<Rightarrow> bool" where
  "record_ok r \<longleftrightarrow> wf_record r \<and> truthy (jget r ''id'') \<and> is_prim (jget r ''id'')"

definition same_fields :: "jsval \<Rightarrow> jsval \<Rightarrow> bool" where
  "same_fields r r' \<longleftrightarrow> (\<forall>k. plain_key k \<longrightarrow> is_prim (jget r k) \<longrightarrow> jget r' k = jget r k)"

locale service_repository =
  fixes repo :: "'s repository"
    and rooms :: "'s \<Rightarrow> jsval \<Rightarrow> jsval option"
    and invites :: "'s \<Rightarrow> jsval \<Rightarrow> jsval option"
    and approvals :: "'s \<Rightarrow> jsval \<Rightarrow> jsval option"
    and sessions :: "'s \<Rightarrow> jsval \<Rightarrow> jsval option"
    and inv :: "'s \<Rightarrow> bool"
  assumes readRoom: "case rooms s k of None \<Rightarrow> \<exists>e. rp_readRoom repo k s = (Some (Inl e), s)
        | Some r \<Rightarrow> rp_readRoom repo k s = (Some (Inr r), s)"
    and readInvite: "case invites s k of None \<Rightarrow> \<exists>e. rp_readInvite repo k s = (Some (Inl e), s)
        | Some r \<Rightarrow> rp_readInvite repo k s = (Some (Inr r), s)"
    and readApproval: "case approvals s k of None \<Rightarrow> \<exists>e. rp_readApproval repo k s = (Some (Inl e), s)
        | Some r \<Rightarrow> rp_readApproval repo k s = (Some (Inr r), s)"
    and saveInvite: "inv s \<Longrightarrow> record_ok r \<Longrightarrow> \<exists>r' s'. rp_saveInvite repo r s = (Some (Inr r'), s') \<and>
        invites s' = (invites s)(jget r ''id'' \<mapsto> r') \<and> same_fields r r' \<and> rooms s' = rooms s \<and>
        approvals s' = approvals s \<and> sessions s' = sessions s \<and> inv s'"
    and saveApproval: "inv s \<Longrightarrow> record_ok r \<Longrightarrow> \<exists>r' s'. rp_saveApproval repo r s = (Some (Inr r'), s') \<and>
        approvals s' = (approvals s)(jget r ''id'' \<mapsto> r') \<and> same_fields r r' \<and> rooms s' = rooms s \<and>
        invites s' = invites s \<and> sessions s' = sessions s \<and> inv s'"
    and saveSession: "inv s \<Longrightarrow> record_ok r \<Longrightarrow> \<exists>r' s'. rp_saveSession repo r s = (Some (Inr r'), s') \<and>
        sessions s' = (sessions s)(jget r ''id'' \<mapsto> r') \<and> same_fields r r' \<and> rooms s' = rooms s \<and>
        invites s' = invites s \<and> approvals s' = approvals s \<and> inv s'"
    and audited: "inv s \<Longrightarrow> rp_recordAuditEvent repo = Some f \<Longrightarrow> truthy (jget e ''type'') \<Longrightarrow>
        \<exists>s'. f e s = (Some (), s') \<and> rooms s' = rooms s \<and> invites s' = invites s \<and>
          approvals s' = approvals s \<and> sessions s' = sessions s \<and> inv s'"
    and presence: "inv s \<Longrightarrow> rp_readPresence repo = Some g \<Longrightarrow>
        \<exists>b s'. g k s = (Some b, s') \<and> rooms s' = rooms s \<and> invites s' = invites s \<and>
          approvals s' = approvals s \<and> sessions s' = sessions s \<and> inv s'"
    and approval_ok: "inv s \<Longrightarrow> approvals s k = Some r \<Longrightarrow>
        wf_record r \<and> jget r ''id'' = k \<and> truthy k \<and> is_prim k \<and> is_obj r"
    and invite_ok: "inv s \<Longrightarrow> invites s k = Some r \<Longrightarrow>
        wf_record r \<and> jget r ''id'' = k \<and> truthy k \<and> is_prim k \<and> is_obj r"
begin

definition shows_same :: "'s \<Rightarrow> 's \<Rightarrow> bool" where
  "shows_same s s' \<longleftrightarrow> rooms s' = rooms s \<and> invites s' = invites s \<and> approvals s' = approvals s \<and>
     sessions s' = sessions s"

lemma shows_same_refl [simp]: "shows_same s s"
  by (simp add: shows_same_def)

lemma audit_step:
  assumes "inv s" and "distinct (''type'' # jm_keys kvs)" and "t \<in> {''room_created'', ''invite_created'',
      ''invite_revoked'', ''invite_regenerated'', ''approval_decided''}"
  shows "\<exists>s'. run (audit repo (JObj ((''type'', JStr t) # kvs)) k) s = run (k () s') s' \<and>
    shows_same s s' \<and> inv s'"
proof (cases "rp_recordAuditEvent repo")
  case None
  with assms show ?thesis by (auto simp: audit_def intro: exI [of _ s])
next
  case (Some f)
  from audited [OF assms(1) Some audit_typed [OF assms(2,3)]] show ?thesis
    by (auto simp: audit_def Some shows_same_def)
qed

lemma available_step:
  assumes "inv s"
  shows "\<exists>b s'. isRoomAvailable repo room s = (Some b, s') \<and> shows_same s s' \<and> inv s' \<and>
    (b \<longrightarrow> isRoomOpen room)"
proof (cases "isRoomOpen room \<and> rp_readPresence repo \<noteq> None")
  case False
  with assms show ?thesis by (auto simp: isRoomAvailable_def split: option.split)
next
  case True
  then obtain g where g: "rp_readPresence repo = Some g" by blast
  from presence [OF assms g, of "jget room ''id''"] True g show ?thesis
    by (auto simp: isRoomAvailable_def shows_same_def)
qed

text \<open>\<open>prepareSessionForApproval\<close>: refused with nothing changed, or it goes on with the session record.\<close>

lemma prepare_step:
  assumes "inv s"
  shows "\<exists>ans s'. run (prepareSessionForApproval repo c u hook approval room mu cred k) s = run (k ans) s' \<and>
    shows_same s s' \<and> inv s' \<and>
    (\<forall>r. ans = Inr r \<longrightarrow> jget approval ''minecraftUuid'' = mu \<and> isRoomOpen room \<and>
      (\<exists>invite. invites s (jget approval ''inviteId'') = Some invite \<and>
         jget invite ''state'' = JStr (invite_state_str Invite_ACTIVE) \<and> rs_isInviteActive invite (rp_now repo s)) \<and>
      r = session_record c u approval mu cred (rp_now repo s'))"
proof (cases "jget approval ''minecraftUuid'' = mu")
  case False
  with assms show ?thesis
    by (auto simp: prepareSessionForApproval_def fail_with_def intro!: exI [of _ s])
next
  case uuid: True
  show ?thesis
  proof (cases "invites s (jget approval ''inviteId'')")
    case None
    with readInvite [of "jget approval ''inviteId''" s] obtain e where
      "rp_readInvite repo (jget approval ''inviteId'') s = (Some (Inl e), s)" by auto
    with assms uuid show ?thesis
      by (auto simp: prepareSessionForApproval_def fail_with_def intro!: exI [of _ s])
  next
    case (Some invite)
    with readInvite [of "jget approval ''inviteId''" s] have read:
      "rp_readInvite repo (jget approval ''inviteId'') s = (Some (Inr invite), s)" by simp
    show ?thesis
    proof (cases "rs_isInviteActive invite (rp_now repo s)")
      case False
      with assms uuid read show ?thesis
        by (auto simp: prepareSessionForApproval_def fail_with_def intro!: exI [of _ s])
    next
      case active: True
      obtain b s1 where av: "isRoomAvailable repo room s = (Some b, s1)" "shows_same s s1" "inv s1"
        "b \<longrightarrow> isRoomOpen room" using available_step [OF assms] by blast
      have "jget invite ''state'' = JStr (invite_state_str Invite_ACTIVE)"
        using active by (simp add: rs_isInviteActive_def)
      then show ?thesis
        using uuid read active av Some
        by (cases b; cases "callHook hook")
          (auto simp: prepareSessionForApproval_def fail_with_def canActorPerform_named empty_context_def
            intro!: exI [of _ s1])
    qed
  qed
qed

lemma decided_ok:
  assumes "inv s" and "approvals s rid = Some a"
  shows "record_ok (jput ''decidedAt'' t (jput ''state'' d a))"
    and "jget (jput ''decidedAt'' t (jput ''state'' d a)) ''id'' = rid"
    and "jget (jput ''decidedAt'' t (jput ''state'' d a)) ''state'' = d"
    and "k \<noteq> ''decidedAt'' \<Longrightarrow> k \<noteq> ''state'' \<Longrightarrow> jget (jput ''decidedAt'' t (jput ''state'' d a)) k = jget a k"
  using approval_ok [OF assms] by (simp_all add: record_ok_def)

text \<open>The second half of \<open>decideJoinRequest\<close>: the decided approval is saved, then the answer is given.\<close>

lemma finish_step:
  assumes "inv s" and "approvals s rid = Some a"
  shows "\<exists>a' s'. run (finish_decision repo actor rid d a t prepared) s =
      run (answer_decision repo rid d prepared) s' \<and>
     approvals s' = (approvals s)(rid \<mapsto> a') \<and>
     same_fields (jput ''decidedAt'' (JNum t) (jput ''state'' d a)) a' \<and> rooms s' = rooms s \<and>
     invites s' = invites s \<and> sessions s' = sessions s \<and> inv s'"
proof -
  let ?a = "jput ''decidedAt'' (JNum t) (jput ''state'' d a)"
  let ?kvs = "[(''actorId'', actor), (''roomId'', jget a ''roomId''), (''inviteId'', jget a ''inviteId''),
     (''requestId'', rid), (''metadata'', JObj [(''decision'', d), (''decidedAt'', JNum t)])]"
  note decided = decided_ok [OF assms(1,2)]
  obtain a' s1 where save: "rp_saveApproval repo ?a s = (Some (Inr a'), s1)"
    "approvals s1 = (approvals s)(rid \<mapsto> a')" "same_fields ?a a'" "rooms s1 = rooms s"
    "invites s1 = invites s" "sessions s1 = sessions s" "inv s1"
    using saveApproval [OF assms(1) decided(1)] decided(2) by fastforce
  obtain s2 where "run (audit repo (JObj ((''type'', JStr ''approval_decided'') # ?kvs))
      (\<lambda>_ _. answer_decision repo rid d prepared)) s1 = run (answer_decision repo rid d prepared) s2"
    "shows_same s1 s2" "inv s2"
    using audit_step [OF save(7), of ?kvs "''approval_decided''"] by auto
  with save show ?thesis by (auto simp: finish_decision_def shows_same_def)
qed

text \<open>Everything a successful decision presupposes and leaves behind.\<close>

definition decided_in ::
  "service_config \<Rightarrow> string \<Rightarrow> jsval \<Rightarrow> jsval \<Rightarrow> jsval \<Rightarrow> jsval \<Rightarrow> jsval \<Rightarrow> 's \<Rightarrow> 's \<Rightarrow> bool" where
  "decided_in c u actor rid d mu cred s s' \<longleftrightarrow> (\<exists>a room a' now.
     approvals s rid = Some a \<and> jget a ''state'' = JStr (approval_state_str Approval_PENDING) \<and>
     rooms s (jget a ''roomId'') = Some room \<and> truthy actor \<and> jget room ''hostId'' = actor \<and>
     d \<in> set HOST_DECISIONS \<and> approvals s' = (approvals s)(rid \<mapsto> a') \<and>
     same_fields (jput ''decidedAt'' (JNum now) (jput ''state'' d a)) a' \<and>
     rooms s' = rooms s \<and> invites s' = invites s \<and> inv s' \<and>
     (if d = JStr (approval_state_str Approval_APPROVED)
      then jget a ''minecraftUuid'' = mu \<and> isRoomOpen room \<and>
        (\<exists>i. invites s (jget a ''inviteId'') = Some i \<and>
           jget i ''state'' = JStr (invite_state_str Invite_ACTIVE)) \<and>
        (\<exists>ses t. sessions s' = (sessions s)(JStr (''session_'' @ u) \<mapsto> ses) \<and>
           same_fields (session_record c u a mu cred t) ses)
      else sessions s' = sessions s))"

lemma host_decides:
  assumes "canActorPerform (JStr (actor_str HOST)) (rs_actionForDecision d) (host_context actor h)"
    and "d \<in> set HOST_DECISIONS"
  shows "truthy actor \<and> h = actor"
proof -
  from assms(2) obtain a where "rs_actionForDecision d = JStr (action_str a)"
    by (auto simp: HOST_DECISIONS_def rs_actionForDecision_def)
  with assms(1) show ?thesis by (auto simp: canActorPerform_named host_context_def)
qed

lemma decide_success:
  assumes inv: "inv s"
    and op: "run (rs_decideJoinRequest repo c u hook actor rid d mu cred) s = (Some (Inr res), s')"
  shows "decided_in c u actor rid d mu cred s s'"
proof -
  have d: "d \<in> set HOST_DECISIONS"
    using op by (auto simp: rs_decideJoinRequest_def fail_with_def split: if_splits)
  obtain a where a: "approvals s rid = Some a" "rp_readApproval repo rid s = (Some (Inr a), s)"
    using op d readApproval [of rid s] by (cases "approvals s rid")
      (auto simp: rs_decideJoinRequest_def fail_with_def)
  obtain room where room: "rooms s (jget a ''roomId'') = Some room"
    "rp_readRoom repo (jget a ''roomId'') s = (Some (Inr room), s)"
    using op d a readRoom [of "jget a ''roomId''" s] by (cases "rooms s (jget a ''roomId'')")
      (auto simp: rs_decideJoinRequest_def fail_with_def)
  have guards: "canActorPerform (JStr (actor_str HOST)) (rs_actionForDecision d) (host_context actor (jget room ''hostId''))"
    "jget a ''state'' = JStr (approval_state_str Approval_PENDING)"
    using op d a room by (auto simp: rs_decideJoinRequest_def fail_with_def split: if_splits)
  let ?t = "rp_now repo s"
  let ?a = "jput ''decidedAt'' (JNum ?t) (jput ''state'' d a)"
  note decided = decided_ok [OF inv a(1)] and host = host_decides [OF guards(1) d]
  show ?thesis
  proof (cases "d = JStr (approval_state_str Approval_APPROVED)")
    case False
    have run: "run (rs_decideJoinRequest repo c u hook actor rid d mu cred) s =
        run (finish_decision repo actor rid d a ?t None) s"
      using d a room guards False by (simp add: rs_decideJoinRequest_def)
    obtain a' s1 where save: "run (finish_decision repo actor rid d a ?t None) s = run (answer_decision repo rid d None) s1"
      "approvals s1 = (approvals s)(rid \<mapsto> a')" "same_fields ?a a'" "rooms s1 = rooms s"
      "invites s1 = invites s" "sessions s1 = sessions s" "inv s1"
      using finish_step [OF inv a(1)] by blast
    from run save(1) op have "s1 = s'" by (simp add: answer_decision_def)
    with save show ?thesis using a room guards d False host by (auto simp: decided_in_def)
  next
    case True
    let ?k = "\<lambda>prepared. case prepared of Inl reason \<Rightarrow> Return (Inl reason)
      | Inr record \<Rightarrow> finish_decision repo actor rid d a ?t (Some record)"
    obtain ans s1 where prep: "run (prepareSessionForApproval repo c u hook ?a room mu cred ?k) s = run (?k ans) s1"
      "shows_same s s1" "inv s1" and ans: "\<forall>r. ans = Inr r \<longrightarrow> jget ?a ''minecraftUuid'' = mu \<and> isRoomOpen room \<and>
        (\<exists>invite. invites s (jget ?a ''inviteId'') = Some invite \<and>
           jget invite ''state'' = JStr (invite_state_str Invite_ACTIVE) \<and> rs_isInviteActive invite ?t) \<and>
        r = session_record c u ?a mu cred (rp_now repo s1)"
      using prepare_step [OF inv, of c u hook ?a room mu cred ?k] by blast
    have run: "run (rs_decideJoinRequest repo c u hook actor rid d mu cred) s = run (?k ans) s1"
      by (subst prep(1) [symmetric]) (use d a room guards True in \<open>simp add: rs_decideJoinRequest_def\<close>)
    then obtain r where r: "ans = Inr r" using op by (cases ans) auto
    with ans have r': "r = session_record c u a mu cred (rp_now repo s1)"
      using approval_ok [OF inv a(1)] by (simp add: session_record_def decided(2,4))
    have a1: "approvals s1 rid = Some a" using a(1) prep(2) by (simp add: shows_same_def)
    obtain a' s2 where save: "run (?k ans) s1 = run (answer_decision repo rid d (Some r)) s2"
      "approvals s2 = (approvals s1)(rid \<mapsto> a')" "same_fields ?a a'" "rooms s2 = rooms s1"
      "invites s2 = invites s1" "sessions s2 = sessions s1" "inv s2"
      using finish_step [OF prep(3) a1, of actor d ?t "Some r"] by (auto simp: r)
    have "record_ok r" by (simp add: r' session_record_def record_ok_def wf_record_def)
    from saveSession [OF save(7) this] obtain ses s3 where ses: "rp_saveSession repo r s2 = (Some (Inr ses), s3)"
      "sessions s3 = (sessions s2)(jget r ''id'' \<mapsto> ses)" "same_fields r ses" "rooms s3 = rooms s2"
      "invites s3 = invites s2" "approvals s3 = approvals s2" "inv s3" by blast
    have s3: "s3 = s'" using ses(1) run save(1) op by (simp add: answer_decision_def)
    have "jget r ''id'' = JStr (''session_'' @ u)" by (simp add: r' session_record_def)
    then have new: "sessions s' = (sessions s)(JStr (''session_'' @ u) \<mapsto> ses) \<and>
        same_fields (session_record c u a mu cred (rp_now repo s1)) ses"
      using ses(2,3) save(6) prep(2) r' by (simp add: s3 shows_same_def)
    have "approvals s' = (approvals s)(rid \<mapsto> a')" "rooms s' = rooms s" "invites s' = invites s" "inv s'"
      using ses save(2,4,5) prep(2) by (simp_all add: s3 [symmetric] shows_same_def)
    moreover have "jget a ''minecraftUuid'' = mu \<and> isRoomOpen room \<and>
        (\<exists>i. invites s (jget a ''inviteId'') = Some i \<and> jget i ''state'' = JStr (invite_state_str Invite_ACTIVE))"
      using ans r decided(4) by auto
    ultimately show ?thesis
      using a(1) room(1) guards(2) d True host save(3) new unfolding decided_in_def by auto
  qed
qed

text \<open>A request that is not pending any more is refused, and nothing changes.\<close>

lemma decide_settled:
  assumes "approvals s rid = Some a" and "jget a ''state'' \<noteq> JStr (approval_state_str Approval_PENDING)"
  shows "\<exists>e. run (rs_decideJoinRequest repo c u hook actor rid d mu cred) s = (Some (Inl e), s)"
proof -
  have read: "rp_readApproval repo rid s = (Some (Inr a), s)"
    using readApproval [of rid s] assms(1) by simp
  show ?thesis
  proof (cases "rooms s (jget a ''roomId'')")
    case None
    with readRoom [of "jget a ''roomId''" s] read show ?thesis
      by (auto simp: rs_decideJoinRequest_def fail_with_def)
  next
    case (Some room)
    with readRoom [of "jget a ''roomId''" s] read assms(2) show ?thesis
      by (simp add: rs_decideJoinRequest_def fail_with_def)
  qed
qed

text \<open>The host can deny or block a pending request.\<close>

lemma decide_possible:
  assumes "inv s" and a: "approvals s rid = Some a" "jget a ''state'' = JStr (approval_state_str Approval_PENDING)"
    and room: "rooms s (jget a ''roomId'') = Some room" "truthy actor" "jget room ''hostId'' = actor"
    and d: "d \<in> set HOST_DECISIONS" "d \<noteq> JStr (approval_state_str Approval_APPROVED)"
  shows "\<exists>s'. run (rs_decideJoinRequest repo c u hook actor rid d mu cred) s =
    (Some (Inr (JObj [(''request'', JObj [(''id'', rid), (''state'', d)])])), s')"
proof -
  have reads: "rp_readApproval repo rid s = (Some (Inr a), s)"
    "rp_readRoom repo (jget a ''roomId'') s = (Some (Inr room), s)"
    using readApproval [of rid s] readRoom [of "jget a ''roomId''" s] a room by simp_all
  have "canActorPerform (JStr (actor_str HOST)) (rs_actionForDecision d) (host_context actor (jget room ''hostId''))"
    using d room by (auto simp: HOST_DECISIONS_def rs_actionForDecision_def canActorPerform_named host_context_def)
  then have "run (rs_decideJoinRequest repo c u hook actor rid d mu cred) s =
      run (finish_decision repo actor rid d a (rp_now repo s) None) s"
    using d a(2) reads by (simp add: rs_decideJoinRequest_def)
  with finish_step [OF assms(1) a(1), of actor d "rp_now repo s" None] show ?thesis
    by (auto simp: answer_decision_def)
qed

lemma state_plain: "plain_key ''state''"
  by code_simp

lemma decision_state_kept:
  assumes "decided_in c u actor rid d mu cred s s'"
  shows "\<exists>a'. approvals s' rid = Some a' \<and> jget a' ''state'' = d \<and>
    d \<noteq> JStr (approval_state_str Approval_PENDING) \<and> inv s'"
proof -
  from assms obtain a a' now where *: "approvals s' rid = Some a'" "d \<in> set HOST_DECISIONS" "inv s'"
    "same_fields (jput ''decidedAt'' (JNum now) (jput ''state'' d a)) a'" "approvals s rid = Some a"
    "jget a ''state'' = JStr (approval_state_str Approval_PENDING)"
    unfolding decided_in_def by auto
  have "is_obj a" using *(6) by (cases a) auto
  then have state: "jget (jput ''decidedAt'' (JNum now) (jput ''state'' d a)) ''state'' = d" by simp
  have d: "is_prim d" "d \<noteq> JStr (approval_state_str Approval_PENDING)"
    using *(2) by (auto simp: HOST_DECISIONS_def)
  have "jget a' ''state'' = d"
    using *(4) state_plain state d(1) unfolding same_fields_def by metis
  with * d show ?thesis by blast
qed

text \<open>Regenerating an invite revokes the old one and makes a new one for the same room.\<close>

lemma authorized_step:
  assumes op: "run (readAuthorizedInvite repo actor iid act k) s = (Some (Inr res), s')"
    and fails: "\<And>e t. run (k (Inl e) t) t = (Some (Inl e), t)"
  shows "\<exists>i room. invites s iid = Some i \<and> rooms s (jget i ''roomId'') = Some room \<and>
    host_may act actor room \<and> run (k (Inr i) s) s = (Some (Inr res), s')"
proof -
  obtain i where i: "invites s iid = Some i" "rp_readInvite repo iid s = (Some (Inr i), s)"
    using op fails readInvite [of iid s] by (cases "invites s iid")
      (auto simp: readAuthorizedInvite_def fail_with_def)
  obtain room where room: "rooms s (jget i ''roomId'') = Some room"
    "rp_readRoom repo (jget i ''roomId'') s = (Some (Inr room), s)"
    using op i fails readRoom [of "jget i ''roomId''" s] by (cases "rooms s (jget i ''roomId'')")
      (auto simp: readAuthorizedInvite_def fail_with_def)
  show ?thesis
    using op i room fails by (auto simp: readAuthorizedInvite_def fail_with_def split: if_splits)
qed

lemma answer_regenerated_step:
  assumes "inv s"
  shows "\<exists>r s'. run (answer_regenerated repo actor token old nxt saved) s = (Some (Inr r), s') \<and>
    shows_same s s' \<and> inv s'"
proof -
  let ?id = "coalesce (jget saved ''id'') (jget nxt ''id'')"
  let ?kvs = "[(''actorId'', actor), (''roomId'', jget old ''roomId''), (''inviteId'', ?id),
     (''metadata'', JObj [(''revokedInviteId'', jget old ''id''), (''expiresAt'', jget nxt ''expiresAt'')])]"
  let ?k = "\<lambda>_ _. Return (Inr (JObj
     [(''invite'', JObj [(''id'', ?id), (''token'', token), (''expiresAt'', jget nxt ''expiresAt'')]),
      (''revokedInvite'', JObj [(''id'', jget old ''id''),
        (''state'', JStr (invite_state_str Invite_REVOKED))])])) :: ('s, answer) proc"
  have "distinct (''type'' # jm_keys ?kvs)" by simp
  from audit_step [OF assms this, of "''invite_regenerated''" ?k] obtain s' where
    "run (audit repo (JObj ((''type'', JStr ''invite_regenerated'') # ?kvs)) ?k) s = run (?k () s') s'"
    "shows_same s s'" "inv s'" by auto
  then show ?thesis unfolding answer_regenerated_def Let_def by simp
qed

lemma regenerate_success:
  assumes inv: "inv s"
    and op: "run (rs_regenerateInvite repo c u token actor iid) s = (Some (Inr res), s')"
  shows "\<exists>i room old new now. invites s iid = Some i \<and> rooms s (jget i ''roomId'') = Some room \<and>
    truthy actor \<and> jget room ''hostId'' = actor \<and>
    invites s' = (invites s)(iid \<mapsto> old, JStr (''invite_'' @ u) \<mapsto> new) \<and>
    same_fields (revoked_invite i now) old \<and> same_fields (new_invite c u (jget i ''roomId'') token now) new \<and>
    approvals s' = approvals s \<and> sessions s' = sessions s \<and> rooms s' = rooms s \<and> inv s'"
proof -
  obtain i room where i: "invites s iid = Some i" "rooms s (jget i ''roomId'') = Some room"
    "host_may REVOKE_INVITE actor room"
    and rest: "run (case Inr i of Inl e \<Rightarrow> Return (Inl e)
      | Inr found \<Rightarrow>
         let now = rp_now repo s;
             oldInvite = revoked_invite found now
         in await (rp_saveInvite repo oldInvite) (\<lambda>revoked _. case revoked of
              Inl e \<Rightarrow> Return (Inl e)
            | Inr _ \<Rightarrow>
               let nextInvite = new_invite c u (jget oldInvite ''roomId'') token now
               in await (rp_saveInvite repo nextInvite) (\<lambda>saved _. case saved of
                    Inl e \<Rightarrow> Return (Inl e)
                  | Inr savedInvite \<Rightarrow>
                     answer_regenerated repo actor token oldInvite nextInvite savedInvite))) s = (Some (Inr res), s')"
    using authorized_step [OF op [unfolded rs_regenerateInvite_def]] by auto
  let ?old = "revoked_invite i (rp_now repo s)" and ?new = "new_invite c u (jget i ''roomId'') token (rp_now repo s)"
  have host: "truthy actor \<and> jget room ''hostId'' = actor"
    using i(3) by (auto simp: canActorPerform_named host_context_def)
  have ok: "record_ok ?old" "jget ?old ''id'' = iid" "jget ?old ''roomId'' = jget i ''roomId''"
    using invite_ok [OF inv i(1)] by (simp_all add: revoked_invite_def record_ok_def)
  from saveInvite [OF inv ok(1)] ok(2) obtain old s1 where old: "rp_saveInvite repo ?old s = (Some (Inr old), s1)"
    "invites s1 = (invites s)(iid \<mapsto> old)" "same_fields ?old old" "rooms s1 = rooms s"
    "approvals s1 = approvals s" "sessions s1 = sessions s" "inv s1" by auto
  have "record_ok ?new" by (simp add: new_invite_def record_ok_def wf_record_def)
  from saveInvite [OF old(7) this] obtain new s2 where new: "rp_saveInvite repo ?new s1 = (Some (Inr new), s2)"
    "invites s2 = (invites s1)(JStr (''invite_'' @ u) \<mapsto> new)" "same_fields ?new new" "rooms s2 = rooms s1"
    "approvals s2 = approvals s1" "sessions s2 = sessions s1" "inv s2" by (auto simp: new_invite_def)
  obtain s3 r where s3: "run (answer_regenerated repo actor token ?old ?new new) s2 = (Some (Inr r), s3)"
    "shows_same s2 s3" "inv s3"
    using answer_regenerated_step [OF new(7)] by blast
  have "s3 = s'" using rest old(1) new(1) s3(1) ok(3) by (simp add: Let_def)
  with i host old new s3 show ?thesis
    by (intro exI [of _ i] exI [of _ room] exI [of _ old] exI [of _ new] exI [of _ "rp_now repo s"])
      (auto simp: shows_same_def)
qed

text \<open>The host of the room can regenerate its invites.\<close>

lemma regenerate_possible:
  assumes inv: "inv s" and i: "invites s iid = Some i" and room: "rooms s (jget i ''roomId'') = Some room"
    and host: "truthy actor" "jget room ''hostId'' = actor"
  shows "\<exists>res s'. run (rs_regenerateInvite repo c u token actor iid) s = (Some (Inr res), s')"
proof -
  let ?old = "revoked_invite i (rp_now repo s)" and ?new = "new_invite c u (jget i ''roomId'') token (rp_now repo s)"
  have reads: "rp_readInvite repo iid s = (Some (Inr i), s)"
    "rp_readRoom repo (jget i ''roomId'') s = (Some (Inr room), s)"
    using readInvite [of iid s] readRoom [of "jget i ''roomId''" s] i room by simp_all
  have may: "host_may REVOKE_INVITE actor room"
    using host by (auto simp: canActorPerform_named host_context_def)
  have ok: "record_ok ?old" "jget ?old ''roomId'' = jget i ''roomId''"
    using invite_ok [OF inv i] by (simp_all add: revoked_invite_def record_ok_def)
  from saveInvite [OF inv ok(1)] obtain old s1 where old:
    "rp_saveInvite repo ?old s = (Some (Inr old), s1)" "inv s1" by auto
  have "record_ok ?new" by (simp add: new_invite_def record_ok_def wf_record_def)
  from saveInvite [OF old(2) this] obtain new s2 where new:
    "rp_saveInvite repo ?new s1 = (Some (Inr new), s2)" "inv s2" by auto
  from answer_regenerated_step [OF new(2), of actor token ?old ?new new] reads may ok(2) old(1) new(1) show ?thesis
    by (auto simp: rs_regenerateInvite_def readAuthorizedInvite_def Let_def)
qed

end

section \<open>The memory store keeps the contract\<close>

definition ids_ok :: "(jsval, jsval) jsmap \<Rightarrow> bool" where
  "ids_ok m \<longleftrightarrow> (\<forall>k r. jm_get m k = Some r \<longrightarrow> truthy k \<and> is_prim k \<and> is_obj r)"

definition mem_inv :: "memory_store \<Rightarrow> bool" where
  "mem_inv s \<longleftrightarrow> store_inv s \<and> ids_ok (ms_invites s) \<and> ids_ok (ms_approvals s)"

definition mem_rooms :: "memory_store \<Rightarrow> jsval \<Rightarrow> jsval option" where
  "mem_rooms s k = map_option json_clone (jm_get (ms_rooms s) k)"

definition mem_invites :: "memory_store \<Rightarrow> jsval \<Rightarrow> jsval option" where
  "mem_invites s k = map_option json_clone (jm_get (ms_invites s) k)"

definition mem_approvals :: "memory_store \<Rightarrow> jsval \<Rightarrow> jsval option" where
  "mem_approvals s k = map_option json_clone (jm_get (ms_approvals s) k)"

definition mem_sessions :: "memory_store \<Rightarrow> jsval \<Rightarrow> jsval option" where
  "mem_sessions s k = map_option json_clone (jm_get (ms_sessions s) k)"

lemmas mem_views = mem_rooms_def mem_invites_def mem_approvals_def mem_sessions_def

lemma id_plain: "plain_key ''id''"
  by code_simp

lemma record_ok_obj: "record_ok r \<Longrightarrow> is_obj r"
  by (cases r) (auto simp: record_ok_def)

lemma is_obj_sanitize: "is_obj r \<Longrightarrow> is_obj (sanitizeRecord sha r)"
  by (cases r) (auto simp: sanitizeRecord_def)

lemma sanitize_id: "record_ok r \<Longrightarrow> jget (sanitizeRecord sha r) ''id'' = jget r ''id''"
  by (simp add: record_ok_def jget_sanitize id_plain)

lemma same_fields_sanitize:
  "record_ok r \<Longrightarrow> same_fields r (json_clone (sanitizeRecord sha r))"
  by (auto simp: same_fields_def record_ok_def jget_clone jget_sanitize)

lemma ids_ok_set:
  "ids_ok m \<Longrightarrow> record_ok r \<Longrightarrow> is_obj r' \<Longrightarrow> ids_ok (jm_set (jget r ''id'') r' m)"
  by (auto simp: ids_ok_def record_ok_def)

lemma record_ok_require: "record_ok r \<Longrightarrow> requireRecordId r"
  by (simp add: record_ok_def requireRecordId_def)

text \<open>What \<open>saveInvite\<close> stores.\<close>

definition stored_invite :: "(string \<Rightarrow> string) \<Rightarrow> jsval \<Rightarrow> jsval" where
  "stored_invite sha r =
    (if truthy (jget r ''token'') \<and> \<not> truthy (jget (sanitizeRecord sha r) ''tokenHash'')
     then jput ''tokenHash'' (hashSensitiveValue sha (jget r ''token'')) (sanitizeRecord sha r)
     else sanitizeRecord sha r)"

lemma stored_invite_fields:
  assumes "record_ok r"
  shows "jget (stored_invite sha r) ''id'' = jget r ''id''" "is_obj (stored_invite sha r)"
    "same_fields r (json_clone (stored_invite sha r))"
proof -
  have "\<not> plain_key ''tokenHash''" by (simp add: plain_key_def js_endsWith_suffix suffix_def)
  then have other: "plain_key k \<Longrightarrow> k \<noteq> ''tokenHash''" for k by blast
  then have get: "plain_key k \<Longrightarrow> jget (stored_invite sha r) k = jget (sanitizeRecord sha r) k" for k
    by (simp add: stored_invite_def jget_jput_other)
  show "jget (stored_invite sha r) ''id'' = jget r ''id''"
    using assms by (simp add: get id_plain sanitize_id)
  show "is_obj (stored_invite sha r)"
    using assms by (simp add: stored_invite_def is_obj_sanitize record_ok_obj)
  have "wf_record (stored_invite sha r)" by (simp add: stored_invite_def)
  then show "same_fields r (json_clone (stored_invite sha r))"
    using assms by (auto simp: same_fields_def jget_clone get record_ok_def jget_sanitize)
qed

lemma ms_saveInvite_eq:
  assumes "record_ok r"
  shows "\<exists>s'. ms_saveInvite sha r s = (Some (Inr (json_clone (stored_invite sha r))), s') \<and>
    ms_invites s' = jm_set (jget r ''id'') (stored_invite sha r) (ms_invites s) \<and>
    ms_rooms s' = ms_rooms s \<and> ms_approvals s' = ms_approvals s \<and> ms_sessions s' = ms_sessions s"
  using assms stored_invite_fields [OF assms, of sha]
  by (auto simp: ms_saveInvite_def record_ok_require stored_invite_def [symmetric] Let_def)

lemma mem_inv_store:
  "mem_inv s \<Longrightarrow> ids_ok (ms_invites (store_exec sha a s)) \<Longrightarrow> ids_ok (ms_approvals (store_exec sha a s)) \<Longrightarrow>
     mem_inv (store_exec sha a s)"
  by (simp add: mem_inv_def store_inv_exec)

interpretation memory: service_repository "memory_repository sha auditUuid"
  mem_rooms mem_invites mem_approvals mem_sessions mem_inv for sha auditUuid
proof unfold_locales
  fix s r
  assume inv: "mem_inv s" and r: "record_ok r"
  have m: "mem_inv (store_exec sha a s)"
    if "ids_ok (ms_invites (store_exec sha a s))" "ids_ok (ms_approvals (store_exec sha a s))" for a
    by (rule mem_inv_store [OF inv that])
  have i: "ids_ok (ms_invites s)" "ids_ok (ms_approvals s)" using inv by (simp_all add: mem_inv_def)
  obtain s' where s': "ms_saveInvite sha r s = (Some (Inr (json_clone (stored_invite sha r))), s')"
    "ms_invites s' = jm_set (jget r ''id'') (stored_invite sha r) (ms_invites s)"
    "ms_rooms s' = ms_rooms s" "ms_approvals s' = ms_approvals s" "ms_sessions s' = ms_sessions s"
    using ms_saveInvite_eq [OF r] by blast
  have "mem_inv s'"
    using m [of "StSaveInvite r"] s' i ids_ok_set [OF i(1) r stored_invite_fields(2) [OF r]] by simp
  then show "\<exists>r' s'. rp_saveInvite (memory_repository sha auditUuid) r s = (Some (Inr r'), s') \<and>
      mem_invites s' = (mem_invites s)(jget r ''id'' \<mapsto> r') \<and> same_fields r r' \<and>
      mem_rooms s' = mem_rooms s \<and> mem_approvals s' = mem_approvals s \<and> mem_sessions s' = mem_sessions s \<and>
      mem_inv s'"
    using s' stored_invite_fields(3) [OF r]
    by (auto simp: memory_repository_def mem_views fun_eq_iff)
  have "mem_inv (store_exec sha (StSaveApproval r) s)"
    using i r by (intro m) (simp_all add: ms_saveApproval_def record_ok_require sanitize_id ids_ok_set
        is_obj_sanitize record_ok_obj Let_def)
  then show "\<exists>r' s'. rp_saveApproval (memory_repository sha auditUuid) r s = (Some (Inr r'), s') \<and>
      mem_approvals s' = (mem_approvals s)(jget r ''id'' \<mapsto> r') \<and> same_fields r r' \<and>
      mem_rooms s' = mem_rooms s \<and> mem_invites s' = mem_invites s \<and> mem_sessions s' = mem_sessions s \<and>
      mem_inv s'"
    using r same_fields_sanitize [OF r]
    by (auto simp: memory_repository_def mem_views ms_saveApproval_def record_ok_require sanitize_id
        fun_eq_iff Let_def)
  have "mem_inv (store_exec sha (StSaveSession r) s)"
    using i r by (intro m) (simp_all add: ms_saveSession_def record_ok_require Let_def)
  then show "\<exists>r' s'. rp_saveSession (memory_repository sha auditUuid) r s = (Some (Inr r'), s') \<and>
      mem_sessions s' = (mem_sessions s)(jget r ''id'' \<mapsto> r') \<and> same_fields r r' \<and>
      mem_rooms s' = mem_rooms s \<and> mem_invites s' = mem_invites s \<and> mem_approvals s' = mem_approvals s \<and>
      mem_inv s'"
    using r same_fields_sanitize [OF r]
    by (auto simp: memory_repository_def mem_views ms_saveSession_def record_ok_require sanitize_id
        fun_eq_iff Let_def)
next
  fix s f e
  assume inv: "mem_inv s" and f: "rp_recordAuditEvent (memory_repository sha auditUuid) = Some f"
    and e: "truthy (jget e ''type'')"
  let ?u = "auditUuid (length (ms_auditEvents s))"
  have "mem_inv (store_exec sha (StAudit ?u e) s)"
    using inv e by (intro mem_inv_store [OF inv]) (simp_all add: ms_recordAuditEvent_def mem_inv_def Let_def)
  then show "\<exists>s'. f e s = (Some (), s') \<and> mem_rooms s' = mem_rooms s \<and> mem_invites s' = mem_invites s \<and>
      mem_approvals s' = mem_approvals s \<and> mem_sessions s' = mem_sessions s \<and> mem_inv s'"
  proof -
    assume ok: "mem_inv (store_exec sha (StAudit ?u e) s)"
    have "f = the (rp_recordAuditEvent (memory_repository sha auditUuid))" using f by simp
    then have "f e s = (Some (), store_exec sha (StAudit ?u e) s)"
      using e by (simp add: memory_repository_def ms_recordAuditEvent_def Let_def)
    then show ?thesis
      using ok e by (auto simp: mem_views ms_recordAuditEvent_def fun_eq_iff Let_def)
  qed
next
  fix s k r
  assume "mem_inv s" "mem_approvals s k = Some r"
  then show "wf_record r \<and> jget r ''id'' = k \<and> truthy k \<and> is_prim k \<and> is_obj r"
    by (auto simp: mem_inv_def store_inv_def records_ok_def ids_ok_def mem_views jget_clone)
next
  fix s k r
  assume "mem_inv s" "mem_invites s k = Some r"
  then show "wf_record r \<and> jget r ''id'' = k \<and> truthy k \<and> is_prim k \<and> is_obj r"
    by (auto simp: mem_inv_def store_inv_def records_ok_def ids_ok_def mem_views jget_clone)
qed (auto simp: memory_repository_def mem_views ms_readRoom_def ms_readInvite_def ms_readApproval_def
    fail_with_def split: option.split)

text \<open>
  Reachable stores: every sequence of store operations that saves invites and approvals under
  primitive, non-empty identifiers, as the room service does.
\<close>

definition service_adm :: "store_op \<Rightarrow> memory_store \<Rightarrow> bool" where
  "service_adm a s \<longleftrightarrow> store_adm a s \<and>
     (\<forall>r. a = StSaveInvite r \<or> a = StSaveApproval r \<longrightarrow> record_ok r)"

abbreviation service_reach :: "(string \<Rightarrow> string) \<Rightarrow> memory_store \<Rightarrow> bool" where
  "service_reach sha \<equiv> reach store_initial service_adm (store_exec sha)"

lemma mem_inv_initial: "store_initial s \<Longrightarrow> mem_inv s"
  using store_inv_initial [of s]
  by (auto simp: mem_inv_def ids_ok_def createMemoryControlPlaneStore_def)

lemma mem_inv_exec:
  assumes inv: "mem_inv s" and adm: "service_adm a s"
  shows "mem_inv (store_exec sha a s)"
proof -
  have i: "ids_ok (ms_invites s)" "ids_ok (ms_approvals s)" using inv by (simp_all add: mem_inv_def)
  show ?thesis
  proof (cases a)
    case (StSaveInvite r)
    with adm have "record_ok r" by (simp add: service_adm_def)
    from memory.saveInvite [OF inv this, of sha] StSaveInvite show ?thesis by (auto simp: memory_repository_def)
  next
    case (StSaveApproval r)
    with adm have "record_ok r" by (simp add: service_adm_def)
    from memory.saveApproval [OF inv this, of sha] StSaveApproval show ?thesis by (auto simp: memory_repository_def)
  qed (rule mem_inv_store [OF inv]; use i in \<open>simp add: ms_saveRoom_def ms_saveSession_def
      ms_incrementRateLimitCounter_def ms_recordAuditEvent_def Let_def split: option.split\<close>)+
qed

interpretation service: invariant store_initial service_adm "store_exec sha" mem_inv for sha
  by unfold_locales (rule mem_inv_initial mem_inv_exec; assumption)+

section \<open>Decisions\<close>

text \<open>
  C14. A decision that \<open>decideJoinRequest\<close> reports as made was made by the host of the request's
  room on a pending request, and is what the store shows afterwards. Denying or blocking creates
  no session. Approving creates exactly one, for the room, the invite and the request that were
  approved and for the Minecraft identity of the request, which the caller presented; the room is
  open and the invite active. No other request, room or invite changes.
\<close>

theorem decide_join_request:
  assumes "service_reach sha s"
    and "run (rs_decideJoinRequest (memory_repository sha ids) c u hook actor rid d mu cred) s =
      (Some (Inr res), s')"
  shows "\<exists>a room a'. mem_approvals s rid = Some a \<and>
     jget a ''state'' = JStr (approval_state_str Approval_PENDING) \<and>
     mem_rooms s (jget a ''roomId'') = Some room \<and> truthy actor \<and> jget room ''hostId'' = actor \<and>
     d \<in> set HOST_DECISIONS \<and> mem_approvals s' = (mem_approvals s)(rid \<mapsto> a') \<and>
     jget a' ''state'' = d \<and> mem_rooms s' = mem_rooms s \<and> mem_invites s' = mem_invites s \<and>
     (if d = JStr (approval_state_str Approval_APPROVED)
      then jget a ''minecraftUuid'' = mu \<and> isRoomOpen room \<and>
        (\<exists>i. mem_invites s (jget a ''inviteId'') = Some i \<and>
           jget i ''state'' = JStr (invite_state_str Invite_ACTIVE)) \<and>
        (\<exists>ses t. mem_sessions s' = (mem_sessions s)(JStr (''session_'' @ u) \<mapsto> ses) \<and>
           same_fields (session_record c u a mu cred t) ses)
      else mem_sessions s' = mem_sessions s)"
proof -
  have inv: "mem_inv s" by (rule service.reach_inv [OF assms(1)])
  have dec: "memory.decided_in c u actor rid d mu cred s s'"
    by (rule memory.decide_success [OF inv assms(2)])
  from memory.decision_state_kept [OF dec] obtain a' where
    a': "mem_approvals s' rid = Some a'" "jget a' ''state'' = d" by blast
  from dec obtain a room a2 where *: "mem_approvals s rid = Some a"
    "jget a ''state'' = JStr (approval_state_str Approval_PENDING)"
    "mem_rooms s (jget a ''roomId'') = Some room" "truthy actor" "jget room ''hostId'' = actor"
    "d \<in> set HOST_DECISIONS" "mem_approvals s' = (mem_approvals s)(rid \<mapsto> a2)"
    "mem_rooms s' = mem_rooms s" "mem_invites s' = mem_invites s"
    and rest: "if d = JStr (approval_state_str Approval_APPROVED)
      then jget a ''minecraftUuid'' = mu \<and> isRoomOpen room \<and>
        (\<exists>i. mem_invites s (jget a ''inviteId'') = Some i \<and>
           jget i ''state'' = JStr (invite_state_str Invite_ACTIVE)) \<and>
        (\<exists>ses t. mem_sessions s' = (mem_sessions s)(JStr (''session_'' @ u) \<mapsto> ses) \<and>
           same_fields (session_record c u a mu cred t) ses)
      else mem_sessions s' = mem_sessions s"
    unfolding memory.decided_in_def by blast
  have "a2 = a'" using *(7) a'(1) by simp
  with * a'(2) rest show ?thesis by blast
qed

text \<open>A store with a room, an invite and a pending request.\<close>

definition demo_room :: jsval where
  "demo_room = JObj [(''id'', JStr ''room_1''), (''hostId'', JStr ''host''), (''state'', JStr ''open'')]"

definition demo_invite :: jsval where
  "demo_invite = JObj [(''id'', JStr ''invite_1''), (''roomId'', JStr ''room_1''), (''token'', JStr ''tok''),
     (''state'', JStr ''active''), (''createdAt'', JNum 0), (''expiresAt'', JNum 1000)]"

definition demo_approval :: jsval where
  "demo_approval = JObj [(''id'', JStr ''approval_1''), (''roomId'', JStr ''room_1''),
     (''inviteId'', JStr ''invite_1''), (''friendId'', JStr ''friend''), (''minecraftUuid'', JStr ''uuid''),
     (''state'', JStr ''pending'')]"

definition demo_store :: memory_store where
  "demo_store = exec_all (store_exec id)
     [StSaveRoom demo_room, StSaveInvite demo_invite, StSaveApproval demo_approval]
     (createMemoryControlPlaneStore 0)"

lemma demo_store_reach: "service_reach id demo_store"
  unfolding demo_store_def
  by (rule reach_exec_all) (auto intro: reach_init simp: service_adm_def record_ok_def wf_record_def
      demo_approval_def demo_invite_def)


definition no_uuid :: "nat \<Rightarrow> string" where
  "no_uuid n = []"

lemma demo_records: "record_ok demo_room" "record_ok demo_invite" "record_ok demo_approval"
  by (simp_all add: record_ok_def wf_record_def demo_room_def demo_invite_def demo_approval_def)

lemma demo_shown:
  "mem_approvals demo_store (JStr ''approval_1'') = Some (json_clone (sanitizeRecord id demo_approval))"
  "mem_rooms demo_store (JStr ''room_1'') = Some (json_clone (sanitizeRecord id demo_room))"
proof -
  have ids: "jget (sanitizeRecord id demo_room) ''id'' = JStr ''room_1''"
    "jget (sanitizeRecord id demo_approval) ''id'' = JStr ''approval_1''"
    unfolding sanitize_id [OF demo_records(1)] sanitize_id [OF demo_records(3)]
    by (simp_all add: demo_room_def demo_approval_def)
  have "ms_rooms (snd (ms_saveInvite id demo_invite s)) = ms_rooms s" for s
    using ms_saveInvite_eq [OF demo_records(2), of id] by (metis snd_conv)
  then show "mem_approvals demo_store (JStr ''approval_1'') = Some (json_clone (sanitizeRecord id demo_approval))"
    "mem_rooms demo_store (JStr ''room_1'') = Some (json_clone (sanitizeRecord id demo_room))"
    using ids by (simp_all add: demo_store_def mem_views ms_saveRoom_def ms_saveApproval_def Let_def
        record_ok_require demo_records)
qed

lemma demo_fields:
  "jget (json_clone (sanitizeRecord id demo_approval)) ''state'' = JStr ''pending''"
  "jget (json_clone (sanitizeRecord id demo_approval)) ''roomId'' = JStr ''room_1''"
  "jget (json_clone (sanitizeRecord id demo_room)) ''hostId'' = JStr ''host''"
proof -
  have keys: "plain_key ''roomId''" "plain_key ''hostId''" by code_simp+
  have get: "jget (json_clone (sanitizeRecord id r)) k = jget r k"
    if "record_ok r" "plain_key k" "is_prim (jget r k)" for r k
    using same_fields_sanitize [OF that(1), of id] that unfolding same_fields_def by blast
  have f: "jget demo_approval ''state'' = JStr ''pending''" "jget demo_approval ''roomId'' = JStr ''room_1''"
    "jget demo_room ''hostId'' = JStr ''host''" by (simp_all add: demo_approval_def demo_room_def)
  show "jget (json_clone (sanitizeRecord id demo_approval)) ''state'' = JStr ''pending''"
    using get [OF demo_records(3) memory.state_plain] by (simp only: f is_prim.simps simp_thms)
  show "jget (json_clone (sanitizeRecord id demo_approval)) ''roomId'' = JStr ''room_1''"
    using get [OF demo_records(3) keys(1)] by (simp only: f is_prim.simps simp_thms)
  show "jget (json_clone (sanitizeRecord id demo_room)) ''hostId'' = JStr ''host''"
    by (rule trans [OF get [OF demo_records(1) keys(2)]]) (simp_all only: f is_prim.simps)
qed

lemma demo_room_shown:
  "mem_rooms demo_store (jget (json_clone (sanitizeRecord id demo_approval)) ''roomId'') =
     Some (json_clone (sanitizeRecord id demo_room))"
  by (simp only: demo_fields demo_shown)

lemma demo_deny: "\<exists>s'. run (rs_decideJoinRequest (memory_repository id no_uuid) default_service_config ''2'' None
    (JStr ''host'') (JStr ''approval_1'') (JStr ''denied'') JUndef JUndef) demo_store =
    (Some (Inr (JObj [(''request'', JObj [(''id'', JStr ''approval_1''), (''state'', JStr ''denied'')])])), s')"
  by (rule memory.decide_possible [OF service.reach_inv [OF demo_store_reach] demo_shown(1) _ demo_room_shown])
    (simp_all only: demo_fields, simp_all add: HOST_DECISIONS_def enum_strs)

theorem decide_join_request_witness:
  "\<exists>s' a'. mem_approvals s' (JStr ''approval_1'') = Some a' \<and> jget a' ''state'' = JStr ''denied'' \<and>
     mem_sessions s' = mem_sessions demo_store"
proof -
  have "JStr ''denied'' \<noteq> JStr (approval_state_str Approval_APPROVED)" by (simp add: enum_strs)
  moreover obtain s' where run: "run (rs_decideJoinRequest (memory_repository id no_uuid) default_service_config ''2'' None
    (JStr ''host'') (JStr ''approval_1'') (JStr ''denied'') JUndef JUndef) demo_store =
    (Some (Inr (JObj [(''request'', JObj [(''id'', JStr ''approval_1''), (''state'', JStr ''denied'')])])), s')"
    using demo_deny by blast
  ultimately obtain a' where "mem_approvals s' = (mem_approvals demo_store)(JStr ''approval_1'' \<mapsto> a')"
    "jget a' ''state'' = JStr ''denied''" "mem_sessions s' = mem_sessions demo_store"
    using decide_join_request [OF demo_store_reach run] by auto
  then show ?thesis by (intro exI [of _ s'] exI [of _ a']) simp
qed

text \<open>
  A decision is final: once \<open>decideJoinRequest\<close> has decided a request, every later decision
  on it is refused and leaves the store as it is, whoever asks and whatever is decided.
\<close>

theorem decision_not_repeated:
  assumes "service_reach sha s"
    and "run (rs_decideJoinRequest (memory_repository sha ids) c u hook actor rid d mu cred) s =
      (Some (Inr res), s')"
  shows "\<exists>e. run (rs_decideJoinRequest (memory_repository sha ids') c' u' hook' actor' rid d' mu' cred') s' =
    (Some (Inl e), s')"
proof -
  have inv: "mem_inv s" by (rule service.reach_inv [OF assms(1)])
  from memory.decision_state_kept [OF memory.decide_success [OF inv assms(2)]] obtain a' where
    "mem_approvals s' rid = Some a'" "jget a' ''state'' \<noteq> JStr (approval_state_str Approval_PENDING)" by auto
  then show ?thesis by (rule memory.decide_settled)
qed

theorem decision_not_repeated_witness:
  "\<exists>s' e. run (rs_decideJoinRequest (memory_repository id no_uuid) default_service_config ''3'' None
     (JStr ''host'') (JStr ''approval_1'') (JStr ''approved'') (JStr ''uuid'') (JStr ''cred'')) s' = (Some (Inl e), s')"
proof -
  obtain s' where run: "run (rs_decideJoinRequest (memory_repository id no_uuid) default_service_config ''2'' None
    (JStr ''host'') (JStr ''approval_1'') (JStr ''denied'') JUndef JUndef) demo_store =
    (Some (Inr (JObj [(''request'', JObj [(''id'', JStr ''approval_1''), (''state'', JStr ''denied'')])])), s')"
    using demo_deny by blast
  have "\<exists>e. run (rs_decideJoinRequest (memory_repository id no_uuid) default_service_config ''3'' None
     (JStr ''host'') (JStr ''approval_1'') (JStr ''approved'') (JStr ''uuid'') (JStr ''cred'')) s' = (Some (Inl e), s')"
    by (rule decision_not_repeated [OF demo_store_reach run])
  then show ?thesis by blast
qed

section \<open>Regenerated invites\<close>

text \<open>
  Regenerating an invite takes the host of its room; afterwards the old invite is revoked, no
  token leads to it any more, and the new invite is active for the same room; requests, sessions
  and rooms are as before.
\<close>

theorem regenerate_replaces_invite:
  assumes "service_reach sha s" and "iid \<noteq> JStr (''invite_'' @ u)"
    and "run (rs_regenerateInvite (memory_repository sha ids) c u token actor iid) s = (Some (Inr res), s')"
  shows "\<exists>i room old new. mem_invites s iid = Some i \<and> mem_rooms s (jget i ''roomId'') = Some room \<and>
    truthy actor \<and> jget room ''hostId'' = actor \<and>
    mem_invites s' = (mem_invites s)(iid \<mapsto> old, JStr (''invite_'' @ u) \<mapsto> new) \<and>
    jget old ''state'' = JStr (invite_state_str Invite_REVOKED) \<and>
    jget new ''state'' = JStr (invite_state_str Invite_ACTIVE) \<and>
    (\<forall>tok found. ms_readInviteByToken sha tok s' = Inr found \<longrightarrow> jget found ''id'' \<noteq> iid) \<and>
    mem_approvals s' = mem_approvals s \<and> mem_sessions s' = mem_sessions s \<and> mem_rooms s' = mem_rooms s"
proof -
  have inv: "mem_inv s" by (rule service.reach_inv [OF assms(1)])
  obtain i room old new now where *: "mem_invites s iid = Some i" "mem_rooms s (jget i ''roomId'') = Some room"
    "truthy actor" "jget room ''hostId'' = actor"
    "mem_invites s' = (mem_invites s)(iid \<mapsto> old, JStr (''invite_'' @ u) \<mapsto> new)"
    "same_fields (revoked_invite i now) old" "same_fields (new_invite c u (jget i ''roomId'') token now) new"
    "mem_approvals s' = mem_approvals s" "mem_sessions s' = mem_sessions s" "mem_rooms s' = mem_rooms s" "mem_inv s'"
    using memory.regenerate_success [OF inv assms(3)] by blast
  have "is_obj i" using memory.invite_ok [OF inv *(1)] by simp
  then have "jget (revoked_invite i now) ''state'' = JStr (invite_state_str Invite_REVOKED)"
    by (simp add: revoked_invite_def)
  then have old: "jget old ''state'' = JStr (invite_state_str Invite_REVOKED)"
    using *(6) memory.state_plain unfolding same_fields_def by (metis is_prim.simps(6))
  have "jget (new_invite c u (jget i ''roomId'') token now) ''state'' = JStr (invite_state_str Invite_ACTIVE)"
    by (simp add: new_invite_def)
  then have new: "jget new ''state'' = JStr (invite_state_str Invite_ACTIVE)"
    using *(7) memory.state_plain unfolding same_fields_def by (metis is_prim.simps(6))
  have dead: "jget found ''id'' \<noteq> iid" if "ms_readInviteByToken sha tok s' = Inr found" for tok found
  proof
    assume id: "jget found ''id'' = iid"
    from that obtain k r where r: "jm_get (ms_invites s') k = Some r" "found = json_clone r"
      "jget r ''state'' = JStr (invite_state_str Invite_ACTIVE)"
      by (auto simp: ms_readInviteByToken_def fail_with_def isInviteUsable_def Let_def
          split: if_splits option.splits)
    then have shown: "mem_invites s' k = Some found" by (simp add: mem_views)
    with memory.invite_ok [OF *(11)] id have "k = iid" by blast
    with shown *(5) assms(2) have "found = old" by simp
    moreover have "wf_record r" using *(11) r(1) by (auto simp: mem_inv_def store_inv_def records_ok_def)
    then have "jget found ''state'' = JStr (invite_state_str Invite_ACTIVE)"
      using r by (simp add: jget_clone)
    ultimately show False using old by (simp add: enum_strs)
  qed
  then have "\<forall>tok found. ms_readInviteByToken sha tok s' = Inr found \<longrightarrow> jget found ''id'' \<noteq> iid" by blast
  with *(1-5,8-10) old new show ?thesis
    by (intro exI [of _ i] exI [of _ room] exI [of _ old] exI [of _ new] conjI)
qed

lemma demo_invite_shown: "\<exists>i. mem_invites demo_store (JStr ''invite_1'') = Some i \<and> jget i ''roomId'' = JStr ''room_1''"
proof -
  have p: "plain_key ''roomId''" by code_simp
  have f: "jget demo_invite ''roomId'' = JStr ''room_1''" "jget demo_invite ''id'' = JStr ''invite_1''"
    by (simp_all add: demo_invite_def)
  have room: "jget (json_clone (stored_invite id demo_invite)) ''roomId'' = JStr ''room_1''"
    using stored_invite_fields(3) [OF demo_records(2), of id] p
    unfolding same_fields_def by (metis f(1) is_prim.simps(6))
  have "ms_invites (snd (ms_saveInvite id demo_invite s)) =
      jm_set (JStr ''invite_1'') (stored_invite id demo_invite) (ms_invites s)" for s
    using ms_saveInvite_eq [OF demo_records(2), of id] f(2) by (metis snd_conv)
  then have "mem_invites demo_store (JStr ''invite_1'') = Some (json_clone (stored_invite id demo_invite))"
    by (simp add: demo_store_def mem_views ms_saveRoom_def ms_saveApproval_def Let_def
        record_ok_require demo_records)
  with room show ?thesis by blast
qed

theorem regenerate_replaces_invite_witness:
  "\<exists>res s' old. run (rs_regenerateInvite (memory_repository id no_uuid) default_service_config ''2''
      (JStr ''new token'') (JStr ''host'') (JStr ''invite_1'')) demo_store = (Some (Inr res), s') \<and>
    mem_invites s' (JStr ''invite_1'') = Some old \<and> jget old ''state'' = JStr (invite_state_str Invite_REVOKED)"
proof -
  obtain i where i: "mem_invites demo_store (JStr ''invite_1'') = Some i" "jget i ''roomId'' = JStr ''room_1''"
    using demo_invite_shown by blast
  have host: "mem_rooms demo_store (jget i ''roomId'') = Some (json_clone (sanitizeRecord id demo_room))"
    "truthy (JStr ''host'')" "jget (json_clone (sanitizeRecord id demo_room)) ''hostId'' = JStr ''host''"
    by (simp_all only: i(2) demo_shown demo_fields) simp
  obtain res s' where run: "run (rs_regenerateInvite (memory_repository id no_uuid) default_service_config ''2''
      (JStr ''new token'') (JStr ''host'') (JStr ''invite_1'')) demo_store = (Some (Inr res), s')"
    using memory.regenerate_possible [OF service.reach_inv [OF demo_store_reach] i(1) host] by blast
  have "JStr ''invite_1'' \<noteq> JStr (''invite_'' @ ''2'')" by simp
  from regenerate_replaces_invite [OF demo_store_reach this run] obtain old new where
    "mem_invites s' = (mem_invites demo_store)(JStr ''invite_1'' \<mapsto> old, JStr (''invite_'' @ ''2'') \<mapsto> new)"
    "jget old ''state'' = JStr (invite_state_str Invite_REVOKED)" by blast
  with run show ?thesis by (intro exI [of _ res] exI [of _ s'] exI [of _ old]) simp
qed

end
