(* ===== verification/JsOps.thy ===== *)
theory JsOps
  imports JsData "HOL-Library.Monad_Syntax"
begin

text \<open>
  Operations of the language that may throw, as \<open>option\<close> values: reading a property of
  \<open>null\<close> or \<open>undefined\<close>, spreading what is not iterable, array methods on other values; and
  arrays, insertion-ordered sets and the enumerable entries of any value.
\<close>

lemma js_includes_char: "js_includes s [c] \<longleftrightarrow> c \<in> set s"
  by (induction s) auto

section \<open>Arrays and sets\<close>

fun is_arr :: "jsval \<Rightarrow> bool" where
  "is_arr (JArr xs) = True"
| "is_arr _ = False"

fun elems :: "jsval \<Rightarrow> jsval list" where
  "elems (JArr xs) = xs"
| "elems _ = []"

text \<open>\<open>Array.isArray(v) && v.length > 0\<close>\<close>

definition nonempty_arr :: "jsval \<Rightarrow> bool" where
  "nonempty_arr v \<longleftrightarrow> is_arr v \<and> elems v \<noteq> []"

text \<open>The receiver of \<open>map\<close>, \<open>filter\<close>, \<open>every\<close>: anything but an array throws.\<close>

definition arr_of :: "jsval \<Rightarrow> jsval list option" where
  "arr_of v = (if is_arr v then Some (elems v) else None)"

text \<open>\<open>[...v]\<close>: arrays and strings are iterable.\<close>

fun js_iter :: "jsval \<Rightarrow> jsval list option" where
  "js_iter (JArr xs) = Some xs"
| "js_iter (JStr s) = Some (map (\<lambda>x. JStr [x]) s)"
| "js_iter _ = None"

text \<open>\<open>v.includes(x)\<close> for a text \<open>x\<close>: membership of an array, part of a string.\<close>

fun js_includes_val :: "jsval \<Rightarrow> jsval \<Rightarrow> bool option" where
  "js_includes_val (JArr xs) x = Some (x \<in> set xs)"
| "js_includes_val (JStr s) x = Some (js_includes s (js_string x))"
| "js_includes_val _ x = None"

text \<open>\<open>new Set(xs)\<close> in iteration order, and \<open>add\<close>\<close>

definition js_add :: "'a \<Rightarrow> 'a list \<Rightarrow> 'a list" where
  "js_add x s = (if x \<in> set s then s else s @ [x])"

definition js_set :: "'a list \<Rightarrow> 'a list" where
  "js_set xs = fold js_add xs []"

lemma set_js_add [simp]: "set (js_add x s) = insert x (set s)"
  by (auto simp: js_add_def)

lemma distinct_js_add [simp]: "distinct s \<Longrightarrow> distinct (js_add x s)"
  by (simp add: js_add_def)

lemma set_fold_js_add: "set (fold js_add xs s) = set xs \<union> set s"
  by (induction xs arbitrary: s) auto

lemma set_js_set [simp]: "set (js_set xs) = set xs"
  by (simp add: js_set_def set_fold_js_add)

lemma distinct_js_set [simp]: "distinct (js_set xs)"
proof -
  have "distinct s \<Longrightarrow> distinct (fold js_add xs s)" for s
    by (induction xs arbitrary: s) auto
  then show ?thesis by (simp add: js_set_def)
qed

lemma js_set_Nil [simp]: "js_set xs = [] \<longleftrightarrow> xs = []"
  by (metis set_empty set_js_set)

section \<open>Mapping with an operation that may throw\<close>

fun traverse :: "('a \<Rightarrow> 'b option) \<Rightarrow> 'a list \<Rightarrow> 'b list option" where
  "traverse f [] = Some []"
| "traverse f (x # xs) = do { y \<leftarrow> f x; ys \<leftarrow> traverse f xs; Some (y # ys) }"

lemma traverse_Some_iff: "traverse f xs = Some ys \<longleftrightarrow> map f xs = map Some ys"
  by (induction xs arbitrary: ys) (auto simp: Cons_eq_map_conv bind_eq_Some_conv)

lemma traverse_SomeD:
  assumes "traverse f xs = Some ys"
  shows "x \<in> set xs \<Longrightarrow> \<exists>y \<in> set ys. f x = Some y" and "y \<in> set ys \<Longrightarrow> \<exists>x \<in> set xs. f x = Some y"
    and "length ys = length xs"
proof -
  have m: "map f xs = map Some ys" using assms by (simp add: traverse_Some_iff)
  show "x \<in> set xs \<Longrightarrow> \<exists>y \<in> set ys. f x = Some y" by (metis (no_types) imageE image_eqI list.set_map m)
  show "y \<in> set ys \<Longrightarrow> \<exists>x \<in> set xs. f x = Some y" by (metis (no_types) imageE image_eqI list.set_map m)
  show "length ys = length xs" by (metis length_map m)
qed

lemma traverse_ball:
  "traverse f xs = Some ys \<Longrightarrow> (\<forall>y \<in> set ys. P y) \<longleftrightarrow> (\<forall>x \<in> set xs. \<exists>y. f x = Some y \<and> P y)"
  by (induction xs arbitrary: ys) (auto simp: bind_eq_Some_conv)

lemma traverse_total: "(\<And>x. x \<in> set xs \<Longrightarrow> \<exists>y. f x = Some y) \<Longrightarrow> \<exists>ys. traverse f xs = Some ys"
proof (induction xs)
  case (Cons x xs)
  then obtain y ys where "f x = Some y" "traverse f xs = Some ys" by (metis list.set_intros)
  then show ?case by simp
qed simp

lemma traverse_map [simp]: "traverse (\<lambda>x. Some (f x)) xs = Some (map f xs)"
  by (induction xs) auto

text \<open>A loop whose body may throw.\<close>

fun opt_fold :: "('a \<Rightarrow> 's \<Rightarrow> 's option) \<Rightarrow> 'a list \<Rightarrow> 's \<Rightarrow> 's option" where
  "opt_fold f [] s = Some s"
| "opt_fold f (x # xs) s = do { s' \<leftarrow> f x s; opt_fold f xs s' }"

lemma opt_fold_append: "opt_fold f (xs @ ys) s = do { s' \<leftarrow> opt_fold f xs s; opt_fold f ys s' }"
  by (induction xs arbitrary: s) (auto simp: bind_assoc split: Option.bind_split)

lemma opt_fold_invariant:
  assumes "opt_fold f xs s = Some s'" and "I s"
    and "\<And>x s s'. x \<in> set xs \<Longrightarrow> I s \<Longrightarrow> f x s = Some s' \<Longrightarrow> I s'"
  shows "I s'"
  using assms by (induction xs arbitrary: s) (auto simp: bind_eq_Some_conv)

text \<open>Checks append their findings: none is left when every condition holds.\<close>

lemma if_list_Nil [simp]:
  "((if c then [] else x # xs) = []) = c" "((if c then x # xs else []) = []) = (\<not> c)"
  by simp_all

section \<open>Properties\<close>

text \<open>\<open>v.k\<close> where \<open>v\<close> may be \<open>null\<close> or \<open>undefined\<close>\<close>

definition dot :: "jsval \<Rightarrow> string \<Rightarrow> jsval option" where
  "dot v k = (if nullish v then None else Some (jget v k))"

text \<open>\<open>Object.entries(v)\<close>, and what spreading \<open>v\<close> into an object contributes\<close>

fun own_entries :: "jsval \<Rightarrow> (string \<times> jsval) list" where
  "own_entries (JObj kvs) = kvs"
| "own_entries (JArr xs) = map (\<lambda>(i, v). (digits i, v)) (enumerate 0 xs)"
| "own_entries (JStr s) = map (\<lambda>(i, x). (digits i, JStr [x])) (enumerate 0 s)"
| "own_entries _ = []"

text \<open>\<open>{ ...v, k1: x1, ... }\<close>\<close>

definition obj_with :: "jsval \<Rightarrow> (string \<times> jsval) list \<Rightarrow> jsval" where
  "obj_with v kvs = JObj (fromEntries (own_entries v @ kvs))"

lemma map_of_rev_distinct:
  assumes "distinct (jm_keys kvs)"
  shows "jm_get (rev kvs) k = jm_get kvs k"
  using assms by (intro map_of_inject_set [THEN iffD2, THEN fun_cong]) (simp_all add: rev_map [symmetric])

text \<open>Objects have one entry per name.\<close>

definition wf_obj :: "jsval \<Rightarrow> bool" where
  "wf_obj v \<longleftrightarrow> distinct (jm_keys (js_entries v))"

lemma wf_obj_with [simp]: "wf_obj (obj_with v kvs)"
  by (simp add: wf_obj_def obj_with_def distinct_fromEntries)

lemma nullish_obj_with [simp]: "\<not> nullish (obj_with v kvs)"
  by (simp add: obj_with_def)

lemma digits_not_Nil [simp]: "digits n \<noteq> []"
  by (simp add: digits.simps [of n])

text \<open>A name with a letter is not an index of an array or a string.\<close>

lemma digits_no_letter: "x \<in> set k \<Longrightarrow> \<not> is_digit x \<Longrightarrow> digits n \<noteq> k"
  using digits_all by metis

lemma fromEntries_distinct:
  assumes "distinct (jm_keys kvs)"
  shows "fromEntries kvs = kvs"
proof -
  have "fold (\<lambda>(k, v) m. jm_set k v m) kvs m = m @ kvs"
    if "distinct (jm_keys kvs)" "set (jm_keys kvs) \<inter> set (jm_keys m) = {}" for m
    using that
  proof (induction kvs arbitrary: m)
    case (Cons p kvs)
    obtain k v where p: "p = (k, v)" by (cases p)
    have "jm_get m k = None" using Cons.prems p by (auto simp: map_of_eq_None_iff)
    then have "jm_set k v m = m @ [(k, v)]" by (rule jm_set_fresh)
    with Cons p show ?case by auto
  qed simp
  from this [of "[]"] assms show ?thesis by (simp add: fromEntries_def)
qed

lemma jget_obj_with_new:
  "distinct (jm_keys kvs) \<Longrightarrow> jm_get kvs k = Some x \<Longrightarrow> jget (obj_with v kvs) k = x"
  by (simp add: obj_with_def jm_get_fromEntries map_of_rev_distinct map_add_def)

lemma jget_obj_with_old:
  assumes "wf_obj v" and "is_obj v" and "distinct (jm_keys kvs)" and "jm_get kvs k = None"
  shows "jget (obj_with v kvs) k = jget v k"
  using assms by (cases v)
    (simp_all add: wf_obj_def obj_with_def jm_get_fromEntries map_of_rev_distinct map_add_def)

lemma jget_obj_with_other:
  assumes "wf_obj v" and "distinct (jm_keys kvs)" and "jm_get kvs k = None" and "\<not> list_all is_digit k"
  shows "jget (obj_with v kvs) k = jget v k"
proof -
  have other: "map_of (map (\<lambda>(i, x). (digits i, f x)) ixs) k = None" for f :: "'z \<Rightarrow> jsval" and ixs
    using assms(4) digits_all by (auto simp: map_of_eq_None_iff list_all_iff)
  have "jm_get (rev (own_entries v)) k = (case jget v k of JUndef \<Rightarrow> jm_get (rev (own_entries v)) k | x \<Rightarrow> Some x) \<and>
      (jget v k = JUndef \<longrightarrow> jm_get (rev (own_entries v)) k \<in> {None, Some JUndef})"
  proof (cases v)
    case (JStr t)
    with other [of "\<lambda>x. JStr [x]" "rev (enumerate 0 t)"] show ?thesis by (simp add: rev_map)
  next
    case (JArr xs)
    with other [of "\<lambda>x. x" "rev (enumerate 0 xs)"] show ?thesis by (simp add: rev_map)
  next
    case (JObj kvs)
    with assms(1) show ?thesis
      by (auto simp: wf_obj_def map_of_rev_distinct split: option.split jsval.split)
  qed simp_all
  with assms(2,3) show ?thesis
    by (auto simp: obj_with_def jm_get_fromEntries map_of_rev_distinct map_add_def split: jsval.splits)
qed

text \<open>\<open>Number.isInteger(v)\<close>, and with \<open>v > 0\<close>\<close>

fun is_int :: "jsval \<Rightarrow> bool" where
  "is_int (JNum n) = True"
| "is_int _ = False"

lemma is_int_iff: "is_int v \<longleftrightarrow> (\<exists>n. v = JNum n)"
  by (cases v) auto

definition pos_int :: "jsval \<Rightarrow> bool" where
  "pos_int v = (case v of JNum n \<Rightarrow> n > 0 | _ \<Rightarrow> False)"

lemma pos_int_truthy: "pos_int v \<Longrightarrow> truthy v"
  by (cases v) (auto simp: pos_int_def)

text \<open>The members every object inherits.\<close>

definition inherited_names :: "string list" where
  "inherited_names = [''constructor'', ''__defineGetter__'', ''__defineSetter__'', ''hasOwnProperty'',
     ''__lookupGetter__'', ''__lookupSetter__'', ''isPrototypeOf'', ''propertyIsEnumerable'', ''toString'',
     ''valueOf'', ''__proto__'', ''toLocaleString'']"

section \<open>JSON with indentation\<close>

text \<open>\<open>JSON.stringify(v, null, 2)\<close>\<close>

definition indentation :: "nat \<Rightarrow> string" where
  "indentation level = CHR 0x0A # replicate (2 * level) CHR '' ''"

fun json2 :: "nat \<Rightarrow> jsval \<Rightarrow> string option"
and json2_elems :: "nat \<Rightarrow> jsval list \<Rightarrow> string list"
and json2_props :: "nat \<Rightarrow> (string \<times> jsval) list \<Rightarrow> string list" where
  "json2 n (JArr xs) = Some (if xs = [] then ''[]''
     else ''['' @ indentation (Suc n) @ js_join ('','' @ indentation (Suc n)) (json2_elems (Suc n) xs) @
       indentation n @ '']'')"
| "json2 n (JObj kvs) =
     (let props = json2_props (Suc n) kvs in
      Some (if props = [] then ''{}''
        else ''{'' @ indentation (Suc n) @ js_join ('','' @ indentation (Suc n)) props @ indentation n @ ''}''))"
| "json2 n v = json v"
| "json2_elems n [] = []"
| "json2_elems n (v # vs) = (case json2 n v of None \<Rightarrow> ''null'' | Some t \<Rightarrow> t) # json2_elems n vs"
| "json2_props n [] = []"
| "json2_props n ((k, v) # kvs) =
     (case json2 n v of None \<Rightarrow> json2_props n kvs | Some t \<Rightarrow> (json_str k @ '': '' @ t) # json2_props n kvs)"

end
