(* ===== verification/Catalog.thy ===== *)
theory Catalog
  imports JsOps
begin

text \<open>
  \<open>packages/mod-catalog/src/index.mjs\<close>: catalog entries for mods, their metadata check, and
  the curated pack built from them. Entries come from services and callers, so they are any
  values; a thrown \<open>TypeError\<close> is \<open>None\<close>.
\<close>

section \<open>The metadata check\<close>

definition issue :: "string \<Rightarrow> string \<Rightarrow> jsval" where
  "issue field reason = JObj [(''field'', JStr field), (''reason'', JStr reason)]"

definition requireField :: "string \<Rightarrow> jsval \<Rightarrow> string \<Rightarrow> jsval list" where
  "requireField field value reason =
    (if nullish value \<or> value = JStr [] then [issue field reason] else [])"

definition isKnownSideValue :: "jsval \<Rightarrow> bool" where
  "isKnownSideValue v \<longleftrightarrow> v = JStr ''required'' \<or> v = JStr ''optional'' \<or> v = JStr ''unsupported''"

definition hasCompleteSideMetadata :: "jsval \<Rightarrow> bool" where
  "hasCompleteSideMetadata side \<longleftrightarrow>
     isKnownSideValue (jget side ''client'') \<and> isKnownSideValue (jget side ''server'')"

definition file_field :: "nat \<Rightarrow> string \<Rightarrow> string" where
  "file_field index name = ''files['' @ digits index @ '']'' @ name"

definition entry_file_missing :: "nat \<Rightarrow> jsval \<Rightarrow> jsval list" where
  "entry_file_missing index file =
    (if truthy (jget file ''filename'') then []
     else [issue (file_field index ''.filename'') ''Catalog file must include a filename.'']) @
    (if truthy (jget file ''url'') then []
     else [issue (file_field index ''.url'') ''Catalog file must keep the original download URL.'']) @
    (if truthy (jget (jget file ''hashes'') ''sha1'') then []
     else [issue (file_field index ''.hashes.sha1'') ''Catalog file must include a pinned sha1 hash.'']) @
    (if truthy (jget (jget file ''hashes'') ''sha512'') then []
     else [issue (file_field index ''.hashes.sha512'') ''Catalog file must include a pinned sha512 hash.'']) @
    (if pos_int (jget file ''size'') then []
     else [issue (file_field index ''.size'') ''Catalog file must include a positive integer size.''])"

definition entry_missing :: "jsval \<Rightarrow> jsval list" where
  "entry_missing entry =
    (let source = jget entry ''source'';
         version = jget entry ''version'';
         sourceProvider = coalesce (jget source ''provider'') (jget entry ''metadataSource'');
         sourceUrl = coalesce (coalesce (jget entry ''sourceUrl'') (jget source ''projectUrl'')) (jget source ''url'')
     in requireField ''projectId'' (coalesce (jget entry ''projectId'') (jget entry ''id''))
          ''Catalog entry must have a stable project id.'' @
        requireField ''source.provider'' sourceProvider ''Catalog entry must identify the source provider.'' @
        requireField ''sourceUrl'' sourceUrl ''Catalog entry must keep the original source URL.'' @
        requireField ''license'' (jget entry ''license'') ''Catalog entry must include license metadata.'' @
        requireField ''permission'' (jget entry ''permission'')
          ''Catalog entry must include redistribution permission metadata.'' @
        (if hasCompleteSideMetadata (jget entry ''side'') then []
         else [issue ''side'' ''Catalog entry must include explicit client and server side support.'']) @
        (if nonempty_arr (jget version ''gameVersions'') then []
         else [issue ''version.gameVersions'' ''Catalog entry must list supported Minecraft versions.'']) @
        (if nonempty_arr (jget version ''loaders'') then []
         else [issue ''version.loaders'' ''Catalog entry must list supported loaders.'']) @
        (if is_arr (jget version ''dependencies'') then []
         else [issue ''version.dependencies'' ''Catalog entry must include a dependency list, even when empty.'']) @
        (if nonempty_arr (jget entry ''files'')
         then concat (map (\<lambda>(i, f). entry_file_missing i f) (enumerate 0 (elems (jget entry ''files''))))
         else [issue ''files'' ''Catalog entry must include at least one downloadable file.'']))"

definition evaluateCatalogEntryMetadata :: "jsval \<Rightarrow> jsval" where
  "evaluateCatalogEntryMetadata entry =
    (let missing = entry_missing entry; complete = (missing = [])
     in JObj [(''state'', JStr (if complete then ''complete'' else ''incomplete'')),
          (''complete'', JBool complete),
          (''recommendationState'', JStr (if complete then ''ready'' else ''blocked'')),
          (''missing'', JArr missing)])"

definition catalogEntryHasRequiredMetadata :: "jsval \<Rightarrow> bool" where
  "catalogEntryHasRequiredMetadata entry =
     truthy (jget (evaluateCatalogEntryMetadata entry) ''complete'')"

section \<open>Entries from Modrinth\<close>

definition normalizeSideValue :: "jsval \<Rightarrow> jsval" where
  "normalizeSideValue v =
    (if v = JStr ''required'' \<or> v = JStr ''optional'' \<or> v = JStr ''unsupported'' then v else JUndef)"

definition normalizeSide :: "jsval \<Rightarrow> jsval \<Rightarrow> jsval" where
  "normalizeSide clientSide serverSide =
     JObj [(''client'', normalizeSideValue clientSide), (''server'', normalizeSideValue serverSide)]"

definition cat_normalizeLicense :: "jsval \<Rightarrow> jsval" where
  "cat_normalizeLicense license =
    (if \<not> truthy license then JNull
     else (case license of
         JStr s \<Rightarrow> JStr s
       | _ \<Rightarrow> coalesce (coalesce (jget license ''id'') (jget license ''name'')) JNull))"

definition defaultPermissionRecord :: jsval where
  "defaultPermissionRecord =
     JObj [(''redistribution'', JStr ''original_url_only''), (''use'', JStr ''allowed_by_license'')]"

definition normalizeFile :: "jsval \<Rightarrow> jsval option" where
  "normalizeFile file =
    (if nullish file then None
     else Some (JObj [(''filename'', jget file ''filename''), (''url'', jget file ''url''),
       (''hashes'', obj_with (coalesce (jget file ''hashes'') (JObj [])) []),
       (''size'', jget file ''size''), (''primary'', JBool (truthy (jget file ''primary'')))]))"

definition normalizeFiles :: "jsval \<Rightarrow> jsval option" where
  "normalizeFiles files = do {
     xs \<leftarrow> arr_of files;
     ys \<leftarrow> traverse normalizeFile xs;
     Some (JArr ys)
   }"

definition normalizeDependency :: "jsval \<Rightarrow> jsval option" where
  "normalizeDependency dependency =
    (if nullish dependency then None
     else Some (JObj
       [(''projectId'', coalesce (jget dependency ''project_id'') (jget dependency ''projectId'')),
        (''versionId'', coalesce (coalesce (jget dependency ''version_id'') (jget dependency ''versionId'')) JNull),
        (''type'', coalesce (jget dependency ''dependency_type'') (jget dependency ''type'')),
        (''source'', jget dependency ''source'')]))"

definition normalizeDependencies :: "jsval \<Rightarrow> jsval option" where
  "normalizeDependencies dependencies = do {
     xs \<leftarrow> arr_of dependencies;
     ys \<leftarrow> traverse normalizeDependency xs;
     Some (JArr ys)
   }"

definition normalizeModrinthVersion :: "jsval \<Rightarrow> jsval \<Rightarrow> jsval \<Rightarrow> jsval option" where
  "normalizeModrinthVersion project version permission =
    (if \<not> truthy project \<or> \<not> truthy version then None
     else
       let projectId = coalesce (jget version ''project_id'') (jget project ''id'');
           slug = coalesce (jget project ''slug'') projectId;
           side = normalizeSide (jget project ''client_side'') (jget project ''server_side'');
           sourceUrl = coalesce (coalesce (jget project ''source_url'') (jget project ''sourceUrl''))
             (JStr (''https://modrinth.com/mod/'' @ js_string slug))
       in do {
         files \<leftarrow> normalizeFiles (coalesce (jget version ''files'') (JArr []));
         gameVersions \<leftarrow> js_iter (coalesce (jget version ''game_versions'') (JArr []));
         loaders \<leftarrow> js_iter (coalesce (jget version ''loaders'') (JArr []));
         dependencies \<leftarrow> normalizeDependencies (coalesce (jget version ''dependencies'') (JArr []));
         let entry = JObj [(''id'', projectId), (''projectId'', projectId), (''slug'', slug),
           (''title'', coalesce (jget project ''title'') slug),
           (''description'', coalesce (coalesce (jget project ''description'') (jget project ''body'')) (JStr [])),
           (''sourceUrl'', sourceUrl),
           (''source'', JObj [(''provider'', JStr ''modrinth''), (''projectId'', projectId),
             (''versionId'', jget version ''id''), (''projectUrl'', sourceUrl),
             (''versionUrl'', JStr (''https://modrinth.com/mod/'' @ js_string slug @ ''/version/'' @
                js_string (jget version ''id'')))]),
           (''license'', cat_normalizeLicense (jget project ''license'')),
           (''permission'', coalesce (coalesce (coalesce permission (jget project ''permission''))
              (jget project ''permissions'')) defaultPermissionRecord),
           (''side'', side),
           (''version'', JObj [(''id'', jget version ''id''), (''number'', jget version ''version_number''),
             (''name'', coalesce (jget version ''name'') (jget version ''version_number'')),
             (''gameVersions'', JArr gameVersions), (''loaders'', JArr loaders),
             (''dependencies'', dependencies)]),
           (''files'', files), (''metadataSource'', JStr ''modrinth'')];
         Some (obj_with entry [(''metadataCompleteness'', evaluateCatalogEntryMetadata entry)])
       })"

section \<open>Curated packs\<close>

definition sideToEnv :: "jsval \<Rightarrow> jsval" where
  "sideToEnv side = JObj [(''client'', coalesce (jget side ''client'') (JStr ''optional'')),
     (''server'', coalesce (jget side ''server'') (JStr ''optional''))]"

definition pack_file :: "jsval \<Rightarrow> jsval \<Rightarrow> jsval" where
  "pack_file m file = JObj [(''path'', JStr (''mods/'' @ js_string (jget file ''filename''))),
     (''hashes'', obj_with (jget file ''hashes'') []), (''env'', sideToEnv (jget m ''side'')),
     (''downloads'', JArr [jget file ''url'']), (''fileSize'', jget file ''size''),
     (''metadata'', JObj [(''projectId'', jget m ''projectId''), (''sourceUrl'', jget m ''sourceUrl''),
        (''license'', jget m ''license''), (''permission'', jget m ''permission'')])]"

definition createCuratedPack ::
  "jsval \<Rightarrow> jsval \<Rightarrow> jsval \<Rightarrow> jsval \<Rightarrow> jsval \<Rightarrow> jsval \<Rightarrow> jsval option" where
  "createCuratedPack name versionId summary minecraftVersion fabricLoaderVersion mods =
    (if \<not> nonempty_arr mods then None
     else if \<exists>m \<in> set (elems mods). \<not> catalogEntryHasRequiredMetadata m then None
     else Some (JObj [(''formatVersion'', JNum 1), (''game'', JStr ''minecraft''), (''versionId'', versionId),
       (''name'', name), (''summary'', summary),
       (''files'', JArr (concat (map (\<lambda>m. map (pack_file m) (elems (jget m ''files''))) (elems mods)))),
       (''dependencies'', JObj [(''minecraft'', minecraftVersion), (''fabric-loader'', fabricLoaderVersion)])]))"

section \<open>Recommendations\<close>

definition toCompatibilityInput :: "jsval \<Rightarrow> jsval option" where
  "toCompatibilityInput entry =
    (if nullish entry then None
     else Some (JObj [(''projectId'', coalesce (jget entry ''projectId'') (jget entry ''id'')),
       (''title'', coalesce (coalesce (coalesce (jget entry ''title'') (jget entry ''slug''))
          (jget entry ''projectId'')) (jget entry ''id'')),
       (''slug'', jget entry ''slug''), (''source'', jget entry ''source''),
       (''sourceUrl'', jget entry ''sourceUrl''), (''metadataSource'', jget entry ''metadataSource''),
       (''license'', jget entry ''license''), (''permission'', jget entry ''permission''),
       (''side'', jget entry ''side''), (''version'', jget entry ''version''), (''files'', jget entry ''files''),
       (''metadataCompleteness'', evaluateCatalogEntryMetadata entry)]))"

text \<open>The Korean labels, meaning "can be verified" and "cannot be verified".\<close>

datatype verification_label = CanBeVerified | CannotBeVerified

record recommendation =
  rm_projectId :: jsval
  rm_title :: jsval
  rm_slug :: jsval
  rm_category :: jsval
  rm_rank :: jsval
  rm_reason :: jsval
  rm_source :: jsval
  rm_metadataCompleteness :: jsval
  rm_state :: string
  rm_canRecommend :: bool
  rm_userLabel :: verification_label
  rm_compatibilityInput :: jsval

definition or_default :: "jsval \<Rightarrow> jsval \<Rightarrow> jsval" where
  "or_default v d = (if v = JUndef then d else v)"

definition createCatalogRecommendation :: "jsval \<Rightarrow> jsval \<Rightarrow> jsval \<Rightarrow> jsval \<Rightarrow> recommendation option" where
  "createCatalogRecommendation entry category rank reason = do {
     input \<leftarrow> toCompatibilityInput entry;
     let metadataCompleteness = evaluateCatalogEntryMetadata entry;
     let complete = truthy (jget metadataCompleteness ''complete'');
     Some \<lparr>rm_projectId = coalesce (jget entry ''projectId'') (jget entry ''id''),
       rm_title = coalesce (coalesce (coalesce (jget entry ''title'') (jget entry ''slug''))
         (jget entry ''projectId'')) (jget entry ''id''),
       rm_slug = jget entry ''slug'', rm_category = or_default category (JStr ''recommended''),
       rm_rank = or_default rank JNull, rm_reason = or_default reason (JStr []),
       rm_source = coalesce (jget entry ''source'')
         (JObj [(''provider'', jget entry ''metadataSource''), (''projectUrl'', jget entry ''sourceUrl'')]),
       rm_metadataCompleteness = metadataCompleteness,
       rm_state = (if complete then ''ready'' else ''blocked''), rm_canRecommend = complete,
       rm_userLabel = (if complete then CanBeVerified else CannotBeVerified),
       rm_compatibilityInput = input\<rparr>
   }"

end
