(* ===== verification/Compatibility.thy ===== *)
theory Compatibility
  imports Catalog Protocol
begin

text \<open>
  \<open>packages/compatibility-engine/src/index.mjs\<close>: the verdict on a selection of mods and the
  plan of the dependencies to add. \<open>selectedMods\<close>, \<open>catalog\<close> and \<open>knownConflicts\<close> are arrays of
  any values; a thrown \<open>TypeError\<close> is \<open>None\<close>. The labels are the three of the protocol, and the
  helpers \<open>requireField\<close>, \<open>hasCompleteSideMetadata\<close> and \<open>isKnownSideValue\<close> are, word for word,
  those of the catalog.
\<close>

section \<open>Normalised mods\<close>

definition normalizeSelectedMod :: "jsval \<Rightarrow> jsval option" where
  "normalizeSelectedMod m =
    (if nullish m then None
     else
       let projectId = coalesce (jget m ''projectId'') (jget m ''id'');
           side = jget m ''side'';
           version = jget m ''version''
       in Some (obj_with m
         [(''projectId'', projectId),
          (''title'', coalesce (coalesce (jget m ''title'') (jget m ''slug'')) projectId),
          (''side'', JObj [(''client'', coalesce (jget side ''client'') (JStr ''optional'')),
             (''server'', coalesce (jget side ''server'') (JStr ''optional''))]),
          (''sideMetadataComplete'', JBool (hasCompleteSideMetadata side)),
          (''version'', obj_with (coalesce version (JObj []))
             [(''gameVersions'', coalesce (coalesce (jget version ''gameVersions'') (jget m ''gameVersions'')) (JArr [])),
              (''loaders'', coalesce (coalesce (jget version ''loaders'') (jget m ''loaders'')) (JArr [])),
              (''dependencies'', coalesce (coalesce (jget version ''dependencies'') (jget m ''dependencies'')) (JArr []))])]))"

definition supportsTarget :: "jsval \<Rightarrow> jsval \<Rightarrow> jsval \<Rightarrow> bool option" where
  "supportsTarget m minecraftVersion loader = do {
     normalized \<leftarrow> normalizeSelectedMod m;
     listed \<leftarrow> js_includes_val (jget (jget normalized ''version'') ''gameVersions'') minecraftVersion;
     if listed then js_includes_val (jget (jget normalized ''version'') ''loaders'') loader else Some False
   }"

definition requiredDependencies :: "jsval \<Rightarrow> jsval list option" where
  "requiredDependencies m = do {
     normalized \<leftarrow> normalizeSelectedMod m;
     dependencies \<leftarrow> arr_of (jget (jget normalized ''version'') ''dependencies'');
     if \<exists>d \<in> set dependencies. nullish d then None
     else Some (filter (\<lambda>d. jget d ''type'' = JStr ''required'' \<and> truthy (jget d ''projectId'')) dependencies)
   }"

definition buildCatalog :: "jsval list \<Rightarrow> jsval list \<Rightarrow> (jsval, jsval) jsmap option" where
  "buildCatalog catalog selected = do {
     normalized \<leftarrow> traverse normalizeSelectedMod (catalog @ selected);
     Some (fold (\<lambda>n. jm_set (jget n ''projectId'') n) normalized [])
   }"

definition classifySide :: "jsval \<Rightarrow> string" where
  "classifySide m =
    (if jget m ''sideMetadataComplete'' = JBool False \<or> \<not> hasCompleteSideMetadata (jget m ''side'')
     then ''unknown''
     else (case normalizeSelectedMod m of
         None \<Rightarrow> ''unknown''
       | Some n \<Rightarrow>
          let client = jget (jget n ''side'') ''client''; server = jget (jget n ''side'') ''server''
          in if client = JStr ''unsupported'' \<and> server \<noteq> JStr ''unsupported'' then ''server_only''
             else if server = JStr ''unsupported'' \<and> client \<noteq> JStr ''unsupported'' then ''client_only''
             else if client = JStr ''unsupported'' \<and> server = JStr ''unsupported'' then ''unknown''
             else if truthy client \<and> truthy server then ''both_sides''
             else ''unknown''))"

section \<open>Metadata of a mod\<close>

definition mod_file_missing :: "nat \<Rightarrow> jsval \<Rightarrow> jsval list" where
  "mod_file_missing index file =
    (if truthy (jget file ''url'') then []
     else [issue (file_field index ''.url'') ''Mod file must keep the original download URL.'']) @
    (if truthy (jget (jget file ''hashes'') ''sha1'') then []
     else [issue (file_field index ''.hashes.sha1'') ''Mod file must include a pinned sha1 hash.'']) @
    (if truthy (jget (jget file ''hashes'') ''sha512'') then []
     else [issue (file_field index ''.hashes.sha512'') ''Mod file must include a pinned sha512 hash.'']) @
    (if pos_int (jget file ''size'') then []
     else [issue (file_field index ''.size'') ''Mod file must include a positive integer size.''])"

definition mod_missing :: "jsval \<Rightarrow> jsval \<Rightarrow> jsval list" where
  "mod_missing m normalized =
    (let source = jget m ''source'';
         version = jget normalized ''version'';
         sourceProvider = coalesce (jget source ''provider'') (jget m ''metadataSource'');
         sourceUrl = coalesce (coalesce (jget m ''sourceUrl'') (jget source ''projectUrl'')) (jget source ''url'')
     in requireField ''source.provider'' sourceProvider ''Mod metadata must identify the source provider.'' @
        requireField ''sourceUrl'' sourceUrl ''Mod metadata must keep the original source URL.'' @
        requireField ''license'' (jget m ''license'') ''Mod metadata must include license metadata.'' @
        requireField ''permission'' (jget m ''permission'')
          ''Mod metadata must include redistribution permission metadata.'' @
        (if jget m ''sideMetadataComplete'' = JBool False \<or> \<not> hasCompleteSideMetadata (jget m ''side'')
         then [issue ''side'' ''Mod metadata must include explicit client and server side support.''] else []) @
        (if nonempty_arr (jget version ''gameVersions'') then []
         else [issue ''version.gameVersions'' ''Mod metadata must list supported Minecraft versions.'']) @
        (if nonempty_arr (jget version ''loaders'') then []
         else [issue ''version.loaders'' ''Mod metadata must list supported loaders.'']) @
        (if is_arr (jget version ''dependencies'') then []
         else [issue ''version.dependencies'' ''Mod metadata must include a dependency list, even when empty.'']) @
        (if nonempty_arr (jget m ''files'')
         then concat (map (\<lambda>(i, f). mod_file_missing i f) (enumerate 0 (elems (jget m ''files''))))
         else [issue ''files'' ''Mod metadata must include at least one downloadable file.'']))"

record mod_evaluation =
  me_projectId :: jsval
  me_title :: jsval
  me_complete :: bool
  me_missing :: "jsval list"

definition evaluateModMetadata :: "jsval \<Rightarrow> mod_evaluation option" where
  "evaluateModMetadata m = do {
     normalized \<leftarrow> normalizeSelectedMod m;
     let missing = mod_missing m normalized;
     Some \<lparr>me_projectId = jget normalized ''projectId'', me_title = jget normalized ''title'',
       me_complete = (missing = []), me_missing = missing\<rparr>
   }"

section \<open>The dependency plan\<close>

record suggestion =
  sg_projectId :: jsval
  sg_title :: jsval
  sg_requiredBy :: jsval
  sg_reason :: string

record missing_dependency =
  md_projectId :: jsval
  md_requiredBy :: jsval
  md_reason :: string
  md_metadataIssues :: "jsval list option"

record plan_state =
  ps_selectedIds :: "jsval list"
  ps_adds :: "suggestion list"
  ps_missing :: "missing_dependency list"

text \<open>One round of the inner loop: the dependency \<open>d\<close> of the selected mod \<open>m\<close>.\<close>

definition plan_dependency ::
  "(jsval, jsval) jsmap \<Rightarrow> jsval \<Rightarrow> jsval \<Rightarrow> jsval \<Rightarrow> jsval \<Rightarrow> plan_state \<Rightarrow> plan_state option" where
  "plan_dependency catalogById minecraftVersion loader m d st =
    (let pid = jget d ''projectId'';
         absent = Some (st\<lparr>ps_missing := ps_missing st @ [\<lparr>md_projectId = pid,
           md_requiredBy = jget m ''projectId'',
           md_reason = js_string (jget m ''title'') @ '' has a required dependency that is not in the curated catalog.'',
           md_metadataIssues = None\<rparr>]\<rparr>)
     in if pid \<in> set (ps_selectedIds st) then Some st
        else (case jm_get catalogById pid of
            None \<Rightarrow> absent
          | Some candidate \<Rightarrow> do {
              supported \<leftarrow> supportsTarget candidate minecraftVersion loader;
              if \<not> supported then absent
              else do {
                metadata \<leftarrow> evaluateModMetadata candidate;
                if \<not> me_complete metadata
                then Some (st\<lparr>ps_missing := ps_missing st @ [\<lparr>md_projectId = pid,
                  md_requiredBy = jget m ''projectId'',
                  md_reason = js_string (jget candidate ''title'') @
                    '' is present in the catalog, but its metadata is incomplete.'',
                  md_metadataIssues = Some (me_missing metadata)\<rparr>]\<rparr>)
                else Some (st\<lparr>ps_adds := ps_adds st @ [\<lparr>sg_projectId = jget candidate ''projectId'',
                    sg_title = jget candidate ''title'', sg_requiredBy = jget m ''projectId'',
                    sg_reason = js_string (jget m ''title'') @ '' requires '' @
                      js_string (jget candidate ''title'') @ ''.''\<rparr>],
                  ps_selectedIds := js_add (jget candidate ''projectId'') (ps_selectedIds st)\<rparr>)
              }
            }))"

definition plan_mod ::
  "(jsval, jsval) jsmap \<Rightarrow> jsval \<Rightarrow> jsval \<Rightarrow> jsval \<Rightarrow> plan_state \<Rightarrow> plan_state option" where
  "plan_mod catalogById minecraftVersion loader m st = do {
     dependencies \<leftarrow> requiredDependencies m;
     opt_fold (plan_dependency catalogById minecraftVersion loader m) dependencies st
   }"

record dependency_plan =
  dp_resolvedMods :: "jsval list"
  dp_automaticAddSuggestions :: "suggestion list"
  dp_missingDependencies :: "missing_dependency list"

definition resolveDependencyPlan ::
  "jsval list \<Rightarrow> jsval list \<Rightarrow> jsval \<Rightarrow> jsval \<Rightarrow> dependency_plan option" where
  "resolveDependencyPlan selectedMods catalog minecraftVersion loader = do {
     selected \<leftarrow> traverse normalizeSelectedMod selectedMods;
     catalogById \<leftarrow> buildCatalog catalog selected;
     st \<leftarrow> opt_fold (plan_mod catalogById minecraftVersion loader) selected
       \<lparr>ps_selectedIds = js_set (map (\<lambda>m. jget m ''projectId'') selected), ps_adds = [], ps_missing = []\<rparr>;
     Some \<lparr>dp_resolvedMods = selected @ map (\<lambda>s. case jm_get catalogById (sg_projectId s) of
           None \<Rightarrow> JUndef | Some m \<Rightarrow> m) (ps_adds st),
       dp_automaticAddSuggestions = ps_adds st, dp_missingDependencies = ps_missing st\<rparr>
   }"

section \<open>Conflicts, advice, verdict\<close>

record conflict =
  cf_mods :: "jsval list"
  cf_advice :: jsval

definition read_conflict :: "jsval \<Rightarrow> conflict option" where
  "read_conflict c =
    (if nullish c then None
     else do {
       mods \<leftarrow> arr_of (coalesce (jget c ''mods'') (JArr [jget c ''a'', jget c ''b'']));
       Some \<lparr>cf_mods = mods,
         cf_advice = coalesce (jget c ''advice'') (JStr ''Use only one of these mods in this pack.'')\<rparr>
     })"

definition findKnownConflicts :: "jsval list \<Rightarrow> jsval list \<Rightarrow> conflict list option" where
  "findKnownConflicts selectedIds knownConflicts = do {
     conflicts \<leftarrow> traverse read_conflict knownConflicts;
     Some (filter (\<lambda>c. set (cf_mods c) \<subseteq> set selectedIds) conflicts)
   }"

definition buildAdvice ::
  "risk_label \<Rightarrow> mod_evaluation list \<Rightarrow> jsval list \<Rightarrow> dependency_plan \<Rightarrow> conflict list \<Rightarrow> jsval" where
  "buildAdvice label metadataIssues unsupported plan conflicts =
    (if label = HIGH_CONFIDENCE
     then JStr ''This set is marked compatible for the selected Minecraft and Fabric version.''
     else if metadataIssues \<noteq> []
     then JStr ''Some selected mods are missing metadata needed for a safe recommendation.''
     else if unsupported \<noteq> []
     then JStr ''Choose versions that list the selected Minecraft version and Fabric loader before generating the pack.''
     else if dp_missingDependencies plan \<noteq> []
     then JStr ''Add the required dependencies or choose another mod before generating the pack.''
     else (case conflicts of
         c # _ \<Rightarrow> cf_advice c
       | [] \<Rightarrow> JStr ''Review this combination before recommending it.''))"

text \<open>The Korean labels of \<open>RiskDisplayLabels\<close>: "high confidence", "caution", "may fail".\<close>

datatype risk_display = ShowHighConfidence | ShowCaution | ShowLikelyFail

definition RiskDisplayLabels :: "risk_label \<Rightarrow> risk_display" where
  "RiskDisplayLabels l = (case l of HIGH_CONFIDENCE \<Rightarrow> ShowHighConfidence | CAUTION \<Rightarrow> ShowCaution
     | LIKELY_FAIL \<Rightarrow> ShowLikelyFail)"

record compatibility =
  co_label :: risk_label
  co_userLabel :: risk_display
  co_canRecommend :: bool
  co_canGeneratePack :: bool
  co_selectedModIds :: "jsval list"
  co_sideClassifications :: "(string \<times> jsval) list"
  co_metadataIssues :: "mod_evaluation list"
  co_unsupported :: "(jsval \<times> jsval \<times> string) list"
  co_missingDependencies :: "missing_dependency list"
  co_automaticAddSuggestions :: "suggestion list"
  co_resolvedModIds :: "jsval list"
  co_conflicts :: "conflict list"
  co_advice :: jsval

text \<open>\<open>xs.filter(p)\<close> where \<open>p\<close> may throw\<close>

definition opt_filter :: "('a \<Rightarrow> bool option) \<Rightarrow> 'a list \<Rightarrow> 'a list option" where
  "opt_filter p xs = do {
     bs \<leftarrow> traverse p xs;
     Some (map fst (filter snd (zip xs bs)))
   }"

definition evaluateCompatibility ::
  "jsval list \<Rightarrow> jsval list \<Rightarrow> jsval \<Rightarrow> jsval \<Rightarrow> jsval list \<Rightarrow> compatibility option" where
  "evaluateCompatibility selectedMods catalog minecraftVersion loader knownConflicts = do {
     selected \<leftarrow> traverse normalizeSelectedMod selectedMods;
     catalogById \<leftarrow> buildCatalog catalog selected;
     let selectedIds = js_set (map (\<lambda>m. jget m ''projectId'') selected);
     evaluations \<leftarrow> traverse evaluateModMetadata selected;
     let metadataIssues = filter (\<lambda>e. \<not> me_complete e) evaluations;
     unsupported \<leftarrow> opt_filter (\<lambda>m. map_option Not (supportsTarget m minecraftVersion loader)) selected;
     plan \<leftarrow> resolveDependencyPlan selected (jm_values catalogById) minecraftVersion loader;
     conflicts \<leftarrow> findKnownConflicts selectedIds knownConflicts;
     let label =
       (if metadataIssues \<noteq> [] \<or> unsupported \<noteq> [] \<or> dp_missingDependencies plan \<noteq> [] \<or>
           dp_automaticAddSuggestions plan \<noteq> [] then LIKELY_FAIL
        else if conflicts \<noteq> [] \<or> (\<exists>m \<in> set selected. classifySide m = ''unknown'') then CAUTION
        else HIGH_CONFIDENCE);
     resolvedModIds \<leftarrow> traverse (\<lambda>m. dot m ''projectId'') (dp_resolvedMods plan);
     Some \<lparr>co_label = label, co_userLabel = RiskDisplayLabels label,
       co_canRecommend = (label \<noteq> LIKELY_FAIL), co_canGeneratePack = (label \<noteq> LIKELY_FAIL),
       co_selectedModIds = selectedIds,
       co_sideClassifications =
         fromEntries (map (\<lambda>m. (js_string (jget m ''projectId''), JStr (classifySide m))) selected),
       co_metadataIssues = metadataIssues,
       co_unsupported = map (\<lambda>m. (jget m ''projectId'', jget m ''title'',
         ''Not marked compatible with Minecraft '' @ js_string minecraftVersion @ '' and '' @
         js_string loader @ ''.'')) unsupported,
       co_missingDependencies = dp_missingDependencies plan,
       co_automaticAddSuggestions = dp_automaticAddSuggestions plan,
       co_resolvedModIds = resolvedModIds, co_conflicts = conflicts,
       co_advice = buildAdvice label metadataIssues unsupported plan conflicts\<rparr>
   }"

end
