(* ===== verification/Catalog_Props.thy ===== *)
theory Catalog_Props
  imports Catalog
begin

text \<open>
  What the metadata check accepts, as one condition on the entry; that a curated pack contains
  checked files only; and when an entry made from Modrinth's answers passes the check.
\<close>

section \<open>The check as a condition\<close>

definition given :: "jsval \<Rightarrow> bool" where
  "given v \<longleftrightarrow> \<not> nullish v \<and> v \<noteq> JStr []"

definition file_ready :: "jsval \<Rightarrow> bool" where
  "file_ready f \<longleftrightarrow> truthy (jget f ''filename'') \<and> truthy (jget f ''url'') \<and>
     truthy (jget (jget f ''hashes'') ''sha1'') \<and> truthy (jget (jget f ''hashes'') ''sha512'') \<and>
     pos_int (jget f ''size'')"

definition entry_ready :: "jsval \<Rightarrow> bool" where
  "entry_ready e \<longleftrightarrow>
     given (coalesce (jget e ''projectId'') (jget e ''id'')) \<and>
     given (coalesce (jget (jget e ''source'') ''provider'') (jget e ''metadataSource'')) \<and>
     given (coalesce (coalesce (jget e ''sourceUrl'') (jget (jget e ''source'') ''projectUrl''))
       (jget (jget e ''source'') ''url'')) \<and>
     given (jget e ''license'') \<and> given (jget e ''permission'') \<and>
     hasCompleteSideMetadata (jget e ''side'') \<and>
     nonempty_arr (jget (jget e ''version'') ''gameVersions'') \<and>
     nonempty_arr (jget (jget e ''version'') ''loaders'') \<and>
     is_arr (jget (jget e ''version'') ''dependencies'') \<and>
     nonempty_arr (jget e ''files'') \<and> (\<forall>f \<in> set (elems (jget e ''files'')). file_ready f)"

lemma requireField_Nil [simp]: "requireField f v r = [] \<longleftrightarrow> given v"
  by (simp add: requireField_def given_def)

lemma entry_file_missing_Nil: "entry_file_missing i f = [] \<longleftrightarrow> file_ready f"
  by (simp add: entry_file_missing_def file_ready_def)

lemma enumerated_Nil:
  assumes "\<And>i f. g i f = [] \<longleftrightarrow> P f"
  shows "concat (map (\<lambda>(i, f). g i f) (enumerate n xs)) = [] \<longleftrightarrow> (\<forall>f \<in> set xs. P f)"
  using assms by (induction xs arbitrary: n) auto

lemma entry_missing_Nil: "entry_missing e = [] \<longleftrightarrow> entry_ready e"
  by (simp add: entry_missing_def entry_ready_def Let_def
      enumerated_Nil [OF entry_file_missing_Nil] del: concat_eq_Nil_conv)

lemma catalogEntryHasRequiredMetadata_iff: "catalogEntryHasRequiredMetadata e \<longleftrightarrow> entry_ready e"
  by (simp add: catalogEntryHasRequiredMetadata_def evaluateCatalogEntryMetadata_def Let_def entry_missing_Nil)

section \<open>Packs\<close>

text \<open>What a pack says of a file: its original download, pinned hashes, size, and terms of use.\<close>

definition pack_file_ok :: "jsval \<Rightarrow> bool" where
  "pack_file_ok f \<longleftrightarrow> (\<exists>name. jget f ''path'' = JStr (''mods/'' @ name)) \<and>
     (\<exists>url. jget f ''downloads'' = JArr [url] \<and> truthy url) \<and>
     truthy (jget (jget f ''hashes'') ''sha1'') \<and> truthy (jget (jget f ''hashes'') ''sha512'') \<and>
     pos_int (jget f ''fileSize'') \<and>
     isKnownSideValue (jget (jget f ''env'') ''client'') \<and> isKnownSideValue (jget (jget f ''env'') ''server'') \<and>
     given (jget (jget f ''metadata'') ''license'') \<and> given (jget (jget f ''metadata'') ''permission'')"

lemma own_entries_obj: "jget v k \<noteq> JUndef \<Longrightarrow> own_entries v = js_entries v \<and> is_obj v"
  by (cases v) auto

lemma coalesce_known [simp]: "isKnownSideValue v \<Longrightarrow> coalesce v d = v"
  by (auto simp: isKnownSideValue_def)

text \<open>Copying an object keeps its properties, when no name occurs twice.\<close>

lemma jget_copy:
  assumes "wf_obj v" and "truthy (jget v k)"
  shows "jget (obj_with v []) k = jget v k"
proof -
  have "is_obj v" using assms(2) by (cases v) auto
  with assms(1) show ?thesis by (simp add: jget_obj_with_old)
qed

definition hashes_wf :: "jsval \<Rightarrow> bool" where
  "hashes_wf m \<longleftrightarrow> (\<forall>f \<in> set (elems (jget m ''files'')). wf_obj (jget f ''hashes''))"

lemma pack_file_ok:
  assumes "entry_ready m" and "hashes_wf m" and "f \<in> set (elems (jget m ''files''))"
  shows "pack_file_ok (pack_file m f)"
proof -
  have "file_ready f" using assms by (simp add: entry_ready_def)
  then have f: "truthy (jget f ''url'')" "truthy (jget (jget f ''hashes'') ''sha1'')"
    "truthy (jget (jget f ''hashes'') ''sha512'')" "pos_int (jget f ''size'')"
    by (simp_all add: file_ready_def)
  have "wf_obj (jget f ''hashes'')" using assms by (simp add: hashes_wf_def)
  then have h: "jget (obj_with (jget f ''hashes'') []) ''sha1'' = jget (jget f ''hashes'') ''sha1''"
    "jget (obj_with (jget f ''hashes'') []) ''sha512'' = jget (jget f ''hashes'') ''sha512''"
    using f by (simp_all add: jget_copy)
  have m: "hasCompleteSideMetadata (jget m ''side'')" "given (jget m ''license'')" "given (jget m ''permission'')"
    using assms(1) by (simp_all add: entry_ready_def)
  then show ?thesis
    using f h by (simp add: pack_file_ok_def pack_file_def sideToEnv_def hasCompleteSideMetadata_def)
qed

text \<open>
  \<open>createCuratedPack\<close> succeeds exactly on a non-empty list of entries that all pass the
  metadata check; the pack then has one file entry for every file of every mod, in order, and each
  of them keeps the original download URL, both pinned hashes, a positive size, explicit side
  support, and the mod's license and permission record.
\<close>

theorem curated_pack_gate:
  assumes "\<And>m. m \<in> set (elems mods) \<Longrightarrow> hashes_wf m"
  shows "(createCuratedPack name versionId summary mv fl mods = None \<longleftrightarrow>
       \<not> (nonempty_arr mods \<and> (\<forall>m \<in> set (elems mods). entry_ready m))) \<and>
    (\<forall>p. createCuratedPack name versionId summary mv fl mods = Some p \<longrightarrow>
       (\<forall>f \<in> set (elems (jget p ''files'')). pack_file_ok f) \<and>
       map (\<lambda>f. jget f ''downloads'') (elems (jget p ''files'')) =
         [JArr [jget f ''url'']. m \<leftarrow> elems mods, f \<leftarrow> elems (jget m ''files'')])"
  using assms pack_file_ok
  by (auto simp: createCuratedPack_def catalogEntryHasRequiredMetadata_iff map_concat o_def pack_file_def
      intro!: arg_cong [of _ _ concat])

definition demo_file :: jsval where
  "demo_file = JObj [(''filename'', JStr ''fabric-api.jar''), (''url'', JStr ''https://cdn.example/f.jar''),
     (''hashes'', JObj [(''sha1'', JStr ''a1''), (''sha512'', JStr ''b2'')]), (''size'', JNum 10)]"

definition demo_entry :: jsval where
  "demo_entry = JObj [(''id'', JStr ''p1''), (''metadataSource'', JStr ''modrinth''),
     (''sourceUrl'', JStr ''https://modrinth.com/mod/p1''), (''license'', JStr ''MIT''),
     (''permission'', defaultPermissionRecord),
     (''side'', JObj [(''client'', JStr ''required''), (''server'', JStr ''optional'')]),
     (''version'', JObj [(''gameVersions'', JArr [JStr ''1.20.1'']), (''loaders'', JArr [JStr ''fabric'']),
        (''dependencies'', JArr [])]),
     (''files'', JArr [demo_file])]"

lemma demo_entry_ready: "entry_ready demo_entry" "hashes_wf demo_entry"
  by (simp_all add: entry_ready_def given_def demo_entry_def hasCompleteSideMetadata_def isKnownSideValue_def
      nonempty_arr_def file_ready_def demo_file_def pos_int_def hashes_wf_def wf_obj_def defaultPermissionRecord_def)

theorem curated_pack_gate_witness:
  "createCuratedPack (JStr ''pack'') (JStr ''1'') JUndef (JStr ''1.20.1'') (JStr ''0.15'') (JArr [demo_entry]) \<noteq> None"
proof -
  have "nonempty_arr (JArr [demo_entry]) \<and> (\<forall>m \<in> set (elems (JArr [demo_entry])). entry_ready m)"
    by (simp add: nonempty_arr_def demo_entry_ready)
  moreover have "\<And>m. m \<in> set (elems (JArr [demo_entry])) \<Longrightarrow> hashes_wf m"
    by (simp add: demo_entry_ready)
  ultimately show ?thesis using curated_pack_gate [of "JArr [demo_entry]"] by blast
qed

section \<open>Entries from Modrinth\<close>

lemma known_normalized: "isKnownSideValue (normalizeSideValue v) \<longleftrightarrow> isKnownSideValue v"
  by (auto simp: normalizeSideValue_def isKnownSideValue_def)

text \<open>What Modrinth must have answered for an entry to pass the check.\<close>

definition modrinth_file_ready :: "jsval \<Rightarrow> bool" where
  "modrinth_file_ready f \<longleftrightarrow> \<not> nullish f \<and> truthy (jget f ''filename'') \<and> truthy (jget f ''url'') \<and>
     truthy (jget (obj_with (coalesce (jget f ''hashes'') (JObj [])) []) ''sha1'') \<and>
     truthy (jget (obj_with (coalesce (jget f ''hashes'') (JObj [])) []) ''sha512'') \<and>
     pos_int (jget f ''size'')"

definition modrinth_ready :: "jsval \<Rightarrow> jsval \<Rightarrow> jsval \<Rightarrow> bool" where
  "modrinth_ready project version permission \<longleftrightarrow>
     given (coalesce (jget version ''project_id'') (jget project ''id'')) \<and>
     coalesce (jget project ''source_url'') (jget project ''sourceUrl'') \<noteq> JStr [] \<and>
     given (cat_normalizeLicense (jget project ''license'')) \<and>
     coalesce (coalesce permission (jget project ''permission'')) (jget project ''permissions'') \<noteq> JStr [] \<and>
     isKnownSideValue (jget project ''client_side'') \<and> isKnownSideValue (jget project ''server_side'') \<and>
     (\<exists>x xs. js_iter (jget version ''game_versions'') = Some (x # xs)) \<and>
     (\<exists>x xs. js_iter (jget version ''loaders'') = Some (x # xs)) \<and>
     nonempty_arr (jget version ''files'') \<and>
     (\<forall>f \<in> set (elems (jget version ''files'')). modrinth_file_ready f)"

lemma normalizeFile_ready: "normalizeFile f = Some f' \<Longrightarrow> file_ready f' \<longleftrightarrow> modrinth_file_ready f"
  by (auto simp: normalizeFile_def file_ready_def modrinth_file_ready_def split: if_splits)

lemma normalizeFiles_ready:
  assumes "normalizeFiles (coalesce v (JArr [])) = Some fs"
  shows "is_arr fs" and "nonempty_arr fs \<longleftrightarrow> nonempty_arr v"
    and "(\<forall>f \<in> set (elems fs). file_ready f) \<longleftrightarrow> (\<forall>f \<in> set (elems v). modrinth_file_ready f)"
proof -
  obtain xs ys where *: "arr_of (coalesce v (JArr [])) = Some xs" "traverse normalizeFile xs = Some ys" "fs = JArr ys"
    using assms by (auto simp: normalizeFiles_def bind_eq_Some_conv)
  note tr = traverse_SomeD [OF *(2)]
  have xs: "xs = elems v" using *(1) by (cases v) (auto simp: arr_of_def coalesce_def)
  have "is_arr v \<or> xs = []" using *(1) by (cases v) (auto simp: arr_of_def coalesce_def)
  then show "is_arr fs" "nonempty_arr fs \<longleftrightarrow> nonempty_arr v"
    using *(3) tr(3) xs by (auto simp: nonempty_arr_def)
  show "(\<forall>f \<in> set (elems fs). file_ready f) \<longleftrightarrow> (\<forall>f \<in> set (elems v). modrinth_file_ready f)"
    using tr(1,2) *(3) xs normalizeFile_ready by simp (metis (no_types, lifting))
qed

lemma js_iter_coalesce:
  "js_iter (coalesce v (JArr [])) = Some ys \<Longrightarrow> ys \<noteq> [] \<longleftrightarrow> (\<exists>x xs. js_iter v = Some (x # xs))"
  by (cases v) (auto simp: neq_Nil_conv coalesce_def)

lemma coalesce_same [simp]: "coalesce v v = v"
  by (simp add: coalesce_def)

lemma given_coalesce_undef [simp]: "given (coalesce v JUndef) \<longleftrightarrow> given v"
  by (auto simp: given_def coalesce_def nullish_iff)

lemma given_JStr [simp]: "given (JStr s) \<longleftrightarrow> s \<noteq> []"
  by (simp add: given_def)

lemma given_coalesce: "given (coalesce v d) \<longleftrightarrow> (if nullish v then given d else v \<noteq> JStr [])"
  by (simp add: given_def coalesce_def)

text \<open>
  An entry that \<open>normalizeModrinthVersion\<close> makes passes the catalog's check exactly when
  Modrinth's answer has what the check asks for (\<open>modrinth_ready\<close>): the source address, the
  permission and the dependency list are supplied by default. The verdict the entry carries is
  the one a new evaluation of the entry gives.
\<close>

theorem normalized_entry_ready:
  assumes "normalizeModrinthVersion project version permission = Some e"
  shows "(catalogEntryHasRequiredMetadata e \<longleftrightarrow> modrinth_ready project version permission) \<and>
    jget e ''metadataCompleteness'' = evaluateCatalogEntryMetadata e"
proof -
  obtain files gv ls deps rest where parts:
    "normalizeFiles (coalesce (jget version ''files'') (JArr [])) = Some files"
    "js_iter (coalesce (jget version ''game_versions'') (JArr [])) = Some gv"
    "js_iter (coalesce (jget version ''loaders'') (JArr [])) = Some ls"
    "normalizeDependencies (coalesce (jget version ''dependencies'') (JArr [])) = Some deps"
    using assms by (auto simp: normalizeModrinthVersion_def Let_def bind_eq_Some_conv split: if_splits)
  define pid where "pid = coalesce (jget version ''project_id'') (jget project ''id'')"
  define slug where "slug = coalesce (jget project ''slug'') pid"
  define url where "url = coalesce (coalesce (jget project ''source_url'') (jget project ''sourceUrl''))
    (JStr (''https://modrinth.com/mod/'' @ js_string slug))"
  define perm where "perm = coalesce (coalesce (coalesce permission (jget project ''permission''))
    (jget project ''permissions'')) defaultPermissionRecord"
  define entry where "entry = JObj [(''id'', pid), (''projectId'', pid), (''slug'', slug),
     (''title'', coalesce (jget project ''title'') slug),
     (''description'', coalesce (coalesce (jget project ''description'') (jget project ''body'')) (JStr [])),
     (''sourceUrl'', url),
     (''source'', JObj [(''provider'', JStr ''modrinth''), (''projectId'', pid),
       (''versionId'', jget version ''id''), (''projectUrl'', url),
       (''versionUrl'', JStr (''https://modrinth.com/mod/'' @ js_string slug @ ''/version/'' @
          js_string (jget version ''id'')))]),
     (''license'', cat_normalizeLicense (jget project ''license'')), (''permission'', perm),
     (''side'', normalizeSide (jget project ''client_side'') (jget project ''server_side'')),
     (''version'', JObj [(''id'', jget version ''id''), (''number'', jget version ''version_number''),
       (''name'', coalesce (jget version ''name'') (jget version ''version_number'')),
       (''gameVersions'', JArr gv), (''loaders'', JArr ls), (''dependencies'', deps)]),
     (''files'', files), (''metadataSource'', JStr ''modrinth'')]"
  have e: "e = obj_with entry [(''metadataCompleteness'', evaluateCatalogEntryMetadata entry)]"
    using assms parts by (auto simp: normalizeModrinthVersion_def Let_def entry_def pid_def slug_def url_def perm_def split: if_splits)
  have obj: "is_obj entry" "wf_obj entry" by (simp_all add: entry_def wf_obj_def)
  have same: "k \<noteq> ''metadataCompleteness'' \<Longrightarrow> jget e k = jget entry k" for k
    using obj by (simp add: e jget_obj_with_old)
  then have missing: "entry_missing e = entry_missing entry" by (simp add: entry_missing_def)
  have "is_arr deps" using parts(4) by (auto simp: normalizeDependencies_def bind_eq_Some_conv)
  then have "entry_ready entry \<longleftrightarrow> given pid \<and> given url \<and> given (cat_normalizeLicense (jget project ''license'')) \<and>
      given perm \<and> isKnownSideValue (jget project ''client_side'') \<and> isKnownSideValue (jget project ''server_side'') \<and>
      gv \<noteq> [] \<and> ls \<noteq> [] \<and> nonempty_arr files \<and> (\<forall>f \<in> set (elems files). file_ready f)"
    using parts(2,3) unfolding entry_ready_def entry_def
    by (simp add: hasCompleteSideMetadata_def normalizeSide_def known_normalized nonempty_arr_def)
  moreover have "given url \<longleftrightarrow> coalesce (jget project ''source_url'') (jget project ''sourceUrl'') \<noteq> JStr []"
    unfolding url_def given_coalesce [of "coalesce (jget project ''source_url'') (jget project ''sourceUrl'')"]
    by (auto simp: given_def nullish_iff)
  moreover have "given perm \<longleftrightarrow>
      coalesce (coalesce permission (jget project ''permission'')) (jget project ''permissions'') \<noteq> JStr []"
    unfolding perm_def given_coalesce [of "coalesce (coalesce permission (jget project ''permission'')) (jget project ''permissions'')"]
    by (auto simp: given_def nullish_iff defaultPermissionRecord_def)
  ultimately have "entry_ready entry \<longleftrightarrow> modrinth_ready project version permission"
    unfolding modrinth_ready_def pid_def normalizeFiles_ready(2,3) [OF parts(1)]
      js_iter_coalesce [OF parts(2)] js_iter_coalesce [OF parts(3)] by argo
  then have "catalogEntryHasRequiredMetadata e \<longleftrightarrow> modrinth_ready project version permission"
    unfolding catalogEntryHasRequiredMetadata_iff entry_missing_Nil [symmetric] missing .
  moreover have "jget e ''metadataCompleteness'' = evaluateCatalogEntryMetadata e"
    by (subst e, subst jget_obj_with_new [where x = "evaluateCatalogEntryMetadata entry"])
      (simp_all add: evaluateCatalogEntryMetadata_def missing)
  ultimately show ?thesis by blast
qed

definition demo_project :: jsval where
  "demo_project = JObj [(''id'', JStr ''p1''), (''slug'', JStr ''fabric-api''),
     (''client_side'', JStr ''required''), (''server_side'', JStr ''required''),
     (''license'', JObj [(''id'', JStr ''Apache-2.0'')])]"

definition demo_version :: jsval where
  "demo_version = JObj [(''id'', JStr ''v1''), (''game_versions'', JArr [JStr ''1.20.1'']),
     (''loaders'', JArr [JStr ''fabric'']), (''files'', JArr [demo_file])]"

theorem normalized_entry_ready_witness:
  "\<exists>e. normalizeModrinthVersion demo_project demo_version JUndef = Some e \<and> catalogEntryHasRequiredMetadata e"
proof -
  have "\<exists>e. normalizeModrinthVersion demo_project demo_version JUndef = Some e"
    by (simp add: normalizeModrinthVersion_def Let_def demo_project_def demo_version_def normalizeFiles_def
        arr_of_def normalizeFile_def demo_file_def normalizeDependencies_def coalesce_def)
  moreover have "modrinth_ready demo_project demo_version JUndef"
    by (simp add: modrinth_ready_def demo_project_def demo_version_def demo_file_def modrinth_file_ready_def
        cat_normalizeLicense_def given_def isKnownSideValue_def nonempty_arr_def coalesce_def pos_int_def
        obj_with_def fromEntries_def)
  ultimately show ?thesis using normalized_entry_ready by blast
qed

end
