(* ===== verification/Compatibility_Props.thy ===== *)
theory Compatibility_Props
  imports Compatibility Catalog_Props
begin

text \<open>
  The verdict of the compatibility engine as a condition on the selected mods, what its
  dependency plan contains, and that the engine accepts what the catalog recommends.
\<close>

section \<open>What normalising keeps\<close>

lemma coalesce_arr [simp]: "is_arr v \<Longrightarrow> coalesce v d = v"
  by (cases v) simp_all

definition pid :: "jsval \<Rightarrow> jsval" where
  "pid m = coalesce (jget m ''projectId'') (jget m ''id'')"

text \<open>The versions, loaders and dependencies a mod lists, at either of the two places.\<close>

definition listing :: "jsval \<Rightarrow> string \<Rightarrow> jsval" where
  "listing m k = coalesce (coalesce (jget (jget m ''version'') k) (jget m k)) (JArr [])"

lemma listing_not_nullish [simp]: "\<not> nullish (listing m k)"
  by (simp add: listing_def coalesce_def)

lemma coalesce_listing [simp]: "coalesce (listing m k) v = listing m k"
  using listing_not_nullish [of m k] by (simp add: coalesce_def)

lemma norm_not_nullish: "normalizeSelectedMod m = Some n \<Longrightarrow> \<not> nullish m"
  by (auto simp: normalizeSelectedMod_def split: if_splits)

lemma norm_fields:
  assumes "normalizeSelectedMod m = Some n"
  shows "jget n ''projectId'' = pid m"
    and "jget n ''title'' = coalesce (coalesce (jget m ''title'') (jget m ''slug'')) (pid m)"
    and "jget n ''side'' = JObj [(''client'', coalesce (jget (jget m ''side'') ''client'') (JStr ''optional'')),
       (''server'', coalesce (jget (jget m ''side'') ''server'') (JStr ''optional''))]"
    and "jget n ''sideMetadataComplete'' = JBool (hasCompleteSideMetadata (jget m ''side''))"
    and "jget (jget n ''version'') ''gameVersions'' = listing m ''gameVersions''"
    and "jget (jget n ''version'') ''loaders'' = listing m ''loaders''"
    and "jget (jget n ''version'') ''dependencies'' = listing m ''dependencies''"
    and "wf_obj n" and "\<not> nullish n"
  using assms
  by (auto simp: normalizeSelectedMod_def Let_def pid_def listing_def jget_obj_with_new split: if_splits)

lemma norm_other:
  assumes "normalizeSelectedMod m = Some n" and "wf_obj m" and "\<not> list_all is_digit k"
    and "k \<notin> {''projectId'', ''title'', ''side'', ''sideMetadataComplete'', ''version''}"
  shows "jget n k = jget m k"
  using assms
  by (auto simp: normalizeSelectedMod_def Let_def jget_obj_with_other split: if_splits)

lemma norm_total: "\<not> nullish m \<Longrightarrow> \<exists>n. normalizeSelectedMod m = Some n"
  by (simp add: normalizeSelectedMod_def Let_def)

text \<open>A second normalisation changes none of this, except that the side counts as complete.\<close>

lemma listing_norm:
  assumes "normalizeSelectedMod m = Some n" and "k \<in> {''gameVersions'', ''loaders'', ''dependencies''}"
  shows "listing n k = listing m k"
  using norm_fields(5-7) [OF assms(1)] assms(2) by (auto simp: listing_def [of n])

lemma coalesce_absorb [simp]: "coalesce (coalesce a b) b = coalesce a b"
  by (simp add: coalesce_def)

lemma pid_norm:
  assumes "normalizeSelectedMod m = Some n" and "wf_obj m"
  shows "pid n = pid m"
proof -
  have "jget n ''id'' = jget m ''id''"
    by (rule norm_other [OF assms]) (simp_all add: is_digit_def between_def)
  then show ?thesis using norm_fields(1) [OF assms(1)] by (simp add: pid_def)
qed

section \<open>Conditions\<close>

definition mod_file_ready :: "jsval \<Rightarrow> bool" where
  "mod_file_ready f \<longleftrightarrow> truthy (jget f ''url'') \<and> truthy (jget (jget f ''hashes'') ''sha1'') \<and>
     truthy (jget (jget f ''hashes'') ''sha512'') \<and> pos_int (jget f ''size'')"

text \<open>Everything but the side.\<close>

definition mod_described :: "jsval \<Rightarrow> bool" where
  "mod_described m \<longleftrightarrow>
     given (coalesce (jget (jget m ''source'') ''provider'') (jget m ''metadataSource'')) \<and>
     given (coalesce (coalesce (jget m ''sourceUrl'') (jget (jget m ''source'') ''projectUrl''))
       (jget (jget m ''source'') ''url'')) \<and>
     given (jget m ''license'') \<and> given (jget m ''permission'') \<and>
     nonempty_arr (listing m ''gameVersions'') \<and> nonempty_arr (listing m ''loaders'') \<and>
     is_arr (listing m ''dependencies'') \<and>
     nonempty_arr (jget m ''files'') \<and> (\<forall>f \<in> set (elems (jget m ''files'')). mod_file_ready f)"

definition mod_ready :: "jsval \<Rightarrow> bool" where
  "mod_ready m \<longleftrightarrow> mod_described m \<and> hasCompleteSideMetadata (jget m ''side'')"

definition targets :: "jsval \<Rightarrow> jsval \<Rightarrow> jsval \<Rightarrow> bool" where
  "targets minecraftVersion loader m \<longleftrightarrow>
     js_includes_val (listing m ''gameVersions'') minecraftVersion = Some True \<and>
     js_includes_val (listing m ''loaders'') loader = Some True"

definition requires :: "jsval \<Rightarrow> jsval set" where
  "requires m = {jget d ''projectId'' | d. d \<in> set (elems (listing m ''dependencies'')) \<and>
     jget d ''type'' = JStr ''required'' \<and> truthy (jget d ''projectId'')}"

lemma mod_file_missing_Nil: "mod_file_missing i f = [] \<longleftrightarrow> mod_file_ready f"
  by (simp add: mod_file_missing_def mod_file_ready_def)

lemma mod_missing_Nil:
  "mod_missing m n = [] \<longleftrightarrow>
     given (coalesce (jget (jget m ''source'') ''provider'') (jget m ''metadataSource'')) \<and>
     given (coalesce (coalesce (jget m ''sourceUrl'') (jget (jget m ''source'') ''projectUrl''))
       (jget (jget m ''source'') ''url'')) \<and>
     given (jget m ''license'') \<and> given (jget m ''permission'') \<and>
     (jget m ''sideMetadataComplete'' \<noteq> JBool False \<and> hasCompleteSideMetadata (jget m ''side'')) \<and>
     nonempty_arr (jget (jget n ''version'') ''gameVersions'') \<and>
     nonempty_arr (jget (jget n ''version'') ''loaders'') \<and>
     is_arr (jget (jget n ''version'') ''dependencies'') \<and>
     nonempty_arr (jget m ''files'') \<and> (\<forall>f \<in> set (elems (jget m ''files'')). mod_file_ready f)"
  by (simp add: mod_missing_def Let_def enumerated_Nil [OF mod_file_missing_Nil] del: concat_eq_Nil_conv)

lemma key_chars:
  "\<not> list_all is_digit ''source''" "\<not> list_all is_digit ''sourceUrl''" "\<not> list_all is_digit ''metadataSource''"
  "\<not> list_all is_digit ''license''" "\<not> list_all is_digit ''permission''" "\<not> list_all is_digit ''files''"
  by (simp_all add: is_digit_def between_def)

lemma mod_described_norm:
  assumes "normalizeSelectedMod m = Some n" and "wf_obj m"
  shows "mod_described n \<longleftrightarrow> mod_described m"
proof -
  have "jget n ''source'' = jget m ''source''" "jget n ''sourceUrl'' = jget m ''sourceUrl''"
    "jget n ''metadataSource'' = jget m ''metadataSource''" "jget n ''license'' = jget m ''license''"
    "jget n ''permission'' = jget m ''permission''" "jget n ''files'' = jget m ''files''"
    by (rule norm_other [OF assms], rule key_chars, simp)+
  then show ?thesis by (simp add: mod_described_def listing_norm [OF assms(1)])
qed

text \<open>The engine evaluates a mod after normalising it: complete is what \<open>mod_ready\<close> says.\<close>

lemma evaluate_normalized:
  assumes "normalizeSelectedMod m = Some n" and "wf_obj m" and "evaluateModMetadata n = Some e"
  shows "me_complete e \<longleftrightarrow> mod_ready m"
proof -
  obtain n' where n': "normalizeSelectedMod n = Some n'" "me_complete e \<longleftrightarrow> mod_missing n n' = []"
    using assms(3) by (auto simp: evaluateModMetadata_def bind_eq_Some_conv Let_def)
  have side: "hasCompleteSideMetadata (jget m ''side'') \<Longrightarrow> hasCompleteSideMetadata (jget n ''side'')"
    using norm_fields(3) [OF assms(1)] by (simp add: hasCompleteSideMetadata_def)
  have "mod_missing n n' = [] \<longleftrightarrow> mod_described n \<and> hasCompleteSideMetadata (jget m ''side'')"
    using side by (auto simp: mod_missing_Nil mod_described_def norm_fields(4) [OF assms(1)] norm_fields(5-7) [OF n'(1)])
  then show ?thesis using n'(2) mod_described_norm [OF assms(1,2)] by (simp add: mod_ready_def)
qed

lemma supportsTarget_iff:
  "supportsTarget m v l = Some b \<Longrightarrow> b \<longleftrightarrow> targets v l m"
  by (auto simp: supportsTarget_def targets_def bind_eq_Some_conv norm_fields split: if_splits)

lemma targets_norm: "normalizeSelectedMod m = Some n \<Longrightarrow> targets v l n \<longleftrightarrow> targets v l m"
  by (simp add: targets_def listing_norm)

lemma requiredDependencies_set:
  assumes "requiredDependencies m = Some ds"
  shows "(\<lambda>d. jget d ''projectId'') ` set ds = requires m"
proof -
  obtain n xs where "normalizeSelectedMod m = Some n" "arr_of (listing m ''dependencies'') = Some xs"
    "ds = filter (\<lambda>d. jget d ''type'' = JStr ''required'' \<and> truthy (jget d ''projectId'')) xs"
    using assms by (auto simp: requiredDependencies_def bind_eq_Some_conv norm_fields split: if_splits)
  moreover have "xs = elems (listing m ''dependencies'')"
    using calculation(2) by (auto simp: arr_of_def split: if_splits)
  ultimately show ?thesis by (auto simp: requires_def)
qed

lemma requires_norm: "normalizeSelectedMod m = Some n \<Longrightarrow> requires n = requires m"
  by (simp add: requires_def listing_norm)

section \<open>The catalog index\<close>

lemma index_fold:
  "jm_get (fold (\<lambda>n. jm_set (jget n ''projectId'') n) ns m0) k = Some c \<Longrightarrow>
     (c \<in> set ns \<and> jget c ''projectId'' = k) \<or> jm_get m0 k = Some c"
proof (induction ns arbitrary: m0)
  case (Cons n ns)
  from Cons.IH [of "jm_set (jget n ''projectId'') n m0"] Cons.prems show ?case
    by (auto split: if_splits)
qed simp

lemma buildCatalog_get:
  assumes "buildCatalog catalog selected = Some idx" and "jm_get idx k = Some c"
  shows "\<exists>m \<in> set catalog \<union> set selected. normalizeSelectedMod m = Some c \<and> pid m = k"
proof -
  obtain ns where ns: "traverse normalizeSelectedMod (catalog @ selected) = Some ns"
    "idx = fold (\<lambda>n. jm_set (jget n ''projectId'') n) ns []"
    using assms(1) by (auto simp: buildCatalog_def bind_eq_Some_conv)
  with index_fold [of ns "[]" k c] assms(2) have "c \<in> set ns" "jget c ''projectId'' = k" by auto
  with traverse_SomeD(2) [OF ns(1)] norm_fields(1) show ?thesis by fastforce
qed

section \<open>The plan\<close>

definition plan_size :: "plan_state \<Rightarrow> nat" where
  "plan_size st = length (ps_adds st) + length (ps_missing st)"

lemma plan_dependency_cases:
  assumes "plan_dependency idx v l m d st = Some st'"
  obtains (selected) "jget d ''projectId'' \<in> set (ps_selectedIds st)" "st' = st"
  | (missing) x where "jget d ''projectId'' \<notin> set (ps_selectedIds st)"
      "st' = st\<lparr>ps_missing := ps_missing st @ [x]\<rparr>" "md_projectId x = jget d ''projectId''"
      "md_requiredBy x = jget m ''projectId''"
  | (added) x c e where "jget d ''projectId'' \<notin> set (ps_selectedIds st)"
      "jm_get idx (jget d ''projectId'') = Some c" "supportsTarget c v l = Some True"
      "evaluateModMetadata c = Some e" "me_complete e"
      "st' = st\<lparr>ps_adds := ps_adds st @ [x], ps_selectedIds := js_add (jget c ''projectId'') (ps_selectedIds st)\<rparr>"
      "sg_projectId x = jget c ''projectId''" "sg_requiredBy x = jget m ''projectId''"
proof (cases "jget d ''projectId'' \<in> set (ps_selectedIds st)")
  case True
  with assms have "st' = st" by (simp add: plan_dependency_def Let_def)
  with True show thesis by (rule selected)
next
  case new: False
  show thesis
  proof (cases "jm_get idx (jget d ''projectId'')")
    case None
    with new assms show thesis by (intro missing) (auto simp: plan_dependency_def Let_def)
  next
    case (Some c)
    with new assms obtain b where b: "supportsTarget c v l = Some b"
      by (auto simp: plan_dependency_def Let_def bind_eq_Some_conv)
    show thesis
    proof (cases b)
      case False
      with new Some b assms show thesis by (intro missing) (auto simp: plan_dependency_def Let_def)
    next
      case True
      with new Some b assms obtain e where e: "evaluateModMetadata c = Some e"
        by (auto simp: plan_dependency_def Let_def bind_eq_Some_conv)
      show thesis
      proof (cases "me_complete e")
        case False
        with new Some b True e assms show thesis by (intro missing) (auto simp: plan_dependency_def Let_def)
      next
        case complete: True
        with new Some b True e assms show thesis by (intro added) (auto simp: plan_dependency_def Let_def)
      qed
    qed
  qed
qed

lemma plan_dependency_size:
  assumes "plan_dependency idx v l m d st = Some st'"
  shows "if jget d ''projectId'' \<in> set (ps_selectedIds st) then st' = st else plan_size st' = Suc (plan_size st)"
  using assms by (cases rule: plan_dependency_cases) (auto simp: plan_size_def)

text \<open>A pass over dependencies adds nothing exactly when all of them are selected already.\<close>

lemma idle_fold:
  fixes sz :: "'s \<Rightarrow> nat"
  assumes "opt_fold f xs st = Some st'"
    and step: "\<And>x st st'. x \<in> set xs \<Longrightarrow> f x st = Some st' \<Longrightarrow>
      sz st \<le> sz st' \<and> (sz st' = sz st \<longleftrightarrow> ok x st) \<and> (ok x st \<longrightarrow> st' = st)"
  shows "sz st \<le> sz st' \<and> (sz st' = sz st \<longleftrightarrow> (\<forall>x \<in> set xs. ok x st)) \<and>
    ((\<forall>x \<in> set xs. ok x st) \<longrightarrow> st' = st)"
  using assms
proof (induction xs arbitrary: st)
  case (Cons x xs)
  obtain s1 where s1: "f x st = Some s1" "opt_fold f xs s1 = Some st'"
    using Cons.prems(1) by (auto simp: bind_eq_Some_conv)
  have one: "sz st \<le> sz s1" "sz s1 = sz st \<longleftrightarrow> ok x st" "ok x st \<longrightarrow> s1 = st"
    using Cons.prems(2) [OF _ s1(1)] by simp_all
  have "sz s1 \<le> sz st' \<and> (sz st' = sz s1 \<longleftrightarrow> (\<forall>x \<in> set xs. ok x s1)) \<and>
      ((\<forall>x \<in> set xs. ok x s1) \<longrightarrow> st' = s1)"
    by (rule Cons.IH [OF s1(2)]) (rule Cons.prems(2); simp)
  with one show ?case by (cases "ok x st") auto
qed simp

lemma plan_mod_idle:
  assumes "plan_mod idx v l m st = Some st'"
  shows "plan_size st \<le> plan_size st' \<and>
    (plan_size st' = plan_size st \<longleftrightarrow> requires m \<subseteq> set (ps_selectedIds st)) \<and>
    (requires m \<subseteq> set (ps_selectedIds st) \<longrightarrow> st' = st)"
proof -
  obtain ds where ds: "requiredDependencies m = Some ds" "opt_fold (plan_dependency idx v l m) ds st = Some st'"
    using assms by (auto simp: plan_mod_def bind_eq_Some_conv)
  have "requires m \<subseteq> set (ps_selectedIds st) \<longleftrightarrow> (\<forall>d \<in> set ds. jget d ''projectId'' \<in> set (ps_selectedIds st))"
    unfolding requiredDependencies_set [OF ds(1), symmetric] by blast
  moreover have "plan_size st \<le> plan_size st' \<and>
      (plan_size st' = plan_size st \<longleftrightarrow> (\<forall>d \<in> set ds. jget d ''projectId'' \<in> set (ps_selectedIds st))) \<and>
      ((\<forall>d \<in> set ds. jget d ''projectId'' \<in> set (ps_selectedIds st)) \<longrightarrow> st' = st)"
  proof (rule idle_fold [OF ds(2)])
    fix d s s'
    assume "plan_dependency idx v l m d s = Some s'"
    from plan_dependency_size [OF this]
    show "plan_size s \<le> plan_size s' \<and> (plan_size s' = plan_size s \<longleftrightarrow> jget d ''projectId'' \<in> set (ps_selectedIds s)) \<and>
        (jget d ''projectId'' \<in> set (ps_selectedIds s) \<longrightarrow> s' = s)"
      by (auto split: if_splits)
  qed
  ultimately show ?thesis by simp
qed

definition plan_start :: "jsval list \<Rightarrow> plan_state" where
  "plan_start selected =
     \<lparr>ps_selectedIds = js_set (map (\<lambda>m. jget m ''projectId'') selected), ps_adds = [], ps_missing = []\<rparr>"

lemma resolve_parts:
  assumes "resolveDependencyPlan mods catalog v l = Some p"
  obtains selected idx st where "traverse normalizeSelectedMod mods = Some selected"
    "buildCatalog catalog selected = Some idx"
    "opt_fold (plan_mod idx v l) selected (plan_start selected) = Some st"
    "dp_automaticAddSuggestions p = ps_adds st" "dp_missingDependencies p = ps_missing st"
    "dp_resolvedMods p = selected @ map (\<lambda>s. case jm_get idx (sg_projectId s) of
       None \<Rightarrow> JUndef | Some m \<Rightarrow> m) (ps_adds st)"
  using assms by (auto simp: resolveDependencyPlan_def bind_eq_Some_conv plan_start_def)

lemma normalized_images:
  assumes "traverse normalizeSelectedMod mods = Some ns"
  shows "(\<lambda>n. jget n ''projectId'') ` set ns = pid ` set mods"
    and "(\<Union>n \<in> set ns. requires n) = (\<Union>m \<in> set mods. requires m)"
    and "(\<forall>n \<in> set ns. targets v l n) \<longleftrightarrow> (\<forall>m \<in> set mods. targets v l m)"
proof -
  note tr = traverse_SomeD [OF assms]
  show "(\<lambda>n. jget n ''projectId'') ` set ns = pid ` set mods"
    using tr(1,2) norm_fields(1) by (auto simp: image_iff) metis+
  show "(\<Union>n \<in> set ns. requires n) = (\<Union>m \<in> set mods. requires m)"
    using tr(1,2) requires_norm by (auto; blast)
  show "(\<forall>n \<in> set ns. targets v l n) \<longleftrightarrow> (\<forall>m \<in> set mods. targets v l m)"
    using tr(1,2) targets_norm by blast
qed

lemma plan_empty_iff:
  assumes "resolveDependencyPlan mods catalog v l = Some p"
  shows "dp_automaticAddSuggestions p = [] \<and> dp_missingDependencies p = [] \<longleftrightarrow>
    (\<forall>m \<in> set mods. requires m \<subseteq> pid ` set mods)"
  using assms
proof (cases rule: resolve_parts)
  case (1 selected idx st)
  have ids: "set (ps_selectedIds (plan_start selected)) = pid ` set mods"
    using normalized_images(1) [OF 1(1)] by (simp add: plan_start_def)
  have "plan_size st = plan_size (plan_start selected) \<longleftrightarrow>
      (\<forall>m \<in> set selected. requires m \<subseteq> set (ps_selectedIds (plan_start selected)))"
    using idle_fold [OF 1(3), of plan_size "\<lambda>m s. requires m \<subseteq> set (ps_selectedIds s)"] plan_mod_idle by blast
  also have "\<dots> \<longleftrightarrow> (\<forall>m \<in> set mods. requires m \<subseteq> pid ` set mods)"
    unfolding ids using normalized_images(2) [OF 1(1)] by blast
  finally show ?thesis using 1(4,5) by (simp add: plan_size_def plan_start_def)
qed

section \<open>The verdict\<close>

lemma opt_filter_Nil: "opt_filter p xs = Some ys \<Longrightarrow> ys = [] \<longleftrightarrow> (\<forall>x \<in> set xs. p x = Some False)"
proof (induction xs arbitrary: ys)
  case (Cons x xs)
  from Cons.prems obtain b bs where b: "p x = Some b" "traverse p xs = Some bs"
    "ys = map fst (filter snd (zip (x # xs) (b # bs)))"
    by (auto simp: opt_filter_def bind_eq_Some_conv)
  then have "opt_filter p xs = Some (map fst (filter snd (zip xs bs)))" by (simp add: opt_filter_def)
  from Cons.IH [OF this] b show ?case by (cases b) auto
qed (simp add: opt_filter_def)

text \<open>The parts of an evaluation that returned.\<close>

lemma evaluate_parts:
  assumes "evaluateCompatibility mods catalog v l conflicts = Some r"
  obtains selected idx evaluations unsupported plan where
    "traverse normalizeSelectedMod mods = Some selected"
    "buildCatalog catalog selected = Some idx"
    "traverse evaluateModMetadata selected = Some evaluations"
    "opt_filter (\<lambda>m. map_option Not (supportsTarget m v l)) selected = Some unsupported"
    "resolveDependencyPlan selected (jm_values idx) v l = Some plan"
    "findKnownConflicts (js_set (map (\<lambda>m. jget m ''projectId'') selected)) conflicts = Some (co_conflicts r)"
    "co_label r =
       (if filter (\<lambda>e. \<not> me_complete e) evaluations \<noteq> [] \<or> unsupported \<noteq> [] \<or>
           dp_missingDependencies plan \<noteq> [] \<or> dp_automaticAddSuggestions plan \<noteq> [] then LIKELY_FAIL
        else if co_conflicts r \<noteq> [] \<or> (\<exists>m \<in> set selected. classifySide m = ''unknown'') then CAUTION
        else HIGH_CONFIDENCE)"
    "co_canGeneratePack r \<longleftrightarrow> co_label r \<noteq> LIKELY_FAIL"
  using assms by (auto simp: evaluateCompatibility_def bind_eq_Some_conv Let_def)

lemma evaluations_complete:
  assumes "traverse normalizeSelectedMod mods = Some selected" and "traverse evaluateModMetadata selected = Some es"
    and "\<And>m. m \<in> set mods \<Longrightarrow> wf_obj m"
  shows "filter (\<lambda>e. \<not> me_complete e) es = [] \<longleftrightarrow> (\<forall>m \<in> set mods. mod_ready m)"
proof -
  note n = traverse_SomeD [OF assms(1)] and e = traverse_SomeD [OF assms(2)]
  have "(\<forall>e \<in> set es. me_complete e) \<longleftrightarrow> (\<forall>m \<in> set mods. mod_ready m)"
    using n(1,2) e(1,2) evaluate_normalized assms(3) by metis
  then show ?thesis by (auto simp: filter_empty_conv)
qed

lemma targets_filter:
  assumes "opt_filter (\<lambda>m. map_option Not (supportsTarget m v l)) selected = Some unsupported"
  shows "unsupported = [] \<longleftrightarrow> (\<forall>m \<in> set selected. targets v l m)"
proof -
  have s: "supportsTarget m v l = Some (targets v l m)" if "m \<in> set selected" for m
  proof -
    obtain bs where "traverse (\<lambda>m. map_option Not (supportsTarget m v l)) selected = Some bs"
      using assms by (auto simp: opt_filter_def bind_eq_Some_conv)
    from traverse_SomeD(1) [OF this that] obtain b where "supportsTarget m v l = Some b" by auto
    with supportsTarget_iff show ?thesis by fastforce
  qed
  show ?thesis unfolding opt_filter_Nil [OF assms] using s by auto
qed

lemma normalized_again:
  assumes "traverse normalizeSelectedMod mods = Some selected"
  and "\<And>m. m \<in> set mods \<Longrightarrow> wf_obj m"
  shows "pid ` set selected = pid ` set mods"
  using traverse_SomeD(1,2) [OF assms(1)] pid_norm assms(2) by (auto simp: image_iff) metis+

lemma classify_norm:
  assumes "normalizeSelectedMod m = Some n" and "hasCompleteSideMetadata (jget m ''side'')"
  shows "classifySide n = ''unknown'' \<longleftrightarrow> jget (jget m ''side'') ''client'' = JStr ''unsupported'' \<and>
    jget (jget m ''side'') ''server'' = JStr ''unsupported''"
proof -
  obtain n' where n': "normalizeSelectedMod n = Some n'" using norm_fields(9) [OF assms(1)] norm_total by blast
  have "hasCompleteSideMetadata (jget n ''side'')"
    using assms(2) norm_fields(3) [OF assms(1)] by (simp add: hasCompleteSideMetadata_def)
  then show ?thesis
    using assms(2) n' norm_fields(3) [OF n'] norm_fields(3,4) [OF assms(1)]
    by (auto simp: classifySide_def Let_def hasCompleteSideMetadata_def isKnownSideValue_def)
qed

text \<open>
  C15. When \<open>evaluateCompatibility\<close> returns, it lets a pack be generated exactly when every
  selected mod has complete metadata, lists the Minecraft version and the loader, and has all of
  its required dependencies among the selected mods; it reports high confidence exactly when, in
  addition, no known conflict is selected and every mod runs on at least one side.
\<close>

theorem verdict_condition:
  assumes "evaluateCompatibility mods catalog v l conflicts = Some r"
    and "\<And>m. m \<in> set mods \<Longrightarrow> wf_obj m"
  shows "(co_canGeneratePack r \<longleftrightarrow>
      (\<forall>m \<in> set mods. mod_ready m \<and> targets v l m \<and> requires m \<subseteq> pid ` set mods)) \<and>
    (co_label r = HIGH_CONFIDENCE \<longleftrightarrow> co_canGeneratePack r \<and> co_conflicts r = [] \<and>
      (\<forall>m \<in> set mods. \<not> (jget (jget m ''side'') ''client'' = JStr ''unsupported'' \<and>
         jget (jget m ''side'') ''server'' = JStr ''unsupported'')))"
  using assms(1)
proof (cases rule: evaluate_parts)
  case (1 selected idx evaluations unsupported plan)
  have complete: "filter (\<lambda>e. \<not> me_complete e) evaluations = [] \<longleftrightarrow> (\<forall>m \<in> set mods. mod_ready m)"
    by (rule evaluations_complete [OF 1(1,3)]) (rule assms(2))
  note target = targets_filter [OF 1(4)] normalized_images(3) [OF 1(1), of v l]
    and deps = plan_empty_iff [OF 1(5)] normalized_images(2) [OF 1(1)] normalized_again [OF 1(1) assms(2)]
  have closed: "dp_automaticAddSuggestions plan = [] \<and> dp_missingDependencies plan = [] \<longleftrightarrow>
      (\<forall>m \<in> set mods. requires m \<subseteq> pid ` set mods)"
    unfolding deps(1) UN_subset_iff [symmetric] deps(2) using deps(3) by simp
  have gen: "co_canGeneratePack r \<longleftrightarrow>
      (\<forall>m \<in> set mods. mod_ready m \<and> targets v l m \<and> requires m \<subseteq> pid ` set mods)"
  proof -
    have "co_label r \<noteq> LIKELY_FAIL \<longleftrightarrow> filter (\<lambda>e. \<not> me_complete e) evaluations = [] \<and> unsupported = [] \<and>
        (dp_automaticAddSuggestions plan = [] \<and> dp_missingDependencies plan = [])"
      unfolding 1(7) by (simp split: if_split) blast
    then show ?thesis unfolding 1(8) closed using complete target by blast
  qed
  have sides: "(\<exists>n \<in> set selected. classifySide n = ''unknown'') \<longleftrightarrow>
      (\<exists>m \<in> set mods. jget (jget m ''side'') ''client'' = JStr ''unsupported'' \<and>
         jget (jget m ''side'') ''server'' = JStr ''unsupported'')"
    if "\<forall>m \<in> set mods. mod_ready m"
    using that traverse_SomeD(1,2) [OF 1(1)] classify_norm unfolding mod_ready_def by metis
  have "co_label r = HIGH_CONFIDENCE \<longleftrightarrow> co_canGeneratePack r \<and> co_conflicts r = [] \<and>
      \<not> (\<exists>n \<in> set selected. classifySide n = ''unknown'')"
    unfolding 1(8,7) by auto
  moreover have "co_canGeneratePack r \<Longrightarrow> \<forall>m \<in> set mods. mod_ready m" using gen by blast
  ultimately show ?thesis using gen sides by blast
qed

lemma demo_mod:
  "wf_obj demo_entry" "mod_ready demo_entry" "targets (JStr ''1.20.1'') (JStr ''fabric'') demo_entry"
  "requires demo_entry = {}"
  by (simp_all add: demo_entry_def wf_obj_def mod_ready_def mod_described_def given_def listing_def coalesce_def
      nonempty_arr_def mod_file_ready_def demo_file_def pos_int_def hasCompleteSideMetadata_def
      isKnownSideValue_def targets_def requires_def defaultPermissionRecord_def)

lemma demo_evaluates:
  "evaluateCompatibility [demo_entry] [] (JStr ''1.20.1'') (JStr ''fabric'') [] \<noteq> None"
  by code_simp

theorem verdict_condition_witness:
  "\<exists>r. evaluateCompatibility [demo_entry] [] (JStr ''1.20.1'') (JStr ''fabric'') [] = Some r \<and>
     co_canGeneratePack r"
proof -
  obtain r where r: "evaluateCompatibility [demo_entry] [] (JStr ''1.20.1'') (JStr ''fabric'') [] = Some r"
    using demo_evaluates by blast
  have "\<And>m. m \<in> set [demo_entry] \<Longrightarrow> wf_obj m" by (simp add: demo_mod)
  with verdict_condition [OF r] have "co_canGeneratePack r" by (simp add: demo_mod)
  with r show ?thesis by blast
qed

section \<open>The dependency plan\<close>

text \<open>What holds of the plan at every moment: additions are new, distinct, and fit.\<close>

definition fits :: "(jsval, jsval) jsmap \<Rightarrow> jsval \<Rightarrow> jsval \<Rightarrow> jsval \<Rightarrow> bool" where
  "fits idx v l k \<longleftrightarrow> (\<exists>c e. jm_get idx k = Some c \<and> supportsTarget c v l = Some True \<and>
     evaluateModMetadata c = Some e \<and> me_complete e)"

definition plan_inv :: "(jsval, jsval) jsmap \<Rightarrow> jsval \<Rightarrow> jsval \<Rightarrow> jsval set \<Rightarrow> plan_state \<Rightarrow> bool" where
  "plan_inv idx v l ids st \<longleftrightarrow>
     set (ps_selectedIds st) = ids \<union> sg_projectId ` set (ps_adds st) \<and>
     distinct (map sg_projectId (ps_adds st)) \<and>
     (\<forall>s \<in> set (ps_adds st). sg_projectId s \<notin> ids \<and> fits idx v l (sg_projectId s)) \<and>
     (\<forall>x \<in> set (ps_missing st). md_projectId x \<notin> ids)"

text \<open>A dependency is settled when it is selected, added or reported.\<close>

definition settled :: "plan_state \<Rightarrow> jsval \<Rightarrow> bool" where
  "settled st k \<longleftrightarrow> k \<in> set (ps_selectedIds st) \<or> (\<exists>x \<in> set (ps_missing st). md_projectId x = k)"

lemma buildCatalog_key: "buildCatalog catalog selected = Some idx \<Longrightarrow> jm_get idx k = Some c \<Longrightarrow> jget c ''projectId'' = k"
  using buildCatalog_get norm_fields(1) by fastforce

lemma plan_dependency_inv:
  assumes "plan_dependency idx v l m d st = Some st'" and "plan_inv idx v l ids st"
    and key: "\<And>k c. jm_get idx k = Some c \<Longrightarrow> jget c ''projectId'' = k"
  shows "plan_inv idx v l ids st' \<and> settled st' (jget d ''projectId'') \<and> (\<forall>k. settled st k \<longrightarrow> settled st' k)"
  using assms(1)
proof (cases rule: plan_dependency_cases)
  case selected
  with assms(2) show ?thesis by (simp add: settled_def)
next
  case (missing x)
  with assms(2) show ?thesis by (auto simp: plan_inv_def settled_def)
next
  case (added x c e)
  have "jget c ''projectId'' = jget d ''projectId''" by (rule key [OF added(2)])
  with added assms(2) show ?thesis by (auto simp: plan_inv_def settled_def fits_def)
qed

lemma opt_fold_settles:
  assumes "opt_fold f xs st = Some st'" and "I st"
    and "\<And>x st st'. x \<in> set xs \<Longrightarrow> I st \<Longrightarrow> f x st = Some st' \<Longrightarrow>
      I st' \<and> (\<forall>k \<in> K x. done st' k) \<and> (\<forall>k. done st k \<longrightarrow> done st' k)"
  shows "I st' \<and> (\<forall>x \<in> set xs. \<forall>k \<in> K x. done st' k) \<and> (\<forall>k. done st k \<longrightarrow> done st' k)"
  using assms
proof (induction xs arbitrary: st)
  case (Cons x xs)
  obtain s1 where s1: "f x st = Some s1" "opt_fold f xs s1 = Some st'"
    using Cons.prems(1) by (auto simp: bind_eq_Some_conv)
  have one: "I s1" "\<forall>k \<in> K x. done s1 k" "\<forall>k. done st k \<longrightarrow> done s1 k"
    using Cons.prems(3) [OF _ Cons.prems(2) s1(1)] by simp_all
  have "I st' \<and> (\<forall>x \<in> set xs. \<forall>k \<in> K x. done st' k) \<and> (\<forall>k. done s1 k \<longrightarrow> done st' k)"
    by (rule Cons.IH [OF s1(2) one(1)]) (rule Cons.prems(3); simp)
  with one show ?case by auto
qed simp

lemma plan_mod_inv:
  assumes "plan_mod idx v l m st = Some st'" and "plan_inv idx v l ids st"
    and "\<And>k c. jm_get idx k = Some c \<Longrightarrow> jget c ''projectId'' = k"
  shows "plan_inv idx v l ids st' \<and> (\<forall>k \<in> requires m. settled st' k) \<and> (\<forall>k. settled st k \<longrightarrow> settled st' k)"
proof -
  obtain ds where ds: "requiredDependencies m = Some ds" "opt_fold (plan_dependency idx v l m) ds st = Some st'"
    using assms(1) by (auto simp: plan_mod_def bind_eq_Some_conv)
  have "plan_inv idx v l ids st' \<and> (\<forall>d \<in> set ds. \<forall>k \<in> {jget d ''projectId''}. settled st' k) \<and>
      (\<forall>k. settled st k \<longrightarrow> settled st' k)"
  proof (rule opt_fold_settles [where I = "plan_inv idx v l ids", OF ds(2) assms(2)])
    fix d s s'
    assume "plan_inv idx v l ids s" "plan_dependency idx v l m d s = Some s'"
    from plan_dependency_inv [OF this(2,1) assms(3)]
    show "plan_inv idx v l ids s' \<and> (\<forall>k \<in> {jget d ''projectId''}. settled s' k) \<and> (\<forall>k. settled s k \<longrightarrow> settled s' k)"
      by simp
  qed
  then show ?thesis unfolding requiredDependencies_set [OF ds(1), symmetric] by auto
qed

lemma fits_ready:
  assumes idx: "buildCatalog catalog selected = Some idx" and "fits idx v l k"
    and "\<And>m. m \<in> set catalog \<union> set selected \<Longrightarrow> wf_obj m"
  shows "\<exists>m \<in> set catalog \<union> set selected. pid m = k \<and> mod_ready m \<and> targets v l m"
proof -
  obtain c e where c: "jm_get idx k = Some c" "supportsTarget c v l = Some True" "evaluateModMetadata c = Some e"
    "me_complete e" using assms(2) by (auto simp: fits_def)
  from buildCatalog_get [OF idx c(1)] obtain m where m: "m \<in> set catalog \<union> set selected"
    "normalizeSelectedMod m = Some c" "pid m = k" by blast
  have "mod_ready m" using evaluate_normalized [OF m(2) assms(3) [OF m(1)] c(3)] c(4) by simp
  moreover have "targets v l m" using supportsTarget_iff [OF c(2)] targets_norm [OF m(2)] by simp
  ultimately show ?thesis using m by blast
qed

text \<open>
  C16. The dependency plan that \<open>resolveDependencyPlan\<close> returns is sound and complete for the
  selected mods: every required dependency of a selected mod is selected, suggested or reported
  missing; what is suggested is not selected, is suggested once, and is a mod of the catalog with
  described metadata that supports the Minecraft version and the loader; what is reported missing
  is not selected; the resolved mods are the selected ones followed by the suggested ones.
\<close>

theorem plan_sound_complete:
  assumes "resolveDependencyPlan mods catalog v l = Some p"
    and "\<And>m. m \<in> set mods \<union> set catalog \<Longrightarrow> wf_obj m"
  shows "(\<forall>m \<in> set mods. \<forall>k \<in> requires m. k \<in> pid ` set mods \<or>
      k \<in> sg_projectId ` set (dp_automaticAddSuggestions p) \<or>
      k \<in> md_projectId ` set (dp_missingDependencies p)) \<and>
    (\<forall>s \<in> set (dp_automaticAddSuggestions p). sg_projectId s \<notin> pid ` set mods \<and>
      (\<exists>m \<in> set catalog. pid m = sg_projectId s \<and> mod_ready m \<and> targets v l m)) \<and>
    distinct (map sg_projectId (dp_automaticAddSuggestions p)) \<and>
    (\<forall>x \<in> set (dp_missingDependencies p). md_projectId x \<notin> pid ` set mods) \<and>
    map (\<lambda>m. jget m ''projectId'') (dp_resolvedMods p) =
      map pid mods @ map sg_projectId (dp_automaticAddSuggestions p)"
  using assms(1)
proof (cases rule: resolve_parts)
  case (1 selected idx st)
  let ?ids = "pid ` set mods"
  note key = buildCatalog_key [OF 1(2)]
  have start: "plan_inv idx v l ?ids (plan_start selected)"
    using normalized_images(1) [OF 1(1)] by (simp add: plan_inv_def plan_start_def)
  have "plan_inv idx v l ?ids st \<and> (\<forall>m \<in> set selected. \<forall>k \<in> requires m. settled st k) \<and>
      (\<forall>k. settled (plan_start selected) k \<longrightarrow> settled st k)"
    by (rule opt_fold_settles [where I = "plan_inv idx v l ?ids", OF 1(3) start]) (rule plan_mod_inv [OF _ _ key])
  then have st: "plan_inv idx v l ?ids st" "\<forall>m \<in> set selected. \<forall>k \<in> requires m. settled st k" by blast+
  have settled: "\<forall>m \<in> set mods. \<forall>k \<in> requires m. settled st k"
    using st(2) normalized_images(2) [OF 1(1)] by blast
  have wf: "\<And>m. m \<in> set catalog \<union> set selected \<Longrightarrow> wf_obj m"
    using assms(2) traverse_SomeD(2) [OF 1(1)] norm_fields(8) by blast
  have sug: "\<exists>m \<in> set catalog. pid m = sg_projectId s \<and> mod_ready m \<and> targets v l m"
    if s: "s \<in> set (ps_adds st)" for s
  proof -
    have "fits idx v l (sg_projectId s)" "sg_projectId s \<notin> ?ids" using st(1) s by (simp_all add: plan_inv_def)
    have "\<exists>m \<in> set catalog \<union> set selected. pid m = sg_projectId s \<and> mod_ready m \<and> targets v l m"
      by (rule fits_ready [OF 1(2) \<open>fits idx v l (sg_projectId s)\<close>]) (rule wf)
    then obtain m where m: "m \<in> set catalog \<union> set selected"
      "pid m = sg_projectId s" "mod_ready m" "targets v l m" by blast
    have "pid ` set selected = ?ids" using assms(2) by (intro normalized_again [OF 1(1)]) simp
    have "m \<notin> set selected"
    proof
      assume "m \<in> set selected"
      then have "pid m \<in> ?ids" using \<open>pid ` set selected = ?ids\<close> by (metis imageI)
      with \<open>sg_projectId s \<notin> ?ids\<close> m(2) show False by simp
    qed
    with m show ?thesis by (intro bexI [of _ m]) auto
  qed
  have "map (\<lambda>n. jget n ''projectId'') selected = map pid mods"
  proof -
    have "map normalizeSelectedMod mods = map Some selected" using 1(1) by (simp add: traverse_Some_iff)
    then show ?thesis
      by (induction mods arbitrary: selected) (auto simp: Cons_eq_map_conv norm_fields(1))
  qed
  moreover have "jget (case jm_get idx (sg_projectId s) of None \<Rightarrow> JUndef | Some m \<Rightarrow> m) ''projectId'' = sg_projectId s"
    if s: "s \<in> set (ps_adds st)" for s
    using st(1) s key by (auto simp: plan_inv_def fits_def)
  ultimately have "map (\<lambda>m. jget m ''projectId'') (dp_resolvedMods p) = map pid mods @ map sg_projectId (ps_adds st)"
    by (simp add: 1(6))
  moreover have "\<forall>m \<in> set mods. \<forall>k \<in> requires m. k \<in> ?ids \<or> k \<in> sg_projectId ` set (ps_adds st) \<or>
      k \<in> md_projectId ` set (ps_missing st)"
    using settled st(1) unfolding settled_def plan_inv_def by blast
  ultimately show ?thesis using st(1) sug unfolding 1(4,5) plan_inv_def by blast
qed

definition demo_dependent :: jsval where
  "demo_dependent = JObj [(''projectId'', JStr ''m1''), (''gameVersions'', JArr [JStr ''1.20.1'']),
     (''dependencies'', JArr [JObj [(''type'', JStr ''required''), (''projectId'', JStr ''p1'')]])]"

lemma demo_plan: "resolveDependencyPlan [demo_dependent] [demo_entry] (JStr ''1.20.1'') (JStr ''fabric'') \<noteq> None"
  by code_simp

theorem plan_sound_complete_witness:
  "\<exists>p. resolveDependencyPlan [demo_dependent] [demo_entry] (JStr ''1.20.1'') (JStr ''fabric'') = Some p \<and>
     (JStr ''p1'' \<in> sg_projectId ` set (dp_automaticAddSuggestions p) \<or>
      JStr ''p1'' \<in> md_projectId ` set (dp_missingDependencies p))"
proof -
  obtain p where p: "resolveDependencyPlan [demo_dependent] [demo_entry] (JStr ''1.20.1'') (JStr ''fabric'') = Some p"
    using demo_plan by blast
  have wf: "\<And>m. m \<in> set [demo_dependent] \<union> set [demo_entry] \<Longrightarrow> wf_obj m"
    by (auto simp: demo_mod) (simp add: demo_dependent_def wf_obj_def)
  have "JStr ''p1'' \<in> requires demo_dependent" "pid demo_dependent = JStr ''m1''"
    by (auto simp: requires_def demo_dependent_def listing_def coalesce_def pid_def)
  with plan_sound_complete [OF p wf] p show ?thesis by auto
qed

text \<open>
  \<open>evaluateCompatibility\<close> normalises the catalog before it hands it to \<open>resolveDependencyPlan\<close>,
  which normalises it again; the second time the sides filled in by default count as given. A
  dependency without side metadata is thus suggested, where the plan made from the catalog itself
  reports it as incomplete.
\<close>

definition demo_sideless :: jsval where
  "demo_sideless = JObj (filter (\<lambda>(k, v). k \<noteq> ''side'') (js_entries demo_entry))"

lemma side_gap_lost:
  "map_option (\<lambda>p. (length (dp_automaticAddSuggestions p), length (dp_missingDependencies p)))
     (resolveDependencyPlan [demo_dependent] [demo_sideless] (JStr ''1.20.1'') (JStr ''fabric'')) = Some (0, 1)"
  "map_option (\<lambda>r. (length (co_automaticAddSuggestions r), length (co_missingDependencies r)))
     (evaluateCompatibility [demo_dependent] [demo_sideless] (JStr ''1.20.1'') (JStr ''fabric'') []) = Some (1, 0)"
  by code_simp+

section \<open>The catalog's recommendations\<close>

lemma compatibility_input_fields:
  assumes "toCompatibilityInput e = Some i"
  shows "jget i ''source'' = jget e ''source''" "jget i ''sourceUrl'' = jget e ''sourceUrl''"
    "jget i ''metadataSource'' = jget e ''metadataSource''" "jget i ''license'' = jget e ''license''"
    "jget i ''permission'' = jget e ''permission''" "jget i ''side'' = jget e ''side''"
    "jget i ''version'' = jget e ''version''" "jget i ''files'' = jget e ''files''"
    "jget i ''gameVersions'' = JUndef" "jget i ''loaders'' = JUndef" "jget i ''dependencies'' = JUndef"
    "pid i = coalesce (coalesce (jget e ''projectId'') (jget e ''id'')) JUndef"
  using assms by (auto simp: toCompatibilityInput_def pid_def split: if_splits)

text \<open>
  What the catalog recommends, the engine accepts: the compatibility input of a recommended
  entry has the metadata the engine asks of a mod, under the same identifier.
\<close>

theorem recommended_accepted:
  assumes "createCatalogRecommendation e category rank reason = Some r"
  shows "(rm_canRecommend r \<longleftrightarrow> entry_ready e) \<and> (rm_canRecommend r \<longrightarrow>
    mod_ready (rm_compatibilityInput r) \<and> pid (rm_compatibilityInput r) = rm_projectId r)"
proof -
  have r: "toCompatibilityInput e = Some (rm_compatibilityInput r)" "rm_projectId r = coalesce (jget e ''projectId'') (jget e ''id'')"
    "rm_canRecommend r \<longleftrightarrow> catalogEntryHasRequiredMetadata e"
    using assms by (auto simp: createCatalogRecommendation_def bind_eq_Some_conv Let_def catalogEntryHasRequiredMetadata_def)
  note i = compatibility_input_fields [OF r(1)]
  have "pid (rm_compatibilityInput r) = rm_projectId r" if "entry_ready e"
    using that unfolding i r(2) by (auto simp: entry_ready_def given_def coalesce_def)
  moreover have "mod_ready (rm_compatibilityInput r)" if "entry_ready e"
    using that unfolding entry_ready_def mod_ready_def mod_described_def listing_def i
    by (auto simp: nonempty_arr_def file_ready_def mod_file_ready_def)
  ultimately show ?thesis using r(3) by (simp add: catalogEntryHasRequiredMetadata_iff)
qed

theorem recommended_accepted_witness:
  "\<exists>r. createCatalogRecommendation demo_entry JUndef JUndef JUndef = Some r \<and> mod_ready (rm_compatibilityInput r)"
proof -
  have "\<exists>r. createCatalogRecommendation demo_entry JUndef JUndef JUndef = Some r"
    by (simp add: createCatalogRecommendation_def toCompatibilityInput_def Let_def) (simp add: demo_entry_def)
  then show ?thesis using recommended_accepted demo_entry_ready(1) by blast
qed

end
