(* ===== verification/Safety.thy ===== *)
theory Safety
  imports JsOps
begin

text \<open>
  \<open>packages/safety/src/index.mjs\<close>: the copy shown for an invite, redaction of support bundles,
  audit events, permission metadata of packs, and the release gate.

  \<^item> A thrown \<open>TypeError\<close> is \<open>None\<close>.
  \<^item> \<open>isIP\<close> of \<open>node:net\<close> is the pair of expressions that module tests a text with.
\<close>

section \<open>Constants\<close>

definition audit_event_types :: "string list" where
  "audit_event_types = [''room_created'', ''invite_created'', ''invite_revoked'', ''approval_decision'',
     ''join_rate_limited'', ''user_blocked'', ''relay_usage'']"

definition auditRequirements :: "string \<Rightarrow> string list" where
  "auditRequirements ty =
    (if ty = ''room_created'' then [''roomId'', ''actorId'']
     else if ty = ''invite_created'' then [''roomId'', ''actorId'', ''inviteId'']
     else if ty = ''invite_revoked'' then [''roomId'', ''actorId'', ''inviteId'', ''reason'']
     else if ty = ''approval_decision'' then [''roomId'', ''actorId'', ''requestId'', ''decision'']
     else if ty = ''join_rate_limited'' then [''roomId'', ''inviteId'', ''limitKey'', ''reason'']
     else if ty = ''user_blocked'' then [''roomId'', ''actorId'', ''minecraftUuid'', ''reason'']
     else if ty = ''relay_usage'' then [''roomId'', ''sessionIdHash'', ''byteCount'']
     else [])"

definition RetentionDefaults :: jsval where
  "RetentionDefaults = JObj [(''INVITE_TOKEN_HASH_AFTER_EXPIRY_DAYS'', JNum 7),
     (''SESSION_CREDENTIAL_MAX_HOURS'', JNum 6), (''IP_DEVICE_RATE_SIGNAL_DAYS'', JNum 7),
     (''RELAY_RAW_EVENT_DAYS'', JNum 30), (''ROOM_HISTORY_DAYS'', JNum 30), (''AUDIT_EVENT_DAYS'', JNum 90)]"

definition getRetentionDefaults :: jsval where
  "getRetentionDefaults = json_clone RetentionDefaults"

definition SupportBundleContract :: jsval where
  "SupportBundleContract = JObj
     [(''include'', JArr (map JStr [''appVersion'', ''platformFamily'', ''inviteState'', ''approvalState'',
        ''safeRoomMetadata'', ''redactedRelayMetrics'', ''auditEventIds''])),
      (''redact'', JArr (map JStr [''raw invite URLs'', ''invite tokens'', ''session keys and credentials'',
        ''access and refresh tokens'', ''passwords and cookies'', ''IP addresses'', ''device signals'',
        ''credential-bearing log fragments''])),
      (''explanation'', JStr (''Support bundles keep enough state to debug invite, approval, pack import, '' @
        ''and relay failures, but redact tokens, credentials, IPs, device signals, and raw invite URLs before export.''))]"

definition describeSupportBundleContract :: jsval where
  "describeSupportBundleContract = json_clone SupportBundleContract"

definition invite_robots :: jsval where
  "invite_robots = JStr ''noindex,nofollow''"

definition minInteractiveTargetPx :: int where
  "minInteractiveTargetPx = 44"

definition mobileMaxWidthPx :: int where
  "mobileMaxWidthPx = 520"

section \<open>Sensitive keys\<close>

definition support_key_pattern :: re where
  "support_key_pattern = cats [Alt Bol (lit ''_''),
     alts (map liti [''accessToken'', ''authorization'', ''cookie'', ''credential'', ''deviceSignal'', ''ip'',
       ''ipAddress'', ''inviteToken'', ''minecraftAccessToken'', ''password'', ''refreshToken'', ''secret'',
       ''sessionCredential'', ''sessionKey'', ''sessionToken'', ''token'']), Alt (lit ''_'') Eol]"

definition support_sensitive_keys :: "string list" where
  "support_sensitive_keys = [''accesstoken'', ''authorization'', ''authtoken'', ''cookie'', ''credential'',
     ''devicesignal'', ''ip'', ''ipaddress'', ''invitelink'', ''inviteurl'', ''invitetoken'',
     ''minecraftaccesstoken'', ''password'', ''rawtoken'', ''refreshtoken'', ''secret'',
     ''sessioncredential'', ''sessionid'', ''sessionkey'', ''sessiontoken'', ''token'']"

definition support_sensitive_key :: "string \<Rightarrow> bool" where
  "support_sensitive_key key \<longleftrightarrow>
     (let normalized = toLowerCase (filter is_alnum key)
      in re_test support_key_pattern key \<or> normalized \<in> set support_sensitive_keys \<or>
         js_endsWith normalized ''token'')"

section \<open>Redaction of texts\<close>

definition REDACTED_IP :: string where
  "REDACTED_IP = ''[REDACTED_IP]''"

text \<open>\<open>[^\s"'<>]\<close>, \<open>[^&\s"'<>]\<close>, \<open>[^"',}\s]\<close>, \<open>["']\<close>, \<open>[/?#]\<close>, \<open>[A-Za-z0-9._~+/=-]\<close>\<close>

definition plain_url_char :: "char \<Rightarrow> bool" where
  "plain_url_char x \<longleftrightarrow> \<not> is_space x \<and> x \<notin> {CHR 0x22, CHR 0x27, CHR ''<'', CHR ''>''}"

definition plain_query_char :: "char \<Rightarrow> bool" where
  "plain_query_char x \<longleftrightarrow> plain_url_char x \<and> x \<noteq> CHR ''&''"

definition plain_field_char :: "char \<Rightarrow> bool" where
  "plain_field_char x \<longleftrightarrow> \<not> is_space x \<and> x \<notin> {CHR 0x22, CHR 0x27, CHR '','', CHR ''}''}"

definition plain_quote :: "char \<Rightarrow> bool" where
  "plain_quote x \<longleftrightarrow> x \<in> {CHR 0x22, CHR 0x27}"

definition path_end :: re where
  "path_end = Alt (Chr (\<lambda>x. x \<in> {CHR ''/'', CHR ''?'', CHR ''#''})) Eol"

definition plain_bearer_char :: "char \<Rightarrow> bool" where
  "plain_bearer_char x \<longleftrightarrow> is_alnum x \<or> x \<in> set ''._~+/=-''"

definition redactionRules :: "(re \<times> (captures \<Rightarrow> string)) list" where
  "redactionRules =
    [(cats [liti ''http'', opt (liti ''s''), lit ''://'', star (Chr plain_url_char),
        alts [Cat (liti ''/invite'') path_end, Cat (liti ''/invites'') path_end,
          Cat (liti ''/friend/invites'') path_end], star (Chr plain_url_char)],
      \<lambda>c. ''[REDACTED_INVITE_URL]''),
     (cats [WordB, Cap 1 (alts (map liti [''Bearer'', ''Basic''])), plus1 (Chr is_space),
        plus1 (Chr plain_bearer_char)],
      \<lambda>c. cap c 1 @ '' [REDACTED_CREDENTIAL]''),
     (cats [WordB, Cap 1 (alts (map liti [''invite'', ''inviteToken'', ''token'', ''sessionKey'', ''session'',
        ''access_token'', ''refresh_token'', ''password'', ''credential'', ''secret''])), lit ''='',
        Cap 2 (plus1 (Chr plain_query_char))],
      \<lambda>c. cap c 1 @ ''=[REDACTED_CREDENTIAL]''),
     (cats [WordB, Cap 1 (alts (map liti [''invite token'', ''session key'', ''session credential'',
        ''access token'', ''password'', ''credential'', ''secret''])), star (Chr is_space),
        Chr (\<lambda>x. x = CHR '':'' \<or> x = CHR ''=''), star (Chr is_space), opt (Chr plain_quote),
        plus1 (Chr plain_field_char)],
      \<lambda>c. cap c 1 @ '': [REDACTED_CREDENTIAL]''),
     (cats [WordB, Rep 3 (Some 3) (cats [Rep 1 (Some 3) (Chr is_digit), lit ''.'']),
        Rep 1 (Some 3) (Chr is_digit), opt (cats [lit '':'', plus1 (Chr is_digit)]), WordB],
      \<lambda>c. REDACTED_IP)]"

definition applyRedactionRules :: "string \<Rightarrow> string" where
  "applyRedactionRules s = replace_rules redactionRules s"

subsection \<open>\<open>isIP\<close>\<close>

definition times :: "nat \<Rightarrow> re \<Rightarrow> re" where
  "times n r = Rep n (Some n) r"

definition v4_segment :: re where
  "v4_segment = alts [cats [lit ''25'', Chr (between CHR ''0'' CHR ''5'')],
     cats [lit ''2'', Chr (between CHR ''0'' CHR ''4''), Chr is_digit],
     cats [lit ''1'', Chr is_digit, Chr is_digit],
     cats [Chr (between CHR ''1'' CHR ''9''), Chr is_digit], Chr is_digit]"

definition v4_address :: re where
  "v4_address = cats [v4_segment, times 3 (cats [lit ''.'', v4_segment])]"

definition v6_address :: re where
  "v6_address =
    (let seg = Rep 1 (Some 4) (Chr is_hex);
         seg_c = cats [seg, lit '':'']; c_seg = cats [lit '':'', seg]; c_v4 = cats [lit '':'', v4_address];
         zone = opt (cats [lit ''%'', plus1 (Chr (\<lambda>x. is_alnum x \<or> x \<in> set ''-.:''))])
     in cats [alts
         [cats [times 7 seg_c, alts [seg, lit '':'']],
          cats [times 6 seg_c, alts [v4_address, c_seg, lit '':'']],
          cats [times 5 seg_c, alts [c_v4, Rep 1 (Some 2) c_seg, lit '':'']],
          cats [times 4 seg_c, alts [cats [Rep 0 (Some 1) c_seg, c_v4], Rep 1 (Some 3) c_seg, lit '':'']],
          cats [times 3 seg_c, alts [cats [Rep 0 (Some 2) c_seg, c_v4], Rep 1 (Some 4) c_seg, lit '':'']],
          cats [times 2 seg_c, alts [cats [Rep 0 (Some 3) c_seg, c_v4], Rep 1 (Some 5) c_seg, lit '':'']],
          cats [times 1 seg_c, alts [cats [Rep 0 (Some 4) c_seg, c_v4], Rep 1 (Some 6) c_seg, lit '':'']],
          cats [lit '':'', alts [cats [Rep 0 (Some 5) c_seg, c_v4], Rep 1 (Some 7) c_seg, lit '':'']]],
         zone])"

definition isIP :: "string \<Rightarrow> bool" where
  "isIP s \<longleftrightarrow> re_test (cats [Bol, v4_address, Eol]) s \<or> re_test (cats [Bol, v6_address, Eol]) s"

subsection \<open>Addresses in texts\<close>

definition redactIpCandidate :: "string \<Rightarrow> string" where
  "redactIpCandidate candidate = (if isIP candidate then REDACTED_IP else candidate)"

definition redactIpLiterals :: "string \<Rightarrow> string" where
  "redactIpLiterals s =
    (let hex4 = Rep 1 (Some 4) (Chr is_hex); hex_c = cats [hex4, lit '':'']; quad = cats [Rep 1 (Some 3) (Chr is_digit), lit ''.''];
         bracketed = cats [lit ''['', Cap 1 (plus1 (Chr (\<lambda>x. is_hex x \<or> x = CHR '':'' \<or> x = CHR ''.''))), lit '']'',
           opt (cats [lit '':'', plus1 (Chr is_digit)])];
         mapped = cats [NotAfter is_alnum, liti ''::ffff:'', times 3 quad, Rep 1 (Some 3) (Chr is_digit), NotBefore is_alnum];
         leading = cats [NotAfter is_alnum, lit ''::'', Rep 0 (Some 6) hex_c, Rep 0 (Some 4) (Chr is_hex), NotBefore is_alnum];
         inner = cats [NotAfter is_alnum, Rep 1 (Some 7) hex_c, lit '':'', Rep 0 (Some 4) (Chr is_hex), NotBefore is_alnum];
         full = cats [WordB, times 7 hex_c, hex4, WordB]
     in re_replace full (\<lambda>m _. redactIpCandidate m)
       (re_replace inner (\<lambda>m _. redactIpCandidate m)
         (re_replace leading (\<lambda>m _. redactIpCandidate m)
           (re_replace mapped (\<lambda>m _. redactIpCandidate m)
             (re_replace bracketed (\<lambda>m c. if isIP (cap c 1) then REDACTED_IP else m) s)))))"

definition redactString :: "string \<Rightarrow> string" where
  "redactString s = redactIpLiterals (applyRedactionRules s)"

section \<open>Redaction of bundles\<close>

definition redactValue :: "jsval \<Rightarrow> jsval" where
  "redactValue = js_walk redactString (\<lambda>_ _. True)
     (\<lambda>k v. if nullish v then Some (k, v)
            else if support_sensitive_key k then Some (k, JStr ''[REDACTED]'') else None)"

definition redactSupportBundle :: "jsval \<Rightarrow> jsval" where
  "redactSupportBundle bundle = redactValue bundle"

section \<open>Audit events\<close>

definition sub_path :: "string \<Rightarrow> string \<Rightarrow> string" where
  "sub_path base key = (if base = [] then key else base @ ''.'' @ key)"

fun findSensitivePaths :: "jsval \<Rightarrow> string \<Rightarrow> string list"
and sensitive_elems :: "nat \<Rightarrow> jsval list \<Rightarrow> string \<Rightarrow> string list"
and sensitive_props :: "(string \<times> jsval) list \<Rightarrow> string \<Rightarrow> string list" where
  "findSensitivePaths (JStr s) base =
     (if redactString s = s then [] else [if base = [] then ''<value>'' else base])"
| "findSensitivePaths (JArr xs) base = sensitive_elems 0 xs base"
| "findSensitivePaths (JObj kvs) base = sensitive_props kvs base"
| "findSensitivePaths v base = []"
| "sensitive_elems i [] base = []"
| "sensitive_elems i (v # vs) base =
     (let path = sub_path base (digits i)
      in if support_sensitive_key (digits i) then [path] else findSensitivePaths v path) @
     sensitive_elems (Suc i) vs base"
| "sensitive_props [] base = []"
| "sensitive_props ((k, v) # kvs) base =
     (let path = sub_path base k
      in if support_sensitive_key k then [path] else findSensitivePaths v path) @
     sensitive_props kvs base"

definition createAuditEvent :: "jsval \<Rightarrow> jsval \<Rightarrow> jsval \<Rightarrow> jsval option" where
  "createAuditEvent ty payload options =
    (case ty of
       JStr t \<Rightarrow>
         if t \<notin> set audit_event_types then None
         else if \<exists>field \<in> set (auditRequirements t). nullish (jget payload field) then None
         else if findSensitivePaths payload [] \<noteq> [] then None
         else if options = JNull then None
         else Some (JObj [(''type'', ty),
           (''occurredAt'', coalesce (jget options ''occurredAt'') (JStr ''1970-01-01T00:00:00.000Z'')),
           (''payload'', json_clone payload)])
     | _ \<Rightarrow> None)"

definition buildAbuseControlAuditEvent :: "jsval \<Rightarrow> jsval \<Rightarrow> jsval \<Rightarrow> jsval option" where
  "buildAbuseControlAuditEvent ty payload options =
    (if ty \<notin> {JStr ''join_rate_limited'', JStr ''user_blocked'', JStr ''invite_revoked''} then None
     else createAuditEvent ty payload options)"

section \<open>Copy for an invite\<close>

definition inviteRecoveryCopy :: "(string \<times> jsval) list" where
  "inviteRecoveryCopy =
    [(''active'', JObj [(''unavailable'', JBool False),
       (''showRoomDetails'', JBool True),
       (''title'', JStr ''Ready to join''),
       (''body'', JStr ''Open the pack and wait for the host to approve you.''),
       (''primaryAction'', JObj [(''label'', JStr ''Open pack''), (''action'', JStr ''open_pack'')]),
       (''secondaryAction'', JObj [(''label'', JStr ''Copy invite''), (''action'', JStr ''copy_invite'')])]),
     (''expired'', JObj [(''unavailable'', JBool True),
       (''showRoomDetails'', JBool False),
       (''title'', JStr ''This invite expired''),
       (''body'', JStr ''Ask the host for a fresh invite.''),
       (''primaryAction'', JObj [(''label'', JStr ''Ask for new invite''), (''action'', JStr ''request_new_invite'')])]),
     (''revoked'', JObj [(''unavailable'', JBool True),
       (''showRoomDetails'', JBool False),
       (''title'', JStr ''This invite no longer works''),
       (''body'', JStr ''Ask the host to send a new invite when the room is ready.''),
       (''primaryAction'', JObj [(''label'', JStr ''Ask host''), (''action'', JStr ''contact_host'')])]),
     (''missing'', JObj [(''unavailable'', JBool True),
       (''showRoomDetails'', JBool False),
       (''title'', JStr ''Invite not found''),
       (''body'', JStr ''Check that the whole invite link was copied.''),
       (''primaryAction'', JObj [(''label'', JStr ''Paste invite again''), (''action'', JStr ''paste_invite'')])]),
     (''invalid'', JObj [(''unavailable'', JBool True),
       (''showRoomDetails'', JBool False),
       (''title'', JStr ''Invite cannot be opened''),
       (''body'', JStr ''Use the latest link from the host.''),
       (''primaryAction'', JObj [(''label'', JStr ''Try another invite''), (''action'', JStr ''enter_new_invite'')])]),
     (''unsupported_device'', JObj [(''unavailable'', JBool True),
       (''showRoomDetails'', JBool False),
       (''title'', JStr ''Open this on a Windows PC''),
       (''body'', JStr ''The alpha pack is for Minecraft Java on a Windows desktop.''),
       (''primaryAction'', JObj [(''label'', JStr ''Send to my PC''), (''action'', JStr ''share_to_pc'')])]),
     (''modrinth_missing'', JObj [(''unavailable'', JBool True),
       (''showRoomDetails'', JBool False),
       (''title'', JStr ''Modrinth App is needed''),
       (''body'', JStr ''Install Modrinth App, then come back to this invite.''),
       (''primaryAction'', JObj [(''label'', JStr ''Get Modrinth App''), (''action'', JStr ''open_modrinth'')]),
       (''secondaryAction'', JObj [(''label'', JStr ''Try again''), (''action'', JStr ''retry'')])]),
     (''pack_download_failed'', JObj [(''unavailable'', JBool True),
       (''showRoomDetails'', JBool False),
       (''title'', JStr ''Pack download failed''),
       (''body'', JStr ''Try the download again. If it still fails, ask the host for a new invite.''),
       (''primaryAction'', JObj [(''label'', JStr ''Retry download''), (''action'', JStr ''retry_download'')]),
       (''secondaryAction'', JObj [(''label'', JStr ''Ask host''), (''action'', JStr ''contact_host'')])]),
     (''import_failed'', JObj [(''unavailable'', JBool True),
       (''showRoomDetails'', JBool False),
       (''title'', JStr ''Pack import failed''),
       (''body'', JStr ''Open Modrinth App and try importing the pack again.''),
       (''primaryAction'', JObj [(''label'', JStr ''Retry import''), (''action'', JStr ''retry_import'')]),
       (''secondaryAction'', JObj [(''label'', JStr ''Get help''), (''action'', JStr ''open_help'')])]),
     (''host_offline'', JObj [(''unavailable'', JBool True),
       (''showRoomDetails'', JBool False),
       (''title'', JStr ''Host is not ready''),
       (''body'', JStr ''Ask the host to open the room, then try again.''),
       (''primaryAction'', JObj [(''label'', JStr ''Try again''), (''action'', JStr ''retry'')]),
       (''secondaryAction'', JObj [(''label'', JStr ''Ask host''), (''action'', JStr ''contact_host'')])]),
     (''approval_timeout'', JObj [(''unavailable'', JBool True),
       (''showRoomDetails'', JBool False),
       (''title'', JStr ''Approval timed out''),
       (''body'', JStr ''Ask the host to approve you, then try joining again.''),
       (''primaryAction'', JObj [(''label'', JStr ''Try joining again''), (''action'', JStr ''retry_join'')]),
       (''secondaryAction'', JObj [(''label'', JStr ''Ask host''), (''action'', JStr ''contact_host'')])])]"

text \<open>
  \<open>inviteRecoveryCopy[state]\<close> also finds what every object inherits: functions and objects that
  have none of the fields of a copy.
\<close>

definition copy_for :: "jsval \<Rightarrow> jsval option" where
  "copy_for state =
    (case jm_get inviteRecoveryCopy (js_string state) of
       Some copy \<Rightarrow> Some copy
     | None \<Rightarrow> if js_string state \<in> set inherited_names then Some (JObj []) else None)"

definition copySafeInviteCopy :: "jsval \<Rightarrow> jsval \<Rightarrow> jsval" where
  "copySafeInviteCopy copy state =
    (let result = [(''state'', state), (''unavailable'', jget copy ''unavailable''),
           (''showRoomDetails'', jget copy ''showRoomDetails''), (''title'', jget copy ''title''),
           (''body'', jget copy ''body''), (''primaryAction'', obj_with (jget copy ''primaryAction'') [])]
     in JObj (if truthy (jget copy ''secondaryAction'')
              then result @ [(''secondaryAction'', obj_with (jget copy ''secondaryAction'') [])] else result))"

definition buildInviteRecoveryState :: "jsval \<Rightarrow> jsval \<Rightarrow> jsval option" where
  "buildInviteRecoveryState state details =
    (let normalizedState = (if state = JStr ''valid'' then JStr ''active'' else state);
         (effectiveState, copy) = (case copy_for normalizedState of
             Some copy \<Rightarrow> (normalizedState, copy)
           | None \<Rightarrow> (JStr ''invalid'', the (copy_for (JStr ''invalid''))));
         result = copySafeInviteCopy copy effectiveState
     in if truthy (jget result ''unavailable'') then Some result
        else if details = JNull then None
        else Some (obj_with result [(''roomAlias'', jget details ''roomAlias''),
          (''minecraftVersion'', jget details ''minecraftVersion''),
          (''packProfileName'', jget details ''packProfileName''), (''trustCopy'', jget details ''trustCopy'')]))"

section \<open>Permission metadata\<close>

definition isHttpsUrl :: "jsval \<Rightarrow> bool" where
  "isHttpsUrl v = (case v of JStr s \<Rightarrow> js_startsWith s ''https://'' | _ \<Rightarrow> False)"

definition sf_normalizeLicense :: "jsval \<Rightarrow> jsval" where
  "sf_normalizeLicense license =
    (if \<not> truthy license then JNull
     else (case license of
         JStr s \<Rightarrow> if js_trim s = [] then JNull else JStr (js_trim s)
       | _ \<Rightarrow> coalesce (coalesce (jget license ''id'') (jget license ''name'')) JNull))"

definition hasPermissionRecord :: "jsval \<Rightarrow> bool" where
  "hasPermissionRecord permission \<longleftrightarrow> truthy permission \<and>
    (case permission of
       JStr s \<Rightarrow> js_trim s \<noteq> []
     | _ \<Rightarrow> truthy (jget permission ''redistribution'') \<and> truthy (jget permission ''use'') \<and>
         jget permission ''redistribution'' \<noteq> JStr ''rehost'')"

definition isRehostedByApp :: "jsval \<Rightarrow> bool" where
  "isRehostedByApp v \<longleftrightarrow> truthy (jget v ''rehostedByApp'') \<or> truthy (jget v ''hostedByApp'') \<or>
     jget v ''hostedBy'' = JStr ''app_service'' \<or> jget v ''distribution'' = JStr ''app_rehost'' \<or>
     jget v ''downloadHost'' = JStr ''app_service''"

text \<open>\<open>v.length\<close> of an array, a string or an object; \<open>null\<close> does not reach it.\<close>

fun js_length :: "jsval \<Rightarrow> jsval" where
  "js_length (JArr xs) = JNum (int (length xs))"
| "js_length (JStr s) = JNum (int (length s))"
| "js_length v = jget v ''length''"

text \<open>\<open>downloads.length === 0 || !downloads.every(isHttpsUrl)\<close>\<close>

definition downloads_bad :: "jsval \<Rightarrow> bool option" where
  "downloads_bad downloads =
    (if js_length downloads = JNum 0 then Some True
     else do {
       ds \<leftarrow> arr_of downloads;
       Some (\<not> list_all isHttpsUrl ds)
     })"

text \<open>What the check of one file adds: names of what is missing, and reasons.\<close>

definition permission_file ::
  "jsval \<Rightarrow> nat \<Rightarrow> jsval \<Rightarrow> (string list \<times> string list) option" where
  "permission_file entry index file =
    (let fileLabel = js_string (coalesce (coalesce (jget file ''filename'') (jget file ''path''))
           (JStr (''file '' @ digits (index + 1))));
         downloads = coalesce (jget file ''downloads'')
           (if truthy (jget file ''downloadUrl'') \<or> truthy (jget file ''url'')
            then JArr [coalesce (jget file ''downloadUrl'') (jget file ''url'')] else JArr []);
         hashes = coalesce (jget file ''hashes'') (JObj []);
         place = ''files['' @ digits index @ '']''
     in do {
       bad \<leftarrow> downloads_bad downloads;
       let rehosted = isRehostedByApp file \<or> isRehostedByApp entry;
       let unpinned = \<not> truthy (jget hashes ''sha1'') \<or> \<not> truthy (jget hashes ''sha512'');
       Some
        ((if bad then [place @ ''.downloads''] else []) @
         (if rehosted then [place @ ''.rehosting''] else []) @
         (if unpinned then [place @ ''.hashes''] else []),
         (if bad then [fileLabel @ '' must keep an original HTTPS download URL''] else []) @
         (if rehosted then [fileLabel @ '' must not be rehosted by the app service''] else []) @
         (if unpinned then [fileLabel @ '' must include pinned SHA1 and SHA512 hashes''] else []))
     })"

record permission_result =
  pr_ok :: bool
  pr_entryId :: jsval
  pr_missing :: "string list"
  pr_reasons :: "string list"

definition validateModPermissionMetadata :: "jsval \<Rightarrow> permission_result option" where
  "validateModPermissionMetadata entry =
    (let files = (if nonempty_arr (jget entry ''files'') then elems (jget entry ''files'') else [entry]);
         sourceUrl = coalesce (coalesce (jget entry ''sourceUrl'') (jget (jget entry ''source'') ''url''))
           (jget entry ''projectUrl'');
         license = sf_normalizeLicense (jget entry ''license'');
         permission = coalesce (jget entry ''permission'') (jget entry ''permissions'')
     in do {
       perFile \<leftarrow> traverse (\<lambda>(i, f). permission_file entry i f) (enumerate 0 files);
       let missing =
         (if truthy sourceUrl then [] else [''source'']) @ (if truthy license then [] else [''license'']) @
         (if hasPermissionRecord permission then [] else [''permission'']) @ concat (map fst perFile);
       let reasons =
         (if \<not> truthy sourceUrl then [''source metadata is required'']
          else if \<not> isHttpsUrl sourceUrl then [''source URL must use HTTPS''] else []) @
         (if truthy license then [] else [''license metadata is required'']) @
         (if hasPermissionRecord permission then []
          else [''redistribution and use permission metadata is required'']) @ concat (map snd perFile);
       Some \<lparr>pr_ok = (reasons = []),
         pr_entryId = coalesce (coalesce (coalesce (jget entry ''id'') (jget entry ''projectId''))
           (jget entry ''slug'')) JNull,
         pr_missing = js_set missing, pr_reasons = reasons\<rparr>
     })"

definition pack_entry :: "jsval \<Rightarrow> jsval option" where
  "pack_entry file =
    (if nullish file then None
     else
       let metadata = jget file ''metadata''
       in Some (obj_with file
         [(''sourceUrl'', coalesce (jget file ''sourceUrl'') (jget metadata ''sourceUrl'')),
          (''license'', coalesce (jget file ''license'') (jget metadata ''license'')),
          (''permission'', coalesce (jget file ''permission'') (jget metadata ''permission''))]))"

definition packEntries :: "jsval \<Rightarrow> jsval list option" where
  "packEntries pack =
    (if \<not> truthy pack then Some []
     else if is_arr pack then Some (elems pack)
     else if is_arr (jget pack ''mods'') then Some (elems (jget pack ''mods''))
     else if is_arr (jget pack ''files'') then traverse pack_entry (elems (jget pack ''files''))
     else Some [pack])"

record policy_result =
  pp_ok :: bool
  pp_checkedCount :: nat
  pp_failures :: "permission_result list"

definition validatePackPolicy :: "jsval \<Rightarrow> policy_result option" where
  "validatePackPolicy pack = do {
     entries \<leftarrow> packEntries pack;
     results \<leftarrow> traverse validateModPermissionMetadata entries;
     let failures = filter (\<lambda>r. \<not> pr_ok r) results;
     Some \<lparr>pp_ok = (failures = []), pp_checkedCount = length entries, pp_failures = failures\<rparr>
   }"

definition validateGeneratedPackPermissionGate :: "jsval \<Rightarrow> policy_result option" where
  "validateGeneratedPackPermissionGate pack = validatePackPolicy pack"

section \<open>Accessibility and the release gate\<close>

text \<open>
  Comparing numbers: a fraction is printed without exponent unless it is below one millionth, so
  its floor can be read off. Texts of decimal digits count as their number, other texts as \<open>NaN\<close>.
\<close>

definition frac_floor :: "string \<Rightarrow> int" where
  "frac_floor x =
    (let negative = js_startsWith x ''-'';
         whole = (if CHR ''e'' \<in> set x then 0 else int (undigits (takeWhile is_digit (if negative then tl x else x))))
     in if negative then - whole - 1 else whole)"

definition exceeds :: "jsval \<Rightarrow> int \<Rightarrow> bool" where
  "exceeds v n = (case v of
       JNum m \<Rightarrow> m > n
     | JFrac x \<Rightarrow> frac_floor x \<ge> n
     | JBool b \<Rightarrow> (if b then 1 else 0) > n
     | JNull \<Rightarrow> 0 > n
     | JStr s \<Rightarrow> list_all is_digit s \<and> int (undigits s) > n
     | _ \<Rightarrow> False)"

definition below :: "jsval \<Rightarrow> int \<Rightarrow> bool" where
  "below v n = (case v of JNum m \<Rightarrow> m < n | JFrac x \<Rightarrow> frac_floor x < n | _ \<Rightarrow> True)"

definition action_failures :: "jsval \<Rightarrow> string list" where
  "action_failures act =
    (if truthy (jget act ''accessibleName'') then [] else [''action_accessible_name_missing'']) @
    (if jget act ''keyboardFocusable'' = JBool True then [] else [''action_keyboard_focus_missing'']) @
    (if below (jget act ''minHeightPx'') minInteractiveTargetPx then [''action_target_too_small''] else [])"

record accessibility =
  ax_ok :: bool
  ax_failures :: "string list"
  ax_checkedActions :: nat

definition validateInviteAccessibilitySnapshot :: "jsval \<Rightarrow> accessibility option" where
  "validateInviteAccessibilitySnapshot snapshot =
    (if snapshot = JNull then None
     else
       let actions = elems (jget snapshot ''actions'');
           failures =
             (if jget snapshot ''hasViewportMeta'' = JBool True then [] else [''viewport_meta_missing'']) @
             (if jget snapshot ''hasVisibleFocusStyle'' = JBool True then [] else [''visible_focus_style_missing'']) @
             (if jget snapshot ''mobileBreakpointPx'' \<noteq> JUndef \<and>
                 exceeds (jget snapshot ''mobileBreakpointPx'') mobileMaxWidthPx
              then [''mobile_breakpoint_too_wide''] else []) @
             (if jget snapshot ''mobileActionsFullWidth'' = JBool True then [] else [''mobile_actions_not_full_width'']) @
             (if jget snapshot ''textWraps'' = JBool True then [] else [''text_overflow_risk'']) @
             (if actions = [] then [''actions_missing''] else []) @ concat (map action_failures actions)
       in Some \<lparr>ax_ok = (failures = []), ax_failures = js_set failures, ax_checkedActions = length actions\<rparr>)"

text \<open>The probe: the redacted bundle, printed, contains none of the forbidden texts.\<close>

definition probe_failures :: "jsval \<Rightarrow> string list option" where
  "probe_failures probe =
    (if \<not> truthy probe then Some [''support_bundle_probe_missing'']
     else do {
       forbidden \<leftarrow> js_iter (coalesce (jget probe ''forbiddenStrings'') (JArr []));
       case (filter truthy forbidden, json (redactSupportBundle (jget probe ''bundle''))) of
         ([], _) \<Rightarrow> Some []
       | (_, None) \<Rightarrow> None
       | (values, Some serialized) \<Rightarrow>
           Some (if \<exists>v \<in> set values. js_includes serialized (js_string v)
                 then [''support_bundle_unredacted_secret''] else [])
     })"

record gate_result =
  gr_ok :: bool
  gr_failures :: "string list"
  gr_accessibility :: accessibility

definition evaluateClosedAlphaReleaseGate :: "jsval \<Rightarrow> gate_result option" where
  "evaluateClosedAlphaReleaseGate input =
    (if input = JNull then None
     else
       let discovery = coalesce (jget input ''discovery'') (JObj []);
           surfaces = coalesce (jget input ''surfaces'') (JObj [])
       in do {
         accessibility \<leftarrow> validateInviteAccessibilitySnapshot (jget input ''inviteAccessibility'');
         probe \<leftarrow> probe_failures (jget input ''supportBundleProbe'');
         let failures =
           (if jget discovery ''robots'' = invite_robots then [] else [''invite_robots_missing'']) @
           (if jget discovery ''xRobotsTag'' = invite_robots then [] else [''invite_x_robots_tag_missing'']) @
           (if jget discovery ''publicDiscovery'' = JBool False then [] else [''public_discovery_enabled'']) @
           (if jget discovery ''exposesUnavailableRoomDetails'' = JBool False then []
            else [''unavailable_room_details_exposed'']) @
           (if jget discovery ''sitemapExposesInvites'' = JBool True \<or> jget discovery ''listingRoute'' = JBool True \<or>
               jget discovery ''searchRoute'' = JBool True
            then [''invite_discovery_route_exposed''] else []) @
           (if jget (jget surfaces ''invitePage'') ''includesUnofficialProductWording'' = JBool True then []
            else [''invite_unofficial_wording_missing'']) @
           (if jget (jget surfaces ''desktopApp'') ''includesUnofficialProductWording'' = JBool True then []
            else [''desktop_unofficial_wording_missing'']) @
           (if ax_ok accessibility then [] else [''invite_accessibility_contract_failed'']) @ probe;
         Some \<lparr>gr_ok = (failures = []), gr_failures = js_set failures, gr_accessibility = accessibility\<rparr>
       })"

end
