(* ===== verification/Safety_Props.thy ===== *)
theory Safety_Props
  imports Safety Catalog_Props
begin

text \<open>
  Support bundles are redacted at every depth, audit events carry nothing that redaction would
  change, the permission gate as a condition on the catalog entries of a generated pack, and what
  the copy for an invite and the release gate let through.
\<close>

section \<open>Support bundles\<close>

definition bundle_entry_ok :: "string \<Rightarrow> jsval \<Rightarrow> bool" where
  "bundle_entry_ok k v \<longleftrightarrow> \<not> support_sensitive_key k \<or> nullish v \<or> v = JStr ''[REDACTED]''"

fun wf_deep :: "jsval \<Rightarrow> bool"
and wf_deep_elems :: "jsval list \<Rightarrow> bool"
and wf_deep_props :: "(string \<times> jsval) list \<Rightarrow> bool" where
  "wf_deep (JArr xs) = wf_deep_elems xs"
| "wf_deep (JObj kvs) = (distinct (jm_keys kvs) \<and> wf_deep_props kvs)"
| "wf_deep v = True"
| "wf_deep_elems [] = True"
| "wf_deep_elems (v # vs) = (wf_deep v \<and> wf_deep_elems vs)"
| "wf_deep_props [] = True"
| "wf_deep_props ((k, v) # kvs) = (wf_deep v \<and> wf_deep_props kvs)"

lemma walk_keys:
  assumes "\<And>k v e. ent k v = Some e \<Longrightarrow> fst e = k"
  shows "jm_keys (js_walk_props leaf (\<lambda>_ _. True) ent kvs) = jm_keys kvs"
proof (induction kvs)
  case (Cons p kvs)
  obtain k v where "p = (k, v)" by (cases p)
  with Cons assms show ?case by (auto split: option.split)
qed simp

lemma bundle_entries: "props_ok bundle_entry_ok (redactSupportBundle b)"
  unfolding redactSupportBundle_def redactValue_def
  by (rule props_ok_walk(1)) (auto simp: bundle_entry_ok_def nullish_iff split: if_splits)

text \<open>
  A redacted support bundle shows no value under a sensitive key, at any depth: such an entry
  is absent in value or reads \<open>[REDACTED]\<close>; and an object of the bundle keeps all of its keys, in
  order, so nothing else is lost.
\<close>

theorem support_bundle_redacted:
  assumes "wf_deep b"
  shows "props_ok bundle_entry_ok (redactSupportBundle b) \<and>
    jm_keys (js_entries (redactSupportBundle b)) = jm_keys (js_entries b)"
proof (rule conjI [OF bundle_entries])
  show "jm_keys (js_entries (redactSupportBundle b)) = jm_keys (js_entries b)"
  proof (cases b)
    case (JObj kvs)
    let ?ent = "\<lambda>k v. if nullish v then Some (k, v)
            else if support_sensitive_key k then Some (k, JStr ''[REDACTED]'') else None"
    have "jm_keys (js_walk_props redactString (\<lambda>_ _. True) ?ent kvs) = jm_keys kvs"
      by (rule walk_keys) (auto split: if_splits)
    with JObj assms show ?thesis
      by (simp add: redactSupportBundle_def redactValue_def fromEntries_distinct)
  qed (simp_all add: redactSupportBundle_def redactValue_def)
qed

theorem support_bundle_redacted_witness:
  "jm_keys (js_entries (redactSupportBundle (JObj [(''password'', JStr ''hunter2''), (''n'', JNum 1)]))) =
     [''password'', ''n'']"
  using support_bundle_redacted [of "JObj [(''password'', JStr ''hunter2''), (''n'', JNum 1)]"] by simp

section \<open>Audit events\<close>

definition no_support_secret :: "jsval \<Rightarrow> bool" where
  "no_support_secret = props_ok (\<lambda>k v. \<not> support_sensitive_key k)"

lemma clean_fixpoint:
  "wf_deep v \<Longrightarrow> findSensitivePaths v base = [] \<Longrightarrow> redactValue v = v \<and> no_support_secret v"
  "wf_deep_elems vs \<Longrightarrow> sensitive_elems i vs base = [] \<Longrightarrow> (\<forall>v \<in> set vs. redactValue v = v \<and> no_support_secret v)"
  "wf_deep_props kvs \<Longrightarrow> sensitive_props kvs base = [] \<Longrightarrow>
     (\<forall>(k, v) \<in> set kvs. \<not> support_sensitive_key k \<and> redactValue v = v \<and> no_support_secret v)"
proof (induction v base and i vs base and kvs base rule: findSensitivePaths_sensitive_elems_sensitive_props.induct)
  case (1 s base)
  then show ?case by (auto simp: redactValue_def no_support_secret_def split: if_splits)
next
  case (2 xs base)
  then have all: "\<forall>v \<in> set xs. redactValue v = v \<and> no_support_secret v" by simp
  have "js_walk_elems redactString (\<lambda>_ _. True) ent xs = map (js_walk redactString (\<lambda>_ _. True) ent) xs" for ent
    by (induction xs) simp_all
  with all show ?case by (simp add: redactValue_def no_support_secret_def props_ok_elems_iff map_idI)
next
  case (3 kvs base)
  then have all: "\<forall>(k, v) \<in> set kvs. \<not> support_sensitive_key k \<and> redactValue v = v \<and> no_support_secret v" by simp
  have "js_walk_props redactString (\<lambda>_ _. True) (\<lambda>k v. if nullish v then Some (k, v)
            else if support_sensitive_key k then Some (k, JStr ''[REDACTED]'') else None) kvs = kvs"
    using all by (induction kvs) (auto simp: redactValue_def)
  moreover have "distinct (jm_keys kvs)" using 3 by simp
  ultimately show ?case
    using all by (auto simp: redactValue_def no_support_secret_def props_ok_props_iff fromEntries_distinct)
qed (auto simp: redactValue_def no_support_secret_def Let_def split: if_splits)

text \<open>
  C17. An audit event is made only of a known type, with every field its type requires, and only
  from a payload that holds no secret: no sensitive key occurs in it at any depth, and redacting it
  changes nothing.
\<close>

theorem audit_event_clean:
  assumes "createAuditEvent ty payload options = Some e" and "wf_deep payload"
  shows "\<exists>t. ty = JStr t \<and> t \<in> set audit_event_types \<and>
    list_all (\<lambda>field. \<not> nullish (jget payload field)) (auditRequirements t) \<and>
    no_support_secret payload \<and> redactSupportBundle payload = payload \<and>
    jget e ''payload'' = json_clone payload"
proof -
  obtain t where t: "ty = JStr t" "t \<in> set audit_event_types" "\<forall>field \<in> set (auditRequirements t). \<not> nullish (jget payload field)"
    "findSensitivePaths payload [] = []" "jget e ''payload'' = json_clone payload"
    using assms(1) by (cases ty) (auto simp: createAuditEvent_def split: if_splits)
  with clean_fixpoint(1) [OF assms(2) t(4)] show ?thesis
    by (simp add: redactSupportBundle_def list_all_iff)
qed

lemma demo_keys: "\<not> support_sensitive_key ''roomId''" "\<not> support_sensitive_key ''actorId''"
  by (simp_all add: support_sensitive_key_def toLowerCase_def cannot_test support_key_pattern_def
      support_sensitive_keys_def js_endsWith_def lower_char_def is_alnum_def is_digit_def is_upper_def
      is_lower_def between_def)

theorem audit_event_clean_witness:
  "\<exists>e. createAuditEvent (JStr ''room_created'') (JObj [(''roomId'', JNum 1), (''actorId'', JNum 2)]) JUndef = Some e \<and>
     redactSupportBundle (JObj [(''roomId'', JNum 1), (''actorId'', JNum 2)]) = JObj [(''roomId'', JNum 1), (''actorId'', JNum 2)]"
proof -
  obtain e where e: "createAuditEvent (JStr ''room_created'') (JObj [(''roomId'', JNum 1), (''actorId'', JNum 2)]) JUndef = Some e"
    by (simp add: createAuditEvent_def demo_keys audit_event_types_def auditRequirements_def)
  have "wf_deep (JObj [(''roomId'', JNum 1), (''actorId'', JNum 2)])" by simp
  from audit_event_clean [OF e this] e show ?thesis by blast
qed

section \<open>The permission gate on generated packs\<close>

lemma permission_result_parts:
  assumes "validateModPermissionMetadata e = Some r"
  obtains per where "traverse (\<lambda>(i, f). permission_file e i f)
      (enumerate 0 (if nonempty_arr (jget e ''files'') then elems (jget e ''files'') else [e])) = Some per"
    "pr_ok r \<longleftrightarrow> isHttpsUrl (coalesce (coalesce (jget e ''sourceUrl'') (jget (jget e ''source'') ''url'')) (jget e ''projectUrl'')) \<and>
     truthy (sf_normalizeLicense (jget e ''license'')) \<and>
     hasPermissionRecord (coalesce (jget e ''permission'') (jget e ''permissions'')) \<and> concat (map snd per) = []"
proof -
  define src where "src = coalesce (coalesce (jget e ''sourceUrl'') (jget (jget e ''source'') ''url'')) (jget e ''projectUrl'')"
  define lic where "lic = truthy (sf_normalizeLicense (jget e ''license''))"
  define perm where "perm = hasPermissionRecord (coalesce (jget e ''permission'') (jget e ''permissions''))"
  define fs where "fs = enumerate 0 (if nonempty_arr (jget e ''files'') then elems (jget e ''files'') else [e])"
  have https: "isHttpsUrl src \<Longrightarrow> truthy src" by (cases src) (auto simp: isHttpsUrl_def)
  obtain per where per: "traverse (\<lambda>(i, f). permission_file e i f) fs = Some per"
    "pr_ok r \<longleftrightarrow> (if \<not> truthy src then [''source metadata is required'']
          else if \<not> isHttpsUrl src then [''source URL must use HTTPS''] else []) @
         (if lic then [] else [''license metadata is required'']) @
         (if perm then [] else [''redistribution and use permission metadata is required'']) @
         concat (map snd per) = []"
    using assms unfolding validateModPermissionMetadata_def Let_def src_def [symmetric] lic_def [symmetric]
      perm_def [symmetric] fs_def [symmetric]
    by (auto simp only: bind_eq_Some_conv option.inject permission_result.simps)
  have "pr_ok r \<longleftrightarrow> isHttpsUrl src \<and> lic \<and> perm \<and> concat (map snd per) = []"
    unfolding per(2) using https by (cases "truthy src") (auto simp del: concat_eq_Nil_conv)
  with per(1) show thesis using that unfolding src_def lic_def perm_def fs_def by blast
qed

lemma permission_result_ok:
  assumes "validateModPermissionMetadata e = Some r"
  shows "pr_ok r \<longleftrightarrow> isHttpsUrl (coalesce (coalesce (jget e ''sourceUrl'') (jget (jget e ''source'') ''url'')) (jget e ''projectUrl'')) \<and>
    truthy (sf_normalizeLicense (jget e ''license'')) \<and>
    hasPermissionRecord (coalesce (jget e ''permission'') (jget e ''permissions'')) \<and>
    (\<forall>(i, f) \<in> set (enumerate 0 (if nonempty_arr (jget e ''files'') then elems (jget e ''files'') else [e])).
       map_option snd (permission_file e i f) = Some [])"
  using assms
proof (cases rule: permission_result_parts)
  case (1 per)
  have "concat (map snd per) = [] \<longleftrightarrow> (\<forall>p \<in> set per. snd p = [])" by auto
  also have "\<dots> \<longleftrightarrow> (\<forall>(i, f) \<in> set (enumerate 0 (if nonempty_arr (jget e ''files'') then elems (jget e ''files'') else [e])).
      map_option snd (permission_file e i f) = Some [])"
    unfolding traverse_ball [OF 1(1)] by (auto simp: case_prod_beta)
  finally show ?thesis using 1(2) by simp
qed

text \<open>The gate's view of one file of a generated pack.\<close>

definition file_permitted :: "jsval \<Rightarrow> jsval \<Rightarrow> bool" where
  "file_permitted m f \<longleftrightarrow> isHttpsUrl (jget m ''sourceUrl'') \<and> truthy (sf_normalizeLicense (jget m ''license'')) \<and>
     hasPermissionRecord (jget m ''permission'') \<and> isHttpsUrl (jget f ''url'')"

lemma pack_entry_pack_file:
  "\<exists>e. pack_entry (pack_file m f) = Some e \<and> jget e ''sourceUrl'' = jget m ''sourceUrl'' \<and>
     jget e ''license'' = jget m ''license'' \<and> jget e ''permission'' = jget m ''permission'' \<and>
     jget e ''downloads'' = JArr [jget f ''url''] \<and> jget e ''hashes'' = obj_with (jget f ''hashes'') [] \<and>
     (\<forall>k \<in> {''source'', ''projectUrl'', ''permissions'', ''files'', ''rehostedByApp'', ''hostedByApp'',
        ''hostedBy'', ''distribution'', ''downloadHost''}. jget e k = JUndef)"
  by (simp add: pack_entry_def Let_def pack_file_def jget_obj_with_new jget_obj_with_old wf_obj_def)

lemma coalesce_undef_https [simp]: "isHttpsUrl (coalesce v JUndef) = isHttpsUrl v"
  by (cases v) (simp_all add: isHttpsUrl_def coalesce_def)

lemma coalesce_undef_permission [simp]: "hasPermissionRecord (coalesce v JUndef) = hasPermissionRecord v"
  by (cases v) (simp_all add: hasPermissionRecord_def coalesce_def)

lemma pack_file_gate:
  assumes "entry_ready m" and "hashes_wf m" and "f \<in> set (elems (jget m ''files''))"
  shows "\<exists>e r. pack_entry (pack_file m f) = Some e \<and> validateModPermissionMetadata e = Some r \<and>
    (pr_ok r \<longleftrightarrow> file_permitted m f)"
proof -
  obtain e where e: "pack_entry (pack_file m f) = Some e" "jget e ''sourceUrl'' = jget m ''sourceUrl''"
    "jget e ''license'' = jget m ''license''" "jget e ''permission'' = jget m ''permission''"
    "jget e ''downloads'' = JArr [jget f ''url'']" "jget e ''hashes'' = obj_with (jget f ''hashes'') []"
    "jget e ''source'' = JUndef" "jget e ''projectUrl'' = JUndef" "jget e ''permissions'' = JUndef"
    "jget e ''files'' = JUndef" "jget e ''rehostedByApp'' = JUndef" "jget e ''hostedByApp'' = JUndef"
    "jget e ''hostedBy'' = JUndef" "jget e ''distribution'' = JUndef" "jget e ''downloadHost'' = JUndef"
    using pack_entry_pack_file [of m f] by auto
  have f: "file_ready f" "wf_obj (jget f ''hashes'')"
    using assms by (simp_all add: entry_ready_def hashes_wf_def)
  then have h: "truthy (jget (jget e ''hashes'') ''sha1'')" "truthy (jget (jget e ''hashes'') ''sha512'')"
    by (simp_all add: e(6) jget_copy file_ready_def)
  have "\<not> nullish (jget e ''hashes'')" by (simp add: e(6))
  then have fl: "map_option snd (permission_file e i e) = Some [] \<longleftrightarrow> isHttpsUrl (jget f ''url'')"
    "permission_file e i e \<noteq> None" for i
    using h by (auto simp: permission_file_def Let_def e downloads_bad_def arr_of_def isRehostedByApp_def coalesce_def)
  have "validateModPermissionMetadata e \<noteq> None"
  proof -
    obtain y where "permission_file e 0 e = Some y" using fl(2) [of 0] by blast
    then show ?thesis by (simp add: validateModPermissionMetadata_def Let_def e(10) nonempty_arr_def enumerate_simps)
  qed
  then obtain r where r: "validateModPermissionMetadata e = Some r" by blast
  from permission_result_ok [OF r] have "pr_ok r \<longleftrightarrow> file_permitted m f"
    using fl(1) [of 0] by (auto simp: e(2-4,7-10) nonempty_arr_def file_permitted_def enumerate_simps)
  with e(1) r show ?thesis by blast
qed

lemma policy_of_results:
  assumes "packEntries p = Some es" and "\<And>e. e \<in> set es \<Longrightarrow> \<exists>r. validateModPermissionMetadata e = Some r"
  shows "\<exists>r. validatePackPolicy p = Some r \<and> pp_checkedCount r = length es \<and>
    (pp_ok r \<longleftrightarrow> (\<forall>e \<in> set es. \<forall>x. validateModPermissionMetadata e = Some x \<longrightarrow> pr_ok x))"
proof -
  obtain rs where rs: "traverse validateModPermissionMetadata es = Some rs"
    using traverse_total [of es validateModPermissionMetadata] assms(2) by blast
  have "filter (\<lambda>r. \<not> pr_ok r) rs = [] \<longleftrightarrow> (\<forall>e \<in> set es. \<forall>x. validateModPermissionMetadata e = Some x \<longrightarrow> pr_ok x)"
    using traverse_ball [OF rs, of pr_ok] assms(2) by (fastforce simp: filter_empty_conv)
  then show ?thesis using assms(1) rs by (simp add: validatePackPolicy_def)
qed

text \<open>
  The permission gate always returns on a pack that \<open>createCuratedPack\<close> made, looks at every
  file of every mod, and passes exactly when each mod has an HTTPS source address, a license that
  is not blank and a permission record that does not allow rehosting, and each file an HTTPS
  download.
\<close>

theorem generated_pack_gate:
  assumes "createCuratedPack name versionId summary mv fl mods = Some p"
    and "\<And>m. m \<in> set (elems mods) \<Longrightarrow> hashes_wf m"
  shows "\<exists>r. validateGeneratedPackPermissionGate p = Some r \<and>
    pp_checkedCount r = (\<Sum>m \<leftarrow> elems mods. length (elems (jget m ''files''))) \<and>
    (pp_ok r \<longleftrightarrow> (\<forall>m \<in> set (elems mods). \<forall>f \<in> set (elems (jget m ''files'')). file_permitted m f))"
proof -
  have ready: "entry_ready m" if "m \<in> set (elems mods)" for m
    using assms(1) that by (auto simp: createCuratedPack_def catalogEntryHasRequiredMetadata_iff split: if_splits)
  let ?files = "concat (map (\<lambda>m. map (pack_file m) (elems (jget m ''files''))) (elems mods))"
  have p: "truthy p" "\<not> is_arr p" "jget p ''mods'' = JUndef" "jget p ''files'' = JArr ?files"
    using assms(1) by (auto simp: createCuratedPack_def split: if_splits)
  have gate: "\<exists>e r. pack_entry (pack_file m f) = Some e \<and> validateModPermissionMetadata e = Some r \<and>
      (pr_ok r \<longleftrightarrow> file_permitted m f)" if "m \<in> set (elems mods)" "f \<in> set (elems (jget m ''files''))" for m f
    by (rule pack_file_gate [OF ready [OF that(1)] assms(2) [OF that(1)] that(2)])
  have "\<exists>e. pack_entry x = Some e" if "x \<in> set ?files" for x using gate that by fastforce
  then obtain es where es: "traverse pack_entry ?files = Some es"
    using traverse_total [of ?files pack_entry] by blast
  have entries: "packEntries p = Some es" using p es by (simp add: packEntries_def)
  have valid: "\<exists>r. validateModPermissionMetadata e = Some r" if "e \<in> set es" for e
    using traverse_SomeD(2) [OF es that] gate by fastforce
  have "(\<forall>e \<in> set es. \<forall>x. validateModPermissionMetadata e = Some x \<longrightarrow> pr_ok x) \<longleftrightarrow>
      (\<forall>y \<in> set ?files. \<exists>e. pack_entry y = Some e \<and> (\<forall>x. validateModPermissionMetadata e = Some x \<longrightarrow> pr_ok x))"
    by (rule traverse_ball [OF es])
  also have "\<dots> \<longleftrightarrow> (\<forall>m \<in> set (elems mods). \<forall>f \<in> set (elems (jget m ''files'')).
      \<exists>e. pack_entry (pack_file m f) = Some e \<and> (\<forall>x. validateModPermissionMetadata e = Some x \<longrightarrow> pr_ok x))" by auto
  also have "\<dots> \<longleftrightarrow> (\<forall>m \<in> set (elems mods). \<forall>f \<in> set (elems (jget m ''files'')). file_permitted m f)"
    using gate by (intro ball_cong refl) fastforce
  finally have ok: "(\<forall>e \<in> set es. \<forall>x. validateModPermissionMetadata e = Some x \<longrightarrow> pr_ok x) \<longleftrightarrow>
      (\<forall>m \<in> set (elems mods). \<forall>f \<in> set (elems (jget m ''files'')). file_permitted m f)" .
  have "length es = (\<Sum>m \<leftarrow> elems mods. length (elems (jget m ''files'')))"
    using traverse_SomeD(3) [OF es] by (simp add: length_concat o_def)
  with policy_of_results [OF entries valid] ok show ?thesis
    by (simp add: validateGeneratedPackPermissionGate_def)
qed

theorem generated_pack_gate_witness:
  "\<exists>p r. createCuratedPack (JStr ''pack'') (JStr ''1'') JUndef (JStr ''1.20.1'') (JStr ''0.15'') (JArr [demo_entry]) = Some p \<and>
     validateGeneratedPackPermissionGate p = Some r \<and> pp_ok r"
proof -
  obtain p where p: "createCuratedPack (JStr ''pack'') (JStr ''1'') JUndef (JStr ''1.20.1'') (JStr ''0.15'') (JArr [demo_entry]) = Some p"
    by (simp add: createCuratedPack_def nonempty_arr_def catalogEntryHasRequiredMetadata_iff demo_entry_ready)
  have "\<And>m. m \<in> set (elems (JArr [demo_entry])) \<Longrightarrow> hashes_wf m" by (simp add: demo_entry_ready)
  from generated_pack_gate [OF p this] obtain r where r: "validateGeneratedPackPermissionGate p = Some r"
    "pp_ok r \<longleftrightarrow> (\<forall>m \<in> set (elems (JArr [demo_entry])). \<forall>f \<in> set (elems (jget m ''files'')). file_permitted m f)" by blast
  have "js_trim ''MIT'' = ''MIT''" by code_simp
  then have "pp_ok r"
    by (simp add: r(2) demo_entry_def demo_file_def file_permitted_def isHttpsUrl_def sf_normalizeLicense_def
        hasPermissionRecord_def defaultPermissionRecord_def)
  with p r(1) show ?thesis by blast
qed

section \<open>Copy for invites\<close>

lemma copy_unavailable:
  "jm_get inviteRecoveryCopy k = Some c \<Longrightarrow> jget c ''unavailable'' = JBool (k \<noteq> ''active'') \<and>
     jget c ''showRoomDetails'' = JBool (k = ''active'')"
  by (auto simp: inviteRecoveryCopy_def split: if_splits)

lemma copy_states: "jm_get inviteRecoveryCopy k \<noteq> None \<longleftrightarrow> k \<in> set (jm_keys inviteRecoveryCopy)"
  by (rule jm_has_iff)

text \<open>
  The copy for an invite tells about the room (its alias, version, pack, trust copy) only when
  the invite is active: for every state that is a text and not the name of a member all objects
  inherit, the result has room details exactly for \<open>active\<close> and \<open>valid\<close>, and a state that is not
  in the table is shown as invalid.
\<close>

theorem room_details_only_active:
  assumes "buildInviteRecoveryState (JStr s) details = Some r" and "s \<notin> set inherited_names"
  shows "(jget r ''roomAlias'' = (if s = ''active'' \<or> s = ''valid'' then jget details ''roomAlias'' else JUndef)) \<and>
    (jget r ''trustCopy'' = (if s = ''active'' \<or> s = ''valid'' then jget details ''trustCopy'' else JUndef)) \<and>
    jget r ''showRoomDetails'' = JBool (s = ''active'' \<or> s = ''valid'') \<and>
    jget r ''state'' = JStr (if s = ''valid'' then ''active''
      else if s \<in> set (jm_keys inviteRecoveryCopy) then s else ''invalid'')"
proof -
  define n where "n = (if s = ''valid'' then ''active'' else s)"
  define eff where "eff = (if n \<in> set (jm_keys inviteRecoveryCopy) then n else ''invalid'')"
  have inherited: "n \<notin> set inherited_names" using assms(2) by (auto simp: n_def inherited_names_def)
  have inv: "''invalid'' \<in> set (jm_keys inviteRecoveryCopy)" "''active'' \<in> set (jm_keys inviteRecoveryCopy)"
    "''valid'' \<notin> set (jm_keys inviteRecoveryCopy)"
    by (simp_all add: inviteRecoveryCopy_def)
  then have "eff \<in> set (jm_keys inviteRecoveryCopy)" by (simp add: eff_def)
  then obtain c where c: "jm_get inviteRecoveryCopy eff = Some c" using copy_states by blast
  have active: "eff = ''active'' \<longleftrightarrow> s = ''active'' \<or> s = ''valid''" using inv by (auto simp: eff_def n_def)
  obtain ci where ci: "jm_get inviteRecoveryCopy ''invalid'' = Some ci" using inv(1) copy_states by blast
  have "buildInviteRecoveryState (JStr s) details =
      (let result = copySafeInviteCopy c (JStr eff)
       in if truthy (jget result ''unavailable'') then Some result
          else if details = JNull then None
          else Some (obj_with result [(''roomAlias'', jget details ''roomAlias''),
            (''minecraftVersion'', jget details ''minecraftVersion''),
            (''packProfileName'', jget details ''packProfileName''), (''trustCopy'', jget details ''trustCopy'')]))"
  proof (cases "n \<in> set (jm_keys inviteRecoveryCopy)")
    case True
    then have "copy_for (JStr n) = Some c" using c by (simp add: copy_for_def eff_def)
    with True show ?thesis by (auto simp: buildInviteRecoveryState_def n_def eff_def Let_def)
  next
    case False
    then have "copy_for (JStr n) = None"
      using inherited copy_states [of n] by (auto simp: copy_for_def split: option.split)
    moreover have "copy_for (JStr ''invalid'') = Some c" using c False by (simp add: copy_for_def eff_def)
    ultimately show ?thesis using False by (auto simp: buildInviteRecoveryState_def n_def eff_def Let_def)
  qed
  moreover define res where "res = copySafeInviteCopy c (JStr eff)"
  moreover have res: "is_obj res" "wf_obj res" "jget res ''unavailable'' = jget c ''unavailable''"
    "jget res ''showRoomDetails'' = jget c ''showRoomDetails''" "jget res ''state'' = JStr eff"
    "jget res ''roomAlias'' = JUndef" "jget res ''trustCopy'' = JUndef"
    by (simp_all add: res_def copySafeInviteCopy_def wf_obj_def Let_def)
  ultimately have r: "r = (if eff = ''active'' then obj_with res [(''roomAlias'', jget details ''roomAlias''),
            (''minecraftVersion'', jget details ''minecraftVersion''),
            (''packProfileName'', jget details ''packProfileName''), (''trustCopy'', jget details ''trustCopy'')] else res)"
    using assms(1) copy_unavailable [OF c] by (auto simp: Let_def split: if_splits)
  have eff: "eff = (if s = ''valid'' then ''active'' else if s \<in> set (jm_keys inviteRecoveryCopy) then s else ''invalid'')"
    using inv by (auto simp: eff_def n_def)
  show ?thesis
    unfolding r active [symmetric] eff [symmetric]
    using res copy_unavailable [OF c] by (simp add: jget_obj_with_new jget_obj_with_old)
qed

lemma demo_copy: "buildInviteRecoveryState (JStr ''expired'') (JObj [(''roomAlias'', JStr ''secret room'')]) \<noteq> None"
  by (simp add: buildInviteRecoveryState_def copy_for_def inviteRecoveryCopy_def copySafeInviteCopy_def Let_def)

theorem room_details_only_active_witness:
  "\<exists>r. buildInviteRecoveryState (JStr ''expired'') (JObj [(''roomAlias'', JStr ''secret room'')]) = Some r \<and>
     jget r ''roomAlias'' = JUndef"
proof -
  obtain r where r: "buildInviteRecoveryState (JStr ''expired'') (JObj [(''roomAlias'', JStr ''secret room'')]) = Some r"
    using demo_copy by blast
  have "''expired'' \<notin> set inherited_names" by (simp add: inherited_names_def)
  from room_details_only_active [OF r this] r show ?thesis by auto
qed

text \<open>
  The exception is real: with a state named like an inherited member, the table lookup succeeds,
  the result counts as available, and the room's details are shown.
\<close>

lemma inherited_state_shows_room:
  "\<exists>r. buildInviteRecoveryState (JStr ''constructor'') (JObj [(''roomAlias'', JStr ''secret room'')]) = Some r \<and>
     jget r ''roomAlias'' = JStr ''secret room''"
  by (simp add: buildInviteRecoveryState_def copy_for_def inviteRecoveryCopy_def inherited_names_def
      copySafeInviteCopy_def jget_obj_with_new Let_def)

section \<open>The release gate\<close>

text \<open>
  The release gate passes only when invites are hidden from search engines, the unofficial
  wording is on both surfaces, every interactive element of the invite page has a name, can be
  focused and is at least 44 pixels high, and the printed redacted probe bundle contains none of
  the forbidden texts.
\<close>

theorem release_gate_sound:
  assumes "evaluateClosedAlphaReleaseGate input = Some r" and "gr_ok r"
  shows "jget (jget input ''discovery'') ''robots'' = invite_robots \<and>
    jget (jget input ''discovery'') ''xRobotsTag'' = invite_robots \<and>
    jget (jget input ''discovery'') ''publicDiscovery'' = JBool False \<and>
    jget (jget (jget input ''surfaces'') ''invitePage'') ''includesUnofficialProductWording'' = JBool True \<and>
    jget (jget (jget input ''surfaces'') ''desktopApp'') ''includesUnofficialProductWording'' = JBool True \<and>
    elems (jget (jget input ''inviteAccessibility'') ''actions'') \<noteq> [] \<and>
    list_all (\<lambda>a. truthy (jget a ''accessibleName'') \<and> jget a ''keyboardFocusable'' = JBool True \<and>
        \<not> below (jget a ''minHeightPx'') minInteractiveTargetPx)
      (elems (jget (jget input ''inviteAccessibility'') ''actions'')) \<and>
    truthy (jget input ''supportBundleProbe'') \<and>
    list_all (\<lambda>v. \<not> truthy v \<or> (\<exists>t. json (redactSupportBundle (jget (jget input ''supportBundleProbe'') ''bundle'')) = Some t \<and>
        \<not> js_includes t (js_string v)))
      (elems (jget (jget input ''supportBundleProbe'') ''forbiddenStrings''))"
proof -
  define disc where "disc = coalesce (jget input ''discovery'') (JObj [])"
  define surf where "surf = coalesce (jget input ''surfaces'') (JObj [])"
  have input: "input \<noteq> JNull" using assms(1) by (auto simp: evaluateClosedAlphaReleaseGate_def)
  obtain ax probe where ret: "validateInviteAccessibilitySnapshot (jget input ''inviteAccessibility'') = Some ax"
    "probe_failures (jget input ''supportBundleProbe'') = Some probe"
    using assms(1) input unfolding evaluateClosedAlphaReleaseGate_def Let_def
    by (auto simp only: if_False bind_eq_Some_conv)
  have "gr_ok (the (evaluateClosedAlphaReleaseGate input))" using assms by simp
  then have ok: "jget disc ''robots'' = invite_robots \<and> jget disc ''xRobotsTag'' = invite_robots \<and>
    jget disc ''publicDiscovery'' = JBool False \<and>
    jget (jget surf ''invitePage'') ''includesUnofficialProductWording'' = JBool True \<and>
    jget (jget surf ''desktopApp'') ''includesUnofficialProductWording'' = JBool True \<and> ax_ok ax \<and> probe = []"
    unfolding evaluateClosedAlphaReleaseGate_def Let_def disc_def [symmetric] surf_def [symmetric]
    by (simp add: input ret)
  have empty: "jget (coalesce v (JObj [])) k = jget v k" for v k by (cases v) (simp_all add: coalesce_def)
  have snap: "jget input ''inviteAccessibility'' \<noteq> JNull"
    using ret(1) by (auto simp: validateInviteAccessibilitySnapshot_def)
  have "ax_ok (the (validateInviteAccessibilitySnapshot (jget input ''inviteAccessibility'')))" using ret(1) ok by simp
  then have acts: "elems (jget (jget input ''inviteAccessibility'') ''actions'') \<noteq> [] \<and>
    (\<forall>a \<in> set (elems (jget (jget input ''inviteAccessibility'') ''actions'')). action_failures a = [])"
    unfolding validateInviteAccessibilitySnapshot_def Let_def by (simp add: snap)
  have probe: "truthy (jget input ''supportBundleProbe'')"
    using ret(2) ok by (cases "truthy (jget input ''supportBundleProbe'')") (auto simp: probe_failures_def)
  define fs where "fs = jget (jget input ''supportBundleProbe'') ''forbiddenStrings''"
  have "list_all (\<lambda>v. \<not> truthy v \<or> (\<exists>t. json (redactSupportBundle (jget (jget input ''supportBundleProbe'') ''bundle'')) = Some t \<and>
        \<not> js_includes t (js_string v))) (elems fs)"
  proof (cases fs)
    case (JArr xs)
    show ?thesis
    proof (cases "filter truthy xs")
      case Nil
      then show ?thesis using JArr by (simp add: filter_empty_conv list_all_iff)
    next
      case (Cons w ws)
      obtain t where t: "json (redactSupportBundle (jget (jget input ''supportBundleProbe'') ''bundle'')) = Some t"
        "\<not> (\<exists>v \<in> set (filter truthy xs). js_includes t (js_string v))"
        using ret(2) ok probe JArr Cons unfolding probe_failures_def fs_def [symmetric]
        by (auto split: option.splits if_split_asm)
      then show ?thesis using JArr by (auto simp: list_all_iff)
    qed
  qed simp_all
  then show ?thesis
    using ok acts probe unfolding disc_def surf_def empty fs_def
    by (simp add: list_all_iff action_failures_def)
qed

definition demo_gate :: jsval where
  "demo_gate = JObj
     [(''discovery'', JObj [(''robots'', invite_robots), (''xRobotsTag'', invite_robots),
        (''publicDiscovery'', JBool False), (''exposesUnavailableRoomDetails'', JBool False)]),
      (''surfaces'', JObj [(''invitePage'', JObj [(''includesUnofficialProductWording'', JBool True)]),
        (''desktopApp'', JObj [(''includesUnofficialProductWording'', JBool True)])]),
      (''inviteAccessibility'', JObj [(''hasViewportMeta'', JBool True), (''hasVisibleFocusStyle'', JBool True),
        (''mobileActionsFullWidth'', JBool True), (''textWraps'', JBool True),
        (''actions'', JArr [JObj [(''accessibleName'', JStr ''Open''), (''keyboardFocusable'', JBool True),
          (''minHeightPx'', JNum 44)]])]),
      (''supportBundleProbe'', JObj [(''bundle'', JNull)])]"

lemma demo_gate_passes: "\<exists>r. evaluateClosedAlphaReleaseGate demo_gate = Some r \<and> gr_ok r"
  by (simp add: evaluateClosedAlphaReleaseGate_def demo_gate_def Let_def validateInviteAccessibilitySnapshot_def
      action_failures_def below_def minInteractiveTargetPx_def probe_failures_def)

theorem release_gate_sound_witness: "truthy (jget demo_gate ''supportBundleProbe'')"
  using demo_gate_passes release_gate_sound by blast

end
