(* ===== verification/Http.thy ===== *)
theory Http
  imports Simulation_Safety JsOps
begin

text \<open>
  \<open>services/control-plane/src/http\<close>: the HTTP boundary over the control-plane simulation
  (\<open>handlers.mjs\<close>), the router adapter and the Fastify app that mount it.

  The boundary keeps three maps of its own beside the simulation: invite handles (what the
  browser sees) to invites, request identifiers to what the request was made with, session
  handles to sessions. An operation takes what \<open>randomUUID\<close> and \<open>createInviteToken\<close> draw for
  it in a record \<open>drawn\<close>. \<open>None\<close> is a thrown exception (a path that is not a text, \<open>null\<close>
  headers); nothing is stored before one. Every reply has the same header.
\<close>

section \<open>State, requests and replies\<close>

record invite_binding =
  ib_token :: string
  ib_inviteId :: jsval
  ib_roomId :: jsval

record request_binding =
  rb_roomId :: jsval
  rb_inviteId :: jsval
  rb_minecraftUuid :: jsval

record session_binding =
  sb_sessionId :: jsval
  sb_requestId :: jsval

record http_boundary =
  bd_simulation :: sim
  bd_inviteHandles :: "(jsval, invite_binding) jsmap"
  bd_requestBindings :: "(jsval, request_binding) jsmap"
  bd_sessionHandles :: "(jsval, session_binding) jsmap"

record drawn =
  dr_uuid :: string
  dr_simHandle :: string
  dr_token :: string
  dr_handle :: string

record http_request =
  hq_method :: jsval
  hq_path :: jsval
  hq_headers :: jsval
  hq_body :: jsval

record http_reply =
  hr_status :: int
  hr_headers :: jsval
  hr_body :: jsval

definition createControlPlaneHttpBoundary :: "sim \<Rightarrow> http_boundary" where
  "createControlPlaneHttpBoundary simulation = \<lparr>bd_simulation = simulation, bd_inviteHandles = [],
     bd_requestBindings = [], bd_sessionHandles = []\<rparr>"

definition snapshotBoundaryForTest :: "http_boundary \<Rightarrow> nat \<times> nat \<times> nat" where
  "snapshotBoundaryForTest b = (length (bd_inviteHandles b), length (bd_requestBindings b),
     length (bd_sessionHandles b))"

section \<open>Normalisation\<close>

text \<open>
  The upper case of the characters 181, 223 and 255 lies outside the model's characters; they
  stay as they are, which no comparison with a method name sees.
\<close>

definition upper_char :: "char \<Rightarrow> char" where
  "upper_char x =
    (let n = of_char x :: nat in
     if is_lower x \<or> (224 \<le> n \<and> n \<le> 254 \<and> n \<noteq> 247) then char_of (n - 32) else x)"

definition normalizeMethod :: "jsval \<Rightarrow> string" where
  "normalizeMethod meth = map upper_char (js_string (coalesce meth (JStr ''GET'')))"

definition normalizePath :: "jsval \<Rightarrow> string option" where
  "normalizePath path =
    (if \<not> truthy path then Some ''/''
     else case path of
       JStr p \<Rightarrow> Some (if js_endsWith p ''/'' \<and> length p > 1 then butlast p else p)
     | _ \<Rightarrow> None)"

definition normalizeHeaders :: "jsval \<Rightarrow> (string \<times> jsval) list option" where
  "normalizeHeaders headers =
    (if headers = JNull then None
     else Some (fromEntries (map (\<lambda>(key, v). (toLowerCase key, v)) (own_entries headers))))"

definition header_of :: "(string \<times> jsval) list \<Rightarrow> string \<Rightarrow> jsval" where
  "header_of headers k = (case jm_get headers k of None \<Rightarrow> JUndef | Some v \<Rightarrow> v)"

definition actorIdFrom :: "(string \<times> jsval) list \<Rightarrow> jsval" where
  "actorIdFrom headers = header_of headers ''x-actor-id''"

definition actorTypeFrom :: "(string \<times> jsval) list \<Rightarrow> jsval" where
  "actorTypeFrom headers = header_of headers ''x-actor-type''"

text \<open>
  The route patterns are all \<open>/^PRE([^/]+)POST$/\<close> with plain texts \<open>PRE\<close> and \<open>POST\<close>:
  the capture is what remains between the two, when it is one non-empty path segment.
\<close>

definition path_match :: "string \<Rightarrow> string \<Rightarrow> string \<Rightarrow> string option" where
  "path_match pre post path =
    (let rest = drop (length pre) path;
         seg = take (length rest - length post) rest
     in if js_startsWith path pre \<and> js_endsWith rest post \<and> seg \<noteq> [] \<and> CHR ''/'' \<notin> set seg
        then Some seg else None)"

section \<open>Replies\<close>

definition json_reply :: "int \<Rightarrow> jsval \<Rightarrow> http_reply" where
  "json_reply status body = \<lparr>hr_status = status,
     hr_headers = JObj [(''content-type'', JStr ''application/json'')], hr_body = body\<rparr>"

definition statusForReason :: "error_state \<Rightarrow> int" where
  "statusForReason reason =
    (if reason = Err_INVITE_UNAVAILABLE \<or> reason = Err_ROOM_CLOSED then 404
     else if reason = Err_APPROVAL_REQUIRED \<or> reason = Err_SESSION_UNAVAILABLE then 403
     else 400)"

definition domainError :: "error_state \<Rightarrow> http_reply" where
  "domainError reason = json_reply (statusForReason reason)
     (JObj [(''error'', JObj [(''reason'', JStr (error_state_str reason))])])"

definition missingField :: "string \<Rightarrow> http_reply" where
  "missingField field = json_reply 400
     (JObj [(''error'', JObj [(''reason'', JStr ''missing_field''), (''field'', JStr field)])])"

definition requireFields :: "jsval \<Rightarrow> string list \<Rightarrow> http_reply option" where
  "requireFields body names =
     map_option missingField
       (List.find (\<lambda>field. nullish (jget body field) \<or> jget body field = JStr []) names)"

definition http_publicRoom :: "sim_room \<Rightarrow> jsval" where
  "http_publicRoom room = JObj [(''id'', room_id room), (''alias'', room_alias room),
     (''minecraftVersion'', room_minecraftVersion room),
     (''packProfileName'', room_packProfileName room),
     (''state'', JStr (room_state_str (room_st room)))]"

section \<open>Handlers\<close>

definition http_createRoom :: "drawn \<Rightarrow> jsval \<Rightarrow> jsval \<Rightarrow> http_boundary \<Rightarrow> http_reply \<times> http_boundary" where
  "http_createRoom dr actorId body b =
    (if \<not> truthy actorId then (missingField ''actorId'', b)
     else case requireFields body [''alias'', ''minecraftVersion'', ''packProfileName''] of
       Some required \<Rightarrow> (required, b)
     | None \<Rightarrow>
        let (room, s) = sim_createRoom (dr_uuid dr) actorId (jget body ''alias'')
              (jget body ''minecraftVersion'') (jget body ''packProfileName'') (bd_simulation b)
        in (json_reply 201 (JObj [(''room'', http_publicRoom room)]), b\<lparr>bd_simulation := s\<rparr>))"

definition http_revokeInvite :: "jsval \<Rightarrow> jsval \<Rightarrow> http_boundary \<Rightarrow> http_reply \<times> http_boundary" where
  "http_revokeInvite actorId inviteHandle b =
    (if \<not> truthy actorId then (missingField ''actorId'', b)
     else
       let binding = jm_get (bd_inviteHandles b) inviteHandle;
           inviteId = (case binding of None \<Rightarrow> JUndef | Some ib \<Rightarrow> ib_inviteId ib)
       in case sim_revokeInvite actorId inviteId (bd_simulation b) of
         (Inl reason, s) \<Rightarrow> (domainError reason, b\<lparr>bd_simulation := s\<rparr>)
       | (Inr _, s) \<Rightarrow>
          (json_reply 200 (JObj [(''invite'',
             JObj [(''handle'', inviteHandle), (''state'', JStr ''revoked'')])]),
           b\<lparr>bd_simulation := s\<rparr>))"

definition http_heartbeatHost :: "jsval \<Rightarrow> jsval \<Rightarrow> http_boundary \<Rightarrow> http_reply \<times> http_boundary" where
  "http_heartbeatHost actorId roomId b =
    (if \<not> truthy actorId then (missingField ''actorId'', b)
     else
       let (ok, s) = sim_heartbeatHost actorId roomId (bd_simulation b)
       in if \<not> ok then (domainError Err_SESSION_UNAVAILABLE, b\<lparr>bd_simulation := s\<rparr>)
          else (json_reply 200 (JObj [(''room'', JObj [(''id'', roomId), (''state'', JStr ''open''),
                  (''hostOnline'', JBool True)])]), b\<lparr>bd_simulation := s\<rparr>))"

definition http_createInvite ::
  "(string \<Rightarrow> string) \<Rightarrow> sim_config \<Rightarrow> drawn \<Rightarrow> jsval \<Rightarrow> jsval \<Rightarrow> http_boundary \<Rightarrow> http_reply \<times> http_boundary"
where
  "http_createInvite sha256 c dr actorId roomId b =
    (if \<not> truthy actorId then (missingField ''actorId'', b)
     else case sim_createInvite sha256 c (dr_token dr) (dr_uuid dr) (dr_simHandle dr) actorId roomId
            (bd_simulation b) of
       (Inl reason, s) \<Rightarrow> (domainError reason, b\<lparr>bd_simulation := s\<rparr>)
     | (Inr result, s) \<Rightarrow>
        let inviteHandle = JStr (''invite_handle_'' @ dr_handle dr)
        in (json_reply 201 (JObj [(''invite'', JObj [(''handle'', inviteHandle),
              (''expiresAt'', JNum (ci_expiresAt result))])]),
            b\<lparr>bd_simulation := s, bd_inviteHandles := jm_set inviteHandle
                \<lparr>ib_token = ci_token result, ib_inviteId = ci_inviteId result, ib_roomId = roomId\<rparr>
                (bd_inviteHandles b)\<rparr>))"

definition http_readSafeInviteStatus ::
  "(string \<Rightarrow> string) \<Rightarrow> jsval \<Rightarrow> http_boundary \<Rightarrow> http_reply \<times> http_boundary" where
  "http_readSafeInviteStatus sha256 inviteHandle b =
    (let binding = jm_get (bd_inviteHandles b) inviteHandle
     in case sim_readSafeInviteStatus sha256 (map_option ib_token binding) (bd_simulation b) of
       SafeUnavailable reason \<Rightarrow>
         (json_reply 404 (JObj [(''unavailable'', JBool True),
            (''reason'', JStr (error_state_str reason))]), b)
     | SafeInvite alias version pack trust \<Rightarrow>
         (json_reply 200 (JObj [(''invite'', JObj [(''unavailable'', JBool False),
            (''roomAlias'', alias), (''minecraftVersion'', version), (''packProfileName'', pack),
            (''trustCopy'', trust)])]), b))"

definition http_createJoinRequest ::
  "(string \<Rightarrow> string) \<Rightarrow> sim_config \<Rightarrow> drawn \<Rightarrow> jsval \<Rightarrow> http_boundary \<Rightarrow> (http_reply \<times> http_boundary) option"
where
  "http_createJoinRequest sha256 c dr body b =
    (case requireFields body [''inviteHandle'', ''friendId'', ''minecraftUuid'', ''displayName''] of
       Some required \<Rightarrow> Some (required, b)
     | None \<Rightarrow>
        let binding = jm_get (bd_inviteHandles b) (jget body ''inviteHandle'')
        in case sim_createJoinRequest sha256 c (dr_uuid dr) (map_option ib_token binding)
               (jget body ''friendId'') (jget body ''minecraftUuid'') (jget body ''displayName'')
               (bd_simulation b) of
          (Inl reason, s) \<Rightarrow> Some (domainError reason, b\<lparr>bd_simulation := s\<rparr>)
        | (Inr (requestId, state), s) \<Rightarrow>
           (case binding of
              None \<Rightarrow> None
            | Some ib \<Rightarrow> Some
                (json_reply 202 (JObj [(''request'', JObj [(''id'', requestId),
                   (''state'', JStr (approval_state_str state))])]),
                 b\<lparr>bd_simulation := s, bd_requestBindings := jm_set requestId
                     \<lparr>rb_roomId = ib_roomId ib, rb_inviteId = ib_inviteId ib,
                      rb_minecraftUuid = jget body ''minecraftUuid''\<rparr> (bd_requestBindings b)\<rparr>)))"

definition http_readApprovalQueue :: "jsval \<Rightarrow> jsval \<Rightarrow> http_boundary \<Rightarrow> http_reply \<times> http_boundary" where
  "http_readApprovalQueue actorId roomId b =
    (if \<not> truthy actorId then (missingField ''actorId'', b)
     else case sim_readApprovalQueue actorId roomId (bd_simulation b) of
       Inl reason \<Rightarrow> (domainError reason, b)
     | Inr requests \<Rightarrow>
        (json_reply 200 (JObj [(''requests'', JArr (map (\<lambda>q. JObj
           [(''id'', qe_id q), (''displayName'', qe_displayName q),
            (''minecraftUuid'', qe_minecraftUuid q),
            (''state'', JStr (approval_state_str (qe_state q)))]) requests))]), b))"

definition http_HOST_DECISIONS :: "jsval list" where
  "http_HOST_DECISIONS = map (JStr \<circ> approval_state_str) [Approval_APPROVED, Approval_DENIED, Approval_BLOCKED]"

definition http_decideJoinRequest ::
  "jsval \<Rightarrow> jsval \<Rightarrow> jsval \<Rightarrow> http_boundary \<Rightarrow> http_reply \<times> http_boundary" where
  "http_decideJoinRequest actorId requestId decision b =
    (if \<not> truthy actorId then (missingField ''actorId'', b)
     else if decision \<notin> set http_HOST_DECISIONS then
       (json_reply 400 (JObj [(''error'', JObj [(''reason'', JStr ''invalid_decision'')])]), b)
     else case sim_decideJoinRequest actorId requestId decision (bd_simulation b) of
       (Inl reason, s) \<Rightarrow> (domainError reason, b\<lparr>bd_simulation := s\<rparr>)
     | (Inr state, s) \<Rightarrow>
        (json_reply 200 (JObj [(''request'', JObj [(''id'', requestId),
           (''state'', JStr (approval_state_str state))])]), b\<lparr>bd_simulation := s\<rparr>))"

definition http_issueSession ::
  "sim_config \<Rightarrow> drawn \<Rightarrow> jsval \<Rightarrow> jsval \<Rightarrow> http_boundary \<Rightarrow> http_reply \<times> http_boundary" where
  "http_issueSession c dr actorType body b =
    (if actorType \<noteq> JStr (actor_str SERVICE) then (domainError Err_SESSION_UNAVAILABLE, b)
     else case requireFields body [''requestId'', ''minecraftUuid''] of
       Some required \<Rightarrow> (required, b)
     | None \<Rightarrow>
        let requestId = jget body ''requestId'';
            binding = jm_get (bd_requestBindings b) requestId;
            roomId = (case binding of None \<Rightarrow> JUndef | Some rb \<Rightarrow> rb_roomId rb);
            inviteId = (case binding of None \<Rightarrow> JUndef | Some rb \<Rightarrow> rb_inviteId rb)
        in case sim_issueSession c (dr_uuid dr) requestId roomId inviteId
               (jget body ''minecraftUuid'') (bd_simulation b) of
          (Inl reason, s) \<Rightarrow> (domainError reason, b\<lparr>bd_simulation := s\<rparr>)
        | (Inr (sessionId, expiresAt), s) \<Rightarrow>
           let sessionHandle = JStr (''session_handle_'' @ dr_handle dr)
           in (json_reply 201 (JObj [(''session'', JObj [(''handle'', sessionHandle),
                 (''expiresAt'', JNum expiresAt)])]),
               b\<lparr>bd_simulation := s, bd_sessionHandles := jm_set sessionHandle
                   \<lparr>sb_sessionId = sessionId, sb_requestId = requestId\<rparr> (bd_sessionHandles b)\<rparr>))"

section \<open>Routing\<close>

text \<open>
  Which handler a request goes to. The source tries the patterns one after the other and the
  first that fits, with its method, is taken.
\<close>

datatype route =
    Route_createRoom
  | Route_heartbeat string
  | Route_createInvite string
  | Route_revokeInvite string
  | Route_safeInvite "string option"
  | Route_joinRequest
  | Route_queue string
  | Route_decision string
  | Route_session
  | Route_not_found

definition first_match :: "('a option) list \<Rightarrow> 'a \<Rightarrow> 'a" where
  "first_match candidates fallback =
    (case List.find (\<lambda>x. x \<noteq> None) candidates of Some (Some r) \<Rightarrow> r | _ \<Rightarrow> fallback)"

definition when_method :: "string \<Rightarrow> string \<Rightarrow> 'a option \<Rightarrow> 'a option" where
  "when_method wanted meth r = (if meth = wanted then r else None)"

definition route_of :: "string \<Rightarrow> string \<Rightarrow> route" where
  "route_of meth path = first_match
    [when_method ''POST'' meth (if path = ''/host/rooms'' then Some Route_createRoom else None),
     when_method ''POST'' meth
       (map_option Route_heartbeat (path_match ''/host/rooms/'' ''/heartbeat'' path)),
     when_method ''POST'' meth
       (map_option Route_createInvite (path_match ''/host/rooms/'' ''/invites'' path)),
     when_method ''POST'' meth
       (map_option Route_revokeInvite (path_match ''/host/invites/'' ''/revoke'' path)),
     when_method ''GET'' meth
       (map_option (Route_safeInvite \<circ> Some) (path_match ''/friend/invites/'' [] path)),
     when_method ''GET'' meth
       (if path = ''/friend/invites'' then Some (Route_safeInvite None) else None),
     when_method ''POST'' meth
       (if path = ''/friend/join-requests'' then Some Route_joinRequest else None),
     when_method ''GET'' meth
       (map_option Route_queue (path_match ''/host/rooms/'' ''/approval-queue'' path)),
     when_method ''POST'' meth
       (map_option Route_decision (path_match ''/host/join-requests/'' ''/decision'' path)),
     when_method ''POST'' meth
       (if path = ''/service/sessions'' then Some Route_session else None)]
    Route_not_found"

fun http_serve ::
  "(string \<Rightarrow> string) \<Rightarrow> sim_config \<Rightarrow> drawn \<Rightarrow> route \<Rightarrow> (string \<times> jsval) list \<Rightarrow> jsval \<Rightarrow> http_boundary \<Rightarrow>
     (http_reply \<times> http_boundary) option" where
  "http_serve sha256 c dr Route_createRoom headers body b =
     Some (http_createRoom dr (actorIdFrom headers) body b)"
| "http_serve sha256 c dr (Route_heartbeat roomId) headers body b =
     Some (http_heartbeatHost (actorIdFrom headers) (JStr roomId) b)"
| "http_serve sha256 c dr (Route_createInvite roomId) headers body b =
     Some (http_createInvite sha256 c dr (actorIdFrom headers) (JStr roomId) b)"
| "http_serve sha256 c dr (Route_revokeInvite handle) headers body b =
     Some (http_revokeInvite (actorIdFrom headers) (JStr handle) b)"
| "http_serve sha256 c dr (Route_safeInvite handle) headers body b =
     Some (http_readSafeInviteStatus sha256 (case handle of None \<Rightarrow> JUndef | Some h \<Rightarrow> JStr h) b)"
| "http_serve sha256 c dr Route_joinRequest headers body b =
     http_createJoinRequest sha256 c dr body b"
| "http_serve sha256 c dr (Route_queue roomId) headers body b =
     Some (http_readApprovalQueue (actorIdFrom headers) (JStr roomId) b)"
| "http_serve sha256 c dr (Route_decision requestId) headers body b =
     Some (http_decideJoinRequest (actorIdFrom headers) (JStr requestId) (jget body ''decision'') b)"
| "http_serve sha256 c dr Route_session headers body b =
     Some (http_issueSession c dr (actorTypeFrom headers) body b)"
| "http_serve sha256 c dr Route_not_found headers body b =
     Some (json_reply 404 (JObj [(''error'', JObj [(''reason'', JStr ''route_not_found'')])]), b)"

definition http_handle ::
  "(string \<Rightarrow> string) \<Rightarrow> sim_config \<Rightarrow> drawn \<Rightarrow> http_request \<Rightarrow> http_boundary \<Rightarrow> (http_reply \<times> http_boundary) option"
where
  "http_handle sha256 c dr request b = do {
     let meth = normalizeMethod (hq_method request);
     path \<leftarrow> normalizePath (hq_path request);
     let body = coalesce (hq_body request) (JObj []);
     headers \<leftarrow> normalizeHeaders (hq_headers request);
     http_serve sha256 c dr (route_of meth path) headers body b }"

end
