(* ===== verification/HttpRouter.thy ===== *)
theory HttpRouter
  imports Http
begin

text \<open>
  \<open>services/control-plane/src/http/router-adapter.mjs\<close> and \<open>fastify-app.mjs\<close>: mounting the
  boundary in a web framework. The framework decides which registered route a request reaches;
  the theorems hold for every route of \<open>ROUTES\<close>.

  \<^item> \<open>url_pathname v\<close> is \<open>new URL(v, "http://control-plane.local").pathname\<close>, \<open>None\<close> when the
    constructor throws.
  \<^item> \<open>json_parse\<close> is \<open>JSON.parse\<close>, \<open>None\<close> when it throws.
  \<^item> \<open>deriveActor\<close> is the application's function from a request to the authenticated actor,
    \<open>None\<close> when it throws.
  \<^item> A request of the framework is an object with the properties the code reads.
\<close>

definition ROUTES :: "(string \<times> string) list" where
  "ROUTES =
    [(''POST'', ''/host/rooms''), (''POST'', ''/host/rooms/:roomId/heartbeat''),
     (''POST'', ''/host/rooms/:roomId/invites''), (''POST'', ''/host/invites/:inviteHandle/revoke''),
     (''GET'', ''/friend/invites/:inviteHandle''), (''GET'', ''/friend/invites''),
     (''POST'', ''/friend/join-requests''), (''GET'', ''/host/rooms/:roomId/approval-queue''),
     (''POST'', ''/host/join-requests/:requestId/decision''), (''POST'', ''/service/sessions'')]"

text \<open>The actor an application derived; \<open>trustedActorHeaders(null)\<close> throws.\<close>

definition actor_id :: "jsval \<Rightarrow> jsval" where
  "actor_id actor = coalesce (jget actor ''actorId'') (jget actor ''id'')"

definition actor_type :: "jsval \<Rightarrow> jsval" where
  "actor_type actor = coalesce (jget actor ''actorType'') (jget actor ''type'')"

definition trustedActorHeaders :: "jsval \<Rightarrow> jsval option" where
  "trustedActorHeaders actor =
    (if actor = JNull then None
     else Some (JObj
       ((if truthy (actor_id actor) then [(''x-actor-id'', actor_id actor)] else []) @
        (if truthy (actor_type actor) then [(''x-actor-type'', actor_type actor)] else []))))"

definition pathFrom :: "(jsval \<Rightarrow> string option) \<Rightarrow> jsval \<Rightarrow> jsval" where
  "pathFrom url_pathname request =
    (case url_pathname (coalesce (coalesce (jget request ''path'') (jget request ''url'')) (JStr ''/'')) of
       None \<Rightarrow> JStr ''/''
     | Some p \<Rightarrow> JStr p)"

definition bodyFrom :: "(string \<Rightarrow> jsval option) \<Rightarrow> jsval \<Rightarrow> jsval option" where
  "bodyFrom json_parse request =
    (if jget request ''body'' \<noteq> JUndef then Some (jget request ''body'')
     else if nullish (jget request ''payload'') \<or> jget request ''payload'' = JStr [] then Some JUndef
     else case jget request ''payload'' of JStr t \<Rightarrow> json_parse t | v \<Rightarrow> Some v)"

text \<open>What the router needs from its surroundings.\<close>

record web =
  wb_sha256 :: "string \<Rightarrow> string"
  wb_config :: sim_config
  wb_pathname :: "jsval \<Rightarrow> string option"
  wb_json_parse :: "string \<Rightarrow> jsval option"
  wb_deriveActor :: "jsval \<Rightarrow> jsval option"

definition web_handle :: "web \<Rightarrow> drawn \<Rightarrow> http_request \<Rightarrow> http_boundary \<Rightarrow> (http_reply \<times> http_boundary) option" where
  "web_handle w = http_handle (wb_sha256 w) (wb_config w)"

definition router_inject :: "web \<Rightarrow> drawn \<Rightarrow> jsval \<Rightarrow> http_boundary \<Rightarrow> (http_reply \<times> http_boundary) option" where
  "router_inject w dr request b =
    (if request = JNull then None
     else do {
       body \<leftarrow> bodyFrom (wb_json_parse w) request;
       web_handle w dr \<lparr>hq_method = jget request ''method'',
         hq_path = pathFrom (wb_pathname w) request, hq_headers = jget request ''headers'',
         hq_body = body\<rparr> b })"

text \<open>The handler \<open>register\<close> gives the framework for a route.\<close>

definition router_handler ::
  "web \<Rightarrow> string \<times> string \<Rightarrow> drawn \<Rightarrow> jsval \<Rightarrow> http_boundary \<Rightarrow> (http_reply \<times> http_boundary) option" where
  "router_handler w route dr request b = do {
     actor \<leftarrow> wb_deriveActor w request;
     headers \<leftarrow> trustedActorHeaders actor;
     router_inject w dr (JObj
       [(''method'', coalesce (jget request ''method'') (JStr (fst route))),
        (''path'', coalesce (coalesce (jget request ''url'') (jget request ''path'')) (JStr (snd route))),
        (''headers'', headers), (''body'', jget request ''body'')]) b }"

text \<open>\<open>None\<close>: the \<open>TypeError\<close> for an app without \<open>route()\<close> or a missing \<open>deriveActor\<close>.\<close>

definition router_register ::
  "bool \<Rightarrow> web option \<Rightarrow>
     ((string \<times> string) \<times> (drawn \<Rightarrow> jsval \<Rightarrow> http_boundary \<Rightarrow> (http_reply \<times> http_boundary) option)) list option"
where
  "router_register has_route w =
    (if \<not> has_route then None
     else case w of None \<Rightarrow> None | Some w \<Rightarrow> Some (map (\<lambda>route. (route, router_handler w route)) ROUTES))"

section \<open>Sending the reply\<close>

text \<open>
  The methods a framework's reply object has. \<open>code\<close> and \<open>header\<close> return the reply itself or
  nothing, so the target of every call is the reply. The result lists the calls made; \<open>False\<close>:
  nothing was sent and the response is returned instead.
\<close>

datatype reply_call = Call_code int | Call_header string jsval | Call_send jsval

record reply_methods =
  rm_code :: bool
  rm_header :: bool
  rm_send :: bool

definition sendReply :: "reply_methods \<Rightarrow> http_reply \<Rightarrow> reply_call list \<times> bool" where
  "sendReply reply response =
    (let code = (if rm_code reply then [Call_code (hr_status response)] else []);
         headers = (if rm_header reply
           then map (\<lambda>(key, v). Call_header key v)
             (own_entries (coalesce (hr_headers response) (JObj []))) else [])
     in if rm_send reply then (code @ headers @ [Call_send (hr_body response)], True)
        else (code @ headers, False))"

section \<open>The Fastify app\<close>

definition pathFromRequest :: "(jsval \<Rightarrow> string option) \<Rightarrow> jsval \<Rightarrow> jsval" where
  "pathFromRequest url_pathname request =
    (case url_pathname (coalesce (coalesce (jget request ''url'') (jget (jget request ''raw'') ''url''))
         (JStr ''/'')) of
       None \<Rightarrow> JStr ''/''
     | Some p \<Rightarrow> JStr p)"

definition fastify_handler :: "web \<Rightarrow> drawn \<Rightarrow> jsval \<Rightarrow> http_boundary \<Rightarrow> (http_reply \<times> http_boundary) option" where
  "fastify_handler w dr request b = do {
     actor \<leftarrow> wb_deriveActor w request;
     headers \<leftarrow> trustedActorHeaders actor;
     web_handle w dr \<lparr>hq_method = jget request ''method'',
       hq_path = pathFromRequest (wb_pathname w) request, hq_headers = headers,
       hq_body = jget request ''body''\<rparr> b }"

definition fastify_send :: "http_reply \<Rightarrow> reply_call list" where
  "fastify_send response =
     map (\<lambda>(key, v). Call_header key v) (own_entries (coalesce (hr_headers response) (JObj []))) @
     [Call_code (hr_status response), Call_send (hr_body response)]"

text \<open>\<open>None\<close>: \<open>createControlPlaneFastifyApp\<close> without \<open>deriveActor\<close> throws.\<close>

definition createControlPlaneFastifyApp ::
  "web option \<Rightarrow>
     ((string \<times> string) \<times> (drawn \<Rightarrow> jsval \<Rightarrow> http_boundary \<Rightarrow> (http_reply \<times> http_boundary) option)) list option"
where
  "createControlPlaneFastifyApp w =
     map_option (\<lambda>w. map (\<lambda>route. (route, fastify_handler w)) ROUTES) w"

text \<open>
  For a request as the framework delivers it (with its method and its url) both mount the same
  handler.
\<close>

lemma bodyFrom_body: "jget request ''payload'' = JUndef \<Longrightarrow> bodyFrom p request = Some (jget request ''body'')"
  by (simp add: bodyFrom_def)

lemma router_is_fastify:
  assumes "\<not> nullish (jget request ''method'')" and "\<not> nullish (jget request ''url'')"
  shows "router_handler w route dr request b = fastify_handler w dr request b"
  using assms by (simp add: router_handler_def fastify_handler_def router_inject_def bodyFrom_body
      pathFrom_def pathFromRequest_def coalesce_def)

end
