(* ===== verification/Http_Props.thy ===== *)
theory Http_Props
  imports HttpRouter
begin

text \<open>
  The HTTP boundary: every handler is one operation of the simulation and at most one new
  binding (\<open>http_handle_cases\<close>); the bindings describe records of the simulation
  (\<open>bindings_ok\<close>); replies with an error status change nothing; and behind the router only the
  derived actor counts.
\<close>

section \<open>What a request does\<close>

lemma statusForReason_cases: "statusForReason e \<in> {200, 400, 403, 404}"
  by (simp add: statusForReason_def)

lemma reply_simps [simp]:
  "hr_status (json_reply st body) = st" "hr_status (missingField k) = 400"
  "hr_status (domainError e) = statusForReason e"
  by (simp_all add: json_reply_def missingField_def domainError_def)

lemma requireFields_status: "requireFields body names = Some r \<Longrightarrow> hr_status r = 400"
  by (auto simp: requireFields_def)

lemma boundary_same [simp]: "b\<lparr>bd_simulation := bd_simulation b\<rparr> = b"
  by simp

text \<open>One request, seen from outside; \<open>headers\<close> are the normalised ones.\<close>

lemma http_handle_cases [consumes 1, case_names Same Room Heartbeat Revoke Decide Invite Join Session]:
  assumes "http_handle h c dr request b = Some (r, b')"
  obtains "b' = b" "hr_status r \<in> {200, 400, 403, 404}"
  | headers al mc pk where "normalizeHeaders (hq_headers request) = Some headers"
      "truthy (actorIdFrom headers)" "hr_status r = 201"
      "b' = b\<lparr>bd_simulation := sim_exec h c
         (OpCreateRoom (dr_uuid dr) (actorIdFrom headers) al mc pk) (bd_simulation b)\<rparr>"
  | headers room where "normalizeHeaders (hq_headers request) = Some headers"
      "truthy (actorIdFrom headers)" "hr_status r = 200"
      "b' = b\<lparr>bd_simulation := sim_exec h c (OpHeartbeat (actorIdFrom headers) room) (bd_simulation b)\<rparr>"
  | headers i where "normalizeHeaders (hq_headers request) = Some headers"
      "truthy (actorIdFrom headers)" "hr_status r = 200"
      "b' = b\<lparr>bd_simulation := sim_exec h c (OpRevokeInvite (actorIdFrom headers) i) (bd_simulation b)\<rparr>"
  | headers rid d where "normalizeHeaders (hq_headers request) = Some headers"
      "truthy (actorIdFrom headers)" "hr_status r = 200"
      "b' = b\<lparr>bd_simulation := sim_exec h c (OpDecide (actorIdFrom headers) rid d) (bd_simulation b)\<rparr>"
  | headers room ci s where "normalizeHeaders (hq_headers request) = Some headers"
      "truthy (actorIdFrom headers)" "hr_status r = 201"
      "sim_createInvite h c (dr_token dr) (dr_uuid dr) (dr_simHandle dr) (actorIdFrom headers) room
         (bd_simulation b) = (Inr ci, s)"
      "b' = b\<lparr>bd_simulation := s, bd_inviteHandles := jm_set (JStr (''invite_handle_'' @ dr_handle dr))
         \<lparr>ib_token = ci_token ci, ib_inviteId = ci_inviteId ci, ib_roomId = room\<rparr> (bd_inviteHandles b)\<rparr>"
  | hd ib f mu d rid st s where "hr_status r = 202" "jm_get (bd_inviteHandles b) hd = Some ib"
      "sim_createJoinRequest h c (dr_uuid dr) (Some (ib_token ib)) f mu d (bd_simulation b) =
         (Inr (rid, st), s)"
      "b' = b\<lparr>bd_simulation := s, bd_requestBindings := jm_set rid
         \<lparr>rb_roomId = ib_roomId ib, rb_inviteId = ib_inviteId ib, rb_minecraftUuid = mu\<rparr>
         (bd_requestBindings b)\<rparr>"
  | headers rid room i mu sid exp s where "normalizeHeaders (hq_headers request) = Some headers"
      "actorTypeFrom headers = JStr (actor_str SERVICE)" "hr_status r = 201"
      "sim_issueSession c (dr_uuid dr) rid room i mu (bd_simulation b) = (Inr (sid, exp), s)"
      "b' = b\<lparr>bd_simulation := s, bd_sessionHandles := jm_set
         (JStr (''session_handle_'' @ dr_handle dr))
         \<lparr>sb_sessionId = sid, sb_requestId = rid\<rparr> (bd_sessionHandles b)\<rparr>"
proof -
  from assms obtain route headers body where hs: "normalizeHeaders (hq_headers request) = Some headers"
    and serve: "http_serve h c dr route headers body b = Some (r, b')"
    by (auto simp: http_handle_def Let_def bind_eq_Some_conv)
  note same = that(1)
  note status = statusForReason_cases
  show thesis
  proof (cases route)
    case Route_createRoom
    with serve same that(2) [OF hs] show thesis
      by (auto simp: http_createRoom_def case_prod_beta split: if_splits option.splits
          dest: requireFields_status)
  next
    case (Route_heartbeat room)
    obtain ok s where run: "sim_heartbeatHost (actorIdFrom headers) (JStr room) (bd_simulation b) = (ok, s)"
      by fastforce
    show thesis
    proof (cases "truthy (actorIdFrom headers) \<and> ok")
      case True
      with serve Route_heartbeat run that(3) [OF hs, of "JStr room"] show thesis
        by (auto simp: http_heartbeatHost_def)
    next
      case False
      with serve Route_heartbeat run sim_heartbeat_False status same show thesis
        by (auto simp: http_heartbeatHost_def split: if_splits)
    qed
  next
    case (Route_createInvite room)
    obtain res s where run: "sim_createInvite h c (dr_token dr) (dr_uuid dr) (dr_simHandle dr)
        (actorIdFrom headers) (JStr room) (bd_simulation b) = (res, s)"
      by fastforce
    with serve Route_createInvite same status that(6) [OF hs] sim_invite_Inl show thesis
      by (cases res) (fastforce simp: http_createInvite_def Let_def split: if_splits)+
  next
    case (Route_revokeInvite hd)
    let ?i = "case jm_get (bd_inviteHandles b) (JStr hd) of None \<Rightarrow> JUndef | Some ib \<Rightarrow> ib_inviteId ib"
    obtain res s where run: "sim_revokeInvite (actorIdFrom headers) ?i (bd_simulation b) = (res, s)"
      by fastforce
    with serve Route_revokeInvite same status that(4) [OF hs, of ?i] sim_revoke_Inl show thesis
      by (cases res) (auto simp: http_revokeInvite_def Let_def split: if_splits)
  next
    case (Route_safeInvite hd)
    with serve same show thesis
      by (auto simp: http_readSafeInviteStatus_def Let_def split: safe_invite.splits)
  next
    case Route_joinRequest
    let ?ib = "jm_get (bd_inviteHandles b) (jget body ''inviteHandle'')"
    obtain res s where run: "sim_createJoinRequest h c (dr_uuid dr) (map_option ib_token ?ib)
        (jget body ''friendId'') (jget body ''minecraftUuid'') (jget body ''displayName'')
        (bd_simulation b) = (res, s)"
      by fastforce
    show thesis
    proof (cases "requireFields body [''inviteHandle'', ''friendId'', ''minecraftUuid'', ''displayName'']")
      case (Some r')
      with serve Route_joinRequest same requireFields_status [OF Some] show thesis
        by (simp add: http_createJoinRequest_def)
    next
      case complete: None
      show thesis
      proof (cases res)
        case (Inl e)
        with serve Route_joinRequest run same status complete sim_join_Inl [of h c] show thesis
          by (auto simp: http_createJoinRequest_def Let_def)
      next
        case (Inr x)
        obtain rid st where x: "x = (rid, st)" by (cases x)
        from serve Route_joinRequest run complete Inr x obtain ib where ib: "?ib = Some ib"
          by (auto simp: http_createJoinRequest_def Let_def split: option.splits)
        from serve Route_joinRequest run complete Inr x ib show thesis
          by (intro that(7) [of "jget body ''inviteHandle''" ib]) (auto simp: http_createJoinRequest_def Let_def)
      qed
    qed
  next
    case (Route_queue room)
    with serve same status show thesis
      by (auto simp: http_readApprovalQueue_def split: if_splits sum.splits)
  next
    case (Route_decision rid)
    obtain res s where run: "sim_decideJoinRequest (actorIdFrom headers) (JStr rid)
        (jget body ''decision'') (bd_simulation b) = (res, s)"
      by fastforce
    with serve Route_decision same status that(5) [OF hs, of "JStr rid" "jget body ''decision''"]
      sim_decide_Inl show thesis
      by (cases res) (auto simp: http_decideJoinRequest_def split: if_splits)
  next
    case Route_session
    let ?rb = "jm_get (bd_requestBindings b) (jget body ''requestId'')"
    obtain res s where run: "sim_issueSession c (dr_uuid dr) (jget body ''requestId'')
        (case ?rb of None \<Rightarrow> JUndef | Some rb \<Rightarrow> rb_roomId rb)
        (case ?rb of None \<Rightarrow> JUndef | Some rb \<Rightarrow> rb_inviteId rb)
        (jget body ''minecraftUuid'') (bd_simulation b) = (res, s)"
      by fastforce
    show thesis
    proof (cases "actorTypeFrom headers = JStr (actor_str SERVICE)")
      case False
      with serve Route_session same status show thesis by (auto simp: http_issueSession_def)
    next
      case service: True
      show thesis
      proof (cases "requireFields body [''requestId'', ''minecraftUuid'']")
        case (Some r')
        with serve Route_session service same requireFields_status [OF Some] show thesis
          by (simp add: http_issueSession_def)
      next
        case complete: None
        show thesis
        proof (cases res)
          case (Inl e)
          with serve Route_session run same status service complete sim_issue_Inl [of c] show thesis
            by (auto simp: http_issueSession_def Let_def)
        next
          case (Inr x)
          with serve Route_session run service complete show thesis
            by (cases x) (intro that(8) [OF hs], auto simp: http_issueSession_def Let_def)
        qed
      qed
    qed
  next
    case Route_not_found
    with serve same show thesis by auto
  qed
qed

section \<open>The boundary as a state machine\<close>

text \<open>
  Time passes and requests arrive. What the environment guarantees: the clock does not run
  backwards, and what a request draws was not drawn before (the identifiers, the handle, and the
  hash of the invite token).
\<close>

datatype http_op = HttpTick int | HttpServe drawn http_request

fun http_exec :: "(string \<Rightarrow> string) \<Rightarrow> sim_config \<Rightarrow> http_op \<Rightarrow> http_boundary \<Rightarrow> http_boundary" where
  "http_exec h c (HttpTick ms) b = b\<lparr>bd_simulation := sim_advance ms (bd_simulation b)\<rparr>"
| "http_exec h c (HttpServe dr request) b =
     (case http_handle h c dr request b of None \<Rightarrow> b | Some (_, b') \<Rightarrow> b')"

definition drawn_fresh :: "(string \<Rightarrow> string) \<Rightarrow> drawn \<Rightarrow> http_boundary \<Rightarrow> bool" where
  "drawn_fresh h dr b \<longleftrightarrow>
     (let s = bd_simulation b in
      \<not> jm_has (sim_rooms s) (JStr (''room_'' @ dr_uuid dr)) \<and>
      \<not> jm_has (sim_invites s) (JStr (''invite_'' @ dr_uuid dr)) \<and>
      \<not> jm_has (sim_approvals s) (JStr (''approval_'' @ dr_uuid dr)) \<and>
      \<not> jm_has (sim_sessions s) (JStr (''session_'' @ dr_uuid dr)) \<and>
      \<not> jm_has (sim_rawTokens s) (h (dr_token dr)) \<and>
      \<not> jm_has (bd_inviteHandles b) (JStr (''invite_handle_'' @ dr_handle dr)) \<and>
      \<not> jm_has (bd_sessionHandles b) (JStr (''session_handle_'' @ dr_handle dr)))"

fun http_adm :: "(string \<Rightarrow> string) \<Rightarrow> http_op \<Rightarrow> http_boundary \<Rightarrow> bool" where
  "http_adm h (HttpTick ms) b = (0 \<le> ms)"
| "http_adm h (HttpServe dr request) b = drawn_fresh h dr b"

abbreviation http_initial :: "http_boundary \<Rightarrow> bool" where
  "http_initial b \<equiv> \<exists>t. b = createControlPlaneHttpBoundary (createControlPlaneSimulation t)"

text \<open>What the bindings say of the simulation's records.\<close>

definition invite_bound :: "(string \<Rightarrow> string) \<Rightarrow> sim \<Rightarrow> invite_binding \<Rightarrow> bool" where
  "invite_bound h s ib \<longleftrightarrow>
     jm_get (sim_rawTokens s) (h (ib_token ib)) = Some (ib_inviteId ib) \<and>
     (\<exists>i. jm_get (sim_invites s) (ib_inviteId ib) = Some i \<and> inv_id i = ib_inviteId ib \<and>
        inv_roomId i = ib_roomId ib \<and> inv_tokenHash i = h (ib_token ib))"

definition request_bound :: "sim \<Rightarrow> jsval \<Rightarrow> request_binding \<Rightarrow> bool" where
  "request_bound s rid rb \<longleftrightarrow>
     (\<exists>r. jm_get (sim_approvals s) rid = Some r \<and> apr_roomId r = rb_roomId rb \<and>
        apr_inviteId r = rb_inviteId rb \<and> apr_minecraftUuid r = rb_minecraftUuid rb)"

definition session_bound :: "sim \<Rightarrow> session_binding \<Rightarrow> bool" where
  "session_bound s sb \<longleftrightarrow>
     (\<exists>ses. jm_get (sim_sessions s) (sb_sessionId sb) = Some ses \<and> ses_requestId ses = sb_requestId sb)"

definition bindings_ok :: "(string \<Rightarrow> string) \<Rightarrow> http_boundary \<Rightarrow> bool" where
  "bindings_ok h b \<longleftrightarrow>
     (\<forall>hd ib. jm_get (bd_inviteHandles b) hd = Some ib \<longrightarrow> invite_bound h (bd_simulation b) ib) \<and>
     (\<forall>rid rb. jm_get (bd_requestBindings b) rid = Some rb \<longrightarrow> request_bound (bd_simulation b) rid rb) \<and>
     (\<forall>hd sb. jm_get (bd_sessionHandles b) hd = Some sb \<longrightarrow> session_bound (bd_simulation b) sb) \<and>
     (\<forall>hd hd' sb sb'. jm_get (bd_sessionHandles b) hd = Some sb \<longrightarrow>
        jm_get (bd_sessionHandles b) hd' = Some sb' \<longrightarrow> sb_requestId sb = sb_requestId sb' \<longrightarrow> hd = hd')"

text \<open>A step of the simulation keeps every binding; a token hash is not bound again.\<close>

lemma token_kept:
  assumes "sim_exec h c a s = s'" and "jm_get (sim_rawTokens s) th = Some k"
    and "\<And>tok u hu actor room. a = OpCreateInvite tok u hu actor room \<Longrightarrow> h tok \<noteq> th"
  shows "jm_get (sim_rawTokens s') th = Some k"
  using assms(1) by (cases rule: sim_exec_cases) (use assms(2,3) in auto)

lemma session_kept:
  assumes "sim_exec h c a s = s'" and "sim_adm a s" and "jm_get (sim_sessions s) k = Some ses"
  shows "jm_get (sim_sessions s') k = Some ses"
  using assms(1) by (cases rule: sim_exec_cases) (use assms(2,3) in auto)

definition token_fresh :: "(string \<Rightarrow> string) \<Rightarrow> sim_op \<Rightarrow> sim \<Rightarrow> bool" where
  "token_fresh h a s = (case a of
     OpCreateInvite tok u hu actor room \<Rightarrow> \<not> jm_has (sim_rawTokens s) (h tok) | _ \<Rightarrow> True)"

lemma bound_kept:
  assumes step: "sim_exec h c a s = s'" and adm: "sim_adm a s" and tok: "token_fresh h a s"
  shows "invite_bound h s ib \<Longrightarrow> invite_bound h s' ib"
    and "request_bound s rid rb \<Longrightarrow> request_bound s' rid rb"
    and "session_bound s sb \<Longrightarrow> session_bound s' sb"
proof -
  assume ib: "invite_bound h s ib"
  then obtain i where i: "jm_get (sim_invites s) (ib_inviteId ib) = Some i" "inv_id i = ib_inviteId ib"
      "inv_roomId i = ib_roomId ib" "inv_tokenHash i = h (ib_token ib)"
    and t: "jm_get (sim_rawTokens s) (h (ib_token ib)) = Some (ib_inviteId ib)"
    by (auto simp: invite_bound_def)
  have "jm_get (sim_rawTokens s') (h (ib_token ib)) = Some (ib_inviteId ib)"
    by (rule token_kept [OF step t]) (use tok t in \<open>auto simp: token_fresh_def\<close>)
  with invite_kept [OF step adm i(1)] i show "invite_bound h s' ib"
    by (auto simp: invite_bound_def)
next
  assume "request_bound s rid rb"
  with approval_kept [OF step adm, of rid] show "request_bound s' rid rb"
    by (fastforce simp: request_bound_def)
next
  assume "session_bound s sb"
  with session_kept [OF step adm] show "session_bound s' sb"
    by (fastforce simp: session_bound_def)
qed

lemma bindings_kept:
  assumes "sim_exec h c a (bd_simulation b) = s'" and "sim_adm a (bd_simulation b)"
    and "token_fresh h a (bd_simulation b)" and "bindings_ok h b"
  shows "bindings_ok h (b\<lparr>bd_simulation := s'\<rparr>)"
  using assms(4) bound_kept [OF assms(1-3)] unfolding bindings_ok_def by simp

definition http_inv :: "(string \<Rightarrow> string) \<Rightarrow> sim_config \<Rightarrow> http_boundary \<Rightarrow> bool" where
  "http_inv h c b \<longleftrightarrow> sim_reach h c (bd_simulation b) \<and> bindings_ok h b"

lemma http_inv_same_op:
  assumes "http_inv h c b" and "sim_adm a (bd_simulation b)" and "token_fresh h a (bd_simulation b)"
  shows "http_inv h c (b\<lparr>bd_simulation := sim_exec h c a (bd_simulation b)\<rparr>)"
  using assms bindings_kept [OF refl assms(2,3)] reach_step [of _ _ _ _ a]
  unfolding http_inv_def by fastforce

lemma http_inv_handle:
  assumes inv: "http_inv h c b" and fresh: "drawn_fresh h dr b"
    and handled: "http_handle h c dr request b = Some (r, b')"
  shows "http_inv h c b'"
  using handled
proof (cases rule: http_handle_cases)
  case Same
  with inv show ?thesis by simp
next
  case (Room headers al mc pk)
  with http_inv_same_op [OF inv, of "OpCreateRoom (dr_uuid dr) (actorIdFrom headers) al mc pk"] fresh
  show ?thesis by (simp add: token_fresh_def drawn_fresh_def Let_def)
next
  case (Heartbeat headers room)
  with http_inv_same_op [OF inv, of "OpHeartbeat (actorIdFrom headers) room"]
  show ?thesis by (simp add: token_fresh_def)
next
  case (Revoke headers i)
  with http_inv_same_op [OF inv, of "OpRevokeInvite (actorIdFrom headers) i"]
  show ?thesis by (simp add: token_fresh_def)
next
  case (Decide headers rid d)
  with http_inv_same_op [OF inv, of "OpDecide (actorIdFrom headers) rid d"]
  show ?thesis by (simp add: token_fresh_def)
next
  case (Invite headers room ci s)
  let ?op = "OpCreateInvite (dr_token dr) (dr_uuid dr) (dr_simHandle dr) (actorIdFrom headers) room"
  have s: "sim_exec h c ?op (bd_simulation b) = s" by (simp add: Invite(4))
  have "http_inv h c (b\<lparr>bd_simulation := s\<rparr>)"
    using http_inv_same_op [OF inv, of ?op] fresh
    by (simp add: s [symmetric] token_fresh_def drawn_fresh_def Let_def)
  moreover have "invite_bound h s
      \<lparr>ib_token = ci_token ci, ib_inviteId = ci_inviteId ci, ib_roomId = room\<rparr>"
    using Invite(4) by (auto simp: sim_invite_Inr invite_bound_def)
  ultimately show ?thesis
    using Invite(5) unfolding http_inv_def bindings_ok_def by auto
next
  case (Join hd ib f mu d rid st s)
  let ?op = "OpCreateJoinRequest (dr_uuid dr) (Some (ib_token ib)) f mu d"
  have s: "sim_exec h c ?op (bd_simulation b) = s" by (simp add: Join(3))
  have "http_inv h c (b\<lparr>bd_simulation := s\<rparr>)"
    using http_inv_same_op [OF inv, of ?op] fresh
    by (simp add: s [symmetric] token_fresh_def drawn_fresh_def Let_def)
  moreover have "request_bound s rid
      \<lparr>rb_roomId = ib_roomId ib, rb_inviteId = ib_inviteId ib, rb_minecraftUuid = mu\<rparr>"
  proof -
    obtain i rm where i: "resolveInviteByToken h (Some (ib_token ib)) (bd_simulation b) = Some i"
      and rm: "jm_get (sim_rooms (bd_simulation b)) (inv_roomId i) = Some rm"
      and s': "jm_get (sim_approvals s) rid = Some \<lparr>apr_id = rid, apr_roomId = room_id rm,
          apr_inviteId = inv_id i, apr_friendId = f, apr_minecraftUuid = mu, apr_displayName = d,
          apr_st = st, apr_createdAt = sim_now (bd_simulation b), apr_sessionIssued = False\<rparr>"
      using Join(3) by (auto simp: sim_join_Inr)
    from inv Join(2) have "invite_bound h (bd_simulation b) ib"
      by (auto simp: http_inv_def bindings_ok_def)
    with i have "inv_id i = ib_inviteId ib" "inv_roomId i = ib_roomId ib"
      by (auto simp: invite_bound_def resolveInviteByToken_def split: if_splits)
    moreover have "room_id rm = inv_roomId i"
      using inv sim_machine.reach_inv [of h c "bd_simulation b"] rm
      by (auto simp: http_inv_def sim_inv_def rooms_ok_def)
    ultimately show ?thesis using s' by (simp add: request_bound_def)
  qed
  ultimately show ?thesis
    using Join(4) unfolding http_inv_def bindings_ok_def by auto
next
  case (Session headers rid room i mu sid exp s)
  let ?op = "OpIssueSession (dr_uuid dr) rid room i mu"
  have s: "sim_exec h c ?op (bd_simulation b) = s" by (simp add: Session(4))
  have "http_inv h c (b\<lparr>bd_simulation := s\<rparr>)"
    using http_inv_same_op [OF inv, of ?op] fresh
    by (simp add: s [symmetric] token_fresh_def drawn_fresh_def Let_def)
  moreover have "session_bound s \<lparr>sb_sessionId = sid, sb_requestId = rid\<rparr>"
    using Session(4) by (auto simp: sim_issue_Inr session_bound_def)
  moreover have "sb_requestId sb \<noteq> rid" if sb: "jm_get (bd_sessionHandles b) hd = Some sb" for hd sb
  proof
    assume eq: "sb_requestId sb = rid"
    from inv sb obtain ses where ses: "jm_get (sim_sessions (bd_simulation b)) (sb_sessionId sb) = Some ses"
        "ses_requestId ses = rid"
      unfolding http_inv_def bindings_ok_def session_bound_def eq [symmetric] by blast
    from inv have "sessions_ok c (bd_simulation b)"
      using sim_machine.reach_inv [of h c "bd_simulation b"] by (simp add: http_inv_def sim_inv_def)
    with ses obtain rq where "jm_get (sim_approvals (bd_simulation b)) rid = Some rq" "apr_sessionIssued rq"
      unfolding sessions_ok_def by blast
    with Session(4) show False by (auto simp: sim_issue_Inr)
  qed
  ultimately show ?thesis
    using Session(5) unfolding http_inv_def bindings_ok_def by auto
qed

interpretation http_machine: invariant http_initial "http_adm h" "http_exec h c" "http_inv h c"
  for h :: "string \<Rightarrow> string" and c :: sim_config
proof unfold_locales
  show "http_inv h c b" if "http_initial b" for b
    using that by (auto simp: http_inv_def bindings_ok_def createControlPlaneHttpBoundary_def
        intro!: reach_init)
  show "http_inv h c (http_exec h c a b)" if "http_inv h c b" "http_adm h a b" for b a
  proof (cases a)
    case (HttpTick ms)
    with that http_inv_same_op [of h c b "OpAdvance ms"] show ?thesis by (simp add: token_fresh_def)
  next
    case (HttpServe dr request)
    with that http_inv_handle [of h c b dr request] show ?thesis
      by (auto split: option.split)
  qed
qed

lemma http_step:
  assumes "http_adm h a b"
  shows "bd_simulation (http_exec h c a b) = bd_simulation b \<or>
    (\<exists>op. sim_adm op (bd_simulation b) \<and> bd_simulation (http_exec h c a b) = sim_exec h c op (bd_simulation b))"
proof (cases a)
  case (HttpTick ms)
  with assms show ?thesis by (intro disjI2 exI [of _ "OpAdvance ms"]) simp
next
  case (HttpServe dr request)
  show ?thesis
  proof (cases "http_handle h c dr request b")
    case None
    with HttpServe show ?thesis by simp
  next
    case (Some rb)
    obtain r b' where rb: "rb = (r, b')" by (cases rb)
    from assms HttpServe have fresh: "drawn_fresh h dr b" by simp
    have "bd_simulation b' = bd_simulation b \<or>
        (\<exists>op. sim_adm op (bd_simulation b) \<and> bd_simulation b' = sim_exec h c op (bd_simulation b))"
      using Some [unfolded rb]
    proof (cases rule: http_handle_cases)
      case (Room headers al mc pk)
      with fresh show ?thesis
        by (intro disjI2 exI [of _ "OpCreateRoom (dr_uuid dr) (actorIdFrom headers) al mc pk"])
          (simp add: drawn_fresh_def Let_def)
    next
      case (Heartbeat headers room)
      then show ?thesis by (intro disjI2 exI [of _ "OpHeartbeat (actorIdFrom headers) room"]) simp
    next
      case (Revoke headers i)
      then show ?thesis by (intro disjI2 exI [of _ "OpRevokeInvite (actorIdFrom headers) i"]) simp
    next
      case (Decide headers rid d)
      then show ?thesis by (intro disjI2 exI [of _ "OpDecide (actorIdFrom headers) rid d"]) simp
    next
      case (Invite headers room ci s)
      with fresh show ?thesis
        by (intro disjI2 exI [of _ "OpCreateInvite (dr_token dr) (dr_uuid dr) (dr_simHandle dr)
              (actorIdFrom headers) room"]) (simp add: drawn_fresh_def Let_def)
    next
      case (Join hd ib f mu d rid st s)
      with fresh show ?thesis
        by (intro disjI2 exI [of _ "OpCreateJoinRequest (dr_uuid dr) (Some (ib_token ib)) f mu d"])
          (simp add: drawn_fresh_def Let_def)
    next
      case (Session headers rid room i mu sid exp s)
      with fresh show ?thesis
        by (intro disjI2 exI [of _ "OpIssueSession (dr_uuid dr) rid room i mu"])
          (simp add: drawn_fresh_def Let_def)
    qed simp
    with HttpServe Some rb show ?thesis by simp
  qed
qed

text \<open>Serving never throws: without a binding no token reaches the simulation.\<close>

lemma http_serve_total: "http_serve h c dr route headers body b \<noteq> None"
proof (cases route)
  case Route_joinRequest
  then show ?thesis
    by (auto simp: http_createJoinRequest_def Let_def sim_join_Inr resolveInviteByToken_def
        split: option.split sum.split prod.split)
qed simp_all

text \<open>What the router passes on: the headers made of the derived actor.\<close>

lemma routed_request:
  assumes "wb_deriveActor w request = Some actor" and "router_handler w route dr request b = Some x"
  obtains hr headers where "http_handle (wb_sha256 w) (wb_config w) dr hr b = Some x"
    and "normalizeHeaders (hq_headers hr) = Some headers"
    and "actorIdFrom headers = (if truthy (actor_id actor) then actor_id actor else JUndef)"
    and "actorTypeFrom headers = (if truthy (actor_type actor) then actor_type actor else JUndef)"
proof -
  from assms obtain hs hr where hs: "trustedActorHeaders actor = Some hs"
    and hr: "http_handle (wb_sha256 w) (wb_config w) dr hr b = Some x" "hq_headers hr = hs"
    by (auto simp: router_handler_def router_inject_def web_handle_def bind_eq_Some_conv)
  have keys: "toLowerCase ''x-actor-id'' = ''x-actor-id''" "toLowerCase ''x-actor-type'' = ''x-actor-type''"
    by code_simp+
  have "hq_headers hr = JObj
       ((if truthy (actor_id actor) then [(''x-actor-id'', actor_id actor)] else []) @
        (if truthy (actor_type actor) then [(''x-actor-type'', actor_type actor)] else []))"
    using hs hr(2) by (auto simp: trustedActorHeaders_def split: if_splits)
  then show thesis
    by (intro that [OF hr(1), of "js_entries (hq_headers hr)"])
      (simp_all add: normalizeHeaders_def keys fromEntries_def actorIdFrom_def actorTypeFrom_def
        header_of_def)
qed

section \<open>Properties\<close>

text \<open>A room is opened, an invite made, a friend asks, is approved, and a session is issued.\<close>

definition demo_http_request :: "string \<Rightarrow> string \<Rightarrow> (string \<times> jsval) list \<Rightarrow> (string \<times> jsval) list \<Rightarrow> http_request" where
  "demo_http_request meth path headers body =
     \<lparr>hq_method = JStr meth, hq_path = JStr path, hq_headers = JObj headers, hq_body = JObj body\<rparr>"

definition demo_drawn :: "string \<Rightarrow> drawn" where
  "demo_drawn u = \<lparr>dr_uuid = u, dr_simHandle = u, dr_token = u, dr_handle = u\<rparr>"

definition demo_http :: "http_op list" where
  "demo_http =
    [HttpServe (demo_drawn ''1'') (demo_http_request ''post'' ''/host/rooms/'' [(''X-Actor-Id'', JStr ''host'')]
       [(''alias'', JStr ''A''), (''minecraftVersion'', JStr ''1.21''), (''packProfileName'', JStr ''P'')]),
     HttpTick 1000,
     HttpServe (demo_drawn ''2'') (demo_http_request ''POST'' ''/host/rooms/room_1/invites''
       [(''x-actor-id'', JStr ''host'')] []),
     HttpServe (demo_drawn ''3'') (demo_http_request ''POST'' ''/friend/join-requests'' []
       [(''inviteHandle'', JStr ''invite_handle_2''), (''friendId'', JStr ''f''),
        (''minecraftUuid'', JStr ''m''), (''displayName'', JStr ''F'')]),
     HttpServe (demo_drawn ''4'') (demo_http_request ''POST'' ''/host/join-requests/approval_3/decision''
       [(''x-actor-id'', JStr ''host'')] [(''decision'', JStr ''approved'')]),
     HttpServe (demo_drawn ''5'') (demo_http_request ''POST'' ''/service/sessions''
       [(''x-actor-type'', JStr ''service'')]
       [(''requestId'', JStr ''approval_3''), (''minecraftUuid'', JStr ''m'')])]"

definition demo_boundary :: "nat \<Rightarrow> http_boundary" where
  "demo_boundary n = exec_all (http_exec id default_sim_config) (take n demo_http)
     (createControlPlaneHttpBoundary (createControlPlaneSimulation 0))"

lemma demo_http_adm:
  "adm_all (http_adm id) (http_exec id default_sim_config) demo_http
     (createControlPlaneHttpBoundary (createControlPlaneSimulation 0))"
  by code_simp

lemma demo_http_session:
  "bd_sessionHandles (demo_boundary 6) =
     [(JStr ''session_handle_5'', \<lparr>sb_sessionId = JStr ''session_5'', sb_requestId = JStr ''approval_3''\<rparr>)]"
  by code_simp

lemma demo_http_reach:
  "reach http_initial (http_adm id) (http_exec id default_sim_config) (demo_boundary n)"
  unfolding demo_boundary_def
  by (rule reach_exec_all [OF reach_init adm_all_take [OF demo_http_adm]]) blast

text \<open>
  C18. The boundary implements the simulation: in every reachable state of the boundary the
  simulation inside is a reachable state of the simulation alone, each request is at most one
  admissible operation of it, and every session handle given out stands for a session the
  simulation issued for a request that the host approved and for the same player, one handle per
  request.
\<close>

theorem http_refines_simulation:
  assumes "reach http_initial (http_adm h) (http_exec h c) b"
  shows "sim_reach h c (bd_simulation b) \<and>
    (\<forall>a. http_adm h a b \<longrightarrow>
       bd_simulation (http_exec h c a b) = bd_simulation b \<or>
       (\<exists>op. sim_adm op (bd_simulation b) \<and>
          bd_simulation (http_exec h c a b) = sim_exec h c op (bd_simulation b))) \<and>
    (\<forall>hd sb. jm_get (bd_sessionHandles b) hd = Some sb \<longrightarrow>
       (\<exists>ses r. jm_get (sim_sessions (bd_simulation b)) (sb_sessionId sb) = Some ses \<and>
          jm_get (sim_approvals (bd_simulation b)) (sb_requestId sb) = Some r \<and>
          apr_st r = Approval_APPROVED \<and> ses_minecraftUuid ses = apr_minecraftUuid r \<and>
          ses_roomId ses = apr_roomId r) \<and>
       (\<forall>hd' sb'. jm_get (bd_sessionHandles b) hd' = Some sb' \<longrightarrow>
          sb_requestId sb' = sb_requestId sb \<longrightarrow> hd' = hd))"
proof (intro conjI allI impI)
  have inv: "http_inv h c b" by (rule http_machine.reach_inv [OF assms])
  then show "sim_reach h c (bd_simulation b)" by (simp add: http_inv_def)
  then have sinv: "sim_inv c (bd_simulation b)" by (rule sim_machine.reach_inv)
  show "bd_simulation (http_exec h c a b) = bd_simulation b \<or>
      (\<exists>op. sim_adm op (bd_simulation b) \<and> bd_simulation (http_exec h c a b) = sim_exec h c op (bd_simulation b))"
    if "http_adm h a b" for a
    using that by (rule http_step)
  show "\<exists>ses r. jm_get (sim_sessions (bd_simulation b)) (sb_sessionId sb) = Some ses \<and>
      jm_get (sim_approvals (bd_simulation b)) (sb_requestId sb) = Some r \<and>
      apr_st r = Approval_APPROVED \<and> ses_minecraftUuid ses = apr_minecraftUuid r \<and>
      ses_roomId ses = apr_roomId r"
    if sb: "jm_get (bd_sessionHandles b) hd = Some sb" for hd sb
  proof -
    from inv sb obtain ses where ses: "jm_get (sim_sessions (bd_simulation b)) (sb_sessionId sb) = Some ses"
        "ses_requestId ses = sb_requestId sb"
      unfolding http_inv_def bindings_ok_def session_bound_def by blast
    with sinv obtain r where r: "jm_get (sim_approvals (bd_simulation b)) (sb_requestId sb) = Some r"
        "apr_sessionIssued r" "apr_roomId r = ses_roomId ses" "apr_minecraftUuid r = ses_minecraftUuid ses"
      unfolding sim_inv_def sessions_ok_def by metis
    with sinv have "apr_st r = Approval_APPROVED"
      unfolding sim_inv_def approvals_ok_def by blast
    with ses r show ?thesis by auto
  qed
  show "hd' = hd" if "jm_get (bd_sessionHandles b) hd = Some sb"
      "jm_get (bd_sessionHandles b) hd' = Some sb'" "sb_requestId sb' = sb_requestId sb" for hd sb hd' sb'
    using inv that unfolding http_inv_def bindings_ok_def by metis
qed

theorem http_refines_simulation_witness:
  "sim_reach id default_sim_config (bd_simulation (demo_boundary 6)) \<and>
   jm_get (bd_sessionHandles (demo_boundary 6)) (JStr ''session_handle_5'') \<noteq> None \<and>
   (\<exists>r. jm_get (sim_approvals (bd_simulation (demo_boundary 6))) (JStr ''approval_3'') = Some r \<and>
      apr_st r = Approval_APPROVED)"
proof -
  let ?b = "demo_boundary 6"
  have sb: "jm_get (bd_sessionHandles ?b) (JStr ''session_handle_5'') =
      Some \<lparr>sb_sessionId = JStr ''session_5'', sb_requestId = JStr ''approval_3''\<rparr>"
    by (simp add: demo_http_session)
  note http = http_refines_simulation [OF demo_http_reach [of 6]]
  then have "sim_reach id default_sim_config (bd_simulation ?b)" by blast
  moreover from http [THEN conjunct2, THEN conjunct2, rule_format, OF sb]
  have "\<exists>r. jm_get (sim_approvals (bd_simulation ?b)) (JStr ''approval_3'') = Some r \<and>
      apr_st r = Approval_APPROVED"
    by auto
  ultimately show ?thesis using sb by simp
qed

text \<open>
  C19. Error behaviour of the boundary: it throws exactly when the path is neither absent nor a
  text or the headers are \<open>null\<close>; otherwise it replies with one of six statuses, and a reply
  with an error status leaves the whole state as it was.
\<close>

theorem http_errors:
  "(http_handle h c dr request b = None \<longleftrightarrow>
      (truthy (hq_path request) \<and> (\<forall>p. hq_path request \<noteq> JStr p)) \<or> hq_headers request = JNull) \<and>
   (\<forall>r b'. http_handle h c dr request b = Some (r, b') \<longrightarrow>
      hr_status r \<in> {200, 201, 202, 400, 403, 404} \<and> (400 \<le> hr_status r \<longrightarrow> b' = b))"
proof (intro conjI allI impI)
  have "normalizePath p = None \<longleftrightarrow> truthy p \<and> (\<forall>t. p \<noteq> JStr t)" for p
    by (cases p) (auto simp: normalizePath_def)
  moreover have "normalizeHeaders hs = None \<longleftrightarrow> hs = JNull" for hs
    by (simp add: normalizeHeaders_def)
  ultimately show "http_handle h c dr request b = None \<longleftrightarrow>
      (truthy (hq_path request) \<and> (\<forall>p. hq_path request \<noteq> JStr p)) \<or> hq_headers request = JNull"
    by (auto simp: http_handle_def Let_def bind_eq_None_conv http_serve_total)
next
  fix r b' assume "http_handle h c dr request b = Some (r, b')"
  then show "hr_status r \<in> {200, 201, 202, 400, 403, 404}" and "400 \<le> hr_status r \<Longrightarrow> b' = b"
    by (cases rule: http_handle_cases; auto)+
qed

theorem http_errors_witness:
  "(\<exists>r b'. http_handle id default_sim_config (demo_drawn ''6'')
      (demo_http_request ''POST'' ''/host/rooms/room_1/invites'' [(''x-actor-id'', JStr ''thief'')] [])
      (demo_boundary 6) = Some (r, b') \<and> hr_status r = 403 \<and> b' = demo_boundary 6)"
proof -
  let ?request = "demo_http_request ''POST'' ''/host/rooms/room_1/invites'' [(''x-actor-id'', JStr ''thief'')] []"
  let ?reply = "http_handle id default_sim_config (demo_drawn ''6'') ?request (demo_boundary 6)"
  have "map_option (hr_status \<circ> fst) ?reply = Some 403" by code_simp
  then obtain r b' where "?reply = Some (r, b')" "hr_status r = 403" by auto
  with http_errors [of id default_sim_config "demo_drawn ''6''" ?request "demo_boundary 6"]
  show ?thesis by auto
qed

text \<open>
  C20. Behind the router only the derived actor counts, whatever the request says of itself: a
  handler mounted for any route changes the state of a join request only for the host of its
  room, adds or revokes an invite only for the host of its room, and issues a session only for an
  actor of type \<open>service\<close>.
\<close>

theorem routed_only_derived_actor:
  assumes "wb_deriveActor w request = Some actor"
    and "router_handler w route dr request b = Some (r, b')"
    and "drawn_fresh (wb_sha256 w) dr b"
  shows "(\<forall>rid ap ap'. jm_get (sim_approvals (bd_simulation b)) rid = Some ap \<longrightarrow>
      jm_get (sim_approvals (bd_simulation b')) rid = Some ap' \<longrightarrow> apr_st ap' \<noteq> apr_st ap \<longrightarrow>
      (\<exists>rm. jm_get (sim_rooms (bd_simulation b)) (apr_roomId ap) = Some rm \<and>
         truthy (actor_id actor) \<and> room_hostId rm = actor_id actor)) \<and>
    (\<forall>iid i'. jm_get (sim_invites (bd_simulation b')) iid = Some i' \<longrightarrow>
      jm_get (sim_invites (bd_simulation b)) iid \<noteq> Some i' \<longrightarrow>
      (\<exists>rm. jm_get (sim_rooms (bd_simulation b)) (inv_roomId i') = Some rm \<and>
         truthy (actor_id actor) \<and> room_hostId rm = actor_id actor)) \<and>
    (sim_sessions (bd_simulation b') \<noteq> sim_sessions (bd_simulation b) \<longrightarrow>
      actor_type actor = JStr (actor_str SERVICE))"
proof -
  obtain hr headers where hr: "http_handle (wb_sha256 w) (wb_config w) dr hr b = Some (r, b')"
    and hs: "normalizeHeaders (hq_headers hr) = Some headers"
    and ids: "actorIdFrom headers = (if truthy (actor_id actor) then actor_id actor else JUndef)"
      "actorTypeFrom headers = (if truthy (actor_type actor) then actor_type actor else JUndef)"
    by (rule routed_request [OF assms(1,2)])
  have id: "truthy (actorIdFrom headers) \<Longrightarrow> truthy (actor_id actor) \<and> actorIdFrom headers = actor_id actor"
    by (simp add: ids split: if_splits)
  note fresh = assms(3)
  from hr show ?thesis
  proof (cases rule: http_handle_cases)
    case (Revoke headers' i)
    from Revoke(1) hs have "headers' = headers" by simp
    with Revoke id show ?thesis
      by (cases "sim_revokeInvite (actorIdFrom headers) i (bd_simulation b)";
          cases "fst (sim_revokeInvite (actorIdFrom headers) i (bd_simulation b))")
        (auto simp: sim_revoke_Inr dest: sim_revoke_Inl split: if_splits)
  next
    case (Decide headers' rid d)
    from Decide(1) hs have "headers' = headers" by simp
    with Decide id show ?thesis
      by (cases "sim_decideJoinRequest (actorIdFrom headers) rid d (bd_simulation b)";
          cases "fst (sim_decideJoinRequest (actorIdFrom headers) rid d (bd_simulation b))")
        (auto simp: sim_decide_Inr dest: sim_decide_Inl split: if_splits)
  next
    case (Invite headers' room ci s)
    from Invite(1) hs have "headers' = headers" by simp
    with Invite id show ?thesis by (auto simp: sim_invite_Inr split: if_splits)
  next
    case (Session headers' rid room i mu sid exp s)
    from Session(1) hs have "headers' = headers" by simp
    with Session(2) ids have "actor_type actor = JStr (actor_str SERVICE)" by (auto split: if_splits)
    with Session(4,5) show ?thesis by (auto simp: sim_issue_Inr split: if_splits)
  next
    case (Join hd ib f mu d rid st s)
    with fresh show ?thesis by (auto simp: sim_join_Inr drawn_fresh_def Let_def split: if_splits)
  next
    case (Room headers' al mc pk)
    then show ?thesis by (simp add: sim_createRoom_def Let_def)
  next
    case (Heartbeat headers' room)
    then show ?thesis by (simp add: sim_heartbeatHost_def split: option.split)
  qed simp
qed

text \<open>A request that claims to come from the host, by an actor who is somebody else.\<close>

definition demo_web :: web where
  "demo_web = \<lparr>wb_sha256 = id, wb_config = default_sim_config,
     wb_pathname = (\<lambda>v. case v of JStr p \<Rightarrow> Some p | _ \<Rightarrow> None), wb_json_parse = (\<lambda>t. None),
     wb_deriveActor = (\<lambda>request. Some (JObj [(''id'', JStr ''thief''), (''type'', JStr ''host'')]))\<rparr>"

definition demo_claim :: jsval where
  "demo_claim = JObj [(''method'', JStr ''POST''),
     (''url'', JStr ''/host/join-requests/approval_3/decision''),
     (''headers'', JObj [(''x-actor-id'', JStr ''host'')]), (''body'', JObj [(''decision'', JStr ''approved'')])]"

theorem routed_only_derived_actor_witness:
  "\<exists>r b'. router_handler demo_web (ROUTES ! 8) (demo_drawn ''6'') demo_claim (demo_boundary 4) = Some (r, b') \<and>
     sim_sessions (bd_simulation b') = sim_sessions (bd_simulation (demo_boundary 4))"
proof -
  let ?run = "router_handler demo_web (ROUTES ! 8) (demo_drawn ''6'') demo_claim (demo_boundary 4)"
  have "map_option (hr_status \<circ> fst) ?run = Some 403" by code_simp
  then obtain r b' where run: "?run = Some (r, b')" by auto
  have actor: "wb_deriveActor demo_web demo_claim = Some (JObj [(''id'', JStr ''thief''), (''type'', JStr ''host'')])"
    by (simp add: demo_web_def)
  have fresh: "drawn_fresh (wb_sha256 demo_web) (demo_drawn ''6'') (demo_boundary 4)" by code_simp
  have "sim_sessions (bd_simulation b') = sim_sessions (bd_simulation (demo_boundary 4))"
    using routed_only_derived_actor [OF actor run fresh, THEN conjunct2, THEN conjunct2]
    by (simp add: actor_type_def enum_strs)
  with run show ?thesis by blast
qed

end
