(* ===== verification/JsNumber.thy ===== *)
theory JsNumber
  imports JsOps Complex_Main
begin

text \<open>
  Numbers made of other values: \<open>Number(v)\<close>, \<open>Number.parseInt(s, 10)\<close>, comparison. A text is read
  exactly, as a rational number; the rounding of a text with more digits than a double holds is
  not modelled.
\<close>

datatype jsnum = NaN | Infinite bool | Fin rat

fun digit_val :: "char \<Rightarrow> nat" where
  "digit_val x = (let n = of_char x :: nat in
     if is_digit x then n - 48 else if is_lower x then n - 87 else if is_upper x then n - 55 else 99)"

definition in_base :: "nat \<Rightarrow> string \<Rightarrow> jsnum" where
  "in_base r s =
    (if s \<noteq> [] \<and> list_all (\<lambda>x. digit_val x < r) s
     then Fin (of_nat (foldl (\<lambda>n x. n * r + digit_val x) 0 s)) else NaN)"

text \<open>An optional sign.\<close>

fun signed :: "string \<Rightarrow> bool \<times> string" where
  "signed (x # xs) = (if x = CHR ''-'' then (True, xs) else if x = CHR ''+'' then (False, xs) else (False, x # xs))"
| "signed [] = (False, [])"

definition pow10 :: "int \<Rightarrow> rat" where
  "pow10 e = (if 0 \<le> e then of_nat (10 ^ nat e) else 1 / of_nat (10 ^ nat (- e)))"

text \<open>The exponent part of a decimal text: \<open>None\<close> when what is left is not one.\<close>

fun exponent :: "string \<Rightarrow> int option" where
  "exponent [] = Some 0"
| "exponent (x # xs) =
    (if x = CHR ''e'' \<or> x = CHR ''E''
     then (case signed xs of (neg, ds) \<Rightarrow>
       if ds \<noteq> [] \<and> list_all is_digit ds
       then Some (if neg then - int (undigits ds) else int (undigits ds)) else None)
     else None)"

definition decimal :: "string \<Rightarrow> jsnum" where
  "decimal s =
    (let whole = takeWhile is_digit s;
         rest = dropWhile is_digit s;
         point = (case rest of x # _ \<Rightarrow> x = CHR ''.'' | [] \<Rightarrow> False);
         frac = (if point then takeWhile is_digit (tl rest) else []);
         rest' = (if point then dropWhile is_digit (tl rest) else rest)
     in if whole = [] \<and> frac = [] then NaN
        else (case exponent rest' of
          None \<Rightarrow> NaN
        | Some e \<Rightarrow> Fin (of_nat (undigits (whole @ frac)) * pow10 (e - int (length frac)))))"

definition negate :: "bool \<Rightarrow> jsnum \<Rightarrow> jsnum" where
  "negate neg x = (case x of NaN \<Rightarrow> NaN | Infinite b \<Rightarrow> Infinite (if neg then \<not> b else b)
     | Fin q \<Rightarrow> Fin (if neg then - q else q))"

definition str_number :: "string \<Rightarrow> jsnum" where
  "str_number s =
    (let t = js_trim s in
     if t = [] then Fin 0
     else if js_startsWith t ''0x'' \<or> js_startsWith t ''0X'' then in_base 16 (drop 2 t)
     else if js_startsWith t ''0o'' \<or> js_startsWith t ''0O'' then in_base 8 (drop 2 t)
     else if js_startsWith t ''0b'' \<or> js_startsWith t ''0B'' then in_base 2 (drop 2 t)
     else (case signed t of (neg, u) \<Rightarrow>
       negate neg (if u = ''Infinity'' then Infinite True else decimal u)))"

fun js_number :: "jsval \<Rightarrow> jsnum" where
  "js_number JUndef = NaN"
| "js_number JNull = Fin 0"
| "js_number (JBool b) = Fin (if b then 1 else 0)"
| "js_number (JNum n) = Fin (of_int n)"
| "js_number v = str_number (js_string v)"

fun num_less :: "jsnum \<Rightarrow> jsnum \<Rightarrow> bool" where
  "num_less (Fin p) (Fin q) = (p < q)"
| "num_less (Fin p) (Infinite b) = b"
| "num_less (Infinite b) (Fin q) = (\<not> b)"
| "num_less (Infinite b) (Infinite b') = (\<not> b \<and> b')"
| "num_less _ _ = False"

text \<open>The integer a value is as a number, if it is one: \<open>Number.isInteger(Number(v))\<close>.\<close>

definition as_integer :: "jsval \<Rightarrow> int option" where
  "as_integer v = (case js_number v of Fin q \<Rightarrow> if of_int \<lfloor>q\<rfloor> = q then Some \<lfloor>q\<rfloor> else None | _ \<Rightarrow> None)"

lemma as_integer_JNum [simp]: "as_integer (JNum n) = Some n"
  by (simp add: as_integer_def)

text \<open>\<open>Number.parseInt(s, 10)\<close>: \<open>None\<close> is \<open>NaN\<close>.\<close>

definition parse_int :: "string \<Rightarrow> int option" where
  "parse_int s =
    (case signed (dropWhile is_space s) of (neg, u) \<Rightarrow>
      (let ds = takeWhile is_digit u in
       if ds = [] then None else Some (if neg then - int (undigits ds) else int (undigits ds))))"

lemma undigits_0: "undigits (digits 0) = 0"
  by simp

lemma takeWhile_digits [simp]: "takeWhile is_digit (digits n) = digits n"
  using digits_all by (simp add: takeWhile_eq_all_conv)

lemma digits_head: "digits n = x # xs \<Longrightarrow> is_digit x"
  using digits_all [of x n] by simp

lemma signed_digit: "is_digit x \<Longrightarrow> signed (x # xs) = (False, x # xs)"
  by (auto simp: is_digit_def between_def)

lemma space_digit: "is_digit x \<Longrightarrow> \<not> is_space x"
  by (auto simp: is_digit_def between_def is_space_def)

text \<open>A printed number is read back.\<close>

lemma parse_int_digits: "parse_int (digits n) = Some (int n)"
proof (cases "digits n")
  case (Cons x xs)
  then have x: "is_digit x" by (rule digits_head)
  from x have d: "dropWhile is_space (digits n) = digits n" by (simp add: Cons space_digit)
  have s: "signed (digits n) = (False, digits n)" by (simp only: Cons signed_digit [OF x])
  show ?thesis by (simp add: parse_int_def d s Let_def)
qed simp

end
