(* ===== verification/HostRuntime.thy ===== *)
theory HostRuntime
  imports JsNumber
begin

text \<open>
  \<open>apps/desktop/src/runtime/host-runtime.mjs\<close>: the plan for running a room on the host's
  machine (validation, the folder layout, the files to install, the command), the lifecycle of the
  room's process, the redaction of its log lines and what the host sees of a join request.

  Inputs, layouts and plans are objects (\<open>jsval\<close>), as in the code; a failure is its reason
  (\<open>Inl\<close>), whose message \<open>failureMessages\<close> gives; \<open>None\<close> is a thrown \<open>TypeError\<close>. The
  Korean titles of the approval states are constructors.
\<close>

section \<open>States and reasons\<close>

datatype host_state = HS_STOPPED | HS_READY | HS_STARTING | HS_RUNNING | HS_STOPPING
  | HS_RESTARTING | HS_CRASHED | HS_FAILED

primrec host_state_str :: "host_state \<Rightarrow> string" where
  "host_state_str HS_STOPPED = ''stopped''"
| "host_state_str HS_READY = ''ready''"
| "host_state_str HS_STARTING = ''starting''"
| "host_state_str HS_RUNNING = ''running''"
| "host_state_str HS_STOPPING = ''stopping''"
| "host_state_str HS_RESTARTING = ''restarting''"
| "host_state_str HS_CRASHED = ''crashed''"
| "host_state_str HS_FAILED = ''failed''"

definition HostRuntimeStates :: "host_state list" where
  "HostRuntimeStates = [HS_STOPPED, HS_READY, HS_STARTING, HS_RUNNING, HS_STOPPING, HS_RESTARTING,
     HS_CRASHED, HS_FAILED]"

datatype host_action = HA_PREPARE | HA_START | HA_STOP | HA_RESTART

primrec host_action_str :: "host_action \<Rightarrow> string" where
  "host_action_str HA_PREPARE = ''prepare''"
| "host_action_str HA_START = ''start''"
| "host_action_str HA_STOP = ''stop''"
| "host_action_str HA_RESTART = ''restart''"

datatype host_failure = HF_UNSUPPORTED_VERSION | HF_JAVA_MISSING | HF_JAVA_INCOMPATIBLE
  | HF_EULA_REQUIRED | HF_FABRIC_CHECKSUM_FAILED | HF_FABRIC_BOOTSTRAP_FAILED | HF_PACK_NOT_FIXED
  | HF_PACK_CHECKSUM_FAILED | HF_ROOM_CRASHED | HF_SERVER_UUID_MISSING | HF_LOADER_UNAVAILABLE
  | HF_MOD_CHECKSUM_FAILED | HF_CACHE_LAYOUT_INVALID

primrec host_failure_str :: "host_failure \<Rightarrow> string" where
  "host_failure_str HF_UNSUPPORTED_VERSION = ''unsupported_version''"
| "host_failure_str HF_JAVA_MISSING = ''java_missing''"
| "host_failure_str HF_JAVA_INCOMPATIBLE = ''java_incompatible''"
| "host_failure_str HF_EULA_REQUIRED = ''eula_required''"
| "host_failure_str HF_FABRIC_CHECKSUM_FAILED = ''fabric_checksum_failed''"
| "host_failure_str HF_FABRIC_BOOTSTRAP_FAILED = ''fabric_bootstrap_failed''"
| "host_failure_str HF_PACK_NOT_FIXED = ''pack_not_fixed''"
| "host_failure_str HF_PACK_CHECKSUM_FAILED = ''pack_checksum_failed''"
| "host_failure_str HF_ROOM_CRASHED = ''room_crashed''"
| "host_failure_str HF_SERVER_UUID_MISSING = ''server_uuid_missing''"
| "host_failure_str HF_LOADER_UNAVAILABLE = ''loader_unavailable''"
| "host_failure_str HF_MOD_CHECKSUM_FAILED = ''mod_checksum_failed''"
| "host_failure_str HF_CACHE_LAYOUT_INVALID = ''cache_layout_invalid''"

primrec host_failure_message :: "host_failure \<Rightarrow> string" where
  "host_failure_message HF_UNSUPPORTED_VERSION = ''Choose a supported Minecraft version before opening this room.''"
| "host_failure_message HF_JAVA_MISSING = ''Install Java 21 or newer before opening this room.''"
| "host_failure_message HF_JAVA_INCOMPATIBLE = ''Update Java before opening this room.''"
| "host_failure_message HF_EULA_REQUIRED = ''Accept the Minecraft EULA before opening this room.''"
| "host_failure_message HF_FABRIC_CHECKSUM_FAILED = ''Room setup files did not match the expected download.''"
| "host_failure_message HF_FABRIC_BOOTSTRAP_FAILED = ''Finish room setup before opening this room.''"
| "host_failure_message HF_PACK_NOT_FIXED = ''Use the fixed room pack before opening this room.''"
| "host_failure_message HF_PACK_CHECKSUM_FAILED = ''The selected room pack did not match the expected download.''"
| "host_failure_message HF_ROOM_CRASHED = ''The room stopped unexpectedly. Try opening it again.''"
| "host_failure_message HF_SERVER_UUID_MISSING = ''Wait for Minecraft to finish identifying the friend before approving.''"
| "host_failure_message HF_LOADER_UNAVAILABLE = ''Use a supported room version before opening this room.''"
| "host_failure_message HF_MOD_CHECKSUM_FAILED = ''One of the room setup files did not match the expected download.''"
| "host_failure_message HF_CACHE_LAYOUT_INVALID = ''Choose a room folder the app can use for setup files.''"

definition MINIMUM_JAVA_MAJOR :: int where
  "MINIMUM_JAVA_MAJOR = 21"

text \<open>What \<open>fail(reason)\<close> returns.\<close>

definition host_fail :: "host_failure \<Rightarrow> jsval" where
  "host_fail reason = JObj [(''ok'', JBool False), (''failure'', JObj
     [(''reason'', JStr (host_failure_str reason)), (''message'', JStr (host_failure_message reason))])]"

section \<open>Paths\<close>

fun collapse_slashes :: "string \<Rightarrow> string" where
  "collapse_slashes (x # y # zs) =
     (if x = CHR ''/'' \<and> y = CHR ''/'' then collapse_slashes (y # zs)
      else x # collapse_slashes (y # zs))"
| "collapse_slashes s = s"

definition unify_slashes :: "string \<Rightarrow> string" where
  "unify_slashes = map (\<lambda>x. if x = CHR 0x5C then CHR ''/'' else x)"

text \<open>The last replacement of \<open>joinPath\<close>, of a drive by itself, changes nothing.\<close>

definition joinPath :: "jsval list \<Rightarrow> string" where
  "joinPath parts = collapse_slashes (unify_slashes (js_join ''/'' (map js_string (filter truthy parts))))"

definition normalizeRoot :: "jsval \<Rightarrow> string" where
  "normalizeRoot path = joinPath [path]"

definition segment_start :: "char \<Rightarrow> bool" where
  "segment_start x \<longleftrightarrow> is_digit x \<or> is_upper x \<or> is_lower x"

definition segment_char :: "char \<Rightarrow> bool" where
  "segment_char x \<longleftrightarrow> segment_start x \<or> x = CHR ''.'' \<or> x = CHR ''_'' \<or> x = CHR ''-''"

definition isSafePathSegment :: "jsval \<Rightarrow> bool" where
  "isSafePathSegment v =
    (case v of
       JStr s \<Rightarrow> s \<noteq> [] \<and> s \<noteq> ''.'' \<and> s \<noteq> ''..'' \<and>
         (case s of x # xs \<Rightarrow> segment_start x \<and> list_all segment_char xs | [] \<Rightarrow> False) \<and>
         \<not> js_includes s ''/'' \<and> \<not> js_includes s [CHR 0x5C] \<and> \<not> js_includes s '':''
     | _ \<Rightarrow> False)"

definition isSafeFileName :: "jsval \<Rightarrow> bool" where
  "isSafeFileName v \<longleftrightarrow> isSafePathSegment v \<and> js_endsWith (js_string v) ''.jar''"

definition hasParentPathSegment :: "string \<Rightarrow> bool" where
  "hasParentPathSegment path \<longleftrightarrow> ''..'' \<in> set (js_split CHR ''/'' (unify_slashes path))"

definition isSafeAppDataRoot :: "jsval \<Rightarrow> bool" where
  "isSafeAppDataRoot v =
    (case v of JStr s \<Rightarrow> js_trim s \<noteq> [] \<and> CHR 0x00 \<notin> set s \<and> \<not> hasParentPathSegment s | _ \<Rightarrow> False)"

definition checksumsMatch :: "jsval \<Rightarrow> jsval \<Rightarrow> bool" where
  "checksumsMatch expected actual \<longleftrightarrow> truthy expected \<and> truthy actual \<and> expected = actual"

section \<open>Versions and loaders\<close>

text \<open>A default parameter \<open>v = {}\<close>, and \<open>xs.find(p)\<close> where the predicate may throw.\<close>

definition or_empty :: "jsval \<Rightarrow> jsval" where
  "or_empty v = (if v = JUndef then JObj [] else v)"

fun opt_find :: "('a \<Rightarrow> bool option) \<Rightarrow> 'a list \<Rightarrow> 'a option option" where
  "opt_find p [] = Some None"
| "opt_find p (x # xs) = do { b \<leftarrow> p x; if b then Some (Some x) else opt_find p xs }"

definition found :: "jsval option \<Rightarrow> jsval" where
  "found r = (case r of None \<Rightarrow> JUndef | Some v \<Rightarrow> v)"

definition selectSupportedMinecraftVersion :: "jsval \<Rightarrow> (host_failure + jsval) option" where
  "selectSupportedMinecraftVersion minecraft = do {
     supported \<leftarrow> dot (or_empty minecraft) ''supportedVersions'';
     versions \<leftarrow> arr_of (coalesce supported (JArr []));
     selected \<leftarrow> opt_find (\<lambda>candidate. do {
         v \<leftarrow> dot candidate ''version'';
         Some (v = jget minecraft ''version'' \<or> candidate = jget minecraft ''version'') }) versions;
     if \<not> truthy (found selected) then Some (Inl HF_UNSUPPORTED_VERSION)
     else case found selected of
       JStr s \<Rightarrow> Some (Inr (JObj [(''ok'', JBool True), (''version'', JStr s), (''channel'', JStr ''stable'')]))
     | c \<Rightarrow> Some (Inr (JObj [(''ok'', JBool True), (''version'', jget c ''version''),
         (''channel'', coalesce (jget c ''channel'') (JStr ''stable'')),
         (''javaMajor'', coalesce (jget c ''javaMajor'') (JNum MINIMUM_JAVA_MAJOR))])) }"

text \<open>The result is the object \<open>loader\<close> of a success.\<close>

definition resolveFabricLoader :: "jsval \<Rightarrow> (host_failure + jsval) option" where
  "resolveFabricLoader input0 = do {
     let input = or_empty input0;
     loaders0 \<leftarrow> dot input ''loaders'';
     loaders \<leftarrow> arr_of (coalesce loaders0 (JArr []));
     first \<leftarrow> opt_find (\<lambda>candidate. do {
         v \<leftarrow> dot candidate ''minecraftVersion''; Some (v = jget input ''minecraftVersion'') }) loaders;
     second \<leftarrow> (if nullish (found first) then opt_find (\<lambda>candidate. do {
         v \<leftarrow> dot candidate ''version''; Some (v = jget input ''defaultLoaderVersion'') }) loaders
       else Some first);
     let loader = coalesce (found second)
       (if truthy (jget input ''defaultLoaderVersion'')
        then JObj [(''minecraftVersion'', jget input ''minecraftVersion''),
          (''version'', jget input ''defaultLoaderVersion''), (''launcherJar'', JStr ''fabric-server-launch.jar'')]
        else JNull);
     if \<not> truthy loader then Some (Inl HF_LOADER_UNAVAILABLE)
     else do {
       let launcherJar = coalesce (jget loader ''launcherJar'')
         (JStr (''fabric-server-'' @ js_string (jget input ''minecraftVersion'') @ ''-'' @
            js_string (jget loader ''version'') @ ''.jar''));
       if \<not> isSafeFileName launcherJar then Some (Inl HF_CACHE_LAYOUT_INVALID)
       else Some (Inr (JObj
         ([(''minecraftVersion'', coalesce (jget loader ''minecraftVersion'') (jget input ''minecraftVersion'')),
           (''version'', jget loader ''version'')] @
          (if truthy (jget loader ''installerVersion'')
           then [(''installerVersion'', jget loader ''installerVersion'')] else []) @
          [(''installerSha256'', jget loader ''installerSha256''),
           (''serverJarSha256'', jget loader ''serverJarSha256''), (''launcherJar'', launcherJar)]))) } }"

section \<open>Parts of the plan\<close>

definition createAppDataLayout :: "jsval \<Rightarrow> jsval option" where
  "createAppDataLayout room0 = do {
     let room = or_empty room0;
     given \<leftarrow> dot room ''appDataRoot'';
     let appDataRoot = coalesce given (jget room ''dataRoot'');
     if \<not> isSafeAppDataRoot appDataRoot \<or> \<not> isSafePathSegment (jget room ''id'') then None
     else do {
       let roomRoot = JStr (joinPath [appDataRoot, JStr ''rooms'', jget room ''id'']);
       Some (JObj
         [(''appDataRoot'', JStr (normalizeRoot appDataRoot)),
          (''roomRoot'', roomRoot),
          (''runtime'', JStr (joinPath [roomRoot, JStr ''runtime''])),
          (''cache'', JStr (joinPath [appDataRoot, JStr ''cache''])),
          (''downloads'', JStr (joinPath [appDataRoot, JStr ''cache'', JStr ''downloads''])),
          (''metadata'', JStr (joinPath [appDataRoot, JStr ''cache'', JStr ''metadata''])),
          (''serverProperties'', JStr (joinPath [roomRoot, JStr ''server.properties''])),
          (''eula'', JStr (joinPath [roomRoot, JStr ''eula.txt''])),
          (''mods'', JStr (joinPath [roomRoot, JStr ''mods''])),
          (''world'', JStr (joinPath [roomRoot, JStr ''world''])),
          (''logs'', JStr (joinPath [roomRoot, JStr ''logs'']))]) } }"

definition createWindowsJavaDetectionPlan :: "jsval \<Rightarrow> jsval option" where
  "createWindowsJavaDetectionPlan java0 = do {
     let java = or_empty java0;
     path \<leftarrow> dot java ''path'';
     Some (JObj [(''platform'', JStr ''windows''), (''minimumMajorVersion'', JNum MINIMUM_JAVA_MAJOR),
       (''searchOrder'', JArr (map JStr [''configuredPath'', ''JAVA_HOME'', ''PATH'',
          ''ProgramFiles/Eclipse Adoptium'', ''ProgramFiles/Java''])),
       (''adapterContract'', JObj [(''command'', JStr ''detectJava''),
          (''returns'', JArr (map JStr [''path'', ''majorVersion'', ''vendor'', ''source'']))]),
       (''detected'', JBool (truthy path \<and> is_int (jget java ''majorVersion''))),
       (''source'', coalesce (jget java ''source'') (if truthy path then JStr ''configuredPath'' else JNull)),
       (''vendor'', coalesce (jget java ''vendor'') JNull)]) }"

definition createCachePlan :: "jsval \<Rightarrow> jsval \<Rightarrow> jsval option" where
  "createCachePlan cache layout = do {
     reuse \<leftarrow> dot (or_empty cache) ''reuseVerifiedDownloads'';
     Some (JObj [(''root'', jget layout ''cache''), (''downloads'', jget layout ''downloads''),
       (''metadata'', jget layout ''metadata''), (''checksumAlgorithm'', JStr ''sha256''),
       (''reuseVerifiedDownloads'', JBool (reuse \<noteq> JBool False)),
       (''requireChecksumBeforeInstall'', JBool True)]) }"

definition createEulaPlan :: "jsval \<Rightarrow> jsval \<Rightarrow> jsval option" where
  "createEulaPlan eula layout = do {
     accepted \<leftarrow> dot (or_empty eula) ''accepted'';
     Some (JObj [(''path'', jget layout ''eula''), (''accepted'', JBool (accepted = JBool True)),
       (''writeText'', if accepted = JBool True then JStr (''eula=true'' @ [CHR 0x0A]) else JNull),
       (''requiresExplicitHostConsent'', JBool True)]) }"

definition safeInteger :: "jsval \<Rightarrow> int \<Rightarrow> int \<Rightarrow> int \<Rightarrow> int" where
  "safeInteger v lo hi fallback =
    (case as_integer v of
       None \<Rightarrow> fallback
     | Some n \<Rightarrow> if n < lo \<or> n > hi then fallback else n)"

definition safePropertyText :: "jsval \<Rightarrow> string \<Rightarrow> nat \<Rightarrow> string" where
  "safePropertyText v fallback maxLength =
    (let text = js_string (coalesce v (JStr fallback)) in
     if CHR 0x0D \<in> set text \<or> CHR 0x0A \<in> set text \<or> CHR 0x00 \<in> set text then fallback
     else take maxLength text)"

definition createServerPropertiesPlan :: "jsval \<Rightarrow> jsval \<Rightarrow> jsval option" where
  "createServerPropertiesPlan serverProperties layout = do {
     maxPlayers0 \<leftarrow> dot (or_empty serverProperties) ''maxPlayers'';
     let maxPlayers = safeInteger maxPlayers0 1 10 10;
     let port = safeInteger (jget serverProperties ''port'') 1024 65535 25565;
     let motd = safePropertyText (jget serverProperties ''motd'') ''Cozy Performance Room'' 80;
     let vals = JObj [(''enable-command-block'', JStr ''false''), (''enforce-secure-profile'', JStr ''true''),
       (''max-players'', JStr (int_str maxPlayers)), (''motd'', JStr motd), (''online-mode'', JStr ''true''),
       (''server-ip'', JStr []), (''server-port'', JStr (int_str port)), (''white-list'', JStr ''true'')];
     Some (JObj [(''path'', jget layout ''serverProperties''), (''values'', vals),
       (''advancedDiagnostics'', JObj [(''port'', jget vals ''server-port''),
          (''bindAddress'', js_or (jget vals ''server-ip'') (JStr ''default''))])]) }"

definition mod_install_entry :: "jsval \<Rightarrow> jsval \<Rightarrow> jsval option" where
  "mod_install_entry layout m = do {
     mid \<leftarrow> dot m ''id'';
     Some (JObj [(''id'', mid), (''fileName'', jget m ''fileName''), (''sha256'', jget m ''sha256''),
       (''source'', coalesce (jget m ''source'') (JStr (joinPath [jget layout ''downloads'',
          coalesce (jget m ''sourceFileName'') (jget m ''fileName'')]))),
       (''downloadUrl'', jget m ''downloadUrl''), (''provider'', jget m ''provider''),
       (''expectedFileSize'', jget m ''fileSize''),
       (''target'', JStr (joinPath [jget layout ''mods'', jget m ''fileName''])),
       (''verified'', JBool (checksumsMatch (coalesce (jget m ''expectedSha256'') (jget m ''sha256''))
          (jget m ''sha256'')))]) }"

definition createModInstallPlan :: "jsval \<Rightarrow> jsval \<Rightarrow> jsval option" where
  "createModInstallPlan pack layout = do {
     mods0 \<leftarrow> dot (or_empty pack) ''mods'';
     mods \<leftarrow> arr_of (coalesce mods0 (JArr []));
     entries \<leftarrow> traverse (mod_install_entry layout) mods;
     Some (JObj [(''directory'', jget layout ''mods''), (''strategy'', JStr ''replace-with-fixed-pack''),
       (''removeUnknownMods'', JBool True), (''entries'', JArr entries)]) }"

section \<open>Validation and the plan\<close>

text \<open>\<open>xs.some(p)\<close> where the predicate may throw.\<close>

definition opt_some :: "('a \<Rightarrow> bool option) \<Rightarrow> 'a list \<Rightarrow> bool option" where
  "opt_some p xs = map_option (\<lambda>r. r \<noteq> None) (opt_find p xs)"

definition mod_unchecked :: "jsval \<Rightarrow> bool option" where
  "mod_unchecked m = do {
     expected \<leftarrow> dot m ''expectedSha256'';
     Some (\<not> checksumsMatch (coalesce expected (jget m ''sha256'')) (jget m ''sha256'')) }"

definition mod_badly_named :: "jsval \<Rightarrow> bool option" where
  "mod_badly_named m = do { name \<leftarrow> dot m ''fileName''; Some (\<not> isSafeFileName name) }"

text \<open>A check: stop with the reason, or go on.\<close>

definition check_host :: "bool \<Rightarrow> host_failure \<Rightarrow> host_failure option option \<Rightarrow> host_failure option option" where
  "check_host bad reason rest = (if bad then Some (Some reason) else rest)"

definition validateHostRuntime :: "jsval \<Rightarrow> host_failure option option" where
  "validateHostRuntime input = do {
     minecraft \<leftarrow> dot input ''minecraft'';
     selected \<leftarrow> selectSupportedMinecraftVersion minecraft;
     case selected of Inl reason \<Rightarrow> Some (Some reason) | Inr selectedMinecraft \<Rightarrow> do {
     let java = jget input ''java'';
     let fabric = jget input ''fabric'';
     let pack = jget input ''pack'';
     let room = jget input ''room'';
     let runtime = jget (jget input ''runtime'') ''state'';
     let root = coalesce (jget room ''appDataRoot'') (jget room ''dataRoot'');
     check_host (\<not> truthy (jget java ''path'') \<or> \<not> is_int (jget java ''majorVersion'')) HF_JAVA_MISSING (
     check_host (num_less (js_number (jget java ''majorVersion''))
         (js_number (coalesce (jget selectedMinecraft ''javaMajor'') (JNum MINIMUM_JAVA_MAJOR))))
       HF_JAVA_INCOMPATIBLE (
     check_host (\<not> truthy (jget (jget input ''eula'') ''accepted'')) HF_EULA_REQUIRED (
     check_host (jget fabric ''bootstrapState'' = JStr ''failed'') HF_FABRIC_BOOTSTRAP_FAILED (
     check_host (\<not> checksumsMatch (jget fabric ''expectedInstallerSha256'') (jget fabric ''installerSha256''))
       HF_FABRIC_CHECKSUM_FAILED (
     check_host (\<not> truthy (jget pack ''fixed'')) HF_PACK_NOT_FIXED (
     check_host (\<not> checksumsMatch (jget pack ''expectedSha256'') (jget pack ''sha256'')) HF_PACK_CHECKSUM_FAILED (do {
     mods \<leftarrow> arr_of (coalesce (jget pack ''mods'') (JArr []));
     unchecked \<leftarrow> opt_some mod_unchecked mods;
     check_host unchecked HF_MOD_CHECKSUM_FAILED (
     check_host (runtime = JStr (host_state_str HS_CRASHED) \<or> runtime = JStr (host_state_str HS_FAILED))
       HF_ROOM_CRASHED (
     check_host (\<not> truthy (jget room ''id'') \<or> \<not> truthy root) HF_CACHE_LAYOUT_INVALID (
     check_host (\<not> isSafeAppDataRoot root \<or> \<not> isSafePathSegment (jget room ''id'')) HF_CACHE_LAYOUT_INVALID (do {
     badly_named \<leftarrow> opt_some mod_badly_named mods;
     check_host badly_named HF_CACHE_LAYOUT_INVALID (Some None) })))) }))))))) } }"

definition createHostRuntimePlan :: "jsval \<Rightarrow> (host_failure + jsval) option" where
  "createHostRuntimePlan input0 = do {
     let input = or_empty input0;
     failure \<leftarrow> validateHostRuntime input;
     case failure of Some reason \<Rightarrow> Some (Inl reason) | None \<Rightarrow> do {
     selected \<leftarrow> selectSupportedMinecraftVersion (jget input ''minecraft'');
     let selectedMinecraft = (case selected of Inl reason \<Rightarrow> host_fail reason | Inr v \<Rightarrow> v);
     resolved \<leftarrow> resolveFabricLoader (JObj [(''minecraftVersion'', jget selectedMinecraft ''version''),
       (''loaders'', jget (jget input ''fabric'') ''loaders''),
       (''defaultLoaderVersion'', jget (jget input ''fabric'') ''loaderVersion'')]);
     case resolved of Inl reason \<Rightarrow> Some (Inl reason) | Inr loader \<Rightarrow>
     if \<not> isSafeFileName (jget loader ''launcherJar'') then Some (Inl HF_CACHE_LAYOUT_INVALID)
     else do {
     layout \<leftarrow> createAppDataLayout (jget input ''room'');
     java \<leftarrow> createWindowsJavaDetectionPlan (jget input ''java'');
     mods \<leftarrow> createModInstallPlan (jget input ''pack'') layout;
     current \<leftarrow> dot (jget input ''runtime'') ''state'';
     cache \<leftarrow> createCachePlan (jget input ''cache'') layout;
     eula \<leftarrow> createEulaPlan (jget input ''eula'') layout;
     serverProperties \<leftarrow> createServerPropertiesPlan (jget input ''serverProperties'') layout;
     let room = jget input ''room'';
     let launcher = JStr (joinPath [jget layout ''runtime'', jget loader ''launcherJar'']);
     Some (Inr (JObj
       [(''room'', JObj [(''id'', jget room ''id''), (''hostId'', jget room ''hostId''), (''name'', jget room ''name''),
          (''minecraftVersion'', jget selectedMinecraft ''version''),
          (''channel'', jget selectedMinecraft ''channel'')]),
        (''lifecycle'', JObj [(''current'', current), (''next'', JStr (host_state_str HS_READY)),
          (''adapter'', JStr ''simulated-process'')]),
        (''files'', JObj [(''root'', jget layout ''roomRoot''),
          (''serverProperties'', jget layout ''serverProperties''), (''eula'', jget layout ''eula''),
          (''mods'', jget layout ''mods''), (''world'', jget layout ''world'')]),
        (''layout'', layout),
        (''java'', obj_with java [(''path'', jget (jget input ''java'') ''path''),
          (''majorVersion'', jget (jget input ''java'') ''majorVersion'')]),
        (''fabric'', JObj ([(''loaderVersion'', jget loader ''version'')] @
          (if truthy (jget loader ''installerVersion'')
           then [(''installerVersion'', jget loader ''installerVersion'')] else []) @
          [(''installerVerified'', JBool True),
           (''installerSha256'', jget loader ''installerSha256''),
           (''serverJarSha256'', jget loader ''serverJarSha256''),
           (''launcherJar'', launcher),
           (''metadataPath'', JStr (joinPath [jget layout ''metadata'',
              JStr (''fabric-'' @ js_string (jget selectedMinecraft ''version'') @ ''.json'')]))])),
        (''cache'', cache), (''eula'', eula), (''serverProperties'', serverProperties), (''mods'', mods),
        (''pack'', JObj [(''id'', jget (jget input ''pack'') ''id''), (''fixed'', JBool True),
          (''checksumVerified'', JBool True)]),
        (''bridge'', JObj [(''approvalSource'', JStr ''server_observed_uuid''),
          (''claimedIdentityCanApprove'', JBool False)]),
        (''command'', JArr [jget (jget input ''java'') ''path'', JStr ''-jar'', launcher, JStr ''nogui''])])) } } }"

section \<open>Lifecycle\<close>

record transition =
  tr_current :: jsval
  tr_next :: jsval
  tr_allowed :: bool
  tr_reason :: "host_failure option"

fun lifecycle_transitions :: "host_action \<Rightarrow> (host_state \<times> host_state) list" where
  "lifecycle_transitions HA_PREPARE = [(HS_STOPPED, HS_READY)]"
| "lifecycle_transitions HA_START =
     [(HS_READY, HS_STARTING), (HS_STOPPED, HS_STARTING), (HS_STARTING, HS_RUNNING)]"
| "lifecycle_transitions HA_STOP =
     [(HS_RUNNING, HS_STOPPING), (HS_STARTING, HS_STOPPING), (HS_STOPPING, HS_STOPPED)]"
| "lifecycle_transitions HA_RESTART = [(HS_RUNNING, HS_RESTARTING), (HS_RESTARTING, HS_STARTING)]"

text \<open>
  \<open>transitions[action]?.[current]\<close> for one of the four actions; a state named like a member that
  every object inherits finds that member (an object of its own, here \<open>JObj []\<close>).
\<close>

definition transition_next :: "host_action \<Rightarrow> jsval \<Rightarrow> jsval option" where
  "transition_next action current =
    (case List.find (\<lambda>(st, _). host_state_str st = js_string current) (lifecycle_transitions action) of
       Some (_, to) \<Rightarrow> Some (JStr (host_state_str to))
     | None \<Rightarrow> if js_string current \<in> set inherited_names then Some (JObj []) else None)"

definition simulateLifecycleTransition :: "jsval \<Rightarrow> host_action \<Rightarrow> transition option" where
  "simulateLifecycleTransition state0 action = do {
     let state = or_empty state0;
     given \<leftarrow> dot state ''current'';
     let current = coalesce (coalesce given (jget state ''state'')) (JStr (host_state_str HS_STOPPED));
     if current = JStr (host_state_str HS_CRASHED) \<or> current = JStr (host_state_str HS_FAILED)
     then Some \<lparr>tr_current = current, tr_next = current, tr_allowed = False, tr_reason = Some HF_ROOM_CRASHED\<rparr>
     else Some (case transition_next action current of
       Some v \<Rightarrow> \<lparr>tr_current = current, tr_next = v, tr_allowed = True, tr_reason = None\<rparr>
     | None \<Rightarrow> \<lparr>tr_current = current, tr_next = current, tr_allowed = False, tr_reason = None\<rparr>) }"

section \<open>Log lines\<close>

definition host_redacted :: string where
  "host_redacted = ''[redacted]''"

definition hex_lower :: "char \<Rightarrow> bool" where
  "hex_lower x \<longleftrightarrow> is_digit x \<or> between CHR ''a'' CHR ''f'' (lower_char x)"

definition path_tail :: re where
  "path_tail = plus1 (Chr (\<lambda>x. \<not> is_space x \<and> x \<notin> {CHR 0x22, CHR 0x27, CHR ''<'', CHR ''>''}))"

definition drive :: re where
  "drive = cats [Chr (\<lambda>x. is_upper x \<or> is_lower x), lit '':'', Chr (\<lambda>x. x = CHR 0x5C \<or> x = CHR ''/'')]"

definition unix_root :: re where
  "unix_root = cats [lit ''/'', alts (map lit [''Users'', ''home'', ''var'', ''tmp'', ''opt'']), lit ''/'']"

definition port_suffix :: re where
  "port_suffix = opt (cats [lit '':'', Rep 1 (Some 5) (Chr is_digit)])"

definition host_ipv4 :: re where
  "host_ipv4 = cats [WordB, Rep 3 (Some 3) (cats [Rep 1 (Some 3) (Chr is_digit), lit ''.'']),
     Rep 1 (Some 3) (Chr is_digit), port_suffix, WordB]"

definition host_ipv6 :: re where
  "host_ipv6 = cats [lit ''['', Rep 2 None (cats [Rep 0 (Some 4) (Chr hex_lower), lit '':'']),
     star (Chr (\<lambda>x. hex_lower x \<or> x = CHR '':'')), lit '']'', port_suffix]"

definition host_windows_path :: re where
  "host_windows_path = cats [WordB, drive, path_tail]"

definition host_unix_path :: re where
  "host_unix_path = cats [Alt Bol (Chr is_space), unix_root, path_tail]"

definition assigned_secret :: "string \<Rightarrow> re" where
  "assigned_secret name = cats [Cap 1 (liti name), plus1 (Chr (\<lambda>x. \<not> is_space x \<and> x \<noteq> CHR ''&''))]"

definition host_email :: re where
  "host_email = cats
     [plus1 (Chr (\<lambda>x. is_alnum x \<or> x \<in> {CHR ''.'', CHR ''_'', CHR ''%'', CHR ''+'', CHR ''-''})), lit ''@'',
      plus1 (Chr (\<lambda>x. is_alnum x \<or> x \<in> {CHR ''.'', CHR ''-''})), lit ''.'',
      Rep 2 None (Chr (\<lambda>x. is_upper x \<or> is_lower x))]"

definition host_uuid :: re where
  "host_uuid = (let hex = (\<lambda>n. Rep n (Some n) (Chr hex_lower)) in
     cats [WordB, hex 8, lit ''-'', hex 4, lit ''-'', Chr (between CHR ''1'' CHR ''5''), hex 3, lit ''-'',
       Chr (\<lambda>x. lower_char x \<in> {CHR ''8'', CHR ''9'', CHR ''a'', CHR ''b''}), hex 3, lit ''-'', hex 12, WordB])"

definition host_log_rules :: "(re \<times> (string \<Rightarrow> captures \<Rightarrow> string)) list" where
  "host_log_rules =
    [(host_ipv4, \<lambda>_ _. host_redacted), (host_ipv6, \<lambda>_ _. host_redacted),
     (host_windows_path, \<lambda>_ _. ''[redacted-path]''), (host_unix_path, \<lambda>_ _. '' [redacted-path]''),
     (assigned_secret ''token='', \<lambda>_ c. cap c 1 @ host_redacted),
     (assigned_secret ''invite='', \<lambda>_ c. cap c 1 @ host_redacted),
     (assigned_secret ''secret='', \<lambda>_ c. cap c 1 @ host_redacted),
     (host_email, \<lambda>_ _. host_redacted), (host_uuid, \<lambda>_ _. host_redacted)]"

definition redactHostLogLine :: "jsval \<Rightarrow> string" where
  "redactHostLogLine line =
    (let text = js_string line in
     if re_test (cats [Bol, drive]) text \<or> re_test (cats [Bol, unix_root]) text then ''[redacted-path]''
     else fold (\<lambda>(r, f) t. re_replace r f t) host_log_rules text)"

definition createRedactedLogEvent :: "jsval \<Rightarrow> jsval option" where
  "createRedactedLogEvent input0 = do {
     let input = or_empty input0;
     roomId \<leftarrow> dot input ''roomId'';
     Some (JObj [(''type'', JStr ''runtime.log''), (''roomId'', roomId),
       (''level'', coalesce (jget input ''level'') (JStr ''info'')),
       (''stream'', coalesce (jget input ''stream'') (JStr ''stdout'')),
       (''line'', JStr (redactHostLogLine (coalesce (jget input ''line'') (JStr [])))),
       (''sequence'', coalesce (jget input ''sequence'') (JNum 0))]) }"

section \<open>Join requests as the host sees them\<close>

definition createBridgeApprovalEvent :: "jsval \<Rightarrow> (host_failure + jsval) option" where
  "createBridgeApprovalEvent input0 = do {
     let input = or_empty input0;
     observed \<leftarrow> dot input ''serverObservedUuid'';
     if \<not> truthy observed then Some (Inl HF_SERVER_UUID_MISSING)
     else do {
       let claimed = jget (jget input ''claimedIdentity'') ''minecraftUuid'';
       Some (Inr (JObj [(''type'', JStr ''bridge.approval_requested''), (''roomId'', jget input ''roomId''),
         (''connectionId'', jget input ''connectionId''),
         (''friendId'', jget (jget input ''claimedIdentity'') ''friendId''),
         (''displayName'', jget input ''displayName''), (''minecraftUuid'', observed),
         (''claimedMinecraftUuid'', claimed), (''requiresHostApproval'', JBool True),
         (''identityMismatch'', JBool (truthy claimed \<and> claimed \<noteq> observed))])) } }"

datatype approval_ui_state = AU_EMPTY | AU_WAITING_FOR_SERVER_UUID | AU_NEEDS_REVIEW | AU_APPROVED
  | AU_DENIED | AU_BLOCKED | AU_EXPIRED | AU_HOST_UNAVAILABLE | AU_ALREADY_ALLOWED | AU_IDENTITY_CHANGED
  | AU_ERROR

primrec approval_ui_str :: "approval_ui_state \<Rightarrow> string" where
  "approval_ui_str AU_EMPTY = ''empty''"
| "approval_ui_str AU_WAITING_FOR_SERVER_UUID = ''waiting_for_server_uuid''"
| "approval_ui_str AU_NEEDS_REVIEW = ''needs_review''"
| "approval_ui_str AU_APPROVED = ''approved''"
| "approval_ui_str AU_DENIED = ''denied''"
| "approval_ui_str AU_BLOCKED = ''blocked''"
| "approval_ui_str AU_EXPIRED = ''expired''"
| "approval_ui_str AU_HOST_UNAVAILABLE = ''host_unavailable''"
| "approval_ui_str AU_ALREADY_ALLOWED = ''already_allowed''"
| "approval_ui_str AU_IDENTITY_CHANGED = ''identity_changed''"
| "approval_ui_str AU_ERROR = ''error''"

text \<open>The title belongs to the state; two of them contain the display name.\<close>

record approval_ui =
  ui_state :: approval_ui_state
  ui_titleName :: "string option"
  ui_primaryAction :: "string option"
  ui_secondaryAction :: "string option"
  ui_identityMismatch :: "bool option"

definition ui_plain :: "approval_ui_state \<Rightarrow> string option \<Rightarrow> approval_ui" where
  "ui_plain st act = \<lparr>ui_state = st, ui_titleName = None, ui_primaryAction = act,
     ui_secondaryAction = None, ui_identityMismatch = None\<rparr>"

definition createApprovalUiState :: "jsval \<Rightarrow> approval_ui option" where
  "createApprovalUiState input0 = do {
     let input = or_empty input0;
     err \<leftarrow> dot input ''error'';
     let decision = jget input ''decision'';
     let status = jget input ''status'';
     let observed = jget input ''serverObservedUuid'';
     let claimed = jget input ''claimedMinecraftUuid'';
     let mismatch = (truthy claimed \<and> claimed \<noteq> observed);
     Some (
       if truthy err then ui_plain AU_ERROR None
       else if decision = JStr ''approved''
         then (ui_plain AU_APPROVED None)\<lparr>ui_titleName := Some (js_string (jget input ''displayName''))\<rparr>
       else if decision = JStr ''denied'' then ui_plain AU_DENIED None
       else if decision = JStr ''blocked'' then ui_plain AU_BLOCKED None
       else if status = JStr ''expired'' then ui_plain AU_EXPIRED (Some ''request_again'')
       else if status = JStr ''host_unavailable'' then ui_plain AU_HOST_UNAVAILABLE None
       else if status = JStr ''already_allowed'' then ui_plain AU_ALREADY_ALLOWED None
       else if status = JStr ''identity_changed'' \<or> (truthy observed \<and> truthy claimed \<and> claimed \<noteq> observed)
         then (ui_plain AU_IDENTITY_CHANGED (Some ''review_again''))
           \<lparr>ui_secondaryAction := Some ''deny'', ui_identityMismatch := Some True\<rparr>
       else if \<not> truthy (jget input ''connectionId'') then ui_plain AU_EMPTY None
       else if \<not> truthy observed then ui_plain AU_WAITING_FOR_SERVER_UUID None
       else (ui_plain AU_NEEDS_REVIEW (Some ''approve''))
           \<lparr>ui_titleName := Some (js_string (jget input ''displayName'')),
            ui_secondaryAction := Some ''deny'', ui_identityMismatch := Some mismatch\<rparr>) }"

end
