(* ===== verification/HostRuntime_Props.thy ===== *)
theory HostRuntime_Props
  imports HostRuntime
begin

text \<open>
  The host's plan: what a plan presupposes, and that everything it writes or runs lies in the
  room's own folder. The lemmas on paths say what \<open>joinPath\<close> does to names that are one segment
  each; \<open>root_dir\<close> is the normalised root without a slash at its end.
\<close>

section \<open>Paths\<close>

definition slash_free :: "string \<Rightarrow> bool" where
  "slash_free s \<longleftrightarrow> s \<noteq> [] \<and> CHR ''/'' \<notin> set s \<and> CHR 0x5C \<notin> set s"

definition under_root :: "string list \<Rightarrow> string" where
  "under_root segs = concat (map (\<lambda>s. CHR ''/'' # s) segs)"

definition root_dir :: "string \<Rightarrow> string" where
  "root_dir r = butlast (collapse_slashes (unify_slashes r @ ''/''))"

lemma under_root_simps [simp]:
  "under_root [] = []" "under_root (s # segs) = CHR ''/'' # s @ under_root segs" "under_root (xs @ ys) = under_root xs @ under_root ys"
  by (simp_all add: under_root_def)

lemma unify_append [simp]: "unify_slashes (a @ b) = unify_slashes a @ unify_slashes b"
  by (simp add: unify_slashes_def)

lemma unify_Cons [simp]:
  "unify_slashes (x # s) = (if x = CHR 0x5C then CHR ''/'' else x) # unify_slashes s"
  by (simp add: unify_slashes_def)

lemma unify_no_backslash [simp]: "CHR 0x5C \<notin> set s \<Longrightarrow> unify_slashes s = s"
  by (induction s) (auto simp: unify_slashes_def)

lemma backslash_unify [simp]: "CHR 0x5C \<notin> set (unify_slashes s)"
  by (auto simp: unify_slashes_def)

lemma set_collapse: "set (collapse_slashes s) \<subseteq> set s"
  by (induction s rule: collapse_slashes.induct) auto

lemma unify_collapse_unify [simp]:
  "unify_slashes (collapse_slashes (unify_slashes s)) = collapse_slashes (unify_slashes s)"
  using set_collapse [of "unify_slashes s"] backslash_unify [of s] by (intro unify_no_backslash) blast

lemma collapse_step:
  "collapse_slashes (x # s) =
     (if x = CHR ''/'' \<and> s \<noteq> [] \<and> hd s = CHR ''/'' then collapse_slashes s else x # collapse_slashes s)"
  by (cases s) auto

lemma collapse_Cons: "x \<noteq> CHR ''/'' \<Longrightarrow> collapse_slashes (x # s) = x # collapse_slashes s"
  by (simp add: collapse_step)

lemma collapse_append:
  "x \<noteq> CHR ''/'' \<Longrightarrow> collapse_slashes (p @ x # q) = collapse_slashes p @ x # collapse_slashes q"
  by (induction p) (auto simp: collapse_step hd_append)

lemma hd_collapse: "s \<noteq> [] \<Longrightarrow> collapse_slashes s \<noteq> [] \<and> hd (collapse_slashes s) = hd s"
  by (induction s) (auto simp: collapse_step)

lemma collapse_collapse: "collapse_slashes (collapse_slashes a @ b) = collapse_slashes (a @ b)"
proof (induction a)
  case (Cons x a)
  show ?case
  proof (cases "a = []")
    case False
    with hd_collapse [OF this] Cons show ?thesis by (auto simp: collapse_step [of x] hd_append)
  qed simp
qed simp

lemma collapse_slash_end: "\<exists>d. collapse_slashes (p @ ''/'') = d @ ''/''"
proof (induction p)
  case (Cons x p)
  then obtain d where "collapse_slashes (p @ ''/'') = d @ ''/''" by blast
  then show ?case by (auto simp: collapse_step intro: exI [of _ "x # d"])
qed simp

lemma collapse_slash_free: "CHR ''/'' \<notin> set s \<Longrightarrow> collapse_slashes s = s"
  by (induction s) (auto simp: collapse_Cons)

lemma collapse_below:
  assumes "list_all slash_free (s # segs)"
  shows "collapse_slashes (p @ under_root (s # segs)) = butlast (collapse_slashes (p @ ''/'')) @ under_root (s # segs)"
  using assms
proof (induction segs arbitrary: p s)
  case Nil
  then obtain x xs where s: "s = x # xs" "x \<noteq> CHR ''/''" "CHR ''/'' \<notin> set xs"
    by (cases s) (auto simp: slash_free_def)
  obtain d where d: "collapse_slashes (p @ ''/'') = d @ ''/''" using collapse_slash_end by blast
  have "collapse_slashes (p @ under_root [s]) = collapse_slashes ((p @ ''/'') @ x # xs)" by (simp add: s)
  also have "\<dots> = collapse_slashes (p @ ''/'') @ x # collapse_slashes xs" by (rule collapse_append [OF s(2)])
  finally show ?case by (simp add: d s collapse_slash_free)
next
  case (Cons t segs)
  then obtain x xs where s: "s = x # xs" "x \<noteq> CHR ''/''" "CHR ''/'' \<notin> set xs"
    by (cases s) (auto simp: slash_free_def)
  obtain d where d: "collapse_slashes (p @ ''/'') = d @ ''/''" using collapse_slash_end by blast
  have "collapse_slashes (p @ under_root (s # t # segs)) = collapse_slashes ((p @ ''/'') @ x # (xs @ under_root (t # segs)))"
    by (simp add: s)
  also have "\<dots> = collapse_slashes (p @ ''/'') @ x # collapse_slashes (xs @ under_root (t # segs))"
    by (rule collapse_append [OF s(2)])
  also have "collapse_slashes (xs @ under_root (t # segs)) = xs @ under_root (t # segs)"
  proof -
    have e: "collapse_slashes (xs @ ''/'') = xs @ ''/''"
      using s(3) by (induction xs) (auto simp: collapse_Cons)
    have "collapse_slashes (xs @ under_root (t # segs)) = butlast (collapse_slashes (xs @ ''/'')) @ under_root (t # segs)"
      using Cons.prems by (intro Cons.IH) simp
    then show ?thesis by (simp add: e)
  qed
  finally show ?case by (simp add: d s)
qed

lemma unify_below: "list_all slash_free segs \<Longrightarrow> unify_slashes (under_root segs) = under_root segs"
  by (induction segs) (auto simp: slash_free_def)

lemma join_below: "segs \<noteq> [] \<Longrightarrow> js_join ''/'' (r # segs) = r @ under_root segs"
  by (induction segs arbitrary: r) (auto simp: neq_Nil_conv, case_tac segs, auto)

lemma root_dir_below:
  assumes "list_all slash_free segs" and "segs \<noteq> []"
  shows "collapse_slashes (unify_slashes (r @ under_root segs)) = root_dir r @ under_root segs"
proof -
  obtain s rest where segs: "segs = s # rest" using assms(2) by (cases segs) auto
  have "unify_slashes (r @ under_root segs) = unify_slashes r @ under_root segs"
    using unify_below [OF assms(1)] by (simp only: unify_append)
  with collapse_below [of s rest "unify_slashes r"] assms(1) show ?thesis
    by (simp only: segs root_dir_def)
qed

text \<open>Joining segments to a root, and to a path made this way.\<close>

lemma joinPath_root:
  assumes "r \<noteq> []" and "list_all slash_free segs" and "segs \<noteq> []"
  shows "joinPath (JStr r # map JStr segs) = root_dir r @ under_root segs"
proof -
  have "filter truthy (map JStr segs) = map JStr segs"
    using assms(2) by (induction segs) (auto simp: slash_free_def)
  moreover have "map js_string (map JStr segs) = segs" by (induction segs) auto
  ultimately show ?thesis
    using assms by (simp add: joinPath_def join_below root_dir_below del: map_map unify_append)
qed

lemma joinPath_more:
  assumes "list_all slash_free (segs @ others)" and "segs \<noteq> []" and "others \<noteq> []"
  shows "joinPath (JStr (root_dir r @ under_root segs) # map JStr others) = root_dir r @ under_root (segs @ others)"
proof -
  let ?p = "root_dir r @ under_root segs"
  have ok: "list_all slash_free segs" "list_all slash_free others" using assms(1) by auto
  have p: "?p = collapse_slashes (unify_slashes (r @ under_root segs))"
    using root_dir_below [OF ok(1) assms(2)] by simp
  have "?p \<noteq> []" using assms(2) by (cases segs) auto
  then have "joinPath (JStr ?p # map JStr others) = root_dir ?p @ under_root others"
    by (rule joinPath_root [OF _ ok(2) assms(3)])
  also have "\<dots> = collapse_slashes (unify_slashes (?p @ under_root others))"
    by (rule root_dir_below [OF ok(2) assms(3), symmetric])
  also have "\<dots> = collapse_slashes (unify_slashes (r @ under_root (segs @ others)))"
    unfolding p unify_append [of _ "under_root others"] unify_collapse_unify collapse_collapse by simp
  also have "\<dots> = root_dir r @ under_root (segs @ others)"
    using assms by (intro root_dir_below) auto
  finally show ?thesis .
qed

text \<open>The root keeps its segments: a root without \<open>..\<close> stays without.\<close>

lemma split_append: "js_split c (p @ c # q) = js_split c p @ js_split c q"
  by (induction p) (auto split: list.split simp: js_split_not_Nil)

lemma split_collapse_parts:
  "hd (js_split CHR ''/'' (collapse_slashes s)) = hd (js_split CHR ''/'' s) \<and>
   set (tl (js_split CHR ''/'' (collapse_slashes s))) \<subseteq> set (tl (js_split CHR ''/'' s))"
proof (induction s)
  case (Cons x s)
  obtain w ws where w: "js_split CHR ''/'' s = w # ws" using js_split_not_Nil by (metis neq_Nil_conv)
  obtain v vs where v: "js_split CHR ''/'' (collapse_slashes s) = v # vs"
    using js_split_not_Nil by (metis neq_Nil_conv)
  have "w = []" if "s \<noteq> []" "hd s = CHR ''/''" using that w by (cases s) auto
  with Cons v w show ?case by (auto simp: collapse_step)
qed simp

lemma split_collapse: "set (js_split CHR ''/'' (collapse_slashes s)) \<subseteq> set (js_split CHR ''/'' s)"
  using split_collapse_parts [of s] js_split_not_Nil [of "CHR ''/''"] by (metis hd_Cons_tl insert_mono list.simps(15))

lemma root_dir_parent: "\<not> hasParentPathSegment r \<Longrightarrow> \<not> hasParentPathSegment (root_dir r)"
proof -
  assume r: "\<not> hasParentPathSegment r"
  obtain d where d: "collapse_slashes (unify_slashes r @ ''/'') = d @ ''/''"
    using collapse_slash_end by blast
  then have rd: "root_dir r = d" by (simp add: root_dir_def)
  have "CHR 0x5C \<notin> set (unify_slashes r @ ''/'')" using backslash_unify by simp
  then have "CHR 0x5C \<notin> set (d @ ''/'')" unfolding d [symmetric] using set_collapse by blast
  then have u: "unify_slashes d = d" by simp
  have "set (js_split CHR ''/'' (d @ ''/'')) \<subseteq> set (js_split CHR ''/'' (unify_slashes r @ ''/''))"
    unfolding d [symmetric] by (rule split_collapse)
  then have "set (js_split CHR ''/'' d) \<subseteq> insert [] (set (js_split CHR ''/'' (unify_slashes r)))"
    by (simp add: split_append)
  with r show ?thesis by (auto simp: hasParentPathSegment_def rd u)
qed

section \<open>What a plan presupposes\<close>

lemma check_host_None: "check_host bad reason rest = Some None \<longleftrightarrow> \<not> bad \<and> rest = Some None"
  by (simp add: check_host_def)

lemma opt_find_None: "opt_find p xs = Some None \<longleftrightarrow> (\<forall>x \<in> set xs. p x = Some False)"
  by (induction xs) (auto simp: bind_eq_Some_conv)

lemma opt_some_False: "opt_some p xs = Some False \<longleftrightarrow> (\<forall>x \<in> set xs. p x = Some False)"
  by (auto simp: opt_some_def opt_find_None)

text \<open>The conditions on the input, in one place.\<close>

definition host_ready :: "jsval \<Rightarrow> bool" where
  "host_ready input \<longleftrightarrow>
     is_int (jget (jget input ''java'') ''majorVersion'') \<and>
     truthy (jget (jget input ''java'') ''path'') \<and> truthy (jget (jget input ''eula'') ''accepted'') \<and>
     jget (jget input ''fabric'') ''bootstrapState'' \<noteq> JStr ''failed'' \<and>
     checksumsMatch (jget (jget input ''fabric'') ''expectedInstallerSha256'')
       (jget (jget input ''fabric'') ''installerSha256'') \<and>
     truthy (jget (jget input ''pack'') ''fixed'') \<and>
     checksumsMatch (jget (jget input ''pack'') ''expectedSha256'') (jget (jget input ''pack'') ''sha256'') \<and>
     jget (jget input ''runtime'') ''state'' \<notin> {JStr ''crashed'', JStr ''failed''}"

definition host_root :: "jsval \<Rightarrow> jsval" where
  "host_root input = coalesce (jget (jget input ''room'') ''appDataRoot'') (jget (jget input ''room'') ''dataRoot'')"

lemma validate_parts:
  assumes valid: "validateHostRuntime input = Some None"
  obtains selected mods n where
    "selectSupportedMinecraftVersion (jget input ''minecraft'') = Some (Inr selected)"
    "jget (jget input ''java'') ''majorVersion'' = JNum n"
    "\<not> num_less (Fin (of_int n)) (js_number (coalesce (jget selected ''javaMajor'') (JNum 21)))"
    "host_ready input" "isSafeAppDataRoot (host_root input)"
    "isSafePathSegment (jget (jget input ''room'') ''id'')"
    "arr_of (coalesce (jget (jget input ''pack'') ''mods'') (JArr [])) = Some mods"
    "\<forall>m \<in> set mods. \<not> nullish m \<and> isSafeFileName (jget m ''fileName'') \<and>
       checksumsMatch (coalesce (jget m ''expectedSha256'') (jget m ''sha256'')) (jget m ''sha256'')"
proof -
  have input: "\<not> nullish input"
    by (rule notI) (use valid in \<open>simp add: validateHostRuntime_def dot_def\<close>)
  obtain selected where
    sel: "selectSupportedMinecraftVersion (jget input ''minecraft'') = Some (Inr selected)"
  proof (cases "selectSupportedMinecraftVersion (jget input ''minecraft'')")
    case None
    with valid input show thesis by (simp add: validateHostRuntime_def dot_def)
  next
    case (Some r)
    with valid input that show thesis by (cases r) (simp_all add: validateHostRuntime_def dot_def)
  qed
  obtain mods n where mods: "arr_of (coalesce (jget (jget input ''pack'') ''mods'') (JArr [])) = Some mods"
      "opt_some mod_unchecked mods = Some False" "opt_some mod_badly_named mods = Some False"
    and n: "jget (jget input ''java'') ''majorVersion'' = JNum n"
    and recent: "\<not> num_less (Fin (of_int n)) (js_number (coalesce (jget selected ''javaMajor'') (JNum 21)))"
    and ready: "host_ready input" "isSafeAppDataRoot (host_root input)"
      "isSafePathSegment (jget (jget input ''room'') ''id'')"
  proof -
    assume use: "\<And>mods n. arr_of (coalesce (jget (jget input ''pack'') ''mods'') (JArr [])) = Some mods \<Longrightarrow>
        opt_some mod_unchecked mods = Some False \<Longrightarrow> opt_some mod_badly_named mods = Some False \<Longrightarrow>
        jget (jget input ''java'') ''majorVersion'' = JNum n \<Longrightarrow>
        \<not> num_less (Fin (of_int n)) (js_number (coalesce (jget selected ''javaMajor'') (JNum 21))) \<Longrightarrow>
        host_ready input \<Longrightarrow> isSafeAppDataRoot (host_root input) \<Longrightarrow>
        isSafePathSegment (jget (jget input ''room'') ''id'') \<Longrightarrow> thesis"
    note peel = valid [unfolded validateHostRuntime_def Let_def dot_def, folded host_root_def]
    show thesis
      using peel input sel
      apply (simp add: check_host_None bind_eq_Some_conv is_int_iff)
      apply (elim conjE exE)
      apply (rule use)
      apply (assumption | simp add: host_ready_def is_int_iff MINIMUM_JAVA_MAJOR_def)+
      done
  qed
  from mods(2,3) have good: "\<forall>m \<in> set mods. \<not> nullish m \<and> isSafeFileName (jget m ''fileName'') \<and>
       checksumsMatch (coalesce (jget m ''expectedSha256'') (jget m ''sha256'')) (jget m ''sha256'')"
    by (auto simp: opt_some_False mod_unchecked_def mod_badly_named_def dot_def split: if_splits)
  show thesis by (rule that [OF sel n recent ready mods(1) good])
qed

lemma segment_slash_free: "isSafePathSegment (JStr s) \<Longrightarrow> slash_free s"
  by (simp add: isSafePathSegment_def slash_free_def js_includes_char)

lemma safe_root_text:
  assumes "isSafeAppDataRoot v"
  obtains r where "v = JStr r" and "r \<noteq> []" and "\<not> hasParentPathSegment r"
proof (cases v)
  case (JStr r)
  with assms have "js_trim r \<noteq> []" "\<not> hasParentPathSegment r" by (auto simp: isSafeAppDataRoot_def)
  moreover from this(1) have "r \<noteq> []" by (cases r) (simp_all add: js_trim_def)
  ultimately show thesis using JStr that by blast
qed (use assms in \<open>simp_all add: isSafeAppDataRoot_def\<close>)

lemma safe_segment_text:
  assumes "isSafePathSegment v"
  obtains s where "v = JStr s" and "slash_free s"
  using assms segment_slash_free by (cases v) (auto simp: isSafePathSegment_def)

lemma slash_free_eval: "slash_free s \<longleftrightarrow> s \<noteq> [] \<and> list_all (\<lambda>x. x \<noteq> CHR ''/'' \<and> x \<noteq> CHR 0x5C) s"
  by (auto simp: slash_free_def list_all_iff)

text \<open>The folders of a room, below its root.\<close>

lemma layout_paths:
  assumes layout: "createAppDataLayout room = Some layout"
    and root: "coalesce (jget room ''appDataRoot'') (jget room ''dataRoot'') = JStr r" "r \<noteq> []"
    and rid: "jget room ''id'' = JStr rid" "slash_free rid"
  shows "jget layout ''roomRoot'' = JStr (root_dir r @ under_root [''rooms'', rid])"
    and "jget layout ''runtime'' = JStr (root_dir r @ under_root [''rooms'', rid, ''runtime''])"
    and "jget layout ''mods'' = JStr (root_dir r @ under_root [''rooms'', rid, ''mods''])"
    and "jget layout ''eula'' = JStr (root_dir r @ under_root [''rooms'', rid, ''eula.txt''])"
    and "jget layout ''serverProperties'' = JStr (root_dir r @ under_root [''rooms'', rid, ''server.properties''])"
    and "jget layout ''world'' = JStr (root_dir r @ under_root [''rooms'', rid, ''world''])"
    and "jget layout ''logs'' = JStr (root_dir r @ under_root [''rooms'', rid, ''logs''])"
    and "jget layout ''cache'' = JStr (root_dir r @ under_root [''cache''])"
    and "jget layout ''downloads'' = JStr (root_dir r @ under_root [''cache'', ''downloads''])"
    and "jget layout ''metadata'' = JStr (root_dir r @ under_root [''cache'', ''metadata''])"
    and "jget layout ''appDataRoot'' = JStr (normalizeRoot (JStr r))"
proof -
  let ?rr = "root_dir r @ under_root [''rooms'', rid]"
  have rr: "joinPath [JStr r, JStr ''rooms'', JStr rid] = ?rr"
    using joinPath_root [OF root(2), of "[''rooms'', rid]"] rid(2) by (simp add: slash_free_eval)
  have sub: "joinPath [JStr ?rr, JStr x] = root_dir r @ under_root [''rooms'', rid, x]" if "slash_free x" for x
    using joinPath_more [of "[''rooms'', rid]" "[x]" r] that rid(2) by (simp add: slash_free_eval)
  have room: "or_empty room = room" using rid(1) by (cases room) (simp_all add: or_empty_def)
  note l = layout [unfolded createAppDataLayout_def Let_def room]
  have get: "dot room ''appDataRoot'' = Some (jget room ''appDataRoot'')" using rid(1) by (cases room) (simp_all add: dot_def)
  have lay: "layout = JObj
         [(''appDataRoot'', JStr (normalizeRoot (JStr r))), (''roomRoot'', JStr ?rr),
          (''runtime'', JStr (joinPath [JStr ?rr, JStr ''runtime''])),
          (''cache'', JStr (joinPath [JStr r, JStr ''cache''])),
          (''downloads'', JStr (joinPath [JStr r, JStr ''cache'', JStr ''downloads''])),
          (''metadata'', JStr (joinPath [JStr r, JStr ''cache'', JStr ''metadata''])),
          (''serverProperties'', JStr (joinPath [JStr ?rr, JStr ''server.properties''])),
          (''eula'', JStr (joinPath [JStr ?rr, JStr ''eula.txt''])),
          (''mods'', JStr (joinPath [JStr ?rr, JStr ''mods''])),
          (''world'', JStr (joinPath [JStr ?rr, JStr ''world''])),
          (''logs'', JStr (joinPath [JStr ?rr, JStr ''logs'']))]"
    using l by (simp add: get root(1) rid(1) rr split: if_splits del: under_root_simps)
  show "jget layout ''roomRoot'' = JStr ?rr" by (simp add: lay)
  show "jget layout ''runtime'' = JStr (root_dir r @ under_root [''rooms'', rid, ''runtime''])"
    using sub [of "''runtime''"] by (simp add: lay slash_free_eval del: under_root_simps)
  show "jget layout ''mods'' = JStr (root_dir r @ under_root [''rooms'', rid, ''mods''])"
    using sub [of "''mods''"] by (simp add: lay slash_free_eval del: under_root_simps)
  show "jget layout ''eula'' = JStr (root_dir r @ under_root [''rooms'', rid, ''eula.txt''])"
    using sub [of "''eula.txt''"] by (simp add: lay slash_free_eval del: under_root_simps)
  show "jget layout ''serverProperties'' = JStr (root_dir r @ under_root [''rooms'', rid, ''server.properties''])"
    using sub [of "''server.properties''"] by (simp add: lay slash_free_eval del: under_root_simps)
  show "jget layout ''world'' = JStr (root_dir r @ under_root [''rooms'', rid, ''world''])"
    using sub [of "''world''"] by (simp add: lay slash_free_eval del: under_root_simps)
  show "jget layout ''logs'' = JStr (root_dir r @ under_root [''rooms'', rid, ''logs''])"
    using sub [of "''logs''"] by (simp add: lay slash_free_eval del: under_root_simps)
  show "jget layout ''cache'' = JStr (root_dir r @ under_root [''cache''])"
    using joinPath_root [OF root(2), of "[''cache'']"] by (simp add: lay slash_free_eval del: under_root_simps)
  show "jget layout ''downloads'' = JStr (root_dir r @ under_root [''cache'', ''downloads''])"
    using joinPath_root [OF root(2), of "[''cache'', ''downloads'']"]
    by (simp add: lay slash_free_eval del: under_root_simps)
  show "jget layout ''metadata'' = JStr (root_dir r @ under_root [''cache'', ''metadata''])"
    using joinPath_root [OF root(2), of "[''cache'', ''metadata'']"]
    by (simp add: lay slash_free_eval del: under_root_simps)
  show "jget layout ''appDataRoot'' = JStr (normalizeRoot (JStr r))" by (simp add: lay)
qed

lemma mod_entry_facts:
  assumes "mod_install_entry layout m = Some e"
  shows "jget e ''fileName'' = jget m ''fileName''"
    and "jget e ''target'' = JStr (joinPath [jget layout ''mods'', jget m ''fileName''])"
    and "jget e ''verified'' = JBool (checksumsMatch (coalesce (jget m ''expectedSha256'') (jget m ''sha256''))
          (jget m ''sha256''))"
  using assms by (auto simp: mod_install_entry_def bind_eq_Some_conv)

text \<open>The parts a plan is put together from.\<close>

lemma plan_parts:
  assumes plan: "createHostRuntimePlan input = Some (Inr plan)"
  obtains loader layout mods eula props where
    "validateHostRuntime input = Some None" "isSafeFileName (jget loader ''launcherJar'')"
    "createAppDataLayout (jget input ''room'') = Some layout"
    "createModInstallPlan (jget input ''pack'') layout = Some mods"
    "createEulaPlan (jget input ''eula'') layout = Some eula"
    "createServerPropertiesPlan (jget input ''serverProperties'') layout = Some props"
    "jget plan ''layout'' = layout" "jget plan ''mods'' = mods" "jget plan ''eula'' = eula"
    "jget plan ''serverProperties'' = props"
    "jget (jget plan ''fabric'') ''launcherJar'' =
       JStr (joinPath [jget layout ''runtime'', jget loader ''launcherJar''])"
    "jget plan ''command'' = JArr [jget (jget input ''java'') ''path'', JStr ''-jar'',
       JStr (joinPath [jget layout ''runtime'', jget loader ''launcherJar'']), JStr ''nogui'']"
    "jget (jget plan ''room'') ''id'' = jget (jget input ''room'') ''id''"
    "jget plan ''files'' = JObj [(''root'', jget layout ''roomRoot''),
       (''serverProperties'', jget layout ''serverProperties''), (''eula'', jget layout ''eula''),
       (''mods'', jget layout ''mods''), (''world'', jget layout ''world'')]"
    "\<not> nullish (jget plan ''bridge'')" "\<not> nullish (jget plan ''pack'')" 
    "jget (jget plan ''java'') ''path'' = jget (jget input ''java'') ''path''"
proof -
  have input: "or_empty input = input"
  proof (rule ccontr)
    assume "or_empty input \<noteq> input"
    then have "input = JUndef" by (auto simp: or_empty_def split: if_splits)
    with plan show False
      by (simp add: createHostRuntimePlan_def validateHostRuntime_def or_empty_def dot_def
          selectSupportedMinecraftVersion_def arr_of_def found_def)
  qed
  obtain failure where f: "validateHostRuntime input = Some failure"
    using plan by (cases "validateHostRuntime input") (simp_all add: createHostRuntimePlan_def input)
  then have valid: "validateHostRuntime input = Some None"
    using plan by (cases failure) (simp_all add: createHostRuntimePlan_def input)
  obtain selected where sel: "selectSupportedMinecraftVersion (jget input ''minecraft'') = Some (Inr selected)"
    by (rule validate_parts [OF valid])
  define loading where "loading = resolveFabricLoader (JObj [(''minecraftVersion'', jget selected ''version''),
       (''loaders'', jget (jget input ''fabric'') ''loaders''),
       (''defaultLoaderVersion'', jget (jget input ''fabric'') ''loaderVersion'')])"
  note p = plan [unfolded createHostRuntimePlan_def Let_def input, simplified valid sel, simplified,
      folded loading_def]
  obtain loader where loading: "loading = Some (Inr loader)"
    using p by (cases loading) (auto split: sum.splits)
  have jar: "isSafeFileName (jget loader ''launcherJar'')"
    using p loading by (auto split: if_splits)
  from p loading jar show thesis
    apply (simp add: bind_eq_Some_conv)
    apply (elim conjE exE)
    apply (rule that [OF valid jar])
             apply (assumption | (hypsubst, simp add: jget_obj_with_new))+
    done
qed

section \<open>Properties\<close>

lemma install_plan_entries:
  assumes "createModInstallPlan pack layout = Some mods" and "truthy (jget pack ''fixed'')"
    and "arr_of (coalesce (jget pack ''mods'') (JArr [])) = Some ms"
    and "e \<in> set (elems (jget mods ''entries''))"
  shows "\<exists>m \<in> set ms. mod_install_entry layout m = Some e"
proof -
  have "or_empty pack = pack" "dot pack ''mods'' = Some (jget pack ''mods'')"
    using assms(2) by (cases pack; simp add: or_empty_def dot_def)+
  with assms(1,3) obtain es where "traverse (mod_install_entry layout) ms = Some es"
      "jget mods ''entries'' = JArr es"
    by (auto simp: createModInstallPlan_def bind_eq_Some_conv)
  with assms(4) traverse_SomeD(2) [of "mod_install_entry layout" ms es e] show ?thesis by auto
qed

text \<open>
  C21. A plan is made only when the host is ready (Java, EULA, fixed pack, all checksums equal,
  not crashed), and everything it installs or runs lies below the folder of the room: the launcher
  in the command and every mod's target are one safe file name below the room's own folder, the
  application's root has no \<open>..\<close> in it, and every mod to install is verified.
\<close>

theorem host_plan_safe:
  assumes "createHostRuntimePlan input = Some (Inr plan)"
  shows "host_ready input \<and>
    (\<exists>r rid jar. host_root input = JStr r \<and> \<not> hasParentPathSegment (root_dir r) \<and>
       jget (jget input ''room'') ''id'' = JStr rid \<and> isSafePathSegment (JStr rid) \<and>
       isSafeFileName (JStr jar) \<and>
       jget plan ''command'' = JArr [jget (jget input ''java'') ''path'', JStr ''-jar'',
         JStr (root_dir r @ under_root [''rooms'', rid, ''runtime'', jar]), JStr ''nogui''] \<and>
       jget (jget plan ''eula'') ''path'' = JStr (root_dir r @ under_root [''rooms'', rid, ''eula.txt'']) \<and>
       jget (jget plan ''serverProperties'') ''path'' =
         JStr (root_dir r @ under_root [''rooms'', rid, ''server.properties'']) \<and>
       (\<forall>e \<in> set (elems (jget (jget plan ''mods'') ''entries'')). jget e ''verified'' = JBool True \<and>
          (\<exists>name. isSafeFileName (JStr name) \<and> jget e ''fileName'' = JStr name \<and>
             jget e ''target'' = JStr (root_dir r @ under_root [''rooms'', rid, ''mods'', name]))))"
proof -
  obtain loader layout mods eula props where
    valid: "validateHostRuntime input = Some None" and jar0: "isSafeFileName (jget loader ''launcherJar'')"
    and layout: "createAppDataLayout (jget input ''room'') = Some layout"
    and mods: "createModInstallPlan (jget input ''pack'') layout = Some mods"
    and eula: "createEulaPlan (jget input ''eula'') layout = Some eula"
    and props: "createServerPropertiesPlan (jget input ''serverProperties'') layout = Some props"
    and plan: "jget plan ''mods'' = mods" "jget plan ''eula'' = eula" "jget plan ''serverProperties'' = props"
      "jget plan ''command'' = JArr [jget (jget input ''java'') ''path'', JStr ''-jar'',
         JStr (joinPath [jget layout ''runtime'', jget loader ''launcherJar'']), JStr ''nogui'']"
    by (rule plan_parts [OF assms])
  obtain ms where ready: "host_ready input" "isSafeAppDataRoot (host_root input)"
      "isSafePathSegment (jget (jget input ''room'') ''id'')"
    and ms: "arr_of (coalesce (jget (jget input ''pack'') ''mods'') (JArr [])) = Some ms"
      "\<forall>m \<in> set ms. \<not> nullish m \<and> isSafeFileName (jget m ''fileName'') \<and>
       checksumsMatch (coalesce (jget m ''expectedSha256'') (jget m ''sha256'')) (jget m ''sha256'')"
    by (rule validate_parts [OF valid])
  obtain r where r: "host_root input = JStr r" "r \<noteq> []" "\<not> hasParentPathSegment r"
    by (rule safe_root_text [OF ready(2)])
  obtain rid where rid: "jget (jget input ''room'') ''id'' = JStr rid" "slash_free rid"
    by (rule safe_segment_text [OF ready(3)])
  obtain jar where jar: "jget loader ''launcherJar'' = JStr jar" "slash_free jar"
    using jar0 by (auto simp: isSafeFileName_def elim: safe_segment_text)
  note paths = layout_paths [OF layout r(1) [unfolded host_root_def] r(2) rid]
  have under: "joinPath [JStr (root_dir r @ under_root [''rooms'', rid, d]), JStr x] =
      root_dir r @ under_root [''rooms'', rid, d, x]" if "slash_free d" "slash_free x" for d x
    using joinPath_more [of "[''rooms'', rid, d]" "[x]" r] that rid(2) by (simp add: slash_free_eval)
  have "jget plan ''command'' = JArr [jget (jget input ''java'') ''path'', JStr ''-jar'',
      JStr (root_dir r @ under_root [''rooms'', rid, ''runtime'', jar]), JStr ''nogui'']"
    using under [of "''runtime''" jar] jar by (simp add: plan(4) paths slash_free_eval del: under_root_simps)
  moreover have "jget (jget plan ''eula'') ''path'' = JStr (root_dir r @ under_root [''rooms'', rid, ''eula.txt''])"
    using eula by (auto simp: plan createEulaPlan_def bind_eq_Some_conv paths simp del: under_root_simps)
  moreover have "jget (jget plan ''serverProperties'') ''path'' =
      JStr (root_dir r @ under_root [''rooms'', rid, ''server.properties''])"
    using props by (auto simp: plan createServerPropertiesPlan_def Let_def bind_eq_Some_conv paths simp del: under_root_simps)
  moreover have "jget e ''verified'' = JBool True \<and>
      (\<exists>name. isSafeFileName (JStr name) \<and> jget e ''fileName'' = JStr name \<and>
         jget e ''target'' = JStr (root_dir r @ under_root [''rooms'', rid, ''mods'', name]))"
    if e: "e \<in> set (elems (jget (jget plan ''mods'') ''entries''))" for e
  proof -
    have "truthy (jget (jget input ''pack'') ''fixed'')" using ready(1) by (simp add: host_ready_def)
    from install_plan_entries [OF mods this ms(1)] e plan(1)
    obtain m where m: "m \<in> set ms" "mod_install_entry layout m = Some e" by auto
    note fields = mod_entry_facts [OF m(2)]
    from ms(2) m(1) have good: "isSafeFileName (jget m ''fileName'')"
        "checksumsMatch (coalesce (jget m ''expectedSha256'') (jget m ''sha256'')) (jget m ''sha256'')"
      by auto
    then obtain name where name: "jget m ''fileName'' = JStr name" "slash_free name"
      by (auto simp: isSafeFileName_def elim: safe_segment_text)
    with good fields under [of "''mods''" name] show ?thesis
      by (simp add: paths slash_free_eval del: under_root_simps)
  qed
  ultimately show ?thesis
    using ready r rid jar0 jar root_dir_parent [OF r(3)]
    by (intro conjI exI [of _ r] exI [of _ rid] exI [of _ jar]) auto
qed

definition demo_host_input :: jsval where
  "demo_host_input = JObj
    [(''minecraft'', JObj [(''version'', JStr ''1.21.1''), (''supportedVersions'', JArr [JStr ''1.21.1''])]),
     (''java'', JObj [(''path'', JStr ''java''), (''majorVersion'', JNum 21)]),
     (''eula'', JObj [(''accepted'', JBool True)]),
     (''fabric'', JObj [(''loaderVersion'', JStr ''0.16''), (''expectedInstallerSha256'', JStr ''a''),
        (''installerSha256'', JStr ''a'')]),
     (''pack'', JObj [(''fixed'', JBool True), (''expectedSha256'', JStr ''b''), (''sha256'', JStr ''b''),
        (''mods'', JArr [JObj [(''fileName'', JStr ''lithium.jar''), (''sha256'', JStr ''c'')]])]),
     (''runtime'', JObj [(''state'', JStr ''stopped'')]),
     (''room'', JObj [(''id'', JStr ''room1''), (''appDataRoot'', JStr ''C:/data//x'')])]"

lemma demo_host_valid:
  "validateHostRuntime demo_host_input = Some None"
  "isSafeAppDataRoot (JStr ''C:/data//x'')" "isSafePathSegment (JStr ''room1'')"
  "isSafeFileName (JStr ''fabric-server-launch.jar'')"
  by code_simp+

lemmas host_plan_eval = createHostRuntimePlan_def Let_def or_empty_def selectSupportedMinecraftVersion_def
  dot_def arr_of_def found_def resolveFabricLoader_def createAppDataLayout_def
  createWindowsJavaDetectionPlan_def createModInstallPlan_def mod_install_entry_def createCachePlan_def
  createEulaPlan_def createServerPropertiesPlan_def

lemma demo_host_plan:
  "case createHostRuntimePlan demo_host_input of
     Some (Inr plan) \<Rightarrow> length (elems (jget (jget plan ''mods'') ''entries'')) = 1 | _ \<Rightarrow> False"
  using demo_host_valid by (simp add: host_plan_eval demo_host_input_def)

theorem host_plan_safe_witness:
  "\<exists>plan. createHostRuntimePlan demo_host_input = Some (Inr plan) \<and>
     (\<forall>e \<in> set (elems (jget (jget plan ''mods'') ''entries'')). jget e ''verified'' = JBool True) \<and>
     elems (jget (jget plan ''mods'') ''entries'') \<noteq> []"
proof -
  obtain plan where plan: "createHostRuntimePlan demo_host_input = Some (Inr plan)"
      "length (elems (jget (jget plan ''mods'') ''entries'')) = 1"
    using demo_host_plan by (auto split: option.splits sum.splits)
  from host_plan_safe [OF plan(1)] plan show ?thesis by fastforce
qed

section \<open>What the validation lets through\<close>

text \<open>
  When the requested version is absent, the first supported version given as a text is taken:
  a text has no property \<open>version\<close>, and \<open>undefined === undefined\<close>.
\<close>

lemma missing_version_selects_first:
  "selectSupportedMinecraftVersion (JObj [(''supportedVersions'', JArr [JStr ''1.8.9'', JStr ''1.21.1''])]) =
     Some (Inr (JObj [(''ok'', JBool True), (''version'', JStr ''1.8.9''), (''channel'', JStr ''stable'')]))"
  by (simp add: selectSupportedMinecraftVersion_def or_empty_def dot_def arr_of_def found_def)

text \<open>
  The validation accepts any truthy consent, the EULA plan only \<open>true\<close>: a plan can be complete
  and yet not write the consent file.
\<close>

definition unclear_consent :: jsval where
  "unclear_consent = jput ''eula'' (JObj [(''accepted'', JStr ''yes'')]) demo_host_input"

lemma unclear_consent_valid: "validateHostRuntime unclear_consent = Some None"
  by code_simp

lemma eula_consent_gap:
  "case createHostRuntimePlan unclear_consent of
     Some (Inr plan) \<Rightarrow> jget (jget plan ''eula'') ''writeText'' = JNull | _ \<Rightarrow> False"
  using unclear_consent_valid demo_host_valid
  by (simp add: host_plan_eval unclear_consent_def demo_host_input_def)

end
