(* ===== verification/Zip.thy ===== *)
theory Zip
  imports JsOps "HOL-Library.Word"
begin

unbundle bit_operations_syntax

text \<open>
  The zip container of \<open>packages/modpack-builder/src/mrpack.mjs\<close>: \<open>createZipArchive\<close> with its
  headers and its table-driven checksum, and the reader \<open>listZipEntryNames\<close>.

  A \<open>Buffer\<close> is a list of bytes. Writing a value that does not fit its field, or outside the
  buffer, throws (\<open>None\<close>). \<open>deflate\<close> stands for \<open>deflateRawSync\<close> of \<open>node:zlib\<close>. The bit
  operations of JavaScript on numbers are those of 32-bit words (\<open>>>> 0\<close> only changes the sign
  in which a word is read).
\<close>

type_synonym bytes = "8 word list"

section \<open>Buffers\<close>

fun le_bytes :: "nat \<Rightarrow> nat \<Rightarrow> bytes" where
  "le_bytes 0 v = []"
| "le_bytes (Suc n) v = of_nat (v mod 256) # le_bytes n (v div 256)"

fun le_value :: "bytes \<Rightarrow> nat" where
  "le_value [] = 0"
| "le_value (b # bs) = unat b + 256 * le_value bs"

text \<open>\<open>writeUInt16LE\<close> and \<open>writeUInt32LE\<close> are \<open>write_le 2\<close> and \<open>write_le 4\<close>.\<close>

definition write_le :: "nat \<Rightarrow> nat \<Rightarrow> nat \<Rightarrow> bytes \<Rightarrow> bytes option" where
  "write_le n v off buf =
    (if v < 256 ^ n \<and> off + n \<le> length buf
     then Some (take off buf @ le_bytes n v @ drop (off + n) buf) else None)"

definition read_le :: "nat \<Rightarrow> nat \<Rightarrow> bytes \<Rightarrow> nat option" where
  "read_le n off buf = (if off + n \<le> length buf then Some (le_value (take n (drop off buf))) else None)"

definition write_fields :: "(nat \<times> nat \<times> nat) list \<Rightarrow> bytes \<Rightarrow> bytes option" where
  "write_fields = opt_fold (\<lambda>(n, v, off) buf. write_le n v off buf)"

text \<open>UTF-8 of the model's characters; what is no such text is read as the character 255.\<close>

definition utf8_char :: "char \<Rightarrow> bytes" where
  "utf8_char x =
    (let n = of_char x :: nat in
     if n < 128 then [of_nat n] else [of_nat (192 + n div 64), of_nat (128 + n mod 64)])"

definition utf8_encode :: "string \<Rightarrow> bytes" where
  "utf8_encode s = concat (map utf8_char s)"

fun utf8_decode :: "bytes \<Rightarrow> string" where
  "utf8_decode [] = []"
| "utf8_decode (b # bs) =
    (if unat b < 128 then char_of (unat b) # utf8_decode bs
     else case bs of
       b' # bs' \<Rightarrow>
         if unat b \<in> {194, 195} \<and> 128 \<le> unat b' \<and> unat b' < 192
         then char_of ((unat b - 192) * 64 + (unat b' - 128)) # utf8_decode bs'
         else CHR 0xFF # utf8_decode bs
     | [] \<Rightarrow> [CHR 0xFF])"

section \<open>The checksum\<close>

definition crc_bit :: "32 word \<Rightarrow> 32 word" where
  "crc_bit v = (if v AND 1 \<noteq> 0 then 0xedb88320 XOR drop_bit 1 v else drop_bit 1 v)"

definition crc_entry :: "nat \<Rightarrow> 32 word" where
  "crc_entry index = (crc_bit ^^ 8) (of_nat index)"

definition crcTable :: "32 word list" where
  "crcTable = map crc_entry [0..<256]"

definition crc_step :: "8 word \<Rightarrow> 32 word \<Rightarrow> 32 word" where
  "crc_step byte crc = drop_bit 8 crc XOR (crcTable ! unat ((crc XOR ucast byte) AND 0xff))"

definition crc32 :: "bytes \<Rightarrow> 32 word" where
  "crc32 buf = fold crc_step buf 0xffffffff XOR 0xffffffff"

section \<open>Headers\<close>

definition createLocalHeader :: "bytes \<Rightarrow> 32 word \<Rightarrow> bytes \<Rightarrow> bytes \<Rightarrow> bytes option" where
  "createLocalHeader filename crc compressed uncompressed = do {
     header \<leftarrow> write_fields
       [(4, 0x04034b50, 0), (2, 20, 4), (2, 0, 6), (2, 8, 8), (2, 0, 10), (2, 0, 12),
        (4, unat crc, 14), (4, length compressed, 18), (4, length uncompressed, 22),
        (2, length filename, 26), (2, 0, 28)] (replicate 30 0);
     Some (header @ filename) }"

definition createCentralHeader :: "bytes \<Rightarrow> 32 word \<Rightarrow> bytes \<Rightarrow> bytes \<Rightarrow> nat \<Rightarrow> bytes option" where
  "createCentralHeader filename crc compressed uncompressed offset = do {
     header \<leftarrow> write_fields
       [(4, 0x02014b50, 0), (2, 20, 4), (2, 20, 6), (2, 0, 8), (2, 8, 10), (2, 0, 12), (2, 0, 14),
        (4, unat crc, 16), (4, length compressed, 20), (4, length uncompressed, 24),
        (2, length filename, 28), (2, 0, 30), (2, 0, 32), (2, 0, 34), (2, 0, 36), (4, 0, 38),
        (4, offset, 42)] (replicate 46 0);
     Some (header @ filename) }"

definition createEndOfCentralDirectory :: "nat \<Rightarrow> nat \<Rightarrow> nat \<Rightarrow> bytes option" where
  "createEndOfCentralDirectory entryCount centralSize centralOffset = write_fields
     [(4, 0x06054b50, 0), (2, 0, 4), (2, 0, 6), (2, entryCount, 8), (2, entryCount, 10),
      (4, centralSize, 12), (4, centralOffset, 16), (2, 0, 20)] (replicate 22 0)"

record zip_entry =
  ze_name :: string
  ze_contents :: bytes

record zip_records =
  zr_local :: bytes
  zr_central :: bytes
  zr_offset :: nat

definition zip_add ::
  "(bytes \<Rightarrow> bytes) \<Rightarrow> zip_entry \<Rightarrow> zip_records \<Rightarrow> zip_records option" where
  "zip_add deflate entry r = do {
     let filename = utf8_encode (ze_name entry);
     let uncompressed = ze_contents entry;
     let compressed = deflate uncompressed;
     let crc = crc32 uncompressed;
     localHeader \<leftarrow> createLocalHeader filename crc compressed uncompressed;
     centralHeader \<leftarrow> createCentralHeader filename crc compressed uncompressed (zr_offset r);
     Some \<lparr>zr_local = zr_local r @ localHeader @ compressed, zr_central = zr_central r @ centralHeader,
       zr_offset = zr_offset r + (length localHeader + length compressed)\<rparr> }"

definition createZipArchive :: "(bytes \<Rightarrow> bytes) \<Rightarrow> zip_entry list \<Rightarrow> bytes option" where
  "createZipArchive deflate entries = do {
     r \<leftarrow> opt_fold (zip_add deflate) entries \<lparr>zr_local = [], zr_central = [], zr_offset = 0\<rparr>;
     ending \<leftarrow> createEndOfCentralDirectory (length entries) (length (zr_central r)) (zr_offset r);
     Some (zr_local r @ zr_central r @ ending) }"

section \<open>Reading\<close>

datatype zip_error = Zip_too_small | Zip_directory_outside | Zip_entry_invalid | Zip_name_outside
  | Zip_no_end | Zip_out_of_range

primrec zip_error_message :: "zip_error \<Rightarrow> string" where
  "zip_error_message Zip_too_small = ''zip archive is too small''"
| "zip_error_message Zip_directory_outside = ''central directory is outside the archive''"
| "zip_error_message Zip_entry_invalid = ''central directory entry is invalid''"
| "zip_error_message Zip_name_outside = ''central directory filename is outside the archive''"
| "zip_error_message Zip_no_end = ''end of central directory was not found''"
| "zip_error_message Zip_out_of_range = ''The value of offset is out of range.''"

definition reading :: "nat \<Rightarrow> nat \<Rightarrow> bytes \<Rightarrow> (nat \<Rightarrow> zip_error + 'a) \<Rightarrow> zip_error + 'a" where
  "reading n off buf k = (case read_le n off buf of None \<Rightarrow> Inl Zip_out_of_range | Some v \<Rightarrow> k v)"

definition findEndOfCentralDirectory :: "bytes \<Rightarrow> nat option" where
  "findEndOfCentralDirectory buf =
    (let minimumOffset = length buf - 0xffff - 22
     in List.find (\<lambda>off. read_le 4 off buf = Some 0x06054b50) (rev [minimumOffset..<length buf - 21]))"

fun read_entries :: "bytes \<Rightarrow> nat \<Rightarrow> nat \<Rightarrow> zip_error + string list" where
  "read_entries buf 0 off = Inr []"
| "read_entries buf (Suc n) off =
    (if off + 46 > length buf \<or> read_le 4 off buf \<noteq> Some 0x02014b50 then Inl Zip_entry_invalid
     else
       reading 2 (off + 28) buf (\<lambda>nameLength.
       reading 2 (off + 30) buf (\<lambda>extraLength.
       reading 2 (off + 32) buf (\<lambda>commentLength.
         let nameStart = off + 46;
             nameEnd = nameStart + nameLength
         in if nameEnd > length buf then Inl Zip_name_outside
            else case read_entries buf n (nameEnd + extraLength + commentLength) of
              Inl e \<Rightarrow> Inl e
            | Inr names \<Rightarrow> Inr (utf8_decode (take nameLength (drop nameStart buf)) # names)))))"

definition listZipEntryNames :: "bytes \<Rightarrow> zip_error + string list" where
  "listZipEntryNames buf =
    (if length buf < 22 then Inl Zip_too_small
     else case findEndOfCentralDirectory buf of
       None \<Rightarrow> Inl Zip_no_end
     | Some endOffset \<Rightarrow>
        reading 2 (endOffset + 10) buf (\<lambda>entryCount.
        reading 4 (endOffset + 12) buf (\<lambda>centralSize.
        reading 4 (endOffset + 16) buf (\<lambda>centralOffset.
          if centralOffset + centralSize > length buf then Inl Zip_directory_outside
          else read_entries buf entryCount centralOffset))))"

section \<open>Fields written and read\<close>

lemma length_le_bytes [simp]: "length (le_bytes n v) = n"
  by (induction n arbitrary: v) auto

lemma le_value_bytes: "v < 256 ^ n \<Longrightarrow> le_value (le_bytes n v) = v"
proof (induction n arbitrary: v)
  case (Suc n)
  then have "v div 256 < 256 ^ n" by (simp add: less_mult_imp_div_less algebra_simps)
  moreover have "unat (of_nat (v mod 256) :: 8 word) = v mod 256"
    by (simp add: unat_of_nat)
  ultimately show ?case using Suc.IH by simp
qed simp

lemma read_le_at:
  "length pre = off \<Longrightarrow> length mid = n \<Longrightarrow> read_le n off (pre @ mid @ post) = Some (le_value mid)"
  by (simp add: read_le_def)

text \<open>Fields one after the other, from an offset on, fill the rest of the buffer.\<close>

fun consecutive :: "nat \<Rightarrow> (nat \<times> nat \<times> nat) list \<Rightarrow> bool" where
  "consecutive off [] = True"
| "consecutive off ((n, v, o') # fs) = (o' = off \<and> consecutive (off + n) fs)"

lemma write_fields_consecutive:
  assumes "consecutive (length pre) fs" and "length rest = sum_list (map fst fs)"
  shows "write_fields fs (pre @ rest) =
    (if list_all (\<lambda>(n, v, _). v < 256 ^ n) fs
     then Some (pre @ concat (map (\<lambda>(n, v, _). le_bytes n v) fs)) else None)"
  using assms
proof (induction fs arbitrary: pre rest)
  case Nil
  then show ?case by (simp add: write_fields_def)
next
  case (Cons f fs)
  obtain n v o' where f: "f = (n, v, o')" by (cases f)
  with Cons.prems have o: "o' = length pre" "consecutive (length (pre @ le_bytes n v)) fs"
      "length (drop n rest) = sum_list (map fst fs)" "n \<le> length rest"
    by auto
  show ?case
  proof (cases "v < 256 ^ n")
    case True
    have "write_fields (f # fs) (pre @ rest) = write_fields fs ((pre @ le_bytes n v) @ drop n rest)"
      using True o(1,4) by (simp add: write_fields_def f write_le_def)
    with Cons.IH [OF o(2,3)] True show ?thesis by (simp add: f)
  next
    case False
    then show ?thesis by (simp add: write_fields_def f write_le_def)
  qed
qed

lemma write_fields_all:
  assumes "consecutive 0 fs" and "n = sum_list (map fst fs)"
  shows "write_fields fs (replicate n 0) =
    (if list_all (\<lambda>(n, v, _). v < 256 ^ n) fs
     then Some (concat (map (\<lambda>(n, v, _). le_bytes n v) fs)) else None)"
  using write_fields_consecutive [of "[]" fs "replicate n 0"] assms by simp

end
