(* ===== verification/Mrpack.thy ===== *)
theory Mrpack
  imports Safety Zip JsNumber
begin

text \<open>
  \<open>packages/modpack-builder/src/mrpack.mjs\<close>: validating a Modrinth pack template against the
  approved files and the first-party artifact locks, building the manifest and its archive.

  \<^item> \<open>parse_url\<close> is \<open>new URL(v)\<close>, \<open>None\<close> when it throws.
  \<^item> \<open>sha1\<close> and \<open>sha512\<close> are the digests of \<open>node:crypto\<close> in hexadecimal.
  \<^item> \<open>readFile\<close> and \<open>writeFile\<close> are the caller's: the contents come in as an argument and what is
    written goes out with the result.
  \<^item> A thrown \<open>Error\<close> with a message of the program is \<open>Inl\<close> of the message, any other exception
    \<open>None\<close>.
\<close>

section \<open>Reasons and tables\<close>

datatype mrpack_failure = MF_INVALID_TEMPLATE | MF_FIRST_PARTY_ARTIFACT_PENDING | MF_UNSAFE_DOWNLOAD_METADATA

primrec mrpack_failure_str :: "mrpack_failure \<Rightarrow> string" where
  "mrpack_failure_str MF_INVALID_TEMPLATE = ''invalid_template''"
| "mrpack_failure_str MF_FIRST_PARTY_ARTIFACT_PENDING = ''first_party_artifact_pending''"
| "mrpack_failure_str MF_UNSAFE_DOWNLOAD_METADATA = ''unsafe_download_metadata''"

primrec mrpack_failure_message :: "mrpack_failure \<Rightarrow> string" where
  "mrpack_failure_message MF_INVALID_TEMPLATE = ''Modrinth pack template is not complete.''"
| "mrpack_failure_message MF_FIRST_PARTY_ARTIFACT_PENDING =
     ''First-party connection mod artifact metadata is still pending.''"
| "mrpack_failure_message MF_UNSAFE_DOWNLOAD_METADATA =
     ''Pack files must keep original HTTPS downloads, hashes, and file sizes.''"

definition file_lock :: "jsval list \<Rightarrow> jsval \<Rightarrow> jsval \<Rightarrow> jsval \<Rightarrow> jsval" where
  "file_lock downloads s1 s512 sz = JObj [(''downloads'', JArr downloads),
     (''hashes'', JObj [(''sha1'', s1), (''sha512'', s512)]), (''fileSize'', sz)]"

definition mvp0ApprovedFiles :: "(string \<times> jsval) list" where
  "mvp0ApprovedFiles =
    [(''mods/fabric-api-0.116.11+1.21.1.jar'', file_lock
        [JStr ''https://cdn.modrinth.com/data/P7dR8mSH/versions/IpaMcBLh/fabric-api-0.116.11%2B1.21.1.jar'']
        (JStr ''65f4e8b9dcbad6697b2fb32fa0bb937ec5efcd84'')
        (JStr ''756b8c086f4c911d012f2eb70ca792aef0439503b31bc52026b82830870a94d472de30d61a6a0a9988c02b8462d9c47aa6baa6cd84da1eaf00edb77249b3c413'')
        (JNum 2426356)),
     (''mods/lithium-fabric-0.15.3+mc1.21.1.jar'', file_lock
        [JStr ''https://cdn.modrinth.com/data/gvQqBUqZ/versions/XQJtuOTA/lithium-fabric-0.15.3%2Bmc1.21.1.jar'']
        (JStr ''c4a1c2b6de9915ac77ae46a005509d4acf09535d'')
        (JStr ''8c576d519121b0c2521101d2209eccd85d560b097fcb847aa54c51cd0d3f3947676f01c8d99913f514487c8e0972a1cf5f3da0c9ef0ec9bacdf2baeb4eb7d1a7'')
        (JNum 797398)),
     (''mods/ferritecore-7.0.3-fabric.jar'', file_lock
        [JStr ''https://cdn.modrinth.com/data/uXXizFIs/versions/sOzRw3CG/ferritecore-7.0.3-fabric.jar'']
        (JStr ''a8a6a34fcda177da2828cedef44e0e538cf78aad'')
        (JStr ''3ad31620fac4ff44327dc7dedbe162b2d978f3f246dc16255a6e400ce9592a0d326fe36a626f3c1bf30a11f813093cbb4dcc107af039cff724d0cdf648541fdf'')
        (JNum 123450))]"

definition firstPartyArtifactPaths :: "jsval list" where
  "firstPartyArtifactPaths = [JStr ''mods/local-room-client-connection-0.1.0-alpha.jar'',
     JStr ''mods/local-room-server-bridge-0.1.0-alpha.jar'']"

definition firstPartyArtifactJarExpectations :: "(string \<times> jsval) list" where
  "firstPartyArtifactJarExpectations =
    [(''mods/local-room-client-connection-0.1.0-alpha.jar'',
        JObj [(''className'', JStr ''com/easymc/room/client/LocalRoomClientMod.class'')]),
     (''mods/local-room-server-bridge-0.1.0-alpha.jar'',
        JObj [(''className'', JStr ''com/easymc/room/server/LocalRoomServerBridgeMod.class'')])]"

text \<open>\<open>table[key]\<close> on an object with the usual prototype: inherited members have no own fields.\<close>

definition table_get :: "(string \<times> jsval) list \<Rightarrow> jsval \<Rightarrow> jsval" where
  "table_get table key =
    (case jm_get table (js_string key) of
       Some v \<Rightarrow> v
     | None \<Rightarrow> if js_string key \<in> set inherited_names then JObj [] else JUndef)"

section \<open>URLs and hashes\<close>

record url =
  url_protocol :: string
  url_username :: string
  url_password :: string
  url_hostname :: string
  url_href :: string

definition hex_text :: "nat \<Rightarrow> jsval \<Rightarrow> bool" where
  "hex_text n v \<longleftrightarrow>
     (let s = js_string (coalesce v (JStr [])) in
      length s = n \<and> list_all (\<lambda>x. is_digit x \<or> between CHR ''a'' CHR ''f'' (lower_char x)) s)"

definition isSha1 :: "jsval \<Rightarrow> bool" where
  "isSha1 v = hex_text 40 v"

definition isSha512 :: "jsval \<Rightarrow> bool" where
  "isSha512 v = hex_text 128 v"

text \<open>\<open>isIP\<close> of \<open>node:net\<close>: 4, 6 or 0.\<close>

definition ip_version :: "string \<Rightarrow> nat" where
  "ip_version s = (if re_test (cats [Bol, v4_address, Eol]) s then 4
     else if re_test (cats [Bol, v6_address, Eol]) s then 6 else 0)"

definition strip_brackets :: "string \<Rightarrow> string" where
  "strip_brackets s =
    (let t = (case s of x # xs \<Rightarrow> if x = CHR ''['' then xs else s | [] \<Rightarrow> [])
     in if t \<noteq> [] \<and> last t = CHR '']'' then butlast t else t)"

definition reserved_v4 :: "int \<Rightarrow> int \<Rightarrow> bool" where
  "reserved_v4 first second \<longleftrightarrow>
     first = 10 \<or> first = 127 \<or> first = 0 \<or> (first = 172 \<and> 16 \<le> second \<and> second \<le> 31) \<or>
     (first = 192 \<and> second = 168) \<or> (first = 169 \<and> second = 254) \<or>
     (first = 100 \<and> 64 \<le> second \<and> second \<le> 127) \<or> (first = 192 \<and> second = 0) \<or>
     (first = 198 \<and> (second = 18 \<or> second = 19)) \<or> (first = 198 \<and> second = 51) \<or>
     (first = 203 \<and> second = 0) \<or> 224 \<le> first"

text \<open>The parts of an IPv4 address are numbers.\<close>

definition isReservedArtifactHost :: "string \<Rightarrow> bool" where
  "isReservedArtifactHost hostname =
    (let host = strip_brackets (toLowerCase hostname);
         ipVersion = ip_version host
     in if host = ''localhost'' \<or> js_endsWith host ''.localhost'' \<or>
           host \<in> {''example.com'', ''example.net'', ''example.org'', ''example.test''} \<or>
           js_endsWith host ''.example'' \<or> js_endsWith host ''.invalid'' \<or> js_endsWith host ''.test'' \<or>
           js_endsWith host ''.local'' \<or> js_endsWith host ''.lan''
        then True
        else if ipVersion = 4 then
          (case map parse_int (js_split CHR ''.'' host) of
             Some first # Some second # _ \<Rightarrow> reserved_v4 first second
           | _ \<Rightarrow> False)
        else if ipVersion = 6 then
          host = ''::1'' \<or> host = ''::'' \<or> js_startsWith host ''::ffff:'' \<or> js_startsWith host ''fc'' \<or>
          js_startsWith host ''fd'' \<or> js_startsWith host ''fe80'' \<or> js_startsWith host ''2001:db8''
        else False)"

definition validateFirstPartyArtifactDownloadUrl :: "(string \<Rightarrow> url option) \<Rightarrow> jsval \<Rightarrow> string + string" where
  "validateFirstPartyArtifactDownloadUrl parse_url v =
    (case v of
       JStr s \<Rightarrow>
         if s = [] then Inl ''First-party artifact download URL is required.''
         else (case parse_url s of
           None \<Rightarrow> Inl ''First-party artifact download URL must be an absolute HTTPS URL.''
         | Some parsed \<Rightarrow>
             if url_protocol parsed \<noteq> ''https:'' \<or> url_username parsed \<noteq> [] \<or> url_password parsed \<noteq> []
             then Inl ''First-party artifact download URL must be a credential-free HTTPS URL.''
             else if js_includes s ''REPLACE_WITH_'' \<or> js_includes s ''<signed-https-artifact-url>''
             then Inl ''First-party artifact download URL must not contain placeholder values.''
             else if isReservedArtifactHost (url_hostname parsed)
             then Inl ''First-party artifact download URL must not use localhost, private IPs, or reserved example/test hosts.''
             else Inr (url_href parsed))
     | _ \<Rightarrow> Inl ''First-party artifact download URL is required.'')"

definition isOriginalHttpsDownloadUrl :: "jsval \<Rightarrow> bool" where
  "isOriginalHttpsDownloadUrl v =
    (case v of JStr s \<Rightarrow> js_startsWith s ''https://'' \<and> \<not> js_includes s ''example.invalid'' | _ \<Rightarrow> False)"

definition hasOriginalHttpsDownloads :: "jsval \<Rightarrow> bool" where
  "hasOriginalHttpsDownloads downloads \<longleftrightarrow>
     nonempty_arr downloads \<and> list_all isOriginalHttpsDownloadUrl (elems downloads)"

section \<open>First-party artifact locks\<close>

text \<open>Missing properties of an absent artifact are \<open>undefined\<close>; nothing here throws.\<close>

definition validateSingleFirstPartyArtifactLock :: "(string \<Rightarrow> url option) \<Rightarrow> jsval \<Rightarrow> string list" where
  "validateSingleFirstPartyArtifactLock parse_url artifact =
    (let path = jget artifact ''path''; downloads = jget artifact ''downloads'';
         hashes = jget artifact ''hashes''
     in (if path \<in> set firstPartyArtifactPaths then []
         else [''Unknown first-party artifact path: '' @ js_string (coalesce path (JStr ''<missing>''))]) @
        (if \<not> nonempty_arr downloads then [''First-party artifact download URL is required.'']
         else concat (map (\<lambda>d. case validateFirstPartyArtifactDownloadUrl parse_url d of
             Inl message \<Rightarrow> [message] | Inr _ \<Rightarrow> []) (elems downloads))) @
        (if \<not> isSha1 (jget hashes ''sha1'') \<or> \<not> isSha512 (jget hashes ''sha512'')
         then [''First-party artifact lock must include SHA1 and SHA512 hashes.''] else []) @
        (if \<not> pos_int (jget artifact ''fileSize'')
         then [''First-party artifact lock must include a positive file size.''] else []))"

definition artifact_lock :: "jsval \<Rightarrow> jsval" where
  "artifact_lock artifact = file_lock (elems (jget artifact ''downloads''))
     (coalesce (jget (jget artifact ''hashes'') ''sha1'') (JStr []))
     (coalesce (jget (jget artifact ''hashes'') ''sha512'') (JStr [])) (jget artifact ''fileSize'')"

definition normalizeFirstPartyArtifactLocks :: "(string \<Rightarrow> url option) \<Rightarrow> jsval \<Rightarrow> (string \<times> jsval) list" where
  "normalizeFirstPartyArtifactLocks parse_url artifacts =
     fold (\<lambda>artifact locks.
         if validateSingleFirstPartyArtifactLock parse_url artifact \<noteq> [] then locks
         else jm_set (js_string (jget artifact ''path'')) (artifact_lock artifact) locks)
       (elems artifacts) []"

record lock_issue =
  li_path :: jsval
  li_message :: string

definition collectFirstPartyArtifactLockIssues :: "(string \<Rightarrow> url option) \<Rightarrow> jsval \<Rightarrow> lock_issue list" where
  "collectFirstPartyArtifactLockIssues parse_url artifacts0 =
    (let artifacts = (if artifacts0 = JUndef then JArr [] else artifacts0) in
     if \<not> is_arr artifacts
     then [\<lparr>li_path = JStr ''<first-party-artifacts>'',
            li_message = ''First-party artifact locks must be provided as a list.''\<rparr>]
     else concat (map (\<lambda>artifact. map (\<lambda>message.
            \<lparr>li_path = coalesce (jget artifact ''path'') (JStr ''<first-party-artifact>''), li_message = message\<rparr>)
          (validateSingleFirstPartyArtifactLock parse_url artifact)) (elems artifacts)))"

definition createApprovedFileLock :: "(string \<Rightarrow> url option) \<Rightarrow> jsval \<Rightarrow> (string \<times> jsval) list" where
  "createApprovedFileLock parse_url artifacts =
     fromEntries (mvp0ApprovedFiles @ normalizeFirstPartyArtifactLocks parse_url artifacts)"

text \<open>The contents are given as bytes.\<close>

definition createFirstPartyArtifactLock ::
  "(string \<Rightarrow> url option) \<Rightarrow> (bytes \<Rightarrow> string) \<Rightarrow> (bytes \<Rightarrow> string) \<Rightarrow> jsval \<Rightarrow> jsval \<Rightarrow> bytes \<Rightarrow> string + jsval"
where
  "createFirstPartyArtifactLock parse_url sha1 sha512 path downloads contents =
    (let hashes = JObj [(''sha1'', JStr (sha1 contents)), (''sha512'', JStr (sha512 contents))];
         fileSize = JNum (int (length contents))
     in case validateSingleFirstPartyArtifactLock parse_url (JObj [(''path'', path),
            (''downloads'', downloads), (''hashes'', hashes), (''fileSize'', fileSize)]) of
          message # _ \<Rightarrow> Inl message
        | [] \<Rightarrow> Inr (JObj [(''path'', path), (''downloads'', JArr (elems downloads)), (''hashes'', hashes),
            (''fileSize'', fileSize)]))"

definition validateFirstPartyArtifactJarBytes :: "jsval \<Rightarrow> bytes \<Rightarrow> string + string list" where
  "validateFirstPartyArtifactJarBytes path contents =
    (let expected = table_get firstPartyArtifactJarExpectations path in
     if \<not> truthy expected
     then Inl (''Unknown first-party artifact path: '' @ js_string (coalesce path (JStr ''<missing>'')))
     else case listZipEntryNames contents of
       Inl e \<Rightarrow> Inl (''First-party artifact jar is not readable: '' @ zip_error_message e)
     | Inr entries \<Rightarrow>
        if ''fabric.mod.json'' \<notin> set entries
        then Inl ''First-party artifact jar must include fabric.mod.json.''
        else if jget expected ''className'' \<notin> set (map JStr entries)
        then Inl (''First-party artifact jar must include '' @ js_string (jget expected ''className'') @ ''.'')
        else if \<not> list_ex (\<lambda>entry. js_endsWith entry ''.class'') entries
        then Inl ''First-party artifact jar must include at least one compiled class.''
        else Inr entries)"

text \<open>\<open>read_file\<close> rejects with \<open>None\<close>.\<close>

definition createFirstPartyArtifactLockFromFile ::
  "(string \<Rightarrow> url option) \<Rightarrow> (bytes \<Rightarrow> string) \<Rightarrow> (bytes \<Rightarrow> string) \<Rightarrow> (string \<Rightarrow> bytes option) \<Rightarrow>
     jsval \<Rightarrow> jsval \<Rightarrow> jsval \<Rightarrow> (string + jsval) option"
where
  "createFirstPartyArtifactLockFromFile parse_url sha1 sha512 read_file path artifactPath downloadUrl =
    (if path \<notin> set firstPartyArtifactPaths
     then Some (Inl (''Unknown first-party artifact path: '' @ js_string (coalesce path (JStr ''<missing>''))))
     else
       let local = (case artifactPath of JStr p \<Rightarrow> if p \<noteq> [] \<and> \<not> js_startsWith p ''file:'' then Some p else None
                    | _ \<Rightarrow> None)
       in case local of
         None \<Rightarrow> Some (Inl ''First-party artifact bytes must come from an explicit local jar path.'')
       | Some p \<Rightarrow>
          (case validateFirstPartyArtifactDownloadUrl parse_url downloadUrl of
             Inl message \<Rightarrow> Some (Inl message)
           | Inr _ \<Rightarrow>
              (case read_file p of
                 None \<Rightarrow> None
               | Some contents \<Rightarrow>
                  (case validateFirstPartyArtifactJarBytes path contents of
                     Inl message \<Rightarrow> Some (Inl message)
                   | Inr _ \<Rightarrow> Some (createFirstPartyArtifactLock parse_url sha1 sha512 path
                       (JArr [downloadUrl]) contents)))))"

text \<open>A template that is an array keeps no property \<open>files\<close> when it is copied here.\<close>

definition applyFirstPartyArtifactLocks :: "(string \<Rightarrow> url option) \<Rightarrow> jsval \<Rightarrow> jsval \<Rightarrow> jsval option" where
  "applyFirstPartyArtifactLocks parse_url template0 artifacts = do {
     let locks = normalizeFirstPartyArtifactLocks parse_url artifacts;
     let template = (if template0 = JUndef then JObj [] else template0);
     let next = json_clone template;
     files \<leftarrow> traverse (\<lambda>f.
         let lock = table_get locks (jget f ''path'') in
         if \<not> truthy lock then Some f
         else do {
           sha1 \<leftarrow> dot (jget lock ''hashes'') ''sha1'';
           Some (obj_with f [(''downloads'', jget lock ''downloads''),
             (''hashes'', JObj [(''sha1'', sha1), (''sha512'', jget (jget lock ''hashes'') ''sha512'')]),
             (''fileSize'', jget lock ''fileSize'')]) })
       (elems (jget next ''files''));
     if is_obj next \<or> is_arr next then Some (jput ''files'' (JArr files) next) else None }"

section \<open>Checking a template\<close>

definition sameArray :: "jsval \<Rightarrow> jsval \<Rightarrow> bool" where
  "sameArray left right =
    (let l = (if left = JUndef then JArr [] else left); r = (if right = JUndef then JArr [] else right)
     in is_arr l \<and> is_arr r \<and> elems l = elems r)"

definition matchesApprovedFileLock :: "jsval \<Rightarrow> (string \<times> jsval) list \<Rightarrow> bool option" where
  "matchesApprovedFileLock f approvedFiles =
    (let approved = table_get approvedFiles (jget f ''path'') in
     if \<not> truthy approved then Some False
     else if \<not> sameArray (jget f ''downloads'') (jget approved ''downloads'') then Some False
     else do {
       sha1 \<leftarrow> dot (jget approved ''hashes'') ''sha1'';
       Some (jget (jget f ''hashes'') ''sha1'' = sha1 \<and>
         jget (jget f ''hashes'') ''sha512'' = jget (jget approved ''hashes'') ''sha512'' \<and>
         jget f ''fileSize'' = jget approved ''fileSize'') })"

definition pack_path_unsafe :: "jsval \<Rightarrow> bool option" where
  "pack_path_unsafe path =
    (if \<not> truthy path then Some True
     else case path of
       JStr s \<Rightarrow> Some (js_includes s ''..'' \<or> js_startsWith s ''/'' \<or> js_includes s [CHR 0x5C])
     | JArr xs \<Rightarrow> if JStr ''..'' \<in> set xs then Some True else None
     | _ \<Rightarrow> None)"

definition issue_if :: "bool \<Rightarrow> string \<Rightarrow> string list" where
  "issue_if bad message = (if bad then [message] else [])"

definition validateFileMetadata :: "jsval \<Rightarrow> (string \<times> jsval) list \<Rightarrow> string list option" where
  "validateFileMetadata f0 approvedFiles = do {
     let f = (if f0 = JUndef then JObj [] else f0);
     path \<leftarrow> dot f ''path'';
     badPath \<leftarrow> pack_path_unsafe path;
     approved \<leftarrow> matchesApprovedFileLock f approvedFiles;
     Some (issue_if badPath ''Pack file path must be a safe relative path.'' @
       issue_if (\<not> hasOriginalHttpsDownloads (jget f ''downloads''))
         ''Pack file must use original HTTPS download URLs.'' @
       issue_if (\<not> isSha1 (jget (jget f ''hashes'') ''sha1'') \<or> \<not> isSha512 (jget (jget f ''hashes'') ''sha512''))
         ''Pack file must include SHA1 and SHA512 hashes.'' @
       issue_if (\<not> pos_int (jget f ''fileSize'')) ''Pack file must include a positive file size.'' @
       issue_if (\<not> approved)
         ''Pack file must match the MVP-0 approved source URL, hashes, and file size lock.'') }"

definition isFirstPartyPlaceholder :: "jsval \<Rightarrow> bool" where
  "isFirstPartyPlaceholder f \<longleftrightarrow>
     jget f ''path'' \<in> set firstPartyArtifactPaths \<and>
     (let haystack = (case json f of Some t \<Rightarrow> t | None \<Rightarrow> [])
      in js_includes haystack ''REPLACE_WITH_'' \<or> js_includes haystack ''example.invalid'' \<or>
         jget f ''fileSize'' = JNum 0)"

record blocker =
  bl_reason :: mrpack_failure
  bl_path :: jsval
  bl_message :: string

definition metadataBlocker :: "jsval \<Rightarrow> string \<Rightarrow> blocker" where
  "metadataBlocker path message =
     \<lparr>bl_reason = MF_UNSAFE_DOWNLOAD_METADATA, bl_path = path, bl_message = message\<rparr>"

record mrpack_validation =
  mv_blockers :: "blocker list"
  mv_fileCount :: nat
  mv_minecraft :: jsval
  mv_fabricLoader :: jsval

definition mv_ok :: "mrpack_validation \<Rightarrow> bool" where
  "mv_ok v \<longleftrightarrow> mv_blockers v = []"

definition template_incomplete :: "jsval \<Rightarrow> bool" where
  "template_incomplete template \<longleftrightarrow>
     jget template ''formatVersion'' \<noteq> JNum 1 \<or> jget template ''game'' \<noteq> JStr ''minecraft'' \<or>
     \<not> truthy (jget (jget template ''dependencies'') ''minecraft'') \<or>
     \<not> truthy (jget (jget template ''dependencies'') ''fabric-loader'')"

definition file_blockers :: "(string \<times> jsval) list \<Rightarrow> jsval \<Rightarrow> blocker list option" where
  "file_blockers approvedFiles f = do {
     let path = coalesce (jget f ''path'') (JStr ''<unknown>'');
     issues \<leftarrow> validateFileMetadata f approvedFiles;
     Some (map (metadataBlocker path) issues @
       (if isFirstPartyPlaceholder f
        then [\<lparr>bl_reason = MF_FIRST_PARTY_ARTIFACT_PENDING, bl_path = path,
               bl_message = mrpack_failure_message MF_FIRST_PARTY_ARTIFACT_PENDING\<rparr>] else [])) }"

definition validateMrpackTemplate ::
  "(string \<Rightarrow> url option) \<Rightarrow> jsval \<Rightarrow> jsval \<Rightarrow> mrpack_validation option" where
  "validateMrpackTemplate parse_url template0 options = do {
     let template = (if template0 = JUndef then JObj [] else template0);
     firstPartyArtifacts \<leftarrow> (if options = JNull then None else Some (jget options ''firstPartyArtifacts''));
     let issues = collectFirstPartyArtifactLockIssues parse_url firstPartyArtifacts;
     let approvedFiles = createApprovedFileLock parse_url firstPartyArtifacts;
     formatVersion \<leftarrow> dot template ''formatVersion'';
     let files = elems (jget template ''files'');
     perFile \<leftarrow> traverse (file_blockers approvedFiles) files;
     Some \<lparr>mv_blockers =
         (if template_incomplete template
          then [\<lparr>bl_reason = MF_INVALID_TEMPLATE, bl_path = JStr ''<manifest>'',
                 bl_message = mrpack_failure_message MF_INVALID_TEMPLATE\<rparr>] else []) @
         (if files = []
          then [\<lparr>bl_reason = MF_INVALID_TEMPLATE, bl_path = JStr ''<files>'',
                 bl_message = ''Pack must include at least one file.''\<rparr>] else []) @
         map (\<lambda>issue. metadataBlocker (li_path issue) (li_message issue)) issues @ concat perFile,
       mv_fileCount = length files,
       mv_minecraft = coalesce (jget (jget template ''dependencies'') ''minecraft'') JNull,
       mv_fabricLoader = coalesce (jget (jget template ''dependencies'') ''fabric-loader'') JNull\<rparr> }"

section \<open>Manifest and archive\<close>

definition normalizeManifest :: "jsval \<Rightarrow> jsval" where
  "normalizeManifest template = JObj (map (\<lambda>k. (k, jget template k))
     [''formatVersion'', ''game'', ''versionId'', ''name'', ''summary'', ''files'', ''dependencies''])"

text \<open>A refusal: the reason of the first blocker, and all of them.\<close>

definition buildMrpackManifest ::
  "(string \<Rightarrow> url option) \<Rightarrow> jsval \<Rightarrow> jsval \<Rightarrow> (mrpack_failure \<times> blocker list + jsval) option" where
  "buildMrpackManifest parse_url template options = do {
     validation \<leftarrow> validateMrpackTemplate parse_url template options;
     case mv_blockers validation of
       b # bs \<Rightarrow> Some (Inl (bl_reason b, b # bs))
     | [] \<Rightarrow> Some (Inr (normalizeManifest template)) }"

definition createMrpackArchive :: "(bytes \<Rightarrow> bytes) \<Rightarrow> jsval \<Rightarrow> bytes option" where
  "createMrpackArchive deflate manifest = do {
     text \<leftarrow> json2 0 (normalizeManifest manifest);
     createZipArchive deflate
       [\<lparr>ze_name = ''modrinth.index.json'', ze_contents = utf8_encode (text @ [CHR 0x0A])\<rparr>] }"

record mrpack_written =
  mw_outputPath :: jsval
  mw_byteLength :: nat
  mw_fileCount :: jsval

text \<open>The archive is what \<open>writeFile(outputPath, archive)\<close> gets.\<close>

definition writeMrpack ::
  "(string \<Rightarrow> url option) \<Rightarrow> (bytes \<Rightarrow> bytes) \<Rightarrow> jsval \<Rightarrow> jsval \<Rightarrow> jsval \<Rightarrow>
     (mrpack_failure \<times> blocker list + mrpack_written \<times> bytes) option" where
  "writeMrpack parse_url deflate template outputPath options = do {
     built \<leftarrow> buildMrpackManifest parse_url template options;
     case built of
       Inl failure \<Rightarrow> Some (Inl failure)
     | Inr manifest \<Rightarrow> do {
         archive \<leftarrow> createMrpackArchive deflate manifest;
         Some (Inr (\<lparr>mw_outputPath = outputPath, mw_byteLength = length archive,
           mw_fileCount = JNum (int (length (elems (jget manifest ''files''))))\<rparr>, archive)) } }"

end
