(* ===== verification/Zip_Props.thy ===== *)
theory Zip_Props
  imports Zip
begin

text \<open>
  The archive is read back (\<open>zip_round_trip\<close>), and the table-driven checksum is the bitwise
  one (\<open>crc_step_bitwise\<close>): the table works because one round is linear over exclusive or.
\<close>

section \<open>Names\<close>

lemma utf8_decode_char: "utf8_decode (utf8_char x @ bs) = x # utf8_decode bs"
proof -
  define n where "n = (of_char x :: nat)"
  have n: "n < 256" by (simp add: n_def)
  have x: "char_of n = x" by (simp add: n_def)
  show ?thesis
  proof (cases "n < 128")
    case True
    with x show ?thesis by (simp add: utf8_char_def unat_of_nat Let_def n_def [symmetric])
  next
    case False
    have "n div 64 < 4" using n by (simp add: less_mult_imp_div_less)
    moreover have "2 \<le> n div 64" using False by (simp add: less_eq_div_iff_mult_less_eq)
    ultimately have hi: "n div 64 = 2 \<or> n div 64 = 3" by linarith
    have low: "128 + n mod 64 < 192" by simp
    have byte: "unat (of_nat k :: 8 word) = k" if "k < 256" for k
      using that by (simp add: unat_of_nat)
    have b: "unat (of_nat (192 + n div 64) :: 8 word) = 192 + n div 64"
      "unat (of_nat (128 + n mod 64) :: 8 word) = 128 + n mod 64"
      by (rule byte, use hi low in linarith)+
    have "(192 + n div 64 - 192) * 64 + (128 + n mod 64 - 128) = n" by simp
    with x have c: "char_of ((192 + n div 64 - 192) * 64 + (128 + n mod 64 - 128)) = x" by simp
    have enc: "utf8_char x = [of_nat (192 + n div 64), of_nat (128 + n mod 64)]"
      using False by (simp add: utf8_char_def Let_def n_def [symmetric])
    have "192 + n div 64 \<in> {194, 195}" using hi by auto
    with c low show ?thesis by (simp only: enc utf8_decode.simps append.simps b if_True list.case) simp
  qed
qed

lemma utf8_decode_encode [simp]: "utf8_decode (utf8_encode s) = s"
  by (induction s) (simp_all add: utf8_encode_def utf8_decode_char)

section \<open>Headers\<close>

lemma central_header:
  assumes "createCentralHeader filename crc compressed uncompressed offset = Some h"
  obtains a b where "h = le_bytes 4 0x02014b50 @ a @ le_bytes 2 (length filename) @ le_bytes 2 0 @
      le_bytes 2 0 @ b @ filename"
    and "length a = 24" and "length b = 12" and "length filename < 65536"
proof -
  let ?a = "le_bytes 2 20 @ le_bytes 2 20 @ le_bytes 2 0 @ le_bytes 2 8 @ le_bytes 2 0 @ le_bytes 2 0 @
      le_bytes 4 (unat crc) @ le_bytes 4 (length compressed) @ le_bytes 4 (length uncompressed)"
  let ?b = "le_bytes 2 0 @ le_bytes 2 0 @ le_bytes 4 0 @ le_bytes 4 offset"
  from assms show thesis
    by (intro that [of ?a ?b])
      (auto simp: createCentralHeader_def write_fields_all bind_eq_Some_conv split: if_splits
        simp del: le_bytes.simps)
qed

lemma ending_fields:
  assumes "createEndOfCentralDirectory n sz off = Some e"
  shows "e = le_bytes 4 0x06054b50 @ (le_bytes 2 0 @ le_bytes 2 0 @ le_bytes 2 n) @ le_bytes 2 n @
      le_bytes 4 sz @ le_bytes 4 off @ le_bytes 2 0"
    and "n < 65536" and "sz < 4294967296" and "off < 4294967296"
  using assms
  by (auto simp: createEndOfCentralDirectory_def write_fields_all split: if_splits simp del: le_bytes.simps)

lemma read_field:
  assumes "length pre = off" and "v < 256 ^ n"
  shows "read_le n off (pre @ le_bytes n v @ post) = Some v"
  using read_le_at [OF assms(1), of "le_bytes n v" n post] le_value_bytes [OF assms(2)] by simp

text \<open>The fields of a buffer that is a known sequence of parts.\<close>

lemma read_parts:
  "read_le n (length (concat ps)) (concat (ps @ le_bytes n v # qs)) = Some v" if "v < 256 ^ n"
  using read_field [OF refl that, of "concat ps" "concat qs"] by simp

lemma read_entries_step:
  assumes h: "createCentralHeader (utf8_encode name) crc compressed uncompressed offset = Some h"
    and rest: "read_entries (pre @ h @ post) n (length pre + length h) = Inr names"
  shows "read_entries (pre @ h @ post) (Suc n) (length pre) = Inr (name # names)"
proof -
  obtain a b where ab: "h = le_bytes 4 0x02014b50 @ a @ le_bytes 2 (length (utf8_encode name)) @
      le_bytes 2 0 @ le_bytes 2 0 @ b @ utf8_encode name" "length a = 24" "length b = 12"
      "length (utf8_encode name) < 65536"
    by (rule central_header [OF h])
  let ?buf = "pre @ h @ post" and ?k = "length (utf8_encode name)"
  have len: "length h = 46 + ?k" using ab by simp
  have sig: "read_le 4 (length pre) ?buf = Some 0x02014b50"
    using read_field [OF refl, of "0x02014b50" 4 pre] by (simp add: ab(1) del: le_bytes.simps)
  have "read_le 2 (length pre + 28) ((pre @ le_bytes 4 0x02014b50 @ a) @ le_bytes 2 ?k @
      le_bytes 2 0 @ le_bytes 2 0 @ b @ utf8_encode name @ post) = Some ?k"
    by (rule read_field) (use ab in simp_all)
  then have k: "read_le 2 (length pre + 28) ?buf = Some ?k" by (simp add: ab(1) del: le_bytes.simps)
  have "read_le 2 (length pre + 30) ((pre @ le_bytes 4 0x02014b50 @ a @ le_bytes 2 ?k) @
      le_bytes 2 0 @ le_bytes 2 0 @ b @ utf8_encode name @ post) = Some 0"
    by (rule read_field) (use ab in simp_all)
  then have extra: "read_le 2 (length pre + 30) ?buf = Some 0" by (simp add: ab(1) del: le_bytes.simps)
  have "read_le 2 (length pre + 32) ((pre @ le_bytes 4 0x02014b50 @ a @ le_bytes 2 ?k @ le_bytes 2 0) @
      le_bytes 2 0 @ b @ utf8_encode name @ post) = Some 0"
    by (rule read_field) (use ab in simp_all)
  then have comment: "read_le 2 (length pre + 32) ?buf = Some 0" by (simp add: ab(1) del: le_bytes.simps)
  have "?buf = (pre @ le_bytes 4 0x02014b50 @ a @ le_bytes 2 ?k @ le_bytes 2 0 @ le_bytes 2 0 @ b) @
      utf8_encode name @ post" by (simp add: ab(1) del: le_bytes.simps)
  then have name: "take ?k (drop (length pre + 46) ?buf) = utf8_encode name"
    using ab by (simp del: le_bytes.simps)
  show ?thesis
    using sig k extra comment rest name len by (simp add: reading_def Let_def add.commute add.left_commute)
qed

section \<open>The archive\<close>

lemma zip_add_parts:
  assumes "zip_add deflate entry r = Some r'"
  obtains lh h where "createCentralHeader (utf8_encode (ze_name entry)) (crc32 (ze_contents entry))
      (deflate (ze_contents entry)) (ze_contents entry) (zr_offset r) = Some h"
    and "zr_central r' = zr_central r @ h" and "zr_local r' = zr_local r @ lh"
    and "zr_offset r' = zr_offset r + length lh"
  using assms by (auto simp: zip_add_def Let_def bind_eq_Some_conv)

lemma zip_loop:
  assumes "opt_fold (zip_add deflate) entries r = Some r'"
  shows "\<exists>hs. zr_central r' = zr_central r @ concat hs \<and> length hs = length entries \<and>
    list_all2 (\<lambda>e h. \<exists>off. createCentralHeader (utf8_encode (ze_name e)) (crc32 (ze_contents e))
      (deflate (ze_contents e)) (ze_contents e) off = Some h) entries hs \<and>
    (zr_offset r = length (zr_local r) \<longrightarrow> zr_offset r' = length (zr_local r'))"
  using assms
proof (induction entries arbitrary: r)
  case (Cons e entries)
  then obtain r1 where r1: "zip_add deflate e r = Some r1" "opt_fold (zip_add deflate) entries r1 = Some r'"
    by (auto simp: bind_eq_Some_conv)
  obtain lh h where h: "createCentralHeader (utf8_encode (ze_name e)) (crc32 (ze_contents e))
      (deflate (ze_contents e)) (ze_contents e) (zr_offset r) = Some h"
    "zr_central r1 = zr_central r @ h" "zr_local r1 = zr_local r @ lh" "zr_offset r1 = zr_offset r + length lh"
    by (rule zip_add_parts [OF r1(1)])
  from Cons.IH [OF r1(2)] obtain hs where hs: "zr_central r' = zr_central r1 @ concat hs"
      "length hs = length entries"
      "list_all2 (\<lambda>e h. \<exists>off. createCentralHeader (utf8_encode (ze_name e)) (crc32 (ze_contents e))
        (deflate (ze_contents e)) (ze_contents e) off = Some h) entries hs"
      "zr_offset r1 = length (zr_local r1) \<longrightarrow> zr_offset r' = length (zr_local r')"
    by blast
  with h show ?case by (intro exI [of _ "h # hs"]) auto
qed simp

lemma read_all_entries:
  assumes "list_all2 (\<lambda>e h. \<exists>off. createCentralHeader (utf8_encode (ze_name e)) (crc32 (ze_contents e))
      (deflate (ze_contents e)) (ze_contents e) off = Some h) entries hs"
  shows "read_entries (pre @ concat hs @ post) (length entries) (length pre) = Inr (map ze_name entries)"
  using assms
proof (induction entries hs arbitrary: pre rule: list_all2_induct)
  case Nil
  then show ?case by simp
next
  case (Cons e entries h hs)
  then obtain off where h: "createCentralHeader (utf8_encode (ze_name e)) (crc32 (ze_contents e))
      (deflate (ze_contents e)) (ze_contents e) off = Some h" by blast
  have "read_entries (pre @ h @ concat hs @ post) (length entries) (length pre + length h) =
      Inr (map ze_name entries)"
    using Cons.IH [of "pre @ h"] by simp
  from read_entries_step [OF h this] show ?case by simp
qed

lemma archive_names:
  assumes "createZipArchive deflate entries = Some archive"
  shows "listZipEntryNames archive = Inr (map ze_name entries)"
proof -
  from assms obtain r ending where
    r: "opt_fold (zip_add deflate) entries \<lparr>zr_local = [], zr_central = [], zr_offset = 0\<rparr> = Some r"
    and e: "createEndOfCentralDirectory (length entries) (length (zr_central r)) (zr_offset r) = Some ending"
    and archive: "archive = zr_local r @ zr_central r @ ending"
    by (auto simp: createZipArchive_def bind_eq_Some_conv)
  from zip_loop [OF r] obtain hs where hs: "zr_central r = concat hs" "length hs = length entries"
      "list_all2 (\<lambda>e h. \<exists>off. createCentralHeader (utf8_encode (ze_name e)) (crc32 (ze_contents e))
        (deflate (ze_contents e)) (ze_contents e) off = Some h) entries hs"
    and off: "zr_offset r = length (zr_local r)" by auto
  note ending = ending_fields [OF e]
  have el: "length ending = 22" by (simp add: ending(1) del: le_bytes.simps)
  define p where "p = zr_local r @ zr_central r"
  have a: "archive = p @ ending" by (simp add: archive p_def)
  have sig: "read_le 4 (length p) archive = Some 0x06054b50"
    unfolding a ending(1) by (rule read_field) simp_all
  have n: "read_le 2 (length p + 10) archive = Some (length entries)"
    using read_field [of "p @ le_bytes 4 0x06054b50 @ le_bytes 2 0 @ le_bytes 2 0 @ le_bytes 2 (length entries)"
        "length p + 10" "length entries" 2] ending(2)
    by (simp add: a ending(1) del: le_bytes.simps)
  have size: "read_le 4 (length p + 12) archive = Some (length (zr_central r))"
    using read_field [of "p @ le_bytes 4 0x06054b50 @ le_bytes 2 0 @ le_bytes 2 0 @ le_bytes 2 (length entries) @
        le_bytes 2 (length entries)" "length p + 12" "length (zr_central r)" 4] ending(3)
    by (simp add: a ending(1) del: le_bytes.simps)
  have start: "read_le 4 (length p + 16) archive = Some (zr_offset r)"
    using read_field [of "p @ le_bytes 4 0x06054b50 @ le_bytes 2 0 @ le_bytes 2 0 @ le_bytes 2 (length entries) @
        le_bytes 2 (length entries) @ le_bytes 4 (length (zr_central r))" "length p + 16" "zr_offset r" 4] ending(4)
    by (simp add: a ending(1) del: le_bytes.simps)
  have len: "length archive = length p + 22" by (simp add: a el)
  have "[length archive - 0xffff - 22..<length archive - 21] =
      [length archive - 0xffff - 22..<length p] @ [length p]"
    unfolding len by simp
  then have found: "findEndOfCentralDirectory archive = Some (length p)"
    using sig by (simp add: findEndOfCentralDirectory_def)
  have "read_entries (zr_local r @ concat hs @ ending) (length entries) (length (zr_local r)) =
      Inr (map ze_name entries)"
    by (rule read_all_entries [OF hs(3)])
  then show ?thesis
    using found n size start len off hs(1)
    by (simp add: listZipEntryNames_def reading_def archive p_def)
qed

text \<open>
  C23. What is written can be read: the names of a zip archive, read back from its bytes, are the
  names it was made of, in their order, whatever the compressor does.
\<close>

theorem zip_round_trip:
  assumes "createZipArchive deflate entries = Some archive"
  shows "listZipEntryNames archive = Inr (map ze_name entries)"
  using assms by (rule archive_names)

definition demo_entries :: "zip_entry list" where
  "demo_entries = [\<lparr>ze_name = ''modrinth.index.json'', ze_contents = [123, 125, 10]\<rparr>,
     \<lparr>ze_name = ''a/b.txt'', ze_contents = []\<rparr>]"

lemma word_fits: "unat (w :: 32 word) < 4294967296"
  using unsigned_less [of w] by simp

lemma demo_archive: "createZipArchive (\<lambda>bs. 3 # bs) demo_entries \<noteq> None"
  by (simp add: createZipArchive_def zip_add_def createLocalHeader_def createCentralHeader_def
      createEndOfCentralDirectory_def write_fields_all demo_entries_def utf8_encode_def utf8_char_def
      word_fits Let_def del: le_bytes.simps)

theorem zip_round_trip_witness:
  "\<exists>archive. createZipArchive (\<lambda>bs. 3 # bs) demo_entries = Some archive \<and>
     listZipEntryNames archive = Inr [''modrinth.index.json'', ''a/b.txt'']"
proof -
  obtain archive where a: "createZipArchive (\<lambda>bs. 3 # bs) demo_entries = Some archive"
    using demo_archive by auto
  have "map ze_name demo_entries = [''modrinth.index.json'', ''a/b.txt'']" by (simp add: demo_entries_def)
  with zip_round_trip [OF a] a show ?thesis by auto
qed

section \<open>The checksum\<close>

lemma crc_bit_odd: "crc_bit v = (if odd v then 0xedb88320 XOR drop_bit 1 v else drop_bit 1 v)"
  by (simp add: crc_bit_def and_one_eq odd_iff_mod_2_eq_one)

lemma crc_bit_xor: "crc_bit (x XOR y) = crc_bit x XOR crc_bit y"
proof -
  have "odd (x XOR y) \<longleftrightarrow> odd x \<noteq> odd y" by (simp add: even_xor_iff)
  then show ?thesis
    by (simp add: crc_bit_odd drop_bit_xor ac_simps xor.left_commute flip: xor.assoc)
qed

lemma crc_bits_xor: "(crc_bit ^^ n) (x XOR y) = (crc_bit ^^ n) x XOR (crc_bit ^^ n) y"
  by (induction n) (simp_all add: crc_bit_xor)

text \<open>Bits above the round only move down.\<close>

lemma crc_bits_high: "n \<le> m \<Longrightarrow> (crc_bit ^^ n) (x AND NOT (mask m)) = drop_bit n (x AND NOT (mask m))"
proof (induction n)
  case (Suc n)
  then have "\<not> bit (x AND NOT (mask m)) n" by (simp add: bit_simps)
  then have "\<not> odd (drop_bit n (x AND NOT (mask m)))" by (simp add: bit_iff_odd_drop_bit)
  with Suc show ?case by (simp add: crc_bit_odd)
qed simp

text \<open>One step through the table is eight rounds of the bitwise checksum.\<close>

lemma crc_step_bitwise: "crc_step byte crc = (crc_bit ^^ 8) (crc XOR ucast byte)"
proof -
  define x where "x = crc XOR ucast byte"
  define lo where "lo = x AND mask 8"
  have lo: "x AND 0xff = lo" by (simp add: lo_def mask_numeral)
  have "unat lo = take_bit 8 (unat x)"
    by (simp only: lo_def take_bit_eq_mask [symmetric] unsigned_take_bit_eq)
  then have "unat lo < 256" using take_bit_nat_less_exp [of 8 "unat x"] by simp
  then have "crcTable ! unat lo = (crc_bit ^^ 8) lo"
    by (simp add: crcTable_def crc_entry_def)
  moreover have "drop_bit 8 crc = (crc_bit ^^ 8) (x AND NOT (mask 8))"
  proof -
    have "drop_bit 8 (x AND NOT (mask 8)) = drop_bit 8 crc"
      by (rule bit_eqI) (auto simp: x_def bit_simps dest: bit_imp_le_length)
    then show ?thesis by (simp only: crc_bits_high [OF order_refl])
  qed
  moreover have "(x AND NOT (mask 8)) XOR lo = x"
    unfolding lo_def by (rule bit_eqI) (auto simp: bit_simps)
  ultimately have "crc_step byte crc = (crc_bit ^^ 8) x"
    by (simp only: crc_step_def x_def [symmetric] lo crc_bits_xor [symmetric])
  then show ?thesis by (simp only: x_def)
qed

text \<open>
  The table-driven checksum equals the bitwise one: eight rounds of division by the CRC-32
  polynomial per byte, on a register that starts with all ones and is inverted at the end.
\<close>

theorem crc32_bitwise:
  "crc32 buf = fold (\<lambda>byte crc. (crc_bit ^^ 8) (crc XOR ucast byte)) buf 0xffffffff XOR 0xffffffff"
proof -
  have "crc_step = (\<lambda>byte crc. (crc_bit ^^ 8) (crc XOR ucast byte))"
    by (intro ext) (rule crc_step_bitwise)
  then show ?thesis by (simp only: crc32_def)
qed

end
