(* ===== verification/Mrpack_Props.thy ===== *)
theory Mrpack_Props
  imports Mrpack Zip_Props
begin

text \<open>
  The gate of the pack builder: a manifest is built only from files that equal an approved lock,
  and the archive written for it holds exactly its index.
\<close>

section \<open>Approved files\<close>

lemma normalized_locks:
  assumes "(p, lock) \<in> set (normalizeFirstPartyArtifactLocks parse_url artifacts)"
  shows "\<exists>a \<in> set (elems artifacts). validateSingleFirstPartyArtifactLock parse_url a = [] \<and>
    p = js_string (jget a ''path'') \<and> lock = artifact_lock a"
proof -
  let ?step = "\<lambda>artifact locks.
     if validateSingleFirstPartyArtifactLock parse_url artifact \<noteq> [] then locks
     else jm_set (js_string (jget artifact ''path'')) (artifact_lock artifact) locks"
  have "set (fold ?step as m) \<subseteq> set m \<union> {(js_string (jget a ''path''), artifact_lock a) | a.
      a \<in> set as \<and> validateSingleFirstPartyArtifactLock parse_url a = []}" for as m
  proof (induction as arbitrary: m)
    case (Cons a as)
    show ?case
      using Cons.IH [of "?step a m"] set_jm_set [of "js_string (jget a ''path'')" "artifact_lock a" m]
      by (fastforce split: if_splits)
  qed simp
  from this [of "elems artifacts" "[]"] assms show ?thesis
    unfolding normalizeFirstPartyArtifactLocks_def by auto
qed

text \<open>Where an approved lock comes from: the table of the release, or a valid first-party lock.\<close>

definition lock_origin :: "(string \<Rightarrow> url option) \<Rightarrow> jsval \<Rightarrow> string \<Rightarrow> jsval \<Rightarrow> bool" where
  "lock_origin parse_url artifacts p lock \<longleftrightarrow>
     (p, lock) \<in> set mvp0ApprovedFiles \<or>
     (\<exists>a \<in> set (elems artifacts). validateSingleFirstPartyArtifactLock parse_url a = [] \<and>
        jget a ''path'' = JStr p \<and> lock = artifact_lock a)"

lemma valid_artifact_path:
  "validateSingleFirstPartyArtifactLock parse_url a = [] \<Longrightarrow> jget a ''path'' \<in> set firstPartyArtifactPaths"
  by (auto simp: validateSingleFirstPartyArtifactLock_def Let_def split: if_splits)

lemma approved_origin:
  assumes "jm_get (createApprovedFileLock parse_url artifacts) p = Some lock"
  shows "lock_origin parse_url artifacts p lock"
proof -
  from assms have "(p, lock) \<in> set mvp0ApprovedFiles \<or>
      (p, lock) \<in> set (normalizeFirstPartyArtifactLocks parse_url artifacts)"
    by (auto simp: createApprovedFileLock_def jm_get_fromEntries dest: map_of_SomeD)
  then show ?thesis
  proof
    assume "(p, lock) \<in> set (normalizeFirstPartyArtifactLocks parse_url artifacts)"
    from normalized_locks [OF this] obtain a where
      a: "a \<in> set (elems artifacts)" "validateSingleFirstPartyArtifactLock parse_url a = []"
        "p = js_string (jget a ''path'')" "lock = artifact_lock a" by blast
    from valid_artifact_path [OF a(2)] have "jget a ''path'' = JStr p"
      by (auto simp: a(3) firstPartyArtifactPaths_def)
    with a show ?thesis by (auto simp: lock_origin_def)
  qed (simp add: lock_origin_def)
qed

lemma matches_approved:
  assumes "matchesApprovedFileLock f approved = Some True"
  obtains lock where "jm_get approved (js_string (jget f ''path'')) = Some lock"
    and "elems (jget f ''downloads'') = elems (jget lock ''downloads'')"
    and "jget (jget f ''hashes'') ''sha1'' = jget (jget lock ''hashes'') ''sha1''"
    and "jget (jget f ''hashes'') ''sha512'' = jget (jget lock ''hashes'') ''sha512''"
    and "jget f ''fileSize'' = jget lock ''fileSize''"
proof -
  let ?lock = "table_get approved (jget f ''path'')"
  from assms have facts: "truthy ?lock" "sameArray (jget f ''downloads'') (jget ?lock ''downloads'')"
      "\<not> nullish (jget ?lock ''hashes'')"
      "jget (jget f ''hashes'') ''sha1'' = jget (jget ?lock ''hashes'') ''sha1''"
      "jget (jget f ''hashes'') ''sha512'' = jget (jget ?lock ''hashes'') ''sha512''"
      "jget f ''fileSize'' = jget ?lock ''fileSize''"
    by (auto simp: matchesApprovedFileLock_def Let_def dot_def bind_eq_Some_conv split: if_splits)
  have "elems (jget f ''downloads'') = elems (jget ?lock ''downloads'')"
    using facts(2) by (auto simp: sameArray_def Let_def split: if_splits)
  moreover have "jm_get approved (js_string (jget f ''path'')) = Some ?lock"
    using facts(1,3) by (auto simp: table_get_def split: option.splits if_splits)
  ultimately show thesis using that facts by blast
qed

lemma issue_if_Nil [simp]: "issue_if bad message = [] \<longleftrightarrow> \<not> bad"
  by (simp add: issue_if_def)

lemma file_metadata_clean:
  assumes "validateFileMetadata f approved = Some []"
  shows "pack_path_unsafe (jget f ''path'') = Some False" and "matchesApprovedFileLock f approved = Some True"
    and "hasOriginalHttpsDownloads (jget f ''downloads'')"
proof -
  have f: "f \<noteq> JUndef"
    using assms by (auto simp: validateFileMetadata_def bind_eq_Some_conv dot_def pack_path_unsafe_def)
  from assms show "pack_path_unsafe (jget f ''path'') = Some False"
    and "matchesApprovedFileLock f approved = Some True" and "hasOriginalHttpsDownloads (jget f ''downloads'')"
    by (auto simp: validateFileMetadata_def f bind_eq_Some_conv dot_def split: if_splits)
qed

lemma safe_path_text:
  assumes "pack_path_unsafe v = Some False"
  obtains p where "v = JStr p" and "p \<noteq> []" and "\<not> js_includes p ''..''" and "\<not> js_startsWith p ''/''"
    and "CHR 0x5C \<notin> set p"
  using assms by (cases v) (auto simp: pack_path_unsafe_def js_includes_char split: if_splits)

text \<open>
  C22. A manifest is built only of approved files: the template has at least one file, and every
  file has a safe relative path, https downloads, and the downloads, hashes and size of the lock
  for its path, which the release's table or a valid first-party artifact lock supplies.
\<close>

theorem manifest_only_approved:
  assumes "buildMrpackManifest parse_url template options = Some (Inr manifest)"
  shows "manifest = normalizeManifest template \<and> elems (jget template ''files'') \<noteq> [] \<and>
    (\<forall>f \<in> set (elems (jget template ''files'')).
       hasOriginalHttpsDownloads (jget f ''downloads'') \<and> \<not> isFirstPartyPlaceholder f \<and>
       (\<exists>p lock. jget f ''path'' = JStr p \<and> \<not> js_includes p ''..'' \<and> \<not> js_startsWith p ''/'' \<and>
          lock_origin parse_url (jget options ''firstPartyArtifacts'') p lock \<and>
          elems (jget f ''downloads'') = elems (jget lock ''downloads'') \<and>
          jget (jget f ''hashes'') ''sha1'' = jget (jget lock ''hashes'') ''sha1'' \<and>
          jget (jget f ''hashes'') ''sha512'' = jget (jget lock ''hashes'') ''sha512'' \<and>
          jget f ''fileSize'' = jget lock ''fileSize''))"
proof -
  let ?artifacts = "jget options ''firstPartyArtifacts''"
  let ?approved = "createApprovedFileLock parse_url ?artifacts"
  obtain v where v: "validateMrpackTemplate parse_url template options = Some v" "mv_blockers v = []"
    and manifest: "manifest = normalizeManifest template"
  proof -
    from assms obtain v where v: "validateMrpackTemplate parse_url template options = Some v"
      by (auto simp: buildMrpackManifest_def bind_eq_Some_conv)
    with assms that show thesis
      by (cases "mv_blockers v") (simp_all add: buildMrpackManifest_def)
  qed
  have files: "jget (if template = JUndef then JObj [] else template) ''files'' = jget template ''files''"
    by simp
  from v obtain per where some: "elems (jget template ''files'') \<noteq> []"
    and per: "traverse (file_blockers ?approved) (elems (jget template ''files'')) = Some per"
    and none: "concat per = []"
    by (auto simp: validateMrpackTemplate_def Let_def files bind_eq_Some_conv split: if_splits)
  have "hasOriginalHttpsDownloads (jget f ''downloads'') \<and> \<not> isFirstPartyPlaceholder f \<and>
      (\<exists>p lock. jget f ''path'' = JStr p \<and> \<not> js_includes p ''..'' \<and> \<not> js_startsWith p ''/'' \<and>
          lock_origin parse_url ?artifacts p lock \<and>
          elems (jget f ''downloads'') = elems (jget lock ''downloads'') \<and>
          jget (jget f ''hashes'') ''sha1'' = jget (jget lock ''hashes'') ''sha1'' \<and>
          jget (jget f ''hashes'') ''sha512'' = jget (jget lock ''hashes'') ''sha512'' \<and>
          jget f ''fileSize'' = jget lock ''fileSize'')"
    if f: "f \<in> set (elems (jget template ''files''))" for f
  proof -
    from traverse_SomeD(1) [OF per f] none have "file_blockers ?approved f = Some []" by auto
    then have clean: "validateFileMetadata f ?approved = Some []" and "\<not> isFirstPartyPlaceholder f"
      by (auto simp: file_blockers_def Let_def bind_eq_Some_conv split: if_splits)
    note meta = file_metadata_clean [OF clean]
    obtain p where p: "jget f ''path'' = JStr p" "\<not> js_includes p ''..''" "\<not> js_startsWith p ''/''"
      by (rule safe_path_text [OF meta(1)])
    obtain lock where "jm_get ?approved (js_string (jget f ''path'')) = Some lock"
      and eqs: "elems (jget f ''downloads'') = elems (jget lock ''downloads'')"
        "jget (jget f ''hashes'') ''sha1'' = jget (jget lock ''hashes'') ''sha1''"
        "jget (jget f ''hashes'') ''sha512'' = jget (jget lock ''hashes'') ''sha512''"
        "jget f ''fileSize'' = jget lock ''fileSize''"
      by (rule matches_approved [OF meta(2)])
    then have "lock_origin parse_url ?artifacts p lock" by (intro approved_origin) (simp add: p)
    with p eqs meta(3) \<open>\<not> isFirstPartyPlaceholder f\<close> show ?thesis by blast
  qed
  with manifest some show ?thesis by blast
qed

definition demo_template :: jsval where
  "demo_template = JObj [(''formatVersion'', JNum 1), (''game'', JStr ''minecraft''), (''versionId'', JStr ''1''),
     (''name'', JStr ''Room pack''),
     (''files'', JArr [obj_with (snd (mvp0ApprovedFiles ! 2)) [(''path'', JStr ''mods/ferritecore-7.0.3-fabric.jar'')]]),
     (''dependencies'', JObj [(''minecraft'', JStr ''1.21.1''), (''fabric-loader'', JStr ''0.16'')])]"

lemma demo_template_builds:
  "\<exists>manifest. buildMrpackManifest (\<lambda>_. None) demo_template (JObj []) = Some (Inr manifest)"
proof -
  have "(case buildMrpackManifest (\<lambda>_. None) demo_template (JObj []) of Some (Inr m) \<Rightarrow> True | _ \<Rightarrow> False)"
    by code_simp
  then show ?thesis by (auto split: option.splits sum.splits)
qed

theorem manifest_only_approved_witness:
  "\<exists>manifest. buildMrpackManifest (\<lambda>_. None) demo_template (JObj []) = Some (Inr manifest) \<and>
     manifest = normalizeManifest demo_template"
  using demo_template_builds manifest_only_approved [of "\<lambda>_. None" demo_template "JObj []"] by blast

text \<open>The archive of a manifest holds one file, the index.\<close>

lemma archive_holds_index:
  "createMrpackArchive deflate manifest = Some archive \<Longrightarrow>
     listZipEntryNames archive = Inr [''modrinth.index.json'']"
proof -
  assume "createMrpackArchive deflate manifest = Some archive"
  then obtain c where "createZipArchive deflate [\<lparr>ze_name = ''modrinth.index.json'', ze_contents = c\<rparr>] = Some archive"
    by (auto simp: createMrpackArchive_def bind_eq_Some_conv)
  then have "listZipEntryNames archive = Inr (map ze_name [\<lparr>ze_name = ''modrinth.index.json'', ze_contents = c\<rparr>])"
    by (rule archive_names)
  then show ?thesis by simp
qed

text \<open>
  A first-party path with the name of an inherited member: the lock table answers with a function,
  whose missing hashes are read, and the whole update throws.
\<close>

lemma inherited_path_throws:
  "applyFirstPartyArtifactLocks (\<lambda>_. None)
     (JObj [(''files'', JArr [JObj [(''path'', JStr ''constructor'')]])]) (JArr []) = None"
  by (simp add: applyFirstPartyArtifactLocks_def normalizeFirstPartyArtifactLocks_def table_get_def
      inherited_names_def dot_def)

end
