(* ===== verification/ServerBridge.thy ===== *)
theory ServerBridge
  imports JsOps Machine
begin

text \<open>
  \<open>mods/server-bridge-fabric/src/server-bridge.mjs\<close>: who may enter the host's Minecraft server.
  The closure variable \<open>state\<close> is the record \<open>bridge\<close>; the messages shown in the game are
  constructors. \<open>None\<close> is a thrown \<open>TypeError\<close>.
\<close>

section \<open>State\<close>

datatype join_state = BJ_ALLOWED | BJ_PENDING_APPROVAL | BJ_DENIED | BJ_BLOCKED

primrec join_state_str :: "join_state \<Rightarrow> string" where
  "join_state_str BJ_ALLOWED = ''allowed''"
| "join_state_str BJ_PENDING_APPROVAL = ''pending_approval''"
| "join_state_str BJ_DENIED = ''denied''"
| "join_state_str BJ_BLOCKED = ''blocked''"

definition bridge_APPROVED :: jsval where "bridge_APPROVED = JStr ''approved''"
definition bridge_DENIED :: jsval where "bridge_DENIED = JStr ''denied''"
definition bridge_BLOCKED :: jsval where "bridge_BLOCKED = JStr ''blocked''"

definition ALLOW_PREVIOUSLY_APPROVED :: jsval where
  "ALLOW_PREVIOUSLY_APPROVED = JStr ''allow_previously_approved''"

definition DENY_ALL :: jsval where
  "DENY_ALL = JStr ''deny_all''"

datatype in_game_message = Msg_pending | Msg_denied | Msg_blocked | Msg_controlPlaneOffline

record player =
  pl_uuid :: jsval
  pl_name :: jsval

record bridge_event =
  be_type :: string
  be_roomId :: jsval
  be_minecraftUuid :: jsval
  be_detail :: "(string \<times> jsval) list"

record bridge =
  br_roomId :: jsval
  br_allowlistPath :: jsval
  br_outagePolicy :: jsval
  br_controlPlaneOnline :: bool
  br_approved :: "(jsval, player) jsmap"
  br_blocked :: "(jsval, player) jsmap"
  br_pending :: "(jsval, bridge_event) jsmap"
  br_lastEvent :: "bridge_event option"

definition normalize_player :: "jsval \<Rightarrow> player option" where
  "normalize_player v = do {
     uuid \<leftarrow> dot v ''uuid'';
     Some \<lparr>pl_uuid = uuid, pl_name = coalesce (jget v ''name'') uuid\<rparr> }"

definition normalizePlayers :: "jsval \<Rightarrow> (jsval, player) jsmap option" where
  "normalizePlayers players = do {
     vs \<leftarrow> arr_of (if players = JUndef then JArr [] else players);
     ps \<leftarrow> traverse normalize_player vs;
     Some (fold (\<lambda>p m. jm_set (pl_uuid p) p m) ps []) }"

definition createServerBridgeState :: "jsval \<Rightarrow> bridge option" where
  "createServerBridgeState config0 = do {
     let config = (if config0 = JUndef then JObj [] else config0);
     roomId \<leftarrow> dot config ''roomId'';
     approved \<leftarrow> normalizePlayers (jget config ''allowlist'');
     blocked \<leftarrow> normalizePlayers (jget config ''blocked'');
     Some \<lparr>br_roomId = coalesce roomId (JStr ''local-room''),
       br_allowlistPath = coalesce (jget config ''allowlistPath'') (JStr ''whitelist.json''),
       br_outagePolicy = coalesce (jget config ''outagePolicy'') ALLOW_PREVIOUSLY_APPROVED,
       br_controlPlaneOnline = (jget config ''controlPlaneOnline'' \<noteq> JBool False),
       br_approved = approved, br_blocked = blocked, br_pending = [], br_lastEvent = None\<rparr> }"

section \<open>Joining\<close>

record join_answer =
  ja_state :: join_state
  ja_allowed :: bool
  ja_event :: "bridge_event option"
  ja_kickMessage :: "in_game_message option"

definition refuse :: "join_state \<Rightarrow> in_game_message \<Rightarrow> join_answer" where
  "refuse st msg = \<lparr>ja_state = st, ja_allowed = False, ja_event = None, ja_kickMessage = Some msg\<rparr>"

definition bridge_event_of ::
  "bridge \<Rightarrow> string \<Rightarrow> jsval \<Rightarrow> (string \<times> jsval) list \<Rightarrow> bridge_event" where
  "bridge_event_of s ty uuid detail = \<lparr>be_type = ty, be_roomId = br_roomId s, be_minecraftUuid = uuid, be_detail = detail\<rparr>"

definition deny_all_offline :: "bool \<Rightarrow> bridge \<Rightarrow> bool" where
  "deny_all_offline online s \<longleftrightarrow> \<not> online \<and> br_outagePolicy s = DENY_ALL"

text \<open>The input object; a refusal without a verified UUID is \<open>Inl\<close> of its reason.\<close>

definition observePlayerJoin :: "jsval \<Rightarrow> bridge \<Rightarrow> (string + join_answer) \<times> bridge" where
  "observePlayerJoin input s =
    (let uuid = jget input ''serverObservedUuid''; noting = (\<lambda>e. s\<lparr>br_lastEvent := Some e\<rparr>) in
     if \<not> truthy uuid then (Inl ''server_uuid_missing'', s)
     else if jm_has (br_blocked s) uuid then
       (Inr (refuse BJ_BLOCKED Msg_blocked), noting (bridge_event_of s ''bridge.join_blocked'' uuid []))
     else if jm_has (br_approved s) uuid then
       (if deny_all_offline (br_controlPlaneOnline s) s then
          (Inr (refuse BJ_DENIED Msg_controlPlaneOffline),
           noting (bridge_event_of s ''bridge.join_denied'' uuid [(''reason'', JStr ''control_plane_offline'')]))
        else
          (Inr \<lparr>ja_state = BJ_ALLOWED, ja_allowed = True, ja_event = None, ja_kickMessage = None\<rparr>,
           noting (bridge_event_of s ''bridge.join_allowed'' uuid [])))
     else if \<not> br_controlPlaneOnline s then
       (Inr (refuse BJ_DENIED Msg_controlPlaneOffline),
        noting (bridge_event_of s ''bridge.join_denied'' uuid [(''reason'', JStr ''control_plane_offline'')]))
     else
       let claimed = jget (jget input ''claimedIdentity'') ''minecraftUuid'';
           event = bridge_event_of s ''bridge.approval_requested'' uuid
             [(''connectionId'', jget input ''connectionId''),
              (''friendId'', jget (jget input ''claimedIdentity'') ''friendId''),
              (''displayName'', jget input ''displayName''), (''claimedMinecraftUuid'', claimed),
              (''requiresHostApproval'', JBool True),
              (''identityMismatch'', JBool (truthy claimed \<and> claimed \<noteq> uuid))]
       in (Inr \<lparr>ja_state = BJ_PENDING_APPROVAL, ja_allowed = False, ja_event = Some event,
             ja_kickMessage = Some Msg_pending\<rparr>,
           s\<lparr>br_pending := jm_set uuid event (br_pending s), br_lastEvent := Some event\<rparr>))"

definition canPlayerJoin :: "jsval \<Rightarrow> bridge \<Rightarrow> join_answer \<times> bool option" where
  "canPlayerJoin input s =
    (let uuid = jget input ''minecraftUuid'';
         online = truthy (coalesce (jget input ''controlPlaneOnline'') (JBool (br_controlPlaneOnline s)))
     in if jm_has (br_blocked s) uuid then (refuse BJ_BLOCKED Msg_blocked, None)
        else if jm_has (br_approved s) uuid then
          (if deny_all_offline online s then (refuse BJ_DENIED Msg_controlPlaneOffline, None)
           else (\<lparr>ja_state = BJ_ALLOWED, ja_allowed = True, ja_event = None, ja_kickMessage = None\<rparr>,
                 Some (\<not> online)))
        else if \<not> online then (refuse BJ_DENIED Msg_controlPlaneOffline, None)
        else if jm_has (br_pending s) uuid then (refuse BJ_PENDING_APPROVAL Msg_pending, None)
        else (refuse BJ_DENIED Msg_denied, None))"

section \<open>Decisions\<close>

definition serializeMinecraftWhitelist :: "player list \<Rightarrow> string" where
  "serializeMinecraftWhitelist players =
    (case json2 0 (JArr (map (\<lambda>p. JObj [(''uuid'', pl_uuid p), (''name'', coalesce (pl_name p) (pl_uuid p))])
        players)) of Some t \<Rightarrow> t | None \<Rightarrow> []) @ [CHR 0x0A]"

record persistence =
  ps_path :: jsval
  ps_kind :: string
  ps_contents :: string

definition createAllowlistPersistence :: "bridge \<Rightarrow> persistence" where
  "createAllowlistPersistence s = \<lparr>ps_path = br_allowlistPath s, ps_kind = ''minecraft-whitelist'',
     ps_contents = serializeMinecraftWhitelist (jm_values (br_approved s))\<rparr>"

definition decided_player :: "jsval \<Rightarrow> jsval \<Rightarrow> player" where
  "decided_player input uuid = \<lparr>pl_uuid = uuid,
     pl_name = coalesce (coalesce (jget input ''displayName'') (jget input ''name'')) uuid\<rparr>"

definition applyApprovalDecision ::
  "jsval \<Rightarrow> bridge \<Rightarrow> (string + join_answer \<times> persistence option) \<times> bridge" where
  "applyApprovalDecision input s =
    (let uuid = jget input ''minecraftUuid''; decision = jget input ''decision'' in
     if \<not> truthy uuid then (Inl ''minecraft_uuid_missing'', s)
     else if \<not> jm_has (br_pending s) uuid then (Inl ''approval_request_missing'', s)
     else if decision = bridge_APPROVED then
       let s' = s\<lparr>br_pending := jm_delete uuid (br_pending s), br_blocked := jm_delete uuid (br_blocked s),
             br_approved := jm_set uuid (decided_player input uuid) (br_approved s),
             br_lastEvent := Some (bridge_event_of s ''bridge.allowlist_updated'' uuid
               [(''decision'', bridge_APPROVED)])\<rparr>
       in (Inr (\<lparr>ja_state = BJ_ALLOWED, ja_allowed = True, ja_event = None, ja_kickMessage = None\<rparr>,
                Some (createAllowlistPersistence s')), s')
     else if decision = bridge_BLOCKED then
       let s' = s\<lparr>br_pending := jm_delete uuid (br_pending s), br_approved := jm_delete uuid (br_approved s),
             br_blocked := jm_set uuid (decided_player input uuid) (br_blocked s),
             br_lastEvent := Some (bridge_event_of s ''bridge.player_blocked'' uuid [])\<rparr>
       in (Inr (refuse BJ_BLOCKED Msg_blocked, Some (createAllowlistPersistence s')), s')
     else if decision \<noteq> bridge_DENIED then (Inl ''unsupported_decision'', s)
     else (Inr (refuse BJ_DENIED Msg_denied, None),
           s\<lparr>br_pending := jm_delete uuid (br_pending s),
             br_lastEvent := Some (bridge_event_of s ''bridge.player_denied'' uuid [])\<rparr>))"

definition setControlPlaneOnline :: "jsval \<Rightarrow> bridge \<Rightarrow> bridge" where
  "setControlPlaneOnline online s = s\<lparr>br_controlPlaneOnline := (online = JBool True)\<rparr>"

section \<open>Reading\<close>

text \<open>\<open>le a b\<close> is \<open>a.localeCompare(b) <= 0\<close>; the sort is stable.\<close>

fun insert_player :: "(jsval \<Rightarrow> jsval \<Rightarrow> bool) \<Rightarrow> player \<Rightarrow> player list \<Rightarrow> player list" where
  "insert_player le p [] = [p]"
| "insert_player le p (q # qs) =
    (if le (pl_uuid p) (pl_uuid q) then p # q # qs else q # insert_player le p qs)"

definition readAllowlist :: "(jsval \<Rightarrow> jsval \<Rightarrow> bool) \<Rightarrow> bridge \<Rightarrow> player list" where
  "readAllowlist le s = foldr (insert_player le) (jm_values (br_approved s)) []"

record bridge_health =
  bh_type :: string
  bh_roomId :: jsval
  bh_status :: string
  bh_controlPlaneOnline :: bool
  bh_outagePolicy :: jsval
  bh_pendingCount :: nat
  bh_allowedCount :: nat
  bh_blockedCount :: nat
  bh_lastEventType :: "string option"

definition readHealth :: "bridge \<Rightarrow> bridge_health" where
  "readHealth s = \<lparr>bh_type = ''bridge.health'', bh_roomId = br_roomId s,
     bh_status = ''healthy'', bh_controlPlaneOnline = br_controlPlaneOnline s,
     bh_outagePolicy = br_outagePolicy s, bh_pendingCount = length (br_pending s),
     bh_allowedCount = length (br_approved s), bh_blockedCount = length (br_blocked s),
     bh_lastEventType = map_option be_type (br_lastEvent s)\<rparr>"

section \<open>As a state machine\<close>

datatype bridge_op = Bridge_join jsval | Bridge_decide jsval | Bridge_online jsval

fun bridge_exec :: "bridge_op \<Rightarrow> bridge \<Rightarrow> bridge" where
  "bridge_exec (Bridge_join input) s = snd (observePlayerJoin input s)"
| "bridge_exec (Bridge_decide input) s = snd (applyApprovalDecision input s)"
| "bridge_exec (Bridge_online v) s = setControlPlaneOnline v s"

definition bridge_initial :: "bridge \<Rightarrow> bool" where
  "bridge_initial s \<longleftrightarrow> (\<exists>config. createServerBridgeState config = Some s)"

abbreviation bridge_adm :: "bridge_op \<Rightarrow> bridge \<Rightarrow> bool" where
  "bridge_adm a s \<equiv> True"

text \<open>A pending player is neither approved nor blocked.\<close>

definition bridge_inv :: "bridge \<Rightarrow> bool" where
  "bridge_inv s \<longleftrightarrow>
     (\<forall>u. jm_has (br_pending s) u \<longrightarrow> \<not> jm_has (br_approved s) u \<and> \<not> jm_has (br_blocked s) u)"

lemma bridge_join_effect:
  "(\<exists>e. bridge_exec (Bridge_join input) s = s\<lparr>br_lastEvent := e\<rparr>) \<or>
   (\<exists>u e. \<not> jm_has (br_approved s) u \<and> \<not> jm_has (br_blocked s) u \<and> br_controlPlaneOnline s \<and>
      bridge_exec (Bridge_join input) s =
        s\<lparr>br_pending := jm_set u e (br_pending s), br_lastEvent := Some e\<rparr>)"
proof (cases "truthy (jget input ''serverObservedUuid'') \<and> br_controlPlaneOnline s \<and>
    \<not> jm_has (br_approved s) (jget input ''serverObservedUuid'') \<and>
    \<not> jm_has (br_blocked s) (jget input ''serverObservedUuid'')")
  case True
  then show ?thesis
    by (intro disjI2 exI [of _ "jget input ''serverObservedUuid''"]
          exI [of _ "the (br_lastEvent (bridge_exec (Bridge_join input) s))"])
      (simp add: observePlayerJoin_def Let_def)
next
  case False
  define s' where "s' = bridge_exec (Bridge_join input) s"
  have "s' = s\<lparr>br_lastEvent := br_lastEvent s'\<rparr>"
    using False unfolding s'_def
    by (cases "truthy (jget input ''serverObservedUuid'')"; cases "jm_has (br_blocked s) (jget input ''serverObservedUuid'')";
        cases "jm_has (br_approved s) (jget input ''serverObservedUuid'')"; cases "br_controlPlaneOnline s";
        simp add: observePlayerJoin_def Let_def)
  then show ?thesis unfolding s'_def by (rule disjI1 [OF exI])
qed

lemma bridge_decide_eqs:
  assumes u: "u = jget input ''minecraftUuid''" and d: "d = jget input ''decision''"
  shows "\<not> (truthy u \<and> jm_has (br_pending s) u) \<Longrightarrow> bridge_exec (Bridge_decide input) s = s"
    and "truthy u \<Longrightarrow> jm_has (br_pending s) u \<Longrightarrow> d = bridge_APPROVED \<Longrightarrow> bridge_exec (Bridge_decide input) s =
      s\<lparr>br_pending := jm_delete u (br_pending s), br_blocked := jm_delete u (br_blocked s),
        br_approved := jm_set u (decided_player input u) (br_approved s),
        br_lastEvent := Some (bridge_event_of s ''bridge.allowlist_updated'' u [(''decision'', bridge_APPROVED)])\<rparr>"
    and "truthy u \<Longrightarrow> jm_has (br_pending s) u \<Longrightarrow> d \<noteq> bridge_APPROVED \<Longrightarrow> d = bridge_BLOCKED \<Longrightarrow>
      bridge_exec (Bridge_decide input) s =
      s\<lparr>br_pending := jm_delete u (br_pending s), br_approved := jm_delete u (br_approved s),
        br_blocked := jm_set u (decided_player input u) (br_blocked s),
        br_lastEvent := Some (bridge_event_of s ''bridge.player_blocked'' u [])\<rparr>"
    and "truthy u \<Longrightarrow> jm_has (br_pending s) u \<Longrightarrow> d \<noteq> bridge_APPROVED \<Longrightarrow> d \<noteq> bridge_BLOCKED \<Longrightarrow> d = bridge_DENIED \<Longrightarrow>
      bridge_exec (Bridge_decide input) s =
      s\<lparr>br_pending := jm_delete u (br_pending s),
        br_lastEvent := Some (bridge_event_of s ''bridge.player_denied'' u [])\<rparr>"
    and "d \<noteq> bridge_APPROVED \<Longrightarrow> d \<noteq> bridge_BLOCKED \<Longrightarrow> d \<noteq> bridge_DENIED \<Longrightarrow>
      bridge_exec (Bridge_decide input) s = s"
  by (simp_all add: applyApprovalDecision_def Let_def flip: u d)

lemma bridge_decide_effect:
  obtains (same) "bridge_exec (Bridge_decide input) s = s"
  | (approved) u e where "u = jget input ''minecraftUuid''" "jm_has (br_pending s) u"
      "jget input ''decision'' = bridge_APPROVED" "bridge_exec (Bridge_decide input) s =
      s\<lparr>br_pending := jm_delete u (br_pending s), br_blocked := jm_delete u (br_blocked s),
        br_approved := jm_set u (decided_player input u) (br_approved s), br_lastEvent := e\<rparr>"
  | (blocked) u e where "u = jget input ''minecraftUuid''" "jm_has (br_pending s) u"
      "jget input ''decision'' = bridge_BLOCKED" "bridge_exec (Bridge_decide input) s =
      s\<lparr>br_pending := jm_delete u (br_pending s), br_approved := jm_delete u (br_approved s),
        br_blocked := jm_set u (decided_player input u) (br_blocked s), br_lastEvent := e\<rparr>"
  | (denied) u e where "u = jget input ''minecraftUuid''" "jm_has (br_pending s) u"
      "bridge_exec (Bridge_decide input) s = s\<lparr>br_pending := jm_delete u (br_pending s), br_lastEvent := e\<rparr>"
proof -
  let ?u = "jget input ''minecraftUuid''" and ?d = "jget input ''decision''"
  note eqs = bridge_decide_eqs [of ?u input ?d, OF refl refl]
  consider "\<not> (truthy ?u \<and> jm_has (br_pending s) ?u)"
    | "?d \<noteq> bridge_APPROVED" "?d \<noteq> bridge_BLOCKED" "?d \<noteq> bridge_DENIED"
    | "truthy ?u" "jm_has (br_pending s) ?u" "?d = bridge_APPROVED"
    | "truthy ?u" "jm_has (br_pending s) ?u" "?d \<noteq> bridge_APPROVED" "?d = bridge_BLOCKED"
    | "truthy ?u" "jm_has (br_pending s) ?u" "?d \<noteq> bridge_APPROVED" "?d \<noteq> bridge_BLOCKED" "?d = bridge_DENIED"
    by blast
  then show ?thesis
  proof cases
    case 1 then show ?thesis by (rule same [OF eqs(1)])
  next
    case 2 then show ?thesis by (rule same [OF eqs(5)])
  next
    case 3 from approved [OF refl this(2,3) eqs(2) [OF this]] show ?thesis .
  next
    case 4 from blocked [OF refl this(2,4) eqs(3) [OF this]] show ?thesis .
  next
    case 5 from denied [OF refl this(2) eqs(4) [OF this]] show ?thesis .
  qed
qed

lemma bridge_inv_exec: "bridge_inv s \<Longrightarrow> bridge_inv (bridge_exec a s)"
proof (cases a)
  case (Bridge_join input)
  assume inv: "bridge_inv s"
  from bridge_join_effect [of input s] inv Bridge_join show ?thesis
    unfolding bridge_inv_def by (elim disjE exE conjE) (simp_all split: if_splits)
next
  case (Bridge_decide input)
  assume inv: "bridge_inv s"
  show ?thesis unfolding Bridge_decide
    by (rule bridge_decide_effect [of input s]) (use inv in \<open>simp_all add: bridge_inv_def\<close>)
next
  case (Bridge_online v)
  assume "bridge_inv s"
  with Bridge_online show ?thesis by (simp add: setControlPlaneOnline_def bridge_inv_def)
qed

lemma bridge_inv_initial: "bridge_initial s \<Longrightarrow> bridge_inv s"
  by (auto simp: bridge_initial_def createServerBridgeState_def Let_def bind_eq_Some_conv bridge_inv_def)

interpretation bridge_blocked: permanent bridge_initial bridge_adm bridge_exec bridge_inv
  "\<lambda>u s. jm_has (br_blocked s) u"
proof unfold_locales
  show "bridge_inv s" if "bridge_initial s" for s using that by (rule bridge_inv_initial)
  show "bridge_inv (bridge_exec a s)" if "bridge_inv s" for s a using that by (rule bridge_inv_exec)
  show "jm_has (br_blocked (bridge_exec a s)) u" if inv: "bridge_inv s" and u: "jm_has (br_blocked s) u" for s a u
  proof (cases a)
    case (Bridge_join input)
    with u show ?thesis by (simp add: observePlayerJoin_def Let_def)
  next
    case (Bridge_decide input)
    show ?thesis unfolding Bridge_decide
      by (rule bridge_decide_effect [of input s]) (use inv u in \<open>auto simp: bridge_inv_def\<close>)
  next
    case (Bridge_online v)
    with u show ?thesis by (simp add: setControlPlaneOnline_def)
  qed
qed

text \<open>
  C24. Admission to the server. In every reachable state a player may enter exactly when approved,
  not blocked, and the control plane is reachable or the policy lets approved players in without it;
  the check on entering (\<open>observePlayerJoin\<close>) and the one asked later (\<open>canPlayerJoin\<close>) agree; a
  player enters the allowlist only by a decision of the host on a request the server itself saw; and
  a blocked player stays out in every continuation.
\<close>

theorem bridge_admission:
  assumes "reach bridge_initial bridge_adm bridge_exec s"
  shows "(\<forall>input answer s'. observePlayerJoin input s = (Inr answer, s') \<longrightarrow>
      (ja_allowed answer \<longleftrightarrow> jm_has (br_approved s) (jget input ''serverObservedUuid'') \<and>
         \<not> jm_has (br_blocked s) (jget input ''serverObservedUuid'') \<and>
         (br_controlPlaneOnline s \<or> br_outagePolicy s \<noteq> DENY_ALL)) \<and>
      (ja_allowed answer \<longleftrightarrow> ja_allowed (fst (canPlayerJoin
         (JObj [(''minecraftUuid'', jget input ''serverObservedUuid'')]) s)))) \<and>
    (\<forall>a u. jm_has (br_approved (bridge_exec a s)) u \<longrightarrow> \<not> jm_has (br_approved s) u \<longrightarrow>
      (\<exists>input. a = Bridge_decide input \<and> jget input ''decision'' = bridge_APPROVED \<and>
         jget input ''minecraftUuid'' = u \<and> jm_has (br_pending s) u)) \<and>
    (\<forall>u t input. jm_has (br_blocked s) u \<longrightarrow> steps bridge_adm bridge_exec s t \<longrightarrow>
      jget input ''minecraftUuid'' = u \<longrightarrow> \<not> ja_allowed (fst (canPlayerJoin input t)))"
proof (intro conjI allI impI)
  fix input answer s' assume obs: "observePlayerJoin input s = (Inr answer, s')"
  let ?u = "jget input ''serverObservedUuid''"
  from obs show allowed: "ja_allowed answer \<longleftrightarrow> jm_has (br_approved s) ?u \<and> \<not> jm_has (br_blocked s) ?u \<and>
      (br_controlPlaneOnline s \<or> br_outagePolicy s \<noteq> DENY_ALL)"
    by (auto simp: observePlayerJoin_def Let_def refuse_def deny_all_offline_def split: if_splits)
  show "ja_allowed answer \<longleftrightarrow> ja_allowed (fst (canPlayerJoin (JObj [(''minecraftUuid'', ?u)]) s))"
    unfolding allowed by (auto simp: canPlayerJoin_def Let_def refuse_def deny_all_offline_def)
next
  fix a u assume new: "jm_has (br_approved (bridge_exec a s)) u" "\<not> jm_has (br_approved s) u"
  show "\<exists>input. a = Bridge_decide input \<and> jget input ''decision'' = bridge_APPROVED \<and>
         jget input ''minecraftUuid'' = u \<and> jm_has (br_pending s) u"
  proof (cases a)
    case (Bridge_decide input)
    show ?thesis
      by (rule bridge_decide_effect [of input s]) (use new Bridge_decide in \<open>auto split: if_splits\<close>)
  next
    case (Bridge_join input)
    with new show ?thesis by (simp add: observePlayerJoin_def Let_def split: if_splits)
  next
    case (Bridge_online v)
    with new show ?thesis by (simp add: setControlPlaneOnline_def)
  qed
next
  fix u t input assume "jm_has (br_blocked s) u" "steps bridge_adm bridge_exec s t"
    and u: "jget input ''minecraftUuid'' = u"
  from bridge_blocked.reach_steps_kept [OF assms this(2,1)] u
  show "\<not> ja_allowed (fst (canPlayerJoin input t))"
    by (simp add: canPlayerJoin_def Let_def refuse_def)
qed

lemma bridge_adm_all: "adm_all bridge_adm bridge_exec as s"
  by (induction as arbitrary: s) auto

definition demo_bridge :: bridge where
  "demo_bridge = the (createServerBridgeState
     (JObj [(''blocked'', JArr [JObj [(''uuid'', JStr ''griefer'')]]), (''allowlist'', JArr [JObj [(''uuid'', JStr ''friend'')]])]))"

theorem bridge_admission_witness:
  "jm_has (br_blocked demo_bridge) (JStr ''griefer'') \<and>
   \<not> ja_allowed (fst (canPlayerJoin (JObj [(''minecraftUuid'', JStr ''griefer'')])
      (exec_all bridge_exec [Bridge_join (JObj [(''serverObservedUuid'', JStr ''griefer'')]),
         Bridge_decide (JObj [(''minecraftUuid'', JStr ''griefer''), (''decision'', bridge_APPROVED)])] demo_bridge)))"
proof -
  have "createServerBridgeState (JObj [(''blocked'', JArr [JObj [(''uuid'', JStr ''griefer'')]]),
      (''allowlist'', JArr [JObj [(''uuid'', JStr ''friend'')]])]) \<noteq> None" by code_simp
  then have "bridge_initial demo_bridge" by (auto simp: bridge_initial_def demo_bridge_def)
  then have reach: "reach bridge_initial bridge_adm bridge_exec demo_bridge" by (rule reach_init)
  have "jm_has (br_blocked demo_bridge) (JStr ''griefer'')" by code_simp
  moreover have "steps bridge_adm bridge_exec demo_bridge (exec_all bridge_exec as demo_bridge)" for as
    by (rule steps_exec_all [OF bridge_adm_all])
  ultimately show ?thesis
    using bridge_admission [OF reach, THEN conjunct2, THEN conjunct2] by (simp del: exec_all.simps)
qed

end
