(* ===== verification/RuntimeAdapter.thy ===== *)
theory RuntimeAdapter
  imports HostRuntime
begin

text \<open>
  \<open>apps/desktop/src/runtime/local-runtime-adapter.mjs\<close>: what the host's plan asks of the file
  system, the download and the process. A failure is its reason (\<open>Inl\<close>); \<open>None\<close> is a thrown
  \<open>TypeError\<close>.
\<close>

section \<open>Failures\<close>

datatype adapter_failure = AF_INVALID_RUNTIME_PLAN | AF_FABRIC_CHECKSUM_MISSING
  | AF_UNKNOWN_FABRIC_SOURCE | AF_UNSUPPORTED_ACTION

primrec adapter_failure_str :: "adapter_failure \<Rightarrow> string" where
  "adapter_failure_str AF_INVALID_RUNTIME_PLAN = ''invalid_runtime_plan''"
| "adapter_failure_str AF_FABRIC_CHECKSUM_MISSING = ''fabric_checksum_missing''"
| "adapter_failure_str AF_UNKNOWN_FABRIC_SOURCE = ''unknown_fabric_source''"
| "adapter_failure_str AF_UNSUPPORTED_ACTION = ''unsupported_action''"

primrec adapter_failure_message :: "adapter_failure \<Rightarrow> string" where
  "adapter_failure_message AF_INVALID_RUNTIME_PLAN = ''Prepare the room before opening it.''"
| "adapter_failure_message AF_FABRIC_CHECKSUM_MISSING = ''Room setup files need a verified checksum before use.''"
| "adapter_failure_message AF_UNKNOWN_FABRIC_SOURCE = ''Use the app-approved Fabric setup source.''"
| "adapter_failure_message AF_UNSUPPORTED_ACTION = ''This room action is not supported yet.''"

definition adapter_fail :: "adapter_failure \<Rightarrow> jsval" where
  "adapter_fail reason = JObj [(''ok'', JBool False), (''failure'', JObj
     [(''reason'', JStr (adapter_failure_str reason)), (''message'', JStr (adapter_failure_message reason))])]"

definition FABRIC_META_BASE_URL :: string where
  "FABRIC_META_BASE_URL = ''https://meta.fabricmc.net/''"

section \<open>Paths\<close>

definition isManagedPath :: "jsval \<Rightarrow> jsval \<Rightarrow> bool" where
  "isManagedPath rt v =
    (case v of
       JStr path \<Rightarrow>
         js_trim path \<noteq> [] \<and> CHR 0x00 \<notin> set path \<and> \<not> hasParentPathSegment path \<and>
         (let normalizedRoot = normalizeRoot rt; normalizedPath = normalizeRoot (JStr path)
          in normalizedPath = normalizedRoot \<or> js_startsWith normalizedPath (normalizedRoot @ ''/''))
     | _ \<Rightarrow> False)"

definition isPathLike :: "string \<Rightarrow> bool" where
  "isPathLike v \<longleftrightarrow> js_includes v ''/'' \<or> js_includes v [CHR 0x5C] \<or>
     (case v of x # y # _ \<Rightarrow> (is_upper x \<or> is_lower x) \<and> y = CHR '':'' | _ \<Rightarrow> False)"

definition uniquePaths :: "jsval list \<Rightarrow> jsval list" where
  "uniquePaths paths = js_set (filter truthy paths)"

definition managed_paths :: "jsval \<Rightarrow> jsval list" where
  "managed_paths p =
    [jget (jget p ''files'') ''root'', jget (jget p ''files'') ''mods'', jget (jget p ''files'') ''world'',
     jget (jget p ''layout'') ''runtime'', jget (jget p ''layout'') ''logs'', jget (jget p ''layout'') ''cache'',
     jget (jget p ''layout'') ''downloads'', jget (jget p ''layout'') ''metadata'',
     jget (jget p ''fabric'') ''launcherJar'', jget (jget p ''eula'') ''path'',
     jget (jget p ''serverProperties'') ''path'']"

definition plan_incomplete :: "jsval \<Rightarrow> bool" where
  "plan_incomplete p \<longleftrightarrow>
     \<not> truthy (jget (jget p ''room'') ''id'') \<or> \<not> truthy (jget (jget p ''files'') ''root'') \<or>
     \<not> truthy (jget (jget p ''layout'') ''runtime'') \<or> \<not> truthy (jget (jget p ''layout'') ''downloads'') \<or>
     \<not> truthy (jget (jget p ''layout'') ''metadata'') \<or> \<not> truthy (jget (jget p ''fabric'') ''launcherJar'') \<or>
     \<not> truthy (jget (jget p ''serverProperties'') ''values'') \<or> \<not> truthy (jget (jget p ''eula'') ''accepted'') \<or>
     \<not> nonempty_arr (jget p ''command'')"

definition validateRuntimePlan :: "jsval \<Rightarrow> adapter_failure option option" where
  "validateRuntimePlan p =
    (if plan_incomplete p then Some (Some AF_INVALID_RUNTIME_PLAN)
     else do {
       let appDataRoot = jget (jget p ''layout'') ''appDataRoot'';
       entries \<leftarrow> arr_of (coalesce (jget (jget p ''mods'') ''entries'') (JArr []));
       targets \<leftarrow> traverse (\<lambda>entry. dot entry ''target'') entries;
       sources \<leftarrow> traverse (\<lambda>entry. dot entry ''source'') entries;
       let modSources = filter (\<lambda>v. case v of JStr s \<Rightarrow> isPathLike s | _ \<Rightarrow> False) sources;
       Some (if \<not> isSafeAppDataRoot appDataRoot \<or>
                list_ex (\<lambda>path. \<not> isManagedPath appDataRoot path) (managed_paths p @ targets) \<or>
                list_ex (\<lambda>path. \<not> isManagedPath appDataRoot path) modSources
             then Some AF_INVALID_RUNTIME_PLAN else None) })"

section \<open>Materialisation\<close>

definition serializeJson :: "jsval \<Rightarrow> string" where
  "serializeJson v = (case json2 0 v of Some t \<Rightarrow> t | None \<Rightarrow> ''undefined'') @ [CHR 0x0A]"

definition serializeServerProperties :: "jsval \<Rightarrow> string" where
  "serializeServerProperties vals =
     js_join [CHR 0x0A] (map (\<lambda>(k, v). k @ ''='' @ js_string v) (own_entries (or_empty vals))) @ [CHR 0x0A]"

record planned_file =
  pf_kind :: string
  pf_path :: jsval
  pf_contents :: jsval
  pf_overwrite :: bool
  pf_consent :: jsval

record mod_operation =
  mo_modId :: jsval
  mo_fileName :: jsval
  mo_source :: jsval
  mo_downloadUrl :: jsval
  mo_provider :: jsval
  mo_target :: jsval
  mo_expectedSha256 :: jsval
  mo_expectedFileSize :: jsval
  mo_verified :: jsval

record materialization =
  mt_roomId :: jsval
  mt_appDataRoot :: jsval
  mt_directories :: "jsval list"
  mt_files :: "planned_file list"
  mt_modOperations :: "mod_operation list"
  mt_removeUnknownMods :: bool

definition mod_operation_of :: "jsval \<Rightarrow> mod_operation option" where
  "mod_operation_of entry = do {
     modId \<leftarrow> dot entry ''id'';
     Some \<lparr>mo_modId = modId, mo_fileName = jget entry ''fileName'', mo_source = jget entry ''source'',
       mo_downloadUrl = jget entry ''downloadUrl'', mo_provider = jget entry ''provider'',
       mo_target = jget entry ''target'', mo_expectedSha256 = jget entry ''sha256'',
       mo_expectedFileSize = jget entry ''expectedFileSize'', mo_verified = jget entry ''verified''\<rparr> }"

definition planned :: "string \<Rightarrow> jsval \<Rightarrow> jsval \<Rightarrow> bool \<Rightarrow> planned_file" where
  "planned kind path contents overwrite = \<lparr>pf_kind = kind, pf_path = path, pf_contents = contents,
     pf_overwrite = overwrite, pf_consent = JUndef\<rparr>"

definition materialization_directories :: "jsval \<Rightarrow> jsval list" where
  "materialization_directories p = uniquePaths
     [jget (jget p ''files'') ''root'', jget (jget p ''layout'') ''runtime'', jget (jget p ''files'') ''mods'',
      jget (jget p ''files'') ''world'', jget (jget p ''layout'') ''logs'', jget (jget p ''layout'') ''cache'',
      jget (jget p ''layout'') ''downloads'', jget (jget p ''layout'') ''metadata'']"

definition allowlist_path :: "jsval \<Rightarrow> string" where
  "allowlist_path p = joinPath [jget (jget p ''files'') ''root'', JStr ''whitelist.json'']"

definition bridge_config_path :: "jsval \<Rightarrow> string" where
  "bridge_config_path p = joinPath [jget (jget p ''layout'') ''runtime'', JStr ''server-bridge.json'']"

definition manifest_path :: "jsval \<Rightarrow> string" where
  "manifest_path p = joinPath [jget (jget p ''layout'') ''runtime'', JStr ''room-runtime-manifest.json'']"

text \<open>The files, for the bridge's approval source, the pack's id and the number of mods.\<close>

definition materialization_files :: "jsval \<Rightarrow> jsval \<Rightarrow> jsval \<Rightarrow> nat \<Rightarrow> planned_file list" where
  "materialization_files p approvalSource packId modCount =
    [(planned ''eula'' (jget (jget p ''eula'') ''path'') (jget (jget p ''eula'') ''writeText'') True)
       \<lparr>pf_consent := jget (jget p ''eula'') ''requiresExplicitHostConsent''\<rparr>,
     planned ''server-properties'' (jget (jget p ''serverProperties'') ''path'')
       (JStr (serializeServerProperties (jget (jget p ''serverProperties'') ''values''))) True,
     planned ''minecraft-whitelist'' (JStr (allowlist_path p)) (JStr (''[]'' @ [CHR 0x0A])) False,
     planned ''server-bridge-config'' (JStr (bridge_config_path p)) (JStr (serializeJson (JObj
       [(''roomId'', jget (jget p ''room'') ''id''), (''approvalSource'', approvalSource),
        (''claimedIdentityCanApprove'', jget (jget p ''bridge'') ''claimedIdentityCanApprove''),
        (''allowlistPath'', JStr (allowlist_path p)), (''healthEvent'', JStr ''bridge.health'')]))) True,
     planned ''runtime-manifest'' (JStr (manifest_path p)) (JStr (serializeJson (JObj
       [(''roomId'', jget (jget p ''room'') ''id''),
        (''minecraftVersion'', jget (jget p ''room'') ''minecraftVersion''),
        (''fabricLoaderVersion'', jget (jget p ''fabric'') ''loaderVersion''),
        (''launcherJar'', jget (jget p ''fabric'') ''launcherJar''),
        (''packId'', packId), (''modCount'', JNum (int modCount))]))) True]"

definition createRoomMaterializationPlan :: "jsval \<Rightarrow> (adapter_failure + materialization) option" where
  "createRoomMaterializationPlan p = do {
     failure \<leftarrow> validateRuntimePlan p;
     case failure of Some reason \<Rightarrow> Some (Inl reason) | None \<Rightarrow> do {
     approvalSource \<leftarrow> dot (jget p ''bridge'') ''approvalSource'';
     packId \<leftarrow> dot (jget p ''pack'') ''id'';
     entries0 \<leftarrow> dot (jget p ''mods'') ''entries'';
     entries \<leftarrow> arr_of entries0;
     operations \<leftarrow> traverse mod_operation_of entries;
     Some (Inr \<lparr>mt_roomId = jget (jget p ''room'') ''id'', mt_appDataRoot = jget (jget p ''layout'') ''appDataRoot'',
       mt_directories = materialization_directories p,
       mt_files = materialization_files p approvalSource packId (length entries),
       mt_modOperations = operations,
       mt_removeUnknownMods = (jget (jget p ''mods'') ''removeUnknownMods'' = JBool True)\<rparr>) } }"

section \<open>The Fabric server download\<close>

record fabric_download =
  fd_roomId :: jsval
  fd_provider :: jsval
  fd_url :: string
  fd_cachePath :: string
  fd_reuseVerifiedDownloads :: jsval
  fd_target :: jsval
  fd_algorithm :: jsval
  fd_expectedSha256 :: jsval

definition default_fabric_url :: "jsval \<Rightarrow> jsval \<Rightarrow> string" where
  "default_fabric_url p installerVersion =
     ''https://meta.fabricmc.net/v2/versions/loader/'' @ js_string (jget (jget p ''room'') ''minecraftVersion'') @
     ''/'' @ js_string (jget (jget p ''fabric'') ''loaderVersion'') @
     (if truthy installerVersion then ''/'' @ js_string installerVersion else []) @ ''/server/jar''"

definition createFabricServerDownloadPlan :: "jsval \<Rightarrow> jsval \<Rightarrow> (adapter_failure + fabric_download) option" where
  "createFabricServerDownloadPlan p sources0 = do {
     failure \<leftarrow> validateRuntimePlan p;
     case failure of Some reason \<Rightarrow> Some (Inl reason) | None \<Rightarrow>
     let expectedSha256 = jget (jget p ''fabric'') ''serverJarSha256'' in
     if \<not> truthy expectedSha256 then Some (Inl AF_FABRIC_CHECKSUM_MISSING)
     else do {
     let sources = or_empty sources0;
     given \<leftarrow> dot sources ''fabricInstallerVersion'';
     let installerVersion = coalesce given (jget (jget p ''fabric'') ''installerVersion'');
     case coalesce (jget sources ''fabricServerJarUrl'') (JStr (default_fabric_url p installerVersion)) of
       JStr sourceUrl \<Rightarrow>
         if \<not> js_startsWith sourceUrl FABRIC_META_BASE_URL then Some (Inl AF_UNKNOWN_FABRIC_SOURCE)
         else do {
           let cachePath = joinPath [jget (jget p ''layout'') ''downloads'',
             JStr (''fabric-server-'' @ js_string (jget (jget p ''room'') ''minecraftVersion'') @ ''-'' @
               js_string (jget (jget p ''fabric'') ''loaderVersion'') @ ''-'' @ js_string expectedSha256 @ ''.jar'')];
           reuse \<leftarrow> dot (jget p ''cache'') ''reuseVerifiedDownloads'';
           Some (Inr \<lparr>fd_roomId = jget (jget p ''room'') ''id'',
             fd_provider = coalesce (jget sources ''provider'') (JStr ''Fabric Meta''), fd_url = sourceUrl,
             fd_cachePath = cachePath, fd_reuseVerifiedDownloads = reuse,
             fd_target = jget (jget p ''fabric'') ''launcherJar'',
             fd_algorithm = jget (jget p ''cache'') ''checksumAlgorithm'', fd_expectedSha256 = expectedSha256\<rparr>) }
     | _ \<Rightarrow> None } }"

section \<open>The process\<close>

datatype process_intent =
    Process_start (pi_roomId: jsval) (pi_cwd: jsval) (pi_command: jsval) (pi_args: "jsval list")
      (pi_stdio: "string list") (pi_healthCheck: "string list") (pi_requires: "string list")
      (pi_redactedCommand: "string list")
  | Process_stop (pi_roomId: jsval) (pi_gracefulCommand: string) (pi_timeoutMs: int) (pi_fallbackSignal: string)
  | Process_restart (pi_roomId: jsval) (pi_sequence: "process_intent list")

definition start_intent :: "jsval \<Rightarrow> process_intent" where
  "start_intent p = Process_start (jget (jget p ''room'') ''id'') (jget (jget p ''files'') ''root'')
     (hd (elems (jget p ''command''))) (tl (elems (jget p ''command'')))
     [''runtime.log'', ''runtime.log'', ''command'']
     [''Done'', CHR 0x5C # ''bERROR'' @ CHR 0x5C # ''b|'' @ CHR 0x5C # ''bException'' @ CHR 0x5C # ''b|'' @
        CHR 0x5C # ''bFailed'' @ CHR 0x5C # ''b|Crash report|crashed|Caused by:'', ''bridge.health'']
     [''materialized_room'', ''verified_fabric_server_jar'', ''compatible_java'', ''accepted_eula'',
      ''fixed_pack_installed'']
     (map redactHostLogLine (elems (jget p ''command'')))"

definition stop_intent :: "jsval \<Rightarrow> process_intent" where
  "stop_intent p = Process_stop (jget (jget p ''room'') ''id'') (''stop'' @ [CHR 0x0A]) 30000 ''terminate''"

text \<open>The action is the given value; without one it is \<open>start\<close>.\<close>

definition createLocalServerProcessIntent :: "jsval \<Rightarrow> jsval \<Rightarrow> (adapter_failure + process_intent) option" where
  "createLocalServerProcessIntent p action0 = do {
     let action = (if action0 = JUndef then JStr (host_action_str HA_START) else action0);
     failure \<leftarrow> validateRuntimePlan p;
     Some (case failure of Some reason \<Rightarrow> Inl reason | None \<Rightarrow>
       if action = JStr (host_action_str HA_START) then Inr (start_intent p)
       else if action = JStr (host_action_str HA_STOP) then Inr (stop_intent p)
       else if action = JStr (host_action_str HA_RESTART) then
         Inr (Process_restart (jget (jget p ''room'') ''id'')
           [stop_intent p, start_intent p])
       else Inl AF_UNSUPPORTED_ACTION) }"

end
