(* ===== verification/RuntimeAdapter_Props.thy ===== *)
theory RuntimeAdapter_Props
  imports RuntimeAdapter HostRuntime_Props
begin

text \<open>
  The adapter keeps everything it writes below the application's folder, and it accepts what the
  host runtime plans. \<open>path_below r p\<close>: the path \<open>p\<close>, normalised, is the folder \<open>r\<close> or lies in it, and
  has no segment \<open>..\<close>.
\<close>

section \<open>Paths below a folder\<close>

definition path_below :: "string \<Rightarrow> string \<Rightarrow> bool" where
  "path_below r p \<longleftrightarrow> \<not> hasParentPathSegment p \<and> prefix (root_dir r @ ''/'') (normalizeRoot (JStr p) @ ''/'')"

definition value_below :: "string \<Rightarrow> jsval \<Rightarrow> bool" where
  "value_below r v = (case v of JStr p \<Rightarrow> path_below r p | _ \<Rightarrow> False)"

lemma normalizeRoot_JStr: "normalizeRoot (JStr p) = collapse_slashes (unify_slashes p)"
  by (cases p) (simp_all add: normalizeRoot_def joinPath_def)

lemma collapse_end:
  "collapse_slashes (s @ ''/'') =
     (if s \<noteq> [] \<and> last s = CHR ''/'' then collapse_slashes s else collapse_slashes s @ ''/'')"
proof (induction s)
  case (Cons x s)
  show ?case
  proof (cases "s = []")
    case True
    then show ?thesis by (auto simp: collapse_step)
  next
    case False
    with Cons hd_collapse [OF False] show ?thesis by (auto simp: collapse_step [of x] hd_append)
  qed
qed simp

lemma collapse_last: "s \<noteq> [] \<Longrightarrow> last (collapse_slashes s) = last s"
proof (induction s)
  case (Cons x s)
  then show ?case using hd_collapse [of s] by (cases "s = []") (auto simp: collapse_step [of x])
qed simp

text \<open>The normalised path is its folder name, with a slash at the end when the path has one.\<close>

lemma root_dir_end: "collapse_slashes (unify_slashes r @ ''/'') = root_dir r @ ''/''"
proof -
  obtain d where "collapse_slashes (unify_slashes r @ ''/'') = d @ ''/''" using collapse_slash_end by blast
  then show ?thesis by (simp add: root_dir_def)
qed

lemma normalize_root_dir:
  "normalizeRoot (JStr r) = root_dir r @ ''/'' \<or> normalizeRoot (JStr r) = root_dir r"
  using root_dir_end [of r] collapse_end [of "unify_slashes r"]
  by (auto simp: normalizeRoot_JStr split: if_splits)

lemma no_double_slash: "collapse_slashes s \<noteq> p @ ''//'' @ q"
proof (induction s arbitrary: p)
  case (Cons x s)
  show ?case
  proof
    assume eq: "collapse_slashes (x # s) = p @ ''//'' @ q"
    show False
    proof (cases "x = CHR ''/'' \<and> s \<noteq> [] \<and> hd s = CHR ''/''")
      case True
      with eq have "collapse_slashes s = p @ ''//'' @ q" by (simp add: collapse_step)
      with Cons.IH [of p] show False by blast
    next
      case no: False
      then have eq': "x # collapse_slashes s = p @ ''//'' @ q" using eq by (auto simp: collapse_step)
      show False
      proof (cases p)
        case Nil
        with eq' have x: "x = CHR ''/''" "collapse_slashes s = CHR ''/'' # q" by simp_all
        then have "s \<noteq> []" by auto
        with hd_collapse [OF this] x no show False by simp
      next
        case (Cons y p')
        with eq' Cons.IH [of p'] show False by simp
      qed
    qed
  qed
qed simp

lemma root_dir_no_end: "root_dir r \<noteq> d @ ''/''"
  using no_double_slash [of "unify_slashes r @ ''/''" d "[]"] root_dir_end [of r] by auto

lemma managed_path_below:
  assumes "isManagedPath (JStr r) v"
  shows "\<exists>p. v = JStr p \<and> p \<noteq> [] \<and> path_below r p"
proof -
  obtain p where v: "v = JStr p" using assms by (cases v) (simp_all add: isManagedPath_def)
  from assms have p: "js_trim p \<noteq> []" "\<not> hasParentPathSegment p"
      "normalizeRoot (JStr p) = normalizeRoot (JStr r) \<or> prefix (normalizeRoot (JStr r) @ ''/'') (normalizeRoot (JStr p))"
    by (simp_all add: v isManagedPath_def Let_def js_startsWith_prefix)
  have "prefix (root_dir r @ ''/'') (normalizeRoot (JStr r) @ ''/'')"
    using normalize_root_dir [of r] by (auto simp: prefix_def)
  then have "prefix (root_dir r @ ''/'') (normalizeRoot (JStr p) @ ''/'')"
    using p(3) by (metis prefix_append prefix_order.trans)
  with p(1,2) have "path_below r p" "p \<noteq> []" by (auto simp: path_below_def js_trim_def)
  with v show ?thesis by blast
qed

lemma js_split_free: "c \<notin> set s \<Longrightarrow> js_split c s = [s]"
  by (induction s) auto

text \<open>A file in a folder below the root is below the root.\<close>

lemma path_below_join:
  assumes "path_below r p" and "p \<noteq> []" and "slash_free name" and "name \<noteq> ''..''"
  shows "path_below r (joinPath [JStr p, JStr name])"
proof -
  let ?j = "root_dir p @ under_root [name]"
  have j: "joinPath [JStr p, JStr name] = ?j"
    using joinPath_root [OF assms(2), of "[name]"] assms(3) by simp
  have "?j = collapse_slashes (unify_slashes (p @ under_root [name]))"
    using root_dir_below [of "[name]" p] assms(3) by simp
  then have norm: "normalizeRoot (JStr ?j) = ?j"
    using collapse_collapse [of "unify_slashes (p @ under_root [name])" "[]"]
    by (metis append_Nil2 normalizeRoot_JStr unify_collapse_unify)
  have pre: "prefix (root_dir r @ ''/'') (root_dir p @ ''/'')"
  proof (cases "normalizeRoot (JStr p) = root_dir p")
    case True
    with assms(1) show ?thesis by (simp add: path_below_def)
  next
    case False
    with normalize_root_dir [of p] have "normalizeRoot (JStr p) = root_dir p @ ''/''" by simp
    with assms(1) have "prefix (root_dir r @ ''/'') (root_dir p @ ''/'' @ ''/'')" by (simp add: path_below_def)
    then have "root_dir r @ ''/'' = (root_dir p @ ''/'') @ ''/'' \<or> prefix (root_dir r @ ''/'') (root_dir p @ ''/'')"
      by (simp only: append_assoc [symmetric] prefix_snoc)
    with root_dir_no_end [of r "root_dir p"] show ?thesis by auto
  qed
  have "\<not> hasParentPathSegment ?j"
  proof -
    have "\<not> hasParentPathSegment (root_dir p)" using assms(1) root_dir_parent by (simp add: path_below_def)
    moreover have "js_split CHR ''/'' name = [name]" using assms(3) js_split_free by (simp add: slash_free_def)
    ultimately show ?thesis
      using assms(3,4) split_append [of "CHR ''/''" "unify_slashes (root_dir p)" name]
      by (auto simp: hasParentPathSegment_def slash_free_def)
  qed
  moreover have "prefix (root_dir r @ ''/'') (?j @ ''/'')"
    using prefix_prefix [OF pre, of "name @ ''/''"] by simp
  ultimately show ?thesis by (simp add: path_below_def j norm del: under_root_simps)
qed

section \<open>What is accepted\<close>

lemma validate_plan_None:
  assumes "validateRuntimePlan p = Some None"
  obtains r entries where "jget (jget p ''layout'') ''appDataRoot'' = JStr r" "\<not> plan_incomplete p"
    "isSafeAppDataRoot (JStr r)"
    "arr_of (coalesce (jget (jget p ''mods'') ''entries'') (JArr [])) = Some entries"
    "\<forall>v \<in> set (managed_paths p). isManagedPath (JStr r) v"
    "\<forall>e \<in> set entries. \<not> nullish e \<and> isManagedPath (JStr r) (jget e ''target'')"
proof -
  let ?r = "jget (jget p ''layout'') ''appDataRoot''"
  from assms have comp: "\<not> plan_incomplete p" by (auto simp: validateRuntimePlan_def split: if_splits)
  with assms obtain entries targets sources where e: "arr_of (coalesce (jget (jget p ''mods'') ''entries'') (JArr [])) = Some entries"
      "traverse (\<lambda>e. dot e ''target'') entries = Some targets" "isSafeAppDataRoot ?r"
      "list_all (isManagedPath ?r) (managed_paths p @ targets)"
    by (auto simp: validateRuntimePlan_def Let_def bind_eq_Some_conv list_ex_iff list_all_iff split: if_splits)
  then obtain r where r: "?r = JStr r" by (auto elim: safe_root_text)
  have "\<not> nullish e \<and> isManagedPath ?r (jget e ''target'')" if "e \<in> set entries" for e
  proof -
    from traverse_SomeD(1) [OF e(2) that] obtain t where "dot e ''target'' = Some t" "t \<in> set targets" by blast
    with e(4) show ?thesis by (auto simp: dot_def list_all_iff split: if_splits)
  qed
  with r e comp show thesis by (intro that [of r entries]) (auto simp: list_all_iff)
qed

lemma managed_value: "isManagedPath (JStr r) v \<Longrightarrow> value_below r v"
  using managed_path_below [of r v] by (auto simp: value_below_def)

lemma managed_join:
  assumes "isManagedPath (JStr r) v" and "slash_free name" and "name \<noteq> ''..''"
  shows "value_below r (JStr (joinPath [v, JStr name]))"
  using managed_path_below [OF assms(1)] path_below_join [OF _ _ assms(2,3)] by (auto simp: value_below_def)

text \<open>
  Everything a materialisation plan creates, writes or installs lies below the application's
  folder: its directories, its five files (the EULA, the server properties, the whitelist, the
  bridge's configuration and the manifest) and the targets of the mods; no path has a segment \<open>..\<close>,
  and a whitelist that exists is kept.
\<close>

theorem materialization_contained:
  assumes "createRoomMaterializationPlan p = Some (Inr m)"
  shows "\<exists>r. mt_appDataRoot m = JStr r \<and> \<not> hasParentPathSegment r \<and>
    (\<forall>d \<in> set (mt_directories m). value_below r d) \<and>
    map pf_kind (mt_files m) = [''eula'', ''server-properties'', ''minecraft-whitelist'',
      ''server-bridge-config'', ''runtime-manifest''] \<and>
    (\<forall>f \<in> set (mt_files m). value_below r (pf_path f) \<and>
       (pf_kind f = ''minecraft-whitelist'' \<longrightarrow> \<not> pf_overwrite f)) \<and>
    (\<forall>op \<in> set (mt_modOperations m). value_below r (mo_target op))"
proof -
  have valid: "validateRuntimePlan p = Some None"
    using assms by (auto simp: createRoomMaterializationPlan_def bind_eq_Some_conv split: option.splits)
  obtain r entries where r: "jget (jget p ''layout'') ''appDataRoot'' = JStr r" "isSafeAppDataRoot (JStr r)"
    and entries: "arr_of (coalesce (jget (jget p ''mods'') ''entries'') (JArr [])) = Some entries"
    and managed: "\<forall>v \<in> set (managed_paths p). isManagedPath (JStr r) v"
      "\<forall>e \<in> set entries. \<not> nullish e \<and> isManagedPath (JStr r) (jget e ''target'')"
    by (rule validate_plan_None [OF valid])
  from assms obtain src pid es ops where ops: "arr_of (jget (jget p ''mods'') ''entries'') = Some es"
      "traverse mod_operation_of es = Some ops"
    and m: "m = \<lparr>mt_roomId = jget (jget p ''room'') ''id'', mt_appDataRoot = JStr r,
       mt_directories = materialization_directories p,
       mt_files = materialization_files p src pid (length es), mt_modOperations = ops,
       mt_removeUnknownMods = (jget (jget p ''mods'') ''removeUnknownMods'' = JBool True)\<rparr>"
    by (auto simp: createRoomMaterializationPlan_def valid bind_eq_Some_conv dot_def r(1) split: if_splits)
  have es: "es = entries"
    using ops(1) entries by (cases "jget (jget p ''mods'') ''entries''") (simp_all add: arr_of_def)
  have "set (materialization_directories p) \<subseteq> set (managed_paths p)"
    by (auto simp: materialization_directories_def uniquePaths_def managed_paths_def)
  then have dirs: "\<forall>d \<in> set (mt_directories m). value_below r d"
    using managed(1) managed_value by (auto simp: m)
  have in_managed: "isManagedPath (JStr r) (jget (jget p ''eula'') ''path'')"
      "isManagedPath (JStr r) (jget (jget p ''serverProperties'') ''path'')"
      "isManagedPath (JStr r) (jget (jget p ''files'') ''root'')"
      "isManagedPath (JStr r) (jget (jget p ''layout'') ''runtime'')"
    using managed(1) by (simp_all add: managed_paths_def)
  have "value_below r (JStr (allowlist_path p))" "value_below r (JStr (bridge_config_path p))"
      "value_below r (JStr (manifest_path p))"
    unfolding allowlist_path_def bridge_config_path_def manifest_path_def
    using in_managed(3,4) by (intro managed_join; simp add: slash_free_eval)+
  with in_managed(1,2) managed_value
  have files: "\<forall>f \<in> set (mt_files m). value_below r (pf_path f) \<and>
       (pf_kind f = ''minecraft-whitelist'' \<longrightarrow> \<not> pf_overwrite f)"
    by (simp add: m materialization_files_def planned_def)
  have "value_below r (mo_target op)" if "op \<in> set ops" for op
  proof -
    from traverse_SomeD(2) [OF ops(2) that] obtain e where "e \<in> set es" "mod_operation_of e = Some op" by blast
    with managed(2) managed_value show ?thesis by (auto simp: es mod_operation_of_def bind_eq_Some_conv)
  qed
  with dirs files r(2) show ?thesis
    by (intro exI [of _ r]) (auto simp: m isSafeAppDataRoot_def, simp add: materialization_files_def planned_def)
qed

section \<open>The host's plan is accepted\<close>

lemma collapse_set: "set (collapse_slashes s) = set s"
proof (induction s)
  case (Cons x s)
  show ?case
  proof (cases "x = CHR ''/'' \<and> s \<noteq> [] \<and> hd s = CHR ''/''")
    case True
    with hd_in_set [of s] Cons show ?thesis by (simp add: collapse_step insert_absorb)
  next
    case False
    with Cons show ?thesis by (auto simp: collapse_step [of x s])
  qed
qed simp

lemma trim_Nil: "js_trim s = [] \<longleftrightarrow> (\<forall>x \<in> set s. is_space x)"
proof -
  have "(\<forall>x \<in> set (dropWhile is_space s). is_space x) \<longleftrightarrow> (\<forall>x \<in> set s. is_space x)"
    by (induction s) simp_all
  then show ?thesis by (simp add: js_trim_def dropWhile_eq_Nil_conv)
qed

text \<open>Segments as the host plan uses them.\<close>

definition plain_segment :: "string \<Rightarrow> bool" where
  "plain_segment s \<longleftrightarrow> slash_free s \<and> s \<noteq> ''..'' \<and> CHR 0x00 \<notin> set s"

lemma safe_segment_plain: "isSafePathSegment (JStr s) \<Longrightarrow> plain_segment s"
proof -
  assume s: "isSafePathSegment (JStr s)"
  have nul: "\<not> segment_char (CHR 0x00)" "\<not> segment_start (CHR 0x00)" by code_simp+
  from s obtain x xs where x: "s = x # xs" "segment_start x" "list_all segment_char xs" "s \<noteq> ''..''"
    by (cases s) (simp_all add: isSafePathSegment_def)
  then have "CHR 0x00 \<notin> set s" using nul by (auto simp: list_all_iff)
  with segment_slash_free [OF s] x(4) show ?thesis by (simp add: plain_segment_def)
qed

lemma under_root_parent:
  "list_all plain_segment segs \<Longrightarrow> set (js_split CHR ''/'' (p @ under_root segs)) = set (js_split CHR ''/'' p) \<union> set segs"
proof (induction segs arbitrary: p)
  case (Cons s segs)
  from Cons.prems have s: "js_split CHR ''/'' s = [s]"
    by (auto simp: plain_segment_def slash_free_def intro: js_split_free)
  have "set (js_split CHR ''/'' ((p @ CHR ''/'' # s) @ under_root segs)) =
      set (js_split CHR ''/'' (p @ CHR ''/'' # s)) \<union> set segs"
    using Cons.prems by (intro Cons.IH) simp
  then show ?case by (auto simp: split_append s)
qed simp

lemma planned_managed:
  assumes "r \<noteq> []" "last (unify_slashes r) \<noteq> CHR ''/''" "isSafeAppDataRoot (JStr r)"
    and segs: "segs \<noteq> []" "list_all plain_segment segs"
  shows "isManagedPath (JStr (root_dir r)) (JStr (root_dir r @ under_root segs))"
proof -
  let ?p = "root_dir r @ under_root segs"
  have free: "list_all slash_free segs" using segs(2) by (auto simp: list_all_iff plain_segment_def)
  have rd: "normalizeRoot (JStr r) = root_dir r"
    using root_dir_end [of r] collapse_end [of "unify_slashes r"] assms(1,2)
    by (simp add: normalizeRoot_JStr unify_slashes_def)
  have idem: "normalizeRoot (JStr (normalizeRoot (JStr q))) = normalizeRoot (JStr q)" for q
    using collapse_collapse [of "unify_slashes q" "[]"] by (simp add: normalizeRoot_JStr)
  have p: "?p = normalizeRoot (JStr (r @ under_root segs))"
    using root_dir_below [OF free segs(1), of r] by (simp add: normalizeRoot_JStr)
  have norm: "normalizeRoot (JStr ?p) = ?p" unfolding p by (rule idem)
  have "normalizeRoot (JStr (root_dir r)) = root_dir r" using idem [of r] rd by simp
  moreover have "js_startsWith ?p (root_dir r @ ''/'')"
    using segs(1) by (cases segs) (simp_all add: js_startsWith_prefix)
  moreover have "\<not> is_space (CHR ''/'')" by code_simp
  then have "\<not> (\<forall>x \<in> set ?p. is_space x)" using segs(1) by (cases segs) auto
  moreover have "CHR 0x00 \<notin> set ?p"
  proof -
    have "set (root_dir r) \<subseteq> set (unify_slashes r)"
      using set_collapse [of "unify_slashes r"] rd by (simp add: normalizeRoot_JStr)
    then have "CHR 0x00 \<notin> set (root_dir r)"
      using assms(3) by (auto simp: isSafeAppDataRoot_def unify_slashes_def)
    moreover have "CHR 0x00 \<notin> set (under_root segs)"
      using segs(2) by (auto simp: under_root_def list_all_iff plain_segment_def)
    ultimately show ?thesis by simp
  qed
  moreover have "\<not> hasParentPathSegment ?p"
  proof -
    have "\<not> hasParentPathSegment (root_dir r)"
      using assms(3) by (intro root_dir_parent) (simp add: isSafeAppDataRoot_def)
    then have "''..'' \<notin> set (js_split CHR ''/'' (unify_slashes (root_dir r)))"
      by (simp add: hasParentPathSegment_def)
    moreover have "''..'' \<notin> set segs" using segs(2) by (auto simp: list_all_iff plain_segment_def)
    ultimately show ?thesis
      using under_root_parent [OF segs(2), of "unify_slashes (root_dir r)"] unify_below [OF free]
      by (simp add: hasParentPathSegment_def)
  qed
  ultimately show ?thesis
    by (simp add: isManagedPath_def Let_def norm trim_Nil del: under_root_simps)
qed

text \<open>A root that the adapter can use: it does not end with a slash.\<close>

definition open_ended :: "string \<Rightarrow> bool" where
  "open_ended r \<longleftrightarrow> r \<noteq> [] \<and> last r \<noteq> CHR ''/'' \<and> last r \<noteq> CHR 0x5C"

text \<open>Mods are installed from the downloads, under their own names.\<close>

definition own_names :: "jsval \<Rightarrow> bool" where
  "own_names pack \<longleftrightarrow>
     (\<forall>m \<in> set (elems (jget pack ''mods'')). nullish (jget m ''source'') \<and> nullish (jget m ''sourceFileName''))"

lemma host_plan_valid:
  assumes plan: "createHostRuntimePlan input = Some (Inr plan)"
    and root: "host_root input = JStr r" "open_ended r"
    and consent: "jget (jget input ''eula'') ''accepted'' = JBool True"
    and names: "own_names (jget input ''pack'')"
  shows "validateRuntimePlan plan = Some None" and "createRoomMaterializationPlan plan \<noteq> None"
    and "\<exists>rid. jget (jget input ''room'') ''id'' = JStr rid \<and>
      jget (jget plan ''files'') ''root'' = JStr (root_dir r @ under_root [''rooms'', rid])"
    and "hd (elems (jget plan ''command'')) = jget (jget input ''java'') ''path''"
proof -
  obtain loader layout mods eula props where
    valid: "validateHostRuntime input = Some None" and jar0: "isSafeFileName (jget loader ''launcherJar'')"
    and layout: "createAppDataLayout (jget input ''room'') = Some layout"
    and mods: "createModInstallPlan (jget input ''pack'') layout = Some mods"
    and eula: "createEulaPlan (jget input ''eula'') layout = Some eula"
    and props: "createServerPropertiesPlan (jget input ''serverProperties'') layout = Some props"
    and plan: "jget plan ''layout'' = layout" "jget plan ''mods'' = mods" "jget plan ''eula'' = eula"
      "jget plan ''serverProperties'' = props"
      "jget (jget plan ''fabric'') ''launcherJar'' =
         JStr (joinPath [jget layout ''runtime'', jget loader ''launcherJar''])"
      "jget plan ''command'' = JArr [jget (jget input ''java'') ''path'', JStr ''-jar'',
         JStr (joinPath [jget layout ''runtime'', jget loader ''launcherJar'']), JStr ''nogui'']"
      "jget (jget plan ''room'') ''id'' = jget (jget input ''room'') ''id''"
      "jget plan ''files'' = JObj [(''root'', jget layout ''roomRoot''),
         (''serverProperties'', jget layout ''serverProperties''), (''eula'', jget layout ''eula''),
         (''mods'', jget layout ''mods''), (''world'', jget layout ''world'')]"
      "\<not> nullish (jget plan ''bridge'')" "\<not> nullish (jget plan ''pack'')"
    by (rule plan_parts [OF plan])
  obtain ms where ready: "host_ready input" "isSafeAppDataRoot (host_root input)"
      "isSafePathSegment (jget (jget input ''room'') ''id'')"
    and ms: "arr_of (coalesce (jget (jget input ''pack'') ''mods'') (JArr [])) = Some ms"
      "\<forall>m \<in> set ms. \<not> nullish m \<and> isSafeFileName (jget m ''fileName'') \<and>
       checksumsMatch (coalesce (jget m ''expectedSha256'') (jget m ''sha256'')) (jget m ''sha256'')"
    by (rule validate_parts [OF valid])
  obtain rid where rid: "jget (jget input ''room'') ''id'' = JStr rid" "slash_free rid"
    by (rule safe_segment_text [OF ready(3)])
  obtain jar where jar: "jget loader ''launcherJar'' = JStr jar" "isSafePathSegment (JStr jar)"
    using jar0 unfolding isSafeFileName_def by (metis safe_segment_text)
  have r0: "r \<noteq> []" "last (unify_slashes r) \<noteq> CHR ''/''" "isSafeAppDataRoot (JStr r)"
    using root ready(2) by (auto simp: open_ended_def unify_slashes_def last_map)
  note paths = layout_paths [OF layout root(1) [unfolded host_root_def] r0(1) rid]
  have norm: "normalizeRoot (JStr r) = root_dir r"
    using root_dir_end [of r] collapse_end [of "unify_slashes r"] r0(1,2)
    by (simp add: normalizeRoot_JStr unify_slashes_def)
  have plain: "plain_segment rid" "plain_segment jar"
    using ready(3) jar(2) safe_segment_plain by (simp_all add: rid)
  note managed = planned_managed [OF r0]
  have folders: "list_all plain_segment [''rooms'', ''cache'', ''downloads'', ''metadata'', ''runtime'', ''mods'',
      ''world'', ''logs'', ''eula.txt'', ''server.properties'']" by code_simp
  have under: "joinPath [JStr (root_dir r @ under_root segs), JStr x] = root_dir r @ under_root (segs @ [x])"
    if "list_all plain_segment segs" "plain_segment x" "segs \<noteq> []" for segs x
    using joinPath_more [of segs "[x]" r] that by (auto simp: list_all_iff plain_segment_def simp del: under_root_simps)
  show root_path: "\<exists>rid. jget (jget input ''room'') ''id'' = JStr rid \<and>
      jget (jget plan ''files'') ''root'' = JStr (root_dir r @ under_root [''rooms'', rid])"
    by (simp add: rid plan paths del: under_root_simps)
  show "hd (elems (jget plan ''command'')) = jget (jget input ''java'') ''path''" by (simp add: plan)
  have fixed: "truthy (jget (jget input ''pack'') ''fixed'')" using ready(1) by (simp add: host_ready_def)
  obtain es where es: "jget mods ''entries'' = JArr es" "traverse (mod_install_entry layout) ms = Some es"
  proof -
    have "or_empty (jget input ''pack'') = jget input ''pack''"
        "dot (jget input ''pack'') ''mods'' = Some (jget (jget input ''pack'') ''mods'')"
      using fixed by (cases "jget input ''pack''"; simp add: or_empty_def dot_def)+
    with mods ms(1) that show thesis by (auto simp: createModInstallPlan_def bind_eq_Some_conv)
  qed
  have entry: "\<not> nullish e \<and> isManagedPath (JStr (root_dir r)) (jget e ''target'') \<and>
      isManagedPath (JStr (root_dir r)) (jget e ''source'')" if e: "e \<in> set es" for e
  proof -
    from traverse_SomeD(2) [OF es(2) e] obtain m where m: "m \<in> set ms" "mod_install_entry layout m = Some e" by blast
    then have "isSafeFileName (jget m ''fileName'')" using ms(2) by blast
    then obtain name where name: "jget m ''fileName'' = JStr name" "isSafePathSegment (JStr name)"
      unfolding isSafeFileName_def by (metis safe_segment_text)
    have "m \<in> set (elems (jget (jget input ''pack'') ''mods''))"
      using ms(1) m(1) by (cases "jget (jget input ''pack'') ''mods''") (auto simp: arr_of_def coalesce_def)
    then have "nullish (jget m ''source'')" "nullish (jget m ''sourceFileName'')"
      using names by (auto simp: own_names_def)
    with m(2) have "\<not> nullish e" "jget e ''target'' = JStr (joinPath [jget layout ''mods'', JStr name])"
        "jget e ''source'' = JStr (joinPath [jget layout ''downloads'', JStr name])"
      by (auto simp: mod_install_entry_def bind_eq_Some_conv name(1) coalesce_def)
    with safe_segment_plain [OF name(2)] folders plain show ?thesis
      by (simp add: paths under managed del: under_root_simps)
  qed
  have jar_path: "jget (jget plan ''fabric'') ''launcherJar'' =
      JStr (root_dir r @ under_root [''rooms'', rid, ''runtime'', jar])"
    using under [of "[''rooms'', rid, ''runtime'']" jar] folders plain by (simp add: plan paths jar(1) del: under_root_simps)
  have eula_facts: "jget eula ''path'' = jget layout ''eula''" "jget eula ''accepted'' = JBool True"
    using eula consent by (auto simp: createEulaPlan_def bind_eq_Some_conv or_empty_def dot_def split: if_splits)
  have props_facts: "jget props ''path'' = jget layout ''serverProperties''" "truthy (jget props ''values'')"
    using props by (auto simp: createServerPropertiesPlan_def bind_eq_Some_conv Let_def)
  have complete: "\<not> plan_incomplete plan"
    using rid by (simp add: plan_incomplete_def plan(1-4,6-) jar_path paths eula_facts props_facts nonempty_arr_def slash_free_def)
  have managed_all: "list_all (isManagedPath (JStr (root_dir r))) (managed_paths plan)"
    using folders plain unfolding managed_paths_def jar_path
    by (simp add: plan paths eula_facts props_facts managed del: under_root_simps)
  obtain targets sources where ts: "traverse (\<lambda>e. dot e ''target'') es = Some targets"
      "traverse (\<lambda>e. dot e ''source'') es = Some sources"
    using traverse_total [of es "\<lambda>e. dot e ''target''"] traverse_total [of es "\<lambda>e. dot e ''source''"] entry
    by (auto simp: dot_def)
  have "list_all (isManagedPath (JStr (root_dir r))) targets" "list_all (isManagedPath (JStr (root_dir r))) sources"
    using entry ts by (auto simp: list_all_iff dot_def dest!: traverse_SomeD(2) split: if_splits)
  moreover have "isSafeAppDataRoot (JStr (root_dir r))"
  proof -
    have "set (root_dir r) = set (unify_slashes r)"
      using collapse_set [of "unify_slashes r"] norm by (simp add: normalizeRoot_JStr)
    moreover have "\<not> is_space (CHR ''/'')" by code_simp
    ultimately show ?thesis
      using r0(3) root_dir_parent [of r] by (auto simp: isSafeAppDataRoot_def trim_Nil unify_slashes_def)
  qed
  ultimately show valid_plan: "validateRuntimePlan plan = Some None"
    using complete managed_all ts
    by (auto simp: validateRuntimePlan_def Let_def plan paths es(1) arr_of_def norm list_ex_iff list_all_iff simp del: under_root_simps)
  have "\<exists>ops. traverse mod_operation_of es = Some ops"
    using entry by (intro traverse_total) (auto simp: mod_operation_of_def dot_def)
  then show "createRoomMaterializationPlan plan \<noteq> None"
    using valid_plan plan(9,10) es(1)
    by (cases mods) (auto simp: createRoomMaterializationPlan_def dot_def plan arr_of_def)
qed


lemma demo_host_parts:
  "host_root demo_host_input = JStr ''C:/data//x''" "open_ended ''C:/data//x''"
  "jget (jget demo_host_input ''eula'') ''accepted'' = JBool True" "own_names (jget demo_host_input ''pack'')"
  by (simp_all add: demo_host_input_def host_root_def coalesce_def open_ended_def own_names_def)


theorem materialization_contained_witness:
  "\<exists>plan m. createHostRuntimePlan demo_host_input = Some (Inr plan) \<and>
     createRoomMaterializationPlan plan = Some (Inr m) \<and> (\<exists>r. mt_appDataRoot m = JStr r \<and>
       (\<forall>d \<in> set (mt_directories m). value_below r d))"
proof -
  obtain plan where plan: "createHostRuntimePlan demo_host_input = Some (Inr plan)"
    using demo_host_plan by (auto split: option.splits sum.splits)
  note ok = host_plan_valid [OF plan demo_host_parts]
  then obtain m where m: "createRoomMaterializationPlan plan = Some (Inr m)"
    by (auto simp: createRoomMaterializationPlan_def bind_eq_Some_conv)
  from materialization_contained [OF m] m plan show ?thesis by blast
qed

text \<open>
  A root that ends with a slash passes the host's validation, and the adapter refuses its plan: the
  normalised root keeps the slash, and no path begins with two of them.
\<close>

lemma trailing_slash_refused:
  "isSafeAppDataRoot (JStr ''C:/data/'') \<and>
   \<not> isManagedPath (JStr (normalizeRoot (JStr ''C:/data/''))) (JStr (joinPath [JStr ''C:/data/'', JStr ''rooms'', JStr ''room1'']))"
  by code_simp

end
