(* ===== verification/Connection.thy ===== *)
theory Connection
  imports JsNumber
begin

text \<open>
  The two ends of a friend's connection: the plan of the client
  (\<open>mods/client-fabric/src/connection/loopback-plan.mjs\<close>) and the plan of the host's tunnel
  (\<open>apps/desktop/src/tunnel/host-tunnel.mjs\<close>). Both are built before anything is opened; their
  frames go to the relay. Inputs are objects; \<open>None\<close> is a thrown \<open>TypeError\<close>.
  The Korean titles are constructors.
\<close>

section \<open>Targets\<close>

definition LOOPBACK_PROTOCOL_VERSION :: string where
  "LOOPBACK_PROTOCOL_VERSION = ''relay.m4''"

definition default_target :: jsval where
  "default_target = JObj [(''kind'', JStr ''minecraft''), (''host'', JStr ''127.0.0.1''), (''port'', JNum 25565)]"

definition isLoopbackPort :: "jsval \<Rightarrow> bool" where
  "isLoopbackPort port = (case port of JNum n \<Rightarrow> 0 \<le> n \<and> n \<le> 65535 | _ \<Rightarrow> False)"

definition isLocalProxyTarget :: "jsval \<Rightarrow> bool" where
  "isLocalProxyTarget target \<longleftrightarrow> jget target ''kind'' = JStr ''minecraft'' \<and>
     jget target ''host'' = JStr ''127.0.0.1'' \<and> isLoopbackPort (jget target ''port'')"

text \<open>Called with a target that is neither \<open>null\<close> nor \<open>undefined\<close>.\<close>

definition isMinecraftServerTarget :: "jsval \<Rightarrow> bool" where
  "isMinecraftServerTarget target \<longleftrightarrow> jget target ''kind'' = JStr ''minecraft'' \<and>
     jget target ''host'' = JStr ''127.0.0.1'' \<and> jget target ''port'' = JNum 25565"

section \<open>Redaction of tokens\<close>

definition label :: "string \<Rightarrow> string" where
  "label name = ''[redacted:'' @ name @ '']''"

definition redactionLabels :: "(string \<times> string) list" where
  "redactionLabels = [(''inviteToken'', ''invite_token''), (''sessionToken'', ''session_token''),
     (''relayToken'', ''relay_token'')]"

text \<open>
  The secrets of a text, in order, with what replaces them. (A secret given as an empty array has
  an empty text; replacing that is not modelled.)
\<close>

definition redact_secrets :: "(jsval \<times> string) list \<Rightarrow> string \<Rightarrow> string" where
  "redact_secrets secrets text =
     fold (\<lambda>(secret, l) t. if truthy secret then js_replaceAll (js_string secret) l t else t) secrets text"

definition loopback_secrets :: "jsval \<Rightarrow> (jsval \<times> string) list" where
  "loopback_secrets secrets = map (\<lambda>(k, name). (jget secrets k, label name)) redactionLabels"

definition redactConnectionString :: "string \<Rightarrow> jsval \<Rightarrow> string" where
  "redactConnectionString v secrets = redact_secrets (loopback_secrets secrets) v"

definition redactUrlSecret :: "string \<Rightarrow> jsval \<Rightarrow> string" where
  "redactUrlSecret url secrets = redactConnectionString url
     (JObj [(''sessionToken'', jget secrets ''sessionToken''), (''relayToken'', jget secrets ''relayToken'')])"

definition redactLoopbackDiagnostics :: "jsval \<Rightarrow> jsval \<Rightarrow> jsval" where
  "redactLoopbackDiagnostics v secrets =
     js_walk (\<lambda>s. redactConnectionString s secrets) (\<lambda>_ nested. nested \<noteq> JUndef) (\<lambda>_ _. None) v"

section \<open>Closing, with retries\<close>

text \<open>
  \<open>for (attempt = 1; attempt <= maxAttempts; ...)\<close>: the loop ends when an attempt succeeds or the
  attempts are used up. Both bounds are whatever the policy holds, as numbers.
\<close>

record close_attempt =
  ca_attempt :: nat
  ca_retryDelayMs :: jsnum
  ca_state :: string

definition num_at_most :: "nat \<Rightarrow> jsnum \<Rightarrow> bool" where
  "num_at_most n m = (case m of NaN \<Rightarrow> False | Infinite b \<Rightarrow> b | Fin q \<Rightarrow> of_nat n \<le> q)"

text \<open>\<open>Math.max(n, v)\<close>\<close>

definition math_max :: "rat \<Rightarrow> jsnum \<Rightarrow> jsnum" where
  "math_max n v = (case v of NaN \<Rightarrow> NaN | Infinite b \<Rightarrow> if b then Infinite True else Fin n | Fin q \<Rightarrow> Fin (max n q))"

definition retry_delay :: "jsnum \<Rightarrow> nat \<Rightarrow> jsnum" where
  "retry_delay base attempt =
    (if attempt = 1 then Fin 0
     else case base of Fin q \<Rightarrow> Fin (q * 2 ^ (attempt - 2)) | x \<Rightarrow> x)"

partial_function (option) retry_loop ::
  "jsnum \<Rightarrow> jsnum \<Rightarrow> jsnum \<Rightarrow> nat \<Rightarrow> close_attempt list \<Rightarrow> (bool \<times> close_attempt list) option" where
  "retry_loop maxAttempts baseDelayMs failAttempts attempt attempts =
    (if num_at_most attempt maxAttempts then
       let failed = num_at_most attempt failAttempts;
           attempts' = attempts @ [\<lparr>ca_attempt = attempt, ca_retryDelayMs = retry_delay baseDelayMs attempt,
             ca_state = (if failed then ''retrying'' else ''disconnected'')\<rparr>]
       in if failed then retry_loop maxAttempts baseDelayMs failAttempts (attempt + 1) attempts'
          else Some (True, attempts')
     else Some (False, attempts))"

record disconnect_plan =
  dc_ok :: bool
  dc_attempts :: "close_attempt list"
  dc_maxAttempts :: jsnum
  dc_baseDelayMs :: jsval

text \<open>The policy is an object.\<close>

definition createDisconnectRetryPlan :: "jsval \<Rightarrow> disconnect_plan option" where
  "createDisconnectRetryPlan policy0 = do {
     let policy = (if policy0 = JUndef then JObj [] else policy0);
     given \<leftarrow> dot policy ''maxAttempts'';
     let maxAttempts = math_max 1 (js_number (coalesce given (JNum 3)));
     let baseDelayMs = coalesce (jget policy ''baseDelayMs'') (JNum 100);
     let failAttempts = math_max 0 (js_number (coalesce (jget policy ''failAttempts'') (JNum 0)));
     (ok, attempts) \<leftarrow> retry_loop maxAttempts (js_number baseDelayMs) failAttempts 1 [];
     Some \<lparr>dc_ok = ok, dc_attempts = attempts, dc_maxAttempts = maxAttempts, dc_baseDelayMs = baseDelayMs\<rparr> }"

section \<open>The client's plan\<close>

datatype loopback_failure = LF_SESSION_MISSING | LF_RELAY_URL_MISSING | LF_ROOM_MISSING
  | LF_OPEN_PROXY_BLOCKED | LF_DISCONNECT_RETRY_EXHAUSTED

primrec loopback_failure_str :: "loopback_failure \<Rightarrow> string" where
  "loopback_failure_str LF_SESSION_MISSING = ''session_missing''"
| "loopback_failure_str LF_RELAY_URL_MISSING = ''relay_url_missing''"
| "loopback_failure_str LF_ROOM_MISSING = ''room_missing''"
| "loopback_failure_str LF_OPEN_PROXY_BLOCKED = ''open_proxy_blocked''"
| "loopback_failure_str LF_DISCONNECT_RETRY_EXHAUSTED = ''disconnect_retry_exhausted''"

record stream_frame =
  sf_roomId :: jsval
  sf_inviteId :: jsval
  sf_friendId :: jsval
  sf_minecraftUuid :: jsval
  sf_requestedTarget :: jsval

record client_connection =
  cc_minecraftServerAddress :: string
  cc_localPort :: jsval
  cc_proxyTarget :: jsval
  cc_relayUrl :: string
  cc_roomId :: jsval
  cc_inviteId :: jsval
  cc_sessionId :: jsval
  cc_sessionToken :: jsval
  cc_minecraftUuid :: jsval
  cc_openFrame :: stream_frame
  cc_disconnect :: disconnect_plan

definition or_none :: "jsval \<Rightarrow> string" where
  "or_none v = js_string (coalesce v (JStr ''none''))"

definition client_diagnostics :: "jsval \<Rightarrow> jsval \<Rightarrow> jsval" where
  "client_diagnostics input localPort = JObj
    [(''roomId'', jget input ''roomId''), (''minecraftUuid'', jget input ''minecraftUuid''),
     (''inviteUrl'', jget input ''inviteUrl''), (''relayUrl'', jget input ''relayUrl''),
     (''localServerAddress'', JStr (''127.0.0.1:'' @ js_string localPort)),
     (''protocolVersion'', JStr LOOPBACK_PROTOCOL_VERSION),
     (''events'', JArr [JStr (''invite='' @ or_none (jget input ''inviteToken'')),
        JStr (''session='' @ js_string (jget input ''sessionToken'')),
        JStr (''relay='' @ or_none (jget input ''relayToken''))])]"

text \<open>The relay's address is a text; any other value has no \<open>replaceAll\<close>.\<close>

definition createClientLoopbackPlan ::
  "jsval \<Rightarrow> (loopback_failure + client_connection \<times> jsval) option" where
  "createClientLoopbackPlan input0 = do {
     let input = (if input0 = JUndef then JObj [] else input0);
     roomId \<leftarrow> dot input ''roomId'';
     if \<not> truthy roomId \<or> \<not> truthy (jget input ''minecraftUuid'') then Some (Inl LF_ROOM_MISSING)
     else if \<not> truthy (jget input ''relayUrl'') then Some (Inl LF_RELAY_URL_MISSING)
     else if \<not> truthy (jget input ''sessionId'') \<or> \<not> truthy (jget input ''sessionToken'')
     then Some (Inl LF_SESSION_MISSING)
     else
     let localPort = coalesce (jget input ''localPort'') (JNum 0);
         localTarget = JObj [(''kind'', JStr ''minecraft''),
           (''host'', coalesce (jget input ''localHost'') (JStr ''127.0.0.1'')), (''port'', localPort)];
         relayTarget = coalesce (jget input ''requestedTarget'') default_target
     in if \<not> isLocalProxyTarget localTarget then Some (Inl LF_OPEN_PROXY_BLOCKED)
        else if \<not> isMinecraftServerTarget relayTarget then Some (Inl LF_OPEN_PROXY_BLOCKED)
        else case jget input ''relayUrl'' of
          JStr relayUrl \<Rightarrow> do {
            disconnect \<leftarrow> createDisconnectRetryPlan (jget input ''disconnectPolicy'');
            let address = ''127.0.0.1:'' @ js_string localPort;
            Some (Inr (\<lparr>cc_minecraftServerAddress = address, cc_localPort = localPort, cc_proxyTarget = relayTarget,
              cc_relayUrl = redactUrlSecret relayUrl input, cc_roomId = roomId,
              cc_inviteId = jget input ''inviteId'', cc_sessionId = jget input ''sessionId'',
              cc_sessionToken = jget input ''sessionToken'', cc_minecraftUuid = jget input ''minecraftUuid'',
              cc_openFrame = \<lparr>sf_roomId = roomId, sf_inviteId = jget input ''inviteId'',
                sf_friendId = jget input ''friendId'', sf_minecraftUuid = jget input ''minecraftUuid'',
                sf_requestedTarget = relayTarget\<rparr>,
              cc_disconnect = disconnect\<rparr>,
              redactLoopbackDiagnostics (client_diagnostics input localPort) input)) }
        | _ \<Rightarrow> None }"

section \<open>What the friend sees\<close>

datatype client_join_state = CJ_READY | CJ_INVITE_MISSING | CJ_INVITE_EXPIRED | CJ_INVITE_REVOKED
  | CJ_APPROVAL_PENDING | CJ_HOST_UNAVAILABLE | CJ_CONNECTION_FAILED

primrec client_join_state_str :: "client_join_state \<Rightarrow> string" where
  "client_join_state_str CJ_READY = ''ready''"
| "client_join_state_str CJ_INVITE_MISSING = ''invite_missing''"
| "client_join_state_str CJ_INVITE_EXPIRED = ''invite_expired''"
| "client_join_state_str CJ_INVITE_REVOKED = ''invite_revoked''"
| "client_join_state_str CJ_APPROVAL_PENDING = ''approval_pending''"
| "client_join_state_str CJ_HOST_UNAVAILABLE = ''host_unavailable''"
| "client_join_state_str CJ_CONNECTION_FAILED = ''connection_failed''"

text \<open>The state and the action offered with it.\<close>

definition createClientJoinState :: "jsval \<Rightarrow> client_join_state \<times> string" where
  "createClientJoinState input =
    (if \<not> truthy (jget input ''inviteToken'') then (CJ_INVITE_MISSING, ''open_invite_again'')
     else if jget input ''inviteStatus'' = JStr ''expired'' then (CJ_INVITE_EXPIRED, ''ask_host_for_new_invite'')
     else if jget input ''inviteStatus'' = JStr ''revoked'' then (CJ_INVITE_REVOKED, ''ask_host_for_new_invite'')
     else if jget input ''approvalStatus'' = JStr ''pending'' then (CJ_APPROVAL_PENDING, ''wait'')
     else if jget input ''approvalStatus'' = JStr ''host_unavailable'' then (CJ_HOST_UNAVAILABLE, ''try_later'')
     else if jget input ''connectionStatus'' = JStr ''failed'' then (CJ_CONNECTION_FAILED, ''retry_connection'')
     else (CJ_READY, ''join_room''))"

section \<open>The local echo\<close>

record echo_frame =
  ef_toHost :: bool
  ef_roomId :: jsval
  ef_minecraftUuid :: jsval
  ef_payload :: jsval

datatype echo_state = Echo_open | Echo_closed | Echo_disconnect_failed

record echo =
  ec_connection :: client_connection
  ec_hostStream :: "echo_frame list"
  ec_friendStream :: "echo_frame list"
  ec_state :: echo_state

definition createLocalEchoSimulation ::
  "loopback_failure + client_connection \<times> jsval \<Rightarrow> loopback_failure + echo" where
  "createLocalEchoSimulation plan = (case plan of
     Inl reason \<Rightarrow> Inl reason
   | Inr (c, diagnostics) \<Rightarrow>
       Inr \<lparr>ec_connection = c, ec_hostStream = [], ec_friendStream = [], ec_state = Echo_open\<rparr>)"

definition echo_snapshot :: "echo \<Rightarrow> echo_state \<times> echo_frame list \<times> echo_frame list" where
  "echo_snapshot s = (ec_state s, ec_hostStream s, ec_friendStream s)"

definition sendFromFriend :: "jsval \<Rightarrow> echo \<Rightarrow> (loopback_failure + echo_frame \<times> echo_frame) \<times> echo" where
  "sendFromFriend payload s =
    (if ec_state s \<noteq> Echo_open then (Inl LF_DISCONNECT_RETRY_EXHAUSTED, s)
     else
       let hostFrame = \<lparr>ef_toHost = True, ef_roomId = cc_roomId (ec_connection s),
             ef_minecraftUuid = cc_minecraftUuid (ec_connection s), ef_payload = payload\<rparr>;
           friendFrame = hostFrame\<lparr>ef_toHost := False\<rparr>
       in (Inr (hostFrame, friendFrame),
           s\<lparr>ec_hostStream := ec_hostStream s @ [hostFrame], ec_friendStream := ec_friendStream s @ [friendFrame]\<rparr>))"

definition echo_disconnect :: "jsval \<Rightarrow> echo \<Rightarrow> (disconnect_plan \<times> echo) option" where
  "echo_disconnect failAttempts s = do {
     let policy = cc_disconnect (ec_connection s);
     (ok, attempts) \<leftarrow> retry_loop (math_max 1 (dc_maxAttempts policy)) (js_number (dc_baseDelayMs policy))
       (math_max 0 (js_number (if failAttempts = JUndef then JNum 0 else failAttempts))) 1 [];
     Some (policy\<lparr>dc_ok := ok, dc_attempts := attempts\<rparr>,
       s\<lparr>ec_state := (if ok then Echo_closed else Echo_disconnect_failed)\<rparr>) }"

section \<open>The host's tunnel\<close>

datatype tunnel_failure = TF_ROOM_NOT_READY | TF_RELAY_SESSION_MISSING | TF_OPEN_PROXY_BLOCKED

primrec tunnel_failure_str :: "tunnel_failure \<Rightarrow> string" where
  "tunnel_failure_str TF_ROOM_NOT_READY = ''room_not_ready''"
| "tunnel_failure_str TF_RELAY_SESSION_MISSING = ''relay_session_missing''"
| "tunnel_failure_str TF_OPEN_PROXY_BLOCKED = ''open_proxy_blocked''"

primrec tunnel_failure_message :: "tunnel_failure \<Rightarrow> string" where
  "tunnel_failure_message TF_ROOM_NOT_READY = ''Open the room before letting friends join.''"
| "tunnel_failure_message TF_RELAY_SESSION_MISSING = ''Create a room invite before opening the friend connection.''"
| "tunnel_failure_message TF_OPEN_PROXY_BLOCKED = ''Use the local Minecraft room target.''"

definition redactTunnelSecrets :: "jsval \<Rightarrow> jsval \<Rightarrow> string" where
  "redactTunnelSecrets v secrets = redact_secrets
     [(jget secrets ''hostTunnelToken'', label ''tunnel_secret''), (jget secrets ''relayToken'', label ''tunnel_secret'')]
     (js_string v)"

definition tunnel_secret_key :: "string \<Rightarrow> bool" where
  "tunnel_secret_key k \<longleftrightarrow>
     list_ex (\<lambda>w. js_includes (toLowerCase k) w) [''token'', ''credential'', ''secret'']"

definition redactTunnelDiagnostics :: "jsval \<Rightarrow> jsval \<Rightarrow> jsval" where
  "redactTunnelDiagnostics v secrets =
     js_walk (\<lambda>s. redactTunnelSecrets (JStr s) secrets) (\<lambda>_ nested. nested \<noteq> JUndef)
       (\<lambda>k _. if tunnel_secret_key k then Some (k, JStr (label ''tunnel_secret'')) else None) v"

text \<open>The opening frame carries the target of the plan as well.\<close>

record tunnel_frame =
  tf_roomId :: jsval
  tf_hostId :: jsval
  tf_hostToken :: jsval

record tunnel_plan =
  tp_roomId :: jsval
  tp_hostId :: jsval
  tp_relayUrl :: string
  tp_openFrame :: tunnel_frame
  tp_target :: jsval
  tp_closeOn :: "string list"
  tp_closeFrame :: tunnel_frame
  tp_diagnostics :: jsval

definition createHostTunnelPlan :: "jsval \<Rightarrow> (tunnel_failure + tunnel_plan) option" where
  "createHostTunnelPlan input0 = do {
     let input = (if input0 = JUndef then JObj [] else input0);
     localServerReady \<leftarrow> dot input ''localServerReady'';
     let localTarget = coalesce (jget input ''localTarget'') default_target;
     let frame = \<lparr>tf_roomId = jget input ''roomId'', tf_hostId = jget input ''hostId'',
           tf_hostToken = jget input ''hostTunnelToken''\<rparr>;
     Some (if \<not> truthy localServerReady then Inl TF_ROOM_NOT_READY
       else if \<not> truthy (jget input ''roomId'') \<or> \<not> truthy (jget input ''hostId'') \<or>
         \<not> truthy (jget input ''relayUrl'') \<or> \<not> truthy (jget input ''hostTunnelToken'')
       then Inl TF_RELAY_SESSION_MISSING
       else if \<not> isMinecraftServerTarget localTarget then Inl TF_OPEN_PROXY_BLOCKED
       else Inr \<lparr>tp_roomId = jget input ''roomId'', tp_hostId = jget input ''hostId'',
         tp_relayUrl = redactTunnelSecrets (jget input ''relayUrl'') input, tp_openFrame = frame,
         tp_target = localTarget, tp_closeOn = [''local_room_stopped'', ''local_room_crashed''],
         tp_closeFrame = frame,
         tp_diagnostics = redactTunnelDiagnostics (JObj
           [(''roomId'', jget input ''roomId''), (''hostId'', jget input ''hostId''),
            (''relayUrl'', jget input ''relayUrl''), (''hostTunnelToken'', jget input ''hostTunnelToken''),
            (''target'', localTarget)]) input\<rparr>) }"

datatype tunnel_ui_state = TU_CONNECTING | TU_READY | TU_WARNING | TU_STOPPED | TU_FAILED

primrec tunnel_ui_str :: "tunnel_ui_state \<Rightarrow> string" where
  "tunnel_ui_str TU_CONNECTING = ''connecting''"
| "tunnel_ui_str TU_READY = ''ready''"
| "tunnel_ui_str TU_WARNING = ''warning''"
| "tunnel_ui_str TU_STOPPED = ''stopped''"
| "tunnel_ui_str TU_FAILED = ''failed''"

text \<open>The state and the action offered with it; \<open>None\<close> is \<open>null\<close>.\<close>

definition createHostTunnelUiState :: "jsval \<Rightarrow> tunnel_ui_state \<times> string option" where
  "createHostTunnelUiState input =
    (let status = jget input ''status'' in
     if status = JStr ''open'' then (TU_READY, None)
     else if status = JStr ''quota_warning'' then (TU_WARNING, Some ''keep_playing'')
     else if status = JStr ''quota_stopped'' then (TU_STOPPED, Some ''close_room'')
     else if status = JStr ''disconnected'' \<or> status = JStr ''unavailable'' then (TU_FAILED, Some ''retry_connection'')
     else (TU_CONNECTING, None))"

end
