(* ===== verification/Connection_Props.thy ===== *)
theory Connection_Props
  imports Connection Relay
begin

text \<open>
  The connection's two plans: closing with retries ends, the frames of both ends meet at the relay's
  one permitted target, and the diagnostics show no token.
\<close>

section \<open>Closing ends\<close>

lemma num_at_most_mono: "num_at_most n m \<Longrightarrow> k \<le> n \<Longrightarrow> num_at_most k m"
  by (auto simp: num_at_most_def split: jsnum.splits)

lemma num_at_most_unbounded: "(\<forall>n. num_at_most n m) \<longleftrightarrow> m = Infinite True"
proof (cases m)
  case (Fin q)
  obtain n where "q < of_nat n" using reals_Archimedean2 by blast
  then have "\<not> num_at_most n m" by (simp add: num_at_most_def Fin)
  then show ?thesis by (auto simp: Fin)
qed (auto simp: num_at_most_def)

definition attempt_of :: "jsnum \<Rightarrow> jsnum \<Rightarrow> nat \<Rightarrow> close_attempt" where
  "attempt_of base fl n = \<lparr>ca_attempt = n, ca_retryDelayMs = retry_delay base n,
     ca_state = (if num_at_most n fl then ''retrying'' else ''disconnected'')\<rparr>"

lemma retry_loop_run:
  assumes "\<forall>i. a \<le> i \<and> i < n \<longrightarrow> num_at_most i mx \<and> num_at_most i fl" and "a \<le> n"
    and "\<not> num_at_most n mx \<or> \<not> num_at_most n fl"
  shows "retry_loop mx base fl a acc = Some (num_at_most n mx,
    acc @ map (attempt_of base fl) [a..<n] @ (if num_at_most n mx then [attempt_of base fl n] else []))"
  using assms
proof (induction "n - a" arbitrary: a acc)
  case 0
  then have "a = n" by simp
  with 0 show ?case by (subst retry_loop.simps) (auto simp: attempt_of_def Let_def)
next
  case (Suc k)
  then have lt: "a < n" by simp
  with Suc.prems have now: "num_at_most a mx" "num_at_most a fl" by auto
  have "retry_loop mx base fl (a + 1) (acc @ [attempt_of base fl a]) = Some (num_at_most n mx,
    (acc @ [attempt_of base fl a]) @ map (attempt_of base fl) [a + 1..<n] @
      (if num_at_most n mx then [attempt_of base fl n] else []))"
    using Suc.hyps(2) Suc.prems lt by (intro Suc.hyps(1)) auto
  then show ?case
    using now upt_conv_Cons [OF lt] by (subst retry_loop.simps) (simp add: attempt_of_def Let_def)
qed

text \<open>The first attempt that succeeds or is one too many.\<close>

lemma retry_loop_result:
  assumes "\<not> (mx = Infinite True \<and> fl = Infinite True)"
  obtains n where "1 \<le> n" "\<forall>i. 1 \<le> i \<and> i < n \<longrightarrow> num_at_most i mx \<and> num_at_most i fl"
    "\<not> num_at_most n mx \<or> \<not> num_at_most n fl"
    "retry_loop mx base fl 1 [] = Some (num_at_most n mx,
       map (attempt_of base fl) [1..<n] @ (if num_at_most n mx then [attempt_of base fl n] else []))"
proof -
  define stop where "stop n \<longleftrightarrow> 1 \<le> n \<and> (\<not> num_at_most n mx \<or> \<not> num_at_most n fl)" for n
  obtain m where "\<not> num_at_most m mx \<or> \<not> num_at_most m fl"
    using assms num_at_most_unbounded by blast
  then have "stop (Suc m)" using num_at_most_mono [of "Suc m" _ m] by (auto simp: stop_def)
  define n where "n = (LEAST n. stop n)"
  have n: "stop n" unfolding n_def by (rule LeastI [of stop, OF \<open>stop (Suc m)\<close>])
  have below: "\<forall>i. 1 \<le> i \<and> i < n \<longrightarrow> num_at_most i mx \<and> num_at_most i fl"
  proof (intro allI impI)
    fix i assume i: "1 \<le> i \<and> i < n"
    then have "\<not> stop i" unfolding n_def by (intro not_less_Least) simp
    with i show "num_at_most i mx \<and> num_at_most i fl" by (simp add: stop_def)
  qed
  show thesis
    using that [OF _ below] n retry_loop_run [OF below, of base "[]"] by (simp add: stop_def)
qed

lemma retry_loop_finite:
  "retry_loop mx base fl n acc = Some r \<Longrightarrow> \<not> (mx = Infinite True \<and> fl = Infinite True)"
proof (erule retry_loop.raw_induct [rotated, where P = "\<lambda>mx base fl n acc r. \<not> (mx = Infinite True \<and> fl = Infinite True)"])
qed (auto simp: num_at_most_def Let_def split: if_splits)

definition policy_max :: "jsval \<Rightarrow> jsnum" where
  "policy_max policy = math_max 1 (js_number (coalesce (jget policy ''maxAttempts'') (JNum 3)))"

definition policy_fails :: "jsval \<Rightarrow> jsnum" where
  "policy_fails policy = math_max 0 (js_number (coalesce (jget policy ''failAttempts'') (JNum 0)))"

text \<open>
  C26. Closing a connection ends: for every policy whose two bounds are not both infinite (and only
  for those) the retry loop returns. It then has succeeded exactly when some permitted attempt is
  beyond the failing ones; the attempts are numbered from 1 and within the bound, the first runs at
  once and each later one waits twice as long as the one before, and all but a successful last one
  are retries.
\<close>

theorem retry_plan_terminates:
  assumes "is_obj policy"
  shows "(createDisconnectRetryPlan policy \<noteq> None \<longleftrightarrow>
      \<not> (policy_max policy = Infinite True \<and> policy_fails policy = Infinite True)) \<and>
    (\<forall>plan. createDisconnectRetryPlan policy = Some plan \<longrightarrow>
      (dc_ok plan \<longleftrightarrow> (\<exists>n \<ge> 1. num_at_most n (policy_max policy) \<and> \<not> num_at_most n (policy_fails policy))) \<and>
      map ca_attempt (dc_attempts plan) = [1..<Suc (length (dc_attempts plan))] \<and>
      (\<forall>a \<in> set (dc_attempts plan). num_at_most (ca_attempt a) (policy_max policy) \<and>
         ca_retryDelayMs a = retry_delay (js_number (dc_baseDelayMs plan)) (ca_attempt a) \<and>
         (ca_state a = ''retrying'' \<longleftrightarrow> num_at_most (ca_attempt a) (policy_fails policy))) \<and>
      (dc_ok plan \<longleftrightarrow> (\<exists>a \<in> set (dc_attempts plan). ca_state a = ''disconnected'')))"
proof -
  let ?mx = "policy_max policy" and ?fl = "policy_fails policy"
  let ?base = "coalesce (jget policy ''baseDelayMs'') (JNum 100)"
  have plan: "createDisconnectRetryPlan policy = do {
      (ok, attempts) \<leftarrow> retry_loop ?mx (js_number ?base) ?fl 1 [];
      Some \<lparr>dc_ok = ok, dc_attempts = attempts, dc_maxAttempts = ?mx, dc_baseDelayMs = ?base\<rparr> }"
    using assms by (cases policy) (simp_all add: createDisconnectRetryPlan_def Let_def dot_def policy_max_def policy_fails_def)
  show ?thesis
  proof (cases "?mx = Infinite True \<and> ?fl = Infinite True")
    case True
    then have "retry_loop ?mx (js_number ?base) ?fl 1 [] = None"
      using retry_loop_finite [of ?mx "js_number ?base" ?fl 1 "[]"] by (cases "retry_loop ?mx (js_number ?base) ?fl 1 []") auto
    with True plan show ?thesis by simp
  next
    case False
    obtain n where n: "1 \<le> n" "\<forall>i. 1 \<le> i \<and> i < n \<longrightarrow> num_at_most i ?mx \<and> num_at_most i ?fl"
      "\<not> num_at_most n ?mx \<or> \<not> num_at_most n ?fl"
      and run: "retry_loop ?mx (js_number ?base) ?fl 1 [] = Some (num_at_most n ?mx,
         map (attempt_of (js_number ?base) ?fl) [1..<n] @
         (if num_at_most n ?mx then [attempt_of (js_number ?base) ?fl n] else []))"
      by (rule retry_loop_result [OF False])
    have ok: "num_at_most n ?mx \<longleftrightarrow> (\<exists>k \<ge> 1. num_at_most k ?mx \<and> \<not> num_at_most k ?fl)"
    proof
      assume "num_at_most n ?mx"
      with n show "\<exists>k \<ge> 1. num_at_most k ?mx \<and> \<not> num_at_most k ?fl" by blast
    next
      assume "\<exists>k \<ge> 1. num_at_most k ?mx \<and> \<not> num_at_most k ?fl"
      then obtain k where k: "k \<ge> 1" "num_at_most k ?mx" "\<not> num_at_most k ?fl" by blast
      with n(2) have "n \<le> k" by (meson not_less)
      with k(2) show "num_at_most n ?mx" by (rule num_at_most_mono)
    qed
    define as where "as = map (attempt_of (js_number ?base) ?fl) [1..<n] @
      (if num_at_most n ?mx then [attempt_of (js_number ?base) ?fl n] else [])"
    have made: "createDisconnectRetryPlan policy = Some \<lparr>dc_ok = num_at_most n ?mx, dc_attempts = as,
        dc_maxAttempts = ?mx, dc_baseDelayMs = ?base\<rparr>"
      unfolding plan run as_def by simp
    have "map ca_attempt as = [1..<n] @ (if num_at_most n ?mx then [n] else [])"
      by (simp add: as_def attempt_of_def comp_def)
    moreover have "length as = n - 1 + (if num_at_most n ?mx then 1 else 0)" by (simp add: as_def)
    ultimately have numbered: "map ca_attempt as = [1..<Suc (length as)]"
      using n(1) by (auto simp: upt_Suc_append)
    have each: "\<exists>i. a = attempt_of (js_number ?base) ?fl i \<and> num_at_most i ?mx \<and> (i = n \<or> num_at_most i ?fl)"
      if "a \<in> set as" for a
      using that n(2) by (auto simp: as_def split: if_splits)
    have last: "(\<exists>a \<in> set as. ca_state a = ''disconnected'') \<longleftrightarrow> num_at_most n ?mx"
    proof
      assume "\<exists>a \<in> set as. ca_state a = ''disconnected''"
      then obtain a where a: "a \<in> set as" "ca_state a = ''disconnected''" by blast
      from each [OF a(1)] a(2) show "num_at_most n ?mx" by (auto simp: attempt_of_def split: if_splits)
    next
      assume "num_at_most n ?mx"
      with n(3) show "\<exists>a \<in> set as. ca_state a = ''disconnected''" by (auto simp: as_def attempt_of_def)
    qed
    have "num_at_most (ca_attempt a) ?mx \<and> ca_retryDelayMs a = retry_delay (js_number ?base) (ca_attempt a) \<and>
        (ca_state a = ''retrying'' \<longleftrightarrow> num_at_most (ca_attempt a) ?fl)" if "a \<in> set as" for a
      using each [OF that] by (auto simp: attempt_of_def split: if_splits)
    then show ?thesis using False numbered last ok by (simp add: made)
  qed
qed

theorem retry_plan_terminates_witness:
  "\<exists>plan. createDisconnectRetryPlan (JObj [(''maxAttempts'', JNum 4), (''failAttempts'', JNum 2)]) = Some plan \<and>
     dc_ok plan \<and> map ca_attempt (dc_attempts plan) = [1..<Suc (length (dc_attempts plan))]"
proof -
  let ?p = "JObj [(''maxAttempts'', JNum 4), (''failAttempts'', JNum 2)]"
  have num: "policy_max ?p = Fin 4" "policy_fails ?p = Fin 2"
    by (simp_all add: policy_max_def policy_fails_def math_max_def coalesce_def)
  note r = retry_plan_terminates [of ?p, unfolded num]
  obtain plan where plan: "createDisconnectRetryPlan ?p = Some plan" using r by auto
  moreover have "num_at_most 3 (Fin 4)" "\<not> num_at_most 3 (Fin 2)" by (simp_all add: num_at_most_def)
  then have "\<exists>n \<ge> 1. num_at_most n (Fin 4) \<and> \<not> num_at_most n (Fin 2)" by (intro exI [of _ 3]) simp
  ultimately show ?thesis using r by simp
qed

section \<open>The relay's target\<close>

text \<open>
  The two ends meet at the relay: the target of a host's tunnel plan is the one the relay
  admits, and the target a client's frame asks for is the tunnel's, so no plan leads elsewhere than
  to the local Minecraft port; the client's own proxy listens on the local address.
\<close>

theorem plans_meet_at_relay:
  assumes "createHostTunnelPlan hi = Some (Inr hp)" and "createClientLoopbackPlan ci = Some (Inr (c, d))"
  shows "isMinecraftLoopbackTarget (tp_target hp) \<and>
    targetMatchesTunnel (sf_requestedTarget (cc_openFrame c)) (tp_target hp) \<and>
    truthy (sf_requestedTarget (cc_openFrame c)) \<and>
    cc_minecraftServerAddress c = ''127.0.0.1:'' @ js_string (cc_localPort c) \<and> isLoopbackPort (cc_localPort c) \<and>
    truthy (sf_roomId (cc_openFrame c)) \<and> truthy (sf_minecraftUuid (cc_openFrame c)) \<and> truthy (cc_sessionToken c)"
proof -
  have t: "isMinecraftServerTarget (tp_target hp)"
    using assms(1) by (auto simp: createHostTunnelPlan_def Let_def bind_eq_Some_conv split: if_splits)
  obtain input where input: "dot input ''roomId'' = Some (jget input ''roomId'')"
    and c: "isMinecraftServerTarget (cc_proxyTarget c)" "sf_requestedTarget (cc_openFrame c) = cc_proxyTarget c"
      "isLoopbackPort (cc_localPort c)" "cc_minecraftServerAddress c = ''127.0.0.1:'' @ js_string (cc_localPort c)"
      "truthy (sf_roomId (cc_openFrame c))" "truthy (sf_minecraftUuid (cc_openFrame c))" "truthy (cc_sessionToken c)"
    using assms(2)
    by (auto simp: createClientLoopbackPlan_def Let_def bind_eq_Some_conv isLocalProxyTarget_def dot_def
        split: if_splits jsval.splits)
  from c(1) have "truthy (cc_proxyTarget c)"
    by (cases "cc_proxyTarget c") (auto simp: isMinecraftServerTarget_def)
  with t c show ?thesis
    by (simp add: isMinecraftLoopbackTarget_def isMinecraftServerTarget_def targetMatchesTunnel_def)
qed

definition demo_tunnel_input :: jsval where
  "demo_tunnel_input = JObj [(''localServerReady'', JBool True), (''roomId'', JStr ''r''), (''hostId'', JStr ''h''),
     (''relayUrl'', JStr ''wss://x?t=T1''), (''hostTunnelToken'', JStr ''T1'')]"

definition demo_client_input :: jsval where
  "demo_client_input = JObj [(''roomId'', JStr ''r''), (''minecraftUuid'', JStr ''u''), (''relayUrl'', JStr ''wss://x''),
     (''sessionId'', JStr ''s''), (''sessionToken'', JStr ''S7'')]"

lemma demo_tunnel_plan: "case createHostTunnelPlan demo_tunnel_input of Some (Inr hp) \<Rightarrow> True | _ \<Rightarrow> False"
  by code_simp

lemma default_policy_ends: "\<exists>plan. createDisconnectRetryPlan JUndef = Some plan"
proof -
  have "\<exists>r. retry_loop (Fin 3) (Fin 100) (Fin 0) 1 [] = Some r"
    by (rule retry_loop_result [of "Fin 3" "Fin 0" "Fin 100"]) simp_all
  then show ?thesis
    by (auto simp: createDisconnectRetryPlan_def Let_def dot_def coalesce_def math_max_def simp del: One_nat_def)
qed

lemma demo_client_plan: "\<exists>c d. createClientLoopbackPlan demo_client_input = Some (Inr (c, d))"
proof -
  obtain plan where "createDisconnectRetryPlan JUndef = Some plan" using default_policy_ends by blast
  then show ?thesis
    by (simp add: createClientLoopbackPlan_def demo_client_input_def Let_def dot_def coalesce_def
        isLocalProxyTarget_def isLoopbackPort_def isMinecraftServerTarget_def default_target_def)
qed

theorem plans_meet_at_relay_witness:
  "\<exists>hp c d. createHostTunnelPlan demo_tunnel_input = Some (Inr hp) \<and>
     createClientLoopbackPlan demo_client_input = Some (Inr (c, d)) \<and>
     targetMatchesTunnel (sf_requestedTarget (cc_openFrame c)) (tp_target hp)"
proof -
  obtain hp where hp: "createHostTunnelPlan demo_tunnel_input = Some (Inr hp)"
    using demo_tunnel_plan by (auto split: option.splits sum.splits)
  obtain c d where c: "createClientLoopbackPlan demo_client_input = Some (Inr (c, d))"
    using demo_client_plan by blast
  from plans_meet_at_relay [OF hp c] hp c show ?thesis by blast
qed

section \<open>Tokens in diagnostics\<close>

text \<open>A text without brackets is in a text with a replaced part only where it was before.\<close>

definition bracket_free :: "string \<Rightarrow> bool" where
  "bracket_free q \<longleftrightarrow> q \<noteq> [] \<and> CHR ''['' \<notin> set q \<and> CHR '']'' \<notin> set q"

definition bracketed :: "string \<Rightarrow> bool" where
  "bracketed r \<longleftrightarrow> r \<noteq> [] \<and> hd r = CHR ''['' \<and> last r = CHR '']''"

lemma prefix_replaceAll:
  assumes "bracketed r" and "bracket_free q \<or> q = []" and "prefix q (js_replaceAll p r s)"
  shows "prefix q s"
  using assms
proof (induction p r s arbitrary: q rule: js_replaceAll.induct)
  case (2 p r x xs)
  show ?case
  proof (cases "p \<noteq> [] \<and> js_startsWith (x # xs) p")
    case True
    with 2 show ?thesis
      by (cases q; cases r) (auto simp: bracketed_def bracket_free_def)
  next
    case False
    show ?thesis
    proof (cases q)
      case (Cons y q')
      with 2(3-) False have y: "y = x" "prefix q' (js_replaceAll p r xs)" by auto
      have "bracket_free q' \<or> q' = []" using 2(4) Cons by (auto simp: bracket_free_def)
      with 2(2) [OF False 2(3) _ y(2)] Cons y(1) show ?thesis by simp
    qed simp
  qed
qed simp

lemma sublist_bracketed_append:
  assumes "bracketed r" and "bracket_free q" and "sublist q (r @ t)"
  shows "sublist q r \<or> sublist q t"
proof -
  from assms(3) consider "sublist q r" | "sublist q t" | u v where "q = u @ v" "suffix u r" "prefix v t"
    unfolding sublist_append by blast
  then show ?thesis
  proof cases
    case 3
    show ?thesis
    proof (cases "u = []")
      case False
      with 3(2) have "last u = last r" by (auto simp: suffix_def)
      with False assms(1,2) 3(1) show ?thesis by (metis Un_iff bracket_free_def bracketed_def last_in_set set_append)
    qed (use 3 in auto)
  qed auto
qed

lemma sublist_replaceAll:
  assumes "bracketed r" and "bracket_free q" and "\<not> sublist q r" and "sublist q (js_replaceAll p r s)"
  shows "sublist q s \<and> q \<noteq> p"
  using assms
proof (induction p r s rule: js_replaceAll.induct)
  case (1 p r)
  then show ?case by (simp add: bracket_free_def)
next
  case (2 p r x xs)
  show ?case
  proof (cases "p \<noteq> [] \<and> js_startsWith (x # xs) p")
    case True
    with 2 have "sublist q (js_replaceAll p r (drop (length p) (x # xs)))"
      using sublist_bracketed_append by auto
    with 2(1) [OF True 2(3-5)] have ih: "sublist q (drop (length p) (x # xs)) \<and> q \<noteq> p" by blast
    then have "sublist q (x # xs)"
      by (meson sublist_drop sublist_order.order_trans)
    with ih show ?thesis by blast
  next
    case False
    with 2(6) have "prefix q (x # js_replaceAll p r xs) \<or> sublist q (js_replaceAll p r xs)"
      by (simp add: sublist_Cons_right)
    then show ?thesis
    proof
      assume pre: "prefix q (x # js_replaceAll p r xs)"
      then have "prefix q (js_replaceAll p r (x # xs))" using False by auto
      with 2(3,4) have q: "prefix q (x # xs)" using prefix_replaceAll by blast
      with False 2(4) have "q \<noteq> p" by (auto simp: js_startsWith_prefix bracket_free_def)
      with q show ?thesis by (simp add: prefix_imp_sublist)
    next
      assume "sublist q (js_replaceAll p r xs)"
      with 2(2) [OF False 2(3-5)] show ?thesis by (auto simp: sublist_Cons_right)
    qed
  qed
qed

text \<open>A token that the labels do not spell by chance.\<close>

definition plain_token :: "string \<Rightarrow> bool" where
  "plain_token q \<longleftrightarrow> bracket_free q \<and>
     list_all (\<lambda>name. \<not> js_includes (label name) q) [''invite_token'', ''session_token'', ''relay_token'', ''tunnel_secret'']"

lemma label_bracketed: "bracketed (label name)"
  by (simp add: bracketed_def label_def)

lemma redact_secrets_hide:
  assumes "bracket_free q" and "(JStr q, l) \<in> set secrets"
    and "\<forall>(k, l) \<in> set secrets. bracketed l \<and> \<not> sublist q l"
  shows "\<not> sublist q (redact_secrets secrets text)"
proof -
  have keep: "sublist q (redact_secrets ss t) \<Longrightarrow> sublist q t"
    if "\<forall>(k, l) \<in> set ss. bracketed l \<and> \<not> sublist q l" for ss t
    using that
  proof (induction ss arbitrary: t)
    case (Cons kl ss)
    obtain k l where kl: "kl = (k, l)" by (cases kl)
    have l: "bracketed l" "\<not> sublist q l" and ss: "\<forall>(k, l) \<in> set ss. bracketed l \<and> \<not> sublist q l"
      using Cons.prems(2) kl by auto
    have "redact_secrets (kl # ss) t = redact_secrets ss (if truthy k then js_replaceAll (js_string k) l t else t)"
      by (simp add: redact_secrets_def kl)
    with Cons.prems(1) Cons.IH [OF _ ss] have "sublist q (if truthy k then js_replaceAll (js_string k) l t else t)"
      by metis
    then show ?case using sublist_replaceAll [OF l(1) assms(1) l(2)] by (metis (full_types))
  qed (simp add: redact_secrets_def)
  from assms(2) obtain xs ys where split: "secrets = xs @ (JStr q, l) # ys" by (meson split_list)
  have "redact_secrets secrets text = redact_secrets ys (js_replaceAll q l (redact_secrets xs text))"
    using assms(1) by (simp add: split redact_secrets_def bracket_free_def)
  moreover have "bracketed l" "\<not> sublist q l" using assms(2,3) by auto
  then have "\<not> sublist q (js_replaceAll q l (redact_secrets xs text))"
    using sublist_replaceAll [of l q q] assms(1) by blast
  moreover have "\<forall>(k, l) \<in> set ys. bracketed l \<and> \<not> sublist q l" using assms(3) by (auto simp: split)
  ultimately show ?thesis using keep by metis
qed

text \<open>What holds of every text in a value.\<close>

fun texts_ok :: "(string \<Rightarrow> bool) \<Rightarrow> jsval \<Rightarrow> bool"
and texts_ok_elems :: "(string \<Rightarrow> bool) \<Rightarrow> jsval list \<Rightarrow> bool"
and texts_ok_props :: "(string \<Rightarrow> bool) \<Rightarrow> (string \<times> jsval) list \<Rightarrow> bool" where
  "texts_ok P (JStr s) = P s"
| "texts_ok P (JArr xs) = texts_ok_elems P xs"
| "texts_ok P (JObj kvs) = texts_ok_props P kvs"
| "texts_ok P v = True"
| "texts_ok_elems P [] = True"
| "texts_ok_elems P (v # vs) = (texts_ok P v \<and> texts_ok_elems P vs)"
| "texts_ok_props P [] = True"
| "texts_ok_props P ((k, v) # kvs) = (texts_ok P v \<and> texts_ok_props P kvs)"

lemma texts_ok_props_iff: "texts_ok_props P kvs \<longleftrightarrow> (\<forall>(k, v) \<in> set kvs. texts_ok P v)"
  by (induction kvs) auto

lemma texts_ok_fromEntries: "texts_ok_props P kvs \<Longrightarrow> texts_ok_props P (fromEntries kvs)"
  using set_fromEntries [of kvs] by (auto simp: texts_ok_props_iff)

lemma texts_ok_walk_aux:
  "(\<forall>s. P (leaf s)) \<and> (\<forall>k v e. ent k v = Some e \<longrightarrow> texts_ok P (snd e)) \<longrightarrow> texts_ok P (js_walk leaf keep ent v)"
  "(\<forall>s. P (leaf s)) \<and> (\<forall>k v e. ent k v = Some e \<longrightarrow> texts_ok P (snd e)) \<longrightarrow> texts_ok_elems P (js_walk_elems leaf keep ent vs)"
  "(\<forall>s. P (leaf s)) \<and> (\<forall>k v e. ent k v = Some e \<longrightarrow> texts_ok P (snd e)) \<longrightarrow> texts_ok_props P (js_walk_props leaf keep ent kvs)"
proof (induction leaf keep ent v and leaf keep ent vs and leaf keep ent kvs
    rule: js_walk_js_walk_elems_js_walk_props.induct)
  case (8 leaf keep ent k v kvs)
  then show ?case by (cases "ent k v") auto
qed (auto simp: texts_ok_fromEntries)

lemma texts_ok_walk:
  "(\<And>s. P (leaf s)) \<Longrightarrow> (\<And>k v e. ent k v = Some e \<Longrightarrow> texts_ok P (snd e)) \<Longrightarrow> texts_ok P (js_walk leaf keep ent v)"
  using texts_ok_walk_aux(1) by blast

lemma includes_sublist: "js_includes s p \<longleftrightarrow> sublist p s"
  by (induction s) (auto simp: js_startsWith_prefix sublist_Cons_right)

lemma plain_token_label: "plain_token q \<Longrightarrow> name \<in> {''invite_token'', ''session_token'', ''relay_token'', ''tunnel_secret''} \<Longrightarrow>
    \<not> sublist q (label name)"
  by (auto simp: plain_token_def includes_sublist)

lemma loopback_hides:
  assumes "plain_token q" and "jget secrets k = JStr q" and "k \<in> set (map fst redactionLabels)"
  shows "\<not> sublist q (redactConnectionString text secrets)"
proof -
  from assms(3) obtain name where name: "(k, name) \<in> set redactionLabels" by auto
  then have "(JStr q, label name) \<in> set (loopback_secrets secrets)"
    using assms(2) by (force simp: loopback_secrets_def)
  moreover have "\<forall>(k, l) \<in> set (loopback_secrets secrets). bracketed l \<and> \<not> sublist q l"
    using plain_token_label [OF assms(1)] by (auto simp: loopback_secrets_def redactionLabels_def label_bracketed)
  moreover have "bracket_free q" using assms(1) by (simp add: plain_token_def)
  ultimately show ?thesis unfolding redactConnectionString_def by (intro redact_secrets_hide)
qed

lemma tunnel_hides:
  assumes "plain_token q" and "jget secrets k = JStr q" and "k \<in> {''hostTunnelToken'', ''relayToken''}"
  shows "\<not> sublist q (redactTunnelSecrets v secrets)"
proof -
  let ?ss = "[(jget secrets ''hostTunnelToken'', label ''tunnel_secret''), (jget secrets ''relayToken'', label ''tunnel_secret'')]"
  have "(JStr q, label ''tunnel_secret'') \<in> set ?ss" using assms(2,3) by auto
  moreover have "\<forall>(k, l) \<in> set ?ss. bracketed l \<and> \<not> sublist q l"
    using plain_token_label [OF assms(1)] by (auto simp: label_bracketed)
  moreover have "bracket_free q" using assms(1) by (simp add: plain_token_def)
  ultimately show ?thesis unfolding redactTunnelSecrets_def by (intro redact_secrets_hide)
qed

text \<open>
  The diagnostics of both plans show no token: no text in them contains the session, relay or
  invite token of the client or the tunnel or relay token of the host, at any place, and neither does
  the relay address kept in the plan contain a session or tunnel token. (The tokens contain no
  bracket and are not part of a label.)
\<close>

theorem diagnostics_hide_tokens:
  assumes client: "createClientLoopbackPlan ci = Some (Inr (c, d))" and host: "createHostTunnelPlan hi = Some (Inr hp)"
  shows "(\<forall>k \<in> {''inviteToken'', ''sessionToken'', ''relayToken''}. \<forall>q. jget ci k = JStr q \<longrightarrow> plain_token q \<longrightarrow>
      texts_ok (\<lambda>t. \<not> js_includes t q) d \<and> (k \<noteq> ''inviteToken'' \<longrightarrow> \<not> js_includes (cc_relayUrl c) q)) \<and>
    (\<forall>k \<in> {''hostTunnelToken'', ''relayToken''}. \<forall>q. jget hi k = JStr q \<longrightarrow> plain_token q \<longrightarrow>
      texts_ok (\<lambda>t. \<not> js_includes t q) (tp_diagnostics hp) \<and> \<not> js_includes (tp_relayUrl hp) q)"
proof (intro conjI ballI allI impI)
  fix k q assume k: "k \<in> {''inviteToken'', ''sessionToken'', ''relayToken''}" and q: "jget ci k = JStr q" "plain_token q"
  have "ci \<noteq> JUndef" using q(1) by auto
  with client obtain port url where d: "d = redactLoopbackDiagnostics (client_diagnostics ci port) ci"
    and url: "cc_relayUrl c = redactUrlSecret url ci"
    by (auto simp: createClientLoopbackPlan_def Let_def bind_eq_Some_conv split: if_splits jsval.splits)
  show "texts_ok (\<lambda>t. \<not> js_includes t q) d"
    unfolding d redactLoopbackDiagnostics_def using k loopback_hides [OF q(2,1)]
    by (intro texts_ok_walk) (auto simp: includes_sublist redactionLabels_def)
  show "\<not> js_includes (cc_relayUrl c) q" if "k \<noteq> ''inviteToken''"
    unfolding url redactUrlSecret_def includes_sublist using k q that
    by (intro loopback_hides [where k = k]) (auto simp: redactionLabels_def)
next
  fix k q assume k: "k \<in> {''hostTunnelToken'', ''relayToken''}" and q: "jget hi k = JStr q" "plain_token q"
  have "hi \<noteq> JUndef" using q(1) by auto
  with host obtain v url where d: "tp_diagnostics hp = redactTunnelDiagnostics v hi"
    and url: "tp_relayUrl hp = redactTunnelSecrets url hi"
    by (auto simp: createHostTunnelPlan_def Let_def bind_eq_Some_conv split: if_splits)
  note hides = tunnel_hides [OF q(2,1) k]
  show "texts_ok (\<lambda>t. \<not> js_includes t q) (tp_diagnostics hp)"
    unfolding d redactTunnelDiagnostics_def using hides plain_token_label [OF q(2), of "''tunnel_secret''"]
    by (intro texts_ok_walk) (auto simp: includes_sublist split: if_splits)
  show "\<not> js_includes (tp_relayUrl hp) q" unfolding url includes_sublist by (rule hides)
qed

theorem diagnostics_hide_tokens_witness:
  "\<exists>c d hp. createClientLoopbackPlan demo_client_input = Some (Inr (c, d)) \<and>
     createHostTunnelPlan demo_tunnel_input = Some (Inr hp) \<and>
     texts_ok (\<lambda>t. \<not> js_includes t ''S7'') d \<and> \<not> js_includes (tp_relayUrl hp) ''T1''"
proof -
  obtain hp where hp: "createHostTunnelPlan demo_tunnel_input = Some (Inr hp)"
    using demo_tunnel_plan by (auto split: option.splits sum.splits)
  obtain c d where c: "createClientLoopbackPlan demo_client_input = Some (Inr (c, d))"
    using demo_client_plan by blast
  have "plain_token ''S7''" "plain_token ''T1''" "jget demo_client_input ''sessionToken'' = JStr ''S7''"
    "jget demo_tunnel_input ''hostTunnelToken'' = JStr ''T1''" by code_simp+
  with diagnostics_hide_tokens [OF c hp] hp c show ?thesis by blast
qed

end
