(* ===== verification/DesktopText.thy ===== *)
theory DesktopText
  imports HostRuntime
begin

text \<open>
  Texts and objects that leave the desktop runtime: the redaction that the room controller, the
  command host and its process share (each applies a prefix of the same replacements, or all of
  them), the removal of secret entries, and percent-encoding.
\<close>

section \<open>Redaction\<close>

definition desktop_unix_path :: re where
  "desktop_unix_path = cats [Cap 1 (Alt Bol (Chr is_space)), unix_root, path_tail]"

definition secret_value :: "re" where
  "secret_value = plus1 (Chr (\<lambda>x. x \<noteq> CHR ''&'' \<and> \<not> is_space x \<and> x \<notin> {CHR 0x22, CHR 0x27, CHR ''<'', CHR ''>''}))"

definition named_secret :: "string list \<Rightarrow> re" where
  "named_secret names = cats [WordB, Cap 1 (alts (map liti names)), lit ''='', Cap 2 secret_value]"

definition auth_scheme :: re where
  "auth_scheme = cats [WordB, Cap 1 (Alt (liti ''Bearer'') (liti ''Basic'')), plus1 (Chr is_space), secret_value]"

definition desktop_email :: re where
  "desktop_email = cats [WordB,
     plus1 (Chr (\<lambda>x. is_alnum x \<or> x \<in> {CHR ''.'', CHR ''_'', CHR ''%'', CHR ''+'', CHR ''-''})), lit ''@'',
     plus1 (Chr (\<lambda>x. is_alnum x \<or> x \<in> {CHR ''.'', CHR ''-''})), lit ''.'',
     Rep 2 None (Chr (\<lambda>x. is_upper x \<or> is_lower x)), WordB]"

definition secret_names :: "string list" where
  "secret_names = [''invite'', ''inviteToken'', ''token'', ''secret'', ''password'', ''credential'',
     ''authorization'', ''cookie'']"

text \<open>The replacements up to the authorisation schemes, for the given names of secrets.\<close>

definition desktop_rules :: "string list \<Rightarrow> (re \<times> (captures \<Rightarrow> string)) list" where
  "desktop_rules names =
    [(host_ipv4, \<lambda>_. host_redacted), (host_ipv6, \<lambda>_. host_redacted),
     (host_windows_path, \<lambda>_. ''[redacted-path]''), (desktop_unix_path, \<lambda>c. cap c 1 @ ''[redacted-path]''),
     (named_secret names, \<lambda>c. cap c 1 @ ''='' @ host_redacted),
     (auth_scheme, \<lambda>c. cap c 1 @ '' '' @ host_redacted)]"

section \<open>Secret entries\<close>

definition key_mentions :: "string list \<Rightarrow> string \<Rightarrow> bool" where
  "key_mentions words key \<longleftrightarrow> list_ex (\<lambda>w. js_includes (toLowerCase key) (toLowerCase w)) words"

definition controller_secret_words :: "string list" where
  "controller_secret_words = [''inviteLink'', ''inviteUrl'', ''inviteToken'', ''rawInvite'', ''token'', ''secret'',
     ''password'', ''credential'', ''authorization'', ''cookie'']"

text \<open>
  A value without its secret entries and with its texts redacted. The entry \<open>inviteLink\<close> of the
  value itself, and only that, may stay; a text in it stays as it is.
\<close>

definition sanitize_inner :: "(string \<Rightarrow> bool) \<Rightarrow> (string \<Rightarrow> string) \<Rightarrow> jsval \<Rightarrow> jsval" where
  "sanitize_inner secret redact v = js_walk redact (\<lambda>k _. \<not> secret k) (\<lambda>_ _. None) v"

definition sanitize_top :: "(string \<Rightarrow> bool) \<Rightarrow> (string \<Rightarrow> string) \<Rightarrow> jsval \<Rightarrow> jsval" where
  "sanitize_top secret redact v =
    (case v of
       JObj kvs \<Rightarrow> JObj (fromEntries (map
         (\<lambda>(k, x). (k, case x of JStr s \<Rightarrow> if k = ''inviteLink'' then JStr s else JStr (redact s)
            | _ \<Rightarrow> sanitize_inner secret redact x))
         (filter (\<lambda>(k, x). k = ''inviteLink'' \<or> \<not> secret k) kvs)))
     | _ \<Rightarrow> sanitize_inner secret redact v)"

section \<open>Percent-encoding\<close>

text \<open>\<open>encodeURIComponent\<close>: a character below 128 is one byte, any other here is two.\<close>

definition uri_unreserved :: "char \<Rightarrow> bool" where
  "uri_unreserved x \<longleftrightarrow> is_alnum x \<or> x \<in> set ''-_.!~*()'' \<or> x = CHR 0x27"

definition upper_hex :: "nat \<Rightarrow> char" where
  "upper_hex n = (if n < 10 then char_of (48 + n) else char_of (55 + n))"

definition percent_byte :: "nat \<Rightarrow> string" where
  "percent_byte n = [CHR ''%'', upper_hex (n div 16), upper_hex (n mod 16)]"

definition encode_char :: "char \<Rightarrow> string" where
  "encode_char x =
    (let n = of_char x :: nat in
     if uri_unreserved x then [x]
     else if n < 128 then percent_byte n
     else percent_byte (192 + n div 64) @ percent_byte (128 + n mod 64))"

definition encodeURIComponent :: "jsval \<Rightarrow> string" where
  "encodeURIComponent v = concat (map encode_char (js_string v))"

end
