(* ===== verification/Effects.thy ===== *)
theory Effects
  imports JsOps
begin

text \<open>
  Asynchronous functions that run alone, over the state of an object and of what it calls. A
  computation ends with a value (\<open>Inr\<close>) or with a thrown value (\<open>Inl\<close>), and with the state in both
  cases. \<open>ens P m Q E\<close>: started where \<open>P\<close> holds, \<open>m\<close> ends with a value as \<open>Q\<close> says or with a thrown
  value as \<open>E\<close> says.
\<close>

section \<open>Computations\<close>

type_synonym ('s, 'a) eff = "'s \<Rightarrow> (jsval + 'a) \<times> 's"

definition eff_return :: "'a \<Rightarrow> ('s, 'a) eff" where
  "eff_return a = (\<lambda>s. (Inr a, s))"

definition eff_throw :: "jsval \<Rightarrow> ('s, 'a) eff" where
  "eff_throw e = (\<lambda>s. (Inl e, s))"

definition eff_bind :: "('s, 'a) eff \<Rightarrow> ('a \<Rightarrow> ('s, 'b) eff) \<Rightarrow> ('s, 'b) eff" where
  "eff_bind m k = (\<lambda>s. case m s of (Inl e, s') \<Rightarrow> (Inl e, s') | (Inr a, s') \<Rightarrow> k a s')"

definition eff_catch :: "('s, 'a) eff \<Rightarrow> (jsval \<Rightarrow> ('s, 'a) eff) \<Rightarrow> ('s, 'a) eff" where
  "eff_catch m h = (\<lambda>s. case m s of (Inl e, s') \<Rightarrow> h e s' | (Inr a, s') \<Rightarrow> (Inr a, s'))"

text \<open>\<open>try\<close> for one stage: what throws in it goes to the handler, what follows is outside.\<close>

definition eff_try :: "('s, 'a) eff \<Rightarrow> (jsval \<Rightarrow> ('s, 'b) eff) \<Rightarrow> ('a \<Rightarrow> ('s, 'b) eff) \<Rightarrow> ('s, 'b) eff" where
  "eff_try m h k = (\<lambda>s. case m s of (Inl e, s') \<Rightarrow> h e s' | (Inr a, s') \<Rightarrow> k a s')"

definition eff_get :: "('s \<Rightarrow> 'a) \<Rightarrow> ('s, 'a) eff" where
  "eff_get f = (\<lambda>s. (Inr (f s), s))"

definition eff_modify :: "('s \<Rightarrow> 's) \<Rightarrow> ('s, unit) eff" where
  "eff_modify f = (\<lambda>s. (Inr (), f s))"

text \<open>An operation that may throw a \<open>TypeError\<close>; such an error has no enumerable property.\<close>

definition type_error :: jsval where
  "type_error = JObj []"

definition eff_lift :: "'a option \<Rightarrow> ('s, 'a) eff" where
  "eff_lift r = (case r of None \<Rightarrow> eff_throw type_error | Some a \<Rightarrow> eff_return a)"

section \<open>Answers of other objects\<close>

text \<open>
  What a method that is called answers: a value (or a promise of it), a promise that is rejected,
  or it throws at once. \<open>await f()\<close> sees no difference between the last two;
  \<open>await Promise.resolve(f()).catch(h)\<close> handles only the rejection.
\<close>

datatype answer = Value jsval | Rejects jsval | Throws jsval

definition await_answer :: "('s \<Rightarrow> answer \<times> 's) \<Rightarrow> ('s, jsval) eff" where
  "await_answer call = (\<lambda>s. case call s of
     (Value v, s') \<Rightarrow> (Inr v, s') | (Rejects e, s') \<Rightarrow> (Inl e, s') | (Throws e, s') \<Rightarrow> (Inl e, s'))"

definition await_catching :: "('s \<Rightarrow> answer \<times> 's) \<Rightarrow> (jsval \<Rightarrow> jsval) \<Rightarrow> ('s, jsval) eff" where
  "await_catching call h = (\<lambda>s. case call s of
     (Value v, s') \<Rightarrow> (Inr v, s') | (Rejects e, s') \<Rightarrow> (Inr (h e), s') | (Throws e, s') \<Rightarrow> (Inl e, s'))"

section \<open>Assertions\<close>

definition ens :: "('s \<Rightarrow> bool) \<Rightarrow> ('s, 'a) eff \<Rightarrow> ('a \<Rightarrow> 's \<Rightarrow> bool) \<Rightarrow> (jsval \<Rightarrow> 's \<Rightarrow> bool) \<Rightarrow> bool" where
  "ens P m Q E \<longleftrightarrow> (\<forall>s. P s \<longrightarrow> (case m s of (Inl e, s') \<Rightarrow> E e s' | (Inr a, s') \<Rightarrow> Q a s'))"

lemma ensD:
  assumes "ens P m Q E" and "P s"
  shows "m s = (Inr a, s') \<Longrightarrow> Q a s'" and "m s = (Inl e, s') \<Longrightarrow> E e s'"
  using assms by (auto simp: ens_def)

lemma ens_return: "(\<And>s. P s \<Longrightarrow> Q a s) \<Longrightarrow> ens P (eff_return a) Q E"
  by (simp add: ens_def eff_return_def)

lemma ens_throw: "(\<And>s. P s \<Longrightarrow> E e s) \<Longrightarrow> ens P (eff_throw e) Q E"
  by (simp add: ens_def eff_throw_def)

lemma ens_get: "(\<And>s. P s \<Longrightarrow> Q (f s) s) \<Longrightarrow> ens P (eff_get f) Q E"
  by (simp add: ens_def eff_get_def)

lemma ens_modify: "(\<And>s. P s \<Longrightarrow> Q () (f s)) \<Longrightarrow> ens P (eff_modify f) Q E"
  by (simp add: ens_def eff_modify_def)

lemma ens_bind:
  assumes "ens P m R E" and "\<And>a. ens (R a) (k a) Q E"
  shows "ens P (eff_bind m k) Q E"
  unfolding ens_def
proof (intro allI impI)
  fix s assume "P s"
  with assms(1) have m: "case m s of (Inl e, s') \<Rightarrow> E e s' | (Inr a, s') \<Rightarrow> R a s'" by (simp add: ens_def)
  obtain r s' where r: "m s = (r, s')" by fastforce
  show "case eff_bind m k s of (Inl e, s') \<Rightarrow> E e s' | (Inr a, s') \<Rightarrow> Q a s'"
    using m assms(2) by (cases r) (simp_all add: eff_bind_def r ens_def)
qed

lemma ens_catch:
  assumes "ens P m Q R" and "\<And>e. ens (R e) (h e) Q E"
  shows "ens P (eff_catch m h) Q E"
  unfolding ens_def
proof (intro allI impI)
  fix s assume "P s"
  with assms(1) have m: "case m s of (Inl e, s') \<Rightarrow> R e s' | (Inr a, s') \<Rightarrow> Q a s'" by (simp add: ens_def)
  obtain r s' where r: "m s = (r, s')" by fastforce
  show "case eff_catch m h s of (Inl e, s') \<Rightarrow> E e s' | (Inr a, s') \<Rightarrow> Q a s'"
    using m assms(2) by (cases r) (simp_all add: eff_catch_def r ens_def)
qed

lemma ens_try:
  assumes "ens P m R S" and "\<And>e. ens (S e) (h e) Q E" and "\<And>a. ens (R a) (k a) Q E"
  shows "ens P (eff_try m h k) Q E"
  unfolding ens_def
proof (intro allI impI)
  fix s assume "P s"
  with assms(1) have m: "case m s of (Inl e, s') \<Rightarrow> S e s' | (Inr a, s') \<Rightarrow> R a s'" by (simp add: ens_def)
  obtain r s' where r: "m s = (r, s')" by fastforce
  show "case eff_try m h k s of (Inl e, s') \<Rightarrow> E e s' | (Inr a, s') \<Rightarrow> Q a s'"
    using m assms(2,3) by (cases r) (simp_all add: eff_try_def r ens_def)
qed

lemma ens_if:
  "(b \<Longrightarrow> ens P m Q E) \<Longrightarrow> (\<not> b \<Longrightarrow> ens P n Q E) \<Longrightarrow> ens P (if b then m else n) Q E"
  by simp

lemma ens_let: "(\<And>x. x = a \<Longrightarrow> ens P (m x) Q E) \<Longrightarrow> ens P (let x = a in m x) Q E"
  by simp

lemma ens_pre: "ens P' m Q E \<Longrightarrow> (\<And>s. P s \<Longrightarrow> P' s) \<Longrightarrow> ens P m Q E"
  by (simp add: ens_def)

lemma ens_post:
  "ens P m Q' E' \<Longrightarrow> (\<And>a s. Q' a s \<Longrightarrow> Q a s) \<Longrightarrow> (\<And>e s. E' e s \<Longrightarrow> E e s) \<Longrightarrow> ens P m Q E"
  by (fastforce simp: ens_def split: sum.splits prod.splits)

lemma ens_lift: "(\<And>s a. P s \<Longrightarrow> r = Some a \<Longrightarrow> Q a s) \<Longrightarrow> (\<And>s. P s \<Longrightarrow> E type_error s) \<Longrightarrow> ens P (eff_lift r) Q E"
  by (cases r) (simp_all add: eff_lift_def ens_def eff_throw_def eff_return_def)

lemma ens_await:
  "(\<And>s v s'. P s \<Longrightarrow> snd (call s) = s' \<Longrightarrow> Q v s' \<and> E v s') \<Longrightarrow> ens P (await_answer call) Q E"
  by (auto simp: ens_def await_answer_def split: prod.splits answer.splits sum.splits)

lemma ens_await_catching:
  "(\<And>s v s'. P s \<Longrightarrow> snd (call s) = s' \<Longrightarrow> Q v s' \<and> E v s') \<Longrightarrow> ens P (await_catching call h) Q E"
  by (auto simp: ens_def await_catching_def split: prod.splits answer.splits sum.splits)

lemma ens_False: "ens (\<lambda>_. False) m Q E"
  by (simp add: ens_def)

text \<open>A condition that a computation keeps, whether it ends with a value or throws.\<close>

named_theorems keeps_rules \<open>computations that keep a condition\<close>

definition keeps :: "('s \<Rightarrow> bool) \<Rightarrow> ('s, 'a) eff \<Rightarrow> bool" where
  "keeps J m \<longleftrightarrow> ens J m (\<lambda>_. J) (\<lambda>_. J)"

lemma keepsD: "keeps J m \<Longrightarrow> J s \<Longrightarrow> J (snd (m s))"
  by (cases "m s") (auto simp: keeps_def ens_def split: prod.splits sum.splits)

lemma keeps_return [keeps_rules]: "keeps J (eff_return a)"
  by (simp add: keeps_def ens_return)

lemma keeps_throw [keeps_rules]: "keeps J (eff_throw e)"
  by (simp add: keeps_def ens_throw)

lemma keeps_get [keeps_rules]: "keeps J (eff_get f)"
  by (simp add: keeps_def ens_get)

lemma keeps_lift [keeps_rules]: "keeps J (eff_lift r)"
  by (cases r) (simp_all add: eff_lift_def keeps_return keeps_throw)

lemma keeps_modify: "(\<And>s. J s \<Longrightarrow> J (f s)) \<Longrightarrow> keeps J (eff_modify f)"
  by (simp add: keeps_def ens_modify)

lemma keeps_bind [keeps_rules]: "keeps J m \<Longrightarrow> (\<And>a. keeps J (k a)) \<Longrightarrow> keeps J (eff_bind m k)"
  unfolding keeps_def by (rule ens_bind)

lemma keeps_try [keeps_rules]:
  "keeps J m \<Longrightarrow> (\<And>e. keeps J (h e)) \<Longrightarrow> (\<And>a. keeps J (k a)) \<Longrightarrow> keeps J (eff_try m h k)"
  unfolding keeps_def by (rule ens_try)

lemma keeps_if [keeps_rules]: "keeps J m \<Longrightarrow> keeps J n \<Longrightarrow> keeps J (if b then m else n)"
  by simp

lemma keeps_option [keeps_rules]:
  "keeps J m \<Longrightarrow> (\<And>a. keeps J (k a)) \<Longrightarrow> keeps J (case x of None \<Rightarrow> m | Some a \<Rightarrow> k a)"
  by (cases x) simp_all

lemma eff_simps [simp]:
  "eff_return a s = (Inr a, s)" "eff_throw e s = (Inl e, s)" "eff_get f s = (Inr (f s), s)"
  "eff_modify g s = (Inr (), g s)"
  by (simp_all add: eff_return_def eff_throw_def eff_get_def eff_modify_def)

end
