(* ===== verification/RoomController.thy ===== *)
theory RoomController
  imports DesktopText Effects
begin

text \<open>
  \<open>apps/desktop/src/runtime/desktop-room-controller.mjs\<close>: one room's commands. A command starts the
  runtime, registers the room, opens the relay tunnel and makes the invite, and undoes all of it
  when a step fails. What the controller calls (the runtime bridge, the control plane, the relay, the
  drawing of tokens) is the record \<open>services\<close>: each method maps its argument and the state \<open>'w\<close> of
  everything outside to an answer and a new such state. Commands run one at a time.
\<close>

section \<open>Reasons and state\<close>

datatype controller_failure = CF_CONTROL_PLANE_ROOM_FAILED | CF_CONTROL_PLANE_INVITE_FAILED
  | CF_RELAY_OPEN_FAILED | CF_RELAY_CLOSE_FAILED | CF_CLEANUP_PENDING

primrec controller_failure_str :: "controller_failure \<Rightarrow> string" where
  "controller_failure_str CF_CONTROL_PLANE_ROOM_FAILED = ''control_plane_room_failed''"
| "controller_failure_str CF_CONTROL_PLANE_INVITE_FAILED = ''control_plane_invite_failed''"
| "controller_failure_str CF_RELAY_OPEN_FAILED = ''relay_open_failed''"
| "controller_failure_str CF_RELAY_CLOSE_FAILED = ''relay_close_failed''"
| "controller_failure_str CF_CLEANUP_PENDING = ''cleanup_pending''"

primrec failureSummary :: "controller_failure \<Rightarrow> string" where
  "failureSummary CF_CONTROL_PLANE_ROOM_FAILED = ''The room could not be registered.''"
| "failureSummary CF_CONTROL_PLANE_INVITE_FAILED = ''The invite could not be created.''"
| "failureSummary CF_RELAY_OPEN_FAILED = ''The relay tunnel could not be opened.''"
| "failureSummary CF_RELAY_CLOSE_FAILED = ''The relay tunnel could not be closed.''"
| "failureSummary CF_CLEANUP_PENDING = ''Finish closing the previous room before opening a new one.''"

definition MINECRAFT_TARGET :: jsval where
  "MINECRAFT_TARGET = JObj [(''kind'', JStr ''minecraft''), (''host'', JStr ''127.0.0.1''), (''port'', JNum 25565)]"

record active_room =
  ac_roomId :: jsval
  ac_inviteId :: jsval
  ac_inviteLink :: jsval
  ac_hostToken :: jsval
  ac_relay :: jsval
  ac_tunnelId :: jsval

definition emptyActiveRoom :: active_room where
  "emptyActiveRoom = \<lparr>ac_roomId = JNull, ac_inviteId = JNull, ac_inviteLink = JNull, ac_hostToken = JNull,
     ac_relay = JNull, ac_tunnelId = JNull\<rparr>"

record 'w ctl =
  ct_active :: active_room
  ct_relaySnapshot :: jsval
  ct_controlPlaneSnapshot :: jsval
  ct_cleanupPending :: bool
  ct_world :: 'w

text \<open>
  Two optional methods of the control plane, the methods of a relay (its first argument is the
  relay), and the platform's URL with a search parameter set (\<open>None\<close>: the base is not a URL).
\<close>

record 'w services =
  sv_prepareRoom :: "jsval \<Rightarrow> 'w \<Rightarrow> answer \<times> 'w"
  sv_openRoom :: "jsval \<Rightarrow> 'w \<Rightarrow> answer \<times> 'w"
  sv_closeRoom :: "jsval \<Rightarrow> 'w \<Rightarrow> answer \<times> 'w"
  sv_restartRoom :: "jsval \<Rightarrow> 'w \<Rightarrow> answer \<times> 'w"
  sv_status :: "'w \<Rightarrow> answer \<times> 'w"
  sv_createRoom :: "jsval \<Rightarrow> 'w \<Rightarrow> answer \<times> 'w"
  sv_createInvite :: "jsval \<Rightarrow> 'w \<Rightarrow> answer \<times> 'w"
  sv_heartbeatHost :: "(jsval \<Rightarrow> 'w \<Rightarrow> answer \<times> 'w) option"
  sv_revokeInvite :: "(jsval \<Rightarrow> 'w \<Rightarrow> answer \<times> 'w) option"
  sv_hostToken :: "jsval \<Rightarrow> 'w \<Rightarrow> answer \<times> 'w"
  sv_relayFactory :: "jsval \<Rightarrow> 'w \<Rightarrow> answer \<times> 'w"
  sv_openHostTunnel :: "jsval \<Rightarrow> jsval \<Rightarrow> 'w \<Rightarrow> answer \<times> 'w"
  sv_closeHostTunnel :: "jsval \<Rightarrow> jsval \<Rightarrow> 'w \<Rightarrow> answer \<times> 'w"
  sv_urlWithInvite :: "string \<Rightarrow> string \<Rightarrow> string option"

record controller_config =
  cg_runtimePlan :: jsval
  cg_hostId :: jsval
  cg_inviteBaseUrl :: jsval

text \<open>The world's part of a step.\<close>

definition outside :: "('w \<Rightarrow> answer \<times> 'w) \<Rightarrow> 'w ctl \<Rightarrow> answer \<times> 'w ctl" where
  "outside call s = (case call (ct_world s) of (a, w) \<Rightarrow> (a, s\<lparr>ct_world := w\<rparr>))"

section \<open>What is shown\<close>

definition controller_redact :: "string \<Rightarrow> string" where
  "controller_redact text = replace_rules (desktop_rules secret_names) text"

definition ctl_sanitizeValue :: "jsval \<Rightarrow> jsval" where
  "ctl_sanitizeValue = sanitize_top (key_mentions controller_secret_words) controller_redact"

definition session_part :: "bool \<Rightarrow> bool \<Rightarrow> string \<times> jsval" where
  "session_part ready shut = (''session'', JObj [(''ready'', JBool ready), (''closed'', JBool shut)])"

definition ctl_relaySnapshot :: "jsval \<Rightarrow> jsval" where
  "ctl_relaySnapshot tunnel =
    (let publicTunnel = ctl_sanitizeValue (coalesce tunnel (JObj []));
         shut = (jget publicTunnel ''state'' = JStr ''closed'');
         ready = (jget publicTunnel ''state'' = JStr ''open'')
     in JObj [(''ready'', JBool ready), (''closed'', JBool shut), session_part ready shut,
          (''tunnel'', JObj (fromEntries ((''ready'', JBool ready) # own_entries publicTunnel)))])"

definition emptyRelaySnapshot :: jsval where
  "emptyRelaySnapshot = JObj [(''ready'', JBool False), (''closed'', JBool True), session_part False True]"

definition closedRelaySnapshot :: "jsval \<Rightarrow> jsval" where
  "closedRelaySnapshot previous =
    (let tunnel = jget previous ''tunnel'' in
     if truthy tunnel then obj_with previous [(''ready'', JBool False), (''closed'', JBool True),
       session_part False True, (''tunnel'', obj_with tunnel [(''ready'', JBool False),
         (''state'', if jget tunnel ''state'' = JStr ''open'' then JStr ''closed'' else jget tunnel ''state'')])]
     else emptyRelaySnapshot)"

definition failed_close_snapshot :: "jsval \<Rightarrow> jsval" where
  "failed_close_snapshot answer = JObj [(''ready'', JBool False), (''closed'', JBool False), session_part False False,
     (''failure'', ctl_sanitizeValue answer)]"

definition controlPlaneSnapshot :: "bool \<Rightarrow> jsval \<Rightarrow> (string \<times> jsval) list \<Rightarrow> jsval" where
  "controlPlaneSnapshot ready room invite = JObj [(''ready'', JBool ready), (''room'', JObj [(''ready'', JBool True),
     (''id'', jget room ''id''), (''state'', jget room ''state'')]), (''invite'', JObj ((''ready'', JBool ready) # invite))]"

definition emptyControlPlaneSnapshot :: jsval where
  "emptyControlPlaneSnapshot = JObj [(''ready'', JBool False), (''room'', JObj [(''ready'', JBool False)]),
     (''invite'', JObj [(''ready'', JBool False)])]"

definition relayIsReady :: "jsval \<Rightarrow> bool" where
  "relayIsReady relay \<longleftrightarrow> jget relay ''ready'' = JBool True \<and> jget (jget relay ''session'') ''ready'' = JBool True"

definition relayCloseSucceeded :: "jsval \<Rightarrow> bool" where
  "relayCloseSucceeded relay \<longleftrightarrow> jget relay ''closed'' = JBool True \<and> \<not> truthy (jget relay ''failure'')"

definition isRuntimeReadyForInvite :: "jsval \<Rightarrow> bool" where
  "isRuntimeReadyForInvite state \<longleftrightarrow> state = JStr (host_state_str HS_RUNNING)"

definition failure_part :: "controller_failure \<Rightarrow> (string \<times> jsval) list \<Rightarrow> (string \<times> jsval) list" where
  "failure_part reason detail =
    [(''state'', JStr ''blocked''), (''summary'', JStr (failureSummary reason)),
     (''failure'', JObj ([(''reason'', JStr (controller_failure_str reason)),
        (''message'', JStr (failureSummary reason))] @ detail))]"

definition blockedRuntimeDto :: "controller_failure \<Rightarrow> jsval" where
  "blockedRuntimeDto reason = JObj (failure_part reason [])"

text \<open>What is shown of the runtime, with the link (or none), the control plane and the relay.\<close>

definition room_dto :: "jsval \<Rightarrow> jsval \<Rightarrow> jsval \<Rightarrow> jsval \<Rightarrow> jsval" where
  "room_dto runtimeDto inviteLink controlPlane relay = ctl_sanitizeValue (obj_with runtimeDto
     ((if truthy inviteLink then [(''inviteLink'', inviteLink)] else []) @
      [(''controlPlane'', controlPlane), (''relay'', relay)]))"

definition withRoomReadiness :: "jsval \<Rightarrow> ('w ctl, jsval) eff" where
  "withRoomReadiness runtimeDto = eff_get (\<lambda>s. room_dto runtimeDto (ac_inviteLink (ct_active s))
     (ct_controlPlaneSnapshot s) (ct_relaySnapshot s))"

text \<open>The overrides: no link, and the control plane and relay shown instead of the last ones.\<close>

definition withReadinessOverrides :: "jsval \<Rightarrow> jsval option \<Rightarrow> jsval option \<Rightarrow> ('w ctl, jsval) eff" where
  "withReadinessOverrides runtimeDto controlPlane relay = eff_get (\<lambda>s. room_dto runtimeDto JNull
     (case controlPlane of None \<Rightarrow> ct_controlPlaneSnapshot s | Some v \<Rightarrow> v)
     (case relay of None \<Rightarrow> ct_relaySnapshot s | Some v \<Rightarrow> v))"

definition withoutInviteReadiness :: "jsval \<Rightarrow> jsval option \<Rightarrow> ('w ctl, jsval) eff" where
  "withoutInviteReadiness runtimeDto relay =
     withReadinessOverrides runtimeDto (Some emptyControlPlaneSnapshot) relay"

section \<open>Answers of the control plane\<close>

definition normalizeRoomResult :: "jsval \<Rightarrow> jsval" where
  "normalizeRoomResult result =
    (if jget result ''ok'' = JBool False then JNull else coalesce (jget result ''room'') result)"

definition normalizeInviteResult :: "jsval \<Rightarrow> jsval" where
  "normalizeInviteResult result =
    (if jget result ''ok'' = JBool False then result
     else
       let invite = coalesce (jget result ''invite'') result;
           publicHandle = coalesce (coalesce (coalesce (jget invite ''publicHandle'') (jget invite ''handle''))
             (jget result ''inviteHandle'')) (jget result ''handle'')
       in JObj [(''ok'', coalesce (jget result ''ok'') (JBool (truthy publicHandle))),
            (''id'', coalesce (coalesce (jget invite ''id'') (jget result ''inviteId'')) publicHandle),
            (''publicHandle'', publicHandle),
            (''expiresAt'', coalesce (jget invite ''expiresAt'') (jget result ''expiresAt''))])"

definition createInviteLink :: "(string \<Rightarrow> string \<Rightarrow> string option) \<Rightarrow> jsval \<Rightarrow> jsval \<Rightarrow> string" where
  "createInviteLink urlWithInvite baseUrl token =
    (case urlWithInvite (js_string baseUrl) (js_string token) of
       Some url \<Rightarrow> url
     | None \<Rightarrow> js_string baseUrl @ (if js_includes (js_string baseUrl) ''?'' then ''&'' else ''?'') @
         ''invite='' @ encodeURIComponent token)"

section \<open>Undoing\<close>

definition set_active :: "(active_room \<Rightarrow> active_room) \<Rightarrow> ('w ctl, unit) eff" where
  "set_active f = eff_modify (\<lambda>s. s\<lparr>ct_active := f (ct_active s)\<rparr>)"

definition set_relaySnapshot :: "jsval \<Rightarrow> ('w ctl, jsval) eff" where
  "set_relaySnapshot v = eff_bind (eff_modify (\<lambda>s. s\<lparr>ct_relaySnapshot := v\<rparr>)) (\<lambda>_. eff_return v)"

definition relay_close_failure :: "jsval \<Rightarrow> jsval" where
  "relay_close_failure e = JObj [(''ok'', JBool False),
     (''reason'', coalesce (jget e ''message'') (JStr ''relay_close_failed''))]"

definition closeRelayTunnel :: "'w services \<Rightarrow> controller_config \<Rightarrow> jsval \<Rightarrow> ('w ctl, jsval) eff" where
  "closeRelayTunnel sv cg closeOptions =
    eff_bind (eff_get ct_active) (\<lambda>active.
    if \<not> truthy (ac_relay active) \<or> \<not> truthy (ac_roomId active) then
      eff_bind (eff_get (\<lambda>s. closedRelaySnapshot (ct_relaySnapshot s))) set_relaySnapshot
    else
      eff_bind (eff_lift (dot closeOptions ''reason'')) (\<lambda>reason.
      eff_bind (await_catching (outside (sv_closeHostTunnel sv (ac_relay active) (JObj
          [(''tunnelId'', ac_tunnelId active), (''roomId'', ac_roomId active), (''hostId'', cg_hostId cg),
           (''hostToken'', ac_hostToken active), (''reason'', coalesce reason (JStr ''host_closed''))])))
        relay_close_failure) (\<lambda>answer.
      set_relaySnapshot (if truthy (jget answer ''ok'') then ctl_relaySnapshot (jget answer ''tunnel'')
        else failed_close_snapshot answer))))"

definition ctl_revokeInvite :: "'w services \<Rightarrow> controller_config \<Rightarrow> ('w ctl, unit) eff" where
  "ctl_revokeInvite sv cg =
    eff_bind (eff_get ct_active) (\<lambda>active.
    if \<not> truthy (ac_inviteId active) \<or> \<not> truthy (ac_roomId active) then eff_return ()
    else case sv_revokeInvite sv of
        None \<Rightarrow> eff_return ()
      | Some revoke \<Rightarrow> eff_bind (await_catching (outside (revoke (JObj [(''actorId'', cg_hostId cg),
            (''inviteId'', ac_inviteId active)]))) (\<lambda>_. JNull)) (\<lambda>_. eff_return ()))"

definition forget_invite :: "active_room \<Rightarrow> active_room" where
  "forget_invite a = a\<lparr>ac_inviteId := JNull, ac_inviteLink := JNull\<rparr>"

definition set_cleanup :: "bool \<Rightarrow> ('w ctl, unit) eff" where
  "set_cleanup b = eff_modify (\<lambda>s. s\<lparr>ct_cleanupPending := b\<rparr>)"

definition clearOpenRoomSideEffects :: "'w services \<Rightarrow> controller_config \<Rightarrow> ('w ctl, jsval) eff" where
  "clearOpenRoomSideEffects sv cg =
    eff_bind (closeRelayTunnel sv cg (JObj [(''reason'', JStr ''controller_fail_closed'')])) (\<lambda>relayClosed.
    eff_bind (ctl_revokeInvite sv cg) (\<lambda>_.
    eff_bind (set_active forget_invite) (\<lambda>_.
    eff_bind (if relayCloseSucceeded relayClosed
      then eff_bind (set_cleanup False) (\<lambda>_. set_active (\<lambda>_. emptyActiveRoom))
      else set_cleanup True) (\<lambda>_.
    eff_return relayClosed))))"

definition failClosed :: "'w services \<Rightarrow> controller_config \<Rightarrow> jsval \<Rightarrow> controller_failure \<Rightarrow> jsval \<Rightarrow> ('w ctl, jsval) eff" where
  "failClosed sv cg runtimeDto reason cause =
    eff_bind (clearOpenRoomSideEffects sv cg) (\<lambda>_.
    eff_bind (await_catching (outside (sv_closeRoom sv JUndef)) (\<lambda>_. JNull)) (\<lambda>closedRuntime.
    eff_bind (eff_get ct_controlPlaneSnapshot) (\<lambda>snapshot.
    withReadinessOverrides
      (obj_with (coalesce closedRuntime runtimeDto) (failure_part reason [(''detail'', ctl_sanitizeValue cause)]))
      (Some (if truthy (jget snapshot ''ready'') then snapshot else obj_with snapshot [(''ready'', JBool False)]))
      None)))"

section \<open>Provisioning\<close>

definition room_args :: "controller_config \<Rightarrow> jsval" where
  "room_args cg = (let room = jget (cg_runtimePlan cg) ''room'' in JObj
     [(''hostId'', cg_hostId cg), (''alias'', coalesce (jget room ''name'') (jget room ''id'')),
      (''minecraftVersion'', jget room ''minecraftVersion''),
      (''packProfileName'', jget (jget (cg_runtimePlan cg) ''pack'') ''id'')])"

definition relay_args :: "controller_config \<Rightarrow> jsval \<Rightarrow> (string \<times> jsval) list" where
  "relay_args cg roomId = [(''hostId'', cg_hostId cg), (''roomId'', roomId)]"

text \<open>The token is drawn, the relay is made, and its tunnel is opened.\<close>

definition open_relay :: "'w services \<Rightarrow> controller_config \<Rightarrow> jsval \<Rightarrow> jsval \<Rightarrow> ('w ctl, jsval) eff" where
  "open_relay sv cg roomId commandOptions =
    eff_bind (await_answer (outside (sv_hostToken sv (JObj (relay_args cg roomId @
        [(''runtimePlan'', cg_runtimePlan cg), (''target'', MINECRAFT_TARGET)]))))) (\<lambda>hostToken.
    eff_bind (set_active (\<lambda>a. a\<lparr>ac_hostToken := hostToken\<rparr>)) (\<lambda>_.
    eff_bind (await_answer (outside (sv_relayFactory sv (JObj (relay_args cg roomId @
        [(''hostToken'', hostToken), (''runtimePlan'', cg_runtimePlan cg), (''target'', MINECRAFT_TARGET),
         (''options'', commandOptions)]))))) (\<lambda>relay.
    eff_bind (set_active (\<lambda>a. a\<lparr>ac_relay := relay\<rparr>)) (\<lambda>_.
    if nullish relay then eff_throw type_error
    else await_answer (outside (sv_openHostTunnel sv relay (JObj (relay_args cg roomId @
        [(''hostToken'', hostToken), (''target'', MINECRAFT_TARGET)]))))))))"

definition heartbeat :: "'w services \<Rightarrow> controller_config \<Rightarrow> jsval \<Rightarrow> ('w ctl, jsval) eff" where
  "heartbeat sv cg roomId =
    (case sv_heartbeatHost sv of
       None \<Rightarrow> eff_return JUndef
     | Some beat \<Rightarrow> await_answer (outside (beat (JObj [(''actorId'', cg_hostId cg), (''roomId'', roomId)]))))"

text \<open>
  The last stage: the invite of a room whose tunnel is open. A stage that throws, and one whose
  answer is a failure, fail closed with the reason of that stage.
\<close>

definition provision_invite :: "'w services \<Rightarrow> controller_config \<Rightarrow> jsval \<Rightarrow> jsval \<Rightarrow> ('w ctl, jsval) eff" where
  "provision_invite sv cg runtimeDto room =
    (let roomId = jget room ''id''; failed = failClosed sv cg runtimeDto CF_CONTROL_PLANE_INVITE_FAILED in
     eff_try (await_answer (outside (sv_createInvite sv (JObj [(''actorId'', cg_hostId cg), (''roomId'', roomId)]))))
       failed (\<lambda>inviteResult.
     let invite = normalizeInviteResult inviteResult in
     if \<not> truthy (jget invite ''ok'') \<or> \<not> truthy (jget invite ''id'') \<or> \<not> truthy (jget invite ''publicHandle'')
     then failed inviteResult
     else
       eff_bind (set_active (\<lambda>a. a\<lparr>ac_inviteId := jget invite ''id'',
         ac_inviteLink := JStr (createInviteLink (sv_urlWithInvite sv) (cg_inviteBaseUrl cg) (jget invite ''publicHandle''))\<rparr>)) (\<lambda>_.
       eff_bind (eff_modify (\<lambda>s. s\<lparr>ct_controlPlaneSnapshot :=
         controlPlaneSnapshot True room [(''expiresAt'', jget invite ''expiresAt'')]\<rparr>)) (\<lambda>_.
       eff_try (heartbeat sv cg roomId) failed (\<lambda>_. withRoomReadiness runtimeDto)))))"

definition provisionOpenRoom :: "'w services \<Rightarrow> controller_config \<Rightarrow> jsval \<Rightarrow> jsval \<Rightarrow> ('w ctl, jsval) eff" where
  "provisionOpenRoom sv cg runtimeDto commandOptions =
    eff_try (await_answer (outside (sv_createRoom sv (room_args cg))))
      (failClosed sv cg runtimeDto CF_CONTROL_PLANE_ROOM_FAILED) (\<lambda>roomResult.
    let room = normalizeRoomResult roomResult; roomId = jget room ''id'' in
    if \<not> truthy roomId then failClosed sv cg runtimeDto CF_CONTROL_PLANE_ROOM_FAILED roomResult
    else
      eff_bind (set_active (\<lambda>a. a\<lparr>ac_roomId := roomId\<rparr>)) (\<lambda>_.
      eff_bind (eff_modify (\<lambda>s. s\<lparr>ct_controlPlaneSnapshot := controlPlaneSnapshot False room []\<rparr>)) (\<lambda>_.
      eff_try (open_relay sv cg roomId commandOptions) (failClosed sv cg runtimeDto CF_RELAY_OPEN_FAILED) (\<lambda>relayOpened.
      if \<not> truthy (jget relayOpened ''ok'') then failClosed sv cg runtimeDto CF_RELAY_OPEN_FAILED relayOpened
      else
        eff_bind (set_active (\<lambda>a. a\<lparr>ac_tunnelId := jget (jget relayOpened ''tunnel'') ''id''\<rparr>)) (\<lambda>_.
        eff_bind (set_relaySnapshot (ctl_relaySnapshot (jget relayOpened ''tunnel''))) (\<lambda>_.
        provision_invite sv cg runtimeDto room))))))"

section \<open>Commands\<close>

definition pendingDto :: "('w ctl, jsval) eff" where
  "pendingDto = withReadinessOverrides (blockedRuntimeDto CF_CLEANUP_PENDING) None None"

definition ctl_prepareRoom :: "'w services \<Rightarrow> jsval \<Rightarrow> ('w ctl, jsval) eff" where
  "ctl_prepareRoom sv prepareOptions =
    eff_bind (await_answer (outside (sv_prepareRoom sv prepareOptions))) withRoomReadiness"

definition ctl_openRoom :: "'w services \<Rightarrow> controller_config \<Rightarrow> jsval \<Rightarrow> ('w ctl, jsval) eff" where
  "ctl_openRoom sv cg openOptions =
    eff_bind (eff_get ct_cleanupPending) (\<lambda>pending.
    if pending then pendingDto
    else
      eff_bind (await_answer (outside (sv_openRoom sv openOptions))) (\<lambda>opened.
      if \<not> isRuntimeReadyForInvite (jget opened ''state'')
      then withoutInviteReadiness opened (Some emptyRelaySnapshot)
      else provisionOpenRoom sv cg opened openOptions))"

definition ctl_closeRoom :: "'w services \<Rightarrow> controller_config \<Rightarrow> jsval \<Rightarrow> ('w ctl, jsval) eff" where
  "ctl_closeRoom sv cg closeOptions =
    eff_bind (closeRelayTunnel sv cg closeOptions) (\<lambda>relayClosed.
    eff_bind (ctl_revokeInvite sv cg) (\<lambda>_.
    eff_bind (set_active forget_invite) (\<lambda>_.
    eff_bind (await_answer (outside (sv_closeRoom sv closeOptions))) (\<lambda>runtimeClosed.
    if \<not> relayCloseSucceeded relayClosed then
      eff_bind (set_cleanup True) (\<lambda>_.
      withReadinessOverrides (obj_with runtimeClosed (failure_part CF_RELAY_CLOSE_FAILED []))
        (Some emptyControlPlaneSnapshot) (Some relayClosed))
    else
      eff_bind (set_cleanup False) (\<lambda>_.
      eff_bind (set_active (\<lambda>_. emptyActiveRoom)) (\<lambda>_.
      withReadinessOverrides runtimeClosed (Some emptyControlPlaneSnapshot) (Some relayClosed)))))))"

definition invite_shown :: "'w ctl \<Rightarrow> bool" where
  "invite_shown s \<longleftrightarrow> truthy (ac_inviteLink (ct_active s)) \<and> relayIsReady (ct_relaySnapshot s)"

definition ctl_restartRoom :: "'w services \<Rightarrow> controller_config \<Rightarrow> jsval \<Rightarrow> ('w ctl, jsval) eff" where
  "ctl_restartRoom sv cg restartOptions =
    eff_bind (eff_get ct_cleanupPending) (\<lambda>pending.
    if pending then pendingDto
    else
      eff_bind (await_answer (outside (sv_restartRoom sv restartOptions))) (\<lambda>restarted.
      if \<not> isRuntimeReadyForInvite (jget restarted ''state'') then
        eff_bind (clearOpenRoomSideEffects sv cg) (\<lambda>_. withoutInviteReadiness restarted None)
      else
        eff_bind (eff_get invite_shown) (\<lambda>shown.
        if shown then withRoomReadiness restarted
        else provisionOpenRoom sv cg restarted restartOptions)))"

definition ctl_status :: "'w services \<Rightarrow> ('w ctl, jsval) eff" where
  "ctl_status sv =
    eff_bind (await_answer (outside (sv_status sv))) (\<lambda>runtimeStatus.
    if \<not> isRuntimeReadyForInvite (jget runtimeStatus ''state'') then withoutInviteReadiness runtimeStatus None
    else withRoomReadiness runtimeStatus)"

definition ctl_statusRoom :: "'w services \<Rightarrow> controller_config \<Rightarrow> ('w ctl, jsval) eff" where
  "ctl_statusRoom sv cg =
    eff_bind (await_answer (outside (sv_status sv))) (\<lambda>runtimeStatus.
    if \<not> isRuntimeReadyForInvite (jget runtimeStatus ''state'') then withoutInviteReadiness runtimeStatus None
    else
      eff_bind (eff_get invite_shown) (\<lambda>shown.
      if shown then withRoomReadiness runtimeStatus
      else provisionOpenRoom sv cg runtimeStatus (JObj [])))"

definition createDesktopRoomController :: "'w \<Rightarrow> 'w ctl" where
  "createDesktopRoomController w = \<lparr>ct_active = emptyActiveRoom, ct_relaySnapshot = emptyRelaySnapshot,
     ct_controlPlaneSnapshot = emptyControlPlaneSnapshot, ct_cleanupPending = False, ct_world = w\<rparr>"

end
