(* ===== verification/RoomController_Props.thy ===== *)
theory RoomController_Props
  imports RoomController Machine
begin

text \<open>
  The controller opens a room completely or not at all: whatever the services answer, a command that
  provisions ends with an invite for a registered room with an open relay, or with everything it can
  undo undone and the rest marked for cleanup; and no link is ever held that the control plane did not
  give a handle for.
\<close>

section \<open>Calls change only the world\<close>

lemma ens_outside:
  assumes "\<And>s w. P s \<Longrightarrow> P (s\<lparr>ct_world := w\<rparr>)"
  shows "ens P (await_answer (outside call)) (\<lambda>_. P) (\<lambda>_. P)"
  by (rule ens_await) (auto simp: outside_def assms split: prod.splits)

lemma ens_outside_catching:
  assumes "\<And>s w. P s \<Longrightarrow> P (s\<lparr>ct_world := w\<rparr>)"
  shows "ens P (await_catching (outside call) h) (\<lambda>_. P) (\<lambda>_. P)"
  by (rule ens_await_catching) (auto simp: outside_def assms split: prod.splits)

lemma ens_true: "ens P m (\<lambda>_ _. True) (\<lambda>_ _. True)"
  by (simp add: ens_def split: prod.split sum.split)

section \<open>Undoing\<close>

definition closed_down :: "'w ctl \<Rightarrow> bool" where
  "closed_down s \<longleftrightarrow> ac_inviteLink (ct_active s) = JNull \<and> ac_inviteId (ct_active s) = JNull \<and>
     (ct_cleanupPending s \<or> ct_active s = emptyActiveRoom)"

lemma closed_down_world [simp]: "closed_down (s\<lparr>ct_world := w\<rparr>) = closed_down s"
  by (simp add: closed_down_def)

text \<open>Services whose cleanup methods answer or reject, but never throw at once.\<close>

definition calm :: "'w services \<Rightarrow> bool" where
  "calm sv \<longleftrightarrow> (\<forall>relay args w e. fst (sv_closeHostTunnel sv relay args w) \<noteq> Throws e) \<and>
     (\<forall>revoke args w e. sv_revokeInvite sv = Some revoke \<longrightarrow> fst (revoke args w) \<noteq> Throws e) \<and>
     (\<forall>args w e. fst (sv_closeRoom sv args w) \<noteq> Throws e)"

lemma ens_calm:
  assumes "\<And>w e. calm sv \<Longrightarrow> fst (call w) \<noteq> Throws e" and "\<And>s w. P s \<Longrightarrow> P (s\<lparr>ct_world := w\<rparr>)"
  shows "ens P (await_catching (outside call) h) (\<lambda>_. P) (\<lambda>_ _. \<not> calm sv)"
  unfolding ens_def await_catching_def outside_def
proof (intro allI impI)
  fix s assume "P s"
  obtain a w where a: "call (ct_world s) = (a, w)" by fastforce
  with assms(1) [of "ct_world s"] assms(2) [OF \<open>P s\<close>]
  show "case case case call (ct_world s) of (a, w) \<Rightarrow> (a, s\<lparr>ct_world := w\<rparr>) of (Value v, s') \<Rightarrow> (Inr v, s')
        | (Rejects e, s') \<Rightarrow> (Inr (h e), s') | (Throws e, s') \<Rightarrow> (Inl e, s') of
      (Inl e, s') \<Rightarrow> \<not> calm sv | (Inr a, s') \<Rightarrow> P s'"
    by (cases a) auto
qed

lemma close_relay_calm: "ens P (closeRelayTunnel sv cg (JObj [(''reason'', r)])) (\<lambda>_ _. True) (\<lambda>_ _. \<not> calm sv)"
  unfolding closeRelayTunnel_def set_relaySnapshot_def
  apply (rule ens_bind [where R = "\<lambda>_ _. True"], rule ens_get, simp)
  apply (rule ens_if)
   apply (rule ens_bind [where R = "\<lambda>_ _. True"], rule ens_get, simp)
   apply (rule ens_bind [where R = "\<lambda>_ _. True"], rule ens_modify, simp)
   apply (rule ens_return, simp)
  apply (rule ens_bind [where R = "\<lambda>_ _. True"])
   apply (simp add: dot_def eff_lift_def, rule ens_return, simp)
  apply (rule ens_bind [where R = "\<lambda>_ _. True"])
   apply (rule ens_calm; simp add: calm_def)
  apply (rule ens_bind [where R = "\<lambda>_ _. True"], rule ens_modify, simp)
  apply (rule ens_return, simp)
  done

lemma revoke_calm: "ens P (ctl_revokeInvite sv cg) (\<lambda>_ _. True) (\<lambda>_ _. \<not> calm sv)"
  unfolding ctl_revokeInvite_def
  apply (rule ens_bind [where R = "\<lambda>_ _. True"], rule ens_get, simp)
  apply (rule ens_if)
   apply (rule ens_return, simp)
  apply (cases "sv_revokeInvite sv"; simp)
   apply (rule ens_return, simp)
  apply (rule ens_bind [where R = "\<lambda>_ _. True"])
   apply (rule ens_calm; simp add: calm_def)
  apply (rule ens_return, simp)
  done

lemma clear_closes_down:
  "ens P (clearOpenRoomSideEffects sv cg) (\<lambda>_. closed_down) (\<lambda>_ _. \<not> calm sv)"
  unfolding clearOpenRoomSideEffects_def set_active_def set_cleanup_def
  apply (rule ens_bind [OF close_relay_calm])
  apply (rule ens_bind [OF revoke_calm])
  apply (rule ens_bind [where R = "\<lambda>_ s. ac_inviteLink (ct_active s) = JNull \<and> ac_inviteId (ct_active s) = JNull"])
   apply (rule ens_modify, simp add: forget_invite_def)
  apply (rule ens_bind [where R = "\<lambda>_. closed_down"])
   apply (rule ens_if)
    apply (rule ens_bind [where R = "\<lambda>_ _. True"], rule ens_modify, simp)
    apply (rule ens_modify, simp add: closed_down_def emptyActiveRoom_def)
   apply (rule ens_modify, simp add: closed_down_def)
  apply (rule ens_return, assumption)
  done

text \<open>A failure is shown as the state \<open>blocked\<close>.\<close>

lemma map_of_map_filter_key:
  "distinct (map fst kvs) \<Longrightarrow> Q k \<Longrightarrow>
   map_of (map (\<lambda>(k, x). (k, f k x)) (filter (\<lambda>(k, x). Q k) kvs)) k = map_option (f k) (map_of kvs k)"
  by (induction kvs) (auto split: if_splits)

lemma jget_sanitize_top:
  assumes "distinct (jm_keys kvs)" and "k \<noteq> ''inviteLink''" and "\<not> secret k" and "jm_get kvs k = Some (JStr s)"
  shows "jget (sanitize_top secret redact (JObj kvs)) k = JStr (redact s)"
proof -
  let ?f = "\<lambda>k x. case x of JStr s \<Rightarrow> if k = ''inviteLink'' then JStr s else JStr (redact s)
            | _ \<Rightarrow> sanitize_inner secret redact x"
  let ?out = "map (\<lambda>(k, x). (k, ?f k x)) (filter (\<lambda>(k, x). k = ''inviteLink'' \<or> \<not> secret k) kvs)"
  have "distinct (map fst (filter (\<lambda>(k, x). k = ''inviteLink'' \<or> \<not> secret k) kvs))"
    using assms(1) by (rule distinct_map_filter)
  then have "distinct (jm_keys ?out)" by (simp add: comp_def case_prod_beta)
  then have "fromEntries ?out = ?out" by (rule fromEntries_distinct)
  moreover have "map_of ?out k = map_option (?f k) (map_of kvs k)"
    using assms(1,3) by (intro map_of_map_filter_key) simp_all
  ultimately show ?thesis using assms(2,4) by (simp add: sanitize_top_def)
qed

lemma blocked_text: "controller_redact ''blocked'' = ''blocked''"
  unfolding controller_redact_def by (rule replace_rules_id) code_simp

lemma blocked_shown:
  "jget (room_dto (obj_with runtime (failure_part reason detail)) JNull controlPlane relay) ''state'' = JStr ''blocked''"
proof -
  let ?o = "obj_with (obj_with runtime (failure_part reason detail)) [(''controlPlane'', controlPlane), (''relay'', relay)]"
  have "jget (obj_with runtime (failure_part reason detail)) ''state'' = JStr ''blocked''"
    by (rule jget_obj_with_new) (simp_all add: failure_part_def)
  then have s: "jget ?o ''state'' = JStr ''blocked''"
    by (subst jget_obj_with_old [OF wf_obj_with]) (simp_all, simp add: obj_with_def)
  obtain kvs where kvs: "?o = JObj kvs" by (simp add: obj_with_def)
  have "\<not> key_mentions controller_secret_words ''state''" by code_simp
  then show ?thesis
    using jget_sanitize_top [of kvs "''state''" "key_mentions controller_secret_words" "''blocked''" controller_redact]
      s wf_obj_with [of "obj_with runtime (failure_part reason detail)" "[(''controlPlane'', controlPlane), (''relay'', relay)]"]
    by (auto simp: room_dto_def ctl_sanitizeValue_def kvs wf_obj_def blocked_text split: option.splits)
qed

text \<open>What a failed command shows and leaves.\<close>

definition failed_closed :: "controller_failure set \<Rightarrow> jsval \<Rightarrow> 'w ctl \<Rightarrow> bool" where
  "failed_closed reasons dto s \<longleftrightarrow> closed_down s \<and> jget dto ''state'' = JStr ''blocked'' \<and>
     (\<exists>runtime reason detail controlPlane. reason \<in> reasons \<and>
        dto = room_dto (obj_with runtime (failure_part reason detail)) JNull controlPlane (ct_relaySnapshot s))"

lemma failClosed_fails:
  "reason \<in> reasons \<Longrightarrow> ens P (failClosed sv cg rt reason cause) (failed_closed reasons) (\<lambda>_ _. \<not> calm sv)"
  unfolding failClosed_def withReadinessOverrides_def
  apply (rule ens_bind [OF clear_closes_down])
  apply (rule ens_bind [where R = "\<lambda>_. closed_down"])
   apply (rule ens_calm; simp add: calm_def)
  apply (rule ens_bind [where R = "\<lambda>_. closed_down"])
   apply (rule ens_get, assumption)
  apply (rule ens_get)
  apply (auto simp: failed_closed_def blocked_shown)
  done

section \<open>Opening\<close>

text \<open>A complete opening: what is shown is the runtime with the link made of the handle.\<close>

definition opened_fully :: "'w services \<Rightarrow> controller_config \<Rightarrow> jsval \<Rightarrow> jsval \<Rightarrow> 'w ctl \<Rightarrow> bool" where
  "opened_fully sv cg runtime dto s \<longleftrightarrow>
     (\<exists>handle. truthy handle \<and> ac_inviteLink (ct_active s) =
          JStr (createInviteLink (sv_urlWithInvite sv) (cg_inviteBaseUrl cg) handle)) \<and>
     truthy (ac_inviteId (ct_active s)) \<and> truthy (ac_roomId (ct_active s)) \<and> \<not> nullish (ac_relay (ct_active s)) \<and>
     jget (ct_controlPlaneSnapshot s) ''ready'' = JBool True \<and>
     dto = room_dto runtime (ac_inviteLink (ct_active s)) (ct_controlPlaneSnapshot s) (ct_relaySnapshot s)"

definition step_failures :: "controller_failure set" where
  "step_failures = {CF_CONTROL_PLANE_ROOM_FAILED, CF_RELAY_OPEN_FAILED, CF_CONTROL_PLANE_INVITE_FAILED}"

definition provisioned :: "'w services \<Rightarrow> controller_config \<Rightarrow> jsval \<Rightarrow> jsval \<Rightarrow> 'w ctl \<Rightarrow> bool" where
  "provisioned sv cg runtime dto s \<longleftrightarrow> opened_fully sv cg runtime dto s \<or>
     failed_closed step_failures dto s"

lemma failClosed_provisioned:
  "reason \<in> step_failures \<Longrightarrow>
   ens P (failClosed sv cg rt reason cause) (provisioned sv cg rt) (\<lambda>_ _. \<not> calm sv)"
  by (rule ens_post [OF failClosed_fails]) (auto simp: provisioned_def)

abbreviation relay_up :: "'w ctl \<Rightarrow> bool" where
  "relay_up s \<equiv> truthy (ac_roomId (ct_active s)) \<and> \<not> nullish (ac_relay (ct_active s))"

lemma invite_stage:
  "ens relay_up (provision_invite sv cg rt room) (provisioned sv cg rt) (\<lambda>_ _. \<not> calm sv)"
  unfolding provision_invite_def Let_def set_active_def
  apply (rule ens_try [where R = "\<lambda>_. relay_up" and S = "\<lambda>_. relay_up"])
    apply (rule ens_outside, simp)
   apply (rule failClosed_provisioned, simp add: step_failures_def)
  apply (rule ens_if)
   apply (rule failClosed_provisioned, simp add: step_failures_def)
  subgoal for answer
    apply (rule ens_bind [where R = "\<lambda>_ s. relay_up s \<and> truthy (ac_inviteId (ct_active s)) \<and>
        (\<exists>handle. truthy handle \<and> ac_inviteLink (ct_active s) =
          JStr (createInviteLink (sv_urlWithInvite sv) (cg_inviteBaseUrl cg) handle))"])
     apply (rule ens_modify)
     apply (simp, blast)
    apply (rule ens_bind [where R = "\<lambda>_ s. relay_up s \<and> truthy (ac_inviteId (ct_active s)) \<and>
        (\<exists>handle. truthy handle \<and> ac_inviteLink (ct_active s) =
          JStr (createInviteLink (sv_urlWithInvite sv) (cg_inviteBaseUrl cg) handle)) \<and>
        jget (ct_controlPlaneSnapshot s) ''ready'' = JBool True"])
     apply (rule ens_modify)
     apply (simp add: controlPlaneSnapshot_def)
    apply (rule ens_try [where S = "\<lambda>_ _. True" and R = "\<lambda>_ s. relay_up s \<and> truthy (ac_inviteId (ct_active s)) \<and>
        (\<exists>handle. truthy handle \<and> ac_inviteLink (ct_active s) =
          JStr (createInviteLink (sv_urlWithInvite sv) (cg_inviteBaseUrl cg) handle)) \<and>
        jget (ct_controlPlaneSnapshot s) ''ready'' = JBool True"])
      apply (cases "sv_heartbeatHost sv"; simp add: heartbeat_def)
       apply (rule ens_return, simp)
      apply (rule ens_post [OF ens_outside]; simp)
     apply (rule failClosed_provisioned, simp add: step_failures_def)
    apply (simp only: withRoomReadiness_def)
    apply (rule ens_get)
    apply (auto simp: provisioned_def opened_fully_def)
    done
  done

lemma relay_stage:
  "ens (\<lambda>s. truthy (ac_roomId (ct_active s))) (open_relay sv cg roomId options) (\<lambda>_. relay_up) (\<lambda>_ _. True)"
  unfolding open_relay_def set_active_def
  apply (rule ens_bind [where R = "\<lambda>_ s. truthy (ac_roomId (ct_active s))"])
   apply (rule ens_post [OF ens_outside]; simp)
  apply (rule ens_bind [where R = "\<lambda>_ s. truthy (ac_roomId (ct_active s))"])
   apply (rule ens_modify, simp)
  apply (rule ens_bind [where R = "\<lambda>_ s. truthy (ac_roomId (ct_active s))"])
   apply (rule ens_post [OF ens_outside]; simp)
  subgoal for token x relay
    apply (rule ens_bind [where R = "\<lambda>_ s. truthy (ac_roomId (ct_active s)) \<and> ac_relay (ct_active s) = relay"])
     apply (rule ens_modify, simp)
    apply (rule ens_if)
     apply (rule ens_throw, simp)
    apply (rule ens_pre [where P' = relay_up])
     apply (rule ens_post [OF ens_outside]; simp)
    apply simp
    done
  done

lemma provision_outcome: "ens P (provisionOpenRoom sv cg rt options) (provisioned sv cg rt) (\<lambda>_ _. \<not> calm sv)"
  unfolding provisionOpenRoom_def Let_def
  apply (rule ens_try [where R = "\<lambda>_ _. True" and S = "\<lambda>_ _. True"])
    apply (rule ens_true)
   apply (rule failClosed_provisioned, simp add: step_failures_def)
  apply (rule ens_if)
   apply (rule failClosed_provisioned, simp add: step_failures_def)
  apply (rule ens_bind [where R = "\<lambda>_ s. truthy (ac_roomId (ct_active s))"])
   apply (simp only: set_active_def, rule ens_modify, simp)
  apply (rule ens_bind [where R = "\<lambda>_ s. truthy (ac_roomId (ct_active s))"])
   apply (rule ens_modify, simp)
  apply (rule ens_try [OF relay_stage])
   apply (rule failClosed_provisioned, simp add: step_failures_def)
  apply (rule ens_if)
   apply (rule failClosed_provisioned, simp add: step_failures_def)
  apply (rule ens_bind [where R = "\<lambda>_. relay_up"])
   apply (simp only: set_active_def, rule ens_modify, simp)
  apply (rule ens_bind [where R = "\<lambda>_. relay_up"])
   apply (simp only: set_relaySnapshot_def)
   apply (rule ens_bind [where R = "\<lambda>_. relay_up"])
    apply (rule ens_modify, simp)
   apply (rule ens_return, assumption)
  apply (rule invite_stage)
  done

lemma open_pending: "ct_cleanupPending s \<Longrightarrow> ctl_openRoom sv cg options s =
    (Inr (room_dto (blockedRuntimeDto CF_CLEANUP_PENDING) JNull (ct_controlPlaneSnapshot s) (ct_relaySnapshot s)), s)"
  by (simp add: ctl_openRoom_def eff_bind_def pendingDto_def withReadinessOverrides_def)


text \<open>Services that answer as a running room needs.\<close>

definition sample_services :: "unit services" where
  "sample_services = \<lparr>sv_prepareRoom = \<lambda>_ w. (Value (JObj []), w),
     sv_openRoom = \<lambda>_ w. (Value (JObj [(''state'', JStr ''running'')]), w), sv_closeRoom = \<lambda>_ w. (Value JNull, w),
     sv_restartRoom = \<lambda>_ w. (Value (JObj []), w), sv_status = \<lambda>w. (Value (JObj []), w),
     sv_createRoom = \<lambda>_ w. (Value (JObj [(''id'', JStr ''room_1'')]), w),
     sv_createInvite = \<lambda>_ w. (Value (JObj [(''id'', JStr ''invite_1''), (''publicHandle'', JStr ''h'')]), w),
     sv_heartbeatHost = None, sv_revokeInvite = None, sv_hostToken = \<lambda>_ w. (Value (JStr ''t''), w),
     sv_relayFactory = \<lambda>_ w. (Value (JObj []), w),
     sv_openHostTunnel = \<lambda>_ _ w. (Value (JObj [(''ok'', JBool True)]), w),
     sv_closeHostTunnel = \<lambda>_ _ w. (Value (JObj [(''ok'', JBool True)]), w),
     sv_urlWithInvite = \<lambda>_ _. None\<rparr>"

definition sample_config :: controller_config where
  "sample_config = \<lparr>cg_runtimePlan = JObj [], cg_hostId = JStr ''host_1'', cg_inviteBaseUrl = JStr ''b''\<rparr>"


section \<open>The link\<close>

text \<open>A link is held only with the room and the invite it belongs to.\<close>

definition link_backed :: "'w services \<Rightarrow> controller_config \<Rightarrow> 'w ctl \<Rightarrow> bool" where
  "link_backed sv cg s \<longleftrightarrow> (ac_inviteLink (ct_active s) \<noteq> JNull \<longrightarrow>
     truthy (ac_inviteId (ct_active s)) \<and> truthy (ac_roomId (ct_active s)) \<and>
     (\<exists>handle. truthy handle \<and> ac_inviteLink (ct_active s) =
        JStr (createInviteLink (sv_urlWithInvite sv) (cg_inviteBaseUrl cg) handle)))"

lemma keeps_outside [keeps_rules]: "keeps (link_backed sv cg) (await_answer (outside call))"
  unfolding keeps_def by (rule ens_outside) (simp add: link_backed_def)

lemma keeps_outside_catching [keeps_rules]: "keeps (link_backed sv cg) (await_catching (outside call) h)"
  unfolding keeps_def by (rule ens_outside_catching) (simp add: link_backed_def)

lemma keeps_set_active: "(\<And>s. link_backed sv cg s \<Longrightarrow> link_backed sv cg (s\<lparr>ct_active := f (ct_active s)\<rparr>)) \<Longrightarrow>
    keeps (link_backed sv cg) (set_active f)"
  unfolding set_active_def by (rule keeps_modify)

lemma keeps_other [keeps_rules]:
  "keeps (link_backed sv cg) (set_relaySnapshot v)" "keeps (link_backed sv cg) (set_cleanup b)"
  "keeps (link_backed sv cg) (eff_modify (\<lambda>s. s\<lparr>ct_controlPlaneSnapshot := c\<rparr>))"
  "keeps (link_backed sv cg) (withRoomReadiness dto)" "keeps (link_backed sv cg) (withReadinessOverrides dto cp rl)"
  "keeps (link_backed sv cg) (withoutInviteReadiness dto rl)" "keeps (link_backed sv cg) pendingDto"
  unfolding set_relaySnapshot_def set_cleanup_def withRoomReadiness_def withReadinessOverrides_def
    withoutInviteReadiness_def pendingDto_def
  by (intro keeps_rules keeps_modify; simp add: link_backed_def)+

lemma keeps_actives [keeps_rules]:
  "keeps (link_backed sv cg) (set_active forget_invite)" "keeps (link_backed sv cg) (set_active (\<lambda>_. emptyActiveRoom))"
  "keeps (link_backed sv cg) (set_active (\<lambda>a. a\<lparr>ac_hostToken := t\<rparr>))"
  "keeps (link_backed sv cg) (set_active (\<lambda>a. a\<lparr>ac_relay := t\<rparr>))"
  "keeps (link_backed sv cg) (set_active (\<lambda>a. a\<lparr>ac_tunnelId := t\<rparr>))"
  by (rule keeps_set_active, simp add: link_backed_def forget_invite_def emptyActiveRoom_def)+

lemma keeps_room: "truthy roomId \<Longrightarrow> keeps (link_backed sv cg) (set_active (\<lambda>a. a\<lparr>ac_roomId := roomId\<rparr>))"
  by (rule keeps_set_active) (simp add: link_backed_def)

lemma keeps_undoing [keeps_rules]:
  "keeps (link_backed sv cg) (closeRelayTunnel sv cg options)"
  "keeps (link_backed sv cg) (ctl_revokeInvite sv cg)"
  unfolding closeRelayTunnel_def ctl_revokeInvite_def by (intro keeps_rules)+

lemma keeps_clear [keeps_rules]: "keeps (link_backed sv cg) (clearOpenRoomSideEffects sv cg)"
  unfolding clearOpenRoomSideEffects_def by (intro keeps_rules)

lemma keeps_failClosed [keeps_rules]: "keeps (link_backed sv cg) (failClosed sv cg rt reason cause)"
  unfolding failClosed_def by (intro keeps_rules)

lemma keeps_open_relay [keeps_rules]: "keeps (link_backed sv cg) (open_relay sv cg roomId options)"
  unfolding open_relay_def by (intro keeps_rules)

text \<open>The invite is stored for the room that was stored before.\<close>

definition backed_room :: "'w services \<Rightarrow> controller_config \<Rightarrow> 'w ctl \<Rightarrow> bool" where
  "backed_room sv cg s \<longleftrightarrow> link_backed sv cg s \<and> truthy (ac_roomId (ct_active s))"

lemma keeps_backed [keeps_rules]:
  "keeps (backed_room sv cg) (await_answer (outside call))"
  "keeps (backed_room sv cg) (set_relaySnapshot v)"
  "keeps (backed_room sv cg) (eff_modify (\<lambda>s. s\<lparr>ct_controlPlaneSnapshot := c\<rparr>))"
  "keeps (backed_room sv cg) (set_active (\<lambda>a. a\<lparr>ac_hostToken := t\<rparr>))"
  "keeps (backed_room sv cg) (set_active (\<lambda>a. a\<lparr>ac_relay := t\<rparr>))"
  "keeps (backed_room sv cg) (set_active (\<lambda>a. a\<lparr>ac_tunnelId := t\<rparr>))"
  subgoal unfolding keeps_def by (rule ens_outside) (simp add: backed_room_def link_backed_def)
  unfolding set_relaySnapshot_def set_active_def
  by (intro keeps_rules keeps_modify; simp add: backed_room_def link_backed_def)+

lemma keeps_backed_relay: "keeps (backed_room sv cg) (open_relay sv cg roomId options)"
  unfolding open_relay_def by (intro keeps_rules)

lemma keeps_heartbeat: "keeps (backed_room sv cg) (heartbeat sv cg roomId)"
  unfolding heartbeat_def by (intro keeps_rules)

text \<open>From a state with a backed room, into one with a backed link.\<close>

abbreviation to_linked :: "'w services \<Rightarrow> controller_config \<Rightarrow> ('w ctl, 'a) eff \<Rightarrow> bool" where
  "to_linked sv cg m \<equiv> ens (backed_room sv cg) m (\<lambda>_. link_backed sv cg) (\<lambda>_. link_backed sv cg)"

lemma to_linked_kept: "keeps (link_backed sv cg) m \<Longrightarrow> to_linked sv cg m"
  unfolding keeps_def by (erule ens_pre) (simp add: backed_room_def)

lemma backed_step: "keeps (backed_room sv cg) m \<Longrightarrow> ens (backed_room sv cg) m (\<lambda>_. backed_room sv cg) (\<lambda>_. link_backed sv cg)"
  unfolding keeps_def by (erule ens_post) (simp_all add: backed_room_def)

lemma to_linked_bind:
  "keeps (backed_room sv cg) m \<Longrightarrow> (\<And>a. to_linked sv cg (k a)) \<Longrightarrow> to_linked sv cg (eff_bind m k)"
  by (rule ens_bind [OF backed_step])

lemma to_linked_try:
  assumes "keeps (backed_room sv cg) m" and "\<And>e. keeps (link_backed sv cg) (h e)" and "\<And>a. to_linked sv cg (k a)"
  shows "to_linked sv cg (eff_try m h k)"
  using assms(1) unfolding keeps_def by (rule ens_try) (auto intro: to_linked_kept assms)

lemma linked_invite: "to_linked sv cg (provision_invite sv cg rt room)"
  unfolding provision_invite_def Let_def
  apply (rule to_linked_try, intro keeps_rules, intro keeps_rules)
  apply (rule ens_if, rule to_linked_kept, intro keeps_rules)
  apply (rule ens_bind [where R = "\<lambda>_. backed_room sv cg"])
   apply (simp only: set_active_def, rule ens_modify, auto simp: backed_room_def link_backed_def) [1]
  apply (rule to_linked_bind, intro keeps_rules)
  apply (rule to_linked_try, rule keeps_heartbeat, intro keeps_rules)
  apply (rule to_linked_kept, intro keeps_rules)
  done

lemma linked_relay: "to_linked sv cg (eff_try (open_relay sv cg roomId options) (failClosed sv cg rt CF_RELAY_OPEN_FAILED)
  (\<lambda>relayOpened. if \<not> truthy (jget relayOpened ''ok'') then failClosed sv cg rt CF_RELAY_OPEN_FAILED relayOpened
    else eff_bind (set_active (\<lambda>a. a\<lparr>ac_tunnelId := jget (jget relayOpened ''tunnel'') ''id''\<rparr>))
      (\<lambda>_. eff_bind (set_relaySnapshot (ctl_relaySnapshot (jget relayOpened ''tunnel'')))
        (\<lambda>_. provision_invite sv cg rt room))))"
  apply (rule to_linked_try, rule keeps_backed_relay, intro keeps_rules)
  apply (rule ens_if, rule to_linked_kept, intro keeps_rules)
  apply (intro to_linked_bind linked_invite keeps_rules)
  done

lemma keeps_provision [keeps_rules]: "keeps (link_backed sv cg) (provisionOpenRoom sv cg rt options)"
  unfolding provisionOpenRoom_def Let_def
  apply (rule keeps_try, intro keeps_rules, intro keeps_rules)
  subgoal for result
    unfolding keeps_def
    apply (rule ens_if)
     apply (fold keeps_def, intro keeps_rules) [1]
    apply (rule ens_bind [where R = "\<lambda>_. backed_room sv cg"])
     apply (simp only: set_active_def, rule ens_modify, simp add: backed_room_def link_backed_def)
    apply (rule to_linked_bind, intro keeps_rules)
    apply (rule linked_relay)
    done
  done

section \<open>The commands as a machine\<close>

datatype command = Ctl_prepare jsval | Ctl_open jsval | Ctl_close jsval | Ctl_restart jsval
  | Ctl_status | Ctl_statusRoom

primrec command_eff :: "'w services \<Rightarrow> controller_config \<Rightarrow> command \<Rightarrow> ('w ctl, jsval) eff" where
  "command_eff sv cg (Ctl_prepare options) = ctl_prepareRoom sv options"
| "command_eff sv cg (Ctl_open options) = ctl_openRoom sv cg options"
| "command_eff sv cg (Ctl_close options) = ctl_closeRoom sv cg options"
| "command_eff sv cg (Ctl_restart options) = ctl_restartRoom sv cg options"
| "command_eff sv cg Ctl_status = ctl_status sv"
| "command_eff sv cg Ctl_statusRoom = ctl_statusRoom sv cg"

text \<open>A command that throws leaves the state it reached; the world may change between commands.\<close>

datatype 'w ctl_event = Ctl_command command | Ctl_world 'w

primrec ctl_exec :: "'w services \<Rightarrow> controller_config \<Rightarrow> 'w ctl_event \<Rightarrow> 'w ctl \<Rightarrow> 'w ctl" where
  "ctl_exec sv cg (Ctl_command c) s = snd (command_eff sv cg c s)"
| "ctl_exec sv cg (Ctl_world w) s = s\<lparr>ct_world := w\<rparr>"

definition ctl_init :: "'w ctl \<Rightarrow> bool" where
  "ctl_init s \<longleftrightarrow> s = createDesktopRoomController (ct_world s)"

lemma keeps_command: "keeps (link_backed sv cg) (command_eff sv cg c)"
  by (cases c; simp add: ctl_prepareRoom_def ctl_openRoom_def ctl_closeRoom_def ctl_restartRoom_def
      ctl_status_def ctl_statusRoom_def; intro keeps_rules)

interpretation ctlm: invariant ctl_init "\<lambda>_ _. True" "ctl_exec sv cg" "link_backed sv cg"
proof unfold_locales
  show "link_backed sv cg s" if "ctl_init s" for s
  proof -
    have "ct_active s = emptyActiveRoom"
      using arg_cong [OF that [unfolded ctl_init_def], of ct_active] by (simp add: createDesktopRoomController_def)
    then show ?thesis by (simp add: link_backed_def emptyActiveRoom_def)
  qed
  show "link_backed sv cg (ctl_exec sv cg a s)" if "link_backed sv cg s" for a s
  proof (cases a)
    case (Ctl_command c)
    with keepsD [OF keeps_command that] show ?thesis by simp
  next
    case (Ctl_world w)
    with that show ?thesis by (simp add: link_backed_def)
  qed
qed



section \<open>What a failed close leaves\<close>

text \<open>
  A status read of a running room whose relay is not ready provisions the room again, whether or not
  cleanup is pending: \<open>statusRoom\<close> has no guard, \<open>openRoom\<close> and \<open>restartRoom\<close> have one.
\<close>

lemma statusRoom_ignores_cleanup:
  assumes "await_answer (outside (sv_status sv)) s = (Inr runtime, s1)"
    and "isRuntimeReadyForInvite (jget runtime ''state'')" and "\<not> truthy (ac_inviteLink (ct_active s1))"
  shows "ctl_statusRoom sv cg s = provisionOpenRoom sv cg runtime (JObj []) s1"
  using assms by (simp add: ctl_statusRoom_def eff_bind_def invite_shown_def)

text \<open>
  When the relay could not be closed and the runtime's close is rejected too, the rejection is
  passed on before the mark for cleanup is set: the next \<open>openRoom\<close> is not held back.
\<close>

lemma closeRoom_rejected_unmarked:
  assumes "closeRelayTunnel sv cg options s = (Inr relayClosed, s1)" and "ctl_revokeInvite sv cg s1 = (Inr (), s2)"
    and "await_answer (outside (sv_closeRoom sv options)) (s2\<lparr>ct_active := forget_invite (ct_active s2)\<rparr>) = (Inl e, s3)"
  shows "ctl_closeRoom sv cg options s = (Inl e, s3)" and "ct_cleanupPending s3 = ct_cleanupPending s2"
proof -
  show "ctl_closeRoom sv cg options s = (Inl e, s3)"
    using assms by (simp add: ctl_closeRoom_def eff_bind_def set_active_def)
  show "ct_cleanupPending s3 = ct_cleanupPending s2"
    using assms(3) by (auto simp: await_answer_def outside_def split: prod.splits answer.splits)
qed

end
