(* ===== verification/BoundaryAdapter.thy ===== *)
theory BoundaryAdapter
  imports Http_Props DesktopText Effects
begin

text \<open>
  \<open>apps/desktop/src/runtime/control-plane-boundary-adapter.mjs\<close>: the control plane as the desktop
  runtime calls it. Every method sends one request to an HTTP boundary and reads the reply. The
  boundary is a parameter \<open>handle\<close> over the state \<open>'w\<close> it works on; \<open>plane_handle\<close> is the one the
  program makes, with what the boundary draws for its next requests beside it.
\<close>

section \<open>Sending\<close>

type_synonym 'w http_handler = "http_request \<Rightarrow> ('w, http_reply) eff"

definition adapter_header_list :: "jsval \<Rightarrow> jsval \<Rightarrow> (string \<times> jsval) list" where
  "adapter_header_list actorId actorType =
     (if truthy actorId then [(''x-actor-id'', actorId)] else []) @
     (if truthy actorType then [(''x-actor-type'', actorType)] else [])"

definition adapter_request :: "string \<Rightarrow> string \<Rightarrow> jsval \<Rightarrow> jsval \<Rightarrow> jsval \<Rightarrow> http_request" where
  "adapter_request meth path actorId actorType body = \<lparr>hq_method = JStr meth, hq_path = JStr path,
     hq_headers = JObj (adapter_header_list actorId actorType), hq_body = body\<rparr>"

definition adapter_result :: "http_reply \<Rightarrow> jsval" where
  "adapter_result response =
    (if hr_status response \<ge> 400 then JObj [(''ok'', JBool False), (''status'', JNum (hr_status response)),
       (''reason'', coalesce (coalesce (jget (jget (hr_body response) ''error'') ''reason'')
          (jget (hr_body response) ''reason'')) (JStr ''control_plane_unavailable''))]
     else JObj [(''ok'', JBool True), (''status'', JNum (hr_status response)),
       (''body'', coalesce (hr_body response) (JObj []))])"

definition adapter_send :: "'w http_handler \<Rightarrow> http_request \<Rightarrow> ('w, jsval) eff" where
  "adapter_send handle request = eff_bind (handle request) (\<lambda>response. eff_return (adapter_result response))"

text \<open>A method's result: the failed result itself, or what is made of the body.\<close>

definition when_ok :: "(jsval \<Rightarrow> jsval) \<Rightarrow> jsval \<Rightarrow> jsval" where
  "when_ok f result = (if truthy (jget result ''ok'') then f (jget result ''body'') else result)"

definition adapter_method :: "'w http_handler \<Rightarrow> (jsval \<Rightarrow> http_request) \<Rightarrow> (jsval \<Rightarrow> jsval) \<Rightarrow> jsval \<Rightarrow> ('w, jsval) eff"
where
  "adapter_method handle request f args =
    (if nullish args then eff_throw type_error
     else eff_bind (adapter_send handle (request args)) (\<lambda>result. eff_return (f result)))"

definition id_path :: "string \<Rightarrow> jsval \<Rightarrow> string \<Rightarrow> string" where
  "id_path pre name post = pre @ encodeURIComponent name @ post"

section \<open>The methods\<close>

definition ad_createRoom :: "'w http_handler \<Rightarrow> jsval \<Rightarrow> ('w, jsval) eff" where
  "ad_createRoom handle = adapter_method handle
     (\<lambda>a. adapter_request ''POST'' ''/host/rooms'' (jget a ''hostId'') JUndef (JObj [(''alias'', jget a ''alias''),
        (''minecraftVersion'', jget a ''minecraftVersion''), (''packProfileName'', jget a ''packProfileName'')]))
     (when_ok (\<lambda>body. JObj [(''ok'', JBool True), (''room'', jget body ''room'')]))"

definition ad_heartbeatHost :: "'w http_handler \<Rightarrow> jsval \<Rightarrow> ('w, jsval) eff" where
  "ad_heartbeatHost handle = adapter_method handle
     (\<lambda>a. adapter_request ''POST'' (id_path ''/host/rooms/'' (jget a ''roomId'') ''/heartbeat'')
        (jget a ''actorId'') JUndef JUndef)
     (\<lambda>result. jget result ''ok'')"

definition ad_createInvite :: "'w http_handler \<Rightarrow> jsval \<Rightarrow> ('w, jsval) eff" where
  "ad_createInvite handle = adapter_method handle
     (\<lambda>a. adapter_request ''POST'' (id_path ''/host/rooms/'' (jget a ''roomId'') ''/invites'')
        (jget a ''actorId'') JUndef JUndef)
     (when_ok (\<lambda>body. let handle = jget (jget body ''invite'') ''handle'' in
        JObj [(''ok'', JBool (truthy handle)), (''invite'', JObj [(''id'', handle), (''publicHandle'', handle),
          (''expiresAt'', jget (jget body ''invite'') ''expiresAt'')])]))"

definition ad_revokeInvite :: "'w http_handler \<Rightarrow> jsval \<Rightarrow> ('w, jsval) eff" where
  "ad_revokeInvite handle = adapter_method handle
     (\<lambda>a. adapter_request ''POST'' (id_path ''/host/invites/'' (jget a ''inviteId'') ''/revoke'')
        (jget a ''actorId'') JUndef JUndef)
     (when_ok (\<lambda>_. JObj [(''ok'', JBool True)]))"

definition ad_readSafeInviteStatus :: "'w http_handler \<Rightarrow> jsval \<Rightarrow> ('w, jsval) eff" where
  "ad_readSafeInviteStatus handle = adapter_method handle
     (\<lambda>a. adapter_request ''GET'' (if truthy (jget a ''inviteHandle'')
        then id_path ''/friend/invites/'' (jget a ''inviteHandle'') [] else ''/friend/invites'') JUndef JUndef JUndef)
     (\<lambda>result. if truthy (jget result ''ok'')
        then JObj [(''ok'', JBool True), (''invite'', jget (jget result ''body'') ''invite'')]
        else JObj [(''ok'', JBool False), (''unavailable'', JBool True), (''reason'', jget result ''reason'')])"

definition ad_createJoinRequest :: "'w http_handler \<Rightarrow> jsval \<Rightarrow> ('w, jsval) eff" where
  "ad_createJoinRequest handle = adapter_method handle
     (\<lambda>a. adapter_request ''POST'' ''/friend/join-requests'' JUndef JUndef (JObj [(''inviteHandle'', jget a ''inviteHandle''),
        (''friendId'', jget a ''friendId''), (''minecraftUuid'', jget a ''minecraftUuid''),
        (''displayName'', jget a ''displayName'')]))
     (when_ok (\<lambda>body. JObj [(''ok'', JBool True), (''request'', jget body ''request'')]))"

definition ad_readApprovalQueue :: "'w http_handler \<Rightarrow> jsval \<Rightarrow> ('w, jsval) eff" where
  "ad_readApprovalQueue handle = adapter_method handle
     (\<lambda>a. adapter_request ''GET'' (id_path ''/host/rooms/'' (jget a ''roomId'') ''/approval-queue'')
        (jget a ''actorId'') JUndef JUndef)
     (when_ok (\<lambda>body. JObj [(''ok'', JBool True), (''requests'', coalesce (jget body ''requests'') (JArr []))]))"

definition ad_decideJoinRequest :: "'w http_handler \<Rightarrow> jsval \<Rightarrow> ('w, jsval) eff" where
  "ad_decideJoinRequest handle = adapter_method handle
     (\<lambda>a. adapter_request ''POST'' (id_path ''/host/join-requests/'' (jget a ''requestId'') ''/decision'')
        (jget a ''actorId'') JUndef (JObj [(''decision'', jget a ''decision'')]))
     (when_ok (\<lambda>body. JObj [(''ok'', JBool True), (''request'', jget body ''request'')]))"

definition ad_issueSession :: "'w http_handler \<Rightarrow> jsval \<Rightarrow> ('w, jsval) eff" where
  "ad_issueSession handle = adapter_method handle
     (\<lambda>a. adapter_request ''POST'' ''/service/sessions'' JUndef (JStr (actor_str SERVICE))
        (JObj [(''requestId'', jget a ''requestId''), (''minecraftUuid'', jget a ''minecraftUuid'')]))
     (when_ok (\<lambda>body. JObj [(''ok'', JBool True), (''session'', jget body ''session'')]))"

section \<open>The boundary the program makes\<close>

text \<open>The boundary with the supply of what it draws: the first \<open>pl_next\<close> entries are used up.\<close>

record plane =
  pl_boundary :: http_boundary
  pl_next :: nat

definition plane_handle ::
  "(string \<Rightarrow> string) \<Rightarrow> sim_config \<Rightarrow> (nat \<Rightarrow> drawn) \<Rightarrow> plane http_handler" where
  "plane_handle sha256 c supply request = (\<lambda>p.
     case http_handle sha256 c (supply (pl_next p)) request (pl_boundary p) of
       None \<Rightarrow> (Inl type_error, p\<lparr>pl_next := Suc (pl_next p)\<rparr>)
     | Some (response, b) \<Rightarrow> (Inr response, \<lparr>pl_boundary = b, pl_next = Suc (pl_next p)\<rparr>))"

section \<open>Identifiers on the way\<close>

lemma encode_char_not_slash: "CHR ''/'' \<notin> set (encode_char x)"
proof (cases "uri_unreserved x")
  case True
  moreover have "\<not> uri_unreserved CHR ''/''" by code_simp
  ultimately have "x \<noteq> CHR ''/''" by blast
  with True show ?thesis by (simp add: encode_char_def)
next
  case False
  have "upper_hex n \<noteq> CHR ''/''" if "n < 16" for n
  proof -
    have "of_char (upper_hex n) \<noteq> (47 :: nat)" using that by (auto simp: upper_hex_def)
    then show ?thesis by auto
  qed
  then have hex: "CHR ''/'' \<noteq> upper_hex n" if "n < 16" for n
    using that by metis
  have "of_char x < (256 :: nat)"
    by (metis mod_less_divisor of_char_mod_256 zero_less_numeral)
  moreover have "n div 16 < 16" "(192 + n div 64) div 16 < 16" if "n < 256" for n :: nat
  proof -
    show "n div 16 < 16" using that by (intro less_mult_imp_div_less) simp
    have "n div 64 < 4" using that by (intro less_mult_imp_div_less) simp
    then show "(192 + n div 64) div 16 < 16" by (intro less_mult_imp_div_less) simp
  qed
  moreover have "(128 + of_char x mod 64) div 16 < (16 :: nat)" by simp
  ultimately have "(192 + of_char x div 64) div 16 < (16 :: nat)" "(128 + of_char x mod 64) div 16 < (16 :: nat)"
    "of_char x div 16 < (16 :: nat)" by blast+
  then show ?thesis using False hex
    by (simp add: encode_char_def percent_byte_def Let_def)
qed

lemma encode_no_slash [simp]: "CHR ''/'' \<notin> set (encodeURIComponent v)"
  using encode_char_not_slash by (auto simp: encodeURIComponent_def)

lemma encode_char_Nil [simp]: "encode_char x \<noteq> []"
  by (simp add: encode_char_def percent_byte_def Let_def)

lemma encode_Nil [simp]: "encodeURIComponent v = [] \<longleftrightarrow> js_string v = []"
  by (auto simp: encodeURIComponent_def)

lemma encode_char_id: "encode_char x = [x] \<longleftrightarrow> uri_unreserved x"
  by (simp add: encode_char_def percent_byte_def Let_def)

lemma length_encode: "length (encodeURIComponent v) \<ge> length (js_string v)"
proof -
  have "length xs \<le> length (concat (map encode_char xs))" for xs
  proof (induction xs)
    case (Cons x xs)
    moreover have "1 \<le> length (encode_char x)" by (cases "encode_char x") (use encode_char_Nil in auto)
    ultimately show ?case by simp
  qed simp
  then show ?thesis by (simp add: encodeURIComponent_def)
qed

lemma encode_id: "encodeURIComponent (JStr s) = s \<longleftrightarrow> list_all uri_unreserved s"
proof -
  have len: "length xs \<le> length (concat (map encode_char xs))" for xs
    using length_encode [of "JStr xs"] by (simp add: encodeURIComponent_def)
  have "concat (map encode_char s) = s \<longleftrightarrow> list_all uri_unreserved s"
  proof (induction s)
    case (Cons x xs)
    show ?case
    proof (cases "uri_unreserved x")
      case True
      with Cons show ?thesis by (simp add: encode_char_id [symmetric])
    next
      case False
      then have "2 \<le> length (encode_char x)"
        by (simp add: encode_char_def percent_byte_def Let_def)
      with len [of xs] have "length (encode_char x @ concat (map encode_char xs)) > length (x # xs)" by simp
      then have "encode_char x @ concat (map encode_char xs) \<noteq> x # xs" by fastforce
      with False show ?thesis by simp
    qed
  qed simp
  then show ?thesis by (simp add: encodeURIComponent_def)
qed

section \<open>What the boundary serves\<close>

lemma path_match_hit:
  "seg \<noteq> [] \<Longrightarrow> CHR ''/'' \<notin> set seg \<Longrightarrow> path_match pre post (pre @ seg @ post) = Some seg"
  by (simp add: path_match_def js_startsWith_prefix js_endsWith_suffix suffix_def)

lemma path_match_prefix: "\<not> js_startsWith path pre \<Longrightarrow> path_match pre post path = None"
  by (simp add: path_match_def)

lemma path_match_suffix:
  assumes "last post \<noteq> last path" and "post \<noteq> []"
  shows "path_match pre post path = None"
proof -
  have "\<not> suffix post (drop (length pre) path)"
  proof
    assume "suffix post (drop (length pre) path)"
    then have "suffix post path" by (meson suffix_drop suffix_order.trans)
    with assms show False by (auto simp: suffix_def)
  qed
  then show ?thesis by (simp add: path_match_def js_endsWith_suffix Let_def)
qed

text \<open>A path without a slash at its end is taken as it is.\<close>

lemma normal_path: "path \<noteq> [] \<Longrightarrow> last path \<noteq> CHR ''/'' \<Longrightarrow> normalizePath (JStr path) = Some path"
  by (auto simp: normalizePath_def js_endsWith_suffix suffix_def)

lemma adapter_header_names: "toLowerCase ''x-actor-id'' = ''x-actor-id''" "toLowerCase ''x-actor-type'' = ''x-actor-type''"
  by code_simp+

lemma normal_headers:
  "normalizeHeaders (JObj (adapter_header_list actorId actorType)) = Some (adapter_header_list actorId actorType)"
  by (simp add: normalizeHeaders_def adapter_header_list_def adapter_header_names fromEntries_def)

lemma header_values:
  "actorIdFrom (adapter_header_list actorId actorType) = (if truthy actorId then actorId else JUndef)"
  "actorTypeFrom (adapter_header_list actorId actorType) = (if truthy actorType then actorType else JUndef)"
  by (simp_all add: actorIdFrom_def actorTypeFrom_def header_of_def adapter_header_list_def)

lemma handle_adapter_request:
  assumes "path \<noteq> []" and "last path \<noteq> CHR ''/''"
  shows "http_handle h c dr (adapter_request meth path actorId actorType body) b =
    http_serve h c dr (route_of (normalizeMethod (JStr meth)) path)
      (adapter_header_list actorId actorType) (coalesce body (JObj [])) b"
  using assms by (simp add: http_handle_def adapter_request_def normal_path normal_headers Let_def)

lemma adapter_methods: "normalizeMethod (JStr ''POST'') = ''POST''" "normalizeMethod (JStr ''GET'') = ''GET''"
  by code_simp+

lemma route_paths:
  assumes "js_string v \<noteq> []"
  shows "route_of ''POST'' (id_path ''/host/rooms/'' v ''/heartbeat'') = Route_heartbeat (encodeURIComponent v)"
    and "route_of ''POST'' (id_path ''/host/rooms/'' v ''/invites'') = Route_createInvite (encodeURIComponent v)"
    and "route_of ''POST'' (id_path ''/host/invites/'' v ''/revoke'') = Route_revokeInvite (encodeURIComponent v)"
    and "route_of ''GET'' (id_path ''/friend/invites/'' v []) = Route_safeInvite (Some (encodeURIComponent v))"
    and "route_of ''GET'' (id_path ''/host/rooms/'' v ''/approval-queue'') = Route_queue (encodeURIComponent v)"
    and "route_of ''POST'' (id_path ''/host/join-requests/'' v ''/decision'') = Route_decision (encodeURIComponent v)"
proof -
  let ?e = "encodeURIComponent v"
  have e: "?e \<noteq> []" "CHR ''/'' \<notin> set ?e" using assms by simp_all
  note hit = path_match_hit [OF e]
  show "route_of ''POST'' (id_path ''/host/rooms/'' v ''/heartbeat'') = Route_heartbeat ?e"
    using hit [of "''/host/rooms/''" "''/heartbeat''"]
    by (simp add: route_of_def first_match_def when_method_def id_path_def)
  show "route_of ''POST'' (id_path ''/host/rooms/'' v ''/invites'') = Route_createInvite ?e"
    using hit [of "''/host/rooms/''" "''/invites''"]
      path_match_suffix [of "''/heartbeat''" "''/host/rooms/'' @ ?e @ ''/invites''" "''/host/rooms/''"]
    by (simp add: route_of_def first_match_def when_method_def id_path_def)
  show "route_of ''POST'' (id_path ''/host/invites/'' v ''/revoke'') = Route_revokeInvite ?e"
    using hit [of "''/host/invites/''" "''/revoke''"]
      path_match_prefix [of "''/host/invites/'' @ ?e @ ''/revoke''" "''/host/rooms/''"]
    by (simp add: route_of_def first_match_def when_method_def id_path_def)
  show "route_of ''GET'' (id_path ''/friend/invites/'' v []) = Route_safeInvite (Some ?e)"
    using hit [of "''/friend/invites/''" "[]"]
    by (simp add: route_of_def first_match_def when_method_def id_path_def)
  show "route_of ''GET'' (id_path ''/host/rooms/'' v ''/approval-queue'') = Route_queue ?e"
    using hit [of "''/host/rooms/''" "''/approval-queue''"]
      path_match_prefix [of "''/host/rooms/'' @ ?e @ ''/approval-queue''" "''/friend/invites/''"]
    by (simp add: route_of_def first_match_def when_method_def id_path_def)
  show "route_of ''POST'' (id_path ''/host/join-requests/'' v ''/decision'') = Route_decision ?e"
    using hit [of "''/host/join-requests/''" "''/decision''"]
      path_match_prefix [of "''/host/join-requests/'' @ ?e @ ''/decision''" "''/host/rooms/''"]
      path_match_prefix [of "''/host/join-requests/'' @ ?e @ ''/decision''" "''/host/invites/''"]
    by (simp add: route_of_def first_match_def when_method_def id_path_def)
qed

section \<open>The methods over the program's boundary\<close>

text \<open>A boundary that answers every request with the given handler.\<close>

definition plane_serve ::
  "(nat \<Rightarrow> drawn) \<Rightarrow> (drawn \<Rightarrow> http_boundary \<Rightarrow> (http_reply \<times> http_boundary) option) \<Rightarrow> plane http_handler" where
  "plane_serve supply serve request = (\<lambda>p. case serve (supply (pl_next p)) (pl_boundary p) of
       None \<Rightarrow> (Inl type_error, p\<lparr>pl_next := Suc (pl_next p)\<rparr>)
     | Some (response, b) \<Rightarrow> (Inr response, \<lparr>pl_boundary = b, pl_next = Suc (pl_next p)\<rparr>))"

lemma falsy_actor:
  "http_createRoom dr (if truthy a then a else JUndef) body b = http_createRoom dr a body b"
  "http_heartbeatHost (if truthy a then a else JUndef) v b = http_heartbeatHost a v b"
  "http_createInvite h c dr (if truthy a then a else JUndef) v b = http_createInvite h c dr a v b"
  "http_revokeInvite (if truthy a then a else JUndef) v b = http_revokeInvite a v b"
  "http_readApprovalQueue (if truthy a then a else JUndef) v b = http_readApprovalQueue a v b"
  "http_decideJoinRequest (if truthy a then a else JUndef) v d b = http_decideJoinRequest a v d b"
  by (simp_all add: http_createRoom_def http_heartbeatHost_def http_createInvite_def http_revokeInvite_def
      http_readApprovalQueue_def http_decideJoinRequest_def)

lemma adapter_method_over:
  assumes "\<not> nullish args \<Longrightarrow> handle (request args) = handle' (request args)"
  shows "adapter_method handle request f args = adapter_method handle' request f args"
  using assms by (simp add: adapter_method_def adapter_send_def)

lemma plane_handle_serve:
  assumes "\<And>dr b. http_handle h c dr request b = serve dr b"
  shows "plane_handle h c supply request = plane_serve supply serve request"
  by (simp add: plane_handle_def plane_serve_def assms)

lemma id_path_ends [simp]:
  "id_path pre v post \<noteq> []" if "pre \<noteq> []"
  using that by (simp add: id_path_def)

lemma last_id_path:
  "post \<noteq> [] \<Longrightarrow> last (id_path pre v post) = last post"
  "js_string v \<noteq> [] \<Longrightarrow> last (id_path pre v []) \<noteq> CHR ''/''"
  using encode_no_slash [of v] by (auto simp: id_path_def simp del: encode_no_slash)
    (metis encode_Nil last_in_set)

lemma fixed_routes:
  "route_of ''POST'' ''/host/rooms'' = Route_createRoom"
  "route_of ''POST'' ''/friend/join-requests'' = Route_joinRequest"
  "route_of ''POST'' ''/service/sessions'' = Route_session"
  "route_of ''GET'' ''/friend/invites'' = Route_safeInvite None"
  by code_simp+

lemmas adapter_serve_simps = handle_adapter_request adapter_methods header_values falsy_actor last_id_path
  route_paths fixed_routes

text \<open>How an argument names a record in a path.\<close>

definition named_id :: "jsval \<Rightarrow> string \<Rightarrow> jsval" where
  "named_id args k = JStr (encodeURIComponent (jget args k))"

lemma service_name: "actor_str SERVICE \<noteq> []"
  by code_simp

text \<open>
  Over the boundary the program makes, every method of the adapter is one call of the handler
  it stands for. Rooms, invites and requests are named by their percent-encoded identifiers, which
  are the identifiers themselves exactly when they consist of unreserved characters.
\<close>

theorem adapter_serves_control_plane:
  assumes "js_string (jget args ''roomId'') \<noteq> []" and "js_string (jget args ''inviteId'') \<noteq> []"
    and "js_string (jget args ''inviteHandle'') \<noteq> []" and "js_string (jget args ''requestId'') \<noteq> []"
  shows "ad_createRoom (plane_handle h c supply) args = ad_createRoom (plane_serve supply (\<lambda>dr b. Some
           (http_createRoom dr (jget args ''hostId'') (JObj [(''alias'', jget args ''alias''),
              (''minecraftVersion'', jget args ''minecraftVersion''),
              (''packProfileName'', jget args ''packProfileName'')]) b))) args \<and>
    ad_heartbeatHost (plane_handle h c supply) args = ad_heartbeatHost (plane_serve supply (\<lambda>dr b. Some
           (http_heartbeatHost (jget args ''actorId'') (named_id args ''roomId'') b))) args \<and>
    ad_createInvite (plane_handle h c supply) args = ad_createInvite (plane_serve supply (\<lambda>dr b. Some
           (http_createInvite h c dr (jget args ''actorId'') (named_id args ''roomId'') b))) args \<and>
    ad_revokeInvite (plane_handle h c supply) args = ad_revokeInvite (plane_serve supply (\<lambda>dr b. Some
           (http_revokeInvite (jget args ''actorId'') (named_id args ''inviteId'') b))) args \<and>
    ad_readSafeInviteStatus (plane_handle h c supply) args = ad_readSafeInviteStatus (plane_serve supply (\<lambda>dr b. Some
           (http_readSafeInviteStatus h (if truthy (jget args ''inviteHandle'') then named_id args ''inviteHandle'' else JUndef) b))) args \<and>
    ad_createJoinRequest (plane_handle h c supply) args = ad_createJoinRequest (plane_serve supply (\<lambda>dr b.
           http_createJoinRequest h c dr (JObj [(''inviteHandle'', jget args ''inviteHandle''),
              (''friendId'', jget args ''friendId''), (''minecraftUuid'', jget args ''minecraftUuid''),
              (''displayName'', jget args ''displayName'')]) b)) args \<and>
    ad_readApprovalQueue (plane_handle h c supply) args = ad_readApprovalQueue (plane_serve supply (\<lambda>dr b. Some
           (http_readApprovalQueue (jget args ''actorId'') (named_id args ''roomId'') b))) args \<and>
    ad_decideJoinRequest (plane_handle h c supply) args = ad_decideJoinRequest (plane_serve supply (\<lambda>dr b. Some
           (http_decideJoinRequest (jget args ''actorId'') (named_id args ''requestId'') (jget args ''decision'') b))) args \<and>
    ad_issueSession (plane_handle h c supply) args = ad_issueSession (plane_serve supply (\<lambda>dr b. Some
           (http_issueSession c dr (JStr (actor_str SERVICE)) (JObj [(''requestId'', jget args ''requestId''),
              (''minecraftUuid'', jget args ''minecraftUuid'')]) b))) args \<and>
    (\<forall>k s. jget args k = JStr s \<longrightarrow> (named_id args k = jget args k) = list_all uri_unreserved s)"
  using assms
  unfolding ad_createRoom_def ad_heartbeatHost_def ad_createInvite_def ad_revokeInvite_def ad_readSafeInviteStatus_def
    ad_createJoinRequest_def ad_readApprovalQueue_def ad_decideJoinRequest_def ad_issueSession_def named_id_def
  by (intro conjI adapter_method_over plane_handle_serve allI impI) (simp_all add: adapter_serve_simps encode_id service_name)

definition demo_supply :: "nat \<Rightarrow> drawn" where
  "demo_supply n = demo_drawn (replicate n (CHR ''a''))"

definition demo_invite_args :: jsval where
  "demo_invite_args = JObj [(''actorId'', JStr ''host''), (''roomId'', JStr ''room 1'')]"

lemma adapter_serves_control_plane_witness:
  "ad_createInvite (plane_handle id default_sim_config demo_supply) demo_invite_args =
     ad_createInvite (plane_serve demo_supply (\<lambda>dr b. Some
       (http_createInvite id default_sim_config dr (JStr ''host'') (JStr ''room%201'') b))) demo_invite_args"
proof -
  have "named_id demo_invite_args ''roomId'' = JStr ''room%201''" by code_simp
  moreover have "jget demo_invite_args ''actorId'' = JStr ''host''" by code_simp
  moreover have "js_string (jget demo_invite_args ''roomId'') \<noteq> []" "js_string (jget demo_invite_args ''inviteId'') \<noteq> []"
    "js_string (jget demo_invite_args ''inviteHandle'') \<noteq> []" "js_string (jget demo_invite_args ''requestId'') \<noteq> []"
    by code_simp+
  ultimately show ?thesis
    using adapter_serves_control_plane [of demo_invite_args id default_sim_config demo_supply] by metis
qed

text \<open>
  The handlers look up what the path says without decoding it: a room whose identifier holds any
  other character is not found through the adapter.
\<close>

lemma encoded_id_not_decoded: "named_id (JObj [(''roomId'', JStr ''room 1'')]) ''roomId'' = JStr ''room%201''"
  by code_simp

end
