(* ===== verification/RoomStack.thy ===== *)
theory RoomStack
  imports RoomController_Props BoundaryAdapter Relay
begin

text \<open>
  The room controller over the parts the program gives it: the adapter over the HTTP boundary and
  its simulation as the control plane, and a relay simulation for every room
  (\<open>createDefaultRelay\<close>). The runtime bridge, the drawing of tokens and identifiers and the
  platform's URL stay parameters. A relay object is named by its number.
\<close>

section \<open>The services of the program\<close>

record 'r stack =
  sk_runtime :: 'r
  sk_plane :: plane
  sk_relays :: "(relay_config \<times> relay) list"

record 'r stack_parameters =
  sp_open :: "jsval \<Rightarrow> 'r \<Rightarrow> answer \<times> 'r"
  sp_close :: "jsval \<Rightarrow> 'r \<Rightarrow> answer \<times> 'r"
  sp_prepare :: "jsval \<Rightarrow> 'r \<Rightarrow> answer \<times> 'r"
  sp_restart :: "jsval \<Rightarrow> 'r \<Rightarrow> answer \<times> 'r"
  sp_status :: "'r \<Rightarrow> answer \<times> 'r"
  sp_sha256 :: "string \<Rightarrow> string"
  sp_config :: sim_config
  sp_supply :: "nat \<Rightarrow> drawn"
  sp_tunnelUuid :: "nat \<Rightarrow> string"
  sp_hostToken :: "nat \<Rightarrow> string"
  sp_relayNow :: int
  sp_url :: "string \<Rightarrow> string \<Rightarrow> string option"

definition on_runtime :: "('r \<Rightarrow> answer \<times> 'r) \<Rightarrow> 'r stack \<Rightarrow> answer \<times> 'r stack" where
  "on_runtime call w = (case call (sk_runtime w) of (a, r) \<Rightarrow> (a, w\<lparr>sk_runtime := r\<rparr>))"

text \<open>An asynchronous function of the adapter: what it throws, its promise is rejected with.\<close>

definition on_plane :: "(plane, jsval) eff \<Rightarrow> 'r stack \<Rightarrow> answer \<times> 'r stack" where
  "on_plane m w = (case m (sk_plane w) of
     (Inr v, p) \<Rightarrow> (Value v, w\<lparr>sk_plane := p\<rparr>) | (Inl e, p) \<Rightarrow> (Rejects e, w\<lparr>sk_plane := p\<rparr>))"

definition relay_object :: "nat \<Rightarrow> jsval" where
  "relay_object n = JObj [(''relay'', JNum (int n))]"

definition relay_number :: "jsval \<Rightarrow> nat" where
  "relay_number v = (case jget v ''relay'' of JNum n \<Rightarrow> nat n | _ \<Rightarrow> 0)"

definition defaultQuotas_for :: "(string, jsval) jsmap \<Rightarrow> relay_config" where
  "defaultQuotas_for credentials = \<lparr>hostCredentials = credentials, quotas = defaultQuotas\<rparr>"

definition createDefaultRelay :: "'r stack_parameters \<Rightarrow> jsval \<Rightarrow> 'r stack \<Rightarrow> answer \<times> 'r stack" where
  "createDefaultRelay sp args w =
    (Value (relay_object (length (sk_relays w))), w\<lparr>sk_relays := sk_relays w @
      [(defaultQuotas_for [(js_string (jget args ''roomId'') @ '':'' @ js_string (jget args ''hostId''),
          jget args ''hostToken'')], createRelaySimulation (sp_relayNow sp))]\<rparr>)"

definition relay_answer :: "(relay_failure + (string \<times> jsval) list) \<Rightarrow> jsval" where
  "relay_answer r = (case r of Inl reason \<Rightarrow> JObj [(''ok'', JBool False), (''reason'', relay_failure_val reason)]
     | Inr parts \<Rightarrow> JObj ((''ok'', JBool True) # parts))"

definition stack_open_tunnel :: "'r stack_parameters \<Rightarrow> jsval \<Rightarrow> jsval \<Rightarrow> 'r stack \<Rightarrow> answer \<times> 'r stack" where
  "stack_open_tunnel sp object args w =
    (let n = relay_number object; (cfg, rl) = sk_relays w ! n;
         (result, rl') = openHostTunnel cfg (sp_tunnelUuid sp n) (jget args ''hostId'') (jget args ''roomId'')
           (jget args ''target'') (jget args ''hostToken'') rl
     in (Value (relay_answer (map_sum id (\<lambda>tunnel. [(''tunnel'', tunnel)]) result)),
         w\<lparr>sk_relays := (sk_relays w)[n := (cfg, rl')]\<rparr>))"

definition stack_close_tunnel :: "jsval \<Rightarrow> jsval \<Rightarrow> 'r stack \<Rightarrow> answer \<times> 'r stack" where
  "stack_close_tunnel object args w =
    (let n = relay_number object; (cfg, rl) = sk_relays w ! n;
         (result, rl') = closeHostTunnel cfg (jget args ''tunnelId'') (jget args ''roomId'') (jget args ''hostId'')
           (jget args ''hostToken'') (jget args ''reason'') rl
     in (Value (relay_answer (map_sum id (\<lambda>(tunnel, n). [(''tunnel'', tunnel), (''closedStreams'', JNum n)]) result)),
         w\<lparr>sk_relays := (sk_relays w)[n := (cfg, rl')]\<rparr>))"

definition stack_services :: "'r stack_parameters \<Rightarrow> 'r stack services" where
  "stack_services sp =
    (let handle = plane_handle (sp_sha256 sp) (sp_config sp) (sp_supply sp) in
     \<lparr>sv_prepareRoom = \<lambda>args. on_runtime (sp_prepare sp args), sv_openRoom = \<lambda>args. on_runtime (sp_open sp args),
      sv_closeRoom = \<lambda>args. on_runtime (sp_close sp args), sv_restartRoom = \<lambda>args. on_runtime (sp_restart sp args),
      sv_status = on_runtime (sp_status sp),
      sv_createRoom = \<lambda>args. on_plane (ad_createRoom handle args),
      sv_createInvite = \<lambda>args. on_plane (ad_createInvite handle args),
      sv_heartbeatHost = Some (\<lambda>args. on_plane (ad_heartbeatHost handle args)),
      sv_revokeInvite = Some (\<lambda>args. on_plane (ad_revokeInvite handle args)),
      sv_hostToken = \<lambda>args w. (Value (JStr (sp_hostToken sp (length (sk_relays w)))), w),
      sv_relayFactory = createDefaultRelay sp, sv_openHostTunnel = stack_open_tunnel sp,
      sv_closeHostTunnel = stack_close_tunnel, sv_urlWithInvite = sp_url sp\<rparr>)"

text \<open>No method that undoes something throws at once: the adapter's promises reject, the relay answers.\<close>

definition runtime_calm :: "'r stack_parameters \<Rightarrow> bool" where
  "runtime_calm sp \<longleftrightarrow> (\<forall>args r e. fst (sp_close sp args r) \<noteq> Throws e)"

lemma stack_calm: "runtime_calm sp \<Longrightarrow> calm (stack_services sp)"
  by (auto simp: calm_def runtime_calm_def stack_services_def Let_def on_runtime_def on_plane_def
      stack_close_tunnel_def split: prod.splits sum.splits) (metis fst_conv)

section \<open>The calls of an opening\<close>

lemma text_present: "x = JStr s \<Longrightarrow> s \<noteq> [] \<Longrightarrow> \<not> nullish x \<and> x \<noteq> JStr []"
  by auto

lemma create_room_call:
  assumes "truthy hostId" and "\<not> nullish al \<and> al \<noteq> JStr []" and "\<not> nullish mc \<and> mc \<noteq> JStr []"
    and "\<not> nullish pk \<and> pk \<noteq> JStr []"
  shows "ad_createRoom (plane_handle h c supply) (JObj [(''hostId'', hostId), (''alias'', al), (''minecraftVersion'', mc),
      (''packProfileName'', pk)]) p =
    (let (room, s) = sim_createRoom (dr_uuid (supply (pl_next p))) hostId al mc pk (bd_simulation (pl_boundary p))
     in (Inr (JObj [(''ok'', JBool True), (''room'', http_publicRoom room)]),
         \<lparr>pl_boundary = (pl_boundary p)\<lparr>bd_simulation := s\<rparr>, pl_next = Suc (pl_next p)\<rparr>))"
  using assms
  by (auto simp: ad_createRoom_def adapter_method_def adapter_send_def eff_bind_def plane_handle_def
      handle_adapter_request adapter_methods fixed_routes header_values http_createRoom_def requireFields_def
      adapter_result_def when_ok_def coalesce_def json_reply_def sim_createRoom_def Let_def)

lemma host_can_create: "truthy hostId \<Longrightarrow> room_hostId room = hostId \<Longrightarrow> host_can (JStr (action_str CREATE_INVITE)) hostId room"
proof -
  have "role_may HOST CREATE_INVITE" by code_simp
  then show "truthy hostId \<Longrightarrow> room_hostId room = hostId \<Longrightarrow> host_can (JStr (action_str CREATE_INVITE)) hostId room"
    unfolding host_can_named by simp
qed

lemma create_invite_call:
  assumes "truthy hostId" and "room_hostId room = hostId" and "list_all uri_unreserved rid" and "rid \<noteq> []"
    and "jm_get (sim_rooms (bd_simulation (pl_boundary p))) (JStr rid) = Some room"
  shows "ad_createInvite (plane_handle h c supply) (JObj [(''actorId'', hostId), (''roomId'', JStr rid)]) p =
    (let dr = supply (pl_next p); s = bd_simulation (pl_boundary p);
         handle = JStr (''invite_handle_'' @ dr_handle dr); inviteId = JStr (''invite_'' @ dr_uuid dr);
         expires = sim_now s + cfg_inviteTtlMs c;
         invite = \<lparr>inv_id = inviteId, inv_roomId = JStr rid, inv_tokenHash = h (dr_token dr), inv_st = Invite_ACTIVE,
           inv_createdAt = sim_now s, inv_expiresAt = expires\<rparr>
     in (Inr (JObj [(''ok'', JBool True), (''invite'', JObj [(''id'', handle), (''publicHandle'', handle),
           (''expiresAt'', JNum expires)])]),
         \<lparr>pl_boundary = (pl_boundary p)\<lparr>
            bd_simulation := s\<lparr>sim_invites := jm_set inviteId invite (sim_invites s),
              sim_rawTokens := jm_set (h (dr_token dr)) inviteId (sim_rawTokens s)\<rparr>,
            bd_inviteHandles := jm_set handle \<lparr>ib_token = dr_token dr, ib_inviteId = inviteId, ib_roomId = JStr rid\<rparr>
              (bd_inviteHandles (pl_boundary p))\<rparr>, pl_next = Suc (pl_next p)\<rparr>))"
proof -
  have e: "encodeURIComponent (JStr rid) = rid" using assms(3) by (simp add: encode_id)
  have can: "host_can (JStr (action_str CREATE_INVITE)) hostId room" using assms(1,2) by (rule host_can_create)
  show ?thesis
    using assms(1,4,5) can
    by (simp add: ad_createInvite_def adapter_method_def adapter_send_def eff_bind_def plane_handle_def
        adapter_serve_simps e http_createInvite_def sim_createInvite_def createInviteRecord_def
        adapter_result_def when_ok_def coalesce_def json_reply_def Let_def)
qed

lemma heartbeat_call:
  assumes "truthy hostId" and "room_hostId room = hostId" and "list_all uri_unreserved rid" and "rid \<noteq> []"
    and "jm_get (sim_rooms (bd_simulation (pl_boundary p))) (JStr rid) = Some room"
  shows "ad_heartbeatHost (plane_handle h c supply) (JObj [(''actorId'', hostId), (''roomId'', JStr rid)]) p =
    (Inr (JBool True), \<lparr>pl_boundary = (pl_boundary p)\<lparr>bd_simulation := (bd_simulation (pl_boundary p))\<lparr>sim_rooms :=
        jm_set (JStr rid) (room\<lparr>room_hostLastSeenAt := sim_now (bd_simulation (pl_boundary p)), room_st := Room_OPEN\<rparr>)
          (sim_rooms (bd_simulation (pl_boundary p)))\<rparr>\<rparr>, pl_next = Suc (pl_next p)\<rparr>)"
proof -
  have e: "encodeURIComponent (JStr rid) = rid" using assms(3) by (simp add: encode_id)
  show ?thesis
    using assms(1,2,4,5)
    by (simp add: ad_heartbeatHost_def adapter_method_def adapter_send_def eff_bind_def plane_handle_def
        adapter_serve_simps e http_heartbeatHost_def sim_heartbeatHost_def
        adapter_result_def coalesce_def json_reply_def Let_def)
qed

lemma open_tunnel_call:
  assumes "truthy token" and "roomId = JStr rid"
  shows "openHostTunnel (defaultQuotas_for [(rid @ '':'' @ js_string hostId, token)]) uuid hostId roomId MINECRAFT_TARGET token
      (createRelaySimulation now) =
    (let tunnel = \<lparr>tn_id = JStr (''relay_tunnel_'' @ uuid), tn_hostId = hostId, tn_roomId = roomId,
         tn_target = MINECRAFT_TARGET, tn_openedAt = now, tn_closedAt = None, tn_state = TunnelOpen\<rparr>
     in (Inr (tunnel_val tunnel), snd (openHostTunnel (defaultQuotas_for [(rid @ '':'' @ js_string hostId, token)]) uuid hostId
          roomId MINECRAFT_TARGET token (createRelaySimulation now))))"
    and "jm_get (rl_tunnels (snd (openHostTunnel (defaultQuotas_for [(rid @ '':'' @ js_string hostId, token)]) uuid hostId
          roomId MINECRAFT_TARGET token (createRelaySimulation now)))) roomId =
      Some \<lparr>tn_id = JStr (''relay_tunnel_'' @ uuid), tn_hostId = hostId, tn_roomId = roomId,
         tn_target = MINECRAFT_TARGET, tn_openedAt = now, tn_closedAt = None, tn_state = TunnelOpen\<rparr>"
  using assms
  by (simp_all add: openHostTunnel_def hostTunnelAuthorized_def defaultQuotas_for_def isMinecraftLoopbackTarget_def
      MINECRAFT_TARGET_def createRelaySimulation_def recordEvent_def Let_def)

section \<open>From the command to the friend's browser\<close>

text \<open>What the host must have given, and what a drawn identifier looks like.\<close>

definition host_ready :: "controller_config \<Rightarrow> bool" where
  "host_ready cg \<longleftrightarrow> truthy (cg_hostId cg) \<and>
     (\<forall>k \<in> {''alias'', ''minecraftVersion'', ''packProfileName''}.
        \<not> nullish (jget (room_args cg) k) \<and> jget (room_args cg) k \<noteq> JStr [])"

definition uri_uuid :: "string \<Rightarrow> bool" where
  "uri_uuid u \<longleftrightarrow> list_all uri_unreserved u"

lemma room_id_plain: "uri_uuid u \<Longrightarrow> list_all uri_unreserved (''room_'' @ u)"
proof -
  have "list_all uri_unreserved ''room_''" by code_simp
  then show "uri_uuid u \<Longrightarrow> list_all uri_unreserved (''room_'' @ u)" by (simp add: uri_uuid_def)
qed

lemma room_args_create:
  assumes "host_ready cg"
  shows "ad_createRoom (plane_handle h c supply) (room_args cg) p =
    (let (room, s) = sim_createRoom (dr_uuid (supply (pl_next p))) (cg_hostId cg) (jget (room_args cg) ''alias'')
           (jget (room_args cg) ''minecraftVersion'') (jget (room_args cg) ''packProfileName'') (bd_simulation (pl_boundary p))
     in (Inr (JObj [(''ok'', JBool True), (''room'', http_publicRoom room)]),
         \<lparr>pl_boundary = (pl_boundary p)\<lparr>bd_simulation := s\<rparr>, pl_next = Suc (pl_next p)\<rparr>))"
proof -
  let ?g = "\<lambda>k. jget (room_args cg) k"
  have "room_args cg = JObj [(''hostId'', cg_hostId cg), (''alias'', ?g ''alias''), (''minecraftVersion'', ?g ''minecraftVersion''),
      (''packProfileName'', ?g ''packProfileName'')]"
    by (simp add: room_args_def Let_def)
  with create_room_call [of "cg_hostId cg" "?g ''alias''" "?g ''minecraftVersion''" "?g ''packProfileName''" h c "supply" p] assms
  show ?thesis by (simp add: host_ready_def)
qed

text \<open>One service call of the controller.\<close>

lemma plane_call:
  "m (sk_plane (ct_world s)) = (Inr v, p) \<Longrightarrow>
   await_answer (outside (on_plane m)) s = (Inr v, s\<lparr>ct_world := (ct_world s)\<lparr>sk_plane := p\<rparr>\<rparr>)"
  by (simp add: await_answer_def outside_def on_plane_def)

lemma stack_sels [simp]:
  "sv_createRoom (stack_services sp) args = on_plane (ad_createRoom (plane_handle (sp_sha256 sp) (sp_config sp) (sp_supply sp)) args)"
  "sv_createInvite (stack_services sp) args = on_plane (ad_createInvite (plane_handle (sp_sha256 sp) (sp_config sp) (sp_supply sp)) args)"
  "sv_heartbeatHost (stack_services sp) = Some (\<lambda>args. on_plane (ad_heartbeatHost (plane_handle (sp_sha256 sp) (sp_config sp) (sp_supply sp)) args))"
  "sv_hostToken (stack_services sp) args w = (Value (JStr (sp_hostToken sp (length (sk_relays w)))), w)"
  "sv_relayFactory (stack_services sp) = createDefaultRelay sp"
  "sv_openHostTunnel (stack_services sp) = stack_open_tunnel sp"
  "sv_openRoom (stack_services sp) args = on_runtime (sp_open sp args)"
  "sv_urlWithInvite (stack_services sp) = sp_url sp"
  by (simp_all add: stack_services_def Let_def)

text \<open>The tunnel the program's relay opens for a room.\<close>

definition stack_tunnel :: "'r stack_parameters \<Rightarrow> nat \<Rightarrow> jsval \<Rightarrow> jsval \<Rightarrow> tunnel" where
  "stack_tunnel sp n hostId roomId = \<lparr>tn_id = JStr (''relay_tunnel_'' @ sp_tunnelUuid sp n), tn_hostId = hostId,
     tn_roomId = roomId, tn_target = MINECRAFT_TARGET, tn_openedAt = sp_relayNow sp, tn_closedAt = None,
     tn_state = TunnelOpen\<rparr>"

lemma relay_number_object [simp]: "relay_number (relay_object n) = n" "\<not> nullish (relay_object n)"
  by (simp_all add: relay_number_def relay_object_def)

lemma open_relay_call:
  assumes "sp_hostToken sp (length (sk_relays (ct_world s))) \<noteq> []"
  obtains s' cfg rl where "open_relay (stack_services sp) cg (JStr rid) options s =
      (Inr (JObj [(''ok'', JBool True), (''tunnel'', tunnel_val (stack_tunnel sp (length (sk_relays (ct_world s))) (cg_hostId cg) (JStr rid)))]), s')"
    and "ct_active s' = (ct_active s)\<lparr>ac_hostToken := ac_hostToken (ct_active s'), ac_relay := ac_relay (ct_active s')\<rparr>"
    and "ct_world s' = (ct_world s)\<lparr>sk_relays := sk_relays (ct_world s) @ [(cfg, rl)]\<rparr>"
    and "jm_get (rl_tunnels rl) (JStr rid) = Some (stack_tunnel sp (length (sk_relays (ct_world s))) (cg_hostId cg) (JStr rid))"
    and "\<not> nullish (ac_relay (ct_active s'))"
proof -
  let ?n = "length (sk_relays (ct_world s))"
  let ?token = "JStr (sp_hostToken sp ?n)"
  let ?cfg = "defaultQuotas_for [(rid @ '':'' @ js_string (cg_hostId cg), ?token)]"
  let ?t = "stack_tunnel sp ?n (cg_hostId cg) (JStr rid)"
  have t: "truthy ?token" using assms by simp
  obtain rl where run: "openHostTunnel ?cfg (sp_tunnelUuid sp ?n) (cg_hostId cg) (JStr rid) MINECRAFT_TARGET ?token
      (createRelaySimulation (sp_relayNow sp)) = (Inr (tunnel_val ?t), rl)" and tn: "jm_get (rl_tunnels rl) (JStr rid) = Some ?t"
    using open_tunnel_call [OF t refl, of rid "cg_hostId cg" "sp_tunnelUuid sp ?n" "sp_relayNow sp"]
    unfolding Let_def stack_tunnel_def by metis
  have "open_relay (stack_services sp) cg (JStr rid) options s =
      (Inr (JObj [(''ok'', JBool True), (''tunnel'', tunnel_val ?t)]),
       s\<lparr>ct_active := (ct_active s)\<lparr>ac_hostToken := ?token, ac_relay := relay_object ?n\<rparr>,
         ct_world := (ct_world s)\<lparr>sk_relays := sk_relays (ct_world s) @ [(?cfg, rl)]\<rparr>\<rparr>)"
    using run
    by (simp add: open_relay_def eff_bind_def await_answer_def outside_def createDefaultRelay_def
        set_active_def relay_args_def stack_open_tunnel_def relay_answer_def)
  then show thesis by (rule that [of _ ?cfg rl]) (simp_all add: tn)
qed

text \<open>A room of the control plane whose invite can be followed.\<close>

definition joinable :: "'r stack_parameters \<Rightarrow> jsval \<Rightarrow> jsval \<Rightarrow> jsval \<Rightarrow> http_boundary \<Rightarrow> bool" where
  "joinable sp handle hostId roomId b \<longleftrightarrow>
     (\<exists>ib i room. jm_get (bd_inviteHandles b) handle = Some ib \<and> ib_roomId ib = roomId \<and>
        resolveInviteByToken (sp_sha256 sp) (Some (ib_token ib)) (bd_simulation b) = Some i \<and>
        isInviteActive (sim_now (bd_simulation b)) (Some i) \<and> inv_roomId i = roomId \<and>
        jm_get (sim_rooms (bd_simulation b)) roomId = Some room \<and> room_hostId room = hostId \<and>
        isHostOnline (sp_config sp) (sim_now (bd_simulation b)) room)"

text \<open>The three calls of the control plane, one after the other.\<close>

lemma plane_calls:
  assumes ready: "host_ready cg" and uuid: "uri_uuid (dr_uuid (sp_supply sp (pl_next p)))"
    and token: "dr_token (sp_supply sp (Suc (pl_next p))) \<noteq> []"
    and ttl: "0 < cfg_inviteTtlMs (sp_config sp)" "0 \<le> cfg_presenceTtlMs (sp_config sp)"
  defines "handle \<equiv> plane_handle (sp_sha256 sp) (sp_config sp) (sp_supply sp)"
    and "roomId \<equiv> JStr (''room_'' @ dr_uuid (sp_supply sp (pl_next p)))"
    and "invite \<equiv> JStr (''invite_handle_'' @ dr_handle (sp_supply sp (Suc (pl_next p))))"
  obtains p1 p2 p3 room expires where
    "ad_createRoom handle (room_args cg) p = (Inr (JObj [(''ok'', JBool True), (''room'', http_publicRoom room)]), p1)"
    and "room_id room = roomId"
    and "ad_createInvite handle (JObj [(''actorId'', cg_hostId cg), (''roomId'', roomId)]) p1 =
      (Inr (JObj [(''ok'', JBool True), (''invite'', JObj [(''id'', invite), (''publicHandle'', invite),
         (''expiresAt'', JNum expires)])]), p2)"
    and "ad_heartbeatHost handle (JObj [(''actorId'', cg_hostId cg), (''roomId'', roomId)]) p2 = (Inr (JBool True), p3)"
    and "joinable sp invite (cg_hostId cg) roomId (pl_boundary p3)"
proof -
  let ?s = "bd_simulation (pl_boundary p)"
  let ?rid = "''room_'' @ dr_uuid (sp_supply sp (pl_next p))"
  have host: "truthy (cg_hostId cg)" using ready by (simp add: host_ready_def)
  obtain room s1 where create: "sim_createRoom (dr_uuid (sp_supply sp (pl_next p))) (cg_hostId cg) (jget (room_args cg) ''alias'')
      (jget (room_args cg) ''minecraftVersion'') (jget (room_args cg) ''packProfileName'') ?s = (room, s1)"
    by fastforce
  then have room: "room_id room = roomId" "room_hostId room = cg_hostId cg" "sim_now s1 = sim_now ?s"
    "jm_get (sim_rooms s1) (JStr ?rid) = Some room"
    by (auto simp: sim_createRoom_def Let_def roomId_def)
  define p1 where "p1 = \<lparr>pl_boundary = (pl_boundary p)\<lparr>bd_simulation := s1\<rparr>, pl_next = Suc (pl_next p)\<rparr>"
  have one: "ad_createRoom handle (room_args cg) p = (Inr (JObj [(''ok'', JBool True), (''room'', http_publicRoom room)]), p1)"
    unfolding handle_def room_args_create [OF ready] create by (simp add: p1_def)
  have rid: "list_all uri_unreserved ?rid" "?rid \<noteq> []" using room_id_plain [OF uuid] by simp_all
  have r1: "jm_get (sim_rooms (bd_simulation (pl_boundary p1))) (JStr ?rid) = Some room" using room by (simp add: p1_def)
  note two = create_invite_call [OF host room(2) rid r1, of "sp_sha256 sp" "sp_config sp" "sp_supply sp"]
  obtain p2 where p2: "ad_createInvite handle (JObj [(''actorId'', cg_hostId cg), (''roomId'', roomId)]) p1 =
      (Inr (JObj [(''ok'', JBool True), (''invite'', JObj [(''id'', invite), (''publicHandle'', invite),
         (''expiresAt'', JNum (sim_now s1 + cfg_inviteTtlMs (sp_config sp)))])]), p2)"
    and b2: "pl_boundary p2 = (pl_boundary p1)\<lparr>
         bd_simulation := s1\<lparr>sim_invites := jm_set (JStr (''invite_'' @ dr_uuid (sp_supply sp (Suc (pl_next p)))))
             \<lparr>inv_id = JStr (''invite_'' @ dr_uuid (sp_supply sp (Suc (pl_next p)))), inv_roomId = roomId,
              inv_tokenHash = sp_sha256 sp (dr_token (sp_supply sp (Suc (pl_next p)))), inv_st = Invite_ACTIVE,
              inv_createdAt = sim_now s1, inv_expiresAt = sim_now s1 + cfg_inviteTtlMs (sp_config sp)\<rparr> (sim_invites s1),
           sim_rawTokens := jm_set (sp_sha256 sp (dr_token (sp_supply sp (Suc (pl_next p)))))
             (JStr (''invite_'' @ dr_uuid (sp_supply sp (Suc (pl_next p))))) (sim_rawTokens s1)\<rparr>,
         bd_inviteHandles := jm_set invite \<lparr>ib_token = dr_token (sp_supply sp (Suc (pl_next p))),
             ib_inviteId = JStr (''invite_'' @ dr_uuid (sp_supply sp (Suc (pl_next p)))), ib_roomId = roomId\<rparr>
           (bd_inviteHandles (pl_boundary p1))\<rparr>"
    using two by (simp add: handle_def roomId_def invite_def p1_def Let_def)
  have r2: "jm_get (sim_rooms (bd_simulation (pl_boundary p2))) (JStr ?rid) = Some room" using room by (simp add: b2)
  note three = heartbeat_call [OF host room(2) rid r2, of "sp_sha256 sp" "sp_config sp" "sp_supply sp"]
  show thesis
    by (rule that [OF one room(1) p2 three [folded handle_def roomId_def]])
      (use room token ttl in \<open>simp add: joinable_def b2 resolveInviteByToken_def isInviteActive_def isHostOnline_def
        roomId_def invite_def\<close>)
qed

text \<open>The last stage, when the control plane answers as above.\<close>

lemma invite_runs:
  assumes p1: "sk_plane (ct_world s) = p1"
    and two: "ad_createInvite (plane_handle (sp_sha256 sp) (sp_config sp) (sp_supply sp))
        (JObj [(''actorId'', cg_hostId cg), (''roomId'', roomId)]) p1 =
      (Inr (JObj [(''ok'', JBool True), (''invite'', JObj [(''id'', JStr ih), (''publicHandle'', JStr ih),
         (''expiresAt'', JNum expires)])]), p2)"
    and three: "ad_heartbeatHost (plane_handle (sp_sha256 sp) (sp_config sp) (sp_supply sp))
        (JObj [(''actorId'', cg_hostId cg), (''roomId'', roomId)]) p2 = (Inr (JBool True), p3)"
    and room: "jget room ''id'' = roomId" and some: "ih \<noteq> []"
  defines "link \<equiv> JStr (createInviteLink (sp_url sp) (cg_inviteBaseUrl cg) (JStr ih))"
    and "snapshot \<equiv> controlPlaneSnapshot True room [(''expiresAt'', JNum expires)]"
  shows "provision_invite (stack_services sp) cg opened room s =
    (Inr (room_dto opened link snapshot (ct_relaySnapshot s)),
     s\<lparr>ct_world := (ct_world s)\<lparr>sk_plane := p3\<rparr>,
       ct_active := (ct_active s)\<lparr>ac_inviteId := JStr ih, ac_inviteLink := link\<rparr>, ct_controlPlaneSnapshot := snapshot\<rparr>)"
proof -
  have invited: "await_answer (outside (sv_createInvite (stack_services sp)
        (JObj [(''actorId'', cg_hostId cg), (''roomId'', roomId)]))) s =
      (Inr (JObj [(''ok'', JBool True), (''invite'', JObj [(''id'', JStr ih), (''publicHandle'', JStr ih),
         (''expiresAt'', JNum expires)])]), s\<lparr>ct_world := (ct_world s)\<lparr>sk_plane := p2\<rparr>\<rparr>)"
    unfolding stack_sels by (rule plane_call) (simp add: two p1)
  have beat: "heartbeat (stack_services sp) cg roomId t = (Inr (JBool True), t\<lparr>ct_world := (ct_world t)\<lparr>sk_plane := p3\<rparr>\<rparr>)"
    if "sk_plane (ct_world t) = p2" for t
    unfolding heartbeat_def stack_sels option.case by (rule plane_call) (simp add: three that)
  show ?thesis
    using invited some
    by (simp add: provision_invite_def eff_try_def eff_bind_def room normalizeInviteResult_def coalesce_def
        set_active_def withRoomReadiness_def beat link_def snapshot_def Let_def)
qed

text \<open>
  C29. Composed of its own parts, the program gets from the command to a room a friend can join: when
  the runtime reports a running room, the host's plan names the room, and the drawn values are as
  drawn values are, \<open>openRoom\<close> shows the link of an invite that the boundary knows, that leads to the
  registered room of this host, is active and whose host is online, and the relay made for the room has
  an open tunnel of this host to the local Minecraft port.
\<close>

theorem open_room_is_joinable:
  assumes "\<not> ct_cleanupPending s" and "sp_open sp options (sk_runtime (ct_world s)) = (Value opened, r)"
    and "isRuntimeReadyForInvite (jget opened ''state'')" and "host_ready cg"
    and "uri_uuid (dr_uuid (sp_supply sp (pl_next (sk_plane (ct_world s)))))"
    and "dr_token (sp_supply sp (Suc (pl_next (sk_plane (ct_world s))))) \<noteq> []"
    and "sp_hostToken sp (length (sk_relays (ct_world s))) \<noteq> []"
    and "0 < cfg_inviteTtlMs (sp_config sp)" and "0 \<le> cfg_presenceTtlMs (sp_config sp)"
  shows "\<exists>dto s' handle cfg rl t. ctl_openRoom (stack_services sp) cg options s = (Inr dto, s') \<and>
    opened_fully (stack_services sp) cg opened dto s' \<and>
    ac_inviteLink (ct_active s') = JStr (createInviteLink (sp_url sp) (cg_inviteBaseUrl cg) handle) \<and>
    joinable sp handle (cg_hostId cg) (ac_roomId (ct_active s')) (pl_boundary (sk_plane (ct_world s'))) \<and>
    sk_relays (ct_world s') = sk_relays (ct_world s) @ [(cfg, rl)] \<and>
    jm_get (rl_tunnels rl) (ac_roomId (ct_active s')) = Some t \<and> tn_state t = TunnelOpen \<and>
    tn_hostId t = cg_hostId cg \<and> isMinecraftLoopbackTarget (tn_target t)"
proof -
  let ?sv = "stack_services sp" and ?p = "sk_plane (ct_world s)"
  define rid where "rid = ''room_'' @ dr_uuid (sp_supply sp (pl_next ?p))"
  define ih where "ih = ''invite_handle_'' @ dr_handle (sp_supply sp (Suc (pl_next ?p)))"
  have some: "rid \<noteq> []" "ih \<noteq> []" by (simp_all add: rid_def ih_def)
  obtain p1 p2 p3 room expires where
    one: "ad_createRoom (plane_handle (sp_sha256 sp) (sp_config sp) (sp_supply sp)) (room_args cg) ?p =
      (Inr (JObj [(''ok'', JBool True), (''room'', http_publicRoom room)]), p1)" and rid: "room_id room = JStr rid"
    and two: "ad_createInvite (plane_handle (sp_sha256 sp) (sp_config sp) (sp_supply sp))
        (JObj [(''actorId'', cg_hostId cg), (''roomId'', JStr rid)]) p1 =
      (Inr (JObj [(''ok'', JBool True), (''invite'', JObj [(''id'', JStr ih), (''publicHandle'', JStr ih),
         (''expiresAt'', JNum expires)])]), p2)"
    and three: "ad_heartbeatHost (plane_handle (sp_sha256 sp) (sp_config sp) (sp_supply sp))
        (JObj [(''actorId'', cg_hostId cg), (''roomId'', JStr rid)]) p2 = (Inr (JBool True), p3)"
    and join: "joinable sp (JStr ih) (cg_hostId cg) (JStr rid) (pl_boundary p3)"
    by (rule plane_calls [OF assms(4,5,6,8,9), folded rid_def ih_def])
  let ?s1 = "s\<lparr>ct_world := (ct_world s)\<lparr>sk_runtime := r\<rparr>\<rparr>"
  have opened: "await_answer (outside (sv_openRoom ?sv options)) s = (Inr opened, ?s1)"
    using assms(2) by (simp add: await_answer_def outside_def on_runtime_def)
  have created: "await_answer (outside (sv_createRoom ?sv (room_args cg))) ?s1 =
      (Inr (JObj [(''ok'', JBool True), (''room'', http_publicRoom room)]),
       ?s1\<lparr>ct_world := (ct_world ?s1)\<lparr>sk_plane := p1\<rparr>\<rparr>)"
    unfolding stack_sels by (rule plane_call) (simp add: one)
  let ?room = "http_publicRoom room"
  have named: "normalizeRoomResult (JObj [(''ok'', JBool True), (''room'', ?room)]) = ?room" "jget ?room ''id'' = JStr rid"
    using rid by (simp_all add: normalizeRoomResult_def http_publicRoom_def coalesce_def)
  define s2 where "s2 = ?s1\<lparr>ct_world := (ct_world ?s1)\<lparr>sk_plane := p1\<rparr>,
    ct_active := (ct_active ?s1)\<lparr>ac_roomId := JStr rid\<rparr>, ct_controlPlaneSnapshot := controlPlaneSnapshot False ?room []\<rparr>"
  have w2: "sk_relays (ct_world s2) = sk_relays (ct_world s)" by (simp add: s2_def)
  have token: "sp_hostToken sp (length (sk_relays (ct_world s2))) \<noteq> []" using assms(7) w2 by simp
  let ?t = "stack_tunnel sp (length (sk_relays (ct_world s2))) (cg_hostId cg) (JStr rid)"
  obtain s3 cfg rl where relay: "open_relay ?sv cg (JStr rid) options s2 =
      (Inr (JObj [(''ok'', JBool True), (''tunnel'', tunnel_val ?t)]), s3)"
    and a3: "ct_active s3 = (ct_active s2)\<lparr>ac_hostToken := ac_hostToken (ct_active s3), ac_relay := ac_relay (ct_active s3)\<rparr>"
    and w3: "ct_world s3 = (ct_world s2)\<lparr>sk_relays := sk_relays (ct_world s2) @ [(cfg, rl)]\<rparr>"
    and tn: "jm_get (rl_tunnels rl) (JStr rid) = Some ?t" and relay3: "\<not> nullish (ac_relay (ct_active s3))"
    by (rule open_relay_call [OF token])
  define s4 where "s4 = s3\<lparr>ct_active := (ct_active s3)\<lparr>ac_tunnelId := tn_id ?t\<rparr>,
    ct_relaySnapshot := ctl_relaySnapshot (tunnel_val ?t)\<rparr>"
  have p4: "sk_plane (ct_world s4) = p1" by (simp add: s4_def w3 s2_def)
  let ?link = "JStr (createInviteLink (sp_url sp) (cg_inviteBaseUrl cg) (JStr ih))"
  let ?snapshot = "controlPlaneSnapshot True ?room [(''expiresAt'', JNum expires)]"
  let ?s6 = "s4\<lparr>ct_world := (ct_world s4)\<lparr>sk_plane := p3\<rparr>,
    ct_active := (ct_active s4)\<lparr>ac_inviteId := JStr ih, ac_inviteLink := ?link\<rparr>, ct_controlPlaneSnapshot := ?snapshot\<rparr>"
  let ?dto = "room_dto opened ?link ?snapshot (ct_relaySnapshot s4)"
  note invite = invite_runs [OF p4 two three named(2) some(2), of opened]
  have s2: "s\<lparr>ct_world := ct_world s\<lparr>sk_runtime := r, sk_plane := p1\<rparr>, ct_active := ct_active s\<lparr>ac_roomId := JStr rid\<rparr>,
      ct_controlPlaneSnapshot := controlPlaneSnapshot False ?room []\<rparr> = s2"
    by (simp add: s2_def)
  have tid: "jget (tunnel_val ?t) ''id'' = tn_id ?t" by (simp add: tunnel_val_def)
  have "provisionOpenRoom ?sv cg opened options ?s1 = provision_invite ?sv cg opened ?room s4"
    using created relay some
    by (simp add: provisionOpenRoom_def eff_try_def eff_bind_def named set_active_def set_relaySnapshot_def
        s2 Let_def s4_def tid)
  with invite opened assms(1,3) have run: "ctl_openRoom ?sv cg options s = (Inr ?dto, ?s6)"
    by (simp add: ctl_openRoom_def eff_bind_def)
  have room3: "ac_roomId (ct_active s3) = JStr rid" by (subst a3) (simp add: s2_def)
  have act: "ac_inviteLink (ct_active ?s6) = ?link" "ac_inviteId (ct_active ?s6) = JStr ih" "ac_roomId (ct_active ?s6) = JStr rid"
    using room3 by (simp_all add: s4_def)
  have relay6: "\<not> nullish (ac_relay (ct_active ?s6))"
    using relay3 by (simp add: s4_def)
  have full: "opened_fully ?sv cg opened ?dto ?s6"
    unfolding opened_fully_def
    by (intro conjI exI [of _ "JStr ih"]) (use act relay6 some in \<open>simp_all add: controlPlaneSnapshot_def\<close>)
  show ?thesis
    by (rule exI [of _ ?dto], rule exI [of _ ?s6], rule exI [of _ "JStr ih"], rule exI [of _ cfg], rule exI [of _ rl],
        rule exI [of _ ?t], intro conjI)
      (use run full act join tn in \<open>simp_all add: s4_def w3 w2 stack_tunnel_def isMinecraftLoopbackTarget_def MINECRAFT_TARGET_def\<close>)
qed

definition sample_stack :: "unit stack_parameters" where
  "sample_stack = \<lparr>sp_open = \<lambda>_ r. (Value (JObj [(''state'', JStr ''running'')]), r), sp_close = \<lambda>_ r. (Value JNull, r),
     sp_prepare = \<lambda>_ r. (Value JNull, r), sp_restart = \<lambda>_ r. (Value JNull, r), sp_status = \<lambda>r. (Value JNull, r),
     sp_sha256 = id, sp_config = default_sim_config, sp_supply = \<lambda>n. demo_drawn (replicate (Suc n) CHR ''a''),
     sp_tunnelUuid = \<lambda>n. ''u'', sp_hostToken = \<lambda>n. ''t'', sp_relayNow = 0, sp_url = \<lambda>_ _. None\<rparr>"

definition sample_host :: controller_config where
  "sample_host = \<lparr>cg_runtimePlan = JObj [(''room'', JObj [(''name'', JStr ''R''), (''minecraftVersion'', JStr ''1.21'')]),
     (''pack'', JObj [(''id'', JStr ''P'')])], cg_hostId = JStr ''host'', cg_inviteBaseUrl = JStr ''https://x''\<rparr>"

definition sample_room :: "unit stack ctl" where
  "sample_room = createDesktopRoomController \<lparr>sk_runtime = (),
     sk_plane = \<lparr>pl_boundary = createControlPlaneHttpBoundary (createControlPlaneSimulation 0), pl_next = 0\<rparr>, sk_relays = []\<rparr>"

lemma open_room_is_joinable_witness:
  "\<exists>dto s' handle. ctl_openRoom (stack_services sample_stack) sample_host JUndef sample_room = (Inr dto, s') \<and>
     joinable sample_stack handle (JStr ''host'') (ac_roomId (ct_active s')) (pl_boundary (sk_plane (ct_world s')))"
proof -
  have "\<not> ct_cleanupPending sample_room" by (simp add: sample_room_def createDesktopRoomController_def)
  moreover have "sp_open sample_stack JUndef (sk_runtime (ct_world sample_room)) =
      (Value (JObj [(''state'', JStr ''running'')]), ())" by (simp add: sample_stack_def)
  moreover have "isRuntimeReadyForInvite (jget (JObj [(''state'', JStr ''running'')]) ''state'')" by code_simp
  moreover have "host_ready sample_host" by code_simp
  moreover have "uri_uuid (dr_uuid (sp_supply sample_stack (pl_next (sk_plane (ct_world sample_room)))))"
    "dr_token (sp_supply sample_stack (Suc (pl_next (sk_plane (ct_world sample_room))))) \<noteq> []"
    "sp_hostToken sample_stack (length (sk_relays (ct_world sample_room))) \<noteq> []"
    "0 < cfg_inviteTtlMs (sp_config sample_stack)" "0 \<le> cfg_presenceTtlMs (sp_config sample_stack)"
    by code_simp+
  ultimately show ?thesis
    using open_room_is_joinable [of sample_room sample_stack JUndef "JObj [(''state'', JStr ''running'')]" "()" sample_host]
    by (auto simp: sample_host_def)
qed

end
