(* ===== verification/CommandHost.thy ===== *)
theory CommandHost
  imports RoomController
begin

text \<open>
  \<open>apps/desktop/src/runtime/desktop-command-host.mjs\<close> and \<open>desktop-command-host-process.mjs\<close>:
  the renderer's commands. A frame names a command and carries a request; the request must fit the
  command's schema before a method of the controller is called with it, and what the method answers
  leaves without private entries. The parsing of a line as JSON and its size in bytes are arguments.
\<close>

section \<open>Commands and schemas\<close>

datatype desktop_command = PREPARE_ROOM | OPEN_ROOM | CLOSE_ROOM | RESTART_ROOM | SEND_SERVER_COMMAND
  | STATUS_ROOM | RESET_ROOM

primrec desktop_command_str :: "desktop_command \<Rightarrow> string" where
  "desktop_command_str PREPARE_ROOM = ''desktop_prepare_room''"
| "desktop_command_str OPEN_ROOM = ''desktop_open_room''"
| "desktop_command_str CLOSE_ROOM = ''desktop_close_room''"
| "desktop_command_str RESTART_ROOM = ''desktop_restart_room''"
| "desktop_command_str SEND_SERVER_COMMAND = ''desktop_send_server_command''"
| "desktop_command_str STATUS_ROOM = ''desktop_status_room''"
| "desktop_command_str RESET_ROOM = ''desktop_reset_room''"

definition desktop_commands :: "desktop_command list" where
  "desktop_commands = [PREPARE_ROOM, OPEN_ROOM, CLOSE_ROOM, RESTART_ROOM, SEND_SERVER_COMMAND, STATUS_ROOM, RESET_ROOM]"

definition command_named :: "string \<Rightarrow> desktop_command option" where
  "command_named name = List.find (\<lambda>c. desktop_command_str c = name) desktop_commands"

primrec commandRoutes :: "desktop_command \<Rightarrow> string list" where
  "commandRoutes PREPARE_ROOM = [''prepareRoom'']"
| "commandRoutes OPEN_ROOM = [''openRoom'']"
| "commandRoutes CLOSE_ROOM = [''closeRoom'']"
| "commandRoutes RESTART_ROOM = [''restartRoom'']"
| "commandRoutes SEND_SERVER_COMMAND = [''sendServerCommand'']"
| "commandRoutes STATUS_ROOM = [''statusRoom'', ''status'']"
| "commandRoutes RESET_ROOM = [''resetRoom'']"

definition version_char :: "char \<Rightarrow> bool" where
  "version_char x \<longleftrightarrow> is_alnum x \<or> x \<in> {CHR ''.'', CHR ''+'', CHR ''_'', CHR ''-''}"

definition validateVersionString :: "jsval \<Rightarrow> bool" where
  "validateVersionString v = (case v of
     JStr s \<Rightarrow> 0 < length s \<and> length s \<le> 32 \<and> is_digit (hd s) \<and> list_all version_char (tl s)
   | _ \<Rightarrow> False)"

definition identifier_char :: "char \<Rightarrow> bool" where
  "identifier_char x \<longleftrightarrow> is_alnum x \<or> x \<in> {CHR ''.'', CHR ''_'', CHR ''-''}"

definition validateIdentifierString :: "jsval \<Rightarrow> bool" where
  "validateIdentifierString v = (case v of
     JStr s \<Rightarrow> 0 < length s \<and> length s \<le> 64 \<and> is_alnum (hd s) \<and> list_all identifier_char (tl s)
   | _ \<Rightarrow> False)"

definition console_control :: "char \<Rightarrow> bool" where
  "console_control x \<longleftrightarrow> (let n = of_char x :: nat in
     n \<le> 8 \<or> n = 11 \<or> n = 12 \<or> (14 \<le> n \<and> n \<le> 31) \<or> n = 127)"

definition validateConsoleCommand :: "jsval \<Rightarrow> bool" where
  "validateConsoleCommand v = (case v of
     JStr s \<Rightarrow> 0 < length (js_trim s) \<and> length (js_trim s) \<le> 256 \<and>
       \<not> list_ex (\<lambda>x. x = CHR 0x0D \<or> x = CHR 0x0A) s \<and> \<not> list_ex console_control s
   | _ \<Rightarrow> False)"

type_synonym schema = "(string \<times> (jsval \<Rightarrow> bool)) list"

definition room_schema :: schema where
  "room_schema = [(''minecraftVersion'', validateVersionString), (''pack'', validateIdentifierString),
     (''catalogModId'', validateIdentifierString)]"

primrec commandSchemas :: "desktop_command \<Rightarrow> schema" where
  "commandSchemas PREPARE_ROOM = room_schema"
| "commandSchemas OPEN_ROOM = room_schema"
| "commandSchemas CLOSE_ROOM = []"
| "commandSchemas RESTART_ROOM = room_schema"
| "commandSchemas SEND_SERVER_COMMAND = [(''command'', validateConsoleCommand)]"
| "commandSchemas STATUS_ROOM = []"
| "commandSchemas RESET_ROOM = []"

definition dangerousKeys :: "string list" where
  "dangerousKeys = [''__proto__'', ''prototype'', ''constructor'']"

text \<open>Objects here have the usual prototype (what \<open>JSON.parse\<close> makes).\<close>

definition isPlainRequestObject :: "jsval \<Rightarrow> bool" where
  "isPlainRequestObject v = (case v of
     JObj kvs \<Rightarrow> \<not> list_ex (\<lambda>k. k \<in> set dangerousKeys) (jm_keys kvs) | _ \<Rightarrow> False)"

definition isSupportedRequestField :: "schema \<Rightarrow> string \<Rightarrow> bool" where
  "isSupportedRequestField schema key \<longleftrightarrow> map_of schema key \<noteq> None"

definition isValidRequestEntry :: "schema \<Rightarrow> string \<Rightarrow> jsval \<Rightarrow> bool" where
  "isValidRequestEntry schema key v = (case map_of schema key of None \<Rightarrow> False | Some valid \<Rightarrow> valid v)"

datatype request_failure = NotAnObject | UnsupportedFields | InvalidValues

primrec request_message :: "request_failure \<Rightarrow> string" where
  "request_message NotAnObject = ''Desktop command request must be an object.''"
| "request_message UnsupportedFields = ''Desktop command request contains unsupported fields.''"
| "request_message InvalidValues = ''Desktop command request contains invalid values.''"

definition sanitizeRendererRequest :: "schema \<Rightarrow> jsval \<Rightarrow> request_failure + jsval" where
  "sanitizeRendererRequest schema request =
    (if \<not> isPlainRequestObject request then Inl NotAnObject
     else if list_ex (\<lambda>(k, v). \<not> isSupportedRequestField schema k) (own_entries request) then Inl UnsupportedFields
     else if list_ex (\<lambda>(k, v). \<not> isValidRequestEntry schema k v) (own_entries request) then Inl InvalidValues
     else Inr (JObj (fromEntries (own_entries request))))"

section \<open>What leaves\<close>

definition private_words :: "string list" where
  "private_words = controller_secret_words @ [''session'', ''email'', ''uuid'', ''path'']"

definition isPrivateEgressKey :: "string \<Rightarrow> bool" where
  "isPrivateEgressKey = key_mentions private_words"

definition hex_digit :: re where
  "hex_digit = Chr hex_lower"

definition uuid_pattern :: re where
  "uuid_pattern = cats [WordB, Cap 1 (cats [Rep 8 (Some 8) hex_digit, lit ''-'', Rep 4 (Some 4) hex_digit, lit ''-'',
     Chr (\<lambda>x. x \<in> set ''12345''), Rep 3 (Some 3) hex_digit, lit ''-'',
     Chr (\<lambda>x. x \<in> set ''89abAB''), Rep 3 (Some 3) hex_digit, lit ''-'', Rep 12 (Some 12) hex_digit]), WordB]"

definition drive_path :: "string \<Rightarrow> bool" where
  "drive_path s = (case s of
     a # b # c # _ \<Rightarrow> (is_upper a \<or> is_lower a) \<and> b = CHR '':'' \<and> (c = CHR 0x5C \<or> c = CHR ''/'') | _ \<Rightarrow> False)"

definition host_redactSecretString :: "string \<Rightarrow> string" where
  "host_redactSecretString text =
    (if drive_path text then ''[redacted-path]''
     else replace_rules (desktop_rules secret_names @
       [(uuid_pattern, \<lambda>_. host_redacted), (desktop_email, \<lambda>_. host_redacted)]) text)"

definition sanitizeCommandResult :: "jsval \<Rightarrow> jsval" where
  "sanitizeCommandResult = sanitize_top isPrivateEgressKey host_redactSecretString"

definition redactProcessErrorMessage :: "string \<Rightarrow> string" where
  "redactProcessErrorMessage = replace_rules (desktop_rules (secret_names @ [''session'']) @
     [(uuid_pattern, \<lambda>_. host_redacted)])"

definition blockedDto :: "string \<Rightarrow> string \<Rightarrow> jsval" where
  "blockedDto reason message = JObj [(''state'', JStr ''blocked''),
     (''failure'', JObj [(''reason'', JStr reason), (''message'', JStr message)])]"

definition fallbackIdleDto :: jsval where
  "fallbackIdleDto = JObj [(''state'', JStr ''idle''), (''summary'', JStr ''Room command host is idle.'')]"

section \<open>Invoking a command\<close>

text \<open>
  A controller is the methods it has. For a command named like a member every object inherits the
  two tables give that member, a function of the platform: what it refuses as a schema is an
  argument \<open>inherited\<close>; a request it does not refuse throws, at the latest when a method is looked
  for in it.
\<close>

type_synonym 'w controller = "string \<Rightarrow> (jsval \<Rightarrow> ('w, jsval) eff) option"

definition invoke_method :: "'w controller \<Rightarrow> desktop_command \<Rightarrow> jsval \<Rightarrow> ('w, jsval) eff" where
  "invoke_method ctrl command request =
    (if command = RESET_ROOM \<and> ctrl ''resetRoom'' = None then eff_return fallbackIdleDto
     else case List.find (\<lambda>name. ctrl name \<noteq> None) (commandRoutes command) of
       None \<Rightarrow> eff_return (blockedDto ''command_unavailable''
         (''Desktop command is unavailable: '' @ desktop_command_str command))
     | Some name \<Rightarrow> eff_bind ((the (ctrl name)) request) (\<lambda>result. eff_return (sanitizeCommandResult result)))"

type_synonym inherited = "string \<Rightarrow> jsval \<Rightarrow> request_failure option"

definition host_invoke :: "inherited \<Rightarrow> 'w controller \<Rightarrow> string \<Rightarrow> jsval \<Rightarrow> ('w, jsval) eff" where
  "host_invoke inherited ctrl name payload =
    (let request = coalesce (jget payload ''request'') (JObj []);
         blocked = (\<lambda>failure. eff_return (blockedDto ''invalid_request'' (request_message failure)))
     in case command_named name of
       Some command \<Rightarrow>
         (case sanitizeRendererRequest (commandSchemas command) request of
            Inl failure \<Rightarrow> blocked failure | Inr valid \<Rightarrow> invoke_method ctrl command valid)
     | None \<Rightarrow>
         if name \<in> set inherited_names then
           (if \<not> isPlainRequestObject request then blocked NotAnObject
            else case inherited name request of Some failure \<Rightarrow> blocked failure | None \<Rightarrow> eff_throw type_error)
         else eff_return (blockedDto ''unknown_command'' ''Unknown desktop command.''))"

section \<open>Frames\<close>

definition MAX_FRAME_BYTES :: nat where
  "MAX_FRAME_BYTES = 16 * 1024"

definition frame_answer :: "jsval \<Rightarrow> bool \<Rightarrow> jsval \<Rightarrow> jsval" where
  "frame_answer name ok result = JObj [(''id'', name), (''ok'', JBool ok), (''result'', result)]"

definition frame_id :: "jsval \<Rightarrow> jsval" where
  "frame_id frame = (case jget frame ''id'' of
     JNum n \<Rightarrow> if \<bar>n\<bar> \<le> 2 ^ 53 - 1 then JNum n else JNull | _ \<Rightarrow> JNull)"

text \<open>The size of the line in bytes, and what \<open>JSON.parse\<close> makes of it (\<open>None\<close>: it throws).\<close>

definition handleCommandFrame ::
  "inherited \<Rightarrow> 'w controller \<Rightarrow> nat \<Rightarrow> jsval option \<Rightarrow> 'w \<Rightarrow> jsval \<times> 'w" where
  "handleCommandFrame inherited ctrl bytes parsed s =
    (if bytes > MAX_FRAME_BYTES then
       (frame_answer JNull False (blockedDto ''frame_too_large'' ''Desktop command request is too large.''), s)
     else case parsed of
       None \<Rightarrow> (frame_answer JNull False (blockedDto ''invalid_frame'' ''Desktop command frame must be valid JSON.''), s)
     | Some frame \<Rightarrow>
        let name = (case jget frame ''command'' of JStr t \<Rightarrow> t | _ \<Rightarrow> []);
            request = (case jget frame ''request'' of JObj kvs \<Rightarrow> JObj kvs | _ \<Rightarrow> JObj [])
        in case host_invoke inherited ctrl name (JObj [(''request'', request)]) s of
             (Inr result, s') \<Rightarrow> (frame_answer (frame_id frame) True result, s')
           | (Inl e, s') \<Rightarrow> (frame_answer (frame_id frame) False
               (blockedDto ''command_failed'' ''Desktop command failed.''), s'))"

section \<open>The host of the desktop application\<close>

text \<open>
  \<open>createDesktopCommandHostForDevRuntime\<close>: the selection of version and mods the current runtime
  was made for, the configuration it gave the room controller, and the controller. Making a runtime
  (\<open>createDesktopDevRuntimePlan\<close>, a new bridge and a new control plane) is a step of the world that
  may throw.
\<close>

record 'w dev_host =
  dv_version :: jsval
  dv_catalogModId :: jsval
  dv_config :: controller_config
  dv_ctl :: "'w ctl"

record 'w dev_parameters =
  dp_services :: "'w services"
  dp_rebuild :: "jsval \<Rightarrow> jsval \<Rightarrow> 'w \<Rightarrow> (jsval + controller_config) \<times> 'w"
  dp_bridgeState :: "'w \<Rightarrow> jsval"
  dp_sendServerCommand :: "jsval \<Rightarrow> 'w \<Rightarrow> answer \<times> 'w"
  dp_minecraftVersion :: jsval
  dp_catalogModId :: jsval

definition plan_version :: "jsval \<Rightarrow> jsval" where
  "plan_version v = coalesce v (JStr ''1.21.1'')"

definition plan_catalogModId :: "jsval \<Rightarrow> jsval" where
  "plan_catalogModId v = coalesce v (JStr ''performance-core'')"

definition on_ctl :: "('w ctl, jsval) eff \<Rightarrow> ('w dev_host, jsval) eff" where
  "on_ctl m h = (case m (dv_ctl h) of (r, c) \<Rightarrow> (r, h\<lparr>dv_ctl := c\<rparr>))"

text \<open>The selection is stored before the plan is made.\<close>

definition dev_rebuild :: "'w dev_parameters \<Rightarrow> jsval \<Rightarrow> jsval \<Rightarrow> ('w dev_host, jsval) eff" where
  "dev_rebuild dp version modId h =
    (case dp_rebuild dp version modId (ct_world (dv_ctl h)) of
       (Inl e, w) \<Rightarrow> (Inl e, h\<lparr>dv_version := version, dv_catalogModId := modId, dv_ctl := (dv_ctl h)\<lparr>ct_world := w\<rparr>\<rparr>)
     | (Inr cg, w) \<Rightarrow> (Inr JNull, \<lparr>dv_version = version, dv_catalogModId = modId, dv_config = cg,
          dv_ctl = createDesktopRoomController w\<rparr>))"

definition active_states :: "string list" where
  "active_states = [''starting'', ''running'', ''stopping'', ''restarting'']"

definition configureRuntimeForRequest :: "'w dev_parameters \<Rightarrow> jsval \<Rightarrow> ('w dev_host, jsval) eff" where
  "configureRuntimeForRequest dp request =
    (let version = plan_version (jget request ''minecraftVersion'');
         modId = plan_catalogModId (jget request ''catalogModId'')
     in eff_bind (eff_get id) (\<lambda>h.
       if version = dv_version h \<and> modId = dv_catalogModId h then eff_return JNull
       else if dp_bridgeState dp (ct_world (dv_ctl h)) \<in> set (map JStr active_states) then
         eff_return (blockedDto ''runtime_reconfiguration_blocked'' ''Close the current room before changing the selected mods.'')
       else dev_rebuild dp version modId))"

definition configured_then ::
  "'w dev_parameters \<Rightarrow> jsval \<Rightarrow> ('w dev_host, jsval) eff \<Rightarrow> ('w dev_host, jsval) eff" where
  "configured_then dp request m =
    eff_bind (configureRuntimeForRequest dp request) (\<lambda>configured. if truthy configured then eff_return configured else m)"

text \<open>A method of the room controller, with the configuration the host has when it is called.\<close>

definition with_config :: "(controller_config \<Rightarrow> ('w ctl, jsval) eff) \<Rightarrow> ('w dev_host, jsval) eff" where
  "with_config m = eff_bind (eff_get dv_config) (\<lambda>cg. on_ctl (m cg))"

definition fabric_request :: "jsval \<Rightarrow> jsval" where
  "fabric_request request = obj_with request [(''downloadFabric'', JBool True), (''requireFabricDownload'', JBool True)]"

definition dev_resetRoom :: "'w dev_parameters \<Rightarrow> ('w dev_host, jsval) eff" where
  "dev_resetRoom dp =
    eff_bind (with_config (\<lambda>cg. ctl_closeRoom (dp_services dp) cg (JObj [(''reason'', JStr ''desktop_reset'')]))) (\<lambda>_.
    eff_bind (dev_rebuild dp (plan_version (dp_minecraftVersion dp)) (plan_catalogModId (dp_catalogModId dp))) (\<lambda>_.
    eff_return (JObj [(''state'', JStr ''idle''), (''summary'', JStr ''Desktop command host was reset.'')])))"

definition dev_controller :: "'w dev_parameters \<Rightarrow> 'w dev_host controller" where
  "dev_controller dp name =
    (let sv = dp_services dp in
     if name = ''prepareRoom'' then Some (\<lambda>request. configured_then dp request (with_config (\<lambda>cg. ctl_prepareRoom sv request)))
     else if name = ''openRoom'' then
       Some (\<lambda>request. configured_then dp request (with_config (\<lambda>cg. ctl_openRoom sv cg (fabric_request request))))
     else if name = ''closeRoom'' then Some (\<lambda>request. with_config (\<lambda>cg. ctl_closeRoom sv cg request))
     else if name = ''restartRoom'' then
       Some (\<lambda>request. configured_then dp request (with_config (\<lambda>cg. ctl_restartRoom sv cg (fabric_request request))))
     else if name = ''sendServerCommand'' then
       Some (\<lambda>request. on_ctl (await_answer (outside (dp_sendServerCommand dp request))))
     else if name = ''status'' then Some (\<lambda>_. on_ctl (ctl_status sv))
     else if name = ''statusRoom'' then Some (\<lambda>_. with_config (\<lambda>cg. ctl_statusRoom sv cg))
     else if name = ''resetRoom'' then Some (\<lambda>_. dev_resetRoom dp)
     else None)"

text \<open>The host the application starts with; making it may throw.\<close>

definition createDesktopCommandHostForDevRuntime :: "'w dev_parameters \<Rightarrow> 'w \<Rightarrow> jsval + 'w dev_host" where
  "createDesktopCommandHostForDevRuntime dp w =
    (let version = plan_version (dp_minecraftVersion dp); modId = plan_catalogModId (dp_catalogModId dp) in
     case dp_rebuild dp version modId w of
       (Inl e, _) \<Rightarrow> Inl e
     | (Inr cg, w') \<Rightarrow> Inr \<lparr>dv_version = version, dv_catalogModId = modId, dv_config = cg,
         dv_ctl = createDesktopRoomController w'\<rparr>)"

end
