(* ===== verification/CommandHost_Props.thy ===== *)
theory CommandHost_Props
  imports CommandHost RoomController_Props
begin

text \<open>
  What passes the command host: inward only requests that fit the schema of their command, outward
  only values without private entries; and what a failed making of a runtime leaves.
\<close>

section \<open>Outward\<close>

lemma props_ok_walk_kept:
  assumes "\<And>k v w. keep k v \<Longrightarrow> Q k w" and "\<And>k v. ent k v = None"
  shows "props_ok Q (js_walk leaf keep ent v)"
    and "props_ok_elems Q (js_walk_elems leaf keep ent vs)"
    and "props_ok_props Q (js_walk_props leaf keep ent kvs)"
  using assms
  by (induction leaf keep ent v and leaf keep ent vs and leaf keep ent kvs
      rule: js_walk_js_walk_elems_js_walk_props.induct)
    (auto intro: props_ok_fromEntries split: option.split prod.splits)

text \<open>No entry at any depth has a private name, except the link of the value itself.\<close>

definition public_entry :: "string \<Rightarrow> jsval \<Rightarrow> bool" where
  "public_entry k v \<longleftrightarrow> \<not> isPrivateEgressKey k"

definition egress_clean :: "jsval \<Rightarrow> bool" where
  "egress_clean v = (case v of
     JObj kvs \<Rightarrow> list_all (\<lambda>(k, x). (k = ''inviteLink'' \<or> \<not> isPrivateEgressKey k) \<and> props_ok public_entry x) kvs
   | _ \<Rightarrow> props_ok public_entry v)"

lemma egress_clean_obj:
  "(\<And>k x. (k, x) \<in> set kvs \<Longrightarrow> (k = ''inviteLink'' \<or> \<not> isPrivateEgressKey k) \<and> props_ok public_entry x) \<Longrightarrow>
   egress_clean (JObj kvs)"
  by (auto simp: egress_clean_def list_all_iff)

lemma inner_clean: "props_ok public_entry (sanitize_inner isPrivateEgressKey redact v)"
  unfolding sanitize_inner_def by (rule props_ok_walk_kept) (simp_all add: public_entry_def)

lemma sanitized_clean: "egress_clean (sanitizeCommandResult v)"
proof (cases v)
  case (JObj kvs)
  let ?f = "\<lambda>(k, x). (k, case x of JStr s \<Rightarrow> if k = ''inviteLink'' then JStr s else JStr (host_redactSecretString s)
            | _ \<Rightarrow> sanitize_inner isPrivateEgressKey host_redactSecretString x)"
  let ?kvs = "map ?f (filter (\<lambda>(k, x). k = ''inviteLink'' \<or> \<not> isPrivateEgressKey k) kvs)"
  have "(k = ''inviteLink'' \<or> \<not> isPrivateEgressKey k) \<and> props_ok public_entry x" if kx: "(k, x) \<in> set (fromEntries ?kvs)" for k x
  proof -
    from kx have "(k, x) \<in> set ?kvs" using set_fromEntries [of ?kvs] by blast
    then obtain y where y: "k = ''inviteLink'' \<or> \<not> isPrivateEgressKey k" "x = snd (?f (k, y))"
      by auto
    have "props_ok public_entry (snd (?f (k, y)))"
      using inner_clean [of host_redactSecretString y] by (cases y) simp_all
    with y show ?thesis by simp
  qed
  then have "egress_clean (JObj (fromEntries ?kvs))" by (rule egress_clean_obj)
  then show ?thesis by (simp add: sanitizeCommandResult_def sanitize_top_def JObj)
next
  case (JArr xs)
  have "props_ok public_entry (sanitize_inner isPrivateEgressKey host_redactSecretString v)" by (rule inner_clean)
  then show ?thesis
    by (simp add: sanitizeCommandResult_def sanitize_top_def JArr egress_clean_def sanitize_inner_def)
qed (simp_all add: sanitizeCommandResult_def sanitize_top_def egress_clean_def sanitize_inner_def)

lemma private_lower: "map toLowerCase private_words = [''invitelink'', ''inviteurl'', ''invitetoken'', ''rawinvite'', ''token'',
   ''secret'', ''password'', ''credential'', ''authorization'', ''cookie'', ''session'', ''email'', ''uuid'', ''path'']"
  by code_simp

lemma key_mentions_lower: "key_mentions words key \<longleftrightarrow> list_ex (js_includes (toLowerCase key)) (map toLowerCase words)"
  by (simp add: key_mentions_def list_ex_iff)

lemma plain_lower: "toLowerCase ''state'' = ''state''" "toLowerCase ''failure'' = ''failure''" "toLowerCase ''reason'' = ''reason''"
  "toLowerCase ''message'' = ''message''" "toLowerCase ''summary'' = ''summary''"
  by code_simp+

lemma public_names: "\<not> isPrivateEgressKey ''state''" "\<not> isPrivateEgressKey ''failure''"
  "\<not> isPrivateEgressKey ''reason''" "\<not> isPrivateEgressKey ''message''" "\<not> isPrivateEgressKey ''summary''"
  by (simp_all add: isPrivateEgressKey_def key_mentions_lower private_lower plain_lower)

lemma blocked_clean: "egress_clean (blockedDto reason message)" "egress_clean fallbackIdleDto"
  by (simp_all add: egress_clean_def blockedDto_def fallbackIdleDto_def public_names public_entry_def)

section \<open>Inward\<close>

text \<open>A request that fits a schema: an object whose entries are fields of the schema with valid values.\<close>

definition fits_schema :: "schema \<Rightarrow> jsval \<Rightarrow> bool" where
  "fits_schema schema request \<longleftrightarrow> (case request of
     JObj kvs \<Rightarrow> distinct (jm_keys kvs) \<and> list_all (\<lambda>(k, v). \<exists>valid \<in> set schema. fst valid = k \<and> snd valid v) kvs
   | _ \<Rightarrow> False)"

lemma sanitized_request_fits:
  assumes "sanitizeRendererRequest schema request = Inr valid"
  shows "fits_schema schema valid"
proof -
  let ?es = "own_entries request"
  from assms have valid: "valid = JObj (fromEntries ?es)"
    and all: "list_all (\<lambda>(k, v). isValidRequestEntry schema k v) ?es"
    by (auto simp: sanitizeRendererRequest_def list_all_iff list_ex_iff split: if_splits)
  have "\<exists>valid \<in> set schema. fst valid = k \<and> snd valid v" if "(k, v) \<in> set (fromEntries ?es)" for k v
  proof -
    from that set_fromEntries [of ?es] have "(k, v) \<in> set ?es" by blast
    with all have "isValidRequestEntry schema k v" by (auto simp: list_all_iff)
    then obtain test where "map_of schema k = Some test" "test v"
      by (auto simp: isValidRequestEntry_def split: option.splits)
    then show ?thesis by (metis fst_conv map_of_SomeD snd_conv)
  qed
  then show ?thesis by (auto simp: valid fits_schema_def list_all_iff distinct_fromEntries)
qed

text \<open>
  What invoking a command does: it is blocked, it throws before anything happens, or it is a method
  of the command's route on a request that fits.
\<close>

lemma host_invoke_cases [consumes 1, case_names Blocked Thrown Called]:
  assumes "host_invoke inherited ctrl name payload s = (r, s')"
  obtains dto where "r = Inr dto" and "egress_clean dto" and "s' = s"
  | "r = Inl type_error" and "s' = s"
  | command m f request where "command_named name = Some command" and "m \<in> set (commandRoutes command)"
      and "ctrl m = Some f" and "fits_schema (commandSchemas command) request"
      and "r = map_sum id sanitizeCommandResult (fst (f request s))" and "s' = snd (f request s)"
proof -
  let ?request = "coalesce (jget payload ''request'') (JObj [])"
  show thesis
  proof (cases "command_named name")
    case None
    with assms that(1) [of "blockedDto ''invalid_request'' m" for m] that(1) [of "blockedDto ''unknown_command'' m" for m]
      that(2) blocked_clean show thesis
      by (auto simp: host_invoke_def Let_def split: if_splits option.splits)
  next
    case (Some command)
    show thesis
    proof (cases "sanitizeRendererRequest (commandSchemas command) ?request")
      case (Inl e)
      with Some assms that(1) [of "blockedDto ''invalid_request'' (request_message e)"] blocked_clean show thesis
        by (auto simp: host_invoke_def Let_def)
    next
      case (Inr valid)
      with Some assms have run: "invoke_method ctrl command valid s = (r, s')"
        by (simp add: host_invoke_def Let_def)
      show thesis
      proof (cases "command = RESET_ROOM \<and> ctrl ''resetRoom'' = None")
        case True
        with run that(1) [of fallbackIdleDto] blocked_clean show thesis by (auto simp: invoke_method_def)
      next
        case available: False
        show thesis
        proof (cases "List.find (\<lambda>name. ctrl name \<noteq> None) (commandRoutes command)")
          case None
          with available run that(1) blocked_clean show thesis by (auto simp: invoke_method_def)
        next
          case (Some m)
          then obtain f where f: "m \<in> set (commandRoutes command)" "ctrl m = Some f"
            by (auto simp: find_Some_iff)
          from available Some run f have "r = map_sum id sanitizeCommandResult (fst (f valid s)) \<and> s' = snd (f valid s)"
            by (auto simp: invoke_method_def eff_bind_def split: prod.splits sum.splits)
          with that(3) [OF \<open>command_named name = Some command\<close> f sanitized_request_fits [OF Inr]] show thesis
            by blast
        qed
      qed
    qed
  qed
qed

text \<open>
  C30. Every line is answered by one frame: it carries the identifier of the line when that is a safe
  integer, and a result in which no entry at any depth has a private name, save a link at its top. A
  line that is too long or is not JSON, and a command that is blocked, changes nothing.
\<close>

theorem frames_answered_clean:
  "\<exists>ok result s'. handleCommandFrame inherited ctrl bytes parsed s =
       (frame_answer (case parsed of Some frame \<Rightarrow> if bytes \<le> MAX_FRAME_BYTES then frame_id frame else JNull
          | None \<Rightarrow> JNull) ok result, s') \<and>
     egress_clean result \<and>
     (s' \<noteq> s \<longrightarrow> (\<exists>frame. parsed = Some frame \<and> bytes \<le> MAX_FRAME_BYTES \<and>
        (\<exists>command m f request. jget frame ''command'' = JStr (desktop_command_str command) \<and>
           m \<in> set (commandRoutes command) \<and> ctrl m = Some f \<and> fits_schema (commandSchemas command) request \<and>
           s' = snd (f request s))))"
proof (cases "bytes > MAX_FRAME_BYTES \<or> parsed = None")
  case True
  then show ?thesis using blocked_clean
    by (auto simp: handleCommandFrame_def split: option.split)
next
  case False
  then obtain frame where frame: "parsed = Some frame" "\<not> bytes > MAX_FRAME_BYTES" by auto
  let ?name = "case jget frame ''command'' of JStr t \<Rightarrow> t | _ \<Rightarrow> []"
  let ?payload = "JObj [(''request'', case jget frame ''request'' of JObj kvs \<Rightarrow> JObj kvs | _ \<Rightarrow> JObj [])]"
  obtain r s' where run: "host_invoke inherited ctrl ?name ?payload s = (r, s')" by fastforce
  then have answer: "handleCommandFrame inherited ctrl bytes parsed s = (case r of
        Inr result \<Rightarrow> (frame_answer (frame_id frame) True result, s')
      | Inl e \<Rightarrow> (frame_answer (frame_id frame) False (blockedDto ''command_failed'' ''Desktop command failed.''), s'))"
    using frame by (simp add: handleCommandFrame_def Let_def split: sum.split)
  have named: "jget frame ''command'' = JStr (desktop_command_str command)" if "command_named ?name = Some command" for command
  proof -
    from that have "desktop_command_str command = ?name"
      by (auto simp: command_named_def find_Some_iff)
    moreover have "desktop_command_str command \<noteq> []" by (cases command) simp_all
    ultimately show ?thesis by (auto split: jsval.splits)
  qed
  from run show ?thesis
  proof (cases rule: host_invoke_cases)
    case (Blocked dto)
    with answer frame show ?thesis by auto
  next
    case Thrown
    with answer frame blocked_clean show ?thesis by auto
  next
    case (Called command m f request)
    have result: "\<exists>ok result. handleCommandFrame inherited ctrl bytes parsed s = (frame_answer (frame_id frame) ok result, s') \<and>
        egress_clean result"
    proof (cases "fst (f request s)")
      case (Inl e)
      with answer Called(5) blocked_clean(1) show ?thesis by (intro exI conjI) (simp, simp)
    next
      case (Inr v)
      with answer Called(5) sanitized_clean show ?thesis by (intro exI conjI) (simp, simp)
    qed
    then obtain ok result where ok: "handleCommandFrame inherited ctrl bytes parsed s = (frame_answer (frame_id frame) ok result, s')"
      "egress_clean result" by blast
    have "\<exists>command m f request. jget frame ''command'' = JStr (desktop_command_str command) \<and>
        m \<in> set (commandRoutes command) \<and> ctrl m = Some f \<and> fits_schema (commandSchemas command) request \<and>
        s' = snd (f request s)"
      using named [OF Called(1)] Called by blast
    with ok frame show ?thesis
      by - (rule exI [of _ ok], rule exI [of _ result], rule exI [of _ s'], intro conjI impI, simp_all)
  qed
qed

text \<open>A host whose only method counts its calls.\<close>

definition counting :: "nat controller" where
  "counting name = (if name = ''openRoom'' then Some (\<lambda>request n. (Inr (JObj [(''token'', JStr ''x''), (''state'', JStr ''ok'')]), Suc n))
     else None)"

lemma frames_answered_clean_witness:
  "\<exists>ok result s'. handleCommandFrame (\<lambda>_ _. None) counting 40
       (Some (JObj [(''id'', JNum 7), (''command'', JStr ''desktop_open_room'')])) 0 =
     (frame_answer (JNum 7) ok result, s') \<and> egress_clean result"
proof -
  have "frame_id (JObj [(''id'', JNum 7), (''command'', JStr ''desktop_open_room'')]) = JNum 7" by code_simp
  then show ?thesis
    using frames_answered_clean [of "\<lambda>_ _. None" counting 40
        "Some (JObj [(''id'', JNum 7), (''command'', JStr ''desktop_open_room'')])" 0]
    by (auto simp: MAX_FRAME_BYTES_def)
qed

section \<open>Making a runtime\<close>

text \<open>The commands that take a selection.\<close>

definition selecting :: "desktop_command \<Rightarrow> bool" where
  "selecting command \<longleftrightarrow> command \<in> {PREPARE_ROOM, OPEN_ROOM, RESTART_ROOM}"

lemma on_ctl_config: "dv_config (snd (on_ctl m h)) = dv_config h"
  by (simp add: on_ctl_def split: prod.split)

lemma with_config_config: "dv_config (snd (with_config m h)) = dv_config h"
  by (simp add: with_config_def eff_bind_def on_ctl_config)

text \<open>The part of the room controller in a method.\<close>

lemma on_ctl_ctl: "dv_ctl (snd (on_ctl m h)) = snd (m (dv_ctl h))"
  by (simp add: on_ctl_def split: prod.split)

lemma with_config_ctl: "dv_ctl (snd (with_config m h)) = snd (m (dv_config h) (dv_ctl h))"
  by (simp add: with_config_def eff_bind_def on_ctl_ctl)

lemma on_ctl_selection:
  "dv_version (snd (on_ctl m h)) = dv_version h" "dv_catalogModId (snd (on_ctl m h)) = dv_catalogModId h"
  by (simp_all add: on_ctl_def split: prod.split)

lemma with_config_selection:
  "dv_version (snd (with_config m h)) = dv_version h" "dv_catalogModId (snd (with_config m h)) = dv_catalogModId h"
  by (simp_all add: with_config_def eff_bind_def on_ctl_selection)

lemmas host_parts = on_ctl_config on_ctl_ctl on_ctl_selection with_config_config with_config_ctl with_config_selection

lemma configure_active:
  assumes "dp_bridgeState dp (ct_world (dv_ctl h)) \<in> set (map JStr active_states)"
  shows "configureRuntimeForRequest dp request h = (Inr JNull, h) \<or>
    (\<exists>dto. truthy dto \<and> configureRuntimeForRequest dp request h = (Inr dto, h))"
  using assms by (auto simp: configureRuntimeForRequest_def eff_bind_def Let_def blockedDto_def)

lemma configured_active:
  assumes "dp_bridgeState dp (ct_world (dv_ctl h)) \<in> set (map JStr active_states)"
  shows "configured_then dp request m h = m h \<or> snd (configured_then dp request m h) = h"
  using configure_active [OF assms, of request] by (auto simp: configured_then_def eff_bind_def)

text \<open>
  While the runtime of the room is starting, running, stopping or restarting, no command but a
  reset replaces it: the selection and the configuration stay, and what happens to the room controller
  is one of its own commands, a server command to the runtime, or nothing.
\<close>

theorem active_runtime_not_replaced:
  assumes "dp_bridgeState dp (ct_world (dv_ctl h)) \<in> set (map JStr active_states)"
    and "dev_controller dp name = Some f" and "name \<noteq> ''resetRoom''"
  shows "dv_version (snd (f request h)) = dv_version h \<and> dv_catalogModId (snd (f request h)) = dv_catalogModId h \<and>
    dv_config (snd (f request h)) = dv_config h \<and>
    (dv_ctl (snd (f request h)) = dv_ctl h \<or>
     (\<exists>c. dv_ctl (snd (f request h)) = snd (command_eff (dp_services dp) (dv_config h) c (dv_ctl h))) \<or>
     dv_ctl (snd (f request h)) = snd (await_answer (outside (dp_sendServerCommand dp request)) (dv_ctl h)))"
proof -
  have step: "snd (configured_then dp request (with_config m) h) \<in> {h, snd (with_config m h)}" for m
    using configured_active [OF assms(1), of request "with_config m"] by auto
  consider "name = ''prepareRoom''" | "name = ''openRoom''" | "name = ''closeRoom''" | "name = ''restartRoom''"
    | "name = ''sendServerCommand''" | "name = ''status''" | "name = ''statusRoom''"
    using assms(2,3) by (auto simp: dev_controller_def Let_def split: if_splits)
  then show ?thesis
  proof cases
    case 1
    with assms(2) step [of "\<lambda>cg. ctl_prepareRoom (dp_services dp) request"] show ?thesis
      by (auto simp: dev_controller_def Let_def host_parts intro: exI [of _ "Ctl_prepare request"])
  next
    case 2
    with assms(2) step [of "\<lambda>cg. ctl_openRoom (dp_services dp) cg (fabric_request request)"] show ?thesis
      by (auto simp: dev_controller_def Let_def host_parts intro: exI [of _ "Ctl_open (fabric_request request)"])
  next
    case 3
    with assms(2) show ?thesis
      by (auto simp: dev_controller_def Let_def host_parts intro: exI [of _ "Ctl_close request"])
  next
    case 4
    with assms(2) step [of "\<lambda>cg. ctl_restartRoom (dp_services dp) cg (fabric_request request)"] show ?thesis
      by (auto simp: dev_controller_def Let_def host_parts intro: exI [of _ "Ctl_restart (fabric_request request)"])
  next
    case 5
    with assms(2) show ?thesis by (auto simp: dev_controller_def Let_def host_parts)
  next
    case 6
    with assms(2) show ?thesis
      by (auto simp: dev_controller_def Let_def host_parts intro: exI [of _ Ctl_status])
  next
    case 7
    with assms(2) show ?thesis
      by (auto simp: dev_controller_def Let_def host_parts intro: exI [of _ Ctl_statusRoom])
  qed
qed

definition sample_dev :: "unit dev_parameters" where
  "sample_dev = \<lparr>dp_services = sample_services, dp_rebuild = \<lambda>_ _ w. (Inr sample_config, w),
     dp_bridgeState = \<lambda>_. JStr ''running'', dp_sendServerCommand = \<lambda>_ w. (Value JNull, w),
     dp_minecraftVersion = JUndef, dp_catalogModId = JUndef\<rparr>"

definition sample_dev_host :: "unit dev_host" where
  "sample_dev_host = \<lparr>dv_version = JStr ''1.21.1'', dv_catalogModId = JStr ''lithium'', dv_config = sample_config,
     dv_ctl = createDesktopRoomController ()\<rparr>"

lemma active_runtime_not_replaced_witness:
  "dv_catalogModId (snd (the (dev_controller sample_dev ''openRoom'') (JObj [(''catalogModId'', JStr ''ferritecore'')])
     sample_dev_host)) = JStr ''lithium''"
proof -
  have "dp_bridgeState sample_dev (ct_world (dv_ctl sample_dev_host)) \<in> set (map JStr active_states)"
    by (simp add: sample_dev_def active_states_def)
  moreover have "dev_controller sample_dev ''openRoom'' = Some (the (dev_controller sample_dev ''openRoom''))"
    by (simp add: dev_controller_def Let_def)
  moreover have "''openRoom'' \<noteq> ''resetRoom''" by simp
  ultimately have "dv_catalogModId (snd (the (dev_controller sample_dev ''openRoom'')
      (JObj [(''catalogModId'', JStr ''ferritecore'')]) sample_dev_host)) = dv_catalogModId sample_dev_host"
    using active_runtime_not_replaced [of sample_dev sample_dev_host "''openRoom''"] by blast
  then show ?thesis by (simp add: sample_dev_host_def)
qed

text \<open>
  The selection is stored before the runtime is made for it. When making it throws, the next request
  with the same selection finds it stored and runs on the runtime of the selection before.
\<close>

lemma failed_plan_taken_next_time:
  assumes "configureRuntimeForRequest dp request h = (Inl e, h1)"
  shows "configureRuntimeForRequest dp request h1 = (Inr JNull, h1) \<and> dv_config h1 = dv_config h"
  using assms
  by (auto simp: configureRuntimeForRequest_def eff_bind_def dev_rebuild_def Let_def split: if_splits prod.splits sum.splits)

text \<open>A reset makes a new room controller whether or not the old one is still to be cleaned up.\<close>

lemma reset_forgets_cleanup:
  assumes "dev_resetRoom dp h = (Inr dto, h')"
  shows "\<not> ct_cleanupPending (dv_ctl h') \<and> ac_relay (ct_active (dv_ctl h')) = JNull"
  using assms
  by (auto simp: dev_resetRoom_def eff_bind_def dev_rebuild_def createDesktopRoomController_def emptyActiveRoom_def
      split: prod.splits sum.splits)

text \<open>A request that names no version selects \<open>1.21.1\<close>, whatever version the host was made with.\<close>

lemma unnamed_version_resets:
  "plan_version (jget (JObj [(''catalogModId'', JStr ''lithium'')]) ''minecraftVersion'') = JStr ''1.21.1''"
  by (simp add: plan_version_def coalesce_def)

end
