(* ===== verification/LocalServer.thy ===== *)
theory LocalServer
  imports RuntimeAdapter Machine
begin

text \<open>
  \<open>apps/desktop/src/runtime/node-local-runtime.mjs\<close>: the lifecycle of the local Minecraft server
  (\<open>createLocalServerLifecycleManager\<close>, \<open>launchLocalServer\<close>, the line buffer and the console
  commands). Commands run one at a time; between the steps of one the processes speak, end and fail.
  What the platform knows (whether a path exists, its native form, its last part) and which of a
  platform's processes are alive are arguments or steps of the environment. The process
  metrics are those of theory \<open>ProcessMetrics\<close>.
\<close>

section \<open>Reasons\<close>

datatype local_failure = LF_INVALID_RUNTIME_PLAN | LF_MOD_CHECKSUM_MISMATCH | LF_MOD_DOWNLOAD_FAILED
  | LF_MOD_DOWNLOAD_UNTRUSTED | LF_MOD_SOURCE_MISSING | LF_PROCESS_ALREADY_RUNNING | LF_PROCESS_ERROR
  | LF_PROCESS_NOT_RUNNING | LF_PROCESS_STOP_TIMEOUT | LF_SERVER_COMMAND_INVALID
  | LF_SERVER_COMMAND_WRITE_FAILED | LF_RUNTIME_ARTIFACT_MISSING | LF_UNTRUSTED_LAUNCH_COMMAND
  | LF_UNSUPPORTED_LAUNCH_MODE

text \<open>A failure: its reason, with the detail; the message is determined by the reason.\<close>

type_synonym local_fail = "local_failure \<times> jsval"

section \<open>Console commands\<close>

text \<open>\<open>s.split(/\s+/)\<close> of a text that starts and ends with other characters.\<close>

fun space_words :: "string \<Rightarrow> string list" where
  "space_words [] = [[]]"
| "space_words (x # xs) =
     (if is_space x then
        (case space_words xs of [] \<Rightarrow> [[]] | w # ws \<Rightarrow> (if w = [] \<and> xs \<noteq> [] then w # ws else [] # w # ws))
      else (case space_words xs of [] \<Rightarrow> [[x]] | w # ws \<Rightarrow> (x # w) # ws))"

definition blocked_commands :: "string list" where
  "blocked_commands = [''ban'', ''ban-ip'', ''deop'', ''execute'', ''kick'', ''op'', ''pardon'', ''pardon-ip'',
     ''reload'', ''save-off'', ''save-on'', ''stop'']"

definition isDangerousServerCommand :: "string \<Rightarrow> bool" where
  "isDangerousServerCommand command =
    (let ws = space_words (toLowerCase command); name = hd ws;
         subcommand = (case tl ws of [] \<Rightarrow> [] | w # _ \<Rightarrow> w)
     in name \<in> set blocked_commands \<or>
        (name = ''whitelist'' \<and> subcommand \<notin> {''add'', ''list'', ''remove''}))"

definition control_char :: "char \<Rightarrow> bool" where
  "control_char x \<longleftrightarrow> (let n = of_char x :: nat in
     n \<le> 8 \<or> n = 11 \<or> n = 12 \<or> (14 \<le> n \<and> n \<le> 31) \<or> n = 127)"

definition line_break :: "char \<Rightarrow> bool" where
  "line_break x \<longleftrightarrow> x = CHR 0x0D \<or> x = CHR 0x0A"

definition normalizeServerCommand :: "jsval \<Rightarrow> jsval + string" where
  "normalizeServerCommand command =
    (case command of
       JStr s \<Rightarrow>
         let trimmed = js_trim s;
             consoleCommand = (if js_startsWith trimmed ''/'' then dropWhile is_space (tl trimmed) else trimmed)
         in if consoleCommand = [] \<or> length consoleCommand > 256 \<or> list_ex line_break s \<or> list_ex control_char s
            then Inl (JObj [(''reason'', JStr ''invalid_line''), (''maxLength'', JNum 256)])
            else if isDangerousServerCommand consoleCommand then Inl (JObj [(''reason'', JStr ''blocked_command'')])
            else Inr consoleCommand
     | _ \<Rightarrow> Inl (JObj [(''reason'', JStr ''not_string'')]))"

section \<open>Lines of the log\<close>

text \<open>\<open>text.split(/\r?\n/)\<close>\<close>

fun split_lines :: "string \<Rightarrow> string list" where
  "split_lines [] = [[]]"
| "split_lines (x # xs) =
     (if x = CHR 0x0A then [] # split_lines xs
      else if x = CHR 0x0D \<and> xs \<noteq> [] \<and> hd xs = CHR 0x0A then split_lines xs
      else (case split_lines xs of [] \<Rightarrow> [[x]] | w # ws \<Rightarrow> (x # w) # ws))"

definition emit_lines :: "string list \<Rightarrow> string list" where
  "emit_lines ls = filter (\<lambda>l. l \<noteq> []) (map js_trim ls)"

text \<open>\<open>push(chunk)\<close> of a line buffer: the lines it emits, and the new buffer.\<close>

definition buffer_push :: "string \<Rightarrow> string \<Rightarrow> string list \<times> string" where
  "buffer_push buffer chunk =
    (let ls = split_lines (buffer @ chunk) in (emit_lines (butlast ls), last ls))"

definition buffer_flush :: "string \<Rightarrow> string list" where
  "buffer_flush buffer = emit_lines [buffer]"

text \<open>The patterns of the start intent's health check, with the flag \<open>i\<close>.\<close>

definition ready_pattern :: re where
  "ready_pattern = liti ''Done''"

definition crash_pattern :: re where
  "crash_pattern = alts [cats [WordB, liti ''ERROR'', WordB], cats [WordB, liti ''Exception'', WordB],
     cats [WordB, liti ''Failed'', WordB], liti ''Crash report'', liti ''crashed'', liti ''Caused by:'']"

section \<open>Launching\<close>

text \<open>The platform: the native form of a path, whether it is absolute, its last part, what exists.\<close>

record platform =
  pf_native :: "string \<Rightarrow> string"
  pf_absolute :: "string \<Rightarrow> bool"
  pf_basename :: "string \<Rightarrow> string"
  pf_exists :: "string \<Rightarrow> bool"

definition toNativePath :: "platform \<Rightarrow> jsval \<Rightarrow> string" where
  "toNativePath pf path = pf_native pf (js_string path)"

fun jar_of :: "jsval list \<Rightarrow> jsval" where
  "jar_of [] = JNull"
| "jar_of [a] = (if a = JStr ''-jar'' then JUndef else JNull)"
| "jar_of (a # b # rest) = (if a = JStr ''-jar'' then b else jar_of (b # rest))"

definition validateLaunchCommand :: "platform \<Rightarrow> jsval \<Rightarrow> process_intent \<Rightarrow> jsval option" where
  "validateLaunchCommand pf plan intent =
    (let command = toNativePath pf (pi_command intent);
         javaPath = toNativePath pf (jget (jget plan ''java'') ''path'');
         launcherJar = jget (jget plan ''fabric'') ''launcherJar'';
         javaBinary = toLowerCase (pf_basename pf command)
     in if \<not> pf_absolute pf command \<or> command \<noteq> javaPath \<or> javaBinary \<noteq> ''java.exe'' then
          Some (JObj [(''reason'', JStr ''java_command_mismatch''), (''command'', pi_command intent),
            (''expectedCommand'', jget (jget plan ''java'') ''path'')])
        else if pi_args intent \<noteq> [JStr ''-jar'', launcherJar, JStr ''nogui''] then
          Some (JObj [(''reason'', JStr ''fabric_args_mismatch''), (''args'', JArr (pi_args intent)),
            (''expectedArgs'', JArr [JStr ''-jar'', launcherJar, JStr ''nogui''])])
        else None)"

datatype launched = Dry_run process_intent | Spawned process_intent

definition missing_artifacts :: "platform \<Rightarrow> process_intent \<Rightarrow> string list" where
  "missing_artifacts pf intent =
    (let jarPath = jar_of (pi_args intent) in
     (if pf_exists pf (toNativePath pf (pi_cwd intent)) then [] else [''room_root'']) @
     (if truthy jarPath \<and> \<not> pf_exists pf (toNativePath pf jarPath) then [''fabric_server_jar''] else []) @
     (if pf_absolute pf (js_string (pi_command intent)) \<and> \<not> pf_exists pf (toNativePath pf (pi_command intent))
      then [''java_runtime''] else []))"

text \<open>
  \<open>launchLocalServer\<close> with the action \<open>start\<close>; \<open>None\<close> is a thrown exception. The detail of missing
  artifacts names them; the intent the code adds to it is the one of the plan.
\<close>

definition launchLocalServer :: "platform \<Rightarrow> jsval \<Rightarrow> jsval \<Rightarrow> (local_fail + launched) option" where
  "launchLocalServer pf plan mode0 = do {
     intentResult \<leftarrow> createLocalServerProcessIntent plan (JStr (host_action_str HA_START));
     let mode = coalesce mode0 (JStr ''dry-run'');
     Some (case intentResult of
       Inl reason \<Rightarrow> Inl (LF_INVALID_RUNTIME_PLAN, JStr (adapter_failure_str reason))
     | Inr intent \<Rightarrow>
         if mode = JStr ''dry-run'' then Inr (Dry_run intent)
         else if mode \<noteq> JStr ''real'' then Inl (LF_UNSUPPORTED_LAUNCH_MODE, JObj [(''mode'', mode)])
         else (case validateLaunchCommand pf plan intent of
             Some detail \<Rightarrow> Inl (LF_UNTRUSTED_LAUNCH_COMMAND, detail)
           | None \<Rightarrow>
               if missing_artifacts pf intent \<noteq> [] then
                 Inl (LF_RUNTIME_ARTIFACT_MISSING, JArr (map JStr (missing_artifacts pf intent)))
               else Inr (Spawned intent))) }"

section \<open>The lifecycle\<close>

datatype life_event =
    Life_failure local_fail
  | Life_log jsval
  | Life_ready
  | Life_crashed bool string
  | Life_exit jsval jsval host_state
  | Life_command string nat

datatype life_answer =
    Answer_started host_state process_intent
  | Answer_stopped host_state bool
  | Answer_sent host_state string
  | Answer_failed local_fail
  | Answer_thrown

text \<open>
  What a command waits for: the launch, or the end of a process. A stop knows whether it killed,
  which timers are set, and, within a restart, what to start with.
\<close>

datatype life_task =
    Life_idle
  | Life_launching jsval
  | Life_stopping nat bool bool bool "jsval option"

text \<open>
  \<open>lf_alive\<close> are the processes the platform runs: it is no variable of the program. \<open>lf_buffers\<close> are
  the line buffers of the processes' outputs (\<open>True\<close>: stderr), \<open>lf_settled\<close> the processes whose exit
  promise is resolved, \<open>lf_input\<close> what was written to which process, \<open>lf_kills\<close> the signals sent.
\<close>

record life =
  lf_state :: host_state
  lf_process :: "nat option"
  lf_exited :: bool
  lf_task :: life_task
  lf_logSequence :: nat
  lf_lastExit :: "(jsval \<times> jsval) option"
  lf_events :: "life_event list"
  lf_answers :: "life_answer list"
  lf_next :: nat
  lf_alive :: "nat list"
  lf_settled :: "nat list"
  lf_buffers :: "(nat \<times> bool, string) jsmap"
  lf_input :: "(nat \<times> string) list"
  lf_kills :: "nat list"

record life_config =
  lc_plan :: jsval
  lc_mode :: jsval
  lc_stopTimeoutMs :: jsval
  lc_hardStopTimeoutMs :: jsval

definition createLocalServerLifecycleManager :: life where
  "createLocalServerLifecycleManager = \<lparr>lf_state = HS_STOPPED, lf_process = None, lf_exited = True,
     lf_task = Life_idle, lf_logSequence = 0, lf_lastExit = None, lf_events = [], lf_answers = [], lf_next = 0,
     lf_alive = [], lf_settled = [], lf_buffers = [], lf_input = [], lf_kills = []\<rparr>"

definition life_emit :: "life_event \<Rightarrow> life \<Rightarrow> life" where
  "life_emit e s = s\<lparr>lf_events := lf_events s @ [e]\<rparr>"

definition life_answer :: "life_answer \<Rightarrow> life \<Rightarrow> life" where
  "life_answer a s = s\<lparr>lf_answers := lf_answers s @ [a], lf_task := Life_idle\<rparr>"

definition has_process :: "life \<Rightarrow> bool" where
  "has_process s \<longleftrightarrow> lf_process s \<noteq> None \<and> \<not> lf_exited s"

subsection \<open>What a process does\<close>

definition redacted_line :: "string \<Rightarrow> string" where
  "redacted_line line = redactHostLogLine (JStr line)"

definition log_event :: "life_config \<Rightarrow> bool \<Rightarrow> string \<Rightarrow> nat \<Rightarrow> jsval" where
  "log_event cf stderr line n = (case createRedactedLogEvent (JObj
       [(''roomId'', jget (jget (lc_plan cf) ''room'') ''id''),
        (''stream'', JStr (if stderr then ''stderr'' else ''stdout'')), (''line'', JStr line),
        (''sequence'', JNum (int n))]) of None \<Rightarrow> JUndef | Some e \<Rightarrow> e)"

definition on_log :: "life_config \<Rightarrow> bool \<Rightarrow> string \<Rightarrow> life \<Rightarrow> life" where
  "on_log cf stderr line s =
    (let s1 = life_emit (Life_log (log_event cf stderr line (Suc (lf_logSequence s))))
           (s\<lparr>lf_logSequence := Suc (lf_logSequence s)\<rparr>);
         s2 = (if lf_state s1 = HS_STARTING \<and> re_test ready_pattern line
               then life_emit Life_ready (s1\<lparr>lf_state := HS_RUNNING\<rparr>) else s1)
     in if lf_state s2 \<noteq> HS_CRASHED \<and> re_test crash_pattern line
        then life_emit (Life_crashed stderr (redacted_line line)) (s2\<lparr>lf_state := HS_CRASHED\<rparr>) else s2)"

definition on_lines :: "life_config \<Rightarrow> bool \<Rightarrow> string list \<Rightarrow> life \<Rightarrow> life" where
  "on_lines cf stderr ls s = fold (on_log cf stderr) ls s"

definition buffer_of :: "nat \<Rightarrow> bool \<Rightarrow> life \<Rightarrow> string" where
  "buffer_of p stderr s = (case jm_get (lf_buffers s) (p, stderr) of None \<Rightarrow> [] | Some b \<Rightarrow> b)"

definition process_data :: "life_config \<Rightarrow> nat \<Rightarrow> bool \<Rightarrow> string \<Rightarrow> life \<Rightarrow> life" where
  "process_data cf p stderr chunk s =
    (let (ls, rest) = buffer_push (buffer_of p stderr s) chunk
     in on_lines cf stderr ls (s\<lparr>lf_buffers := jm_set (p, stderr) rest (lf_buffers s)\<rparr>))"

definition flush_buffer :: "life_config \<Rightarrow> nat \<Rightarrow> bool \<Rightarrow> life \<Rightarrow> life" where
  "flush_buffer cf p stderr s =
     on_lines cf stderr (buffer_flush (buffer_of p stderr s)) (s\<lparr>lf_buffers := jm_set (p, stderr) [] (lf_buffers s)\<rparr>)"

definition on_exit :: "jsval \<Rightarrow> jsval \<Rightarrow> life \<Rightarrow> life" where
  "on_exit code signal s =
    (let nextState = (if lf_state s = HS_STOPPING \<or> lf_state s = HS_RESTARTING then HS_STOPPED
           else if lf_state s = HS_CRASHED \<or> truthy code then HS_CRASHED else HS_STOPPED)
     in life_emit (Life_exit code signal nextState) (s\<lparr>lf_exited := True, lf_lastExit := Some (code, signal),
          lf_process := None, lf_state := nextState\<rparr>))"

definition process_error :: "string \<Rightarrow> local_fail" where
  "process_error message = (LF_PROCESS_ERROR, JObj [(''error'', JStr message)])"

definition on_error :: "string \<Rightarrow> life \<Rightarrow> life" where
  "on_error message s = life_emit (Life_failure (process_error message))
     (s\<lparr>lf_exited := True, lf_process := None, lf_state := HS_FAILED\<rparr>)"

subsection \<open>Commands\<close>

text \<open>\<open>start\<close> up to its \<open>await\<close>, and from there on. The launched process gets the next number.\<close>

definition life_start :: "life_config \<Rightarrow> jsval \<Rightarrow> life \<Rightarrow> life" where
  "life_start cf startOptions s =
    (if has_process s then life_answer (Answer_failed (LF_PROCESS_ALREADY_RUNNING,
         JObj [(''state'', JStr (host_state_str (lf_state s)))])) s
     else s\<lparr>lf_task := Life_launching (coalesce (coalesce (jget startOptions ''mode'') (lc_mode cf)) (JStr ''real''))\<rparr>)"

definition life_launched :: "life_config \<Rightarrow> (local_fail + launched) option \<Rightarrow> life \<Rightarrow> life" where
  "life_launched cf result s =
    (case result of
       None \<Rightarrow> life_answer Answer_thrown s
     | Some (Inl failure) \<Rightarrow>
         life_answer (Answer_failed failure) (life_emit (Life_failure failure) (s\<lparr>lf_state := HS_FAILED\<rparr>))
     | Some (Inr (Dry_run intent)) \<Rightarrow>
         let failure = (LF_UNSUPPORTED_LAUNCH_MODE, JObj [(''mode'', JStr ''dry-run'')])
         in life_answer (Answer_failed failure) (life_emit (Life_failure failure) (s\<lparr>lf_state := HS_FAILED\<rparr>))
     | Some (Inr (Spawned intent)) \<Rightarrow>
         life_answer (Answer_started HS_STARTING intent) (s\<lparr>lf_process := Some (lf_next s), lf_exited := False,
           lf_state := HS_STARTING, lf_next := Suc (lf_next s), lf_alive := lf_next s # lf_alive s\<rparr>))"

text \<open>\<open>Number.isFinite(ms) && ms >= 0\<close>; a non-integer number of the model is finite.\<close>

definition timer_set :: "jsval \<Rightarrow> bool" where
  "timer_set ms = (case ms of JNum n \<Rightarrow> 0 \<le> n | JFrac x \<Rightarrow> x \<noteq> [] \<and> hd x \<noteq> CHR ''-'' | _ \<Rightarrow> False)"

definition gracefulCommand :: string where
  "gracefulCommand = ''stop'' @ [CHR 0x0A]"

definition life_stop :: "life_config \<Rightarrow> jsval \<Rightarrow> jsval option \<Rightarrow> life \<Rightarrow> life" where
  "life_stop cf stopOptions restart s =
    (if \<not> has_process s then
       (let s1 = s\<lparr>lf_state := HS_STOPPED\<rparr> in
        case restart of None \<Rightarrow> life_answer (Answer_stopped HS_STOPPED False) s1 | Some startOptions \<Rightarrow> life_start cf startOptions s1)
     else case createLocalServerProcessIntent (lc_plan cf) (JStr (host_action_str HA_STOP)) of
         None \<Rightarrow> life_answer Answer_thrown s
       | Some (Inl reason) \<Rightarrow> life_answer (Answer_failed (LF_INVALID_RUNTIME_PLAN, JStr (adapter_failure_str reason)))
           (s\<lparr>lf_state := HS_FAILED\<rparr>)
       | Some (Inr intent) \<Rightarrow>
           let timeoutMs = coalesce (coalesce (jget stopOptions ''timeoutMs'') (lc_stopTimeoutMs cf)) (JNum (pi_timeoutMs intent));
               hardTimeoutMs = coalesce (coalesce (jget stopOptions ''hardTimeoutMs'') (lc_hardStopTimeoutMs cf)) (JNum 5000);
               p = the (lf_process s)
           in s\<lparr>lf_state := HS_STOPPING, lf_input := lf_input s @ [(p, pi_gracefulCommand intent)],
                lf_task := Life_stopping p False (timer_set timeoutMs) (timer_set hardTimeoutMs) restart\<rparr>)"

text \<open>After the wait: what the exit promise gave (an error, or an exit), or the hard timeout.\<close>

definition stop_after_exit :: "life_config \<Rightarrow> string option \<Rightarrow> life \<Rightarrow> life" where
  "stop_after_exit cf error s =
    (case lf_task s of
       Life_stopping p didKill kt ht restart \<Rightarrow>
         (case error of
            Some message \<Rightarrow> life_answer (Answer_failed (process_error message)) (s\<lparr>lf_state := HS_FAILED\<rparr>)
          | None \<Rightarrow>
              let s1 = s\<lparr>lf_process := None, lf_exited := True, lf_state := HS_STOPPED\<rparr> in
              (case restart of
                 None \<Rightarrow> life_answer (Answer_stopped HS_STOPPED didKill) s1
               | Some startOptions \<Rightarrow> life_start cf startOptions s1))
     | _ \<Rightarrow> s)"

definition waits_for :: "nat \<Rightarrow> life \<Rightarrow> bool" where
  "waits_for p s \<longleftrightarrow> (case lf_task s of Life_stopping q _ _ _ _ \<Rightarrow> q = p | _ \<Rightarrow> False)"

text \<open>A process ends: the observer, the rest of its output, and whoever waits for it.\<close>

definition process_settle :: "life_config \<Rightarrow> nat \<Rightarrow> string option \<Rightarrow> life \<Rightarrow> life" where
  "process_settle cf p error s =
    (if p \<in> set (lf_settled s) then s
     else
       let s1 = flush_buffer cf p True (flush_buffer cf p False (s\<lparr>lf_settled := p # lf_settled s\<rparr>))
       in if waits_for p s1 then stop_after_exit cf error s1 else s1)"

definition process_exit :: "life_config \<Rightarrow> nat \<Rightarrow> jsval \<Rightarrow> jsval \<Rightarrow> life \<Rightarrow> life" where
  "process_exit cf p code signal s =
     process_settle cf p None (on_exit code signal (s\<lparr>lf_alive := filter (\<lambda>q. q \<noteq> p) (lf_alive s)\<rparr>))"

text \<open>An error of a process: it was not started (\<open>gone\<close>), or a signal could not be sent to it.\<close>

definition process_fail :: "life_config \<Rightarrow> nat \<Rightarrow> bool \<Rightarrow> string \<Rightarrow> life \<Rightarrow> life" where
  "process_fail cf p gone message s =
     process_settle cf p (Some message) (on_error message
       (s\<lparr>lf_alive := (if gone then filter (\<lambda>q. q \<noteq> p) (lf_alive s) else lf_alive s)\<rparr>))"

definition life_kill_timer :: "life \<Rightarrow> life" where
  "life_kill_timer s =
    (case lf_task s of
       Life_stopping p didKill True ht restart \<Rightarrow>
         s\<lparr>lf_task := Life_stopping p True False ht restart,
           lf_kills := (case lf_process s of None \<Rightarrow> lf_kills s | Some q \<Rightarrow> lf_kills s @ [q])\<rparr>
     | _ \<Rightarrow> s)"

definition life_hard_timer :: "life \<Rightarrow> life" where
  "life_hard_timer s =
    (case lf_task s of
       Life_stopping p didKill kt True restart \<Rightarrow>
         life_answer (Answer_failed (LF_PROCESS_STOP_TIMEOUT, JObj [(''killed'', JBool didKill)])) (s\<lparr>lf_state := HS_FAILED\<rparr>)
     | _ \<Rightarrow> s)"

definition life_restart :: "life_config \<Rightarrow> jsval \<Rightarrow> life \<Rightarrow> life" where
  "life_restart cf restartOptions s =
     life_stop cf (jget restartOptions ''stop'') (Some (jget restartOptions ''start'')) (s\<lparr>lf_state := HS_RESTARTING\<rparr>)"

text \<open>\<open>sendCommand\<close>; the write may fail with a message.\<close>

definition life_send :: "jsval \<Rightarrow> string option \<Rightarrow> life \<Rightarrow> life" where
  "life_send commandOptions write_error s =
    (case normalizeServerCommand (coalesce (jget commandOptions ''command'') commandOptions) of
       Inl detail \<Rightarrow> life_answer (Answer_failed (LF_SERVER_COMMAND_INVALID, detail)) s
     | Inr command \<Rightarrow>
         if \<not> has_process s then life_answer (Answer_failed (LF_PROCESS_NOT_RUNNING,
           JObj [(''state'', JStr (host_state_str (lf_state s)))])) s
         else
           let s1 = s\<lparr>lf_input := lf_input s @ [(the (lf_process s), command @ [CHR 0x0A])]\<rparr>
           in case write_error of
               Some message \<Rightarrow> life_answer (Answer_failed (LF_SERVER_COMMAND_WRITE_FAILED, JObj [(''error'', JStr message)])) s1
             | None \<Rightarrow> life_answer (Answer_sent (lf_state s1) command)
                 (life_emit (Life_command (redacted_line command) (Suc (lf_logSequence s1)))
                    (s1\<lparr>lf_logSequence := Suc (lf_logSequence s1)\<rparr>)))"

section \<open>The machine\<close>

datatype life_op =
    Life_start jsval
  | Life_launch platform
  | Life_stop jsval
  | Life_restart jsval
  | Life_send jsval "string option"
  | Life_kill_timer
  | Life_hard_timer
  | Life_data nat bool string
  | Life_ends nat jsval jsval
  | Life_fails nat bool string

fun life_exec :: "life_config \<Rightarrow> life_op \<Rightarrow> life \<Rightarrow> life" where
  "life_exec cf (Life_start startOptions) s = life_start cf startOptions s"
| "life_exec cf (Life_launch pf) s =
     (case lf_task s of Life_launching mode \<Rightarrow> life_launched cf (launchLocalServer pf (lc_plan cf) mode) s | _ \<Rightarrow> s)"
| "life_exec cf (Life_stop stopOptions) s = life_stop cf stopOptions None s"
| "life_exec cf (Life_restart restartOptions) s = life_restart cf restartOptions s"
| "life_exec cf (Life_send commandOptions write_error) s = life_send commandOptions write_error s"
| "life_exec cf Life_kill_timer s = life_kill_timer s"
| "life_exec cf Life_hard_timer s = life_hard_timer s"
| "life_exec cf (Life_data p stderr chunk) s = process_data cf p stderr chunk s"
| "life_exec cf (Life_ends p code signal) s = process_exit cf p code signal s"
| "life_exec cf (Life_fails p gone message) s = process_fail cf p gone message s"

text \<open>
  Commands one at a time. A process ends once, while it is alive; only processes that were started
  speak. \<open>honest\<close>: an error of a process is that it was not started.
\<close>

fun life_adm :: "bool \<Rightarrow> life_op \<Rightarrow> life \<Rightarrow> bool" where
  "life_adm honest (Life_launch pf) s = True"
| "life_adm honest (Life_data p stderr chunk) s = (p < lf_next s)"
| "life_adm honest (Life_ends p code signal) s = (p \<in> set (lf_alive s))"
| "life_adm honest (Life_fails p gone message) s = (p \<in> set (lf_alive s) \<and> (honest \<longrightarrow> gone))"
| "life_adm honest Life_kill_timer s = True"
| "life_adm honest Life_hard_timer s = True"
| "life_adm honest _ s = (lf_task s = Life_idle)"

end
