(* ===== verification/LocalServer_Props.thy ===== *)
theory LocalServer_Props
  imports LocalServer RuntimeAdapter_Props
begin

text \<open>
  What the lifecycle reports is what runs; the console gets only admitted lines; the log's lines do
  not depend on how the output was cut into chunks.
\<close>

section \<open>Lines\<close>

lemma split_lines_not_Nil [simp]: "split_lines s \<noteq> []"
  by (induction s rule: split_lines.induct) (auto split: list.split)

lemma split_lines_single: "split_lines s = [w] \<Longrightarrow> w = s"
  by (induction s arbitrary: w rule: split_lines.induct)
    (auto simp: neq_Nil_conv split: list.splits if_splits)

text \<open>The last line is what the next chunk continues.\<close>

lemma split_lines_append:
  "split_lines (a @ b) = butlast (split_lines a) @ split_lines (last (split_lines a) @ b)"
proof (induction a rule: split_lines.induct)
  case 1
  then show ?case by simp
next
  case (2 x xs)
  consider (newline) "x = CHR 0x0A" | (crlf) "x = CHR 0x0D" "xs \<noteq> []" "hd xs = CHR 0x0A"
    | (other) "x \<noteq> CHR 0x0A" "\<not> (x = CHR 0x0D \<and> xs \<noteq> [] \<and> hd xs = CHR 0x0A)" "xs \<noteq> []"
    | (last_char) "x \<noteq> CHR 0x0A" "xs = []"
    by auto
  then show ?case
  proof cases
    case newline
    with 2 show ?thesis by simp
  next
    case crlf
    then show ?thesis using 2 by simp
  next
    case other
    obtain w ws where w: "split_lines xs = w # ws" by (cases "split_lines xs") auto
    have ih: "split_lines (xs @ b) = butlast (split_lines xs) @ split_lines (last (split_lines xs) @ b)"
      using other 2 by auto
    show ?thesis
    proof (cases ws)
      case Nil
      with w split_lines_single [of xs w] other have "split_lines (x # xs) = [x # xs]" by auto
      then show ?thesis by (simp del: split_lines.simps)
    next
      case (Cons v vs)
      with ih w other show ?thesis by auto
    qed
  qed simp
qed

lemma emit_lines_append [simp]: "emit_lines (a @ b) = emit_lines a @ emit_lines b"
  by (simp add: emit_lines_def)

text \<open>The chunks of an output, pushed one after the other and flushed at its end.\<close>

fun push_all :: "string \<Rightarrow> string list \<Rightarrow> string list" where
  "push_all buffer [] = buffer_flush buffer"
| "push_all buffer (c # cs) = (let (ls, rest) = buffer_push buffer c in ls @ push_all rest cs)"

lemma push_all_lines: "push_all buffer chunks = emit_lines (split_lines (buffer @ concat chunks))"
  if "split_lines buffer = [buffer]"
  using that
proof (induction chunks arbitrary: buffer)
  case Nil
  then show ?case by (simp add: buffer_flush_def)
next
  case (Cons c cs)
  let ?ls = "split_lines (buffer @ c)"
  have single: "split_lines (last ?ls) = [last ?ls]"
  proof -
    have "butlast ?ls @ split_lines (last ?ls) = butlast ?ls @ [last ?ls]"
      using split_lines_append [of "buffer @ c" "[]"] by simp
    then show ?thesis by (simp only: same_append_eq)
  qed
  have "push_all buffer (c # cs) = emit_lines (butlast ?ls) @ emit_lines (split_lines (last ?ls @ concat cs))"
    using Cons.IH [OF single] by (simp add: buffer_push_def Let_def)
  also have "\<dots> = emit_lines (split_lines ((buffer @ c) @ concat cs))"
    by (simp only: split_lines_append [of "buffer @ c" "concat cs"] emit_lines_append)
  finally show ?case by simp
qed

lemma lines_of_chunks: "concat chunks = concat chunks' \<Longrightarrow> push_all [] chunks = push_all [] chunks'"
  by (simp add: push_all_lines)

section \<open>What a line does\<close>

lemma on_log_keeps:
  "lf_process (on_log cf e l s) = lf_process s" "lf_exited (on_log cf e l s) = lf_exited s"
  "lf_task (on_log cf e l s) = lf_task s" "lf_next (on_log cf e l s) = lf_next s"
  "lf_alive (on_log cf e l s) = lf_alive s" "lf_settled (on_log cf e l s) = lf_settled s"
  "lf_input (on_log cf e l s) = lf_input s" "lf_answers (on_log cf e l s) = lf_answers s"
  by (simp_all add: on_log_def life_emit_def Let_def)

lemma on_log_state:
  "lf_state (on_log cf e l s) \<in> {lf_state s, HS_CRASHED} \<union> (if lf_state s = HS_STARTING then {HS_RUNNING} else {})"
  by (simp add: on_log_def life_emit_def Let_def)

lemma on_lines_keeps:
  "lf_process (on_lines cf e ls s) = lf_process s" "lf_exited (on_lines cf e ls s) = lf_exited s"
  "lf_task (on_lines cf e ls s) = lf_task s" "lf_next (on_lines cf e ls s) = lf_next s"
  "lf_alive (on_lines cf e ls s) = lf_alive s" "lf_settled (on_lines cf e ls s) = lf_settled s"
  "lf_input (on_lines cf e ls s) = lf_input s" "lf_answers (on_lines cf e ls s) = lf_answers s"
  unfolding on_lines_def by (induction ls arbitrary: s) (simp_all add: on_log_keeps)

lemma on_lines_state:
  "lf_state (on_lines cf e ls s) \<in> {lf_state s, HS_CRASHED} \<union> (if lf_state s = HS_STARTING then {HS_RUNNING} else {})"
  unfolding on_lines_def
proof (induction ls arbitrary: s)
  case (Cons l ls)
  have "lf_state (fold (on_log cf e) ls (on_log cf e l s)) \<in> {lf_state (on_log cf e l s), HS_CRASHED} \<union>
      (if lf_state (on_log cf e l s) = HS_STARTING then {HS_RUNNING} else {})" by (rule Cons)
  with on_log_state [of cf e l s] show ?case by (auto split: if_splits)
qed simp

section \<open>What runs is what is known\<close>

text \<open>What a waiting command relies on.\<close>

primrec task_ok :: "nat option \<Rightarrow> life_task \<Rightarrow> bool" where
  "task_ok process Life_idle = True"
| "task_ok process (Life_launching m) = (process = None)"
| "task_ok process (Life_stopping p k kt ht r) = (process = Some p)"

definition life_inv :: "life \<Rightarrow> bool" where
  "life_inv s \<longleftrightarrow> lf_exited s = (lf_process s = None) \<and> set (lf_alive s) = set_option (lf_process s) \<and>
     (lf_state s \<in> {HS_STARTING, HS_RUNNING, HS_STOPPING} \<longrightarrow> lf_process s \<noteq> None) \<and>
     (\<forall>p \<in> set (lf_settled s). p < lf_next s \<and> lf_process s \<noteq> Some p) \<and>
     (\<forall>p. lf_process s = Some p \<longrightarrow> p < lf_next s) \<and>
     task_ok (lf_process s) (lf_task s)"

lemma life_inv_simps [simp]:
  "life_inv (life_emit e s) = life_inv s" "lf_state (life_emit e s) = lf_state s"
  "lf_process (life_emit e s) = lf_process s" "lf_task (life_emit e s) = lf_task s"
  "lf_exited (life_emit e s) = lf_exited s" "lf_alive (life_emit e s) = lf_alive s"
  "lf_settled (life_emit e s) = lf_settled s" "lf_next (life_emit e s) = lf_next s"
  "lf_answers (life_emit e s) = lf_answers s" "lf_input (life_emit e s) = lf_input s"
  "life_inv (s\<lparr>lf_buffers := b\<rparr>) = life_inv s"
  "life_inv (s\<lparr>lf_input := inp\<rparr>) = life_inv s"
  "life_inv (s\<lparr>lf_logSequence := n\<rparr>) = life_inv s"
  by (simp_all add: life_emit_def life_inv_def)

lemma life_inv_answer: "life_inv s \<Longrightarrow> life_inv (life_answer a s)"
  by (simp add: life_inv_def life_answer_def)

lemma life_inv_lines: "life_inv s \<Longrightarrow> life_inv (on_lines cf e ls s)"
  using on_lines_state [of cf e ls s] by (auto simp: life_inv_def on_lines_keeps split: if_splits)

lemma life_inv_start: "life_inv s \<Longrightarrow> life_inv (life_start cf options s)"
  by (auto simp: life_start_def life_inv_answer) (auto simp: life_inv_def has_process_def)

lemma life_inv_known: "life_inv s \<Longrightarrow> has_process s = (lf_process s \<noteq> None)"
  by (auto simp: life_inv_def has_process_def)

lemma life_inv_state:
  "life_inv s \<Longrightarrow> st \<notin> {HS_STARTING, HS_RUNNING, HS_STOPPING} \<Longrightarrow> life_inv (s\<lparr>lf_state := st\<rparr>)"
  by (simp add: life_inv_def)

lemma life_inv_launched:
  assumes "life_inv s" and "lf_task s = Life_launching mode"
  shows "life_inv (life_launched cf result s)"
proof -
  have "life_inv (life_answer a (s\<lparr>lf_process := Some (lf_next s), lf_exited := False, lf_state := HS_STARTING,
      lf_next := Suc (lf_next s), lf_alive := lf_next s # lf_alive s\<rparr>))" for a
    using assms by (auto simp: life_inv_def life_answer_def less_Suc_eq)
  moreover have "life_inv (life_answer a (life_emit e (s\<lparr>lf_state := HS_FAILED\<rparr>)))" for a e
    using assms(1) by (intro life_inv_answer) (simp add: life_inv_state)
  ultimately show ?thesis
    using assms(1) by (auto simp: life_launched_def life_inv_answer Let_def split: option.split sum.split launched.split)
qed

lemma life_inv_stop:
  assumes "life_inv s" and "lf_task s = Life_idle"
  shows "life_inv (life_stop cf options restart s)"
proof (cases "has_process s")
  case False
  with assms show ?thesis
    by (auto simp: life_stop_def life_inv_state life_inv_answer life_inv_start Let_def split: option.split)
next
  case True
  with assms have "life_inv (s\<lparr>lf_state := HS_STOPPING, lf_input := inp, lf_task := Life_stopping (the (lf_process s)) False kt ht restart\<rparr>)"
    for inp kt ht
    by (auto simp: life_inv_def has_process_def)
  with True assms(1) show ?thesis
    by (auto simp: life_stop_def life_inv_state life_inv_answer Let_def split: option.split sum.split)
qed

lemma flush_keeps:
  "lf_process (flush_buffer cf q e s) = lf_process s" "lf_exited (flush_buffer cf q e s) = lf_exited s"
  "lf_task (flush_buffer cf q e s) = lf_task s" "lf_next (flush_buffer cf q e s) = lf_next s"
  "lf_alive (flush_buffer cf q e s) = lf_alive s" "lf_settled (flush_buffer cf q e s) = lf_settled s"
  "lf_input (flush_buffer cf q e s) = lf_input s" "lf_answers (flush_buffer cf q e s) = lf_answers s"
  by (simp_all add: flush_buffer_def on_lines_keeps)

lemma flush_state:
  "lf_state s \<notin> {HS_STARTING, HS_RUNNING, HS_STOPPING} \<Longrightarrow>
   lf_state (flush_buffer cf q e s) \<notin> {HS_STARTING, HS_RUNNING, HS_STOPPING}"
  using on_lines_state [of cf e "buffer_flush (buffer_of q e s)" "s\<lparr>lf_buffers := jm_set (q, e) [] (lf_buffers s)\<rparr>"]
  by (auto simp: flush_buffer_def split: if_splits)

text \<open>The end of the process that is known.\<close>

lemma life_inv_ends:
  assumes inv: "life_inv s" and p: "lf_process s = Some p"
    and s1: "lf_process s1 = None" "lf_exited s1" "lf_alive s1 = filter (\<lambda>q. q \<noteq> p) (lf_alive s)"
      "lf_task s1 = lf_task s" "lf_next s1 = lf_next s" "lf_settled s1 = lf_settled s"
      "lf_state s1 \<notin> {HS_STARTING, HS_RUNNING, HS_STOPPING}"
  shows "life_inv (process_settle cf p error s1)"
proof -
  define s2 where "s2 = flush_buffer cf p True (flush_buffer cf p False (s1\<lparr>lf_settled := p # lf_settled s1\<rparr>))"
  have fresh: "p \<notin> set (lf_settled s1)" using inv p s1(6) by (auto simp: life_inv_def)
  have alive: "lf_alive s1 = []" using inv p s1(3) by (auto simp: life_inv_def filter_empty_conv)
  have keep: "lf_process s2 = None" "lf_exited s2" "lf_alive s2 = []" "lf_task s2 = lf_task s" "lf_next s2 = lf_next s"
      "lf_settled s2 = p # lf_settled s"
    using s1 alive by (simp_all add: s2_def flush_keeps)
  have st: "lf_state s2 \<notin> {HS_STARTING, HS_RUNNING, HS_STOPPING}"
    unfolding s2_def by (intro flush_state) (use s1(7) in simp)
  have settle: "process_settle cf p error s1 = (if waits_for p s2 then stop_after_exit cf error s2 else s2)"
    using fresh by (simp add: process_settle_def s2_def Let_def)
  show ?thesis
  proof (cases "lf_task s")
    case (Life_stopping q k kt ht restart)
    with inv p have q: "q = p" by (auto simp: life_inv_def)
    have failed: "life_inv (life_answer x (s2\<lparr>lf_state := HS_FAILED\<rparr>))" for x
      using keep inv p by (auto simp: life_inv_def life_answer_def)
    have stopped: "life_inv (life_answer x (s2\<lparr>lf_process := None, lf_exited := True, lf_state := HS_STOPPED\<rparr>))" for x
      using keep inv p by (auto simp: life_inv_def life_answer_def)
    have started: "life_inv (life_start cf options (s2\<lparr>lf_process := None, lf_exited := True, lf_state := HS_STOPPED\<rparr>))" for options
      using keep inv p by (auto simp: life_inv_def life_start_def has_process_def)
    show ?thesis
      using q Life_stopping keep failed stopped started
      by (simp add: settle waits_for_def stop_after_exit_def Let_def split: option.split)
  next
    case Life_idle
    with keep st inv p show ?thesis by (auto simp: settle waits_for_def life_inv_def)
  next
    case (Life_launching m)
    with inv p show ?thesis by (simp add: life_inv_def)
  qed
qed

lemma life_inv_exec:
  assumes inv: "life_inv s" and adm: "life_adm True a s"
  shows "life_inv (life_exec cf a s)"
proof (cases a)
  case (Life_start options)
  with inv show ?thesis by (simp add: life_inv_start)
next
  case (Life_launch pf)
  with inv show ?thesis by (auto simp: life_inv_launched split: life_task.split)
next
  case (Life_stop options)
  with inv adm show ?thesis by (simp add: life_inv_stop)
next
  case (Life_restart options)
  with inv adm show ?thesis by (simp add: life_restart_def life_inv_stop life_inv_state)
next
  case (Life_send options error)
  with inv show ?thesis
    by (auto simp: life_send_def life_inv_answer Let_def split: sum.split option.split)
next
  case Life_kill_timer
  show ?thesis
  proof (cases "lf_task s")
    case (Life_stopping p k kt ht r)
    with inv Life_kill_timer show ?thesis by (cases kt) (auto simp: life_kill_timer_def life_inv_def)
  qed (use inv Life_kill_timer in \<open>simp_all add: life_kill_timer_def\<close>)
next
  case Life_hard_timer
  show ?thesis
  proof (cases "lf_task s")
    case (Life_stopping p k kt ht r)
    with inv Life_hard_timer show ?thesis
      by (cases ht) (simp_all add: life_hard_timer_def life_inv_answer life_inv_state)
  qed (use inv Life_hard_timer in \<open>simp_all add: life_hard_timer_def\<close>)
next
  case (Life_data p e chunk)
  with inv show ?thesis by (simp add: process_data_def life_inv_lines case_prod_beta Let_def)
next
  case (Life_ends p code signal)
  with inv adm have p: "lf_process s = Some p" by (auto simp: life_inv_def)
  have "life_inv (process_settle cf p None (on_exit code signal (s\<lparr>lf_alive := filter (\<lambda>q. q \<noteq> p) (lf_alive s)\<rparr>)))"
    by (rule life_inv_ends [OF inv p]) (simp_all add: on_exit_def Let_def)
  with Life_ends show ?thesis by (simp add: process_exit_def)
next
  case (Life_fails p gone message)
  with inv adm have p: "lf_process s = Some p" and gone by (auto simp: life_inv_def)
  have "life_inv (process_settle cf p (Some message) (on_error message (s\<lparr>lf_alive := filter (\<lambda>q. q \<noteq> p) (lf_alive s)\<rparr>)))"
    by (rule life_inv_ends [OF inv p]) (simp_all add: on_error_def)
  with Life_fails \<open>gone\<close> show ?thesis by (simp add: process_fail_def)
qed

definition life_initial :: "life \<Rightarrow> bool" where
  "life_initial s \<longleftrightarrow> s = createLocalServerLifecycleManager"

interpretation life: invariant life_initial "life_adm True" "life_exec cf" life_inv for cf
proof unfold_locales
  show "life_inv s" if "life_initial s" for s
    using that by (simp add: life_initial_def life_inv_def createLocalServerLifecycleManager_def)
  show "life_inv (life_exec cf a s)" if "life_inv s" "life_adm True a s" for s a
    using that by (rule life_inv_exec)
qed

text \<open>A stop that reports success leaves no process.\<close>

lemma settle_process: "lf_process s = None \<Longrightarrow> lf_process (process_settle cf p e s) = None"
  by (auto simp: process_settle_def stop_after_exit_def life_start_def life_answer_def flush_keeps Let_def
      split: life_task.split option.split)

lemma stopped_answer:
  assumes "life_inv s" and "life_adm True a s"
    and "lf_answers (life_exec cf a s) = lf_answers s @ [Answer_stopped st k]"
  shows "lf_process (life_exec cf a s) = None"
proof (cases a)
  case (Life_start options)
  with assms(3) show ?thesis by (auto simp: life_start_def life_answer_def split: if_splits)
next
  case (Life_launch pf)
  with assms(3) show ?thesis
    by (auto simp: life_launched_def life_answer_def Let_def split: life_task.splits option.splits sum.splits launched.splits)
next
  case (Life_stop options)
  with assms show ?thesis
    by (auto simp: life_stop_def life_answer_def life_inv_known Let_def split: if_splits option.splits sum.splits)
next
  case (Life_restart options)
  with assms show ?thesis
    by (auto simp: life_restart_def life_stop_def life_start_def life_answer_def has_process_def life_inv_def Let_def
        split: if_splits option.splits sum.splits)
next
  case (Life_send options error)
  with assms(3) show ?thesis
    by (auto simp: life_send_def life_answer_def Let_def split: sum.splits option.splits if_splits)
next
  case Life_kill_timer
  with assms(3) show ?thesis
    by (auto simp: life_kill_timer_def split: life_task.splits bool.splits)
next
  case Life_hard_timer
  with assms(3) show ?thesis
    by (auto simp: life_hard_timer_def life_answer_def split: life_task.splits bool.splits)
next
  case (Life_data p e chunk)
  with assms(3) show ?thesis by (simp add: process_data_def on_lines_keeps case_prod_beta Let_def)
next
  case (Life_ends p code signal)
  then show ?thesis by (simp add: process_exit_def settle_process on_exit_def Let_def)
next
  case (Life_fails p gone message)
  then show ?thesis by (simp add: process_fail_def settle_process on_error_def)
qed

section \<open>The console\<close>

text \<open>A line the console may get: the graceful stop, or one admitted command.\<close>

definition console_line_ok :: "string \<Rightarrow> bool" where
  "console_line_ok line \<longleftrightarrow> line = gracefulCommand \<or> (\<exists>command. line = command @ [CHR 0x0A] \<and> command \<noteq> [] \<and>
     length command \<le> 256 \<and> (\<forall>x \<in> set command. \<not> line_break x \<and> \<not> control_char x) \<and>
     hd (space_words (toLowerCase command)) \<notin> set blocked_commands)"

lemma normalized_command_ok:
  assumes "normalizeServerCommand v = Inr command"
  shows "console_line_ok (command @ [CHR 0x0A])"
proof -
  from assms obtain s where s: "v = JStr s" by (auto simp: normalizeServerCommand_def split: jsval.splits)
  have trim: "set (js_trim s) \<subseteq> set s"
    unfolding js_trim_def by (metis set_dropWhileD set_rev subsetI)
  have sub: "set (dropWhile is_space (tl t)) \<subseteq> set t" for t :: string
    by (metis list.set_sel(2) set_dropWhileD subsetI tl_Nil)
  from assms s have c: "command \<noteq> []" "length command \<le> 256" "\<not> list_ex line_break s" "\<not> list_ex control_char s"
      "\<not> isDangerousServerCommand command" "command = js_trim s \<or> command = dropWhile is_space (tl (js_trim s))"
    by (auto simp: normalizeServerCommand_def Let_def split: if_splits)
  then have "set command \<subseteq> set s" using trim sub [of "js_trim s"] by blast
  with c show ?thesis
    by (auto simp: console_line_ok_def isDangerousServerCommand_def list_ex_iff Let_def)
qed

definition console_ok :: "life \<Rightarrow> bool" where
  "console_ok s \<longleftrightarrow> (\<forall>(p, line) \<in> set (lf_input s). console_line_ok line)"

lemma console_input: "lf_input s' = lf_input s \<Longrightarrow> console_ok s \<Longrightarrow> console_ok s'"
  by (simp add: console_ok_def)

lemma stop_line: "createLocalServerProcessIntent plan (JStr (host_action_str HA_STOP)) = Some (Inr intent) \<Longrightarrow>
    pi_gracefulCommand intent = gracefulCommand"
  by (auto simp: createLocalServerProcessIntent_def stop_intent_def gracefulCommand_def bind_eq_Some_conv Let_def
      split: option.splits)

lemma start_input [simp]: "lf_input (life_start cf options s) = lf_input s"
  by (simp add: life_start_def life_answer_def)

lemma answer_input [simp]: "lf_input (life_answer a s) = lf_input s"
  by (simp add: life_answer_def)

lemma settle_input: "lf_input (process_settle cf p e s) = lf_input s"
proof -
  have "lf_input (stop_after_exit cf e t) = lf_input t" for t
    by (simp add: stop_after_exit_def Let_def split: life_task.split option.split)
  then show ?thesis by (simp add: process_settle_def flush_keeps Let_def)
qed

lemma stop_input: "console_ok s \<Longrightarrow> console_ok (life_stop cf options restart s)"
  by (auto simp: console_ok_def life_stop_def console_line_ok_def stop_line Let_def
      split: option.split sum.split)

lemma console_exec: "console_ok s \<Longrightarrow> console_ok (life_exec cf a s)"
proof (cases a)
  case (Life_launch pf)
  assume "console_ok s"
  then show ?thesis
    by (rule console_input [rotated])
      (simp add: Life_launch life_launched_def Let_def split: life_task.split option.split sum.split launched.split)
next
  case (Life_stop options)
  assume "console_ok s"
  then show ?thesis by (simp add: Life_stop stop_input)
next
  case (Life_restart options)
  assume "console_ok s"
  then have "console_ok (s\<lparr>lf_state := HS_RESTARTING\<rparr>)" by (simp add: console_ok_def)
  then show ?thesis by (simp add: Life_restart life_restart_def stop_input)
next
  case (Life_send options error)
  assume ok: "console_ok s"
  show ?thesis
  proof (cases "normalizeServerCommand (coalesce (jget options ''command'') options)")
    case (Inl d)
    with ok show ?thesis by (simp add: Life_send life_send_def console_ok_def)
  next
    case (Inr command)
    with ok normalized_command_ok [OF Inr] show ?thesis
      by (auto simp: Life_send life_send_def console_ok_def Let_def split: option.split)
  qed
next
  case Life_kill_timer
  assume "console_ok s"
  then show ?thesis
  proof (rule console_input [rotated])
    show "lf_input (life_exec cf a s) = lf_input s"
    proof (cases "lf_task s")
      case (Life_stopping p k kt ht r)
      then show ?thesis by (cases kt) (simp_all add: Life_kill_timer life_kill_timer_def)
    qed (simp_all add: Life_kill_timer life_kill_timer_def)
  qed
next
  case Life_hard_timer
  assume "console_ok s"
  then show ?thesis
  proof (rule console_input [rotated])
    show "lf_input (life_exec cf a s) = lf_input s"
    proof (cases "lf_task s")
      case (Life_stopping p k kt ht r)
      then show ?thesis by (cases ht) (simp_all add: Life_hard_timer life_hard_timer_def)
    qed (simp_all add: Life_hard_timer life_hard_timer_def)
  qed
qed (auto simp: stop_input console_ok_def process_data_def on_lines_keeps process_exit_def process_fail_def settle_input
    on_exit_def on_error_def Let_def case_prod_beta)

interpretation console: invariant life_initial "life_adm False" "life_exec cf" console_ok for cf
proof unfold_locales
  show "console_ok s" if "life_initial s" for s
    using that by (simp add: life_initial_def console_ok_def createLocalServerLifecycleManager_def)
  show "console_ok (life_exec cf a s)" if "console_ok s" "life_adm False a s" for s a
    using that(1) by (rule console_exec)
qed

section \<open>A room that runs\<close>

definition demo_platform :: platform where
  "demo_platform = \<lparr>pf_native = id, pf_absolute = \<lambda>_. True, pf_basename = \<lambda>_. ''java.exe'', pf_exists = \<lambda>_. True\<rparr>"

text \<open>A planned room starts where the platform has what the plan names.\<close>

lemma planned_launch:
  assumes plan: "createHostRuntimePlan input = Some (Inr plan)"
    and root: "host_root input = JStr r" "open_ended r"
    and consent: "jget (jget input ''eula'') ''accepted'' = JBool True"
    and names: "own_names (jget input ''pack'')"
    and java: "pf_absolute pf (toNativePath pf (jget (jget input ''java'') ''path''))"
      "toLowerCase (pf_basename pf (toNativePath pf (jget (jget input ''java'') ''path''))) = ''java.exe''"
    and there: "\<And>path. pf_exists pf path"
  shows "launchLocalServer pf plan (JStr ''real'') = Some (Inr (Spawned (start_intent plan)))"
proof -
  obtain loader layout mods eula props where
    "jget (jget plan ''fabric'') ''launcherJar'' =
       JStr (joinPath [jget layout ''runtime'', jget loader ''launcherJar''])"
    "jget plan ''command'' = JArr [jget (jget input ''java'') ''path'', JStr ''-jar'',
       JStr (joinPath [jget layout ''runtime'', jget loader ''launcherJar'']), JStr ''nogui'']"
    "jget (jget plan ''java'') ''path'' = jget (jget input ''java'') ''path''"
    by (rule plan_parts [OF plan])
  then show ?thesis
    using host_plan_valid(1) [OF plan root consent names] java there
    by (simp add: launchLocalServer_def createLocalServerProcessIntent_def start_intent_def validateLaunchCommand_def
        missing_artifacts_def coalesce_def Let_def)
qed

lemma planned_start:
  assumes launch: "launchLocalServer pf (lc_plan cf) (JStr ''real'') = Some (Inr (Spawned intent))"
    and mode: "nullish (lc_mode cf)"
  shows "exec_all (life_exec cf) [Life_start (JObj []), Life_launch pf] createLocalServerLifecycleManager =
    createLocalServerLifecycleManager\<lparr>lf_state := HS_STARTING, lf_process := Some 0, lf_exited := False, lf_next := 1,
      lf_alive := [0], lf_answers := [Answer_started HS_STARTING intent]\<rparr>"
proof -
  have "coalesce (coalesce JUndef (lc_mode cf)) (JStr ''real'') = JStr ''real''"
    using mode by (simp add: coalesce_def)
  with launch show ?thesis
    by (simp add: life_start_def has_process_def createLocalServerLifecycleManager_def life_launched_def life_answer_def)
qed

lemma demo_lifecycle:
  obtains cf where "exec_all (life_exec cf) [Life_start (JObj []), Life_launch demo_platform] createLocalServerLifecycleManager =
      createLocalServerLifecycleManager\<lparr>lf_state := HS_STARTING, lf_process := Some 0, lf_exited := False, lf_next := 1,
        lf_alive := [0], lf_answers := [Answer_started HS_STARTING (start_intent (lc_plan cf))]\<rparr>"
    and "reach life_initial (life_adm honest) (life_exec cf)
      (exec_all (life_exec cf) [Life_start (JObj []), Life_launch demo_platform] createLocalServerLifecycleManager)"
proof -
  obtain plan where plan: "createHostRuntimePlan demo_host_input = Some (Inr plan)"
    using demo_host_plan by (auto split: option.splits sum.splits)
  define cf where "cf = \<lparr>lc_plan = plan, lc_mode = JUndef, lc_stopTimeoutMs = JUndef, lc_hardStopTimeoutMs = JUndef\<rparr>"
  have "launchLocalServer demo_platform plan (JStr ''real'') = Some (Inr (Spawned (start_intent plan)))"
    by (rule planned_launch [OF plan demo_host_parts]) (simp_all add: demo_platform_def, code_simp?)
  then have run: "exec_all (life_exec cf) [Life_start (JObj []), Life_launch demo_platform] createLocalServerLifecycleManager =
      createLocalServerLifecycleManager\<lparr>lf_state := HS_STARTING, lf_process := Some 0, lf_exited := False, lf_next := 1,
        lf_alive := [0], lf_answers := [Answer_started HS_STARTING (start_intent plan)]\<rparr>"
    by (intro planned_start) (simp_all add: cf_def)
  have "reach life_initial (life_adm honest) (life_exec cf)
      (exec_all (life_exec cf) [Life_start (JObj []), Life_launch demo_platform] createLocalServerLifecycleManager)"
    by (rule reach_exec_all [OF reach_init]) (simp_all add: life_initial_def createLocalServerLifecycleManager_def)
  with run show thesis by (intro that [of cf]) (simp_all add: cf_def)
qed

section \<open>Properties\<close>





text \<open>
  The lines of the log do not depend on how the output was cut into chunks, and are the trimmed
  lines of the whole output that are not empty.
\<close>

theorem log_lines_of_output:
  "push_all [] chunks = filter (\<lambda>l. l \<noteq> []) (map js_trim (split_lines (concat chunks)))"
  by (simp add: push_all_lines emit_lines_def)

section \<open>What the lifecycle lets through\<close>

text \<open>A second slash hides the blocked command: \<open>//stop\<close> goes to the console as \<open>/stop\<close>.\<close>

lemma double_slash_unblocked: "normalizeServerCommand (JStr ''//stop'') = Inr ''/stop''"
  by code_simp

text \<open>A player's chat line takes a running room to the state of a crash, and its process runs on.\<close>

lemma chat_line_crashes:
  assumes "lf_state s = HS_RUNNING"
  shows "lf_state (on_log cf False ''<bob> error'' s) = HS_CRASHED \<and> lf_alive (on_log cf False ''<bob> error'' s) = lf_alive s"
proof -
  have "re_test crash_pattern ''<bob> error''" by code_simp
  with assms show ?thesis by (simp add: on_log_def life_emit_def Let_def)
qed

text \<open>
  The error of a signal that could not be sent is taken for the end of the process: the next start
  is admitted while the server still runs.
\<close>

lemma failed_kill_forgets:
  assumes "lf_alive s = [p]" "lf_process s = Some p" "p \<notin> set (lf_settled s)" "lf_task s = Life_idle"
  shows "lf_alive (life_exec cf (Life_fails p False message) s) = [p] \<and>
    \<not> has_process (life_exec cf (Life_fails p False message) s)"
  using assms by (simp add: process_fail_def process_settle_def waits_for_def on_error_def life_emit_def flush_keeps
      has_process_def Let_def)

end
