(* ===== verification/Decimals.thy ===== *)
theory Decimals
  imports JsNumber
begin

text \<open>
  Numbers as values: comparison with equality, and the decimal text of a number that is no integer.
\<close>

definition num_le :: "jsnum \<Rightarrow> jsnum \<Rightarrow> bool" where
  "num_le x y \<longleftrightarrow> num_less x y \<or> (x = y \<and> x \<noteq> NaN)"

text \<open>A rational number as a value: its decimal text, when it is no integer.\<close>

definition rat_places :: "rat \<Rightarrow> nat" where
  "rat_places q = (case List.find (\<lambda>m. 10 ^ m mod snd (quotient_of q) = 0) [0..<400] of None \<Rightarrow> 0 | Some m \<Rightarrow> m)"

definition rat_val :: "rat \<Rightarrow> jsval" where
  "rat_val q = (if of_int \<lfloor>q\<rfloor> = q then JNum \<lfloor>q\<rfloor> else
     let m = rat_places q; ds = digits (nat \<lfloor>\<bar>q\<bar> * 10 ^ m\<rfloor>); ds' = replicate (Suc m - length ds) (CHR ''0'') @ ds
     in JFrac ((if q < 0 then ''-'' else []) @ take (length ds' - m) ds' @ ''.'' @ drop (length ds' - m) ds'))"

end
