(* ===== verification/Candidates.thy ===== *)
theory Candidates
  imports Decimals JsOps Machine
begin

text \<open>
  \<open>services/control-plane/src/transport/candidates.mjs\<close>: the candidates a room's participants submit
  for a connection, and the choice between a direct path and the relay. The clock's reading and the
  configured times are arguments; a time may be any value, as in the program. What the methods
  answer are the objects of the program, since a selection comes back as an argument.
\<close>

section \<open>Vocabulary\<close>

datatype transport_path = Path_DIRECT | Path_RELAY

primrec transport_path_str :: "transport_path \<Rightarrow> string" where
  "transport_path_str Path_DIRECT = ''direct''"
| "transport_path_str Path_RELAY = ''relay''"

datatype network_type = Network_HOME | Network_RESTRICTED | Network_UNKNOWN

primrec network_type_str :: "network_type \<Rightarrow> string" where
  "network_type_str Network_HOME = ''home_network''"
| "network_type_str Network_RESTRICTED = ''restricted_network''"
| "network_type_str Network_UNKNOWN = ''unknown''"

datatype candidate_reject = Reject_INVALID_CANDIDATE | Reject_CANDIDATE_EXPIRED | Reject_CROSS_ROOM

primrec candidate_reject_str :: "candidate_reject \<Rightarrow> string" where
  "candidate_reject_str Reject_INVALID_CANDIDATE = ''invalid_candidate''"
| "candidate_reject_str Reject_CANDIDATE_EXPIRED = ''candidate_expired''"
| "candidate_reject_str Reject_CROSS_ROOM = ''cross_room_candidate''"

datatype selection_reason = Reason_SAFE_DIRECT_CANDIDATE | Reason_RESTRICTED_NETWORK_FALLBACK
  | Reason_NO_SAFE_DIRECT_CANDIDATE | Reason_DIRECT_FAILED_RELAY_FALLBACK | Reason_RELAY_UNAVAILABLE

primrec selection_reason_str :: "selection_reason \<Rightarrow> string" where
  "selection_reason_str Reason_SAFE_DIRECT_CANDIDATE = ''safe_direct_candidate''"
| "selection_reason_str Reason_RESTRICTED_NETWORK_FALLBACK = ''restricted_network_fallback''"
| "selection_reason_str Reason_NO_SAFE_DIRECT_CANDIDATE = ''no_safe_direct_candidate''"
| "selection_reason_str Reason_DIRECT_FAILED_RELAY_FALLBACK = ''direct_failed_relay_fallback''"
| "selection_reason_str Reason_RELAY_UNAVAILABLE = ''relay_unavailable''"

definition DIRECT_PRIVACY_COPY :: string where
  "DIRECT_PRIVACY_COPY = ''A direct room connection can show your internet address to the approved friend. If it does not connect quickly, the room keeps using the reliable room path.''"

definition DIRECT_NO_FALLBACK_PRIVACY_COPY :: string where
  "DIRECT_NO_FALLBACK_PRIVACY_COPY = ''A direct room connection can show your internet address to the approved friend. If it does not connect, joining may fail until the reliable room path is available.''"

definition RELAY_FALLBACK_COPY :: string where
  "RELAY_FALLBACK_COPY = ''The room is using the reliable room path. Direct connection problems do not block joining while that path is available.''"

section \<open>Times\<close>

text \<open>\<open>v + n\<close> for a value that is not \<open>null\<close> or \<open>undefined\<close>: objects and texts are concatenated.\<close>

definition plus_int :: "jsval \<Rightarrow> int \<Rightarrow> jsval" where
  "plus_int v n = (case v of
       JNum m \<Rightarrow> JNum (m + n)
     | JBool b \<Rightarrow> JNum ((if b then 1 else 0) + n)
     | JFrac x \<Rightarrow> (case js_number v of Fin q \<Rightarrow> rat_val (q + of_int n) | _ \<Rightarrow> v)
     | _ \<Rightarrow> JStr (js_string v @ int_str n))"

section \<open>State\<close>

record candidate =
  cd_id :: jsval
  cd_roomId :: jsval
  cd_participantId :: jsval
  cd_path :: jsval
  cd_networkType :: jsval
  cd_directAllowed :: bool
  cd_restricted :: bool
  cd_createdAt :: jsval
  cd_expiresAt :: jsval
  cd_diagnostics :: "jsval list"

record exchange =
  ex_candidatesByRoom :: "(jsval, candidate list) jsmap"
  ex_nextCandidateId :: nat

record exchange_config =
  xc_candidateTtlMs :: int
  xc_directAttemptTimeoutMs :: jsval

definition default_exchange_config :: exchange_config where
  "default_exchange_config = \<lparr>xc_candidateTtlMs = 30 * 1000, xc_directAttemptTimeoutMs = JNum (2 * 1000)\<rparr>"

definition createTransportCandidateExchange :: exchange where
  "createTransportCandidateExchange = \<lparr>ex_candidatesByRoom = [], ex_nextCandidateId = 1\<rparr>"

definition candidates_of :: "exchange \<Rightarrow> jsval \<Rightarrow> candidate list" where
  "candidates_of s roomId = (case jm_get (ex_candidatesByRoom s) roomId of None \<Rightarrow> [] | Some cs \<Rightarrow> cs)"

definition cand_fail :: "string \<Rightarrow> jsval" where
  "cand_fail reason = JObj [(''ok'', JBool False), (''reason'', JStr reason)]"

definition publicCandidate :: "candidate \<Rightarrow> jsval" where
  "publicCandidate c = JObj [(''id'', cd_id c), (''roomId'', cd_roomId c), (''participantId'', cd_participantId c),
     (''path'', cd_path c), (''networkType'', cd_networkType c), (''directAllowed'', JBool (cd_directAllowed c)),
     (''restricted'', JBool (cd_restricted c)), (''createdAt'', cd_createdAt c), (''expiresAt'', cd_expiresAt c),
     (''diagnostics'', JArr (cd_diagnostics c))]"

section \<open>Operations\<close>

definition submitCandidate :: "exchange_config \<Rightarrow> int \<Rightarrow> jsval \<Rightarrow> jsval \<Rightarrow> exchange \<Rightarrow> jsval \<times> exchange" where
  "submitCandidate cf now roomId candidate s =
    (if (\<not> is_obj candidate \<and> \<not> is_arr candidate) \<or> \<not> truthy roomId \<or> \<not> truthy (jget candidate ''roomId'') \<or>
        \<not> truthy (jget candidate ''participantId'') \<or> \<not> truthy (jget candidate ''path'')
     then (cand_fail (candidate_reject_str Reject_INVALID_CANDIDATE), s)
     else if jget candidate ''roomId'' \<noteq> roomId then (cand_fail (candidate_reject_str Reject_CROSS_ROOM), s)
     else
       let createdAt = coalesce (jget candidate ''createdAt'') (JNum now);
           expiresAt = (if nullish (jget candidate ''expiresAt'') then plus_int createdAt (xc_candidateTtlMs cf)
             else jget candidate ''expiresAt'')
       in if num_le (js_number expiresAt) (Fin (of_int now))
          then (cand_fail (candidate_reject_str Reject_CANDIDATE_EXPIRED), s)
          else
            let drawn = nullish (jget candidate ''id'');
                normalized = \<lparr>cd_id = (if drawn then JStr (''candidate_'' @ digits (ex_nextCandidateId s))
                    else jget candidate ''id''),
                  cd_roomId = roomId, cd_participantId = jget candidate ''participantId'',
                  cd_path = jget candidate ''path'',
                  cd_networkType = coalesce (jget candidate ''networkType'') (JStr (network_type_str Network_UNKNOWN)),
                  cd_directAllowed = (jget candidate ''directAllowed'' = JBool True),
                  cd_restricted = (jget candidate ''restricted'' = JBool True),
                  cd_createdAt = createdAt, cd_expiresAt = expiresAt,
                  cd_diagnostics = elems (jget candidate ''diagnostics'')\<rparr>
            in (JObj [(''ok'', JBool True), (''candidate'', publicCandidate normalized)],
                s\<lparr>ex_candidatesByRoom := jm_set roomId (candidates_of s roomId @ [normalized]) (ex_candidatesByRoom s),
                  ex_nextCandidateId := (if drawn then Suc (ex_nextCandidateId s) else ex_nextCandidateId s)\<rparr>))"

definition candidate_active :: "int \<Rightarrow> candidate \<Rightarrow> bool" where
  "candidate_active now c \<longleftrightarrow> num_less (Fin (of_int now)) (js_number (cd_expiresAt c))"

definition activeCandidatesForRoom :: "int \<Rightarrow> jsval \<Rightarrow> exchange \<Rightarrow> candidate list \<times> exchange" where
  "activeCandidatesForRoom now roomId s =
    (let candidates = candidates_of s roomId; active = filter (candidate_active now) candidates
     in (active, if length active \<noteq> length candidates
                 then s\<lparr>ex_candidatesByRoom := jm_set roomId active (ex_candidatesByRoom s)\<rparr> else s))"

definition is_direct :: "candidate \<Rightarrow> bool" where
  "is_direct c \<longleftrightarrow> cd_path c = JStr (transport_path_str Path_DIRECT)"

definition isSafeDirectCandidate :: "candidate \<Rightarrow> bool" where
  "isSafeDirectCandidate c \<longleftrightarrow> is_direct c \<and> cd_networkType c = JStr (network_type_str Network_HOME) \<and>
     cd_directAllowed c \<and> \<not> cd_restricted c"

definition isRestrictedDirectCandidate :: "candidate \<Rightarrow> bool" where
  "isRestrictedDirectCandidate c \<longleftrightarrow> is_direct c \<and>
     (cd_networkType c = JStr (network_type_str Network_RESTRICTED) \<or> cd_restricted c \<or> \<not> cd_directAllowed c)"

definition relaySelection :: "exchange_config \<Rightarrow> selection_reason \<Rightarrow> jsval \<Rightarrow> jsval" where
  "relaySelection cf reason failedCandidateId = JObj
    [(''ok'', JBool True), (''path'', JStr (transport_path_str Path_RELAY)),
     (''reason'', JStr (selection_reason_str reason)), (''directAttemptTimeoutMs'', xc_directAttemptTimeoutMs cf),
     (''failedCandidateId'', failedCandidateId), (''joinFailure'', JBool False), (''privacyCopy'', JStr RELAY_FALLBACK_COPY)]"

text \<open>\<open>relayAvailable = true\<close>: an absent argument is \<open>true\<close>.\<close>

definition relay_available :: "jsval \<Rightarrow> bool" where
  "relay_available v \<longleftrightarrow> v = JUndef \<or> truthy v"

definition selectTransport :: "exchange_config \<Rightarrow> int \<Rightarrow> jsval \<Rightarrow> jsval \<Rightarrow> exchange \<Rightarrow> jsval \<times> exchange" where
  "selectTransport cf now roomId relayAvailable s =
    (let (candidates, s') = activeCandidatesForRoom now roomId s;
         directCandidates = filter is_direct candidates;
         relay = relay_available relayAvailable
     in (case List.find isSafeDirectCandidate directCandidates of
           Some c \<Rightarrow> JObj
             [(''ok'', JBool True), (''path'', JStr (transport_path_str Path_DIRECT)),
              (''reason'', JStr (selection_reason_str Reason_SAFE_DIRECT_CANDIDATE)),
              (''candidateId'', cd_id c), (''participantId'', cd_participantId c),
              (''directAttemptTimeoutMs'', xc_directAttemptTimeoutMs cf),
              (''fallbackPath'', if relay then JStr (transport_path_str Path_RELAY) else JUndef),
              (''joinFailure'', JBool False),
              (''privacyCopy'', JStr (if relay then DIRECT_PRIVACY_COPY else DIRECT_NO_FALLBACK_PRIVACY_COPY))]
         | None \<Rightarrow>
             if \<not> relay then cand_fail (selection_reason_str Reason_RELAY_UNAVAILABLE)
             else relaySelection cf (if list_ex isRestrictedDirectCandidate directCandidates
               then Reason_RESTRICTED_NETWORK_FALLBACK else Reason_NO_SAFE_DIRECT_CANDIDATE) JUndef,
         s'))"

definition resolveDirectAttempt :: "exchange_config \<Rightarrow> jsval \<Rightarrow> jsval \<Rightarrow> jsval \<Rightarrow> jsval" where
  "resolveDirectAttempt cf selection outcome relayAvailable =
    (if \<not> truthy selection \<or> jget selection ''path'' \<noteq> JStr (transport_path_str Path_DIRECT)
     then coalesce selection (relaySelection cf Reason_NO_SAFE_DIRECT_CANDIDATE JUndef)
     else if outcome = JStr ''connected''
     then obj_with selection [(''directAttempt'', JStr ''connected''), (''joinFailure'', JBool False)]
     else if \<not> relay_available relayAvailable then cand_fail (selection_reason_str Reason_RELAY_UNAVAILABLE)
     else relaySelection cf Reason_DIRECT_FAILED_RELAY_FALLBACK (jget selection ''candidateId''))"

definition listCandidatesForTest :: "int \<Rightarrow> jsval \<Rightarrow> exchange \<Rightarrow> jsval list \<times> exchange" where
  "listCandidatesForTest now roomId s =
    (let (active, s') = activeCandidatesForRoom now roomId s in (map publicCandidate active, s'))"

section \<open>The exchange as a machine\<close>

datatype exchange_op =
    Cand_submit int jsval jsval
  | Cand_select int jsval jsval
  | Cand_list int jsval

primrec exchange_exec :: "exchange_config \<Rightarrow> exchange_op \<Rightarrow> exchange \<Rightarrow> exchange" where
  "exchange_exec cf (Cand_submit now roomId candidate) s = snd (submitCandidate cf now roomId candidate s)"
| "exchange_exec cf (Cand_select now roomId relayAvailable) s = snd (selectTransport cf now roomId relayAvailable s)"
| "exchange_exec cf (Cand_list now roomId) s = snd (listCandidatesForTest now roomId s)"

definition exchange_initial :: "exchange \<Rightarrow> bool" where
  "exchange_initial s \<longleftrightarrow> s = createTransportCandidateExchange"

text \<open>Every candidate is kept under its own room and tells who submitted it.\<close>

definition exchange_inv :: "exchange \<Rightarrow> bool" where
  "exchange_inv s \<longleftrightarrow> (\<forall>roomId. \<forall>c \<in> set (candidates_of s roomId).
     cd_roomId c = roomId \<and> truthy roomId \<and> truthy (cd_participantId c) \<and> \<not> nullish (cd_id c))"

lemma candidates_of_set:
  "candidates_of (s\<lparr>ex_candidatesByRoom := jm_set r cs m\<rparr>) k =
     (if k = r then cs else candidates_of (s\<lparr>ex_candidatesByRoom := m\<rparr>) k)"
  by (simp add: candidates_of_def)

lemma candidates_of_same [simp]:
  "candidates_of (s\<lparr>ex_candidatesByRoom := ex_candidatesByRoom s\<rparr>) k = candidates_of s k"
  "candidates_of (s\<lparr>ex_nextCandidateId := n\<rparr>) k = candidates_of s k"
  by (simp_all add: candidates_of_def)

lemma active_kept: "exchange_inv s \<Longrightarrow> exchange_inv (snd (activeCandidatesForRoom now roomId s))"
  by (auto simp: exchange_inv_def activeCandidatesForRoom_def candidates_of_set Let_def)

lemma submit_kept: "exchange_inv s \<Longrightarrow> exchange_inv (snd (submitCandidate cf now roomId candidate s))"
  by (auto simp: exchange_inv_def submitCandidate_def candidates_of_def Let_def split: option.splits)

interpretation exchange: invariant exchange_initial "\<lambda>_ _. True" "exchange_exec cf" exchange_inv for cf
proof unfold_locales
  show "exchange_inv s" if "exchange_initial s" for s
    using that by (simp add: exchange_initial_def exchange_inv_def createTransportCandidateExchange_def candidates_of_def)
  show "exchange_inv (exchange_exec cf a s)" if "exchange_inv s" for s a
    using that by (cases a) (auto simp: submit_kept active_kept selectTransport_def listCandidatesForTest_def
        split_beta Let_def)
qed

section \<open>Properties\<close>

text \<open>The first safe candidate, if there is one.\<close>

lemma safe_found:
  "List.find isSafeDirectCandidate (filter is_direct cs) = None \<longleftrightarrow> (\<forall>c \<in> set cs. \<not> isSafeDirectCandidate c)"
  "List.find isSafeDirectCandidate (filter is_direct cs) = Some c \<Longrightarrow> c \<in> set cs \<and> isSafeDirectCandidate c"
  by (auto simp: find_None_iff find_Some_iff isSafeDirectCandidate_def) (metis filter_is_subset nth_mem subsetD)

lemma direct_resolved:
  assumes "is_obj r" "wf_obj r" "jget r ''ok'' = JBool True" "jget r ''joinFailure'' = JBool False" "relay_available again"
  shows "jget (resolveDirectAttempt cf r outcome again) ''ok'' = JBool True \<and>
    jget (resolveDirectAttempt cf r outcome again) ''joinFailure'' = JBool False"
proof -
  have r: "truthy r" "coalesce r x = r" for x using assms(1) by (cases r; simp)+
  have "jget (obj_with r [(''directAttempt'', JStr ''connected''), (''joinFailure'', JBool False)]) ''ok'' = jget r ''ok''"
    by (rule jget_obj_with_other [OF assms(2)]) (simp_all, code_simp?)
  with assms r show ?thesis
    by (simp add: resolveDirectAttempt_def relaySelection_def jget_obj_with_new)
qed

text \<open>The three shapes of a choice.\<close>

lemma choice_direct:
  assumes "List.find isSafeDirectCandidate (filter is_direct (filter (candidate_active now) (candidates_of s roomId))) = Some c"
  shows "jget (fst (selectTransport cf now roomId relayAvailable s)) ''path'' = JStr ''direct''"
    "jget (fst (selectTransport cf now roomId relayAvailable s)) ''candidateId'' = cd_id c"
    "jget (fst (selectTransport cf now roomId relayAvailable s)) ''participantId'' = cd_participantId c"
    "jget (fst (selectTransport cf now roomId relayAvailable s)) ''ok'' = JBool True"
    "jget (fst (selectTransport cf now roomId relayAvailable s)) ''joinFailure'' = JBool False"
    "is_obj (fst (selectTransport cf now roomId relayAvailable s))"
    "wf_obj (fst (selectTransport cf now roomId relayAvailable s))"
  using assms by (simp_all add: selectTransport_def activeCandidatesForRoom_def wf_obj_def Let_def)

lemma choice_relay:
  assumes "List.find isSafeDirectCandidate (filter is_direct (filter (candidate_active now) (candidates_of s roomId))) = None"
    and "relay_available relayAvailable"
  shows "jget (fst (selectTransport cf now roomId relayAvailable s)) ''path'' = JStr ''relay''"
    "jget (fst (selectTransport cf now roomId relayAvailable s)) ''ok'' = JBool True"
    "jget (fst (selectTransport cf now roomId relayAvailable s)) ''joinFailure'' = JBool False"
    "is_obj (fst (selectTransport cf now roomId relayAvailable s))"
    "wf_obj (fst (selectTransport cf now roomId relayAvailable s))"
  using assms by (simp_all add: selectTransport_def activeCandidatesForRoom_def relaySelection_def wf_obj_def Let_def)

lemma choice_fails:
  assumes "List.find isSafeDirectCandidate (filter is_direct (filter (candidate_active now) (candidates_of s roomId))) = None"
    and "\<not> relay_available relayAvailable"
  shows "jget (fst (selectTransport cf now roomId relayAvailable s)) ''path'' = JUndef"
    "jget (fst (selectTransport cf now roomId relayAvailable s)) ''ok'' = JBool False"
  using assms by (simp_all add: selectTransport_def activeCandidatesForRoom_def cand_fail_def Let_def)


definition demo_candidate :: jsval where
  "demo_candidate = JObj [(''id'', JStr ''c1''), (''roomId'', JStr ''room''), (''participantId'', JStr ''p1''),
     (''path'', JStr ''direct''), (''networkType'', JStr ''home_network''), (''directAllowed'', JBool True)]"

definition demo_exchange :: exchange where
  "demo_exchange = exchange_exec default_exchange_config (Cand_submit 0 (JStr ''room'') demo_candidate)
     createTransportCandidateExchange"


section \<open>What the exchange lets through\<close>

text \<open>A candidate names its own end: the configured time to live does not bound it.\<close>

lemma given_expiry_unbounded:
  "fst (activeCandidatesForRoom 1000000000000 (JStr ''room'') (exchange_exec default_exchange_config
     (Cand_submit 0 (JStr ''room'') (jput ''expiresAt'' (JNum 9000000000000) demo_candidate))
     createTransportCandidateExchange)) \<noteq> []"
  by code_simp

text \<open>An end that is no number passes the check and yet is never active: accepted, and dropped at once.\<close>

lemma accepted_and_dropped:
  "let (r, s) = submitCandidate default_exchange_config 0 (JStr ''room'') (jput ''expiresAt'' (JStr ''soon'') demo_candidate)
        createTransportCandidateExchange
   in jget r ''ok'' = JBool True \<and> fst (activeCandidatesForRoom 0 (JStr ''room'') s) = []"
  by code_simp

text \<open>Given identifiers are not compared with drawn ones: two candidates can have the same.\<close>

lemma same_identifier_twice:
  "map cd_id (candidates_of (exchange_exec default_exchange_config (Cand_submit 0 (JStr ''room'') (jput ''id'' JNull demo_candidate))
     (exchange_exec default_exchange_config (Cand_submit 0 (JStr ''room'') (jput ''id'' (JStr ''candidate_1'') demo_candidate))
        createTransportCandidateExchange)) (JStr ''room'')) = [JStr ''candidate_1'', JStr ''candidate_1'']"
  by code_simp

end
