(* ===== verification/RuntimeBridge.thy ===== *)
theory RuntimeBridge
  imports DesktopText Effects
begin

text \<open>
  \<open>apps/desktop/src/runtime/desktop-runtime-bridge.mjs\<close>: the commands of the desktop over Java
  detection, the Fabric bootstrap, the files of a room and the lifecycle of its server. What the
  bridge calls is the record \<open>runtime_services\<close>: a method maps its arguments and the state \<open>'w\<close> of
  everything outside to an answer, the events that the lifecycle emits meanwhile, and a new such
  state. \<open>rb_calls\<close> is a record of the calls and no variable of the program. Commands run one at a
  time; the plan is an object or absent.
\<close>

section \<open>States and reasons\<close>

datatype bridge_state = BS_BLOCKED | BS_PREPARING | BS_OPENING | BS_CLOSING | BS_host host_state

primrec bridge_state_str :: "bridge_state \<Rightarrow> string" where
  "bridge_state_str BS_BLOCKED = ''blocked''"
| "bridge_state_str BS_PREPARING = ''preparing''"
| "bridge_state_str BS_OPENING = ''opening''"
| "bridge_state_str BS_CLOSING = ''closing''"
| "bridge_state_str (BS_host st) = host_state_str st"

definition bs :: "bridge_state \<Rightarrow> jsval" where
  "bs st = JStr (bridge_state_str st)"

datatype bridge_failure = BF_DUPLICATE_OPEN | BF_FABRIC_DOWNLOAD_DISABLED | BF_JAVA_DETECTION_FAILED
  | BF_LIFECYCLE_FAILED | BF_MATERIALIZATION_FAILED | BF_SERVER_COMMAND_UNAVAILABLE

primrec bridge_failure_str :: "bridge_failure \<Rightarrow> string" where
  "bridge_failure_str BF_DUPLICATE_OPEN = ''duplicate_open''"
| "bridge_failure_str BF_FABRIC_DOWNLOAD_DISABLED = ''fabric_download_disabled''"
| "bridge_failure_str BF_JAVA_DETECTION_FAILED = ''java_detection_failed''"
| "bridge_failure_str BF_LIFECYCLE_FAILED = ''lifecycle_failed''"
| "bridge_failure_str BF_MATERIALIZATION_FAILED = ''materialization_failed''"
| "bridge_failure_str BF_SERVER_COMMAND_UNAVAILABLE = ''server_command_unavailable''"

primrec bridge_failureMessages :: "bridge_failure \<Rightarrow> string" where
  "bridge_failureMessages BF_DUPLICATE_OPEN = ''The room is already opening.''"
| "bridge_failureMessages BF_FABRIC_DOWNLOAD_DISABLED = ''Finish room setup before opening this room.''"
| "bridge_failureMessages BF_JAVA_DETECTION_FAILED = ''Install Java 21 or newer before opening this room.''"
| "bridge_failureMessages BF_LIFECYCLE_FAILED = ''The room could not be opened.''"
| "bridge_failureMessages BF_MATERIALIZATION_FAILED = ''Prepare the room files before opening it.''"
| "bridge_failureMessages BF_SERVER_COMMAND_UNAVAILABLE = ''Open the room before sending server commands.''"

section \<open>What is shown\<close>

definition bridge_secret_words :: "string list" where
  "bridge_secret_words = [''token'', ''secret'', ''password'', ''credential'', ''authorization'', ''cookie'', ''invite'']"

definition bridge_isSecretKey :: "string \<Rightarrow> bool" where
  "bridge_isSecretKey key = key_mentions bridge_secret_words key"

definition bridge_sanitizeValue :: "jsval \<Rightarrow> jsval" where
  "bridge_sanitizeValue = sanitize_inner bridge_isSecretKey (\<lambda>s. redactHostLogLine (JStr s))"

definition bridge_blocked_message :: string where
  "bridge_blocked_message = ''The room action was blocked.''"

definition wrapFailure :: "bridge_failure \<Rightarrow> jsval \<Rightarrow> jsval" where
  "wrapFailure reason cause0 =
    (let cause = (if cause0 = JUndef then JObj [] else cause0) in
     JObj [(''reason'', JStr (bridge_failure_str reason)),
       (''message'', coalesce (jget cause ''message'') (JStr (bridge_failureMessages reason))),
       (''detail'', if truthy (jget cause ''reason'')
          then JObj [(''reason'', jget cause ''reason''), (''detail'', jget cause ''detail'')]
          else bridge_sanitizeValue cause)])"

definition sanitizeFailure :: "jsval \<Rightarrow> jsval" where
  "sanitizeFailure failure = JObj (
     [(''reason'', coalesce (jget failure ''reason'') (JStr ''unknown'')),
      (''message'', JStr (redactHostLogLine (coalesce (jget failure ''message'') (JStr bridge_blocked_message))))] @
     (if truthy (jget failure ''detail'') then [(''detail'', bridge_sanitizeValue (jget failure ''detail''))] else []))"

text \<open>\<open>v ? { ... } : null\<close>\<close>

definition part_of :: "jsval \<Rightarrow> (string \<times> jsval) list \<Rightarrow> jsval" where
  "part_of v entries = (if truthy v then JObj entries else JNull)"

definition summarizeRuntimePlan :: "jsval \<Rightarrow> jsval" where
  "summarizeRuntimePlan p =
    (let room = jget p ''room''; lifecycle = jget p ''lifecycle''; java = jget p ''java'';
         fabric = jget p ''fabric''; pack = jget p ''pack''
     in bridge_sanitizeValue (JObj
       [(''room'', part_of room [(''id'', jget room ''id''), (''name'', jget room ''name''),
          (''minecraftVersion'', jget room ''minecraftVersion''), (''channel'', jget room ''channel'')]),
        (''lifecycle'', part_of lifecycle [(''current'', jget lifecycle ''current''),
          (''next'', jget lifecycle ''next''), (''adapter'', jget lifecycle ''adapter'')]),
        (''java'', part_of java [(''detected'', JBool (truthy (jget java ''detected'') \<or> truthy (jget java ''path''))),
          (''majorVersion'', jget java ''majorVersion''), (''vendor'', coalesce (jget java ''vendor'') JNull),
          (''source'', coalesce (jget java ''source'') JNull)]),
        (''fabric'', part_of fabric [(''loaderVersion'', jget fabric ''loaderVersion''),
          (''installerVerified'', JBool (jget fabric ''installerVerified'' = JBool True)),
          (''hasLauncherJar'', JBool (truthy (jget fabric ''launcherJar''))),
          (''checksumRequired'', JBool (truthy (jget fabric ''serverJarSha256'')))]),
        (''pack'', part_of pack [(''id'', jget pack ''id''), (''fixed'', JBool (jget pack ''fixed'' = JBool True)),
          (''checksumVerified'', JBool (jget pack ''checksumVerified'' = JBool True))])]))"

definition state_summaries :: "(string \<times> string) list" where
  "state_summaries = map (\<lambda>(st, text). (bridge_state_str st, text))
    [(BS_BLOCKED, ''The room is blocked.''), (BS_PREPARING, ''Preparing room files.''),
     (BS_OPENING, ''Room is opening.''), (BS_CLOSING, ''Room is closing.''),
     (BS_host HS_READY, ''Room files are ready.''), (BS_host HS_STARTING, ''Room is opening.''),
     (BS_host HS_RUNNING, ''Room is open.''), (BS_host HS_STOPPING, ''Room is closing.''),
     (BS_host HS_RESTARTING, ''Room is restarting.''), (BS_host HS_CRASHED, ''The room stopped unexpectedly.''),
     (BS_host HS_FAILED, ''The room action failed.''), (BS_host HS_STOPPED, ''Room is closed.'')]"

definition summaryForState :: "jsval \<Rightarrow> jsval \<Rightarrow> jsval" where
  "summaryForState state failure =
    (if truthy failure then jget failure ''message''
     else JStr (case jm_get state_summaries (js_string state) of
       None \<Rightarrow> ''Room status is unknown.'' | Some text \<Rightarrow> text))"

text \<open>\<open>dto\<close>: the state, then what is given; an absent part is \<open>JUndef\<close>, absent events \<open>None\<close>.\<close>

definition bridge_dto :: "jsval \<Rightarrow> jsval \<Rightarrow> jsval \<Rightarrow> jsval \<Rightarrow> jsval \<Rightarrow> jsval list option \<Rightarrow> jsval \<Rightarrow> jsval" where
  "bridge_dto state summary failure runtimePlan metrics events detail = JObj (
     [(''state'', state), (''summary'', coalesce summary (summaryForState state failure))] @
     (if truthy failure then [(''failure'', sanitizeFailure failure)] else []) @
     (if truthy runtimePlan then [(''runtimePlan'', summarizeRuntimePlan runtimePlan)] else []) @
     (if truthy metrics then [(''metrics'', bridge_sanitizeValue metrics)] else []) @
     (case events of None \<Rightarrow> [] | Some es \<Rightarrow> [(''events'', JArr (map bridge_sanitizeValue es))]) @
     (if truthy detail then [(''detail'', bridge_sanitizeValue detail)] else []))"

section \<open>State and calls\<close>

datatype bridge_call =
    Call_detectJava jsval
  | Call_bootstrapFabric jsval jsval
  | Call_materializeRoom jsval jsval
  | Call_createManager jsval jsval
  | Call_status jsval
  | Call_start jsval jsval
  | Call_stop jsval jsval
  | Call_restart jsval jsval
  | Call_sendCommand jsval jsval

text \<open>The dependencies, and the methods of a lifecycle manager (first argument).\<close>

type_synonym 'w runtime_services = "bridge_call \<Rightarrow> 'w \<Rightarrow> (answer \<times> jsval list) \<times> 'w"

record 'w rbridge =
  rb_activePlan :: jsval
  rb_manager :: jsval
  rb_lastState :: jsval
  rb_lastFailure :: jsval
  rb_events :: "jsval list"
  rb_calls :: "(bridge_call \<times> answer) list"
  rb_world :: 'w

record bridge_config =
  rc_lifecycleOptions :: jsval
  rc_javaOptions :: jsval
  rc_fabricOptions :: jsval
  rc_materializeOptions :: jsval

definition cloneJson :: "jsval \<Rightarrow> jsval" where
  "cloneJson v = json_clone (coalesce v (JObj []))"

definition createDesktopRuntimeBridge :: "jsval \<Rightarrow> 'w \<Rightarrow> 'w rbridge" where
  "createDesktopRuntimeBridge runtimePlan w = \<lparr>rb_activePlan = cloneJson runtimePlan, rb_manager = JNull,
     rb_lastState = bs (BS_host HS_STOPPED), rb_lastFailure = JNull, rb_events = [], rb_calls = [], rb_world = w\<rparr>"

text \<open>A call, with \<open>recordLifecycleEvent\<close> for what is emitted during it.\<close>

definition bridge_calls :: "'w runtime_services \<Rightarrow> bridge_call \<Rightarrow> 'w rbridge \<Rightarrow> answer \<times> 'w rbridge" where
  "bridge_calls sv c s = (case sv c (rb_world s) of ((a, es), w) \<Rightarrow>
     (a, s\<lparr>rb_world := w, rb_events := rb_events s @ map bridge_sanitizeValue es, rb_calls := rb_calls s @ [(c, a)]\<rparr>))"

definition bridge_await :: "'w runtime_services \<Rightarrow> bridge_call \<Rightarrow> ('w rbridge, jsval) eff" where
  "bridge_await sv c = await_answer (bridge_calls sv c)"

text \<open>\<open>recordLifecycleEvent\<close> between commands.\<close>

definition recordLifecycleEvent :: "jsval \<Rightarrow> 'w rbridge \<Rightarrow> 'w rbridge" where
  "recordLifecycleEvent e s = s\<lparr>rb_events := rb_events s @ [bridge_sanitizeValue e]\<rparr>"

definition set_lastState :: "jsval \<Rightarrow> ('w rbridge, unit) eff" where
  "set_lastState st = eff_modify (\<lambda>s. s\<lparr>rb_lastState := st\<rparr>)"

definition clear_failure :: "jsval \<Rightarrow> ('w rbridge, unit) eff" where
  "clear_failure st = eff_modify (\<lambda>s. s\<lparr>rb_lastFailure := JNull, rb_lastState := st\<rparr>)"

definition default_object :: "jsval \<Rightarrow> jsval" where
  "default_object v = (if v = JUndef then JObj [] else v)"

text \<open>\<open>{ ...a, ...b, ...c }\<close>\<close>

definition spread_all :: "jsval list \<Rightarrow> jsval" where
  "spread_all vs = JObj (fromEntries (concat (map own_entries vs)))"

definition rememberFailure :: "jsval \<Rightarrow> jsval \<Rightarrow> ('w rbridge, jsval) eff" where
  "rememberFailure state failure0 =
    eff_bind (set_lastState state) (\<lambda>_.
    eff_bind (eff_lift (if nullish (default_object failure0) then None else Some (sanitizeFailure (default_object failure0)))) (\<lambda>failure.
    eff_bind (eff_modify (\<lambda>s. s\<lparr>rb_lastFailure := failure\<rparr>)) (\<lambda>_.
    eff_get (\<lambda>s. bridge_dto state (coalesce (jget failure ''message'') (summaryForState state failure)) failure
      (rb_activePlan s) JUndef None JUndef))))"

definition shown :: "jsval \<Rightarrow> string \<Rightarrow> jsval \<Rightarrow> ('w rbridge, jsval) eff" where
  "shown state summary detail =
    eff_get (\<lambda>s. bridge_dto state (JStr summary) JUndef (rb_activePlan s) JUndef None detail)"

section \<open>Stages\<close>

definition javaOptionsFor :: "bridge_config \<Rightarrow> jsval \<Rightarrow> ('w rbridge, jsval) eff" where
  "javaOptionsFor cf commandOptions =
    eff_bind (eff_lift (dot commandOptions ''javaOptions'')) (\<lambda>own.
    eff_get (\<lambda>s. let java = jget (rb_activePlan s) ''java'' in spread_all [rc_javaOptions cf, own, JObj
      [(''minimumMajorVersion'', coalesce (coalesce (coalesce (jget commandOptions ''minimumMajorVersion'')
          (jget (rc_javaOptions cf) ''minimumMajorVersion'')) (jget java ''minimumMajorVersion''))
          (jget (jget java ''adapterContract'') ''minimumMajorVersion''))]]))"

definition withDetectedJava :: "jsval \<Rightarrow> jsval \<Rightarrow> jsval option" where
  "withDetectedJava runtimePlan java =
    (let copy = cloneJson runtimePlan in
     if \<not> is_obj copy \<or> nullish java then None
     else
       let copy1 = jput ''java'' (obj_with (coalesce (jget copy ''java'') (JObj []))
             [(''path'', jget java ''path''), (''majorVersion'', jget java ''majorVersion''),
              (''version'', jget java ''version''), (''vendor'', coalesce (jget java ''vendor'') JNull),
              (''source'', coalesce (jget java ''source'') JNull), (''detected'', JBool True)]) copy
       in Some (if nonempty_arr (jget copy1 ''command'')
         then jput ''command'' (JArr ((elems (jget copy1 ''command''))[0 := jget java ''path''])) copy1 else copy1))"

text \<open>Java is detected and put into the plan; then the rest of the command.\<close>

definition with_java :: "'w runtime_services \<Rightarrow> bridge_config \<Rightarrow> jsval \<Rightarrow> ('w rbridge, jsval) eff \<Rightarrow> ('w rbridge, jsval) eff" where
  "with_java sv cf options rest =
    eff_bind (javaOptionsFor cf options) (\<lambda>javaOptions.
    eff_bind (bridge_await sv (Call_detectJava javaOptions)) (\<lambda>javaResult.
    eff_bind (eff_lift (dot javaResult ''ok'')) (\<lambda>ok.
    if \<not> truthy ok then rememberFailure (bs BS_BLOCKED)
      (wrapFailure BF_JAVA_DETECTION_FAILED (jget javaResult ''failure''))
    else
      eff_bind (eff_get rb_activePlan) (\<lambda>plan.
      eff_bind (eff_lift (withDetectedJava plan (jget javaResult ''java''))) (\<lambda>detected.
      eff_bind (eff_modify (\<lambda>s. s\<lparr>rb_activePlan := detected\<rparr>)) (\<lambda>_. rest))))))"

definition with_files :: "'w runtime_services \<Rightarrow> bridge_config \<Rightarrow> jsval \<Rightarrow> (jsval \<Rightarrow> ('w rbridge, jsval) eff) \<Rightarrow> ('w rbridge, jsval) eff" where
  "with_files sv cf options rest =
    eff_bind (eff_get rb_activePlan) (\<lambda>plan.
    eff_bind (bridge_await sv (Call_materializeRoom plan (spread_all
      [rc_materializeOptions cf, rc_lifecycleOptions cf, jget options ''materializeOptions'']))) (\<lambda>materialized.
    eff_bind (eff_lift (dot materialized ''ok'')) (\<lambda>ok.
    if \<not> truthy ok then rememberFailure (bs BS_BLOCKED)
      (wrapFailure BF_MATERIALIZATION_FAILED (jget materialized ''failure''))
    else rest materialized)))"

definition with_fabric :: "'w runtime_services \<Rightarrow> bridge_config \<Rightarrow> jsval \<Rightarrow> ('w rbridge, jsval) eff \<Rightarrow> ('w rbridge, jsval) eff" where
  "with_fabric sv cf options rest =
    (if jget options ''downloadFabric'' = JBool True then
       eff_bind (eff_get rb_activePlan) (\<lambda>plan.
       eff_bind (bridge_await sv (Call_bootstrapFabric plan (spread_all
         [rc_fabricOptions cf, jget options ''fabricOptions'']))) (\<lambda>fabricResult.
       eff_bind (eff_lift (dot fabricResult ''ok'')) (\<lambda>ok.
       if \<not> truthy ok then rememberFailure (bs BS_BLOCKED) (jget fabricResult ''failure'') else rest)))
     else if jget options ''requireFabricDownload'' = JBool True then
       rememberFailure (bs BS_BLOCKED) (wrapFailure BF_FABRIC_DOWNLOAD_DISABLED JUndef)
     else rest)"

text \<open>\<open>lifecycleManager?.status?.()\<close>, and \<open>lifecycleManager.status?.().state\<close>\<close>

definition manager_status :: "'w runtime_services \<Rightarrow> ('w rbridge, jsval) eff" where
  "manager_status sv = eff_bind (eff_get rb_manager) (\<lambda>m.
     if nullish m then eff_return JUndef else bridge_await sv (Call_status m))"

definition state_after :: "'w runtime_services \<Rightarrow> jsval \<Rightarrow> host_state \<Rightarrow> ('w rbridge, jsval) eff" where
  "state_after sv result otherwise =
    (if \<not> nullish (jget result ''state'') then eff_return (jget result ''state'')
     else eff_bind (manager_status sv) (\<lambda>status.
       eff_bind (eff_lift (dot status ''state'')) (\<lambda>st. eff_return (coalesce st (bs (BS_host otherwise))))))"

section \<open>Commands\<close>

definition bridge_prepareRoom :: "'w runtime_services \<Rightarrow> bridge_config \<Rightarrow> jsval \<Rightarrow> ('w rbridge, jsval) eff" where
  "bridge_prepareRoom sv cf options0 =
    (let options = default_object options0 in
     eff_bind (set_lastState (bs BS_PREPARING)) (\<lambda>_.
     with_java sv cf options (with_files sv cf options (\<lambda>materialized.
       eff_bind (clear_failure (bs (BS_host HS_READY))) (\<lambda>_.
       shown (bs (BS_host HS_READY)) ''Room files are ready.''
         (JObj [(''materialized'', bridge_sanitizeValue materialized)]))))))"

definition isOpenState :: "jsval \<Rightarrow> bool" where
  "isOpenState state \<longleftrightarrow> state \<in> set (map (bs \<circ> BS_host) [HS_STARTING, HS_RUNNING, HS_STOPPING, HS_RESTARTING])"

text \<open>\<open>lifecycleManager ??= createLifecycleManager(activePlan, ...)\<close>\<close>

definition ensure_manager :: "'w runtime_services \<Rightarrow> bridge_config \<Rightarrow> jsval \<Rightarrow> ('w rbridge, jsval) eff" where
  "ensure_manager sv cf options =
    eff_bind (eff_get rb_manager) (\<lambda>m.
    if \<not> nullish m then eff_return m
    else
      eff_bind (eff_get rb_activePlan) (\<lambda>plan.
      eff_bind (bridge_await sv (Call_createManager plan (spread_all
        [rc_lifecycleOptions cf, jget options ''lifecycleOptions'']))) (\<lambda>created.
      eff_bind (eff_modify (\<lambda>s. s\<lparr>rb_manager := created\<rparr>)) (\<lambda>_. eff_return created))))"

definition start_room :: "'w runtime_services \<Rightarrow> bridge_config \<Rightarrow> jsval \<Rightarrow> ('w rbridge, jsval) eff" where
  "start_room sv cf options =
    eff_bind (ensure_manager sv cf options) (\<lambda>m.
    if nullish m then eff_throw type_error
    else
      eff_bind (bridge_await sv (Call_start m (spread_all [jget options ''startOptions'',
        JObj [(''mode'', coalesce (coalesce (jget options ''mode'') (jget (rc_lifecycleOptions cf) ''mode'')) (JStr ''real''))]]))) (\<lambda>started.
      eff_bind (eff_lift (dot started ''ok'')) (\<lambda>ok.
      if \<not> truthy ok then rememberFailure (bs BS_BLOCKED) (wrapFailure BF_LIFECYCLE_FAILED (jget started ''failure''))
      else
        eff_bind (eff_modify (\<lambda>s. s\<lparr>rb_lastFailure := JNull\<rparr>)) (\<lambda>_.
        eff_bind (state_after sv started HS_STARTING) (\<lambda>st.
        eff_bind (set_lastState st) (\<lambda>_. shown st ''Room is opening.'' JUndef))))))"

definition bridge_openRoom :: "'w runtime_services \<Rightarrow> bridge_config \<Rightarrow> jsval \<Rightarrow> ('w rbridge, jsval) eff" where
  "bridge_openRoom sv cf options0 =
    (let options = default_object options0 in
     eff_bind (manager_status sv) (\<lambda>status.
     if isOpenState (jget status ''state'') \<or> truthy (jget status ''hasProcess'') then
       eff_get (\<lambda>s. bridge_dto (bs BS_BLOCKED) (JStr (bridge_failureMessages BF_DUPLICATE_OPEN))
         (wrapFailure BF_DUPLICATE_OPEN (JObj [(''state'', coalesce (jget status ''state'') (rb_lastState s))]))
         (rb_activePlan s) JUndef None JUndef)
     else
       eff_bind (set_lastState (bs BS_OPENING)) (\<lambda>_.
       with_java sv cf options (with_fabric sv cf options (with_files sv cf options (\<lambda>_. start_room sv cf options))))))"

definition bridge_closeRoom :: "'w runtime_services \<Rightarrow> jsval \<Rightarrow> ('w rbridge, jsval) eff" where
  "bridge_closeRoom sv options0 =
    eff_bind (set_lastState (bs BS_CLOSING)) (\<lambda>_.
    eff_bind (eff_get rb_manager) (\<lambda>m.
    eff_bind (if truthy m then bridge_await sv (Call_stop m (default_object options0))
      else eff_return (JObj [(''ok'', JBool True), (''state'', bs (BS_host HS_STOPPED))])) (\<lambda>stopped.
    eff_bind (eff_lift (dot stopped ''ok'')) (\<lambda>ok.
    if \<not> truthy ok then rememberFailure (bs (BS_host HS_FAILED)) (jget stopped ''failure'')
    else
      let st = coalesce (jget stopped ''state'') (bs (BS_host HS_STOPPED)) in
      eff_bind (clear_failure st) (\<lambda>_. shown st ''Room is closed.'' JUndef)))))"

definition bridge_restartRoom :: "'w runtime_services \<Rightarrow> bridge_config \<Rightarrow> jsval \<Rightarrow> ('w rbridge, jsval) eff" where
  "bridge_restartRoom sv cf options0 =
    (let options = default_object options0 in
     eff_bind (eff_get rb_manager) (\<lambda>m.
     if \<not> truthy m then eff_bind (eff_lift (dot options ''start'')) (\<lambda>start.
       bridge_openRoom sv cf (coalesce start options))
     else
       eff_bind (set_lastState (bs (BS_host HS_RESTARTING))) (\<lambda>_.
       eff_bind (bridge_await sv (Call_restart m options)) (\<lambda>restarted.
       eff_bind (eff_lift (dot restarted ''ok'')) (\<lambda>ok.
       if \<not> truthy ok then rememberFailure (bs (BS_host HS_FAILED)) (jget restarted ''failure'')
       else
         eff_bind (eff_modify (\<lambda>s. s\<lparr>rb_lastFailure := JNull\<rparr>)) (\<lambda>_.
         eff_bind (state_after sv restarted HS_STARTING) (\<lambda>st.
         eff_bind (set_lastState st) (\<lambda>_. shown st ''Room is restarting.'' JUndef))))))))"

text \<open>The events of the bridge and those the manager's status tells.\<close>

definition mergedLifecycleEvents :: "jsval \<Rightarrow> ('w rbridge, jsval list) eff" where
  "mergedLifecycleEvents status =
    eff_bind (eff_lift (arr_of (coalesce (jget status ''events'') (JArr [])))) (\<lambda>told.
    eff_get (\<lambda>s. rb_events s @ map bridge_sanitizeValue told))"

definition canSendServerCommand :: "jsval \<Rightarrow> jsval \<Rightarrow> bool" where
  "canSendServerCommand manager status \<longleftrightarrow> truthy manager \<and> jget status ''hasProcess'' = JBool True \<and>
     jget status ''state'' \<in> set (map (bs \<circ> BS_host) [HS_STARTING, HS_RUNNING, HS_RESTARTING])"

definition shown_with_status :: "jsval \<Rightarrow> jsval \<Rightarrow> jsval \<Rightarrow> jsval \<Rightarrow> ('w rbridge, jsval) eff" where
  "shown_with_status state summary failure status =
    eff_bind (mergedLifecycleEvents status) (\<lambda>es.
    eff_get (\<lambda>s. bridge_dto state summary failure (rb_activePlan s) (jget status ''metrics'') (Some es) JUndef))"

definition bridge_sendServerCommand :: "'w runtime_services \<Rightarrow> jsval \<Rightarrow> ('w rbridge, jsval) eff" where
  "bridge_sendServerCommand sv options0 =
    eff_bind (manager_status sv) (\<lambda>status.
    eff_bind (eff_get rb_manager) (\<lambda>m.
    eff_bind (eff_get rb_lastState) (\<lambda>lastState.
    if \<not> canSendServerCommand m status then
      shown_with_status (coalesce (jget status ''state'') lastState)
        (JStr (bridge_failureMessages BF_SERVER_COMMAND_UNAVAILABLE))
        (wrapFailure BF_SERVER_COMMAND_UNAVAILABLE (JObj [(''state'', coalesce (jget status ''state'') lastState)])) status
    else
      eff_bind (bridge_await sv (Call_sendCommand m (default_object options0))) (\<lambda>sent.
      eff_bind (manager_status sv) (\<lambda>after.
      eff_bind (eff_lift (dot sent ''ok'')) (\<lambda>ok.
      if \<not> truthy ok then shown_with_status (coalesce (jget after ''state'') lastState)
        (jget (jget sent ''failure'') ''message'') (jget sent ''failure'') after
      else
        let st = coalesce (coalesce (jget after ''state'') (jget sent ''state'')) lastState in
        eff_bind (clear_failure st) (\<lambda>_. shown_with_status st (JStr ''Server command sent.'') JUndef after)))))))"

definition bridge_status :: "'w runtime_services \<Rightarrow> ('w rbridge, jsval) eff" where
  "bridge_status sv =
    eff_bind (manager_status sv) (\<lambda>status.
    eff_bind (eff_get (\<lambda>s. coalesce (jget status ''state'') (rb_lastState s))) (\<lambda>state.
    eff_bind (eff_get rb_lastFailure) (\<lambda>failure.
    shown_with_status state (summaryForState state failure) failure status)))"

section \<open>The machine\<close>

datatype rbridge_op =
    Br_prepare jsval
  | Br_open jsval
  | Br_close jsval
  | Br_restart jsval
  | Br_send jsval
  | Br_status
  | Br_event jsval

primrec rbridge_exec :: "'w runtime_services \<Rightarrow> bridge_config \<Rightarrow> rbridge_op \<Rightarrow> 'w rbridge \<Rightarrow> 'w rbridge" where
  "rbridge_exec sv cf (Br_prepare options) s = snd (bridge_prepareRoom sv cf options s)"
| "rbridge_exec sv cf (Br_open options) s = snd (bridge_openRoom sv cf options s)"
| "rbridge_exec sv cf (Br_close options) s = snd (bridge_closeRoom sv options s)"
| "rbridge_exec sv cf (Br_restart options) s = snd (bridge_restartRoom sv cf options s)"
| "rbridge_exec sv cf (Br_send options) s = snd (bridge_sendServerCommand sv options s)"
| "rbridge_exec sv cf Br_status s = snd (bridge_status sv s)"
| "rbridge_exec sv cf (Br_event e) s = recordLifecycleEvent e s"

end
