(* ===== verification/RuntimeBridge_Props.thy ===== *)
theory RuntimeBridge_Props
  imports RuntimeBridge Machine
begin

text \<open>
  What the runtime bridge calls, and in which order: a server is started only for a room whose Java,
  Fabric server and files were made ready by the same command, and the console of a server is
  reached only while it runs.
\<close>

section \<open>Calls of a computation\<close>

definition calls_at :: "(bridge_call \<times> answer) list \<Rightarrow> jsval \<Rightarrow> jsval \<Rightarrow> 'w rbridge \<Rightarrow> bool" where
  "calls_at c p m s \<longleftrightarrow> rb_calls s = c \<and> rb_activePlan s = p \<and> rb_manager s = m"

text \<open>\<open>P\<close> holds at the start, and the calls made satisfy \<open>F\<close> however the computation ends.\<close>

definition calls_ens :: "('w rbridge \<Rightarrow> bool) \<Rightarrow> ('w rbridge, 'a) eff \<Rightarrow> ((bridge_call \<times> answer) list \<Rightarrow> bool) \<Rightarrow> bool" where
  "calls_ens P m F \<longleftrightarrow> ens P m (\<lambda>_ s. F (rb_calls s)) (\<lambda>_ s. F (rb_calls s))"

lemma calls_ensD: "calls_ens P m F \<Longrightarrow> P s \<Longrightarrow> F (rb_calls (snd (m s)))"
  by (cases "m s") (auto simp: calls_ens_def ens_def split: sum.splits)

lemma calls_ens_await:
  assumes "\<And>a. F (c @ [(x, a)])" and "\<And>v. calls_ens (calls_at (c @ [(x, Value v)]) p m) (rest v) F"
  shows "calls_ens (calls_at c p m) (eff_bind (bridge_await sv x) rest) F"
  unfolding calls_ens_def
proof (rule ens_bind)
  show "ens (calls_at c p m) (bridge_await sv x) (\<lambda>v. calls_at (c @ [(x, Value v)]) p m) (\<lambda>_ s. F (rb_calls s))"
    using assms(1)
    by (auto simp: ens_def bridge_await_def await_answer_def bridge_calls_def calls_at_def
        split: prod.splits answer.splits sum.splits)
qed (use assms(2) in \<open>simp add: calls_ens_def\<close>)

lemma calls_ens_get:
  "calls_ens (calls_at c p m) (k p) F \<Longrightarrow> calls_ens (calls_at c p m) (eff_bind (eff_get rb_activePlan) k) F"
  "calls_ens (calls_at c p m) (k m) F \<Longrightarrow> calls_ens (calls_at c p m) (eff_bind (eff_get rb_manager) k) F"
  by (auto simp: calls_ens_def ens_def eff_bind_def calls_at_def)

lemma calls_ens_get_any:
  "(\<And>a. calls_ens (calls_at c p m) (k a) F) \<Longrightarrow> calls_ens (calls_at c p m) (eff_bind (eff_get f) k) F"
  by (auto simp: calls_ens_def ens_def eff_bind_def)

lemma calls_ens_lift:
  "F c \<Longrightarrow> (\<And>a. r = Some a \<Longrightarrow> calls_ens (calls_at c p m) (k a) F) \<Longrightarrow>
   calls_ens (calls_at c p m) (eff_bind (eff_lift r) k) F"
  by (cases r) (auto simp: calls_ens_def ens_def eff_bind_def eff_lift_def calls_at_def)

lemma calls_ens_modify:
  "(\<And>s. calls_at c p m s \<Longrightarrow> calls_at c p' m' (f s)) \<Longrightarrow> calls_ens (calls_at c p' m') (k ()) F \<Longrightarrow>
   calls_ens (calls_at c p m) (eff_bind (eff_modify f) k) F"
  by (auto simp: calls_ens_def ens_def eff_bind_def)

lemma calls_ens_if:
  "(b \<Longrightarrow> calls_ens P m F) \<Longrightarrow> (\<not> b \<Longrightarrow> calls_ens P n F) \<Longrightarrow> calls_ens P (if b then m else n) F"
  by simp

lemma calls_ens_return: "F c \<Longrightarrow> calls_ens (calls_at c p m) (eff_return a) F"
  and calls_ens_get_end: "F c \<Longrightarrow> calls_ens (calls_at c p m) (eff_get f) F"
  and calls_ens_throw: "F c \<Longrightarrow> calls_ens (calls_at c p m) (eff_throw e) F"
  by (simp_all add: calls_ens_def ens_def calls_at_def)

lemma calls_ens_remember: "F c \<Longrightarrow> calls_ens (calls_at c p m) (rememberFailure a b) F"
  unfolding rememberFailure_def set_lastState_def
  by (intro calls_ens_modify [where p' = p and m' = m] calls_ens_lift calls_ens_get_end) (simp_all add: calls_at_def)

lemma calls_ens_shown: "F c \<Longrightarrow> calls_ens (calls_at c p m) (shown a b d) F"
  unfolding shown_def by (rule calls_ens_get_end)

lemma calls_ens_last:
  "calls_ens (calls_at c p m) (k ()) F \<Longrightarrow> calls_ens (calls_at c p m) (eff_bind (set_lastState st) k) F"
  unfolding set_lastState_def by (rule calls_ens_modify) (simp_all add: calls_at_def)

lemma calls_ens_status:
  assumes none: "nullish m \<Longrightarrow> calls_ens (calls_at c p m) (k JUndef) F"
    and some: "\<And>v. \<not> nullish m \<Longrightarrow> calls_ens (calls_at (c @ [(Call_status m, Value v)]) p m) (k v) F"
    and ends: "\<And>a. \<not> nullish m \<Longrightarrow> F (c @ [(Call_status m, a)])"
  shows "calls_ens (calls_at c p m) (eff_bind (manager_status sv) k) F"
proof (cases "nullish m")
  case True
  have "calls_ens (calls_at c p m) (eff_bind (manager_status sv) k) F =
      calls_ens (calls_at c p m) (eff_bind (eff_return JUndef) k) F"
    using True by (auto simp: calls_ens_def ens_def eff_bind_def manager_status_def calls_at_def)
  also have "\<dots>" using none [OF True] by (simp add: calls_ens_def ens_def eff_bind_def)
  finally show ?thesis by simp
next
  case False
  have "calls_ens (calls_at c p m) (eff_bind (manager_status sv) k) F =
      calls_ens (calls_at c p m) (eff_bind (bridge_await sv (Call_status m)) k) F"
    using False by (auto simp: calls_ens_def ens_def eff_bind_def manager_status_def calls_at_def)
  also have "\<dots>" using False some ends by (intro calls_ens_await) simp_all
  finally show ?thesis by simp
qed

section \<open>Stages\<close>

lemma detected_path:
  assumes "withDetectedJava plan java = Some p"
  shows "jget (jget p ''java'') ''path'' = jget java ''path''"
  using assms by (auto simp: withDetectedJava_def Let_def jget_obj_with_new split: if_splits)

lemma calls_ens_java:
  assumes "\<And>jo a. F (c @ [(Call_detectJava jo, a)])" and "F c"
    and "\<And>jo jr p'. truthy (jget jr ''ok'') \<Longrightarrow> jget (jget p' ''java'') ''path'' = jget (jget jr ''java'') ''path'' \<Longrightarrow>
      calls_ens (calls_at (c @ [(Call_detectJava jo, Value jr)]) p' m) rest F"
  shows "calls_ens (calls_at c p m) (with_java sv cf options rest) F"
proof -
  have opts: "calls_ens (calls_at c p m) (eff_bind (javaOptionsFor cf options) k) F"
    if k: "\<And>jo. calls_ens (calls_at c p m) (k jo) F" for k
  proof (cases "dot options ''javaOptions''")
    case None
    with assms(2) show ?thesis by (simp add: calls_ens_def ens_def eff_bind_def javaOptionsFor_def eff_lift_def calls_at_def)
  next
    case (Some own)
    with k show ?thesis by (simp add: calls_ens_def ens_def eff_bind_def javaOptionsFor_def eff_lift_def)
  qed
  show ?thesis
    unfolding with_java_def
  proof (intro opts calls_ens_await assms(1) calls_ens_lift calls_ens_if calls_ens_remember calls_ens_get)
    fix jo jr ok p'
    assume ok: "dot jr ''ok'' = Some ok" "\<not> \<not> truthy ok" and p': "withDetectedJava p (jget jr ''java'') = Some p'"
    then have "truthy (jget jr ''ok'')" by (auto simp: dot_def split: if_splits)
    from assms(3) [OF this detected_path [OF p']]
    show "calls_ens (calls_at (c @ [(Call_detectJava jo, Value jr)]) p m)
        (eff_bind (eff_modify (\<lambda>s. s\<lparr>rb_activePlan := p'\<rparr>)) (\<lambda>_. rest)) F"
      by (intro calls_ens_modify [where p' = p' and m' = m]) (simp_all add: calls_at_def)
  qed
qed

lemma calls_ens_files:
  assumes "\<And>mo a. F (c @ [(Call_materializeRoom p mo, a)])"
    and "\<And>mo mr. truthy (jget mr ''ok'') \<Longrightarrow> calls_ens (calls_at (c @ [(Call_materializeRoom p mo, Value mr)]) p m) (rest mr) F"
  shows "calls_ens (calls_at c p m) (with_files sv cf options rest) F"
  unfolding with_files_def
  by (intro calls_ens_get calls_ens_await assms(1) calls_ens_lift calls_ens_if calls_ens_remember assms(2))
    (auto simp: dot_def split: if_splits)

definition fabric_calls :: "jsval \<Rightarrow> jsval \<Rightarrow> (bridge_call \<times> answer) list \<Rightarrow> bool" where
  "fabric_calls options p fab \<longleftrightarrow>
    (if jget options ''downloadFabric'' = JBool True
     then \<exists>fo fr. fab = [(Call_bootstrapFabric p fo, Value fr)] \<and> truthy (jget fr ''ok'')
     else fab = [] \<and> jget options ''requireFabricDownload'' \<noteq> JBool True)"

lemma calls_ens_fabric:
  assumes "\<And>fo a. F (c @ [(Call_bootstrapFabric p fo, a)])" and "F c"
    and "\<And>fab. fabric_calls options p fab \<Longrightarrow> calls_ens (calls_at (c @ fab) p m) rest F"
  shows "calls_ens (calls_at c p m) (with_fabric sv cf options rest) F"
  unfolding with_fabric_def
proof (intro calls_ens_if calls_ens_get calls_ens_await calls_ens_lift calls_ens_remember assms(1,2))
  fix fr ok
  assume "jget options ''downloadFabric'' = JBool True" "dot fr ''ok'' = Some ok" "\<not> \<not> truthy ok"
  then show "calls_ens (calls_at (c @ [(Call_bootstrapFabric p (spread_all [rc_fabricOptions cf, jget options ''fabricOptions'']),
      Value fr)]) p m) rest F"
    by (intro assms(3)) (auto simp: fabric_calls_def dot_def split: if_splits)
next
  assume "jget options ''downloadFabric'' \<noteq> JBool True" "jget options ''requireFabricDownload'' \<noteq> JBool True"
  then show "calls_ens (calls_at c p m) rest F"
    using assms(3) [of "[]"] by (simp add: fabric_calls_def)
qed

definition only_status :: "(bridge_call \<times> answer) list \<Rightarrow> bool" where
  "only_status cs \<longleftrightarrow> (\<forall>(x, a) \<in> set cs. case x of Call_status m \<Rightarrow> True | _ \<Rightarrow> False)"

lemma calls_ens_state_after:
  assumes "F c" and "\<And>a m. F (c @ [(Call_status m, a)])"
    and "\<And>st cs. only_status cs \<Longrightarrow> calls_ens (calls_at (c @ cs) p m) (k st) F"
  shows "calls_ens (calls_at c p m) (eff_bind (state_after sv result h) k) F"
proof -
  have assoc: "eff_bind (eff_bind x f) g = eff_bind x (\<lambda>a. eff_bind (f a) g)" for x f g
    by (auto simp: eff_bind_def fun_eq_iff split: prod.split sum.split)
  have ret: "eff_bind (eff_return a) f = f a" for a f by (simp add: eff_bind_def eff_return_def)
  have k: "calls_ens (calls_at c p m) (k st) F" "calls_ens (calls_at (c @ [(Call_status m, Value v)]) p m) (k st) F" for st v
    using assms(3) [of "[]"] assms(3) [of "[(Call_status m, Value v)]"] by (simp_all add: only_status_def)
  show ?thesis
    unfolding state_after_def
    by (cases "nullish (jget result ''state'')")
      (auto simp: assoc ret intro!: calls_ens_status calls_ens_lift assms(1,2) k)
qed

text \<open>What is called after the files are ready: perhaps the making of a manager, then the start.\<close>

definition start_calls :: "jsval \<Rightarrow> jsval \<Rightarrow> jsval \<Rightarrow> (bridge_call \<times> answer) list \<Rightarrow> bool" where
  "start_calls p m0 m made \<longleftrightarrow>
    (if nullish m0 then \<exists>lo. made = [(Call_createManager p lo, Value m)] else made = [] \<and> m = m0)"

lemma calls_ens_start:
  assumes "\<And>lo a. F (c @ [(Call_createManager p lo, a)])" and "F c"
    and "\<And>made m so a rest. start_calls p m0 m made \<Longrightarrow> only_status rest \<Longrightarrow> F (c @ made @ (Call_start m so, a) # rest)"
  shows "calls_ens (calls_at c p m0) (start_room sv cf options) F"
proof -
  define finish where "finish m = eff_bind (bridge_await sv (Call_start m (spread_all [jget options ''startOptions'',
        JObj [(''mode'', coalesce (coalesce (jget options ''mode'') (jget (rc_lifecycleOptions cf) ''mode'')) (JStr ''real''))]])))
      (\<lambda>started. eff_bind (eff_lift (dot started ''ok'')) (\<lambda>ok.
      if \<not> truthy ok then rememberFailure (bs BS_BLOCKED) (wrapFailure BF_LIFECYCLE_FAILED (jget started ''failure''))
      else eff_bind (eff_modify (\<lambda>s. s\<lparr>rb_lastFailure := JNull\<rparr>)) (\<lambda>_.
        eff_bind (state_after sv started HS_STARTING) (\<lambda>st.
        eff_bind (set_lastState st) (\<lambda>_. shown st ''Room is opening.'' JUndef)))))" for m
  have finish: "calls_ens (calls_at (c @ made) p m) (finish m) F" if made: "start_calls p m0 m made" for made m
  proof -
    have F0: "F ((c @ made) @ [(Call_start m so, a)])" for so a
      using assms(3) [OF made, of "[]" so a] by (simp add: only_status_def)
    have F1: "F (((c @ made) @ [(Call_start m so, a)]) @ rest)" if "only_status rest" for so a rest
      using assms(3) [OF made that, of so a] by simp
    show ?thesis
      unfolding finish_def
      by (intro calls_ens_await calls_ens_lift calls_ens_if calls_ens_remember calls_ens_last calls_ens_shown
          calls_ens_modify [where p' = p and m' = m] calls_ens_state_after F0 F1) (simp_all add: calls_at_def only_status_def)
  qed
  have room: "start_room sv cf options = eff_bind (ensure_manager sv cf options) (\<lambda>m. if nullish m then eff_throw type_error else finish m)"
    unfolding start_room_def finish_def by (rule refl)
  show ?thesis
  proof (cases "nullish m0")
    case False
    have "calls_ens (calls_at c p m0) (start_room sv cf options) F = calls_ens (calls_at c p m0) (finish m0) F"
      using False by (auto simp: room calls_ens_def ens_def eff_bind_def ensure_manager_def calls_at_def)
    with finish [of m0 "[]"] False show ?thesis by (simp add: start_calls_def)
  next
    case True
    define lo where "lo = spread_all [rc_lifecycleOptions cf, jget options ''lifecycleOptions'']"
    have "calls_ens (calls_at c p m0) (start_room sv cf options) F =
        calls_ens (calls_at c p m0) (eff_bind (bridge_await sv (Call_createManager p lo)) (\<lambda>created.
          eff_bind (eff_modify (\<lambda>s. s\<lparr>rb_manager := created\<rparr>)) (\<lambda>_.
            if nullish created then eff_throw type_error else finish created))) F"
      using True by (auto simp: room calls_ens_def ens_def eff_bind_def ensure_manager_def calls_at_def lo_def
          split: prod.split sum.split)
    also have "\<dots>"
    proof (intro calls_ens_await assms(1))
      fix created
      show "calls_ens (calls_at (c @ [(Call_createManager p lo, Value created)]) p m0)
          (eff_bind (eff_modify (\<lambda>s. s\<lparr>rb_manager := created\<rparr>))
            (\<lambda>_. if nullish created then eff_throw type_error else finish created)) F"
        by (intro calls_ens_modify [where p' = p and m' = created] calls_ens_if calls_ens_throw assms(1) finish)
          (use True in \<open>simp_all add: calls_at_def start_calls_def\<close>)
    qed
    finally show ?thesis by simp
  qed
qed

section \<open>Opening\<close>

text \<open>
  The calls of a command that starts a server: Java is detected, the Fabric server is made ready
  where that is asked for, the files are made ready, all for the plan with that Java.
\<close>

definition not_open :: "(bridge_call \<times> answer) list \<Rightarrow> bool" where
  "not_open cs \<longleftrightarrow> (\<forall>(x, a) \<in> set cs. case a of Value v \<Rightarrow>
     \<not> isOpenState (jget v ''state'') \<and> \<not> truthy (jget v ''hasProcess'') | _ \<Rightarrow> False)"

definition prepared_start :: "jsval \<Rightarrow> jsval \<Rightarrow> (bridge_call \<times> answer) list \<Rightarrow> bool" where
  "prepared_start options m0 cs \<longleftrightarrow>
    (\<exists>asked jo jr fab p mo mr made m so a rest.
       cs = asked @ (Call_detectJava jo, Value jr) # fab @ (Call_materializeRoom p mo, Value mr) # made @
         (Call_start m so, a) # rest \<and>
       only_status asked \<and> not_open asked \<and> truthy (jget jr ''ok'') \<and>
       jget (jget p ''java'') ''path'' = jget (jget jr ''java'') ''path'' \<and>
       fabric_calls options p fab \<and> truthy (jget mr ''ok'') \<and> start_calls p m0 m made \<and> only_status rest)"

definition starts :: "(bridge_call \<times> answer) list \<Rightarrow> bool" where
  "starts cs \<longleftrightarrow> (\<exists>(x, a) \<in> set cs. case x of Call_start m so \<Rightarrow> True | _ \<Rightarrow> False)"

definition open_calls :: "jsval \<Rightarrow> jsval \<Rightarrow> (bridge_call \<times> answer) list \<Rightarrow> (bridge_call \<times> answer) list \<Rightarrow> bool" where
  "open_calls options m0 c c' \<longleftrightarrow> (\<exists>cs. c' = c @ cs \<and> (starts cs \<longrightarrow> prepared_start options m0 cs))"

lemma starts_simps [simp]:
  "\<not> starts []" "starts ((x, a) # cs) = ((case x of Call_start m so \<Rightarrow> True | _ \<Rightarrow> False) \<or> starts cs)"
  "starts (cs @ cs') = (starts cs \<or> starts cs')"
  by (auto simp: starts_def)

lemma only_status_starts: "only_status cs \<Longrightarrow> \<not> starts cs"
  by (auto simp: starts_def only_status_def split: bridge_call.splits)

lemma only_statusD: "only_status cs \<Longrightarrow> (x, a) \<in> set cs \<Longrightarrow> \<exists>m. x = Call_status m"
  by (auto simp: only_status_def split: bridge_call.splits)

lemma fabric_starts: "fabric_calls options p fab \<Longrightarrow> \<not> starts fab"
  by (auto simp: fabric_calls_def split: if_splits)

lemma made_starts: "start_calls p m0 m made \<Longrightarrow> \<not> starts made"
  by (auto simp: start_calls_def split: if_splits)

lemma no_start_yet: "\<not> starts cs \<Longrightarrow> open_calls options m0 c (c @ cs)"
  by (auto simp: open_calls_def)

lemma calls_ens_open:
  "calls_ens (calls_at c p0 m0) (bridge_openRoom sv cf options) (open_calls (default_object options) m0 c)"
proof -
  define opts where "opts = default_object options"
  have rest: "calls_ens (calls_at (c @ asked) p0 m0)
      (with_java sv cf opts (with_fabric sv cf opts (with_files sv cf opts (\<lambda>_. start_room sv cf opts)))) (open_calls opts m0 c)"
    if asked: "only_status asked" "not_open asked" for asked
  proof -
    note quiet = only_status_starts [OF asked(1)]
    show ?thesis
    proof (intro calls_ens_java calls_ens_fabric calls_ens_files calls_ens_start)
      fix jo jr p fab mo mr made m so a rest
      assume "truthy (jget jr ''ok'')" "jget (jget p ''java'') ''path'' = jget (jget jr ''java'') ''path''"
        "fabric_calls opts p fab" "truthy (jget mr ''ok'')" "start_calls p m0 m made" "only_status rest"
      then have "prepared_start opts m0 (asked @ (Call_detectJava jo, Value jr) # fab @ (Call_materializeRoom p mo, Value mr) #
          made @ (Call_start m so, a) # rest)"
        using asked unfolding prepared_start_def by blast
      then show "open_calls opts m0 c (((((c @ asked) @ [(Call_detectJava jo, Value jr)]) @ fab) @
          [(Call_materializeRoom p mo, Value mr)]) @ made @ (Call_start m so, a) # rest)"
        by (auto simp: open_calls_def)
    qed (use quiet fabric_starts in \<open>auto intro!: no_start_yet simp: append_assoc\<close>)
  qed
  show ?thesis
    unfolding bridge_openRoom_def Let_def opts_def [symmetric]
  proof (intro calls_ens_status calls_ens_if calls_ens_get_end calls_ens_last)
    show "calls_ens (calls_at c p0 m0)
        (with_java sv cf opts (with_fabric sv cf opts (with_files sv cf opts (\<lambda>_. start_room sv cf opts)))) (open_calls opts m0 c)"
      using rest [of "[]"] by (simp add: only_status_def not_open_def)
    show "calls_ens (calls_at (c @ [(Call_status m0, Value v)]) p0 m0)
        (with_java sv cf opts (with_fabric sv cf opts (with_files sv cf opts (\<lambda>_. start_room sv cf opts)))) (open_calls opts m0 c)"
      if "\<not> (isOpenState (jget v ''state'') \<or> truthy (jget v ''hasProcess''))" for v
      using rest [of "[(Call_status m0, Value v)]"] that by (simp add: only_status_def not_open_def)
  qed (use no_start_yet [of "[]"] in \<open>auto intro: no_start_yet\<close>)
qed

section \<open>Sending\<close>

definition sends :: "(bridge_call \<times> answer) list \<Rightarrow> bool" where
  "sends cs \<longleftrightarrow> (\<exists>(x, a) \<in> set cs. case x of Call_sendCommand m so \<Rightarrow> True | _ \<Rightarrow> False)"

definition send_calls :: "jsval \<Rightarrow> jsval \<Rightarrow> (bridge_call \<times> answer) list \<Rightarrow> (bridge_call \<times> answer) list \<Rightarrow> bool" where
  "send_calls options m c c' \<longleftrightarrow> (\<exists>cs. c' = c @ cs \<and> (sends cs \<longrightarrow>
     (\<exists>v a rest. cs = (Call_status m, Value v) # (Call_sendCommand m options, a) # rest \<and>
        canSendServerCommand m v \<and> only_status rest)))"

lemma calls_ens_shown_status:
  "F c \<Longrightarrow> calls_ens (calls_at c p m) (shown_with_status state summary failure status) F"
  unfolding shown_with_status_def mergedLifecycleEvents_def
  by (cases "arr_of (coalesce (jget status ''events'') (JArr []))")
    (simp_all add: calls_ens_def ens_def eff_bind_def eff_lift_def calls_at_def)

lemma calls_ens_send:
  "calls_ens (calls_at c p m) (bridge_sendServerCommand sv options) (send_calls (default_object options) m c)"
proof -
  have quiet: "send_calls opts m c c" "send_calls opts m c (c @ [(Call_status m, a)])" for opts a
    by (auto simp: send_calls_def sends_def)
  have sent: "send_calls opts m c ((c @ [(Call_status m, Value v)]) @ [(Call_sendCommand m opts, a)])"
      "send_calls opts m c (((c @ [(Call_status m, Value v)]) @ [(Call_sendCommand m opts, a)]) @ [(Call_status m, a')])"
    if "canSendServerCommand m v" for opts v a a'
    using that by (auto simp: send_calls_def only_status_def)
  show ?thesis
    unfolding bridge_sendServerCommand_def clear_failure_def Let_def
    by (intro calls_ens_status calls_ens_get(2) calls_ens_get_any calls_ens_if calls_ens_shown_status calls_ens_await
        calls_ens_lift calls_ens_modify [where p' = p and m' = m] quiet sent)
      (auto simp: calls_at_def canSendServerCommand_def)
qed

section \<open>Properties\<close>


text \<open>Services where everything succeeds.\<close>

definition demo_runtime :: "unit runtime_services" where
  "demo_runtime c w = (case c of
       Call_detectJava o1 \<Rightarrow> ((Value (JObj [(''ok'', JBool True), (''java'', JObj [(''path'', JStr ''java.exe'')])]), []), w)
     | Call_createManager p o1 \<Rightarrow> ((Value (JStr ''manager''), []), w)
     | Call_status m \<Rightarrow> ((Value (JObj [(''state'', JStr ''running''), (''hasProcess'', JBool True)]), []), w)
     | _ \<Rightarrow> ((Value (JObj [(''ok'', JBool True), (''state'', JStr ''starting'')]), []), w))"

definition demo_runtime_config :: bridge_config where
  "demo_runtime_config = \<lparr>rc_lifecycleOptions = JObj [], rc_javaOptions = JObj [], rc_fabricOptions = JObj [],
     rc_materializeOptions = JObj []\<rparr>"


section \<open>What the bridge lets through\<close>

text \<open>
  The manager of the first open keeps its plan: a Java that is detected later is put into the plan
  of the bridge, and the server is still started by the manager made with the first one.
\<close>

lemma first_manager_kept:
  assumes "prepared_start options m0 cs" and "\<not> nullish m0"
  shows "\<not> (\<exists>(x, a) \<in> set cs. case x of Call_createManager p lo \<Rightarrow> True | _ \<Rightarrow> False)"
  using assms
  by (auto simp: prepared_start_def fabric_calls_def start_calls_def split: if_splits bridge_call.splits dest!: only_statusD)

text \<open>The reason of a failure is shown as it came, whatever it holds; the message is redacted.\<close>

lemma failure_reason_shown:
  "jget (jget (bridge_dto state summary (JObj [(''reason'', JStr secret)]) p m es d) ''failure'') ''reason'' = JStr secret"
  by (simp add: bridge_dto_def sanitizeFailure_def)

end
