(* ===== verification/Files.thy ===== *)
theory Files
  imports LocalServer Effects
begin

text \<open>
  What \<open>node:path\<close> and \<open>node:fs/promises\<close> give the desktop: the platform's paths and its file
  system with state \<open>'f\<close> are parameters. \<open>dk_calls\<close> is a record of the changing calls, each with the
  file system it met; it is no variable of the program. Nothing else changes the file system while a
  function runs.
\<close>

section \<open>The platform\<close>

record platform_paths = platform +
  pt_dirname :: "string \<Rightarrow> string"
  pt_join :: "string \<Rightarrow> string \<Rightarrow> string"
  pt_relative :: "string \<Rightarrow> string \<Rightarrow> string"

text \<open>
  Whether a path can be accessed; whether the entry itself is a link (\<open>None\<close>: there is none); the path
  without links; whether the entry is a file, and its size; contents; the entries of a folder with whether they are files. The changing calls
  throw where they give \<open>None\<close>. Contents are bytes; a text is written with its encoding.
\<close>

text \<open>What a failing call tells: whether the entry does not exist, and a message.\<close>

type_synonym file_error = "bool \<times> string"

record 'f files_api =
  fa_access :: "string \<Rightarrow> 'f \<Rightarrow> bool"
  fa_link :: "string \<Rightarrow> 'f \<Rightarrow> bool option"
  fa_realpath :: "string \<Rightarrow> 'f \<Rightarrow> string option"
  fa_stat :: "string \<Rightarrow> 'f \<Rightarrow> file_error + bool \<times> int"
  fa_readFile :: "string \<Rightarrow> 'f \<Rightarrow> file_error + string"
  fa_readdir :: "string \<Rightarrow> 'f \<Rightarrow> (string \<times> bool) list option"
  fa_mkdir :: "string \<Rightarrow> 'f \<Rightarrow> 'f option"
  fa_writeText :: "string \<Rightarrow> string \<Rightarrow> 'f \<Rightarrow> 'f option"
  fa_writeBytes :: "string \<Rightarrow> string \<Rightarrow> 'f \<Rightarrow> 'f option"
  fa_copyFile :: "string \<Rightarrow> string \<Rightarrow> 'f \<Rightarrow> 'f option"
  fa_rename :: "string \<Rightarrow> string \<Rightarrow> 'f \<Rightarrow> 'f option"
  fa_rm :: "string \<Rightarrow> 'f \<Rightarrow> 'f option"

section \<open>Paths inside the application's folder\<close>

definition path_escapes :: "platform_paths \<Rightarrow> string \<Rightarrow> bool" where
  "path_escapes pp relation \<longleftrightarrow> js_startsWith relation ''..'' \<or> pf_absolute pp relation"

definition isSubPath :: "platform_paths \<Rightarrow> string \<Rightarrow> string \<Rightarrow> bool" where
  "isSubPath pp appRoot path \<longleftrightarrow> (let relation = pt_relative pp appRoot path in relation = [] \<or> \<not> path_escapes pp relation)"

definition native_of :: "platform_paths \<Rightarrow> jsval \<Rightarrow> string" where
  "native_of pp path = pf_native pp (js_string path)"

text \<open>
  The closest existing ancestor. Every step to the parent but one shortens the path (the parent of a
  bare name is a point), so two more steps than the path has characters reach the end.
\<close>

fun nearest_existing :: "nat \<Rightarrow> platform_paths \<Rightarrow> (string \<Rightarrow> bool) \<Rightarrow> string \<Rightarrow> string" where
  "nearest_existing 0 pp there path = path"
| "nearest_existing (Suc n) pp there path =
     (if path = [] \<or> path = pt_dirname pp path then path
      else if there path then path
      else nearest_existing n pp there (pt_dirname pp path))"

definition nearestExistingPath :: "platform_paths \<Rightarrow> (string \<Rightarrow> bool) \<Rightarrow> string \<Rightarrow> string" where
  "nearestExistingPath pp there path = nearest_existing (length path + 2) pp there path"

text \<open>\<open>relation.split(/[\\/]+/).filter(Boolean)\<close>\<close>

definition slash_char :: "char \<Rightarrow> bool" where
  "slash_char x \<longleftrightarrow> x = CHR ''/'' \<or> x = CHR 0x5C"

fun path_words :: "string \<Rightarrow> string list" where
  "path_words [] = [[]]"
| "path_words (x # xs) = (if slash_char x then [] # path_words xs else
     (case path_words xs of [] \<Rightarrow> [[x]] | w # ws \<Rightarrow> (x # w) # ws))"

definition path_segments :: "string \<Rightarrow> string list" where
  "path_segments relation = filter (\<lambda>w. w \<noteq> []) (path_words relation)"

fun symlink_segment :: "platform_paths \<Rightarrow> (string \<Rightarrow> bool option) \<Rightarrow> string \<Rightarrow> string list \<Rightarrow> string option" where
  "symlink_segment pp link current [] = None"
| "symlink_segment pp link current (w # ws) =
     (let next = pt_join pp current w in if link next = Some True then Some next else symlink_segment pp link next ws)"

definition findExistingSymlinkSegment :: "platform_paths \<Rightarrow> (string \<Rightarrow> bool option) \<Rightarrow> string \<Rightarrow> string \<Rightarrow> string option" where
  "findExistingSymlinkSegment pp link rootPath targetPath =
     symlink_segment pp link rootPath (path_segments (pt_relative pp rootPath targetPath))"

section \<open>Computations on the file system\<close>

datatype files_call =
    Fs_mkdir string
  | Fs_writeText string string
  | Fs_writeBytes string string
  | Fs_copy string string
  | Fs_rename string string
  | Fs_remove string

record 'f disk =
  dk_files :: 'f
  dk_calls :: "(files_call \<times> 'f) list"

primrec files_apply :: "'f files_api \<Rightarrow> files_call \<Rightarrow> 'f \<Rightarrow> 'f option" where
  "files_apply fa (Fs_mkdir p) f = fa_mkdir fa p f"
| "files_apply fa (Fs_writeText p t) f = fa_writeText fa p t f"
| "files_apply fa (Fs_writeBytes p b) f = fa_writeBytes fa p b f"
| "files_apply fa (Fs_copy p q) f = fa_copyFile fa p q f"
| "files_apply fa (Fs_rename p q) f = fa_rename fa p q f"
| "files_apply fa (Fs_remove p) f = fa_rm fa p f"

text \<open>A computation that may return a failure \<open>'e\<close> early, or throw.\<close>

type_synonym ('f, 'e, 'a) files_eff = "('f disk, 'e + 'a) eff"

definition mat_return :: "'a \<Rightarrow> ('f, 'e, 'a) files_eff" where
  "mat_return a = eff_return (Inr a)"

definition mat_fail :: "'e \<Rightarrow> ('f, 'e, 'a) files_eff" where
  "mat_fail failure = eff_return (Inl failure)"

definition mat_bind :: "('f, 'e, 'a) files_eff \<Rightarrow> ('a \<Rightarrow> ('f, 'e, 'b) files_eff) \<Rightarrow> ('f, 'e, 'b) files_eff" where
  "mat_bind m k = eff_bind m (\<lambda>r. case r of Inl failure \<Rightarrow> mat_fail failure | Inr a \<Rightarrow> k a)"

definition mat_look :: "('f \<Rightarrow> 'a) \<Rightarrow> ('f, 'e, 'a) files_eff" where
  "mat_look g = eff_get (\<lambda>d. Inr (g (dk_files d)))"

definition mat_call :: "'f files_api \<Rightarrow> files_call \<Rightarrow> ('f, 'e, unit) files_eff" where
  "mat_call fa c = (\<lambda>d. let d1 = d\<lparr>dk_calls := dk_calls d @ [(c, dk_files d)]\<rparr> in
     case files_apply fa c (dk_files d) of
       None \<Rightarrow> (Inl type_error, d1)
     | Some f \<Rightarrow> (Inr (Inr ()), d1\<lparr>dk_files := f\<rparr>))"

fun mat_each :: "('a \<Rightarrow> 's \<Rightarrow> ('f, 'e, 's) files_eff) \<Rightarrow> 'a list \<Rightarrow> 's \<Rightarrow> ('f, 'e, 's) files_eff" where
  "mat_each body [] s = mat_return s"
| "mat_each body (x # xs) s = mat_bind (body x s) (mat_each body xs)"

section \<open>Computations whose calls are all good\<close>

definition calls_good :: "(files_call \<Rightarrow> 'f \<Rightarrow> bool) \<Rightarrow> 'f disk \<Rightarrow> bool" where
  "calls_good ok d \<longleftrightarrow> (\<forall>(c, f) \<in> set (dk_calls d). ok c f)"

text \<open>Started in a file system as \<open>P\<close> says, a result leaves it as \<open>Q\<close> says, and every call is good.\<close>

definition good :: "(files_call \<Rightarrow> 'f \<Rightarrow> bool) \<Rightarrow> ('f \<Rightarrow> bool) \<Rightarrow> ('f, 'e, 'a) files_eff \<Rightarrow> ('a \<Rightarrow> 'f \<Rightarrow> bool) \<Rightarrow> bool" where
  "good ok P m Q \<longleftrightarrow> ens (\<lambda>d. calls_good ok d \<and> P (dk_files d)) m
     (\<lambda>r d. calls_good ok d \<and> (\<forall>a. r = Inr a \<longrightarrow> Q a (dk_files d))) (\<lambda>_. calls_good ok)"

lemma goodD: "good ok P m Q \<Longrightarrow> calls_good ok d \<Longrightarrow> P (dk_files d) \<Longrightarrow> calls_good ok (snd (m d))"
  by (cases "m d"; cases "fst (m d)") (auto simp: good_def dest: ensD)

lemma good_return: "(\<And>f. P f \<Longrightarrow> Q a f) \<Longrightarrow> good ok P (mat_return a) Q"
  and good_fail: "good ok P (mat_fail x) Q"
  and good_throw: "good ok P (eff_throw e) Q"
  by (simp_all add: good_def ens_def mat_return_def mat_fail_def)

lemma good_bind:
  assumes "good ok P m R" and "\<And>a. good ok (R a) (k a) Q"
  shows "good ok P (mat_bind m k) Q"
  unfolding good_def mat_bind_def
proof (rule ens_bind)
  show "ens (\<lambda>d. calls_good ok d \<and> P (dk_files d)) m
      (\<lambda>r d. calls_good ok d \<and> (\<forall>a. r = Inr a \<longrightarrow> R a (dk_files d))) (\<lambda>_. calls_good ok)"
    using assms(1) by (simp add: good_def)
  show "ens (\<lambda>d. calls_good ok d \<and> (\<forall>a. r = Inr a \<longrightarrow> R a (dk_files d))) (case r of Inl failure \<Rightarrow> mat_fail failure | Inr a \<Rightarrow> k a)
      (\<lambda>r d. calls_good ok d \<and> (\<forall>a. r = Inr a \<longrightarrow> Q a (dk_files d))) (\<lambda>_. calls_good ok)" for r
    using assms(2) by (cases r) (auto simp: good_def ens_def mat_fail_def)
qed

lemma good_look:
  "(\<And>a. good ok (\<lambda>f. P f \<and> g f = a) (k a) Q) \<Longrightarrow> good ok P (mat_bind (mat_look g) k) Q"
  by (rule good_bind [where R = "\<lambda>a f. P f \<and> g f = a"]) (auto simp: good_def ens_def mat_look_def)

lemma good_call:
  assumes "\<And>f. P f \<Longrightarrow> ok c f"
  shows "good ok P (mat_call fa c) (\<lambda>_ f'. \<exists>f. P f \<and> files_apply fa c f = Some f')"
  using assms by (auto simp: good_def ens_def mat_call_def calls_good_def Let_def split: option.splits)

lemma good_pre: "good ok P m Q \<Longrightarrow> (\<And>f. P' f \<Longrightarrow> P f) \<Longrightarrow> good ok P' m Q"
  by (auto simp: good_def ens_def)

lemma good_post: "good ok P m Q \<Longrightarrow> (\<And>a f. Q a f \<Longrightarrow> Q' a f) \<Longrightarrow> good ok P m Q'"
  by (fastforce simp: good_def ens_def split: sum.splits prod.splits)

lemma good_if: "(b \<Longrightarrow> good ok P m Q) \<Longrightarrow> (\<not> b \<Longrightarrow> good ok P n Q) \<Longrightarrow> good ok P (if b then m else n) Q"
  by simp

abbreviation any :: "'f \<Rightarrow> bool" where "any \<equiv> \<lambda>_. True"

abbreviation any_result :: "'a \<Rightarrow> 'f \<Rightarrow> bool" where "any_result \<equiv> \<lambda>_ _. True"

lemma good_each:
  "(\<And>x s. x \<in> set xs \<Longrightarrow> good ok any (body x s) any_result) \<Longrightarrow> good ok any (mat_each body xs s) any_result"
proof (induction xs arbitrary: s)
  case Nil
  then show ?case by (simp add: good_return)
next
  case (Cons x xs)
  then show ?case by (auto intro!: good_bind [where R = any_result])
qed

lemma good_text:
  "(\<And>t. v = JStr t \<Longrightarrow> good ok P (k t) Q) \<Longrightarrow> ((\<And>t. v \<noteq> JStr t) \<Longrightarrow> good ok P n Q) \<Longrightarrow>
   good ok P (case v of JStr t \<Rightarrow> k t | _ \<Rightarrow> n) Q"
  by (cases v) simp_all

lemma good_option:
  "(x = None \<Longrightarrow> good ok P n Q) \<Longrightarrow> (\<And>a. x = Some a \<Longrightarrow> good ok P (k a) Q) \<Longrightarrow>
   good ok P (case x of None \<Rightarrow> n | Some a \<Rightarrow> k a) Q"
  by (cases x) simp_all

lemma good_sum:
  "(\<And>e. x = Inl e \<Longrightarrow> good ok P (n e) Q) \<Longrightarrow> (\<And>a. x = Inr a \<Longrightarrow> good ok P (k a) Q) \<Longrightarrow>
   good ok P (case x of Inl e \<Rightarrow> n e | Inr a \<Rightarrow> k a) Q"
  by (cases x) simp_all

end
