(* ===== verification/Materialize.thy ===== *)
theory Materialize
  imports Files
begin

text \<open>
  \<open>apps/desktop/src/runtime/node-local-runtime.mjs\<close>: making a room's files (\<open>materializeRoom\<close>), with
  the downloads of mods and the check that a path stays inside the application's folder. The digest,
  the answers of the network and the parts of a URL are parameters.
\<close>

section \<open>The network\<close>

datatype fetched = Fetch_fails string | Fetch_answer bool jsval "string + string"

record url_parts =
  up_protocol :: string
  up_hostname :: string
  up_username :: string
  up_password :: string

record network =
  nw_fetch :: "jsval \<Rightarrow> fetched"
  nw_url :: "jsval \<Rightarrow> url_parts option"
  nw_sha256 :: "string \<Rightarrow> string"

section \<open>Paths inside the application's folder\<close>

definition boundary_detail :: "string \<Rightarrow> jsval \<Rightarrow> jsval" where
  "boundary_detail reason path = JObj [(''reason'', JStr reason), (''path'', JStr (redactHostLogLine path))]"

text \<open>\<open>None\<close>: the path is inside; otherwise the detail of the failure.\<close>

definition verifyManagedPath :: "platform_paths \<Rightarrow> 'f files_api \<Rightarrow> jsval \<Rightarrow> jsval \<Rightarrow> bool \<Rightarrow> 'f \<Rightarrow> jsval option" where
  "verifyManagedPath pp fa appRoot path allowMissingTarget f =
    (if \<not> truthy appRoot then None
     else
       let rootPath = native_of pp appRoot; targetPath = native_of pp path in
       if path_escapes pp (pt_relative pp rootPath targetPath) then Some (boundary_detail ''path_outside_app_data_root'' path)
       else if fa_link fa rootPath f \<noteq> Some False then Some (boundary_detail ''unsafe_app_data_root'' appRoot)
       else case findExistingSymlinkSegment pp (\<lambda>p. fa_link fa p f) rootPath targetPath of
           Some symlink \<Rightarrow> Some (boundary_detail ''managed_path_reparse_point'' (JStr symlink))
         | None \<Rightarrow>
             let existingPath = (if allowMissingTarget then nearestExistingPath pp (\<lambda>p. fa_access fa p f) targetPath else targetPath)
             in case (fa_realpath fa existingPath f, fa_realpath fa rootPath f) of
                 (Some existingReal, Some rootReal) \<Rightarrow>
                   if existingReal = [] \<or> rootReal = [] \<or> \<not> isSubPath pp rootReal existingReal
                   then Some (boundary_detail ''managed_path_escape'' path) else None
               | _ \<Rightarrow> Some (boundary_detail ''managed_path_escape'' path))"

text \<open>A computation that may return a failure early, or throw.\<close>

type_synonym ('f, 'a) mat = "('f, local_fail, 'a) files_eff"

definition mat_guard :: "platform_paths \<Rightarrow> 'f files_api \<Rightarrow> jsval \<Rightarrow> jsval \<Rightarrow> bool \<Rightarrow> ('f, 'a) mat \<Rightarrow> ('f, 'a) mat" where
  "mat_guard pp fa appRoot path allowMissing rest =
    mat_bind (mat_look (verifyManagedPath pp fa appRoot path allowMissing)) (\<lambda>r. case r of
      Some detail \<Rightarrow> mat_fail (LF_INVALID_RUNTIME_PLAN, detail) | None \<Rightarrow> rest)"

section \<open>Downloads\<close>

definition sha_digit :: "char \<Rightarrow> bool" where
  "sha_digit x \<longleftrightarrow> is_digit x \<or> between (CHR ''a'') (CHR ''f'') x \<or> between (CHR ''A'') (CHR ''F'') x"

definition isSha256 :: "jsval \<Rightarrow> bool" where
  "isSha256 v = (case v of JStr s \<Rightarrow> length s = 64 \<and> list_all sha_digit s | _ \<Rightarrow> False)"

datatype url_readiness = Url_ok | Url_untrusted | Url_invalid

primrec url_reason :: "url_readiness \<Rightarrow> string" where
  "url_reason Url_ok = []"
| "url_reason Url_untrusted = ''untrusted_url''"
| "url_reason Url_invalid = ''invalid_url''"

definition validateModDownloadUrl :: "network \<Rightarrow> jsval \<Rightarrow> url_readiness" where
  "validateModDownloadUrl nw v =
    (case nw_url nw v of
       None \<Rightarrow> Url_invalid
     | Some parsed \<Rightarrow>
         if up_protocol parsed \<noteq> ''https:'' \<or> up_hostname parsed \<noteq> ''cdn.modrinth.com'' \<or>
            up_username parsed \<noteq> [] \<or> up_password parsed \<noteq> []
         then Url_untrusted else Url_ok)"

definition mod_failure :: "local_failure \<Rightarrow> mod_operation \<Rightarrow> (string \<times> jsval) list \<Rightarrow> local_fail" where
  "mod_failure reason oper detail = (reason, JObj ((''modId'', mo_modId oper) # detail))"

definition because :: "string \<Rightarrow> (string \<times> jsval) list" where
  "because reason = [(''reason'', JStr reason)]"

definition wrong_size :: "jsval \<Rightarrow> string \<Rightarrow> bool" where
  "wrong_size expected bytes = (case expected of JNum n \<Rightarrow> n > 0 \<and> int (length bytes) \<noteq> n | _ \<Rightarrow> False)"

definition checksum_failure :: "mod_operation \<Rightarrow> string \<Rightarrow> local_fail" where
  "checksum_failure oper actualSha256 = mod_failure LF_MOD_CHECKSUM_MISMATCH oper
     [(''expectedSha256'', mo_expectedSha256 oper), (''actualSha256'', JStr actualSha256)]"

definition has_digest :: "network \<Rightarrow> mod_operation \<Rightarrow> string \<Rightarrow> bool" where
  "has_digest nw oper bytes \<longleftrightarrow> isSha256 (mo_expectedSha256 oper) \<and> JStr (nw_sha256 nw bytes) = mo_expectedSha256 oper"

definition downloadVerifiedModSource :: "platform_paths \<Rightarrow> 'f files_api \<Rightarrow> network \<Rightarrow> mod_operation \<Rightarrow> string \<Rightarrow> ('f, unit) mat" where
  "downloadVerifiedModSource pp fa nw oper source =
    (let url = mo_downloadUrl oper; readiness = validateModDownloadUrl nw url in
     if readiness \<noteq> Url_ok then mat_fail (mod_failure LF_MOD_DOWNLOAD_UNTRUSTED oper (because (url_reason readiness)))
     else case nw_fetch nw url of
         Fetch_fails message \<Rightarrow> mat_fail (mod_failure LF_MOD_DOWNLOAD_FAILED oper (because message))
       | Fetch_answer ok from_url body \<Rightarrow>
           if \<not> ok \<or> validateModDownloadUrl nw (js_or from_url url) \<noteq> Url_ok
           then mat_fail (mod_failure LF_MOD_DOWNLOAD_UNTRUSTED oper (because ''response_not_ok_or_redirected''))
           else (case body of
               Inl message \<Rightarrow> mat_fail (mod_failure LF_MOD_DOWNLOAD_FAILED oper (because message))
             | Inr bytes \<Rightarrow>
                 if wrong_size (mo_expectedFileSize oper) bytes
                 then mat_fail (mod_failure LF_MOD_DOWNLOAD_FAILED oper (because ''file_size_mismatch''))
                 else if \<not> has_digest nw oper bytes then mat_fail (checksum_failure oper (nw_sha256 nw bytes))
                 else
                   mat_bind (mat_call fa (Fs_mkdir (pt_dirname pp source))) (\<lambda>_.
                   mat_call fa (Fs_writeBytes source bytes))))"

section \<open>Making a room\<close>

record made_room =
  md_writtenFiles :: "jsval list"
  md_preservedFiles :: "jsval list"
  md_copiedMods :: "mod_operation list"
  md_pendingMods :: "mod_operation list"
  md_removedMods :: "string list"

definition nothing_made :: made_room where
  "nothing_made = \<lparr>md_writtenFiles = [], md_preservedFiles = [], md_copiedMods = [], md_pendingMods = [], md_removedMods = []\<rparr>"

definition make_directory :: "platform_paths \<Rightarrow> 'f files_api \<Rightarrow> jsval \<Rightarrow> jsval \<Rightarrow> made_room \<Rightarrow> ('f, made_room) mat" where
  "make_directory pp fa appRoot directory made =
    mat_guard pp fa appRoot (JStr (pt_dirname pp (native_of pp directory))) True
      (mat_bind (mat_call fa (Fs_mkdir (native_of pp directory))) (\<lambda>_.
       mat_guard pp fa appRoot directory False (mat_return made)))"

definition make_file :: "platform_paths \<Rightarrow> 'f files_api \<Rightarrow> jsval \<Rightarrow> planned_file \<Rightarrow> made_room \<Rightarrow> ('f, made_room) mat" where
  "make_file pp fa appRoot file made =
    (let target = native_of pp (pf_path file); folder = pt_dirname pp target in
     mat_guard pp fa appRoot (JStr folder) True
      (mat_bind (mat_call fa (Fs_mkdir folder)) (\<lambda>_.
       mat_bind (mat_look (fa_access fa target)) (\<lambda>there.
       if \<not> pf_overwrite file \<and> there then
         mat_guard pp fa appRoot (JStr target) False
           (mat_return (made\<lparr>md_preservedFiles := md_preservedFiles made @ [pf_path file]\<rparr>))
       else case pf_contents file of
           JStr contents \<Rightarrow>
             mat_guard pp fa appRoot (JStr folder) False
               (mat_bind (mat_call fa (Fs_writeText target contents)) (\<lambda>_.
                mat_return (made\<lparr>md_writtenFiles := md_writtenFiles made @ [pf_path file]\<rparr>)))
         | _ \<Rightarrow> mat_return made))))"

definition expected_mod_files :: "platform_paths \<Rightarrow> mod_operation list \<Rightarrow> string list" where
  "expected_mod_files pp opers = js_set (map (\<lambda>oper. pf_basename pp (native_of pp (mo_target oper))) opers)"

definition remove_mod :: "platform_paths \<Rightarrow> 'f files_api \<Rightarrow> jsval \<Rightarrow> string \<Rightarrow> string list \<Rightarrow> string \<times> bool \<Rightarrow> made_room \<Rightarrow> ('f, made_room) mat" where
  "remove_mod pp fa appRoot modsDirectory expected entry made =
    (case entry of (name, isFile) \<Rightarrow>
       if \<not> isFile \<or> name \<in> set expected then mat_return made
       else
         let stalePath = pt_join pp modsDirectory name in
         mat_guard pp fa appRoot (JStr stalePath) False
           (mat_bind (mat_call fa (Fs_remove stalePath)) (\<lambda>_.
            mat_return (made\<lparr>md_removedMods := md_removedMods made @ [name]\<rparr>))))"

definition remove_unknown_mods :: "platform_paths \<Rightarrow> 'f files_api \<Rightarrow> jsval \<Rightarrow> string \<Rightarrow> mod_operation list \<Rightarrow> made_room \<Rightarrow> ('f, made_room) mat" where
  "remove_unknown_mods pp fa appRoot modsDirectory opers made =
    mat_guard pp fa appRoot (JStr modsDirectory) False
      (mat_bind (mat_look (\<lambda>f. case fa_readdir fa modsDirectory f of None \<Rightarrow> [] | Some es \<Rightarrow> es)) (\<lambda>entries.
       mat_each (remove_mod pp fa appRoot modsDirectory (expected_mod_files pp opers)) entries made))"

definition path_like_value :: "jsval \<Rightarrow> bool" where
  "path_like_value v = (case v of JStr s \<Rightarrow> isPathLike s | _ \<Rightarrow> False)"

text \<open>The source is there, and its digest is the expected one: it is copied.\<close>

definition copy_mod :: "platform_paths \<Rightarrow> 'f files_api \<Rightarrow> network \<Rightarrow> jsval \<Rightarrow> mod_operation \<Rightarrow> string \<Rightarrow> made_room \<Rightarrow> ('f, made_room) mat" where
  "copy_mod pp fa nw appRoot oper source made =
    mat_bind (mat_look (fa_readFile fa source)) (\<lambda>contents. case contents of
       Inl failure \<Rightarrow> eff_throw type_error
     | Inr bytes \<Rightarrow>
         if \<not> has_digest nw oper bytes then mat_fail (checksum_failure oper (nw_sha256 nw bytes))
         else
           let target = native_of pp (mo_target oper); folder = pt_dirname pp target in
           mat_guard pp fa appRoot (JStr folder) True
             (mat_bind (mat_call fa (Fs_mkdir folder)) (\<lambda>_.
              mat_guard pp fa appRoot (JStr folder) False
                (mat_bind (mat_call fa (Fs_copy source target)) (\<lambda>_.
                 mat_return (made\<lparr>md_copiedMods := md_copiedMods made @ [oper]\<rparr>))))))"

definition install_mod :: "platform_paths \<Rightarrow> 'f files_api \<Rightarrow> network \<Rightarrow> jsval \<Rightarrow> jsval \<Rightarrow> mod_operation \<Rightarrow> made_room \<Rightarrow> ('f, made_room) mat" where
  "install_mod pp fa nw allowMissingModSources appRoot oper made =
    (let pending = mat_return (made\<lparr>md_pendingMods := md_pendingMods made @ [oper]\<rparr>) in
     if mo_verified oper \<noteq> JBool True
     then mat_fail (mod_failure LF_INVALID_RUNTIME_PLAN oper (because ''unverified_mod''))
     else if \<not> path_like_value (mo_source oper) then pending
     else
       let source = native_of pp (mo_source oper) in
       mat_guard pp fa appRoot (JStr source) True
         (mat_bind (mat_look (fa_access fa source)) (\<lambda>there.
          mat_bind (if \<not> there \<and> truthy (mo_downloadUrl oper) then downloadVerifiedModSource pp fa nw oper source
            else mat_return ()) (\<lambda>_.
          mat_bind (mat_look (fa_access fa source)) (\<lambda>there.
          if there then copy_mod pp fa nw appRoot oper source made
          else if allowMissingModSources = JBool True then pending
          else mat_fail (mod_failure LF_MOD_SOURCE_MISSING oper [(''source'', mo_source oper)]))))))"

definition make_root :: "platform_paths \<Rightarrow> 'f files_api \<Rightarrow> jsval \<Rightarrow> ('f, made_room) mat" where
  "make_root pp fa appRoot =
    (if truthy appRoot then mat_bind (mat_call fa (Fs_mkdir (native_of pp appRoot))) (\<lambda>_.
       mat_guard pp fa appRoot appRoot False (mat_return nothing_made))
     else mat_return nothing_made)"

definition materializeRoom :: "platform_paths \<Rightarrow> 'f files_api \<Rightarrow> network \<Rightarrow> jsval \<Rightarrow> jsval \<Rightarrow> ('f, made_room) mat" where
  "materializeRoom pp fa nw allowMissingModSources runtimePlan =
    (case createRoomMaterializationPlan runtimePlan of
       None \<Rightarrow> eff_throw type_error
     | Some (Inl reason) \<Rightarrow> mat_fail (LF_INVALID_RUNTIME_PLAN, JStr (adapter_failure_str reason))
     | Some (Inr m) \<Rightarrow>
         let appRoot = mt_appDataRoot m in
         mat_bind (make_root pp fa appRoot) (\<lambda>made.
         mat_bind (mat_each (make_directory pp fa appRoot) (mt_directories m) made) (\<lambda>made.
         mat_bind (mat_each (make_file pp fa appRoot) (mt_files m) made) (\<lambda>made.
         mat_bind (if mt_removeUnknownMods m then remove_unknown_mods pp fa appRoot
             (native_of pp (jget (jget runtimePlan ''files'') ''mods'')) (mt_modOperations m) made
           else mat_return made) (\<lambda>made.
         mat_each (install_mod pp fa nw allowMissingModSources appRoot) (mt_modOperations m) made)))))"

end
