(* ===== verification/Materialize_Props.thy ===== *)
theory Materialize_Props
  imports Materialize RuntimeAdapter_Props "HOL-Library.Multiset"
begin

text \<open>
  Every call that changes the file system while a room is made is checked: it belongs to the plan,
  and the check of its path, and of the digest of what is installed, held in the file system it met.
\<close>

section \<open>What a call has to satisfy\<close>

text \<open>For the plan \<open>m\<close> and the folder of the room's mods.\<close>

primrec effect_ok :: "platform_paths \<Rightarrow> 'f files_api \<Rightarrow> network \<Rightarrow> materialization \<Rightarrow> string \<Rightarrow> files_call \<Rightarrow> 'f \<Rightarrow> bool" where
  "effect_ok pp fa nw m mods (Fs_mkdir p) f \<longleftrightarrow>
     p = native_of pp (mt_appDataRoot m) \<or>
     (\<exists>d \<in> set (mt_directories m). p = native_of pp d \<and>
        verifyManagedPath pp fa (mt_appDataRoot m) (JStr (pt_dirname pp p)) True f = None) \<or>
     (\<exists>file \<in> set (mt_files m). p = pt_dirname pp (native_of pp (pf_path file)) \<and>
        verifyManagedPath pp fa (mt_appDataRoot m) (JStr p) True f = None) \<or>
     (\<exists>oper \<in> set (mt_modOperations m). p = pt_dirname pp (native_of pp (mo_source oper)) \<and>
        verifyManagedPath pp fa (mt_appDataRoot m) (JStr (native_of pp (mo_source oper))) True f = None) \<or>
     (\<exists>oper \<in> set (mt_modOperations m). p = pt_dirname pp (native_of pp (mo_target oper)) \<and>
        verifyManagedPath pp fa (mt_appDataRoot m) (JStr p) True f = None)"
| "effect_ok pp fa nw m mods (Fs_writeText p t) f \<longleftrightarrow>
     (\<exists>file \<in> set (mt_files m). p = native_of pp (pf_path file) \<and> pf_contents file = JStr t \<and>
        verifyManagedPath pp fa (mt_appDataRoot m) (JStr (pt_dirname pp p)) False f = None \<and>
        (pf_overwrite file \<or> \<not> fa_access fa p f))"
| "effect_ok pp fa nw m mods (Fs_writeBytes p b) f \<longleftrightarrow>
     (\<exists>oper \<in> set (mt_modOperations m). p = native_of pp (mo_source oper) \<and> has_digest nw oper b \<and>
        \<not> wrong_size (mo_expectedFileSize oper) b \<and> validateModDownloadUrl nw (mo_downloadUrl oper) = Url_ok)"
| "effect_ok pp fa nw m mods (Fs_copy p q) f \<longleftrightarrow>
     (\<exists>oper \<in> set (mt_modOperations m). p = native_of pp (mo_source oper) \<and> q = native_of pp (mo_target oper) \<and>
        mo_verified oper = JBool True \<and>
        (\<exists>bytes. fa_readFile fa p f = Inr bytes \<and> has_digest nw oper bytes) \<and>
        verifyManagedPath pp fa (mt_appDataRoot m) (JStr (pt_dirname pp q)) False f = None)"
| "effect_ok pp fa nw m mods (Fs_rename p q) f \<longleftrightarrow> False"
| "effect_ok pp fa nw m mods (Fs_remove p) f \<longleftrightarrow> mt_removeUnknownMods m \<and>
     (\<exists>name. p = pt_join pp mods name \<and> name \<notin> set (expected_mod_files pp (mt_modOperations m)) \<and>
        verifyManagedPath pp fa (mt_appDataRoot m) (JStr p) False f = None)"

text \<open>What the platform documents: making a folder changes no file.\<close>

definition mkdir_keeps_files :: "'f files_api \<Rightarrow> bool" where
  "mkdir_keeps_files fa \<longleftrightarrow>
     (\<forall>p q f f'. fa_mkdir fa p f = Some f' \<longrightarrow> fa_readFile fa q f' = fa_readFile fa q f)"

lemma good_guard:
  "good ok (\<lambda>f. P f \<and> verifyManagedPath pp fa r path b f = None) rest Q \<Longrightarrow> good ok P (mat_guard pp fa r path b rest) Q"
  unfolding mat_guard_def
  by (rule good_look) (auto split: option.split intro: good_fail)

section \<open>The stages\<close>

lemmas good_steps = good_guard good_bind [OF good_call] good_look good_if good_return good_fail good_throw

lemma good_root: "good (effect_ok pp fa nw m mods) any (make_root pp fa (mt_appDataRoot m)) any_result"
  unfolding make_root_def by (intro good_steps) auto

lemma good_directory:
  "d \<in> set (mt_directories m) \<Longrightarrow>
   good (effect_ok pp fa nw m mods) any (make_directory pp fa (mt_appDataRoot m) d made) any_result"
  unfolding make_directory_def by (intro good_steps) auto

lemma good_file:
  "file \<in> set (mt_files m) \<Longrightarrow>
   good (effect_ok pp fa nw m mods) any (make_file pp fa (mt_appDataRoot m) file made) any_result"
  unfolding make_file_def Let_def by (intro good_steps good_text) auto

lemma good_remove:
  assumes "mt_removeUnknownMods m"
  shows "good (effect_ok pp fa nw m mods) any
    (remove_unknown_mods pp fa (mt_appDataRoot m) mods (mt_modOperations m) made) any_result"
proof -
  have "good (effect_ok pp fa nw m mods) any (remove_mod pp fa (mt_appDataRoot m) mods
      (expected_mod_files pp (mt_modOperations m)) entry s) any_result" for entry s
    unfolding remove_mod_def Let_def case_prod_beta by (intro good_steps) (use assms in auto)
  then show ?thesis
    unfolding remove_unknown_mods_def by (intro good_steps good_pre [OF good_each]) auto
qed

lemma good_download:
  assumes "oper \<in> set (mt_modOperations m)"
  shows "good (effect_ok pp fa nw m mods)
    (\<lambda>f. verifyManagedPath pp fa (mt_appDataRoot m) (JStr (native_of pp (mo_source oper))) True f = None)
    (downloadVerifiedModSource pp fa nw oper (native_of pp (mo_source oper))) any_result"
proof -
  have stored: "good (effect_ok pp fa nw m mods)
      (\<lambda>f. verifyManagedPath pp fa (mt_appDataRoot m) (JStr (native_of pp (mo_source oper))) True f = None)
      (mat_bind (mat_call fa (Fs_mkdir (pt_dirname pp (native_of pp (mo_source oper)))))
        (\<lambda>_. mat_call fa (Fs_writeBytes (native_of pp (mo_source oper)) bytes))) any_result"
    if "has_digest nw oper bytes" "\<not> wrong_size (mo_expectedFileSize oper) bytes"
      "validateModDownloadUrl nw (mo_downloadUrl oper) = Url_ok" for bytes
    by (intro good_bind [OF good_call] good_post [OF good_call]) (use assms that in auto)
  show ?thesis
    unfolding downloadVerifiedModSource_def Let_def
    by (auto intro!: good_if good_fail stored split: fetched.split sum.split)
qed

lemma good_copy:
  assumes "oper \<in> set (mt_modOperations m)" and "mo_verified oper = JBool True" and "mkdir_keeps_files fa"
  shows "good (effect_ok pp fa nw m mods) any
    (copy_mod pp fa nw (mt_appDataRoot m) oper (native_of pp (mo_source oper)) made) any_result"
  unfolding copy_mod_def Let_def
  by (intro good_steps good_sum) (use assms in \<open>auto simp: mkdir_keeps_files_def\<close>)

lemma good_install:
  assumes "oper \<in> set (mt_modOperations m)" and "mkdir_keeps_files fa"
  shows "good (effect_ok pp fa nw m mods) any (install_mod pp fa nw missing (mt_appDataRoot m) oper made) any_result"
proof -
  have download: "good (effect_ok pp fa nw m mods) P
      (if c then downloadVerifiedModSource pp fa nw oper (native_of pp (mo_source oper)) else mat_return ()) any_result"
    if "\<And>f. P f \<Longrightarrow> verifyManagedPath pp fa (mt_appDataRoot m) (JStr (native_of pp (mo_source oper))) True f = None" for P c
    using that by (intro good_if good_pre [OF good_download [OF assms(1)]] good_return) auto
  show ?thesis
    unfolding install_mod_def Let_def
    by (intro good_steps good_bind [OF download] good_pre [OF good_copy]) (use assms in auto)
qed

text \<open>The plan of a room, as the whole of its stages.\<close>

lemma good_room:
  assumes "createRoomMaterializationPlan plan = Some (Inr m)" and "mkdir_keeps_files fa"
  shows "good (effect_ok pp fa nw m (native_of pp (jget (jget plan ''files'') ''mods''))) any
    (materializeRoom pp fa nw missing plan) any_result"
  unfolding materializeRoom_def Let_def
  by (simp add: assms(1))
    (intro good_bind [OF good_root] good_bind [OF good_each [OF good_directory]] good_bind [OF good_each [OF good_file]]
      good_bind [OF good_if [OF good_remove good_return]] good_each good_install assms TrueI; assumption)

section \<open>What a success reports\<close>

definition gives :: "('f, 'a) mat \<Rightarrow> ('a \<Rightarrow> bool) \<Rightarrow> bool" where
  "gives m P \<longleftrightarrow> (\<forall>d a d'. m d = (Inr (Inr a), d') \<longrightarrow> P a)"

lemma gives_return: "P a \<Longrightarrow> gives (mat_return a) P"
  and gives_fail: "gives (mat_fail x) P"
  and gives_throw: "gives (eff_throw e) P"
  by (simp_all add: gives_def mat_return_def mat_fail_def)

lemma gives_bind_if:
  assumes "gives m R" and "\<And>a. R a \<Longrightarrow> gives (k a) P"
  shows "gives (mat_bind m k) P"
proof -
  have "P a" if run: "mat_bind m k d = (Inr (Inr a), d')" for d a d'
  proof -
    obtain r d1 where r: "m d = (r, d1)" by fastforce
    with run obtain b where b: "r = Inr (Inr b)" "k b d1 = (Inr (Inr a), d')"
      by (auto simp: mat_bind_def eff_bind_def mat_fail_def split: sum.splits)
    with assms(1) r have "R b" by (auto simp: gives_def)
    with assms(2) b(2) show ?thesis by (auto simp: gives_def)
  qed
  then show ?thesis by (auto simp: gives_def)
qed

lemma gives_any: "gives m (\<lambda>_. True)"
  by (simp add: gives_def)

lemmas gives_bind = gives_bind_if [OF gives_any]

lemma gives_guard: "gives rest P \<Longrightarrow> gives (mat_guard pp fa r path b rest) P"
  unfolding mat_guard_def by (rule gives_bind) (auto split: option.split intro: gives_fail)

lemma gives_if: "(b \<Longrightarrow> gives m P) \<Longrightarrow> (\<not> b \<Longrightarrow> gives n P) \<Longrightarrow> gives (if b then m else n) P"
  by simp

lemma gives_sum:
  "(\<And>e. x = Inl e \<Longrightarrow> gives (n e) P) \<Longrightarrow> (\<And>a. x = Inr a \<Longrightarrow> gives (k a) P) \<Longrightarrow>
   gives (case x of Inl e \<Rightarrow> n e | Inr a \<Rightarrow> k a) P"
  by (cases x) simp_all

lemma gives_option:
  "(x = None \<Longrightarrow> gives n P) \<Longrightarrow> (\<And>a. x = Some a \<Longrightarrow> gives (k a) P) \<Longrightarrow> gives (case x of None \<Rightarrow> n | Some a \<Rightarrow> k a) P"
  by (cases x) simp_all

lemma gives_text:
  "(\<And>t. gives (k t) P) \<Longrightarrow> gives n P \<Longrightarrow> gives (case v of JStr t \<Rightarrow> k t | _ \<Rightarrow> n) P"
  by (cases v) simp_all

lemma gives_each:
  assumes "\<And>x s. x \<in> set xs \<Longrightarrow> gives (body x s) (\<lambda>s'. V s' = V s + w x)"
  shows "gives (mat_each body xs s) (\<lambda>s'. V s' = V s + (\<Sum>x\<leftarrow>xs. w x))"
  using assms
proof (induction xs arbitrary: s)
  case Nil
  then show ?case by (simp add: gives_return)
next
  case (Cons x xs)
  have "gives (mat_each body xs a) (\<lambda>s'. V s' = V s + (\<Sum>x\<leftarrow>x # xs. w x))" if "V a = V s + w x" for a
    using Cons.IH [of a] Cons.prems that by (simp add: add.assoc)
  then show ?case by (auto intro!: gives_bind_if [where R = "\<lambda>s'. V s' = V s + w x"] Cons.prems)
qed

definition handled :: "made_room \<Rightarrow> mod_operation multiset" where
  "handled made = mset (md_copiedMods made) + mset (md_pendingMods made)"

lemma sum_singletons: "(\<Sum>x\<leftarrow>xs. {#x#}) = mset xs"
  by (induction xs) auto

lemma gives_install:
  "gives (install_mod pp fa nw missing r oper made) (\<lambda>made'. handled made' = handled made + {#oper#})"
  unfolding install_mod_def copy_mod_def Let_def
  by (intro gives_if gives_fail gives_return gives_guard gives_bind gives_sum gives_throw) (simp_all add: handled_def)

lemma gives_directory: "gives (make_directory pp fa r d made) (\<lambda>made'. handled made' = handled made + {#})"
  unfolding make_directory_def by (intro gives_guard gives_bind gives_return) simp

lemma gives_file: "gives (make_file pp fa r file made) (\<lambda>made'. handled made' = handled made + {#})"
  unfolding make_file_def Let_def
  by (intro gives_guard gives_bind gives_if gives_text gives_return) (simp_all add: handled_def)

lemma gives_remove: "gives (remove_mod pp fa r dir expected e made) (\<lambda>made'. handled made' = handled made + {#})"
  unfolding remove_mod_def Let_def case_prod_beta
  by (intro gives_guard gives_bind gives_if gives_return) (simp_all add: handled_def)

lemma gives_all_install:
  "gives (mat_each (install_mod pp fa nw missing r) opers s) (\<lambda>made. handled made = handled s + mset opers)"
  using gives_each [of opers "install_mod pp fa nw missing r" handled "\<lambda>x. {#x#}" s, OF gives_install]
  by (simp add: sum_singletons)

lemma sum_nothing: "(\<Sum>x\<leftarrow>xs. {#}) = {#}"
  by (induction xs) auto

lemma gives_room:
  assumes "createRoomMaterializationPlan plan = Some (Inr m)"
  shows "gives (materializeRoom pp fa nw missing plan) (\<lambda>made. handled made = mset (mt_modOperations m))"
proof -
  have none: "handled nothing_made = {#}" by (simp add: handled_def nothing_made_def)
  have rt: "gives (make_root pp fa r) (\<lambda>made. handled made = {#})" for r
    unfolding make_root_def by (intro gives_if gives_bind gives_guard gives_return) (simp_all add: none)
  have dirs: "gives (mat_each (make_directory pp fa r) ds s) (\<lambda>made. handled made = {#})" if "handled s = {#}" for r ds s
    using gives_each [of ds "make_directory pp fa r" handled "\<lambda>_. {#}" s, OF gives_directory] that by (simp add: sum_nothing)
  have files: "gives (mat_each (make_file pp fa r) fs s) (\<lambda>made. handled made = {#})" if "handled s = {#}" for r fs s
    using gives_each [of fs "make_file pp fa r" handled "\<lambda>_. {#}" s, OF gives_file] that by (simp add: sum_nothing)
  have rem: "gives (if c then remove_unknown_mods pp fa r dir opers s else mat_return s) (\<lambda>made. handled made = {#})"
    if "handled s = {#}" for c r dir opers s
    unfolding remove_unknown_mods_def
  proof (intro gives_if gives_guard gives_bind gives_return)
    show "gives (mat_each (remove_mod pp fa r dir (expected_mod_files pp opers)) es s) (\<lambda>made. handled made = {#})" for es
      using gives_each [of es "remove_mod pp fa r dir (expected_mod_files pp opers)" handled "\<lambda>_. {#}" s, OF gives_remove] that
      by (simp add: sum_nothing)
  qed (use that in simp)
  have inst: "gives (mat_each (install_mod pp fa nw missing r) (mt_modOperations m) s)
      (\<lambda>made. handled made = mset (mt_modOperations m))" if "handled s = {#}" for r s
    using gives_all_install [of pp fa nw missing r "mt_modOperations m" s] that by simp
  show ?thesis
    unfolding materializeRoom_def assms Let_def
    by (simp, intro gives_bind_if [OF rt] gives_bind_if [OF dirs] gives_bind_if [OF files] gives_bind_if [OF rem] inst)
qed

section \<open>Properties\<close>


text \<open>A platform where making a folder fails, and one with links, for examples.\<close>

definition demo_paths :: platform_paths where
  "demo_paths = \<lparr>pf_native = id, pf_absolute = \<lambda>_. False, pf_basename = id, pf_exists = \<lambda>_. True,
     pt_dirname = \<lambda>_. ''/r'', pt_join = \<lambda>a b. a @ ''/'' @ b, pt_relative = \<lambda>a b. if a = b then [] else ''x''\<rparr>"

definition demo_files :: "(string \<Rightarrow> bool) \<Rightarrow> bool \<Rightarrow> unit files_api" where
  "demo_files linked works = \<lparr>fa_access = \<lambda>_ _. False, fa_link = \<lambda>p _. Some (linked p), fa_realpath = \<lambda>p _. Some p,
     fa_stat = \<lambda>_ _. Inl (True, []), fa_readFile = \<lambda>_ _. Inl (True, []), fa_readdir = \<lambda>_ _. None, fa_mkdir = \<lambda>_ _. if works then Some () else None,
     fa_writeText = \<lambda>_ _ _. Some (), fa_writeBytes = \<lambda>_ _ _. Some (), fa_copyFile = \<lambda>_ _ _. Some (), fa_rename = \<lambda>_ _ _. Some (), fa_rm = \<lambda>_ _. Some ()\<rparr>"

definition demo_network :: network where
  "demo_network = \<lparr>nw_fetch = \<lambda>_. Fetch_fails [], nw_url = \<lambda>_. None, nw_sha256 = id\<rparr>"


section \<open>What is not checked\<close>

text \<open>
  The folder of a file is checked before the file is written, the file itself is not: where it is a
  link, the text is written to what the link leads to.
\<close>

lemma link_written_through:
  assumes "pf_path file = JStr ''/r/server.properties''" and "pf_contents file = JStr text"
  shows "fa_link (demo_files (\<lambda>p. p = ''/r/server.properties'') True) ''/r/server.properties'' () = Some True \<and>
    (Fs_writeText ''/r/server.properties'' text, ()) \<in> set (dk_calls (snd
       (make_file demo_paths (demo_files (\<lambda>p. p = ''/r/server.properties'') True) (JStr ''/r'') file nothing_made
          \<lparr>dk_files = (), dk_calls = []\<rparr>)))"
proof -
  have "verifyManagedPath demo_paths (demo_files (\<lambda>p. p = ''/r/server.properties'') True) (JStr ''/r'') (JStr ''/r'') b () = None" for b
    by (cases b) (simp_all add: verifyManagedPath_def demo_paths_def demo_files_def native_of_def path_escapes_def
        findExistingSymlinkSegment_def path_segments_def isSubPath_def nearestExistingPath_def eval_nat_numeral)
  then show ?thesis
    using assms by (simp add: make_file_def native_of_def mat_guard_def mat_bind_def mat_look_def mat_call_def mat_return_def
        eff_bind_def demo_paths_def demo_files_def Let_def)
qed

end
