(* ===== verification/FabricBootstrap.thy ===== *)
theory FabricBootstrap
  imports Files Decimals
begin

text \<open>
  \<open>apps/desktop/src/runtime/node-fabric-bootstrap.mjs\<close>: the Fabric server of a room, from the place
  where it is installed, from the cache or from the network, and its installation. The file system is
  that of theory \<open>Files\<close>; the digest, the answers of the network, the clock and the names drawn for
  temporary files are parameters.
\<close>

section \<open>Reasons\<close>

datatype fabric_failure = FB_INVALID_DOWNLOAD_PLAN | FB_FETCH_MISSING | FB_DOWNLOAD_FAILED | FB_CHECKSUM_MISMATCH

primrec fabric_failure_str :: "fabric_failure \<Rightarrow> string" where
  "fabric_failure_str FB_INVALID_DOWNLOAD_PLAN = ''invalid_download_plan''"
| "fabric_failure_str FB_FETCH_MISSING = ''fetch_missing''"
| "fabric_failure_str FB_DOWNLOAD_FAILED = ''download_failed''"
| "fabric_failure_str FB_CHECKSUM_MISMATCH = ''checksum_mismatch''"

text \<open>A failure: its reason, with the detail; the message is determined by the reason.\<close>

type_synonym fabric_fail = "fabric_failure \<times> jsval"

section \<open>The network\<close>

text \<open>
  An answer: what it tells of itself, the header \<open>content-length\<close>, and its bytes or why they could
  not be read. \<open>Timer_first\<close>: the timer, if one is set, fires before the answer is there.
\<close>

record fabric_response =
  fr_ok :: jsval
  fr_url :: jsval
  fr_status :: jsval
  fr_statusText :: jsval
  fr_contentLength :: jsval
  fr_body :: "string + string"

datatype fetch_race = Timer_first "string + fabric_response option" | Answer_first "string + fabric_response option"

record fabric_options =
  fo_sources :: jsval
  fo_maxBytes :: int
  fo_timeoutMs :: jsval
  fo_fetch :: "(string \<Rightarrow> fetch_race) option"
  fo_sha256 :: "string \<Rightarrow> string"
  fo_installedAt :: string
  fo_temporary :: "string \<Rightarrow> string"

definition DEFAULT_MAX_DOWNLOAD_BYTES :: int where
  "DEFAULT_MAX_DOWNLOAD_BYTES = 256 * 1024 * 1024"

definition DEFAULT_DOWNLOAD_TIMEOUT_MS :: int where
  "DEFAULT_DOWNLOAD_TIMEOUT_MS = 30000"

definition fetchWithTimeout :: "jsval \<Rightarrow> fetch_race \<Rightarrow> string + fabric_response option" where
  "fetchWithTimeout timeoutMs race =
    (case race of
       Answer_first r \<Rightarrow> r
     | Timer_first r \<Rightarrow>
         if timer_set timeoutMs then Inl (''download timeout after '' @ js_string timeoutMs @ ''ms'') else r)"

definition exceeds_message :: "string \<Rightarrow> int \<Rightarrow> string" where
  "exceeds_message bytes_text maxBytes = ''download exceeds maximum size ('' @ bytes_text @ '' > '' @ int_str maxBytes @ '')''"

definition ensureMaxBytes :: "int \<Rightarrow> string \<Rightarrow> string + string" where
  "ensureMaxBytes maxBytes bytes =
    (if int (length bytes) > maxBytes then Inl (exceeds_message (digits (length bytes)) maxBytes) else Inr bytes)"

definition responseBytes :: "fabric_response \<Rightarrow> int \<Rightarrow> string + string" where
  "responseBytes response maxBytes =
    (let contentLength = (if nullish (fr_contentLength response) then NaN else js_number (fr_contentLength response));
         body = (case fr_body response of Inl message \<Rightarrow> Inl message | Inr bytes \<Rightarrow> ensureMaxBytes maxBytes bytes)
     in case contentLength of
          Fin q \<Rightarrow> if q > of_int maxBytes then Inl (exceeds_message (js_string (rat_val q)) maxBytes) else body
        | _ \<Rightarrow> body)"

section \<open>What is there already\<close>

definition fabric_isSha256 :: "jsval \<Rightarrow> bool" where
  "fabric_isSha256 v = (let s = js_string (coalesce v (JStr [])) in length s = 64 \<and>
     list_all (\<lambda>x. is_digit x \<or> between (CHR ''a'') (CHR ''f'') x \<or> between (CHR ''A'') (CHR ''F'') x) s)"

text \<open>\<open>None\<close>: no verified artifact is there. \<open>Inl\<close>: the message of a thrown error.\<close>

definition readVerifiedArtifact :: "'f files_api \<Rightarrow> (string \<Rightarrow> string) \<Rightarrow> string \<Rightarrow> jsval \<Rightarrow> int \<Rightarrow> 'f \<Rightarrow> string + string option" where
  "readVerifiedArtifact fa sha256 path expectedSha256 maxBytes f =
    (let thrown = (\<lambda>(missing, message). if missing then Inr None else Inl message) in
     case fa_stat fa path f of
       Inl failure \<Rightarrow> thrown failure
     | Inr (isFile, fileSize) \<Rightarrow>
         if \<not> isFile \<or> fileSize > maxBytes then Inr None
         else (case fa_readFile fa path f of
             Inl failure \<Rightarrow> thrown failure
           | Inr bytes \<Rightarrow> (case ensureMaxBytes maxBytes bytes of
                 Inl message \<Rightarrow> Inl message
               | Inr kept \<Rightarrow> Inr (if JStr (sha256 bytes) = expectedSha256 then Some kept else None))))"

section \<open>Where it may be written\<close>

text \<open>\<open>None\<close>: every path is inside; otherwise the reason.\<close>

definition outside_path :: "platform_paths \<Rightarrow> 'f files_api \<Rightarrow> 'f \<Rightarrow> string \<Rightarrow> string \<Rightarrow> string \<Rightarrow> string option" where
  "outside_path pp fa f rootPath rootReal path =
    (if path_escapes pp (pt_relative pp rootPath path) then Some ''path_outside_app_data_root''
     else if findExistingSymlinkSegment pp (\<lambda>p. fa_link fa p f) rootPath path \<noteq> None then Some ''managed_path_reparse_point''
     else case fa_realpath fa (nearestExistingPath pp (\<lambda>p. fa_link fa p f \<noteq> None) (pt_dirname pp path)) f of
         None \<Rightarrow> Some ''managed_path_escape''
       | Some parentReal \<Rightarrow>
           if parentReal = [] \<or> \<not> isSubPath pp rootReal parentReal then Some ''managed_path_escape'' else None)"

fun first_failure :: "('a \<Rightarrow> 'b option) \<Rightarrow> 'a list \<Rightarrow> 'b option" where
  "first_failure g [] = None"
| "first_failure g (x # xs) = (case g x of Some b \<Rightarrow> Some b | None \<Rightarrow> first_failure g xs)"

definition verifyWriteBoundary :: "platform_paths \<Rightarrow> 'f files_api \<Rightarrow> jsval \<Rightarrow> string list \<Rightarrow> 'f \<Rightarrow> string option" where
  "verifyWriteBoundary pp fa appRoot paths f =
    (if \<not> truthy appRoot then None
     else
       let rootPath = native_of pp appRoot in
       case fa_realpath fa rootPath f of
         None \<Rightarrow> Some ''unsafe_app_data_root''
       | Some rootReal \<Rightarrow>
           if fa_link fa rootPath f \<noteq> Some False \<or> rootReal = [] then Some ''unsafe_app_data_root''
           else first_failure (outside_path pp fa f rootPath rootReal) paths)"

section \<open>Installing\<close>

definition writeFileAtomic :: "platform_paths \<Rightarrow> 'f files_api \<Rightarrow> (string \<Rightarrow> string) \<Rightarrow> string \<Rightarrow> (string \<Rightarrow> files_call) \<Rightarrow> ('f, 'e, unit) files_eff" where
  "writeFileAtomic pp fa temporary path write_to =
    mat_bind (mat_call fa (Fs_mkdir (pt_dirname pp path))) (\<lambda>_.
    let tempPath = temporary path in
    eff_catch
      (mat_bind (mat_call fa (write_to tempPath)) (\<lambda>_. mat_call fa (Fs_rename tempPath path)))
      (\<lambda>e. mat_bind (mat_call fa (Fs_remove tempPath)) (\<lambda>_. eff_throw e)))"

record fabric_paths =
  fp_cache :: string
  fp_launcher :: string
  fp_metadata :: string

definition fabric_metadata :: "fabric_download \<Rightarrow> string \<Rightarrow> jsval \<Rightarrow> string" where
  "fabric_metadata plan installedAt actualSha256 = serializeJson (JObj
    [(''roomId'', fd_roomId plan), (''provider'', fd_provider plan), (''sourceUrl'', JStr (fd_url plan)),
     (''cachePath'', JStr (fd_cachePath plan)), (''launcherJar'', fd_target plan), (''sha256'', actualSha256),
     (''installedAt'', JStr installedAt)])"

definition installFabricArtifact :: "platform_paths \<Rightarrow> 'f files_api \<Rightarrow> (string \<Rightarrow> string) \<Rightarrow> fabric_paths \<Rightarrow> string \<Rightarrow> string \<Rightarrow> ('f, 'e, unit) files_eff" where
  "installFabricArtifact pp fa temporary fp bytes metadata =
    mat_bind (mat_call fa (Fs_mkdir (pt_dirname pp (fp_cache fp)))) (\<lambda>_.
    mat_bind (mat_call fa (Fs_mkdir (pt_dirname pp (fp_launcher fp)))) (\<lambda>_.
    mat_bind (mat_call fa (Fs_mkdir (pt_dirname pp (fp_metadata fp)))) (\<lambda>_.
    mat_bind (writeFileAtomic pp fa temporary (fp_cache fp) (\<lambda>p. Fs_writeBytes p bytes)) (\<lambda>_.
    mat_bind (writeFileAtomic pp fa temporary (fp_launcher fp) (\<lambda>p. Fs_writeBytes p bytes)) (\<lambda>_.
    writeFileAtomic pp fa temporary (fp_metadata fp) (\<lambda>p. Fs_writeText p metadata))))))"

section \<open>The bootstrap\<close>

datatype artifact_source = From_launcher | From_cache | From_download

record bootstrapped =
  bt_roomId :: jsval
  bt_sourceUrl :: string
  bt_cachePath :: string
  bt_launcherJar :: jsval
  bt_metadataPath :: string
  bt_sha256 :: jsval
  bt_reused :: bool
  bt_artifactSource :: artifact_source

definition fabric_metadata_path :: "jsval \<Rightarrow> string" where
  "fabric_metadata_path runtimePlan = js_string (jget (jget runtimePlan ''layout'') ''metadata'') @ ''/fabric-server-bootstrap.json''"

definition fabric_paths_of :: "platform_paths \<Rightarrow> jsval \<Rightarrow> fabric_download \<Rightarrow> fabric_paths" where
  "fabric_paths_of pp runtimePlan plan = \<lparr>fp_cache = pf_native pp (fd_cachePath plan),
     fp_launcher = native_of pp (fd_target plan), fp_metadata = pf_native pp (fabric_metadata_path runtimePlan)\<rparr>"

definition url_detail :: "fabric_download \<Rightarrow> (string \<times> jsval) list \<Rightarrow> jsval" where
  "url_detail plan more_detail = JObj ((''sourceUrl'', JStr (fd_url plan)) # more_detail)"

definition download_failed :: "fabric_download \<Rightarrow> (string \<times> jsval) list \<Rightarrow> fabric_fail" where
  "download_failed plan more_detail = (FB_DOWNLOAD_FAILED, url_detail plan more_detail)"

definition error_detail :: "string \<Rightarrow> (string \<times> jsval) list" where
  "error_detail message = [(''error'', JStr message)]"

text \<open>The artifact from the network: an approved answer with the expected digest.\<close>

definition downloaded_artifact :: "fabric_options \<Rightarrow> fabric_download \<Rightarrow> fabric_fail + string" where
  "downloaded_artifact fo plan =
    (case fo_fetch fo of
       None \<Rightarrow> Inl (FB_FETCH_MISSING, url_detail plan [])
     | Some fetch \<Rightarrow> (case fetchWithTimeout (fo_timeoutMs fo) (fetch (fd_url plan)) of
           Inl message \<Rightarrow> Inl (download_failed plan (error_detail message))
         | Inr None \<Rightarrow> Inl (download_failed plan [(''status'', JNull), (''statusText'', JStr [])])
         | Inr (Some response) \<Rightarrow>
             if \<not> truthy (fr_ok response) then Inl (download_failed plan
               [(''status'', coalesce (fr_status response) JNull), (''statusText'', coalesce (fr_statusText response) (JStr []))])
             else if truthy (fr_url response) \<and> \<not> js_startsWith (js_string (fr_url response)) FABRIC_META_BASE_URL
             then Inl (download_failed plan [(''responseUrl'', fr_url response), (''reason'', JStr ''unapproved_redirect_target'')])
             else (case responseBytes response (fo_maxBytes fo) of
                 Inl message \<Rightarrow> Inl (download_failed plan (error_detail message))
               | Inr bytes \<Rightarrow>
                   if JStr (fo_sha256 fo bytes) \<noteq> fd_expectedSha256 plan
                   then Inl (FB_CHECKSUM_MISMATCH, url_detail plan [(''expectedSha256'', fd_expectedSha256 plan),
                     (''actualSha256'', JStr (fo_sha256 fo bytes))])
                   else Inr bytes)))"

text \<open>The verified artifact, and where it is from: the launcher, the cache, the network.\<close>

definition choose_artifact :: "'f files_api \<Rightarrow> fabric_options \<Rightarrow> fabric_download \<Rightarrow> fabric_paths \<Rightarrow> 'f \<Rightarrow> fabric_fail + string \<times> artifact_source" where
  "choose_artifact fa fo plan fp f =
    (let found = (\<lambda>path. readVerifiedArtifact fa (fo_sha256 fo) path (fd_expectedSha256 plan) (fo_maxBytes fo) f) in
     case found (fp_launcher fp) of
       Inl message \<Rightarrow> Inl (download_failed plan (error_detail message))
     | Inr launcher \<Rightarrow> (case found (fp_cache fp) of
           Inl message \<Rightarrow> Inl (download_failed plan (error_detail message))
         | Inr cache \<Rightarrow> (case (launcher, cache) of
               (Some bytes, _) \<Rightarrow> Inr (bytes, From_launcher)
             | (None, Some bytes) \<Rightarrow> Inr (bytes, From_cache)
             | (None, None) \<Rightarrow> (case downloaded_artifact fo plan of
                   Inl failure \<Rightarrow> Inl failure | Inr bytes \<Rightarrow> Inr (bytes, From_download)))))"

definition checksum_required :: "fabric_download \<Rightarrow> fabric_fail" where
  "checksum_required plan = (FB_INVALID_DOWNLOAD_PLAN, JObj [(''reason'', JStr ''checksum_required''),
     (''plan'', JObj [(''type'', JStr ''fabric-server.download''), (''roomId'', fd_roomId plan), (''sourceUrl'', JStr (fd_url plan)), (''target'', fd_target plan)])])"

definition bootstrapFabricServer :: "platform_paths \<Rightarrow> 'f files_api \<Rightarrow> fabric_options \<Rightarrow> jsval \<Rightarrow> ('f, fabric_fail, bootstrapped) files_eff" where
  "bootstrapFabricServer pp fa fo runtimePlan =
    (case createFabricServerDownloadPlan runtimePlan (fo_sources fo) of
       None \<Rightarrow> eff_throw type_error
     | Some (Inl reason) \<Rightarrow> mat_fail (FB_INVALID_DOWNLOAD_PLAN, JStr (adapter_failure_str reason))
     | Some (Inr plan) \<Rightarrow>
         if \<not> fabric_isSha256 (fd_expectedSha256 plan) \<or> fd_algorithm plan \<noteq> JStr ''sha256''
         then mat_fail (checksum_required plan)
         else
           let fp = fabric_paths_of pp runtimePlan plan in
           mat_bind (mat_look (verifyWriteBoundary pp fa (jget (jget runtimePlan ''layout'') ''appDataRoot'')
               [fp_cache fp, fp_launcher fp, fp_metadata fp])) (\<lambda>boundary. case boundary of
             Some reason \<Rightarrow> mat_fail (FB_INVALID_DOWNLOAD_PLAN, JObj [(''reason'', JStr reason)])
           | None \<Rightarrow>
               mat_bind (mat_look (choose_artifact fa fo plan fp)) (\<lambda>chosen. case chosen of
                 Inl failure \<Rightarrow> mat_fail failure
               | Inr (bytes, source) \<Rightarrow>
                   mat_bind (installFabricArtifact pp fa (fo_temporary fo) fp bytes
                     (fabric_metadata plan (fo_installedAt fo) (fd_expectedSha256 plan))) (\<lambda>_.
                   mat_return \<lparr>bt_roomId = fd_roomId plan, bt_sourceUrl = fd_url plan, bt_cachePath = fd_cachePath plan,
                     bt_launcherJar = fd_target plan, bt_metadataPath = fabric_metadata_path runtimePlan,
                     bt_sha256 = fd_expectedSha256 plan, bt_reused = (source \<noteq> From_download),
                     bt_artifactSource = source\<rparr>))))"

end
