(* ===== verification/FabricBootstrap_Props.thy ===== *)
theory FabricBootstrap_Props
  imports FabricBootstrap
begin

text \<open>
  The Fabric server that is installed is a verified one: whatever the network and the file system
  answer, no byte of another artifact is written, and a failure that is returned leaves everything
  as it was.
\<close>

section \<open>What is found\<close>

lemma read_verified:
  assumes "readVerifiedArtifact fa sha256 path expected maxBytes f = Inr (Some bytes)"
  shows "JStr (sha256 bytes) = expected \<and> int (length bytes) \<le> maxBytes"
  using assms
  by (auto simp: readVerifiedArtifact_def ensureMaxBytes_def Let_def split: sum.splits prod.splits if_splits)

lemma downloaded_verified:
  assumes "downloaded_artifact fo plan = Inr bytes"
  shows "JStr (fo_sha256 fo bytes) = fd_expectedSha256 plan \<and> int (length bytes) \<le> fo_maxBytes fo"
  using assms
  by (auto simp: downloaded_artifact_def responseBytes_def ensureMaxBytes_def Let_def
      split: option.splits sum.splits if_splits jsnum.splits)

lemma chosen_verified:
  assumes "choose_artifact fa fo plan fp f = Inr (bytes, source)"
  shows "JStr (fo_sha256 fo bytes) = fd_expectedSha256 plan \<and> int (length bytes) \<le> fo_maxBytes fo"
  using assms
  by (auto simp: choose_artifact_def Let_def dest: read_verified downloaded_verified split: sum.splits option.splits)

section \<open>The calls of an installation\<close>

text \<open>\<open>traces m cs\<close>: whenever \<open>m\<close> ends with a value, its calls were \<open>cs\<close>.\<close>

definition traces :: "('f, 'e, 'a) files_eff \<Rightarrow> files_call list \<Rightarrow> bool" where
  "traces m cs \<longleftrightarrow> (\<forall>d a d'. m d = (Inr (Inr a), d') \<longrightarrow> map fst (dk_calls d') = map fst (dk_calls d) @ cs)"

lemma traces_call: "traces (mat_call fa c) [c]"
  by (auto simp: traces_def mat_call_def Let_def split: option.splits)

lemma traces_bind:
  assumes "traces m cs" and "\<And>a. traces (k a) cs'"
  shows "traces (mat_bind m k) (cs @ cs')"
  unfolding traces_def
proof (intro allI impI)
  fix d a d'
  assume run: "mat_bind m k d = (Inr (Inr a), d')"
  obtain r d1 where r: "m d = (r, d1)" by fastforce
  with run obtain b where b: "r = Inr (Inr b)" "k b d1 = (Inr (Inr a), d')"
    by (auto simp: mat_bind_def eff_bind_def mat_fail_def split: sum.splits)
  with assms r show "map fst (dk_calls d') = map fst (dk_calls d) @ cs @ cs'"
    unfolding traces_def by fastforce
qed

lemma traces_catch:
  assumes "traces m cs" and "\<And>e d a d'. h e d \<noteq> (Inr (Inr a), d')"
  shows "traces (eff_catch m h) cs"
  using assms by (auto simp: traces_def eff_catch_def split: prod.splits sum.splits)

definition atomic_steps :: "platform_paths \<Rightarrow> (string \<Rightarrow> string) \<Rightarrow> string \<Rightarrow> (string \<Rightarrow> files_call) \<Rightarrow> files_call list" where
  "atomic_steps pp temporary path write_to =
     [Fs_mkdir (pt_dirname pp path), write_to (temporary path), Fs_rename (temporary path) path]"

definition install_steps :: "platform_paths \<Rightarrow> (string \<Rightarrow> string) \<Rightarrow> fabric_paths \<Rightarrow> string \<Rightarrow> string \<Rightarrow> files_call list" where
  "install_steps pp temporary fp bytes metadata =
     map (\<lambda>p. Fs_mkdir (pt_dirname pp p)) [fp_cache fp, fp_launcher fp, fp_metadata fp] @
     atomic_steps pp temporary (fp_cache fp) (\<lambda>p. Fs_writeBytes p bytes) @
     atomic_steps pp temporary (fp_launcher fp) (\<lambda>p. Fs_writeBytes p bytes) @
     atomic_steps pp temporary (fp_metadata fp) (\<lambda>p. Fs_writeText p metadata)"

lemma traces_atomic: "traces (writeFileAtomic pp fa temporary path write_to) (atomic_steps pp temporary path write_to)"
proof -
  have handler: "mat_bind (mat_call fa c) (\<lambda>_. eff_throw e) d \<noteq> (Inr (Inr a), d')" for c e d a d'
    by (auto simp: mat_bind_def eff_bind_def mat_fail_def split: sum.split prod.split)
  have inner: "traces (mat_bind (mat_call fa c) (\<lambda>_. mat_call fa c')) ([c] @ [c'])" for c c'
    by (intro traces_bind traces_call)
  have "traces (writeFileAtomic pp fa temporary path write_to)
      ([Fs_mkdir (pt_dirname pp path)] @ ([write_to (temporary path)] @ [Fs_rename (temporary path) path]))"
    unfolding writeFileAtomic_def Let_def
    by (intro traces_bind [OF traces_call] traces_catch inner handler)
  then show ?thesis by (simp add: atomic_steps_def)
qed

lemma traces_install:
  "traces (installFabricArtifact pp fa temporary fp bytes metadata) (install_steps pp temporary fp bytes metadata)"
proof -
  have "traces (installFabricArtifact pp fa temporary fp bytes metadata)
     ([Fs_mkdir (pt_dirname pp (fp_cache fp))] @ [Fs_mkdir (pt_dirname pp (fp_launcher fp))] @
      [Fs_mkdir (pt_dirname pp (fp_metadata fp))] @ atomic_steps pp temporary (fp_cache fp) (\<lambda>p. Fs_writeBytes p bytes) @
      atomic_steps pp temporary (fp_launcher fp) (\<lambda>p. Fs_writeBytes p bytes) @
      atomic_steps pp temporary (fp_metadata fp) (\<lambda>p. Fs_writeText p metadata))"
    unfolding installFabricArtifact_def by (intro traces_bind traces_call traces_atomic)
  then show ?thesis by (simp add: install_steps_def)
qed

section \<open>The calls that may happen\<close>

text \<open>Also where the installation throws: only these calls, with these bytes.\<close>

definition install_ok :: "platform_paths \<Rightarrow> (string \<Rightarrow> string) \<Rightarrow> fabric_paths \<Rightarrow> string \<Rightarrow> files_call \<Rightarrow> bool" where
  "install_ok pp temporary fp bytes c \<longleftrightarrow>
    (let paths = {fp_cache fp, fp_launcher fp, fp_metadata fp} in case c of
       Fs_mkdir p \<Rightarrow> p \<in> pt_dirname pp ` paths
     | Fs_writeText p t \<Rightarrow> p = temporary (fp_metadata fp)
     | Fs_writeBytes p b \<Rightarrow> p \<in> temporary ` {fp_cache fp, fp_launcher fp} \<and> b = bytes
     | Fs_copy p q \<Rightarrow> False
     | Fs_rename p q \<Rightarrow> q \<in> paths \<and> p = temporary q
     | Fs_remove p \<Rightarrow> p \<in> temporary ` paths)"

lemma good_catch:
  assumes "good ok P m Q" and "\<And>e. good ok (\<lambda>_. True) (h e) Q"
  shows "good ok P (eff_catch m h) Q"
  using assms unfolding good_def
  by (intro ens_catch [where R = "\<lambda>_. calls_good ok"]) simp_all

lemma good_each_call: "(\<And>f. ok c f) \<Longrightarrow> good ok (\<lambda>_. True) (mat_call fa c) (\<lambda>_ _. True)"
  by (rule good_post [OF good_call]) simp_all

lemma good_atomic:
  assumes "\<And>f. ok (Fs_mkdir (pt_dirname pp path)) f" "\<And>f. ok (write_to (temporary path)) f"
    "\<And>f. ok (Fs_rename (temporary path) path) f" "\<And>f. ok (Fs_remove (temporary path)) f"
  shows "good ok (\<lambda>_. True) (writeFileAtomic pp fa temporary path write_to) (\<lambda>_ _. True)"
  unfolding writeFileAtomic_def Let_def
  by (intro good_bind [OF good_each_call] good_catch good_each_call good_throw assms)

lemma good_install_fabric:
  "good (\<lambda>c _. install_ok pp temporary fp bytes c) (\<lambda>_. True)
     (installFabricArtifact pp fa temporary fp bytes metadata) (\<lambda>_ _. True)"
  unfolding installFabricArtifact_def
  by (intro good_bind [OF good_each_call] good_bind [OF good_atomic] good_atomic) (simp_all add: install_ok_def)

section \<open>Properties\<close>

text \<open>
  C36. The Fabric server is installed only from bytes with the expected digest and within the size
  limit, whether they were there already or come from the network: the changing calls are those of an
  installation of such bytes, at the cache, the launcher and the metadata inside the application's
  folder, each by a temporary file that is renamed; a success has made all of them in this order, and
  a failure that is returned has made none.
\<close>

theorem fabric_installed_verified:
  assumes run: "bootstrapFabricServer pp fa fo runtimePlan \<lparr>dk_files = f, dk_calls = []\<rparr> = (r, d)"
  shows "(dk_calls d \<noteq> [] \<longrightarrow> (\<exists>plan bytes. createFabricServerDownloadPlan runtimePlan (fo_sources fo) = Some (Inr plan) \<and>
      JStr (fo_sha256 fo bytes) = fd_expectedSha256 plan \<and> int (length bytes) \<le> fo_maxBytes fo \<and>
      verifyWriteBoundary pp fa (jget (jget runtimePlan ''layout'') ''appDataRoot'')
        [fp_cache (fabric_paths_of pp runtimePlan plan), fp_launcher (fabric_paths_of pp runtimePlan plan),
         fp_metadata (fabric_paths_of pp runtimePlan plan)] f = None \<and>
      (\<forall>(c, _) \<in> set (dk_calls d). install_ok pp (fo_temporary fo) (fabric_paths_of pp runtimePlan plan) bytes c) \<and>
      (\<forall>b. r = Inr (Inr b) \<longrightarrow> bt_sha256 b = fd_expectedSha256 plan \<and>
         map fst (dk_calls d) = install_steps pp (fo_temporary fo) (fabric_paths_of pp runtimePlan plan) bytes
           (fabric_metadata plan (fo_installedAt fo) (fd_expectedSha256 plan))))) \<and>
    (\<forall>failure. r = Inr (Inl failure) \<longrightarrow> dk_calls d = []) \<and>
    (\<forall>b. r = Inr (Inr b) \<longrightarrow> dk_calls d \<noteq> [])"
proof -
  let ?d0 = "\<lparr>dk_files = f, dk_calls = []\<rparr>"
  show ?thesis
  proof (cases "dk_calls d = [] \<and> (\<forall>b. r \<noteq> Inr (Inr b))")
    case True
    then show ?thesis by simp
  next
    case False
    then obtain plan bytes source where plan: "createFabricServerDownloadPlan runtimePlan (fo_sources fo) = Some (Inr plan)"
      and boundary: "verifyWriteBoundary pp fa (jget (jget runtimePlan ''layout'') ''appDataRoot'')
        [fp_cache (fabric_paths_of pp runtimePlan plan), fp_launcher (fabric_paths_of pp runtimePlan plan),
         fp_metadata (fabric_paths_of pp runtimePlan plan)] f = None"
      and chosen: "choose_artifact fa fo plan (fabric_paths_of pp runtimePlan plan) f = Inr (bytes, source)"
      using run by (auto simp: bootstrapFabricServer_def mat_bind_def eff_bind_def mat_look_def mat_fail_def Let_def
          split: option.splits sum.splits if_splits)
    define fp where "fp = fabric_paths_of pp runtimePlan plan"
    define metadata where "metadata = fabric_metadata plan (fo_installedAt fo) (fd_expectedSha256 plan)"
    obtain ri di where install: "installFabricArtifact pp fa (fo_temporary fo) fp bytes metadata ?d0 =
        (ri :: jsval + fabric_fail + unit, di)" by fastforce
    have calls: "\<forall>(c, _) \<in> set (dk_calls di). install_ok pp (fo_temporary fo) fp bytes c"
    proof -
      have "calls_good (\<lambda>c _. install_ok pp (fo_temporary fo) fp bytes c) (snd (ri, di))"
        unfolding install [symmetric] by (rule goodD [OF good_install_fabric]) (simp_all add: calls_good_def)
      then show ?thesis by (simp add: calls_good_def)
    qed
    have steps: "map fst (dk_calls di) = install_steps pp (fo_temporary fo) fp bytes metadata" if "ri = Inr (Inr ())"
      using traces_install [of pp fa "fo_temporary fo" fp bytes metadata, unfolded traces_def] install that by fastforce
    have never: "ri \<noteq> Inr (Inl failure)" for failure
      using install by (auto simp: installFabricArtifact_def writeFileAtomic_def mat_bind_def eff_bind_def mat_call_def
          mat_fail_def eff_catch_def Let_def split: option.splits sum.splits prod.splits)
    have res: "d = di \<and> (case ri of Inl e \<Rightarrow> r = Inl e | Inr (Inl failure) \<Rightarrow> False
        | Inr (Inr u) \<Rightarrow> \<exists>b. r = Inr (Inr b) \<and> bt_sha256 b = fd_expectedSha256 plan)"
      using run False never
      by (auto simp: bootstrapFabricServer_def plan fp_def [symmetric] metadata_def [symmetric]
          boundary [folded fp_def] chosen [folded fp_def]
          mat_bind_def eff_bind_def mat_look_def mat_fail_def mat_return_def install Let_def
          split: sum.splits if_splits)
    have "install_steps pp (fo_temporary fo) fp bytes metadata \<noteq> []" by (simp add: install_steps_def)
    with res steps have "r = Inr (Inr b) \<longrightarrow> dk_calls d \<noteq> [] \<and> bt_sha256 b = fd_expectedSha256 plan \<and>
        map fst (dk_calls d) = install_steps pp (fo_temporary fo) fp bytes metadata" for b
      by (auto split: sum.splits)
    moreover have "r \<noteq> Inr (Inl failure)" for failure using res by (auto split: sum.splits)
    ultimately show ?thesis
      using plan boundary calls res chosen_verified [OF chosen]
      unfolding fp_def metadata_def by blast
  qed
qed

definition demo_digest :: string where
  "demo_digest = replicate 64 (CHR ''a'')"

definition demo_fabric_plan :: jsval where
  "demo_fabric_plan = JObj
    [(''room'', JObj [(''id'', JStr ''r''), (''minecraftVersion'', JStr ''1.21.1'')]),
     (''files'', JObj [(''root'', JStr ''C:/d/r''), (''mods'', JStr ''C:/d/m''), (''world'', JStr ''C:/d/w'')]),
     (''layout'', JObj [(''appDataRoot'', JStr ''C:/d''), (''runtime'', JStr ''C:/d/t''), (''logs'', JStr ''C:/d/l''),
        (''cache'', JStr ''C:/d/c''), (''downloads'', JStr ''C:/d/o''), (''metadata'', JStr ''C:/d/e'')]),
     (''fabric'', JObj [(''loaderVersion'', JStr ''0.16''), (''launcherJar'', JStr ''C:/d/j''),
        (''serverJarSha256'', JStr demo_digest)]),
     (''eula'', JObj [(''path'', JStr ''C:/d/u''), (''accepted'', JBool True)]),
     (''serverProperties'', JObj [(''path'', JStr ''C:/d/p''), (''values'', JObj [])]),
     (''mods'', JObj [(''entries'', JArr [])]), (''cache'', JObj [(''checksumAlgorithm'', JStr ''sha256'')]),
     (''command'', JArr [JStr ''java''])]"

lemma demo_fabric_valid: "validateRuntimePlan demo_fabric_plan = Some None"
  by code_simp

text \<open>A platform without links where the launcher is there, and the one where nothing is.\<close>

definition demo_fabric_files :: "unit files_api" where
  "demo_fabric_files = \<lparr>fa_access = \<lambda>_ _. True, fa_link = \<lambda>_ _. Some False, fa_realpath = \<lambda>_ _. Some ''C:/d'',
     fa_stat = \<lambda>_ _. Inr (True, 1), fa_readFile = \<lambda>_ _. Inr ''x'', fa_readdir = \<lambda>_ _. None, fa_mkdir = \<lambda>_ _. Some (),
     fa_writeText = \<lambda>_ _ _. Some (), fa_writeBytes = \<lambda>_ _ _. Some (), fa_copyFile = \<lambda>_ _ _. Some (),
     fa_rename = \<lambda>_ _ _. Some (), fa_rm = \<lambda>_ _. Some ()\<rparr>"

definition demo_fabric_paths :: platform_paths where
  "demo_fabric_paths = \<lparr>pf_native = id, pf_absolute = \<lambda>_. False, pf_basename = id, pf_exists = \<lambda>_. True,
     pt_dirname = \<lambda>_. ''C:/d'', pt_join = \<lambda>a b. a @ ''/'' @ b, pt_relative = \<lambda>a b. ''x''\<rparr>"

definition demo_fabric_options :: fabric_options where
  "demo_fabric_options = \<lparr>fo_sources = JUndef, fo_maxBytes = DEFAULT_MAX_DOWNLOAD_BYTES, fo_timeoutMs = JNum 1,
     fo_fetch = None, fo_sha256 = \<lambda>_. demo_digest, fo_installedAt = ''now'', fo_temporary = \<lambda>p. p @ ''.tmp''\<rparr>"

lemma demo_fabric_runs:
  "\<exists>b d. bootstrapFabricServer demo_fabric_paths demo_fabric_files demo_fabric_options demo_fabric_plan
     \<lparr>dk_files = (), dk_calls = []\<rparr> = (Inr (Inr b), d)"
proof -
  have "fabric_isSha256 (JStr demo_digest)" unfolding demo_digest_def by code_simp
  moreover obtain dp where dp: "createFabricServerDownloadPlan demo_fabric_plan JUndef = Some (Inr dp)"
      "fd_expectedSha256 dp = JStr demo_digest" "fd_algorithm dp = JStr ''sha256''"
  proof -
    have long: "demo_digest \<noteq> []" by (simp add: demo_digest_def)
    have "js_startsWith (default_fabric_url demo_fabric_plan JUndef) FABRIC_META_BASE_URL" by code_simp
    then show thesis
      using that by (simp add: createFabricServerDownloadPlan_def demo_fabric_valid Let_def)
        (simp add: demo_fabric_plan_def long dot_def or_empty_def coalesce_def)
  qed
  moreover have "verifyWriteBoundary demo_fabric_paths demo_fabric_files v [a, b, c] () = None" for v a b c
    by (simp add: verifyWriteBoundary_def outside_path_def demo_fabric_paths_def demo_fabric_files_def native_of_def
        path_escapes_def findExistingSymlinkSegment_def path_segments_def isSubPath_def nearestExistingPath_def
        eval_nat_numeral slash_char_def Let_def split: if_splits)
  ultimately show ?thesis
    by (simp add: bootstrapFabricServer_def demo_fabric_options_def choose_artifact_def readVerifiedArtifact_def
        ensureMaxBytes_def DEFAULT_MAX_DOWNLOAD_BYTES_def demo_fabric_files_def installFabricArtifact_def
        writeFileAtomic_def mat_bind_def mat_look_def mat_call_def mat_return_def eff_bind_def eff_catch_def Let_def)
qed

theorem fabric_installed_verified_witness:
  "\<exists>b d. bootstrapFabricServer demo_fabric_paths demo_fabric_files demo_fabric_options demo_fabric_plan
      \<lparr>dk_files = (), dk_calls = []\<rparr> = (Inr (Inr b), d) \<and> dk_calls d \<noteq> [] \<and>
    (\<exists>plan bytes. JStr (fo_sha256 demo_fabric_options bytes) = fd_expectedSha256 plan \<and>
       map fst (dk_calls d) = install_steps demo_fabric_paths (fo_temporary demo_fabric_options)
         (fabric_paths_of demo_fabric_paths demo_fabric_plan plan) bytes
         (fabric_metadata plan (fo_installedAt demo_fabric_options) (fd_expectedSha256 plan)))"
proof -
  obtain b d where run: "bootstrapFabricServer demo_fabric_paths demo_fabric_files demo_fabric_options demo_fabric_plan
      \<lparr>dk_files = (), dk_calls = []\<rparr> = (Inr (Inr b), d)"
    using demo_fabric_runs by blast
  from fabric_installed_verified [OF run] run show ?thesis by auto
qed

section \<open>What the check of a digest lets through\<close>

text \<open>
  A digest in upper case is accepted as one; the digest of the bytes is in lower case, so no artifact
  ever has it, and every bootstrap of such a plan ends with a mismatch or a failed download.
\<close>

lemma upper_case_digest:
  assumes "\<And>bytes. list_all (\<lambda>x. \<not> is_upper x) (fo_sha256 fo bytes)"
    and "fd_expectedSha256 plan = JStr (replicate 64 (CHR ''A''))"
  shows "fabric_isSha256 (fd_expectedSha256 plan) \<and> (\<exists>failure. downloaded_artifact fo plan = Inl failure)"
proof -
  have "is_upper (CHR ''A'')" by code_simp
  then have "JStr (fo_sha256 fo bytes) \<noteq> fd_expectedSha256 plan" for bytes
    using assms(1) [of bytes] by (auto simp: assms(2) list_all_iff)
  moreover have "fabric_isSha256 (JStr (replicate 64 (CHR ''A'')))" by code_simp
  ultimately show ?thesis
    unfolding assms(2) [symmetric] using downloaded_verified [of fo plan]
    by (cases "downloaded_artifact fo plan") auto
qed

end
