(* ===== verification/JavaDetection.thy ===== *)
theory JavaDetection
  imports HostRuntime_Props Decimals
begin

text \<open>
  \<open>apps/desktop/src/runtime/node-java-detection.mjs\<close>: the places where a Java may be, in the order in
  which they are tried, and the search for the first that is new enough. The existence of files, the
  entries of directories and what \<open>java -version\<close> prints are parameters.
\<close>

section \<open>Paths of Windows\<close>

definition drive_start :: "string \<Rightarrow> bool" where
  "drive_start path = (case path of
     x # y # z # _ \<Rightarrow> (is_upper x \<or> is_lower x) \<and> y = CHR '':'' \<and> (z = CHR 0x5C \<or> z = CHR ''/'')
   | _ \<Rightarrow> False)"

text \<open>Two separators, a host, a separator, a share.\<close>

definition network_path :: "char \<Rightarrow> string \<Rightarrow> bool" where
  "network_path c path = (case path of
     x # y # body \<Rightarrow> x = c \<and> y = c \<and> takeWhile (\<lambda>z. z \<noteq> c) body \<noteq> [] \<and>
       (case dropWhile (\<lambda>z. z \<noteq> c) body of _ # z # _ \<Rightarrow> z \<noteq> c | _ \<Rightarrow> False)
   | _ \<Rightarrow> False)"

definition isSafeCandidatePath :: "jsval \<Rightarrow> jsval \<Rightarrow> bool" where
  "isSafeCandidatePath v allowNetworkPaths =
    (case v of
       JStr s \<Rightarrow> (let path = js_trim s in
         path \<noteq> [] \<and> CHR 0x00 \<notin> set path \<and> \<not> hasParentPathSegment path \<and>
         (drive_start path \<or>
          (allowNetworkPaths = JBool True \<and> (network_path (CHR 0x5C) path \<or> network_path (CHR ''/'') path))))
     | _ \<Rightarrow> False)"

text \<open>The last replacement of \<open>normalizeWindows\<close>, of a drive by itself, changes nothing.\<close>

definition normalizeWindows :: "string \<Rightarrow> string" where
  "normalizeWindows path =
    (let normalized = unify_slashes (js_trim path);
         network = js_startsWith normalized ''//'';
         body = (if network then drop 2 normalized else normalized)
     in (if network then ''//'' else []) @ collapse_slashes body)"

definition joinWindows :: "string list \<Rightarrow> string" where
  "joinWindows parts = normalizeWindows (js_join ''/'' (filter (\<lambda>p. p \<noteq> []) parts))"

section \<open>Candidates\<close>

datatype java_source = JS_CONFIGURED_PATH | JS_JAVA_HOME | JS_PATH | JS_ADOPTIUM | JS_JAVA

primrec java_source_str :: "java_source \<Rightarrow> string" where
  "java_source_str JS_CONFIGURED_PATH = ''configuredPath''"
| "java_source_str JS_JAVA_HOME = ''JAVA_HOME''"
| "java_source_str JS_PATH = ''PATH''"
| "java_source_str JS_ADOPTIUM = ''ProgramFiles/Eclipse Adoptium''"
| "java_source_str JS_JAVA = ''ProgramFiles/Java''"

text \<open>
  An entry of a directory is its name or an object with a name, which may be missing. \<open>java -version\<close>
  answers or fails, with what it has printed in either case.
\<close>

datatype dir_entry = Entry_text string | Entry_object "string option"

datatype java_answer = Java_answered jsval jsval | Java_threw jsval jsval

record java_options =
  jo_minimumMajorVersion :: jsval
  jo_env :: "(string, jsval) jsmap"
  jo_configuredPath :: jsval
  jo_pathCandidates :: jsval
  jo_programFilesRoots :: jsval
  jo_allowPathCandidates :: jsval
  jo_allowNetworkPaths :: jsval
  jo_trustedSources :: jsval
  jo_exists :: "string \<Rightarrow> bool"
  jo_readdir :: "string \<Rightarrow> dir_entry list option"
  jo_execFile :: "string \<Rightarrow> java_answer"

record raw_candidate =
  rw_path :: jsval
  rw_source :: java_source
  rw_vendor :: jsval

record java_candidate =
  jc_path :: string
  jc_source :: java_source
  jc_vendor :: jsval

definition env_get :: "(string, jsval) jsmap \<Rightarrow> string \<Rightarrow> jsval" where
  "env_get env key = (case jm_get env key of None \<Rightarrow> JUndef | Some v \<Rightarrow> v)"

definition envValue :: "(string, jsval) jsmap \<Rightarrow> string \<Rightarrow> jsval" where
  "envValue env key =
    (if jm_has env key then env_get env key
     else (case List.find (\<lambda>candidate. toLowerCase candidate = toLowerCase key) (map fst env) of
         None \<Rightarrow> JUndef
       | Some m \<Rightarrow> if m = [] then JUndef else env_get env m))"

definition javaExeFromHome :: "jsval \<Rightarrow> jsval" where
  "javaExeFromHome javaHome = (if isSafeCandidatePath javaHome JUndef
     then JStr (joinWindows [js_string javaHome, ''bin'', ''java.exe'']) else JNull)"

definition javaExeFromPathEntry :: "jsval \<Rightarrow> jsval" where
  "javaExeFromPathEntry pathEntry = (if isSafeCandidatePath pathEntry JUndef
     then JStr (joinWindows [js_string pathEntry, ''java.exe'']) else JNull)"

definition pathCandidatesFromEnv :: "jsval \<Rightarrow> string list" where
  "pathCandidatesFromEnv pathValue =
     filter (\<lambda>entry. entry \<noteq> []) (map js_trim (js_split CHR '';'' (js_string (coalesce pathValue (JStr [])))))"

definition programFilesRoots :: "(string, jsval) jsmap \<Rightarrow> jsval \<Rightarrow> jsval list option" where
  "programFilesRoots env explicitRoots =
    (if truthy explicitRoots then js_iter explicitRoots
     else Some [envValue env ''ProgramFiles'', envValue env ''ProgramFiles(x86)''])"

definition entry_name :: "dir_entry \<Rightarrow> string" where
  "entry_name entry = (case entry of Entry_text s \<Rightarrow> s | Entry_object name \<Rightarrow> (case name of None \<Rightarrow> [] | Some s \<Rightarrow> s))"

definition usable_name :: "string \<Rightarrow> bool" where
  "usable_name name \<longleftrightarrow> name \<noteq> [] \<and> name \<noteq> ''.'' \<and> name \<noteq> ''..'' \<and>
     CHR ''/'' \<notin> set name \<and> CHR 0x5C \<notin> set name \<and> CHR 0x00 \<notin> set name"

definition vendor_candidates :: "java_options \<Rightarrow> string \<Rightarrow> java_source \<Rightarrow> string \<Rightarrow> raw_candidate list" where
  "vendor_candidates jo vendorRoot source vendor =
    (case jo_readdir jo vendorRoot of
       None \<Rightarrow> []
     | Some entries \<Rightarrow>
         map (\<lambda>javaPath. \<lparr>rw_path = JStr javaPath, rw_source = source, rw_vendor = JStr vendor\<rparr>)
           (filter (jo_exists jo)
             (map (\<lambda>name. joinWindows [vendorRoot, name, ''bin'', ''java.exe''])
               (filter usable_name (map entry_name entries)))))"

definition programFilesJavaCandidates :: "java_options \<Rightarrow> jsval \<Rightarrow> raw_candidate list" where
  "programFilesJavaCandidates jo appRoot =
    (if \<not> isSafeCandidatePath appRoot JUndef then []
     else vendor_candidates jo (joinWindows [js_string appRoot, ''Eclipse Adoptium'']) JS_ADOPTIUM ''Eclipse Adoptium'' @
       vendor_candidates jo (joinWindows [js_string appRoot, ''Java'']) JS_JAVA ''Oracle'')"

text \<open>The safe ones, normalised, each once up to the case of letters.\<close>

fun dedupe_from :: "jsval \<Rightarrow> string list \<Rightarrow> raw_candidate list \<Rightarrow> java_candidate list" where
  "dedupe_from allowNetworkPaths seen [] = []"
| "dedupe_from allowNetworkPaths seen (candidate # more_candidates) =
    (if \<not> isSafeCandidatePath (rw_path candidate) allowNetworkPaths
     then dedupe_from allowNetworkPaths seen more_candidates
     else
       let path = normalizeWindows (js_string (rw_path candidate)); key = toLowerCase path in
       if key \<in> set seen then dedupe_from allowNetworkPaths seen more_candidates
       else \<lparr>jc_path = path, jc_source = rw_source candidate, jc_vendor = coalesce (rw_vendor candidate) JNull\<rparr> #
         dedupe_from allowNetworkPaths (js_add key seen) more_candidates)"

definition dedupeCandidates :: "raw_candidate list \<Rightarrow> jsval \<Rightarrow> java_candidate list" where
  "dedupeCandidates candidates allowNetworkPaths = dedupe_from allowNetworkPaths [] candidates"

text \<open>\<open>None\<close>: the given path candidates or roots cannot be iterated.\<close>

definition createWindowsJavaCandidates :: "java_options \<Rightarrow> java_candidate list option" where
  "createWindowsJavaCandidates jo =
    (let env = jo_env jo;
         plain = (\<lambda>path source. \<lparr>rw_path = path, rw_source = source, rw_vendor = JUndef\<rparr>);
         given_paths = (if jo_allowPathCandidates jo = JBool False then Some []
           else if nullish (jo_pathCandidates jo)
           then Some (map JStr (pathCandidatesFromEnv (envValue env ''PATH'')))
           else js_iter (jo_pathCandidates jo))
     in do {
       paths \<leftarrow> given_paths;
       roots \<leftarrow> programFilesRoots env (jo_programFilesRoots jo);
       Some (dedupeCandidates
         ([plain (jo_configuredPath jo) JS_CONFIGURED_PATH,
           plain (javaExeFromHome (env_get env ''JAVA_HOME'')) JS_JAVA_HOME] @
          map (\<lambda>p. plain (javaExeFromPathEntry p) JS_PATH) paths @
          concat (map (programFilesJavaCandidates jo) roots))
         (jo_allowNetworkPaths jo))
     })"

section \<open>What a Java says of its version\<close>

text \<open>\<open>s.match(r)\<close>: the captures of the first match.\<close>

fun re_match_from :: "re \<Rightarrow> string \<Rightarrow> string \<Rightarrow> captures option" where
  "re_match_from r b [] = (case rm r (b, [], []) of [] \<Rightarrow> None | (_, _, c) # _ \<Rightarrow> Some c)"
| "re_match_from r b (x # xs) =
    (case rm r (b, x # xs, []) of [] \<Rightarrow> re_match_from r (x # b) xs | (_, _, c) # _ \<Rightarrow> Some c)"

definition quoted_version :: re where
  "quoted_version = cats [liti ''version'', plus1 (Chr is_space), Chr (\<lambda>x. x = CHR 0x22),
     Cap 1 (plus1 (Chr (\<lambda>x. x \<noteq> CHR 0x22))), Chr (\<lambda>x. x = CHR 0x22)]"

definition openjdk_version :: re where
  "openjdk_version = cats [liti ''openjdk'', plus1 (Chr is_space),
     Cap 1 (Cat (Chr is_digit) (star (Chr (\<lambda>x. \<not> is_space x))))]"

definition majorVersionFromJavaVersion :: "string \<Rightarrow> int option" where
  "majorVersionFromJavaVersion version =
    (let parts = js_split CHR ''.'' version in
     case parse_int (hd parts) of
       None \<Rightarrow> None
     | Some first \<Rightarrow> if first = 1 \<and> length parts > 1 then parse_int (parts ! 1) else Some first)"

definition parseJavaVersionOutput :: "jsval \<Rightarrow> (string \<times> int) option" where
  "parseJavaVersionOutput output =
    (let text_of = js_string (coalesce output (JStr []));
         found_version = (case re_match_from quoted_version [] text_of of
             Some c \<Rightarrow> Some (cap c 1)
           | None \<Rightarrow> map_option (\<lambda>c. cap c 1) (re_match_from openjdk_version [] text_of))
     in case found_version of
          None \<Rightarrow> None
        | Some version \<Rightarrow> if version = [] then None
            else map_option (\<lambda>major. (version, major)) (majorVersionFromJavaVersion version))"

definition probeJavaCandidate :: "java_options \<Rightarrow> java_candidate \<Rightarrow> (string \<times> int) option" where
  "probeJavaCandidate jo candidate =
    (let parsed = (\<lambda>stdout stderr. parseJavaVersionOutput (JStr
           (js_string (coalesce stdout (JStr [])) @ [CHR 0x0A] @ js_string (coalesce stderr (JStr [])))))
     in case jo_execFile jo (jc_path candidate) of
          Java_answered stdout stderr \<Rightarrow> parsed stdout stderr
        | Java_threw stdout stderr \<Rightarrow> parsed stdout stderr)"

section \<open>The search\<close>

record java_found =
  jf_path :: string
  jf_majorVersion :: int
  jf_version :: string
  jf_vendor :: jsval
  jf_source :: java_source

definition java_failure_message :: "host_failure \<Rightarrow> jsval" where
  "java_failure_message reason =
    (if reason = HF_JAVA_MISSING then JStr ''Install Java 21 or newer before opening this room.''
     else if reason = HF_JAVA_INCOMPATIBLE then JStr ''Update Java before opening this room.''
     else JUndef)"

definition java_fail :: "host_failure \<Rightarrow> jsval \<Rightarrow> jsval" where
  "java_fail reason detail = JObj [(''ok'', JBool False), (''failure'', JObj
     [(''reason'', JStr (host_failure_str reason)), (''message'', java_failure_message reason), (''detail'', detail)])]"

text \<open>
  The candidates in turn, up to the first that is new enough: that one, or the first that told of a
  version at all. The second component lists the paths that were run; it is no variable of the program.
\<close>

definition new_enough :: "jsval \<Rightarrow> int \<Rightarrow> bool" where
  "new_enough minimumMajorVersion majorVersion = num_le (js_number minimumMajorVersion) (Fin (of_int majorVersion))"

type_synonym probed = "java_candidate \<times> string \<times> int"

fun probe_candidates :: "java_options \<Rightarrow> jsval \<Rightarrow> probed option \<Rightarrow> java_candidate list \<Rightarrow> (probed option + probed) \<times> string list" where
  "probe_candidates jo minimumMajorVersion bestIncompatible [] = (Inl bestIncompatible, [])"
| "probe_candidates jo minimumMajorVersion bestIncompatible (candidate # more_candidates) =
    (case probeJavaCandidate jo candidate of
       None \<Rightarrow> apsnd (Cons (jc_path candidate)) (probe_candidates jo minimumMajorVersion bestIncompatible more_candidates)
     | Some (version, majorVersion) \<Rightarrow>
         if new_enough minimumMajorVersion majorVersion
         then (Inr (candidate, version, majorVersion), [jc_path candidate])
         else apsnd (Cons (jc_path candidate)) (probe_candidates jo minimumMajorVersion
           (if bestIncompatible = None then Some (candidate, version, majorVersion) else bestIncompatible) more_candidates))"

definition trusted_candidates :: "jsval \<Rightarrow> java_candidate list \<Rightarrow> java_candidate list option" where
  "trusted_candidates trustedSources candidates =
    (if truthy trustedSources
     then map_option (\<lambda>trusted. filter (\<lambda>candidate. JStr (java_source_str (jc_source candidate)) \<in> set trusted) candidates)
       (js_iter trustedSources)
     else Some candidates)"

definition detectWindowsJava :: "java_options \<Rightarrow> ((jsval + java_found) \<times> string list) option" where
  "detectWindowsJava jo =
    (let minimumMajorVersion = coalesce (jo_minimumMajorVersion jo) (JNum MINIMUM_JAVA_MAJOR) in do {
       candidates \<leftarrow> createWindowsJavaCandidates jo;
       candidatesToProbe \<leftarrow> trusted_candidates (jo_trustedSources jo) candidates;
       Some (case probe_candidates jo minimumMajorVersion None candidatesToProbe of
           (Inr (candidate, version, majorVersion), tried) \<Rightarrow>
             (Inr \<lparr>jf_path = jc_path candidate, jf_majorVersion = majorVersion, jf_version = version,
                jf_vendor = jc_vendor candidate, jf_source = jc_source candidate\<rparr>, tried)
         | (Inl (Some (candidate, _, majorVersion)), tried) \<Rightarrow>
             (Inl (java_fail HF_JAVA_INCOMPATIBLE (JObj [(''path'', JStr (jc_path candidate)),
                (''majorVersion'', JNum majorVersion), (''minimumMajorVersion'', minimumMajorVersion),
                (''source'', JStr (java_source_str (jc_source candidate)))])), tried)
         | (Inl None, tried) \<Rightarrow>
             (Inl (java_fail HF_JAVA_MISSING (JObj [(''minimumMajorVersion'', minimumMajorVersion),
                (''searchedCandidates'', JArr (map (\<lambda>c. JStr (jc_path c)) candidatesToProbe))])), tried))
     })"

end
