(* ===== verification/JavaDetection_Props.thy ===== *)
theory JavaDetection_Props
  imports JavaDetection
begin

text \<open>
  What the search for a Java guarantees: only whole paths without a way up are run, each once, in the
  order of the candidates, and none after the first that is new enough.
\<close>

section \<open>Paths that are run\<close>

definition runnable_path :: "jsval \<Rightarrow> string \<Rightarrow> bool" where
  "runnable_path allowNetworkPaths p \<longleftrightarrow> CHR 0x00 \<notin> set p \<and> CHR 0x5C \<notin> set p \<and> \<not> hasParentPathSegment p \<and>
     (drive_start p \<or> (allowNetworkPaths = JBool True \<and> js_startsWith p ''//''))"

lemma collapse_drive: "drive_start p \<Longrightarrow> drive_start (collapse_slashes (unify_slashes p)) \<and> \<not> js_startsWith (unify_slashes p) ''//''"
proof -
  assume "drive_start p"
  then obtain x z rest where p: "p = x # CHR '':'' # z # rest" "is_upper x \<or> is_lower x" "z = CHR 0x5C \<or> z = CHR ''/''"
    by (auto simp: drive_start_def split: list.splits)
  have x: "x \<noteq> CHR ''/''" "x \<noteq> CHR 0x5C" using p(2) by (auto simp: is_upper_def is_lower_def between_def)
  have "collapse_slashes (CHR ''/'' # s) \<noteq> [] \<and> hd (collapse_slashes (CHR ''/'' # s)) = CHR ''/''" for s
    using hd_collapse [of "CHR ''/'' # s"] by simp
  then obtain more_text where m: "collapse_slashes (CHR ''/'' # unify_slashes rest) = CHR ''/'' # more_text"
    by (metis list.collapse)
  have "collapse_slashes (unify_slashes p) = x # CHR '':'' # CHR ''/'' # more_text"
    using p x m by (auto simp: unify_slashes_def collapse_Cons)
  then show ?thesis using p x by (auto simp: drive_start_def unify_slashes_def)
qed

lemma network_unified: "network_path (CHR 0x5C) p \<or> network_path (CHR ''/'') p \<Longrightarrow> js_startsWith (unify_slashes p) ''//''"
  by (auto simp: network_path_def unify_slashes_def split: list.splits)

lemma split_drop: "set (js_split c s) \<subseteq> set (js_split c (p @ c # s))"
  by (simp add: split_append)

lemma split_network: "js_startsWith s ''//'' \<Longrightarrow> set (js_split CHR ''/'' (drop 2 s)) \<subseteq> set (js_split CHR ''/'' s)"
proof -
  assume "js_startsWith s ''//''"
  then obtain r where s: "s = ''//'' @ r" by (auto simp: js_startsWith_prefix prefix_def)
  show ?thesis using split_append [of "CHR ''/''" "''/''" r] by (auto simp: s)
qed

lemma split_start: "set (js_split CHR ''/'' (''//'' @ s)) = insert [] (set (js_split CHR ''/'' s))"
  by simp

lemma normalize_unified: "CHR 0x5C \<notin> set (normalizeWindows s)"
proof -
  have "CHR 0x5C \<notin> set (collapse_slashes b)" if "CHR 0x5C \<notin> set b" for b using that set_collapse by blast
  moreover have "CHR 0x5C \<notin> set (drop 2 (unify_slashes (js_trim s)))" by (meson backslash_unify in_set_dropD)
  ultimately show ?thesis by (auto simp: normalizeWindows_def Let_def)
qed

lemma normalized_runnable:
  assumes "isSafeCandidatePath (JStr s) allowNetworkPaths"
  shows "runnable_path allowNetworkPaths (normalizeWindows s)"
proof -
  define p where "p = js_trim s"
  define u where "u = unify_slashes p"
  have safe: "CHR 0x00 \<notin> set p" "\<not> hasParentPathSegment p"
    "drive_start p \<or> (allowNetworkPaths = JBool True \<and> (network_path (CHR 0x5C) p \<or> network_path (CHR ''/'') p))"
    using assms by (auto simp: isSafeCandidatePath_def p_def Let_def)
  have u: "CHR 0x00 \<notin> set u" "''..'' \<notin> set (js_split CHR ''/'' u)"
    using safe(1,2) by (auto simp: u_def unify_slashes_def hasParentPathSegment_def)
  have n: "normalizeWindows s = (if js_startsWith u ''//'' then ''//'' @ collapse_slashes (drop 2 u) else collapse_slashes u)"
    by (simp add: normalizeWindows_def u_def p_def Let_def)
  have zero: "CHR 0x00 \<notin> set (normalizeWindows s)"
    using u(1) set_collapse by (auto simp: n dest!: in_set_dropD subsetD [OF set_collapse])
  have "''..'' \<notin> set (js_split CHR ''/'' (normalizeWindows s))"
  proof (cases "js_startsWith u ''//''")
    case True
    then have "''..'' \<notin> set (js_split CHR ''/'' (collapse_slashes (drop 2 u)))"
      using u(2) split_collapse split_network by blast
    with True show ?thesis unfolding n by simp
  next
    case False
    with u(2) split_collapse [of u] show ?thesis by (auto simp: n)
  qed
  moreover have "unify_slashes (normalizeWindows s) = normalizeWindows s"
    by (rule unify_no_backslash [OF normalize_unified])
  moreover have "drive_start (normalizeWindows s) \<or> (allowNetworkPaths = JBool True \<and> js_startsWith (normalizeWindows s) ''//'')"
    using safe(3) collapse_drive [of p] network_unified [of p] by (auto simp: n u_def)
  ultimately show ?thesis using zero normalize_unified [of s] by (simp add: runnable_path_def hasParentPathSegment_def)
qed

section \<open>Candidates\<close>

lemma safe_is_text: "isSafeCandidatePath v a \<Longrightarrow> v = JStr (js_string v)"
  by (cases v) (auto simp: isSafeCandidatePath_def)

lemma dedupe_runnable: "c \<in> set (dedupe_from a seen cs) \<Longrightarrow> runnable_path a (jc_path c)"
proof (induction a seen cs rule: dedupe_from.induct)
  case (2 a seen candidate cs)
  have "runnable_path a (normalizeWindows (js_string (rw_path candidate)))" if "isSafeCandidatePath (rw_path candidate) a"
    using that safe_is_text [OF that] by (metis normalized_runnable)
  with 2 show ?case by (auto simp: Let_def split: if_splits)
qed simp

abbreviation path_key :: "java_candidate \<Rightarrow> string" where
  "path_key c \<equiv> toLowerCase (jc_path c)"

lemma dedupe_distinct:
  "distinct (map path_key (dedupe_from a seen cs)) \<and> set (map path_key (dedupe_from a seen cs)) \<inter> set seen = {}"
proof (induction a seen cs rule: dedupe_from.induct)
  case (2 a seen candidate cs)
  then show ?case by (auto simp: Let_def)
qed simp

text \<open>No safe candidate is lost.\<close>

lemma dedupe_complete:
  "c \<in> set cs \<Longrightarrow> isSafeCandidatePath (rw_path c) a \<Longrightarrow>
     toLowerCase (normalizeWindows (js_string (rw_path c))) \<in> set seen \<union> set (map path_key (dedupe_from a seen cs))"
proof (induction a seen cs rule: dedupe_from.induct)
  case (2 a seen candidate cs)
  then show ?case by (auto simp: Let_def)
qed simp

section \<open>The search\<close>

definition fits :: "java_options \<Rightarrow> jsval \<Rightarrow> java_candidate \<Rightarrow> bool" where
  "fits jo minimumMajorVersion c =
    (case probeJavaCandidate jo c of None \<Rightarrow> False | Some (version, major) \<Rightarrow> new_enough minimumMajorVersion major)"

lemma probe_found:
  "probe_candidates jo m best cs = (Inr (c, version, major), tried) \<Longrightarrow>
     \<exists>pre post. cs = pre @ c # post \<and> tried = map jc_path (pre @ [c]) \<and>
       probeJavaCandidate jo c = Some (version, major) \<and> new_enough m major \<and> (\<forall>d \<in> set pre. \<not> fits jo m d)"
proof (induction jo m best cs arbitrary: tried rule: probe_candidates.induct)
  case (2 jo m best candidate cs)
  show ?case
  proof (cases "fits jo m candidate")
    case True
    with 2(3) show ?thesis
      by (intro exI [of _ "[]"] exI [of _ cs]) (auto simp: fits_def split: option.splits prod.splits)
  next
    case False
    then obtain best' t where "probe_candidates jo m best' cs = (Inr (c, version, major), t)" "tried = jc_path candidate # t"
      and ih: "\<exists>pre post. cs = pre @ c # post \<and> t = map jc_path (pre @ [c]) \<and>
        probeJavaCandidate jo c = Some (version, major) \<and> new_enough m major \<and> (\<forall>d \<in> set pre. \<not> fits jo m d)"
      using 2 by (fastforce simp: fits_def apsnd_def map_prod_def split: option.splits prod.splits if_splits)
    from ih obtain pre post where "cs = pre @ c # post" "t = map jc_path (pre @ [c])"
      "probeJavaCandidate jo c = Some (version, major)" "new_enough m major" "\<forall>d \<in> set pre. \<not> fits jo m d"
      by blast
    with \<open>tried = _\<close> False show ?thesis by (intro exI [of _ "candidate # pre"] exI [of _ post]) simp
  qed
qed simp

lemma probe_failed:
  "probe_candidates jo m best cs = (Inl b, tried) \<Longrightarrow>
     tried = map jc_path cs \<and> (\<forall>d \<in> set cs. \<not> fits jo m d) \<and>
     (b = None \<longleftrightarrow> best = None \<and> (\<forall>d \<in> set cs. probeJavaCandidate jo d = None))"
proof (induction jo m best cs arbitrary: tried rule: probe_candidates.induct)
  case (2 jo m best candidate cs)
  show ?case
  proof (cases "probeJavaCandidate jo candidate")
    case None
    with 2(1,3) show ?thesis by (fastforce simp: fits_def apsnd_def map_prod_def split: prod.splits)
  next
    case (Some p)
    obtain version major where p: "p = (version, major)" by fastforce
    show ?thesis
    proof (cases "new_enough m major")
      case True
      with 2(3) Some p show ?thesis by simp
    next
      case False
      with 2(2) [OF Some, of version major] 2(3) Some p show ?thesis
        by (fastforce simp: fits_def apsnd_def map_prod_def split: prod.splits if_splits)
    qed
  qed
qed auto

section \<open>Properties\<close>

text \<open>
  C37. The search runs only whole, normalised paths without a way up, on a drive or, when allowed, on
  the network, and none twice, not even in other letters. It tries the trusted candidates in order: a
  Java that is found is the first that is new enough, and nothing was run after it; when none is found
  all of them were run, none is new enough, and the reason says whether any told of its version.
\<close>

theorem java_search_result:
  assumes run: "detectWindowsJava jo = Some (result, tried)"
  shows "(\<forall>p \<in> set tried. runnable_path (jo_allowNetworkPaths jo) p) \<and> distinct (map toLowerCase tried) \<and>
    (\<exists>candidates places minimum. createWindowsJavaCandidates jo = Some candidates \<and>
      trusted_candidates (jo_trustedSources jo) candidates = Some places \<and>
      minimum = coalesce (jo_minimumMajorVersion jo) (JNum MINIMUM_JAVA_MAJOR) \<and>
      (case result of
         Inr java \<Rightarrow> \<exists>pre c post. places = pre @ c # post \<and> tried = map jc_path (pre @ [c]) \<and>
           probeJavaCandidate jo c = Some (jf_version java, jf_majorVersion java) \<and>
           new_enough minimum (jf_majorVersion java) \<and> (\<forall>d \<in> set pre. \<not> fits jo minimum d) \<and>
           jf_path java = jc_path c \<and> jf_source java = jc_source c
       | Inl failure \<Rightarrow> tried = map jc_path places \<and> (\<forall>d \<in> set places. \<not> fits jo minimum d) \<and>
           jget (jget failure ''failure'') ''reason'' = JStr (host_failure_str
             (if \<forall>d \<in> set places. probeJavaCandidate jo d = None then HF_JAVA_MISSING else HF_JAVA_INCOMPATIBLE))))"
proof -
  define minimum where "minimum = coalesce (jo_minimumMajorVersion jo) (JNum MINIMUM_JAVA_MAJOR)"
  obtain candidates places where c: "createWindowsJavaCandidates jo = Some candidates"
    and p: "trusted_candidates (jo_trustedSources jo) candidates = Some places"
    using run by (auto simp: detectWindowsJava_def bind_eq_Some_conv Let_def)
  obtain found t where probe: "probe_candidates jo minimum None places = (found, t)" by fastforce
  have t: "t = tried" using run c p probe
    by (auto simp: detectWindowsJava_def Let_def minimum_def [symmetric] split: sum.splits option.splits prod.splits)
  obtain raw where raw: "candidates = dedupe_from (jo_allowNetworkPaths jo) [] raw"
    using c by (auto simp: createWindowsJavaCandidates_def dedupeCandidates_def bind_eq_Some_conv Let_def simp del: dedupe_from.simps)
  obtain P where P: "places = filter P candidates"
    using p that [of "\<lambda>_. True"] by (auto simp: trusted_candidates_def split: if_splits)
  have part: "\<exists>rest. places = map_places @ rest \<Longrightarrow> tried = map jc_path map_places \<Longrightarrow>
      (\<forall>q \<in> set tried. runnable_path (jo_allowNetworkPaths jo) q) \<and> distinct (map toLowerCase tried)" for map_places
  proof -
    assume "\<exists>rest. places = map_places @ rest" and tr: "tried = map jc_path map_places"
    then obtain rest where "places = map_places @ rest" by blast
    moreover have "distinct (map path_key places)"
      unfolding P using dedupe_distinct [of "jo_allowNetworkPaths jo" "[]" raw] by (simp add: raw distinct_map_filter)
    moreover have "set places \<subseteq> set candidates" by (simp add: P)
    ultimately have "distinct (map path_key map_places)" "set map_places \<subseteq> set candidates" by auto
    with tr dedupe_runnable show ?thesis by (auto simp: raw comp_def)
  qed
  show ?thesis
  proof (cases found)
    case (Inl b)
    note f = probe_failed [OF probe [unfolded Inl t]]
    then have b: "(b = None) = (\<forall>d \<in> set places. probeJavaCandidate jo d = None)" by simp
    obtain failure where r: "result = Inl failure" and reason: "jget (jget failure ''failure'') ''reason'' =
        JStr (host_failure_str (if b = None then HF_JAVA_MISSING else HF_JAVA_INCOMPATIBLE))"
      using run c p probe Inl by (auto simp: detectWindowsJava_def Let_def minimum_def [symmetric] java_fail_def split: option.splits)
    have safe: "(\<forall>q \<in> set tried. runnable_path (jo_allowNetworkPaths jo) q) \<and> distinct (map toLowerCase tried)"
      using part [of places] f by simp
    show ?thesis
      by (rule conjI [OF safe [THEN conjunct1]], rule conjI [OF safe [THEN conjunct2]], rule exI [of _ candidates],
          rule exI [of _ places], rule exI [of _ minimum])
        (use c p f reason in \<open>simp only: r minimum_def sum.case b simp_thms, blast\<close>)
  next
    case (Inr q)
    obtain d version major where q: "q = (d, version, major)" by (cases q) auto
    from probe_found [OF probe [unfolded Inr q t]] obtain pre post where f: "places = pre @ d # post"
      "tried = map jc_path (pre @ [d])" "probeJavaCandidate jo d = Some (version, major)" "new_enough minimum major"
      "\<forall>e \<in> set pre. \<not> fits jo minimum e" by blast
    have "result = Inr \<lparr>jf_path = jc_path d, jf_majorVersion = major, jf_version = version,
        jf_vendor = jc_vendor d, jf_source = jc_source d\<rparr>"
      using run c p probe Inr q by (auto simp: detectWindowsJava_def Let_def minimum_def [symmetric])
    with part [of "pre @ [d]"] f c p show ?thesis by (fastforce simp: minimum_def)
  qed
qed

definition demo_java :: java_options where
  "demo_java = \<lparr>jo_minimumMajorVersion = JUndef, jo_env = [(''JAVA_HOME'', JStr ''C:/jdk'')],
     jo_configuredPath = JStr ''D:/old.exe'', jo_pathCandidates = JUndef, jo_programFilesRoots = JArr [],
     jo_allowPathCandidates = JBool False, jo_allowNetworkPaths = JUndef, jo_trustedSources = JUndef,
     jo_exists = (\<lambda>_. False), jo_readdir = (\<lambda>_. None),
     jo_execFile = (\<lambda>path. if path = ''D:/old.exe'' then Java_threw JUndef JUndef
       else Java_answered JUndef (JStr ''openjdk 21''))\<rparr>"

lemma demo_java_runs: "detectWindowsJava demo_java = Some (Inr \<lparr>jf_path = ''C:/jdk/bin/java.exe'', jf_majorVersion = 21,
    jf_version = ''21'', jf_vendor = JNull, jf_source = JS_JAVA_HOME\<rparr>, [''D:/old.exe'', ''C:/jdk/bin/java.exe''])"
  by code_simp

theorem java_search_result_witness:
  "\<exists>java tried. detectWindowsJava demo_java = Some (Inr java, tried) \<and> distinct (map toLowerCase tried) \<and>
     length tried = 2 \<and> (\<exists>c. jf_path java = jc_path c \<and> probeJavaCandidate demo_java c = Some (''21'', 21))"
  using java_search_result [OF demo_java_runs] demo_java_runs by fastforce

end
