(* ===== verification/PgTables.thy ===== *)
theory PgTables
  imports MemoryStore JsNumber Effects
begin

text \<open>
  The tables of \<open>services/control-plane/src/persistence/postgres/schema.sql\<close> and the SQL texts of
  \<open>repository.mjs\<close> beside it, read as PostgreSQL documents them. A row is a map from its columns to
  their cells, \<open>JNull\<close> is \<open>NULL\<close>. What the driver makes of a parameter and of a cell it reads, and
  whether the service refuses a statement for any other reason than the schema, are parameters
  (\<open>pg_driver\<close>). One connection is modelled at a time; transactions of other connections are not.
\<close>

section \<open>Rows\<close>

type_synonym pg_row = "(string, jsval) jsmap"

datatype pg_table = T_rooms | T_invites | T_approvals | T_sessions | T_presence

definition cell :: "pg_row \<Rightarrow> string \<Rightarrow> jsval" where
  "cell r c = (case jm_get r c of None \<Rightarrow> JNull | Some v \<Rightarrow> v)"

definition sql_eq :: "jsval \<Rightarrow> jsval \<Rightarrow> bool" where
  "sql_eq a b \<longleftrightarrow> a \<noteq> JNull \<and> b \<noteq> JNull \<and> a = b"

definition sql_le :: "jsval \<Rightarrow> jsval \<Rightarrow> bool" where
  "sql_le a b = (case (a, b) of (JNum m, JNum n) \<Rightarrow> m \<le> n | _ \<Rightarrow> False)"

definition sql_greater :: "jsval \<Rightarrow> jsval \<Rightarrow> bool" where
  "sql_greater a b = (case (a, b) of (JNum m, JNum n) \<Rightarrow> m > n | _ \<Rightarrow> False)"

section \<open>The schema\<close>

text \<open>The columns in the order of the \<open>INSERT\<close>, the primary key, the columns that must not be \<open>NULL\<close>.\<close>

primrec pg_columns :: "pg_table \<Rightarrow> string list" where
  "pg_columns T_rooms = [''id'', ''host_id'', ''alias'', ''minecraft_version'', ''pack_profile_name'', ''state'', ''created_at'', ''updated_at'']"
| "pg_columns T_invites = [''id'', ''room_id'', ''token_hash'', ''state'', ''created_at'', ''expires_at'', ''revoked_at'']"
| "pg_columns T_approvals = [''id'', ''room_id'', ''invite_id'', ''friend_id'', ''minecraft_uuid'', ''display_name'', ''state'', ''created_at'', ''decided_at'']"
| "pg_columns T_sessions = [''id'', ''room_id'', ''invite_id'', ''request_id'', ''minecraft_uuid'', ''session_credential_hash'', ''state'', ''issued_at'', ''expires_at'']"
| "pg_columns T_presence = [''room_id'', ''host_id'', ''state'', ''last_seen_at'', ''expires_at'']"

primrec pg_key :: "pg_table \<Rightarrow> string" where
  "pg_key T_rooms = ''id''" | "pg_key T_invites = ''id''" | "pg_key T_approvals = ''id''"
| "pg_key T_sessions = ''id''" | "pg_key T_presence = ''room_id''"

primrec pg_required :: "pg_table \<Rightarrow> string list" where
  "pg_required T_rooms = [''id'', ''host_id'', ''state'', ''created_at'']"
| "pg_required T_invites = [''id'', ''room_id'', ''token_hash'', ''state'', ''created_at'']"
| "pg_required T_approvals = [''id'', ''room_id'', ''invite_id'', ''minecraft_uuid'', ''state'', ''created_at'']"
| "pg_required T_sessions = [''id'', ''room_id'', ''invite_id'', ''request_id'', ''minecraft_uuid'', ''state'', ''issued_at'']"
| "pg_required T_presence = [''room_id'', ''host_id'', ''state'', ''last_seen_at'', ''expires_at'']"

text \<open>Columns whose cells occur once, beside the primary key; foreign keys.\<close>

primrec pg_unique :: "pg_table \<Rightarrow> string list" where
  "pg_unique T_rooms = []" | "pg_unique T_invites = [''token_hash'']" | "pg_unique T_approvals = []"
| "pg_unique T_sessions = [''request_id'']" | "pg_unique T_presence = []"

primrec pg_references :: "pg_table \<Rightarrow> (string list \<times> pg_table \<times> string list) list" where
  "pg_references T_rooms = []"
| "pg_references T_invites = [([''room_id''], T_rooms, [''id''])]"
| "pg_references T_approvals = [([''room_id''], T_rooms, [''id'']), ([''invite_id'', ''room_id''], T_invites, [''id'', ''room_id''])]"
| "pg_references T_sessions = [([''room_id''], T_rooms, [''id'']),
     ([''request_id'', ''room_id'', ''invite_id''], T_approvals, [''id'', ''room_id'', ''invite_id''])]"
| "pg_references T_presence = [([''room_id'', ''host_id''], T_rooms, [''id'', ''host_id''])]"

section \<open>The statements\<close>

text \<open>
  \<open>DO UPDATE SET\<close>, and the columns that its \<open>WHERE\<close> compares: as they are, and with \<open>NULL\<close> as the
  empty text.
\<close>

primrec pg_sets :: "pg_table \<Rightarrow> string list" where
  "pg_sets T_rooms = [''alias'', ''minecraft_version'', ''pack_profile_name'', ''state'', ''updated_at'']"
| "pg_sets T_invites = [''state'', ''expires_at'', ''revoked_at'']"
| "pg_sets T_approvals = [''display_name'', ''state'', ''decided_at'']"
| "pg_sets T_sessions = [''state'', ''expires_at'']"
| "pg_sets T_presence = [''state'', ''last_seen_at'', ''expires_at'']"

primrec pg_compared :: "pg_table \<Rightarrow> string list" where
  "pg_compared T_rooms = [''host_id'']"
| "pg_compared T_invites = [''room_id'', ''token_hash'']"
| "pg_compared T_approvals = [''room_id'', ''invite_id'', ''minecraft_uuid'']"
| "pg_compared T_sessions = [''room_id'', ''invite_id'', ''request_id'', ''minecraft_uuid'']"
| "pg_compared T_presence = [''host_id'']"

primrec pg_compared_text :: "pg_table \<Rightarrow> string list" where
  "pg_compared_text T_rooms = []" | "pg_compared_text T_invites = []" | "pg_compared_text T_approvals = [''friend_id'']"
| "pg_compared_text T_sessions = [''session_credential_hash'']" | "pg_compared_text T_presence = []"

record pg_tables =
  pt_rows :: "pg_table \<Rightarrow> pg_row list"
  pt_rates :: "rate_counter list"
  pt_audit :: "pg_row list"

definition same_identity :: "pg_table \<Rightarrow> pg_row \<Rightarrow> pg_row \<Rightarrow> bool" where
  "same_identity T old new \<longleftrightarrow>
     list_all (\<lambda>c. sql_eq (cell old c) (cell new c)) (pg_compared T) \<and>
     list_all (\<lambda>c. coalesce (cell old c) (JStr []) = coalesce (cell new c) (JStr [])) (pg_compared_text T)"

definition row_set :: "string list \<Rightarrow> pg_row \<Rightarrow> pg_row \<Rightarrow> pg_row" where
  "row_set cs old new = map (\<lambda>(c, v). (c, if c \<in> set cs then cell new c else v)) old"

definition find_row :: "string \<Rightarrow> jsval \<Rightarrow> pg_row list \<Rightarrow> pg_row option" where
  "find_row c v = List.find (\<lambda>r. sql_eq (cell r c) v)"

definition refers :: "pg_tables \<Rightarrow> pg_row \<Rightarrow> string list \<times> pg_table \<times> string list \<Rightarrow> bool" where
  "refers t r reference = (case reference of (cs, T, ds) \<Rightarrow>
     list_ex (\<lambda>x. map (cell r) cs = map (cell x) ds) (pt_rows t T))"

text \<open>What the schema refuses: a missing cell, and for a new row a repeated one or a missing reference.\<close>

definition violates :: "pg_tables \<Rightarrow> pg_table \<Rightarrow> pg_row \<Rightarrow> bool" where
  "violates t T new \<longleftrightarrow> list_ex (\<lambda>c. cell new c = JNull) (pg_required T) \<or>
     (find_row (pg_key T) (cell new (pg_key T)) (pt_rows t T) = None \<and>
      (list_ex (\<lambda>c. find_row c (cell new c) (pt_rows t T) \<noteq> None) (pg_unique T) \<or>
       \<not> list_all (refers t new) (pg_references T)))"

definition rows_upsert :: "pg_table \<Rightarrow> pg_row \<Rightarrow> pg_row list \<Rightarrow> pg_row list \<times> pg_row list" where
  "rows_upsert T new rows =
    (let k = pg_key T in
     case find_row k (cell new k) rows of
       None \<Rightarrow> ([new], rows @ [new])
     | Some old \<Rightarrow>
         if same_identity T old new
         then ([row_set (pg_sets T) old new],
           map (\<lambda>r. if sql_eq (cell r k) (cell new k) then row_set (pg_sets T) old new else r) rows)
         else ([], rows))"

text \<open>A statement gives \<open>Inl\<close> when the schema refuses it; otherwise what it returns, and the tables.\<close>

definition sql_upsert :: "pg_table \<Rightarrow> jsval list \<Rightarrow> pg_tables \<Rightarrow> string + pg_row list \<times> pg_tables" where
  "sql_upsert T params t =
    (let new = zip (pg_columns T) params in
     if violates t T new then Inl ''constraint violated''
     else case rows_upsert T new (pt_rows t T) of
       (returned, rows) \<Rightarrow> Inr (returned, t\<lparr>pt_rows := (pt_rows t)(T := rows)\<rparr>))"

definition sql_select :: "pg_table \<Rightarrow> string \<Rightarrow> jsval \<Rightarrow> pg_tables \<Rightarrow> string + pg_row list \<times> pg_tables" where
  "sql_select T c v t = Inr (filter (\<lambda>r. sql_eq (cell r c) v) (pt_rows t T), t)"

definition sql_select_presence :: "jsval \<Rightarrow> jsval \<Rightarrow> pg_tables \<Rightarrow> string + pg_row list \<times> pg_tables" where
  "sql_select_presence roomId now t =
     Inr (filter (\<lambda>r. sql_eq (cell r ''room_id'') roomId \<and> sql_greater (cell r ''expires_at'') now) (pt_rows t T_presence), t)"

definition same_signal :: "rate_counter \<Rightarrow> rate_counter \<Rightarrow> bool" where
  "same_signal a b \<longleftrightarrow> rc_scope a = rc_scope b \<and> rc_signalHash a = rc_signalHash b"

definition counted :: "rate_counter \<Rightarrow> rate_counter \<Rightarrow> rate_counter" where
  "counted old new = (let over = rc_resetAt old \<le> rc_updatedAt new in
     old\<lparr>rc_count := (if over then 1 else rc_count old + 1), rc_limit := rc_limit new, rc_windowMs := rc_windowMs new,
       rc_resetAt := (if over then rc_resetAt new else rc_resetAt old), rc_updatedAt := rc_updatedAt new\<rparr>)"

definition sql_count_rate :: "rate_counter \<Rightarrow> pg_tables \<Rightarrow> string + rate_counter \<times> pg_tables" where
  "sql_count_rate new t =
    (case List.find (\<lambda>r. same_signal r new) (pt_rates t) of
       None \<Rightarrow> Inr (new, t\<lparr>pt_rates := pt_rates t @ [new]\<rparr>)
     | Some old \<Rightarrow> Inr (counted old new,
         t\<lparr>pt_rates := map (\<lambda>r. if same_signal r new then counted old new else r) (pt_rates t)\<rparr>))"

definition sql_select_rate :: "jsval \<Rightarrow> jsval \<Rightarrow> pg_tables \<Rightarrow> string + rate_counter list \<times> pg_tables" where
  "sql_select_rate scope signalHash t =
     Inr (filter (\<lambda>r. sql_eq (rc_scope r) scope \<and> sql_eq (rc_signalHash r) signalHash) (pt_rates t), t)"

text \<open>
  Deleting what has expired, with the number of rows. Deleting an invite deletes the approvals that
  refer to it, and the sessions that refer to those (\<open>ON DELETE CASCADE\<close>).
\<close>

definition expired_row :: "jsval \<Rightarrow> pg_row \<Rightarrow> bool" where
  "expired_row now r = sql_le (cell r ''expires_at'') now"

definition sql_delete_sessions :: "jsval \<Rightarrow> pg_tables \<Rightarrow> string + nat \<times> pg_tables" where
  "sql_delete_sessions now t = Inr (length (filter (expired_row now) (pt_rows t T_sessions)),
     t\<lparr>pt_rows := (pt_rows t)(T_sessions := filter (\<lambda>r. \<not> expired_row now r) (pt_rows t T_sessions))\<rparr>)"

definition still_referring :: "pg_tables \<Rightarrow> pg_table \<Rightarrow> pg_row list" where
  "still_referring t T = filter (\<lambda>r. list_all (refers t r) (pg_references T)) (pt_rows t T)"

definition cascade :: "pg_table \<Rightarrow> pg_tables \<Rightarrow> pg_tables" where
  "cascade T t = t\<lparr>pt_rows := (pt_rows t)(T := still_referring t T)\<rparr>"

definition unused_invite :: "pg_tables \<Rightarrow> jsval \<Rightarrow> pg_row \<Rightarrow> bool" where
  "unused_invite t now i \<longleftrightarrow> expired_row now i \<and>
     \<not> list_ex (\<lambda>s. sql_eq (cell s ''invite_id'') (cell i ''id'')) (pt_rows t T_sessions)"

definition sql_delete_invites :: "jsval \<Rightarrow> pg_tables \<Rightarrow> string + nat \<times> pg_tables" where
  "sql_delete_invites now t = Inr (length (filter (unused_invite t now) (pt_rows t T_invites)),
     cascade T_sessions (cascade T_approvals
       (t\<lparr>pt_rows := (pt_rows t)(T_invites := filter (\<lambda>i. \<not> unused_invite t now i) (pt_rows t T_invites))\<rparr>)))"

definition sql_delete_presence :: "jsval \<Rightarrow> pg_tables \<Rightarrow> string + nat \<times> pg_tables" where
  "sql_delete_presence now t = Inr (length (filter (expired_row now) (pt_rows t T_presence)),
     t\<lparr>pt_rows := (pt_rows t)(T_presence := filter (\<lambda>r. \<not> expired_row now r) (pt_rows t T_presence))\<rparr>)"

definition sql_delete_rates :: "jsval \<Rightarrow> pg_tables \<Rightarrow> string + nat \<times> pg_tables" where
  "sql_delete_rates now t = (let over = (\<lambda>c. sql_le (JNum (rc_resetAt c)) now) in
     Inr (length (filter over (pt_rates t)), t\<lparr>pt_rates := filter (\<lambda>c. \<not> over c) (pt_rates t)\<rparr>))"

definition audit_columns :: "string list" where
  "audit_columns = [''id'', ''type'', ''actor_id'', ''room_id'', ''invite_id'', ''request_id'', ''session_id_hash'', ''metadata'', ''occurred_at'']"

definition sql_insert_audit :: "jsval list \<Rightarrow> pg_tables \<Rightarrow> string + unit \<times> pg_tables" where
  "sql_insert_audit params t =
    (let new = zip audit_columns params in
     if list_ex (\<lambda>c. cell new c = JNull) [''id'', ''type'', ''metadata'', ''occurred_at''] \<or>
       find_row ''id'' (cell new ''id'') (pt_audit t) \<noteq> None
     then Inl ''constraint violated'' else Inr ((), t\<lparr>pt_audit := pt_audit t @ [new]\<rparr>))"

text \<open>Rows of the same time come in the order in which they were inserted; the service promises none.\<close>

definition cell_number :: "jsval \<Rightarrow> int" where
  "cell_number v = (case v of JNum n \<Rightarrow> n | _ \<Rightarrow> 0)"

definition sql_select_audit :: "(string \<times> jsval) list \<Rightarrow> pg_tables \<Rightarrow> string + pg_row list \<times> pg_tables" where
  "sql_select_audit conditions t =
     Inr (sort_key (\<lambda>r. cell_number (cell r ''occurred_at''))
       (filter (\<lambda>r. list_all (\<lambda>(c, v). sql_eq (cell r c) v) conditions) (pt_audit t)), t)"

end
