(* ===== verification/PgRepository.thy ===== *)
theory PgRepository
  imports PgTables
begin

text \<open>
  \<open>services/control-plane/src/persistence/postgres/repository.mjs\<close>: the control plane's store on
  PostgreSQL, over the tables of theory \<open>PgTables\<close>. The state is that of the one connection in use:
  its tables, those to which a rollback returns, and whether a statement of the transaction has failed.
  \<open>pw_clients\<close> counts the clients that are taken from the pool; it is no variable of the program.
\<close>

section \<open>The service\<close>

datatype pg_statement = S_begin | S_commit | S_rollback | S_upsert pg_table | S_select pg_table | S_count_rate | S_select_rate
  | S_delete_sessions | S_delete_invites | S_delete_presence | S_delete_rates | S_insert_audit | S_select_audit

record pg_driver =
  pd_sha :: "string \<Rightarrow> string"
  pd_keep :: "string \<Rightarrow> jsval \<Rightarrow> jsval"
  pd_show :: "string \<Rightarrow> jsval \<Rightarrow> jsval"
  pd_connect :: "pg_tables \<Rightarrow> string option"
  pd_refuse :: "pg_statement \<Rightarrow> jsval list \<Rightarrow> pg_tables \<Rightarrow> string option"

record pg_world =
  pw_now :: int
  pw_tables :: pg_tables
  pw_begun :: "(pg_tables \<times> bool) option"
  pw_clients :: int

type_synonym 'a pg_eff = "(pg_world, 'a) eff"

definition pg_error :: "string \<Rightarrow> jsval" where
  "pg_error message = JObj [(''message'', JStr message)]"

definition bound :: "pg_driver \<Rightarrow> string \<Rightarrow> jsval \<Rightarrow> jsval" where
  "bound d c v = (if nullish v then JNull else pd_keep d c v)"

definition pg_shown :: "pg_driver \<Rightarrow> string \<Rightarrow> jsval \<Rightarrow> jsval" where
  "pg_shown d c v = (if v = JNull then JNull else pd_show d c v)"

text \<open>A failed statement spoils the transaction: the service refuses every other until it ends.\<close>

definition pg_failed :: "pg_world \<Rightarrow> pg_world" where
  "pg_failed w = w\<lparr>pw_begun := map_option (\<lambda>(t, _). (t, True)) (pw_begun w)\<rparr>"

definition pg_spoiled :: "pg_world \<Rightarrow> bool" where
  "pg_spoiled w \<longleftrightarrow> (case pw_begun w of Some (_, spoiled) \<Rightarrow> spoiled | None \<Rightarrow> False)"

definition pg_query :: "pg_driver \<Rightarrow> pg_statement \<Rightarrow> jsval list \<Rightarrow> (pg_tables \<Rightarrow> string + 'a \<times> pg_tables) \<Rightarrow> 'a pg_eff" where
  "pg_query d statement params run = (\<lambda>w.
     if pg_spoiled w then (Inl (pg_error ''current transaction is aborted''), w)
     else case pd_refuse d statement params (pw_tables w) of
       Some message \<Rightarrow> (Inl (pg_error message), pg_failed w)
     | None \<Rightarrow> (case run (pw_tables w) of
           Inl message \<Rightarrow> (Inl (pg_error message), pg_failed w)
         | Inr (a, t) \<Rightarrow> (Inr a, w\<lparr>pw_tables := t\<rparr>)))"

definition pg_control :: "pg_driver \<Rightarrow> pg_statement \<Rightarrow> (pg_world \<Rightarrow> pg_world) \<Rightarrow> unit pg_eff" where
  "pg_control d statement f = (\<lambda>w. case pd_refuse d statement [] (pw_tables w) of
     Some message \<Rightarrow> (Inl (pg_error message), w) | None \<Rightarrow> (Inr (), f w))"

text \<open>\<open>COMMIT\<close> of a spoiled transaction rolls it back, without an error.\<close>

definition pg_begin :: "pg_world \<Rightarrow> pg_world" where
  "pg_begin w = (if pw_begun w = None then w\<lparr>pw_begun := Some (pw_tables w, False)\<rparr> else w)"

definition pg_rollback :: "pg_world \<Rightarrow> pg_world" where
  "pg_rollback w = (case pw_begun w of None \<Rightarrow> w | Some (t, _) \<Rightarrow> w\<lparr>pw_tables := t, pw_begun := None\<rparr>)"

definition pg_commit :: "pg_world \<Rightarrow> pg_world" where
  "pg_commit w = (if pg_spoiled w then pg_rollback w else w\<lparr>pw_begun := None\<rparr>)"

section \<open>Transactions\<close>

definition withPgTransaction :: "pg_driver \<Rightarrow> 'a pg_eff \<Rightarrow> 'a pg_eff" where
  "withPgTransaction d operation = (\<lambda>w.
     case pd_connect d (pw_tables w) of
       Some message \<Rightarrow> (Inl (pg_error message), w)
     | None \<Rightarrow>
         (case eff_catch
             (eff_bind (pg_control d S_begin pg_begin) (\<lambda>_.
              eff_bind operation (\<lambda>result.
              eff_bind (pg_control d S_commit pg_commit) (\<lambda>_. eff_return result))))
             (\<lambda>e. eff_bind (pg_control d S_rollback pg_rollback) (\<lambda>_. eff_throw e))
             (w\<lparr>pw_clients := pw_clients w + 1\<rparr>) of
           (r, w') \<Rightarrow> (r, w'\<lparr>pw_clients := pw_clients w' - 1\<rparr>)))"

text \<open>\<open>inTransaction\<close>: the repository was made for the client of a transaction.\<close>

definition runWriteTransaction :: "pg_driver \<Rightarrow> bool \<Rightarrow> 'a pg_eff \<Rightarrow> 'a pg_eff" where
  "runWriteTransaction d inTransaction operation = (if inTransaction then operation else withPgTransaction d operation)"

definition runInServiceTransaction :: "pg_driver \<Rightarrow> bool \<Rightarrow> (bool \<Rightarrow> 'a pg_eff) \<Rightarrow> 'a pg_eff" where
  "runInServiceTransaction d inTransaction operation =
    (if inTransaction then operation True else withPgTransaction d (operation True))"

section \<open>Records\<close>

definition pg_SENSITIVE_KEY_NAMES :: "string list" where
  "pg_SENSITIVE_KEY_NAMES = [''accesstoken'', ''authorization'', ''cookie'', ''credential'', ''devicesignal'', ''ip'',
     ''ipaddress'', ''inviteurl'', ''invitetoken'', ''minecraftaccesstoken'', ''password'', ''rawtoken'', ''refreshtoken'',
     ''secret'', ''sessioncredential'', ''sessionid'', ''sessionkey'', ''sessiontoken'', ''token'']"

definition pg_isSensitiveKey :: "string \<Rightarrow> bool" where
  "pg_isSensitiveKey key = (let normalized = filter (\<lambda>x. is_digit x \<or> is_lower x) (toLowerCase key) in
     \<not> js_endsWith normalized ''hash'' \<and> normalized \<in> set pg_SENSITIVE_KEY_NAMES)"

definition pg_hashKeyFor :: "string \<Rightarrow> string" where
  "pg_hashKeyFor key = key @ ''Hash''"

definition pg_sanitizeRecord :: "pg_driver \<Rightarrow> jsval \<Rightarrow> jsval" where
  "pg_sanitizeRecord d = js_walk id (\<lambda>_ _. True)
     (\<lambda>k v. if pg_isSensitiveKey k then Some (pg_hashKeyFor k, hashSensitiveValue (pd_sha d) v) else None)"

definition pg_requireRecordId :: "jsval \<Rightarrow> unit pg_eff" where
  "pg_requireRecordId record = (if truthy (jget record ''id'') then eff_return () else eff_throw type_error)"

definition requirePresence :: "jsval \<Rightarrow> unit pg_eff" where
  "requirePresence record = (if truthy (jget record ''roomId'') \<and> truthy (jget record ''hostId'')
     then eff_return () else eff_throw type_error)"

definition assertMutationSucceeded :: "string \<Rightarrow> pg_row list \<Rightarrow> unit pg_eff" where
  "assertMutationSucceeded message rows = (if rows = [] then eff_throw (pg_error message) else eff_return ())"

definition pg_write :: "pg_driver \<Rightarrow> bool \<Rightarrow> pg_table \<Rightarrow> string \<Rightarrow> jsval list \<Rightarrow> unit pg_eff" where
  "pg_write d inTransaction T message given =
    (let params = map2 (bound d) (pg_columns T) given in
     runWriteTransaction d inTransaction
       (eff_bind (pg_query d (S_upsert T) params (sql_upsert T params)) (assertMutationSucceeded message)))"

text \<open>\<open>stored.x ?? null\<close> and \<open>stored.x ?? clock.now()\<close>.\<close>

definition or_null :: "jsval \<Rightarrow> string \<Rightarrow> jsval" where
  "or_null stored k = coalesce (jget stored k) JNull"

definition or_now :: "int \<Rightarrow> jsval \<Rightarrow> string \<Rightarrow> jsval" where
  "or_now now stored k = coalesce (jget stored k) (JNum now)"

text \<open>The answers: \<open>Inl reason\<close> for \<open>{ ok: false, reason }\<close>, \<open>Inr record\<close> for a success with the record.\<close>

type_synonym pg_answer = "jsval + jsval"

definition pg_fail :: "error_state \<Rightarrow> pg_answer" where
  "pg_fail reason = Inl (JStr (error_state_str reason))"

definition pg_saveRoom :: "pg_driver \<Rightarrow> bool \<Rightarrow> jsval \<Rightarrow> pg_answer pg_eff" where
  "pg_saveRoom d inTransaction record =
    eff_bind (pg_requireRecordId record) (\<lambda>_.
    let stored = pg_sanitizeRecord d record in
    eff_bind (eff_get pw_now) (\<lambda>now.
    eff_bind (pg_write d inTransaction T_rooms ''room identity conflict''
      [jget stored ''id'', jget stored ''hostId'', or_null stored ''alias'', or_null stored ''minecraftVersion'',
       or_null stored ''packProfileName'', jget stored ''state'', or_now now stored ''createdAt'', or_now now stored ''updatedAt''])
      (\<lambda>_. eff_return (Inr (json_clone stored)))))"

definition pg_saveInvite :: "pg_driver \<Rightarrow> bool \<Rightarrow> jsval \<Rightarrow> pg_answer pg_eff" where
  "pg_saveInvite d inTransaction input =
    eff_bind (pg_requireRecordId input) (\<lambda>_.
    let sanitized = pg_sanitizeRecord d input;
        stored = (if truthy (jget input ''token'') \<and> \<not> truthy (jget sanitized ''tokenHash'')
          then jput ''tokenHash'' (hashSensitiveValue (pd_sha d) (jget input ''token'')) sanitized else sanitized) in
    eff_bind (eff_get pw_now) (\<lambda>now.
    eff_bind (pg_write d inTransaction T_invites ''invite identity conflict''
      [jget stored ''id'', jget stored ''roomId'', jget stored ''tokenHash'', jget stored ''state'',
       or_now now stored ''createdAt'', or_null stored ''expiresAt'', or_null stored ''revokedAt''])
      (\<lambda>_. eff_return (Inr (json_clone stored)))))"

definition pg_saveApproval :: "pg_driver \<Rightarrow> bool \<Rightarrow> jsval \<Rightarrow> pg_answer pg_eff" where
  "pg_saveApproval d inTransaction record =
    eff_bind (pg_requireRecordId record) (\<lambda>_.
    let stored = pg_sanitizeRecord d record in
    eff_bind (eff_get pw_now) (\<lambda>now.
    eff_bind (pg_write d inTransaction T_approvals ''approval identity conflict''
      [jget stored ''id'', jget stored ''roomId'', jget stored ''inviteId'', or_null stored ''friendId'',
       jget stored ''minecraftUuid'', or_null stored ''displayName'', jget stored ''state'',
       or_now now stored ''createdAt'', or_null stored ''decidedAt''])
      (\<lambda>_. eff_return (Inr (json_clone stored)))))"

definition pg_saveSession :: "pg_driver \<Rightarrow> bool \<Rightarrow> jsval \<Rightarrow> pg_answer pg_eff" where
  "pg_saveSession d inTransaction input =
    eff_bind (pg_requireRecordId input) (\<lambda>_.
    let sanitized = pg_sanitizeRecord d input;
        stored = (if truthy (jget input ''sessionCredential'') \<and> \<not> truthy (jget sanitized ''sessionCredentialHash'')
          then jput ''sessionCredentialHash'' (hashSensitiveValue (pd_sha d) (jget input ''sessionCredential'')) sanitized
          else sanitized) in
    eff_bind (eff_get pw_now) (\<lambda>now.
    eff_bind (pg_write d inTransaction T_sessions ''session identity conflict''
      [jget stored ''id'', jget stored ''roomId'', jget stored ''inviteId'', jget stored ''requestId'',
       jget stored ''minecraftUuid'', or_null stored ''sessionCredentialHash'', jget stored ''state'',
       or_now now stored ''issuedAt'', or_null stored ''expiresAt''])
      (\<lambda>_. eff_return (Inr (json_clone stored)))))"

definition pg_savePresence :: "pg_driver \<Rightarrow> bool \<Rightarrow> jsval \<Rightarrow> pg_answer pg_eff" where
  "pg_savePresence d inTransaction record =
    eff_bind (requirePresence record) (\<lambda>_.
    let stored = pg_sanitizeRecord d record in
    eff_bind (pg_write d inTransaction T_presence ''presence identity conflict''
      [jget stored ''roomId'', jget stored ''hostId'', jget stored ''state'', jget stored ''lastSeenAt'', jget stored ''expiresAt''])
      (\<lambda>_. eff_return (Inr (json_clone stored))))"

section \<open>Reading\<close>

text \<open>The names under which the columns of a row are read.\<close>

primrec pg_names :: "pg_table \<Rightarrow> string list" where
  "pg_names T_rooms = [''id'', ''hostId'', ''alias'', ''minecraftVersion'', ''packProfileName'', ''state'', ''createdAt'', ''updatedAt'']"
| "pg_names T_invites = [''id'', ''roomId'', ''tokenHash'', ''state'', ''createdAt'', ''expiresAt'', ''revokedAt'']"
| "pg_names T_approvals = [''id'', ''roomId'', ''inviteId'', ''friendId'', ''minecraftUuid'', ''displayName'', ''state'', ''createdAt'', ''decidedAt'']"
| "pg_names T_sessions = [''id'', ''roomId'', ''inviteId'', ''requestId'', ''minecraftUuid'', ''sessionCredentialHash'', ''state'', ''issuedAt'', ''expiresAt'']"
| "pg_names T_presence = [''roomId'', ''hostId'', ''state'', ''lastSeenAt'', ''expiresAt'']"

definition read_row :: "pg_driver \<Rightarrow> string list \<Rightarrow> string list \<Rightarrow> pg_row \<Rightarrow> jsval" where
  "read_row d cs names r = JObj (zip names (map (\<lambda>c. pg_shown d c (cell r c)) cs))"

definition first_row :: "pg_driver \<Rightarrow> pg_table \<Rightarrow> pg_row list \<Rightarrow> jsval option" where
  "first_row d T rows = (case rows of [] \<Rightarrow> None | r # _ \<Rightarrow> Some (read_row d (pg_columns T) (pg_names T) r))"

definition pg_select :: "pg_driver \<Rightarrow> pg_table \<Rightarrow> string \<Rightarrow> jsval \<Rightarrow> jsval option pg_eff" where
  "pg_select d T c v = eff_bind (pg_query d (S_select T) [bound d c v] (sql_select T c (bound d c v)))
     (\<lambda>rows. eff_return (first_row d T rows))"

definition pg_given :: "error_state \<Rightarrow> jsval option \<Rightarrow> pg_answer" where
  "pg_given reason row = (case row of None \<Rightarrow> pg_fail reason | Some r \<Rightarrow> Inr (json_clone r))"

definition pg_readRoom :: "pg_driver \<Rightarrow> jsval \<Rightarrow> pg_answer pg_eff" where
  "pg_readRoom d roomId = eff_bind (pg_select d T_rooms ''id'' roomId) (\<lambda>room. eff_return (pg_given Err_SESSION_UNAVAILABLE room))"

definition inviteLookupColumn :: "string \<Rightarrow> string option" where
  "inviteLookupColumn key = (if key = ''id'' then Some ''id'' else if key = ''tokenHash'' then Some ''token_hash'' else None)"

definition selectInviteBy :: "pg_driver \<Rightarrow> string \<Rightarrow> jsval \<Rightarrow> jsval option pg_eff" where
  "selectInviteBy d key v = eff_bind (eff_lift (inviteLookupColumn key)) (\<lambda>c.
     eff_bind (pg_select d T_invites c v) (\<lambda>row. eff_return (map_option json_clone row)))"

definition later :: "jsval \<Rightarrow> int \<Rightarrow> bool" where
  "later v now \<longleftrightarrow> num_less (Fin (of_int now)) (js_number v)"

definition pg_isInviteUsable :: "int \<Rightarrow> jsval option \<Rightarrow> bool" where
  "pg_isInviteUsable now invite = (case invite of None \<Rightarrow> False
     | Some i \<Rightarrow> jget i ''state'' = JStr (invite_state_str Invite_ACTIVE) \<and>
         (\<not> truthy (jget i ''expiresAt'') \<or> later (jget i ''expiresAt'') now))"

definition pg_isSessionUsable :: "int \<Rightarrow> jsval option \<Rightarrow> bool" where
  "pg_isSessionUsable now session = (case session of None \<Rightarrow> False
     | Some ss \<Rightarrow> jget ss ''state'' = JStr (session_state_str Session_ISSUED) \<and>
         (\<not> truthy (jget ss ''expiresAt'') \<or> later (jget ss ''expiresAt'') now))"

definition pg_readInvite :: "pg_driver \<Rightarrow> jsval \<Rightarrow> pg_answer pg_eff" where
  "pg_readInvite d inviteId = eff_bind (selectInviteBy d ''id'' inviteId) (\<lambda>invite.
     eff_return (case invite of None \<Rightarrow> pg_fail Err_INVITE_UNAVAILABLE | Some i \<Rightarrow> Inr i))"

definition pg_readInviteByToken :: "pg_driver \<Rightarrow> jsval \<Rightarrow> pg_answer pg_eff" where
  "pg_readInviteByToken d token =
    (if \<not> truthy token then eff_return (pg_fail Err_INVITE_UNAVAILABLE)
     else eff_bind (selectInviteBy d ''tokenHash'' (hashSensitiveValue (pd_sha d) token)) (\<lambda>invite.
       eff_bind (eff_get pw_now) (\<lambda>now.
       eff_return (if pg_isInviteUsable now invite then Inr (the invite) else pg_fail Err_INVITE_UNAVAILABLE))))"

definition pg_readApproval :: "pg_driver \<Rightarrow> jsval \<Rightarrow> pg_answer pg_eff" where
  "pg_readApproval d approvalId =
     eff_bind (pg_select d T_approvals ''id'' approvalId) (\<lambda>approval. eff_return (pg_given Err_SESSION_UNAVAILABLE approval))"

definition pg_readSession :: "pg_driver \<Rightarrow> jsval \<Rightarrow> pg_answer pg_eff" where
  "pg_readSession d sessionId = eff_bind (pg_select d T_sessions ''id'' sessionId) (\<lambda>session.
     eff_bind (eff_get pw_now) (\<lambda>now.
     eff_return (if pg_isSessionUsable now session then Inr (json_clone (the session)) else pg_fail Err_SESSION_UNAVAILABLE)))"

definition pg_readPresence :: "pg_driver \<Rightarrow> jsval \<Rightarrow> pg_answer pg_eff" where
  "pg_readPresence d roomId = eff_bind (eff_get pw_now) (\<lambda>now.
     let params = [bound d ''room_id'' roomId, bound d ''expires_at'' (JNum now)] in
     eff_bind (pg_query d (S_select T_presence) params (sql_select_presence (params ! 0) (params ! 1))) (\<lambda>rows.
     eff_return (pg_given Err_ROOM_CLOSED (first_row d T_presence rows))))"

section \<open>Rate limits\<close>

record pg_rate_answer =
  pa_ok :: bool
  pa_scope :: jsval
  pa_signalHash :: jsval
  pa_count :: int
  pa_limit :: int
  pa_remaining :: int
  pa_resetAt :: jsval

definition pg_DEFAULT_RATE_LIMIT_WINDOW_MS :: int where
  "pg_DEFAULT_RATE_LIMIT_WINDOW_MS = 60 * 1000"

definition pg_incrementRateLimitCounter :: "pg_driver \<Rightarrow> jsval \<Rightarrow> jsval \<Rightarrow> jsval \<Rightarrow> jsval \<Rightarrow> pg_rate_answer pg_eff" where
  "pg_incrementRateLimitCounter d scope signal limitArg windowArg =
    (case (positive_int limitArg,
           positive_int (if windowArg = JUndef then JNum pg_DEFAULT_RATE_LIMIT_WINDOW_MS else windowArg)) of
       (Some limit, Some windowMs) \<Rightarrow>
         if \<not> truthy scope \<or> \<not> truthy signal then eff_throw type_error
         else eff_bind (eff_get pw_now) (\<lambda>now.
           let signalHash = hashSensitiveValue (pd_sha d) signal;
               id = js_string scope @ '':'' @ js_string signalHash;
               new = \<lparr>rc_id = id, rc_scope = bound d ''scope'' scope, rc_signalHash = bound d ''signal_hash'' signalHash,
                 rc_count = 1, rc_limit = limit, rc_windowMs = windowMs, rc_resetAt = now + windowMs, rc_updatedAt = now\<rparr> in
           eff_bind (pg_query d S_count_rate
             [JStr id, scope, signalHash, JNum limit, JNum windowMs, JNum (now + windowMs), JNum now] (sql_count_rate new))
             (\<lambda>stored. eff_return \<lparr>pa_ok = (rc_count stored \<le> limit), pa_scope = scope, pa_signalHash = signalHash,
                pa_count = rc_count stored, pa_limit = limit, pa_remaining = max (limit - rc_count stored) 0,
                pa_resetAt = pg_shown d ''reset_at'' (JNum (rc_resetAt stored))\<rparr>))
     | _ \<Rightarrow> eff_throw type_error)"

definition read_counter :: "pg_driver \<Rightarrow> rate_counter \<Rightarrow> jsval" where
  "read_counter d c = JObj [(''id'', pg_shown d ''id'' (JStr (rc_id c))), (''scope'', pg_shown d ''scope'' (rc_scope c)),
     (''signalHash'', pg_shown d ''signal_hash'' (rc_signalHash c)), (''count'', pg_shown d ''count'' (JNum (rc_count c))),
     (''limit'', pg_shown d ''limit_value'' (JNum (rc_limit c))), (''windowMs'', pg_shown d ''window_ms'' (JNum (rc_windowMs c))),
     (''resetAt'', pg_shown d ''reset_at'' (JNum (rc_resetAt c))), (''updatedAt'', pg_shown d ''updated_at'' (JNum (rc_updatedAt c)))]"

definition pg_readRateLimitCounter :: "pg_driver \<Rightarrow> jsval \<Rightarrow> jsval \<Rightarrow> pg_answer pg_eff" where
  "pg_readRateLimitCounter d scope signal =
    (if \<not> truthy scope \<or> \<not> truthy signal then eff_return (pg_fail Err_RATE_LIMITED)
     else
       let params = [bound d ''scope'' scope, bound d ''signal_hash'' (hashSensitiveValue (pd_sha d) signal)] in
       eff_bind (pg_query d S_select_rate params (sql_select_rate (params ! 0) (params ! 1))) (\<lambda>rows.
       eff_return (pg_given Err_RATE_LIMITED (case rows of [] \<Rightarrow> None | c # _ \<Rightarrow> Some (read_counter d c)))))"

section \<open>Clean-up and audit\<close>

record pg_cleaned =
  pc_sessions :: nat
  pc_invites :: nat
  pc_presence :: nat
  pc_rateLimits :: nat

definition cleanupExpiredState :: "pg_driver \<Rightarrow> bool \<Rightarrow> jsval \<Rightarrow> pg_cleaned pg_eff" where
  "cleanupExpiredState d inTransaction now_arg =
    eff_bind (eff_get (\<lambda>w. if now_arg = JUndef then JNum (pw_now w) else now_arg)) (\<lambda>given.
    let now = bound d ''expires_at'' given; reset_now = bound d ''reset_at'' given in
    runWriteTransaction d inTransaction
      (eff_bind (pg_query d S_delete_sessions [now] (sql_delete_sessions now)) (\<lambda>sessions.
       eff_bind (pg_query d S_delete_invites [now] (sql_delete_invites now)) (\<lambda>invites.
       eff_bind (pg_query d S_delete_presence [now] (sql_delete_presence now)) (\<lambda>presence.
       eff_bind (pg_query d S_delete_rates [reset_now] (sql_delete_rates reset_now)) (\<lambda>rateLimits.
       eff_return \<lparr>pc_sessions = sessions, pc_invites = invites, pc_presence = presence, pc_rateLimits = rateLimits\<rparr>))))))"

definition pg_recordAuditEvent :: "pg_driver \<Rightarrow> bool \<Rightarrow> string \<Rightarrow> jsval \<Rightarrow> pg_answer pg_eff" where
  "pg_recordAuditEvent d inTransaction uuid event =
    (if \<not> truthy (jget event ''type'') then eff_throw type_error
     else eff_bind (eff_get pw_now) (\<lambda>now.
       let stored = pg_sanitizeRecord d (js_spread
             [(''id'', coalesce (jget event ''id'') (JStr (''audit_'' @ uuid))),
              (''occurredAt'', coalesce (jget event ''occurredAt'') (JNum now))] event);
           params = map2 (bound d) audit_columns
             [jget stored ''id'', jget stored ''type'', or_null stored ''actorId'', or_null stored ''roomId'',
              or_null stored ''inviteId'', or_null stored ''requestId'', or_null stored ''sessionIdHash'',
              json_clone (coalesce (jget stored ''metadata'') (JObj [])), jget stored ''occurredAt''] in
       eff_bind (runWriteTransaction d inTransaction (pg_query d S_insert_audit params (sql_insert_audit params)))
         (\<lambda>_. eff_return (Inr (json_clone stored)))))"

definition audit_names :: "string list" where
  "audit_names = [''id'', ''type'', ''actorId'', ''roomId'', ''inviteId'', ''requestId'', ''sessionIdHash'', ''metadata'', ''occurredAt'']"

definition pg_readAuditEvents :: "pg_driver \<Rightarrow> jsval \<Rightarrow> jsval list pg_eff" where
  "pg_readAuditEvents d filt =
    (let given = (\<lambda>k c. if truthy (jget filt k) then [(c, bound d c (jget filt k))] else []);
         conditions = given ''type'' ''type'' @ given ''roomId'' ''room_id'' in
     eff_bind (pg_query d S_select_audit (map snd conditions) (sql_select_audit conditions)) (\<lambda>rows.
     eff_return (map (\<lambda>r. json_clone (read_row d audit_columns audit_names r)) rows)))"

section \<open>Operations\<close>

datatype pg_op = Op_saveRoom jsval | Op_readRoom jsval | Op_saveInvite jsval | Op_readInvite jsval | Op_readInviteByToken jsval
  | Op_saveApproval jsval | Op_readApproval jsval | Op_saveSession jsval | Op_readSession jsval | Op_savePresence jsval
  | Op_readPresence jsval | Op_incrementRateLimitCounter jsval jsval jsval jsval | Op_readRateLimitCounter jsval jsval
  | Op_cleanupExpiredState jsval | Op_recordAuditEvent string jsval | Op_readAuditEvents jsval

definition no_answer :: "'a pg_eff \<Rightarrow> unit pg_eff" where
  "no_answer m = eff_bind m (\<lambda>_. eff_return ())"

primrec pg_run :: "pg_driver \<Rightarrow> bool \<Rightarrow> pg_op \<Rightarrow> unit pg_eff" where
  "pg_run d tx (Op_saveRoom r) = no_answer (pg_saveRoom d tx r)"
| "pg_run d tx (Op_readRoom i) = no_answer (pg_readRoom d i)"
| "pg_run d tx (Op_saveInvite r) = no_answer (pg_saveInvite d tx r)"
| "pg_run d tx (Op_readInvite i) = no_answer (pg_readInvite d i)"
| "pg_run d tx (Op_readInviteByToken i) = no_answer (pg_readInviteByToken d i)"
| "pg_run d tx (Op_saveApproval r) = no_answer (pg_saveApproval d tx r)"
| "pg_run d tx (Op_readApproval i) = no_answer (pg_readApproval d i)"
| "pg_run d tx (Op_saveSession r) = no_answer (pg_saveSession d tx r)"
| "pg_run d tx (Op_readSession i) = no_answer (pg_readSession d i)"
| "pg_run d tx (Op_savePresence r) = no_answer (pg_savePresence d tx r)"
| "pg_run d tx (Op_readPresence i) = no_answer (pg_readPresence d i)"
| "pg_run d tx (Op_incrementRateLimitCounter s g l w) = no_answer (pg_incrementRateLimitCounter d s g l w)"
| "pg_run d tx (Op_readRateLimitCounter s g) = no_answer (pg_readRateLimitCounter d s g)"
| "pg_run d tx (Op_cleanupExpiredState n) = no_answer (cleanupExpiredState d tx n)"
| "pg_run d tx (Op_recordAuditEvent u e) = no_answer (pg_recordAuditEvent d tx u e)"
| "pg_run d tx (Op_readAuditEvents f) = no_answer (pg_readAuditEvents d f)"

text \<open>An operation alone, operations in one transaction up to the first that throws, time passing.\<close>

datatype pg_call = Pg_alone pg_op | Pg_together "pg_op list" | Pg_tick nat

fun pg_all :: "pg_driver \<Rightarrow> bool \<Rightarrow> pg_op list \<Rightarrow> unit pg_eff" where
  "pg_all d tx [] = eff_return ()"
| "pg_all d tx (a # as) = eff_bind (pg_run d tx a) (\<lambda>_. pg_all d tx as)"

primrec pg_call_run :: "pg_driver \<Rightarrow> pg_call \<Rightarrow> unit pg_eff" where
  "pg_call_run d (Pg_alone a) = pg_run d False a"
| "pg_call_run d (Pg_together as) = runInServiceTransaction d False (\<lambda>tx. pg_all d tx as)"
| "pg_call_run d (Pg_tick n) = eff_modify (\<lambda>w. w\<lparr>pw_now := pw_now w + int n\<rparr>)"

definition pg_exec :: "pg_driver \<Rightarrow> pg_call \<Rightarrow> pg_world \<Rightarrow> pg_world" where
  "pg_exec d c w = snd (pg_call_run d c w)"

definition createPostgresControlPlaneRepository :: "int \<Rightarrow> pg_world" where
  "createPostgresControlPlaneRepository now = \<lparr>pw_now = now,
     pw_tables = \<lparr>pt_rows = (\<lambda>_. []), pt_rates = [], pt_audit = []\<rparr>, pw_begun = None, pw_clients = 0\<rparr>"

end
