(* ===== verification/PgRepository_Props.thy ===== *)
theory PgRepository_Props
  imports PgRepository Machine
begin

text \<open>
  What the repository and the schema keep together: rows are unique, complete and refer to rows that
  are there; what identifies a row never changes; a transaction that fails leaves no trace; and the
  counters of rates are those of the memory store.
\<close>

section \<open>Cells\<close>

lemma cell_row_set:
  "cell (row_set cs old new) c = (if c \<in> set cs \<and> jm_get old c \<noteq> None then cell new c else cell old c)"
proof (induction old)
  case (Cons p old)
  obtain k v where "p = (k, v)" by fastforce
  with Cons show ?case by (cases "jm_get old c") (auto simp: cell_def row_set_def)
qed (simp add: cell_def row_set_def)

lemma cell_row_set_other: "c \<notin> set cs \<Longrightarrow> cell (row_set cs old new) c = cell old c"
  by (simp add: cell_row_set)

lemma cell_present: "cell r c \<noteq> JNull \<Longrightarrow> jm_get r c \<noteq> None"
  by (cases "jm_get r c") (simp_all add: cell_def)

lemma fixed_columns:
  "pg_key T \<notin> set (pg_sets T)" "c \<in> set (pg_unique T) \<Longrightarrow> c \<notin> set (pg_sets T)"
  "pg_key T \<in> set (pg_required T)" "c \<in> set (pg_unique T) \<Longrightarrow> c \<in> set (pg_required T)"
  "(cs, S, ds) \<in> set (pg_references T) \<Longrightarrow> c \<in> set cs \<Longrightarrow> c \<notin> set (pg_sets T)"
  "(cs, S, ds) \<in> set (pg_references T) \<Longrightarrow> c \<in> set ds \<Longrightarrow> c \<notin> set (pg_sets S)"
  "(cs, S, ds) \<in> set (pg_references T) \<Longrightarrow> S = T_rooms \<or> S = T_invites \<and> T = T_approvals \<or> S = T_approvals \<and> T = T_sessions"
  by (cases T; auto)+

section \<open>Tables\<close>

definition pg_ok :: "pg_tables \<Rightarrow> bool" where
  "pg_ok t \<longleftrightarrow> (\<forall>T.
     (\<forall>r \<in> set (pt_rows t T). (\<forall>c \<in> set (pg_required T). cell r c \<noteq> JNull) \<and> (\<forall>ref \<in> set (pg_references T). refers t r ref)) \<and>
     (\<forall>c \<in> set (pg_key T # pg_unique T). distinct (map (\<lambda>r. cell r c) (pt_rows t T))))"

text \<open>Every row is still there, as far as it cannot be set; only rows of before are there.\<close>

definition same_fixed :: "pg_table \<Rightarrow> pg_row \<Rightarrow> pg_row \<Rightarrow> bool" where
  "same_fixed T r r' \<longleftrightarrow> (\<forall>c. c \<notin> set (pg_sets T) \<longrightarrow> cell r' c = cell r c)"

definition grown :: "pg_tables \<Rightarrow> pg_tables \<Rightarrow> bool" where
  "grown t t' \<longleftrightarrow> (\<forall>T. \<forall>r \<in> set (pt_rows t T). \<exists>r' \<in> set (pt_rows t' T). same_fixed T r r')"

definition fewer :: "pg_tables \<Rightarrow> pg_tables \<Rightarrow> bool" where
  "fewer t t' \<longleftrightarrow> (\<forall>T. set (pt_rows t' T) \<subseteq> set (pt_rows t T))"

definition identities_kept :: "pg_tables \<Rightarrow> pg_tables \<Rightarrow> bool" where
  "identities_kept t t' \<longleftrightarrow> (\<forall>T. \<forall>r \<in> set (pt_rows t T). \<forall>r' \<in> set (pt_rows t' T).
     cell r' (pg_key T) = cell r (pg_key T) \<longrightarrow> same_fixed T r r')"

lemma grown_refl: "grown t t"
  by (auto simp: grown_def same_fixed_def)

lemma grown_trans: "grown t t' \<Longrightarrow> grown t' t'' \<Longrightarrow> grown t t''"
  unfolding grown_def same_fixed_def by metis

lemma pg_ok_unique: "pg_ok t \<Longrightarrow> r \<in> set (pt_rows t T) \<Longrightarrow> r' \<in> set (pt_rows t T) \<Longrightarrow>
    cell r (pg_key T) = cell r' (pg_key T) \<Longrightarrow> r = r'"
  unfolding pg_ok_def by (auto simp: distinct_map dest: inj_onD)

lemma pg_ok_required: "pg_ok t \<Longrightarrow> r \<in> set (pt_rows t T) \<Longrightarrow> c \<in> set (pg_required T) \<Longrightarrow> cell r c \<noteq> JNull"
  unfolding pg_ok_def by blast

lemma pg_ok_refers: "pg_ok t \<Longrightarrow> r \<in> set (pt_rows t T) \<Longrightarrow> ref \<in> set (pg_references T) \<Longrightarrow> refers t r ref"
  unfolding pg_ok_def by blast

lemma pg_ok_distinct: "pg_ok t \<Longrightarrow> c \<in> set (pg_key T # pg_unique T) \<Longrightarrow> distinct (map (\<lambda>r. cell r c) (pt_rows t T))"
  unfolding pg_ok_def by blast

lemma identities_grown: "grown t t' \<Longrightarrow> pg_ok t' \<Longrightarrow> identities_kept t t'"
  unfolding identities_kept_def grown_def same_fixed_def by (metis fixed_columns(1) pg_ok_unique)

lemma identities_fewer: "fewer t t' \<Longrightarrow> pg_ok t \<Longrightarrow> identities_kept t t'"
  unfolding identities_kept_def fewer_def same_fixed_def by (metis pg_ok_unique subsetD)

lemma refers_grown:
  "grown t t' \<Longrightarrow> ref \<in> set (pg_references T) \<Longrightarrow> same_fixed T r r' \<Longrightarrow> refers t r ref \<Longrightarrow> refers t' r' ref"
proof -
  assume g: "grown t t'" and ref: "ref \<in> set (pg_references T)" and same: "same_fixed T r r'" and old: "refers t r ref"
  obtain cs S ds where p: "ref = (cs, S, ds)" by (cases ref) auto
  from old obtain x where x: "x \<in> set (pt_rows t S)" "map (cell r) cs = map (cell x) ds"
    by (auto simp: refers_def p list_ex_iff)
  from g x(1) obtain x' where x': "x' \<in> set (pt_rows t' S)" "same_fixed S x x'" by (auto simp: grown_def)
  have "map (cell r') cs = map (cell r) cs" "map (cell x') ds = map (cell x) ds"
    using same x'(2) fixed_columns(5,6) ref p by (auto simp: same_fixed_def)
  with x(2) have "map (cell r') cs = map (cell x') ds" by simp
  with x'(1) show ?thesis by (auto simp: refers_def p list_ex_iff simp del: map_eq_conv)
qed

lemma find_rowD: "find_row c v rows = Some r \<Longrightarrow> r \<in> set rows \<and> sql_eq (cell r c) v"
  by (auto simp: find_row_def find_Some_iff)

lemma find_row_None: "find_row c v rows = None \<longleftrightarrow> (\<forall>r \<in> set rows. \<not> sql_eq (cell r c) v)"
  by (auto simp: find_row_def find_None_iff)

text \<open>An upsert: a new row, an old row with other cells, or nothing.\<close>

lemma upsert_cases:
  assumes "sql_upsert T params t = Inr (returned, t')" and ok: "pg_ok t"
  obtains new where "\<not> violates t T new" "find_row (pg_key T) (cell new (pg_key T)) (pt_rows t T) = None"
      "t' = t\<lparr>pt_rows := (pt_rows t)(T := pt_rows t T @ [new])\<rparr>"
  | new old where "\<not> violates t T new" "old \<in> set (pt_rows t T)"
      "t' = t\<lparr>pt_rows := (pt_rows t)(T := map (\<lambda>r. if r = old then row_set (pg_sets T) old new else r) (pt_rows t T))\<rparr>"
  | "t' = t"
proof -
  define new where "new = zip (pg_columns T) params"
  have run: "\<not> violates t T new" "rows_upsert T new (pt_rows t T) = (rets, rows) \<Longrightarrow>
      t' = t\<lparr>pt_rows := (pt_rows t)(T := rows)\<rparr>" for rets rows
    using assms(1) by (auto simp: sql_upsert_def new_def Let_def split: if_splits)
  show ?thesis
  proof (cases "find_row (pg_key T) (cell new (pg_key T)) (pt_rows t T)")
    case None
    then show ?thesis using that(1) [OF run(1) None] assms(1)
      by (auto simp: sql_upsert_def rows_upsert_def new_def Let_def split: if_splits)
  next
    case (Some old)
    note old = find_rowD [OF Some]
    have same: "sql_eq (cell r (pg_key T)) (cell new (pg_key T)) \<longleftrightarrow> r = old" if "r \<in> set (pt_rows t T)" for r
      using that old pg_ok_unique [OF ok, of r T old] by (auto simp: sql_eq_def)
    show ?thesis
    proof (cases "same_identity T old new")
      case True
      have "map (\<lambda>r. if sql_eq (cell r (pg_key T)) (cell new (pg_key T)) then row_set (pg_sets T) old new else r) (pt_rows t T) =
          map (\<lambda>r. if r = old then row_set (pg_sets T) old new else r) (pt_rows t T)"
        by (rule map_cong [OF refl]) (simp add: same)
      with Some True have "rows_upsert T new (pt_rows t T) = ([row_set (pg_sets T) old new],
          map (\<lambda>r. if r = old then row_set (pg_sets T) old new else r) (pt_rows t T))"
        by (simp add: rows_upsert_def Let_def)
      from run(2) [OF this] show ?thesis using that(2) [OF run(1), of old] old by simp
    next
      case False
      with Some that(3) assms(1) show ?thesis
        by (auto simp: sql_upsert_def rows_upsert_def new_def Let_def split: if_splits)
    qed
  qed
qed

lemma upsert_grown:
  assumes "sql_upsert T params t = Inr (returned, t')" and "pg_ok t"
  shows "grown t t'"
  using assms
proof (cases rule: upsert_cases)
  case (2 new old)
  have "\<exists>r' \<in> set (pt_rows t' S). same_fixed S r r'" if "r \<in> set (pt_rows t S)" for r S
    using that 2(3) by (cases "S = T"; cases "r = old") (auto simp: same_fixed_def cell_row_set_other)
  then show ?thesis by (simp add: grown_def)
qed (auto simp: grown_def same_fixed_def)

lemma not_violates:
  assumes "\<not> violates t T new"
  shows "c \<in> set (pg_required T) \<Longrightarrow> cell new c \<noteq> JNull"
    and "find_row (pg_key T) (cell new (pg_key T)) (pt_rows t T) = None \<Longrightarrow> ref \<in> set (pg_references T) \<Longrightarrow> refers t new ref"
    and "find_row (pg_key T) (cell new (pg_key T)) (pt_rows t T) = None \<Longrightarrow> c \<in> set (pg_key T # pg_unique T) \<Longrightarrow>
      find_row c (cell new c) (pt_rows t T) = None"
  using assms by (auto simp: violates_def list_ex_iff list_all_iff)

lemma upsert_ok:
  assumes run: "sql_upsert T params t = Inr (returned, t')" and ok: "pg_ok t"
  shows "pg_ok t'"
  using assms
proof (cases rule: upsert_cases)
  case (1 new)
  note g = upsert_grown [OF run ok]
  have req: "cell r c \<noteq> JNull" if "r \<in> set (pt_rows t' S)" "c \<in> set (pg_required S)" for r c S
    using that pg_ok_required [OF ok, of r S c] not_violates(1) [OF 1(1), of c] 1(3) by (auto split: if_splits)
  have ref: "refers t' r ref" if "r \<in> set (pt_rows t' S)" "ref \<in> set (pg_references S)" for r ref S
  proof -
    have "refers t r ref"
      using that pg_ok_refers [OF ok, of r S ref] not_violates(2) [OF 1(1,2), of ref] 1(3) by (auto split: if_splits)
    then show ?thesis by (rule refers_grown [OF g that(2), rotated]) (simp add: same_fixed_def)
  qed
  have "distinct (map (\<lambda>r. cell r c) (pt_rows t' S))" if "c \<in> set (pg_key S # pg_unique S)" for c S
  proof (cases "S = T")
    case True
    have "cell new c \<noteq> JNull" using that not_violates(1) [OF 1(1)] fixed_columns(3,4) True by auto
    moreover have "\<forall>r \<in> set (pt_rows t T). \<not> sql_eq (cell r c) (cell new c)"
      using not_violates(3) [OF 1(1,2)] that True by (simp add: find_row_None)
    ultimately have "cell new c \<notin> (\<lambda>r. cell r c) ` set (pt_rows t T)" by (auto simp: sql_eq_def)
    with pg_ok_distinct [OF ok that] True 1(3) show ?thesis by simp
  qed (use pg_ok_distinct [OF ok that] 1(3) in simp)
  with req ref show ?thesis unfolding pg_ok_def by blast
next
  case (2 new old)
  note g = upsert_grown [OF run ok]
  have row: "\<exists>r0 \<in> set (pt_rows t S). same_fixed S r0 r \<and> (r = r0 \<or> S = T \<and> r0 = old \<and> r = row_set (pg_sets T) old new)"
    if "r \<in> set (pt_rows t' S)" for r S
    using that 2(2,3) by (auto simp: same_fixed_def cell_row_set_other split: if_splits)
  have req: "cell r c \<noteq> JNull" if "r \<in> set (pt_rows t' S)" "c \<in> set (pg_required S)" for r c S
  proof -
    from row [OF that(1)] obtain r0 where r0: "r0 \<in> set (pt_rows t S)" "r = r0 \<or> S = T \<and> r0 = old \<and> r = row_set (pg_sets T) old new"
      by blast
    note n = pg_ok_required [OF ok r0(1) that(2)]
    from r0(2) n show ?thesis
      using not_violates(1) [OF 2(1)] that(2) cell_present [OF n] by (cases "c \<in> set (pg_sets T)") (auto simp: cell_row_set)
  qed
  have ref: "refers t' r ref" if "r \<in> set (pt_rows t' S)" "ref \<in> set (pg_references S)" for r ref S
    using row [OF that(1)] refers_grown [OF g that(2)] pg_ok_refers [OF ok _ that(2)] by blast
  have "distinct (map (\<lambda>r. cell r c) (pt_rows t' S))" if "c \<in> set (pg_key S # pg_unique S)" for c S
  proof -
    have "c \<notin> set (pg_sets S)" using that fixed_columns(1,2) by auto
    then have "map (\<lambda>r. cell r c) (pt_rows t' S) = map (\<lambda>r. cell r c) (pt_rows t S)"
      using 2(3) by (auto simp: cell_row_set_other)
    with pg_ok_distinct [OF ok that] show ?thesis by simp
  qed
  with req ref show ?thesis unfolding pg_ok_def by blast
next
  case 3
  with ok show ?thesis by simp
qed

text \<open>Deleting: only rows of before are left, and what they refer to.\<close>

lemma fewer_ok:
  assumes ok: "pg_ok t" and few: "\<And>T. \<exists>P. pt_rows t' T = filter P (pt_rows t T)"
    and refs: "\<And>T r ref. r \<in> set (pt_rows t' T) \<Longrightarrow> ref \<in> set (pg_references T) \<Longrightarrow> refers t r ref \<Longrightarrow> refers t' r ref"
  shows "pg_ok t' \<and> fewer t t'"
proof -
  have sub: "set (pt_rows t' T) \<subseteq> set (pt_rows t T)" for T using few [of T] by auto
  moreover have "distinct (map (\<lambda>r. cell r c) (pt_rows t' T))" if "c \<in> set (pg_key T # pg_unique T)" for c T
    using few [of T] pg_ok_distinct [OF ok that] by (auto intro: distinct_map_filter)
  moreover have "cell r c \<noteq> JNull" if "r \<in> set (pt_rows t' T)" "c \<in> set (pg_required T)" for r c T
    using pg_ok_required [OF ok subsetD [OF sub that(1)] that(2)] .
  moreover have "refers t' r ref" if "r \<in> set (pt_rows t' T)" "ref \<in> set (pg_references T)" for r ref T
    by (rule refs [OF that pg_ok_refers [OF ok subsetD [OF sub that(1)] that(2)]])
  ultimately show ?thesis unfolding pg_ok_def fewer_def by blast
qed

lemma refers_same: "pt_rows t' S = pt_rows t S \<Longrightarrow> refers t r (cs, S, ds) \<Longrightarrow> refers t' r (cs, S, ds)"
  by (simp add: refers_def)

lemma delete_leaf_ok:
  assumes ok: "pg_ok t" and T: "T = T_sessions \<or> T = T_presence"
    and t': "t' = t\<lparr>pt_rows := (pt_rows t)(T := filter P (pt_rows t T))\<rparr>"
  shows "pg_ok t' \<and> fewer t t'"
proof (rule fewer_ok [OF ok])
  show "\<exists>Q. pt_rows t' S = filter Q (pt_rows t S)" for S
    by (cases "S = T") (auto simp: t' intro: exI [of _ P] exI [of _ "\<lambda>_. True"])
  show "refers t' r ref" if "ref \<in> set (pg_references S)" "refers t r ref" for S r ref
  proof -
    obtain cs U ds where p: "ref = (cs, U, ds)" by (cases ref) auto
    from fixed_columns(7) [of cs U ds S] that(1) T have "pt_rows t' U = pt_rows t U" by (auto simp: p t')
    with that(2) show ?thesis unfolding p by (rule refers_same [rotated])
  qed
qed

lemma still_referring_ok: "r \<in> set (still_referring t T) \<Longrightarrow> ref \<in> set (pg_references T) \<Longrightarrow> refers t r ref"
  by (auto simp: still_referring_def list_all_iff)

lemma delete_invites_ok:
  assumes ok: "pg_ok t" and run: "sql_delete_invites now t = Inr (n, t')"
  shows "pg_ok t' \<and> fewer t t'"
proof -
  define t1 where "t1 = t\<lparr>pt_rows := (pt_rows t)(T_invites := filter (\<lambda>i. \<not> unused_invite t now i) (pt_rows t T_invites))\<rparr>"
  define t2 where "t2 = cascade T_approvals t1"
  have t': "t' = cascade T_sessions t2" using run by (simp add: sql_delete_invites_def t1_def t2_def)
  note rows = t' cascade_def t2_def t1_def
  show ?thesis
  proof (rule fewer_ok [OF ok])
    show "\<exists>Q. pt_rows t' S = filter Q (pt_rows t S)" for S
      by (cases S) (auto simp: rows still_referring_def intro: exI [of _ "\<lambda>_. True"])
    show "refers t' r ref" if r: "r \<in> set (pt_rows t' S)" and ref: "ref \<in> set (pg_references S)" and old: "refers t r ref" for S r ref
    proof -
      obtain cs U ds where p: "ref = (cs, U, ds)" by (cases ref) auto
      consider "U = T_rooms" | "U = T_invites" "S = T_approvals" | "U = T_approvals" "S = T_sessions"
        using fixed_columns(7) ref p by blast
      then show ?thesis
      proof cases
        case 1
        then have "pt_rows t' U = pt_rows t U" by (simp add: rows)
        with old show ?thesis unfolding p by (rule refers_same [rotated])
      next
        case 2
        then have "refers t1 r ref" using r ref still_referring_ok [of r t1 T_approvals ref] by (simp add: t' cascade_def t2_def)
        moreover have "pt_rows t' U = pt_rows t1 U" using 2 by (simp add: t' cascade_def t2_def)
        ultimately show ?thesis unfolding p by (rule refers_same [rotated])
      next
        case 3
        then have "refers t2 r ref" using r ref still_referring_ok [of r t2 T_sessions ref] by (simp add: t' cascade_def)
        moreover have "pt_rows t' U = pt_rows t2 U" using 3 by (simp add: t' cascade_def)
        ultimately show ?thesis unfolding p by (rule refers_same [rotated])
      qed
    qed
  qed
qed

lemma fewer_trans: "fewer t t' \<Longrightarrow> fewer t' t'' \<Longrightarrow> fewer t t''"
  unfolding fewer_def by blast

lemma same_rows: "pt_rows t' = pt_rows t \<Longrightarrow> pg_ok t' = pg_ok t \<and> grown t t' \<and> fewer t t'"
  by (auto simp: pg_ok_def grown_def fewer_def refers_def same_fixed_def)

section \<open>Computations\<close>

text \<open>A condition on the tables, of the connection and of the state to which it may return.\<close>

definition both :: "(pg_tables \<Rightarrow> bool) \<Rightarrow> pg_world \<Rightarrow> bool" where
  "both G w \<longleftrightarrow> G (pw_tables w) \<and> (\<forall>t b. pw_begun w = Some (t, b) \<longrightarrow> G t)"

definition keeps_tables :: "(pg_tables \<Rightarrow> bool) \<Rightarrow> (pg_tables \<Rightarrow> string + 'a \<times> pg_tables) \<Rightarrow> bool" where
  "keeps_tables G run \<longleftrightarrow> (\<forall>t a t'. G t \<longrightarrow> run t = Inr (a, t') \<longrightarrow> G t')"

lemma keeps_query: "keeps_tables G run \<Longrightarrow> keeps (both G) (pg_query d st params run)"
  unfolding keeps_def ens_def pg_query_def keeps_tables_def both_def pg_failed_def
  by (auto split: option.splits sum.splits prod.splits)

lemma keeps_control: "(\<And>w. both G w \<Longrightarrow> both G (f w)) \<Longrightarrow> keeps (both G) (pg_control d st f)"
  by (auto simp: keeps_def ens_def pg_control_def split: option.splits)

lemma keeps_begin: "both G w \<Longrightarrow> both G (pg_begin w)"
  by (auto simp: both_def pg_begin_def)

lemma keeps_rollback: "both G w \<Longrightarrow> both G (pg_rollback w)"
  by (auto simp: both_def pg_rollback_def split: option.splits)

lemma keeps_commit: "both G w \<Longrightarrow> both G (pg_commit w)"
  by (auto simp: pg_commit_def keeps_rollback) (simp add: both_def)

lemma keeps_catch: "keeps J m \<Longrightarrow> (\<And>e. keeps J (h e)) \<Longrightarrow> keeps J (eff_catch m h)"
  unfolding keeps_def by (rule ens_catch)

lemma keeps_iff: "keeps J m \<longleftrightarrow> (\<forall>s. J s \<longrightarrow> J (snd (m s)))"
proof -
  have "(case m s of (Inl e, s') \<Rightarrow> J s' | (Inr a, s') \<Rightarrow> J s') = J (snd (m s))" for s
    by (simp add: split_beta split: sum.split)
  then show ?thesis by (simp add: keeps_def ens_def)
qed

lemma both_clients [simp]: "both G (w\<lparr>pw_clients := n\<rparr>) = both G w"
  by (simp add: both_def)

lemma keeps_transaction: "keeps (both G) m \<Longrightarrow> keeps (both G) (withPgTransaction d m)"
proof -
  assume m: "keeps (both G) m"
  have "keeps (both G) (eff_catch
      (eff_bind (pg_control d S_begin pg_begin) (\<lambda>_. eff_bind m (\<lambda>result.
       eff_bind (pg_control d S_commit pg_commit) (\<lambda>_. eff_return result))))
      (\<lambda>e. eff_bind (pg_control d S_rollback pg_rollback) (\<lambda>_. eff_throw e)))" (is "keeps _ ?body")
    by (intro keeps_catch keeps_bind keeps_control keeps_begin keeps_commit keeps_rollback keeps_return keeps_throw m)
  then have "both G w \<Longrightarrow> both G (snd (?body (w\<lparr>pw_clients := pw_clients w + 1\<rparr>)))" for w
    by (simp only: keeps_iff both_clients)
  then show ?thesis
    by (auto simp: keeps_iff withPgTransaction_def split_beta split: option.split)
qed

lemma keeps_write: "keeps (both G) m \<Longrightarrow> keeps (both G) (runWriteTransaction d tx m)"
  by (simp add: runWriteTransaction_def keeps_transaction)

definition writes_ok :: "(pg_tables \<Rightarrow> bool) \<Rightarrow> bool" where
  "writes_ok G \<longleftrightarrow> (\<forall>T ps. keeps_tables G (sql_upsert T ps)) \<and> (\<forall>c. keeps_tables G (sql_count_rate c)) \<and>
     (\<forall>ps. keeps_tables G (sql_insert_audit ps))"

definition deletes_ok :: "(pg_tables \<Rightarrow> bool) \<Rightarrow> bool" where
  "deletes_ok G \<longleftrightarrow> (\<forall>n. keeps_tables G (sql_delete_sessions n) \<and> keeps_tables G (sql_delete_invites n) \<and>
     keeps_tables G (sql_delete_presence n) \<and> keeps_tables G (sql_delete_rates n))"

lemma reads_ok:
  "keeps_tables G (sql_select T c v)" "keeps_tables G (sql_select_presence v n)" "keeps_tables G (sql_select_rate a b)"
  "keeps_tables G (sql_select_audit cs)"
  by (simp_all add: keeps_tables_def sql_select_def sql_select_presence_def sql_select_rate_def sql_select_audit_def)

definition is_cleanup :: "pg_op \<Rightarrow> bool" where
  "is_cleanup a \<longleftrightarrow> (case a of Op_cleanupExpiredState _ \<Rightarrow> True | _ \<Rightarrow> False)"

lemma keeps_pg_write: "writes_ok G \<Longrightarrow> keeps (both G) (pg_write d tx T message given)"
  by (auto simp: pg_write_def assertMutationSucceeded_def writes_ok_def Let_def
      intro!: keeps_write keeps_bind keeps_query keeps_if keeps_throw keeps_return)

lemma keeps_select: "keeps (both G) (pg_select d T c v)"
  by (auto simp: pg_select_def intro!: keeps_bind keeps_query keeps_return reads_ok)

lemmas run_rules = keeps_bind keeps_query keeps_return keeps_throw keeps_get keeps_lift keeps_if keeps_pg_write
  keeps_select keeps_write reads_ok

lemma keeps_run:
  assumes "\<not> is_cleanup a \<Longrightarrow> writes_ok G" and "is_cleanup a \<Longrightarrow> deletes_ok G"
  shows "keeps (both G) (pg_run d tx a)"
proof (cases "is_cleanup a")
  case True
  then obtain n where "a = Op_cleanupExpiredState n" by (auto simp: is_cleanup_def split: pg_op.splits)
  with assms(2) show ?thesis
    by (auto simp: is_cleanup_def deletes_ok_def no_answer_def cleanupExpiredState_def Let_def intro!: run_rules)
next
  case False
  with assms(1) have w: "writes_ok G" by simp
  then have "keeps_tables G (sql_count_rate c)" "keeps_tables G (sql_insert_audit ps)" for c ps by (auto simp: writes_ok_def)
  with w False show ?thesis
    by (cases a) (auto simp: is_cleanup_def no_answer_def pg_saveRoom_def pg_readRoom_def pg_saveInvite_def pg_readInvite_def
        pg_readInviteByToken_def selectInviteBy_def pg_saveApproval_def pg_readApproval_def pg_saveSession_def pg_readSession_def
        pg_savePresence_def pg_readPresence_def pg_incrementRateLimitCounter_def pg_readRateLimitCounter_def
        pg_recordAuditEvent_def pg_readAuditEvents_def pg_requireRecordId_def requirePresence_def Let_def
        intro!: run_rules split: option.split)
qed

section \<open>The tables stay in order\<close>

lemma rows_untouched:
  "sql_count_rate c t = Inr (a, t') \<Longrightarrow> pt_rows t' = pt_rows t"
  "sql_insert_audit ps t = Inr (u, t') \<Longrightarrow> pt_rows t' = pt_rows t"
  "sql_delete_rates now t = Inr (n, t') \<Longrightarrow> pt_rows t' = pt_rows t"
  by (auto simp: sql_count_rate_def sql_insert_audit_def sql_delete_rates_def Let_def split: option.splits if_splits)

lemma writes_okI:
  assumes "\<And>T ps t ret t'. G t \<Longrightarrow> sql_upsert T ps t = Inr (ret, t') \<Longrightarrow> G t'"
    and "\<And>t t'. G t \<Longrightarrow> pt_rows t' = pt_rows t \<Longrightarrow> G t'"
  shows "writes_ok G"
proof -
  have "keeps_tables G (sql_upsert T ps)" for T ps
    unfolding keeps_tables_def by (intro allI impI) (rule assms(1))
  moreover have "keeps_tables G (sql_count_rate c)" for c
    unfolding keeps_tables_def by (intro allI impI) (erule assms(2), rule rows_untouched(1))
  moreover have "keeps_tables G (sql_insert_audit ps)" for ps
    unfolding keeps_tables_def by (intro allI impI) (erule assms(2), rule rows_untouched(2))
  ultimately show ?thesis unfolding writes_ok_def by simp
qed

lemma writes_pg_ok: "writes_ok pg_ok"
  by (rule writes_okI, rule upsert_ok, assumption+) (use same_rows in blast)

lemma writes_grown: "writes_ok (\<lambda>t. pg_ok t \<and> grown t0 t)"
proof (rule writes_okI)
  fix T ps t ret t'
  assume "pg_ok t \<and> grown t0 t" and "sql_upsert T ps t = Inr (ret, t')"
  then show "pg_ok t' \<and> grown t0 t'" using upsert_ok upsert_grown grown_trans by blast
next
  fix t t' :: pg_tables
  assume "pg_ok t \<and> grown t0 t" and "pt_rows t' = pt_rows t"
  then show "pg_ok t' \<and> grown t0 t'" using same_rows grown_trans by blast
qed

lemma deletes_okI:
  assumes ok: "\<And>t. G t \<Longrightarrow> pg_ok t" and G: "\<And>t t'. G t \<Longrightarrow> pg_ok t' \<Longrightarrow> fewer t t' \<Longrightarrow> G t'"
  shows "deletes_ok G"
proof -
  have "G t'" if "G t" "sql_delete_sessions now t = Inr (n, t')" for now t n t'
    using G [OF that(1)] delete_leaf_ok [OF ok [OF that(1)], of T_sessions t'] that(2) by (auto simp: sql_delete_sessions_def)
  moreover have "G t'" if "G t" "sql_delete_invites now t = Inr (n, t')" for now t n t'
    using G [OF that(1)] delete_invites_ok [OF ok [OF that(1)] that(2)] by blast
  moreover have "G t'" if "G t" "sql_delete_presence now t = Inr (n, t')" for now t n t'
    using G [OF that(1)] delete_leaf_ok [OF ok [OF that(1)], of T_presence t'] that(2) by (auto simp: sql_delete_presence_def)
  moreover have "G t'" if "G t" "sql_delete_rates now t = Inr (n, t')" for now t n t'
    using G [OF that(1)] same_rows [OF rows_untouched(3) [OF that(2)]] ok [OF that(1)] by blast
  ultimately show ?thesis unfolding deletes_ok_def keeps_tables_def by blast
qed

lemma deletes_pg_ok: "deletes_ok pg_ok"
  by (rule deletes_okI)

lemma deletes_fewer: "deletes_ok (\<lambda>t. pg_ok t \<and> fewer t0 t)"
  by (rule deletes_okI) (use fewer_trans in blast)+

text \<open>Whether a transaction is open, to which tables it returns, and the clients taken.\<close>

definition mode :: "bool \<Rightarrow> pg_tables \<Rightarrow> int \<Rightarrow> pg_world \<Rightarrow> bool" where
  "mode tx t n w \<longleftrightarrow> pw_clients w = n \<and> (if tx then \<exists>b. pw_begun w = Some (t, b) else pw_begun w = None)"

lemma mode_query: "keeps (mode tx t n) (pg_query d st params run)"
  by (auto simp: keeps_iff mode_def pg_query_def pg_failed_def split: option.splits sum.splits prod.splits)

lemma transaction_result:
  assumes undo: "\<And>t. pd_refuse d S_rollback [] t = None" and m: "\<And>t n. keeps (mode True t n) m"
    and w: "mode False t n w" and run: "withPgTransaction d m w = (r, w')"
  shows "mode False t n w' \<and> (\<forall>e. r = Inl e \<longrightarrow> pw_tables w' = pw_tables w)"
proof (cases "pd_connect d (pw_tables w)")
  case None
  define w1 where "w1 = w\<lparr>pw_clients := n + 1\<rparr>"
  have w1: "pw_begun w1 = None" "pw_clients w1 = n + 1" "pw_tables w1 = pw_tables w" "pw_clients w = n"
    using w by (simp_all add: w1_def mode_def)
  show ?thesis
  proof (cases "pd_refuse d S_begin [] (pw_tables w)")
    case Some
    with None run undo w1 show ?thesis
      by (auto simp: withPgTransaction_def eff_catch_def eff_bind_def pg_control_def w1_def [symmetric] pg_rollback_def mode_def)
  next
    case begun: None
    obtain a w2 where m2: "m (pg_begin w1) = (a, w2)" by fastforce
    have "mode True (pw_tables w) (n + 1) (pg_begin w1)" using w1 by (auto simp: mode_def pg_begin_def)
    with m have "mode True (pw_tables w) (n + 1) w2" unfolding keeps_iff using m2 by (metis snd_conv)
    then obtain b where w2: "pw_begun w2 = Some (pw_tables w, b)" "pw_clients w2 = n + 1" by (auto simp: mode_def)
    have rolled: "pg_control d S_rollback pg_rollback w2 = (Inr (), w2\<lparr>pw_tables := pw_tables w, pw_begun := None\<rparr>)"
      by (simp add: pg_control_def undo pg_rollback_def w2)
    have ends: "pw_begun (pg_commit w2) = None \<and> pw_clients (pg_commit w2) = n + 1"
      using w2 by (auto simp: pg_commit_def pg_rollback_def)
    show ?thesis
      using run None begun w1 w2 ends
      by (cases a; cases "pd_refuse d S_commit [] (pw_tables w2)")
        (auto simp: withPgTransaction_def eff_catch_def eff_bind_def pg_control_def [of d S_begin] pg_control_def [of d S_commit]
          rolled m2 w1_def [symmetric] mode_def)
  qed
qed (use run w in \<open>auto simp: withPgTransaction_def\<close>)

lemma mode_write:
  assumes undo: "\<And>t. pd_refuse d S_rollback [] t = None" and m: "\<And>t n. keeps (mode True t n) m"
  shows "keeps (mode tx t n) (runWriteTransaction d tx m)"
proof (cases tx)
  case False
  have "mode False t n (snd (withPgTransaction d m w))" if "mode False t n w" for w
    using transaction_result [OF undo m that, of "fst (withPgTransaction d m w)"] by (simp add: prod_eq_iff)
  with False show ?thesis by (simp add: runWriteTransaction_def keeps_iff)
qed (simp add: runWriteTransaction_def m)

lemma mode_run:
  assumes undo: "\<And>t. pd_refuse d S_rollback [] t = None"
  shows "keeps (mode tx t n) (pg_run d tx a)"
  by (cases a) (auto simp: no_answer_def pg_saveRoom_def pg_readRoom_def pg_saveInvite_def pg_readInvite_def
      pg_readInviteByToken_def selectInviteBy_def pg_saveApproval_def pg_readApproval_def pg_saveSession_def pg_readSession_def
      pg_savePresence_def pg_readPresence_def pg_incrementRateLimitCounter_def pg_readRateLimitCounter_def cleanupExpiredState_def
      pg_recordAuditEvent_def pg_readAuditEvents_def pg_requireRecordId_def requirePresence_def Let_def pg_write_def
      pg_select_def assertMutationSucceeded_def
      intro!: keeps_bind keeps_return keeps_throw keeps_get keeps_lift keeps_if mode_query mode_write [OF undo] split: option.split)

lemma mode_all: "(\<And>t. pd_refuse d S_rollback [] t = None) \<Longrightarrow> keeps (mode tx t n) (pg_all d tx as)"
  by (induction as) (simp_all only: pg_all.simps keeps_return keeps_bind mode_run)

lemma keeps_all: "keeps (both pg_ok) (pg_all d tx as)"
  by (induction as) (simp_all only: pg_all.simps keeps_return keeps_bind keeps_run writes_pg_ok deletes_pg_ok)

definition pg_initial :: "pg_world \<Rightarrow> bool" where
  "pg_initial w \<longleftrightarrow> w = createPostgresControlPlaneRepository (pw_now w)"

definition pg_inv :: "pg_world \<Rightarrow> bool" where
  "pg_inv w \<longleftrightarrow> both pg_ok w \<and> mode False (pw_tables w) 0 w"

lemma mode_any: "mode False t n w \<longleftrightarrow> mode False t' n w"
  by (simp add: mode_def)

definition pg_adm :: "pg_driver \<Rightarrow> pg_call \<Rightarrow> pg_world \<Rightarrow> bool" where
  "pg_adm d c w \<longleftrightarrow> (\<forall>t. pd_refuse d S_rollback [] t = None)"

lemma pg_inv_exec:
  assumes undo: "\<And>t. pd_refuse d S_rollback [] t = None" and w: "pg_inv w"
  shows "pg_inv (pg_exec d c w)"
proof -
  have "keeps (both pg_ok) (pg_call_run d c) \<and> keeps (mode False (pw_tables w) 0) (pg_call_run d c)"
  proof (cases c)
    case (Pg_alone a)
    then show ?thesis by (simp add: keeps_run writes_pg_ok deletes_pg_ok mode_run undo)
  next
    case (Pg_together as)
    have "keeps (mode False t n) (runWriteTransaction d False (pg_all d True as))" for t n
      by (rule mode_write [OF undo mode_all [OF undo]])
    with Pg_together show ?thesis
      by (simp add: runInServiceTransaction_def runWriteTransaction_def keeps_transaction keeps_all)
  next
    case (Pg_tick n)
    then show ?thesis by (simp add: keeps_iff both_def mode_def)
  qed
  with w show ?thesis unfolding pg_inv_def pg_exec_def keeps_iff using mode_any by blast
qed

interpretation pg: invariant pg_initial "pg_adm d" "pg_exec d" pg_inv for d
proof unfold_locales
  show "pg_inv w" if "pg_initial w" for w
  proof -
    from that obtain n where "w = createPostgresControlPlaneRepository n" unfolding pg_initial_def by blast
    then show ?thesis
      by (simp add: pg_inv_def createPostgresControlPlaneRepository_def both_def mode_def pg_ok_def)
  qed
  show "pg_inv (pg_exec d a w)" if "pg_inv w" "pg_adm d a w" for w a
    using that by (simp add: pg_adm_def pg_inv_exec)
qed

lemma alone_identities:
  assumes w: "pg_inv w"
  shows "identities_kept (pw_tables w) (pw_tables (pg_exec d (Pg_alone a) w))"
proof -
  let ?t = "pw_tables w" and ?t' = "pw_tables (pg_exec d (Pg_alone a) w)"
  have ok: "pg_ok ?t" and none: "pw_begun w = None" using w by (auto simp: pg_inv_def both_def mode_def)
  show ?thesis
  proof (cases "is_cleanup a")
    case True
    have k: "keeps (both (\<lambda>t. pg_ok t \<and> fewer ?t t)) (pg_run d False a)"
      by (rule keeps_run) (use True deletes_fewer in auto)
    have "both (\<lambda>t. pg_ok t \<and> fewer ?t t) w" using ok none by (simp add: both_def fewer_def)
    from keepsD [OF k this] have "fewer ?t ?t'" by (simp add: pg_exec_def both_def)
    with ok show ?thesis by (rule identities_fewer [rotated])
  next
    case False
    have k: "keeps (both (\<lambda>t. pg_ok t \<and> grown ?t t)) (pg_run d False a)"
      by (rule keeps_run) (use False writes_grown in auto)
    have "both (\<lambda>t. pg_ok t \<and> grown ?t t) w" using ok none by (simp add: both_def grown_refl)
    from keepsD [OF k this] have "grown ?t ?t' \<and> pg_ok ?t'" by (simp add: pg_exec_def both_def)
    then show ?thesis using identities_grown by blast
  qed
qed

section \<open>Properties\<close>


definition plain_driver :: pg_driver where
  "plain_driver = \<lparr>pd_sha = id, pd_keep = (\<lambda>_ v. v), pd_show = (\<lambda>_ v. v), pd_connect = (\<lambda>_. None), pd_refuse = (\<lambda>_ _ _. None)\<rparr>"

definition demo_pg_room :: "string \<Rightarrow> jsval" where
  "demo_pg_room host = JObj [(''id'', JStr ''r''), (''hostId'', JStr host), (''state'', JStr ''open'')]"

definition demo_pg :: pg_world where
  "demo_pg = pg_exec plain_driver (Pg_alone (Op_saveRoom (demo_pg_room ''h''))) (createPostgresControlPlaneRepository 5)"

lemma demo_pg_rows: "length (pt_rows (pw_tables demo_pg) T_rooms) = 1"
  by code_simp

lemma demo_pg_throws: "\<exists>e w'. pg_call_run plain_driver (Pg_together [Op_saveRoom (demo_pg_room ''h''), Op_saveRoom (demo_pg_room ''x'')])
    demo_pg = (Inl e, w')"
proof -
  have "(case fst (pg_call_run plain_driver (Pg_together [Op_saveRoom (demo_pg_room ''h''), Op_saveRoom (demo_pg_room ''x'')]) demo_pg)
      of Inl _ \<Rightarrow> True | Inr _ \<Rightarrow> False)" by code_simp
  then show ?thesis by (auto simp: prod_eq_iff split: sum.splits)
qed


section \<open>The counters of the memory store\<close>

definition counters_agree :: "pg_driver \<Rightarrow> pg_world \<Rightarrow> memory_store \<Rightarrow> bool" where
  "counters_agree d w s \<longleftrightarrow> ms_rateLimits s = map (\<lambda>c. (rc_id c, c)) (pt_rates (pw_tables w)) \<and> ms_now s = pw_now w \<and>
     \<not> pg_spoiled w \<and> distinct (map rc_id (pt_rates (pw_tables w))) \<and> (\<forall>c \<in> set (pt_rates (pw_tables w)). \<exists>scope signal.
       rc_scope c = JStr scope \<and> rc_signalHash c = JStr (pd_sha d signal) \<and> rc_id c = scope @ '':'' @ pd_sha d signal)"

definition as_pg :: "rate_result \<Rightarrow> pg_rate_answer" where
  "as_pg r = \<lparr>pa_ok = rr_ok r, pa_scope = rr_scope r, pa_signalHash = rr_signalHash r, pa_count = rr_count r,
     pa_limit = rr_limit r, pa_remaining = rr_remaining r, pa_resetAt = JNum (rr_resetAt r)\<rparr>"

lemma colon_split: "a @ '':'' @ b = a' @ '':'' @ b' \<Longrightarrow> CHR '':'' \<notin> set b \<Longrightarrow> CHR '':'' \<notin> set b' \<Longrightarrow> a = a' \<and> b = b'"
proof -
  assume eq: "a @ '':'' @ b = a' @ '':'' @ b'" and "CHR '':'' \<notin> set b" "CHR '':'' \<notin> set b'"
  have b: "takeWhile (\<lambda>x. x \<noteq> CHR '':'') (rev (u @ '':'' @ v)) = rev v" if "CHR '':'' \<notin> set v" for u v :: string
    using that by (subst rev_append, subst rev_append, subst append_assoc, subst takeWhile_append2) auto
  have "rev b = rev b'" using b [of b a] b [of b' a'] \<open>CHR '':'' \<notin> set b\<close> \<open>CHR '':'' \<notin> set b'\<close> eq by metis
  with eq show ?thesis by simp
qed

lemma jm_get_counters: "jm_get (map (\<lambda>c. (f c, c)) cs) k = List.find (\<lambda>c. f c = k) cs"
  by (induction cs) auto

lemma jm_set_counters:
  "k = f v \<Longrightarrow> distinct (map f cs) \<Longrightarrow> jm_set k v (map (\<lambda>c. (f c, c)) cs) = map (\<lambda>c. (f c, c))
     (if List.find (\<lambda>c. f c = k) cs = None then cs @ [v] else map (\<lambda>c. if f c = k then v else c) cs)"
proof (induction cs)
  case (Cons c cs)
  have "map (\<lambda>c. if f c = k then v else c) cs = cs" if "f c = k"
  proof (rule map_idI)
    fix x
    assume "x \<in> set cs"
    then have "f x \<in> set (map f cs)" by simp
    then have "f x \<noteq> k" using Cons.prems(2) \<open>f c = k\<close> by fastforce
    then show "(if f x = k then v else x) = x" by simp
  qed
  with Cons show ?case by auto
qed simp

text \<open>One counter, as either store makes it.\<close>

lemma counted_once:
  assumes agree: "counters_agree d w s" and sha: "\<And>x. CHR '':'' \<notin> set (pd_sha d x)"
    and new: "new = \<lparr>rc_id = scope @ '':'' @ pd_sha d g, rc_scope = JStr scope, rc_signalHash = JStr (pd_sha d g), rc_count = 1,
      rc_limit = l, rc_windowMs = m, rc_resetAt = now + m, rc_updatedAt = now\<rparr>"
    and c: "c = (case jm_get (ms_rateLimits s) (rc_id new) of None \<Rightarrow> new | Some old \<Rightarrow> counted old new)"
  shows "sql_count_rate new (pw_tables w) = Inr (c, (pw_tables w)\<lparr>pt_rates := map snd (jm_set (rc_id new) c (ms_rateLimits s))\<rparr>) \<and>
    counters_agree d (w\<lparr>pw_tables := (pw_tables w)\<lparr>pt_rates := map snd (jm_set (rc_id new) c (ms_rateLimits s))\<rparr>\<rparr>)
      (s\<lparr>ms_rateLimits := jm_set (rc_id new) c (ms_rateLimits s)\<rparr>)"
proof -
  let ?cs = "pt_rates (pw_tables w)"
  have limits: "ms_rateLimits s = map (\<lambda>c. (rc_id c, c)) ?cs" and dist: "distinct (map rc_id ?cs)"
    and form: "\<forall>c \<in> set ?cs. \<exists>scope signal. rc_scope c = JStr scope \<and> rc_signalHash c = JStr (pd_sha d signal) \<and>
      rc_id c = scope @ '':'' @ pd_sha d signal"
    using agree by (simp_all add: counters_agree_def)
  have same: "same_signal x new \<longleftrightarrow> rc_id x = rc_id new" if "x \<in> set ?cs" for x
  proof -
    from bspec [OF form that] obtain sc h
      where x: "rc_scope x = JStr sc" "rc_signalHash x = JStr (pd_sha d h)" "rc_id x = sc @ '':'' @ pd_sha d h"
      by (elim exE conjE)
    have "sc @ '':'' @ pd_sha d h = scope @ '':'' @ pd_sha d g \<longleftrightarrow> sc = scope \<and> pd_sha d h = pd_sha d g"
      using colon_split [of sc "pd_sha d h" scope "pd_sha d g"] sha [of h] sha [of g] by metis
    then show ?thesis by (simp add: same_signal_def new x)
  qed
  have found: "List.find (\<lambda>x. same_signal x new) ?cs = List.find (\<lambda>x. rc_id x = rc_id new) ?cs"
    by (rule find_cong) (simp_all add: same)
  have got: "jm_get (ms_rateLimits s) (rc_id new) = List.find (\<lambda>x. rc_id x = rc_id new) ?cs"
    by (simp add: limits jm_get_counters)
  have id: "rc_id c = rc_id new"
    by (auto simp: c got counted_def Let_def find_Some_iff split: option.split)
  have set: "jm_set (rc_id new) c (ms_rateLimits s) = map (\<lambda>x. (rc_id x, x))
      (if List.find (\<lambda>x. rc_id x = rc_id new) ?cs = None then ?cs @ [c] else map (\<lambda>x. if rc_id x = rc_id new then c else x) ?cs)"
    unfolding limits by (rule jm_set_counters [OF id [symmetric] dist])
  then have rates: "map snd (jm_set (rc_id new) c (ms_rateLimits s)) =
      (if List.find (\<lambda>x. rc_id x = rc_id new) ?cs = None then ?cs @ [c] else map (\<lambda>x. if rc_id x = rc_id new then c else x) ?cs)"
    (is "_ = ?rates") by (simp add: comp_def)
  have replaced: "map (\<lambda>x. if same_signal x new then c else x) ?cs = map (\<lambda>x. if rc_id x = rc_id new then c else x) ?cs"
    by (rule map_cong [OF refl]) (simp add: same)
  have run: "sql_count_rate new (pw_tables w) = Inr (c, (pw_tables w)\<lparr>pt_rates := ?rates\<rparr>)"
  proof (cases "List.find (\<lambda>x. rc_id x = rc_id new) ?cs")
    case None
    then show ?thesis by (simp add: sql_count_rate_def found c got)
  next
    case (Some old)
    then have co: "c = counted old new" by (simp add: c got)
    show ?thesis using replaced unfolding co by (simp add: sql_count_rate_def found Some del: map_eq_conv)
  qed
  have "distinct (map fst (ms_rateLimits s))" using dist by (simp add: limits comp_def)
  then have "distinct (map fst (jm_set (rc_id new) c (ms_rateLimits s)))" by (rule distinct_jm_set)
  then have dist': "distinct (map rc_id ?rates)" unfolding set by (simp only: map_map comp_def fst_conv)
  have c_form: "\<exists>scope signal. rc_scope c = JStr scope \<and> rc_signalHash c = JStr (pd_sha d signal) \<and> rc_id c = scope @ '':'' @ pd_sha d signal"
  proof (cases "List.find (\<lambda>x. rc_id x = rc_id new) ?cs")
    case None
    then have "c = new" by (simp add: c got)
    then show ?thesis by (auto simp: new)
  next
    case (Some old)
    then have "old \<in> set ?cs" by (auto simp: find_Some_iff)
    moreover have "c = counted old new" using Some by (simp add: c got)
    ultimately have "old \<in> set ?cs" "c = counted old new" by blast+
    with form show ?thesis by (auto simp: counted_def Let_def)
  qed
  have "counters_agree d (w\<lparr>pw_tables := (pw_tables w)\<lparr>pt_rates := ?rates\<rparr>\<rparr>) (s\<lparr>ms_rateLimits := jm_set (rc_id new) c (ms_rateLimits s)\<rparr>)"
    using agree dist' form c_form unfolding counters_agree_def set
    by (auto simp: pg_spoiled_def split: if_splits)
  with run show ?thesis unfolding rates by simp
qed


definition digest_driver :: pg_driver where
  "digest_driver = plain_driver\<lparr>pd_sha := (\<lambda>_. ''0a'')\<rparr>"


section \<open>A rollback that fails\<close>

text \<open>
  When the rollback itself fails, the caller sees that failure and not the one before it, and the client
  goes back to the pool with its transaction open; the next transaction on it commits what was to be undone.
\<close>

lemma failed_rollback_stays_open:
  assumes "pd_connect d (pw_tables w) = None" and "pd_refuse d S_begin [] (pw_tables w) = None"
    and "m (pg_begin (w\<lparr>pw_clients := pw_clients w + 1\<rparr>)) = (Inl e, w2)" and "pw_begun w2 = Some (t, b)"
    and "pd_refuse d S_rollback [] (pw_tables w2) = Some message"
  shows "\<exists>w'. withPgTransaction d m w = (Inl (pg_error message), w') \<and> pw_begun w' = Some (t, b) \<and>
    pw_tables w' = pw_tables w2 \<and> pw_clients w' = pw_clients w2 - 1"
  using assms by (simp add: withPgTransaction_def eff_catch_def eff_bind_def pg_control_def)

end
