(* ===== verification/DesktopState.thy ===== *)
theory DesktopState
  imports DesktopText Decimals Machine
begin

text \<open>
  \<open>apps/desktop/state.js\<close>: the state of the room screen and the reducer that every action goes
  through. The texts of the screen that are written in Korean are named by \<open>ui_text\<close>, and a parameter
  \<open>ui\<close> gives them; the parser of links (\<open>new URL\<close>) is the parameter \<open>url\<close>.
\<close>

section \<open>Texts\<close>

datatype ui_text = UT_open_failed | UT_not_ready | UT_command_failed | UT_check_runtime | UT_error_mark | UT_server_open
  | UT_crashed_line | UT_exit_line | UT_metrics_line | UT_metrics | UT_request_failed | UT_crashed_title | UT_check_log
  | UT_gate_label | UT_gate_copy | UT_catalog string string

definition ui_secret_names :: "string list" where
  "ui_secret_names = [''invite'', ''inviteToken'', ''token'', ''secret'', ''password'', ''credential'',
     ''authorization'', ''cookie'', ''session'']"

definition double_quote :: "char \<Rightarrow> bool" where
  "double_quote x \<longleftrightarrow> x = CHR 0x22"

definition quoted_secret :: re where
  "quoted_secret = cats [Chr double_quote, Cap 1 (Cat (alts (map liti ui_secret_names)) (star (Chr (\<lambda>x. \<not> double_quote x)))),
     Chr double_quote, star (Chr is_space), lit '':'', star (Chr is_space),
     Chr double_quote, star (Chr (\<lambda>x. \<not> double_quote x)), Chr double_quote]"

definition ui_rules :: "(re \<times> (captures \<Rightarrow> string)) list" where
  "ui_rules =
    [(host_ipv4, \<lambda>_. host_redacted), (host_ipv6, \<lambda>_. host_redacted),
     (host_windows_path, \<lambda>_. ''[redacted-path]''), (desktop_unix_path, \<lambda>c. cap c 1 @ ''[redacted-path]''),
     (quoted_secret, \<lambda>c. [CHR 0x22] @ cap c 1 @ [CHR 0x22, CHR '':'', CHR 0x22] @ host_redacted @ [CHR 0x22]),
     (named_secret ui_secret_names, \<lambda>c. cap c 1 @ ''='' @ host_redacted),
     (auth_scheme, \<lambda>c. cap c 1 @ '' '' @ host_redacted),
     (host_uuid, \<lambda>_. host_redacted), (desktop_email, \<lambda>_. host_redacted)]"

definition redactUiText :: "jsval \<Rightarrow> string" where
  "redactUiText v = fold (\<lambda>(r, f) t. re_replace r (\<lambda>_. f) t) ui_rules (js_string (coalesce v (JStr [])))"

section \<open>The catalogue\<close>

record catalog_candidate =
  cc_id :: string
  cc_name :: string
  cc_badge :: string
  cc_summary :: string
  cc_riskLabel :: string
  cc_riskDetail :: string
  cc_dependencies :: "string list"
  cc_conflicts :: "string list"
  cc_serverLabel :: string
  cc_serverDetail :: string

definition catalog_entry :: "(ui_text \<Rightarrow> string) \<Rightarrow> string \<Rightarrow> string \<Rightarrow> string list \<Rightarrow> catalog_candidate" where
  "catalog_entry ui key name dependencies = (let t = (\<lambda>field. ui (UT_catalog key field)) in
     \<lparr>cc_id = key, cc_name = name, cc_badge = t ''badge'', cc_summary = t ''summary'', cc_riskLabel = t ''risk.label'',
      cc_riskDetail = t ''risk.detail'', cc_dependencies = map t dependencies, cc_conflicts = [t ''conflicts''],
      cc_serverLabel = t ''serverApplicability.label'', cc_serverDetail = t ''serverApplicability.detail''\<rparr>)"

definition catalogCandidates :: "(ui_text \<Rightarrow> string) \<Rightarrow> catalog_candidate list" where
  "catalogCandidates ui =
    [catalog_entry ui ''performance-core'' (ui (UT_catalog ''performance-core'' ''name'')) [''dependencies.0'', ''dependencies.1''],
     catalog_entry ui ''lithium'' ''Lithium'' [''dependencies.0''],
     catalog_entry ui ''ferritecore'' ''FerriteCore'' [''dependencies.0'']]"

record catalog_option =
  co_id :: string
  co_name :: string
  co_badge :: string
  co_riskLabel :: string

definition toCatalogOption :: "catalog_candidate \<Rightarrow> catalog_option" where
  "toCatalogOption c = \<lparr>co_id = cc_id c, co_name = cc_name c, co_badge = cc_badge c, co_riskLabel = cc_riskLabel c\<rparr>"

text \<open>The detail of a candidate is a copy of it.\<close>

definition toCatalogDetail :: "catalog_candidate \<Rightarrow> catalog_candidate" where
  "toCatalogDetail c = \<lparr>cc_id = cc_id c, cc_name = cc_name c, cc_badge = cc_badge c, cc_summary = cc_summary c,
     cc_riskLabel = cc_riskLabel c, cc_riskDetail = cc_riskDetail c, cc_dependencies = cc_dependencies c,
     cc_conflicts = cc_conflicts c, cc_serverLabel = cc_serverLabel c, cc_serverDetail = cc_serverDetail c\<rparr>"

record catalog_assessment =
  ca_selectedId :: string
  ca_gate :: string
  ca_gateLabel :: string
  ca_appliedToServer :: bool
  ca_gateCopy :: string
  ca_candidates :: "catalog_option list"
  ca_selected :: catalog_candidate

definition createCatalogAssessment :: "(ui_text \<Rightarrow> string) \<Rightarrow> jsval \<Rightarrow> catalog_assessment" where
  "createCatalogAssessment ui selectedId_arg =
    (let candidates = catalogCandidates ui;
         selectedId = (if selectedId_arg = JUndef then JStr (cc_id (hd candidates)) else selectedId_arg);
         selected = (case List.find (\<lambda>c. JStr (cc_id c) = selectedId) candidates of Some c \<Rightarrow> c | None \<Rightarrow> hd candidates)
     in \<lparr>ca_selectedId = cc_id selected, ca_gate = ''m6_curated_beta'', ca_gateLabel = ui UT_gate_label,
         ca_appliedToServer = True, ca_gateCopy = ui UT_gate_copy, ca_candidates = map toCatalogOption candidates,
         ca_selected = toCatalogDetail selected\<rparr>)"

section \<open>State\<close>

record ui_blocker =
  ub_title :: string
  ub_message :: string

record ui_metrics =
  um_pid :: "int option"
  um_source :: string
  um_measuredAt :: string
  um_basisProcess :: string
  um_basisCpu :: string
  um_basisMemory :: string
  um_cpuPercent :: "rat option"
  um_workingSetBytes :: rat
  um_totalBytes :: rat
  um_memoryPercent :: rat

record room_ui =
  ru_prepared :: bool
  ru_open :: bool
  ru_previewOpen :: bool
  ru_bridgeStatus :: jsval
  ru_commandPending :: jsval
  ru_inviteLink :: jsval
  ru_blocker :: "ui_blocker option"
  ru_diagnostics :: "(string \<times> string) list"
  ru_runtimeRows :: "(string \<times> string) list"
  ru_consoleLines :: "string list"
  ru_metrics :: "ui_metrics option"
  ru_metricsProblem :: "string option"
  ru_catalog :: catalog_assessment
  ru_request :: string
  ru_message :: "string option"

definition cloneInitialState :: "(ui_text \<Rightarrow> string) \<Rightarrow> room_ui" where
  "cloneInitialState ui = \<lparr>ru_prepared = False, ru_open = False, ru_previewOpen = False, ru_bridgeStatus = JStr ''idle'',
     ru_commandPending = JNull, ru_inviteLink = JNull, ru_blocker = None, ru_diagnostics = [], ru_runtimeRows = [],
     ru_consoleLines = [], ru_metrics = None, ru_metricsProblem = None, ru_catalog = createCatalogAssessment ui JUndef,
     ru_request = ''empty'', ru_message = None\<rparr>"

definition OPEN_ROOM_STATUSES :: "string list" where
  "OPEN_ROOM_STATUSES = [''running'', ''open'', ''preview-open'']"

definition PREPARED_ROOM_STATUSES :: "string list" where
  "PREPARED_ROOM_STATUSES = [''ready'', ''starting'', ''running'']"

definition CONSOLE_FAILURE_STATUS_PRESERVE :: "string list" where
  "CONSOLE_FAILURE_STATUS_PRESERVE = [''blocked'', ''failed'']"

definition status_in :: "jsval \<Rightarrow> string list \<Rightarrow> bool" where
  "status_in status names \<longleftrightarrow> status \<in> JStr ` set names"

section \<open>Links\<close>

text \<open>What \<open>new URL(link)\<close> tells: \<open>None\<close> when it throws; the parameter \<open>invite\<close>, if the link has it.\<close>

record link_url =
  lu_protocol :: string
  lu_hostname :: string
  lu_username :: string
  lu_password :: string
  lu_invite :: "string option"

definition publicInviteHosts :: "string list" where
  "publicInviteHosts = [''join.easymc.gg'']"

definition isReservedInviteHost :: "string \<Rightarrow> bool" where
  "isReservedInviteHost host \<longleftrightarrow> host \<in> {''localhost'', ''example.com'', ''example.net'', ''example.org'', ''example.test''} \<or>
     list_ex (js_endsWith host) [''.localhost'', ''.example'', ''.invalid'', ''.test'', ''.local'', ''.lan'']"

definition byte_number :: "string \<Rightarrow> int option" where
  "byte_number part = (case str_number part of
     Fin q \<Rightarrow> if of_int \<lfloor>q\<rfloor> = q \<and> 0 \<le> q \<and> q \<le> 255 then Some \<lfloor>q\<rfloor> else None | _ \<Rightarrow> None)"

definition isPrivateIpv4 :: "string \<Rightarrow> bool" where
  "isPrivateIpv4 host = (case map byte_number (js_split CHR ''.'' host) of
     [Some a, Some b, Some _, Some _] \<Rightarrow> a = 10 \<or> a = 127 \<or> a = 0 \<or> (a = 172 \<and> 16 \<le> b \<and> b \<le> 31) \<or>
       (a = 192 \<and> b = 168) \<or> (a = 169 \<and> b = 254)
   | _ \<Rightarrow> False)"

definition isPrivateIpv6 :: "string \<Rightarrow> bool" where
  "isPrivateIpv6 host \<longleftrightarrow> host = ''::'' \<or> host = ''::1'' \<or> list_ex (js_startsWith host) [''fc'', ''fd'', ''fe80'']"

definition bare_host :: "string \<Rightarrow> string" where
  "bare_host hostname = (let h = toLowerCase hostname; h' = (if js_startsWith h ''['' then tl h else h)
     in if js_endsWith h' '']'' then butlast h' else h')"

definition isShareableInviteLink :: "(jsval \<Rightarrow> link_url option) \<Rightarrow> jsval \<Rightarrow> bool" where
  "isShareableInviteLink url link =
    (case url link of
       None \<Rightarrow> False
     | Some u \<Rightarrow> (let host = bare_host (lu_hostname u) in
         lu_protocol u = ''https:'' \<and> lu_username u = [] \<and> lu_password u = [] \<and>
         (case lu_invite u of None \<Rightarrow> False | Some i \<Rightarrow> i \<noteq> []) \<and> host \<in> set publicInviteHosts \<and>
         \<not> isReservedInviteHost host \<and> \<not> isPrivateIpv4 host \<and> \<not> isPrivateIpv6 host))"

section \<open>Parts of a result\<close>

definition index :: "jsval \<Rightarrow> nat \<Rightarrow> jsval" where
  "index v i = (if i < length (elems v) then elems v ! i else JUndef)"

definition normalizeRow :: "jsval \<Rightarrow> string \<times> string" where
  "normalizeRow row = (if is_arr row then (redactUiText (index row 0), redactUiText (index row 1))
     else (redactUiText (coalesce (jget row ''label'') (jget row ''name'')),
       redactUiText (coalesce (jget row ''value'') (jget row ''message''))))"

definition normalizeRows :: "jsval \<Rightarrow> (string \<times> string) list" where
  "normalizeRows rows = (if \<not> is_arr rows then []
     else filter (\<lambda>(label, val). label \<noteq> [] \<or> val \<noteq> []) (map normalizeRow (elems rows)))"

definition normalizeBlocker :: "(ui_text \<Rightarrow> string) \<Rightarrow> jsval \<Rightarrow> ui_blocker option" where
  "normalizeBlocker ui blocker =
    (if \<not> truthy blocker then None
     else case blocker of
       JStr s \<Rightarrow> Some \<lparr>ub_title = ui UT_open_failed, ub_message = redactUiText blocker\<rparr>
     | _ \<Rightarrow> Some \<lparr>ub_title = redactUiText (coalesce (jget blocker ''title'') (JStr (ui UT_open_failed))),
         ub_message = redactUiText (coalesce (coalesce (jget blocker ''message'') (jget blocker ''detail''))
           (JStr (ui UT_not_ready)))\<rparr>)"

definition failureBlockerTitle :: "(ui_text \<Rightarrow> string) \<Rightarrow> jsval \<Rightarrow> string" where
  "failureBlockerTitle ui failure =
    (let reason = toLowerCase (js_string (coalesce (jget failure ''reason'') (JStr []))) in
     if js_includes reason ''command'' then ui UT_command_failed
     else if js_includes reason ''java'' then ui UT_check_runtime else ui UT_open_failed)"

definition blockerFromFailure :: "(ui_text \<Rightarrow> string) \<Rightarrow> jsval \<Rightarrow> jsval \<Rightarrow> ui_blocker option" where
  "blockerFromFailure ui failure summary =
    (if \<not> truthy failure then None
     else normalizeBlocker ui (JObj [(''title'', JStr (failureBlockerTitle ui failure)),
       (''message'', coalesce (coalesce (jget failure ''message'') summary) (JStr (ui UT_not_ready)))]))"

definition normalizeStatus :: "jsval \<Rightarrow> room_ui \<Rightarrow> jsval" where
  "normalizeStatus result s =
    (let rawStatus = coalesce (jget result ''status'') (jget result ''state'') in
     if truthy rawStatus then JStr (js_string rawStatus)
     else if jget result ''open'' = JBool True then JStr ''running''
     else JStr (if ru_prepared s then ''ready'' else ''idle''))"

definition text_row :: "string \<Rightarrow> string \<Rightarrow> jsval" where
  "text_row label val = JArr [JStr label, JStr val]"

definition diagnosticsFromBridgeResult :: "jsval \<Rightarrow> jsval" where
  "diagnosticsFromBridgeResult result =
    (if is_arr (jget result ''diagnostics'') then jget result ''diagnostics''
     else
       let reason = jget (jget result ''failure'') ''reason''; detail = jget (jget result ''failure'') ''detail'';
           events = jget result ''events''; java = jget (jget result ''runtimePlan'') ''java'';
           fabric = jget (jget result ''runtimePlan'') ''fabric'' in
       JArr ((if truthy reason then [JArr [JStr ''Failure'', reason]] else []) @
         (if truthy detail then [JArr [JStr ''Detail'', case json detail of Some t \<Rightarrow> JStr t | None \<Rightarrow> JUndef]] else []) @
         (if nonempty_arr events then [text_row ''Recent events'' (digits (length (elems events)))] else []) @
         (if truthy java then [text_row ''Java'' (''detected='' @ (if truthy (jget java ''detected'') then ''true'' else ''false'') @
            '' major='' @ js_string (coalesce (jget java ''majorVersion'') (JStr ''unknown'')))] else []) @
         (if truthy fabric then [text_row ''Fabric'' (''loader='' @
            js_string (coalesce (jget fabric ''loaderVersion'') (JStr ''unknown'')))] else [])))"

section \<open>The console\<close>

definition event_type :: "jsval \<Rightarrow> string" where
  "event_type event = js_string (coalesce (jget event ''type'') (JStr []))"

text \<open>The texts that end with a message, if there is one.\<close>

definition with_message :: "string \<Rightarrow> jsval \<Rightarrow> string" where
  "with_message start message = start @ (if truthy message then '': '' @ redactUiText message else ''.'')"

definition formatConsoleEvent :: "(ui_text \<Rightarrow> string) \<Rightarrow> jsval \<Rightarrow> string option" where
  "formatConsoleEvent ui event =
    (let kind = event_type event; line = jget event ''line''; failure = jget event ''failure'' in
     if kind = ''runtime.log'' \<and> truthy line
       then Some (''['' @ redactUiText (coalesce (jget event ''stream'') (JStr ''server'')) @ ''] '' @ redactUiText line)
     else if kind = ''runtime.ready'' then Some (ui UT_server_open)
     else if kind = ''runtime.command'' \<and> truthy line then None
     else if kind = ''runtime.crashed'' then Some (with_message (ui UT_crashed_line) line)
     else if kind = ''runtime.exit''
       then Some (ui UT_exit_line @ redactUiText (coalesce (jget event ''state'') (JStr ''unknown'')))
     else if kind = ''runtime.failure'' \<and> truthy (jget failure ''message'')
       then Some (ui UT_error_mark @ redactUiText (jget failure ''message''))
     else if kind = ''runtime.metrics_unavailable'' then Some (with_message (ui UT_metrics_line) (jget event ''message''))
     else None)"

fun mergeConsoleLines :: "string list \<Rightarrow> string list \<Rightarrow> string list" where
  "mergeConsoleLines merged [] = merged"
| "mergeConsoleLines merged (line # ls) =
     mergeConsoleLines (if line \<noteq> [] \<and> line \<notin> set merged then merged @ [line] else merged) ls"

text \<open>\<open>xs.slice(-n)\<close>\<close>

definition last_lines :: "nat \<Rightarrow> 'a list \<Rightarrow> 'a list" where
  "last_lines n xs = drop (length xs - n) xs"

definition consoleLinesFromBridgeResult :: "(ui_text \<Rightarrow> string) \<Rightarrow> jsval \<Rightarrow> room_ui \<Rightarrow> string list" where
  "consoleLinesFromBridgeResult ui result s =
    (let ls = (if is_arr (jget result ''events'')
           then mergeConsoleLines (ru_consoleLines s)
             (filter (\<lambda>l. l \<noteq> []) (List.map_filter (formatConsoleEvent ui) (elems (jget result ''events''))))
           else ru_consoleLines s);
         message = jget (jget result ''failure'') ''message''
     in last_lines 240 (if truthy message then mergeConsoleLines ls [ui UT_error_mark @ redactUiText message] else ls))"

section \<open>Metrics\<close>

definition toFiniteNumber :: "jsval \<Rightarrow> rat option" where
  "toFiniteNumber v = (if nullish v \<or> v = JStr [] then None else (case js_number v of Fin q \<Rightarrow> Some q | _ \<Rightarrow> None))"

definition or_zero :: "rat option \<Rightarrow> rat" where
  "or_zero x = (case x of None \<Rightarrow> 0 | Some q \<Rightarrow> q)"

definition normalizeMetrics :: "jsval \<Rightarrow> ui_metrics option" where
  "normalizeMetrics metrics =
    (if \<not> (is_obj metrics \<or> is_arr metrics) then None
     else
       let cpu = toFiniteNumber (jget (jget metrics ''cpu'') ''processPercent'');
           memory = jget metrics ''memory''; basis = jget metrics ''basis'';
           workingSet = toFiniteNumber (jget memory ''workingSetBytes'');
           total = toFiniteNumber (jget memory ''totalBytes'');
           percent = toFiniteNumber (jget memory ''processPercent'');
           text_of = (\<lambda>v default. js_string (coalesce v (JStr default)))
       in if cpu = None \<and> workingSet = None \<and> percent = None then None
          else Some \<lparr>um_pid = as_integer (jget metrics ''pid''),
            um_source = text_of (jget metrics ''source'') ''process'',
            um_measuredAt = text_of (jget metrics ''measuredAt'') [],
            um_basisProcess = text_of (jget basis ''process'') ''minecraft_server_java_process'',
            um_basisCpu = text_of (jget basis ''cpu'') ''process_cpu_percent_of_total_logical_cpu'',
            um_basisMemory = text_of (jget basis ''memory'') ''process_working_set_percent_of_total_physical_memory'',
            um_cpuPercent = cpu, um_workingSetBytes = or_zero workingSet, um_totalBytes = or_zero total,
            um_memoryPercent = (case percent of Some q \<Rightarrow> q | None \<Rightarrow>
              (if workingSet \<noteq> None \<and> or_zero total > 0 then or_zero workingSet / or_zero total * 100 else 0))\<rparr>)"

definition metrics_problem :: "(ui_text \<Rightarrow> string) \<Rightarrow> jsval \<Rightarrow> string" where
  "metrics_problem ui event = with_message (ui UT_metrics) (jget event ''message'')"

definition metricsProblemFromEvents :: "(ui_text \<Rightarrow> string) \<Rightarrow> jsval \<Rightarrow> string option" where
  "metricsProblemFromEvents ui events =
    (if \<not> is_arr events then None
     else map_option (metrics_problem ui)
       (List.find (\<lambda>event. event_type event = ''runtime.metrics_unavailable'') (rev (elems events))))"

section \<open>Results of commands\<close>

definition isConsoleCommandFailure :: "jsval \<Rightarrow> jsval \<Rightarrow> bool" where
  "isConsoleCommandFailure command result \<longleftrightarrow> command = JStr ''server-command'' \<and> truthy (jget result ''failure'')"

definition effectiveBridgeStatus :: "jsval \<Rightarrow> room_ui \<Rightarrow> bool \<Rightarrow> jsval" where
  "effectiveBridgeStatus status s preserveCurrentStatus =
    (if preserveCurrentStatus \<and> status_in status CONSOLE_FAILURE_STATUS_PRESERVE then ru_bridgeStatus s else status)"

definition roomOpenFromResult :: "jsval \<Rightarrow> jsval \<Rightarrow> bool \<Rightarrow> room_ui \<Rightarrow> bool" where
  "roomOpenFromResult result effectiveStatus preserveCurrentOpen s =
    (if preserveCurrentOpen then ru_open s
     else status_in effectiveStatus OPEN_ROOM_STATUSES \<or> jget result ''open'' = JBool True)"

definition roomPreparedFromResult :: "jsval \<Rightarrow> room_ui \<Rightarrow> bool \<Rightarrow> jsval \<Rightarrow> bool" where
  "roomPreparedFromResult result s opened effectiveStatus =
    truthy (coalesce (jget result ''prepared'')
      (JBool (ru_prepared s \<or> opened \<or> status_in effectiveStatus PREPARED_ROOM_STATUSES)))"

definition ready_at :: "jsval \<Rightarrow> string list \<Rightarrow> bool" where
  "ready_at result path \<longleftrightarrow> jget (fold (\<lambda>k v. jget v k) path result) ''ready'' = JBool True"

definition inviteReadinessComplete :: "jsval \<Rightarrow> bool \<Rightarrow> bool" where
  "inviteReadinessComplete result opened \<longleftrightarrow> opened \<and>
     (case jget result ''inviteLink'' of JStr s \<Rightarrow> s \<noteq> [] | _ \<Rightarrow> False) \<and>
     ready_at result [''controlPlane''] \<and> ready_at result [''controlPlane'', ''invite''] \<and>
     ready_at result [''relay''] \<and> ready_at result [''relay'', ''session'']"

definition applyBridgeResult :: "(ui_text \<Rightarrow> string) \<Rightarrow> (jsval \<Rightarrow> link_url option) \<Rightarrow> room_ui \<Rightarrow> jsval \<Rightarrow> jsval \<Rightarrow> room_ui" where
  "applyBridgeResult ui url s result command =
    (let status = normalizeStatus result s;
         preserveConsoleState = isConsoleCommandFailure command result;
         effectiveStatus = effectiveBridgeStatus status s preserveConsoleState;
         opened = roomOpenFromResult result effectiveStatus preserveConsoleState s;
         prepared = roomPreparedFromResult result s opened effectiveStatus;
         summary = jget result ''summary''; message = jget result ''message'';
         blocker = (case normalizeBlocker ui (jget result ''blocker'') of
             Some b \<Rightarrow> Some b | None \<Rightarrow> blockerFromFailure ui (jget result ''failure'') summary);
         metrics = normalizeMetrics (jget result ''metrics'');
         metricsProblem = (if metrics \<noteq> None then None
           else case metricsProblemFromEvents ui (jget result ''events'') of
             Some p \<Rightarrow> Some p | None \<Rightarrow> (if preserveConsoleState then ru_metricsProblem s else None));
         inviteReady = inviteReadinessComplete result opened
     in s\<lparr>ru_prepared := prepared, ru_open := opened,
          ru_previewOpen := (if preserveConsoleState then ru_previewOpen s
            else effectiveStatus = JStr ''preview-open'' \<or> jget result ''previewOpen'' = JBool True),
          ru_bridgeStatus := effectiveStatus, ru_commandPending := JNull,
          ru_inviteLink := (if inviteReady \<and> isShareableInviteLink url (jget result ''inviteLink'')
            then jget result ''inviteLink'' else JNull),
          ru_blocker := blocker, ru_diagnostics := normalizeRows (diagnosticsFromBridgeResult result),
          ru_runtimeRows := normalizeRows (jget result ''runtimeRows''),
          ru_consoleLines := consoleLinesFromBridgeResult ui result s,
          ru_metrics := (case metrics of Some m \<Rightarrow> Some m | None \<Rightarrow> (if preserveConsoleState then ru_metrics s else None)),
          ru_metricsProblem := metricsProblem,
          ru_message := (if truthy message \<or> truthy summary then Some (redactUiText (coalesce message summary)) else None)\<rparr>)"

section \<open>Events of the running room\<close>

definition applyRuntimeEvent :: "(ui_text \<Rightarrow> string) \<Rightarrow> room_ui \<Rightarrow> jsval \<Rightarrow> room_ui" where
  "applyRuntimeEvent ui s event =
    (let kind = event_type event;
         nextStatus = js_string (coalesce (jget event ''state'') (JStr ''stopped''));
         stays_open = nextStatus = ''running'' \<or> nextStatus = ''open'';
         patched =
           (if kind = ''runtime.ready'' then
              s\<lparr>ru_bridgeStatus := JStr ''running'', ru_open := True, ru_prepared := True, ru_blocker := None\<rparr>
            else if kind = ''runtime.crashed'' then
              s\<lparr>ru_bridgeStatus := JStr ''crashed'', ru_open := False, ru_inviteLink := JNull,
                ru_blocker := normalizeBlocker ui (JObj [(''title'', JStr (ui UT_crashed_title)),
                  (''message'', coalesce (jget event ''line'') (JStr (ui UT_check_log)))])\<rparr>
            else if kind = ''runtime.failure'' then
              s\<lparr>ru_bridgeStatus := JStr ''failed'', ru_open := False, ru_inviteLink := JNull,
                ru_blocker := blockerFromFailure ui (jget event ''failure'') (jget (jget event ''failure'') ''message'')\<rparr>
            else if kind = ''runtime.exit'' then
              s\<lparr>ru_bridgeStatus := JStr nextStatus, ru_open := stays_open,
                ru_inviteLink := (if stays_open then ru_inviteLink s else JNull), ru_metricsProblem := None\<rparr>
            else if kind = ''runtime.metrics_unavailable'' then s\<lparr>ru_metricsProblem := metricsProblemFromEvents ui (JArr [event])\<rparr>
            else s)
     in case formatConsoleEvent ui event of
          Some line \<Rightarrow> if line = [] then patched
            else patched\<lparr>ru_consoleLines := last_lines 240 (mergeConsoleLines (ru_consoleLines s) [line])\<rparr>
        | None \<Rightarrow> patched)"

section \<open>The reducer\<close>

datatype ui_action = Bridge_pending jsval jsval | Console_append jsval | Runtime_event jsval | Catalog_select jsval
  | Bridge_result jsval jsval | Bridge_error jsval jsval jsval | Ui_approve | Ui_deny | Ui_reset | Ui_other

primrec reduceRoomState :: "(ui_text \<Rightarrow> string) \<Rightarrow> (jsval \<Rightarrow> link_url option) \<Rightarrow> ui_action \<Rightarrow> room_ui \<Rightarrow> room_ui" where
  "reduceRoomState ui url (Bridge_pending command status) s =
    (let isConsolePending = command = JStr ''server-command'' in
     s\<lparr>ru_commandPending := command,
       ru_bridgeStatus := (if isConsolePending then ru_bridgeStatus s else coalesce status (ru_bridgeStatus s)),
       ru_blocker := None, ru_metricsProblem := (if isConsolePending then ru_metricsProblem s else None), ru_message := None\<rparr>)"
| "reduceRoomState ui url (Console_append line) s =
    s\<lparr>ru_consoleLines := last_lines 240 (filter (\<lambda>l. l \<noteq> []) (ru_consoleLines s @ [redactUiText line]))\<rparr>"
| "reduceRoomState ui url (Runtime_event event) s = applyRuntimeEvent ui s event"
| "reduceRoomState ui url (Catalog_select modId) s = s\<lparr>ru_catalog := createCatalogAssessment ui modId\<rparr>"
| "reduceRoomState ui url (Bridge_result result command) s = applyBridgeResult ui url s result command"
| "reduceRoomState ui url (Bridge_error command message diagnostics) s =
    (let isConsoleCommand = command = JStr ''server-command'';
         shown = redactUiText (coalesce message (JStr (ui UT_request_failed))) in
     s\<lparr>ru_open := (isConsoleCommand \<and> ru_open s), ru_previewOpen := (isConsoleCommand \<and> ru_previewOpen s),
       ru_commandPending := JNull, ru_bridgeStatus := (if isConsoleCommand then ru_bridgeStatus s else JStr ''blocked''),
       ru_inviteLink := (if isConsoleCommand then ru_inviteLink s else JNull),
       ru_blocker := Some \<lparr>ub_title = ui (if isConsoleCommand then UT_command_failed else UT_open_failed), ub_message = shown\<rparr>,
       ru_diagnostics := normalizeRows diagnostics,
       ru_consoleLines := mergeConsoleLines (ru_consoleLines s) [ui UT_error_mark @ shown],
       ru_metrics := (if isConsoleCommand then ru_metrics s else None),
       ru_metricsProblem := (if isConsoleCommand then ru_metricsProblem s else None)\<rparr>)"
| "reduceRoomState ui url Ui_approve s = s\<lparr>ru_request := ''approved''\<rparr>"
| "reduceRoomState ui url Ui_deny s = s\<lparr>ru_request := ''denied''\<rparr>"
| "reduceRoomState ui url Ui_reset s = cloneInitialState ui"
| "reduceRoomState ui url Ui_other s = s"

end
