(* ===== verification/DesktopState_Props.thy ===== *)
theory DesktopState_Props
  imports DesktopState
begin

text \<open>
  The screen shows an invite link only for an open room, and only a public one; a console command that
  fails leaves the room as it is shown.
\<close>

section \<open>The link and the room\<close>

definition link_ok :: "(jsval \<Rightarrow> link_url option) \<Rightarrow> room_ui \<Rightarrow> bool" where
  "link_ok url s \<longleftrightarrow> ru_inviteLink s = JNull \<or> (ru_open s \<and> isShareableInviteLink url (ru_inviteLink s))"

definition ui_initial :: "(ui_text \<Rightarrow> string) \<Rightarrow> room_ui \<Rightarrow> bool" where
  "ui_initial ui s \<longleftrightarrow> s = cloneInitialState ui"

lemma link_result: "link_ok url (applyBridgeResult ui url s result command)"
  by (auto simp: link_ok_def applyBridgeResult_def inviteReadinessComplete_def Let_def)

lemma link_event: "link_ok url s \<Longrightarrow> link_ok url (applyRuntimeEvent ui s event)"
  by (auto simp: link_ok_def applyRuntimeEvent_def Let_def split: option.splits if_splits)

lemma link_step: "link_ok url s \<Longrightarrow> link_ok url (reduceRoomState ui url a s)"
proof (cases a)
  case (Bridge_result result command)
  then show ?thesis by (simp add: link_result)
next
  case (Runtime_event event)
  assume "link_ok url s"
  with Runtime_event show ?thesis by (simp add: link_event)
qed (auto simp: link_ok_def cloneInitialState_def Let_def)

interpretation screen: invariant "ui_initial ui" "\<lambda>_ _. True" "reduceRoomState ui url" "link_ok url" for ui url
proof unfold_locales
  show "link_ok url s" if "ui_initial ui s" for s
    using that by (simp add: ui_initial_def link_ok_def cloneInitialState_def)
  show "link_ok url (reduceRoomState ui url a s)" if "link_ok url s" for s a
    using that by (rule link_step)
qed

section \<open>Properties\<close>


definition demo_url :: "jsval \<Rightarrow> link_url option" where
  "demo_url v = Some \<lparr>lu_protocol = ''https:'', lu_hostname = ''join.easymc.gg'', lu_username = [], lu_password = [], lu_invite = Some ''t''\<rparr>"

definition demo_opened :: jsval where
  "demo_opened = (let ready = (''ready'', JBool True) in JObj [(''status'', JStr ''running''), (''inviteLink'', JStr ''l''),
     (''controlPlane'', JObj [ready, (''invite'', JObj [ready])]), (''relay'', JObj [ready, (''session'', JObj [ready])])])"

definition demo_screen :: room_ui where
  "demo_screen = reduceRoomState (\<lambda>_. ''text'') demo_url (Bridge_result demo_opened (JStr ''open'')) (cloneInitialState (\<lambda>_. ''text''))"

lemma demo_screen_shows: "ru_inviteLink demo_screen = JStr ''l''"
proof -
  have "isShareableInviteLink demo_url (JStr ''l'')" by code_simp
  then show ?thesis
    by (simp add: demo_screen_def demo_opened_def applyBridgeResult_def inviteReadinessComplete_def roomOpenFromResult_def
        isConsoleCommandFailure_def effectiveBridgeStatus_def normalizeStatus_def status_in_def OPEN_ROOM_STATUSES_def
        ready_at_def coalesce_def Let_def)
qed

lemma demo_screen_reached: "reach (ui_initial (\<lambda>_. ''text'')) (\<lambda>_ _. True) (reduceRoomState (\<lambda>_. ''text'') demo_url) demo_screen"
  unfolding demo_screen_def by (rule reach_step [OF reach_init]) (simp_all add: ui_initial_def)


section \<open>What the screen loses and keeps\<close>

text \<open>
  The answer of a console command that failed hides the link of a room that stays open, when the answer
  does not repeat it; an error of the same command keeps it.
\<close>

lemma failed_command_hides_link:
  assumes "ru_inviteLink s = JStr l" and "truthy failure"
  shows "ru_inviteLink (reduceRoomState ui url (Bridge_result (JObj [(''failure'', failure)]) (JStr ''server-command'')) s) = JNull \<and>
    ru_open (reduceRoomState ui url (Bridge_result (JObj [(''failure'', failure)]) (JStr ''server-command'')) s) = ru_open s \<and>
    ru_inviteLink (reduceRoomState ui url (Bridge_error (JStr ''server-command'') message diagnostics) s) = JStr l"
  using assms by (simp add: applyBridgeResult_def inviteReadinessComplete_def roomOpenFromResult_def isConsoleCommandFailure_def Let_def)

text \<open>Errors add to the lines of the console beyond the 240 that every other action keeps.\<close>

lemma last_lines_length: "length (last_lines n xs) \<le> n"
  by (simp add: last_lines_def)

lemma console_lines_bound:
  "ru_consoleLines (reduceRoomState ui url a s) = ru_consoleLines s \<or> length (ru_consoleLines (reduceRoomState ui url a s)) \<le> 240 \<or>
   (\<exists>c m d. a = Bridge_error c m d)"
  by (cases a) (auto simp: applyBridgeResult_def consoleLinesFromBridgeResult_def last_lines_length applyRuntimeEvent_def
      cloneInitialState_def Let_def split: option.split)

lemma error_lines_unbounded:
  assumes "ui UT_error_mark @ redactUiText (JStr m) \<notin> set (ru_consoleLines s)" and "ui UT_error_mark \<noteq> []"
  shows "length (ru_consoleLines (reduceRoomState ui url (Bridge_error c (JStr m) d) s)) = length (ru_consoleLines s) + 1"
  using assms by (simp add: coalesce_def Let_def)

end
