(* ===== verification/ProcessMetrics.thy ===== *)
theory ProcessMetrics
  imports LocalServer Decimals
begin

text \<open>
  \<open>apps/desktop/src/runtime/node-local-runtime.mjs\<close>: the processor and memory use of the server
  (\<open>readProcessResourceMetrics\<close> and its readers, \<open>normalizeProcessMetrics\<close>) and the sampler of the
  lifecycle manager (\<open>refreshProcessMetrics\<close>). What the platform answers (the outputs of commands,
  \<open>JSON.parse\<close>, \<open>Date.parse\<close>, the clock, its processors and memory) is an argument. Numbers are
  exact: the rounding of a double is not modelled.
\<close>

section \<open>Numbers\<close>

text \<open>\<open>Number.isFinite\<close> of a number, and the number.\<close>

definition num_rat :: "jsnum \<Rightarrow> rat option" where
  "num_rat x = (case x of Fin q \<Rightarrow> Some q | _ \<Rightarrow> None)"

definition num_map :: "(rat \<Rightarrow> rat) \<Rightarrow> jsnum \<Rightarrow> jsnum" where
  "num_map f x = (case x of Fin q \<Rightarrow> Fin (f q) | y \<Rightarrow> y)"

definition optionalFiniteNumber :: "jsval \<Rightarrow> rat option" where
  "optionalFiniteNumber v = (if nullish v \<or> v = JStr [] then None else num_rat (js_number v))"

definition clampPercent :: "jsnum \<Rightarrow> rat" where
  "clampPercent v = (case num_rat v of None \<Rightarrow> 0 | Some q \<Rightarrow> min 100 (max 0 q))"

text \<open>\<open>Math.round\<close>: halves go up.\<close>

definition js_round :: "rat \<Rightarrow> int" where
  "js_round q = \<lfloor>q + 1 / 2\<rfloor>"

definition roundMetric :: "rat \<Rightarrow> rat" where
  "roundMetric q = of_int (js_round (q * 10)) / 10"

section \<open>Metrics\<close>

record process_metrics =
  pm_pid :: "int option"
  pm_source :: string
  pm_measuredAt :: string
  pm_cpuPercent :: "rat option"
  pm_workingSetBytes :: int
  pm_totalBytes :: int
  pm_memoryPercent :: "rat option"

text \<open>What is normalized, its fields read as numbers. \<open>None\<close>: absent, or no number.\<close>

record metrics_given =
  mg_pid :: jsnum
  mg_source :: "string option"
  mg_measuredAt :: "string option"
  mg_cpuPercent :: "rat option"
  mg_workingSetBytes :: "rat option"
  mg_totalBytes :: "rat option"
  mg_memoryPercent :: "rat option"

record metrics_platform =
  mp_windows :: bool
  mp_execFile :: "jsval \<Rightarrow> jsval list \<Rightarrow> jsval \<Rightarrow> string + jsval"
  mp_parse :: "string \<Rightarrow> jsval option"
  mp_date :: "string \<Rightarrow> jsnum"
  mp_iso :: "int \<Rightarrow> string"
  mp_now :: string
  mp_cpus :: nat
  mp_totalmem :: nat

definition logicalCpuCount :: "metrics_platform \<Rightarrow> nat" where
  "logicalCpuCount mp = max 1 (mp_cpus mp)"

definition optional_text :: "jsval \<Rightarrow> string option" where
  "optional_text v = (if nullish v then None else Some (js_string v))"

text \<open>The fields of a value that a configured reader gives. A value that is no object has none.\<close>

definition metrics_fields :: "metrics_platform \<Rightarrow> jsval \<Rightarrow> metrics_given option" where
  "metrics_fields mp v =
    (case v of
       JObj _ \<Rightarrow>
         (let cpu = jget v ''cpu''; memory = jget v ''memory'' in
          Some \<lparr>mg_pid = js_number (jget v ''pid''),
            mg_source = optional_text (jget v ''source''),
            mg_measuredAt = optional_text (jget v ''measuredAt''),
            mg_cpuPercent = optionalFiniteNumber (coalesce (jget cpu ''processPercent'') (jget v ''cpuPercent'')),
            mg_workingSetBytes =
              optionalFiniteNumber (coalesce (jget memory ''workingSetBytes'') (jget v ''workingSetBytes'')),
            mg_totalBytes = optionalFiniteNumber (coalesce (jget memory ''totalBytes'')
              (coalesce (jget v ''totalMemoryBytes'') (JNum (int (mp_totalmem mp))))),
            mg_memoryPercent = optionalFiniteNumber (jget memory ''processPercent'')\<rparr>)
     | _ \<Rightarrow> None)"

definition normalizeProcessMetrics :: "metrics_platform \<Rightarrow> metrics_given \<Rightarrow> process_metrics option" where
  "normalizeProcessMetrics mp g =
    (let cpuPercent = map_option (\<lambda>q. clampPercent (Fin q)) (mg_cpuPercent g);
         workingSetBytes = map_option (\<lambda>q. max 0 (js_round q)) (mg_workingSetBytes g);
         totalBytes = max 0 (js_round (case mg_totalBytes g of None \<Rightarrow> 0 | Some q \<Rightarrow> q));
         memoryPercent =
           (case mg_memoryPercent g of
              Some q \<Rightarrow> Some (clampPercent (Fin q))
            | None \<Rightarrow>
                (case workingSetBytes of
                   Some w \<Rightarrow> (if 0 < totalBytes then Some (clampPercent (Fin (of_int w / of_int totalBytes * 100)))
                              else None)
                 | None \<Rightarrow> None))
     in if cpuPercent = None \<and> workingSetBytes = None \<and> memoryPercent = None then None
        else Some \<lparr>pm_pid = (case mg_pid g of Fin q \<Rightarrow> (if of_int \<lfloor>q\<rfloor> = q then Some \<lfloor>q\<rfloor> else None) | _ \<Rightarrow> None),
               pm_source = (case mg_source g of None \<Rightarrow> ''process'' | Some t \<Rightarrow> t),
               pm_measuredAt = (case mg_measuredAt g of None \<Rightarrow> mp_now mp | Some t \<Rightarrow> t),
               pm_cpuPercent = map_option roundMetric cpuPercent,
               pm_workingSetBytes = (case workingSetBytes of None \<Rightarrow> 0 | Some w \<Rightarrow> w),
               pm_totalBytes = totalBytes,
               pm_memoryPercent = map_option roundMetric memoryPercent\<rparr>)"

text \<open>Metrics as the value that is shown, and as what is normalized a second time.\<close>

definition percent_val :: "rat option \<Rightarrow> jsval" where
  "percent_val p = (case p of None \<Rightarrow> JNull | Some q \<Rightarrow> rat_val q)"

definition metrics_val :: "process_metrics \<Rightarrow> jsval" where
  "metrics_val m = JObj
     [(''pid'', case pm_pid m of None \<Rightarrow> JNull | Some p \<Rightarrow> JNum p),
      (''source'', JStr (pm_source m)), (''measuredAt'', JStr (pm_measuredAt m)),
      (''basis'', JObj [(''process'', JStr ''minecraft_server_java_process''),
         (''cpu'', JStr ''process_cpu_percent_of_total_logical_cpu''),
         (''memory'', JStr ''process_working_set_percent_of_total_physical_memory'')]),
      (''cpu'', JObj [(''processPercent'', percent_val (pm_cpuPercent m))]),
      (''memory'', JObj [(''workingSetBytes'', JNum (pm_workingSetBytes m)),
         (''totalBytes'', JNum (pm_totalBytes m)), (''processPercent'', percent_val (pm_memoryPercent m))])]"

definition metrics_again :: "process_metrics \<Rightarrow> metrics_given" where
  "metrics_again m = \<lparr>mg_pid = (case pm_pid m of None \<Rightarrow> Fin 0 | Some p \<Rightarrow> Fin (of_int p)),
     mg_source = Some (pm_source m), mg_measuredAt = Some (pm_measuredAt m),
     mg_cpuPercent = pm_cpuPercent m, mg_workingSetBytes = Some (of_int (pm_workingSetBytes m)),
     mg_totalBytes = Some (of_int (pm_totalBytes m)), mg_memoryPercent = pm_memoryPercent m\<rparr>"

section \<open>The readers\<close>

record metrics_sample =
  sa_pid :: int
  sa_cpuTimeSeconds :: jsnum
  sa_measuredAtMs :: jsnum

type_synonym made_metrics = "process_metrics \<times> metrics_sample option"

record metrics_options =
  mo_powershell :: jsval
  mo_allowSlowWindowsCim :: bool
  mo_execFileOptions :: jsval
  mo_cpuCount :: "nat option"
  mo_measuredAt :: "string option"
  mo_previousSample :: "metrics_sample option"
  mo_totalMemoryBytes :: jsnum

definition cpu_count :: "metrics_platform \<Rightarrow> metrics_options \<Rightarrow> rat" where
  "cpu_count mp o' = of_nat (max 1 (case mo_cpuCount o' of None \<Rightarrow> logicalCpuCount mp | Some n \<Rightarrow> n))"

text \<open>\<open>numericWorkingSetBytes\<close> is \<open>None\<close> for a size that is no finite number.\<close>

definition createProcessMetrics ::
    "metrics_platform \<Rightarrow> int \<Rightarrow> string \<Rightarrow> string option \<Rightarrow> rat option \<Rightarrow> jsnum \<Rightarrow> jsnum \<Rightarrow>
     metrics_sample option \<Rightarrow> made_metrics option" where
  "createProcessMetrics mp pid source measuredAt cpuPercent workingSetBytes totalMemoryBytes sample =
    (let totalBytes = (case totalMemoryBytes of
           Fin q \<Rightarrow> (if 0 < q then q else of_nat (mp_totalmem mp)) | _ \<Rightarrow> of_nat (mp_totalmem mp));
         numericWorkingSetBytes = num_rat workingSetBytes;
         memoryPercent = (case numericWorkingSetBytes of
             Some w \<Rightarrow> (if 0 < totalBytes then Some (clampPercent (Fin (w / totalBytes * 100))) else None)
           | None \<Rightarrow> None)
     in map_option (\<lambda>m. (m, sample)) (normalizeProcessMetrics mp
          \<lparr>mg_pid = Fin (of_int pid), mg_source = Some source,
           mg_measuredAt = Some (case measuredAt of None \<Rightarrow> mp_now mp | Some t \<Rightarrow> t),
           mg_cpuPercent = cpuPercent,
           mg_workingSetBytes = Some (case numericWorkingSetBytes of None \<Rightarrow> 0 | Some w \<Rightarrow> w),
           mg_totalBytes = Some totalBytes, mg_memoryPercent = memoryPercent\<rparr>))"

text \<open>The output of a command, or the message of its error.\<close>

definition execFileText ::
    "metrics_platform \<Rightarrow> jsval \<Rightarrow> string list \<Rightarrow> jsval \<Rightarrow> string + string" where
  "execFileText mp command args options =
    (case mp_execFile mp command (map JStr args)
        (js_spread [(''windowsHide'', JBool True), (''timeout'', JNum 1500), (''maxBuffer'', JNum (64 * 1024))]
          options) of
       Inl e \<Rightarrow> Inl e
     | Inr stdout \<Rightarrow> Inr (js_string (coalesce stdout (JStr []))))"

definition parseJsonObject :: "metrics_platform \<Rightarrow> string \<Rightarrow> jsval" where
  "parseJsonObject mp text =
    (let trimmed = js_trim text in
     case mp_parse mp (if trimmed = [] then ''{}'' else trimmed) of
       Some (JObj kvs) \<Rightarrow> JObj kvs
     | _ \<Rightarrow> JNull)"

definition processCpuPercentFromSampleDelta ::
    "int \<Rightarrow> jsnum \<Rightarrow> jsnum \<Rightarrow> metrics_sample option \<Rightarrow> rat \<Rightarrow> rat option" where
  "processCpuPercentFromSampleDelta pid cpuTimeSeconds measuredAtMs previousSample cpuCount =
    (case previousSample of
       None \<Rightarrow> None
     | Some prev \<Rightarrow>
         (if sa_pid prev \<noteq> pid then None
          else (case (cpuTimeSeconds, sa_cpuTimeSeconds prev, measuredAtMs, sa_measuredAtMs prev) of
              (Fin cpu, Fin cpu0, Fin ms, Fin ms0) \<Rightarrow>
                (let cpuDeltaSeconds = cpu - cpu0; wallDeltaSeconds = (ms - ms0) / 1000 in
                 if cpuDeltaSeconds < 0 \<or> wallDeltaSeconds \<le> 0 then None
                 else Some (clampPercent (Fin (cpuDeltaSeconds / wallDeltaSeconds / cpuCount * 100))))
            | _ \<Rightarrow> None)))"

definition powershell :: "metrics_options \<Rightarrow> jsval" where
  "powershell o' = coalesce (mo_powershell o') (JStr ''powershell.exe'')"

definition get_process_script :: "int \<Rightarrow> string" where
  "get_process_script pid = js_join ''; '' [''$ErrorActionPreference = '' @ [CHR 0x27] @ ''Stop'' @ [CHR 0x27],
     ''$p = Get-Process -Id '' @ js_string (JNum pid),
     ''[pscustomobject]@'' @ ''{Id=$p.Id;CPU=$p.CPU;WorkingSet64=$p.WorkingSet64;PrivateMemorySize64=$p.PrivateMemorySize64} | ConvertTo-Json -Compress'']"

definition readWindowsGetProcessResourceMetrics ::
    "metrics_platform \<Rightarrow> int \<Rightarrow> metrics_options \<Rightarrow> string + made_metrics option" where
  "readWindowsGetProcessResourceMetrics mp pid o' =
    (case execFileText mp (powershell o') [''-NoProfile'', ''-Command'', get_process_script pid]
        (mo_execFileOptions o') of
       Inl e \<Rightarrow> Inl e
     | Inr stdout \<Rightarrow>
         (let parsed = parseJsonObject mp stdout in
          if \<not> truthy (jget parsed ''Id'') then Inr None
          else
            (let measuredAt = (case mo_measuredAt o' of None \<Rightarrow> mp_now mp | Some t \<Rightarrow> t);
                 measuredAtMs = mp_date mp measuredAt;
                 cpuTimeSeconds = js_number (coalesce (jget parsed ''CPU'') (JNum 0));
                 cpuPercent = processCpuPercentFromSampleDelta pid cpuTimeSeconds measuredAtMs
                   (mo_previousSample o') (cpu_count mp o');
                 workingSetBytes = js_number (js_or (jget parsed ''WorkingSet64'')
                   (js_or (jget parsed ''PrivateMemorySize64'') (JNum 0)))
             in Inr (createProcessMetrics mp pid ''windows-get-process'' (Some measuredAt) cpuPercent
                  workingSetBytes (mo_totalMemoryBytes o')
                  (Some \<lparr>sa_pid = pid, sa_cpuTimeSeconds = cpuTimeSeconds, sa_measuredAtMs = measuredAtMs\<rparr>)))))"

definition cim_script :: "int \<Rightarrow> string" where
  "cim_script pid = js_join ''; ''
     [''$p = Get-CimInstance Win32_PerfFormattedData_PerfProc_Process -Filter '' @ [CHR 0x22] @ ''IDProcess = '' @
        js_string (JNum pid) @ [CHR 0x22] @
        '' | Select-Object -First 1 IDProcess,PercentProcessorTime,WorkingSetPrivate,WorkingSet'',
      ''if ($null -eq $p) { '' @ [CHR 0x27] @ ''{}'' @ [CHR 0x27] @ '' } else { $p | ConvertTo-Json -Compress }'']"

definition readWindowsCimProcessResourceMetrics ::
    "metrics_platform \<Rightarrow> int \<Rightarrow> metrics_options \<Rightarrow> string + made_metrics option" where
  "readWindowsCimProcessResourceMetrics mp pid o' =
    (case execFileText mp (powershell o') [''-NoProfile'', ''-Command'', cim_script pid] (mo_execFileOptions o') of
       Inl e \<Rightarrow> Inl e
     | Inr stdout \<Rightarrow>
         (let parsed = parseJsonObject mp stdout in
          if \<not> truthy (jget parsed ''IDProcess'') then Inr None
          else
            (let cpuPercent = clampPercent (num_map (\<lambda>q. q / cpu_count mp o')
                   (js_number (jget parsed ''PercentProcessorTime'')));
                 workingSetBytes = js_number (js_or (jget parsed ''WorkingSet'')
                   (js_or (jget parsed ''WorkingSetPrivate'') (JNum 0)))
             in Inr (createProcessMetrics mp pid ''windows-cim-process'' (mo_measuredAt o') (Some cpuPercent)
                  workingSetBytes (mo_totalMemoryBytes o') None))))"

definition readWindowsProcessResourceMetrics ::
    "metrics_platform \<Rightarrow> int \<Rightarrow> metrics_options \<Rightarrow> string + made_metrics option" where
  "readWindowsProcessResourceMetrics mp pid o' =
    (case readWindowsGetProcessResourceMetrics mp pid o' of
       Inr r \<Rightarrow> Inr r
     | Inl e \<Rightarrow> (if mo_allowSlowWindowsCim o' then readWindowsCimProcessResourceMetrics mp pid o' else Inl e))"

definition readPosixProcessResourceMetrics ::
    "metrics_platform \<Rightarrow> int \<Rightarrow> metrics_options \<Rightarrow> string + made_metrics option" where
  "readPosixProcessResourceMetrics mp pid o' =
    (case execFileText mp (JStr ''ps'') [''-p'', js_string (JNum pid), ''-o'', ''%cpu='', ''-o'', ''rss='']
        (mo_execFileOptions o') of
       Inl e \<Rightarrow> Inl e
     | Inr stdout \<Rightarrow>
         (case space_words (js_trim stdout) of
            cpuRaw # rssKbRaw # _ \<Rightarrow>
              (if cpuRaw = [] \<or> rssKbRaw = [] then Inr None
               else Inr (createProcessMetrics mp pid ''posix-ps-process'' (mo_measuredAt o')
                  (Some (clampPercent (num_map (\<lambda>q. q / cpu_count mp o') (str_number cpuRaw))))
                  (num_map (\<lambda>q. q * 1024) (str_number rssKbRaw)) (mo_totalMemoryBytes o') None))
          | _ \<Rightarrow> Inr None))"

definition readProcessResourceMetrics ::
    "metrics_platform \<Rightarrow> jsval \<Rightarrow> metrics_options \<Rightarrow> string + made_metrics option" where
  "readProcessResourceMetrics mp pid o' =
    (case pid of
       JNum p \<Rightarrow> (if p \<le> 0 then Inr None
          else if mp_windows mp then readWindowsProcessResourceMetrics mp p o'
          else readPosixProcessResourceMetrics mp p o')
     | _ \<Rightarrow> Inr None)"

section \<open>The sampler of the lifecycle manager\<close>

text \<open>What a configured reader gives: the value, and its \<open>_sample\<close>.\<close>

type_synonym given_reading = "jsval \<times> metrics_sample option"

text \<open>
  The variables of the manager that the sampler uses. \<open>ms_process\<close> is the process with its \<open>pid\<close>.
  \<open>ms_pending\<close> are the readings whose promise is not settled, \<open>ms_next\<close> numbers them and \<open>ms_reads\<close>
  tells for which process and when readings began, the latest first: they are no variables of the
  program.
\<close>

record sampler =
  ms_process :: "(nat \<times> jsval) option"
  ms_exited :: bool
  ms_lastMetrics :: "process_metrics option"
  ms_lastSample :: "metrics_sample option"
  ms_lastSampleAt :: int
  ms_inFlight :: bool
  ms_failureKey :: "string option"
  ms_events :: "string list"
  ms_pending :: "(nat \<times> int \<times> metrics_options) list"
  ms_next :: nat
  ms_reads :: "(nat \<times> int) list"

definition new_sampler :: sampler where
  "new_sampler = \<lparr>ms_process = None, ms_exited = True, ms_lastMetrics = None, ms_lastSample = None,
     ms_lastSampleAt = 0, ms_inFlight = False, ms_failureKey = None, ms_events = [], ms_pending = [],
     ms_next = 0, ms_reads = []\<rparr>"

definition storeProcessMetrics :: "process_metrics option \<Rightarrow> metrics_sample option \<Rightarrow> sampler \<Rightarrow> sampler" where
  "storeProcessMetrics metrics sample s = s\<lparr>ms_lastMetrics := metrics,
     ms_lastSample := (case sample of None \<Rightarrow> ms_lastSample s | Some x \<Rightarrow> Some x)\<rparr>"

definition store_made :: "metrics_platform \<Rightarrow> made_metrics option \<Rightarrow> sampler \<Rightarrow> sampler" where
  "store_made mp r s = (case r of
       None \<Rightarrow> storeProcessMetrics None None s
     | Some (m, sample) \<Rightarrow> storeProcessMetrics (normalizeProcessMetrics mp (metrics_again m)) sample s)"

definition store_given :: "metrics_platform \<Rightarrow> given_reading \<Rightarrow> sampler \<Rightarrow> sampler" where
  "store_given mp r s = storeProcessMetrics
     (case metrics_fields mp (fst r) of None \<Rightarrow> None | Some g \<Rightarrow> normalizeProcessMetrics mp g) (snd r) s"

definition emitMetricsUnavailable :: "string \<Rightarrow> sampler \<Rightarrow> sampler" where
  "emitMetricsUnavailable message s =
    (let pid = (case ms_process s of None \<Rightarrow> JUndef | Some (_, pid) \<Rightarrow> pid);
         failureKey = js_string (coalesce pid (JStr ''unknown'')) @ '':'' @ message
     in if ms_failureKey s = Some failureKey then s
        else s\<lparr>ms_failureKey := Some failureKey,
               ms_events := ms_events s @ [redactHostLogLine (JStr message)]\<rparr>)"

definition sampled_process :: "sampler \<Rightarrow> (nat \<times> int) option" where
  "sampled_process s = (if ms_exited s then None
     else (case ms_process s of Some (p, JNum pid) \<Rightarrow> Some (p, pid) | _ \<Rightarrow> None))"

text \<open>
  \<open>refreshProcessMetrics\<close> at the time \<open>now\<close>. A configured reader may answer at once (\<open>given\<close>);
  otherwise the reading is a promise.
\<close>

definition refreshProcessMetrics ::
    "int \<Rightarrow> metrics_platform \<Rightarrow> int \<Rightarrow> bool \<Rightarrow> given_reading option \<Rightarrow> sampler \<Rightarrow> sampler" where
  "refreshProcessMetrics interval mp now force given s =
    (case sampled_process s of
       None \<Rightarrow> s\<lparr>ms_lastMetrics := None\<rparr>
     | Some (p, pid) \<Rightarrow>
         (if \<not> force \<and> (ms_inFlight s \<or> now - ms_lastSampleAt s < interval) then s
          else
            (let s1 = s\<lparr>ms_lastSampleAt := now, ms_reads := (p, now) # ms_reads s\<rparr>;
                 options = \<lparr>mo_powershell = JUndef, mo_allowSlowWindowsCim = False, mo_execFileOptions = JUndef,
                   mo_cpuCount = Some (logicalCpuCount mp), mo_measuredAt = Some (mp_iso mp now),
                   mo_previousSample = ms_lastSample s, mo_totalMemoryBytes = Fin (of_nat (mp_totalmem mp))\<rparr>
             in case given of
                  Some r \<Rightarrow> store_given mp r s1
                | None \<Rightarrow> s1\<lparr>ms_inFlight := True, ms_pending := ms_pending s1 @ [(ms_next s1, pid, options)],
                    ms_next := Suc (ms_next s1)\<rparr>)))"

text \<open>The end of a reading: stored or told, and in both cases none is in flight any more.\<close>

definition settle_reading ::
    "metrics_platform \<Rightarrow> nat \<Rightarrow> (string + (sampler \<Rightarrow> sampler)) \<Rightarrow> sampler \<Rightarrow> sampler" where
  "settle_reading mp k outcome s =
    (let s1 = (case outcome of
           Inr store \<Rightarrow> (store s)\<lparr>ms_failureKey := None\<rparr>
         | Inl message \<Rightarrow> emitMetricsUnavailable message s)
     in s1\<lparr>ms_inFlight := False, ms_pending := filter (\<lambda>e. fst e \<noteq> k) (ms_pending s1)\<rparr>)"

text \<open>A start with a launched process, from \<open>processRef = result.process\<close> to the forced sample.\<close>

definition sampler_start ::
    "int \<Rightarrow> metrics_platform \<Rightarrow> nat \<Rightarrow> jsval \<Rightarrow> int \<Rightarrow> given_reading option \<Rightarrow> sampler \<Rightarrow> sampler" where
  "sampler_start interval mp p pid now given s =
    (if ms_process s \<noteq> None \<and> \<not> ms_exited s then s
     else refreshProcessMetrics interval mp now True given
       (s\<lparr>ms_process := Some (p, pid), ms_exited := False, ms_lastMetrics := None, ms_lastSample := None,
          ms_lastSampleAt := 0\<rparr>))"

text \<open>\<open>onExit\<close> and \<open>onError\<close>, and the end of a stop, which also forgets the sample.\<close>

definition sampler_end :: "sampler \<Rightarrow> sampler" where
  "sampler_end s = s\<lparr>ms_exited := True, ms_process := None, ms_lastMetrics := None\<rparr>"

definition sampler_stop :: "sampler \<Rightarrow> sampler" where
  "sampler_stop s = (sampler_end s)\<lparr>ms_lastSample := None\<rparr>"

text \<open>The metrics that \<open>status()\<close> shows after its refresh.\<close>

definition metrics_shown :: "sampler \<Rightarrow> process_metrics option" where
  "metrics_shown s = (if ms_process s \<noteq> None \<and> \<not> ms_exited s then ms_lastMetrics s else None)"

datatype sampler_op =
    Sampler_start metrics_platform nat jsval int "given_reading option"
  | Sampler_status metrics_platform int "given_reading option"
  | Sampler_ended
  | Sampler_stopped
  | Sampler_read nat metrics_platform
  | Sampler_given nat metrics_platform "string + given_reading"

fun sampler_exec :: "int \<Rightarrow> sampler_op \<Rightarrow> sampler \<Rightarrow> sampler" where
  "sampler_exec interval (Sampler_start mp p pid now given) s = sampler_start interval mp p pid now given s"
| "sampler_exec interval (Sampler_status mp now given) s = refreshProcessMetrics interval mp now False given s"
| "sampler_exec interval Sampler_ended s = sampler_end s"
| "sampler_exec interval Sampler_stopped s = sampler_stop s"
| "sampler_exec interval (Sampler_read k mp) s =
     (case map_of (ms_pending s) k of
        None \<Rightarrow> s
      | Some (pid, o') \<Rightarrow>
          settle_reading mp k (map_sum id (store_made mp) (readProcessResourceMetrics mp (JNum pid) o')) s)"
| "sampler_exec interval (Sampler_given k mp r) s =
     (if k \<in> fst ` set (ms_pending s) then settle_reading mp k (map_sum id (store_given mp) r) s else s)"

text \<open>A launched process is a new one.\<close>

fun sampler_adm :: "sampler_op \<Rightarrow> sampler \<Rightarrow> bool" where
  "sampler_adm (Sampler_start mp p pid now given) s = (p \<notin> fst ` set (ms_reads s))"
| "sampler_adm _ s = True"

end
