(* ===== verification/ProcessMetrics_Props.thy ===== *)
theory ProcessMetrics_Props
  imports ProcessMetrics
begin

text \<open>
  The sampler: the metrics that are shown lie in their ranges, whatever the platform or a configured
  reader answered, and the readings for one process keep their distance.
\<close>

section \<open>The numbers\<close>

lemma clampPercent_range: "0 \<le> clampPercent v \<and> clampPercent v \<le> 100"
  by (simp add: clampPercent_def split: option.splits)

lemma clampPercent_same: "0 \<le> q \<Longrightarrow> q \<le> 100 \<Longrightarrow> clampPercent (Fin q) = q"
  by (simp add: clampPercent_def num_rat_def)

lemma js_round_mono: "a \<le> b \<Longrightarrow> js_round a \<le> js_round b"
  unfolding js_round_def by (rule floor_mono) simp

lemma js_round_int [simp]: "js_round (of_int n) = n"
proof -
  have "\<lfloor>(of_int n :: rat) + 1 / 2\<rfloor> = n + \<lfloor>1 / 2 :: rat\<rfloor>" by (rule int_add_floor [symmetric])
  also have "\<lfloor>1 / 2 :: rat\<rfloor> = 0" by (simp add: floor_eq_iff)
  finally show ?thesis by (simp add: js_round_def)
qed

lemma js_round_0 [simp]: "js_round 0 = 0"
  using js_round_int [of 0] by simp

text \<open>A percentage that is shown: between 0 and 100, with one decimal.\<close>

definition shown_percent :: "rat \<Rightarrow> bool" where
  "shown_percent q \<longleftrightarrow> 0 \<le> q \<and> q \<le> 100 \<and> of_int \<lfloor>q * 10\<rfloor> = q * 10"

lemma shown_percent_round:
  assumes "0 \<le> q" "q \<le> 100"
  shows "shown_percent (roundMetric q)"
proof -
  have "js_round (of_int 0) \<le> js_round (q * 10)" by (rule js_round_mono) (use assms in simp)
  moreover have "js_round (q * 10) \<le> js_round (of_int 1000)" by (rule js_round_mono) (use assms in simp)
  ultimately have r: "0 \<le> js_round (q * 10)" "js_round (q * 10) \<le> 1000" by (simp_all only: js_round_int)
  have "(of_int (js_round (q * 10)) :: rat) \<le> of_int 1000" using r(2) by (simp only: of_int_le_iff)
  then show ?thesis using r(1) by (simp add: shown_percent_def roundMetric_def)
qed

lemma roundMetric_shown: "shown_percent q \<Longrightarrow> roundMetric q = q"
proof -
  assume "shown_percent q"
  then have q: "q * 10 = of_int \<lfloor>q * 10\<rfloor>" unfolding shown_percent_def by (elim conjE) (rule sym)
  have "js_round (q * 10) = \<lfloor>q * 10\<rfloor>" by (subst q) (rule js_round_int)
  then show ?thesis using q by (simp add: roundMetric_def)
qed

definition metrics_bounded :: "process_metrics \<Rightarrow> bool" where
  "metrics_bounded m \<longleftrightarrow>
     (\<forall>q \<in> set_option (pm_cpuPercent m). shown_percent q) \<and>
     (\<forall>q \<in> set_option (pm_memoryPercent m). shown_percent q) \<and>
     0 \<le> pm_workingSetBytes m \<and> 0 \<le> pm_totalBytes m"

lemma clamped_shown: "shown_percent (roundMetric (clampPercent v))"
  using clampPercent_range [of v] by (auto intro: shown_percent_round)

lemma normalized_bounded:
  assumes "normalizeProcessMetrics mp g = Some m"
  shows "metrics_bounded m"
  using assms
  by (auto simp: normalizeProcessMetrics_def Let_def metrics_bounded_def clamped_shown
      split: if_splits option.splits)

section \<open>A reading is stored as it was made\<close>

text \<open>Metrics that tell a memory share, or no memory of the computer, are normalized to themselves.\<close>

lemma metrics_normalized_again:
  assumes "metrics_bounded m" "pm_pid m \<noteq> None" "pm_memoryPercent m \<noteq> None \<or> pm_totalBytes m = 0"
  shows "normalizeProcessMetrics mp (metrics_again m) = Some m"
proof -
  have percent: "roundMetric (clampPercent (Fin q)) = q" if "shown_percent q" for q
    using that clampPercent_same [of q] roundMetric_shown [OF that] by (simp add: shown_percent_def)
  have cpu: "map_option (roundMetric \<circ> (\<lambda>q. clampPercent (Fin q))) (pm_cpuPercent m) = pm_cpuPercent m"
    using assms(1) by (cases "pm_cpuPercent m") (auto simp: metrics_bounded_def percent)
  show ?thesis
    using assms cpu
    by (cases "pm_memoryPercent m"; cases m)
      (auto simp: normalizeProcessMetrics_def metrics_again_def Let_def option.map_comp metrics_bounded_def percent)
qed

lemma made_normalized:
  assumes "createProcessMetrics mp pid source at' cpu w mem sample = Some (m, x)"
  shows "metrics_bounded m \<and> pm_pid m = Some pid \<and> (pm_memoryPercent m \<noteq> None \<or> pm_totalBytes m = 0) \<and> x = sample"
proof -
  obtain g where g: "normalizeProcessMetrics mp g = Some m" and "mg_pid g = Fin (of_int pid)"
    and w: "mg_workingSetBytes g \<noteq> None" and x: "x = sample"
    using assms by (force simp: createProcessMetrics_def Let_def)
  then show ?thesis
    using normalized_bounded [OF g]
    by (auto simp: normalizeProcessMetrics_def Let_def split: if_splits option.splits)
qed

lemma reading_made:
  assumes "readProcessResourceMetrics mp pid o' = Inr (Some (m, x))"
  shows "\<exists>p source at' cpu w mem. pid = JNum p \<and>
    createProcessMetrics mp p source at' cpu w mem x = Some (m, x)"
proof -
  have same: "\<exists>source at' cpu w mem. createProcessMetrics mp p source at' cpu w mem x = Some (m, x)"
    if "createProcessMetrics mp p source0 at0 cpu0 w0 total0 sample0 = Some (m, x)" for p source0 at0 cpu0 w0 total0 sample0
    using that made_normalized [OF that, THEN conjunct2, THEN conjunct2, THEN conjunct2] by blast
  show ?thesis
    using assms
    by (auto simp: readProcessResourceMetrics_def readWindowsProcessResourceMetrics_def
        readWindowsGetProcessResourceMetrics_def readWindowsCimProcessResourceMetrics_def
        readPosixProcessResourceMetrics_def Let_def
        split: jsval.splits if_splits sum.splits list.splits dest: same)
qed

lemma reading_stored:
  assumes "readProcessResourceMetrics mp pid o' = Inr (Some (m, x))"
  shows "ms_lastMetrics (store_made mp (Some (m, x)) s) = Some m"
proof -
  obtain p source at' cpu w mem where "createProcessMetrics mp p source at' cpu w mem x = Some (m, x)"
    using reading_made [OF assms] by blast
  from made_normalized [OF this] show ?thesis
    by (simp add: store_made_def storeProcessMetrics_def metrics_normalized_again)
qed

section \<open>The invariant of the sampler\<close>

text \<open>Readings for one process that follow each other keep the distance.\<close>

fun spaced :: "int \<Rightarrow> (nat \<times> int) list \<Rightarrow> bool" where
  "spaced interval ((p, t) # (q, u) # rs) = ((p = q \<longrightarrow> u + interval \<le> t) \<and> spaced interval ((q, u) # rs))"
| "spaced interval _ = True"

text \<open>The latest reading, if it is for the present process, was taken at the time that is remembered.\<close>

fun last_read :: "(nat \<times> int) list \<Rightarrow> (nat \<times> jsval) option \<Rightarrow> int \<Rightarrow> bool" where
  "last_read ((p, t) # _) (Some (q, _)) at' = (p = q \<longrightarrow> at' = t)"
| "last_read _ _ at' = True"

lemma last_read_fresh: "p \<notin> fst ` set rs \<Longrightarrow> last_read rs (Some (p, pid)) t"
  by (cases rs) auto

lemma last_read_none [simp]: "last_read rs None t"
  by (cases rs) auto

definition sampler_inv :: "int \<Rightarrow> sampler \<Rightarrow> bool" where
  "sampler_inv interval s \<longleftrightarrow>
     (\<forall>m. ms_lastMetrics s = Some m \<longrightarrow> metrics_bounded m) \<and> spaced interval (ms_reads s) \<and>
     last_read (ms_reads s) (ms_process s) (ms_lastSampleAt s)"

lemma sampler_inv_stored:
  "sampler_inv interval s \<Longrightarrow> (\<And>m. r = Some m \<Longrightarrow> metrics_bounded m) \<Longrightarrow>
   sampler_inv interval (storeProcessMetrics r x s)"
  by (simp add: sampler_inv_def storeProcessMetrics_def)

lemma sampler_inv_made: "sampler_inv interval s \<Longrightarrow> sampler_inv interval (store_made mp r s)"
  by (auto simp: store_made_def split: option.splits intro: sampler_inv_stored normalized_bounded)

lemma sampler_inv_given: "sampler_inv interval s \<Longrightarrow> sampler_inv interval (store_given mp r s)"
  by (auto simp: store_given_def split: option.splits intro: sampler_inv_stored normalized_bounded)

lemma sampler_inv_told: "sampler_inv interval s \<Longrightarrow> sampler_inv interval (emitMetricsUnavailable e s)"
  by (simp add: sampler_inv_def emitMetricsUnavailable_def Let_def)

lemma sampler_inv_settled:
  assumes "sampler_inv interval s"
    and "\<And>store. outcome = Inr store \<Longrightarrow> sampler_inv interval (store s)"
  shows "sampler_inv interval (settle_reading mp k outcome s)"
proof (cases outcome)
  case (Inl e)
  then show ?thesis using sampler_inv_told [OF assms(1), of e] by (simp add: settle_reading_def sampler_inv_def Let_def)
next
  case (Inr f)
  then show ?thesis using assms(2) [OF Inr] by (simp add: settle_reading_def sampler_inv_def Let_def)
qed

text \<open>A reading begins: at a start, or late enough.\<close>

lemma sampler_inv_begins:
  assumes "sampler_inv interval s" "ms_process s = Some (p, pid)"
    and "p \<in> fst ` set (ms_reads s) \<Longrightarrow> interval \<le> now - ms_lastSampleAt s"
  shows "sampler_inv interval (s\<lparr>ms_lastSampleAt := now, ms_reads := (p, now) # ms_reads s\<rparr>)"
  using assms by (cases "ms_reads s") (auto simp: sampler_inv_def)

lemma sampler_inv_refresh:
  assumes "sampler_inv interval s"
    and "\<And>p pid. force \<Longrightarrow> ms_process s = Some (p, pid) \<Longrightarrow> p \<notin> fst ` set (ms_reads s)"
  shows "sampler_inv interval (refreshProcessMetrics interval mp now force given s)"
proof (cases "sampled_process s")
  case None
  then show ?thesis using assms(1) by (simp add: refreshProcessMetrics_def sampler_inv_def)
next
  case (Some e)
  obtain p pid where e: "e = (p, pid)" by (cases e)
  then have ref: "ms_process s = Some (p, JNum pid)"
    using Some by (auto simp: sampled_process_def split: if_splits option.splits prod.splits jsval.splits)
  let ?s1 = "s\<lparr>ms_lastSampleAt := now, ms_reads := (p, now) # ms_reads s\<rparr>"
  show ?thesis
  proof (cases "\<not> force \<and> (ms_inFlight s \<or> now - ms_lastSampleAt s < interval)")
    case True
    then show ?thesis using Some e assms(1) by (simp add: refreshProcessMetrics_def)
  next
    case False
    have begins: "sampler_inv interval ?s1"
      by (rule sampler_inv_begins [OF assms(1) ref]) (use False assms(2) ref in force)
    then have "sampler_inv interval (store_given mp r ?s1)" for r by (rule sampler_inv_given)
    moreover have "sampler_inv interval (?s1\<lparr>ms_inFlight := b, ms_pending := xs, ms_next := n\<rparr>)" for b xs n
      using begins by (simp add: sampler_inv_def)
    ultimately show ?thesis
      using False Some e by (cases given) (simp_all only: refreshProcessMetrics_def option.case prod.case if_False Let_def)
  qed
qed

lemma sampler_inv_exec:
  assumes "sampler_inv interval s" "sampler_adm a s"
  shows "sampler_inv interval (sampler_exec interval a s)"
proof (cases a)
  case (Sampler_start mp p pid now given)
  have fresh: "p \<notin> fst ` set (ms_reads s)" using assms(2) Sampler_start by simp
  have "sampler_inv interval (s\<lparr>ms_process := Some (p, pid), ms_exited := False, ms_lastMetrics := None,
      ms_lastSample := None, ms_lastSampleAt := 0\<rparr>)"
    using assms(1) fresh by (simp add: sampler_inv_def last_read_fresh)
  then have "sampler_inv interval (refreshProcessMetrics interval mp now True given
      (s\<lparr>ms_process := Some (p, pid), ms_exited := False, ms_lastMetrics := None, ms_lastSample := None,
         ms_lastSampleAt := 0\<rparr>))"
    by (rule sampler_inv_refresh) (use fresh in simp)
  then show ?thesis using assms(1) Sampler_start by (simp add: sampler_start_def)
next
  case (Sampler_status mp now given)
  then show ?thesis using sampler_inv_refresh [OF assms(1), of False] by simp
next
  case (Sampler_read k mp)
  show ?thesis
  proof (cases "map_of (ms_pending s) k")
    case (Some e)
    have "sampler_inv interval (settle_reading mp k (map_sum id (store_made mp)
        (readProcessResourceMetrics mp (JNum (fst e)) (snd e))) s)"
      by (rule sampler_inv_settled [OF assms(1)])
        (use sampler_inv_made [OF assms(1)] in \<open>auto split: sum.splits simp: map_sum_def\<close>)
    then show ?thesis using Some Sampler_read by (simp add: case_prod_beta)
  qed (use assms(1) Sampler_read in simp)
next
  case (Sampler_given k mp r)
  have "sampler_inv interval (settle_reading mp k (map_sum id (store_given mp) r) s)"
    by (rule sampler_inv_settled [OF assms(1)])
      (use sampler_inv_given [OF assms(1)] in \<open>auto split: sum.splits simp: map_sum_def\<close>)
  then show ?thesis using assms(1) Sampler_given by simp
qed (use assms(1) in \<open>auto simp: sampler_inv_def sampler_end_def sampler_stop_def\<close>)

definition sampler_initial :: "sampler \<Rightarrow> bool" where
  "sampler_initial s \<longleftrightarrow> s = new_sampler"

interpretation sampling: invariant sampler_initial sampler_adm "sampler_exec interval" "sampler_inv interval"
  for interval
proof unfold_locales
  show "sampler_inv interval s" if "sampler_initial s" for s
    using that by (simp add: sampler_initial_def new_sampler_def sampler_inv_def)
  show "sampler_inv interval (sampler_exec interval a s)" if "sampler_inv interval s" "sampler_adm a s" for s a
    using that by (rule sampler_inv_exec)
qed

text \<open>
  Whatever the commands of the platform print or a configured reader answers, and in whatever
  order readings, ends and starts of processes happen: the metrics that a status shows have
  percentages between 0 and 100 with one decimal, and sizes that are not negative; and two readings
  for one process that follow each other begin at least the configured interval apart.
\<close>

lemma metrics_shown_bounded:
  assumes "reach sampler_initial sampler_adm (sampler_exec interval) s"
  shows "(\<forall>m. metrics_shown s = Some m \<longrightarrow> metrics_bounded m) \<and> spaced interval (ms_reads s)"
  using sampling.reach_inv [OF assms] by (auto simp: sampler_inv_def metrics_shown_def split: if_splits)

section \<open>A run\<close>

definition demo_metrics_platform :: metrics_platform where
  "demo_metrics_platform = \<lparr>mp_windows = False, mp_execFile = (\<lambda>_ _ _. Inr (JStr '' 50.4 4096'')),
     mp_parse = (\<lambda>_. None), mp_date = (\<lambda>_. NaN), mp_iso = (\<lambda>_. ''t''), mp_now = ''t'', mp_cpus = 4,
     mp_totalmem = 8388608\<rparr>"

definition demo_metrics :: process_metrics where
  "demo_metrics = \<lparr>pm_pid = Some 10, pm_source = ''posix-ps-process'', pm_measuredAt = ''t'',
     pm_cpuPercent = Some (126 / 10), pm_workingSetBytes = 4194304, pm_totalBytes = 8388608,
     pm_memoryPercent = Some 50\<rparr>"

definition demo_sampling :: "sampler_op list" where
  "demo_sampling = [Sampler_start demo_metrics_platform 0 (JNum 10) 5000 None, Sampler_read 0 demo_metrics_platform,
     Sampler_status demo_metrics_platform 5999 None, Sampler_status demo_metrics_platform 6000 None]"

definition demo_restarted :: "sampler_op list" where
  "demo_restarted = [Sampler_start demo_metrics_platform 0 (JNum 10) 5000 None, Sampler_ended,
     Sampler_start demo_metrics_platform 1 (JNum 11) 6000 None, Sampler_read 0 demo_metrics_platform]"

lemma sampling_run:
  assumes "adm_all sampler_adm (sampler_exec interval) as new_sampler"
  shows "reach sampler_initial sampler_adm (sampler_exec interval) (exec_all (sampler_exec interval) as new_sampler)"
  by (rule reach_exec_all [OF _ assms]) (simp add: reach.intros sampler_initial_def)

lemma demo_output:
  "space_words (js_trim '' 50.4 4096'') = [''50.4'', ''4096'']" "js_string (JNum 10) = ''10''"
  by code_simp+

lemma demo_numbers: "str_number ''50.4'' = Fin (252 / 5)" "str_number ''4096'' = Fin 4096"
  by (simp_all add: str_number_def decimal_def js_trim_def js_startsWith_prefix is_space_def is_digit_def
      between_def Let_def pow10_def negate_def)

lemma demo_rounds: "js_round 126 = 126" "js_round 500 = 500" "js_round 4194304 = 4194304" "js_round 8388608 = 8388608"
  by (simp_all add: js_round_def floor_eq_iff)

lemma demo_reading:
  assumes "mo_cpuCount o' = Some 4" "mo_measuredAt o' = Some ''t''" "mo_totalMemoryBytes o' = Fin 8388608"
  shows "readProcessResourceMetrics demo_metrics_platform (JNum 10) o' = Inr (Some (demo_metrics, None))"
  using assms
  by (simp add: readProcessResourceMetrics_def readPosixProcessResourceMetrics_def execFileText_def
      demo_metrics_platform_def demo_output demo_numbers cpu_count_def createProcessMetrics_def num_map_def num_rat_def
      clampPercent_def normalizeProcessMetrics_def Let_def demo_metrics_def roundMetric_def demo_rounds
      coalesce_def nullish_def)

lemma demo_stored:
  "store_made demo_metrics_platform (Some (demo_metrics, None)) s = s\<lparr>ms_lastMetrics := Some demo_metrics\<rparr>"
proof -
  have "metrics_bounded demo_metrics" "pm_pid demo_metrics \<noteq> None" "pm_memoryPercent demo_metrics \<noteq> None"
    by (simp_all add: metrics_bounded_def shown_percent_def demo_metrics_def)
  then show ?thesis by (simp add: store_made_def storeProcessMetrics_def metrics_normalized_again)
qed

lemmas demo_sampler = new_sampler_def sampler_start_def sampler_end_def refreshProcessMetrics_def
  sampled_process_def settle_reading_def metrics_shown_def Let_def demo_reading demo_stored logicalCpuCount_def

lemma demo_platform: "mp_cpus demo_metrics_platform = 4" "mp_totalmem demo_metrics_platform = 8388608"
  "mp_iso demo_metrics_platform n = ''t''"
  by (simp_all add: demo_metrics_platform_def)

lemma demo_sampled:
  "adm_all sampler_adm (sampler_exec 1000) demo_sampling new_sampler \<and>
   metrics_shown (exec_all (sampler_exec 1000) demo_sampling new_sampler) = Some demo_metrics \<and>
   ms_reads (exec_all (sampler_exec 1000) demo_sampling new_sampler) = [(0, 6000), (0, 5000)]"
  by (simp add: demo_sampling_def demo_sampler demo_platform)

lemma metrics_shown_bounded_demo:
  "metrics_bounded demo_metrics \<and> spaced 1000 [(0, 6000), (0, 5000)]"
  using metrics_shown_bounded [OF sampling_run [of 1000 demo_sampling]] demo_sampled by simp

section \<open>A late reading\<close>

text \<open>
  A reading of a process that has ended is stored when it arrives: the status of the process that was
  started meanwhile shows the metrics of the other.
\<close>

lemma late_reading_shown:
  "reach sampler_initial sampler_adm (sampler_exec 1000) (exec_all (sampler_exec 1000) demo_restarted new_sampler) \<and>
   ms_process (exec_all (sampler_exec 1000) demo_restarted new_sampler) = Some (1, JNum 11) \<and>
   metrics_shown (exec_all (sampler_exec 1000) demo_restarted new_sampler) = Some demo_metrics"
proof -
  have "adm_all sampler_adm (sampler_exec 1000) demo_restarted new_sampler \<and>
   ms_process (exec_all (sampler_exec 1000) demo_restarted new_sampler) = Some (1, JNum 11) \<and>
   metrics_shown (exec_all (sampler_exec 1000) demo_restarted new_sampler) = Some demo_metrics"
    by (simp add: demo_restarted_def demo_sampler demo_platform)
  then show ?thesis using sampling_run [of 1000 demo_restarted] by blast
qed

text \<open>A memory share that could not be read is told as none of the memory, not as unknown.\<close>

lemma unknown_size_shown_as_none:
  "createProcessMetrics demo_metrics_platform 10 ''s'' (Some ''t'') None NaN (Fin 8388608) None =
   Some (\<lparr>pm_pid = Some 10, pm_source = ''s'', pm_measuredAt = ''t'', pm_cpuPercent = None,
     pm_workingSetBytes = 0, pm_totalBytes = 8388608, pm_memoryPercent = Some 0\<rparr>, None)"
  by (simp add: createProcessMetrics_def normalizeProcessMetrics_def num_rat_def Let_def roundMetric_def clampPercent_def demo_rounds)

end
