(* ===== verification/DevPlan.thy ===== *)
theory DevPlan
  imports Materialize HostRuntime_Props
begin

text \<open>
  \<open>apps/desktop/src/runtime/desktop-curated-catalog.mjs\<close> and \<open>desktop-dev-runtime-plan.mjs\<close>: the
  curated selections of mods with their fixed files, and the runtime plan the desktop application
  makes of one. The Korean titles and summaries of the selections are read by no function and left
  out. The environment variable, the folder of the workspace, the digest, the platform's form of a
  path and the parts of a URL are arguments.
\<close>

section \<open>The curated catalog\<close>

text \<open>The selections with their \<open>modIds\<close>.\<close>

definition DesktopCuratedCatalog :: "(string \<times> string list) list" where
  "DesktopCuratedCatalog =
    [(''performance-core'', [''fabric-api'', ''lithium'', ''ferritecore'']),
     (''fabric-api'', [''fabric-api'']),
     (''lithium'', [''fabric-api'', ''lithium'']),
     (''ferritecore'', [''fabric-api'', ''ferritecore''])]"

record catalog_mod =
  cm_id :: string
  cm_title :: string
  cm_fileName :: string
  cm_sourceFileName :: string
  cm_sha256 :: string
  cm_fileSize :: int
  cm_downloadUrl :: string
  cm_client :: string
  cm_server :: string

definition catalogMods :: "(string \<times> catalog_mod) list" where
  "catalogMods =
    [(''fabric-api'', \<lparr>cm_id = ''fabric-api'', cm_title = ''Fabric API'',
        cm_fileName = ''fabric-api-0.116.11-1.21.1.jar'', cm_sourceFileName = ''fabric-api-0.116.11+1.21.1.jar'',
        cm_sha256 = ''b791de6f6dce9c58d4ea2af6c713bbcc6dc64d0a5995a8bad6f225ee58cf17d2'', cm_fileSize = 2426356,
        cm_downloadUrl = ''https://cdn.modrinth.com/data/P7dR8mSH/versions/IpaMcBLh/fabric-api-0.116.11%2B1.21.1.jar'',
        cm_client = ''required'', cm_server = ''required''\<rparr>),
     (''lithium'', \<lparr>cm_id = ''lithium'', cm_title = ''Lithium'',
        cm_fileName = ''lithium-fabric-0.15.3-mc1.21.1.jar'', cm_sourceFileName = ''lithium-fabric-0.15.3+mc1.21.1.jar'',
        cm_sha256 = ''a1eb3b150b559b0c0976f628ffd5f791458b98891634211b2727ff7857d157b8'', cm_fileSize = 797398,
        cm_downloadUrl = ''https://cdn.modrinth.com/data/gvQqBUqZ/versions/XQJtuOTA/lithium-fabric-0.15.3%2Bmc1.21.1.jar'',
        cm_client = ''unsupported'', cm_server = ''required''\<rparr>),
     (''ferritecore'', \<lparr>cm_id = ''ferritecore'', cm_title = ''FerriteCore'',
        cm_fileName = ''ferritecore-7.0.3-fabric.jar'', cm_sourceFileName = ''ferritecore-7.0.3-fabric.jar'',
        cm_sha256 = ''98c3ab1d5aab8f14b5d082d3f1a467727fd335f02d124555c94339761c4c18f2'', cm_fileSize = 123450,
        cm_downloadUrl = ''https://cdn.modrinth.com/data/uXXizFIs/versions/sOzRw3CG/ferritecore-7.0.3-fabric.jar'',
        cm_client = ''required'', cm_server = ''required''\<rparr>)]"

definition curated_mod :: "jsval \<Rightarrow> catalog_mod \<Rightarrow> jsval" where
  "curated_mod downloadsDirectory m = JObj
    [(''id'', JStr (cm_id m)), (''title'', JStr (cm_title m)), (''fileName'', JStr (cm_fileName m)),
     (''sourceFileName'', JStr (cm_sourceFileName m)),
     (''source'', if truthy downloadsDirectory then JStr (joinPath [downloadsDirectory, JStr (cm_sourceFileName m)])
        else JUndef),
     (''sha256'', JStr (cm_sha256 m)), (''expectedSha256'', JStr (cm_sha256 m)), (''fileSize'', JNum (cm_fileSize m)),
     (''downloadUrl'', JStr (cm_downloadUrl m)), (''provider'', JStr ''Modrinth''),
     (''side'', JObj [(''client'', JStr (cm_client m)), (''server'', JStr (cm_server m))])]"

text \<open>
  \<open>DesktopCuratedCatalog[selectionId]\<close> finds the names every object inherits too, and what it finds has
  no \<open>modIds\<close>.
\<close>

definition createDesktopCuratedPackMods :: "jsval \<Rightarrow> jsval \<Rightarrow> jsval list option" where
  "createDesktopCuratedPackMods selectionId downloadsDirectory = do {
     let key = js_string (if selectionId = JUndef then JStr ''performance-core'' else selectionId);
     modIds \<leftarrow> (if key \<in> set inherited_names then None
       else Some (case map_of DesktopCuratedCatalog key of
           Some ids \<Rightarrow> ids | None \<Rightarrow> the (map_of DesktopCuratedCatalog ''performance-core'')));
     traverse (\<lambda>modId. map_option (curated_mod downloadsDirectory) (map_of catalogMods modId)) modIds }"

definition validateCuratedModDownloadUrl :: "(jsval \<Rightarrow> url_parts option) \<Rightarrow> jsval \<Rightarrow> bool" where
  "validateCuratedModDownloadUrl url v =
    (case url v of
       None \<Rightarrow> False
     | Some parsed \<Rightarrow> up_protocol parsed = ''https:'' \<and> up_hostname parsed = ''cdn.modrinth.com'' \<and>
         up_username parsed = [] \<and> up_password parsed = [])"

section \<open>The runtime plan\<close>

definition FABRIC_LOADER_VERSION :: string where "FABRIC_LOADER_VERSION = ''0.19.2''"
definition FABRIC_INSTALLER_VERSION :: string where "FABRIC_INSTALLER_VERSION = ''1.1.1''"
definition FABRIC_INSTALLER_SHA256 :: string where
  "FABRIC_INSTALLER_SHA256 = ''2487a69dd6f9d9c2605265a7142d77c26ab62edc620e6bcf810d581d2ee31b79''"
definition FABRIC_SERVER_SHA256 :: string where
  "FABRIC_SERVER_SHA256 = ''00187ef8c7c402f028d897c285d42b326b2ae9c432bec9f1142ae0114b7208fa''"

record dev_environment =
  de_root :: jsval
  de_workspace :: string
  de_native :: "string \<Rightarrow> string"
  de_sha256 :: "string \<Rightarrow> string"

text \<open>What the placeholders do in the file system.\<close>

datatype dev_effect = Dev_mkdir string | Dev_writeFile string string

definition dev_normalizePath :: "jsval \<Rightarrow> string" where
  "dev_normalizePath path = collapse_slashes (unify_slashes (js_string path))"

definition placeholder_files :: "(string \<times> string) list" where
  "placeholder_files =
    [(''fabric-api'', ''fabric-api-0.116.11-1.21.1.jar''), (''lithium'', ''lithium-fabric-0.15.3-mc1.21.1.jar''),
     (''ferritecore'', ''ferritecore-7.0.3-fabric.jar'')]"

definition placeholder_text :: "string \<Rightarrow> string" where
  "placeholder_text mid = ''Desktop dev placeholder for '' @ mid @ [CHR 0x0A]"

definition placeholder_mod :: "dev_environment \<Rightarrow> string \<Rightarrow> string \<times> string \<Rightarrow> jsval" where
  "placeholder_mod de downloads m =
    (let sha256 = JStr (de_sha256 de (placeholder_text (fst m))) in
     JObj [(''id'', JStr (fst m)), (''fileName'', JStr (snd m)), (''sha256'', sha256),
       (''source'', JStr (downloads @ ''/'' @ snd m)), (''expectedSha256'', sha256)])"

definition prepareDevModPlaceholders :: "dev_environment \<Rightarrow> string \<Rightarrow> jsval list \<times> dev_effect list" where
  "prepareDevModPlaceholders de appDataRoot =
    (let downloads = appDataRoot @ ''/cache/downloads'' in
     (map (placeholder_mod de downloads) placeholder_files,
      Dev_mkdir (de_native de downloads) #
      map (\<lambda>m. Dev_writeFile (de_native de (downloads @ ''/'' @ snd m)) (placeholder_text (fst m))) placeholder_files))"

definition dev_mods :: "dev_environment \<Rightarrow> string \<Rightarrow> jsval \<Rightarrow> jsval \<Rightarrow> (jsval \<times> dev_effect list) option" where
  "dev_mods de appDataRoot catalogModId options =
    (if \<not> nullish (jget options ''mods'') then Some (jget options ''mods'', [])
     else if jget options ''includePlaceholderMods'' = JBool True then
       (case prepareDevModPlaceholders de appDataRoot of (mods, effects) \<Rightarrow> Some (JArr mods, effects))
     else map_option (\<lambda>mods. (JArr mods, []))
       (createDesktopCuratedPackMods catalogModId (JStr (appDataRoot @ ''/cache/downloads''))))"

definition dev_runtime_input :: "string \<Rightarrow> jsval \<Rightarrow> jsval \<Rightarrow> jsval \<Rightarrow> jsval \<Rightarrow> jsval" where
  "dev_runtime_input appDataRoot options catalogModId roomName mods = JObj
    [(''room'', JObj [(''id'', coalesce (jget options ''roomId'') (JStr ''mvp0-room'')),
       (''hostId'', coalesce (jget options ''hostId'') (JStr ''desktop-host'')), (''name'', roomName),
       (''appDataRoot'', JStr appDataRoot)]),
     (''minecraft'', JObj [(''version'', coalesce (jget options ''minecraftVersion'') (JStr ''1.21.1'')),
       (''supportedVersions'', JArr [JObj [(''version'', JStr ''1.21.1''), (''channel'', JStr ''stable''),
          (''javaMajor'', JNum 21)]])]),
     (''java'', JObj [(''path'', JStr (appDataRoot @ ''/runtime/java/bin/java.exe'')), (''majorVersion'', JNum 21),
       (''source'', JStr ''desktop-dev-placeholder'')]),
     (''fabric'', JObj [(''loaderVersion'', JStr FABRIC_LOADER_VERSION),
       (''expectedInstallerSha256'', JStr FABRIC_INSTALLER_SHA256), (''installerSha256'', JStr FABRIC_INSTALLER_SHA256),
       (''loaders'', JArr [JObj [(''minecraftVersion'', JStr ''1.21.1''), (''version'', JStr FABRIC_LOADER_VERSION),
          (''installerVersion'', JStr FABRIC_INSTALLER_VERSION),
          (''launcherJar'', JStr (''fabric-server-1.21.1-'' @ FABRIC_LOADER_VERSION @ ''-'' @ FABRIC_INSTALLER_VERSION @ ''.jar'')),
          (''installerSha256'', JStr FABRIC_INSTALLER_SHA256), (''serverJarSha256'', JStr FABRIC_SERVER_SHA256)]])]),
     (''cache'', JObj [(''reuseVerifiedDownloads'', JBool True)]),
     (''eula'', JObj [(''accepted'', JBool True)]),
     (''serverProperties'', JObj [(''maxPlayers'', JNum 10), (''motd'', roomName), (''port'', JNum 25565)]),
     (''pack'', JObj [(''id'', coalesce (jget options ''packId'')
          (JStr (''mvp1-curated-'' @ js_string catalogModId @ ''-1.21.1''))), (''fixed'', JBool True),
       (''expectedSha256'', JStr ''desktop-dev-pack-sha256''), (''sha256'', JStr ''desktop-dev-pack-sha256''),
       (''mods'', mods)]),
     (''runtime'', JObj [(''state'', JStr (host_state_str HS_STOPPED))])]"

text \<open>
  The effects, and the plan: \<open>Inl\<close> is the message of the error that is thrown when the plan is
  refused, \<open>None\<close> another exception.
\<close>

definition createDesktopDevRuntimePlan ::
    "dev_environment \<Rightarrow> jsval \<Rightarrow> dev_effect list \<times> (string + jsval) option" where
  "createDesktopDevRuntimePlan de options0 =
    (let options = or_empty options0 in
     case dot options ''appDataRoot'' of
       None \<Rightarrow> ([], None)
     | Some given \<Rightarrow>
         let appDataRoot = dev_normalizePath
               (coalesce given (coalesce (de_root de) (JStr (de_workspace de @ ''/.local/desktop-tauri-dev''))));
             roomName = coalesce (jget options ''roomName'') (JStr ''MVP-0 Desktop Room'');
             catalogModId = coalesce (jget options ''catalogModId'') (JStr ''performance-core'')
         in case dev_mods de appDataRoot catalogModId options of
              None \<Rightarrow> ([], None)
            | Some (mods, effects) \<Rightarrow>
                (effects, map_option (map_sum host_failure_message id)
                  (createHostRuntimePlan (dev_runtime_input appDataRoot options catalogModId roomName mods))))"

section \<open>Every selection gives a plan\<close>

lemma selections_known:
  "list_all (\<lambda>(_, ids). ids \<noteq> [] \<and> list_all (\<lambda>i. map_of catalogMods i \<noteq> None) ids) DesktopCuratedCatalog"
  by code_simp

lemma curated_selection:
  assumes "c \<notin> set inherited_names"
  shows "\<exists>ms. createDesktopCuratedPackMods (JStr c) dd = Some (map (curated_mod dd) ms) \<and>
    set ms \<subseteq> snd ` set catalogMods \<and> ms \<noteq> []"
proof -
  define ids where "ids = (case map_of DesktopCuratedCatalog c of
    Some ids \<Rightarrow> ids | None \<Rightarrow> the (map_of DesktopCuratedCatalog ''performance-core''))"
  define ms where "ms = map (the \<circ> map_of catalogMods) ids"
  have "\<exists>k. (k, ids) \<in> set DesktopCuratedCatalog"
    by (auto simp: ids_def DesktopCuratedCatalog_def split: option.splits if_splits)
  then have known: "ids \<noteq> []" "\<forall>i \<in> set ids. map_of catalogMods i \<noteq> None"
    using selections_known by (auto simp: list_all_iff)
  have "traverse (\<lambda>i. map_option (curated_mod dd) (map_of catalogMods i)) ids = Some (map (curated_mod dd) ms)"
    using known(2) by (auto simp: traverse_Some_iff ms_def)
  moreover have "set ms \<subseteq> snd ` set catalogMods"
  proof
    fix m assume "m \<in> set ms"
    then obtain i where "i \<in> set ids" "m = the (map_of catalogMods i)" by (auto simp: ms_def)
    with known(2) have "map_of catalogMods i = Some m" by (metis option.collapse)
    then show "m \<in> snd ` set catalogMods" by (force dest: map_of_SomeD)
  qed
  moreover have "ms \<noteq> []" using known(1) by (simp add: ms_def)
  moreover have "createDesktopCuratedPackMods (JStr c) dd =
      traverse (\<lambda>i. map_option (curated_mod dd) (map_of catalogMods i)) ids"
    using assms by (simp add: createDesktopCuratedPackMods_def ids_def)
  ultimately show ?thesis by metis
qed

text \<open>An inherited name is no selection, and not the default either.\<close>

lemma inherited_selection_throws:
  "createDesktopCuratedPackMods (JStr ''constructor'') dd = None"
  by (simp add: createDesktopCuratedPackMods_def inherited_names_def)

text \<open>The files of the catalog have digests and names that the host runtime accepts.\<close>

lemma catalog_files:
  "list_all (\<lambda>(_, m). isSha256 (JStr (cm_sha256 m)) \<and> cm_sha256 m \<noteq> [] \<and> isSafeFileName (JStr (cm_fileName m)))
     catalogMods"
  by code_simp

lemma curated_mod_checked:
  assumes "m \<in> snd ` set catalogMods"
  shows "mod_unchecked (curated_mod dd m) = Some False" "mod_badly_named (curated_mod dd m) = Some False"
proof -
  have "cm_sha256 m \<noteq> []" "isSafeFileName (JStr (cm_fileName m))"
    using assms catalog_files by (auto simp: list_all_iff)
  then show "mod_unchecked (curated_mod dd m) = Some False" "mod_badly_named (curated_mod dd m) = Some False"
    by (simp_all add: mod_unchecked_def mod_badly_named_def curated_mod_def dot_def checksumsMatch_def coalesce_def)
qed

lemma curated_mods_checked:
  assumes "set ms \<subseteq> snd ` set catalogMods"
  shows "opt_some mod_unchecked (map (curated_mod dd) ms) = Some False"
    "opt_some mod_badly_named (map (curated_mod dd) ms) = Some False"
proof -
  have "m \<in> snd ` set catalogMods" if "m \<in> set ms" for m using assms that by blast
  then show "opt_some mod_unchecked (map (curated_mod dd) ms) = Some False"
    "opt_some mod_badly_named (map (curated_mod dd) ms) = Some False"
    unfolding opt_some_False set_map by (auto intro: curated_mod_checked simp del: image_iff)
qed

lemma dev_launcher: "isSafeFileName (JStr ''fabric-server-1.21.1-0.19.2-1.1.1.jar'')"
  by code_simp

lemmas dev_constants = FABRIC_LOADER_VERSION_def FABRIC_INSTALLER_VERSION_def FABRIC_INSTALLER_SHA256_def
  FABRIC_SERVER_SHA256_def

lemma dev_input_valid:
  assumes "isSafeAppDataRoot (JStr folder)" "folder \<noteq> []" "isSafePathSegment (JStr room)" "room \<noteq> []"
    and "set ms \<subseteq> snd ` set catalogMods"
    and "jget options ''roomId'' = JStr room" "nullish (jget options ''minecraftVersion'')"
  shows "validateHostRuntime (dev_runtime_input folder options modId name (JArr (map (curated_mod dd) ms))) = Some None"
  using assms curated_mods_checked [OF assms(5), of dd]
  by (simp add: validateHostRuntime_def dev_runtime_input_def selectSupportedMinecraftVersion_def or_empty_def dot_def
      arr_of_def found_def check_host_def checksumsMatch_def coalesce_def dev_constants MINIMUM_JAVA_MAJOR_def)

lemma curated_entries:
  "\<exists>es. traverse (mod_install_entry layout) (map (curated_mod dd) ms) = Some es"
  by (rule traverse_total) (auto simp: mod_install_entry_def curated_mod_def dot_def)

text \<open>
  A room with a safe folder and a safe identifier gets a plan for every selection that is no inherited
  name; a name that is in no catalog gets the default selection.
\<close>

lemma dev_plan_made:
  assumes "isSafeAppDataRoot (JStr (dev_normalizePath (JStr folder)))" "isSafePathSegment (JStr room)"
    and "c \<notin> set inherited_names"
  shows "\<exists>plan. createDesktopDevRuntimePlan de (JObj [(''appDataRoot'', JStr folder), (''roomId'', JStr room),
      (''catalogModId'', JStr c)]) = ([], Some (Inr plan)) \<and>
    jget (jget plan ''pack'') ''id'' = JStr (''mvp1-curated-'' @ c @ ''-1.21.1'')"
proof -
  let ?root = "dev_normalizePath (JStr folder)" and ?dd = "JStr (dev_normalizePath (JStr folder) @ ''/cache/downloads'')"
  let ?options = "JObj [(''appDataRoot'', JStr folder), (''roomId'', JStr room), (''catalogModId'', JStr c)]"
  obtain ms where ms: "createDesktopCuratedPackMods (JStr c) ?dd = Some (map (curated_mod ?dd) ms)"
    "set ms \<subseteq> snd ` set catalogMods" using curated_selection [OF assms(3), of ?dd] by blast
  have some: "?root \<noteq> []" "room \<noteq> []"
    using assms(1,2) by (auto simp: isSafeAppDataRoot_def isSafePathSegment_def js_trim_def)
  let ?input = "dev_runtime_input ?root ?options (JStr c) (JStr ''MVP-0 Desktop Room'') (JArr (map (curated_mod ?dd) ms))"
  have valid: "validateHostRuntime ?input = Some None"
    by (rule dev_input_valid [OF assms(1) some(1) assms(2) some(2) ms(2)]) simp_all
  have "\<forall>layout. \<exists>es. traverse (mod_install_entry layout) (map (curated_mod ?dd) ms) = Some es"
    by (intro allI curated_entries)
  from choice [OF this] obtain es
    where es: "\<And>layout. traverse (mod_install_entry layout) (map (curated_mod ?dd) ms) = Some (es layout)" by blast
  have "\<exists>plan. createHostRuntimePlan ?input = Some (Inr plan) \<and>
      jget (jget plan ''pack'') ''id'' = JStr (''mvp1-curated-'' @ c @ ''-1.21.1'')"
    using valid assms(1,2) dev_launcher
    by (simp add: host_plan_eval dev_runtime_input_def dev_constants coalesce_def es)
  then show ?thesis
    using ms(1) by (auto simp: createDesktopDevRuntimePlan_def or_empty_def dot_def coalesce_def dev_mods_def)
qed

end
