(* ===== verification/InvitePage.thy ===== *)
theory InvitePage
  imports JsOps
begin

text \<open>
  \<open>apps/invite-web/app.js\<close> and \<open>apps/desktop/bridge.js\<close>: what the invite page shows for a link, and what
  the desktop page calls, or answers itself where there is no desktop shell. The document is the record
  of what is put into it. The Korean texts, the parameters that \<open>URLSearchParams\<close> finds in a link and
  the answers of the shell are arguments.
\<close>

section \<open>The states of the invite page\<close>

text \<open>A state with its actions (the target, and whether it is a secondary one), or another name for one.\<close>

record page_state =
  iv_unavailable :: bool
  iv_trustCopy :: bool
  iv_actions :: "(string \<times> bool) list"

definition hidden_state :: "(string \<times> bool) list \<Rightarrow> string + page_state" where
  "hidden_state actions = Inr \<lparr>iv_unavailable = True, iv_trustCopy = False, iv_actions = actions\<rparr>"

definition modrinth_app :: string where
  "modrinth_app = ''https://modrinth.com/app''"

definition invite_states :: "(string \<times> (string + page_state)) list" where
  "invite_states =
    [(''checking'', hidden_state [(''#retry'', False)]),
     (''valid'', Inr \<lparr>iv_unavailable = False, iv_trustCopy = True,
        iv_actions = [(''#download-pack'', False), (modrinth_app, True)]\<rparr>),
     (''expired'', hidden_state [(''#request-new'', False)]),
     (''revoked'', hidden_state [(''#notify-host'', True)]),
     (''missing'', hidden_state [(''#paste-invite'', False)]),
     (''invalid'', hidden_state [(''#open-another'', False)]),
     (''unsupported'', hidden_state [(''#copy-link'', True)]),
     (''modrinth'', hidden_state [(modrinth_app, False), (''#retry'', True)]),
     (''download'', hidden_state [(''#retry-download'', False), (''#notify-host'', True)]),
     (''import'', hidden_state [(modrinth_app, False), (''#download-pack'', True)]),
     (''hostOffline'', hidden_state [(''#retry'', False), (''#notify-host'', True)]),
     (''approvalTimeout'', hidden_state [(''#retry-approval'', False), (''#notify-host'', True)]),
     (''ready'', Inl ''valid''), (''active'', Inl ''valid''), (''modrinthMissing'', Inl ''modrinth''),
     (''modrinth_missing'', Inl ''modrinth''), (''pack_download_failed'', Inl ''download''),
     (''packDownloaded'', Inl ''import''), (''importFailed'', Inl ''import''), (''import_failed'', Inl ''import''),
     (''unsupported_device'', Inl ''unsupported''), (''host_offline'', Inl ''hostOffline''),
     (''pending'', Inl ''valid''), (''approval_timeout'', Inl ''approvalTimeout''), (''unavailable'', Inl ''invalid'')]"

text \<open>
  \<open>states[name]\<close>: a state with its own name, nothing, or what every object inherits under a name: that
  is no text, and it has none of the fields of a state.
\<close>

datatype state_found = State_none | State_inherited | State_found string page_state | State_alias string

definition state_at :: "string \<Rightarrow> state_found" where
  "state_at name =
    (case map_of invite_states name of
       Some (Inr st) \<Rightarrow> State_found name st
     | Some (Inl other) \<Rightarrow> State_alias other
     | None \<Rightarrow> if name \<in> set inherited_names then State_inherited else State_none)"

definition follow_alias :: "state_found \<Rightarrow> state_found" where
  "follow_alias st = (case st of State_alias other \<Rightarrow> state_at other | _ \<Rightarrow> st)"

definition normalizeStateName :: "jsval \<Rightarrow> string" where
  "normalizeStateName stateName =
    map (\<lambda>x. if x = CHR '' '' \<or> x = CHR ''-'' then CHR ''_'' else x) (js_trim (js_string (coalesce stateName (JStr ''valid''))))"

definition resolveState :: "jsval \<Rightarrow> state_found" where
  "resolveState stateName =
    (case state_at (normalizeStateName stateName) of State_none \<Rightarrow> state_at ''invalid'' | st \<Rightarrow> follow_alias st)"

definition stateIsUnavailable :: "string \<Rightarrow> bool" where
  "stateIsUnavailable stateName =
    (case follow_alias (state_at stateName) of State_found _ st \<Rightarrow> iv_unavailable st | _ \<Rightarrow> False)"

text \<open>\<open>invite\<close> and \<open>state\<close> are the parameters of the link, \<open>null\<close> when it has none.\<close>

definition stateFromSearch :: "jsval \<Rightarrow> jsval \<Rightarrow> string" where
  "stateFromSearch invite state =
    (let requestedState = normalizeStateName
           (coalesce state (JStr (if truthy invite then ''checking'' else ''missing'')));
         safeState = (if state_at requestedState \<noteq> State_none then requestedState else ''invalid'')
     in if \<not> truthy invite then (if stateIsUnavailable safeState then safeState else ''missing'')
        else if \<not> stateIsUnavailable safeState then ''checking''
        else safeState)"

section \<open>The page\<close>

record invite_texts =
  tx_title :: "string \<Rightarrow> string"
  tx_summary :: "string \<Rightarrow> string"
  tx_label :: "string \<Rightarrow> string \<Rightarrow> string"
  tx_sharedTrust :: string
  tx_hiddenTrust :: string

record action_link =
  al_textContent :: string
  al_href :: string
  al_className :: string

record invite_page =
  ip_title :: string
  ip_summary :: string
  ip_trustCopy :: string
  ip_isUnavailable :: bool
  ip_factsHidden :: bool
  ip_facts :: "string list"
  ip_actions :: "action_link list"

definition createActionLink :: "invite_texts \<Rightarrow> string \<Rightarrow> string \<times> bool \<Rightarrow> action_link" where
  "createActionLink tx name action = \<lparr>al_textContent = tx_label tx name (fst action), al_href = fst action,
     al_className = (if snd action then ''secondary-action'' else ''action-link'')\<rparr>"

text \<open>\<open>None\<close>: reading the actions of what is no state throws.\<close>

definition renderState :: "invite_texts \<Rightarrow> jsval \<Rightarrow> invite_page option" where
  "renderState tx stateName =
    (case resolveState stateName of
       State_found name st \<Rightarrow> Some \<lparr>ip_title = tx_title tx name, ip_summary = tx_summary tx name,
         ip_trustCopy = (if iv_trustCopy st then tx_sharedTrust tx else tx_hiddenTrust tx),
         ip_isUnavailable = iv_unavailable st, ip_factsHidden = iv_unavailable st,
         ip_facts = [''Java 1.21.1'', ''MVP-0 Performance Room''],
         ip_actions = map (createActionLink tx name) (iv_actions st)\<rparr>
     | _ \<Rightarrow> None)"

definition invite_page_of :: "invite_texts \<Rightarrow> jsval \<Rightarrow> jsval \<Rightarrow> invite_page option" where
  "invite_page_of tx invite state = renderState tx (JStr (stateFromSearch invite state))"

subsection \<open>A link alone shows no room\<close>

lemma unavailable_known:
  assumes "stateIsUnavailable name"
  shows "\<exists>st. normalizeStateName (JStr name) = name \<and> (\<exists>n. follow_alias (state_at name) = State_found n st) \<and> iv_unavailable st"
proof -
  have names: "list_all (\<lambda>(n, _). normalizeStateName (JStr n) = n) invite_states" by code_simp
  have "map_of invite_states name \<noteq> None"
  proof
    assume "map_of invite_states name = None"
    then show False using assms by (simp add: stateIsUnavailable_def state_at_def follow_alias_def split: if_splits)
  qed
  then have "(name, the (map_of invite_states name)) \<in> set invite_states" by (auto dest: map_of_SomeD)
  then have "normalizeStateName (JStr name) = name" using names by (auto simp: list_all_iff)
  then show ?thesis using assms by (auto simp: stateIsUnavailable_def split: state_found.splits)
qed

lemma from_search_unavailable: "stateIsUnavailable (stateFromSearch invite state)"
proof -
  have "stateIsUnavailable ''missing''" "stateIsUnavailable ''checking''" by code_simp+
  then show ?thesis by (simp add: stateFromSearch_def Let_def)
qed

text \<open>
  Whatever a link says: the page renders, with the facts of the room hidden and without the text that
  goes with a valid invite.
\<close>

lemma link_shows_no_room:
  "\<exists>page. invite_page_of tx invite state = Some page \<and> ip_factsHidden page \<and> ip_isUnavailable page"
proof -
  let ?name = "stateFromSearch invite state"
  obtain st n where "normalizeStateName (JStr ?name) = ?name" "follow_alias (state_at ?name) = State_found n st" "iv_unavailable st"
    using unavailable_known [OF from_search_unavailable] by blast
  moreover from this have "state_at ?name \<noteq> State_none" by (auto simp: follow_alias_def)
  ultimately show ?thesis
    by (auto simp: invite_page_of_def renderState_def resolveState_def split: state_found.splits)
qed

text \<open>A link with an invite and no state, or the state of a valid one, is being checked: nothing in the page checks it.\<close>

lemma invite_stays_checking:
  "stateFromSearch (JStr ''i'') JNull = ''checking''" "stateFromSearch (JStr ''i'') (JStr ''ready'') = ''checking''"
  by code_simp+

section \<open>The bridge of the desktop page\<close>

definition bridge_commands :: "(string \<times> string) list" where
  "bridge_commands = [(''prepareRoom'', ''desktop_prepare_room''), (''openRoom'', ''desktop_open_room''),
     (''closeRoom'', ''desktop_close_room''), (''restartRoom'', ''desktop_restart_room''),
     (''sendServerCommand'', ''desktop_send_server_command''), (''statusRoom'', ''desktop_status_room''),
     (''resetRoom'', ''desktop_reset_room'')]"

record bridge_texts =
  bt_rows :: jsval
  bt_blockedRows :: jsval
  bt_ready :: string
  bt_closed :: string
  bt_blockedTitle :: string
  bt_blockedMessage :: string
  bt_commandTitle :: string
  bt_commandMessage :: string

definition fallbackDiagnostics :: jsval where
  "fallbackDiagnostics = JArr (map (\<lambda>(a, b). JArr [JStr a, JStr b])
     [(''Bridge'', ''static file preview''), (''Runtime'', ''not connected to Tauri commands''),
      (''Open room'', ''blocked outside the packaged desktop runtime'')])"

definition readyResponse :: "bridge_texts \<Rightarrow> jsval" where
  "readyResponse bt = JObj [(''ok'', JBool True), (''status'', JStr ''ready''), (''prepared'', JBool True),
     (''open'', JBool False), (''previewOpen'', JBool False), (''inviteLink'', JNull),
     (''message'', JStr (bt_ready bt)), (''runtimeRows'', bt_rows bt), (''diagnostics'', fallbackDiagnostics)]"

definition blockedOpenResponse :: "bridge_texts \<Rightarrow> jsval" where
  "blockedOpenResponse bt = JObj [(''ok'', JBool False), (''status'', JStr ''blocked''), (''prepared'', JBool True),
     (''open'', JBool False), (''previewOpen'', JBool False), (''inviteLink'', JNull),
     (''blocker'', JObj [(''title'', JStr (bt_blockedTitle bt)), (''message'', JStr (bt_blockedMessage bt))]),
     (''runtimeRows'', bt_blockedRows bt), (''diagnostics'', fallbackDiagnostics)]"

definition blockedCommandResponse :: "bridge_texts \<Rightarrow> jsval" where
  "blockedCommandResponse bt = JObj [(''ok'', JBool False), (''status'', JStr ''blocked''), (''prepared'', JBool True),
     (''open'', JBool False), (''previewOpen'', JBool False),
     (''blocker'', JObj [(''title'', JStr (bt_commandTitle bt)), (''message'', JStr (bt_commandMessage bt))]),
     (''diagnostics'', fallbackDiagnostics)]"

definition resetResponse :: jsval where
  "resetResponse = JObj [(''ok'', JBool True), (''status'', JStr ''idle''), (''prepared'', JBool False),
     (''open'', JBool False), (''previewOpen'', JBool False), (''inviteLink'', JNull), (''runtimeRows'', JArr []),
     (''diagnostics'', JArr [])]"

definition bridge_fallback :: "bridge_texts \<Rightarrow> string \<Rightarrow> jsval" where
  "bridge_fallback bt name =
    (if name = ''openRoom'' \<or> name = ''restartRoom'' then blockedOpenResponse bt
     else if name = ''closeRoom'' then obj_with (readyResponse bt) [(''message'', JStr (bt_closed bt))]
     else if name = ''sendServerCommand'' then blockedCommandResponse bt
     else if name = ''resetRoom'' then resetResponse
     else readyResponse bt)"

text \<open>
  What a method of the bridge does: it invokes a command of the shell with a request, or, without a
  shell, answers itself.
\<close>

datatype bridge_result = Bridge_invoked string jsval | Bridge_answered jsval

definition shell_call :: "bridge_texts \<Rightarrow> bool \<Rightarrow> string \<Rightarrow> jsval \<Rightarrow> bridge_result option" where
  "shell_call bt shell name payload =
    (case map_of bridge_commands name of
       None \<Rightarrow> None
     | Some command \<Rightarrow>
         Some (if shell then Bridge_invoked command (JObj [(''request'', coalesce payload (JObj []))])
               else Bridge_answered (bridge_fallback bt name)))"

text \<open>Without a shell no room is open and no link is shown, whatever is asked.\<close>

lemma preview_never_open:
  assumes "shell_call bt False name payload = Some r"
  shows "\<exists>answer. r = Bridge_answered answer \<and> jget answer ''open'' = JBool False \<and>
    jget answer ''previewOpen'' = JBool False \<and> nullish (jget answer ''inviteLink'')"
  using assms
  by (auto simp: shell_call_def bridge_fallback_def blockedOpenResponse_def readyResponse_def blockedCommandResponse_def
      resetResponse_def obj_with_def fromEntries_def split: option.splits)

end
