(* ===== verification/RelayPreview.thy ===== *)
theory RelayPreview
  imports JsOps Machine
begin

text \<open>
  \<open>services/relay/src/local-tcp-relay-preview.mjs\<close>: a relay over sockets for a preview on one computer.
  A friend's first line opens a stream to the target of a session; then the bytes of both ends are
  passed on. Bytes are characters; \<open>JSON.parse\<close> of the bytes of a line is the parameter \<open>parse\<close>. The
  sockets are steps of the environment: chunks arrive, the host's end connects or fails, a friend goes.
  A socket whose \<open>data\<close> handler is removed flows on: what arrives without a handler is dropped.
\<close>

section \<open>Sessions and frames\<close>

datatype preview_failure = PV_SESSION_UNAVAILABLE | PV_SESSION_BINDING_MISMATCH | PV_OPEN_PROXY_BLOCKED
  | PV_BAD_OPEN_FRAME | PV_OPEN_FRAME_TOO_LARGE

primrec preview_failure_str :: "preview_failure \<Rightarrow> string" where
  "preview_failure_str PV_SESSION_UNAVAILABLE = ''session_unavailable''"
| "preview_failure_str PV_SESSION_BINDING_MISMATCH = ''session_binding_mismatch''"
| "preview_failure_str PV_OPEN_PROXY_BLOCKED = ''open_proxy_blocked''"
| "preview_failure_str PV_BAD_OPEN_FRAME = ''bad_open_frame''"
| "preview_failure_str PV_OPEN_FRAME_TOO_LARGE = ''open_frame_too_large''"

record preview_session =
  pn_sessionId :: jsval
  pn_roomId :: jsval
  pn_minecraftUuid :: jsval
  pn_host :: jsval
  pn_port :: jsval

record preview_config =
  pc_sessions :: "preview_session list"
  pc_maxOpenFrameBytes :: nat
  pc_parse :: "string \<Rightarrow> jsval option"

text \<open>The defaults of \<open>startLocalTcpRelayPreview\<close>: where it listens, and the configuration.\<close>

definition preview_listen :: "jsval \<Rightarrow> jsval \<Rightarrow> jsval \<times> jsval" where
  "preview_listen host port = (coalesce host (JStr ''127.0.0.1''), coalesce port (JNum 0))"

definition preview_config_of :: "preview_session list option \<Rightarrow> nat option \<Rightarrow> (string \<Rightarrow> jsval option) \<Rightarrow> preview_config" where
  "preview_config_of sessions maxOpenFrameBytes parse =
    \<lparr>pc_sessions = (case sessions of None \<Rightarrow> [] | Some ss \<Rightarrow> ss),
     pc_maxOpenFrameBytes = (case maxOpenFrameBytes of None \<Rightarrow> 8192 | Some n \<Rightarrow> n), pc_parse = parse\<rparr>"

text \<open>\<open>===\<close> with a value just parsed: an object or array equals nothing else.\<close>

definition same_value :: "jsval \<Rightarrow> jsval \<Rightarrow> bool" where
  "same_value a b \<longleftrightarrow> a = b \<and> (case a of JObj _ \<Rightarrow> False | JArr _ \<Rightarrow> False | _ \<Rightarrow> True)"

text \<open>The map of sessions: of several with one identifier the last counts.\<close>

definition preview_session_of :: "preview_config \<Rightarrow> jsval \<Rightarrow> preview_session option" where
  "preview_session_of cf sid = List.find (\<lambda>s. same_value (pn_sessionId s) sid) (rev (pc_sessions cf))"

definition parseOpenFrame :: "(string \<Rightarrow> jsval option) \<Rightarrow> string \<Rightarrow> jsval option" where
  "parseOpenFrame parse frameText =
    (case parse frameText of
       None \<Rightarrow> None
     | Some openFrame \<Rightarrow>
         if jget openFrame ''protocolVersion'' \<noteq> JStr ''relay.m4''
           \<or> jget openFrame ''kind'' \<noteq> JStr ''friend_stream_open''
           \<or> \<not> truthy (jget openFrame ''roomId'') \<or> \<not> truthy (jget openFrame ''sessionId'')
           \<or> \<not> truthy (jget openFrame ''minecraftUuid'')
         then None else Some openFrame)"

definition sessionBindingMatches :: "jsval \<Rightarrow> preview_session \<Rightarrow> bool" where
  "sessionBindingMatches openFrame session \<longleftrightarrow>
     same_value (pn_roomId session) (jget openFrame ''roomId'') \<and>
     same_value (pn_minecraftUuid session) (jget openFrame ''minecraftUuid'')"

definition isArbitraryTarget :: "jsval \<Rightarrow> preview_session \<Rightarrow> bool" where
  "isArbitraryTarget requestedTarget session \<longleftrightarrow> truthy requestedTarget \<and>
     (\<not> same_value (jget requestedTarget ''host'') (pn_host session) \<or>
      \<not> same_value (jget requestedTarget ''port'') (pn_port session))"

definition createFriendOpenFrame :: "jsval \<Rightarrow> string option" where
  "createFriendOpenFrame input = do {
     roomId \<leftarrow> dot (if input = JUndef then JObj [] else input) ''roomId'';
     text \<leftarrow> json (JObj [(''protocolVersion'', JStr ''relay.m4''), (''kind'', JStr ''friend_stream_open''),
       (''roomId'', roomId), (''sessionId'', jget input ''sessionId''),
       (''minecraftUuid'', jget input ''minecraftUuid''), (''requestedTarget'', jget input ''requestedTarget'')]);
     Some (text @ [CHR 0x0A]) }"

text \<open>What a line decides.\<close>

definition preview_admit :: "preview_config \<Rightarrow> string \<Rightarrow> preview_failure + preview_session" where
  "preview_admit cf frameText =
    (case parseOpenFrame (pc_parse cf) frameText of
       None \<Rightarrow> Inl PV_BAD_OPEN_FRAME
     | Some openFrame \<Rightarrow>
         (case preview_session_of cf (jget openFrame ''sessionId'') of
            None \<Rightarrow> Inl PV_SESSION_UNAVAILABLE
          | Some session \<Rightarrow>
              if \<not> sessionBindingMatches openFrame session then Inl PV_SESSION_BINDING_MISMATCH
              else if isArbitraryTarget (jget openFrame ''requestedTarget'') session then Inl PV_OPEN_PROXY_BLOCKED
              else Inr session))"

section \<open>Friends\<close>

text \<open>
  A friend's socket: its bytes are collected, it was refused, the host's socket connects (with the
  bytes after the line), both are piped, or it is gone. \<open>fr_target\<close> is where a socket was opened to,
  \<open>fr_toHost\<close> and \<open>fr_toFriend\<close> what was written.
\<close>

datatype friend_phase = Friend_waiting string | Friend_rejected | Friend_connecting string | Friend_piped | Friend_gone

record friend =
  fr_phase :: friend_phase
  fr_target :: "(jsval \<times> jsval) option"
  fr_toHost :: string
  fr_toFriend :: string

record opened_stream =
  op_sessionId :: jsval
  op_roomId :: jsval
  op_minecraftUuid :: jsval
  op_target :: "jsval \<times> jsval"

text \<open>\<open>pv_crashed\<close>: an error had no handler, which ends the process.\<close>

record preview =
  pv_friends :: "(nat, friend) jsmap"
  pv_openedStreams :: "opened_stream list"
  pv_crashed :: bool

definition new_preview :: preview where
  "new_preview = \<lparr>pv_friends = [], pv_openedStreams = [], pv_crashed = False\<rparr>"

definition on_friend :: "nat \<Rightarrow> (friend \<Rightarrow> friend) \<Rightarrow> preview \<Rightarrow> preview" where
  "on_friend k f s = (case jm_get (pv_friends s) k of None \<Rightarrow> s
     | Some fr \<Rightarrow> s\<lparr>pv_friends := jm_set k (f fr) (pv_friends s)\<rparr>)"

definition rejectFriend :: "preview_failure \<Rightarrow> friend \<Rightarrow> friend" where
  "rejectFriend reason fr = fr\<lparr>fr_phase := Friend_rejected,
     fr_toFriend := fr_toFriend fr @
       (case json (JObj [(''ok'', JBool False), (''reason'', JStr (preview_failure_str reason))]) of
          None \<Rightarrow> [] | Some t \<Rightarrow> t) @ [CHR 0x0A]\<rparr>"

text \<open>\<open>onInitialData\<close>, with the buffer that holds the chunk.\<close>

definition onInitialData :: "preview_config \<Rightarrow> nat \<Rightarrow> string \<Rightarrow> preview \<Rightarrow> preview" where
  "onInitialData cf k buffer s =
    (let newline = CHR 0x0A; line = takeWhile (\<lambda>x. x \<noteq> newline) buffer; found_line = newline \<in> set buffer in
     if pc_maxOpenFrameBytes cf < length line then on_friend k (rejectFriend PV_OPEN_FRAME_TOO_LARGE) s
     else if \<not> found_line then on_friend k (\<lambda>fr. fr\<lparr>fr_phase := Friend_waiting buffer\<rparr>) s
     else case preview_admit cf line of
         Inl reason \<Rightarrow> on_friend k (rejectFriend reason) s
       | Inr session \<Rightarrow>
           (let target = (pn_host session, pn_port session);
                s1 = on_friend k (\<lambda>fr. fr\<lparr>fr_phase := Friend_connecting (drop (Suc (length line)) buffer),
                       fr_target := Some target\<rparr>) s
            in s1\<lparr>pv_openedStreams := pv_openedStreams s1 @
                  [\<lparr>op_sessionId = pn_sessionId session, op_roomId = pn_roomId session,
                    op_minecraftUuid = pn_minecraftUuid session, op_target = target\<rparr>]\<rparr>))"

definition friend_data :: "preview_config \<Rightarrow> nat \<Rightarrow> string \<Rightarrow> preview \<Rightarrow> preview" where
  "friend_data cf k chunk s =
    (case jm_get (pv_friends s) k of
       None \<Rightarrow> s
     | Some fr \<Rightarrow>
         (case fr_phase fr of
            Friend_waiting buffer \<Rightarrow> onInitialData cf k (buffer @ chunk) s
          | Friend_piped \<Rightarrow> on_friend k (\<lambda>fr. fr\<lparr>fr_toHost := fr_toHost fr @ chunk\<rparr>) s
          | _ \<Rightarrow> s))"

definition host_connects :: "friend \<Rightarrow> friend" where
  "host_connects fr = (case fr_phase fr of
     Friend_connecting remainder \<Rightarrow> fr\<lparr>fr_phase := Friend_piped, fr_toHost := fr_toHost fr @ remainder\<rparr> | _ \<Rightarrow> fr)"

definition host_data :: "string \<Rightarrow> friend \<Rightarrow> friend" where
  "host_data chunk fr = (if fr_phase fr = Friend_piped then fr\<lparr>fr_toFriend := fr_toFriend fr @ chunk\<rparr> else fr)"

text \<open>An error of the host's socket destroys the friend's; a friend that goes takes the other with it.\<close>

definition friend_gone :: "friend \<Rightarrow> friend" where
  "friend_gone fr = fr\<lparr>fr_phase := Friend_gone\<rparr>"

text \<open>The handler of a friend's errors is there only once its line was admitted.\<close>

definition friend_error :: "nat \<Rightarrow> preview \<Rightarrow> preview" where
  "friend_error k s =
    (case jm_get (pv_friends s) k of
       None \<Rightarrow> s
     | Some fr \<Rightarrow> if fr_target fr = None then s\<lparr>pv_crashed := True\<rparr> else on_friend k friend_gone s)"

text \<open>\<open>startTcpEchoTarget\<close>: what a target has received, and its answer to a chunk.\<close>

definition echo_target :: "string \<Rightarrow> string \<Rightarrow> string list \<Rightarrow> string \<times> string list" where
  "echo_target responsePrefix chunk received = (responsePrefix @ chunk, received @ [chunk])"

datatype preview_op = Preview_friend nat | Preview_data nat string | Preview_hostConnects nat
  | Preview_hostData nat string | Preview_hostError nat | Preview_friendClose nat | Preview_friendError nat

fun preview_exec :: "preview_config \<Rightarrow> preview_op \<Rightarrow> preview \<Rightarrow> preview" where
  "preview_exec cf (Preview_friend k) s = s\<lparr>pv_friends := jm_set k
     \<lparr>fr_phase = Friend_waiting [], fr_target = None, fr_toHost = [], fr_toFriend = []\<rparr> (pv_friends s)\<rparr>"
| "preview_exec cf (Preview_data k chunk) s = friend_data cf k chunk s"
| "preview_exec cf (Preview_hostConnects k) s = on_friend k host_connects s"
| "preview_exec cf (Preview_hostData k chunk) s = on_friend k (host_data chunk) s"
| "preview_exec cf (Preview_hostError k) s = on_friend k (\<lambda>fr. if fr_target fr = None then fr else friend_gone fr) s"
| "preview_exec cf (Preview_friendClose k) s = on_friend k friend_gone s"
| "preview_exec cf (Preview_friendError k) s = friend_error k s"

fun preview_adm :: "preview_op \<Rightarrow> preview \<Rightarrow> bool" where
  "preview_adm (Preview_friend k) s = (jm_get (pv_friends s) k = None)"
| "preview_adm _ s = True"

section \<open>No open proxy, and no unbounded line\<close>

text \<open>
  A friend reaches only the target of a session; nothing is written to a host before; what is collected
  of a first line is within the limit.
\<close>

definition friend_ok :: "preview_config \<Rightarrow> friend \<Rightarrow> bool" where
  "friend_ok cf fr \<longleftrightarrow>
     (\<forall>t. fr_target fr = Some t \<longrightarrow> t \<in> (\<lambda>s. (pn_host s, pn_port s)) ` set (pc_sessions cf)) \<and>
     (fr_target fr = None \<longrightarrow> fr_toHost fr = []) \<and>
     (case fr_phase fr of
        Friend_waiting buffer \<Rightarrow> CHR 0x0A \<notin> set buffer \<and> length buffer \<le> pc_maxOpenFrameBytes cf \<and> fr_target fr = None
      | Friend_rejected \<Rightarrow> fr_target fr = None
      | Friend_connecting _ \<Rightarrow> fr_target fr \<noteq> None
      | Friend_piped \<Rightarrow> fr_target fr \<noteq> None
      | Friend_gone \<Rightarrow> True)"

definition preview_inv :: "preview_config \<Rightarrow> preview \<Rightarrow> bool" where
  "preview_inv cf s \<longleftrightarrow> (\<forall>k fr. jm_get (pv_friends s) k = Some fr \<longrightarrow> friend_ok cf fr) \<and>
     (\<forall>o' \<in> set (pv_openedStreams s). \<exists>sn \<in> set (pc_sessions cf). op_sessionId o' = pn_sessionId sn \<and>
        op_roomId o' = pn_roomId sn \<and> op_minecraftUuid o' = pn_minecraftUuid sn \<and> op_target o' = (pn_host sn, pn_port sn))"

lemma preview_inv_friend:
  assumes "preview_inv cf s" "\<And>fr. jm_get (pv_friends s) k = Some fr \<Longrightarrow> friend_ok cf fr \<Longrightarrow> friend_ok cf (f fr)"
  shows "preview_inv cf (on_friend k f s)"
  using assms by (auto simp: preview_inv_def on_friend_def jm_get_set split: option.splits if_splits)

lemma found_in: "List.find P xs = Some x \<Longrightarrow> x \<in> set xs \<and> P x"
  by (induction xs) (auto split: if_splits)

text \<open>What an admitted line presupposes.\<close>

lemma preview_admitted:
  assumes "preview_admit cf line = Inr session"
  shows "session \<in> set (pc_sessions cf) \<and> (\<exists>frame. pc_parse cf line = Some frame \<and>
    same_value (pn_sessionId session) (jget frame ''sessionId'') \<and>
    same_value (pn_roomId session) (jget frame ''roomId'') \<and>
    same_value (pn_minecraftUuid session) (jget frame ''minecraftUuid''))"
proof -
  have found_session: "s \<in> set (pc_sessions cf) \<and> same_value (pn_sessionId s) sid"
    if "preview_session_of cf sid = Some s" for s sid
    using found_in [OF that [unfolded preview_session_of_def]] by simp
  show ?thesis
    using assms found_session
    by (auto simp: preview_admit_def parseOpenFrame_def sessionBindingMatches_def split: option.splits if_splits)
qed

lemma preview_inv_data:
  assumes inv: "preview_inv cf s"
    and fr: "jm_get (pv_friends s) k = Some fr" "fr_phase fr = Friend_waiting b"
  shows "preview_inv cf (onInitialData cf k buffer s)"
proof -
  have new: "fr_target fr = None" "fr_toHost fr = []"
    using inv fr unfolding preview_inv_def friend_ok_def by fastforce+
  have rejected: "preview_inv cf (on_friend k (rejectFriend reason) s)" for reason
    by (rule preview_inv_friend [OF inv]) (use fr new in \<open>auto simp: rejectFriend_def friend_ok_def\<close>)
  have waiting: "preview_inv cf (on_friend k (\<lambda>fr. fr\<lparr>fr_phase := Friend_waiting buffer\<rparr>) s)"
    if "CHR 0x0A \<notin> set buffer" "length buffer \<le> pc_maxOpenFrameBytes cf"
    by (rule preview_inv_friend [OF inv]) (use fr new that in \<open>auto simp: friend_ok_def\<close>)
  have opened: "preview_inv cf (s1\<lparr>pv_openedStreams := pv_openedStreams s1 @
        [\<lparr>op_sessionId = pn_sessionId sn, op_roomId = pn_roomId sn, op_minecraftUuid = pn_minecraftUuid sn,
          op_target = (pn_host sn, pn_port sn)\<rparr>]\<rparr>)"
    if "s1 = on_friend k (\<lambda>fr. fr\<lparr>fr_phase := Friend_connecting r, fr_target := Some (pn_host sn, pn_port sn)\<rparr>) s"
      "sn \<in> set (pc_sessions cf)" for s1 r sn
  proof -
    have "preview_inv cf s1"
      unfolding that(1) by (rule preview_inv_friend [OF inv]) (use fr new that(2) in \<open>auto simp: friend_ok_def\<close>)
    then show ?thesis using that(2) by (auto simp: preview_inv_def)
  qed
  let ?line = "takeWhile (\<lambda>x. x \<noteq> CHR 0x0A) buffer"
  consider (large) "pc_maxOpenFrameBytes cf < length ?line"
    | (part) "\<not> pc_maxOpenFrameBytes cf < length ?line" "CHR 0x0A \<notin> set buffer"
    | (refused) reason where "\<not> pc_maxOpenFrameBytes cf < length ?line" "CHR 0x0A \<in> set buffer"
        "preview_admit cf ?line = Inl reason"
    | (admitted) sn where "\<not> pc_maxOpenFrameBytes cf < length ?line" "CHR 0x0A \<in> set buffer"
        "preview_admit cf ?line = Inr sn"
    by (metis sum.exhaust)
  then show ?thesis
  proof cases
    case large
    then show ?thesis using rejected [of PV_OPEN_FRAME_TOO_LARGE] by (simp add: onInitialData_def Let_def)
  next
    case part
    then have whole: "?line = buffer" by (auto simp: takeWhile_eq_all_conv)
    have "length buffer \<le> pc_maxOpenFrameBytes cf" using part(1) unfolding whole by simp
    from waiting [OF part(2) this] show ?thesis using part by (simp add: onInitialData_def Let_def)
  next
    case (refused reason)
    then show ?thesis using rejected [of reason] by (simp add: onInitialData_def Let_def)
  next
    case (admitted sn)
    have "sn \<in> set (pc_sessions cf)" using preview_admitted [OF admitted(3)] by blast
    from opened [OF refl this, of "drop (Suc (length ?line)) buffer"] show ?thesis
      using admitted by (simp add: onInitialData_def Let_def)
  qed
qed

lemma preview_inv_exec:
  assumes "preview_inv cf s"
  shows "preview_inv cf (preview_exec cf a s)"
proof (cases a)
  case (Preview_friend k)
  then show ?thesis using assms by (auto simp: preview_inv_def jm_get_set friend_ok_def)
next
  case (Preview_data k chunk)
  show ?thesis
  proof (cases "jm_get (pv_friends s) k")
    case (Some fr)
    have "preview_inv cf (on_friend k (\<lambda>fr. fr\<lparr>fr_toHost := fr_toHost fr @ chunk\<rparr>) s)" if "fr_phase fr = Friend_piped"
      by (rule preview_inv_friend [OF assms]) (use that Some in \<open>auto simp: friend_ok_def\<close>)
    then show ?thesis
      using Some assms preview_inv_data [OF assms Some] Preview_data
      by (auto simp: friend_data_def split: friend_phase.splits)
  qed (use assms Preview_data in \<open>simp add: friend_data_def\<close>)
next
  case (Preview_friendError k)
  have "preview_inv cf (s\<lparr>pv_crashed := True\<rparr>)" using assms by (simp add: preview_inv_def)
  moreover have "preview_inv cf (on_friend k friend_gone s)"
    by (rule preview_inv_friend [OF assms]) (simp add: friend_gone_def friend_ok_def)
  ultimately show ?thesis using assms Preview_friendError by (simp add: friend_error_def split: option.split)
qed (use assms in \<open>auto intro!: preview_inv_friend simp: host_connects_def host_data_def friend_gone_def friend_ok_def
    split: friend_phase.splits\<close>)

definition preview_initial :: "preview \<Rightarrow> bool" where
  "preview_initial s \<longleftrightarrow> s = new_preview"

interpretation preview_relay: invariant preview_initial preview_adm "preview_exec cf" "preview_inv cf" for cf
proof unfold_locales
  show "preview_inv cf s" if "preview_initial s" for s
    using that by (simp add: preview_initial_def new_preview_def preview_inv_def)
  show "preview_inv cf (preview_exec cf a s)" if "preview_inv cf s" for s a
    using that by (rule preview_inv_exec)
qed

text \<open>
  In every reachable state: a friend's bytes go only to the target of a configured session, nothing is
  written to a host for a friend that was refused, and no more than the limit is collected of a first
  line.
\<close>

lemma preview_no_open_proxy:
  assumes "reach preview_initial preview_adm (preview_exec cf) s" "jm_get (pv_friends s) k = Some fr"
  shows "friend_ok cf fr"
  using preview_relay.reach_inv [OF assms(1)] assms(2) by (auto simp: preview_inv_def)

text \<open>
  What a friend sends after its first line and before the host's socket is connected is lost: the
  handler is gone and the sockets are not piped yet.
\<close>

definition lost_config :: preview_config where
  "lost_config = preview_config_of (Some [\<lparr>pn_sessionId = JStr ''s'', pn_roomId = JStr ''r'',
     pn_minecraftUuid = JStr ''u'', pn_host = JStr ''127.0.0.1'', pn_port = JNum 25565\<rparr>]) None
     (\<lambda>_. Some (JObj [(''protocolVersion'', JStr ''relay.m4''), (''kind'', JStr ''friend_stream_open''),
        (''roomId'', JStr ''r''), (''sessionId'', JStr ''s''), (''minecraftUuid'', JStr ''u'')]))"

lemma early_bytes_lost:
  "map_option fr_toHost (jm_get (pv_friends (exec_all (preview_exec lost_config)
     [Preview_friend 0, Preview_data 0 (''open'' @ [CHR 0x0A] @ ''ab''), Preview_data 0 ''cd'', Preview_hostConnects 0,
      Preview_data 0 ''ef''] new_preview)) 0) = Some ''abef''"
  by code_simp

text \<open>A friend whose socket fails before its line is admitted ends the relay for everybody.\<close>

lemma early_error_crashes:
  "pv_crashed (exec_all (preview_exec cf) [Preview_friend 0, Preview_friendError 0] new_preview)"
  by (simp add: new_preview_def friend_error_def)

end
