(* ===== verification/DesktopPage.thy ===== *)
theory DesktopPage
  imports DesktopState
begin

text \<open>
  \<open>apps/desktop/app.js\<close>: the page of the desktop application over the state of theory \<open>DesktopState\<close>.
  The document is the record \<open>page_view\<close> of what is put into it; clicks, input, the timer, answers of
  the bridge and events of the running room are operations on the variables of the script. The Korean
  texts are named and given by \<open>pe_label\<close>; the numbers a view shows are exact.
\<close>

section \<open>Sets of statuses\<close>

definition BLOCKED_ROOM_STATUSES :: "string list" where
  "BLOCKED_ROOM_STATUSES = [''blocked'', ''crashed'', ''failed'']"
definition OPENING_ROOM_STATUSES :: "string list" where
  "OPENING_ROOM_STATUSES = [''starting'', ''running'', ''open'', ''restarting'']"
definition ACTIVE_METRIC_STATUSES :: "string list" where
  "ACTIVE_METRIC_STATUSES = [''opening'', ''starting'', ''running'', ''open'', ''restarting'', ''stopping'', ''closing'']"
definition RUNTIME_CLOCK_START_STATUSES :: "string list" where
  "RUNTIME_CLOCK_START_STATUSES = [''starting'', ''running'', ''open'', ''restarting'']"
definition RUNTIME_CLOCK_RESET_STATUSES :: "string list" where
  "RUNTIME_CLOCK_RESET_STATUSES = [''idle'', ''ready'', ''stopped'', ''blocked'', ''crashed'', ''failed'']"
definition STATUS_POLL_STATUSES :: "string list" where
  "STATUS_POLL_STATUSES = [''starting'', ''running'', ''open'', ''restarting'', ''stopping'', ''blocked'']"

definition METRIC_HISTORY_LIMIT :: nat where
  "METRIC_HISTORY_LIMIT = 32"

definition isBlockedRoomStatus :: "jsval \<Rightarrow> bool" where
  "isBlockedRoomStatus status \<longleftrightarrow> status_in status BLOCKED_ROOM_STATUSES"

definition isOpeningRoomStatus :: "jsval \<Rightarrow> bool" where
  "isOpeningRoomStatus status \<longleftrightarrow> status_in status OPENING_ROOM_STATUSES"

definition activeRuntimeStatus :: "jsval \<Rightarrow> bool" where
  "activeRuntimeStatus status \<longleftrightarrow> status_in status ACTIVE_METRIC_STATUSES"

definition isRoomOperationPending :: "room_ui \<Rightarrow> bool" where
  "isRoomOperationPending s \<longleftrightarrow> truthy (ru_commandPending s) \<and> ru_commandPending s \<noteq> JStr ''server-command''"

record page_env =
  pe_label :: "string \<Rightarrow> string"
  pe_ui :: "ui_text \<Rightarrow> string"
  pe_url :: "jsval \<Rightarrow> link_url option"
  pe_shell :: bool

section \<open>Views\<close>

text \<open>Which text names the status.\<close>

definition status_copy :: "room_ui \<Rightarrow> string" where
  "status_copy s =
    (let pending = ru_commandPending s; status = ru_bridgeStatus s in
     if pending = JStr ''prepare'' then ''preparing'' else if pending = JStr ''open'' then ''opening''
     else if pending = JStr ''close'' then ''closing'' else if pending = JStr ''restart'' then ''reopening''
     else if status = JStr ''ready'' then ''ready''
     else if status = JStr ''running'' \<or> status = JStr ''open'' then ''online''
     else if status = JStr ''starting'' then ''opening'' else if status = JStr ''restarting'' then ''reopening''
     else if status = JStr ''stopping'' then ''closing'' else if status = JStr ''stopped'' then ''closed''
     else if status = JStr ''crashed'' then ''crashed'' else if status = JStr ''failed'' then ''open failed''
     else if status = JStr ''preview-open'' then ''preview open'' else if status = JStr ''closing'' then ''closing''
     else if status = JStr ''blocked'' then ''open blocked'' else ''not prepared'')"

definition getStatusCopy :: "page_env \<Rightarrow> room_ui \<Rightarrow> string" where
  "getStatusCopy pe s = pe_label pe (status_copy s)"

record readiness_view =
  rv_ready :: bool
  rv_blocked :: bool
  rv_title :: string
  rv_text :: string

definition renderRoomReadiness :: "page_env \<Rightarrow> room_ui \<Rightarrow> readiness_view" where
  "renderRoomReadiness pe s = \<lparr>rv_ready = ru_prepared s, rv_blocked = isBlockedRoomStatus (ru_bridgeStatus s),
     rv_title = pe_label pe (if ru_prepared s then ''files ready'' else ''files not ready''),
     rv_text = (if ru_prepared s
       then (case ru_blocker s of Some b \<Rightarrow> ub_message b | None \<Rightarrow> pe_label pe ''open now'')
       else pe_label pe ''prepare first'')\<rparr>"

record invite_view =
  iw_link :: string
  iw_pill :: string
  iw_running :: bool
  iw_warning :: bool
  iw_muted :: bool
  iw_copy :: string
  iw_copyDisabled :: bool

definition invite_case :: "bool \<Rightarrow> bool \<Rightarrow> string \<Rightarrow> string \<Rightarrow> string \<Rightarrow> string" where
  "invite_case blocked active b a n = (if blocked then b else if active then a else n)"

definition renderInvite :: "page_env \<Rightarrow> room_ui \<Rightarrow> invite_view" where
  "renderInvite pe s =
    (let link = ru_inviteLink s; t = pe_label pe;
         hasInvite = truthy link;
         shareableInvite = (hasInvite \<and> isShareableInviteLink (pe_url pe) link);
         active = (ru_open s \<or> isOpeningRoomStatus (ru_bridgeStatus s));
         blocked = isBlockedRoomStatus (ru_bridgeStatus s)
     in \<lparr>iw_link = (if hasInvite then js_string link
           else t (invite_case blocked active ''no link'' ''link comes'' ''link later'')),
         iw_pill = t (if hasInvite then (if shareableInvite then ''invite ready'' else ''invite for development'')
           else invite_case blocked active ''invite blocked'' ''invite comes'' ''invite later''),
         iw_running = shareableInvite,
         iw_warning = ((blocked \<and> \<not> hasInvite) \<or> (hasInvite \<and> \<not> shareableInvite)),
         iw_muted = (\<not> hasInvite \<and> \<not> blocked),
         iw_copy = t (if hasInvite then (if shareableInvite then ''share the link'' else ''link for development'')
           else invite_case blocked active ''why no link'' ''link when ready'' ''no link before''),
         iw_copyDisabled = (\<not> shareableInvite)\<rparr>)"

record status_view =
  sv_text :: string
  sv_open :: bool
  sv_blocked :: bool
  sv_pill :: string
  sv_prepareDisabled :: bool
  sv_openDisabled :: bool
  sv_closeDisabled :: bool
  sv_restartDisabled :: bool
  sv_resetDisabled :: bool
  sv_blocker :: "ui_blocker option"

definition renderRoomStatus :: "page_env \<Rightarrow> room_ui \<Rightarrow> status_view" where
  "renderRoomStatus pe s =
    (let hasPendingCommand = isRoomOperationPending s; status = ru_bridgeStatus s;
         activeRuntime = (ru_open s \<or> isOpeningRoomStatus status);
         canOpen = (ru_prepared s \<and> \<not> activeRuntime \<and> status \<noteq> JStr ''closing'' \<and> status \<noteq> JStr ''stopping'');
         canClose = activeRuntime; canRestart = ru_open s
     in \<lparr>sv_text = getStatusCopy pe s, sv_open = ru_open s, sv_blocked = isBlockedRoomStatus status,
         sv_pill = pe_label pe (if ru_previewOpen s then ''preview'' else if ru_open s then ''open''
           else if status = JStr ''blocked'' then ''barred'' else if isBlockedRoomStatus status then ''error'' else ''waiting''),
         sv_prepareDisabled = (hasPendingCommand \<or> ru_prepared s), sv_openDisabled = (hasPendingCommand \<or> \<not> canOpen),
         sv_closeDisabled = (hasPendingCommand \<or> \<not> canClose), sv_restartDisabled = (hasPendingCommand \<or> \<not> canRestart),
         sv_resetDisabled = hasPendingCommand, sv_blocker = ru_blocker s\<rparr>)"

text \<open>The rows of the runtime and of the diagnostics, with what is shown while there are none.\<close>

definition preview_rows :: "page_env \<Rightarrow> (string \<times> string) list" where
  "preview_rows pe = (let t = pe_label pe in
    [(t ''folder'', t ''folder value''), (t ''java'', t ''java value'' @ t '' dot '' @ ''Minecraft 1.21.1''),
     (t ''loader'', t ''loader value''), (t ''cache'', t ''cache value'' @ t '' dot '' @ t ''eula value''),
     (t ''rules'', t ''rules value''), (t ''mods'', js_join '', '' [''Fabric API'', ''Lithium'', ''FerriteCore'']),
     (t ''lifecycle'', t ''lifecycle value''), (t ''logs'', t ''logs value'')])"

definition preview_diagnostics :: "(string \<times> string) list" where
  "preview_diagnostics =
    [(''Data root'', ''%APPDATA%/RoomBuilder''), (''Room runtime'', ''rooms/cozy-performance/runtime''),
     (''Cache'', ''cache/downloads + cache/metadata''), (''server.properties'', ''max-players=10, server-port=25565''),
     (''Network'', ''local host runtime''), (''Adapter'', ''Tauri command bridge'')]"

definition renderRuntimePreview :: "page_env \<Rightarrow> room_ui \<Rightarrow> (string \<times> string) list \<times> (string \<times> string) list" where
  "renderRuntimePreview pe s =
    (if ru_runtimeRows s \<noteq> [] then ru_runtimeRows s else preview_rows pe,
     if ru_diagnostics s \<noteq> [] then ru_diagnostics s else preview_diagnostics)"

record catalog_view =
  cw_options :: "(string \<times> string) list"
  cw_value :: string
  cw_gate :: string
  cw_warning :: bool
  cw_name :: string
  cw_summary :: string
  cw_risk :: string
  cw_dependencies :: string
  cw_conflicts :: string
  cw_server :: string
  cw_gateCopy :: string

definition renderCatalog :: "page_env \<Rightarrow> room_ui \<Rightarrow> catalog_view" where
  "renderCatalog pe s =
    (let c = ru_catalog s; selected = ca_selected c; dot' = pe_label pe '' dot '' in
     \<lparr>cw_options = map (\<lambda>o'. (co_id o', co_badge o' @ dot' @ co_name o')) (ca_candidates c), cw_value = ca_selectedId c,
      cw_gate = ca_gateLabel c, cw_warning = (\<not> ca_appliedToServer c), cw_name = cc_badge selected @ dot' @ cc_name selected,
      cw_summary = cc_summary selected, cw_risk = cc_riskLabel selected @ dot' @ cc_riskDetail selected,
      cw_dependencies = js_join '', '' (cc_dependencies selected), cw_conflicts = js_join '', '' (cc_conflicts selected),
      cw_server = cc_serverLabel selected @ dot' @ cc_serverDetail selected, cw_gateCopy = ca_gateCopy c\<rparr>)"

text \<open>Of the tabs and the panels the one with the name is shown.\<close>

definition switchView :: "string \<Rightarrow> string list \<Rightarrow> string list \<Rightarrow> (string \<times> bool) list \<times> (string \<times> bool) list" where
  "switchView targetId tabs panels = (map (\<lambda>t. (t, t = targetId)) tabs, map (\<lambda>p. (p, p \<noteq> targetId)) panels)"

section \<open>Numbers as texts\<close>

definition page_round :: "rat \<Rightarrow> int" where
  "page_round q = \<lfloor>q + 1 / 2\<rfloor>"

text \<open>\<open>q.toFixed(d)\<close> of a number that is not negative.\<close>

definition to_fixed :: "nat \<Rightarrow> rat \<Rightarrow> string" where
  "to_fixed d q =
    (let n = nat (page_round (q * 10 ^ d)); ds = digits n; ds' = replicate (Suc d - length ds) (CHR ''0'') @ ds
     in if d = 0 then ds else take (length ds' - d) ds' @ ''.'' @ drop (length ds' - d) ds')"

definition isFiniteMetric :: "rat option \<Rightarrow> bool" where
  "isFiniteMetric v \<longleftrightarrow> v \<noteq> None"

definition page_clampPercent :: "rat \<Rightarrow> rat" where
  "page_clampPercent q = min 100 (max 0 q)"

definition formatPercent :: "rat \<Rightarrow> string" where
  "formatPercent q =
    (let rounded = of_int (page_round (page_clampPercent q * 10)) / 10 in
     if of_int \<lfloor>rounded\<rfloor> = rounded then int_str \<lfloor>rounded\<rfloor> else to_fixed 1 rounded)"

definition formatBytes :: "rat \<Rightarrow> string" where
  "formatBytes q =
    (if q \<le> 0 then ''0 MB''
     else let megabytes = q / (1024 * 1024) in
       if megabytes < 1024 then int_str (page_round megabytes) @ '' MB'' else to_fixed 1 (megabytes / 1024) @ '' GB'')"

definition formatDuration :: "page_env \<Rightarrow> int \<Rightarrow> string" where
  "formatDuration pe seconds =
    (let t = pe_label pe; minutes = seconds div 60; remainingSeconds = seconds mod 60;
         hours = minutes div 60; remainingMinutes = minutes mod 60
     in if seconds \<le> 0 then ''0'' @ t ''seconds''
        else if minutes = 0 then int_str remainingSeconds @ t ''seconds''
        else if hours = 0 then int_str minutes @ t ''minutes'' @ '' '' @ int_str remainingSeconds @ t ''seconds''
        else int_str hours @ t ''hours'' @ '' '' @ int_str remainingMinutes @ t ''minutes'')"

definition chartPolygon :: "rat list \<Rightarrow> rat \<Rightarrow> string" where
  "chartPolygon vs maxValue =
    (let normalized = (if vs = [] then [0] else vs); denominator = max 1 maxValue;
         point = (\<lambda>(i, v). let x = (if length normalized = 1 then 100 else of_nat i / of_nat (length normalized - 1) * 100);
             y = 100 - page_clampPercent (v / denominator * 100)
           in to_fixed 2 x @ ''% '' @ to_fixed 2 y @ ''%'')
     in ''polygon('' @ js_join '', '' (map point (zip [0..<length normalized] normalized)) @ '', 100% 100%, 0 100%)'')"

section \<open>Metrics over time\<close>

text \<open>The script reads the metrics as the reducer keeps them: each number is finite or absent.\<close>

record metric_snapshot =
  sn_status :: jsval
  sn_cpu :: int
  sn_cpuPrecise :: rat
  sn_ram :: rat
  sn_ramBytes :: rat
  sn_totalRamBytes :: rat
  sn_hasMetrics :: bool
  sn_hasCpuMetric :: bool
  sn_hasRamMetric :: bool
  sn_metricsPid :: "int option"
  sn_metricsProblem :: "string option"
  sn_active :: bool
  sn_players :: nat
  sn_uptimeSeconds :: int

definition clock_started :: "int option \<Rightarrow> bool" where
  "clock_started c = (case c of None \<Rightarrow> False | Some t \<Rightarrow> t \<noteq> 0)"

definition ensureRuntimeClock :: "jsval \<Rightarrow> int \<Rightarrow> int option \<Rightarrow> int option" where
  "ensureRuntimeClock status now startedAt =
    (if status_in status RUNTIME_CLOCK_RESET_STATUSES then None
     else if status_in status RUNTIME_CLOCK_START_STATUSES \<and> \<not> clock_started startedAt then Some now
     else startedAt)"

definition currentMetricSnapshot :: "room_ui \<Rightarrow> int \<Rightarrow> int option \<Rightarrow> metric_snapshot" where
  "currentMetricSnapshot s now startedAt =
    (let status = ru_bridgeStatus s; metrics = ru_metrics s;
         cpuPercent = (case metrics of None \<Rightarrow> None | Some m \<Rightarrow> um_cpuPercent m);
         hasCpuMetric = isFiniteMetric cpuPercent;
         hasRamMetric = (isFiniteMetric (map_option um_memoryPercent metrics) \<or>
           isFiniteMetric (map_option um_workingSetBytes metrics));
         cpu = (case cpuPercent of None \<Rightarrow> 0 | Some q \<Rightarrow> page_clampPercent q)
     in \<lparr>sn_status = status, sn_cpu = page_round cpu, sn_cpuPrecise = cpu,
         sn_ram = (case metrics of None \<Rightarrow> 0 | Some m \<Rightarrow> page_clampPercent (um_memoryPercent m)),
         sn_ramBytes = (case metrics of None \<Rightarrow> 0 | Some m \<Rightarrow> max 0 (um_workingSetBytes m)),
         sn_totalRamBytes = (case metrics of None \<Rightarrow> 0 | Some m \<Rightarrow> max 0 (um_totalBytes m)),
         sn_hasMetrics = (metrics \<noteq> None \<and> (hasCpuMetric \<or> hasRamMetric)),
         sn_hasCpuMetric = hasCpuMetric, sn_hasRamMetric = hasRamMetric,
         sn_metricsPid = (case metrics of None \<Rightarrow> None | Some m \<Rightarrow> um_pid m),
         sn_metricsProblem = ru_metricsProblem s, sn_active = activeRuntimeStatus status,
         sn_players = (if ru_open s then 1 else 0),
         sn_uptimeSeconds = (case startedAt of
             Some t \<Rightarrow> (if t = 0 then 0 else max 0 ((now - t) div 1000)) | None \<Rightarrow> 0)\<rparr>)"

text \<open>The history, the status and the time of the last sample that was added.\<close>

definition recordMetricSample ::
    "metric_snapshot \<Rightarrow> int \<Rightarrow> metric_snapshot list \<times> jsval \<times> int \<Rightarrow> metric_snapshot list \<times> jsval \<times> int" where
  "recordMetricSample snapshot now h =
    (case h of (history, lastStatus, lastAt) \<Rightarrow>
       if sn_status snapshot = lastStatus \<and> now - lastAt < 1000 \<and> history \<noteq> []
       then (butlast history @ [snapshot], lastStatus, lastAt)
       else let history' = history @ [snapshot] in
         (if METRIC_HISTORY_LIMIT < length history' then tl history' else history', sn_status snapshot, now))"

record numbers_view =
  mw_cpu :: string
  mw_ram :: string
  mw_uptime :: string
  mw_basis :: string
  mw_empty :: bool
  mw_measuring :: bool
  mw_title :: string
  mw_text :: string
  mw_cpuChart :: string
  mw_ramChart :: string
  mw_playerOpacity :: string
  mw_playerLevel :: string
  mw_playerActive :: bool

definition renderMetrics :: "page_env \<Rightarrow> metric_snapshot \<Rightarrow> metric_snapshot list \<Rightarrow> numbers_view" where
  "renderMetrics pe sn history =
    (let t = pe_label pe; waitingForMetrics = (\<not> sn_hasMetrics sn);
         metricsProblem = (if sn_active sn \<and> waitingForMetrics then sn_metricsProblem sn else None);
         troubled = (case metricsProblem of None \<Rightarrow> False | Some p \<Rightarrow> p \<noteq> []);
         waiting = (if troubled then t ''check'' else if sn_active sn then t ''measuring'' else t ''idle metrics'')
     in \<lparr>mw_cpu = (if sn_hasCpuMetric sn then formatPercent (sn_cpuPrecise sn) @ '' %'' else waiting),
         mw_ram = (if sn_hasRamMetric sn
           then formatBytes (sn_ramBytes sn) @ '' ('' @ formatPercent (sn_ram sn) @ ''%)'' else waiting),
         mw_uptime = formatDuration pe (sn_uptimeSeconds sn),
         mw_basis = (if sn_hasMetrics sn
           then t ''basis of process'' @ (case sn_metricsPid sn of None \<Rightarrow> ''-'' | Some p \<Rightarrow> int_str p) @ t ''of computer'' @
             (if sn_hasCpuMetric sn then [] else t ''measuring cpu'')
           else t ''basis''),
         mw_empty = waitingForMetrics, mw_measuring = (sn_active sn \<and> waitingForMetrics),
         mw_title = t (if troubled then ''check numbers'' else if sn_active sn then ''measuring numbers'' else ''waiting for numbers''),
         mw_text = (case metricsProblem of Some p \<Rightarrow> (if p \<noteq> [] then p else if sn_active sn then t ''reads numbers'' else t ''numbers later'')
           | None \<Rightarrow> (if sn_active sn then t ''reads numbers'' else t ''numbers later'')),
         mw_cpuChart = chartPolygon (map (\<lambda>i. of_int (sn_cpu i)) history) 100,
         mw_ramChart = chartPolygon (map sn_ram history) 100,
         mw_playerOpacity = (if sn_players sn \<noteq> 0 then ''1'' else ''0.26''),
         mw_playerLevel = int_str (max 8 (int (sn_players sn) * 20)) @ ''%'', mw_playerActive = (0 < sn_players sn)\<rparr>)"

section \<open>The console\<close>

record console_view =
  nw_empty :: bool
  nw_text :: string
  nw_state :: string
  nw_running :: bool
  nw_warning :: bool
  nw_inputDisabled :: bool
  nw_sendDisabled :: bool
  nw_send :: string
  nw_busy :: bool
  nw_placeholder :: string

definition canUseConsoleCommandInput :: "page_env \<Rightarrow> room_ui \<Rightarrow> bool" where
  "canUseConsoleCommandInput pe s \<longleftrightarrow> pe_shell pe \<and> (ru_open s \<or> isOpeningRoomStatus (ru_bridgeStatus s))"

definition canSendConsoleCommand :: "page_env \<Rightarrow> room_ui \<Rightarrow> bool \<Rightarrow> bool" where
  "canSendConsoleCommand pe s composing \<longleftrightarrow>
     canUseConsoleCommandInput pe s \<and> \<not> truthy (ru_commandPending s) \<and> \<not> composing"

definition renderConsole :: "page_env \<Rightarrow> room_ui \<Rightarrow> bool \<Rightarrow> string \<Rightarrow> console_view" where
  "renderConsole pe s composing input =
    (let lines = ru_consoleLines s; t = pe_label pe; sending = (ru_commandPending s = JStr ''server-command'') in
     \<lparr>nw_empty = (lines = []),
      nw_text = (if lines \<noteq> [] then js_join [CHR 0x0A] lines
        else t (if ru_open s then ''log expected'' else ''log waiting'') @ t (if ru_open s then ''log comes'' else ''log later'')),
      nw_state = getStatusCopy pe s, nw_running = ru_open s, nw_warning = isBlockedRoomStatus (ru_bridgeStatus s),
      nw_inputDisabled = (\<not> canUseConsoleCommandInput pe s),
      nw_sendDisabled = (\<not> canSendConsoleCommand pe s composing \<or> js_trim input = []),
      nw_send = t (if sending then ''sending'' else ''send''), nw_busy = sending,
      nw_placeholder = t (if \<not> pe_shell pe then ''needs the application'' else if \<not> ru_open s then ''needs an open room''
        else if sending then ''type ahead'' else ''example'')\<rparr>)"

section \<open>The script\<close>

datatype page_command = PC_prepare | PC_open | PC_close | PC_restart

primrec page_command_str :: "page_command \<Rightarrow> string" where
  "page_command_str PC_prepare = ''prepare''"
| "page_command_str PC_open = ''open''"
| "page_command_str PC_close = ''close''"
| "page_command_str PC_restart = ''restart''"

primrec page_command_status :: "page_command \<Rightarrow> string" where
  "page_command_status PC_prepare = ''preparing''"
| "page_command_status PC_open = ''opening''"
| "page_command_status PC_close = ''closing''"
| "page_command_status PC_restart = ''opening''"

text \<open>What the bridge is asked: a command of a button, a line for the console, the status, a reset.\<close>

datatype page_call = Call_command page_command jsval | Call_server string | Call_status | Call_reset

record page_view =
  vw_status :: status_view
  vw_readiness :: readiness_view
  vw_invite :: invite_view
  vw_rows :: "(string \<times> string) list \<times> (string \<times> string) list"
  vw_catalog :: catalog_view
  vw_metrics :: numbers_view
  vw_console :: console_view

text \<open>
  The variables of the script, the text of the console's input, the document, the calls that are not
  answered (with the number of each) and the links that were copied.
\<close>

record page =
  pg_room :: room_ui
  pg_startedAt :: "int option"
  pg_lastStatus :: jsval
  pg_lastSampleAt :: int
  pg_history :: "metric_snapshot list"
  pg_composing :: bool
  pg_autoScroll :: bool
  pg_polling :: bool
  pg_input :: string
  pg_view :: "page_view option"
  pg_calls :: "(nat \<times> page_call) list"
  pg_next :: nat
  pg_asked :: "page_call list"
  pg_copied :: "jsval list"

definition render_page :: "page_env \<Rightarrow> int \<Rightarrow> page \<Rightarrow> page" where
  "render_page pe now pg =
    (let s = pg_room pg;
         startedAt = ensureRuntimeClock (ru_bridgeStatus s) now (pg_startedAt pg);
         snapshot = currentMetricSnapshot s now startedAt
     in case recordMetricSample snapshot now (pg_history pg, pg_lastStatus pg, pg_lastSampleAt pg) of
          (history, lastStatus, lastAt) \<Rightarrow>
            pg\<lparr>pg_startedAt := startedAt, pg_history := history, pg_lastStatus := lastStatus, pg_lastSampleAt := lastAt,
               pg_autoScroll := (pg_autoScroll pg \<or> ru_consoleLines s = []),
               pg_view := Some \<lparr>vw_status = renderRoomStatus pe s, vw_readiness = renderRoomReadiness pe s,
                 vw_invite = renderInvite pe s, vw_rows = renderRuntimePreview pe s, vw_catalog = renderCatalog pe s,
                 vw_metrics = renderMetrics pe snapshot history,
                 vw_console = renderConsole pe s (pg_composing pg) (pg_input pg)\<rparr>\<rparr>)"

definition dispatch :: "page_env \<Rightarrow> int \<Rightarrow> ui_action \<Rightarrow> page \<Rightarrow> page" where
  "dispatch pe now a pg = render_page pe now (pg\<lparr>pg_room := reduceRoomState (pe_ui pe) (pe_url pe) a (pg_room pg)\<rparr>)"

definition renderConsoleCommandControls :: "page_env \<Rightarrow> page \<Rightarrow> page" where
  "renderConsoleCommandControls pe pg = pg\<lparr>pg_view := map_option
     (\<lambda>v. v\<lparr>vw_console := (let w = renderConsole pe (pg_room pg) (pg_composing pg) (pg_input pg) in
        (vw_console v)\<lparr>nw_inputDisabled := nw_inputDisabled w, nw_sendDisabled := nw_sendDisabled w, nw_send := nw_send w,
          nw_busy := nw_busy w, nw_placeholder := nw_placeholder w\<rparr>)\<rparr>) (pg_view pg)\<rparr>"

definition page_ask :: "page_call \<Rightarrow> page \<Rightarrow> page" where
  "page_ask c pg = pg\<lparr>pg_calls := pg_calls pg @ [(pg_next pg, c)], pg_next := Suc (pg_next pg), pg_asked := pg_asked pg @ [c]\<rparr>"

definition shouldPollStatus :: "page_env \<Rightarrow> room_ui \<Rightarrow> bool" where
  "shouldPollStatus pe s \<longleftrightarrow> pe_shell pe \<and> (ru_prepared s \<or> ru_open s \<or> status_in (ru_bridgeStatus s) STATUS_POLL_STATUSES)"

definition startStatusPolling :: "page_env \<Rightarrow> page \<Rightarrow> page" where
  "startStatusPolling pe pg = (if \<not> shouldPollStatus pe (pg_room pg) \<or> pg_polling pg then pg else pg\<lparr>pg_polling := True\<rparr>)"

definition stopStatusPolling :: "page \<Rightarrow> page" where
  "stopStatusPolling pg = pg\<lparr>pg_polling := False\<rparr>"

text \<open>\<open>refreshStatus\<close>, when the timer fires: up to the call of the bridge.\<close>

definition refreshStatus :: "page_env \<Rightarrow> page \<Rightarrow> page" where
  "refreshStatus pe pg =
    (if \<not> pg_polling pg then pg
     else if \<not> shouldPollStatus pe (pg_room pg) then stopStatusPolling pg
     else if truthy (ru_commandPending (pg_room pg)) then pg
     else page_ask Call_status pg)"

definition runBridgeCommand :: "page_env \<Rightarrow> int \<Rightarrow> string \<Rightarrow> string \<Rightarrow> page_call \<Rightarrow> page \<Rightarrow> page" where
  "runBridgeCommand pe now command status c pg =
    page_ask c (dispatch pe now (Bridge_pending (JStr command) (JStr status)) pg)"

definition bridgeResultSucceeded :: "jsval \<Rightarrow> bool" where
  "bridgeResultSucceeded result =
    (if jget result ''ok'' = JBool False \<or> truthy (jget result ''failure'') then False
     else coalesce (jget result ''status'') (jget result ''state'') \<notin> {JStr ''blocked'', JStr ''failed''})"

definition page_errorMessage :: "page_env \<Rightarrow> jsval \<Rightarrow> string" where
  "page_errorMessage pe e =
    (let detail = (case e of JStr s \<Rightarrow> JStr s | _ \<Rightarrow> jget e ''message'') in
     if truthy detail then pe_label pe ''request failed with'' @ js_string detail else pe_label pe ''request failed'')"

definition errorLabel :: "jsval \<Rightarrow> string" where
  "errorLabel e =
    (case e of JStr s \<Rightarrow> s
     | _ \<Rightarrow> js_string (coalesce (jget e ''name'') (JStr ''Error'')) @
         (if truthy (jget e ''message'') then '': '' @ js_string (jget e ''message'') else []))"

definition bridge_error_rows :: "jsval \<Rightarrow> jsval" where
  "bridge_error_rows label = JArr [JArr [JStr ''Bridge error'', label]]"

text \<open>The end of a command: its result, or the error it threw.\<close>

definition command_answered :: "page_env \<Rightarrow> int \<Rightarrow> string \<Rightarrow> (jsval + jsval) \<Rightarrow> page \<Rightarrow> page" where
  "command_answered pe now command r pg =
    (case r of
       Inr result \<Rightarrow> startStatusPolling pe (dispatch pe now (Bridge_result result (JStr command)) pg)
     | Inl e \<Rightarrow> dispatch pe now (Bridge_error (JStr command) (JStr (page_errorMessage pe e))
         (bridge_error_rows (JStr (errorLabel e)))) pg)"

definition status_answered :: "page_env \<Rightarrow> int \<Rightarrow> (jsval + jsval) \<Rightarrow> page \<Rightarrow> page" where
  "status_answered pe now r pg =
    (case r of
       Inr result \<Rightarrow> dispatch pe now (Bridge_result result JUndef) pg
     | Inl e \<Rightarrow> stopStatusPolling (dispatch pe now (Bridge_error JUndef (JStr (pe_label pe ''status unknown''))
         (bridge_error_rows (coalesce (jget e ''name'') (JStr ''Error'')))) pg))"

definition call_answered :: "page_env \<Rightarrow> int \<Rightarrow> nat \<Rightarrow> (jsval + jsval) \<Rightarrow> page \<Rightarrow> page" where
  "call_answered pe now k r pg0 =
    (let pg = pg0\<lparr>pg_calls := filter (\<lambda>e. fst e \<noteq> k) (pg_calls pg0)\<rparr> in
     case map_of (pg_calls pg0) k of
       None \<Rightarrow> pg0
     | Some (Call_command c _) \<Rightarrow> command_answered pe now (page_command_str c) r pg
     | Some (Call_server _) \<Rightarrow> renderConsoleCommandControls pe (command_answered pe now ''server-command'' r pg)
     | Some Call_status \<Rightarrow> status_answered pe now r pg
     | Some Call_reset \<Rightarrow> pg)"

primrec command_disabled :: "page_command \<Rightarrow> status_view \<Rightarrow> bool" where
  "command_disabled PC_prepare v = sv_prepareDisabled v"
| "command_disabled PC_open v = sv_openDisabled v"
| "command_disabled PC_close v = sv_closeDisabled v"
| "command_disabled PC_restart v = sv_restartDisabled v"

text \<open>The request of a button. A room is closed without one.\<close>

definition command_request :: "page \<Rightarrow> jsval \<Rightarrow> jsval \<Rightarrow> page_command \<Rightarrow> jsval" where
  "command_request pg version pack c =
    (if c = PC_close then JUndef
     else JObj [(''minecraftVersion'', version), (''pack'', pack), (''catalogModId'', JStr (ca_selectedId (ru_catalog (pg_room pg))))])"

definition page_click :: "page_env \<Rightarrow> int \<Rightarrow> page_command \<Rightarrow> jsval \<Rightarrow> jsval \<Rightarrow> page \<Rightarrow> page" where
  "page_click pe now c version pack pg =
    (case pg_view pg of None \<Rightarrow> pg
     | Some v \<Rightarrow> if command_disabled c (vw_status v) then pg
         else runBridgeCommand pe now (page_command_str c) (page_command_status c)
           (Call_command c (command_request pg version pack c)) pg)"

definition page_reset :: "page_env \<Rightarrow> int \<Rightarrow> page \<Rightarrow> page" where
  "page_reset pe now pg =
    (case pg_view pg of None \<Rightarrow> pg
     | Some v \<Rightarrow> if sv_resetDisabled (vw_status v) then pg
         else page_ask Call_reset (dispatch pe now Ui_reset (stopStatusPolling pg)))"

text \<open>A click on the button that copies the link; \<open>clipboard\<close>: the clipboard took it.\<close>

definition page_copy :: "page_env \<Rightarrow> bool \<Rightarrow> page \<Rightarrow> page" where
  "page_copy pe clipboard pg =
    (let link = ru_inviteLink (pg_room pg) in
     if \<not> truthy link \<or> \<not> isShareableInviteLink (pe_url pe) link \<or> \<not> clipboard then pg
     else pg\<lparr>pg_copied := pg_copied pg @ [link]\<rparr>)"

definition page_submit :: "page_env \<Rightarrow> int \<Rightarrow> page \<Rightarrow> page" where
  "page_submit pe now pg =
    (let command = js_trim (pg_input pg) in
     if command = [] \<or> pg_composing pg \<or> \<not> canSendConsoleCommand pe (pg_room pg) (pg_composing pg)
     then renderConsoleCommandControls pe pg
     else runBridgeCommand pe now ''server-command'' ''commanding'' (Call_server command)
       (renderConsoleCommandControls pe (dispatch pe now (Console_append (JStr (pe_label pe ''typed'' @ command)))
         (pg\<lparr>pg_input := []\<rparr>))))"

definition new_page :: "page_env \<Rightarrow> int \<Rightarrow> page" where
  "new_page pe now = render_page pe now \<lparr>pg_room = cloneInitialState (pe_ui pe), pg_startedAt = None, pg_lastStatus = JNull,
     pg_lastSampleAt = 0, pg_history = [], pg_composing = False, pg_autoScroll = True, pg_polling = False, pg_input = [],
     pg_view = None, pg_calls = [], pg_next = 0, pg_asked = [], pg_copied = []\<rparr>"

datatype page_op =
    Page_click int page_command jsval jsval
  | Page_reset int
  | Page_copy bool
  | Page_select int jsval
  | Page_input string
  | Page_composition bool
  | Page_scroll bool
  | Page_submit int
  | Page_answer int nat "jsval + jsval"
  | Page_timer
  | Page_event int jsval

fun page_exec :: "page_env \<Rightarrow> page_op \<Rightarrow> page \<Rightarrow> page" where
  "page_exec pe (Page_click now c version pack) pg = page_click pe now c version pack pg"
| "page_exec pe (Page_reset now) pg = page_reset pe now pg"
| "page_exec pe (Page_copy clipboard) pg = page_copy pe clipboard pg"
| "page_exec pe (Page_select now modId) pg = dispatch pe now (Catalog_select modId) pg"
| "page_exec pe (Page_input text) pg = renderConsoleCommandControls pe (pg\<lparr>pg_input := text\<rparr>)"
| "page_exec pe (Page_composition b) pg = renderConsoleCommandControls pe (pg\<lparr>pg_composing := b\<rparr>)"
| "page_exec pe (Page_scroll nearBottom) pg = pg\<lparr>pg_autoScroll := nearBottom\<rparr>"
| "page_exec pe (Page_submit now) pg = page_submit pe now pg"
| "page_exec pe (Page_answer now k r) pg = call_answered pe now k r pg"
| "page_exec pe Page_timer pg = refreshStatus pe pg"
| "page_exec pe (Page_event now event) pg = dispatch pe now (Runtime_event event) pg"

end
