(* ===== verification/DesktopPage_Props.thy ===== *)
theory DesktopPage_Props
  imports DesktopPage DesktopState_Props
begin

text \<open>
  The page: the document shows the present state, a link can be copied only while the room is open, the
  charts are bounded, and the console is asked only what may be sent.
\<close>

section \<open>The samples\<close>

definition snapshot_ok :: "metric_snapshot \<Rightarrow> bool" where
  "snapshot_ok sn \<longleftrightarrow> 0 \<le> sn_cpu sn \<and> sn_cpu sn \<le> 100 \<and> 0 \<le> sn_ram sn \<and> sn_ram sn \<le> 100 \<and> 0 \<le> sn_ramBytes sn \<and>
     0 \<le> sn_uptimeSeconds sn"

lemma page_round_clamped: "0 \<le> page_round (page_clampPercent q) \<and> page_round (page_clampPercent q) \<le> 100"
proof -
  have q: "0 \<le> page_clampPercent q" "page_clampPercent q \<le> 100" by (simp_all add: page_clampPercent_def)
  have "page_clampPercent q + 1 / 2 < of_int (100 + 1)" using q(2) by simp
  then have "\<lfloor>page_clampPercent q + 1 / 2\<rfloor> < 100 + 1" by (simp only: floor_less_iff)
  moreover have "0 \<le> \<lfloor>page_clampPercent q + 1 / 2\<rfloor>" using q(1) by simp
  ultimately show ?thesis by (simp add: page_round_def)
qed

lemma page_round_0: "page_round 0 = 0"
  by (simp add: page_round_def floor_eq_iff)

lemma snapshot_in_range: "snapshot_ok (currentMetricSnapshot s now startedAt)"
  using page_round_clamped
  by (auto simp: snapshot_ok_def currentMetricSnapshot_def Let_def page_round_0 page_clampPercent_def split: option.split)

lemma history_bounded:
  assumes "recordMetricSample sn now (history, st, t) = (history', st', t')"
    and "length history \<le> METRIC_HISTORY_LIMIT" "\<forall>x \<in> set history. snapshot_ok x" "snapshot_ok sn"
  shows "length history' \<le> METRIC_HISTORY_LIMIT \<and> (\<forall>x \<in> set history'. snapshot_ok x)"
proof -
  have "set (butlast history) \<subseteq> set history" "set (tl history) \<subseteq> set history"
    by (auto dest: in_set_butlastD list.set_sel(2) [rotated]) (cases history; simp)
  then show ?thesis
    using assms
    by (auto simp: recordMetricSample_def Let_def METRIC_HISTORY_LIMIT_def tl_append split: if_splits list.splits)
qed

section \<open>The invariant\<close>

text \<open>What is copied, and what the bridge is asked.\<close>

definition copied_ok :: "page_env \<Rightarrow> page \<Rightarrow> bool" where
  "copied_ok pe pg \<longleftrightarrow> (\<forall>l \<in> set (pg_copied pg). isShareableInviteLink (pe_url pe) l)"

fun asked_ok :: "page_env \<Rightarrow> page_call \<Rightarrow> bool" where
  "asked_ok pe (Call_server command) = (pe_shell pe \<and> command \<noteq> [])"
| "asked_ok pe Call_status = pe_shell pe"
| "asked_ok pe _ = True"

definition document_ok :: "page_env \<Rightarrow> room_ui \<Rightarrow> page_view option \<Rightarrow> bool" where
  "document_ok pe s v \<longleftrightarrow> (\<exists>w. v = Some w \<and> vw_status w = renderRoomStatus pe s \<and> vw_invite w = renderInvite pe s)"

definition page_inv :: "page_env \<Rightarrow> page \<Rightarrow> bool" where
  "page_inv pe pg \<longleftrightarrow> link_ok (pe_url pe) (pg_room pg) \<and> document_ok pe (pg_room pg) (pg_view pg) \<and>
     length (pg_history pg) \<le> METRIC_HISTORY_LIMIT \<and> (\<forall>x \<in> set (pg_history pg). snapshot_ok x) \<and>
     copied_ok pe pg \<and> (\<forall>c \<in> set (pg_asked pg). asked_ok pe c)"

text \<open>The same without the document, which a dispatch renders anew.\<close>

definition script_inv :: "page_env \<Rightarrow> page \<Rightarrow> bool" where
  "script_inv pe pg \<longleftrightarrow> link_ok (pe_url pe) (pg_room pg) \<and>
     length (pg_history pg) \<le> METRIC_HISTORY_LIMIT \<and> (\<forall>x \<in> set (pg_history pg). snapshot_ok x) \<and>
     copied_ok pe pg \<and> (\<forall>c \<in> set (pg_asked pg). asked_ok pe c)"

lemma page_inv_script: "page_inv pe pg \<Longrightarrow> script_inv pe pg"
  by (simp add: page_inv_def script_inv_def)

lemma render_inv:
  assumes "script_inv pe pg"
  shows "page_inv pe (render_page pe now pg)"
proof -
  let ?c = "ensureRuntimeClock (ru_bridgeStatus (pg_room pg)) now (pg_startedAt pg)"
  let ?sn = "currentMetricSnapshot (pg_room pg) now ?c"
  obtain h st t where r: "recordMetricSample ?sn now (pg_history pg, pg_lastStatus pg, pg_lastSampleAt pg) = (h, st, t)"
    by (cases "recordMetricSample ?sn now (pg_history pg, pg_lastStatus pg, pg_lastSampleAt pg)") auto
  have "length h \<le> METRIC_HISTORY_LIMIT \<and> (\<forall>x \<in> set h. snapshot_ok x)"
    by (rule history_bounded [OF r]) (use assms in \<open>simp_all add: script_inv_def snapshot_in_range\<close>)
  then show ?thesis
    using assms by (simp add: render_page_def Let_def r page_inv_def script_inv_def document_ok_def copied_ok_def)
qed

lemma dispatch_inv:
  assumes "script_inv pe pg"
  shows "page_inv pe (dispatch pe now a pg)"
proof -
  have "script_inv pe (pg\<lparr>pg_room := reduceRoomState (pe_ui pe) (pe_url pe) a (pg_room pg)\<rparr>)"
    using assms by (simp add: script_inv_def link_step copied_ok_def)
  then show ?thesis unfolding dispatch_def by (rule render_inv)
qed

lemma ask_inv: "page_inv pe pg \<Longrightarrow> asked_ok pe c \<Longrightarrow> page_inv pe (page_ask c pg)"
  by (auto simp: page_inv_def page_ask_def copied_ok_def)

lemma controls_inv: "page_inv pe pg \<Longrightarrow> page_inv pe (renderConsoleCommandControls pe pg)"
  by (auto simp: page_inv_def renderConsoleCommandControls_def document_ok_def copied_ok_def)

lemma polling_inv: "page_inv pe (pg\<lparr>pg_polling := b\<rparr>) = page_inv pe pg"
  "script_inv pe (pg\<lparr>pg_polling := b\<rparr>) = script_inv pe pg"
  by (simp_all add: page_inv_def script_inv_def copied_ok_def)

lemma run_inv: "page_inv pe pg \<Longrightarrow> asked_ok pe c \<Longrightarrow> page_inv pe (runBridgeCommand pe now command status c pg)"
  unfolding runBridgeCommand_def by (intro ask_inv dispatch_inv page_inv_script)

lemma command_inv: "script_inv pe pg \<Longrightarrow> page_inv pe (command_answered pe now command r pg)"
  by (cases r) (auto simp: command_answered_def startStatusPolling_def polling_inv intro: dispatch_inv)

lemma status_inv: "script_inv pe pg \<Longrightarrow> page_inv pe (status_answered pe now r pg)"
  by (cases r) (auto simp: status_answered_def stopStatusPolling_def polling_inv intro: dispatch_inv)

lemma answered_inv:
  assumes "page_inv pe pg"
  shows "page_inv pe (call_answered pe now k r pg)"
proof -
  have p: "page_inv pe (pg\<lparr>pg_calls := cs\<rparr>)" for cs using assms by (simp add: page_inv_def copied_ok_def)
  note s = page_inv_script [OF p]
  show ?thesis
  proof (cases "map_of (pg_calls pg) k")
    case (Some c)
    then show ?thesis
      by (cases c) (simp_all add: call_answered_def command_inv status_inv controls_inv p s)
  qed (simp add: call_answered_def assms)
qed

lemma submit_inv:
  assumes "page_inv pe pg"
  shows "page_inv pe (page_submit pe now pg)"
proof -
  have s: "script_inv pe (pg\<lparr>pg_input := t\<rparr>)" for t
    using page_inv_script [OF assms] by (simp add: script_inv_def copied_ok_def)
  show ?thesis
    using assms
    by (auto simp: page_submit_def Let_def canSendConsoleCommand_def canUseConsoleCommandInput_def
        intro!: run_inv controls_inv dispatch_inv s)
qed

lemma page_inv_exec:
  assumes inv: "page_inv pe pg"
  shows "page_inv pe (page_exec pe a pg)"
proof (cases a)
  case (Page_click now c version pack)
  then show ?thesis using inv by (auto simp: page_click_def split: option.split intro: run_inv)
next
  case (Page_reset now)
  then show ?thesis
    using inv page_inv_script [OF inv]
    by (auto simp: page_reset_def stopStatusPolling_def polling_inv split: option.split intro!: ask_inv dispatch_inv)
next
  case (Page_copy clipboard)
  then show ?thesis using inv by (auto simp: page_copy_def Let_def page_inv_def copied_ok_def)
next
  case (Page_select now modId)
  then show ?thesis using page_inv_script [OF inv] by (simp add: dispatch_inv)
next
  case (Page_input typed)
  have "page_inv pe (pg\<lparr>pg_input := typed\<rparr>)" using inv by (simp add: page_inv_def copied_ok_def)
  then show ?thesis using Page_input by (simp add: controls_inv)
next
  case (Page_composition b)
  have "page_inv pe (pg\<lparr>pg_composing := b\<rparr>)" using inv by (simp add: page_inv_def copied_ok_def)
  then show ?thesis using Page_composition by (simp add: controls_inv)
next
  case (Page_scroll b)
  then show ?thesis using inv by (simp add: page_inv_def copied_ok_def)
next
  case (Page_submit now)
  then show ?thesis using inv by (simp add: submit_inv)
next
  case (Page_answer now k r)
  then show ?thesis using inv by (simp add: answered_inv)
next
  case Page_timer
  then show ?thesis
    using inv by (auto simp: refreshStatus_def stopStatusPolling_def polling_inv shouldPollStatus_def intro: ask_inv)
next
  case (Page_event now event)
  then show ?thesis using page_inv_script [OF inv] by (simp add: dispatch_inv)
qed

definition page_initial :: "page_env \<Rightarrow> page \<Rightarrow> bool" where
  "page_initial pe pg \<longleftrightarrow> (\<exists>now. pg = new_page pe now)"

interpretation desktop_page: invariant "page_initial pe" "\<lambda>_ _. True" "page_exec pe" "page_inv pe" for pe
proof unfold_locales
  show "page_inv pe pg" if "page_initial pe pg" for pg
    using that
    by (auto simp: page_initial_def new_page_def script_inv_def link_ok_def cloneInitialState_def copied_ok_def intro!: render_inv)
  show "page_inv pe (page_exec pe a pg)" if "page_inv pe pg" for pg a
    using that by (rule page_inv_exec)
qed

text \<open>
  In every reachable state of the page, whatever the bridge answers and in whatever order: the document
  shows the buttons and the invite of the present state; the button that copies the link is enabled only
  while the room is open and the link leads to the public host; only such links were copied; the charts
  have at most 32 samples, each in its range; and a line is sent to the console only by the application
  and never empty.
\<close>

lemma page_shows_state:
  assumes "reach (page_initial pe) (\<lambda>_ _. True) (page_exec pe) pg"
  shows "(\<exists>v. pg_view pg = Some v \<and> vw_status v = renderRoomStatus pe (pg_room pg) \<and>
      (\<not> iw_copyDisabled (vw_invite v) \<longrightarrow> ru_open (pg_room pg) \<and> isShareableInviteLink (pe_url pe) (ru_inviteLink (pg_room pg)))) \<and>
    (\<forall>l \<in> set (pg_copied pg). isShareableInviteLink (pe_url pe) l) \<and>
    length (pg_history pg) \<le> 32 \<and> (\<forall>sn \<in> set (pg_history pg). snapshot_ok sn) \<and>
    (\<forall>c. Call_server c \<in> set (pg_asked pg) \<longrightarrow> pe_shell pe \<and> c \<noteq> [])"
proof -
  have inv: "page_inv pe pg" using assms by (rule desktop_page.reach_inv)
  obtain v where v: "pg_view pg = Some v" "vw_status v = renderRoomStatus pe (pg_room pg)"
    "vw_invite v = renderInvite pe (pg_room pg)" using inv by (auto simp: page_inv_def document_ok_def)
  have "ru_open (pg_room pg) \<and> isShareableInviteLink (pe_url pe) (ru_inviteLink (pg_room pg))"
    if "\<not> iw_copyDisabled (vw_invite v)"
    using that inv v(3) by (auto simp: renderInvite_def Let_def page_inv_def link_ok_def)
  moreover have "pe_shell pe \<and> c \<noteq> []" if "Call_server c \<in> set (pg_asked pg)" for c
    using inv that by (fastforce simp: page_inv_def)
  ultimately show ?thesis using inv v(1,2) by (auto simp: page_inv_def copied_ok_def METRIC_HISTORY_LIMIT_def)
qed

section \<open>Answers that unlock the buttons\<close>

text \<open>
  The answer of a poll that was under way when a command was clicked takes the mark of the pending
  command away, while the command is not answered: its buttons can be clicked again.
\<close>

lemma pending_after_result: "ru_commandPending (reduceRoomState ui url (Bridge_result result command) s) = JNull"
  by (simp add: applyBridgeResult_def Let_def)

lemma room_dispatch: "pg_room (dispatch pe now a pg) = reduceRoomState (pe_ui pe) (pe_url pe) a (pg_room pg)"
  by (simp add: dispatch_def render_page_def Let_def split: prod.split)

lemma calls_dispatch: "pg_calls (dispatch pe now a pg) = pg_calls pg"
  by (simp add: dispatch_def render_page_def Let_def split: prod.split)

lemma poll_answer_unlocks:
  assumes "map_of (pg_calls pg) k = Some Call_status" "(j, Call_command c request) \<in> set (pg_calls pg)" "j \<noteq> k"
  shows "\<not> isRoomOperationPending (pg_room (call_answered pe now k (Inr result) pg)) \<and>
    (j, Call_command c request) \<in> set (pg_calls (call_answered pe now k (Inr result) pg))"
  using assms
  by (simp add: call_answered_def status_answered_def room_dispatch calls_dispatch isRoomOperationPending_def
      pending_after_result Let_def del: reduceRoomState.simps)

end
