(* ===== verification/Spec2Isabelle.thy ===== *)
theory Spec2Isabelle
  imports Protocol Simulation_Props Relay_Props MemoryStore_Props RoomService_Props Compatibility_Props Safety_Props
    Http_Props HostRuntime_Props Mrpack_Props ServerBridge RuntimeAdapter_Props Connection_Props RoomStack CommandHost_Props LocalServer_Props Candidates RuntimeBridge_Props Materialize_Props FabricBootstrap_Props JavaDetection_Props PgRepository_Props DesktopState_Props ProcessMetrics_Props DevPlan InvitePage RelayPreview DesktopPage_Props
begin

text \<open>
  Easy MC Server lets a host run a Minecraft server at home and let friends in without opening a
  port. A \<^emph>\<open>control plane\<close> keeps rooms, invites, join requests and sessions; the \<^emph>\<open>desktop
  application\<close> of the host plans, prepares and runs the server and opens and closes rooms; a
  \<^emph>\<open>relay\<close> carries the bytes between the host's tunnel and the friends' streams; two \<^emph>\<open>Fabric
  mods\<close> and the packages for mods, packs and safety complete it. This development models the
  JavaScript of these parts and proves what they promise. All paths are relative to \<open>src/\<close>.

  \<^bold>\<open>How the code is read.\<close> A value from a caller is a \<open>jsval\<close> (theory \<open>Prelude\<close>): \<open>undefined\<close>, \<open>null\<close>,
  booleans, integers (\<open>JNum\<close>), other numbers by their text (\<open>JFrac\<close>), strings, arrays and plain
  objects in the order of their entries. Values the program makes and checks itself are records and
  datatypes with the program's own names. A failure that is returned is \<open>Inl\<close>, a thrown exception
  \<open>None\<close> (or \<open>Inl\<close> of a computation \<open>eff\<close>). Random identifiers and tokens, clocks, and the answers of
  services and of the platform are arguments. Characters are those of \<open>char\<close> (Latin-1); white space
  and case conversion follow ECMAScript there.

  \<^bold>\<open>Language and library.\<close>
  \<^item> \<open>Prelude\<close>: values, \<open>??\<close> and \<open>||\<close>, insertion-ordered maps (\<open>jsmap\<close>, the \<open>Map\<close> of the language).
  \<^item> \<open>JsText\<close>, \<open>JsData\<close>, \<open>JsOps\<close>, \<open>JsNumber\<close>: strings, regular expressions with their backtracking
    matcher (its fuel: a repetition runs at most as often as there are characters left),
    property access, \<open>JSON.stringify\<close>, spreading, and operations that may throw.
  \<^item> \<open>Decimals\<close>: comparison and the decimal text of numbers that are no integers.
  \<^item> \<open>Proc\<close>, \<open>Effects\<close>: asynchronous functions, as waiting processes that interleave and as
    computations that run alone, with a Hoare logic (\<open>ens\<close>, \<open>keeps\<close>).
  \<^item> \<open>Machine\<close>: reachability and the locale \<open>invariant\<close>, interpreted for every state machine below.

  \<^bold>\<open>Control plane\<close> (\<open>packages/protocol\<close>, \<open>services/control-plane\<close>).
  \<^item> \<open>Protocol\<close>: the vocabulary and \<open>canActorPerform\<close>; the permission check equals a policy.
  \<^item> \<open>Simulation\<close>, \<open>Simulation_Safety\<close>, \<open>Simulation_Props\<close> (\<open>domain/simulation.mjs\<close>): the state \<open>sim\<close>
    (its five maps and the audit log) and one function \<open>sim_\<close>\<^emph>\<open>name\<close> per exported method; the
    invariant \<open>sim_inv\<close>, what runs never undo, and that the way to a session is open.
  \<^item> \<open>MemoryStore\<close>, \<open>RoomService\<close> and their \<open>_Props\<close> (\<open>persistence/memory-store.mjs\<close>,
    \<open>services/room-service.mjs\<close>): the store with sanitised records and the asynchronous service whose
    calls interleave (\<open>Proc\<close>).
  \<^item> \<open>Http\<close>, \<open>HttpRouter\<close>, \<open>Http_Props\<close> (\<open>http/\<close>): the boundary as handlers over the simulation; it
    refines the simulation, and behind the router only the derived actor acts.
  \<^item> \<open>Candidates\<close> (\<open>transport/candidates.mjs\<close>): the addresses both ends offer and the choice between a
    direct connection and the relay.
  \<^item> \<open>PgTables\<close>, \<open>PgRepository\<close>, \<open>PgRepository_Props\<close> (\<open>persistence/postgres\<close>): the tables of the schema
    with their keys, the statements of the repository and its transactions over one connection at a
    time; rows stay complete, unique and connected, and rate counters agree with the memory store.

  \<^bold>\<open>Relay\<close> (\<open>services/relay/src/relay-simulation.mjs\<close>): \<open>Relay\<close> has the state \<open>relay\<close> and the operations,
  \<open>Relay_Safety\<close>, \<open>Relay_Inv\<close> and \<open>Relay_Props\<close> the invariants: no open proxy, the quotas, the byte
  accounts, the complete end of a tunnel, one stream per session, the redacted log. \<open>RelayPreview\<close>
  (\<open>local-tcp-relay-preview.mjs\<close>) has the relay over sockets of one computer.

  \<^bold>\<open>Packages\<close>: \<open>Catalog\<close>, \<open>Compatibility\<close>, \<open>Safety\<close>, \<open>Zip\<close>, \<open>Mrpack\<close> with their \<open>_Props\<close> model
  \<open>mod-catalog\<close>, \<open>compatibility-engine\<close>, \<open>safety\<close> and \<open>modpack-builder\<close>. The dependency plan is shown
  sound and complete; the archive's directory is read back from its bytes, for sizes below the
  32-bit fields the code writes.

  \<^bold>\<open>Mods\<close>: \<open>ServerBridge\<close> (who may enter the server) and \<open>Connection\<close> (the plans of both ends of a
  connection, \<open>client-fabric/src/connection\<close> and the desktop's \<open>src/tunnel\<close>).

  \<^bold>\<open>Desktop\<close> (\<open>apps/desktop/src/runtime\<close>).
  \<^item> \<open>HostRuntime\<close>, \<open>RuntimeAdapter\<close>: the plan of a room on the host's computer and what it asks of the
    file system, the download and the process; everything lies below the application's folder, and
    the adapter accepts what the host runtime plans.
  \<^item> \<open>LocalServer\<close>, \<open>LocalServer_Props\<close> (\<open>node-local-runtime.mjs\<close>): the lifecycle of the server's process,
    its console and the lines of its log, one command at a time; between the steps of a command
    processes speak, end and fail, and timers fire. \<open>ProcessMetrics\<close> and \<open>ProcessMetrics_Props\<close> have the
    readers of the process metrics and the sampler of the lifecycle as a state machine of its own.
  \<^item> \<open>Files\<close>, \<open>Materialize\<close>, \<open>Materialize_Props\<close>: the making of a room's files as calls of a file system
    that may fail anywhere; each call is checked in the file system it meets.
  \<^item> \<open>FabricBootstrap\<close> (\<open>node-fabric-bootstrap.mjs\<close>), \<open>JavaDetection\<close> (\<open>node-java-detection.mjs\<close>), each with its
    \<open>_Props\<close>: the verified download of the Fabric server, and the search for a Java.
  \<^item> \<open>DevPlan\<close> (\<open>desktop-curated-catalog.mjs\<close>, \<open>desktop-dev-runtime-plan.mjs\<close>): the curated selections of
    mods and the plan the application makes of one, which the host runtime accepts.
  \<^item> \<open>RuntimeBridge\<close> (\<open>desktop-runtime-bridge.mjs\<close>): detection, files, bootstrap and lifecycle as one
    command; a server is started only when all of them succeeded in that command.
  \<^item> \<open>DesktopState\<close> (\<open>apps/desktop/state.js\<close>): the state of the screen and its reducer. \<open>DesktopPage\<close> and
    \<open>DesktopPage_Props\<close> (\<open>app.js\<close>): the page over it, its calls and their answers, and that the document
    shows the present state. \<open>InvitePage\<close>: the page of an invite (\<open>invite-web/app.js\<close>) and the answers of
    the desktop page without a shell (\<open>bridge.js\<close>).
  \<^item> \<open>DesktopText\<close>, \<open>BoundaryAdapter\<close>, \<open>RoomController\<close>: the commands of a room over a control plane, a
    relay and a runtime bridge. \<open>RoomStack\<close> composes the controller, the adapter, the boundary, the
    simulation and the relay: an opened room is one a friend can join.
  \<^item> \<open>CommandHost\<close>: the commands and frames of the desktop shell.

  \<^bold>\<open>Bounds.\<close> Integers of the program are unbounded here; identifiers, counters and byte counts are
  taken below \<open>2 ^ 53\<close>, where the language's numbers are exact. The retry plan of a connection is a
  loop of its own with the number of attempts as its measure. Binary fields of archives are written
  with their wrap-around (\<open>mod 256\<close> per byte), CRC-32 on words of 32 bits.

  \<^bold>\<open>Not modelled.\<close>
  \<^item> \<open>scripts/\<close> and \<open>dev-hot-reload.js\<close>: processes, files and requests of builds, previews and releases.
  \<^item> The layout of the pages: focus, scrolling, passing feedback texts and the subscription to events.
  \<^item> Concurrent connections to the database; the sampler and the lifecycle of a process are two
    machines whose common variables (the process, its end) each has for itself.
  \<^item> Java and Rust sources, tests. In the language: characters above Latin-1 (the Korean texts of the
    screens are parameters), the rounding of fractions, the order of integer-like property names,
    getters and prototypes of a caller's objects.
\<close>

end
